(* ===== verification/Prelude.thy ===== *)
theory Prelude
  imports Main "HOL-Library.Word" "HOL-Library.Multiset" "HOL-Library.Sublist" "HOL-Library.Char_ord"
    "HOL-Library.List_Lexorder"
begin

text \<open>
  The prelude of the development: the parts of the Go language and of its standard library that
  the modelled packages use (byte strings and the \<^verbatim>\<open>strings\<close> and \<^verbatim>\<open>strconv\<close> helpers, errors as
  values, slices filtered through a seen-map, insertion into a sorted slice), the collections of
  rewrite rules the component theories share, and two interfaces used by several components:
  \<open>first_fit\<close> (a bounded scan for the first free candidate) and \<open>durable_store\<close> (a record kept on
  disk by an atomic replace).

  A Go \<^verbatim>\<open>string\<close> is a sequence of bytes, and so is HOL's \<^typ>\<open>string\<close>; the models of the
  \<^verbatim>\<open>strings\<close> functions below work on the bytes of the UTF-8 text.
\<close>

named_theorems gostr \<open>evaluation of the Go string helpers\<close>
named_theorems result_simps \<open>unfolding of results\<close>

section \<open>Results\<close>

text \<open>A Go function that returns \<^verbatim>\<open>(T, error)\<close> is a function into \<open>'e + 'a\<close>: \<^term>\<open>Inl e\<close> is a
  non-nil error, \<^term>\<open>Inr x\<close> the value with a nil error.  A function that returns only
  \<^verbatim>\<open>error\<close> returns an option: \<^term>\<open>None\<close> is the nil error.\<close>

definition rbind :: "'e + 'a \<Rightarrow> ('a \<Rightarrow> 'e + 'b) \<Rightarrow> 'e + 'b" where
  "rbind r f = (case r of Inl e \<Rightarrow> Inl e | Inr x \<Rightarrow> f x)"

definition check_nil :: "'e option \<Rightarrow> 'e + 'b \<Rightarrow> 'e + 'b" where
  "check_nil e r = (case e of None \<Rightarrow> r | Some x \<Rightarrow> Inl x)"

lemma rbind_simps [simp]: "rbind (Inl e) f = Inl e" "rbind (Inr x) f = f x"
  by (simp_all add: rbind_def)

lemma rbind_Inr_iff: "rbind r f = Inr y \<longleftrightarrow> (\<exists>x. r = Inr x \<and> f x = Inr y)"
  by (cases r) auto

lemma rbind_Inl_iff: "rbind r f = Inl e \<longleftrightarrow> r = Inl e \<or> (\<exists>x. r = Inr x \<and> f x = Inl e)"
  by (cases r) auto

lemma check_nil_simps [simp]: "check_nil None r = r" "check_nil (Some e) r = Inl e"
  by (simp_all add: check_nil_def)

lemma check_nil_Inr_iff: "check_nil e r = Inr y \<longleftrightarrow> e = None \<and> r = Inr y"
  by (cases e) auto

declare rbind_Inr_iff [result_simps] check_nil_Inr_iff [result_simps]

text \<open>The first error of a list of checks, in order.\<close>

fun first_error :: "'e option list \<Rightarrow> 'e option" where
  "first_error [] = None"
| "first_error (None # es) = first_error es"
| "first_error (Some e # es) = Some e"

lemma first_error_None_iff: "first_error es = None \<longleftrightarrow> (\<forall>e\<in>set es. e = None)"
  by (induction es rule: first_error.induct) auto

lemma first_error_append:
  "first_error (xs @ ys) = (case first_error xs of None \<Rightarrow> first_error ys | Some e \<Rightarrow> Some e)"
  by (induction xs rule: first_error.induct) auto

section \<open>Programs with state and errors\<close>

text \<open>A program threads a state and ends with an error or a value; a failure keeps the state reached so far.\<close>

type_synonym ('s, 'e, 'a) prog = "'s \<Rightarrow> 's \<times> ('e + 'a)"

definition ret :: "'a \<Rightarrow> ('s, 'e, 'a) prog" where
  "ret x s = (s, Inr x)"

definition fail :: "'e \<Rightarrow> ('s, 'e, 'a) prog" where
  "fail e s = (s, Inl e)"

definition bindp :: "('s, 'e, 'a) prog \<Rightarrow> ('a \<Rightarrow> ('s, 'e, 'b) prog) \<Rightarrow> ('s, 'e, 'b) prog" where
  "bindp m f s = (case m s of (s', Inl e) \<Rightarrow> (s', Inl e) | (s', Inr x) \<Rightarrow> f x s')"

definition liftp :: "'e + 'a \<Rightarrow> ('s, 'e, 'a) prog" where
  "liftp r = (case r of Inl e \<Rightarrow> fail e | Inr x \<Rightarrow> ret x)"

lemma bindp_cases:
  assumes "bindp m f s = (s', r)"
  obtains e where "m s = (s', Inl e)" "r = Inl e"
  | s1 x where "m s = (s1, Inr x)" "f x s1 = (s', r)"
  using assms by (auto simp: bindp_def split: prod.splits sum.splits)

lemma bindp_Inr:
  "bindp m f s = (s', Inr y) \<longleftrightarrow> (\<exists>s1 x. m s = (s1, Inr x) \<and> f x s1 = (s', Inr y))"
  by (auto simp: bindp_def split: prod.splits sum.splits)

lemma bindp_liftp [simp]: "bindp (liftp q) f s = (case q of Inl e \<Rightarrow> (s, Inl e) | Inr x \<Rightarrow> f x s)"
  by (cases q) (simp_all add: bindp_def liftp_def ret_def fail_def)

lemma prog_simps [simp]:
  "ret x s = (s', r) \<longleftrightarrow> s' = s \<and> r = Inr x"
  "fail e s = (s', r) \<longleftrightarrow> s' = s \<and> r = Inl e"
  "liftp q s = (s', r) \<longleftrightarrow> s' = s \<and> q = r"
  by (auto simp: ret_def fail_def liftp_def split: sum.splits)

section \<open>JSON values\<close>

text \<open>A JSON value with numbers as their text; an object lists its members in order.\<close>

datatype json = JNull | JBool bool | JNum string | JStr string | JArr "json list" | JObj "(string \<times> json) list"

section \<open>Byte strings\<close>

abbreviation byte :: "char \<Rightarrow> nat" where
  "byte c \<equiv> of_char c"

subsection \<open>White space\<close>

text \<open>The UTF-8 encodings of the code points for which \<^verbatim>\<open>unicode.IsSpace\<close> holds.  No encoding is a
  proper prefix or suffix of another one and no first byte is a continuation byte, so matching
  these byte sequences at the ends of a string is what \<^verbatim>\<open>strings.TrimSpace\<close> does rune by rune.\<close>

definition space_seqs :: "string list" where
  "space_seqs =
     [[CHR 0x20], [CHR 0x09], [CHR 0x0A], [CHR 0x0B], [CHR 0x0C], [CHR 0x0D],
      [CHR 0xC2, CHR 0x85], [CHR 0xC2, CHR 0xA0], [CHR 0xE1, CHR 0x9A, CHR 0x80],
      [CHR 0xE2, CHR 0x80, CHR 0x80], [CHR 0xE2, CHR 0x80, CHR 0x81], [CHR 0xE2, CHR 0x80, CHR 0x82],
      [CHR 0xE2, CHR 0x80, CHR 0x83], [CHR 0xE2, CHR 0x80, CHR 0x84], [CHR 0xE2, CHR 0x80, CHR 0x85],
      [CHR 0xE2, CHR 0x80, CHR 0x86], [CHR 0xE2, CHR 0x80, CHR 0x87], [CHR 0xE2, CHR 0x80, CHR 0x88],
      [CHR 0xE2, CHR 0x80, CHR 0x89], [CHR 0xE2, CHR 0x80, CHR 0x8A], [CHR 0xE2, CHR 0x80, CHR 0xA8],
      [CHR 0xE2, CHR 0x80, CHR 0xA9], [CHR 0xE2, CHR 0x80, CHR 0xAF], [CHR 0xE2, CHR 0x81, CHR 0x9F],
      [CHR 0xE3, CHR 0x80, CHR 0x80]]"

definition space_match :: "string list \<Rightarrow> string \<Rightarrow> string option" where
  "space_match seqs s = find (\<lambda>w. prefix w s) seqs"

function strip_seqs :: "string list \<Rightarrow> string \<Rightarrow> string" where
  "strip_seqs seqs s =
     (case space_match seqs s of
        Some (c # w) \<Rightarrow> strip_seqs seqs (drop (Suc (length w)) s)
      | _ \<Rightarrow> s)"
  by pat_completeness auto
termination
proof (relation "measure (length \<circ> snd)", goal_cases)
  case 1
  show ?case by simp
next
  case (2 seqs s _ c w)
  then have "prefix (c # w) s"
    by (auto simp: space_match_def find_Some_iff)
  then have "length (c # w) \<le> length s" by (rule prefix_length_le)
  then show ?case by simp
qed

declare strip_seqs.simps [simp del]

definition trim_left :: "string \<Rightarrow> string" where
  "trim_left s = strip_seqs space_seqs s"

definition trim_right :: "string \<Rightarrow> string" where
  "trim_right s = rev (strip_seqs (map rev space_seqs) (rev s))"

definition trim_space :: "string \<Rightarrow> string" where
  "trim_space s = trim_right (trim_left s)"

text \<open>A \<^emph>\<open>plain\<close> string consists of printable ASCII other than the space.\<close>

definition plain :: "string \<Rightarrow> bool" where
  "plain s = list_all (\<lambda>c. 33 \<le> byte c \<and> byte c \<le> 126) s"

lemma plain_simps [simp]:
  "plain []"
  "plain (c # s) \<longleftrightarrow> 33 \<le> byte c \<and> byte c \<le> 126 \<and> plain s"
  "plain (s @ t) \<longleftrightarrow> plain s \<and> plain t"
  "plain (rev s) \<longleftrightarrow> plain s"
  by (auto simp: plain_def)

lemma strip_seqs_no_match: "space_match seqs s = None \<Longrightarrow> strip_seqs seqs s = s"
  by (simp add: strip_seqs.simps [of seqs s])

lemma strip_seqs_Nil [simp]: "[] \<notin> set seqs \<Longrightarrow> strip_seqs seqs [] = []"
  by (rule strip_seqs_no_match) (auto simp: space_match_def find_None_iff)

definition blank :: "char \<Rightarrow> bool" where
  "blank c = (byte c < 33 \<or> 126 < byte c)"

lemma space_seqs_hd: "list_all (\<lambda>w. w \<noteq> [] \<and> blank (hd w)) space_seqs"
  by (simp add: space_seqs_def blank_def)

lemma space_seqs_last: "list_all (\<lambda>w. w \<noteq> [] \<and> blank (hd w)) (map rev space_seqs)"
  by (simp add: space_seqs_def blank_def)

lemma space_match_blank:
  assumes "list_all (\<lambda>w. w \<noteq> [] \<and> blank (hd w)) seqs" and "plain s"
  shows "space_match seqs s = None"
proof -
  have "\<not> prefix w s" if "w \<in> set seqs" for w
  proof
    assume "prefix w s"
    from that assms(1) obtain c v where "w = c # v" "blank c"
      by (cases w rule: list.exhaust) (auto simp: list_all_iff)
    with \<open>prefix w s\<close> assms(2) show False
      by (cases s) (auto simp: blank_def)
  qed
  then show ?thesis by (auto simp: space_match_def find_None_iff)
qed

lemmas space_match_plain = space_match_blank [OF space_seqs_hd]
lemmas space_match_rev_plain = space_match_blank [OF space_seqs_last]

lemma space_match_ends:
  assumes "list_all (\<lambda>w. w \<noteq> [] \<and> blank (hd w)) seqs" and "s \<noteq> []" and "\<not> blank (hd s)"
  shows "space_match seqs s = None"
proof -
  have "\<not> prefix w s" if "w \<in> set seqs" for w
  proof
    assume "prefix w s"
    from that assms(1) obtain c v where "w = c # v" "blank c"
      by (cases w rule: list.exhaust) (auto simp: list_all_iff)
    with \<open>prefix w s\<close> assms(2,3) show False
      by (cases s) auto
  qed
  then show ?thesis by (auto simp: space_match_def find_None_iff)
qed

lemma trim_space_ends:
  "s \<noteq> [] \<Longrightarrow> \<not> blank (hd s) \<Longrightarrow> \<not> blank (last s) \<Longrightarrow> trim_space s = s"
  by (simp add: trim_space_def trim_left_def trim_right_def strip_seqs_no_match hd_rev
      space_match_ends [OF space_seqs_hd] space_match_ends [OF space_seqs_last])

lemma trim_space_plain [simp, gostr]: "plain s \<Longrightarrow> trim_space s = s"
  by (simp add: trim_space_def trim_left_def trim_right_def strip_seqs_no_match
      space_match_plain space_match_rev_plain)

lemma strip_seqs_stops: "[] \<notin> set seqs \<Longrightarrow> space_match seqs (strip_seqs seqs s) = None"
proof (induction seqs s rule: strip_seqs.induct)
  case (1 seqs s)
  show ?case
  proof (cases "space_match seqs s")
    case None
    then show ?thesis by (simp add: strip_seqs_no_match)
  next
    case (Some w)
    then have "w \<in> set seqs" by (auto simp: space_match_def find_Some_iff)
    with 1(2) obtain c v where w: "w = c # v" by (cases w) auto
    with 1 Some show ?thesis by (simp add: strip_seqs.simps [of seqs s])
  qed
qed

lemma strip_seqs_suffix: "suffix (strip_seqs seqs s) s"
proof (induction seqs s rule: strip_seqs.induct)
  case (1 seqs s)
  then show ?case
    by (auto simp: strip_seqs.simps [of seqs s] split: option.splits list.splits
        intro: suffix_order.trans suffix_drop)
qed

lemma space_match_prefix: "space_match seqs s = None \<Longrightarrow> prefix t s \<Longrightarrow> space_match seqs t = None"
  by (auto simp: space_match_def find_None_iff intro: prefix_order.trans)

lemma space_seqs_nonempty [simp]: "[] \<notin> set space_seqs" "[] \<notin> set (map rev space_seqs)"
  by (simp_all add: space_seqs_def)

lemma trim_right_prefix: "prefix (trim_right s) s"
  using strip_seqs_suffix [of "map rev space_seqs" "rev s"]
  by (simp add: trim_right_def suffix_to_prefix)

lemma trim_space_idem [simp]: "trim_space (trim_space s) = trim_space s"
proof -
  let ?l = "trim_left s"
  have "space_match space_seqs ?l = None"
    unfolding trim_left_def by (rule strip_seqs_stops) simp
  then have "space_match space_seqs (trim_right ?l) = None"
    using trim_right_prefix by (rule space_match_prefix)
  then have "trim_left (trim_right ?l) = trim_right ?l"
    unfolding trim_left_def by (rule strip_seqs_no_match)
  moreover have "trim_right (trim_right ?l) = trim_right ?l"
    using strip_seqs_stops [OF space_seqs_nonempty(2), of "rev ?l"]
    by (simp add: trim_right_def strip_seqs_no_match)
  ultimately show ?thesis by (simp add: trim_space_def)
qed

text \<open>\<^verbatim>\<open>strings.Fields\<close>: the maximal runs of bytes that are not white space.\<close>

definition space_len :: "string \<Rightarrow> nat" where
  "space_len s = (case space_match space_seqs s of None \<Rightarrow> 0 | Some w \<Rightarrow> length w)"

function fields_from :: "string \<Rightarrow> string \<Rightarrow> string list" where
  "fields_from acc s =
     (case s of
        [] \<Rightarrow> (if acc = [] then [] else [rev acc])
      | c # t \<Rightarrow>
          (if space_len s = 0 then fields_from (c # acc) t
           else (if acc = [] then [] else [rev acc]) @ fields_from [] (drop (space_len s) s)))"
  by pat_completeness auto
termination
  by (relation "measure (length \<circ> snd)") auto

declare fields_from.simps [simp del]

definition fields :: "string \<Rightarrow> string list" where
  "fields s = fields_from [] s"

lemma space_len_plain: "plain s \<Longrightarrow> space_len s = 0"
  by (simp add: space_len_def space_match_plain)

lemma fields_from_plain: "plain s \<Longrightarrow> fields_from acc s = (if acc = [] \<and> s = [] then [] else [rev acc @ s])"
proof (induction s arbitrary: acc)
  case Nil
  then show ?case by (simp add: fields_from.simps)
next
  case (Cons c s)
  from Cons.prems have "space_len (c # s) = 0" by (rule space_len_plain)
  with Cons show ?case by (simp add: fields_from.simps [of acc "c # s"])
qed

lemma fields_plain: "plain s \<Longrightarrow> s \<noteq> [] \<Longrightarrow> fields s = [s]"
  by (simp add: fields_def fields_from_plain)

subsection \<open>Case, search, split and join\<close>

text \<open>\<^verbatim>\<open>strings.ToLower\<close> on the bytes.  Besides the ASCII letters exactly two code points have an
  ASCII lower case: U+0130 (the bytes C4 B0, lower case \<^verbatim>\<open>i\<close>) and U+212A (the bytes E2 84 AA,
  lower case \<^verbatim>\<open>k\<close>).  Every other non-ASCII code point keeps a non-ASCII lower case, which is never
  equal to a byte of the ASCII texts the code compares with, so its bytes are left alone.\<close>

definition lower_char :: "char \<Rightarrow> char" where
  "lower_char c = (if 65 \<le> byte c \<and> byte c \<le> 90 then char_of (byte c + 32) else c)"

fun to_lower :: "string \<Rightarrow> string" where
  "to_lower [] = []"
| "to_lower (c # s) =
     (if c = CHR 0xC4 \<and> take 1 s = [CHR 0xB0] then CHR ''i'' # to_lower (drop 1 s)
      else if c = CHR 0xE2 \<and> take 2 s = [CHR 0x84, CHR 0xAA] then CHR ''k'' # to_lower (drop 2 s)
      else lower_char c # to_lower s)"

fun contains_str :: "string \<Rightarrow> string \<Rightarrow> bool" where
  "contains_str [] n = (n = [])"
| "contains_str (c # s) n = (prefix n (c # s) \<or> contains_str s n)"

fun split_on :: "char \<Rightarrow> string \<Rightarrow> string list" where
  "split_on d [] = [[]]"
| "split_on d (c # s) =
     (if c = d then [] # split_on d s
      else (case split_on d s of [] \<Rightarrow> [[c]] | w # ws \<Rightarrow> (c # w) # ws))"

fun join :: "string \<Rightarrow> string list \<Rightarrow> string" where
  "join sep [] = []"
| "join sep [w] = w"
| "join sep (w # v # ws) = w @ sep @ join sep (v # ws)"

definition trim_suffix :: "string \<Rightarrow> string \<Rightarrow> string" where
  "trim_suffix s t = (if suffix t s then take (length s - length t) s else s)"

lemma split_on_nonempty [simp]: "split_on d s \<noteq> []"
  by (induction s) (auto split: list.splits)

lemma split_on_no_sep: "d \<notin> set w \<Longrightarrow> split_on d w = [w]"
  by (induction w) auto

lemma split_on_append: "d \<notin> set w \<Longrightarrow> split_on d (w @ d # s) = w # split_on d s"
  by (induction w) (auto split: list.splits)

lemma split_on_join:
  assumes "ws \<noteq> []" and "\<forall>w\<in>set ws. d \<notin> set w"
  shows "split_on d (join [d] ws) = ws"
  using assms by (induction "[d]" ws rule: join.induct) (auto simp: split_on_no_sep split_on_append)

lemma join_split_on: "join [d] (split_on d s) = s"
proof (induction s)
  case (Cons c s)
  then show ?case
    by (cases "split_on d s" rule: list.exhaust; cases "tl (split_on d s)") auto
qed simp

lemma split_on_parts: "\<forall>w\<in>set (split_on d s). d \<notin> set w"
  by (induction s) (auto split: list.splits)

section \<open>Numbers in text\<close>

definition digit_char :: "nat \<Rightarrow> char" where
  "digit_char n = char_of (48 + n)"

fun itoa :: "nat \<Rightarrow> string" where
  "itoa n = (if n < 10 then [digit_char n] else itoa (n div 10) @ [digit_char (n mod 10)])"

declare itoa.simps [simp del]

definition itoa_int :: "int \<Rightarrow> string" where
  "itoa_int i = (if i < 0 then CHR ''-'' # itoa (nat (- i)) else itoa (nat i))"

definition is_digit :: "char \<Rightarrow> bool" where
  "is_digit c = (48 \<le> byte c \<and> byte c \<le> 57)"

definition dec_value :: "string \<Rightarrow> nat" where
  "dec_value s = foldl (\<lambda>a c. a * 10 + (byte c - 48)) 0 s"

text \<open>\<^verbatim>\<open>strconv.ParseUint(s, 10, bits)\<close>.\<close>

definition parse_uint10 :: "nat \<Rightarrow> string \<Rightarrow> nat option" where
  "parse_uint10 bits s =
     (if s \<noteq> [] \<and> list_all is_digit s \<and> dec_value s < 2 ^ bits then Some (dec_value s) else None)"

text \<open>\<^verbatim>\<open>strconv.Atoi\<close> on a 64-bit platform.\<close>

definition atoi :: "string \<Rightarrow> int option" where
  "atoi s =
     (let neg = (take 1 s = ''-''); t = (if take 1 s = ''-'' \<or> take 1 s = ''+'' then drop 1 s else s) in
      if t = [] \<or> \<not> list_all is_digit t then None
      else if neg then (if dec_value t \<le> 2 ^ 63 then Some (- int (dec_value t)) else None)
      else (if dec_value t < 2 ^ 63 then Some (int (dec_value t)) else None))"

lemma byte_digit_char: "n < 10 \<Longrightarrow> byte (digit_char n) = 48 + n"
  by (simp add: digit_char_def)

lemma char_of_byte: "byte c = n \<Longrightarrow> char_of n = c"
  by auto

lemma digit_char_eval:
  "digit_char 0 = CHR ''0''" "digit_char 1 = CHR ''1''" "digit_char (Suc 0) = CHR ''1''" "digit_char 2 = CHR ''2''"
  "digit_char 3 = CHR ''3''" "digit_char 4 = CHR ''4''" "digit_char 5 = CHR ''5''" "digit_char 6 = CHR ''6''"
  "digit_char 7 = CHR ''7''" "digit_char 8 = CHR ''8''" "digit_char 9 = CHR ''9''"
  by (simp_all add: digit_char_def char_of_byte)

lemmas itoa_eval = itoa.simps digit_char_eval

lemma is_digit_digit_char: "n < 10 \<Longrightarrow> is_digit (digit_char n)"
  by (simp add: is_digit_def byte_digit_char)

lemma itoa_nonempty [simp]: "itoa n \<noteq> []"
  by (subst itoa.simps) simp

lemma itoa_digits: "list_all is_digit (itoa n)"
proof (induction n rule: itoa.induct)
  case (1 n)
  then show ?case
    by (subst itoa.simps) (simp add: is_digit_digit_char)
qed

lemma dec_value_snoc: "dec_value (s @ [c]) = dec_value s * 10 + (byte c - 48)"
  by (simp add: dec_value_def)

lemma dec_value_itoa [simp]: "dec_value (itoa n) = n"
proof (induction n rule: itoa.induct)
  case (1 n)
  show ?case
  proof (cases "n < 10")
    case True
    then show ?thesis by (subst itoa.simps) (simp add: dec_value_def byte_digit_char)
  next
    case False
    with 1 show ?thesis
      by (subst itoa.simps) (simp add: dec_value_snoc byte_digit_char)
  qed
qed

lemma itoa_plain [simp]: "plain (itoa n)"
  using itoa_digits [of n] by (auto simp: plain_def is_digit_def list_all_iff)

lemma itoa_inj: "itoa m = itoa n \<Longrightarrow> m = n"
  by (metis dec_value_itoa)

lemma parse_uint10_itoa: "n < 2 ^ bits \<Longrightarrow> parse_uint10 bits (itoa n) = Some n"
  by (simp add: parse_uint10_def itoa_digits)

lemma itoa_hd_digit: "is_digit (hd (itoa n))"
  using itoa_digits [of n] by (cases "itoa n") auto

lemma itoa_no_sign: "take (Suc 0) (itoa n) \<noteq> ''-''" "take (Suc 0) (itoa n) \<noteq> ''+''"
  using itoa_hd_digit [of n] by (cases "itoa n"; auto simp: is_digit_def)+

lemma atoi_itoa: "n < 2 ^ 63 \<Longrightarrow> atoi (itoa n) = Some (int n)"
  by (simp add: atoi_def Let_def itoa_no_sign itoa_digits)

subsection \<open>Numbers with a base prefix\<close>

text \<open>\<^verbatim>\<open>strconv.ParseUint(s, 0, bits)\<close>: a prefix selects base 2, 8 or 16, a leading zero base 8, and
  underscores may separate digits.\<close>

definition digit_of :: "char \<Rightarrow> nat option" where
  "digit_of c =
     (let n = byte (lower_char c) in
      if is_digit c then Some (byte c - 48)
      else if 97 \<le> n \<and> n \<le> 122 then Some (n - 87) else None)"

fun base_value :: "nat \<Rightarrow> nat \<Rightarrow> string \<Rightarrow> nat option" where
  "base_value b a [] = Some a"
| "base_value b a (c # s) =
     (if c = CHR ''_'' then base_value b a s
      else case digit_of c of
        None \<Rightarrow> None
      | Some d \<Rightarrow> if d < b then base_value b (a * b + d) s else None)"

definition base_prefix :: "string \<Rightarrow> nat \<times> string" where
  "base_prefix s =
     (if take 1 s \<noteq> ''0'' then (10, s)
      else if 3 \<le> length s \<and> lower_char (s ! 1) = CHR ''b'' then (2, drop 2 s)
      else if 3 \<le> length s \<and> lower_char (s ! 1) = CHR ''o'' then (8, drop 2 s)
      else if 3 \<le> length s \<and> lower_char (s ! 1) = CHR ''x'' then (16, drop 2 s)
      else (8, drop 1 s))"

datatype saw = SawStart | SawDigit | SawUnderscore | SawOther

fun underscores_from :: "bool \<Rightarrow> saw \<Rightarrow> string \<Rightarrow> bool" where
  "underscores_from hex w [] = (w \<noteq> SawUnderscore)"
| "underscores_from hex w (c # s) =
     (if is_digit c \<or> (hex \<and> 97 \<le> byte (lower_char c) \<and> byte (lower_char c) \<le> 102)
      then underscores_from hex SawDigit s
      else if c = CHR ''_'' then (w = SawDigit \<and> underscores_from hex SawUnderscore s)
      else (w \<noteq> SawUnderscore \<and> underscores_from hex SawOther s))"

definition underscore_ok :: "string \<Rightarrow> bool" where
  "underscore_ok s0 =
     (let s = (if take 1 s0 = ''-'' \<or> take 1 s0 = ''+'' then drop 1 s0 else s0) in
      if 2 \<le> length s \<and> take 1 s = ''0'' \<and> lower_char (s ! 1) \<in> {CHR ''b'', CHR ''o'', CHR ''x''}
      then underscores_from (lower_char (s ! 1) = CHR ''x'') SawDigit (drop 2 s)
      else underscores_from False SawStart s)"

definition parse_uint0 :: "nat \<Rightarrow> string \<Rightarrow> nat option" where
  "parse_uint0 bits s =
     (if s = [] then None
      else case base_value (fst (base_prefix s)) 0 (snd (base_prefix s)) of
        None \<Rightarrow> None
      | Some n \<Rightarrow> if n < 2 ^ bits \<and> (CHR ''_'' \<in> set s \<longrightarrow> underscore_ok s) then Some n else None)"

lemma base_value_digits:
  "list_all is_digit s \<Longrightarrow> base_value 10 a s = Some (foldl (\<lambda>a c. a * 10 + (byte c - 48)) a s)"
proof (induction s arbitrary: a)
  case (Cons c s)
  then have "c \<noteq> CHR ''_''" "byte c - 48 < 10" by (auto simp: is_digit_def)
  with Cons show ?case by (simp add: digit_of_def)
qed simp

lemma itoa_leading_zero: "take (Suc 0) (itoa n) = ''0'' \<Longrightarrow> n = 0"
proof (induction n rule: itoa.induct)
  case (1 n)
  show ?case
  proof (cases "n < 10")
    case True
    with 1(2) have "byte (digit_char n) = 48" by (simp add: itoa.simps [of n])
    with True show ?thesis by (simp add: byte_digit_char)
  next
    case False
    have "Suc 0 - length (itoa (n div 10)) = 0"
      by (cases "itoa (n div 10)") auto
    with 1 False have "n div 10 = 0" by (simp add: itoa.simps [of n])
    with False show ?thesis by simp
  qed
qed

lemma parse_uint0_itoa:
  assumes "0 < n" and "n < 2 ^ bits"
  shows "parse_uint0 bits (itoa n) = Some n"
proof -
  have "take (Suc 0) (itoa n) \<noteq> ''0''" using itoa_leading_zero assms(1) by blast
  then have "base_prefix (itoa n) = (10, itoa n)" by (simp add: base_prefix_def)
  moreover have "CHR ''_'' \<notin> set (itoa n)"
    using itoa_digits [of n] by (auto simp: list_all_iff is_digit_def)
  moreover have "base_value 10 0 (itoa n) = Some n"
    using base_value_digits [OF itoa_digits, of 0 n] dec_value_itoa [of n] by (simp add: dec_value_def)
  ultimately show ?thesis using assms(2) by (simp add: parse_uint0_def)
qed

section \<open>Slices\<close>

text \<open>A loop that appends the elements not yet in a seen-map.\<close>

fun dedup_from :: "'a list \<Rightarrow> 'a list \<Rightarrow> 'a list" where
  "dedup_from seen [] = []"
| "dedup_from seen (x # xs) =
     (if x \<in> set seen then dedup_from seen xs else x # dedup_from (x # seen) xs)"

definition dedup :: "'a list \<Rightarrow> 'a list" where
  "dedup xs = dedup_from [] xs"

lemma set_dedup_from: "set (dedup_from seen xs) = set xs - set seen"
  by (induction seen xs rule: dedup_from.induct) auto

lemma distinct_dedup_from: "distinct (dedup_from seen xs)"
  by (induction seen xs rule: dedup_from.induct) (auto simp: set_dedup_from)

lemma dedup_from_id: "distinct xs \<Longrightarrow> set xs \<inter> set seen = {} \<Longrightarrow> dedup_from seen xs = xs"
  by (induction seen xs rule: dedup_from.induct) auto

lemma set_dedup [simp]: "set (dedup xs) = set xs"
  by (simp add: dedup_def set_dedup_from)

lemma distinct_dedup [simp]: "distinct (dedup xs)"
  by (simp add: dedup_def distinct_dedup_from)

lemma dedup_id: "distinct xs \<Longrightarrow> dedup xs = xs"
  by (simp add: dedup_def dedup_from_id)

lemma dedup_idem [simp]: "dedup (dedup xs) = dedup xs"
  by (simp add: dedup_id)

subsection \<open>Counting loops\<close>

text \<open>\<^verbatim>\<open>for c := i; c <= last; c++ { if free(c) { return c } }\<close> and its downward form
  \<^verbatim>\<open>for c := i; c >= last; c-- { if free(c) { return c } }\<close>.\<close>

function scan_up :: "(nat \<Rightarrow> bool) \<Rightarrow> nat \<Rightarrow> nat \<Rightarrow> nat option" where
  "scan_up free i e =
     (if e < i then None else if free i then Some i else scan_up free (Suc i) e)"
  by pat_completeness auto
termination
  by (relation "measure (\<lambda>(free, i, e). Suc e - i)") auto

function scan_down :: "(int \<Rightarrow> bool) \<Rightarrow> int \<Rightarrow> int \<Rightarrow> int option" where
  "scan_down free i e =
     (if i < e then None else if free i then Some i else scan_down free (i - 1) e)"
  by pat_completeness auto
termination
  by (relation "measure (\<lambda>(free, i, e). nat (i - e + 1))") auto

declare scan_up.simps [simp del] scan_down.simps [simp del]

lemma scan_up_find: "scan_up free i e = find free [i..<Suc e]"
proof (induction free i e rule: scan_up.induct)
  case (1 free i e)
  show ?case
  proof (cases "e < i")
    case True
    then show ?thesis by (simp add: scan_up.simps [of free i e])
  next
    case False
    then have "[i..<Suc e] = i # [Suc i..<Suc e]" by (simp add: upt_conv_Cons)
    with 1 False show ?thesis by (simp add: scan_up.simps [of free i e])
  qed
qed

lemma scan_down_Some:
  "scan_down free i e = Some c \<Longrightarrow> e \<le> c \<and> c \<le> i \<and> free c \<and> (\<forall>d. c < d \<and> d \<le> i \<longrightarrow> \<not> free d)"
proof (induction free i e rule: scan_down.induct)
  case (1 free i e)
  show ?case
  proof (cases "\<not> i < e \<and> \<not> free i")
    case True
    with 1(2) have "scan_down free (i - 1) e = Some c" by (simp add: scan_down.simps [of free i e])
    with 1(1) True have h: "e \<le> c \<and> c \<le> i - 1 \<and> free c \<and> (\<forall>d. c < d \<and> d \<le> i - 1 \<longrightarrow> \<not> free d)"
      by simp
    have "\<not> free d" if "c < d" "d \<le> i" for d
      using h True that by (cases "d = i") auto
    with h show ?thesis by auto
  next
    case False
    with 1(2) show ?thesis by (auto simp: scan_down.simps [of free i e] split: if_splits)
  qed
qed

lemma scan_down_None: "scan_down free i e = None \<longleftrightarrow> (\<forall>d. e \<le> d \<and> d \<le> i \<longrightarrow> \<not> free d)"
proof (induction free i e rule: scan_down.induct)
  case (1 free i e)
  have "(\<forall>d. e \<le> d \<and> d \<le> i \<longrightarrow> \<not> free d) \<longleftrightarrow>
      i < e \<or> (\<not> free i \<and> (\<forall>d. e \<le> d \<and> d \<le> i - 1 \<longrightarrow> \<not> free d))"
    by (smt (verit))
  with 1 show ?case by (simp add: scan_down.simps [of free i e])
qed

section \<open>Interfaces shared by the components\<close>

subsection \<open>Bounded first-fit allocation\<close>

text \<open>Several components scan a bounded pool of candidate identities and take the first one that the
  observed host state does not occupy.  The provider owes one law, that its loop is that scan; the
  clients get soundness, completeness and preference for the earlier candidates.\<close>

locale first_fit =
  fixes pool :: "'c list"
    and occupied :: "'w \<Rightarrow> 'c \<Rightarrow> bool"
    and alloc :: "'w \<Rightarrow> 'c option"
  assumes scan: "alloc w = find (\<lambda>c. \<not> occupied w c) pool"
begin

lemma alloc_free: "alloc w = Some c \<Longrightarrow> c \<in> set pool \<and> \<not> occupied w c"
  by (auto simp: scan find_Some_iff)

lemma alloc_first:
  "alloc w = Some c \<Longrightarrow> \<exists>us vs. pool = us @ c # vs \<and> (\<forall>u\<in>set us. occupied w u)"
proof -
  assume "alloc w = Some c"
  then obtain i where i: "i < length pool" "pool ! i = c" "\<forall>j<i. occupied w (pool ! j)"
    by (auto simp: scan find_Some_iff)
  then have "pool = take i pool @ c # drop (Suc i) pool"
    by (metis id_take_nth_drop)
  moreover from i have "\<forall>u\<in>set (take i pool). occupied w u"
    by (auto simp: in_set_conv_nth)
  ultimately show ?thesis by blast
qed

lemma alloc_None_iff: "alloc w = None \<longleftrightarrow> (\<forall>c\<in>set pool. occupied w c)"
  by (auto simp: scan find_None_iff)

lemma alloc_complete: "c \<in> set pool \<Longrightarrow> \<not> occupied w c \<Longrightarrow> \<exists>c'. alloc w = Some c'"
  using alloc_None_iff by fastforce

end

subsection \<open>Durable records\<close>

text \<open>A store keeps one record per key on disk and replaces it atomically.  A save that reports
  success is visible to the next load; a save that reports failure leaves the old record or the
  complete new one; other keys are untouched.  \<open>'f\<close> is the choice of which operating-system call
  fails.\<close>

locale durable_store =
  fixes load :: "'d \<Rightarrow> 'k \<Rightarrow> 'r option"
    and save :: "'f \<Rightarrow> 'd \<Rightarrow> 'k \<Rightarrow> 'r \<Rightarrow> 'd \<times> bool"
  assumes save_ok: "save f d k r = (d', True) \<Longrightarrow> load d' k = Some r"
    and save_fail: "save f d k r = (d', False) \<Longrightarrow> load d' k = load d k \<or> load d' k = Some r"
    and save_frame: "save f d k r = (d', b) \<Longrightarrow> j \<noteq> k \<Longrightarrow> load d' j = load d j"
begin

fun save_all :: "'d \<Rightarrow> ('f \<times> 'k \<times> 'r) list \<Rightarrow> 'd" where
  "save_all d [] = d"
| "save_all d ((f, k, r) # ws) = save_all (fst (save f d k r)) ws"

lemma load_save:
  "load (fst (save f d k r)) j = load d j \<or> (j = k \<and> load (fst (save f d k r)) j = Some r)"
proof -
  obtain d' b where s: "save f d k r = (d', b)" by fastforce
  show ?thesis
  proof (cases "j = k")
    case True
    with s save_ok [of f d k r d'] save_fail [of f d k r d'] show ?thesis by (cases b) auto
  next
    case False
    with save_frame [OF s] s show ?thesis by simp
  qed
qed

lemma never_torn:
  "load (save_all d ws) k = load d k \<or> (\<exists>f r. (f, k, r) \<in> set ws \<and> load (save_all d ws) k = Some r)"
proof (induction ws arbitrary: d)
  case Nil
  then show ?case by simp
next
  case (Cons w ws)
  obtain f j r where w: "w = (f, j, r)" by (cases w) auto
  from Cons.IH [of "fst (save f d j r)"] load_save [of f d j r k] w show ?case by auto
qed

end

end
