(* ===== verification/Paths.thy ===== *)
theory Paths
  imports Prelude
begin

text \<open>
  The lexical file-path functions of Go's \<^verbatim>\<open>path/filepath\<close> that the packages use (\<^verbatim>\<open>Clean\<close>, \<^verbatim>\<open>Join\<close>
  and \<^verbatim>\<open>Rel\<close> on a slash-separated system), on the components of a path.
\<close>

fun clean_comps :: "bool \<Rightarrow> string list \<Rightarrow> string list \<Rightarrow> string list" where
  "clean_comps rooted stack [] = rev stack"
| "clean_comps rooted stack (c # cs) =
     (if c = [] \<or> c = ''.'' then clean_comps rooted stack cs
      else if c = ''..'' then
        (case stack of
           [] \<Rightarrow> clean_comps rooted (if rooted then [] else [''..'']) cs
         | t # ts \<Rightarrow> clean_comps rooted (if t = ''..'' then ''..'' # stack else ts) cs)
      else clean_comps rooted (c # stack) cs)"

definition rooted :: "string \<Rightarrow> bool" where
  "rooted s = prefix ''/'' s"

definition path_comps :: "string \<Rightarrow> string list" where
  "path_comps s = clean_comps (rooted s) [] (split_on CHR ''/'' s)"

definition path_clean :: "string \<Rightarrow> string" where
  "path_clean s =
     (if rooted s then CHR ''/'' # join ''/'' (path_comps s)
      else if path_comps s = [] then ''.'' else join ''/'' (path_comps s))"

definition path_join :: "string list \<Rightarrow> string" where
  "path_join es =
     (case dropWhile (\<lambda>e. e = []) es of [] \<Rightarrow> [] | es' \<Rightarrow> path_clean (join ''/'' es'))"

text \<open>The components of a cleaned path, \<^verbatim>\<open>.\<close> included when it is the whole path.\<close>

definition clean_parts :: "string \<Rightarrow> string list" where
  "clean_parts s = (if path_comps s = [] \<and> \<not> rooted s then [''.''] else path_comps s)"

fun strip_common :: "string list \<Rightarrow> string list \<Rightarrow> string list \<times> string list" where
  "strip_common (b # bs) (t # ts) = (if b = t then strip_common bs ts else (b # bs, t # ts))"
| "strip_common bs ts = (bs, ts)"

text \<open>\<^verbatim>\<open>filepath.Rel\<close> as the components of the relative path; \<^term>\<open>None\<close> is its error.\<close>

definition path_rel :: "string \<Rightarrow> string \<Rightarrow> string list option" where
  "path_rel base targ =
     (if path_clean base = path_clean targ then Some [''.'']
      else if rooted base \<noteq> rooted targ then None
      else
        let (bs, ts) = strip_common (path_comps base) (clean_parts targ) in
        if bs \<noteq> [] \<and> hd bs = ''..'' then None
        else Some (replicate (length bs) ''..'' @ ts))"

section \<open>Facts\<close>

definition proper_comp :: "string \<Rightarrow> bool" where
  "proper_comp c = (c \<noteq> [] \<and> c \<noteq> ''.'' \<and> c \<noteq> ''..'' \<and> CHR ''/'' \<notin> set c)"

lemma clean_comps_rooted_proper:
  assumes "\<forall>c\<in>set cs. CHR ''/'' \<notin> set c" and "\<forall>c\<in>set stack. proper_comp c"
  shows "\<forall>c\<in>set (clean_comps True stack cs). proper_comp c"
  using assms
proof (induction cs arbitrary: stack)
  case Nil
  then show ?case by simp
next
  case (Cons c cs)
  from Cons.prems(1) have c: "c = [] \<or> c = ''.'' \<or> c = ''..'' \<or> proper_comp c"
    by (simp add: proper_comp_def) blast
  have step: "\<forall>d\<in>set (clean_comps True st cs). proper_comp d" if "\<forall>d\<in>set st. proper_comp d" for st
    using Cons.IH [OF _ that] Cons.prems(1) by simp
  consider (skip) "c = [] \<or> c = ''.''" | (up) "c = ''..''" | (name) "\<not> (c = [] \<or> c = ''.'')" "c \<noteq> ''..''"
    by blast
  then show ?case
  proof cases
    case skip
    with step [OF Cons.prems(2)] show ?thesis by simp
  next
    case up
    have "\<forall>d\<in>set (tl stack). proper_comp d" "stack \<noteq> [] \<Longrightarrow> hd stack \<noteq> ''..''"
      using Cons.prems(2) by (cases stack; simp add: proper_comp_def)+
    with step [of "tl stack"] up show ?thesis by (cases stack) simp_all
  next
    case name
    with c have "proper_comp c" by blast
    with step [of "c # stack"] Cons.prems(2) name show ?thesis by simp
  qed
qed

lemma rooted_path_comps_proper: "rooted s \<Longrightarrow> \<forall>c\<in>set (path_comps s). proper_comp c"
  unfolding path_comps_def by (simp only:) (rule clean_comps_rooted_proper [OF split_on_parts], simp)

lemma strip_common_prefix: "strip_common bs ts = ([], rs) \<longleftrightarrow> ts = bs @ rs"
  by (induction bs ts rule: strip_common.induct) auto

lemma strip_common_rest: "strip_common bs ts = (b # bs', ts') \<Longrightarrow> \<not> prefix bs ts"
  by (induction bs ts arbitrary: b bs' ts' rule: strip_common.induct) (auto split: if_splits)

lemma strip_common_subset: "strip_common bs ts = (bs', ts') \<Longrightarrow> set bs' \<subseteq> set bs \<and> set ts' \<subseteq> set ts"
  by (induction bs ts rule: strip_common.induct) (auto split: if_splits)

lemma clean_comps_id:
  "\<forall>c\<in>set cs. proper_comp c \<Longrightarrow> clean_comps r stack cs = rev stack @ cs"
  by (induction cs arbitrary: stack) (auto simp: proper_comp_def)

lemma path_comps_of_rooted:
  assumes "\<forall>c\<in>set cs. proper_comp c"
  shows "path_comps (CHR ''/'' # join ''/'' cs) = cs"
proof (cases "cs = []")
  case True
  then show ?thesis by (simp add: path_comps_def rooted_def)
next
  case False
  with assms have "split_on CHR ''/'' (join ''/'' cs) = cs"
    by (intro split_on_join) (auto simp: proper_comp_def)
  with assms show ?thesis by (simp add: path_comps_def rooted_def clean_comps_id)
qed

lemma path_comps_clean: "rooted s \<Longrightarrow> path_comps (path_clean s) = path_comps s"
  by (simp add: path_clean_def path_comps_of_rooted rooted_path_comps_proper)

lemma path_clean_eq_iff:
  "rooted s \<Longrightarrow> rooted t \<Longrightarrow> path_clean s = path_clean t \<longleftrightarrow> path_comps s = path_comps t"
  by (metis path_clean_def path_comps_clean)

end
