(* ===== verification/Transaction.thy ===== *)
theory Transaction
  imports Paths "HOL-Library.AList"
begin

text \<open>
  The durable transaction record of \<^verbatim>\<open>src/internal/state/transaction.go\<close>: the persisted data model,
  the lifecycle state machine, the secret screen applied before a record is written, and the store
  that keeps the records as files under \<^verbatim>\<open><runtime dir>/transactions\<close>.

  A \<^verbatim>\<open>time.Time\<close> is kept as its canonical UTC RFC 3339 text: the package only asks whether a time is
  zero, stores it and prints it.  Slices are lists; the label map is an association list.
\<close>

section \<open>Data model\<close>

type_synonym gotime = string

definition zero_time :: gotime where
  "zero_time = ''0001-01-01T00:00:00Z''"

definition TransactionSchemaVersion :: string where
  "TransactionSchemaVersion = ''podlaz.transaction.v1''"

definition TransactionOwner :: string where
  "TransactionOwner = ''podlaz''"

definition TransactionFileSuffix :: string where
  "TransactionFileSuffix = ''.json''"

text \<open>The persisted state is a string; every text other than the eight constants is
  \<open>TransactionOther\<close>.\<close>

datatype TransactionState =
    TransactionPlanned
  | TransactionApplying
  | TransactionApplied
  | TransactionVerifying
  | TransactionCommitted
  | TransactionRollingBack
  | TransactionRolledBack
  | TransactionFailed
  | TransactionOther string

fun state_text :: "TransactionState \<Rightarrow> string" where
  "state_text TransactionPlanned = ''planned''"
| "state_text TransactionApplying = ''applying''"
| "state_text TransactionApplied = ''applied''"
| "state_text TransactionVerifying = ''verifying''"
| "state_text TransactionCommitted = ''committed''"
| "state_text TransactionRollingBack = ''rolling_back''"
| "state_text TransactionRolledBack = ''rolled_back''"
| "state_text TransactionFailed = ''failed''"
| "state_text (TransactionOther s) = s"

record SnapshotMetadata =
  sm_captured_at :: gotime
  sm_source :: string
  sm_summary :: "string list"

record TUNDesiredState =
  td_interface_name :: string
  td_mtu :: int
  td_owner :: string

record TUNAddressDesiredState =
  ta_family :: string
  ta_interface_name :: string
  ta_cidr :: string
  ta_scope :: string
  ta_link_index :: int
  ta_link_kind :: string
  ta_appeared_after_core :: bool
  ta_owner :: string

record RoutePlan =
  rp_kind :: string
  rp_table :: string
  rp_cidr :: string
  rp_via :: string
  rp_dev :: string
  rp_priority :: int
  rp_owner :: string
  rp_operation :: string

record DNSPlan =
  dp_backend :: string
  dp_link :: string
  dp_servers :: "string list"
  dp_search_domains :: "string list"
  dp_owner :: string

record NFTChainPlan =
  nc_name :: string
  nc_hook :: string
  nc_type :: string
  nc_priority :: int
  nc_policy :: string
  nc_rules :: "string list"
  nc_owner :: string

record NFTPlan =
  np_family :: string
  np_table :: string
  np_chains :: "NFTChainPlan list"
  np_owner :: string

record CorePlan =
  cp_runtime_config_path :: string
  cp_process_label :: string
  cp_owner :: string

record PlannedStep =
  ps_kind :: string
  ps_target :: string
  ps_description :: string
  ps_owner :: string

record AppliedStep =
  as_kind :: string
  as_target :: string
  as_description :: string
  as_applied_at :: gotime
  as_owner :: string

record DesiredPlan =
  pl_plan_id :: string
  pl_tun :: TUNDesiredState
  pl_tun_address :: TUNAddressDesiredState
  pl_egress_mark :: "32 word"
  pl_routes :: "RoutePlan list"
  pl_dns :: DNSPlan
  pl_nft :: NFTPlan
  pl_core :: CorePlan
  pl_steps :: "PlannedStep list"

record TUNRollback =
  tr_interface_name :: string
  tr_owner :: string

record TUNAddressRollback =
  tar_family :: string
  tar_interface_name :: string
  tar_cidr :: string
  tar_scope :: string
  tar_link_index :: int
  tar_link_kind :: string
  tar_appeared_after_core :: bool
  tar_owner :: string

record RouteRollback =
  rr_table :: string
  rr_cidr :: string
  rr_via :: string
  rr_dev :: string
  rr_owner :: string

record PolicyRuleRollback =
  pr_priority :: int
  pr_from :: string
  pr_to :: string
  pr_table :: string
  pr_mark :: string
  pr_owner :: string

record DNSRollback =
  dr_backend :: string
  dr_link :: string
  dr_previous :: "string list"
  dr_search_domains :: "string list"
  dr_owner :: string

record NFTablesRollback =
  nr_family :: string
  nr_table :: string
  nr_chain :: string
  nr_owner :: string

record GeneratedConfigRollback =
  gr_path :: string
  gr_owner :: string

record ChildProcessRollback =
  cr_pid :: int
  cr_pid_file :: string
  cr_label :: string
  cr_config_ref :: string
  cr_start_time :: string
  cr_owner :: string

record RollbackMetadata =
  rb_tun :: "TUNRollback list"
  rb_tun_addresses :: "TUNAddressRollback list"
  rb_routes :: "RouteRollback list"
  rb_policy_rules :: "PolicyRuleRollback list"
  rb_dns :: "DNSRollback list"
  rb_nftables :: "NFTablesRollback list"
  rb_generated_configs :: "GeneratedConfigRollback list"
  rb_child_processes :: "ChildProcessRollback list"

record HealthResult =
  hr_status :: string
  hr_checked_at :: gotime
  hr_message :: string

record Transaction =
  tx_schema_version :: string
  tx_owner :: string
  tx_id :: string
  tx_profile_id :: string
  tx_mode :: string
  tx_state :: TransactionState
  tx_created_at :: gotime
  tx_updated_at :: gotime
  tx_before_snapshot :: SnapshotMetadata
  tx_desired_plan :: DesiredPlan
  tx_applied_steps :: "AppliedStep list"
  tx_rollback :: RollbackMetadata
  tx_health :: HealthResult
  tx_failure_reason :: string
  tx_labels :: "(string \<times> string) list"

record TransactionSummary =
  ts_id :: string
  ts_state :: TransactionState
  ts_path :: string
  ts_rollback_available :: bool
  ts_requires_cleanup :: bool
  ts_requires_recovery :: bool

text \<open>The zero values of the nested structs, for \<^verbatim>\<open>NewTransaction\<close>.\<close>

definition zero_snapshot :: SnapshotMetadata where
  "zero_snapshot = \<lparr>sm_captured_at = zero_time, sm_source = [], sm_summary = []\<rparr>"

definition zero_plan :: DesiredPlan where
  "zero_plan =
     \<lparr>pl_plan_id = [], pl_tun = \<lparr>td_interface_name = [], td_mtu = 0, td_owner = []\<rparr>,
      pl_tun_address =
        \<lparr>ta_family = [], ta_interface_name = [], ta_cidr = [], ta_scope = [], ta_link_index = 0,
         ta_link_kind = [], ta_appeared_after_core = False, ta_owner = []\<rparr>,
      pl_egress_mark = 0, pl_routes = [],
      pl_dns = \<lparr>dp_backend = [], dp_link = [], dp_servers = [], dp_search_domains = [], dp_owner = []\<rparr>,
      pl_nft = \<lparr>np_family = [], np_table = [], np_chains = [], np_owner = []\<rparr>,
      pl_core = \<lparr>cp_runtime_config_path = [], cp_process_label = [], cp_owner = []\<rparr>, pl_steps = []\<rparr>"

definition zero_rollback :: RollbackMetadata where
  "zero_rollback =
     \<lparr>rb_tun = [], rb_tun_addresses = [], rb_routes = [], rb_policy_rules = [], rb_dns = [],
      rb_nftables = [], rb_generated_configs = [], rb_child_processes = []\<rparr>"

definition zero_health :: HealthResult where
  "zero_health = \<lparr>hr_status = [], hr_checked_at = zero_time, hr_message = []\<rparr>"

text \<open>\<^verbatim>\<open>time.Now().UTC()\<close> is the parameter \<open>clock\<close>.\<close>

definition or_now :: "gotime \<Rightarrow> gotime \<Rightarrow> gotime" where
  "or_now clock now = (if now = zero_time then clock else now)"

definition NewTransaction :: "gotime \<Rightarrow> string \<Rightarrow> string \<Rightarrow> string \<Rightarrow> gotime \<Rightarrow> Transaction" where
  "NewTransaction clock txid profileID mode now =
     \<lparr>tx_schema_version = TransactionSchemaVersion, tx_owner = TransactionOwner, tx_id = txid,
      tx_profile_id = profileID, tx_mode = mode, tx_state = TransactionPlanned,
      tx_created_at = or_now clock now, tx_updated_at = or_now clock now,
      tx_before_snapshot = zero_snapshot, tx_desired_plan = zero_plan, tx_applied_steps = [],
      tx_rollback = zero_rollback, tx_health = zero_health, tx_failure_reason = [], tx_labels = []\<rparr>"

section \<open>The secret screen\<close>

subsection \<open>The JSON view of a record\<close>

text \<open>\<^verbatim>\<open>containsPersistentSecret\<close> marshals the record and walks the generic JSON value.  \<open>JObj\<close> lists the
  members in the order of the struct; a member with \<^verbatim>\<open>omitempty\<close> is dropped when it is an empty
  string, slice or map, zero or false.  \<^verbatim>\<open>omitempty\<close> has no effect on struct-typed members.\<close>

definition o_str :: "string \<Rightarrow> string \<Rightarrow> (string \<times> json) list" where
  "o_str k v = (if v = [] then [] else [(k, JStr v)])"

definition o_int :: "string \<Rightarrow> int \<Rightarrow> (string \<times> json) list" where
  "o_int k v = (if v = 0 then [] else [(k, JNum (itoa_int v))])"

definition o_bool :: "string \<Rightarrow> bool \<Rightarrow> (string \<times> json) list" where
  "o_bool k v = (if v then [(k, JBool v)] else [])"

definition o_list :: "string \<Rightarrow> ('a \<Rightarrow> json) \<Rightarrow> 'a list \<Rightarrow> (string \<times> json) list" where
  "o_list k f vs = (if vs = [] then [] else [(k, JArr (map f vs))])"

definition json_SnapshotMetadata :: "SnapshotMetadata \<Rightarrow> json" where
  "json_SnapshotMetadata m = JObj
     ([(''captured_at'', JStr (sm_captured_at m))] @ o_str ''source'' (sm_source m) @
      o_list ''summary'' JStr (sm_summary m))"

definition json_TUN :: "TUNDesiredState \<Rightarrow> json" where
  "json_TUN t = JObj
     (o_str ''interface_name'' (td_interface_name t) @ o_int ''mtu'' (td_mtu t) @ o_str ''owner'' (td_owner t))"

definition json_TUNAddress :: "TUNAddressDesiredState \<Rightarrow> json" where
  "json_TUNAddress a = JObj
     (o_str ''family'' (ta_family a) @ o_str ''interface_name'' (ta_interface_name a) @
      o_str ''cidr'' (ta_cidr a) @ o_str ''scope'' (ta_scope a) @ o_int ''link_index'' (ta_link_index a) @
      o_str ''link_kind'' (ta_link_kind a) @ o_bool ''appeared_after_core'' (ta_appeared_after_core a) @
      o_str ''owner'' (ta_owner a))"

definition json_RoutePlan :: "RoutePlan \<Rightarrow> json" where
  "json_RoutePlan r = JObj
     (o_str ''kind'' (rp_kind r) @ o_str ''table'' (rp_table r) @ o_str ''cidr'' (rp_cidr r) @
      o_str ''via'' (rp_via r) @ o_str ''dev'' (rp_dev r) @ o_int ''priority'' (rp_priority r) @
      o_str ''owner'' (rp_owner r) @ o_str ''operation'' (rp_operation r))"

definition json_DNSPlan :: "DNSPlan \<Rightarrow> json" where
  "json_DNSPlan d = JObj
     (o_str ''backend'' (dp_backend d) @ o_str ''link'' (dp_link d) @ o_list ''servers'' JStr (dp_servers d) @
      o_list ''search_domains'' JStr (dp_search_domains d) @ o_str ''owner'' (dp_owner d))"

definition json_NFTChainPlan :: "NFTChainPlan \<Rightarrow> json" where
  "json_NFTChainPlan c = JObj
     (o_str ''name'' (nc_name c) @ o_str ''hook'' (nc_hook c) @ o_str ''type'' (nc_type c) @
      o_int ''priority'' (nc_priority c) @ o_str ''policy'' (nc_policy c) @
      o_list ''rules'' JStr (nc_rules c) @ o_str ''owner'' (nc_owner c))"

definition json_NFTPlan :: "NFTPlan \<Rightarrow> json" where
  "json_NFTPlan n = JObj
     (o_str ''family'' (np_family n) @ o_str ''table'' (np_table n) @
      o_list ''chains'' json_NFTChainPlan (np_chains n) @ o_str ''owner'' (np_owner n))"

definition json_CorePlan :: "CorePlan \<Rightarrow> json" where
  "json_CorePlan c = JObj
     (o_str ''runtime_config_path'' (cp_runtime_config_path c) @ o_str ''process_label'' (cp_process_label c) @
      o_str ''owner'' (cp_owner c))"

definition json_PlannedStep :: "PlannedStep \<Rightarrow> json" where
  "json_PlannedStep p = JObj
     ([(''kind'', JStr (ps_kind p)), (''target'', JStr (ps_target p))] @
      o_str ''description'' (ps_description p) @ o_str ''owner'' (ps_owner p))"

definition json_AppliedStep :: "AppliedStep \<Rightarrow> json" where
  "json_AppliedStep a = JObj
     ([(''kind'', JStr (as_kind a)), (''target'', JStr (as_target a))] @
      o_str ''description'' (as_description a) @ [(''applied_at'', JStr (as_applied_at a))] @
      o_str ''owner'' (as_owner a))"

definition json_DesiredPlan :: "DesiredPlan \<Rightarrow> json" where
  "json_DesiredPlan p = JObj
     (o_str ''plan_id'' (pl_plan_id p) @ [(''tun'', json_TUN (pl_tun p))] @
      [(''tun_address'', json_TUNAddress (pl_tun_address p))] @ o_int ''egress_mark'' (uint (pl_egress_mark p)) @
      o_list ''routes'' json_RoutePlan (pl_routes p) @ [(''dns'', json_DNSPlan (pl_dns p))] @
      [(''nftables'', json_NFTPlan (pl_nft p))] @ [(''core'', json_CorePlan (pl_core p))] @
      o_list ''steps'' json_PlannedStep (pl_steps p))"

definition json_RollbackMetadata :: "RollbackMetadata \<Rightarrow> json" where
  "json_RollbackMetadata m = JObj
     (o_list ''tun'' (\<lambda>t. JObj ([(''interface_name'', JStr (tr_interface_name t))] @ o_str ''owner'' (tr_owner t))) (rb_tun m) @
      o_list ''tun_addresses'' (\<lambda>a. JObj
        (o_str ''family'' (tar_family a) @
         [(''interface_name'', JStr (tar_interface_name a)), (''cidr'', JStr (tar_cidr a))] @
         o_str ''scope'' (tar_scope a) @
         [(''link_index'', JNum (itoa_int (tar_link_index a))), (''link_kind'', JStr (tar_link_kind a))] @
         o_bool ''appeared_after_core'' (tar_appeared_after_core a) @ o_str ''owner'' (tar_owner a))) (rb_tun_addresses m) @
      o_list ''routes'' (\<lambda>r. JObj
        (o_str ''table'' (rr_table r) @ o_str ''cidr'' (rr_cidr r) @ o_str ''via'' (rr_via r) @
         o_str ''dev'' (rr_dev r) @ o_str ''owner'' (rr_owner r))) (rb_routes m) @
      o_list ''policy_rules'' (\<lambda>r. JObj
        (o_int ''priority'' (pr_priority r) @ o_str ''from'' (pr_from r) @ o_str ''to'' (pr_to r) @
         o_str ''table'' (pr_table r) @ o_str ''mark'' (pr_mark r) @ o_str ''owner'' (pr_owner r))) (rb_policy_rules m) @
      o_list ''dns'' (\<lambda>d. JObj
        (o_str ''backend'' (dr_backend d) @ o_str ''link'' (dr_link d) @ o_list ''previous'' JStr (dr_previous d) @
         o_list ''search_domains'' JStr (dr_search_domains d) @ o_str ''owner'' (dr_owner d))) (rb_dns m) @
      o_list ''nftables'' (\<lambda>n. JObj
        (o_str ''family'' (nr_family n) @ o_str ''table'' (nr_table n) @ o_str ''chain'' (nr_chain n) @
         o_str ''owner'' (nr_owner n))) (rb_nftables m) @
      o_list ''generated_configs'' (\<lambda>g. JObj
        ([(''path'', JStr (gr_path g))] @ o_str ''owner'' (gr_owner g))) (rb_generated_configs m) @
      o_list ''child_processes'' (\<lambda>c. JObj
        (o_int ''pid'' (cr_pid c) @ o_str ''pid_file'' (cr_pid_file c) @ o_str ''label'' (cr_label c) @
         o_str ''config_ref'' (cr_config_ref c) @ o_str ''start_time'' (cr_start_time c) @
         o_str ''owner'' (cr_owner c))) (rb_child_processes m))"

definition json_HealthResult :: "HealthResult \<Rightarrow> json" where
  "json_HealthResult h = JObj
     (o_str ''status'' (hr_status h) @ [(''checked_at'', JStr (hr_checked_at h))] @ o_str ''message'' (hr_message h))"

definition json_Transaction :: "Transaction \<Rightarrow> json" where
  "json_Transaction tx = JObj
     ([(''schema_version'', JStr (tx_schema_version tx)), (''owner'', JStr (tx_owner tx)),
       (''id'', JStr (tx_id tx))] @ o_str ''profile_id'' (tx_profile_id tx) @ o_str ''mode'' (tx_mode tx) @
      [(''state'', JStr (state_text (tx_state tx))), (''created_at'', JStr (tx_created_at tx)),
       (''updated_at'', JStr (tx_updated_at tx)),
       (''before_snapshot'', json_SnapshotMetadata (tx_before_snapshot tx)),
       (''desired_plan'', json_DesiredPlan (tx_desired_plan tx))] @
      o_list ''applied_steps'' json_AppliedStep (tx_applied_steps tx) @
      [(''rollback'', json_RollbackMetadata (tx_rollback tx)), (''health_result'', json_HealthResult (tx_health tx))] @
      o_str ''failure_reason'' (tx_failure_reason tx) @
      (if tx_labels tx = [] then [] else [(''labels'', JObj (map (\<lambda>(k, v). (k, JStr v)) (tx_labels tx)))]))"

subsection \<open>The secret pattern\<close>

text \<open>\<^verbatim>\<open>secretValuePattern\<close> is searched for at every position of the text.  Under the \<^verbatim>\<open>(?i)\<close> flag a
  letter also matches its other case, and \<^verbatim>\<open>s\<close> and \<^verbatim>\<open>k\<close> also match U+017F and U+212A.\<close>

definition ci_char :: "char \<Rightarrow> string \<Rightarrow> string option" where
  "ci_char p s =
     (case s of [] \<Rightarrow> None
      | c # r \<Rightarrow>
          if lower_char c = p then Some r
          else if p = CHR ''s'' \<and> prefix [CHR 0xC5, CHR 0xBF] s then Some (drop 2 s)
          else if p = CHR ''k'' \<and> prefix [CHR 0xE2, CHR 0x84, CHR 0xAA] s then Some (drop 3 s)
          else None)"

fun ci_lit :: "string \<Rightarrow> string \<Rightarrow> string option" where
  "ci_lit [] s = Some s"
| "ci_lit (p # ps) s = (case ci_char p s of None \<Rightarrow> None | Some r \<Rightarrow> ci_lit ps r)"

definition re_space :: "char \<Rightarrow> bool" where
  "re_space c = (c = CHR 0x09 \<or> c = CHR 0x0A \<or> c = CHR 0x0C \<or> c = CHR 0x0D \<or> c = CHR 0x20)"

definition re_word :: "char \<Rightarrow> bool" where
  "re_word c = (is_digit c \<or> (97 \<le> byte (lower_char c) \<and> byte (lower_char c) \<le> 122) \<or> c = CHR ''_'')"

definition word_boundary :: "char option \<Rightarrow> string \<Rightarrow> bool" where
  "word_boundary prev s =
     ((case prev of None \<Rightarrow> False | Some c \<Rightarrow> re_word c) \<noteq> (case s of [] \<Rightarrow> False | c # _ \<Rightarrow> re_word c))"

definition share_schemes :: "string list" where
  "share_schemes = [''vless://'', ''vmess://'', ''trojan://'', ''ss://'']"

definition secret_params :: "string list" where
  "secret_params =
     [''token='', ''password='', ''passwd='', ''secret='', ''api_key='', ''api-key='', ''apikey='',
      ''authorization='', ''private_key='', ''private-key='', ''privatekey='']"

definition http_schemes :: "string list" where
  "http_schemes = [''https://'', ''http://'']"

text \<open>After the scheme: \<^verbatim>\<open>[^\s?]+\?[^\s]+\<close>.\<close>

definition query_tail :: "string \<Rightarrow> bool" where
  "query_tail s =
     (let host = takeWhile (\<lambda>c. \<not> re_space c \<and> c \<noteq> CHR ''?'') s; rest = drop (length host) s in
      host \<noteq> [] \<and> (case rest of q # c # _ \<Rightarrow> q = CHR ''?'' \<and> \<not> re_space c | _ \<Rightarrow> False))"

definition bearer_char :: "string \<Rightarrow> bool" where
  "bearer_char s =
     (case s of [] \<Rightarrow> False
      | c # _ \<Rightarrow> (re_word c \<and> c \<noteq> CHR ''_'') \<or> c \<in> {CHR ''.'', CHR ''_'', CHR ''~'', CHR ''+'', CHR ''/'', CHR ''-''}
          \<or> prefix [CHR 0xC5, CHR 0xBF] s \<or> prefix [CHR 0xE2, CHR 0x84, CHR 0xAA] s)"

definition bearer_tail :: "string \<Rightarrow> bool" where
  "bearer_tail s = (takeWhile re_space s \<noteq> [] \<and> bearer_char (dropWhile re_space s))"

definition secret_at :: "char option \<Rightarrow> string \<Rightarrow> bool" where
  "secret_at prev s =
     (list_ex (\<lambda>w. ci_lit w s \<noteq> None) share_schemes \<or>
      list_ex (\<lambda>w. case ci_lit w s of None \<Rightarrow> False | Some r \<Rightarrow> query_tail r) http_schemes \<or>
      (word_boundary prev s \<and> (case ci_lit ''bearer'' s of None \<Rightarrow> False | Some r \<Rightarrow> bearer_tail r)) \<or>
      (word_boundary prev s \<and> list_ex (\<lambda>w. ci_lit w s \<noteq> None) secret_params))"

fun secret_from :: "char option \<Rightarrow> string \<Rightarrow> bool" where
  "secret_from prev s =
     (secret_at prev s \<or> (case s of [] \<Rightarrow> False | c # t \<Rightarrow> secret_from (Some c) t))"

declare secret_from.simps [simp del]

definition secretValuePattern :: "string \<Rightarrow> bool" where
  "secretValuePattern s = secret_from None s"

definition secretKeys :: "string list" where
  "secretKeys =
     [''token'', ''access_token'', ''refresh_token'', ''password'', ''passwd'', ''secret'', ''client_secret'',
      ''api_key'', ''apikey'', ''authorization'', ''private_key'', ''privatekey'', ''reality_private_key'']"

definition isSecretKey :: "string \<Rightarrow> bool" where
  "isSecretKey key =
     (to_lower (map (\<lambda>c. if c = CHR ''-'' then CHR ''_'' else c) (trim_space key)) \<in> set secretKeys)"

fun containsPersistentSecretValue :: "string \<Rightarrow> json \<Rightarrow> bool"
  and secret_members :: "(string \<times> json) list \<Rightarrow> bool"
  and secret_elements :: "string \<Rightarrow> json list \<Rightarrow> bool" where
  "containsPersistentSecretValue key (JObj kvs) = secret_members kvs"
| "containsPersistentSecretValue key (JArr vs) = secret_elements key vs"
| "containsPersistentSecretValue key (JStr v) =
     (if trim_space v = [] then False
      else if isSecretKey key then True else secretValuePattern (trim_space v))"
| "containsPersistentSecretValue key (JNum n) = False"
| "containsPersistentSecretValue key (JBool b) = False"
| "containsPersistentSecretValue key JNull = False"
| "secret_members [] = False"
| "secret_members ((k, v) # kvs) = (containsPersistentSecretValue k v \<or> secret_members kvs)"
| "secret_elements key [] = False"
| "secret_elements key (v # vs) = (containsPersistentSecretValue key v \<or> secret_elements key vs)"

definition containsPersistentSecret :: "Transaction \<Rightarrow> bool" where
  "containsPersistentSecret tx = containsPersistentSecretValue [] (json_Transaction tx)"

lemma secret_members_iff: "secret_members kvs \<longleftrightarrow> (\<exists>(k, v)\<in>set kvs. containsPersistentSecretValue k v)"
  by (induction kvs) auto

lemma secret_elements_iff: "secret_elements k vs \<longleftrightarrow> (\<exists>v\<in>set vs. containsPersistentSecretValue k v)"
  by (induction vs) auto

section \<open>Validation and the lifecycle\<close>

datatype tx_error =
    EmptyTransactionID
  | InvalidTransactionID string
  | UnsupportedSchema string
  | UnsupportedOwner string
  | InvalidTransactionState TransactionState
  | MissingCreatedAt
  | MissingUpdatedAt
  | PersistentSecret
  | InvalidTransition TransactionState TransactionState
  | TransactionNotExist string
  | DecodeTransaction string
  | CreateTransactionDirectory
  | EncodeTransaction
  | CreateTempFile
  | SetTempPermissions
  | WriteTempFile
  | SyncTempFile
  | CloseTempFile
  | ReplaceTransactionFile
  | SyncTransactionDirectory

definition id_start :: "char \<Rightarrow> bool" where
  "id_start c = (is_digit c \<or> (97 \<le> byte (lower_char c) \<and> byte (lower_char c) \<le> 122))"

definition id_char :: "char \<Rightarrow> bool" where
  "id_char c = (id_start c \<or> c = CHR ''_'' \<or> c = CHR ''.'' \<or> c = CHR ''-'')"

fun transactionIDPattern :: "string \<Rightarrow> bool" where
  "transactionIDPattern [] = False"
| "transactionIDPattern (c # s) = (id_start c \<and> list_all id_char s \<and> length s \<le> 127)"

definition validateTransactionID :: "string \<Rightarrow> tx_error option" where
  "validateTransactionID txid =
     (if trim_space txid = [] then Some EmptyTransactionID
      else if \<not> transactionIDPattern txid then Some (InvalidTransactionID txid) else None)"

fun validTransactionState :: "TransactionState \<Rightarrow> bool" where
  "validTransactionState (TransactionOther s) = False"
| "validTransactionState _ = True"

definition validTransition :: "TransactionState \<Rightarrow> TransactionState \<Rightarrow> bool" where
  "validTransition from to =
     (if from = to then validTransactionState from
      else case from of
        TransactionPlanned \<Rightarrow> to = TransactionApplying \<or> to = TransactionFailed \<or> to = TransactionRollingBack
      | TransactionApplying \<Rightarrow> to = TransactionApplied \<or> to = TransactionRollingBack \<or> to = TransactionFailed
      | TransactionApplied \<Rightarrow> to = TransactionVerifying \<or> to = TransactionRollingBack \<or> to = TransactionFailed
      | TransactionVerifying \<Rightarrow> to = TransactionCommitted \<or> to = TransactionRollingBack \<or> to = TransactionFailed
      | TransactionCommitted \<Rightarrow> to = TransactionRollingBack \<or> to = TransactionFailed
      | TransactionRollingBack \<Rightarrow> to = TransactionRolledBack \<or> to = TransactionFailed
      | TransactionFailed \<Rightarrow> to = TransactionRollingBack
      | TransactionRolledBack \<Rightarrow> False
      | TransactionOther s \<Rightarrow> False)"

definition ValidateTransaction :: "Transaction \<Rightarrow> tx_error option" where
  "ValidateTransaction tx =
     (if tx_schema_version tx \<noteq> TransactionSchemaVersion then Some (UnsupportedSchema (tx_schema_version tx))
      else if tx_owner tx \<noteq> TransactionOwner then Some (UnsupportedOwner (tx_owner tx))
      else case validateTransactionID (tx_id tx) of
        Some e \<Rightarrow> Some e
      | None \<Rightarrow>
          if \<not> validTransactionState (tx_state tx) then Some (InvalidTransactionState (tx_state tx))
          else if tx_created_at tx = zero_time then Some MissingCreatedAt
          else if tx_updated_at tx = zero_time then Some MissingUpdatedAt
          else if containsPersistentSecret tx then Some PersistentSecret
          else None)"

text \<open>\<^verbatim>\<open>Transition\<close> on the record in memory: the flag says whether the record changed.\<close>

definition TransitionTx ::
  "gotime \<Rightarrow> Transaction \<Rightarrow> TransactionState \<Rightarrow> gotime \<Rightarrow> tx_error + (Transaction \<times> bool)" where
  "TransitionTx clock tx next now =
     (if \<not> validTransition (tx_state tx) next then Inl (InvalidTransition (tx_state tx) next)
      else if tx_state tx = next then Inr (tx, False)
      else Inr (tx\<lparr>tx_state := next, tx_updated_at := or_now clock now\<rparr>, True))"

definition MarkFailure ::
  "gotime \<Rightarrow> Transaction \<Rightarrow> string \<Rightarrow> gotime \<Rightarrow> tx_error + (Transaction \<times> bool)" where
  "MarkFailure clock tx reason now =
     (case TransitionTx clock tx TransactionFailed now of
        Inl e \<Rightarrow> Inl e
      | Inr (tx', changed) \<Rightarrow>
          if trim_space reason \<noteq> [] then
            (let tx2 = tx'\<lparr>tx_failure_reason := trim_space reason\<rparr> in
             Inr (if changed then tx2 else tx2\<lparr>tx_updated_at := or_now clock now\<rparr>, True))
          else Inr (tx', changed))"

definition RequiresCleanup :: "Transaction \<Rightarrow> bool" where
  "RequiresCleanup tx =
     (tx_state tx \<in> {TransactionPlanned, TransactionApplying, TransactionApplied, TransactionVerifying,
                      TransactionRollingBack, TransactionFailed})"

definition RequiresRecovery :: "Transaction \<Rightarrow> bool" where
  "RequiresRecovery tx = (RequiresCleanup tx \<or> tx_state tx = TransactionCommitted)"

definition RollbackAvailable :: "RollbackMetadata \<Rightarrow> bool" where
  "RollbackAvailable m =
     (0 < length (rb_tun m) \<or> 0 < length (rb_tun_addresses m) \<or> 0 < length (rb_routes m) \<or>
      0 < length (rb_policy_rules m) \<or> 0 < length (rb_dns m) \<or> 0 < length (rb_nftables m) \<or>
      0 < length (rb_generated_configs m) \<or> 0 < length (rb_child_processes m))"

definition Summary :: "Transaction \<Rightarrow> string \<Rightarrow> TransactionSummary" where
  "Summary tx path =
     \<lparr>ts_id = tx_id tx, ts_state = tx_state tx, ts_path = path,
      ts_rollback_available = RollbackAvailable (tx_rollback tx),
      ts_requires_cleanup = RequiresCleanup tx, ts_requires_recovery = RequiresRecovery tx\<rparr>"

definition StatusLine :: "TransactionSummary \<Rightarrow> string" where
  "StatusLine s =
     (case ts_state s of
        TransactionPlanned \<Rightarrow> ''pending plan''
      | TransactionApplying \<Rightarrow> ''pending apply''
      | TransactionApplied \<Rightarrow> ''pending verification''
      | TransactionVerifying \<Rightarrow> ''pending verification''
      | TransactionCommitted \<Rightarrow> ''committed''
      | TransactionRollingBack \<Rightarrow> ''requires cleanup (rolling back)''
      | TransactionRolledBack \<Rightarrow> ''rolled back''
      | TransactionFailed \<Rightarrow> (if ts_requires_cleanup s then ''failed (requires cleanup)'' else ''failed'')
      | TransactionOther t \<Rightarrow> t)"

definition RollbackLine :: "TransactionSummary \<Rightarrow> string" where
  "RollbackLine s = (if ts_rollback_available s then ''yes'' else ''no'')"

section \<open>The store\<close>

text \<open>The transaction directory: \<^term>\<open>None\<close> before it exists, otherwise its entries by file name.  The
  content of a file is what \<^verbatim>\<open>json.Unmarshal\<close> makes of its bytes: a record, or nothing decodable.\<close>

datatype tx_content = TxDoc Transaction | TxRaw string

datatype dirent = SubDir | TxFile tx_content

type_synonym txdir = "(string \<times> dirent) list option"

record TransactionStore =
  st_runtime_dir :: string

text \<open>Which operating-system call of a save fails, the name \<^verbatim>\<open>os.CreateTemp\<close> chooses, whether the
  deferred removal of the temporary file works, and the clock.\<close>

datatype save_fault =
    NoFault | FaultMkdir | FaultEncode | FaultCreateTemp | FaultChmod | FaultWrite | FaultSync
  | FaultClose | FaultRename | FaultSyncDir

record save_env =
  ev_fault :: save_fault
  ev_tmp :: string
  ev_remove_ok :: bool
  ev_now :: gotime

definition store_runtime_dir :: "TransactionStore \<Rightarrow> string" where
  "store_runtime_dir s = (if st_runtime_dir s = [] then ''/run/podlaz'' else st_runtime_dir s)"

definition tx_file_name :: "string \<Rightarrow> string" where
  "tx_file_name txid = txid @ TransactionFileSuffix"

definition Path :: "TransactionStore \<Rightarrow> string \<Rightarrow> tx_error + string" where
  "Path s txid =
     (case validateTransactionID txid of
        Some e \<Rightarrow> Inl e
      | None \<Rightarrow> Inr (path_join [store_runtime_dir s, ''transactions'', tx_file_name txid]))"

definition dir_entries :: "txdir \<Rightarrow> (string \<times> dirent) list" where
  "dir_entries d = (case d of None \<Rightarrow> [] | Some es \<Rightarrow> es)"

definition dir_put :: "string \<Rightarrow> dirent \<Rightarrow> txdir \<Rightarrow> txdir" where
  "dir_put n x d = Some (AList.update n x (dir_entries d))"

definition dir_del :: "string \<Rightarrow> txdir \<Rightarrow> txdir" where
  "dir_del n d = Some (AList.delete n (dir_entries d))"

text \<open>The deferred function of \<^verbatim>\<open>Save\<close>: the temporary file goes away unless its removal fails.\<close>

definition abandon_tmp :: "save_env \<Rightarrow> txdir \<Rightarrow> txdir" where
  "abandon_tmp ev d = (if ev_remove_ok ev then dir_del (ev_tmp ev) d else d)"

text \<open>The bytes reach the file through a temporary file in the same directory.  \<^verbatim>\<open>os.CreateTemp\<close>
  opens with \<^verbatim>\<open>O_EXCL\<close>: a name that is taken, or that does not end in \<^verbatim>\<open>.tmp\<close> as its pattern
  demands, is a failed creation.\<close>

definition write_transaction :: "save_env \<Rightarrow> txdir \<Rightarrow> Transaction \<Rightarrow> txdir \<times> tx_error option" where
  "write_transaction ev d tx =
     (let name = tx_file_name (tx_id tx);
          d0 = Some (dir_entries d);
          part = dir_put (ev_tmp ev) (TxFile (TxRaw [])) d0;
          full = dir_put (ev_tmp ev) (TxFile (TxDoc tx)) d0;
          done = dir_put name (TxFile (TxDoc tx)) (dir_del (ev_tmp ev) full)
      in
      if ev_fault ev = FaultMkdir then (d, Some CreateTransactionDirectory)
      else if ev_fault ev = FaultEncode then (d0, Some EncodeTransaction)
      else if ev_fault ev = FaultCreateTemp \<or> map_of (dir_entries d) (ev_tmp ev) \<noteq> None \<or>
              \<not> suffix ''.tmp'' (ev_tmp ev)
        then (d0, Some CreateTempFile)
      else if ev_fault ev = FaultChmod then (abandon_tmp ev part, Some SetTempPermissions)
      else if ev_fault ev = FaultWrite then (abandon_tmp ev part, Some WriteTempFile)
      else if ev_fault ev = FaultSync then (abandon_tmp ev full, Some SyncTempFile)
      else if ev_fault ev = FaultClose then (abandon_tmp ev full, Some CloseTempFile)
      else if ev_fault ev = FaultRename \<or> map_of (dir_entries d) name = Some SubDir
        then (abandon_tmp ev full, Some ReplaceTransactionFile)
      else if ev_fault ev = FaultSyncDir then (done, Some SyncTransactionDirectory)
      else (done, None))"

text \<open>The record a save writes: defaults filled in and the update time set.\<close>

definition prepare_save :: "save_env \<Rightarrow> Transaction \<Rightarrow> Transaction" where
  "prepare_save ev tx =
     tx\<lparr>tx_schema_version := (if tx_schema_version tx = [] then TransactionSchemaVersion else tx_schema_version tx),
        tx_owner := (if tx_owner tx = [] then TransactionOwner else tx_owner tx),
        tx_created_at := or_now (ev_now ev) (tx_created_at tx),
        tx_updated_at := ev_now ev\<rparr>"

definition Save :: "TransactionStore \<Rightarrow> save_env \<Rightarrow> txdir \<Rightarrow> Transaction \<Rightarrow> txdir \<times> (tx_error + string)" where
  "Save s ev d tx =
     (let tx' = prepare_save ev tx in
      case ValidateTransaction tx' of
        Some e \<Rightarrow> (d, Inl e)
      | None \<Rightarrow>
          (case Path s (tx_id tx') of
             Inl e \<Rightarrow> (d, Inl e)
           | Inr path \<Rightarrow>
               (case write_transaction ev d tx' of
                  (d', Some e) \<Rightarrow> (d', Inl e)
                | (d', None) \<Rightarrow> (d', Inr path))))"

definition LoadTransactionFile :: "txdir \<Rightarrow> string \<Rightarrow> tx_error + Transaction" where
  "LoadTransactionFile d name =
     (case map_of (dir_entries d) name of
        None \<Rightarrow> Inl (TransactionNotExist name)
      | Some SubDir \<Rightarrow> Inl (DecodeTransaction name)
      | Some (TxFile (TxRaw bs)) \<Rightarrow> Inl (DecodeTransaction name)
      | Some (TxFile (TxDoc tx)) \<Rightarrow>
          (case ValidateTransaction tx of Some e \<Rightarrow> Inl e | None \<Rightarrow> Inr tx))"

definition Load :: "TransactionStore \<Rightarrow> txdir \<Rightarrow> string \<Rightarrow> tx_error + (Transaction \<times> string)" where
  "Load s d txid =
     rbind (Path s txid) (\<lambda>path. rbind (LoadTransactionFile d (tx_file_name txid)) (\<lambda>tx. Inr (tx, path)))"

definition StoreTransition ::
  "TransactionStore \<Rightarrow> save_env \<Rightarrow> txdir \<Rightarrow> string \<Rightarrow> TransactionState \<Rightarrow> txdir \<times> (tx_error + (Transaction \<times> string))" where
  "StoreTransition s ev d txid next =
     (case Load s d txid of
        Inl e \<Rightarrow> (d, Inl e)
      | Inr (tx, path) \<Rightarrow>
          (case TransitionTx (ev_now ev) tx next (ev_now ev) of
             Inl e \<Rightarrow> (d, Inl e)
           | Inr (tx', changed) \<Rightarrow>
               if \<not> changed then (d, Inr (tx', path))
               else (case Save s ev d tx' of
                       (d', Inl e) \<Rightarrow> (d', Inl e)
                     | (d', Inr path') \<Rightarrow> (d', Inr (tx', path')))))"

text \<open>The scan of the directory.  \<open>read_err\<close> is the error of \<^verbatim>\<open>os.ReadDir\<close> other than a missing
  directory; \<open>errtext\<close> renders an error.\<close>

definition summary_le :: "TransactionSummary \<Rightarrow> TransactionSummary \<Rightarrow> bool" where
  "summary_le a b =
     (if ts_state a = ts_state b then ts_id a \<le> ts_id b
      else state_text (ts_state a) \<le> state_text (ts_state b))"

definition is_tx_entry :: "string \<times> dirent \<Rightarrow> bool" where
  "is_tx_entry e = (snd e \<noteq> SubDir \<and> suffix TransactionFileSuffix (fst e))"

fun insert_summary :: "TransactionSummary \<Rightarrow> TransactionSummary list \<Rightarrow> TransactionSummary list" where
  "insert_summary x [] = [x]"
| "insert_summary x (y # ys) = (if summary_le x y then x # y # ys else y # insert_summary x ys)"

definition sort_summaries :: "TransactionSummary list \<Rightarrow> TransactionSummary list" where
  "sort_summaries xs = foldr insert_summary xs []"

definition file_warning :: "(tx_error \<Rightarrow> string) \<Rightarrow> string \<Rightarrow> tx_error \<Rightarrow> string" where
  "file_warning errtext p e = ''transaction file '' @ p @ '': '' @ errtext e"

definition ScanTransactions ::
  "(tx_error \<Rightarrow> string) \<Rightarrow> string \<Rightarrow> string option \<Rightarrow> txdir \<Rightarrow> TransactionSummary list \<times> string list" where
  "ScanTransactions errtext runtimeDir read_err d =
     (let dir = path_join [runtimeDir, ''transactions'']; path = (\<lambda>n. path_join [dir, n]) in
      case d of
        None \<Rightarrow> ([], [])
      | Some es \<Rightarrow>
          (case read_err of
             Some msg \<Rightarrow> ([], [''transaction directory '' @ dir @ '': '' @ msg])
           | None \<Rightarrow>
               let loaded = map (\<lambda>e. (path (fst e), LoadTransactionFile d (fst e))) (filter is_tx_entry es) in
               (sort_summaries (concat (map (\<lambda>(p, r). case r of Inr tx \<Rightarrow> [Summary tx p] | Inl e \<Rightarrow> []) loaded)),
                sort (concat (map (\<lambda>(p, r). case r of
                        Inl e \<Rightarrow> [file_warning errtext p e] | Inr tx \<Rightarrow> []) loaded)))))"

definition Scan ::
  "(tx_error \<Rightarrow> string) \<Rightarrow> TransactionStore \<Rightarrow> string option \<Rightarrow> txdir \<Rightarrow> TransactionSummary list \<times> string list" where
  "Scan errtext s read_err d = ScanTransactions errtext (store_runtime_dir s) read_err d"

end
