(* ===== verification/Transaction_Facts.thy ===== *)
theory Transaction_Facts
  imports Transaction
begin

text \<open>
  Facts about the transaction record: the lifecycle graph (order of the phases, the absorbing
  final state, the way back from every state), what the secret screen keeps off the disk, and the
  store as an instance of the interface of durable records.
\<close>

section \<open>The lifecycle\<close>

inductive tx_history :: "TransactionState list \<Rightarrow> bool" where
  history_start: "tx_history [TransactionPlanned]"
| history_step: "tx_history (s # h) \<Longrightarrow> validTransition s t \<Longrightarrow> tx_history (t # s # h)"

inductive_cases history_ConsE: "tx_history (t # s # h)"

lemma validTransition_valid: "validTransition s t \<Longrightarrow> validTransactionState s \<and> validTransactionState t"
  by (cases s; cases t) (auto simp: validTransition_def split: if_splits)

lemma history_nonempty: "tx_history h \<Longrightarrow> h \<noteq> []"
  by (induction rule: tx_history.induct) auto

lemma history_valid: "tx_history h \<Longrightarrow> \<forall>s\<in>set h. validTransactionState s"
  by (induction rule: tx_history.induct) (auto dest: validTransition_valid)

text \<open>The phases every history must have passed to be in a state.\<close>

fun phases_before :: "TransactionState \<Rightarrow> TransactionState list" where
  "phases_before TransactionPlanned = [TransactionPlanned]"
| "phases_before TransactionApplying = [TransactionPlanned, TransactionApplying]"
| "phases_before TransactionApplied = [TransactionPlanned, TransactionApplying, TransactionApplied]"
| "phases_before TransactionVerifying =
     [TransactionPlanned, TransactionApplying, TransactionApplied, TransactionVerifying]"
| "phases_before TransactionCommitted =
     [TransactionPlanned, TransactionApplying, TransactionApplied, TransactionVerifying, TransactionCommitted]"
| "phases_before TransactionRolledBack = [TransactionPlanned, TransactionRollingBack, TransactionRolledBack]"
| "phases_before _ = [TransactionPlanned]"

lemma phases_step:
  assumes "validTransition s t"
  shows "phases_before t = phases_before s \<or> phases_before t = phases_before s @ [t] \<or>
    phases_before t = [TransactionPlanned] \<or> (s = TransactionRollingBack \<and> t = TransactionRolledBack)"
  using assms by (cases s; cases t) (auto simp: validTransition_def split: if_splits)

lemma history_ends_planned: "tx_history h \<Longrightarrow> \<exists>g. h = g @ [TransactionPlanned]"
  by (induction rule: tx_history.induct) auto

lemma history_phases: "tx_history h \<Longrightarrow> subseq (phases_before (hd h)) (rev h)"
proof (induction rule: tx_history.induct)
  case history_start
  show ?case by simp
next
  case (history_step s h t)
  let ?old = "rev (s # h)"
  obtain g where g: "s # h = g @ [TransactionPlanned]"
    using history_ends_planned [OF history_step.hyps(1)] by blast
  have p: "subseq [TransactionPlanned] (?old @ [t])"
    unfolding g by (simp add: subseq_singleton_left)
  have rolled: "subseq [TransactionPlanned, TransactionRollingBack, TransactionRolledBack] (?old @ [t])"
    if "s = TransactionRollingBack" "t = TransactionRolledBack"
  proof -
    have "g \<noteq> []" using g that by (cases g) auto
    then have "?old = TransactionPlanned # rev (tl g) @ [s]"
      using g by (cases g) auto
    then show ?thesis using that by (auto simp: subseq_singleton_left intro!: list_emb_append_mono)
  qed
  have keep: "subseq (phases_before s) (?old @ [t])"
    using list_emb_prefix [OF history_step.IH] by simp
  have grow: "subseq (phases_before s @ [t]) (?old @ [t])"
    using list_emb_append_mono [OF history_step.IH, of "[t]" "[t]"] by simp
  from phases_step [OF history_step.hyps(2)] have "subseq (phases_before t) (?old @ [t])"
    using keep grow p rolled by (elim disjE) auto
  then show ?case by simp
qed




lemma requires_recovery_iff:
  "RequiresRecovery tx \<longleftrightarrow> validTransactionState (tx_state tx) \<and> tx_state tx \<noteq> TransactionRolledBack"
  by (cases "tx_state tx") (auto simp: RequiresRecovery_def RequiresCleanup_def)

lemma TransitionTx_Inr:
  "TransitionTx c tx next now = Inr (tx', ch) \<Longrightarrow>
     validTransition (tx_state tx) next \<and> tx_state tx' = next \<and> tx_id tx' = tx_id tx \<and>
     tx_labels tx' = tx_labels tx \<and> (\<not> ch \<longrightarrow> tx' = tx)"
  by (auto simp: TransitionTx_def split: if_splits)

section \<open>Validation\<close>

lemma ValidateTransaction_None:
  "ValidateTransaction tx = None \<longleftrightarrow>
     tx_schema_version tx = TransactionSchemaVersion \<and> tx_owner tx = TransactionOwner \<and>
     validateTransactionID (tx_id tx) = None \<and> validTransactionState (tx_state tx) \<and>
     tx_created_at tx \<noteq> zero_time \<and> tx_updated_at tx \<noteq> zero_time \<and> \<not> containsPersistentSecret tx"
  by (auto simp: ValidateTransaction_def split: option.splits)

lemma tx_file_name_inj: "tx_file_name a = tx_file_name b \<longleftrightarrow> a = b"
  by (simp add: tx_file_name_def)

lemma tx_file_name_not_tmp: "suffix ''.tmp'' t \<Longrightarrow> tx_file_name a \<noteq> t"
  by (auto simp: tx_file_name_def TransactionFileSuffix_def suffix_def)

section \<open>What the secret screen needs to see\<close>

lemma lower_char_low: "byte (lower_char c) < 97 \<Longrightarrow> lower_char c = c"
  by (cases "65 \<le> byte c \<and> byte c \<le> 90") (auto simp: lower_char_def)

lemma ci_char_rest: "ci_char p s = Some r \<Longrightarrow> set r \<subseteq> set s"
  by (auto simp: ci_char_def split: list.splits if_splits dest: in_set_dropD)

lemma ci_char_sep: "ci_char p s = Some r \<Longrightarrow> byte p < 97 \<Longrightarrow> p \<in> set s"
  using lower_char_low by (cases s) (auto simp: ci_char_def split: if_splits)

lemma ci_lit_sep: "ci_lit w s = Some r \<Longrightarrow> p \<in> set w \<Longrightarrow> byte p < 97 \<Longrightarrow> p \<in> set s"
proof (induction w s rule: ci_lit.induct)
  case (2 q ps s)
  then show ?case
    by (auto split: option.splits dest: ci_char_sep ci_char_rest)
qed simp

lemma ci_lit_rest: "ci_lit w s = Some r \<Longrightarrow> set r \<subseteq> set s"
proof (induction w s rule: ci_lit.induct)
  case (2 q ps s)
  then show ?case by (auto split: option.splits dest!: ci_char_rest)
qed simp

lemma secret_at_needs:
  assumes "secret_at prev s"
  shows "CHR ''/'' \<in> set s \<or> CHR ''='' \<in> set s \<or> (\<exists>c\<in>set s. re_space c)"
proof -
  have schemes: "\<forall>w\<in>set share_schemes \<union> set http_schemes. CHR ''/'' \<in> set w"
    and params: "\<forall>w\<in>set secret_params. CHR ''='' \<in> set w"
    by (simp_all add: share_schemes_def http_schemes_def secret_params_def)
  from assms consider w r where "w \<in> set share_schemes \<union> set http_schemes" "ci_lit w s = Some r"
    | b r where "ci_lit b s = Some r" "bearer_tail r"
    | w r where "w \<in> set secret_params" "ci_lit w s = Some r"
    unfolding secret_at_def list_ex_iff by (auto simp del: ci_lit.simps split: option.splits)
  then show ?thesis
  proof cases
    case 1
    with schemes ci_lit_sep [OF 1(2), of "CHR ''/''"] show ?thesis by simp
  next
    case 2
    then obtain c where "c \<in> set (takeWhile re_space r)"
      by (cases "takeWhile re_space r") (auto simp: bearer_tail_def)
    then have "re_space c" "c \<in> set r" by (auto dest: set_takeWhileD)
    with ci_lit_rest [OF 2(1)] show ?thesis by blast
  next
    case 3
    with params ci_lit_sep [OF 3(2), of "CHR ''=''"] show ?thesis by simp
  qed
qed

lemma secret_from_needs:
  "secret_from prev s \<Longrightarrow> CHR ''/'' \<in> set s \<or> CHR ''='' \<in> set s \<or> (\<exists>c\<in>set s. re_space c)"
proof (induction prev s rule: secret_from.induct)
  case (1 prev s)
  show ?case
  proof (cases "secret_at prev s")
    case True
    then show ?thesis by (rule secret_at_needs)
  next
    case False
    from 1(2) False have "case s of [] \<Rightarrow> False | c # t \<Rightarrow> secret_from (Some c) t"
      by (subst (asm) secret_from.simps) simp
    then obtain c t where "s = c # t" "secret_from (Some c) t" by (auto split: list.splits)
    with 1(1) [OF this] show ?thesis by auto
  qed
qed

definition harmless :: "string \<Rightarrow> bool" where
  "harmless s = list_all (\<lambda>c. c \<noteq> CHR ''/'' \<and> c \<noteq> CHR ''='' \<and> 33 \<le> byte c \<and> byte c \<le> 126) s"

lemma harmless_no_secret: "harmless s \<Longrightarrow> \<not> secretValuePattern s"
proof
  assume h: "harmless s" and "secretValuePattern s"
  then have "secret_from None s" by (simp add: secretValuePattern_def)
  then obtain c where "c \<in> set s" "c = CHR ''/'' \<or> c = CHR ''='' \<or> re_space c"
    using secret_from_needs by blast
  moreover from this(1) h have "c \<noteq> CHR ''/''" "c \<noteq> CHR ''=''" "33 \<le> byte c"
    by (auto simp: harmless_def list_all_iff)
  ultimately show False by (auto simp: re_space_def)
qed

section \<open>The store keeps durable records\<close>

definition tx_load :: "txdir \<Rightarrow> string \<Rightarrow> Transaction option" where
  "tx_load d k = (case LoadTransactionFile d (tx_file_name k) of Inl e \<Rightarrow> None | Inr tx \<Rightarrow> Some tx)"

definition tx_save :: "save_env \<Rightarrow> txdir \<Rightarrow> string \<Rightarrow> Transaction \<Rightarrow> txdir \<times> bool" where
  "tx_save ev d k tx =
     (if ValidateTransaction tx = None \<and> tx_id tx = k
      then (fst (write_transaction ev d tx), snd (write_transaction ev d tx) = None)
      else (d, False))"

lemma dir_entries_simps [simp]:
  "dir_entries (Some es) = es" "dir_entries None = []"
  "map_of (dir_entries (dir_put n x d)) = (map_of (dir_entries d))(n \<mapsto> x)"
  "map_of (dir_entries (dir_del n d)) = (map_of (dir_entries d))(n := None)"
  by (simp_all add: dir_entries_def dir_put_def dir_del_def update_conv' delete_conv')

lemma abandon_tmp_other:
  "n \<noteq> ev_tmp ev \<Longrightarrow> map_of (dir_entries (abandon_tmp ev d)) n = map_of (dir_entries d) n"
  by (simp add: abandon_tmp_def)

lemma LoadTransactionFile_cong:
  "map_of (dir_entries d) n = map_of (dir_entries d') n \<Longrightarrow> LoadTransactionFile d n = LoadTransactionFile d' n"
  by (simp add: LoadTransactionFile_def)

text \<open>One write, as seen through the file names that are not the temporary one.\<close>

lemma write_transaction_view:
  assumes "write_transaction ev d tx = (d', e)" and "n = tx_file_name k"
  shows "map_of (dir_entries d') n =
    (if n = tx_file_name (tx_id tx) \<and> (e = None \<or> e = Some SyncTransactionDirectory)
     then Some (TxFile (TxDoc tx)) else map_of (dir_entries d) n)"
proof -
  have "suffix ''.tmp'' (ev_tmp ev) \<Longrightarrow> n \<noteq> ev_tmp ev"
    unfolding assms(2) by (rule tx_file_name_not_tmp)
  with assms(1) show ?thesis
    unfolding write_transaction_def Let_def
    by (auto simp: abandon_tmp_other split: if_splits)
qed

interpretation txs: durable_store tx_load tx_save
proof
  fix f d k r d'
  assume "tx_save f d k r = (d', True)"
  then have "ValidateTransaction r = None" "tx_id r = k" "write_transaction f d r = (d', None)"
    by (auto simp: tx_save_def prod_eq_iff split: if_splits)
  with write_transaction_view [OF this(3) refl, of k] show "tx_load d' k = Some r"
    by (simp add: tx_load_def LoadTransactionFile_def)
next
  fix f d k r d'
  assume a: "tx_save f d k r = (d', False)"
  show "tx_load d' k = tx_load d k \<or> tx_load d' k = Some r"
  proof (cases "ValidateTransaction r = None \<and> tx_id r = k")
    case True
    with a obtain e where w: "write_transaction f d r = (d', e)"
      by (auto simp: tx_save_def prod_eq_iff split: if_splits)
    from write_transaction_view [OF w refl, of k] True show ?thesis
      by (auto simp: tx_load_def LoadTransactionFile_def split: if_splits)
  next
    case False
    with a show ?thesis by (auto simp: tx_save_def)
  qed
next
  fix f d k r d' b j
  assume a: "tx_save f d k r = (d', b)" and "j \<noteq> k"
  show "tx_load d' j = tx_load d j"
  proof (cases "ValidateTransaction r = None \<and> tx_id r = k")
    case True
    with a obtain e where w: "write_transaction f d r = (d', e)"
      by (auto simp: tx_save_def prod_eq_iff split: if_splits)
    from write_transaction_view [OF w refl, of j] True \<open>j \<noteq> k\<close> show ?thesis
      by (simp add: tx_load_def LoadTransactionFile_def tx_file_name_inj)
  next
    case False
    with a show ?thesis by (auto simp: tx_save_def)
  qed
qed

lemma prepare_save_id [simp]: "tx_id (prepare_save ev tx) = tx_id tx"
  by (simp add: prepare_save_def)

lemma Path_valid: "validateTransactionID k = None \<Longrightarrow> \<exists>p. Path s k = Inr p"
  by (simp add: Path_def)

lemma Save_cases:
  assumes "Save s ev d tx = (d', r)"
  shows "(ValidateTransaction (prepare_save ev tx) \<noteq> None \<and> d' = d \<and> (\<exists>e. r = Inl e)) \<or>
     (ValidateTransaction (prepare_save ev tx) = None \<and>
      (\<exists>e. write_transaction ev d (prepare_save ev tx) = (d', e) \<and>
           (case e of Some x \<Rightarrow> r = Inl x
            | None \<Rightarrow> Path s (tx_id tx) = r \<and> (\<exists>p. r = Inr p))))"
proof (cases "ValidateTransaction (prepare_save ev tx)")
  case None
  then have "validateTransactionID (tx_id tx) = None"
    by (simp add: ValidateTransaction_None)
  then obtain p where "Path s (tx_id tx) = Inr p" using Path_valid by blast
  moreover obtain d1 e where "write_transaction ev d (prepare_save ev tx) = (d1, e)" by fastforce
  ultimately show ?thesis using assms None by (cases e) (simp_all add: Save_def Let_def, metis)
next
  case (Some e)
  with assms show ?thesis by (auto simp: Save_def Let_def)
qed

lemma Load_iff:
  "Load s d k = Inr (tx, p) \<longleftrightarrow> Path s k = Inr p \<and> tx_load d k = Some tx"
  by (auto simp: Load_def tx_load_def rbind_def split: sum.splits)

lemma Load_cong:
  "LoadTransactionFile d (tx_file_name k) = LoadTransactionFile d' (tx_file_name k) \<Longrightarrow> Load s d k = Load s d' k"
  by (simp add: Load_def)

lemma Save_view:
  assumes "Save s ev d tx = (d', r)"
  shows "Load s d' k = Load s d k \<or>
    (k = tx_id tx \<and> ValidateTransaction (prepare_save ev tx) = None \<and>
     (\<exists>p. Path s k = Inr p \<and> Load s d' k = Inr (prepare_save ev tx, p)))"
  using Save_cases [OF assms]
proof (elim disjE conjE exE, goal_cases)
  case 1
  then show ?case by simp
next
  case (2 e)
  let ?n = "tx_file_name k"
  from write_transaction_view [OF 2(2) refl, of k]
  consider "map_of (dir_entries d') ?n = map_of (dir_entries d) ?n"
    | "k = tx_id tx" "map_of (dir_entries d') ?n = Some (TxFile (TxDoc (prepare_save ev tx)))"
    by (auto simp: tx_file_name_inj split: if_splits)
  then show ?case
  proof cases
    case 1
    then show ?thesis by (blast intro: Load_cong LoadTransactionFile_cong)
  next
    case new: 2
    have "validateTransactionID k = None"
      using 2(1) new(1) by (simp add: ValidateTransaction_None)
    then obtain p where "Path s k = Inr p" using Path_valid by blast
    moreover have "LoadTransactionFile d' ?n = Inr (prepare_save ev tx)"
      using new(2) 2(1) by (simp add: LoadTransactionFile_def)
    ultimately show ?thesis using 2(1) new(1) by (simp add: Load_def)
  qed
qed

lemma Save_stored:
  assumes "Save s ev d tx = (d', Inr path)"
  shows "tx_load d' (tx_id tx) = Some (prepare_save ev tx)" "Path s (tx_id tx) = Inr path"
proof -
  from Save_cases [OF assms] have v: "ValidateTransaction (prepare_save ev tx) = None"
    and w: "write_transaction ev d (prepare_save ev tx) = (d', None)"
    and p: "Path s (tx_id tx) = Inr path"
    by (auto split: option.splits)
  from v w have "tx_save ev d (tx_id tx) (prepare_save ev tx) = (d', True)"
    by (simp add: tx_save_def)
  then show "tx_load d' (tx_id tx) = Some (prepare_save ev tx)" by (rule txs.save_ok)
  show "Path s (tx_id tx) = Inr path" by (rule p)
qed


definition demo_env :: save_env where
  "demo_env = \<lparr>ev_fault = NoFault, ev_tmp = ''.t1-7.tmp'', ev_remove_ok = True, ev_now = ''2026-01-01T00:00:00Z''\<rparr>"

definition demo_tx :: Transaction where
  "demo_tx = NewTransaction ''2026-01-01T00:00:00Z'' ''t1'' ''work'' ''tun'' zero_time"

definition demo_store :: TransactionStore where
  "demo_store = \<lparr>st_runtime_dir = ''/run/podlaz''\<rparr>"

lemmas json_defs =
  json_Transaction_def json_SnapshotMetadata_def json_DesiredPlan_def json_TUN_def json_TUNAddress_def
  json_DNSPlan_def json_NFTPlan_def json_CorePlan_def json_RollbackMetadata_def json_HealthResult_def
  o_str_def o_int_def o_bool_def o_list_def

lemmas demo_defs =
  demo_tx_def demo_env_def NewTransaction_def zero_snapshot_def zero_plan_def zero_rollback_def
  zero_health_def or_now_def zero_time_def TransactionSchemaVersion_def TransactionOwner_def

lemma demo_secret_free: "\<not> containsPersistentSecret demo_tx"
  by (simp add: containsPersistentSecret_def json_defs demo_defs harmless_no_secret harmless_def
      isSecretKey_def secretKeys_def lower_char_def)

lemma demo_id: "validateTransactionID ''t1'' = None"
  by (simp add: validateTransactionID_def id_start_def id_char_def is_digit_def lower_char_def)

lemma demo_prepare: "prepare_save demo_env demo_tx = demo_tx"
  by (simp add: prepare_save_def demo_defs)

lemma demo_valid: "ValidateTransaction demo_tx = None"
proof -
  have "validateTransactionID (tx_id demo_tx) = None" by (simp add: demo_defs demo_id)
  moreover have "tx_created_at demo_tx \<noteq> zero_time" "tx_updated_at demo_tx \<noteq> zero_time"
    by (simp_all add: demo_defs)
  ultimately show ?thesis
    using demo_secret_free by (simp add: ValidateTransaction_None) (simp add: demo_tx_def NewTransaction_def)
qed

lemma demo_path: "Path demo_store ''t1'' = Inr ''/run/podlaz/transactions/t1.json''"
  by (simp add: Path_def demo_id store_runtime_dir_def demo_store_def tx_file_name_def
      TransactionFileSuffix_def path_join_def path_clean_def path_comps_def rooted_def)

lemma demo_save:
  "Save demo_store demo_env None demo_tx =
     (Some [(''t1.json'', TxFile (TxDoc demo_tx))], Inr ''/run/podlaz/transactions/t1.json'')"
proof -
  have i: "tx_id demo_tx = ''t1''" by (simp add: demo_tx_def NewTransaction_def)
  have "write_transaction demo_env None demo_tx = (Some [(''t1.json'', TxFile (TxDoc demo_tx))], None)"
    by (simp add: write_transaction_def Let_def i tx_file_name_def TransactionFileSuffix_def demo_env_def
        dir_put_def dir_del_def suffix_def dir_entries_def)
  with i show ?thesis
    by (simp add: Save_def Let_def demo_prepare demo_valid demo_path)
qed


text \<open>A sequence of saves, each with its own environment.\<close>

fun save_many :: "TransactionStore \<Rightarrow> txdir \<Rightarrow> (save_env \<times> Transaction) list \<Rightarrow> txdir" where
  "save_many s d [] = d"
| "save_many s d ((ev, tx) # ws) = save_many s (fst (Save s ev d tx)) ws"

lemma fst_Save: "fst (Save s ev d tx) = fst (tx_save ev d (tx_id tx) (prepare_save ev tx))"
proof -
  obtain d' r where "Save s ev d tx = (d', r)" by fastforce
  with Save_cases [OF this] show ?thesis by (auto simp: tx_save_def)
qed

lemma save_many_save_all:
  "save_many s d ws = txs.save_all d (map (\<lambda>(ev, tx). (ev, tx_id tx, prepare_save ev tx)) ws)"
  by (induction s d ws rule: save_many.induct) (simp_all add: fst_Save)

text \<open>C21: Whatever operating-system call fails in whatever sequence of saves, the record that a load sees
  under an identifier is the one from before the sequence or one of the complete records that were
  saved under that identifier: a record is never torn and never mixed up with another one.\<close>

theorem saves_never_tear:
  "tx_load (save_many s d ws) k = tx_load d k \<or>
   (\<exists>ev tx. (ev, tx) \<in> set ws \<and> tx_id tx = k \<and> tx_load (save_many s d ws) k = Some (prepare_save ev tx))"
  using txs.never_torn [of d "map (\<lambda>(ev, tx). (ev, tx_id tx, prepare_save ev tx)) ws" k]
  unfolding save_many_save_all by auto

subsection \<open>No secret reaches the disk\<close>

definition entry_clean :: "string \<times> dirent \<Rightarrow> bool" where
  "entry_clean e = (case snd e of TxFile (TxDoc tx) \<Rightarrow> \<not> containsPersistentSecret tx | _ \<Rightarrow> True)"

definition secret_free :: "txdir \<Rightarrow> bool" where
  "secret_free d = list_all entry_clean (dir_entries d)"

lemma list_all_update: "list_all P es \<Longrightarrow> P (n, x) \<Longrightarrow> list_all P (AList.update n x es)"
  by (induction es) auto

lemma list_all_delete: "list_all P es \<Longrightarrow> list_all P (AList.delete n es)"
  by (induction es) auto

lemma secret_free_put: "secret_free d \<Longrightarrow> entry_clean (n, x) \<Longrightarrow> secret_free (dir_put n x d)"
  by (simp add: secret_free_def dir_put_def list_all_update)

lemma secret_free_del: "secret_free d \<Longrightarrow> secret_free (dir_del n d)"
  by (simp add: secret_free_def dir_del_def list_all_delete)

lemma secret_free_entries: "secret_free (Some (dir_entries d)) = secret_free d"
  by (simp add: secret_free_def)

lemma secret_free_write:
  assumes "secret_free d" and "\<not> containsPersistentSecret tx"
  shows "secret_free (fst (write_transaction ev d tx))"
proof -
  have [simp]: "entry_clean (n, TxFile (TxDoc tx))" "entry_clean (n, TxFile (TxRaw []))" for n
    using assms(2) by (simp_all add: entry_clean_def)
  show ?thesis
    using assms(1) unfolding write_transaction_def Let_def abandon_tmp_def
    by (simp add: secret_free_put secret_free_del secret_free_entries)
qed

lemma secret_free_Save: "secret_free d \<Longrightarrow> secret_free (fst (Save s ev d tx))"
  by (simp add: fst_Save tx_save_def secret_free_write ValidateTransaction_None)

text \<open>C22: No sequence of saves puts a record that the secret screen rejects on the disk, not even in a
  temporary file; in particular a record with a label under a secret key and a non-blank value is
  refused with the directory untouched.\<close>

theorem no_secret_on_disk:
  assumes "secret_free d"
  shows "secret_free (save_many s d ws) \<and>
    (\<forall>k v ev (tx :: Transaction). (k, v) \<in> set (tx_labels tx) \<longrightarrow> isSecretKey k \<longrightarrow> trim_space v \<noteq> [] \<longrightarrow>
       (\<exists>e. Save s ev d tx = (d, Inl e)))"
proof (intro conjI allI impI)
  show "secret_free (save_many s d ws)"
    using assms by (induction s d ws rule: save_many.induct) (simp_all add: secret_free_Save)
next
  fix k v ev and tx :: Transaction
  assume "(k, v) \<in> set (tx_labels tx)" and "isSecretKey k" and "trim_space v \<noteq> []"
  then have "secret_members (map (\<lambda>(k, v). (k, JStr v)) (tx_labels (prepare_save ev tx)))"
    by (auto simp: secret_members_iff prepare_save_def intro!: bexI [of _ "(k, v)"])
  moreover have "tx_labels (prepare_save ev tx) \<noteq> []"
    using \<open>(k, v) \<in> set (tx_labels tx)\<close> by (auto simp: prepare_save_def)
  ultimately have "containsPersistentSecret (prepare_save ev tx)"
    by (simp add: containsPersistentSecret_def json_Transaction_def secret_members_iff
        bex_Un)
  then have "ValidateTransaction (prepare_save ev tx) \<noteq> None"
    by (simp add: ValidateTransaction_None)
  then show "\<exists>e. Save s ev d tx = (d, Inl e)" by (auto simp: Save_def Let_def)
qed

theorem no_secret_on_disk_witness:
  "secret_free None \<and> secret_free (save_many demo_store None [(demo_env, demo_tx)]) \<and>
   (\<exists>e. Save demo_store demo_env None (demo_tx\<lparr>tx_labels := [(''api-key'', ''x'')]\<rparr>) = (None, Inl e))"
proof -
  have f: "secret_free None" by (simp add: secret_free_def)
  have k: "isSecretKey ''api-key''" by (simp add: isSecretKey_def secretKeys_def lower_char_def)
  have m: "(''api-key'', ''x'') \<in> set (tx_labels (demo_tx\<lparr>tx_labels := [(''api-key'', ''x'')]\<rparr>))" by simp
  have v: "trim_space ''x'' \<noteq> []" by simp
  note t = no_secret_on_disk [OF f, of demo_store "[(demo_env, demo_tx)]"]
  from t have "secret_free (save_many demo_store None [(demo_env, demo_tx)])" by blast
  moreover from t k m v
  have "\<exists>e. Save demo_store demo_env None (demo_tx\<lparr>tx_labels := [(''api-key'', ''x'')]\<rparr>) = (None, Inl e)"
    by blast
  ultimately show ?thesis using f by blast
qed

subsection \<open>Transitions in the store\<close>

text \<open>A transition of a stored transaction keeps the lifecycle: whichever call fails, the state on
  disk afterwards is the old one or the requested one, and it is the requested one only along an edge
  of the lifecycle graph; a reported success means the requested state is on disk; every other
  transaction is untouched.\<close>

theorem store_transition_follows_lifecycle:
  assumes "StoreTransition s ev d k next = (d', r)" and "tx_load d k = Some tx" and "tx_id tx = k"
  shows "(\<exists>tx'. tx_load d' k = Some tx' \<and> (tx' = tx \<or> tx_state tx' = next \<and> validTransition (tx_state tx) next)) \<and>
    (\<forall>y. r = Inr y \<longrightarrow> map_option tx_state (tx_load d' k) = Some next) \<and>
    (\<forall>j. j \<noteq> k \<longrightarrow> tx_load d' j = tx_load d j)"
proof -
  have trivial: ?thesis if "d' = d" "\<And>y. r = Inr y \<Longrightarrow> tx_state tx = next"
    using that assms(2) by auto
  show ?thesis
  proof (cases "Load s d k")
    case (Inl e)
    with assms(1) show ?thesis by (intro trivial) (simp_all add: StoreTransition_def)
  next
    case (Inr z)
    obtain t p where "z = (t, p)" by fastforce
    with Inr assms(2) have l: "Load s d k = Inr (tx, p)" by (auto simp: Load_iff)
    show ?thesis
    proof (cases "TransitionTx (ev_now ev) tx next (ev_now ev)")
      case (Inl e)
      with assms(1) l show ?thesis by (intro trivial) (simp_all add: StoreTransition_def)
    next
      case (Inr y)
      obtain tx1 ch where y: "y = (tx1, ch)" by fastforce
      note t1 = TransitionTx_Inr [OF Inr [unfolded y]]
      show ?thesis
      proof (cases ch)
        case False
        with t1 have "tx_state tx = next" by blast
        with False assms(1) l Inr y t1 show ?thesis by (intro trivial) (simp_all add: StoreTransition_def)
      next
        case True
        obtain d1 r1 where sv: "Save s ev d tx1 = (d1, r1)" by fastforce
        with assms(1) l Inr y True have d1: "d1 = d'" and r1: "\<And>y. r = Inr y \<Longrightarrow> \<exists>p. r1 = Inr p"
          by (auto simp: StoreTransition_def split: sum.splits)
        have st: "tx_state (prepare_save ev tx1) = next" using t1 by (simp add: prepare_save_def)
        have eq: "fst (tx_save ev d (tx_id tx1) (prepare_save ev tx1)) = d'"
          using sv d1 by (simp flip: fst_Save [of s])
        have view: "tx_load d' j = tx_load d j \<or> j = tx_id tx1 \<and> tx_load d' j = Some (prepare_save ev tx1)" for j
          using txs.load_save [of ev d "tx_id tx1" "prepare_save ev tx1" j] unfolding eq .
        have ok: "map_option tx_state (tx_load d' k) = Some next" if "r = Inr y" for y
        proof -
          from r1 [OF that] obtain p where "r1 = Inr p" by blast
          with Save_stored(1) [of s ev d tx1 d' p] sv d1 t1 assms(3) have "tx_load d' k = Some (prepare_save ev tx1)"
            by simp
          with st show ?thesis by simp
        qed
        show ?thesis
          using view [of k] view assms(2,3) st t1 ok by auto
      qed
    qed
  qed
qed

lemma demo_load: "tx_load (Some [(''t1.json'', TxFile (TxDoc demo_tx))]) ''t1'' = Some demo_tx"
  by (simp add: tx_load_def LoadTransactionFile_def tx_file_name_def TransactionFileSuffix_def demo_valid)

theorem store_transition_follows_lifecycle_witness:
  "\<exists>tx'. tx_load (fst (StoreTransition demo_store demo_env (Some [(''t1.json'', TxFile (TxDoc demo_tx))]) ''t1'' TransactionApplying)) ''t1'' = Some tx'"
proof -
  have i: "tx_id demo_tx = ''t1''" by (simp add: demo_tx_def NewTransaction_def)
  obtain d' r where st: "StoreTransition demo_store demo_env (Some [(''t1.json'', TxFile (TxDoc demo_tx))]) ''t1'' TransactionApplying = (d', r)"
    by fastforce
  from store_transition_follows_lifecycle [OF st demo_load i] show ?thesis unfolding st by auto
qed

subsection \<open>The scan\<close>

lemma summary_le_linear: "summary_le a b \<or> summary_le b a"
  by (auto simp: summary_le_def)

lemma state_text_inj:
  "validTransactionState a \<Longrightarrow> validTransactionState b \<Longrightarrow> state_text a = state_text b \<Longrightarrow> a = b"
  by (cases a; cases b) simp_all

lemma mset_insert_summary: "mset (insert_summary x xs) = add_mset x (mset xs)"
  by (induction xs) auto

lemma mset_sort_summaries: "mset (sort_summaries xs) = mset xs"
  by (induction xs) (simp_all add: sort_summaries_def mset_insert_summary)

lemma sorted_insert_summary:
  assumes "\<forall>a\<in>S. \<forall>b\<in>S. \<forall>c\<in>S. summary_le a b \<longrightarrow> summary_le b c \<longrightarrow> summary_le a c"
    and "set (x # xs) \<subseteq> S" and "sorted_wrt summary_le xs"
  shows "sorted_wrt summary_le (insert_summary x xs)"
  using assms(2,3)
proof (induction xs)
  case (Cons y ys)
  have m: "set (insert_summary x ys) = insert x (set ys)"
    using mset_insert_summary [of x ys] by (metis set_mset_add_mset_insert set_mset_mset)
  show ?case
  proof (cases "summary_le x y")
    case True
    have "summary_le x z" if "z \<in> set ys" for z
      using assms(1) [rule_format, of x y z] Cons.prems True that by auto
    with True Cons.prems(2) show ?thesis by simp
  next
    case False
    with summary_le_linear have "summary_le y x" by blast
    with False Cons m show ?thesis by auto
  qed
qed simp

lemma summary_le_trans:
  assumes "validTransactionState (ts_state a)" "validTransactionState (ts_state b)" "validTransactionState (ts_state c)"
    and "summary_le a b" "summary_le b c"
  shows "summary_le a c"
proof (cases "ts_state a = ts_state b \<or> ts_state b = ts_state c")
  case True
  then consider "ts_state a = ts_state b" "ts_state b = ts_state c" | "ts_state a = ts_state b" "ts_state b \<noteq> ts_state c"
    | "ts_state a \<noteq> ts_state b" "ts_state b = ts_state c" by blast
  then show ?thesis using assms(4,5) by cases (simp_all add: summary_le_def)
next
  case False
  with assms(4,5) have ab: "state_text (ts_state a) \<le> state_text (ts_state b)"
    and bc: "state_text (ts_state b) \<le> state_text (ts_state c)"
    by (simp_all add: summary_le_def)
  have "ts_state a \<noteq> ts_state c"
  proof
    assume "ts_state a = ts_state c"
    with ab bc have "state_text (ts_state a) = state_text (ts_state b)" by simp
    with assms(1,2) False show False using state_text_inj by blast
  qed
  with ab bc show ?thesis by (simp add: summary_le_def)
qed

lemma sorted_sort_summaries:
  assumes "\<forall>x\<in>set xs. validTransactionState (ts_state x)"
  shows "sorted_wrt summary_le (sort_summaries xs)"
proof -
  have tr: "\<forall>a\<in>set xs. \<forall>b\<in>set xs. \<forall>c\<in>set xs. summary_le a b \<longrightarrow> summary_le b c \<longrightarrow> summary_le a c"
    using assms summary_le_trans by blast
  have "sorted_wrt summary_le (sort_summaries ys)" if "set ys \<subseteq> set xs" for ys
    using that
  proof (induction ys)
    case (Cons y ys)
    have "set (sort_summaries ys) = set ys"
      using mset_sort_summaries [of ys] by (metis set_mset_mset)
    with Cons sorted_insert_summary [OF tr, of y "sort_summaries ys"] show ?case
      by (simp add: sort_summaries_def)
  qed (simp add: sort_summaries_def)
  then show ?thesis by simp
qed

text \<open>The scan of the transaction directory is complete and ordered: the summaries are exactly those
  of the files with the transaction suffix that hold a valid record, sorted by state text and then by
  identifier; each other such file gives exactly one warning.\<close>

theorem scan_complete_and_sorted:
  assumes "ScanTransactions errtext rd None (Some es) = (sums, warns)"
  shows "set sums = {Summary tx (path_join [path_join [rd, ''transactions''], n]) | n x tx.
            (n, x) \<in> set es \<and> is_tx_entry (n, x) \<and> LoadTransactionFile (Some es) n = Inr tx} \<and>
    sorted_wrt summary_le sums \<and> length sums + length warns = length (filter is_tx_entry es)"
proof -
  define pth where "pth = (\<lambda>n. path_join [path_join [rd, ''transactions''], n])"
  define loaded where "loaded = map (\<lambda>e. (pth (fst e), LoadTransactionFile (Some es) (fst e))) (filter is_tx_entry es)"
  define good where "good = concat (map (\<lambda>(p, r). case r of Inr tx \<Rightarrow> [Summary tx p] | Inl e \<Rightarrow> []) loaded)"
  define bad where "bad = concat (map (\<lambda>(p, r). case r of
      Inl e \<Rightarrow> [file_warning errtext p e] | Inr tx \<Rightarrow> []) loaded)"
  from assms have sums: "sums = sort_summaries good" and warns: "warns = sort bad"
    by (simp_all add: ScanTransactions_def Let_def good_def bad_def loaded_def pth_def)
  have "set sums = set good" unfolding sums using mset_sort_summaries [of good] by (metis set_mset_mset)
  moreover have "set good = {Summary tx (pth n) | n x tx.
      (n, x) \<in> set es \<and> is_tx_entry (n, x) \<and> LoadTransactionFile (Some es) n = Inr tx}"
    by (force simp: good_def loaded_def split: sum.splits)
  moreover have "\<forall>x\<in>set good. validTransactionState (ts_state x)"
    by (auto simp: good_def loaded_def LoadTransactionFile_def Summary_def ValidateTransaction_None
        split: sum.splits option.splits dirent.splits tx_content.splits)
  then have "sorted_wrt summary_le sums" unfolding sums by (rule sorted_sort_summaries)
  moreover have "length good + length bad = length loaded"
    unfolding good_def bad_def by (induction loaded) (auto split: sum.splits)
  then have "length sums + length warns = length (filter is_tx_entry es)"
    using arg_cong [OF mset_sort_summaries [of good], of size]
    by (simp add: sums warns loaded_def del: size_mset_sum_mset_conv)
  ultimately show ?thesis unfolding pth_def by blast
qed

theorem scan_complete_and_sorted_witness:
  "sorted_wrt summary_le (fst (ScanTransactions (\<lambda>e. []) ''/run/podlaz'' None (Some [(''t1.json'', TxFile (TxDoc demo_tx))])))"
proof -
  obtain a b where sc: "ScanTransactions (\<lambda>e. []) ''/run/podlaz'' None (Some [(''t1.json'', TxFile (TxDoc demo_tx))]) = (a, b)"
    by fastforce
  from scan_complete_and_sorted [OF sc] show ?thesis unfolding sc by simp
qed

end
