(* ===== verification/Net_Addr.thy ===== *)
theory Net_Addr
  imports Prelude
begin

text \<open>
  The address functions of Go's \<^verbatim>\<open>net\<close> and \<^verbatim>\<open>net/netip\<close> that the planner, the session state and the
  DNS decoder use: parsing of IPv4 and IPv6 text, the canonical text of an address, prefixes and
  containment.
\<close>

section \<open>Addresses\<close>

text \<open>\<open>IP4\<close> and \<open>IP6\<close> are the two kinds of \<^verbatim>\<open>netip.Addr\<close>; an IPv4-mapped IPv6 address is an \<open>IP6\<close>.\<close>

datatype addr = IP4 "32 word" | IP6 "128 word"

definition is4 :: "addr \<Rightarrow> bool" where
  "is4 a = (case a of IP4 w \<Rightarrow> True | IP6 w \<Rightarrow> False)"

definition of_bytes :: "nat list \<Rightarrow> nat" where
  "of_bytes bs = foldl (\<lambda>a b. a * 256 + b) 0 bs"

definition parse_octet :: "string \<Rightarrow> nat option" where
  "parse_octet s =
     (if s = [] \<or> 3 < length s \<or> \<not> list_all is_digit s \<or> (1 < length s \<and> hd s = CHR ''0'') \<or> 255 < dec_value s
      then None else Some (dec_value s))"

fun all_some :: "'a option list \<Rightarrow> 'a list option" where
  "all_some [] = Some []"
| "all_some (None # xs) = None"
| "all_some (Some x # xs) = map_option (Cons x) (all_some xs)"

definition parse_v4_fields :: "string \<Rightarrow> nat list option" where
  "parse_v4_fields s =
     (let fs = split_on CHR ''.'' s in
      if length fs \<noteq> 4 then None else all_some (map parse_octet fs))"

definition hex_digit_of :: "char \<Rightarrow> nat option" where
  "hex_digit_of c = (case digit_of c of None \<Rightarrow> None | Some d \<Rightarrow> if d < 16 then Some d else None)"

definition hex_run :: "string \<Rightarrow> string" where
  "hex_run s = takeWhile (\<lambda>c. hex_digit_of c \<noteq> None) s"

definition hex_value :: "string \<Rightarrow> nat" where
  "hex_value s = foldl (\<lambda>a c. a * 16 + (case hex_digit_of c of None \<Rightarrow> 0 | Some d \<Rightarrow> d)) 0 s"

text \<open>The group loop of \<^verbatim>\<open>parseIPv6\<close>: at most \<open>n\<close> further 16-bit groups, the bytes read so far, the
  position of the ellipsis and the rest of the text.  The result is the bytes and the ellipsis of a
  text that was used up.\<close>

fun v6_groups :: "nat \<Rightarrow> nat list \<Rightarrow> nat option \<Rightarrow> string \<Rightarrow> (nat list \<times> nat option) option" where
  "v6_groups 0 bs ell s = (if s = [] then Some (bs, ell) else None)"
| "v6_groups (Suc n) bs ell s =
     (let h = hex_run s; r = drop (length h) s in
      if h = [] \<or> 4 < length h then None
      else if take 1 r = ''.'' then
        (if (ell = None \<and> length bs \<noteq> 12) \<or> 16 < length bs + 4 then None
         else case parse_v4_fields s of None \<Rightarrow> None | Some q \<Rightarrow> Some (bs @ q, ell))
      else
        let bs' = bs @ [hex_value h div 256, hex_value h mod 256] in
        case r of
          [] \<Rightarrow> Some (bs', ell)
        | c # t \<Rightarrow>
            if c \<noteq> CHR '':'' \<or> t = [] then None
            else if hd t = CHR '':'' then
              (if ell \<noteq> None then None
               else if tl t = [] then Some (bs', Some (length bs'))
               else v6_groups n bs' (Some (length bs')) (tl t))
            else v6_groups n bs' ell t)"

definition expand_ellipsis :: "nat list \<times> nat option \<Rightarrow> nat list option" where
  "expand_ellipsis r =
     (case r of (bs, ell) \<Rightarrow>
        if length bs < 16 then
          (case ell of None \<Rightarrow> None
           | Some e \<Rightarrow> Some (take e bs @ replicate (16 - length bs) 0 @ drop e bs))
        else if ell \<noteq> None then None else Some bs)"

definition parse_v6 :: "string \<Rightarrow> 128 word option" where
  "parse_v6 s =
     (if CHR ''%'' \<in> set s then None
      else if s = ''::'' then Some 0
      else
        let r = (if take 2 s = ''::'' then v6_groups 8 [] (Some 0) (drop 2 s) else v6_groups 8 [] None s) in
        case Option.bind r expand_ellipsis of
          None \<Rightarrow> None
        | Some bs \<Rightarrow> Some (of_nat (of_bytes bs)))"

text \<open>\<^verbatim>\<open>netip.ParseAddr\<close>, for an address without a zone: the first of the characters dot, colon and
  percent decides the family.\<close>

definition parse_addr :: "string \<Rightarrow> addr option" where
  "parse_addr s =
     (case find (\<lambda>c. c = CHR ''.'' \<or> c = CHR '':'' \<or> c = CHR ''%'') s of
        None \<Rightarrow> None
      | Some c \<Rightarrow>
          if c = CHR ''.'' then map_option (\<lambda>bs. IP4 (of_nat (of_bytes bs))) (parse_v4_fields s)
          else if c = CHR '':'' then map_option IP6 (parse_v6 s)
          else None)"

text \<open>A \<^verbatim>\<open>net.IP\<close> always has 16 bytes here; \<^verbatim>\<open>To4\<close> sees through the IPv4-mapped form, which is kept
  as \<open>IP4\<close>.\<close>

definition mapped_prefix :: "128 word" where
  "mapped_prefix = 0xFFFF"

definition to_netip :: "addr \<Rightarrow> addr" where
  "to_netip a =
     (case a of IP4 w \<Rightarrow> IP4 w
      | IP6 w \<Rightarrow> if drop_bit 32 w = mapped_prefix then IP4 (ucast w) else IP6 w)"

definition parse_ip :: "string \<Rightarrow> addr option" where
  "parse_ip s = map_option to_netip (parse_addr s)"

section \<open>Canonical text\<close>

definition octets :: "32 word \<Rightarrow> nat list" where
  "octets w = (let n = unat w in [n div 2 ^ 24, n div 2 ^ 16 mod 256, n div 2 ^ 8 mod 256, n mod 256])"

definition ip4_text :: "32 word \<Rightarrow> string" where
  "ip4_text w = join ''.'' (map itoa (octets w))"

definition groups6 :: "128 word \<Rightarrow> nat list" where
  "groups6 w = map (\<lambda>i. unat w div 2 ^ (16 * (7 - i)) mod 65536) [0..<8]"

definition hex_char :: "nat \<Rightarrow> char" where
  "hex_char d = (if d < 10 then char_of (48 + d) else char_of (87 + d))"

fun hex_text :: "nat \<Rightarrow> string" where
  "hex_text n = (if n < 16 then [hex_char n] else hex_text (n div 16) @ [hex_char (n mod 16)])"

declare hex_text.simps [simp del]

definition zero_run :: "nat list \<Rightarrow> nat \<Rightarrow> nat" where
  "zero_run gs i = length (takeWhile (\<lambda>g. g = 0) (drop i gs))"

definition best_run :: "nat list \<Rightarrow> (nat \<times> nat) option" where
  "best_run gs =
     foldl (\<lambda>best i. if 2 \<le> zero_run gs i \<and> (case best of None \<Rightarrow> True | Some (_, l) \<Rightarrow> l < zero_run gs i)
                     then Some (i, zero_run gs i) else best) None [0..<length gs]"

definition ip6_text :: "128 word \<Rightarrow> string" where
  "ip6_text w =
     (let gs = groups6 w in
      case best_run gs of
        None \<Rightarrow> join '':'' (map hex_text gs)
      | Some (i, l) \<Rightarrow>
          join '':'' (map hex_text (take i gs)) @ ''::'' @ join '':'' (map hex_text (drop (i + l) gs)))"

definition ip_text :: "addr \<Rightarrow> string" where
  "ip_text a = (case a of IP4 w \<Rightarrow> ip4_text w | IP6 w \<Rightarrow> ip6_text w)"

section \<open>Prefixes\<close>

definition in4 :: "32 word \<Rightarrow> nat \<Rightarrow> 32 word \<Rightarrow> bool" where
  "in4 p n x = (drop_bit (32 - n) p = drop_bit (32 - n) x)"

definition in6 :: "128 word \<Rightarrow> nat \<Rightarrow> 128 word \<Rightarrow> bool" where
  "in6 p n x = (drop_bit (128 - n) p = drop_bit (128 - n) x)"

text \<open>\<^verbatim>\<open>netip.Prefix\<close>; the zero value is not valid.\<close>

datatype prefix = NoPrefix | Prefix addr nat

definition prefix_valid :: "prefix \<Rightarrow> bool" where
  "prefix_valid p = (case p of NoPrefix \<Rightarrow> False | Prefix (IP4 w) n \<Rightarrow> n \<le> 32 | Prefix (IP6 w) n \<Rightarrow> n \<le> 128)"

definition prefix_is4 :: "prefix \<Rightarrow> bool" where
  "prefix_is4 p = (case p of Prefix (IP4 w) n \<Rightarrow> True | _ \<Rightarrow> False)"

definition prefix_contains :: "prefix \<Rightarrow> addr \<Rightarrow> bool" where
  "prefix_contains p a =
     (case (p, a) of
        (Prefix (IP4 w) n, IP4 x) \<Rightarrow> n \<le> 32 \<and> in4 w n x
      | (Prefix (IP6 w) n, IP6 x) \<Rightarrow> n \<le> 128 \<and> in6 w n x
      | _ \<Rightarrow> False)"

definition mask4 :: "32 word \<Rightarrow> nat \<Rightarrow> 32 word" where
  "mask4 w n = push_bit (32 - n) (drop_bit (32 - n) w)"

definition mask6 :: "128 word \<Rightarrow> nat \<Rightarrow> 128 word" where
  "mask6 w n = push_bit (128 - n) (drop_bit (128 - n) w)"

definition prefix_masked :: "prefix \<Rightarrow> prefix" where
  "prefix_masked p =
     (case p of NoPrefix \<Rightarrow> NoPrefix | Prefix (IP4 w) n \<Rightarrow> Prefix (IP4 (mask4 w n)) n
      | Prefix (IP6 w) n \<Rightarrow> Prefix (IP6 (mask6 w n)) n)"

definition max_bits :: "addr \<Rightarrow> nat" where
  "max_bits a = (case a of IP4 w \<Rightarrow> 32 | IP6 w \<Rightarrow> 128)"

text \<open>\<^verbatim>\<open>netip.ParsePrefix\<close>.\<close>

definition parse_prefix :: "string \<Rightarrow> prefix option" where
  "parse_prefix s =
     (let parts = split_on CHR ''/'' s in
      if length parts < 2 then None
      else
        let bits = last parts in
        case parse_addr (join ''/'' (butlast parts)) of
          None \<Rightarrow> None
        | Some a \<Rightarrow>
            if 1 < length bits \<and> \<not> (49 \<le> byte (hd bits) \<and> byte (hd bits) \<le> 57) then None
            else case atoi bits of
              None \<Rightarrow> None
            | Some n \<Rightarrow> if n < 0 \<or> int (max_bits a) < n then None else Some (Prefix a (nat n)))"

text \<open>\<^verbatim>\<open>net.ParseCIDR\<close>: the address and the network.  The network of an IPv4-mapped address with a
  mask of at least 96 bits is an IPv4 network for \<^verbatim>\<open>Contains\<close>.\<close>

definition cidr_net :: "addr \<Rightarrow> nat \<Rightarrow> prefix" where
  "cidr_net a n =
     (case a of IP4 w \<Rightarrow> Prefix (IP4 (mask4 w n)) n
      | IP6 w \<Rightarrow>
          if drop_bit 32 (mask6 w n) = mapped_prefix then Prefix (IP4 (ucast (mask6 w n))) (n - 96)
          else Prefix (IP6 (mask6 w n)) n)"

definition parse_cidr :: "string \<Rightarrow> (addr \<times> prefix) option" where
  "parse_cidr s =
     (case split_on CHR ''/'' s of
        a # b # rest \<Rightarrow>
          let bits = join ''/'' (b # rest) in
          (case parse_addr a of
             None \<Rightarrow> None
           | Some x \<Rightarrow>
               if bits = [] \<or> \<not> list_all is_digit bits \<or> 0xFFFFFF \<le> dec_value bits \<or> max_bits x < dec_value bits
               then None else Some (to_netip x, cidr_net x (dec_value bits)))
      | _ \<Rightarrow> None)"

text \<open>The address of a network, as \<^verbatim>\<open>net.IPNet.IP\<close> seen through \<^verbatim>\<open>To4\<close>.\<close>

definition net_ip :: "prefix \<Rightarrow> addr" where
  "net_ip p = (case p of Prefix a n \<Rightarrow> a | NoPrefix \<Rightarrow> IP4 0)"

section \<open>Facts\<close>

lemma in4_refl [simp]: "in4 p n p"
  by (simp add: in4_def)

lemma in4_32: "in4 p 32 x \<longleftrightarrow> p = x"
  by (simp add: in4_def)

lemma octets_small: "\<forall>b\<in>set (octets w). b < 256"
proof -
  have "unat w < 2 ^ 32" using unsigned_less [of w] by simp
  then show ?thesis by (simp add: octets_def Let_def)
qed

lemma of_bytes_octets: "of_bytes (octets w) = unat w"
proof -
  let ?n = "unat w"
  have step: "m div 256 * 256 + m mod 256 = m" for m :: nat by (rule div_mult_mod_eq)
  have "?n div 2 ^ 24 = ?n div 2 ^ 8 div 256 div 256" "?n div 2 ^ 16 = ?n div 2 ^ 8 div 256"
    by (simp_all flip: div_mult2_eq)
  moreover have "?n div 2 ^ 8 = ?n div 256" by simp
  ultimately have "of_bytes (octets w) =
      (((?n div 256 div 256 div 256) * 256 + ?n div 256 div 256 mod 256) * 256 + ?n div 256 mod 256) * 256 + ?n mod 256"
    by (simp add: of_bytes_def octets_def Let_def)
  then show ?thesis by (simp only: step)
qed

lemma length_octets [simp]: "length (octets w) = 4"
  by (simp add: octets_def Let_def)

lemma length_itoa_256: "n < 256 \<Longrightarrow> length (itoa n) \<le> 3"
  by (simp add: itoa.simps [of n] itoa.simps [of "n div 10"] itoa.simps [of "n div 10 div 10"])

lemma itoa_hd_zero: "1 < length (itoa n) \<Longrightarrow> hd (itoa n) \<noteq> CHR ''0''"
proof
  assume "1 < length (itoa n)" and "hd (itoa n) = CHR ''0''"
  then have "take (Suc 0) (itoa n) = ''0''" by (cases "itoa n") auto
  then have "n = 0" by (rule itoa_leading_zero)
  with \<open>1 < length (itoa n)\<close> show False by (simp add: itoa.simps [of 0])
qed

lemma parse_octet_itoa: "n < 256 \<Longrightarrow> parse_octet (itoa n) = Some n"
  using length_itoa_256 [of n] itoa_hd_zero [of n] by (auto simp: parse_octet_def itoa_digits)

lemma all_some_map: "(\<And>x. x \<in> set xs \<Longrightarrow> f x = Some (g x)) \<Longrightarrow> all_some (map f xs) = Some (map g xs)"
  by (induction xs) auto

lemma itoa_no_dot: "\<not> is_digit c \<Longrightarrow> c \<notin> set (itoa n)"
  using itoa_digits [of n] by (auto simp: list_all_iff)

lemma split_ip4_text: "split_on CHR ''.'' (ip4_text w) = map itoa (octets w)"
proof -
  have "map itoa (octets w) \<noteq> []" by (simp add: octets_def Let_def)
  then show ?thesis unfolding ip4_text_def
    by (rule split_on_join) (auto simp: itoa_no_dot is_digit_def)
qed

lemma parse_v4_fields_text: "parse_v4_fields (ip4_text w) = Some (octets w)"
proof -
  have "all_some (map parse_octet (map itoa (octets w))) = Some (octets w)"
    using all_some_map [of "octets w" "parse_octet \<circ> itoa" "\<lambda>x. x"] octets_small [of w]
    by (auto simp: parse_octet_itoa)
  then show ?thesis by (simp add: parse_v4_fields_def split_ip4_text Let_def)
qed

lemma join_chars: "set (join sep ws) \<subseteq> set sep \<union> (\<Union>w\<in>set ws. set w)"
  by (induction sep ws rule: join.induct) auto

lemma ip4_text_chars: "c \<in> set (ip4_text w) \<Longrightarrow> is_digit c \<or> c = CHR ''.''"
proof -
  assume "c \<in> set (ip4_text w)"
  then have "c = CHR ''.'' \<or> (\<exists>n. c \<in> set (itoa n))"
    unfolding ip4_text_def using join_chars [of "''.''" "map itoa (octets w)"] by auto
  then show ?thesis using itoa_no_dot by blast
qed

lemma ip4_text_plain [simp]: "plain (ip4_text w)"
  unfolding plain_def list_all_iff using ip4_text_chars [of _ w] by (fastforce simp: is_digit_def)

lemma find_unique:
  assumes "x \<in> set xs" and "P x" and "\<forall>y\<in>set xs. P y \<longrightarrow> y = x"
  shows "find P xs = Some x"
  using assms
proof (induction xs)
  case (Cons z zs)
  show ?case
  proof (cases "P z")
    case True
    with Cons.prems(3) have "z = x" by simp
    with True show ?thesis by simp
  next
    case False
    with Cons.prems(2) have "x \<noteq> z" by blast
    with Cons.prems(1) have "x \<in> set zs" by simp
    moreover have "\<forall>y\<in>set zs. P y \<longrightarrow> y = x" using Cons.prems(3) by (meson list.set_intros(2))
    ultimately have "find P zs = Some x" using Cons.IH Cons.prems(2) by blast
    with False show ?thesis by simp
  qed
qed simp

lemma find_dot_ip4_text:
  "find (\<lambda>c. c = CHR ''.'' \<or> c = CHR '':'' \<or> c = CHR ''%'') (ip4_text w) = Some CHR ''.''"
proof -
  have "CHR ''.'' \<in> set (ip4_text w)"
    by (simp add: ip4_text_def octets_def Let_def)
  moreover have "c = CHR ''.''" if m: "c \<in> set (ip4_text w)" and s: "c = CHR ''.'' \<or> c = CHR '':'' \<or> c = CHR ''%''" for c
  proof (rule ccontr)
    assume n: "c \<noteq> CHR ''.''"
    with ip4_text_chars [OF m] have "is_digit c" by blast
    moreover from s n have "c = CHR '':'' \<or> c = CHR ''%''" by blast
    ultimately show False by (elim disjE) (simp_all add: is_digit_def)
  qed
  ultimately show ?thesis by (intro find_unique) blast+
qed

lemma parse_addr_ip4_text: "parse_addr (ip4_text w) = Some (IP4 w)"
  by (simp add: parse_addr_def find_dot_ip4_text parse_v4_fields_text of_bytes_octets)

lemma parse_ip_ip4_text: "parse_ip (ip4_text w) = Some (IP4 w)"
  by (simp add: parse_ip_def parse_addr_ip4_text to_netip_def)

lemma ip4_text_inj: "ip4_text a = ip4_text b \<Longrightarrow> a = b"
  using parse_addr_ip4_text by (metis addr.inject(1) option.inject)

end
