(* ===== verification/Snapshot.thy ===== *)
theory Snapshot
  imports Net_Addr
begin

text \<open>
  The read-only host snapshot of \<^verbatim>\<open>src/internal/network/snapshot\<close>: its data model, the typed
  allocation evidence, and the adapter that turns the textual inventories of a snapshot into typed
  evidence.
\<close>

section \<open>Snapshot model\<close>

datatype Status = StatusUnset | StatusUnknown | StatusUnsupported | StatusMissing | StatusDetected | StatusOther string

fun status_text :: "Status \<Rightarrow> string" where
  "status_text StatusUnset = []"
| "status_text StatusUnknown = ''unknown''"
| "status_text StatusUnsupported = ''unsupported''"
| "status_text StatusMissing = ''missing''"
| "status_text StatusDetected = ''detected''"
| "status_text (StatusOther s) = s"

definition DefaultTunName :: string where
  "DefaultTunName = ''podlaz0''"

definition DefaultNFTFamily :: string where
  "DefaultNFTFamily = ''inet''"

definition DefaultNFTTable :: string where
  "DefaultNFTTable = ''podlaz''"

record Finding =
  fd_status :: Status
  fd_summary :: string
  fd_detail :: string

record Route =
  rt_status :: Status
  rt_family :: string
  rt_destination :: string
  rt_table :: string
  rt_interface :: string
  rt_gateway :: string
  rt_raw :: string
  rt_detail :: string

record IPAddress =
  ia_family :: string
  ia_interface :: string
  ia_cidr :: string
  ia_scope :: string
  ia_raw :: string

record IPAddressInventory =
  iv_inspection :: Finding
  iv_addresses :: "IPAddress list"

record RouteInventory =
  ri_inspection :: Finding
  ri_routes :: "Route list"

record PolicyRoutingSignal =
  ps_sig_kind :: string
  ps_sig_priority :: string
  ps_sig_selector :: string
  ps_sig_table :: string
  ps_sig_fwmark :: string
  ps_sig_interface :: string
  ps_sig_raw :: string

record PolicyRuleInventory =
  pi_inspection :: Finding
  pi_rules :: "PolicyRoutingSignal list"

record ResolvedLink =
  rl_index :: string
  rl_name :: string
  rl_current_scopes :: "string list"
  rl_protocols :: "string list"
  rl_current_dns_server :: string
  rl_dns_servers :: "string list"
  rl_dns_domains :: "string list"

record DNS =
  dn_mode :: string
  dn_resolved :: Finding
  dn_resolved_links :: "ResolvedLink list"

record NetworkManagerConnection =
  nmc_name :: string
  nmc_uuid :: string
  nmc_type :: string
  nmc_device :: string
  nmc_state :: string

record NetworkManager =
  nm_finding :: Finding
  nm_state :: string
  nm_active_inspection :: Finding
  nm_active_connections :: "NetworkManagerConnection list"

record Nftables =
  nf_availability :: Finding
  nf_podlaz_table :: Finding

record TunDevice =
  tdv_name :: string
  tdv_status :: Status
  tdv_detail :: string
  tdv_raw :: string

record StaleResource =
  sr_kind :: string
  sr_name :: string
  sr_status :: Status
  sr_detail :: string
  sr_recovery_authorized :: bool

record Snapshot =
  sn_os :: string
  sn_default_ipv4 :: Route
  sn_default_ipv6 :: Route
  sn_server_route :: Route
  sn_dns :: DNS
  sn_network_manager :: NetworkManager
  sn_nftables :: Nftables
  sn_tun_devices :: "TunDevice list"
  sn_policy_routing :: "PolicyRoutingSignal list"
  sn_ipv4_policy_rules :: PolicyRuleInventory
  sn_ipv4_addresses :: IPAddressInventory
  sn_ipv4_routes :: RouteInventory
  sn_ipv4 :: Finding
  sn_ipv6 :: Finding
  sn_stale_resources :: "StaleResource list"
  sn_warnings :: "string list"

section \<open>Typed allocation evidence\<close>

record TunAllocationRoute =
  ar_destination :: prefix
  ar_default :: bool
  ar_table :: "32 word"
  ar_type :: int
  ar_link_index :: int

record TunAllocationRule =
  al_priority :: "32 word"
  al_table :: "32 word"
  al_has_mark :: bool
  al_mark :: "32 word"
  al_mark_mask :: "32 word"

record TunAllocationEvidence =
  te_addresses :: "prefix list"
  te_routes :: "TunAllocationRoute list"
  te_rules :: "TunAllocationRule list"
  te_reserved_tables :: "32 word list"

section \<open>From a snapshot to evidence\<close>

datatype evidence_error =
    InventoryUnavailable string string
  | MalformedAddress
  | MalformedRouteTable string
  | MalformedRoute
  | MalformedPriority
  | MalformedRuleTable string
  | MalformedFwmark
  | MalformedFwmarkMask

definition allocationSnapshotStatusAvailable :: "Status \<Rightarrow> bool" where
  "allocationSnapshotStatusAvailable st = (st = StatusUnset \<or> st = StatusDetected)"

definition allocationSnapshotStatus :: "Status \<Rightarrow> string" where
  "allocationSnapshotStatus st = (if st = StatusUnset then ''unspecified'' else status_text st)"

definition allocationSnapshotPolicyRules :: "Snapshot \<Rightarrow> PolicyRoutingSignal list" where
  "allocationSnapshotPolicyRules s =
     (let inv = sn_ipv4_policy_rules s; st = fd_status (pi_inspection inv) in
      if st = StatusDetected \<or> pi_rules inv \<noteq> [] then pi_rules inv
      else if st \<noteq> StatusUnset then []
      else filter (\<lambda>sig. trim_space (ps_sig_kind sig) = ''rule'') (sn_policy_routing s))"

definition allocationSnapshotRouteTable :: "string \<Rightarrow> 32 word option" where
  "allocationSnapshotRouteTable table =
     (let t = trim_space table in
      if t = [] \<or> t = ''main'' then Some 254
      else if t = ''local'' then Some 255
      else if t = ''default'' then Some 253
      else case parse_uint10 32 t of
        None \<Rightarrow> None
      | Some n \<Rightarrow> if 0 < n then Some (of_nat n) else None)"

fun map_result :: "('a \<Rightarrow> 'e + 'b) \<Rightarrow> 'a list \<Rightarrow> 'e + 'b list" where
  "map_result f [] = Inr []"
| "map_result f (x # xs) = rbind (f x) (\<lambda>y. rbind (map_result f xs) (\<lambda>ys. Inr (y # ys)))"

definition convert_address :: "IPAddress \<Rightarrow> evidence_error + prefix" where
  "convert_address a =
     (case parse_prefix (trim_space (ia_cidr a)) of
        None \<Rightarrow> Inl MalformedAddress
      | Some p \<Rightarrow> if prefix_is4 p then Inr p else Inl MalformedAddress)"

definition convert_route :: "Route \<Rightarrow> evidence_error + TunAllocationRoute" where
  "convert_route r =
     (case allocationSnapshotRouteTable (rt_table r) of
        None \<Rightarrow> Inl (MalformedRouteTable (rt_table r))
      | Some table \<Rightarrow>
          let dst = trim_space (rt_destination r) in
          if dst = [] \<or> dst = ''default'' \<or> dst = ''0.0.0.0/0''
          then Inr \<lparr>ar_destination = NoPrefix, ar_default = True, ar_table = table, ar_type = 0, ar_link_index = 0\<rparr>
          else (case parse_prefix dst of
                  None \<Rightarrow> Inl MalformedRoute
                | Some p \<Rightarrow>
                    if prefix_is4 p
                    then Inr \<lparr>ar_destination = prefix_masked p, ar_default = False, ar_table = table,
                              ar_type = 0, ar_link_index = 0\<rparr>
                    else Inl MalformedRoute))"

definition convert_mark :: "string \<Rightarrow> evidence_error + (bool \<times> 32 word \<times> 32 word)" where
  "convert_mark raw =
     (if raw = [] then Inr (False, 0, 0)
      else
        let parts = split_on CHR ''/'' raw in
        case parse_uint0 32 (hd parts) of
          None \<Rightarrow> Inl MalformedFwmark
        | Some v \<Rightarrow>
            if tl parts = [] then Inr (True, of_nat v, - 1)
            else (case parse_uint0 32 (join ''/'' (tl parts)) of
                    None \<Rightarrow> Inl MalformedFwmarkMask
                  | Some mk \<Rightarrow> Inr (True, of_nat v, of_nat mk)))"

definition convert_rule :: "PolicyRoutingSignal \<Rightarrow> evidence_error + TunAllocationRule" where
  "convert_rule r =
     (case parse_uint10 32 (trim_space (ps_sig_priority r)) of
        None \<Rightarrow> Inl MalformedPriority
      | Some prio \<Rightarrow>
          (case allocationSnapshotRouteTable (ps_sig_table r) of
             None \<Rightarrow> Inl (MalformedRuleTable (ps_sig_table r))
           | Some table \<Rightarrow>
               rbind (convert_mark (trim_space (ps_sig_fwmark r))) (\<lambda>(has, v, mk).
                 Inr \<lparr>al_priority = of_nat prio, al_table = table, al_has_mark = has, al_mark = v,
                      al_mark_mask = mk\<rparr>)))"

definition inventory_check :: "string \<Rightarrow> Finding \<Rightarrow> evidence_error option" where
  "inventory_check what f =
     (if allocationSnapshotStatusAvailable (fd_status f) then None
      else Some (InventoryUnavailable what (allocationSnapshotStatus (fd_status f))))"

definition TunAllocationEvidenceFromSnapshot :: "Snapshot \<Rightarrow> evidence_error + TunAllocationEvidence" where
  "TunAllocationEvidenceFromSnapshot s =
     check_nil (inventory_check ''IPv4 address'' (iv_inspection (sn_ipv4_addresses s)))
    (check_nil (inventory_check ''IPv4 route'' (ri_inspection (sn_ipv4_routes s)))
    (check_nil (inventory_check ''IPv4 policy-rule'' (pi_inspection (sn_ipv4_policy_rules s)))
    (rbind (map_result convert_address (iv_addresses (sn_ipv4_addresses s))) (\<lambda>addrs.
     rbind (map_result convert_route (ri_routes (sn_ipv4_routes s))) (\<lambda>routes.
     rbind (map_result convert_rule (allocationSnapshotPolicyRules s)) (\<lambda>rules.
       Inr \<lparr>te_addresses = addrs, te_routes = routes, te_rules = rules, te_reserved_tables = []\<rparr>))))))"

section \<open>Facts\<close>

lemma map_result_Inr: "map_result f xs = Inr ys \<longleftrightarrow> list_all2 (\<lambda>x y. f x = Inr y) xs ys"
  by (induction xs arbitrary: ys) (auto simp: rbind_Inr_iff list_all2_Cons1)

lemma map_result_length: "map_result f xs = Inr ys \<Longrightarrow> length ys = length xs"
  by (auto simp: map_result_Inr list_all2_lengthD)

lemma route_table_nonzero:
  assumes "allocationSnapshotRouteTable t = Some w"
  shows "w \<noteq> 0"
proof (cases "parse_uint10 32 (trim_space t)")
  case None
  with assms show ?thesis by (auto simp: allocationSnapshotRouteTable_def Let_def split: if_splits)
next
  case (Some n)
  then have "n < 2 ^ 32" by (auto simp: parse_uint10_def split: if_splits)
  then have "unat (of_nat n :: 32 word) = n" by (simp add: unsigned_of_nat take_bit_nat_eq_self)
  with Some assms show ?thesis
    by (auto simp: allocationSnapshotRouteTable_def Let_def split: if_splits)
qed

lemma convert_route_wf:
  "convert_route r = Inr a \<Longrightarrow> ar_table a \<noteq> 0 \<and> (ar_default a \<longleftrightarrow> ar_destination a = NoPrefix)"
  by (auto simp: convert_route_def Let_def prefix_masked_def prefix_is4_def route_table_nonzero
      split: option.splits if_splits prefix.splits addr.splits)

end
