(* ===== verification/Tun_Resources.thy ===== *)
theory Tun_Resources
  imports Snapshot
begin

text \<open>
  The session resource allocator of \<^verbatim>\<open>src/internal/network/planner/tun_resources.go\<close>: which address,
  routing table, pair of rule priorities and egress mark a new TUN session gets, given typed evidence
  of what the host uses.  Also the shape predicates of \<^verbatim>\<open>tun_session_resource_identity.go\<close> and
  \<^verbatim>\<open>tun_session_actions.go\<close>.
\<close>

unbundle bit_operations_syntax

section \<open>Constants and data\<close>

definition TunRoutingTableID :: nat where "TunRoutingTableID = 51820"
definition TunRulePriority :: int where "TunRulePriority = 10000"
definition ServerRulePriority :: int where "ServerRulePriority = 9999"
definition TunEgressMark :: nat where "TunEgressMark = 20570"
definition tunAddressAllocationLastHost :: nat where "tunAddressAllocationLastHost = 254"
definition tunRoutingTableAllocationLast :: nat where "tunRoutingTableAllocationLast = TunRoutingTableID + 99"
definition tunEgressMarkAllocationLast :: nat where "tunEgressMarkAllocationLast = TunEgressMark + 99"

lemmas tun_pool_defs = TunRoutingTableID_def TunEgressMark_def tunAddressAllocationLastHost_def
  tunRoutingTableAllocationLast_def tunEgressMarkAllocationLast_def

record TunResourceAllocation =
  ra_cidr :: string
  ra_table :: int
  ra_server_priority :: int
  ra_tunnel_priority :: int
  ra_mark :: "32 word"

datatype allocation_error =
    MalformedAddressEntry
  | RouteWithoutTable
  | DefaultRouteWithDestination
  | MalformedRouteEntry
  | ReservedTableUnspecified
  | MalformedRulePriority
  | NoFreeAddress
  | NoFreeTable
  | NoFreePriorities
  | NoFreeMark

section \<open>Evidence\<close>

definition address_entry_error :: "prefix \<Rightarrow> allocation_error option" where
  "address_entry_error p = (if \<not> prefix_valid p \<or> \<not> prefix_is4 p then Some MalformedAddressEntry else None)"

definition route_entry_error :: "TunAllocationRoute \<Rightarrow> allocation_error option" where
  "route_entry_error r =
     (if ar_table r = 0 then Some RouteWithoutTable
      else if ar_default r then
        (if prefix_valid (ar_destination r) then Some DefaultRouteWithDestination else None)
      else if \<not> prefix_valid (ar_destination r) \<or> \<not> prefix_is4 (ar_destination r) then Some MalformedRouteEntry
      else None)"

definition reserved_table_error :: "32 word \<Rightarrow> allocation_error option" where
  "reserved_table_error t = (if t = 0 then Some ReservedTableUnspecified else None)"

definition rule_entry_error :: "TunAllocationRule \<Rightarrow> allocation_error option" where
  "rule_entry_error r = (if al_priority r = 0 \<or> 32766 \<le> al_priority r then Some MalformedRulePriority else None)"

definition validateTunAllocationEvidence :: "TunAllocationEvidence \<Rightarrow> allocation_error option" where
  "validateTunAllocationEvidence ev =
     first_error (map address_entry_error (te_addresses ev) @ map route_entry_error (te_routes ev) @
                  map reserved_table_error (te_reserved_tables ev) @ map rule_entry_error (te_rules ev))"

section \<open>The four allocators\<close>

definition tunAllocationAddressOccupied :: "TunAllocationEvidence \<Rightarrow> addr \<Rightarrow> bool" where
  "tunAllocationAddressOccupied ev c =
     (list_ex (\<lambda>p. prefix_contains p c) (te_addresses ev) \<or>
      list_ex (\<lambda>r. \<not> ar_default r \<and> prefix_contains (ar_destination r) c) (te_routes ev))"

text \<open>\<^verbatim>\<open>netip.MustParseAddr\<close> panics on a malformed text; \<open>host_text_parses\<close> below shows that no text the
  allocator builds is malformed, so the value for that case does not matter.\<close>

definition must_parse_addr :: "string \<Rightarrow> addr" where
  "must_parse_addr s = (case parse_addr s of Some a \<Rightarrow> a | None \<Rightarrow> IP4 0)"

definition host_text :: "nat \<Rightarrow> string" where
  "host_text host = ''198.18.0.'' @ itoa host"

definition prefix_text :: "addr \<Rightarrow> nat \<Rightarrow> string" where
  "prefix_text a n = ip_text a @ ''/'' @ itoa n"

definition free_host :: "TunAllocationEvidence \<Rightarrow> nat option" where
  "free_host ev =
     scan_up (\<lambda>host. \<not> tunAllocationAddressOccupied ev (must_parse_addr (host_text host))) 1 tunAddressAllocationLastHost"

definition allocateTunIPv4CIDR :: "TunAllocationEvidence \<Rightarrow> allocation_error + string" where
  "allocateTunIPv4CIDR ev =
     (case free_host ev of
        None \<Rightarrow> Inl NoFreeAddress
      | Some host \<Rightarrow> Inr (prefix_text (must_parse_addr (host_text host)) 32))"

definition used_tables :: "TunAllocationEvidence \<Rightarrow> 32 word list" where
  "used_tables ev =
     map ar_table (te_routes ev) @ te_reserved_tables ev @ filter (\<lambda>t. t \<noteq> 0) (map al_table (te_rules ev))"

definition free_table :: "TunAllocationEvidence \<Rightarrow> nat option" where
  "free_table ev = scan_up (\<lambda>c. of_nat c \<notin> set (used_tables ev)) TunRoutingTableID tunRoutingTableAllocationLast"

definition allocateTunRoutingTable :: "TunAllocationEvidence \<Rightarrow> allocation_error + int" where
  "allocateTunRoutingTable ev = (case free_table ev of None \<Rightarrow> Inl NoFreeTable | Some c \<Rightarrow> Inr (int c))"

definition upper_tunnel_priority :: "TunAllocationRule list \<Rightarrow> int" where
  "upper_tunnel_priority rules =
     foldl (\<lambda>upper r. if uint (al_priority r) \<le> upper then uint (al_priority r) - 1 else upper) TunRulePriority rules"

definition priorities_free :: "TunAllocationRule list \<Rightarrow> int \<Rightarrow> bool" where
  "priorities_free rules tunnel =
     (of_int (tunnel - 1) \<notin> set (map al_priority rules) \<and> of_int tunnel \<notin> set (map al_priority rules))"

definition allocateTunRulePriorities :: "TunAllocationEvidence \<Rightarrow> allocation_error + (int \<times> int)" where
  "allocateTunRulePriorities ev =
     (case scan_down (priorities_free (te_rules ev)) (upper_tunnel_priority (te_rules ev)) 2 of
        None \<Rightarrow> Inl NoFreePriorities
      | Some tunnel \<Rightarrow> Inr (tunnel - 1, tunnel))"

definition effective_mask :: "TunAllocationRule \<Rightarrow> 32 word" where
  "effective_mask r = (if al_mark_mask r = 0 \<and> al_mark r \<noteq> 0 then NOT 0 else al_mark_mask r)"

definition mark_matched :: "TunAllocationRule \<Rightarrow> 32 word \<Rightarrow> bool" where
  "mark_matched r c =
     (effective_mask r \<noteq> 0 \<and> c AND effective_mask r = al_mark r AND effective_mask r)"

definition free_mark :: "TunAllocationEvidence \<Rightarrow> nat option" where
  "free_mark ev =
     scan_up (\<lambda>c. \<not> list_ex (\<lambda>r. mark_matched r (of_nat c)) (te_rules ev)) TunEgressMark tunEgressMarkAllocationLast"

definition allocateTunEgressMark :: "TunAllocationEvidence \<Rightarrow> allocation_error + 32 word" where
  "allocateTunEgressMark ev = (case free_mark ev of None \<Rightarrow> Inl NoFreeMark | Some c \<Rightarrow> Inr (of_nat c))"

definition AllocateTunResources :: "TunAllocationEvidence \<Rightarrow> allocation_error + TunResourceAllocation" where
  "AllocateTunResources ev =
     check_nil (validateTunAllocationEvidence ev)
    (rbind (allocateTunIPv4CIDR ev) (\<lambda>cidr.
     rbind (allocateTunRoutingTable ev) (\<lambda>tableID.
     rbind (allocateTunRulePriorities ev) (\<lambda>(server, tunnel).
     rbind (allocateTunEgressMark ev) (\<lambda>egress.
       Inr \<lparr>ra_cidr = cidr, ra_table = tableID, ra_server_priority = server, ra_tunnel_priority = tunnel,
            ra_mark = egress\<rparr>)))))"

section \<open>Shapes and actions\<close>

definition IsAllocatedTunIPv4CIDR :: "string \<Rightarrow> bool" where
  "IsAllocatedTunIPv4CIDR cidr =
     (case parse_prefix (trim_space cidr) of
        Some (Prefix (IP4 w) n) \<Rightarrow>
          n = 32 \<and> octets w ! 0 = 198 \<and> octets w ! 1 = 18 \<and> octets w ! 2 = 0 \<and>
          1 \<le> octets w ! 3 \<and> octets w ! 3 \<le> tunAddressAllocationLastHost
      | _ \<Rightarrow> False)"

definition IsAllocatedTunRoutingTable :: "string \<Rightarrow> bool" where
  "IsAllocatedTunRoutingTable table =
     (case atoi (trim_space table) of
        None \<Rightarrow> False
      | Some v \<Rightarrow> int TunRoutingTableID \<le> v \<and> v \<le> int tunRoutingTableAllocationLast)"

definition TunActionAddExclusive :: string where "TunActionAddExclusive = ''add-exclusive''"
definition TunActionVerifyExisting :: string where "TunActionVerifyExisting = ''verify-existing''"
definition TunAddressActionAssign :: string where "TunAddressActionAssign = ''assign''"
definition TunAddressActionAssignExclusive :: string where "TunAddressActionAssignExclusive = ''assign-exclusive''"

definition IsTunAddAction :: "string \<Rightarrow> bool" where
  "IsTunAddAction a = (trim_space a = ''add'' \<or> trim_space a = TunActionAddExclusive)"

definition IsTunAddressAssignAction :: "string \<Rightarrow> bool" where
  "IsTunAddressAssignAction a =
     (trim_space a = TunAddressActionAssign \<or> trim_space a = TunAddressActionAssignExclusive)"

definition IsTunAddressExclusiveAction :: "string \<Rightarrow> bool" where
  "IsTunAddressExclusiveAction a = (trim_space a = TunAddressActionAssignExclusive)"

definition IsTunVerifyAction :: "string \<Rightarrow> bool" where
  "IsTunVerifyAction a = (trim_space a = TunActionVerifyExisting)"

definition IsTunVerifyOrAddAction :: "string \<Rightarrow> bool" where
  "IsTunVerifyOrAddAction a = (IsTunAddAction a \<or> IsTunVerifyAction a)"

section \<open>Facts about the pools\<close>

definition host_addr :: "nat \<Rightarrow> 32 word" where
  "host_addr host = of_nat (198 * 2 ^ 24 + 18 * 2 ^ 16 + host)"

lemma octets_host_addr:
  assumes "host < 256"
  shows "octets (host_addr host) = [198, 18, 0, host]"
proof -
  define n where "n = 198 * 2 ^ 24 + 18 * 2 ^ 16 + host"
  with assms have "n < 2 ^ 32" by simp
  then have "unat (host_addr host) = n"
    unfolding host_addr_def n_def [symmetric] by (simp add: unsigned_of_nat take_bit_nat_eq_self)
  also have "n = 3323068416 + host" by (simp add: n_def)
  finally have n: "unat (host_addr host) = 3323068416 + host" .
  have d: "(3323068416 + host) div 16777216 = 198" "(3323068416 + host) div 65536 = 50706"
    "(3323068416 + host) div 256 = 12980736"
    using assms by (intro div_nat_eqI; simp)+
  have "(3323068416 + host) mod 256 = host"
    using assms mod_mult_self2 [of host 256 12980736] by (simp add: add.commute)
  with d show ?thesis by (simp add: octets_def Let_def n)
qed

lemma host_text_eq: "host < 256 \<Longrightarrow> host_text host = ip4_text (host_addr host)"
  by (simp add: host_text_def ip4_text_def octets_host_addr itoa.simps digit_char_eval)

lemma host_text_parses: "host < 256 \<Longrightarrow> parse_addr (host_text host) = Some (IP4 (host_addr host))"
  by (simp add: host_text_eq parse_addr_ip4_text)

lemma must_parse_host: "host < 256 \<Longrightarrow> must_parse_addr (host_text host) = IP4 (host_addr host)"
  by (simp add: must_parse_addr_def host_text_parses)

lemma validate_None_iff:
  "validateTunAllocationEvidence ev = None \<longleftrightarrow>
     (\<forall>p\<in>set (te_addresses ev). address_entry_error p = None) \<and>
     (\<forall>r\<in>set (te_routes ev). route_entry_error r = None) \<and>
     (\<forall>t\<in>set (te_reserved_tables ev). reserved_table_error t = None) \<and>
     (\<forall>r\<in>set (te_rules ev). rule_entry_error r = None)"
  by (auto simp: validateTunAllocationEvidence_def first_error_None_iff)

section \<open>The bounded scans\<close>

lemma host_pool: "set [1..<Suc tunAddressAllocationLastHost] = {1..254}"
  unfolding set_upt atLeastLessThanSuc_atLeastAtMost tun_pool_defs ..

lemma table_pool: "set [TunRoutingTableID..<Suc tunRoutingTableAllocationLast] = {51820..51919}"
  unfolding set_upt atLeastLessThanSuc_atLeastAtMost tun_pool_defs by simp

lemma mark_pool: "set [TunEgressMark..<Suc tunEgressMarkAllocationLast] = {20570..20669}"
  unfolding set_upt atLeastLessThanSuc_atLeastAtMost tun_pool_defs by simp

interpretation hosts: first_fit "[1..<Suc tunAddressAllocationLastHost]"
    "\<lambda>ev host. tunAllocationAddressOccupied ev (must_parse_addr (host_text host))" free_host
  by unfold_locales (simp add: free_host_def scan_up_find)

interpretation tables: first_fit "[TunRoutingTableID..<Suc tunRoutingTableAllocationLast]"
    "\<lambda>ev c. of_nat c \<in> set (used_tables ev)" free_table
  by unfold_locales (simp add: free_table_def scan_up_find)

interpretation marks: first_fit "[TunEgressMark..<Suc tunEgressMarkAllocationLast]"
    "\<lambda>ev c. list_ex (\<lambda>r. mark_matched r (of_nat c)) (te_rules ev)" free_mark
  by unfold_locales (simp add: free_mark_def scan_up_find)

text \<open>The priority loop: the running bound ends strictly below every rule of the host, so its first
  candidate pair is free and the loop never has to move on.\<close>

lemma upper_fold:
  fixes rules :: "TunAllocationRule list"
  defines "f \<equiv> (\<lambda>upper r. if uint (al_priority r) \<le> upper then uint (al_priority r) - 1 else upper)"
  shows "foldl f u rules \<le> u \<and> (\<forall>r\<in>set rules. foldl f u rules < uint (al_priority r)) \<and>
     (foldl f u rules = u \<or> (\<exists>r\<in>set rules. foldl f u rules = uint (al_priority r) - 1))"
proof (induction rules arbitrary: u)
  case (Cons r rules)
  have "f u r \<le> u" "f u r < uint (al_priority r)" "f u r = u \<or> f u r = uint (al_priority r) - 1"
    by (auto simp: f_def)
  with Cons.IH [of "f u r"] show ?case by auto
qed simp

lemmas upper_bounds =
  upper_fold [of TunRulePriority, folded upper_tunnel_priority_def]

lemma upper_at_least:
  "2 \<le> upper_tunnel_priority rules \<longleftrightarrow> (\<forall>r\<in>set rules. 3 \<le> uint (al_priority r))"
  using upper_bounds [of rules] by (fastforce simp: TunRulePriority_def)

lemma upper_pair_free:
  assumes "2 \<le> upper_tunnel_priority rules"
  shows "priorities_free rules (upper_tunnel_priority rules)"
proof -
  let ?u = "upper_tunnel_priority rules"
  have "?u \<le> 10000" using upper_bounds [of rules] by (simp add: TunRulePriority_def)
  then have "uint (of_int v :: 32 word) = v" if "v = ?u \<or> v = ?u - 1" for v
    using that assms by (auto simp: take_bit_int_eq_self unsigned_of_int)
  moreover have "\<forall>r\<in>set rules. ?u < uint (al_priority r)" using upper_bounds [of rules] by simp
  ultimately show ?thesis unfolding priorities_free_def by fastforce
qed

lemma allocateTunRulePriorities_eq:
  "allocateTunRulePriorities ev =
     (let u = upper_tunnel_priority (te_rules ev) in if 2 \<le> u then Inr (u - 1, u) else Inl NoFreePriorities)"
  by (simp add: allocateTunRulePriorities_def scan_down.simps upper_pair_free Let_def)

section \<open>The allocation\<close>

text \<open>The fwmark selector of a Linux policy rule: a mask of zero stands for a full mask when the rule has
  a mark, and for a rule without a fwmark selector otherwise.\<close>

definition fwmark_selects :: "TunAllocationRule \<Rightarrow> 32 word \<Rightarrow> bool" where
  "fwmark_selects r m \<longleftrightarrow>
     (if al_mark_mask r = 0 then al_mark r \<noteq> 0 \<and> m = al_mark r
      else (m XOR al_mark r) AND al_mark_mask r = 0)"

lemma mark_matched_selects: "mark_matched r m \<longleftrightarrow> fwmark_selects r m"
  by (auto simp: mark_matched_def fwmark_selects_def effective_mask_def bit_eq_iff bit_and_iff bit_xor_iff)

text \<open>What a new session may rely on: none of its five identities is used by the observed host.\<close>

definition collision_free :: "TunAllocationEvidence \<Rightarrow> TunResourceAllocation \<Rightarrow> bool" where
  "collision_free ev a \<longleftrightarrow>
     (\<exists>host\<in>{1..254}. ra_cidr a = ip4_text (host_addr host) @ ''/32'' \<and>
        (\<forall>p\<in>set (te_addresses ev). \<not> prefix_contains p (IP4 (host_addr host))) \<and>
        (\<forall>r\<in>set (te_routes ev). \<not> ar_default r \<longrightarrow> \<not> prefix_contains (ar_destination r) (IP4 (host_addr host)))) \<and>
     51820 \<le> ra_table a \<and> ra_table a \<le> 51919 \<and>
     (\<forall>r\<in>set (te_routes ev). uint (ar_table r) \<noteq> ra_table a) \<and>
     (\<forall>t\<in>set (te_reserved_tables ev). uint t \<noteq> ra_table a) \<and>
     (\<forall>r\<in>set (te_rules ev). uint (al_table r) \<noteq> ra_table a) \<and>
     1 \<le> ra_server_priority a \<and> ra_tunnel_priority a = ra_server_priority a + 1 \<and> ra_tunnel_priority a \<le> 10000 \<and>
     (\<forall>r\<in>set (te_rules ev). ra_tunnel_priority a < uint (al_priority r)) \<and>
     20570 \<le> uint (ra_mark a) \<and> uint (ra_mark a) \<le> 20669 \<and>
     (\<forall>r\<in>set (te_rules ev). \<not> fwmark_selects r (ra_mark a))"

lemma AllocateTunResources_Inr:
  "AllocateTunResources ev = Inr a \<longleftrightarrow>
     validateTunAllocationEvidence ev = None \<and>
     (\<exists>host c m. free_host ev = Some host \<and> free_table ev = Some c \<and> free_mark ev = Some m \<and>
        2 \<le> upper_tunnel_priority (te_rules ev) \<and>
        a = \<lparr>ra_cidr = prefix_text (must_parse_addr (host_text host)) 32, ra_table = int c,
             ra_server_priority = upper_tunnel_priority (te_rules ev) - 1,
             ra_tunnel_priority = upper_tunnel_priority (te_rules ev), ra_mark = of_nat m\<rparr>)"
  by (auto simp: AllocateTunResources_def allocateTunIPv4CIDR_def allocateTunRoutingTable_def
      allocateTunRulePriorities_eq allocateTunEgressMark_def Let_def result_simps split: option.splits if_splits)

lemma itoa_32: "itoa 32 = ''32''"
  by (simp add: itoa.simps digit_char_eval)

lemma uint_of_nat_32: "n < 2 ^ 32 \<Longrightarrow> uint (of_nat n :: 32 word) = int n"
  by (simp add: unsigned_of_nat take_bit_nat_eq_self uint_nat)

lemma free_host_sound:
  assumes "free_host ev = Some host"
  shows "1 \<le> host \<and> host \<le> 254 \<and> \<not> tunAllocationAddressOccupied ev (IP4 (host_addr host))"
proof -
  from hosts.alloc_free [OF assms, unfolded host_pool]
  have h: "host \<in> {1..254}" "\<not> tunAllocationAddressOccupied ev (must_parse_addr (host_text host))" by simp_all
  then have "host < 256" by simp
  with h show ?thesis by (simp add: must_parse_host)
qed

lemma free_table_sound:
  assumes "free_table ev = Some c"
  shows "51820 \<le> c \<and> c \<le> 51919 \<and> (\<forall>t\<in>set (used_tables ev). uint t \<noteq> int c)"
proof -
  from tables.alloc_free [OF assms, unfolded table_pool] have c: "51820 \<le> c" "c \<le> 51919" "of_nat c \<notin> set (used_tables ev)"
    by simp_all
  have "t = of_nat c" if "uint t = int c" for t :: "32 word"
    using that word_of_int_uint [of t] by simp
  with c show ?thesis by blast
qed

lemma table_not_zero_used: "51820 \<le> c \<Longrightarrow> uint (0 :: 32 word) \<noteq> int c"
  by simp

lemma used_tables_rules: "r \<in> set (te_rules ev) \<Longrightarrow> al_table r = 0 \<or> al_table r \<in> set (used_tables ev)"
  by (auto simp: used_tables_def)

text \<open>Every allocation that succeeds is collision free: the address lies in no assigned prefix and in no
  route, the table is in no route, reservation or rule, both priorities are positive, adjacent and
  before every rule of the host, and no fwmark rule of the host matches the egress mark.\<close>

theorem allocation_collision_free:
  assumes "AllocateTunResources ev = Inr a"
  shows "collision_free ev a"
proof -
  from assms obtain host c m where
    h: "free_host ev = Some host" and c: "free_table ev = Some c" and m: "free_mark ev = Some m" and
    u: "2 \<le> upper_tunnel_priority (te_rules ev)" and
    a: "a = \<lparr>ra_cidr = prefix_text (must_parse_addr (host_text host)) 32, ra_table = int c,
             ra_server_priority = upper_tunnel_priority (te_rules ev) - 1,
             ra_tunnel_priority = upper_tunnel_priority (te_rules ev), ra_mark = of_nat m\<rparr>"
    unfolding AllocateTunResources_Inr by blast
  note h' = free_host_sound [OF h] and c' = free_table_sound [OF c]
  have cidr: "ra_cidr a = ip4_text (host_addr host) @ ''/32''"
    using h' by (simp add: a must_parse_host prefix_text_def ip_text_def itoa_32)
  have addr: "\<forall>p\<in>set (te_addresses ev). \<not> prefix_contains p (IP4 (host_addr host))"
    "\<forall>r\<in>set (te_routes ev). \<not> ar_default r \<longrightarrow> \<not> prefix_contains (ar_destination r) (IP4 (host_addr host))"
    using h' by (auto simp: tunAllocationAddressOccupied_def list_ex_iff)
  have tab: "\<forall>r\<in>set (te_routes ev). uint (ar_table r) \<noteq> int c" "\<forall>t\<in>set (te_reserved_tables ev). uint t \<noteq> int c"
    using c' by (auto simp: used_tables_def)
  have rul: "\<forall>r\<in>set (te_rules ev). uint (al_table r) \<noteq> int c"
    using c' used_tables_rules by fastforce
  have mk: "20570 \<le> m \<and> m \<le> 20669 \<and> (\<forall>r\<in>set (te_rules ev). \<not> fwmark_selects r (of_nat m))"
    using marks.alloc_free [OF m, unfolded mark_pool] by (simp add: list_ex_iff mark_matched_selects)
  then have um: "uint (ra_mark a) = int m" by (simp add: a uint_of_nat_32)
  have hr: "host \<in> {1..254}" using h' by simp
  have pr: "upper_tunnel_priority (te_rules ev) \<le> 10000"
    "\<forall>r\<in>set (te_rules ev). upper_tunnel_priority (te_rules ev) < uint (al_priority r)"
    using upper_bounds [of "te_rules ev"] by (simp_all add: TunRulePriority_def)
  have ex: "\<exists>host\<in>{1..254}. ra_cidr a = ip4_text (host_addr host) @ ''/32'' \<and>
        (\<forall>p\<in>set (te_addresses ev). \<not> prefix_contains p (IP4 (host_addr host))) \<and>
        (\<forall>r\<in>set (te_routes ev). \<not> ar_default r \<longrightarrow> \<not> prefix_contains (ar_destination r) (IP4 (host_addr host)))"
    using hr cidr addr by blast
  show ?thesis
    unfolding collision_free_def using ex tab rul mk c' u um pr by (simp add: a)
qed

definition demo_evidence :: TunAllocationEvidence where
  "demo_evidence =
     \<lparr>te_addresses = [Prefix (IP4 (host_addr 1)) 32],
      te_routes = [\<lparr>ar_destination = NoPrefix, ar_default = True, ar_table = 254, ar_type = 1, ar_link_index = 2\<rparr>,
                   \<lparr>ar_destination = Prefix (IP4 (host_addr 2)) 32, ar_default = False, ar_table = 51820,
                    ar_type = 1, ar_link_index = 2\<rparr>],
      te_rules = [\<lparr>al_priority = 9000, al_table = 51821, al_has_mark = True, al_mark = 20570, al_mark_mask = 0\<rparr>],
      te_reserved_tables = [51822]\<rparr>"

lemma demo_free_host: "free_host demo_evidence = Some 3"
  by (simp add: free_host_def scan_up.simps must_parse_host tunAllocationAddressOccupied_def demo_evidence_def
      prefix_contains_def in4_32 host_addr_def tun_pool_defs)

lemma demo_free_table: "free_table demo_evidence = Some 51823"
  by (simp add: free_table_def scan_up.simps used_tables_def demo_evidence_def tun_pool_defs)

lemma demo_free_mark: "free_mark demo_evidence = Some 20571"
  by (simp add: free_mark_def scan_up.simps mark_matched_def effective_mask_def demo_evidence_def tun_pool_defs)

lemma demo_allocation:
  "AllocateTunResources demo_evidence =
     Inr \<lparr>ra_cidr = ''198.18.0.3/32'', ra_table = 51823, ra_server_priority = 8998, ra_tunnel_priority = 8999,
          ra_mark = 20571\<rparr>"
proof -
  have "validateTunAllocationEvidence demo_evidence = None"
    by (simp add: validateTunAllocationEvidence_def demo_evidence_def address_entry_error_def route_entry_error_def
        reserved_table_error_def rule_entry_error_def prefix_valid_def prefix_is4_def)
  moreover have "upper_tunnel_priority (te_rules demo_evidence) = 8999"
    by (simp add: upper_tunnel_priority_def demo_evidence_def TunRulePriority_def)
  moreover have "prefix_text (must_parse_addr (host_text 3)) 32 = ''198.18.0.3/32''"
  proof -
    have "ip4_text (host_addr 3) = ''198.18.0.3''"
      by (simp add: host_text_eq [symmetric] host_text_def itoa_eval)
    then show ?thesis by (simp add: must_parse_host prefix_text_def ip_text_def itoa_32)
  qed
  ultimately show ?thesis
    unfolding AllocateTunResources_Inr demo_free_host demo_free_table demo_free_mark by simp
qed

theorem allocation_collision_free_witness:
  "\<exists>a. AllocateTunResources demo_evidence = Inr a \<and> ra_cidr a = ''198.18.0.3/32'' \<and> ra_table a = 51823 \<and>
     collision_free demo_evidence a"
  using demo_allocation allocation_collision_free [OF demo_allocation] by auto

text \<open>Allocation is complete: it succeeds exactly when the evidence is well formed and each bounded pool
  still has a free candidate; for the priorities this means that no host rule stands at priority 1 or 2.\<close>

theorem allocation_complete:
  "(\<exists>a. AllocateTunResources ev = Inr a) \<longleftrightarrow>
     validateTunAllocationEvidence ev = None \<and>
     (\<exists>host\<in>{1..254}. \<not> tunAllocationAddressOccupied ev (IP4 (host_addr host))) \<and>
     (\<exists>c\<in>{51820..51919::nat}. of_nat c \<notin> set (used_tables ev)) \<and>
     (\<exists>m\<in>{20570..20669::nat}. \<forall>r\<in>set (te_rules ev). \<not> mark_matched r (of_nat m)) \<and>
     (\<forall>r\<in>set (te_rules ev). 3 \<le> uint (al_priority r))"
proof -
  have "(\<exists>host. free_host ev = Some host) \<longleftrightarrow>
      (\<exists>host\<in>{1..254}. \<not> tunAllocationAddressOccupied ev (must_parse_addr (host_text host)))"
    unfolding not_None_eq [symmetric] hosts.alloc_None_iff host_pool by blast
  also have "\<dots> \<longleftrightarrow> (\<exists>host\<in>{1..254}. \<not> tunAllocationAddressOccupied ev (IP4 (host_addr host)))"
    by (intro bex_cong refl) (simp add: must_parse_host)
  finally have 1: "(\<exists>host. free_host ev = Some host) \<longleftrightarrow> \<dots>" .
  have 2: "(\<exists>c. free_table ev = Some c) \<longleftrightarrow> (\<exists>c\<in>{51820..51919::nat}. of_nat c \<notin> set (used_tables ev))"
    unfolding not_None_eq [symmetric] tables.alloc_None_iff table_pool by blast
  have 3: "(\<exists>m. free_mark ev = Some m) \<longleftrightarrow>
      (\<exists>m\<in>{20570..20669::nat}. \<forall>r\<in>set (te_rules ev). \<not> mark_matched r (of_nat m))"
    unfolding not_None_eq [symmetric] marks.alloc_None_iff mark_pool list_ex_iff by blast
  have "(\<exists>a. AllocateTunResources ev = Inr a) \<longleftrightarrow> validateTunAllocationEvidence ev = None \<and>
      (\<exists>host. free_host ev = Some host) \<and> (\<exists>c. free_table ev = Some c) \<and> (\<exists>m. free_mark ev = Some m) \<and>
      2 \<le> upper_tunnel_priority (te_rules ev)"
    unfolding AllocateTunResources_Inr by blast
  then show ?thesis by (simp only: 1 2 3 upper_at_least)
qed

theorem allocation_complete_witness:
  "(\<exists>a. AllocateTunResources demo_evidence = Inr a) \<and>
   \<not> (\<exists>a. AllocateTunResources (demo_evidence\<lparr>te_rules := [\<lparr>al_priority = 2, al_table = 254, al_has_mark = False,
              al_mark = 0, al_mark_mask = 0\<rparr>]\<rparr>) = Inr a)"
  using demo_allocation
  by (simp add: allocation_complete [of "demo_evidence\<lparr>te_rules := [\<lparr>al_priority = 2, al_table = 254,
       al_has_mark = False, al_mark = 0, al_mark_mask = 0\<rparr>]\<rparr>"] del: not_ex)

end
