(* ===== verification/Profile.thy ===== *)
theory Profile
  imports Net_Addr
begin

text \<open>
  The normalised connection profile of \<^verbatim>\<open>src/internal/profile/profile.go\<close> and the provider profiles of
  \<^verbatim>\<open>xray_provider.go\<close>: validation, identifiers and manual profiles.  The check of a provider
  configuration is the acceptance of Go's JSON decoder, modelled below as a recogniser.
\<close>

section \<open>JSON objects\<close>

text \<open>The scanner of \<^verbatim>\<open>encoding/json\<close> as a recogniser: each function returns the text after what it
  recognised.  A value nested deeper than 10000 is refused.  Every recursive call consumes a byte, so
  fuel equal to the length of the text is enough.\<close>

definition json_blank :: "char \<Rightarrow> bool" where
  "json_blank c = (byte c = 32 \<or> byte c = 9 \<or> byte c = 13 \<or> byte c = 10)"

definition skip_blank :: "string \<Rightarrow> string" where
  "skip_blank s = dropWhile json_blank s"

definition is_hex :: "char \<Rightarrow> bool" where
  "is_hex c = (hex_digit_of c \<noteq> None)"

fun json_string_rest :: "string \<Rightarrow> string option" where
  "json_string_rest [] = None"
| "json_string_rest (c # s) =
     (if byte c = 34 then Some s
      else if byte c < 32 then None
      else if byte c = 92 then
        (case s of
           [] \<Rightarrow> None
         | e # t \<Rightarrow>
             if byte e \<in> {34, 92, 47, 98, 102, 110, 114, 116} then json_string_rest t
             else if byte e = 117 then
               (if length (take 4 t) = 4 \<and> list_all is_hex (take 4 t) then json_string_rest (drop 4 t) else None)
             else None)
      else json_string_rest s)"

definition digits_rest :: "string \<Rightarrow> string option" where
  "digits_rest s = (case s of [] \<Rightarrow> None | c # t \<Rightarrow> if is_digit c then Some (dropWhile is_digit t) else None)"

definition json_int_rest :: "string \<Rightarrow> string option" where
  "json_int_rest s =
     (case s of [] \<Rightarrow> None
      | c # t \<Rightarrow> if c = CHR ''0'' then Some t else if is_digit c then Some (dropWhile is_digit t) else None)"

definition json_number_rest :: "string \<Rightarrow> string option" where
  "json_number_rest s =
     Option.bind (json_int_rest (if take 1 s = ''-'' then drop 1 s else s)) (\<lambda>r.
     Option.bind (if take 1 r = ''.'' then digits_rest (drop 1 r) else Some r) (\<lambda>r.
       if take 1 r = ''e'' \<or> take 1 r = ''E'' then
         (let t = drop 1 r in digits_rest (if take 1 t = ''-'' \<or> take 1 t = ''+'' then drop 1 t else t))
       else Some r))"

definition literal_rest :: "string \<Rightarrow> string \<Rightarrow> string option" where
  "literal_rest w s = (if take (length w) s = w then Some (drop (length w) s) else None)"

fun json_rest :: "nat \<Rightarrow> nat \<Rightarrow> string \<Rightarrow> string option"
  and members_rest :: "nat \<Rightarrow> nat \<Rightarrow> string \<Rightarrow> string option"
  and elements_rest :: "nat \<Rightarrow> nat \<Rightarrow> string \<Rightarrow> string option" where
  "json_rest 0 d s = None"
| "json_rest (Suc fuel) d s =
     (case skip_blank s of
        [] \<Rightarrow> None
      | c # t \<Rightarrow>
          if c = CHR ''{'' then
            (if 10000 \<le> d then None
             else if take 1 (skip_blank t) = ''}'' then Some (drop 1 (skip_blank t))
             else members_rest fuel (Suc d) (skip_blank t))
          else if c = CHR ''['' then
            (if 10000 \<le> d then None
             else if take 1 (skip_blank t) = '']'' then Some (drop 1 (skip_blank t))
             else elements_rest fuel (Suc d) t)
          else if byte c = 34 then json_string_rest t
          else if c = CHR ''t'' then literal_rest ''rue'' t
          else if c = CHR ''f'' then literal_rest ''alse'' t
          else if c = CHR ''n'' then literal_rest ''ull'' t
          else json_number_rest (c # t))"
| "members_rest 0 d s = None"
| "members_rest (Suc fuel) d s =
     (case s of
        [] \<Rightarrow> None
      | q # t \<Rightarrow>
          if byte q \<noteq> 34 then None
          else
            Option.bind (json_string_rest t) (\<lambda>r.
            if take 1 (skip_blank r) \<noteq> '':'' then None
            else
              Option.bind (json_rest fuel d (drop 1 (skip_blank r))) (\<lambda>r.
              if take 1 (skip_blank r) = '','' then members_rest fuel d (skip_blank (drop 1 (skip_blank r)))
              else if take 1 (skip_blank r) = ''}'' then Some (drop 1 (skip_blank r))
              else None)))"
| "elements_rest 0 d s = None"
| "elements_rest (Suc fuel) d s =
     Option.bind (json_rest fuel d s) (\<lambda>r.
     if take 1 (skip_blank r) = '','' then elements_rest fuel d (drop 1 (skip_blank r))
     else if take 1 (skip_blank r) = '']'' then Some (drop 1 (skip_blank r))
     else None)"

definition validProviderXrayConfigJSON :: "string \<Rightarrow> bool" where
  "validProviderXrayConfigJSON value =
     (let s = trim_space value in
      take 1 (skip_blank s) = ''{'' \<and> map_option skip_blank (json_rest (Suc (length s)) 0 s) = Some [])"

section \<open>Profiles\<close>

record Profile =
  pr_id :: string
  pr_name :: string
  pr_source :: string
  pr_engine :: string
  pr_server :: string
  pr_port :: "16 word"
  pr_protocol :: string
  pr_user_identity :: string
  pr_transport :: string
  pr_security :: string
  pr_encryption :: string
  pr_flow :: string
  pr_server_name :: string
  pr_alpn :: string
  pr_fingerprint :: string
  pr_path :: string
  pr_host_header :: string
  pr_service_name :: string
  pr_reality_public_key :: string
  pr_reality_short_id :: string
  pr_reality_spider_x :: string

definition EngineXray :: string where "EngineXray = ''xray''"
definition EngineAmneziaWG :: string where "EngineAmneziaWG = ''amneziawg''"
definition SourceManual :: string where "SourceManual = ''manual''"
definition SourceSubscription :: string where "SourceSubscription = ''subscription''"
definition SourceImportedFile :: string where "SourceImportedFile = ''imported_file''"
definition SourceImportedURI :: string where "SourceImportedURI = ''imported_uri''"
definition ProtocolXrayJSON :: string where "ProtocolXrayJSON = ''xray-json''"

lemmas profile_consts = EngineXray_def EngineAmneziaWG_def SourceManual_def SourceSubscription_def
  SourceImportedFile_def SourceImportedURI_def ProtocolXrayJSON_def

datatype profile_message =
    IdRequired | IdCharacters | NameRequired | SourceRequired | UnsupportedSource string
  | EngineRequired | UnsupportedEngine string | ProtocolRequired | UnsupportedProtocol string
  | ProviderProtocol | ProviderSource | ProviderEngine | ProviderConfigRequired | ProviderConfigInvalid
  | ServerRequired | ServerWhitespace | ServerInvalid | PortRange
  | UserIdentityRequired string

text \<open>\<^verbatim>\<open>strings.EqualFold\<close> against a text of lower-case ASCII letters and hyphens: besides the ASCII
  letters, U+017F folds to s and U+212A to k.\<close>

fun fold_text :: "string \<Rightarrow> string" where
  "fold_text [] = []"
| "fold_text (c # s) =
     (if c = CHR 0xC5 \<and> take 1 s = [CHR 0xBF] then CHR ''s'' # fold_text (drop 1 s)
      else if c = CHR 0xE2 \<and> take 2 s = [CHR 0x84, CHR 0xAA] then CHR ''k'' # fold_text (drop 2 s)
      else lower_char c # fold_text s)"

definition IsProviderXrayConfigProfile :: "Profile \<Rightarrow> bool" where
  "IsProviderXrayConfigProfile p = (fold_text (trim_space (pr_protocol p)) = ProtocolXrayJSON)"

definition ProviderXrayConfigJSON :: "Profile \<Rightarrow> string" where
  "ProviderXrayConfigJSON p =
     (if fold_text (trim_space (pr_protocol p)) = ProtocolXrayJSON then pr_reality_spider_x p else [])"

definition supportedManualProtocol :: "string \<Rightarrow> bool" where
  "supportedManualProtocol protocol =
     (to_lower protocol \<in> {''vless'', ''vmess'', ''trojan'', ''shadowsocks'', ProtocolXrayJSON})"

definition id_letter :: "char \<Rightarrow> bool" where
  "id_letter c = ((97 \<le> byte c \<and> byte c \<le> 122) \<or> (48 \<le> byte c \<and> byte c \<le> 57))"

definition id_separator :: "char \<Rightarrow> bool" where
  "id_separator c = (c = CHR ''.'' \<or> c = CHR ''_'' \<or> c = CHR ''-'')"

definition validID :: "string \<Rightarrow> bool" where
  "validID s = list_all (\<lambda>c. id_letter c \<or> id_separator c) s"

definition alnum :: "char \<Rightarrow> bool" where
  "alnum c = (id_letter c \<or> (65 \<le> byte c \<and> byte c \<le> 90))"

definition hostnameLabel :: "string \<Rightarrow> bool" where
  "hostnameLabel l =
     (l \<noteq> [] \<and> length l \<le> 63 \<and> alnum (hd l) \<and> alnum (last l) \<and> list_all (\<lambda>c. alnum c \<or> c = CHR ''-'') l)"

definition validHostname :: "string \<Rightarrow> bool" where
  "validHostname host =
     (length host \<le> 253 \<and> take 1 host \<noteq> ''.'' \<and> take 1 (rev host) \<noteq> ''.'' \<and>
      list_all hostnameLabel (split_on CHR ''.'' host))"

definition identity_messages :: "Profile \<Rightarrow> profile_message list" where
  "identity_messages p =
     (if trim_space (pr_id p) = [] then [IdRequired] else if \<not> validID (pr_id p) then [IdCharacters] else []) @
     (if trim_space (pr_name p) = [] then [NameRequired] else []) @
     (if pr_source p = [] then [SourceRequired]
      else if pr_source p \<notin> {SourceManual, SourceSubscription, SourceImportedFile, SourceImportedURI}
        then [UnsupportedSource (pr_source p)] else []) @
     (if pr_engine p = [] then [EngineRequired]
      else if pr_engine p \<notin> {EngineXray, EngineAmneziaWG} then [UnsupportedEngine (pr_engine p)] else []) @
     (if trim_space (pr_protocol p) = [] then [ProtocolRequired]
      else if \<not> supportedManualProtocol (pr_protocol p) then [UnsupportedProtocol (pr_protocol p)] else [])"

definition provider_messages :: "Profile \<Rightarrow> profile_message list" where
  "provider_messages p =
     (if fold_text (trim_space (pr_protocol p)) \<noteq> ProtocolXrayJSON then [ProviderProtocol] else []) @
     (if pr_source p \<noteq> SourceSubscription \<and> pr_source p \<noteq> SourceImportedFile then [ProviderSource] else []) @
     (if pr_engine p \<noteq> EngineXray then [ProviderEngine] else []) @
     (if trim_space (ProviderXrayConfigJSON p) = [] then [ProviderConfigRequired]
      else if \<not> validProviderXrayConfigJSON (ProviderXrayConfigJSON p) then [ProviderConfigInvalid] else [])"

definition endpoint_messages :: "Profile \<Rightarrow> profile_message list" where
  "endpoint_messages p =
     (if trim_space (pr_server p) = [] then [ServerRequired]
      else if list_ex (\<lambda>c. c \<in> {CHR 0x20, CHR 0x09, CHR 0x0A, CHR 0x0D}) (pr_server p) then [ServerWhitespace]
      else if parse_ip (pr_server p) = None \<and> \<not> validHostname (pr_server p) then [ServerInvalid] else []) @
     (if pr_port p = 0 then [PortRange] else []) @
     (if pr_source p \<in> {SourceImportedURI, SourceImportedFile, SourceSubscription} \<and>
         pr_protocol p \<in> {''vless'', ''vmess'', ''trojan'', ''shadowsocks''} \<and> trim_space (pr_user_identity p) = []
      then [UserIdentityRequired (pr_protocol p)] else [])"

text \<open>The list of messages of the validation error; the empty list is the nil error.\<close>

definition Validate :: "Profile \<Rightarrow> profile_message list" where
  "Validate p =
     identity_messages p @
     (if IsProviderXrayConfigProfile p then provider_messages p else endpoint_messages p)"

text \<open>\<^verbatim>\<open>NormalizeID\<close>: the loop over the runes of the lowered name, with the text built so far and the
  flag for a trailing separator.\<close>

function normalize_runes :: "string \<Rightarrow> bool \<Rightarrow> string \<Rightarrow> string" where
  "normalize_runes b sep [] = b"
| "normalize_runes b sep (c # s) =
     (if id_letter c then normalize_runes (b @ [c]) False s
      else if id_separator c then
        (if b \<noteq> [] \<and> \<not> sep then normalize_runes (b @ [c]) True s else normalize_runes b sep s)
      else if 0 < space_len (c # s) then
        (if b \<noteq> [] \<and> \<not> sep then normalize_runes (b @ ''-'') True (drop (space_len (c # s)) (c # s))
         else normalize_runes b sep (drop (space_len (c # s)) (c # s)))
      else normalize_runes b sep s)"
  by pat_completeness auto
termination
  by (relation "measure (\<lambda>(b, sep, s). length s)") auto

definition trim_chars :: "(char \<Rightarrow> bool) \<Rightarrow> string \<Rightarrow> string" where
  "trim_chars P s = rev (dropWhile P (rev (dropWhile P s)))"

definition NormalizeID :: "string \<Rightarrow> string" where
  "NormalizeID name = trim_chars id_separator (normalize_runes [] False (to_lower (trim_space name)))"

definition NewManual :: "string \<Rightarrow> string \<Rightarrow> 16 word \<Rightarrow> string \<Rightarrow> Profile" where
  "NewManual name server port protocol =
     \<lparr>pr_id = NormalizeID (trim_space name), pr_name = trim_space name, pr_source = SourceManual,
      pr_engine = EngineXray, pr_server = trim_space server, pr_port = port,
      pr_protocol = to_lower (trim_space protocol), pr_user_identity = [], pr_transport = [], pr_security = [],
      pr_encryption = [], pr_flow = [], pr_server_name = [], pr_alpn = [], pr_fingerprint = [], pr_path = [],
      pr_host_header = [], pr_service_name = [], pr_reality_public_key = [], pr_reality_short_id = [],
      pr_reality_spider_x = []\<rparr>"

section \<open>Identifiers are stable\<close>

abbreviation no_double :: "string \<Rightarrow> bool" where
  "no_double \<equiv> successively (\<lambda>x y. \<not> (id_separator x \<and> id_separator y))"

definition good_id :: "string \<Rightarrow> bool" where
  "good_id s = (validID s \<and> no_double s \<and> (s = [] \<or> id_letter (hd s)))"

lemma letter_not_separator: "id_letter c \<Longrightarrow> \<not> id_separator c"
  by (auto simp: id_letter_def id_separator_def)

lemma separator_dash: "id_separator CHR ''-''"
  by (simp add: id_separator_def)

lemma good_id_letter: "good_id b \<Longrightarrow> id_letter c \<Longrightarrow> good_id (b @ [c])"
  by (cases "b = []") (auto simp: good_id_def validID_def successively_append_iff letter_not_separator)

lemma good_id_separator:
  "good_id b \<Longrightarrow> b \<noteq> [] \<Longrightarrow> \<not> id_separator (last b) \<Longrightarrow> id_separator c \<Longrightarrow> good_id (b @ [c])"
  by (cases "b = []") (auto simp: good_id_def validID_def successively_append_iff)

lemma normalize_runes_good:
  "good_id b \<Longrightarrow> sep = (b \<noteq> [] \<and> id_separator (last b)) \<Longrightarrow> good_id (normalize_runes b sep s)"
proof (induction b sep s rule: normalize_runes.induct)
  case (2 b sep c s)
  show ?case
  proof (cases "id_letter c")
    case True
    with 2 show ?thesis by (simp add: good_id_letter letter_not_separator)
  next
    case False
    note no_letter = this
    show ?thesis
    proof (cases "id_separator c")
      case True
      with 2 no_letter show ?thesis by (auto simp: good_id_separator)
    next
      case False
      show ?thesis
      proof (cases "0 < space_len (c # s)")
        case True
        with 2 no_letter False show ?thesis by (auto simp: good_id_separator separator_dash simp del: drop_Cons')
      next
        case False
        with 2 no_letter \<open>\<not> id_separator c\<close> show ?thesis by simp
      qed
    qed
  qed
qed simp

lemma dropWhile_noop: "s = [] \<or> \<not> P (hd s) \<Longrightarrow> dropWhile P s = s"
  by (cases s) auto

lemma trim_chars_prefix:
  assumes "s = [] \<or> \<not> P (hd s)"
  shows "Sublist.prefix (trim_chars P s) s" "trim_chars P s = [] \<or> \<not> P (last (trim_chars P s))"
proof -
  have "Sublist.suffix (dropWhile P (rev s)) (rev s)" by (rule suffix_dropWhile)
  then show "Sublist.prefix (trim_chars P s) s"
    using assms by (simp add: trim_chars_def dropWhile_noop suffix_to_prefix)
  have "dropWhile P (rev s) = [] \<or> \<not> P (hd (dropWhile P (rev s)))"
    using hd_dropWhile by blast
  then show "trim_chars P s = [] \<or> \<not> P (last (trim_chars P s))"
    using assms by (simp add: trim_chars_def dropWhile_noop last_rev)
qed

lemma good_id_prefix:
  assumes "good_id s" "Sublist.prefix t s"
  shows "good_id t"
proof -
  from assms(2) obtain u where "s = t @ u" by (auto simp: prefix_def)
  with assms(1) show ?thesis by (cases "t = []") (auto simp: good_id_def validID_def successively_append_iff)
qed

lemma NormalizeID_good:
  "good_id (NormalizeID name)" "NormalizeID name = [] \<or> id_letter (last (NormalizeID name))"
proof -
  let ?r = "normalize_runes [] False (to_lower (trim_space name))"
  have g: "good_id ?r" by (rule normalize_runes_good) (auto simp: good_id_def validID_def)
  then have start: "?r = [] \<or> \<not> id_separator (hd ?r)" by (auto simp: good_id_def letter_not_separator)
  show good: "good_id (NormalizeID name)"
    unfolding NormalizeID_def using good_id_prefix [OF g] trim_chars_prefix(1) [of ?r id_separator] start by blast
  have "NormalizeID name = [] \<or> \<not> id_separator (last (NormalizeID name))"
    unfolding NormalizeID_def using trim_chars_prefix(2) [of ?r id_separator] start by blast
  with good show "NormalizeID name = [] \<or> id_letter (last (NormalizeID name))"
    using last_in_set [of "NormalizeID name"] unfolding good_id_def validID_def list_all_iff by blast
qed

lemma normalize_runes_id:
  "validID s \<Longrightarrow> no_double (b @ s) \<Longrightarrow> b \<noteq> [] \<or> s = [] \<or> id_letter (hd s) \<Longrightarrow>
   sep = (b \<noteq> [] \<and> id_separator (last b)) \<Longrightarrow> normalize_runes b sep s = b @ s"
proof (induction s arbitrary: b sep)
  case (Cons c s)
  have s: "validID s" using Cons.prems(1) by (simp add: validID_def)
  have d: "no_double ((b @ [c]) @ s)" using Cons.prems(2) by simp
  show ?case
  proof (cases "id_letter c")
    case True
    then show ?thesis using Cons.IH [OF s d, of False] by (simp add: letter_not_separator)
  next
    case False
    with Cons.prems have "id_separator c" "b \<noteq> []" by (auto simp: validID_def)
    moreover from this have "\<not> sep" using Cons.prems(2,4) by (auto simp: successively_append_iff)
    ultimately show ?thesis using False Cons.IH [OF s d, of True] by simp
  qed
qed simp

lemma id_char_plain: "validID s \<Longrightarrow> plain s"
  by (induction s) (auto simp: validID_def plain_def id_letter_def id_separator_def)

lemma to_lower_id: "validID s \<Longrightarrow> to_lower s = s"
  by (induction s) (auto simp: validID_def lower_char_def id_letter_def id_separator_def)

text \<open>identifiers made from names are valid, begin and end with a letter or digit, and are fixed points
  of the normalisation, so importing a profile twice addresses the same stored record.\<close>

theorem normalized_id_valid_and_stable:
  "validID (NormalizeID name) \<and>
   (NormalizeID name = [] \<or> id_letter (hd (NormalizeID name)) \<and> id_letter (last (NormalizeID name))) \<and>
   NormalizeID (NormalizeID name) = NormalizeID name"
proof -
  let ?n = "NormalizeID name"
  have v: "validID ?n" and d: "no_double ?n" and h: "?n = [] \<or> id_letter (hd ?n)"
    using NormalizeID_good(1) [of name] by (auto simp: good_id_def)
  have l: "?n = [] \<or> id_letter (last ?n)" by (rule NormalizeID_good(2))
  have "normalize_runes [] False ?n = ?n"
    using normalize_runes_id [OF v, of "[]" False] d h by simp
  moreover have "trim_chars id_separator ?n = ?n"
  proof -
    have "rev ?n = [] \<or> \<not> id_separator (hd (rev ?n))" "?n = [] \<or> \<not> id_separator (hd ?n)"
      using h l by (auto simp: letter_not_separator hd_rev)
    then show ?thesis by (simp add: trim_chars_def dropWhile_noop)
  qed
  ultimately have "NormalizeID ?n = ?n"
    using v by (simp add: NormalizeID_def [of ?n] to_lower_id id_char_plain)
  with v h l show ?thesis by blast
qed

lemma IsProvider_flat:
  "pr_protocol p \<in> {''vless'', ''vmess'', ''trojan'', ''shadowsocks''} \<Longrightarrow> \<not> IsProviderXrayConfigProfile p"
  by (auto simp: IsProviderXrayConfigProfile_def ProtocolXrayJSON_def lower_char_def)

end
