(* ===== verification/Tun_Planner.thy ===== *)
theory Tun_Planner
  imports Tun_Resources Profile
begin

text \<open>
  The TUN planner of \<^verbatim>\<open>src/internal/network/planner/tun.go\<close> and \<^verbatim>\<open>tun_resources.go\<close>: it turns a profile, a
  host snapshot and options into the desired state of the host.  The texts shown to the operator are
  kept in definitions of their own, so that the plans can be computed without unfolding them.
\<close>

section \<open>Constants\<close>

definition ModeTun :: string where "ModeTun = ''tun''"
definition TunTunnelMode :: string where "TunTunnelMode = ''full-tunnel''"
definition DefaultTunMTU :: nat where "DefaultTunMTU = 1500"
definition DefaultTunIPv4CIDR :: string where "DefaultTunIPv4CIDR = ''198.18.0.1/32''"
definition TunRoutingTable :: string where "TunRoutingTable = ''podlaz''"
definition MainRoutingTable :: string where "MainRoutingTable = ''main''"
definition IPv4DefaultRoute :: string where "IPv4DefaultRoute = ''default''"
definition IPv4DefaultSelector :: string where "IPv4DefaultSelector = ''from all''"
definition DefaultTunDNSServer :: string where "DefaultTunDNSServer = ''1.1.1.1''"
definition DNSActionConfigure :: string where "DNSActionConfigure = ''configure''"
definition DNSActionBlocked :: string where "DNSActionBlocked = ''blocked''"
definition TunAddressActionBlocked :: string where "TunAddressActionBlocked = ''blocked''"
definition TunAddressActionDaemonRecheck :: string where "TunAddressActionDaemonRecheck = ''daemon-recheck''"
definition FirewallTableAction :: string where "FirewallTableAction = ''create''"
definition FirewallActionAdd :: string where "FirewallActionAdd = ''add''"
definition FirewallActionBlocked :: string where "FirewallActionBlocked = ''blocked''"
definition FirewallActionSkip :: string where "FirewallActionSkip = ''skip''"
definition FirewallActionValidate :: string where "FirewallActionValidate = ''validate-or-replace''"
definition FirewallVerdictAccept :: string where "FirewallVerdictAccept = ''accept''"
definition FirewallVerdictReject :: string where "FirewallVerdictReject = ''reject''"
definition FirewallVerdictDrop :: string where "FirewallVerdictDrop = ''drop''"
definition KillSwitchPolicyOff :: string where "KillSwitchPolicyOff = ''off''"
definition KillSwitchPolicySoft :: string where "KillSwitchPolicySoft = ''soft''"
definition KillSwitchPolicyStrict :: string where "KillSwitchPolicyStrict = ''strict''"

lemmas action_consts = DNSActionConfigure_def DNSActionBlocked_def TunAddressActionBlocked_def
  TunAddressActionDaemonRecheck_def TunAddressActionAssign_def FirewallTableAction_def FirewallActionAdd_def
  FirewallActionBlocked_def FirewallActionSkip_def FirewallActionValidate_def
lemmas verdict_consts = FirewallVerdictAccept_def FirewallVerdictReject_def FirewallVerdictDrop_def
lemmas policy_consts = KillSwitchPolicyOff_def KillSwitchPolicySoft_def KillSwitchPolicyStrict_def

section \<open>Plans\<close>

record TunOptions =
  op_kill_switch :: string
  op_dns_servers :: "string list"

record TunDevicePlan =
  tdp_name :: string
  tdp_mtu :: nat
  tdp_action :: string
  tdp_reason :: string

record TunAddressPlan =
  tap_family :: string
  tap_interface :: string
  tap_cidr :: string
  tap_scope :: string
  tap_action :: string
  tap_reason :: string
  tap_classification :: string
  tap_owner :: string
  tap_rollback_key :: string
  tap_link_index :: int
  tap_link_kind :: string
  tap_appeared_after_core :: bool
  tap_allow_owned_existing :: bool
  tap_allow_missing_link :: bool

record TunRoutePlan =
  trp_family :: string
  trp_destination :: string
  trp_table :: string
  trp_interface :: string
  trp_gateway :: string
  trp_action :: string
  trp_reason :: string

record TunPolicyRulePlan =
  prp_family :: string
  prp_priority :: int
  prp_selector :: string
  prp_table :: string
  prp_action :: string
  prp_reason :: string

record TunDNSPlan =
  dpl_backend :: string
  dpl_target_link :: string
  dpl_servers :: "string list"
  dpl_action :: string
  dpl_reason :: string
  dpl_rollback :: string
  dpl_rollback_steps :: "string list"

record TunFirewallChainPlan =
  fcp_name :: string
  fcp_type :: string
  fcp_hook :: string
  fcp_priority :: int
  fcp_policy :: string
  fcp_action :: string
  fcp_reason :: string

record TunFirewallRulePlan =
  frp_chain :: string
  frp_expr :: string
  frp_verdict :: string
  frp_action :: string
  frp_reason :: string
  frp_ownership :: string
  frp_rollback_key :: string

record TunKillSwitchPlan =
  ksp_policy :: string
  ksp_action :: string
  ksp_scope :: string
  ksp_recovery :: string
  ksp_limitations :: "string list"

record TunFirewallPlan =
  fwp_backend :: string
  fwp_family :: string
  fwp_table :: string
  fwp_table_action :: string
  fwp_chains :: "TunFirewallChainPlan list"
  fwp_rules :: "TunFirewallRulePlan list"
  fwp_kill_switch :: TunKillSwitchPlan
  fwp_reason :: string
  fwp_rollback :: string
  fwp_rollback_steps :: "string list"

record TunPlan =
  tp_mode :: string
  tp_tunnel_mode :: string
  tp_profile_id :: string
  tp_profile_name :: string
  tp_snapshot :: Snapshot
  tp_device :: TunDevicePlan
  tp_address :: TunAddressPlan
  tp_routes :: "TunRoutePlan list"
  tp_rules :: "TunPolicyRulePlan list"
  tp_server_bypass :: TunRoutePlan
  tp_egress_mark :: "32 word"
  tp_dns :: TunDNSPlan
  tp_firewall :: TunFirewallPlan
  tp_loop_risks :: "string list"
  tp_warnings :: "string list"
  tp_steps :: "string list"
  tp_rollback_steps :: "string list"

datatype plan_error =
    InvalidProfile "profile_message list"
  | EvidenceError evidence_error
  | AllocationError allocation_error
  | NoNumericTable
  | InvalidEgressMark
  | IncompleteAllocation

section \<open>Lists of texts\<close>

definition compactWarnings :: "string list \<Rightarrow> string list" where
  "compactWarnings values = dedup (filter (\<lambda>v. v \<noteq> []) (map trim_space values))"

definition normalizeDNSServers :: "string list \<Rightarrow> string list" where
  "normalizeDNSServers servers =
     (let out = dedup (filter (\<lambda>v. v \<noteq> []) (map trim_space servers)) in
      if out = [] then [DefaultTunDNSServer] else out)"

definition normalizeKillSwitchPolicy :: "string \<Rightarrow> string" where
  "normalizeKillSwitchPolicy policy =
     (let p = to_lower (trim_space policy) in
      if p = [] \<or> p = KillSwitchPolicySoft then KillSwitchPolicySoft
      else if p = KillSwitchPolicyStrict then KillSwitchPolicyStrict
      else if p = KillSwitchPolicyOff then KillSwitchPolicyOff
      else KillSwitchPolicySoft)"

definition quoted :: "string \<Rightarrow> string" where
  "quoted s = CHR 0x22 # s @ [CHR 0x22]"

definition guarded :: "bool \<Rightarrow> 'a list \<Rightarrow> 'a list" where
  "guarded b xs = (if b then xs else [])"

section \<open>The TUN address against the observed host\<close>

definition fallbackRouteTable :: "string \<Rightarrow> string" where
  "fallbackRouteTable v = (if trim_space v = [] then ''main'' else trim_space v)"

definition fallbackRouteInterface :: "string \<Rightarrow> string" where
  "fallbackRouteInterface v = (if trim_space v = [] then ''<none>'' else trim_space v)"

definition address_invalid_text :: "IPAddress \<Rightarrow> string" where
  "address_invalid_text a =
     ''IPv4 address inventory contains an invalid entry on '' @ ia_interface a @ ''; refusing to infer absence''"

definition address_conflict_text :: "string \<Rightarrow> IPAddress \<Rightarrow> string" where
  "address_conflict_text d a =
     ''selected TUN address '' @ d @ '' conflicts with assigned address '' @ ia_cidr a @ '' on '' @ ia_interface a"

definition route_invalid_text :: "Route \<Rightarrow> string" where
  "route_invalid_text r =
     ''IPv4 route inventory contains an invalid destination in table '' @ fallbackRouteTable (rt_table r) @
     ''; refusing to infer absence''"

definition route_conflict_text :: "string \<Rightarrow> Route \<Rightarrow> string" where
  "route_conflict_text d r =
     ''selected TUN address '' @ d @ '' conflicts with route '' @ trim_space (rt_destination r) @ '' in table '' @
     fallbackRouteTable (rt_table r) @ '' via '' @ fallbackRouteInterface (rt_interface r)"

definition address_conflict :: "string \<Rightarrow> addr \<Rightarrow> prefix \<Rightarrow> IPAddress \<Rightarrow> string option" where
  "address_conflict d dip dnet a =
     (case parse_cidr (trim_space (ia_cidr a)) of
        None \<Rightarrow> Some (address_invalid_text a)
      | Some (ip, net) \<Rightarrow>
          if \<not> is4 ip then Some (address_invalid_text a)
          else if prefix_contains net dip \<or> prefix_contains dnet ip then Some (address_conflict_text d a)
          else None)"

definition route_conflict :: "string \<Rightarrow> addr \<Rightarrow> prefix \<Rightarrow> Route \<Rightarrow> string option" where
  "route_conflict d dip dnet r =
     (let dst = trim_space (rt_destination r) in
      if dst = [] \<or> dst = ''default'' \<or> dst = ''0.0.0.0/0'' then None
      else case parse_cidr dst of
        None \<Rightarrow> Some (route_invalid_text r)
      | Some (ip, net) \<Rightarrow>
          if prefix_contains net dip \<or> prefix_contains dnet (net_ip net) then Some (route_conflict_text d r)
          else None)"

definition tunAddressConflict :: "Snapshot \<Rightarrow> string \<Rightarrow> string option" where
  "tunAddressConflict s d =
     (case parse_cidr d of
        None \<Rightarrow> Some ''invalid product TUN IPv4 address policy''
      | Some (dip, dnet) \<Rightarrow>
          if \<not> is4 dip then Some ''invalid product TUN IPv4 address policy''
          else first_error (map (address_conflict d dip dnet) (iv_addresses (sn_ipv4_addresses s)) @
                            map (route_conflict d dip dnet) (ri_routes (sn_ipv4_routes s))))"

definition recheck_text :: "Snapshot \<Rightarrow> string" where
  "recheck_text s =
     ''IPv4 address/route collision inspection is incomplete (addresses='' @
     status_text (fd_status (iv_inspection (sn_ipv4_addresses s))) @ '' routes='' @
     status_text (fd_status (ri_inspection (sn_ipv4_routes s))) @
     ''); the privileged daemon must inspect again before mutation''"

definition assign_text :: string where
  "assign_text = ''assign the deterministic podlaz-owned point address required for Linux link-scoped DNS''"

definition tunAddressPlan :: "Snapshot \<Rightarrow> TunDevicePlan \<Rightarrow> TunAddressPlan" where
  "tunAddressPlan s device =
     (let plan = \<lparr>tap_family = ''ipv4'', tap_interface = tdp_name device, tap_cidr = DefaultTunIPv4CIDR,
                  tap_scope = ''global'', tap_action = TunAddressActionAssign, tap_reason = assign_text,
                  tap_classification = [], tap_owner = ''podlaz:tun-address'',
                  tap_rollback_key = tdp_name device @ ''/'' @ DefaultTunIPv4CIDR, tap_link_index = 0,
                  tap_link_kind = ''tun'', tap_appeared_after_core = False, tap_allow_owned_existing = False,
                  tap_allow_missing_link = False\<rparr>
      in if fd_status (iv_inspection (sn_ipv4_addresses s)) \<noteq> StatusDetected \<or>
            fd_status (ri_inspection (sn_ipv4_routes s)) \<noteq> StatusDetected
         then plan\<lparr>tap_action := TunAddressActionDaemonRecheck, tap_reason := recheck_text s\<rparr>
         else case tunAddressConflict s DefaultTunIPv4CIDR of
           None \<Rightarrow> plan
         | Some conflict \<Rightarrow>
             plan\<lparr>tap_action := TunAddressActionBlocked, tap_classification := ''tun_address_conflict'',
                  tap_reason := conflict\<rparr>)"

definition PlanTunAddress :: "Snapshot \<Rightarrow> TunAddressPlan" where
  "PlanTunAddress s = tunAddressPlan s \<lparr>tdp_name = DefaultTunName, tdp_mtu = 0, tdp_action = [], tdp_reason = []\<rparr>"

definition tunAddressPlanWarnings :: "TunAddressPlan \<Rightarrow> string list" where
  "tunAddressPlanWarnings plan =
     (if tap_action plan = TunAddressActionBlocked then [''TUN address desired state is blocked: '' @ tap_reason plan]
      else if tap_action plan = TunAddressActionDaemonRecheck
        then [''TUN address collision state requires daemon re-check: '' @ tap_reason plan]
      else [])"

definition allocated_address_text :: string where
  "allocated_address_text = ''assign the collision-free Podlaz-owned point address allocated for this Network Session''"

definition allocatedTunAddressPlan :: "TunDevicePlan \<Rightarrow> string \<Rightarrow> TunAddressPlan" where
  "allocatedTunAddressPlan device cidr =
     \<lparr>tap_family = ''ipv4'', tap_interface = tdp_name device, tap_cidr = cidr,
      tap_scope = ''global'', tap_action = TunAddressActionAssign, tap_reason = allocated_address_text,
      tap_classification = [], tap_owner = ''podlaz:tun-address'',
      tap_rollback_key = tdp_name device @ ''/'' @ cidr, tap_link_index = 0,
      tap_link_kind = ''tun'', tap_appeared_after_core = False, tap_allow_owned_existing = False,
      tap_allow_missing_link = False\<rparr>"

section \<open>The VPN server route\<close>

definition firstIPFromRoute :: "Route \<Rightarrow> string" where
  "firstIPFromRoute route =
     (let words = map (trim_chars (\<lambda>c. c \<in> set '' ,;()[]'')) (Prelude.fields (rt_raw route) @ Prelude.fields (rt_detail route)) in
      case find (\<lambda>w. parse_ip w \<noteq> None) (words @ [trim_space (rt_destination route)]) of
        None \<Rightarrow> []
      | Some w \<Rightarrow> (case parse_ip w of None \<Rightarrow> [] | Some ip \<Rightarrow> ip_text ip))"

definition concreteServerBypassIP :: "Snapshot \<Rightarrow> string" where
  "concreteServerBypassIP s =
     (if rt_status (sn_server_route s) \<noteq> StatusDetected then [] else firstIPFromRoute (sn_server_route s))"

definition blocked_bypass :: TunRoutePlan where
  "blocked_bypass =
     \<lparr>trp_family = ''ipv4'', trp_destination = ''<server-ip>'', trp_table = MainRoutingTable, trp_interface = [],
      trp_gateway = [], trp_action = ''blocked'', trp_reason = ''server route did not resolve to a concrete IP address''\<rparr>"

definition serverBypassRoute :: "Snapshot \<Rightarrow> string \<Rightarrow> TunRoutePlan" where
  "serverBypassRoute s serverIP =
     (if serverIP = [] then blocked_bypass
      else \<lparr>trp_family = ''ipv4'', trp_destination = serverIP @ ''/32'', trp_table = MainRoutingTable,
            trp_interface = rt_interface (sn_default_ipv4 s), trp_gateway = rt_gateway (sn_default_ipv4 s),
            trp_action = ''add'',
            trp_reason = ''pin VPN server traffic to the current default uplink outside the TUN path''\<rparr>)"

definition mainTableIdentity :: "string \<Rightarrow> bool" where
  "mainTableIdentity table = (trim_space table \<in> {[], MainRoutingTable, ''254''})"

definition exactServerBypassRouteExists :: "Snapshot \<Rightarrow> string \<Rightarrow> bool" where
  "exactServerBypassRouteExists s serverIP =
     (trim_space serverIP \<noteq> [] \<and> fd_status (ri_inspection (sn_ipv4_routes s)) = StatusDetected \<and>
      list_ex (\<lambda>r. rt_status r = StatusDetected \<and> trim_space (rt_destination r) = serverIP @ ''/32'' \<and>
                   mainTableIdentity (rt_table r) \<and>
                   trim_space (rt_interface r) = trim_space (rt_interface (sn_server_route s)) \<and>
                   trim_space (rt_gateway r) = trim_space (rt_gateway (sn_server_route s)))
        (ri_routes (sn_ipv4_routes s)))"

definition pin_text :: string where
  "pin_text = ''pin VPN server traffic to the concrete bootstrap path observed before the Podlaz full-tunnel policy''"

definition verify_text :: string where
  "verify_text = ''use the exact pre-existing server bootstrap host route as a verified unowned prerequisite''"

definition allocatedServerBypassRoute :: "Snapshot \<Rightarrow> string \<Rightarrow> TunRoutePlan" where
  "allocatedServerBypassRoute s serverIP =
     (if serverIP = [] then blocked_bypass
      else
        let exact = exactServerBypassRouteExists s serverIP in
        \<lparr>trp_family = ''ipv4'', trp_destination = serverIP @ ''/32'', trp_table = MainRoutingTable,
         trp_interface = rt_interface (sn_server_route s), trp_gateway = rt_gateway (sn_server_route s),
         trp_action = (if exact then TunActionVerifyExisting else ''add''),
         trp_reason = (if exact then verify_text else pin_text)\<rparr>)"

section \<open>DNS and firewall\<close>

definition dns_text :: string where
  "dns_text = ''use systemd-resolved per-link DNS for full-tunnel DNS routing without writing /etc/resolv.conf''"

definition dns_blocked_text :: "Snapshot \<Rightarrow> string" where
  "dns_blocked_text s =
     ''systemd-resolved state is '' @ status_text (fd_status (dn_resolved (sn_dns s))) @
     ''; DNS mutation is unsafe until the backend is detected''"

definition dns_rollback_texts :: "string \<Rightarrow> string list" where
  "dns_rollback_texts name =
     [''Restore previous systemd-resolved per-link DNS state for '' @ name @ '' where possible'',
      ''Flush podlaz-owned DNS server/default-route/domain settings from '' @ name @ '' if created by this transaction'']"

definition dnsPlan :: "Snapshot \<Rightarrow> TunDevicePlan \<Rightarrow> string list \<Rightarrow> TunDNSPlan" where
  "dnsPlan s device servers =
     (let ok = (fd_status (dn_resolved (sn_dns s)) = StatusDetected) in
      \<lparr>dpl_backend = ''systemd-resolved per-link DNS'', dpl_target_link = tdp_name device, dpl_servers = servers,
       dpl_action = (if ok then DNSActionConfigure else DNSActionBlocked),
       dpl_reason = (if ok then dns_text else dns_blocked_text s),
       dpl_rollback = ''restore previous per-link DNS state where possible'',
       dpl_rollback_steps = dns_rollback_texts (tdp_name device)\<rparr>)"

definition firewallRuleAction :: "string \<Rightarrow> string" where
  "firewallRuleAction tableAction =
     (if tableAction = FirewallTableAction then FirewallActionAdd
      else if tableAction = FirewallActionBlocked then FirewallActionBlocked
      else tableAction)"

definition unknown_server_text :: string where
  "unknown_server_text = ''VPN server bypass target is unknown; firewall bypass rule cannot be applied safely''"

definition server_rule_text :: string where
  "server_rule_text = ''allow VPN server control traffic outside TUN before non-TUN blocking''"

definition serverBypassFirewallRule :: "string \<Rightarrow> string \<Rightarrow> TunFirewallRulePlan" where
  "serverBypassFirewallRule serverIP action =
     \<lparr>frp_chain = ''output'',
      frp_expr = (if serverIP = [] then ''ip daddr <server-ip>'' else ''ip daddr '' @ serverIP),
      frp_verdict = FirewallVerdictAccept,
      frp_action = (if serverIP = [] then FirewallActionBlocked else action),
      frp_reason = (if serverIP = [] then unknown_server_text else server_rule_text),
      frp_ownership = ''podlaz:firewall:server-bypass'', frp_rollback_key = ''inet/podlaz/output/server-bypass''\<rparr>"

definition loopback_text :: string where
  "loopback_text = ''allow local loopback traffic so systemd-resolved stub DNS and local proxy IPC are not blocked by the TUN kill-switch''"

definition loopbackFirewallRule :: "string \<Rightarrow> TunFirewallRulePlan" where
  "loopbackFirewallRule action =
     \<lparr>frp_chain = ''output'', frp_expr = ''oifname '' @ quoted ''lo'', frp_verdict = FirewallVerdictAccept,
      frp_action = action, frp_reason = loopback_text,
      frp_ownership = ''podlaz:firewall:loopback'', frp_rollback_key = ''inet/podlaz/output/loopback''\<rparr>"

definition egress_text :: string where
  "egress_text = ''allow traffic that egresses through the podlaz TUN interface''"

definition tunEgressFirewallRule :: "TunDevicePlan \<Rightarrow> string \<Rightarrow> TunFirewallRulePlan" where
  "tunEgressFirewallRule device action =
     \<lparr>frp_chain = ''output'', frp_expr = ''oifname '' @ quoted (tdp_name device), frp_verdict = FirewallVerdictAccept,
      frp_action = action, frp_reason = egress_text,
      frp_ownership = ''podlaz:firewall:tun-egress'', frp_rollback_key = ''inet/podlaz/output/tun-egress''\<rparr>"

definition kill_switch_text :: "string \<Rightarrow> string" where
  "kill_switch_text policy =
     (if policy = KillSwitchPolicyOff then ''kill-switch policy is off; do not install a non-TUN blocking rule''
      else if policy = KillSwitchPolicyStrict
        then ''strict kill-switch drops non-TUN traffic until recovery removes podlaz-owned rules''
      else ''soft kill-switch rejects non-TUN traffic during transition and must restore direct connectivity on failure'')"

definition killSwitchFirewallRule :: "string \<Rightarrow> TunDevicePlan \<Rightarrow> string \<Rightarrow> TunFirewallRulePlan" where
  "killSwitchFirewallRule policy device action =
     \<lparr>frp_chain = ''output'', frp_expr = ''oifname != '' @ quoted (tdp_name device),
      frp_verdict = (if policy = KillSwitchPolicyOff then []
                     else if policy = KillSwitchPolicyStrict then FirewallVerdictDrop else FirewallVerdictReject),
      frp_action = (if action = FirewallActionBlocked \<and> policy \<noteq> KillSwitchPolicyOff then FirewallActionBlocked
                    else if policy = KillSwitchPolicyOff then FirewallActionSkip else action),
      frp_reason = kill_switch_text policy,
      frp_ownership = ''podlaz:firewall:kill-switch'', frp_rollback_key = ''inet/podlaz/output/kill-switch''\<rparr>"

definition firewallRules :: "string \<Rightarrow> TunDevicePlan \<Rightarrow> string \<Rightarrow> string \<Rightarrow> TunFirewallRulePlan list" where
  "firewallRules policy device serverIP action =
     (let rules = [serverBypassFirewallRule serverIP action, loopbackFirewallRule action, tunEgressFirewallRule device action];
          rule = killSwitchFirewallRule policy device action
      in if frp_action rule \<noteq> [] then rules @ [rule] else rules)"

definition kill_switch_action_text :: "string \<Rightarrow> string" where
  "kill_switch_action_text policy =
     (if policy = KillSwitchPolicyOff then ''do not install leak-blocking nftables rules''
      else ''block non-TUN traffic according to selected kill-switch policy'')"

definition kill_switch_scope_text :: "string \<Rightarrow> string \<Rightarrow> string" where
  "kill_switch_scope_text policy name =
     (if policy = KillSwitchPolicyOff
      then ''firewall table ownership is still planned for future cleanup visibility, but no traffic blocking is selected''
      else ''allow traffic through '' @ name @ '', local loopback, and the explicit VPN server bypass; block other non-TUN traffic according to policy'')"

definition kill_switch_limitations :: "string \<Rightarrow> string list" where
  "kill_switch_limitations policy =
     (if policy = KillSwitchPolicyOff then [''off policy does not claim leak protection'']
      else if policy = KillSwitchPolicyStrict then
        [''strict kill-switch may intentionally keep direct connectivity blocked after VPN failure until recovery removes podlaz-owned rules'',
         ''strict kill-switch cannot be claimed as leak protection until apply, verify, rollback, and recover execution exist'']
      else [''soft kill-switch is a transition guard only and must restore direct connectivity on failed apply''])"

definition killSwitchPlan :: "string \<Rightarrow> TunDevicePlan \<Rightarrow> TunKillSwitchPlan" where
  "killSwitchPlan policy device =
     \<lparr>ksp_policy = policy, ksp_action = kill_switch_action_text policy,
      ksp_scope = kill_switch_scope_text policy (tdp_name device),
      ksp_recovery = ''recover --execute --yes must be able to remove podlaz-owned nftables state'',
      ksp_limitations = kill_switch_limitations policy\<rparr>"

definition firewall_table_action :: "Snapshot \<Rightarrow> string" where
  "firewall_table_action s =
     (if fd_status (nf_podlaz_table (sn_nftables s)) = StatusDetected then FirewallActionValidate
      else if fd_status (nf_availability (sn_nftables s)) \<noteq> StatusDetected then FirewallActionBlocked
      else FirewallTableAction)"

definition firewall_text :: "Snapshot \<Rightarrow> string" where
  "firewall_text s =
     (if fd_status (nf_podlaz_table (sn_nftables s)) = StatusDetected
      then ''podlaz nftables table already exists; future apply must validate ownership or recover it before replacing rules''
      else if fd_status (nf_availability (sn_nftables s)) \<noteq> StatusDetected
      then ''nftables availability is '' @ status_text (fd_status (nf_availability (sn_nftables s))) @
           ''; firewall mutation is unsafe until nft can be inspected''
      else ''create a podlaz-owned nftables table for full-tunnel leak prevention dry-run state'')"

definition firewall_rollback_text :: string where
  "firewall_rollback_text =
     ''Remove nftables table '' @ DefaultNFTFamily @ '' '' @ DefaultNFTTable @ '' if created by this transaction''"

definition chain_text :: string where
  "chain_text = ''own outbound full-tunnel filtering inside the podlaz nftables table''"

definition firewallPlan :: "Snapshot \<Rightarrow> string \<Rightarrow> TunDevicePlan \<Rightarrow> string \<Rightarrow> TunFirewallPlan" where
  "firewallPlan s policy device serverIP =
     (let tableAction = firewall_table_action s in
      \<lparr>fwp_backend = ''nftables'', fwp_family = DefaultNFTFamily, fwp_table = DefaultNFTTable,
       fwp_table_action = tableAction,
       fwp_chains = [\<lparr>fcp_name = ''output'', fcp_type = ''filter'', fcp_hook = ''output'', fcp_priority = 0,
                      fcp_policy = ''accept'', fcp_action = tableAction, fcp_reason = chain_text\<rparr>],
       fwp_rules = firewallRules policy device serverIP (firewallRuleAction tableAction),
       fwp_kill_switch = killSwitchPlan policy device, fwp_reason = firewall_text s,
       fwp_rollback = ''remove inet podlaz'', fwp_rollback_steps = [firewall_rollback_text]\<rparr>)"

definition marked_rule_text :: "32 word \<Rightarrow> string" where
  "marked_rule_text mark =
     (if mark = 0 then ''Podlaz Xray egress mark is unknown; marked bypass cannot be applied safely''
      else ''allow only Podlaz-marked Xray transport traffic outside TUN before non-TUN blocking'')"

definition marked_scope_text :: "string \<Rightarrow> string" where
  "marked_scope_text name =
     ''allow traffic through '' @ name @
     '', local loopback, and Podlaz-marked Xray egress; block other non-TUN traffic according to policy''"

definition markedEgressRule :: "string \<Rightarrow> 32 word \<Rightarrow> TunFirewallRulePlan" where
  "markedEgressRule action mark =
     \<lparr>frp_chain = ''output'',
      frp_expr = (if mark = 0 then ''meta mark <podlaz-egress-mark>'' else ''meta mark '' @ itoa (unat mark)),
      frp_verdict = FirewallVerdictAccept, frp_action = (if mark = 0 then FirewallActionBlocked else action),
      frp_reason = marked_rule_text mark,
      frp_ownership = ''podlaz:firewall:xray-egress'', frp_rollback_key = ''inet/podlaz/output/xray-egress''\<rparr>"

definition firewallPlanForEgressMark :: "Snapshot \<Rightarrow> string \<Rightarrow> TunDevicePlan \<Rightarrow> 32 word \<Rightarrow> TunFirewallPlan" where
  "firewallPlanForEgressMark s policy device mark =
     (let plan = firewallPlan s policy device [];
          ruleAction = firewallRuleAction (fwp_table_action plan);
          plan = plan\<lparr>fwp_rules := (fwp_rules plan)[0 := markedEgressRule ruleAction mark]\<rparr>
      in if mark = 0 then plan
         else plan\<lparr>fwp_kill_switch := (fwp_kill_switch plan)\<lparr>ksp_scope := marked_scope_text (tdp_name device)\<rparr>\<rparr>)"

section \<open>Warnings\<close>

definition tunSnapshotWarnings :: "Snapshot \<Rightarrow> string list" where
  "tunSnapshotWarnings s =
     compactWarnings
      (guarded (rt_status (sn_default_ipv4 s) \<noteq> StatusDetected)
         [''IPv4 default route is '' @ status_text (rt_status (sn_default_ipv4 s)) @
          ''; full-tunnel planning cannot select a stable uplink yet''] @
       guarded (rt_status (sn_server_route s) \<noteq> StatusDetected)
         [''route to VPN server candidate is '' @ status_text (rt_status (sn_server_route s)) @
          ''; server bypass route planning is incomplete''] @
       guarded (fd_status (dn_resolved (sn_dns s)) \<noteq> StatusDetected)
         [''systemd-resolved state is '' @ status_text (fd_status (dn_resolved (sn_dns s))) @
          ''; DNS planning will need fallback handling''] @
       guarded (fd_status (nf_availability (sn_nftables s)) \<noteq> StatusDetected)
         [''nftables availability is '' @ status_text (fd_status (nf_availability (sn_nftables s))) @
          ''; firewall and kill-switch planning is incomplete''] @
       guarded (sn_stale_resources s \<noteq> [])
         [''found '' @ itoa (length (sn_stale_resources s)) @
          '' stale podlaz-owned resource(s); recover should inspect them before applying TUN mode''] @
       guarded (fd_status (sn_ipv6 s) \<noteq> StatusDetected)
         [''IPv6 state is '' @ status_text (fd_status (sn_ipv6 s)) @
          ''; initial TUN planning keeps IPv6 disabled or bypassed''])"

definition tunDesiredStateWarnings :: "Snapshot \<Rightarrow> string \<Rightarrow> string list" where
  "tunDesiredStateWarnings s serverIP =
     (let d4 = sn_default_ipv4 s; det = (rt_status d4 = StatusDetected) in
      compactWarnings
       (map (\<lambda>d. ''podlaz TUN device '' @ tdv_name d @
                 '' already exists; daemon apply must validate Xray ownership before L3 mutations'')
          (filter (\<lambda>d. tdv_name d = DefaultTunName \<and> tdv_status d = StatusDetected) (sn_tun_devices s)) @
        guarded (det \<and> rt_interface d4 = DefaultTunName)
          [''current default IPv4 route already points at podlaz0; applying another full-tunnel plan could preserve a route loop''] @
        guarded (det \<and> rt_interface d4 = [])
          [''default IPv4 route did not expose an interface; VPN server bypass cannot be applied safely yet''] @
        guarded (det \<and> rt_gateway d4 = [])
          [''default IPv4 route did not expose a gateway; VPN server bypass can only pin the uplink interface''] @
        guarded (serverIP = [])
          [''VPN server bypass target is unknown; route and policy-rule desired state is blocked until hostname resolution returns a concrete IP address'']))"

definition dnsPlanWarnings :: "Snapshot \<Rightarrow> TunDNSPlan \<Rightarrow> string list" where
  "dnsPlanWarnings s plan =
     guarded (dpl_action plan = DNSActionBlocked)
       [''DNS desired state is blocked: systemd-resolved backend is '' @
        status_text (fd_status (dn_resolved (sn_dns s))) @
        ''; install/enable systemd-resolved or add a documented fallback before applying TUN DNS'']"

definition firewallPlanWarnings :: "Snapshot \<Rightarrow> TunFirewallPlan \<Rightarrow> string list" where
  "firewallPlanWarnings s plan =
     compactWarnings
      (guarded (fwp_table_action plan = FirewallActionBlocked)
         [''firewall desired state is blocked: nftables backend is '' @
          status_text (fd_status (nf_availability (sn_nftables s))) @
          ''; install/enable nft before applying TUN firewall or kill-switch rules''] @
       guarded (ksp_policy (fwp_kill_switch plan) = KillSwitchPolicyStrict)
         (''strict kill-switch policy selected; direct connectivity may remain blocked after VPN failure until podlaz recovery removes owned nftables rules'' #
          ksp_limitations (fwp_kill_switch plan)))"

definition tunRouteLoopRisks :: "Snapshot \<Rightarrow> string list" where
  "tunRouteLoopRisks s =
     compactWarnings
      (guarded (rt_status (sn_server_route s) = StatusDetected \<and> rt_interface (sn_server_route s) = DefaultTunName)
         [''route to VPN server candidate points at podlaz0; this would create a routing loop''] @
       guarded (rt_status (sn_default_ipv4 s) = StatusDetected \<and> rt_interface (sn_default_ipv4 s) = DefaultTunName)
         [''current default IPv4 route points at podlaz0; full-tunnel planning needs a direct uplink snapshot''])"

section \<open>Rollback steps\<close>

definition rollbackRouteStep :: "TunRoutePlan \<Rightarrow> string" where
  "rollbackRouteStep r =
     join '' ''
      ([''Delete route'', trp_destination r] @ guarded (trp_table r \<noteq> []) [''from table'', trp_table r] @
       guarded (trp_gateway r \<noteq> []) [''via'', trp_gateway r] @
       guarded (trp_interface r \<noteq> []) [''dev'', trp_interface r] @ [''if created by this transaction''])"

definition rollbackRuleStep :: "TunPolicyRulePlan \<Rightarrow> string" where
  "rollbackRuleStep r =
     ''Delete policy rule priority '' @ itoa_int (prp_priority r) @ '' '' @ prp_selector r @ '' lookup '' @ prp_table r @
     '' if created by this transaction''"

definition rollbackAddressStep :: "TunAddressPlan \<Rightarrow> string" where
  "rollbackAddressStep a =
     ''Remove exact daemon-owned TUN address '' @ tap_cidr a @ '' from '' @ tap_interface a @
     '' only when transaction and link identity match''"

definition rollbackSteps ::
  "TunAddressPlan \<Rightarrow> TunRoutePlan list \<Rightarrow> TunPolicyRulePlan list \<Rightarrow> TunDNSPlan \<Rightarrow> TunFirewallPlan \<Rightarrow> string list" where
  "rollbackSteps address routes rules dns firewall =
     fwp_rollback_steps firewall @ dpl_rollback_steps dns @ map rollbackRuleStep (rev rules) @
     map rollbackRouteStep (filter (\<lambda>r. trp_action r = ''add'') (rev routes)) @
     guarded (tap_cidr address \<noteq> [] \<and> tap_interface address \<noteq> []) [rollbackAddressStep address]"

section \<open>The planners\<close>

definition server_selector :: "string \<Rightarrow> string" where
  "server_selector ip = ''to '' @ ip @ ''/32''"

definition mark_selector :: "32 word \<Rightarrow> string" where
  "mark_selector mark = ''fwmark '' @ itoa (unat mark)"

definition tun_device :: TunDevicePlan where
  "tun_device =
     \<lparr>tdp_name = DefaultTunName, tdp_mtu = DefaultTunMTU, tdp_action = ''verify'',
      tdp_reason = ''Xray owns TUN link creation and lifetime; podlazd verifies the existing link before L3 mutations''\<rparr>"

definition default_route_plan :: "string \<Rightarrow> string \<Rightarrow> TunRoutePlan" where
  "default_route_plan table reason =
     \<lparr>trp_family = ''ipv4'', trp_destination = IPv4DefaultRoute, trp_table = table, trp_interface = DefaultTunName,
      trp_gateway = [], trp_action = ''add'', trp_reason = reason\<rparr>"

definition rule_plan :: "int \<Rightarrow> string \<Rightarrow> string \<Rightarrow> string \<Rightarrow> TunPolicyRulePlan" where
  "rule_plan priority selector table reason =
     \<lparr>prp_family = ''ipv4'', prp_priority = priority, prp_selector = selector, prp_table = table,
      prp_action = ''add'', prp_reason = reason\<rparr>"

definition firewall_step :: "TunFirewallPlan \<Rightarrow> string" where
  "firewall_step fw =
     ''Plan nftables table '' @ fwp_family fw @ '' '' @ fwp_table fw @ '' with '' @ itoa (length (fwp_chains fw)) @
     '' chain(s), '' @ itoa (length (fwp_rules fw)) @ '' rule(s), and '' @ ksp_policy (fwp_kill_switch fw) @
     '' kill-switch policy''"

definition dns_step :: "TunDNSPlan \<Rightarrow> string" where
  "dns_step d =
     ''Plan DNS backend '' @ dpl_backend d @ '' on link '' @ dpl_target_link d @ '' with server(s) '' @
     join '', '' (dpl_servers d)"

definition device_step :: "TunDevicePlan \<Rightarrow> string" where
  "device_step d =
     ''Plan Xray-owned TUN interface '' @ tdp_name d @ '' with MTU '' @ itoa (tdp_mtu d) @
     '' and daemon-side identity verification''"

definition address_step :: "TunAddressPlan \<Rightarrow> string" where
  "address_step a = ''Plan daemon-owned IPv4 address '' @ tap_cidr a @ '' on '' @ tap_interface a"

definition rule_step :: "int \<Rightarrow> string \<Rightarrow> string" where
  "rule_step priority what = ''Plan policy rule priority '' @ itoa_int priority @ '' for '' @ what"

definition no_bypass :: TunRoutePlan where
  "no_bypass =
     \<lparr>trp_family = [], trp_destination = [], trp_table = [], trp_interface = [], trp_gateway = [], trp_action = [],
      trp_reason = []\<rparr>"

definition plan_steps :: "TunPlan \<Rightarrow> string \<Rightarrow> string list" where
  "plan_steps plan serverIP =
     [''Collect current host networking snapshot without requiring root'', device_step (tp_device plan),
      address_step (tp_address plan),
      ''Plan routing table '' @ TunRoutingTable @ '' ('' @ itoa TunRoutingTableID @ '') with IPv4 default route through '' @
        tdp_name (tp_device plan)] @
     guarded (serverIP \<noteq> []) [rule_step ServerRulePriority (''VPN server bypass via '' @ MainRoutingTable)] @
     [rule_step TunRulePriority (''default IPv4 traffic via '' @ TunRoutingTable), dns_step (tp_dns plan),
      firewall_step (tp_firewall plan),
      ''Leave TUN devices, routes, policy rules, DNS, nftables, firewall, and Xray process state unchanged in this dry-run'']"

definition PlanTunWithOptions :: "Profile \<Rightarrow> Snapshot \<Rightarrow> TunOptions \<Rightarrow> plan_error + TunPlan" where
  "PlanTunWithOptions p s opts =
     (if Validate p \<noteq> [] then Inl (InvalidProfile (Validate p))
      else
        let device = tun_device;
            address = tunAddressPlan s device;
            serverIP = concreteServerBypassIP s;
            bypass = serverBypassRoute s serverIP;
            routes = default_route_plan TunRoutingTable
                       ''route default IPv4 traffic through the podlaz TUN interface'' #
                     guarded (serverIP \<noteq> []) [bypass];
            rules = guarded (serverIP \<noteq> [])
                      [rule_plan ServerRulePriority (server_selector serverIP) MainRoutingTable
                        ''keep VPN server traffic on the current uplink before the full-tunnel policy rule''] @
                    [rule_plan TunRulePriority IPv4DefaultSelector TunRoutingTable
                        ''send default IPv4 traffic through the podlaz routing table before the kernel main table rule''];
            dns = dnsPlan s device (normalizeDNSServers (op_dns_servers opts));
            firewall = firewallPlan s (normalizeKillSwitchPolicy (op_kill_switch opts)) device serverIP;
            loopRisks = tunRouteLoopRisks s;
            warnings = sn_warnings s @ tunSnapshotWarnings s @ tunDesiredStateWarnings s serverIP @
                       tunAddressPlanWarnings address @ dnsPlanWarnings s dns @ firewallPlanWarnings s firewall @ loopRisks;
            plan = \<lparr>tp_mode = ModeTun, tp_tunnel_mode = TunTunnelMode, tp_profile_id = pr_id p, tp_profile_name = pr_name p,
                    tp_snapshot = s, tp_device = device, tp_address = address, tp_routes = routes, tp_rules = rules,
                    tp_server_bypass = bypass, tp_egress_mark = 0, tp_dns = dns, tp_firewall = firewall,
                    tp_loop_risks = loopRisks, tp_warnings = compactWarnings warnings, tp_steps = [],
                    tp_rollback_steps = rollbackSteps address routes rules dns firewall\<rparr>
        in Inr (plan\<lparr>tp_steps := plan_steps plan serverIP\<rparr>))"

definition PlanTun :: "Profile \<Rightarrow> Snapshot \<Rightarrow> plan_error + TunPlan" where
  "PlanTun p s = PlanTunWithOptions p s \<lparr>op_kill_switch = [], op_dns_servers = []\<rparr>"

section \<open>The session planner\<close>

definition marked_profile :: "Profile \<Rightarrow> bool" where
  "marked_profile p =
     (IsProviderXrayConfigProfile p \<or>
      (pr_engine p = EngineXray \<and> (pr_protocol p = ''vmess'' \<or> pr_protocol p = ''trojan'' \<or> pr_protocol p = ''shadowsocks'')))"

definition session_route_text :: string where
  "session_route_text =
     ''route default IPv4 traffic through the Podlaz TUN interface using this session's allocated table''"

definition session_rule_text :: string where
  "session_rule_text =
     ''send default IPv4 traffic through this session's allocated routing table before pre-existing host policy rules''"

definition session_mark_text :: string where
  "session_mark_text =
     ''keep Podlaz-marked Xray egress sockets on the ordinary main-table path before the full-tunnel policy rule''"

definition session_server_text :: string where
  "session_server_text =
     ''keep VPN server traffic on the concrete current bootstrap path before the full-tunnel policy rule''"

definition session_steps :: "TunResourceAllocation \<Rightarrow> TunPlan \<Rightarrow> string list" where
  "session_steps res plan =
     [''Collect the current host networking baseline read-only'',
      ''Allocate TUN address '' @ ra_cidr res @ '', routing table '' @ itoa_int (ra_table res) @
        '', and policy priorities '' @ itoa_int (ra_server_priority res) @ ''/'' @ itoa_int (ra_tunnel_priority res) @
        '' for this Network Session'',
      device_step (tp_device plan), address_step (tp_address plan),
      ''Plan routing table '' @ itoa_int (ra_table res) @ '' with IPv4 default route through '' @ tdp_name (tp_device plan)] @
     (if tp_egress_mark plan \<noteq> 0
      then [rule_step (ra_server_priority res)
              (''Xray egress mark '' @ itoa (unat (tp_egress_mark plan)) @ '' via '' @ MainRoutingTable)]
      else guarded (trp_destination (tp_server_bypass plan) \<noteq> [])
             [rule_step (ra_server_priority res) (''VPN server bootstrap via '' @ MainRoutingTable)]) @
     [rule_step (ra_tunnel_priority res) (''default IPv4 traffic via table '' @ itoa_int (ra_table res)),
      dns_step (tp_dns plan), firewall_step (tp_firewall plan),
      ''Leave unrelated TUN devices, routes, policy rules, DNS links, and firewall objects unchanged'']"

definition session_plan :: "Profile \<Rightarrow> Snapshot \<Rightarrow> TunOptions \<Rightarrow> TunResourceAllocation \<Rightarrow> TunPlan" where
  "session_plan p s opts res =
     (let device = tun_device;
          address = allocatedTunAddressPlan device (ra_cidr res);
          table = itoa_int (ra_table res);
          marked = marked_profile p;
          serverIP = concreteServerBypassIP s;
          bypass = (if marked then no_bypass else allocatedServerBypassRoute s serverIP);
          routes = default_route_plan table session_route_text # guarded (\<not> marked \<and> serverIP \<noteq> []) [bypass];
          rules = (if marked
                   then [rule_plan (ra_server_priority res) (mark_selector (ra_mark res)) MainRoutingTable
                           session_mark_text]
                   else guarded (serverIP \<noteq> [])
                          [rule_plan (ra_server_priority res) (server_selector serverIP) MainRoutingTable
                             session_server_text]) @
                  [rule_plan (ra_tunnel_priority res) IPv4DefaultSelector table session_rule_text];
          dns = dnsPlan s device (normalizeDNSServers (op_dns_servers opts));
          policy = normalizeKillSwitchPolicy (op_kill_switch opts);
          firewall = (if marked then firewallPlanForEgressMark s policy device (ra_mark res)
                      else firewallPlan s policy device serverIP);
          loopRisks = tunRouteLoopRisks s;
          warnings = sn_warnings s @ tunSnapshotWarnings s @ dnsPlanWarnings s dns @ firewallPlanWarnings s firewall @
                     loopRisks;
          plan = \<lparr>tp_mode = ModeTun, tp_tunnel_mode = TunTunnelMode, tp_profile_id = pr_id p, tp_profile_name = pr_name p,
                  tp_snapshot = s, tp_device = device, tp_address = address, tp_routes = routes, tp_rules = rules,
                  tp_server_bypass = bypass, tp_egress_mark = (if marked then ra_mark res else 0), tp_dns = dns,
                  tp_firewall = firewall, tp_loop_risks = loopRisks, tp_warnings = compactWarnings warnings,
                  tp_steps = [], tp_rollback_steps = rollbackSteps address routes rules dns firewall\<rparr>
      in plan\<lparr>tp_steps := session_steps res plan\<rparr>)"

definition PlanTunForSessionWithAllocationEvidence ::
  "Profile \<Rightarrow> Snapshot \<Rightarrow> TunAllocationEvidence \<Rightarrow> TunOptions \<Rightarrow> plan_error + TunPlan" where
  "PlanTunForSessionWithAllocationEvidence p s evidence opts =
     (if Validate p \<noteq> [] then Inl (InvalidProfile (Validate p))
      else case AllocateTunResources evidence of
        Inl e \<Rightarrow> Inl (AllocationError e)
      | Inr res \<Rightarrow> Inr (session_plan p s opts res))"

definition PlanTunForSession :: "Profile \<Rightarrow> Snapshot \<Rightarrow> TunOptions \<Rightarrow> plan_error + TunPlan" where
  "PlanTunForSession p s opts =
     (case TunAllocationEvidenceFromSnapshot s of
        Inl e \<Rightarrow> Inl (EvidenceError e)
      | Inr evidence \<Rightarrow> PlanTunForSessionWithAllocationEvidence p s evidence opts)"

section \<open>Reading the allocation back from a plan\<close>

definition plan_table :: "TunRoutePlan list \<Rightarrow> plan_error + int" where
  "plan_table routes =
     (case find (\<lambda>r. trp_destination r = IPv4DefaultRoute \<and> trp_interface r = DefaultTunName) routes of
        None \<Rightarrow> Inr 0
      | Some r \<Rightarrow>
          (case atoi (trim_space (trp_table r)) of
             None \<Rightarrow> Inl NoNumericTable
           | Some t \<Rightarrow> if t \<le> 0 then Inl NoNumericTable else Inr t))"

definition rule_step_allocation ::
  "TunResourceAllocation \<Rightarrow> TunPolicyRulePlan \<Rightarrow> plan_error + TunResourceAllocation" where
  "rule_step_allocation a r =
     (let sel = trim_space (prp_selector r) in
      if prp_table r = MainRoutingTable \<and> take 3 sel = ''to '' then Inr (a\<lparr>ra_server_priority := prp_priority r\<rparr>)
      else if prp_table r = MainRoutingTable \<and> take 7 sel = ''fwmark '' then
        (case parse_uint0 32 (trim_space (drop 7 sel)) of
           None \<Rightarrow> Inl InvalidEgressMark
         | Some m \<Rightarrow> if m = 0 then Inl InvalidEgressMark
                     else Inr (a\<lparr>ra_server_priority := prp_priority r, ra_mark := of_nat m\<rparr>))
      else if 0 < prp_priority r \<and> prp_table r = itoa_int (ra_table a) then
        Inr (a\<lparr>ra_tunnel_priority := prp_priority r\<rparr>)
      else Inr a)"

fun rules_allocation ::
  "TunResourceAllocation \<Rightarrow> TunPolicyRulePlan list \<Rightarrow> plan_error + TunResourceAllocation" where
  "rules_allocation a [] = Inr a"
| "rules_allocation a (r # rs) = rbind (rule_step_allocation a r) (\<lambda>a. rules_allocation a rs)"

definition TunResourceAllocationFromPlan :: "TunPlan \<Rightarrow> plan_error + TunResourceAllocation" where
  "TunResourceAllocationFromPlan plan =
     rbind (plan_table (tp_routes plan)) (\<lambda>t.
     rbind (rules_allocation \<lparr>ra_cidr = trim_space (tap_cidr (tp_address plan)), ra_table = t, ra_server_priority = 0,
                              ra_tunnel_priority = 0, ra_mark = 0\<rparr> (tp_rules plan)) (\<lambda>a.
       if ra_cidr a = [] \<or> ra_table a \<le> 0 \<or> ra_server_priority a \<le> 0 \<or> ra_tunnel_priority a \<le> 0 \<or>
          ra_tunnel_priority a \<le> ra_server_priority a
       then Inl IncompleteAllocation else Inr a))"

end
