(* ===== verification/Tun_Planner_Facts.thy ===== *)
theory Tun_Planner_Facts
  imports Tun_Planner
begin

text \<open>
  What the TUN plans guarantee: the allocation can be read back from the plan, the firewall of a plan is
  fail-closed, the fixed TUN address is assigned only when the inspected host leaves it free, and a plan
  made from a snapshot does not collide with what the snapshot lists.
\<close>

section \<open>Texts\<close>

lemma trim_mark_selector: "trim_space (''fwmark '' @ itoa n) = ''fwmark '' @ itoa n"
proof (rule trim_space_ends)
  have "last (itoa n) \<in> set (itoa n)" by simp
  then have "is_digit (last (itoa n))" using itoa_digits [of n] unfolding list_all_iff by blast
  then show "\<not> blank (last (''fwmark '' @ itoa n))" by (auto simp: blank_def is_digit_def)
qed (simp_all add: blank_def)

lemma trim_server_selector: "trim_space (''to '' @ ip @ ''/32'') = ''to '' @ ip @ ''/32''"
  by (rule trim_space_ends) (simp_all add: blank_def)

lemma itoa_int_nonneg: "0 \<le> t \<Longrightarrow> itoa_int t = itoa (nat t)"
  by (simp add: itoa_int_def)

lemma itoa_not_main: "itoa n \<noteq> MainRoutingTable"
  using itoa_digits [of n] by (auto simp: MainRoutingTable_def is_digit_def)

section \<open>Reading the allocation back\<close>

lemma allocation_bounds:
  assumes "AllocateTunResources ev = Inr res"
  shows "51820 \<le> ra_table res" "ra_table res \<le> 51919" "1 \<le> ra_server_priority res"
    "ra_tunnel_priority res = ra_server_priority res + 1" "20570 \<le> unat (ra_mark res)"
    "plain (ra_cidr res)" "ra_cidr res \<noteq> []"
proof -
  from assms obtain host c m where
    h: "free_host ev = Some host" and c: "free_table ev = Some c" and m: "free_mark ev = Some m" and
    u: "2 \<le> upper_tunnel_priority (te_rules ev)" and
    a: "res = \<lparr>ra_cidr = prefix_text (must_parse_addr (host_text host)) 32, ra_table = int c,
             ra_server_priority = upper_tunnel_priority (te_rules ev) - 1,
             ra_tunnel_priority = upper_tunnel_priority (te_rules ev), ra_mark = of_nat m\<rparr>"
    unfolding AllocateTunResources_Inr by blast
  from free_host_sound [OF h] have "host < 256" by simp
  then show "plain (ra_cidr res)" "ra_cidr res \<noteq> []"
    by (simp_all add: a must_parse_host prefix_text_def ip_text_def itoa_32)
  show "51820 \<le> ra_table res" "ra_table res \<le> 51919" "1 \<le> ra_server_priority res"
    "ra_tunnel_priority res = ra_server_priority res + 1"
    using free_table_sound [OF c] u by (simp_all add: a)
  from marks.alloc_free [OF m, unfolded mark_pool] have "20570 \<le> m" "m \<le> 20669" by simp_all
  then show "20570 \<le> unat (ra_mark res)" by (simp add: a unsigned_of_nat take_bit_nat_eq_self)
qed

lemma plan_table_session:
  assumes "51820 \<le> t" "t \<le> 51919"
  shows "plan_table (default_route_plan (itoa_int t) txt # rs) = Inr t"
  using assms by (simp add: plan_table_def default_route_plan_def itoa_int_nonneg atoi_itoa)

lemma rule_step_mark:
  assumes "0 < unat m"
  shows "rule_step_allocation a (rule_plan prio (mark_selector m) MainRoutingTable txt) =
     Inr (a\<lparr>ra_server_priority := prio, ra_mark := m\<rparr>)"
proof -
  have "unat m < 2 ^ 32" using unsigned_less [of m] by simp
  with assms show ?thesis
    by (simp add: rule_step_allocation_def rule_plan_def mark_selector_def trim_mark_selector [simplified] parse_uint0_itoa)
qed

lemma rule_step_server:
  "rule_step_allocation a (rule_plan prio (server_selector ip) MainRoutingTable txt) =
     Inr (a\<lparr>ra_server_priority := prio\<rparr>)"
  by (simp add: rule_step_allocation_def rule_plan_def server_selector_def trim_server_selector [simplified])

lemma rule_step_tunnel:
  assumes "0 < prio" "0 \<le> ra_table a" "tab = itoa_int (ra_table a)"
  shows "rule_step_allocation a (rule_plan prio sel tab txt) = Inr (a\<lparr>ra_tunnel_priority := prio\<rparr>)"
  using assms by (simp add: rule_step_allocation_def rule_plan_def itoa_int_nonneg itoa_not_main Let_def)

lemma session_plan_fields:
  "tp_address (session_plan p s opts res) = allocatedTunAddressPlan tun_device (ra_cidr res)"
  "tp_routes (session_plan p s opts res) =
     default_route_plan (itoa_int (ra_table res)) session_route_text #
     guarded (\<not> marked_profile p \<and> concreteServerBypassIP s \<noteq> [])
       [allocatedServerBypassRoute s (concreteServerBypassIP s)]"
  "tp_rules (session_plan p s opts res) =
     (if marked_profile p
      then [rule_plan (ra_server_priority res) (mark_selector (ra_mark res)) MainRoutingTable session_mark_text]
      else guarded (concreteServerBypassIP s \<noteq> [])
             [rule_plan (ra_server_priority res) (server_selector (concreteServerBypassIP s)) MainRoutingTable
                session_server_text]) @
     [rule_plan (ra_tunnel_priority res) IPv4DefaultSelector (itoa_int (ra_table res)) session_rule_text]"
  "tp_firewall (session_plan p s opts res) =
     (if marked_profile p
      then firewallPlanForEgressMark s (normalizeKillSwitchPolicy (op_kill_switch opts)) tun_device (ra_mark res)
      else firewallPlan s (normalizeKillSwitchPolicy (op_kill_switch opts)) tun_device (concreteServerBypassIP s))"
  by (simp_all add: session_plan_def Let_def guarded_def)

lemma session_allocation_read:
  assumes "AllocateTunResources ev = Inr res"
  shows "TunResourceAllocationFromPlan (session_plan p s opts res) =
      (if marked_profile p then Inr res
       else if concreteServerBypassIP s = [] then Inl IncompleteAllocation
       else Inr (res\<lparr>ra_mark := 0\<rparr>))"
proof -
  note b = allocation_bounds [OF assms]
  let ?plan = "session_plan p s opts res"
  have t: "plan_table (tp_routes ?plan) = Inr (ra_table res)"
    unfolding session_plan_fields by (rule plan_table_session [OF b(1,2)])
  have c: "trim_space (tap_cidr (tp_address ?plan)) = ra_cidr res"
    using b(6) by (simp add: session_plan_fields allocatedTunAddressPlan_def)
  show ?thesis
    using b(1-5,7)
    by (simp add: TunResourceAllocationFromPlan_def t c)
      (simp add: session_plan_fields guarded_def rule_step_mark rule_step_server rule_step_tunnel)
qed

lemma session_plan_cases:
  assumes "PlanTunForSessionWithAllocationEvidence p s ev opts = Inr plan"
  obtains res where "AllocateTunResources ev = Inr res" "plan = session_plan p s opts res"
  using assms by (auto simp: PlanTunForSessionWithAllocationEvidence_def split: if_splits sum.splits)

text \<open>The allocation persisted from a session plan is the one that was made for it: reading the plan gives
  back the five identities (the mark is zero for a plan without marked egress), and a plan without a
  server bypass and without marked egress is refused as incomplete.\<close>

theorem session_plan_allocation_roundtrip:
  assumes "PlanTunForSessionWithAllocationEvidence p s ev opts = Inr plan"
  shows "\<exists>res. AllocateTunResources ev = Inr res \<and>
     TunResourceAllocationFromPlan plan =
       (if marked_profile p then Inr res
        else if concreteServerBypassIP s = [] then Inl IncompleteAllocation
        else Inr (res\<lparr>ra_mark := 0\<rparr>))"
  using session_plan_cases [OF assms] session_allocation_read by metis

definition demo_profile :: Profile where
  "demo_profile =
     \<lparr>pr_id = ''home'', pr_name = ''home'', pr_source = SourceManual, pr_engine = EngineXray, pr_server = ''vpn'',
      pr_port = 443, pr_protocol = ''trojan'', pr_user_identity = [], pr_transport = [], pr_security = [],
      pr_encryption = [], pr_flow = [], pr_server_name = [], pr_alpn = [], pr_fingerprint = [], pr_path = [],
      pr_host_header = [], pr_service_name = [], pr_reality_public_key = [], pr_reality_short_id = [],
      pr_reality_spider_x = []\<rparr>"

abbreviation no_finding :: Finding where
  "no_finding \<equiv> \<lparr>fd_status = StatusDetected, fd_summary = [], fd_detail = []\<rparr>"

definition uplink :: Route where
  "uplink =
     \<lparr>rt_status = StatusDetected, rt_family = ''ipv4'', rt_destination = ''default'', rt_table = ''main'',
      rt_interface = ''eth0'', rt_gateway = ''10.0.0.1'', rt_raw = [], rt_detail = []\<rparr>"

definition demo_snapshot :: Snapshot where
  "demo_snapshot =
     \<lparr>sn_os = ''linux'', sn_default_ipv4 = uplink, sn_default_ipv6 = uplink\<lparr>rt_status := StatusMissing\<rparr>,
      sn_server_route = uplink\<lparr>rt_status := StatusUnknown\<rparr>,
      sn_dns = \<lparr>dn_mode = [], dn_resolved = no_finding, dn_resolved_links = []\<rparr>,
      sn_network_manager = \<lparr>nm_finding = no_finding, nm_state = [], nm_active_inspection = no_finding,
                            nm_active_connections = []\<rparr>,
      sn_nftables = \<lparr>nf_availability = no_finding, nf_podlaz_table = no_finding\<lparr>fd_status := StatusMissing\<rparr>\<rparr>,
      sn_tun_devices = [], sn_policy_routing = [],
      sn_ipv4_policy_rules = \<lparr>pi_inspection = no_finding, pi_rules = []\<rparr>,
      sn_ipv4_addresses = \<lparr>iv_inspection = no_finding, iv_addresses = []\<rparr>,
      sn_ipv4_routes = \<lparr>ri_inspection = no_finding, ri_routes = [uplink]\<rparr>,
      sn_ipv4 = no_finding, sn_ipv6 = no_finding, sn_stale_resources = [], sn_warnings = []\<rparr>"

lemma demo_profile_valid: "Validate demo_profile = []"
  by (simp add: Validate_def demo_profile_def identity_messages_def endpoint_messages_def profile_consts validID_def
      id_letter_def supportedManualProtocol_def lower_char_def IsProviderXrayConfigProfile_def validHostname_def
      hostnameLabel_def alnum_def)

lemma demo_profile_marked: "marked_profile demo_profile"
  by (simp add: marked_profile_def demo_profile_def)

lemma demo_plan:
  "\<exists>plan. PlanTunForSessionWithAllocationEvidence demo_profile demo_snapshot demo_evidence opts = Inr plan"
  by (simp add: PlanTunForSessionWithAllocationEvidence_def demo_profile_valid demo_allocation)

theorem session_plan_allocation_roundtrip_witness:
  "\<exists>plan res.
     PlanTunForSessionWithAllocationEvidence demo_profile demo_snapshot demo_evidence
       \<lparr>op_kill_switch = ''strict'', op_dns_servers = []\<rparr> = Inr plan \<and>
     TunResourceAllocationFromPlan plan = Inr res \<and> ra_table res = 51823 \<and> ra_mark res = 20571"
proof -
  obtain plan where plan: "PlanTunForSessionWithAllocationEvidence demo_profile demo_snapshot demo_evidence
       \<lparr>op_kill_switch = ''strict'', op_dns_servers = []\<rparr> = Inr plan"
    using demo_plan by blast
  from session_plan_allocation_roundtrip [OF plan] demo_allocation plan show ?thesis
    by (auto simp: demo_profile_marked)
qed

section \<open>The planned firewall is fail-closed\<close>

text \<open>What a planned output chain does with a packet: the rules are tried in order, a rule without a verdict
  is not installed, the first rule that matches decides, and the policy of the chain is to accept.  The
  expressions are those the planner writes.\<close>

record outbound =
  ob_interface :: string
  ob_mark :: "32 word"
  ob_daddr :: addr

definition expr_matches :: "string \<Rightarrow> outbound \<Rightarrow> bool" where
  "expr_matches e k \<longleftrightarrow>
     e = ''oifname '' @ quoted (ob_interface k) \<or>
     (take 11 e = ''oifname != '' \<and> drop 11 e \<noteq> quoted (ob_interface k)) \<or>
     e = ''ip daddr '' @ ip_text (ob_daddr k) \<or>
     e = ''meta mark '' @ itoa (unat (ob_mark k))"

definition chain_verdict :: "TunFirewallRulePlan list \<Rightarrow> outbound \<Rightarrow> string" where
  "chain_verdict rules k =
     (case find (\<lambda>r. frp_verdict r \<noteq> [] \<and> expr_matches (frp_expr r) k) rules of
        None \<Rightarrow> FirewallVerdictAccept
      | Some r \<Rightarrow> frp_verdict r)"

lemma quoted_inj [simp]: "quoted a = quoted b \<longleftrightarrow> a = b"
  by (simp add: quoted_def)

lemma expr_matches_rules:
  "expr_matches (''oifname '' @ quoted n) k \<longleftrightarrow> n = ob_interface k"
  "expr_matches (''oifname != '' @ quoted n) k \<longleftrightarrow> n \<noteq> ob_interface k"
  "expr_matches (''ip daddr '' @ ip) k \<longleftrightarrow> ip = ip_text (ob_daddr k)"
  "expr_matches (''meta mark '' @ itoa (unat m)) k \<longleftrightarrow> m = ob_mark k"
proof -
  show "expr_matches (''meta mark '' @ itoa (unat m)) k \<longleftrightarrow> m = ob_mark k"
    using itoa_inj [of "unat m" "unat (ob_mark k)"]
    by (auto simp: expr_matches_def word_unat_eq_iff)
qed (auto simp: expr_matches_def quoted_def)

lemma normalized_policy:
  "normalizeKillSwitchPolicy p \<in> {KillSwitchPolicySoft, KillSwitchPolicyStrict, KillSwitchPolicyOff}"
  by (simp add: normalizeKillSwitchPolicy_def Let_def)

lemma policies_distinct [simp]:
  "KillSwitchPolicySoft \<noteq> KillSwitchPolicyOff" "KillSwitchPolicyStrict \<noteq> KillSwitchPolicyOff"
  "KillSwitchPolicySoft \<noteq> KillSwitchPolicyStrict"
  by (simp_all add: policy_consts)

lemma verdicts_nonempty [simp]:
  "FirewallVerdictAccept \<noteq> []" "FirewallVerdictReject \<noteq> []" "FirewallVerdictDrop \<noteq> []"
  by (simp_all add: verdict_consts)

lemma firewallRuleAction_nonempty: "firewallRuleAction (firewall_table_action s) \<noteq> []"
  by (simp add: firewallRuleAction_def firewall_table_action_def action_consts)

lemma firewallRules_eq:
  "firewallRules policy device ip (firewallRuleAction (firewall_table_action s)) =
     [serverBypassFirewallRule ip (firewallRuleAction (firewall_table_action s)),
      loopbackFirewallRule (firewallRuleAction (firewall_table_action s)),
      tunEgressFirewallRule device (firewallRuleAction (firewall_table_action s)),
      killSwitchFirewallRule policy device (firewallRuleAction (firewall_table_action s))]"
  using firewallRuleAction_nonempty [of s]
  by (simp add: firewallRules_def killSwitchFirewallRule_def action_consts)

definition blocking_verdict :: "string \<Rightarrow> string" where
  "blocking_verdict policy =
     (if policy = KillSwitchPolicyOff then FirewallVerdictAccept
      else if policy = KillSwitchPolicyStrict then FirewallVerdictDrop else FirewallVerdictReject)"

lemmas rule_defs = loopbackFirewallRule_def tunEgressFirewallRule_def killSwitchFirewallRule_def

lemma chain_verdict_bypass:
  assumes "expr_matches (frp_expr r) k \<longleftrightarrow> bypass" and "frp_verdict r = FirewallVerdictAccept"
  shows "chain_verdict [r, loopbackFirewallRule act, tunEgressFirewallRule device act,
       killSwitchFirewallRule policy device act] k =
     (if bypass \<or> ob_interface k = ''lo'' \<or> ob_interface k = tdp_name device then FirewallVerdictAccept
      else blocking_verdict policy)"
  using assms
  by (auto simp: chain_verdict_def rule_defs blocking_verdict_def expr_matches_rules(1,2) simp del: append.simps)

lemma hex_char_no_angle: "d < 16 \<Longrightarrow> hex_char d \<noteq> CHR ''<''"
proof
  assume d: "d < 16" and "hex_char d = CHR ''<''"
  then have "byte (hex_char d) = 60" by simp
  with d show False by (auto simp: hex_char_def split: if_splits)
qed

lemma hex_text_no_angle: "CHR ''<'' \<notin> set (hex_text n)"
proof (induction n rule: hex_text.induct)
  case (1 n)
  have "hex_char (n mod 16) \<noteq> CHR ''<''" by (simp add: hex_char_no_angle)
  with 1 show ?case by (subst hex_text.simps) (simp add: hex_char_no_angle hex_char_no_angle [symmetric])
qed

lemma ip_text_no_angle: "CHR ''<'' \<notin> set (ip_text a)"
proof (cases a)
  case (IP4 w)
  have "\<not> (is_digit CHR ''<'' \<or> CHR ''<'' = CHR ''.'')" by (simp add: is_digit_def)
  then show ?thesis using ip4_text_chars [of "CHR ''<''" w] by (auto simp: ip_text_def IP4)
next
  case (IP6 w)
  have "CHR ''<'' \<notin> set (join '':'' (map hex_text gs))" for gs
    using join_chars [of "'':''" "map hex_text gs"] hex_text_no_angle by fastforce
  then show ?thesis by (auto simp: ip_text_def IP6 ip6_text_def Let_def split: option.splits)
qed

lemma bypass_rule_matches:
  "expr_matches (frp_expr (serverBypassFirewallRule ip act)) k \<longleftrightarrow> ip \<noteq> [] \<and> ip = ip_text (ob_daddr k)"
proof (cases "ip = []")
  case True
  have "ip_text (ob_daddr k) \<noteq> ''<server-ip>''" using ip_text_no_angle [of "ob_daddr k"] by auto
  then have "\<not> expr_matches (''ip daddr '' @ ''<server-ip>'') k" by (simp only: expr_matches_rules)
  with True show ?thesis by (simp add: serverBypassFirewallRule_def)
next
  case False
  then show ?thesis using expr_matches_rules(3) [of ip k] by (simp add: serverBypassFirewallRule_def)
qed

lemma marked_rule_verdict: "frp_verdict (markedEgressRule act m) = FirewallVerdictAccept"
  by (simp add: markedEgressRule_def)

lemma marked_rule_matches:
  "m \<noteq> 0 \<Longrightarrow> expr_matches (frp_expr (markedEgressRule act m)) k \<longleftrightarrow> ob_mark k = m"
  using expr_matches_rules(4) [of m k] by (auto simp: markedEgressRule_def)

text \<open>C3: The firewall of a session plan lets a packet out only through the TUN device, on the loopback device, or
  on the one bypass of the session (a non-zero egress mark, or the address of the VPN server); every other
  packet is dropped under the strict policy and rejected under the soft policy.  A text that is not a known
  policy is treated as soft.\<close>

theorem session_firewall_fail_closed:
  assumes "PlanTunForSessionWithAllocationEvidence p s ev opts = Inr plan"
  shows "chain_verdict (fwp_rules (tp_firewall plan)) k =
     (if ob_interface k = ''lo'' \<or> ob_interface k = DefaultTunName \<or>
         (if marked_profile p then ob_mark k = tp_egress_mark plan \<and> ob_mark k \<noteq> 0
          else concreteServerBypassIP s \<noteq> [] \<and> ip_text (ob_daddr k) = concreteServerBypassIP s)
      then FirewallVerdictAccept
      else blocking_verdict (normalizeKillSwitchPolicy (op_kill_switch opts)))"
proof -
  from assms obtain res where res: "AllocateTunResources ev = Inr res" and plan: "plan = session_plan p s opts res"
    by (auto simp: PlanTunForSessionWithAllocationEvidence_def split: if_splits sum.splits)
  from allocation_bounds(5) [OF res] have m: "ra_mark res \<noteq> 0" by auto
  let ?pol = "normalizeKillSwitchPolicy (op_kill_switch opts)" and ?act = "firewallRuleAction (firewall_table_action s)"
  let ?tail = "[loopbackFirewallRule ?act, tunEgressFirewallRule tun_device ?act, killSwitchFirewallRule ?pol tun_device ?act]"
  have dev: "tdp_name tun_device = DefaultTunName" by (simp add: tun_device_def)
  show ?thesis
  proof (cases "marked_profile p")
    case True
    then have rules: "fwp_rules (tp_firewall plan) = markedEgressRule ?act (ra_mark res) # ?tail"
      using m by (simp add: plan session_plan_fields firewallPlanForEgressMark_def firewallPlan_def Let_def firewallRules_eq)
    have mark: "tp_egress_mark plan = ra_mark res" using True by (simp add: plan session_plan_def Let_def)
    show ?thesis unfolding rules
      by (subst chain_verdict_bypass [of _ _ "ob_mark k = ra_mark res"])
        (use True m mark dev in \<open>auto simp: marked_rule_matches marked_rule_verdict\<close>)
  next
    case False
    then have rules: "fwp_rules (tp_firewall plan) = serverBypassFirewallRule (concreteServerBypassIP s) ?act # ?tail"
      by (simp add: plan session_plan_fields firewallPlan_def Let_def firewallRules_eq)
    show ?thesis unfolding rules
      by (subst chain_verdict_bypass [OF bypass_rule_matches])
        (use False dev in \<open>auto simp: serverBypassFirewallRule_def\<close>)
  qed
qed

theorem session_firewall_fail_closed_witness:
  "\<exists>plan. PlanTunForSessionWithAllocationEvidence demo_profile demo_snapshot demo_evidence
       \<lparr>op_kill_switch = ''strict'', op_dns_servers = []\<rparr> = Inr plan \<and>
     chain_verdict (fwp_rules (tp_firewall plan)) \<lparr>ob_interface = ''eth0'', ob_mark = 0, ob_daddr = IP4 0x01010101\<rparr> =
       FirewallVerdictDrop"
proof -
  obtain plan where plan: "PlanTunForSessionWithAllocationEvidence demo_profile demo_snapshot demo_evidence
       \<lparr>op_kill_switch = ''strict'', op_dns_servers = []\<rparr> = Inr plan"
    using demo_plan by blast
  have "normalizeKillSwitchPolicy ''strict'' = KillSwitchPolicyStrict"
    by (simp add: normalizeKillSwitchPolicy_def policy_consts lower_char_def)
  with session_firewall_fail_closed [OF plan, of "\<lparr>ob_interface = ''eth0'', ob_mark = 0, ob_daddr = IP4 0x01010101\<rparr>"] plan
  show ?thesis by (simp add: demo_profile_marked DefaultTunName_def blocking_verdict_def)
qed

section \<open>The fixed address\<close>

definition fixed_addr :: "32 word" where
  "fixed_addr = host_addr 1"

lemma ip4_text_no_slash: "CHR ''/'' \<notin> set (ip4_text w)"
  using ip4_text_chars [of "CHR ''/''" w] by (auto simp: is_digit_def)

lemma default_cidr_eq: "DefaultTunIPv4CIDR = ip4_text fixed_addr @ ''/32''"
proof -
  have "ip4_text fixed_addr = host_text 1" by (simp add: host_text_eq fixed_addr_def)
  also have "\<dots> = ''198.18.0.1''" by (simp add: host_text_def itoa_eval)
  finally show ?thesis by (simp add: DefaultTunIPv4CIDR_def)
qed

lemma mask4_32 [simp]: "mask4 w 32 = w"
  by (simp add: mask4_def)

lemma parse_cidr_ip4_32: "parse_cidr (ip4_text w @ ''/32'') = Some (IP4 w, Prefix (IP4 w) 32)"
proof -
  have "split_on CHR ''/'' (ip4_text w @ ''/32'') = [ip4_text w, ''32'']"
    using split_on_append [OF ip4_text_no_slash, of w "''32''"] by simp
  then show ?thesis
    by (simp add: parse_cidr_def parse_addr_ip4_text is_digit_def dec_value_def max_bits_def to_netip_def cidr_net_def)
qed

text \<open>An entry of the inventories is harmless for the fixed address when it was understood and does not
  overlap it.\<close>

definition address_apart :: "IPAddress \<Rightarrow> bool" where
  "address_apart a \<longleftrightarrow>
     (\<exists>w net. parse_cidr (trim_space (ia_cidr a)) = Some (IP4 w, net) \<and> w \<noteq> fixed_addr \<and>
        \<not> prefix_contains net (IP4 (fixed_addr)))"

definition route_apart :: "Route \<Rightarrow> bool" where
  "route_apart r \<longleftrightarrow>
     trim_space (rt_destination r) \<in> {[], ''default'', ''0.0.0.0/0''} \<or>
     (\<exists>ip net. parse_cidr (trim_space (rt_destination r)) = Some (ip, net) \<and> net_ip net \<noteq> IP4 (fixed_addr) \<and>
        \<not> prefix_contains net (IP4 (fixed_addr)))"

lemma point_contains: "prefix_contains (Prefix (IP4 w) 32) ip \<longleftrightarrow> ip = IP4 w"
  by (auto simp: prefix_contains_def in4_32 split: addr.splits)

lemma address_conflict_None:
  "address_conflict d (IP4 (fixed_addr)) (Prefix (IP4 (fixed_addr)) 32) a = None \<longleftrightarrow> address_apart a"
  by (auto simp: address_conflict_def address_apart_def point_contains is4_def split: option.splits addr.splits)

lemma route_conflict_None:
  "route_conflict d (IP4 (fixed_addr)) (Prefix (IP4 (fixed_addr)) 32) r = None \<longleftrightarrow> route_apart r"
  by (auto simp: route_conflict_def route_apart_def point_contains Let_def split: option.splits)

text \<open>The fixed address is assigned exactly when both inventories were inspected and every entry of them
  was understood and lies apart from it; an entry that was not understood is never taken for absence.\<close>

theorem fixed_address_assigned_iff_free:
  "tap_action (PlanTunAddress s) = TunAddressActionAssign \<longleftrightarrow>
     fd_status (iv_inspection (sn_ipv4_addresses s)) = StatusDetected \<and>
     fd_status (ri_inspection (sn_ipv4_routes s)) = StatusDetected \<and>
     list_all address_apart (iv_addresses (sn_ipv4_addresses s)) \<and>
     list_all route_apart (ri_routes (sn_ipv4_routes s))"
proof -
  have "tunAddressConflict s DefaultTunIPv4CIDR = None \<longleftrightarrow>
      list_all address_apart (iv_addresses (sn_ipv4_addresses s)) \<and> list_all route_apart (ri_routes (sn_ipv4_routes s))"
    by (simp add: tunAddressConflict_def default_cidr_eq parse_cidr_ip4_32 is4_def first_error_None_iff
        address_conflict_None route_conflict_None list_all_iff ball_Un)
  then show ?thesis
    by (auto simp: PlanTunAddress_def tunAddressPlan_def Let_def action_consts split: option.splits)
qed

section \<open>Normalised lists\<close>

text \<open>the DNS servers of a plan are never empty, trimmed, without duplicates and blanks, and normalising
  them again changes nothing; without a usable server the default server is used.\<close>

theorem dns_servers_normalized:
  "normalizeDNSServers servers \<noteq> [] \<and> distinct (normalizeDNSServers servers) \<and>
   set (normalizeDNSServers servers) =
     (if trim_space ` set servers \<subseteq> {[]} then {DefaultTunDNSServer} else trim_space ` set servers - {[]}) \<and>
   normalizeDNSServers (normalizeDNSServers servers) = normalizeDNSServers servers"
proof -
  let ?out = "dedup (filter (\<lambda>v. v \<noteq> []) (map trim_space servers))"
  have set_out: "set ?out = trim_space ` set servers - {[]}" by auto
  have empty: "?out = [] \<longleftrightarrow> trim_space ` set servers \<subseteq> {[]}"
    using set_out by (metis Diff_eq_empty_iff set_empty)
  have stable: "filter (\<lambda>v. v \<noteq> []) (map trim_space ?out) = ?out"
  proof -
    have "map trim_space ?out = ?out" by (rule map_idI) auto
    moreover have "filter (\<lambda>v. v \<noteq> []) ?out = ?out" by (rule filter_True) simp
    ultimately show ?thesis by simp
  qed
  have default: "normalizeDNSServers [DefaultTunDNSServer] = [DefaultTunDNSServer]"
    by (simp add: normalizeDNSServers_def DefaultTunDNSServer_def dedup_def)
  have idem: "normalizeDNSServers (normalizeDNSServers servers) = normalizeDNSServers servers"
  proof (cases "?out = []")
    case True
    then show ?thesis using default by (simp add: normalizeDNSServers_def [of servers])
  next
    case False
    then have "normalizeDNSServers ?out = ?out"
      by (simp only: normalizeDNSServers_def stable dedup_idem Let_def if_False)
    with False show ?thesis by (simp add: normalizeDNSServers_def [of servers])
  qed
  show ?thesis
  proof (intro conjI)
    show "set (normalizeDNSServers servers) =
      (if trim_space ` set servers \<subseteq> {[]} then {DefaultTunDNSServer} else trim_space ` set servers - {[]})"
      unfolding normalizeDNSServers_def Let_def empty [symmetric] set_out [symmetric] by simp
  qed (use idem in \<open>auto simp: normalizeDNSServers_def Let_def\<close>)
qed

section \<open>Plans made from a snapshot\<close>

lemma list_all2_partner: "list_all2 P xs ys \<Longrightarrow> x \<in> set xs \<Longrightarrow> \<exists>y\<in>set ys. P x y"
  by (induction rule: list_all2_induct) auto

lemma evidence_from_snapshot:
  assumes "TunAllocationEvidenceFromSnapshot s = Inr ev"
  shows "list_all2 (\<lambda>a p. parse_prefix (trim_space (ia_cidr a)) = Some p \<and> prefix_is4 p)
           (iv_addresses (sn_ipv4_addresses s)) (te_addresses ev)"
    and "list_all2 (\<lambda>r al. parse_uint10 32 (trim_space (ps_sig_priority r)) = Some (unat (al_priority al)))
           (allocationSnapshotPolicyRules s) (te_rules ev)"
    and "allocationSnapshotStatusAvailable (fd_status (iv_inspection (sn_ipv4_addresses s)))"
    and "allocationSnapshotStatusAvailable (fd_status (ri_inspection (sn_ipv4_routes s)))"
    and "allocationSnapshotStatusAvailable (fd_status (pi_inspection (sn_ipv4_policy_rules s)))"
proof -
  from assms have a: "map_result convert_address (iv_addresses (sn_ipv4_addresses s)) = Inr (te_addresses ev)"
    and r: "map_result convert_rule (allocationSnapshotPolicyRules s) = Inr (te_rules ev)"
    by (auto simp: TunAllocationEvidenceFromSnapshot_def result_simps)
  show "list_all2 (\<lambda>a p. parse_prefix (trim_space (ia_cidr a)) = Some p \<and> prefix_is4 p)
           (iv_addresses (sn_ipv4_addresses s)) (te_addresses ev)"
    using a unfolding map_result_Inr
    by (rule list_all2_mono) (auto simp: convert_address_def split: option.splits if_splits)
  show "list_all2 (\<lambda>r al. parse_uint10 32 (trim_space (ps_sig_priority r)) = Some (unat (al_priority al)))
           (allocationSnapshotPolicyRules s) (te_rules ev)"
    using r unfolding map_result_Inr
  proof (rule list_all2_mono)
    fix r al assume c: "convert_rule r = Inr al"
    then obtain n where n: "parse_uint10 32 (trim_space (ps_sig_priority r)) = Some n" "al_priority al = of_nat n"
      by (auto simp: convert_rule_def rbind_Inr_iff split: option.splits prod.splits)
    then have "n < 2 ^ 32" by (auto simp: parse_uint10_def split: if_splits)
    then have "unat (of_nat n :: 32 word) = n" by (simp add: unsigned_of_nat take_bit_nat_eq_self)
    with n show "parse_uint10 32 (trim_space (ps_sig_priority r)) = Some (unat (al_priority al))" by simp
  qed
  show "allocationSnapshotStatusAvailable (fd_status (iv_inspection (sn_ipv4_addresses s)))"
    "allocationSnapshotStatusAvailable (fd_status (ri_inspection (sn_ipv4_routes s)))"
    "allocationSnapshotStatusAvailable (fd_status (pi_inspection (sn_ipv4_policy_rules s)))"
    using assms by (auto simp: TunAllocationEvidenceFromSnapshot_def result_simps inventory_check_def split: if_splits)
qed

text \<open>A session plan made from a snapshot has an address that no listed address range of the host contains
  and rules that precede every listed policy rule, and it is made only when the three inventories were
  available.\<close>

theorem snapshot_plan_collision_free:
  assumes "PlanTunForSession p s opts = Inr plan"
  shows "(\<exists>w. tap_cidr (tp_address plan) = ip4_text w @ ''/32'' \<and>
        (\<forall>a\<in>set (iv_addresses (sn_ipv4_addresses s)).
           \<exists>q. parse_prefix (trim_space (ia_cidr a)) = Some q \<and> \<not> prefix_contains q (IP4 w))) \<and>
     (\<forall>rule\<in>set (tp_rules plan). \<forall>r\<in>set (allocationSnapshotPolicyRules s).
        \<exists>n. parse_uint10 32 (trim_space (ps_sig_priority r)) = Some n \<and> prp_priority rule < int n) \<and>
     allocationSnapshotStatusAvailable (fd_status (iv_inspection (sn_ipv4_addresses s))) \<and>
     allocationSnapshotStatusAvailable (fd_status (ri_inspection (sn_ipv4_routes s))) \<and>
     allocationSnapshotStatusAvailable (fd_status (pi_inspection (sn_ipv4_policy_rules s)))"
proof -
  from assms obtain ev res where ev: "TunAllocationEvidenceFromSnapshot s = Inr ev"
    and res: "AllocateTunResources ev = Inr res" and plan: "plan = session_plan p s opts res"
    by (auto simp: PlanTunForSession_def PlanTunForSessionWithAllocationEvidence_def split: if_splits sum.splits)
  note e = evidence_from_snapshot [OF ev]
  from res obtain host where host: "free_host ev = Some host"
    and cidr: "ra_cidr res = prefix_text (must_parse_addr (host_text host)) 32"
    and prio: "ra_tunnel_priority res = upper_tunnel_priority (te_rules ev)"
      "ra_server_priority res = upper_tunnel_priority (te_rules ev) - 1"
    unfolding AllocateTunResources_Inr by auto
  note h = free_host_sound [OF host]
  have cidr': "tap_cidr (tp_address plan) = ip4_text (host_addr host) @ ''/32''"
    using h by (simp add: plan session_plan_fields allocatedTunAddressPlan_def cidr must_parse_host prefix_text_def
        ip_text_def itoa_32)
  have addr: "\<exists>q. parse_prefix (trim_space (ia_cidr a)) = Some q \<and> \<not> prefix_contains q (IP4 (host_addr host))"
    if "a \<in> set (iv_addresses (sn_ipv4_addresses s))" for a
  proof -
    from list_all2_partner [OF e(1) that] obtain q where q: "q \<in> set (te_addresses ev)"
      "parse_prefix (trim_space (ia_cidr a)) = Some q" by blast
    with h show ?thesis unfolding tunAllocationAddressOccupied_def list_ex_iff by blast
  qed
  have rule: "\<exists>n. parse_uint10 32 (trim_space (ps_sig_priority r)) = Some n \<and> prp_priority rule < int n"
    if "r \<in> set (allocationSnapshotPolicyRules s)" "rule \<in> set (tp_rules plan)" for r rule
  proof -
    from list_all2_partner [OF e(2) that(1)] obtain al where al: "al \<in> set (te_rules ev)"
      "parse_uint10 32 (trim_space (ps_sig_priority r)) = Some (unat (al_priority al))" by blast
    have "prp_priority rule \<le> upper_tunnel_priority (te_rules ev)"
      using that(2) by (auto simp: plan session_plan_fields rule_plan_def guarded_def prio split: if_splits)
    moreover have "upper_tunnel_priority (te_rules ev) < uint (al_priority al)"
      using upper_bounds [of "te_rules ev"] al(1) by blast
    ultimately have "prp_priority rule < int (unat (al_priority al))"
      using uint_nat [of "al_priority al"] by linarith
    with al(2) show ?thesis by blast
  qed
  from cidr' addr rule e(3-5) show ?thesis by blast
qed

theorem snapshot_plan_collision_free_witness:
  "\<exists>plan. PlanTunForSession demo_profile demo_snapshot \<lparr>op_kill_switch = [], op_dns_servers = []\<rparr> = Inr plan \<and>
     (\<exists>w. tap_cidr (tp_address plan) = ip4_text w @ ''/32'')"
proof -
  let ?ev = "\<lparr>te_addresses = [], te_routes = [\<lparr>ar_destination = NoPrefix, ar_default = True, ar_table = 254, ar_type = 0,
       ar_link_index = 0\<rparr>], te_rules = [], te_reserved_tables = []\<rparr>"
  have ev: "TunAllocationEvidenceFromSnapshot demo_snapshot = Inr ?ev"
    by (simp add: TunAllocationEvidenceFromSnapshot_def demo_snapshot_def inventory_check_def uplink_def
        allocationSnapshotStatusAvailable_def convert_route_def allocationSnapshotRouteTable_def
        allocationSnapshotPolicyRules_def)
  have "\<exists>a. AllocateTunResources ?ev = Inr a"
    unfolding AllocateTunResources_Inr
    by (simp add: validateTunAllocationEvidence_def route_entry_error_def prefix_valid_def free_host_def free_table_def
        free_mark_def scan_up.simps tun_pool_defs tunAllocationAddressOccupied_def used_tables_def
        upper_tunnel_priority_def TunRulePriority_def)
  then obtain plan where plan:
    "PlanTunForSession demo_profile demo_snapshot \<lparr>op_kill_switch = [], op_dns_servers = []\<rparr> = Inr plan"
    by (auto simp: PlanTunForSession_def ev PlanTunForSessionWithAllocationEvidence_def demo_profile_valid)
  with snapshot_plan_collision_free [OF plan] show ?thesis by blast
qed

section \<open>What the steps of a plan announce\<close>

text \<open>A session plan for a profile without marked egress announces a policy rule for the VPN server also
  when the server address is unknown and the plan has no such rule: its only rule is the tunnel rule.\<close>

theorem session_steps_announce_missing_rule:
  assumes "\<not> marked_profile p" and "concreteServerBypassIP s = []"
  shows "tp_rules (session_plan p s opts res) =
       [rule_plan (ra_tunnel_priority res) IPv4DefaultSelector (itoa_int (ra_table res)) session_rule_text] \<and>
     rule_step (ra_server_priority res) (''VPN server bootstrap via '' @ MainRoutingTable)
       \<in> set (tp_steps (session_plan p s opts res))"
proof -
  have "trp_destination (allocatedServerBypassRoute s []) \<noteq> []"
    by (simp add: allocatedServerBypassRoute_def blocked_bypass_def)
  with assms show ?thesis
    by (simp add: session_plan_def Let_def session_steps_def guarded_def)
qed

theorem session_steps_announce_missing_rule_witness:
  "rule_step 9999 (''VPN server bootstrap via '' @ MainRoutingTable)
     \<in> set (tp_steps (session_plan (demo_profile\<lparr>pr_protocol := ''vless''\<rparr>) demo_snapshot
          \<lparr>op_kill_switch = [], op_dns_servers = []\<rparr>
          \<lparr>ra_cidr = ''198.18.0.1/32'', ra_table = 51820, ra_server_priority = 9999, ra_tunnel_priority = 10000,
           ra_mark = 20570\<rparr>))"
proof -
  have m: "\<not> marked_profile (demo_profile\<lparr>pr_protocol := ''vless''\<rparr>)"
    by (simp add: marked_profile_def IsProvider_flat)
  have c: "concreteServerBypassIP demo_snapshot = []"
    by (simp add: concreteServerBypassIP_def demo_snapshot_def)
  show ?thesis
    using session_steps_announce_missing_rule [OF m c, of "\<lparr>op_kill_switch = [], op_dns_servers = []\<rparr>"
        "\<lparr>ra_cidr = ''198.18.0.1/32'', ra_table = 51820, ra_server_priority = 9999, ra_tunnel_priority = 10000,
           ra_mark = 20570\<rparr>"] by simp
qed

end
