(* ===== verification/Session_State.thy ===== *)
theory Session_State
  imports Profile
begin

text \<open>
  The durable network session record of \<^verbatim>\<open>src/internal/daemon/network_session_state.go\<close>, the legacy record
  and the reconnect intent of \<^verbatim>\<open>network_session_continuation.go\<close>, and the connect request of
  \<^verbatim>\<open>src/internal/api/lifecycle.go\<close>.

  The file is represented by what \<^verbatim>\<open>encoding/json\<close> makes of its bytes for the three targets the code
  decodes into; encoding a record and decoding it gives the record back (texts are valid UTF-8).  The
  length of an encoding, the boot identifier, the random bytes and every failure of a system call come
  from the environment of an operation.  All operations run under one lock, so an operation is one step.
\<close>

section \<open>Connect requests\<close>

text \<open>\<^verbatim>\<open>api.ProfileSnapshot\<close> has the fields of a profile.\<close>

type_synonym ProfileSnapshot = Profile

record ConnectRequest =
  cr_mode :: string
  cr_profile :: ProfileSnapshot
  cr_handoff :: string

definition HandoffBlock :: string where "HandoffBlock = ''block''"
definition HandoffAsk :: string where "HandoffAsk = ''ask''"
definition HandoffStopKnown :: string where "HandoffStopKnown = ''stop-known''"
definition HandoffReplacePodlaz :: string where "HandoffReplacePodlaz = ''replace-podlaz''"

lemmas handoff_consts = HandoffBlock_def HandoffAsk_def HandoffStopKnown_def HandoffReplacePodlaz_def

definition NormalizeHandoffPolicy :: "string \<Rightarrow> string" where
  "NormalizeHandoffPolicy policy =
     (let p = to_lower (trim_space policy) in if p = [] then HandoffBlock else p)"

datatype request_error =
    MissingMode | UnsupportedHandoff string | MissingProfileID | MissingProfileName | MissingProtocol
  | MissingSpiderX | MissingServer | MissingPort

definition ValidateHandoffPolicy :: "string \<Rightarrow> request_error option" where
  "ValidateHandoffPolicy policy =
     (if NormalizeHandoffPolicy policy \<in> {HandoffBlock, HandoffAsk, HandoffStopKnown, HandoffReplacePodlaz}
      then None else Some (UnsupportedHandoff policy))"

definition ValidateConnectRequest :: "ConnectRequest \<Rightarrow> request_error option" where
  "ValidateConnectRequest r =
     (if cr_mode r = [] then Some MissingMode
      else case ValidateHandoffPolicy (cr_handoff r) of
        Some e \<Rightarrow> Some e
      | None \<Rightarrow>
          if pr_id (cr_profile r) = [] then Some MissingProfileID
          else if pr_name (cr_profile r) = [] then Some MissingProfileName
          else if pr_protocol (cr_profile r) = [] then Some MissingProtocol
          else if fold_text (trim_space (pr_protocol (cr_profile r))) = ''xray-json'' then
            (if trim_space (pr_reality_spider_x (cr_profile r)) = [] then Some MissingSpiderX else None)
          else if pr_server (cr_profile r) = [] then Some MissingServer
          else if pr_port (cr_profile r) = 0 then Some MissingPort
          else None)"

section \<open>The record\<close>

datatype networkSessionIntent = IntentResume | IntentDisconnect | IntentTerminal | IntentOther string

datatype networkSessionProtectionState =
    ProtectionUnarmed | ProtectionArming | ProtectionArmed | ProtectionRemoving | ProtectionOther string

record networkSessionProtection =
  np_state :: networkSessionProtectionState
  np_version :: int
  np_family :: string
  np_table :: string
  np_interface :: string
  np_bootstrap :: "string list"
  np_previous_bootstrap :: "string list"
  np_marks :: "32 word list"
  np_previous_marks :: "32 word list"

record networkSessionReplacement =
  nr_request :: ConnectRequest
  nr_protection :: "networkSessionProtection option"

record networkSessionState =
  ns_schema :: string
  ns_owner :: string
  ns_boot_id :: string
  ns_session_id :: string
  ns_epoch :: "64 word"
  ns_intent :: networkSessionIntent
  ns_request :: ConnectRequest
  ns_protection :: "networkSessionProtection option"
  ns_replacement :: "networkSessionReplacement option"

record networkSessionContinuation =
  nc_schema :: string
  nc_owner :: string
  nc_boot_id :: string
  nc_request :: ConnectRequest

definition networkSessionStateSchemaVersion :: string where
  "networkSessionStateSchemaVersion = ''podlaz.network-session-state.v1''"

definition networkSessionContinuationSchemaVersion :: string where
  "networkSessionContinuationSchemaVersion = ''podlaz.network-session-continuation.v1''"

definition networkSessionStateOwner :: string where
  "networkSessionStateOwner = ''podlaz''"

definition maxNetworkSessionStateBytes :: nat where
  "maxNetworkSessionStateBytes = 64 * 1024"

definition privacyEnvelopeCompositionVersion :: int where "privacyEnvelopeCompositionVersion = 1"
definition privacyEnvelopeMarkedCompositionVersion :: int where "privacyEnvelopeMarkedCompositionVersion = 2"

datatype session_error =
    InvalidRequest request_error
  | TransitionInProgress
  | ReplaceNeedsTun
  | ChangeWithoutHandoff
  | SystemError string
  | BadFile string
  | UnsupportedSchema string
  | TooLarge
  | InvalidState string
  | InvalidProtection string string
  | InvalidReplacement string
  | EpochExhausted
  | NoSession
  | CommitUnverified
  | ProtectionAuthorityExists
  | IntentChange

section \<open>Validation\<close>

definition lower_hex :: "char \<Rightarrow> bool" where
  "lower_hex c = (is_digit c \<or> (97 \<le> byte c \<and> byte c \<le> 102))"

definition networkSessionIDPattern :: "string \<Rightarrow> bool" where
  "networkSessionIDPattern s = (length s = 32 \<and> list_all lower_hex s)"

definition table_suffix :: "string \<Rightarrow> bool" where
  "table_suffix s =
     (case s of [] \<Rightarrow> True
      | c # ds \<Rightarrow>
          c = CHR ''_'' \<and> 1 \<le> length ds \<and> length ds \<le> 3 \<and> list_all is_digit ds \<and> hd ds \<noteq> CHR ''0'')"

definition privacyEnvelopeTablePattern :: "string \<Rightarrow> bool" where
  "privacyEnvelopeTablePattern s =
     (take 10 s = ''podlaz_pe_'' \<and> length (take 12 (drop 10 s)) = 12 \<and> list_all lower_hex (take 12 (drop 10 s)) \<and>
      table_suffix (drop 22 s))"

definition interface_char :: "char \<Rightarrow> bool" where
  "interface_char c = (alnum c \<or> c = CHR ''_'' \<or> c = CHR ''.'' \<or> c = CHR '':'' \<or> c = CHR ''-'')"

definition validateNetworkSessionInterface :: "string \<Rightarrow> session_error option" where
  "validateNetworkSessionInterface name =
     (if name = [] \<or> 15 < length name \<or> name = ''.'' \<or> name = ''..'' \<or> \<not> list_all interface_char name
      then Some (InvalidProtection ''interface'' []) else None)"

fun check_bootstrap :: "string \<Rightarrow> string list \<Rightarrow> string list \<Rightarrow> session_error option" where
  "check_bootstrap label seen [] = None"
| "check_bootstrap label seen (raw # rest) =
     (case parse_ip (trim_space raw) of
        Some (IP4 w) \<Rightarrow>
          if ip4_text w \<noteq> raw then Some (InvalidProtection ''not normalized'' label)
          else if raw \<in> set seen then Some (InvalidProtection ''duplicate'' label)
          else check_bootstrap label (raw # seen) rest
      | _ \<Rightarrow> Some (InvalidProtection ''invalid'' label))"

definition validateBootstrapIPv4 :: "string list \<Rightarrow> string \<Rightarrow> session_error option" where
  "validateBootstrapIPv4 values label = (if values = [] then Some (InvalidProtection ''none'' label) else check_bootstrap label [] values)"

fun check_marks :: "string \<Rightarrow> 32 word list \<Rightarrow> 32 word list \<Rightarrow> session_error option" where
  "check_marks label seen [] = None"
| "check_marks label seen (v # rest) =
     (if v = 0 then Some (InvalidProtection ''invalid'' label)
      else if v \<in> set seen then Some (InvalidProtection ''duplicate'' label)
      else if seen \<noteq> [] \<and> v \<le> hd seen then Some (InvalidProtection ''not normalized'' label)
      else check_marks label (v # seen) rest)"

definition validateEgressMarks :: "32 word list \<Rightarrow> string \<Rightarrow> session_error option" where
  "validateEgressMarks values label = (if values = [] then Some (InvalidProtection ''none'' label) else check_marks label [] values)"

definition composition_error :: "networkSessionProtection \<Rightarrow> session_error option" where
  "composition_error p =
     (if np_version p = privacyEnvelopeCompositionVersion then
        (case validateBootstrapIPv4 (np_bootstrap p) ''bootstrap'' of
           Some e \<Rightarrow> Some e
         | None \<Rightarrow> if np_marks p \<noteq> [] \<or> np_previous_marks p \<noteq> [] then Some (InvalidProtection ''endpoint with marks'' []) else None)
      else if np_version p = privacyEnvelopeMarkedCompositionVersion then
        (if np_bootstrap p \<noteq> [] \<or> np_previous_bootstrap p \<noteq> [] then Some (InvalidProtection ''marked with endpoints'' [])
         else validateEgressMarks (np_marks p) ''egress'')
      else Some (InvalidProtection ''composition'' []))"

definition previous_bootstrap_error :: "networkSessionProtection \<Rightarrow> session_error option" where
  "previous_bootstrap_error p =
     (if np_previous_bootstrap p = [] then None
      else if np_state p \<noteq> ProtectionArming then Some (InvalidProtection ''previous only while arming'' [])
      else validateBootstrapIPv4 (np_previous_bootstrap p) ''previous bootstrap'')"

definition previous_marks_error :: "networkSessionProtection \<Rightarrow> session_error option" where
  "previous_marks_error p =
     (if np_previous_marks p = [] then None
      else if np_state p \<noteq> ProtectionArming then Some (InvalidProtection ''previous only while arming'' [])
      else validateEgressMarks (np_previous_marks p) ''previous egress'')"

definition validateNetworkSessionProtection :: "networkSessionProtection \<Rightarrow> session_error option" where
  "validateNetworkSessionProtection p =
     first_error
      [if np_state p \<in> {ProtectionUnarmed, ProtectionArming, ProtectionArmed, ProtectionRemoving} then None
         else Some (InvalidProtection ''state'' []),
       if np_version p \<le> 0 then Some (InvalidProtection ''version'' []) else None,
       if np_family p \<noteq> ''inet'' then Some (InvalidProtection ''family'' []) else None,
       if privacyEnvelopeTablePattern (np_table p) then None else Some (InvalidProtection ''table'' []),
       validateNetworkSessionInterface (np_interface p),
       composition_error p,
       previous_bootstrap_error p,
       previous_marks_error p]"

definition validateNetworkSessionIntent :: "networkSessionIntent \<Rightarrow> session_error option" where
  "validateNetworkSessionIntent i =
     (if i \<in> {IntentResume, IntentDisconnect, IntentTerminal} then None else Some (InvalidState ''intent''))"

definition samePrivacyEnvelopeIdentity :: "networkSessionProtection \<Rightarrow> networkSessionProtection \<Rightarrow> bool" where
  "samePrivacyEnvelopeIdentity a b =
     (np_version a = np_version b \<and> np_family a = np_family b \<and> np_table a = np_table b \<and>
      np_interface a = np_interface b)"

definition networkSessionRequestsEquivalentIgnoringHandoff :: "ConnectRequest \<Rightarrow> ConnectRequest \<Rightarrow> bool" where
  "networkSessionRequestsEquivalentIgnoringHandoff a b = (a\<lparr>cr_handoff := []\<rparr> = b\<lparr>cr_handoff := []\<rparr>)"

definition replacement_error :: "networkSessionState \<Rightarrow> session_error option" where
  "replacement_error st =
     (case ns_replacement st of
        None \<Rightarrow> None
      | Some rep \<Rightarrow>
          first_error
           [if NormalizeHandoffPolicy (cr_handoff (ns_request st)) \<noteq> HandoffReplacePodlaz
              then Some (InvalidReplacement ''handoff'') else None,
            map_option InvalidRequest (ValidateConnectRequest (nr_request rep)),
            (case nr_protection rep of
               None \<Rightarrow> Some (InvalidReplacement ''no previous protection'')
             | Some prev \<Rightarrow>
                 first_error
                  [validateNetworkSessionProtection prev,
                   (case ns_protection st of
                      None \<Rightarrow> Some (InvalidReplacement ''identity changed'')
                    | Some cur \<Rightarrow>
                        if samePrivacyEnvelopeIdentity cur prev then None else Some (InvalidReplacement ''identity changed''))])])"

definition validateNetworkSessionState :: "networkSessionState \<Rightarrow> session_error option" where
  "validateNetworkSessionState st =
     first_error
      [if ns_schema st \<noteq> networkSessionStateSchemaVersion then Some (UnsupportedSchema (ns_schema st)) else None,
       if ns_owner st \<noteq> networkSessionStateOwner then Some (InvalidState ''owner'') else None,
       if trim_space (ns_boot_id st) = [] then Some (InvalidState ''boot id'') else None,
       if networkSessionIDPattern (ns_session_id st) then None else Some (InvalidState ''session id''),
       validateNetworkSessionIntent (ns_intent st),
       map_option InvalidRequest (ValidateConnectRequest (ns_request st)),
       (case ns_protection st of None \<Rightarrow> None | Some p \<Rightarrow> validateNetworkSessionProtection p),
       replacement_error st]"

definition validateNetworkSessionContinuation :: "networkSessionContinuation \<Rightarrow> session_error option" where
  "validateNetworkSessionContinuation r =
     first_error
      [if nc_schema r \<noteq> networkSessionContinuationSchemaVersion then Some (UnsupportedSchema (nc_schema r)) else None,
       if nc_owner r \<noteq> ''podlaz'' then Some (InvalidState ''owner'') else None,
       if trim_space (nc_boot_id r) = [] then Some (InvalidState ''boot id'') else None,
       map_option InvalidRequest (ValidateConnectRequest (nc_request r))]"

section \<open>The file and the environment\<close>

record session_data =
  sd_header :: "string option"
  sd_state :: "networkSessionState option"
  sd_continuation :: "networkSessionContinuation option"

record session_file =
  sf_perm :: nat
  sf_size :: nat
  sf_data :: session_data

record session_disk =
  sk_main :: "session_file option"
  sk_tmp :: "session_file list"

datatype load_fault = LoadOk | LoadOpen | LoadStat | LoadRead
datatype write_fault = WriteOk | WriteMkdir | WriteCreate | WriteChmod | WriteBytes | WriteSync | WriteClose
  | WriteRename | WriteSyncDir
datatype remove_fault = RemoveOk | RemoveUnlink | RemoveSyncDir

record session_env =
  se_boot :: "string option"
  se_random :: "nat list option"
  se_size :: "networkSessionState \<Rightarrow> nat"
  se_load :: load_fault
  se_write :: write_fault
  se_keep_tmp :: bool
  se_remove :: remove_fault

definition encode_state :: "networkSessionState \<Rightarrow> session_data" where
  "encode_state st =
     \<lparr>sd_header = Some (ns_schema st), sd_state = Some st,
      sd_continuation = Some \<lparr>nc_schema = ns_schema st, nc_owner = ns_owner st, nc_boot_id = ns_boot_id st,
                              nc_request = ns_request st\<rparr>\<rparr>"

definition torn_data :: session_data where
  "torn_data = \<lparr>sd_header = None, sd_state = None, sd_continuation = None\<rparr>"

definition leave_tmp :: "session_env \<Rightarrow> session_file \<Rightarrow> session_disk \<Rightarrow> session_disk" where
  "leave_tmp ev f d = (if se_keep_tmp ev then d\<lparr>sk_tmp := f # sk_tmp d\<rparr> else d)"

definition atomicWritePrivateFile :: "session_env \<Rightarrow> session_file \<Rightarrow> session_disk \<Rightarrow> session_disk \<times> bool" where
  "atomicWritePrivateFile ev f d =
     (case se_write ev of
        WriteCreate \<Rightarrow> (d, False)
      | WriteChmod \<Rightarrow> (leave_tmp ev (f\<lparr>sf_size := 0, sf_data := torn_data\<rparr>) d, False)
      | WriteBytes \<Rightarrow> (leave_tmp ev (f\<lparr>sf_data := torn_data\<rparr>) d, False)
      | WriteSync \<Rightarrow> (leave_tmp ev f d, False)
      | WriteClose \<Rightarrow> (leave_tmp ev f d, False)
      | WriteRename \<Rightarrow> (leave_tmp ev f d, False)
      | WriteSyncDir \<Rightarrow> (d\<lparr>sk_main := Some f\<rparr>, False)
      | _ \<Rightarrow> (d\<lparr>sk_main := Some f\<rparr>, True))"

definition save :: "session_env \<Rightarrow> networkSessionState \<Rightarrow> session_disk \<Rightarrow> session_disk \<times> session_error option" where
  "save ev st d =
     (case validateNetworkSessionState st of
        Some e \<Rightarrow> (d, Some e)
      | None \<Rightarrow>
          if maxNetworkSessionStateBytes < se_size ev st then (d, Some TooLarge)
          else if se_write ev = WriteMkdir then (d, Some (SystemError ''create runtime directory''))
          else case atomicWritePrivateFile ev \<lparr>sf_perm = 384, sf_size = se_size ev st, sf_data = encode_state st\<rparr> d of
            (d', ok) \<Rightarrow> (d', if ok then None else Some (SystemError ''persist'')))"

definition removeFile :: "session_env \<Rightarrow> session_disk \<Rightarrow> session_disk \<times> session_error option" where
  "removeFile ev d =
     (case sk_main d of
        None \<Rightarrow> (d, None)
      | Some f \<Rightarrow>
          (case se_remove ev of
             RemoveUnlink \<Rightarrow> (d, Some (SystemError ''remove''))
           | RemoveSyncDir \<Rightarrow> (d\<lparr>sk_main := None\<rparr>, Some (SystemError ''sync after removal''))
           | RemoveOk \<Rightarrow> (d\<lparr>sk_main := None\<rparr>, None)))"

definition currentBootID :: "session_env \<Rightarrow> session_error + string" where
  "currentBootID ev =
     (case se_boot ev of
        None \<Rightarrow> Inl (SystemError ''boot id'')
      | Some b \<Rightarrow> if trim_space b = [] then Inl (SystemError ''empty boot id'') else Inr (trim_space b))"

definition hex_byte :: "nat \<Rightarrow> string" where
  "hex_byte b = [hex_char (b div 16), hex_char (b mod 16)]"

definition newNetworkSessionID :: "session_env \<Rightarrow> session_error + string" where
  "newNetworkSessionID ev = (case se_random ev of None \<Rightarrow> Inl (SystemError ''random'') | Some bs \<Rightarrow> Inr (concat (map hex_byte bs)))"

definition fresh_state :: "string \<Rightarrow> string \<Rightarrow> ConnectRequest \<Rightarrow> networkSessionState" where
  "fresh_state boot session request =
     \<lparr>ns_schema = networkSessionStateSchemaVersion, ns_owner = networkSessionStateOwner, ns_boot_id = boot,
      ns_session_id = session, ns_epoch = 0, ns_intent = IntentResume, ns_request = request,
      ns_protection = None, ns_replacement = None\<rparr>"

section \<open>Loading\<close>

definition migrateContinuation ::
  "session_env \<Rightarrow> session_data \<Rightarrow> session_disk \<Rightarrow> session_disk \<times> (session_error + networkSessionState option)" where
  "migrateContinuation ev data d =
     (case sd_continuation data of
        None \<Rightarrow> (d, Inl (BadFile ''legacy continuation''))
      | Some c \<Rightarrow>
          (case validateNetworkSessionContinuation c of
             Some e \<Rightarrow> (fst (removeFile ev d), Inl e)
           | None \<Rightarrow>
               (case currentBootID ev of
                  Inl e \<Rightarrow> (d, Inl e)
                | Inr boot \<Rightarrow>
                    if nc_boot_id c \<noteq> boot then
                      (case removeFile ev d of (d', Some e) \<Rightarrow> (d', Inl e) | (d', None) \<Rightarrow> (d', Inr None))
                    else
                      (case newNetworkSessionID ev of
                         Inl e \<Rightarrow> (d, Inl e)
                       | Inr session \<Rightarrow>
                           let st = fresh_state (nc_boot_id c) session (nc_request c) in
                           (case save ev st d of (d', Some e) \<Rightarrow> (d', Inl e) | (d', None) \<Rightarrow> (d', Inr (Some st)))))))"

definition decode_file ::
  "session_env \<Rightarrow> session_data \<Rightarrow> session_disk \<Rightarrow> session_disk \<times> (session_error + networkSessionState option)" where
  "decode_file ev data d =
     (case sd_header data of
        None \<Rightarrow> (d, Inl (BadFile ''header''))
      | Some schema \<Rightarrow>
          if schema = networkSessionContinuationSchemaVersion then migrateContinuation ev data d
          else if schema \<noteq> networkSessionStateSchemaVersion then (d, Inl (UnsupportedSchema schema))
          else (case sd_state data of
                  None \<Rightarrow> (d, Inl (BadFile ''state''))
                | Some st \<Rightarrow>
                    (case validateNetworkSessionState st of
                       Some e \<Rightarrow> (d, Inl e)
                     | None \<Rightarrow>
                         (case currentBootID ev of
                            Inl e \<Rightarrow> (d, Inl e)
                          | Inr boot \<Rightarrow>
                              if ns_boot_id st \<noteq> boot then
                                (case removeFile ev d of (d', Some e) \<Rightarrow> (d', Inl e) | (d', None) \<Rightarrow> (d', Inr None))
                              else (d, Inr (Some st))))))"

definition loadLocked ::
  "session_env \<Rightarrow> session_disk \<Rightarrow> session_disk \<times> (session_error + networkSessionState option)" where
  "loadLocked ev d =
     (if se_load ev = LoadOpen then (d, Inl (SystemError ''open''))
      else case sk_main d of
        None \<Rightarrow> (d, Inr None)
      | Some f \<Rightarrow>
          if se_load ev = LoadStat then (d, Inl (SystemError ''stat''))
          else if sf_perm f \<noteq> 384 then (d, Inl (BadFile ''permissions''))
          else if maxNetworkSessionStateBytes < sf_size f then (d, Inl TooLarge)
          else if se_load ev = LoadRead then (d, Inl (SystemError ''read''))
          else decode_file ev (sf_data f) d)"

section \<open>Operations\<close>

text \<open>An operation first loads the record, in the environment \<open>el\<close>, and then writes, in the environment
  \<open>ev\<close>.  The state returned next to an error is dropped, except by \<open>BeginRecoveryAttempt\<close>.\<close>

type_synonym session_result = "session_error + networkSessionState option"

definition put_state ::
  "session_env \<Rightarrow> networkSessionState \<Rightarrow> session_disk \<Rightarrow> session_disk \<times> (session_error + networkSessionState)" where
  "put_state ev st d = (case save ev st d of (d', Some e) \<Rightarrow> (d', Inl e) | (d', None) \<Rightarrow> (d', Inr st))"

definition resume_session ::
  "session_env \<Rightarrow> networkSessionState \<Rightarrow> ConnectRequest \<Rightarrow> session_disk \<Rightarrow> session_disk \<times> (session_error + networkSessionState)" where
  "resume_session ev current request d =
     (if ns_intent current \<noteq> IntentResume then (d, Inl TransitionInProgress)
      else if ns_replacement current \<noteq> None then
        (if ns_request current = request then (d, Inr current) else (d, Inl TransitionInProgress))
      else case ns_protection current of
        Some prot \<Rightarrow>
          if NormalizeHandoffPolicy (cr_handoff request) = HandoffReplacePodlaz then
            (if cr_mode (ns_request current) \<noteq> ''tun'' \<or> cr_mode request \<noteq> ''tun'' then (d, Inl ReplaceNeedsTun)
             else put_state ev
                    (current\<lparr>ns_replacement := Some \<lparr>nr_request = ns_request current, nr_protection = Some prot\<rparr>,
                             ns_request := request\<rparr>) d)
          else if \<not> networkSessionRequestsEquivalentIgnoringHandoff (ns_request current) request
            then (d, Inl ChangeWithoutHandoff)
          else put_state ev (current\<lparr>ns_request := request\<rparr>) d
      | None \<Rightarrow> put_state ev (current\<lparr>ns_request := request\<rparr>) d)"

definition BeginOrResume ::
  "session_env \<Rightarrow> session_env \<Rightarrow> ConnectRequest \<Rightarrow> session_disk \<Rightarrow> session_disk \<times> (session_error + networkSessionState)" where
  "BeginOrResume el ev request d =
     (case ValidateConnectRequest request of
        Some e \<Rightarrow> (d, Inl (InvalidRequest e))
      | None \<Rightarrow>
          (case loadLocked el d of
             (d', Inl e) \<Rightarrow> (d', Inl e)
           | (d', Inr (Some current)) \<Rightarrow> resume_session ev current request d'
           | (d', Inr None) \<Rightarrow>
               (case currentBootID ev of
                  Inl e \<Rightarrow> (d', Inl e)
                | Inr boot \<Rightarrow>
                    (case newNetworkSessionID ev of
                       Inl e \<Rightarrow> (d', Inl e)
                     | Inr session \<Rightarrow> put_state ev (fresh_state boot session request) d'))))"

definition Update ::
  "session_env \<Rightarrow> session_env \<Rightarrow> (networkSessionState \<Rightarrow> session_error + networkSessionState) \<Rightarrow> session_disk \<Rightarrow>
   session_disk \<times> session_result" where
  "Update el ev f d =
     (case loadLocked el d of
        (d', Inl e) \<Rightarrow> (d', Inl e)
      | (d', Inr None) \<Rightarrow> (d', Inr None)
      | (d', Inr (Some st)) \<Rightarrow>
          (case f st of
             Inl e \<Rightarrow> (d', Inl e)
           | Inr st' \<Rightarrow>
               (case put_state ev st' d' of (d'', Inl e) \<Rightarrow> (d'', Inl e) | (d'', Inr x) \<Rightarrow> (d'', Inr (Some x)))))"

definition BeginRecoveryAttempt ::
  "session_env \<Rightarrow> session_env \<Rightarrow> session_disk \<Rightarrow>
   session_disk \<times> networkSessionState option \<times> session_error option" where
  "BeginRecoveryAttempt el ev d =
     (case loadLocked el d of
        (d', Inl e) \<Rightarrow> (d', None, Some e)
      | (d', Inr None) \<Rightarrow> (d', None, None)
      | (d', Inr (Some st)) \<Rightarrow>
          if ns_epoch st = - 1 then (d', Some st, Some EpochExhausted)
          else
            let st' = st\<lparr>ns_epoch := ns_epoch st + 1\<rparr> in
            (case save ev st' d' of (d'', e) \<Rightarrow> (d'', Some st', e)))"

definition err_of :: "'e + 'a \<Rightarrow> 'e option" where
  "err_of r = (case r of Inl e \<Rightarrow> Some e | Inr x \<Rightarrow> None)"

definition require_session :: "session_result \<Rightarrow> session_error option" where
  "require_session r = (case r of Inl e \<Rightarrow> Some e | Inr None \<Rightarrow> Some NoSession | Inr (Some st) \<Rightarrow> None)"

definition SetIntent ::
  "session_env \<Rightarrow> session_env \<Rightarrow> networkSessionIntent \<Rightarrow> session_disk \<Rightarrow> session_disk \<times> session_error option" where
  "SetIntent el ev intent d =
     (case validateNetworkSessionIntent intent of
        Some e \<Rightarrow> (d, Some e)
      | None \<Rightarrow> (case Update el ev (\<lambda>st. Inr (st\<lparr>ns_intent := intent\<rparr>)) d of (d', r) \<Rightarrow> (d', err_of r)))"

definition SetProtection ::
  "session_env \<Rightarrow> session_env \<Rightarrow> networkSessionProtection option \<Rightarrow> session_disk \<Rightarrow> session_disk \<times> session_error option" where
  "SetProtection el ev protection d =
     (case Option.bind protection validateNetworkSessionProtection of
        Some e \<Rightarrow> (d, Some e)
      | None \<Rightarrow>
          (case Update el ev (\<lambda>st. Inr (st\<lparr>ns_protection := protection\<rparr>)) d of (d', r) \<Rightarrow> (d', require_session r)))"

definition commit_update :: "networkSessionState \<Rightarrow> session_error + networkSessionState" where
  "commit_update st =
     (if ns_replacement st = None then Inr st
      else case ns_protection st of
        None \<Rightarrow> Inl CommitUnverified
      | Some p \<Rightarrow>
          if np_state p \<noteq> ProtectionArmed \<or> np_previous_bootstrap p \<noteq> [] \<or> np_previous_marks p \<noteq> []
          then Inl CommitUnverified
          else Inr (st\<lparr>ns_replacement := None, ns_request := (ns_request st)\<lparr>cr_handoff := HandoffBlock\<rparr>\<rparr>))"

definition CommitReplacement ::
  "session_env \<Rightarrow> session_env \<Rightarrow> session_disk \<Rightarrow> session_disk \<times> session_error option" where
  "CommitReplacement el ev d = (case Update el ev commit_update d of (d', r) \<Rightarrow> (d', require_session r))"

definition restore_update :: "networkSessionState \<Rightarrow> session_error + networkSessionState" where
  "restore_update st =
     (case ns_replacement st of
        None \<Rightarrow> Inr st
      | Some rep \<Rightarrow> Inr (st\<lparr>ns_request := nr_request rep, ns_protection := nr_protection rep, ns_replacement := None\<rparr>))"

definition RestoreReplacement ::
  "session_env \<Rightarrow> session_env \<Rightarrow> session_disk \<Rightarrow> session_disk \<times> session_error option" where
  "RestoreReplacement el ev d = (case Update el ev restore_update d of (d', r) \<Rightarrow> (d', require_session r))"

definition RemoveSession ::
  "session_env \<Rightarrow> session_env \<Rightarrow> session_disk \<Rightarrow> session_disk \<times> session_error option" where
  "RemoveSession el ev d =
     (case loadLocked el d of
        (d', Inl e) \<Rightarrow> (d', Some e)
      | (d', Inr None) \<Rightarrow> (d', None)
      | (d', Inr (Some st)) \<Rightarrow>
          if ns_protection st \<noteq> None then (d', Some ProtectionAuthorityExists) else removeFile ev d')"

section \<open>The reconnect intent\<close>

definition LoadCurrent :: "session_env \<Rightarrow> session_disk \<Rightarrow> session_disk \<times> (session_error + ConnectRequest option)" where
  "LoadCurrent el d =
     (case loadLocked el d of
        (d', Inl e) \<Rightarrow> (d', Inl e)
      | (d', Inr None) \<Rightarrow> (d', Inr None)
      | (d', Inr (Some st)) \<Rightarrow> (d', Inr (if ns_intent st = IntentResume then Some (ns_request st) else None)))"

definition drop_resume :: "networkSessionState \<Rightarrow> session_error + networkSessionState" where
  "drop_resume st = Inr (if ns_intent st = IntentResume then st\<lparr>ns_intent := IntentDisconnect\<rparr> else st)"

definition RemoveContinuation ::
  "session_env \<Rightarrow> session_env \<Rightarrow> session_env \<Rightarrow> session_env \<Rightarrow> session_disk \<Rightarrow> session_disk \<times> session_error option" where
  "RemoveContinuation el ev el' ev' d =
     (case Update el ev drop_resume d of
        (d', Inl e) \<Rightarrow> (d', Some e)
      | (d', Inr None) \<Rightarrow> (d', None)
      | (d', Inr (Some st)) \<Rightarrow> RemoveSession el' ev' d')"

definition disarm_update :: "networkSessionIntent \<Rightarrow> networkSessionState \<Rightarrow> session_error + networkSessionState" where
  "disarm_update intent st =
     (if ns_intent st = intent \<or> ns_intent st = IntentTerminal then Inr st
      else if ns_intent st = IntentDisconnect \<and> intent = IntentTerminal then Inr (st\<lparr>ns_intent := IntentTerminal\<rparr>)
      else if ns_intent st \<noteq> IntentResume then Inl IntentChange
      else Inr (st\<lparr>ns_intent := intent\<rparr>))"

definition disarm ::
  "session_env \<Rightarrow> session_env \<Rightarrow> networkSessionIntent \<Rightarrow> session_disk \<Rightarrow> session_disk \<times> session_error option" where
  "disarm el ev intent d =
     (case validateNetworkSessionIntent intent of
        Some e \<Rightarrow> (d, Some e)
      | None \<Rightarrow> (case Update el ev (disarm_update intent) d of (d', r) \<Rightarrow> (d', err_of r)))"

end
