(* ===== verification/Session_State_Facts.thy ===== *)
theory Session_State_Facts
  imports Session_State
begin

text \<open>
  The invariants of the durable session record: it is always a complete valid record, the authority over an
  armed privacy envelope is never lost, a replacement can be undone exactly, the recovery epoch never wraps
  and a disarmed session does not reconnect.
\<close>

section \<open>One write and one load\<close>

definition written :: "networkSessionState \<Rightarrow> session_disk \<Rightarrow> bool" where
  "written st d \<longleftrightarrow>
     validateNetworkSessionState st = None \<and>
     (\<exists>n \<le> maxNetworkSessionStateBytes. sk_main d = Some \<lparr>sf_perm = 384, sf_size = n, sf_data = encode_state st\<rparr>)"

definition held :: "session_disk \<Rightarrow> networkSessionState option" where
  "held d = Option.bind (sk_main d) (\<lambda>f. sd_state (sf_data f))"

definition disk_ok :: "session_disk \<Rightarrow> bool" where
  "disk_ok d \<longleftrightarrow> sk_main d = None \<or> (\<exists>st. written st d)"

text \<open>The environments of one boot: a boot identifier that can be read is \<open>b\<close>.\<close>

definition env_in :: "string \<Rightarrow> session_env \<Rightarrow> bool" where
  "env_in b ev \<longleftrightarrow> se_boot ev = None \<or> map_option trim_space (se_boot ev) = Some b"

lemma encode_state_simps [simp]:
  "sd_header (encode_state st) = Some (ns_schema st)" "sd_state (encode_state st) = Some st"
  by (simp_all add: encode_state_def)

lemma written_held: "written st d \<Longrightarrow> held d = Some st"
  by (auto simp: written_def held_def)

lemma written_ok: "written st d \<Longrightarrow> disk_ok d"
  by (auto simp: disk_ok_def)

lemma held_written: "disk_ok d \<Longrightarrow> held d = Some st \<Longrightarrow> written st d"
  by (auto simp: disk_ok_def written_def held_def)

lemma main_cong: "sk_main d = sk_main d' \<Longrightarrow> held d = held d' \<and> disk_ok d = disk_ok d' \<and> written st d = written st d'"
  by (simp add: held_def disk_ok_def written_def)

lemma leave_tmp_main [simp]: "sk_main (leave_tmp ev f d) = sk_main d"
  by (simp add: leave_tmp_def)

lemma save_main:
  assumes "save ev st d = (d', e)"
  shows "(sk_main d' = sk_main d \<and> e \<noteq> None) \<or> written st d'"
  using assms
  by (auto simp: save_def atomicWritePrivateFile_def written_def split: option.splits if_splits write_fault.splits)

lemma save_None: "save ev st d = (d', None) \<Longrightarrow> written st d'"
  using save_main by blast

lemma put_state_main:
  assumes "put_state ev st d = (d', r)"
  shows "(sk_main d' = sk_main d \<and> (\<exists>e. r = Inl e)) \<or> (written st d' \<and> (r = Inr st \<or> (\<exists>e. r = Inl e)))"
proof -
  obtain d1 e where s: "save ev st d = (d1, e)" by fastforce
  with assms have "d1 = d'" "r = (case e of None \<Rightarrow> Inr st | Some x \<Rightarrow> Inl x)"
    by (auto simp: put_state_def split: option.splits)
  with save_main [OF s] show ?thesis by (cases e) auto
qed

lemma removeFile_main: "removeFile ev d = (d', e) \<Longrightarrow> sk_main d' = sk_main d \<or> sk_main d' = None"
  by (auto simp: removeFile_def split: option.splits remove_fault.splits)

lemma valid_schema: "validateNetworkSessionState st = None \<Longrightarrow> ns_schema st = networkSessionStateSchemaVersion"
  by (auto simp: validateNetworkSessionState_def first_error_None_iff split: if_splits)

lemma schemas_differ: "networkSessionStateSchemaVersion \<noteq> networkSessionContinuationSchemaVersion"
  by (simp add: networkSessionStateSchemaVersion_def networkSessionContinuationSchemaVersion_def)

lemma decode_written:
  assumes "written st d"
  shows "decode_file ev (encode_state st) d =
     (case currentBootID ev of
        Inl e \<Rightarrow> (d, Inl e)
      | Inr boot \<Rightarrow>
          if ns_boot_id st \<noteq> boot then
            (case removeFile ev d of (d', Some e) \<Rightarrow> (d', Inl e) | (d', None) \<Rightarrow> (d', Inr None))
          else (d, Inr (Some st)))"
  using assms schemas_differ
  by (simp add: decode_file_def written_def valid_schema)

lemma currentBootID_in: "env_in b ev \<Longrightarrow> currentBootID ev = Inr boot \<Longrightarrow> boot = b"
  by (auto simp: env_in_def currentBootID_def split: option.splits if_splits)

text \<open>A load leaves the file as it is and returns what it holds, or discards a record of another boot.\<close>

lemma load_cases:
  assumes ok: "disk_ok d" and l: "loadLocked ev d = (d', r)" and b: "env_in b ev"
  obtains (kept) "sk_main d' = sk_main d" "\<And>st. r = Inr (Some st) \<Longrightarrow> held d = Some st \<and> ns_boot_id st = b"
      "r = Inr None \<Longrightarrow> sk_main d = None"
    | (discarded) st where "held d = Some st" "ns_boot_id st \<noteq> b" "sk_main d' = None" "\<And>st. r \<noteq> Inr (Some st)"
proof (cases "sk_main d")
  case None
  with l have "d' = d" "\<And>st. r \<noteq> Inr (Some st)" by (auto simp: loadLocked_def split: if_splits)
  with None kept show thesis by auto
next
  case (Some f)
  with ok obtain st where w: "written st d" by (auto simp: disk_ok_def)
  with Some obtain n where f: "f = \<lparr>sf_perm = 384, sf_size = n, sf_data = encode_state st\<rparr>"
    and n: "n \<le> maxNetworkSessionStateBytes" by (auto simp: written_def)
  have h: "held d = Some st" using w by (rule written_held)
  show thesis
  proof (cases "se_load ev = LoadOk")
    case False
    with l Some f n have "d' = d" "\<exists>e. r = Inl e" by (cases "se_load ev"; auto simp: loadLocked_def)+
    with kept show thesis by auto
  next
    case True
    with l Some f n have dec: "decode_file ev (encode_state st) d = (d', r)" by (simp add: loadLocked_def)
    show thesis
    proof (cases "currentBootID ev")
      case (Inl e)
      with dec have "d' = d" "r = Inl e" by (simp_all add: decode_written [OF w])
      with kept show thesis by auto
    next
      case (Inr boot)
      then have boot: "boot = b" using b currentBootID_in by blast
      show thesis
      proof (cases "ns_boot_id st = b")
        case True
        with dec Inr boot have "d' = d" "r = Inr (Some st)" by (simp_all add: decode_written [OF w])
        with h True kept show thesis by auto
      next
        case False
        obtain d1 e where rm: "removeFile ev d = (d1, e)" by fastforce
        with dec Inr boot False have "d1 = d'" "r = (case e of None \<Rightarrow> Inr None | Some x \<Rightarrow> Inl x)"
          by (auto simp: decode_written [OF w] split: option.splits)
        then have "\<And>st. r \<noteq> Inr (Some st)" and e: "r = Inr None \<longleftrightarrow> e = None" by (auto split: option.splits)
        show thesis
        proof (cases "sk_main d' = None")
          case True
          with h False \<open>\<And>st. r \<noteq> Inr (Some st)\<close> discarded show thesis by blast
        next
          case nonempty: False
          with removeFile_main [OF rm] \<open>d1 = d'\<close> have "sk_main d' = sk_main d" by simp
          moreover have "e \<noteq> None" using rm \<open>d1 = d'\<close> nonempty
            by (auto simp: removeFile_def split: option.splits remove_fault.splits)
          ultimately show thesis using \<open>\<And>st. r \<noteq> Inr (Some st)\<close> e kept by auto
        qed
      qed
    qed
  qed
qed

lemma load_kept:
  assumes "disk_ok d" "loadLocked ev d = (d', r)" "env_in b ev"
  shows "sk_main d' = sk_main d \<or> (sk_main d' = None \<and> (\<exists>st. held d = Some st \<and> ns_boot_id st \<noteq> b))"
  by (rule load_cases [OF assms]) auto

lemma load_Some:
  assumes "disk_ok d" "loadLocked ev d = (d', Inr (Some st))" "env_in b ev"
  shows "sk_main d' = sk_main d \<and> held d = Some st \<and> ns_boot_id st = b"
  by (rule load_cases [OF assms]) auto

text \<open>The session file is a durable store with one record.\<close>

definition session_load :: "session_disk \<Rightarrow> unit \<Rightarrow> networkSessionState option" where
  "session_load d k = held d"

definition session_save ::
  "session_env \<Rightarrow> session_disk \<Rightarrow> unit \<Rightarrow> networkSessionState \<Rightarrow> session_disk \<times> bool" where
  "session_save ev d k st = (fst (save ev st d), snd (save ev st d) = None)"

interpretation sessions: durable_store session_load session_save
proof
  fix f d k r d'
  assume "session_save f d k r = (d', True)"
  then have "save f r d = (d', None)" by (auto simp: session_save_def prod_eq_iff)
  then show "session_load d' k = Some r" using save_None written_held by (simp add: session_load_def)
next
  fix f d k r d'
  assume "session_save f d k r = (d', False)"
  then obtain e where "save f r d = (d', e)" by (auto simp: session_save_def prod_eq_iff)
  from save_main [OF this] have "held d' = held d \<or> held d' = Some r"
    using main_cong [of d' d] written_held [of r d'] by blast
  then show "session_load d' k = session_load d k \<or> session_load d' k = Some r" by (simp add: session_load_def)
qed auto

section \<open>Updates\<close>

text \<open>What an update does to the file, whatever fails: nothing, or it discards a record of another boot, or it
  replaces the record by the updated one.\<close>

lemma Update_cases:
  assumes ok: "disk_ok d" and u: "Update el ev f d = (d', r)" and b: "env_in b el"
  obtains (kept) "sk_main d' = sk_main d"
    | (discarded) st where "held d = Some st" "ns_boot_id st \<noteq> b" "sk_main d' = None"
    | (changed) st st' where "held d = Some st" "ns_boot_id st = b" "f st = Inr st'" "written st' d'"
proof -
  obtain d1 q where l: "loadLocked el d = (d1, q)" by fastforce
  show thesis
  proof (cases "\<exists>st st'. q = Inr (Some st) \<and> f st = Inr st'")
    case False
    then have "d' = d1" using u l by (auto simp: Update_def split: sum.splits option.splits)
    with load_kept [OF ok l b] kept discarded show thesis by blast
  next
    case True
    then obtain st st' where q: "q = Inr (Some st)" and st': "f st = Inr st'" by blast
    note h = load_Some [OF ok l [unfolded q] b]
    obtain d2 r2 where p: "put_state ev st' d1 = (d2, r2)" by fastforce
    have "d' = d2" using u l q st' p by (auto simp: Update_def split: sum.splits)
    with put_state_main [OF p] h st' kept changed show thesis by auto
  qed
qed

lemma Update_success:
  assumes ok: "disk_ok d" and u: "Update el ev f d = (d', Inr (Some st'))" and b: "env_in b el"
  shows "\<exists>st. held d = Some st \<and> ns_boot_id st = b \<and> f st = Inr st' \<and> written st' d'"
proof -
  obtain d1 q where l: "loadLocked el d = (d1, q)" by fastforce
  from u l obtain st where q: "q = Inr (Some st)" and f: "\<exists>x. f st = Inr x"
    by (auto simp: Update_def split: sum.splits option.splits)
  then obtain x where x: "f st = Inr x" by blast
  obtain d2 r2 where p: "put_state ev x d1 = (d2, r2)" by fastforce
  with u l q x have "d2 = d'" "r2 = Inr st'" by (auto simp: Update_def split: sum.splits)
  with put_state_main [OF p] have "x = st'" "written st' d'" by auto
  with load_Some [OF ok l [unfolded q] b] x show ?thesis by blast
qed

lemma Update_None:
  assumes ok: "disk_ok d" and u: "Update el ev f d = (d', Inr None)" and b: "env_in b el"
  shows "sk_main d' = None"
proof -
  obtain d1 q where l: "loadLocked el d = (d1, q)" by fastforce
  from u l have q: "q = Inr None" "d1 = d'" by (auto simp: Update_def split: sum.splits option.splits prod.splits)
  show ?thesis by (rule load_cases [OF ok l b]) (use q in auto)
qed

section \<open>The session as a state machine\<close>

datatype session_label =
    LBegin | LIntent | LProtection | LRecover | LCommit | LRestore | LRemove | LDisarm | LLoad

inductive session_step :: "string \<Rightarrow> session_label \<Rightarrow> session_disk \<Rightarrow> session_disk \<Rightarrow> bool" for b where
  begin_or_resume: "BeginOrResume el ev req d = (d', r) \<Longrightarrow> env_in b el \<Longrightarrow> env_in b ev \<Longrightarrow> session_step b LBegin d d'"
| set_intent: "SetIntent el ev i d = (d', e) \<Longrightarrow> env_in b el \<Longrightarrow> session_step b LIntent d d'"
| set_protection: "SetProtection el ev p d = (d', e) \<Longrightarrow> env_in b el \<Longrightarrow> session_step b LProtection d d'"
| recover: "BeginRecoveryAttempt el ev d = (d', r) \<Longrightarrow> env_in b el \<Longrightarrow> session_step b LRecover d d'"
| commit: "CommitReplacement el ev d = (d', e) \<Longrightarrow> env_in b el \<Longrightarrow> session_step b LCommit d d'"
| restore: "RestoreReplacement el ev d = (d', e) \<Longrightarrow> env_in b el \<Longrightarrow> session_step b LRestore d d'"
| remove: "RemoveSession el ev d = (d', e) \<Longrightarrow> env_in b el \<Longrightarrow> session_step b LRemove d d'"
| remove_continuation: "RemoveContinuation el ev el' ev' d = (d', e) \<Longrightarrow> env_in b el \<Longrightarrow> env_in b el' \<Longrightarrow>
    session_step b LDisarm d d'"
| disarm: "Session_State.disarm el ev i d = (d', e) \<Longrightarrow> env_in b el \<Longrightarrow> session_step b LDisarm d d'"
| load: "LoadCurrent el d = (d', r) \<Longrightarrow> env_in b el \<Longrightarrow> session_step b LLoad d d'"

inductive session_run :: "string \<Rightarrow> session_label list \<Rightarrow> session_disk \<Rightarrow> session_disk \<Rightarrow> bool" for b where
  run_nil: "session_run b [] d d"
| run_step: "session_run b ls d d' \<Longrightarrow> session_step b l d' d'' \<Longrightarrow> session_run b (ls @ [l]) d d''"

inductive_cases session_run_snocE: "session_run b (ls @ [l]) d d''"

text \<open>How a step may change the record it finds.\<close>

definition intent_rank :: "networkSessionIntent \<Rightarrow> nat" where
  "intent_rank i = (case i of IntentResume \<Rightarrow> 0 | IntentDisconnect \<Rightarrow> 1 | IntentTerminal \<Rightarrow> 2 | IntentOther s \<Rightarrow> 3)"

definition evolves :: "session_label \<Rightarrow> networkSessionState \<Rightarrow> networkSessionState \<Rightarrow> bool" where
  "evolves l st st' \<longleftrightarrow>
     ns_session_id st' = ns_session_id st \<and> ns_boot_id st' = ns_boot_id st \<and> ns_epoch st \<le> ns_epoch st' \<and>
     (l = LIntent \<or> intent_rank (ns_intent st) \<le> intent_rank (ns_intent st')) \<and>
     (l = LProtection \<or>
      (\<forall>p. ns_protection st = Some p \<longrightarrow>
         (\<exists>p'. ns_protection st' = Some p' \<and> samePrivacyEnvelopeIdentity p p')))"

lemma same_identity_refl [simp]: "samePrivacyEnvelopeIdentity p p"
  by (simp add: samePrivacyEnvelopeIdentity_def)

lemma same_identity_sym: "samePrivacyEnvelopeIdentity p q \<Longrightarrow> samePrivacyEnvelopeIdentity q p"
  by (simp add: samePrivacyEnvelopeIdentity_def)

lemma same_identity_trans:
  "samePrivacyEnvelopeIdentity p q \<Longrightarrow> samePrivacyEnvelopeIdentity q r \<Longrightarrow> samePrivacyEnvelopeIdentity p r"
  by (simp add: samePrivacyEnvelopeIdentity_def)

text \<open>The effect of a step on a well-formed file: untouched; removed, which needs a record of another boot or one
  without protection; or a valid record that evolved from the one found, or a fresh one where there was none
  or one of another boot.\<close>

definition step_effect :: "string \<Rightarrow> session_label \<Rightarrow> session_disk \<Rightarrow> session_disk \<Rightarrow> bool" where
  "step_effect b l d d' \<longleftrightarrow>
     sk_main d' = sk_main d \<or>
     (sk_main d' = None \<and> (\<exists>st. held d = Some st \<and> (ns_boot_id st \<noteq> b \<or> ns_protection st = None))) \<or>
     (\<exists>st'. written st' d' \<and>
        ((\<exists>st. held d = Some st \<and> ns_boot_id st = b \<and> evolves l st st') \<or>
         ns_boot_id st' = b \<and> (held d = None \<or> (\<exists>st. held d = Some st \<and> ns_boot_id st \<noteq> b))))"

lemma effect_ok: "disk_ok d \<Longrightarrow> step_effect b l d d' \<Longrightarrow> disk_ok d'"
  by (auto simp: step_effect_def disk_ok_def written_def)

lemma Update_effect:
  assumes "disk_ok d" "Update el ev f d = (d', r)" "env_in b el"
    and "\<And>st st'. held d = Some st \<Longrightarrow> f st = Inr st' \<Longrightarrow> evolves l st st'"
  shows "step_effect b l d d'"
  by (rule Update_cases [OF assms(1-3)]) (use assms(4) in \<open>auto simp: step_effect_def\<close>)

lemma maybe_update_effect:
  assumes "disk_ok d" "d' = d \<or> Update el ev f d = (d', r)" "env_in b el"
    and "\<And>st st'. f st = Inr st' \<Longrightarrow> evolves l st st'"
  shows "step_effect b l d d'"
  using assms(2)
proof
  assume "d' = d"
  then show ?thesis by (simp add: step_effect_def)
next
  assume "Update el ev f d = (d', r)"
  from Update_effect [OF assms(1) this assms(3)] assms(4) show ?thesis by blast
qed

lemma restore_evolves:
  assumes "validateNetworkSessionState st = None" "restore_update st = Inr st'"
  shows "evolves LRestore st st'"
proof (cases "ns_replacement st")
  case None
  with assms(2) show ?thesis by (simp add: restore_update_def evolves_def)
next
  case (Some rep)
  from assms(1) have "replacement_error st = None"
    by (simp add: validateNetworkSessionState_def first_error_None_iff)
  with Some obtain prev cur where "nr_protection rep = Some prev" "ns_protection st = Some cur"
    "samePrivacyEnvelopeIdentity cur prev"
    by (auto simp: replacement_error_def first_error_None_iff split: option.splits if_splits)
  with Some assms(2) show ?thesis by (auto simp: restore_update_def evolves_def)
qed

lemma commit_evolves: "commit_update st = Inr st' \<Longrightarrow> evolves LCommit st st'"
  by (auto simp: commit_update_def evolves_def split: if_splits option.splits)

lemma drop_resume_evolves: "drop_resume st = Inr st' \<Longrightarrow> evolves LDisarm st st'"
  by (auto simp: drop_resume_def evolves_def intent_rank_def)

lemma disarm_evolves:
  assumes "validateNetworkSessionIntent i = None" "disarm_update i st = Inr st'"
  shows "evolves LDisarm st st'"
  using assms
  by (auto simp: disarm_update_def evolves_def intent_rank_def validateNetworkSessionIntent_def split: if_splits)

lemma epoch_succ:
  assumes "e \<noteq> (- 1 :: 64 word)"
  shows "unat (e + 1) = Suc (unat e)"
proof -
  have "1 + e \<noteq> 0" using assms by (metis add.commute add_eq_0_iff)
  then show ?thesis using unatSuc [of e] by (simp add: add.commute)
qed

lemma epoch_increases: "e \<noteq> (- 1 :: 64 word) \<Longrightarrow> e < e + 1"
  by (simp add: word_less_nat_alt epoch_succ)

lemma resume_effect:
  assumes "resume_session ev st req d = (d', r)"
  shows "sk_main d' = sk_main d \<or> (\<exists>st'. written st' d' \<and> evolves LBegin st st')"
proof -
  have put: "sk_main d' = sk_main d \<or> (\<exists>st'. written st' d' \<and> evolves LBegin st st')"
    if "put_state ev x d = (d', r)" "evolves LBegin st x" for x
    using put_state_main [OF that(1)] that(2) by blast
  have "d' = d \<or> (\<exists>x. put_state ev x d = (d', r) \<and> evolves LBegin st x)"
    using assms by (auto simp: resume_session_def evolves_def split: if_splits option.splits)
  with put show ?thesis by blast
qed

lemma begin_effect:
  assumes ok: "disk_ok d" and s: "BeginOrResume el ev req d = (d', r)" and b: "env_in b el"
    and bv: "env_in b ev"
  shows "step_effect b LBegin d d'"
proof (cases "ValidateConnectRequest req")
  case (Some e)
  with s show ?thesis by (simp add: BeginOrResume_def step_effect_def)
next
  case None
  obtain d1 q where l: "loadLocked el d = (d1, q)" by fastforce
  note k = load_kept [OF ok l b]
  then have main: "step_effect b LBegin d d1" by (auto simp: step_effect_def)
  show ?thesis
  proof (cases q)
    case (Inl e)
    with s None l main show ?thesis by (simp add: BeginOrResume_def)
  next
    case (Inr o1)
    show ?thesis
    proof (cases o1)
      case (Some st)
      note h = load_Some [OF ok l [unfolded Inr Some] b]
      from s None l Inr Some have "resume_session ev st req d1 = (d', r)" by (simp add: BeginOrResume_def)
      from resume_effect [OF this] h show ?thesis by (auto simp: step_effect_def)
    next
      case none: None
      then have "sk_main d1 = None" and old: "held d = None \<or> (\<exists>st. held d = Some st \<and> ns_boot_id st \<noteq> b)"
        by (rule_tac [!] load_cases [OF ok l b]) (use none Inr in \<open>auto simp: held_def\<close>)
      have "d' = d1 \<or> (\<exists>st. ns_boot_id st = b \<and> put_state ev st d1 = (d', r))"
        using s None l Inr none currentBootID_in [OF bv] by (auto simp: BeginOrResume_def fresh_state_def split: sum.splits)
      then consider "d' = d1" | st where "put_state ev st d1 = (d', r)" "ns_boot_id st = b" by blast
      then show ?thesis
      proof cases
        case 1
        with main show ?thesis by simp
      next
        case (2 st)
        from put_state_main [OF 2(1)] show ?thesis
        proof
          assume "sk_main d' = sk_main d1 \<and> (\<exists>e. r = Inl e)"
          with main show ?thesis by (simp add: step_effect_def written_def)
        qed (use old 2(2) in \<open>auto simp: step_effect_def\<close>)
      qed
    qed
  qed
qed

lemma recover_effect:
  assumes ok: "disk_ok d" and s: "BeginRecoveryAttempt el ev d = (d', r)" and b: "env_in b el"
  shows "step_effect b LRecover d d'"
proof -
  obtain d1 q where l: "loadLocked el d = (d1, q)" by fastforce
  note k = load_kept [OF ok l b]
  show ?thesis
  proof (cases "\<exists>st. q = Inr (Some st) \<and> ns_epoch st \<noteq> - 1")
    case False
    with s l have "d' = d1" by (auto simp: BeginRecoveryAttempt_def split: sum.splits option.splits)
    with k show ?thesis by (auto simp: step_effect_def)
  next
    case True
    then obtain st where q: "q = Inr (Some st)" and e: "ns_epoch st \<noteq> - 1" by blast
    note h = load_Some [OF ok l [unfolded q] b]
    obtain d2 x where sv: "save ev (st\<lparr>ns_epoch := ns_epoch st + 1\<rparr>) d1 = (d2, x)" by fastforce
    with s l q e have "d' = d2" by (simp add: BeginRecoveryAttempt_def)
    moreover have "evolves LRecover st (st\<lparr>ns_epoch := ns_epoch st + 1\<rparr>)"
      using epoch_increases [OF e] by (auto simp: evolves_def)
    ultimately show ?thesis using save_main [OF sv] h by (auto simp: step_effect_def)
  qed
qed

lemma remove_effect:
  assumes ok: "disk_ok d" and s: "RemoveSession el ev d = (d', e)" and b: "env_in b el"
  shows "sk_main d' = sk_main d \<or>
     (sk_main d' = None \<and> (\<exists>st. held d = Some st \<and> (ns_boot_id st \<noteq> b \<or> ns_protection st = None)))"
proof -
  obtain d1 q where l: "loadLocked el d = (d1, q)" by fastforce
  note k = load_kept [OF ok l b]
  show ?thesis
  proof (cases "\<exists>st. q = Inr (Some st) \<and> ns_protection st = None")
    case False
    with s l have "d' = d1" by (auto simp: RemoveSession_def split: sum.splits option.splits if_splits)
    with k show ?thesis by blast
  next
    case True
    then obtain st where q: "q = Inr (Some st)" and p: "ns_protection st = None" by blast
    note h = load_Some [OF ok l [unfolded q] b]
    from s l q p have "removeFile ev d1 = (d', e)" by (simp add: RemoveSession_def)
    from removeFile_main [OF this] h p show ?thesis by auto
  qed
qed

lemma remove_continuation_effect:
  assumes ok: "disk_ok d" and s: "RemoveContinuation el ev el' ev' d = (d', e)" and b: "env_in b el" "env_in b el'"
  shows "step_effect b LDisarm d d'"
proof -
  obtain d1 q where u: "Update el ev drop_resume d = (d1, q)" by fastforce
  have e1: "step_effect b LDisarm d d1"
    by (rule Update_effect [OF ok u b(1)]) (rule drop_resume_evolves)
  then have ok1: "disk_ok d1" by (rule effect_ok [OF ok])
  show ?thesis
  proof (cases "\<exists>st. q = Inr (Some st)")
    case False
    with s u have "d' = d1" by (auto simp: RemoveContinuation_def split: sum.splits option.splits)
    with e1 show ?thesis by simp
  next
    case True
    then obtain st' where q: "q = Inr (Some st')" by blast
    from Update_success [OF ok u [unfolded q] b(1)] obtain st where
      st: "held d = Some st" "ns_boot_id st = b" "drop_resume st = Inr st'" "written st' d1" by blast
    have ev: "evolves LDisarm st st'" by (rule drop_resume_evolves [OF st(3)])
    have h1: "held d1 = Some st'" by (rule written_held [OF st(4)])
    from s u q have "RemoveSession el' ev' d1 = (d', e)" by (simp add: RemoveContinuation_def)
    from remove_effect [OF ok1 this b(2)] show ?thesis
    proof
      assume "sk_main d' = sk_main d1"
      then have "written st' d'" using st(4) by (simp add: written_def)
      with st ev show ?thesis by (auto simp: step_effect_def)
    next
      assume "sk_main d' = None \<and> (\<exists>st. held d1 = Some st \<and> (ns_boot_id st \<noteq> b \<or> ns_protection st = None))"
      with h1 ev st have "sk_main d' = None" "ns_protection st = None" by (auto simp: evolves_def)
      with st show ?thesis by (auto simp: step_effect_def)
    qed
  qed
qed

lemma step_has_effect:
  assumes "session_step b l d d'" and ok: "disk_ok d"
  shows "step_effect b l d d'"
  using assms(1)
proof cases
  case (begin_or_resume el ev req r)
  then show ?thesis using begin_effect [OF ok] by simp
next
  case (set_intent el ev i e)
  then obtain r where "d' = d \<or> Update el ev (\<lambda>st. Inr (st\<lparr>ns_intent := i\<rparr>)) d = (d', r)"
    by (auto simp: SetIntent_def split: option.splits prod.splits)
  then show ?thesis unfolding set_intent(1)
    by (rule maybe_update_effect [OF ok _ set_intent(3)]) (auto simp: evolves_def)
next
  case (set_protection el ev p e)
  then obtain r where "d' = d \<or> Update el ev (\<lambda>st. Inr (st\<lparr>ns_protection := p\<rparr>)) d = (d', r)"
    by (auto simp: SetProtection_def split: option.splits prod.splits)
  then show ?thesis unfolding set_protection(1)
    by (rule maybe_update_effect [OF ok _ set_protection(3)]) (auto simp: evolves_def)
next
  case (recover el ev r)
  then show ?thesis using recover_effect [OF ok] by simp
next
  case (commit el ev e)
  then obtain r where "Update el ev commit_update d = (d', r)"
    by (auto simp: CommitReplacement_def split: prod.splits)
  with commit show ?thesis using Update_effect [OF ok _ commit(3), of ev commit_update d' r LCommit] commit_evolves by simp
next
  case (restore el ev e)
  then obtain r where u: "Update el ev restore_update d = (d', r)"
    by (auto simp: RestoreReplacement_def split: prod.splits)
  have "step_effect b LRestore d d'"
  proof (rule Update_effect [OF ok u restore(3)])
    fix st st' assume "held d = Some st" "restore_update st = Inr st'"
    with held_written [OF ok] show "evolves LRestore st st'" by (auto simp: written_def intro: restore_evolves)
  qed
  with restore show ?thesis by simp
next
  case (remove el ev e)
  then show ?thesis using remove_effect [OF ok remove(2,3)] by (auto simp: step_effect_def)
next
  case (remove_continuation el ev el' ev' e)
  then show ?thesis using remove_continuation_effect [OF ok] by simp
next
  case (disarm el ev i e)
  show ?thesis
  proof (cases "validateNetworkSessionIntent i")
    case None
    with disarm obtain r where u: "Update el ev (disarm_update i) d = (d', r)"
      by (auto simp: Session_State.disarm_def split: prod.splits)
    show ?thesis unfolding disarm(1)
      by (rule Update_effect [OF ok u disarm(3)]) (rule disarm_evolves [OF None])
  next
    case (Some x)
    with disarm show ?thesis by (simp add: Session_State.disarm_def step_effect_def)
  qed
next
  case (load el r)
  then obtain q where "loadLocked el d = (d', q)"
    by (auto simp: LoadCurrent_def split: prod.splits sum.splits option.splits)
  from load_kept [OF ok this load(3)] show ?thesis by (auto simp: step_effect_def)
qed

lemma run_ok: "session_run b ls d d' \<Longrightarrow> disk_ok d \<Longrightarrow> disk_ok d'"
  by (induction rule: session_run.induct) (blast intro: effect_ok step_has_effect)+

lemma protected_step:
  assumes "session_step b l d d'" "disk_ok d" "held d = Some st" "ns_boot_id st = b" "ns_protection st = Some p"
  shows "\<exists>st'. held d' = Some st' \<and> (st' = st \<or> evolves l st st')"
  using step_has_effect [OF assms(1,2)] assms(3-5) unfolding step_effect_def
  using main_cong written_held by (metis option.distinct(1) option.inject)

lemma protected_run:
  assumes "session_run b ls d d'" "disk_ok d" "LProtection \<notin> set ls" "held d = Some st" "ns_boot_id st = b"
    "ns_protection st = Some p"
  shows "\<exists>st' p'. held d' = Some st' \<and> ns_boot_id st' = b \<and> ns_session_id st' = ns_session_id st \<and>
     ns_epoch st \<le> ns_epoch st' \<and> (LIntent \<in> set ls \<or> intent_rank (ns_intent st) \<le> intent_rank (ns_intent st')) \<and>
     ns_protection st' = Some p' \<and> samePrivacyEnvelopeIdentity p p'"
  using assms
proof (induction rule: session_run.induct)
  case (run_nil d)
  then show ?case by auto
next
  case (run_step ls d d' l d'')
  then obtain st' p' where h: "held d' = Some st'" "ns_boot_id st' = b" "ns_session_id st' = ns_session_id st"
    "ns_epoch st \<le> ns_epoch st'" "LIntent \<in> set ls \<or> intent_rank (ns_intent st) \<le> intent_rank (ns_intent st')"
    "ns_protection st' = Some p'" "samePrivacyEnvelopeIdentity p p'" by auto
  have ok: "disk_ok d'" using run_step run_ok by blast
  from protected_step [OF run_step(2) ok h(1,2,6)] obtain st'' where
    st'': "held d'' = Some st''" "st'' = st' \<or> evolves l st' st''" by blast
  from st''(2) show ?case
  proof
    assume "st'' = st'"
    with h st'' show ?case by auto
  next
    assume e: "evolves l st' st''"
    with run_step.prems(2) h(6) obtain p'' where p'': "ns_protection st'' = Some p''" "samePrivacyEnvelopeIdentity p' p''"
      by (auto simp: evolves_def)
    have "LIntent \<in> set (ls @ [l]) \<or> intent_rank (ns_intent st) \<le> intent_rank (ns_intent st'')"
      using e h(5) unfolding evolves_def by force
    moreover have "ns_epoch st \<le> ns_epoch st''" using e h(4) unfolding evolves_def by (meson order_trans)
    ultimately show ?case using e h st'' p'' same_identity_trans [OF h(7) p''(2)] unfolding evolves_def by metis
  qed
qed

lemma disarmed_run:
  assumes "session_run b ls d d'" and "disk_ok d" and "LProtection \<notin> set ls" and "LIntent \<notin> set ls"
    and "held d = Some st" and "ns_boot_id st = b" and "ns_protection st = Some p" and "ns_intent st \<noteq> IntentResume"
    and "env_in b el"
  shows "snd (LoadCurrent el d') \<noteq> Inr (Some req)"
proof
  assume c: "snd (LoadCurrent el d') = Inr (Some req)"
  from protected_run [OF assms(1-3,5-7)] assms(4) obtain st' where
    h: "held d' = Some st'" "intent_rank (ns_intent st) \<le> intent_rank (ns_intent st')" by blast
  obtain d1 q where l: "loadLocked el d' = (d1, q)" by fastforce
  with c obtain x where q: "q = Inr (Some x)" "ns_intent x = IntentResume"
    by (auto simp: LoadCurrent_def split: sum.splits option.splits if_splits)
  from load_Some [OF run_ok [OF assms(1,2)] l [unfolded q(1)] assms(9)] h have "x = st'" by simp
  with q(2) h(2) assms(8) show False by (auto simp: intent_rank_def split: networkSessionIntent.splits)
qed

section \<open>Concrete records\<close>

definition demo_request :: ConnectRequest where
  "demo_request =
     \<lparr>cr_mode = ''tun'',
      cr_profile = \<lparr>pr_id = ''home'', pr_name = ''home'', pr_source = ''manual'', pr_engine = ''xray'', pr_server = ''vpn'',
        pr_port = 443, pr_protocol = ''trojan'', pr_user_identity = [], pr_transport = [], pr_security = [],
        pr_encryption = [], pr_flow = [], pr_server_name = [], pr_alpn = [], pr_fingerprint = [], pr_path = [],
        pr_host_header = [], pr_service_name = [], pr_reality_public_key = [], pr_reality_short_id = [],
        pr_reality_spider_x = []\<rparr>,
      cr_handoff = ''block''\<rparr>"

definition demo_protection :: networkSessionProtection where
  "demo_protection =
     \<lparr>np_state = ProtectionArmed, np_version = 2, np_family = ''inet'', np_table = ''podlaz_pe_0123456789ab'',
      np_interface = ''podlaz0'', np_bootstrap = [], np_previous_bootstrap = [], np_marks = [20570],
      np_previous_marks = []\<rparr>"

definition demo_state :: networkSessionState where
  "demo_state =
     \<lparr>ns_schema = networkSessionStateSchemaVersion, ns_owner = networkSessionStateOwner, ns_boot_id = ''boot1'',
      ns_session_id = ''0123456789abcdef0123456789abcdef'', ns_epoch = 7, ns_intent = IntentTerminal,
      ns_request = demo_request, ns_protection = Some demo_protection, ns_replacement = None\<rparr>"

definition disk_of :: "networkSessionState \<Rightarrow> session_disk" where
  "disk_of st = \<lparr>sk_main = Some \<lparr>sf_perm = 384, sf_size = 900, sf_data = encode_state st\<rparr>, sk_tmp = []\<rparr>"

definition demo_disk :: session_disk where
  "demo_disk = disk_of demo_state"

definition demo_env :: session_env where
  "demo_env =
     \<lparr>se_boot = Some ''boot1'', se_random = Some (replicate 16 0), se_size = (\<lambda>st. 900), se_load = LoadOk,
      se_write = WriteOk, se_keep_tmp = False, se_remove = RemoveOk\<rparr>"

lemma demo_request_valid: "ValidateConnectRequest demo_request = None"
  by (simp add: ValidateConnectRequest_def demo_request_def ValidateHandoffPolicy_def NormalizeHandoffPolicy_def
      handoff_consts lower_char_def)

lemma demo_protection_valid: "validateNetworkSessionProtection demo_protection = None"
  by (simp add: validateNetworkSessionProtection_def demo_protection_def privacyEnvelopeTablePattern_def lower_hex_def
      is_digit_def table_suffix_def validateNetworkSessionInterface_def interface_char_def alnum_def id_letter_def
      composition_error_def privacyEnvelopeCompositionVersion_def privacyEnvelopeMarkedCompositionVersion_def
      validateEgressMarks_def previous_bootstrap_error_def previous_marks_error_def)

lemma demo_state_valid: "validateNetworkSessionState demo_state = None"
  by (simp add: validateNetworkSessionState_def demo_state_def demo_request_valid demo_protection_valid
      networkSessionIDPattern_def lower_hex_def is_digit_def validateNetworkSessionIntent_def replacement_error_def)

lemma written_disk_of: "validateNetworkSessionState st = None \<Longrightarrow> written st (disk_of st)"
  by (simp add: written_def disk_of_def maxNetworkSessionStateBytes_def)

lemma demo_written: "written demo_state demo_disk"
  by (simp add: demo_disk_def written_disk_of demo_state_valid)

lemmas demo_held = written_held [OF demo_written] and demo_ok = written_ok [OF demo_written]

lemma demo_env_in: "env_in ''boot1'' demo_env"
  by (simp add: env_in_def demo_env_def)

lemma demo_session_load:
  assumes "validateNetworkSessionState st = None" "ns_boot_id st = ''boot1''"
  shows "loadLocked demo_env (disk_of st) = (disk_of st, Inr (Some st))"
proof -
  have "currentBootID demo_env = Inr ''boot1''" by (simp add: currentBootID_def demo_env_def)
  then have "decode_file demo_env (encode_state st) (disk_of st) = (disk_of st, Inr (Some st))"
    using assms by (simp add: decode_written written_disk_of)
  then show ?thesis by (simp add: loadLocked_def disk_of_def demo_env_def maxNetworkSessionStateBytes_def)
qed

lemma demo_session_save: "validateNetworkSessionState st = None \<Longrightarrow> save demo_env st (disk_of st0) = (disk_of st, None)"
  by (simp add: save_def demo_env_def disk_of_def atomicWritePrivateFile_def maxNetworkSessionStateBytes_def)

section \<open>Properties\<close>

text \<open>Whatever operations run and whatever fails during them, the file is absent or one complete record
  that passes validation, with the permissions and the size a later load accepts.\<close>

theorem session_record_always_valid:
  assumes "session_run b ls d d'" and "disk_ok d"
  shows "disk_ok d'"
  using assms by (rule run_ok)

theorem session_record_always_valid_witness:
  "\<exists>d'. session_run ''boot1'' [LRecover] demo_disk d' \<and> disk_ok d'"
proof -
  obtain d' r where "BeginRecoveryAttempt demo_env demo_env demo_disk = (d', r)" by (rule prod.exhaust)
  then have run: "session_run ''boot1'' ([] @ [LRecover]) demo_disk d'"
    by (intro run_step [OF run_nil] recover [OF _ demo_env_in])
  from session_record_always_valid [OF run demo_ok] run show ?thesis by auto
qed

text \<open>C17: While a session of the current boot holds protection authority, no sequence of operations other than
  an explicit change of the protection loses it: under any failures the file keeps a record of the same
  session whose protection names the same firewall object, and the recovery epoch does not go back.\<close>

theorem protection_authority_never_lost:
  assumes "session_run b ls d d'" and "disk_ok d" and "LProtection \<notin> set ls"
    and "held d = Some st" and "ns_boot_id st = b" and "ns_protection st = Some p"
  shows "\<exists>st' p'. held d' = Some st' \<and> ns_session_id st' = ns_session_id st \<and> ns_epoch st \<le> ns_epoch st' \<and>
     ns_protection st' = Some p' \<and> samePrivacyEnvelopeIdentity p p'"
  using protected_run [OF assms] by blast

theorem protection_authority_never_lost_witness:
  "\<exists>d' st' p'. session_run ''boot1'' [LRemove] demo_disk d' \<and> held d' = Some st' \<and>
     ns_protection st' = Some p' \<and> np_table p' = ''podlaz_pe_0123456789ab''"
proof -
  obtain d' e where "RemoveSession demo_env demo_env demo_disk = (d', e)" by (rule prod.exhaust)
  then have run: "session_run ''boot1'' ([] @ [LRemove]) demo_disk d'"
    by (intro run_step [OF run_nil] remove [OF _ demo_env_in])
  have "\<exists>st' p'. held d' = Some st' \<and> ns_session_id st' = ns_session_id demo_state \<and>
      ns_epoch demo_state \<le> ns_epoch st' \<and> ns_protection st' = Some p' \<and> samePrivacyEnvelopeIdentity demo_protection p'"
    by (rule protection_authority_never_lost [OF run demo_ok _ demo_held]) (simp_all add: demo_state_def)
  with run show ?thesis by (fastforce simp: samePrivacyEnvelopeIdentity_def demo_protection_def)
qed

text \<open>Replacing a protected session is undone exactly: after a replacement that was admitted, restoring it
  leaves the record as it was before, request and protection included.\<close>

theorem replacement_undone_exactly:
  assumes ok: "disk_ok d" and st: "held d = Some st" "ns_protection st = Some p" "ns_replacement st = None"
    and h: "NormalizeHandoffPolicy (cr_handoff req) = HandoffReplacePodlaz"
    and b: "BeginOrResume el ev req d = (d1, Inr st1)" "env_in boot el" "ns_boot_id st = boot"
    and r: "RestoreReplacement el' ev' d1 = (d2, None)" "env_in boot el'"
  shows "held d2 = Some st"
proof -
  obtain d0 q where l: "loadLocked el d = (d0, q)" by fastforce
  from b(1) have "ValidateConnectRequest req = None" by (auto simp: BeginOrResume_def split: option.splits)
  with b(1) l have q: "(\<exists>x. q = Inr (Some x) \<and> resume_session ev x req d0 = (d1, Inr st1)) \<or> q = Inr None"
    by (auto simp: BeginOrResume_def split: sum.splits option.splits)
  have "q \<noteq> Inr None" by (rule load_cases [OF ok l b(2)]) (use st b(3) in \<open>auto simp: held_def\<close>)
  with q obtain x where x: "q = Inr (Some x)" "resume_session ev x req d0 = (d1, Inr st1)" by blast
  with load_Some [OF ok l [unfolded x(1)] b(2)] st have "x = st" by simp
  with x(2) st h have "put_state ev (st\<lparr>ns_replacement := Some \<lparr>nr_request = ns_request st, nr_protection = Some p\<rparr>,
      ns_request := req\<rparr>) d0 = (d1, Inr st1)" (is "put_state ev ?new d0 = _")
    by (auto simp: resume_session_def split: if_splits)
  from put_state_main [OF this] have w1: "written ?new d1" by auto
  from r(1) obtain q2 where u: "Update el' ev' restore_update d1 = (d2, q2)" "require_session q2 = None"
    by (auto simp: RestoreReplacement_def split: prod.splits)
  then obtain st2 where q2: "q2 = Inr (Some st2)" by (auto simp: require_session_def split: sum.splits option.splits)
  from Update_success [OF written_ok [OF w1] u(1) [unfolded q2] r(2)] written_held [OF w1]
  have "restore_update ?new = Inr st2" "written st2 d2" by auto
  then have "st2 = st" using st by (cases st) (auto simp: restore_update_def)
  with \<open>written st2 d2\<close> show ?thesis using written_held by blast
qed

definition demo_replace :: ConnectRequest where
  "demo_replace = demo_request\<lparr>cr_handoff := ''replace-podlaz''\<rparr>"

lemma demo_replace_valid: "ValidateConnectRequest demo_replace = None"
  by (simp add: ValidateConnectRequest_def demo_request_def demo_replace_def ValidateHandoffPolicy_def
      NormalizeHandoffPolicy_def handoff_consts lower_char_def)

lemma demo_replace_policy: "NormalizeHandoffPolicy (cr_handoff demo_replace) = HandoffReplacePodlaz"
  by (simp add: demo_replace_def NormalizeHandoffPolicy_def handoff_consts lower_char_def)

theorem replacement_undone_exactly_witness:
  "\<exists>d1 st1 d2. BeginOrResume demo_env demo_env demo_replace (disk_of (demo_state\<lparr>ns_intent := IntentResume\<rparr>)) = (d1, Inr st1) \<and>
     ns_request st1 = demo_replace \<and> RestoreReplacement demo_env demo_env d1 = (d2, None) \<and>
     held d2 = Some (demo_state\<lparr>ns_intent := IntentResume\<rparr>)"
proof -
  let ?st = "demo_state\<lparr>ns_intent := IntentResume\<rparr>"
  let ?new = "?st\<lparr>ns_replacement := Some \<lparr>nr_request = demo_request, nr_protection = Some demo_protection\<rparr>,
      ns_request := demo_replace\<rparr>"
  have v: "validateNetworkSessionState ?st = None"
    by (simp add: validateNetworkSessionState_def demo_state_def demo_request_valid demo_protection_valid
        networkSessionIDPattern_def lower_hex_def is_digit_def validateNetworkSessionIntent_def replacement_error_def)
  have vn: "validateNetworkSessionState ?new = None"
    by (simp add: validateNetworkSessionState_def demo_state_def demo_request_valid demo_replace_valid
        demo_protection_valid networkSessionIDPattern_def lower_hex_def is_digit_def validateNetworkSessionIntent_def
        replacement_error_def demo_replace_policy)
  have fields: "ns_boot_id ?st = ''boot1''" "ns_boot_id ?new = ''boot1''" "ns_request ?st = demo_request"
    "ns_protection ?st = Some demo_protection" "ns_replacement ?st = None" "cr_mode demo_request = ''tun''"
    "cr_mode demo_replace = ''tun''"
    by (simp_all add: demo_state_def demo_request_def demo_replace_def)
  have b: "BeginOrResume demo_env demo_env demo_replace (disk_of ?st) = (disk_of ?new, Inr ?new)"
    using demo_session_load [OF v fields(1)] demo_session_save [OF vn] fields
    by (simp add: BeginOrResume_def demo_replace_valid resume_session_def demo_replace_policy put_state_def)
  have up: "restore_update ?new = Inr ?st"
    using fields by (simp add: restore_update_def demo_state_def)
  have r: "RestoreReplacement demo_env demo_env (disk_of ?new) = (disk_of ?st, None)"
    unfolding RestoreReplacement_def Update_def demo_session_load [OF vn fields(2)]
    by (simp only: up prod.case sum.case option.case put_state_def demo_session_save [OF v] require_session_def)
  have "held (disk_of ?st) = Some ?st"
    by (rule replacement_undone_exactly [OF written_ok [OF written_disk_of [OF v]] written_held [OF written_disk_of [OF v]]
          fields(4,5) demo_replace_policy b demo_env_in fields(1) r demo_env_in])
  with b r show ?thesis by fastforce
qed

text \<open>C33: A recovery attempt counts: when it reports success the next epoch is on disk, it is larger by one as
  a natural number, and at the largest 64-bit value the attempt is refused and the file left as it is.\<close>

theorem recovery_epoch_counts:
  assumes "disk_ok d" and "env_in b el" and "BeginRecoveryAttempt el ev d = (d', Some st', e)"
  shows "\<exists>st. held d = Some st \<and>
     (e = None \<longrightarrow> unat (ns_epoch st') = Suc (unat (ns_epoch st)) \<and> held d' = Some st') \<and>
     (ns_epoch st = - 1 \<longrightarrow> e = Some EpochExhausted \<and> held d' = held d)"
proof -
  obtain d1 q where l: "loadLocked el d = (d1, q)" by fastforce
  with assms(3) obtain st where q: "q = Inr (Some st)"
    by (auto simp: BeginRecoveryAttempt_def split: sum.splits option.splits)
  note h = load_Some [OF assms(1) l [unfolded q] assms(2)]
  show ?thesis
  proof (cases "ns_epoch st = - 1")
    case True
    with assms(3) l q have "e = Some EpochExhausted" "d' = d1" by (simp_all add: BeginRecoveryAttempt_def)
    with h main_cong show ?thesis by blast
  next
    case False
    with assms(3) l q have sv: "save ev (st\<lparr>ns_epoch := ns_epoch st + 1\<rparr>) d1 = (d', e)"
      and st': "st' = st\<lparr>ns_epoch := ns_epoch st + 1\<rparr>"
      by (auto simp: BeginRecoveryAttempt_def Let_def split: prod.splits)
    have "unat (ns_epoch st') = Suc (unat (ns_epoch st))" using epoch_succ [OF False] by (simp add: st')
    moreover have "held d' = Some st'" if "e = None"
      using save_None [OF sv [unfolded that]] written_held st' by blast
    ultimately show ?thesis using h False by auto
  qed
qed

theorem recovery_epoch_counts_witness:
  "\<exists>d' st'. BeginRecoveryAttempt demo_env demo_env demo_disk = (d', Some st', None) \<and> unat (ns_epoch st') = 8 \<and>
     held d' = Some st'"
proof -
  let ?st = "demo_state\<lparr>ns_epoch := ns_epoch demo_state + 1\<rparr>"
  have v: "validateNetworkSessionState ?st = None"
    by (simp add: validateNetworkSessionState_def demo_state_def demo_request_valid demo_protection_valid
        networkSessionIDPattern_def lower_hex_def is_digit_def validateNetworkSessionIntent_def replacement_error_def)
  have boot: "ns_boot_id demo_state = ''boot1''" and epoch: "ns_epoch demo_state = 7" by (simp_all add: demo_state_def)
  have a: "BeginRecoveryAttempt demo_env demo_env demo_disk = (disk_of ?st, Some ?st, None)"
    using demo_session_load [OF demo_state_valid boot] demo_session_save [OF v] by (simp add: BeginRecoveryAttempt_def demo_disk_def epoch Let_def)
  from recovery_epoch_counts [OF demo_ok demo_env_in a] demo_held epoch a show ?thesis by auto
qed

text \<open>A disarmed session does not reconnect: once the intent of a protected session is no longer to resume,
  no sequence of operations without an explicit change of intent or protection makes a later start find a
  request to resume.\<close>

theorem disarmed_never_reconnects:
  assumes "session_run b ls d d'" and "disk_ok d" and "LProtection \<notin> set ls" and "LIntent \<notin> set ls"
    and "held d = Some st" and "ns_boot_id st = b" and "ns_protection st = Some p" and "ns_intent st \<noteq> IntentResume"
    and "env_in b el"
  shows "snd (LoadCurrent el d') \<noteq> Inr (Some req)"
  using assms by (rule disarmed_run)

theorem disarmed_never_reconnects_witness:
  "\<exists>d'. session_run ''boot1'' [LRecover] demo_disk d' \<and> snd (LoadCurrent demo_env d') \<noteq> Inr (Some demo_request)"
proof -
  obtain d' r where "BeginRecoveryAttempt demo_env demo_env demo_disk = (d', r)" by (rule prod.exhaust)
  then have run: "session_run ''boot1'' ([] @ [LRecover]) demo_disk d'"
    by (intro run_step [OF run_nil] recover [OF _ demo_env_in])
  have "snd (LoadCurrent demo_env d') \<noteq> Inr (Some demo_request)"
    by (rule disarmed_never_reconnects [OF run demo_ok _ _ demo_held _ _ _ demo_env_in]) (simp_all add: demo_state_def)
  with run show ?thesis by auto
qed

text \<open>in any sequence of saves of session records, with any failures, the file holds the record it held at
  the start or one of the records that were saved, complete.\<close>

theorem session_saves_never_tear:
  "held (foldl (\<lambda>d (ev, st). fst (save ev st d)) d ws) = held d \<or>
   (\<exists>w\<in>set ws. held (foldl (\<lambda>d (ev, st). fst (save ev st d)) d ws) = Some (snd w))"
proof -
  have "sessions.save_all d (map (\<lambda>(ev, st). (ev, (), st)) ws) = foldl (\<lambda>d (ev, st). fst (save ev st d)) d ws"
    by (induction ws arbitrary: d) (auto simp: session_save_def)
  with sessions.never_torn [of d "map (\<lambda>(ev, st). (ev, (), st)) ws" "()"] show ?thesis
    by (fastforce simp: session_load_def)
qed

end
