(* ===== verification/Privacy_Envelope.thy ===== *)
theory Privacy_Envelope
  imports Session_State_Facts Tun_Planner_Facts
begin

text \<open>
  The privacy envelope of \<^verbatim>\<open>src/internal/daemon/privacy_envelope_plan.go\<close>: the allocation of an unused
  firewall table for a session, the rules that the durable protection record stands for, and the
  normalisation of endpoints and marks.
\<close>

section \<open>Plans\<close>

record PrivacyEnvelopePlan =
  pe_family :: string
  pe_table :: string
  pe_chains :: "TunFirewallChainPlan list"
  pe_rules :: "TunFirewallRulePlan list"
  pe_reason :: string

datatype envelope_error =
    InvalidIdentity
  | EnvelopeSession session_error
  | NoEndpoint
  | EndpointNotIPv4
  | ZeroMark
  | NoMarks
  | NoObserver
  | ObserveFailed string
  | NoFreeEnvelopeTable

definition privacyEnvelopeCandidateLimit :: nat where "privacyEnvelopeCandidateLimit = 16"
definition privacyEnvelopeFamily :: string where "privacyEnvelopeFamily = ''inet''"

definition privacyEnvelopeReason :: string where
  "privacyEnvelopeReason = ''preserve a fail-closed network session privacy boundary''"

definition envelope_accept :: "string \<Rightarrow> string \<Rightarrow> TunFirewallRulePlan" where
  "envelope_accept expr ownership =
     \<lparr>frp_chain = ''output'', frp_expr = expr, frp_verdict = FirewallVerdictAccept, frp_action = FirewallActionAdd,
      frp_reason = privacyEnvelopeReason, frp_ownership = ownership, frp_rollback_key = []\<rparr>"

definition envelope_reject :: TunFirewallRulePlan where
  "envelope_reject =
     \<lparr>frp_chain = ''output'', frp_expr = [], frp_verdict = FirewallVerdictReject, frp_action = FirewallActionAdd,
      frp_reason = privacyEnvelopeReason, frp_ownership = ''podlaz:privacy-envelope:block-direct'', frp_rollback_key = []\<rparr>"

definition dhcp4_expr :: string where
  "dhcp4_expr = ''meta nfproto ipv4 udp sport 68 udp dport 67''"

definition dhcp6_expr :: string where
  "dhcp6_expr = ''meta nfproto ipv6 udp sport 546 udp dport 547''"

definition neighbour_expr :: string where
  "neighbour_expr = ''icmpv6 type { nd-router-solicit, nd-neighbor-solicit, nd-neighbor-advert }''"

definition envelope_rules :: "networkSessionProtection \<Rightarrow> TunFirewallRulePlan list" where
  "envelope_rules p =
     [envelope_accept (''oifname '' @ quoted ''lo'') ''podlaz:privacy-envelope:loopback'',
      envelope_accept (''oifname '' @ quoted (np_interface p)) ''podlaz:privacy-envelope:tun-egress''] @
     map (\<lambda>endpoint. envelope_accept (''ip daddr '' @ endpoint) ''podlaz:privacy-envelope:bootstrap'') (np_bootstrap p) @
     map (\<lambda>mark. envelope_accept (''meta mark '' @ itoa (unat mark)) ''podlaz:privacy-envelope:xray-egress'') (np_marks p) @
     [envelope_accept dhcp4_expr ''podlaz:privacy-envelope:dhcp4'',
      envelope_accept dhcp6_expr ''podlaz:privacy-envelope:dhcp6'',
      envelope_accept neighbour_expr ''podlaz:privacy-envelope:ipv6-link-control'',
      envelope_reject]"

definition privacyEnvelopePlanFromAuthority :: "networkSessionProtection \<Rightarrow> envelope_error + PrivacyEnvelopePlan" where
  "privacyEnvelopePlanFromAuthority p =
     (case validateNetworkSessionProtection p of
        Some e \<Rightarrow> Inl (EnvelopeSession e)
      | None \<Rightarrow>
          if np_version p \<noteq> privacyEnvelopeCompositionVersion \<and> np_version p \<noteq> privacyEnvelopeMarkedCompositionVersion
          then Inl (EnvelopeSession (InvalidProtection ''composition'' []))
          else Inr \<lparr>pe_family = np_family p, pe_table = np_table p,
                    pe_chains = [\<lparr>fcp_name = ''output'', fcp_type = ''filter'', fcp_hook = ''output'', fcp_priority = - 10,
                                  fcp_policy = ''accept'', fcp_action = FirewallActionAdd,
                                  fcp_reason = privacyEnvelopeReason\<rparr>],
                    pe_rules = envelope_rules p, pe_reason = privacyEnvelopeReason\<rparr>)"

section \<open>Normalisation\<close>

definition normalizePrivacyEnvelopeEgressMarks :: "32 word list \<Rightarrow> envelope_error + 32 word list" where
  "normalizePrivacyEnvelopeEgressMarks raw =
     (if raw = [] then Inl NoMarks else if 0 \<in> set raw then Inl ZeroMark else Inr (sort (dedup raw)))"

definition normalize_endpoint :: "string \<Rightarrow> envelope_error + string" where
  "normalize_endpoint raw =
     (case parse_ip (trim_space raw) of Some (IP4 w) \<Rightarrow> Inr (ip4_text w) | _ \<Rightarrow> Inl EndpointNotIPv4)"

definition normalizePrivacyEnvelopeBootstrapIPv4 :: "string list \<Rightarrow> envelope_error + string list" where
  "normalizePrivacyEnvelopeBootstrapIPv4 raw =
     (if raw = [] then Inl NoEndpoint
      else rbind (map_result normalize_endpoint raw) (\<lambda>eps.
             if dedup eps = [] then Inl NoEndpoint else Inr (sort (dedup eps))))"

section \<open>Allocation\<close>

definition base_table :: "string \<Rightarrow> string" where
  "base_table session = ''podlaz_pe_'' @ take 12 session"

definition candidate_table :: "string \<Rightarrow> nat \<Rightarrow> string" where
  "candidate_table base i = (if i = 0 then base else base @ ''_'' @ itoa i)"

text \<open>The loop over the candidates: an observation that fails ends it with an error.\<close>

fun pick_table :: "(string \<Rightarrow> string \<Rightarrow> bool option) \<Rightarrow> string list \<Rightarrow> envelope_error + string" where
  "pick_table observe [] = Inl NoFreeEnvelopeTable"
| "pick_table observe (table # tables) =
     (case observe privacyEnvelopeFamily table of
        None \<Rightarrow> Inl (ObserveFailed table)
      | Some occupied \<Rightarrow> if occupied then pick_table observe tables else Inr table)"

definition candidates :: "string \<Rightarrow> string list" where
  "candidates session = map (candidate_table (base_table session)) [0..<privacyEnvelopeCandidateLimit]"

definition allocatePrivacyEnvelope ::
  "string \<Rightarrow> string \<Rightarrow> string list \<Rightarrow> (string \<Rightarrow> string \<Rightarrow> bool option) option \<Rightarrow>
   envelope_error + (networkSessionProtection \<times> PrivacyEnvelopePlan)" where
  "allocatePrivacyEnvelope session tun bootstrap observer =
     (if \<not> networkSessionIDPattern session then Inl InvalidIdentity
      else check_nil (map_option EnvelopeSession (validateNetworkSessionInterface tun))
       (rbind (normalizePrivacyEnvelopeBootstrapIPv4 bootstrap) (\<lambda>endpoints.
        case observer of
          None \<Rightarrow> Inl NoObserver
        | Some observe \<Rightarrow>
            rbind (pick_table observe (candidates session)) (\<lambda>table.
              let p = \<lparr>np_state = ProtectionArming, np_version = privacyEnvelopeCompositionVersion,
                       np_family = privacyEnvelopeFamily, np_table = table, np_interface = tun,
                       np_bootstrap = endpoints, np_previous_bootstrap = [], np_marks = [], np_previous_marks = []\<rparr>
              in rbind (privacyEnvelopePlanFromAuthority p) (\<lambda>plan. Inr (p, plan))))))"

definition allocateMarkedPrivacyEnvelope ::
  "string \<Rightarrow> string \<Rightarrow> 32 word \<Rightarrow> (string \<Rightarrow> string \<Rightarrow> bool option) option \<Rightarrow>
   envelope_error + (networkSessionProtection \<times> PrivacyEnvelopePlan)" where
  "allocateMarkedPrivacyEnvelope session tun mark observer =
     (if \<not> networkSessionIDPattern session then Inl InvalidIdentity
      else check_nil (map_option EnvelopeSession (validateNetworkSessionInterface tun))
       (if mark = 0 then Inl ZeroMark
        else case observer of
          None \<Rightarrow> Inl NoObserver
        | Some observe \<Rightarrow>
            rbind (pick_table observe (candidates session)) (\<lambda>table.
              let p = \<lparr>np_state = ProtectionArming, np_version = privacyEnvelopeMarkedCompositionVersion,
                       np_family = privacyEnvelopeFamily, np_table = table, np_interface = tun,
                       np_bootstrap = [], np_previous_bootstrap = [], np_marks = [mark], np_previous_marks = []\<rparr>
              in rbind (privacyEnvelopePlanFromAuthority p) (\<lambda>plan. Inr (p, plan)))))"

section \<open>Allocation is a bounded first fit\<close>

lemma pick_table_find:
  "pick_table (\<lambda>f t. Some (occ t)) ts = (case find (\<lambda>t. \<not> occ t) ts of None \<Rightarrow> Inl NoFreeEnvelopeTable | Some t \<Rightarrow> Inr t)"
  by (induction ts) auto

lemma pick_table_Inr:
  "pick_table observe ts = Inr t \<Longrightarrow> t \<in> set ts \<and> observe privacyEnvelopeFamily t = Some False"
  by (induction ts) (auto split: option.splits if_splits)

definition free_envelope :: "string \<Rightarrow> (string \<Rightarrow> bool) \<Rightarrow> string option" where
  "free_envelope session occ =
     (case pick_table (\<lambda>f t. Some (occ t)) (candidates session) of Inl e \<Rightarrow> None | Inr t \<Rightarrow> Some t)"

interpretation envelopes: first_fit "candidates session" "\<lambda>occ t. occ t" "free_envelope session" for session
  by unfold_locales (simp add: free_envelope_def pick_table_find split: option.splits)

section \<open>Candidates and endpoints are valid\<close>

lemma base_table_pattern:
  assumes "networkSessionIDPattern session"
  shows "take 10 (base_table session) = ''podlaz_pe_''" "drop 10 (base_table session) = take 12 session"
    "length (base_table session) = 22" "list_all lower_hex (take 12 session)"
  using assms by (auto simp: base_table_def networkSessionIDPattern_def list_all_iff dest: in_set_takeD)

lemma suffix_pattern: "0 < i \<Longrightarrow> i < 16 \<Longrightarrow> table_suffix (''_'' @ itoa i)"
proof -
  assume i: "0 < i" "i < 16"
  then have "length (itoa i) \<le> 3" by (intro length_itoa_256) simp
  moreover have "hd (itoa i) \<noteq> CHR ''0''"
    using itoa_leading_zero [of i] i(1) by (cases "itoa i") auto
  moreover have "1 \<le> length (itoa i)" using itoa_nonempty [of i] by (cases "itoa i") auto
  ultimately show ?thesis using itoa_digits [of i] by (simp add: table_suffix_def)
qed

lemma candidate_pattern:
  assumes "networkSessionIDPattern session" "t \<in> set (candidates session)"
  shows "privacyEnvelopeTablePattern t"
proof -
  note b = base_table_pattern [OF assms(1)]
  have len: "length (take 12 session) = 12" using assms(1) by (simp add: networkSessionIDPattern_def)
  from assms(2) obtain i where i: "i < 16" "t = candidate_table (base_table session) i"
    by (auto simp: candidates_def privacyEnvelopeCandidateLimit_def)
  show ?thesis
  proof (cases "i = 0")
    case True
    with i b len show ?thesis by (simp add: privacyEnvelopeTablePattern_def candidate_table_def table_suffix_def)
  next
    case False
    then show ?thesis using i b len suffix_pattern [of i]
      by (simp add: privacyEnvelopeTablePattern_def candidate_table_def)
  qed
qed

lemma normalize_endpoint_Inr: "normalize_endpoint raw = Inr e \<Longrightarrow> \<exists>w. e = ip4_text w"
  by (auto simp: normalize_endpoint_def split: option.splits addr.splits)

lemma check_bootstrap_ok:
  "\<forall>e\<in>set es. \<exists>w. e = ip4_text w \<Longrightarrow> distinct es \<Longrightarrow> set es \<inter> set seen = {} \<Longrightarrow> check_bootstrap l seen es = None"
  by (induction es arbitrary: seen) (auto simp: parse_ip_ip4_text)

lemma normalize_bootstrap_Inr:
  assumes "normalizePrivacyEnvelopeBootstrapIPv4 raw = Inr es"
  shows "es \<noteq> []" "distinct es" "sorted es" "\<forall>e\<in>set es. \<exists>w. e = ip4_text w"
    "set es = {e. \<exists>r\<in>set raw. normalize_endpoint r = Inr e}"
proof -
  from assms obtain eps where m: "map_result normalize_endpoint raw = Inr eps" and es: "es = sort (dedup eps)"
    and ne: "dedup eps \<noteq> []"
    by (auto simp: normalizePrivacyEnvelopeBootstrapIPv4_def rbind_Inr_iff split: if_splits)
  from ne have "set es \<noteq> {}" unfolding es set_sort by (auto simp: dedup_def)
  then show "es \<noteq> []" by auto
  show "distinct es" "sorted es" by (simp_all add: es)
  from m have a: "list_all2 (\<lambda>r e. normalize_endpoint r = Inr e) raw eps" by (simp add: map_result_Inr)
  have set_eps: "set eps = {e. \<exists>r\<in>set raw. normalize_endpoint r = Inr e}"
    using a by (induction rule: list_all2_induct) auto
  with es show "set es = {e. \<exists>r\<in>set raw. normalize_endpoint r = Inr e}" by simp
  with normalize_endpoint_Inr show "\<forall>e\<in>set es. \<exists>w. e = ip4_text w" by blast
qed

lemma bootstrap_valid:
  "normalizePrivacyEnvelopeBootstrapIPv4 raw = Inr es \<Longrightarrow> validateBootstrapIPv4 es l = None"
  using normalize_bootstrap_Inr [of raw es] by (simp add: validateBootstrapIPv4_def check_bootstrap_ok)

section \<open>What the envelope lets out\<close>

text \<open>A packet as the rules of the envelope see it: its outbound part, and whether it is one of the three kinds of
  link control that the fixed expressions name.  The rule without an expression matches every packet.\<close>

record envelope_packet =
  ek_out :: outbound
  ek_dhcp4 :: bool
  ek_dhcp6 :: bool
  ek_neighbour :: bool

definition envelope_matches :: "string \<Rightarrow> envelope_packet \<Rightarrow> bool" where
  "envelope_matches e k \<longleftrightarrow>
     e = [] \<or>
     (if e = dhcp4_expr then ek_dhcp4 k
      else if e = dhcp6_expr then ek_dhcp6 k
      else if e = neighbour_expr then ek_neighbour k
      else expr_matches e (ek_out k))"

definition envelope_verdict :: "TunFirewallRulePlan list \<Rightarrow> envelope_packet \<Rightarrow> string" where
  "envelope_verdict rules k =
     (case find (\<lambda>r. envelope_matches (frp_expr r) k) rules of
        None \<Rightarrow> FirewallVerdictAccept
      | Some r \<Rightarrow> frp_verdict r)"

definition envelope_allows :: "networkSessionProtection \<Rightarrow> envelope_packet \<Rightarrow> bool" where
  "envelope_allows p k \<longleftrightarrow>
     ob_interface (ek_out k) = ''lo'' \<or> ob_interface (ek_out k) = np_interface p \<or>
     ip_text (ob_daddr (ek_out k)) \<in> set (np_bootstrap p) \<or> ob_mark (ek_out k) \<in> set (np_marks p) \<or>
     ek_dhcp4 k \<or> ek_dhcp6 k \<or> ek_neighbour k"

lemma mark_expr_distinct:
  "''meta mark '' @ s \<noteq> dhcp4_expr" "''meta mark '' @ s \<noteq> dhcp6_expr" "''meta mark '' @ s \<noteq> neighbour_expr"
  "''ip daddr '' @ s \<noteq> dhcp4_expr" "''ip daddr '' @ s \<noteq> dhcp6_expr" "''ip daddr '' @ s \<noteq> neighbour_expr"
  "''oifname '' @ s \<noteq> dhcp4_expr" "''oifname '' @ s \<noteq> dhcp6_expr" "''oifname '' @ s \<noteq> neighbour_expr"
  by (simp_all add: dhcp4_expr_def dhcp6_expr_def neighbour_expr_def)

lemma fixed_exprs: "dhcp4_expr \<noteq> []" "dhcp6_expr \<noteq> []" "neighbour_expr \<noteq> []"
  "dhcp6_expr \<noteq> dhcp4_expr" "neighbour_expr \<noteq> dhcp4_expr" "neighbour_expr \<noteq> dhcp6_expr"
  by (simp_all add: dhcp4_expr_def dhcp6_expr_def neighbour_expr_def)

lemma envelope_matches_rules:
  "envelope_matches (''oifname '' @ quoted n) k \<longleftrightarrow> n = ob_interface (ek_out k)"
  "envelope_matches (''ip daddr '' @ ip) k \<longleftrightarrow> ip = ip_text (ob_daddr (ek_out k))"
  "envelope_matches (''meta mark '' @ itoa (unat m)) k \<longleftrightarrow> m = ob_mark (ek_out k)"
  "envelope_matches dhcp4_expr k \<longleftrightarrow> ek_dhcp4 k"
  "envelope_matches dhcp6_expr k \<longleftrightarrow> ek_dhcp6 k"
  "envelope_matches neighbour_expr k \<longleftrightarrow> ek_neighbour k"
  "envelope_matches [] k"
proof -
  have ne: "c # cs @ t \<noteq> []" for c :: char and cs t by simp
  show "envelope_matches (''oifname '' @ quoted n) k \<longleftrightarrow> n = ob_interface (ek_out k)"
    using expr_matches_rules(1) [of n "ek_out k"] mark_expr_distinct by (simp add: envelope_matches_def)
  show "envelope_matches (''ip daddr '' @ ip) k \<longleftrightarrow> ip = ip_text (ob_daddr (ek_out k))"
    using expr_matches_rules(3) [of ip "ek_out k"] mark_expr_distinct by (simp add: envelope_matches_def)
  show "envelope_matches (''meta mark '' @ itoa (unat m)) k \<longleftrightarrow> m = ob_mark (ek_out k)"
    using expr_matches_rules(4) [of m "ek_out k"] mark_expr_distinct by (simp add: envelope_matches_def)
qed (use fixed_exprs in \<open>auto simp: envelope_matches_def\<close>)

lemma find_accepts:
  "(\<forall>r\<in>set rs. frp_verdict r = FirewallVerdictAccept) \<Longrightarrow>
   envelope_verdict (rs @ [envelope_reject]) k =
     (if \<exists>r\<in>set rs. envelope_matches (frp_expr r) k then FirewallVerdictAccept else FirewallVerdictReject)"
proof (induction rs)
  case Nil
  then show ?case by (simp add: envelope_verdict_def envelope_reject_def envelope_matches_rules)
next
  case (Cons r rs)
  then show ?case by (auto simp: envelope_verdict_def)
qed

lemma envelope_rules_verdict:
  "envelope_verdict (envelope_rules p) k = (if envelope_allows p k then FirewallVerdictAccept else FirewallVerdictReject)"
proof -
  let ?rs = "butlast (envelope_rules p)"
  have rs: "envelope_rules p = ?rs @ [envelope_reject]" by (simp add: envelope_rules_def butlast_append)
  have acc: "\<forall>r\<in>set ?rs. frp_verdict r = FirewallVerdictAccept"
    by (auto simp: envelope_rules_def envelope_accept_def butlast_append)
  have "(\<exists>r\<in>set ?rs. envelope_matches (frp_expr r) k) \<longleftrightarrow> envelope_allows p k"
    by (simp add: envelope_rules_def envelope_accept_def butlast_append envelope_matches_rules envelope_allows_def
        bex_Un del: append.simps) auto
  with find_accepts [OF acc, of k] rs show ?thesis by simp
qed

lemma interface_and_table_valid:
  assumes "validateNetworkSessionInterface tun = None" "networkSessionIDPattern session" "t \<in> set (candidates session)"
  shows "validateNetworkSessionProtection
     \<lparr>np_state = ProtectionArming, np_version = privacyEnvelopeMarkedCompositionVersion, np_family = privacyEnvelopeFamily,
      np_table = t, np_interface = tun, np_bootstrap = [], np_previous_bootstrap = [], np_marks = [m], np_previous_marks = []\<rparr> = None
    \<longleftrightarrow> m \<noteq> 0"
    and "validateBootstrapIPv4 es ''bootstrap'' = None \<Longrightarrow> validateNetworkSessionProtection
     \<lparr>np_state = ProtectionArming, np_version = privacyEnvelopeCompositionVersion, np_family = privacyEnvelopeFamily,
      np_table = t, np_interface = tun, np_bootstrap = es, np_previous_bootstrap = [], np_marks = [], np_previous_marks = []\<rparr> = None"
  using assms candidate_pattern [OF assms(2,3)]
  by (simp_all add: validateNetworkSessionProtection_def privacyEnvelopeFamily_def composition_error_def
      privacyEnvelopeCompositionVersion_def privacyEnvelopeMarkedCompositionVersion_def validateEgressMarks_def
      previous_bootstrap_error_def previous_marks_error_def)

lemma planned:
  assumes "validateNetworkSessionProtection p = None"
  shows "\<exists>plan. privacyEnvelopePlanFromAuthority p = Inr plan \<and> pe_rules plan = envelope_rules p \<and>
     pe_table plan = np_table p \<and> pe_family plan = np_family p"
proof -
  have "np_version p = privacyEnvelopeCompositionVersion \<or> np_version p = privacyEnvelopeMarkedCompositionVersion"
    using assms by (auto simp: validateNetworkSessionProtection_def first_error_None_iff composition_error_def split: if_splits)
  with assms show ?thesis by (auto simp: privacyEnvelopePlanFromAuthority_def)
qed

lemma planned_eq: "privacyEnvelopePlanFromAuthority p = Inr plan \<Longrightarrow> pe_rules plan = envelope_rules p \<and> pe_table plan = np_table p"
  by (auto simp: privacyEnvelopePlanFromAuthority_def split: option.splits if_splits)

section \<open>Properties\<close>

text \<open>C14: The plan of every valid protection record is fail-closed: a packet is let out only on the loopback device,
  through the TUN device, to a recorded bootstrap endpoint, with a recorded egress mark, or as one of the
  three kinds of link control; everything else is rejected.  A record that does not validate has no plan.\<close>

theorem envelope_fail_closed:
  "(case privacyEnvelopePlanFromAuthority p of
      Inl e \<Rightarrow> validateNetworkSessionProtection p \<noteq> None
    | Inr plan \<Rightarrow>
        validateNetworkSessionProtection p = None \<and> pe_table plan = np_table p \<and>
        envelope_verdict (pe_rules plan) k = (if envelope_allows p k then FirewallVerdictAccept else FirewallVerdictReject))"
proof (cases "validateNetworkSessionProtection p")
  case None
  from planned [OF None] show ?thesis using None by (auto simp: envelope_rules_verdict)
next
  case (Some e)
  then show ?thesis by (simp add: privacyEnvelopePlanFromAuthority_def)
qed

text \<open>The allocation of an envelope never reuses a table: the table it returns was observed to be absent and its
  name carries the session identity; the record it returns validates, so it can be persisted before the
  table is created, and it is allocated exactly when one of the sixteen candidates is observed as absent
  before an observation fails.\<close>

theorem envelope_allocation_exact:
  assumes "networkSessionIDPattern session" and "validateNetworkSessionInterface tun = None"
    and "normalizePrivacyEnvelopeBootstrapIPv4 bootstrap = Inr endpoints"
  shows "(case allocatePrivacyEnvelope session tun bootstrap (Some observe) of
      Inl e \<Rightarrow> pick_table observe (candidates session) = Inl e
    | Inr (p, plan) \<Rightarrow>
        pick_table observe (candidates session) = Inr (np_table p) \<and>
        observe ''inet'' (np_table p) = Some False \<and> take 22 (np_table p) = ''podlaz_pe_'' @ take 12 session \<and>
        validateNetworkSessionProtection p = None \<and> np_state p = ProtectionArming \<and> np_bootstrap p = endpoints \<and>
        privacyEnvelopePlanFromAuthority p = Inr plan)"
proof (cases "pick_table observe (candidates session)")
  case (Inl e)
  with assms show ?thesis by (simp add: allocatePrivacyEnvelope_def)
next
  case (Inr t)
  note pick = pick_table_Inr [OF Inr]
  let ?p = "\<lparr>np_state = ProtectionArming, np_version = privacyEnvelopeCompositionVersion, np_family = privacyEnvelopeFamily,
      np_table = t, np_interface = tun, np_bootstrap = endpoints, np_previous_bootstrap = [], np_marks = [], np_previous_marks = []\<rparr>"
  have v: "validateNetworkSessionProtection ?p = None"
    using interface_and_table_valid(2) [OF assms(2,1)] pick bootstrap_valid [OF assms(3)] by blast
  then obtain plan where plan: "privacyEnvelopePlanFromAuthority ?p = Inr plan" using planned by blast
  have "take 22 t = ''podlaz_pe_'' @ take 12 session"
  proof -
    from pick obtain i where "t = candidate_table (base_table session) i" by (auto simp: candidates_def)
    then have "take 22 t = base_table session"
      using base_table_pattern(3) [OF assms(1)] by (simp add: candidate_table_def)
    then show ?thesis by (simp only: base_table_def)
  qed
  with assms Inr v plan pick show ?thesis by (simp add: allocatePrivacyEnvelope_def Let_def privacyEnvelopeFamily_def)
qed

definition demo_session :: string where
  "demo_session = ''0123456789abcdef0123456789abcdef''"

lemma demo_session_valid: "networkSessionIDPattern demo_session"
  by (simp add: demo_session_def networkSessionIDPattern_def lower_hex_def is_digit_def)

lemma podlaz0_valid: "validateNetworkSessionInterface ''podlaz0'' = None"
  by (simp add: validateNetworkSessionInterface_def interface_char_def alnum_def id_letter_def)

lemma demo_endpoints: "normalizePrivacyEnvelopeBootstrapIPv4 [ip4_text 0x05060708] = Inr [ip4_text 0x05060708]"
  by (simp add: normalizePrivacyEnvelopeBootstrapIPv4_def normalize_endpoint_def parse_ip_ip4_text dedup_def)

theorem envelope_allocation_exact_witness:
  "\<exists>p plan. allocatePrivacyEnvelope demo_session ''podlaz0'' [ip4_text 0x05060708]
       (Some (\<lambda>f t. Some (t = ''podlaz_pe_0123456789ab''))) = Inr (p, plan) \<and>
     np_table p = ''podlaz_pe_0123456789ab_1'' \<and> validateNetworkSessionProtection p = None"
proof -
  let ?obs = "\<lambda>f t. Some (t = ''podlaz_pe_0123456789ab'')"
  have pick: "pick_table ?obs (candidates demo_session) = Inr ''podlaz_pe_0123456789ab_1''"
    by (simp add: candidates_def privacyEnvelopeCandidateLimit_def upt_conv_Cons candidate_table_def base_table_def
        demo_session_def itoa_eval)
  have x: "case allocatePrivacyEnvelope demo_session ''podlaz0'' [ip4_text 0x05060708] (Some ?obs) of
      Inl e \<Rightarrow> pick_table ?obs (candidates demo_session) = Inl e
    | Inr (p, plan) \<Rightarrow>
        pick_table ?obs (candidates demo_session) = Inr (np_table p) \<and>
        ?obs ''inet'' (np_table p) = Some False \<and> take 22 (np_table p) = ''podlaz_pe_'' @ take 12 demo_session \<and>
        validateNetworkSessionProtection p = None \<and> np_state p = ProtectionArming \<and>
        np_bootstrap p = [ip4_text 0x05060708] \<and> privacyEnvelopePlanFromAuthority p = Inr plan"
    by (rule envelope_allocation_exact [OF demo_session_valid podlaz0_valid demo_endpoints])
  show ?thesis
  proof (cases "allocatePrivacyEnvelope demo_session ''podlaz0'' [ip4_text 0x05060708] (Some ?obs)")
    case (Inl e)
    with x pick show ?thesis by simp
  next
    case (Inr q)
    with x pick show ?thesis by (cases q) simp
  qed
qed

text \<open>Widening an envelope for a replacement lets out everything that the old composition let out and
  everything the target composition lets out: the normalised union of the endpoints holds both.\<close>

theorem envelope_union_widens:
  assumes "\<forall>e\<in>set old. \<exists>w. e = ip4_text w" and "\<forall>e\<in>set target. \<exists>w. e = ip4_text w" and "old \<noteq> []"
  shows "\<exists>es. normalizePrivacyEnvelopeBootstrapIPv4 (old @ target) = Inr es \<and> set es = set old \<union> set target \<and>
     (\<forall>p k. np_bootstrap p = old \<and> envelope_allows p k \<longrightarrow> envelope_allows (p\<lparr>np_bootstrap := es\<rparr>) k) \<and>
     (\<forall>p k. np_bootstrap p = target \<and> envelope_allows p k \<longrightarrow> envelope_allows (p\<lparr>np_bootstrap := es\<rparr>) k)"
proof -
  have n: "normalize_endpoint e = Inr e" if "e \<in> set (old @ target)" for e
    using that assms(1,2) by (auto simp: normalize_endpoint_def parse_ip_ip4_text)
  then have "map_result normalize_endpoint (old @ target) = Inr (old @ target)"
    unfolding map_result_Inr by (simp add: list_all2_same)
  moreover have "dedup (old @ target) \<noteq> []" using assms(3) set_dedup [of "old @ target"] by force
  ultimately have r: "normalizePrivacyEnvelopeBootstrapIPv4 (old @ target) = Inr (sort (dedup (old @ target)))"
    using assms(3) by (simp add: normalizePrivacyEnvelopeBootstrapIPv4_def)
  have s: "set (sort (dedup (old @ target))) = set old \<union> set target" by simp
  show ?thesis
    by (intro exI [of _ "sort (dedup (old @ target))"] conjI r s) (auto simp: envelope_allows_def)
qed

lemma single_endpoint: "\<forall>x\<in>set [ip4_text v]. \<exists>w. x = ip4_text w"
  by auto

theorem envelope_union_widens_witness:
  "\<exists>es. normalizePrivacyEnvelopeBootstrapIPv4 ([ip4_text 0x05060708] @ [ip4_text 0x01020304]) = Inr es \<and>
     set es = {ip4_text 0x05060708, ip4_text 0x01020304}"
proof -
  have "set [ip4_text 0x05060708] \<union> set [ip4_text 0x01020304] = {ip4_text 0x05060708, ip4_text 0x01020304}" by auto
  with envelope_union_widens [OF single_endpoint [of "0x05060708"] single_endpoint [of "0x01020304"]] show ?thesis by auto
qed

end
