(* ===== verification/Nft_State.thy ===== *)
theory Nft_State
  imports Privacy_Envelope "HOL-Library.AList"
begin

text \<open>
  The structured observation of a firewall table, \<^verbatim>\<open>src/internal/network/executor/nftables_state.go\<close> and
  \<^verbatim>\<open>nftables_presence.go\<close>: the strict decoding of \<^verbatim>\<open>nft -j list\<close> documents into a snapshot, the canonical
  statements of observed and planned rules, and the exact comparison of a snapshot with a plan.

  A document is the JSON value of the output, numbers being kept as their text; an output that is not one JSON
  value is \<open>None\<close>.
\<close>

section \<open>Decoding JSON values into Go data\<close>

type_synonym 'a decoded = "string + 'a"

text \<open>A struct is filled member by member: a member is stored in the field whose name it equals up to case, a member
  without a field is refused when unknown fields are disallowed, and \<^verbatim>\<open>null\<close> leaves the struct as it is.\<close>

type_synonym 'r field = "string \<times> (json \<Rightarrow> 'r \<Rightarrow> 'r decoded)"

fun decode_members :: "bool \<Rightarrow> 'r field list \<Rightarrow> (string \<times> json) list \<Rightarrow> 'r \<Rightarrow> 'r decoded" where
  "decode_members strict fs [] r = Inr r"
| "decode_members strict fs ((k, v) # ms) r =
     (case map_of fs (fold_text k) of
        None \<Rightarrow> if strict then Inl ''unknown field'' else decode_members strict fs ms r
      | Some set_field \<Rightarrow> rbind (set_field v r) (decode_members strict fs ms))"

definition decode_struct :: "bool \<Rightarrow> 'r field list \<Rightarrow> 'r \<Rightarrow> json \<Rightarrow> 'r decoded" where
  "decode_struct strict fs zero j =
     (case j of JNull \<Rightarrow> Inr zero | JObj ms \<Rightarrow> decode_members strict fs ms zero | _ \<Rightarrow> Inl ''not an object'')"

definition decodeStrictNftJSON :: "'r field list \<Rightarrow> 'r \<Rightarrow> json \<Rightarrow> 'r decoded" where
  "decodeStrictNftJSON = decode_struct True"

definition as_string :: "(string \<Rightarrow> 'r \<Rightarrow> 'r) \<Rightarrow> json \<Rightarrow> 'r \<Rightarrow> 'r decoded" where
  "as_string upd v r = (case v of JStr s \<Rightarrow> Inr (upd s r) | JNull \<Rightarrow> Inr r | _ \<Rightarrow> Inl ''not a string'')"

definition as_number :: "(string \<Rightarrow> 'r \<Rightarrow> 'r) \<Rightarrow> json \<Rightarrow> 'r \<Rightarrow> 'r decoded" where
  "as_number upd v r =
     (case v of
        JNum s \<Rightarrow> Inr (upd s r)
      | JStr s \<Rightarrow> if json_number_rest s = Some [] then Inr (upd s r) else Inl ''not a number''
      | JNull \<Rightarrow> Inr r
      | _ \<Rightarrow> Inl ''not a number'')"

definition as_uint64 :: "(nat \<Rightarrow> 'r \<Rightarrow> 'r) \<Rightarrow> json \<Rightarrow> 'r \<Rightarrow> 'r decoded" where
  "as_uint64 upd v r =
     (case v of
        JNum s \<Rightarrow> (case parse_uint10 64 s of None \<Rightarrow> Inl ''not a uint64'' | Some n \<Rightarrow> Inr (upd n r))
      | JNull \<Rightarrow> Inr r
      | _ \<Rightarrow> Inl ''not a uint64'')"

definition as_int :: "(int \<Rightarrow> 'r \<Rightarrow> 'r) \<Rightarrow> json \<Rightarrow> 'r \<Rightarrow> 'r decoded" where
  "as_int upd v r =
     (case v of
        JNum s \<Rightarrow> (case atoi s of None \<Rightarrow> Inl ''not an int'' | Some n \<Rightarrow> Inr (upd n r))
      | JNull \<Rightarrow> Inr r
      | _ \<Rightarrow> Inl ''not an int'')"

fun string_items :: "json list \<Rightarrow> string list decoded" where
  "string_items [] = Inr []"
| "string_items (v # vs) =
     rbind (as_string (\<lambda>s t. s) v []) (\<lambda>s. rbind (string_items vs) (\<lambda>ss. Inr (s # ss)))"

definition as_strings :: "(string list \<Rightarrow> 'r \<Rightarrow> 'r) \<Rightarrow> json \<Rightarrow> 'r \<Rightarrow> 'r decoded" where
  "as_strings upd v r =
     (case v of
        JArr vs \<Rightarrow> rbind (string_items vs) (\<lambda>ss. Inr (upd ss r))
      | JNull \<Rightarrow> Inr (upd [] r)
      | _ \<Rightarrow> Inl ''not an array'')"

definition as_raw_list :: "(json list \<Rightarrow> 'r \<Rightarrow> 'r) \<Rightarrow> json \<Rightarrow> 'r \<Rightarrow> 'r decoded" where
  "as_raw_list upd v r =
     (case v of JArr vs \<Rightarrow> Inr (upd vs r) | JNull \<Rightarrow> Inr (upd [] r) | _ \<Rightarrow> Inl ''not an array'')"

definition as_raw :: "(json \<Rightarrow> 'r \<Rightarrow> 'r) \<Rightarrow> json \<Rightarrow> 'r \<Rightarrow> 'r decoded" where
  "as_raw upd v r = Inr (upd v r)"

text \<open>A map from names to raw values that has exactly one key; a repeated key keeps its last value.\<close>

definition single_member :: "json \<Rightarrow> (string \<times> json) decoded" where
  "single_member j =
     (case j of
        JNull \<Rightarrow> Inl ''members''
      | JObj ms \<Rightarrow> if ms \<noteq> [] \<and> list_all (\<lambda>m. fst m = fst (hd ms)) ms then Inr (List.last ms) else Inl ''members''
      | _ \<Rightarrow> Inl ''not an object'')"

section \<open>Snapshots and documents\<close>

record nftChainSnapshot =
  nc_name :: string
  nc_type :: string
  nc_hook :: string
  nc_prio :: int
  nc_policy :: string
  nc_device :: string
  nc_rules :: "string list list"

record nftTableSnapshot =
  nt_family :: string
  nt_name :: string
  nt_flags :: "string list"
  nt_handle :: nat
  nt_chains :: "(string \<times> nftChainSnapshot) list"

record nftJSONMetaInfo =
  jm_version :: string
  jm_release :: string
  jm_schema :: int

record nftJSONTable =
  jt_family :: string
  jt_name :: string
  jt_handle :: nat
  jt_flags :: "string list"

record nftJSONChain =
  jc_family :: string
  jc_table :: string
  jc_name :: string
  jc_handle :: nat
  jc_type :: string
  jc_hook :: string
  jc_prio :: string
  jc_policy :: string
  jc_device :: string

record nftJSONRule =
  jr_family :: string
  jr_table :: string
  jr_chain :: string
  jr_expr :: "json list"
  jr_handle :: nat
  jr_index :: nat
  jr_comment :: string

definition supportedNftJSONSchemaVersion :: int where "supportedNftJSONSchemaVersion = 1"

definition decode_document :: "json option \<Rightarrow> json list decoded" where
  "decode_document out =
     (case out of
        None \<Rightarrow> Inl ''invalid JSON''
      | Some j \<Rightarrow> decodeStrictNftJSON [(''nftables'', as_raw_list (\<lambda>vs r. vs))] [] j)"

definition decode_metainfo :: "json \<Rightarrow> nftJSONMetaInfo decoded" where
  "decode_metainfo =
     decodeStrictNftJSON
       [(''version'', as_string (\<lambda>s r. r\<lparr>jm_version := s\<rparr>)),
        (''release_name'', as_string (\<lambda>s r. r\<lparr>jm_release := s\<rparr>)),
        (''json_schema_version'', as_int (\<lambda>n r. r\<lparr>jm_schema := n\<rparr>))]
       \<lparr>jm_version = [], jm_release = [], jm_schema = 0\<rparr>"

definition decode_table :: "json \<Rightarrow> nftJSONTable decoded" where
  "decode_table =
     decodeStrictNftJSON
       [(''family'', as_string (\<lambda>s r. r\<lparr>jt_family := s\<rparr>)), (''name'', as_string (\<lambda>s r. r\<lparr>jt_name := s\<rparr>)),
        (''handle'', as_uint64 (\<lambda>n r. r\<lparr>jt_handle := n\<rparr>)), (''flags'', as_strings (\<lambda>ss r. r\<lparr>jt_flags := ss\<rparr>))]
       \<lparr>jt_family = [], jt_name = [], jt_handle = 0, jt_flags = []\<rparr>"

definition decode_chain :: "json \<Rightarrow> nftJSONChain decoded" where
  "decode_chain =
     decodeStrictNftJSON
       [(''family'', as_string (\<lambda>s r. r\<lparr>jc_family := s\<rparr>)), (''table'', as_string (\<lambda>s r. r\<lparr>jc_table := s\<rparr>)),
        (''name'', as_string (\<lambda>s r. r\<lparr>jc_name := s\<rparr>)), (''handle'', as_uint64 (\<lambda>n r. r\<lparr>jc_handle := n\<rparr>)),
        (''type'', as_string (\<lambda>s r. r\<lparr>jc_type := s\<rparr>)), (''hook'', as_string (\<lambda>s r. r\<lparr>jc_hook := s\<rparr>)),
        (''prio'', as_number (\<lambda>s r. r\<lparr>jc_prio := s\<rparr>)), (''policy'', as_string (\<lambda>s r. r\<lparr>jc_policy := s\<rparr>)),
        (''dev'', as_string (\<lambda>s r. r\<lparr>jc_device := s\<rparr>))]
       \<lparr>jc_family = [], jc_table = [], jc_name = [], jc_handle = 0, jc_type = [], jc_hook = [], jc_prio = [],
        jc_policy = [], jc_device = []\<rparr>"

definition decode_rule :: "json \<Rightarrow> nftJSONRule decoded" where
  "decode_rule =
     decodeStrictNftJSON
       [(''family'', as_string (\<lambda>s r. r\<lparr>jr_family := s\<rparr>)), (''table'', as_string (\<lambda>s r. r\<lparr>jr_table := s\<rparr>)),
        (''chain'', as_string (\<lambda>s r. r\<lparr>jr_chain := s\<rparr>)), (''expr'', as_raw_list (\<lambda>vs r. r\<lparr>jr_expr := vs\<rparr>)),
        (''handle'', as_uint64 (\<lambda>n r. r\<lparr>jr_handle := n\<rparr>)), (''index'', as_uint64 (\<lambda>n r. r\<lparr>jr_index := n\<rparr>)),
        (''comment'', as_string (\<lambda>s r. r\<lparr>jr_comment := s\<rparr>))]
       \<lparr>jr_family = [], jr_table = [], jr_chain = [], jr_expr = [], jr_handle = 0, jr_index = 0, jr_comment = []\<rparr>"

section \<open>Canonical scalars and statements\<close>

definition canonicalICMPv6Type :: "string \<Rightarrow> string decoded" where
  "canonicalICMPv6Type value =
     (let v = trim_space value in
      if v = ''nd-router-solicit'' \<or> v = ''133'' then Inr ''133''
      else if v = ''nd-router-advert'' \<or> v = ''134'' then Inr ''134''
      else if v = ''nd-neighbor-solicit'' \<or> v = ''135'' then Inr ''135''
      else if v = ''nd-neighbor-advert'' \<or> v = ''136'' then Inr ''136''
      else Inl ''ICMPv6 type'')"

definition canonicalNftScalar :: "string \<Rightarrow> string \<Rightarrow> string decoded" where
  "canonicalNftScalar left raw =
     (let value = trim_space raw in
      if left = ''meta:oifname:'' then (if value = [] then Inl ''empty interface'' else Inr value)
      else if left = ''meta:nfproto:'' then
        (if value = ''ipv4'' \<or> value = ''2'' then Inr ''ipv4''
         else if value = ''ipv6'' \<or> value = ''10'' then Inr ''ipv6'' else Inl ''nfproto'')
      else if left = ''meta:mark:'' then
        (case parse_uint0 32 value of None \<Rightarrow> Inl ''mark'' | Some n \<Rightarrow> Inr (itoa n))
      else if left = ''meta:l4proto:'' then
        (if value = ''udp'' \<or> value = ''17'' then Inr ''udp''
         else if value = ''icmpv6'' \<or> value = ''ipv6-icmp'' \<or> value = ''58'' then Inr ''icmpv6'' else Inl ''l4proto'')
      else if left = ''payload:ip:daddr:'' then
        (case parse_ip value of Some (IP4 w) \<Rightarrow> Inr (ip4_text w) | _ \<Rightarrow> Inl ''IPv4 destination'')
      else if left = ''payload:udp:sport:'' \<or> left = ''payload:udp:dport:'' then
        (case parse_uint10 16 value of None \<Rightarrow> Inl ''UDP port'' | Some n \<Rightarrow> Inr (itoa n))
      else if left = ''payload:icmpv6:type:'' then canonicalICMPv6Type value
      else Inl ''match identity'')"

definition canonicalRawScalar :: "json \<Rightarrow> string decoded" where
  "canonicalRawScalar raw = (case raw of JStr s \<Rightarrow> Inr s | JNum s \<Rightarrow> Inr s | _ \<Rightarrow> Inl ''scalar type'')"

definition canonicalNftJSONScalar :: "string \<Rightarrow> json \<Rightarrow> string decoded" where
  "canonicalNftJSONScalar left raw = rbind (canonicalRawScalar raw) (canonicalNftScalar left)"

fun scalar_items :: "string \<Rightarrow> json list \<Rightarrow> string list decoded" where
  "scalar_items left [] = Inr []"
| "scalar_items left (v # vs) =
     rbind (canonicalNftJSONScalar left v) (\<lambda>s. rbind (scalar_items left vs) (\<lambda>ss. Inr (s # ss)))"

definition canonicalNftJSONRight :: "string \<Rightarrow> json option \<Rightarrow> string decoded" where
  "canonicalNftJSONRight left raw =
     (case raw of
        None \<Rightarrow> Inl ''missing right''
      | Some (JObj ms) \<Rightarrow>
          rbind (decodeStrictNftJSON [(''set'', as_raw_list (\<lambda>vs r. vs))] [] (JObj ms)) (\<lambda>items.
            if items = [] then Inl ''empty set''
            else rbind (scalar_items left items) (\<lambda>vs. Inr (''{'' @ join '','' (sort vs) @ ''}'')))
      | Some j \<Rightarrow> canonicalNftJSONScalar left j)"

definition canonicalNftJSONLeft :: "json option \<Rightarrow> string decoded" where
  "canonicalNftJSONLeft raw =
     (case raw of
        None \<Rightarrow> Inl ''missing left''
      | Some j \<Rightarrow>
          rbind (single_member j) (\<lambda>(kind, body).
            if kind = ''meta'' then
              rbind (decodeStrictNftJSON [(''key'', as_string (\<lambda>s r. s))] [] body) (\<lambda>key.
                if key \<in> {''oifname'', ''nfproto'', ''l4proto'', ''mark''} then Inr (''meta:'' @ key @ '':'')
                else Inl ''meta key'')
            else if kind = ''payload'' then
              rbind (decodeStrictNftJSON
                       [(''protocol'', as_string (\<lambda>s r. (s, snd r))), (''field'', as_string (\<lambda>s r. (fst r, s)))] ([], []) body)
                (\<lambda>(protocol, fld).
                  if protocol @ '':'' @ fld \<in> {''ip:daddr'', ''udp:sport'', ''udp:dport'', ''icmpv6:type''}
                  then Inr (''payload:'' @ protocol @ '':'' @ fld @ '':'')
                  else Inl ''payload'')
            else Inl ''match left''))"

record nft_match =
  mx_op :: string
  mx_left :: "json option"
  mx_right :: "json option"

definition canonicalObservedNftJSONMatch :: "json \<Rightarrow> string decoded" where
  "canonicalObservedNftJSONMatch raw =
     rbind (decodeStrictNftJSON
              [(''op'', as_string (\<lambda>s r. r\<lparr>mx_op := s\<rparr>)), (''left'', as_raw (\<lambda>v r. r\<lparr>mx_left := Some v\<rparr>)),
               (''right'', as_raw (\<lambda>v r. r\<lparr>mx_right := Some v\<rparr>))]
              \<lparr>mx_op = [], mx_left = None, mx_right = None\<rparr> raw) (\<lambda>mx.
       if mx_op mx \<noteq> ''=='' \<and> mx_op mx \<noteq> ''!='' then Inl ''match operator''
       else rbind (canonicalNftJSONLeft (mx_left mx)) (\<lambda>left.
            rbind (canonicalNftJSONRight left (mx_right mx)) (\<lambda>right.
              Inr (''match='' @ left @ mx_op mx @ right))))"

definition canonicalObservedNftJSONCounter :: "json \<Rightarrow> string decoded" where
  "canonicalObservedNftJSONCounter raw =
     rbind (decodeStrictNftJSON
              [(''packets'', as_number (\<lambda>s r. (s, snd r))), (''bytes'', as_number (\<lambda>s r. (fst r, s)))] ([], []) raw)
       (\<lambda>(packets, octs).
         if packets = [] \<or> octs = [] then Inl ''counter lacks values''
         else if parse_uint10 64 packets = None then Inl ''counter packets''
         else if parse_uint10 64 octs = None then Inl ''counter bytes''
         else Inr ''counter'')"

definition jsonValueIsNull :: "json \<Rightarrow> bool" where
  "jsonValueIsNull raw = (raw = JNull)"

definition canonicalObservedNftJSONReject :: "json \<Rightarrow> string decoded" where
  "canonicalObservedNftJSONReject raw =
     (if jsonValueIsNull raw then Inr ''reject''
      else
        rbind (decodeStrictNftJSON
                 [(''type'', as_string (\<lambda>s r. (s, snd r))), (''expr'', as_raw (\<lambda>v r. (fst r, Some v)))] ([], None) raw)
          (\<lambda>(typ, expr).
            if typ \<noteq> [] \<and> typ \<noteq> ''icmpx'' then Inl ''reject type''
            else case expr of
              None \<Rightarrow> Inr ''reject''
            | Some e \<Rightarrow>
                if jsonValueIsNull e then Inr ''reject''
                else rbind (canonicalRawScalar e) (\<lambda>value.
                  if value \<noteq> ''port-unreachable'' \<and> value \<noteq> ''1'' then Inl ''reject expression'' else Inr ''reject'')))"

definition canonicalObservedNftJSONStatement :: "json \<Rightarrow> string decoded" where
  "canonicalObservedNftJSONStatement raw =
     rbind (single_member raw) (\<lambda>(kind, body).
       if kind = ''match'' then canonicalObservedNftJSONMatch body
       else if kind = ''counter'' then canonicalObservedNftJSONCounter body
       else if kind = FirewallVerdictAccept then
         (if jsonValueIsNull body then Inr ''accept'' else Inl ''accept payload'')
       else if kind = FirewallVerdictDrop then
         (if jsonValueIsNull body then Inr ''drop'' else Inl ''drop payload'')
       else if kind = FirewallVerdictReject then canonicalObservedNftJSONReject body
       else Inl ''statement'')"

definition starts :: "string \<Rightarrow> string \<Rightarrow> bool" where
  "starts p s = (take (length p) s = p)"

text \<open>The dependencies that the kernel listing adds to a payload match.\<close>

definition implied_statement :: "string list \<Rightarrow> string \<Rightarrow> bool" where
  "implied_statement statements s =
     (let udp = list_ex (starts ''match=payload:udp:'') statements;
          icmp = list_ex (starts ''match=payload:icmpv6:'') statements;
          ip = list_ex (starts ''match=payload:ip:'') statements
      in (udp \<and> s = ''match=meta:l4proto:==udp'') \<or> (icmp \<and> s = ''match=meta:l4proto:==icmpv6'') \<or>
         (icmp \<and> s = ''match=meta:nfproto:==ipv6'') \<or> (ip \<and> s = ''match=meta:nfproto:==ipv4''))"

definition normalizeImplicitNftDependencies :: "string list \<Rightarrow> string list" where
  "normalizeImplicitNftDependencies statements = filter (\<lambda>s. \<not> implied_statement statements s) statements"

fun statement_items :: "json list \<Rightarrow> string list decoded" where
  "statement_items [] = Inr []"
| "statement_items (v # vs) =
     rbind (canonicalObservedNftJSONStatement v) (\<lambda>s. rbind (statement_items vs) (\<lambda>ss. Inr (s # ss)))"

definition canonicalObservedNftJSONRule :: "nftJSONRule \<Rightarrow> string list decoded" where
  "canonicalObservedNftJSONRule rule =
     (if jr_expr rule = [] then Inl ''no statements''
      else rbind (statement_items (jr_expr rule)) (\<lambda>ss.
             Inr (normalizeImplicitNftDependencies ss @ [''comment='' @ jr_comment rule])))"

text \<open>\<^verbatim>\<open>strconv.ParseInt(value, 10, 32)\<close> of a priority.\<close>

definition parseNftJSONPriority :: "string \<Rightarrow> int decoded" where
  "parseNftJSONPriority value =
     (if value = [] then Inl ''missing priority''
      else case atoi value of
        None \<Rightarrow> Inl ''priority''
      | Some n \<Rightarrow> if - (2 ^ 31) \<le> n \<and> n < 2 ^ 31 then Inr n else Inl ''priority'')"

section \<open>Parsing a listing\<close>

record nft_parse =
  np_meta :: bool
  np_seen :: bool
  np_snap :: nftTableSnapshot

definition check_metainfo :: "bool \<Rightarrow> nat \<Rightarrow> json \<Rightarrow> unit decoded" where
  "check_metainfo seen i raw =
     (if seen \<or> i \<noteq> 0 then Inl ''metainfo order''
      else rbind (decode_metainfo raw) (\<lambda>meta.
             if jm_schema meta \<noteq> supportedNftJSONSchemaVersion then Inl ''schema version'' else Inr ()))"

definition parse_table_object :: "string \<Rightarrow> string \<Rightarrow> json \<Rightarrow> nft_parse \<Rightarrow> nft_parse decoded" where
  "parse_table_object family table raw st =
     (if \<not> np_meta st then Inl ''table before metainfo''
      else if np_seen st then Inl ''multiple tables''
      else rbind (decode_table raw) (\<lambda>t.
        if jt_family t \<noteq> family \<or> jt_name t \<noteq> table then Inl ''table identity''
        else if jt_handle t = 0 then Inl ''no handle''
        else if jt_flags t \<noteq> [] then Inl ''flags''
        else Inr (st\<lparr>np_seen := True, np_snap := (np_snap st)\<lparr>nt_handle := jt_handle t, nt_flags := jt_flags t\<rparr>\<rparr>)))"

definition parse_chain_object :: "string \<Rightarrow> string \<Rightarrow> json \<Rightarrow> nft_parse \<Rightarrow> nft_parse decoded" where
  "parse_chain_object family table raw st =
     (if \<not> np_seen st then Inl ''chain before table''
      else rbind (decode_chain raw) (\<lambda>c.
        if jc_family c \<noteq> family \<or> jc_table c \<noteq> table \<or> trim_space (jc_name c) = [] then Inl ''chain identity''
        else if map_of (nt_chains (np_snap st)) (jc_name c) \<noteq> None then Inl ''duplicate chain''
        else rbind (parseNftJSONPriority (jc_prio c)) (\<lambda>prio.
          Inr (st\<lparr>np_snap := (np_snap st)\<lparr>nt_chains := nt_chains (np_snap st) @
                 [(jc_name c, \<lparr>nc_name = jc_name c, nc_type = jc_type c, nc_hook = jc_hook c, nc_prio = prio,
                               nc_policy = jc_policy c, nc_device = jc_device c, nc_rules = []\<rparr>)]\<rparr>\<rparr>))))"

definition parse_rule_object :: "string \<Rightarrow> string \<Rightarrow> json \<Rightarrow> nft_parse \<Rightarrow> nft_parse decoded" where
  "parse_rule_object family table raw st =
     (if \<not> np_seen st then Inl ''rule before table''
      else rbind (decode_rule raw) (\<lambda>r.
        if jr_family r \<noteq> family \<or> jr_table r \<noteq> table then Inl ''rule identity''
        else case map_of (nt_chains (np_snap st)) (jr_chain r) of
          None \<Rightarrow> Inl ''unknown chain''
        | Some chain \<Rightarrow>
            rbind (canonicalObservedNftJSONRule r) (\<lambda>rule.
              Inr (st\<lparr>np_snap := (np_snap st)\<lparr>nt_chains :=
                     AList.update (jr_chain r) (chain\<lparr>nc_rules := nc_rules chain @ [rule]\<rparr>) (nt_chains (np_snap st))\<rparr>\<rparr>))))"

definition parse_object :: "string \<Rightarrow> string \<Rightarrow> nat \<Rightarrow> json \<Rightarrow> nft_parse \<Rightarrow> nft_parse decoded" where
  "parse_object family table i object st =
     rbind (single_member object) (\<lambda>(kind, raw).
       if kind = ''metainfo'' then rbind (check_metainfo (np_meta st) i raw) (\<lambda>u. Inr (st\<lparr>np_meta := True\<rparr>))
       else if kind = ''table'' then parse_table_object family table raw st
       else if kind = ''chain'' then parse_chain_object family table raw st
       else if kind = ''rule'' then parse_rule_object family table raw st
       else Inl ''object kind'')"

fun parse_objects :: "string \<Rightarrow> string \<Rightarrow> nat \<Rightarrow> json list \<Rightarrow> nft_parse \<Rightarrow> nft_parse decoded" where
  "parse_objects family table i [] st = Inr st"
| "parse_objects family table i (obj # objs) st =
     rbind (parse_object family table i obj st) (parse_objects family table (Suc i) objs)"

definition parseNftTableJSON :: "json option \<Rightarrow> string \<Rightarrow> string \<Rightarrow> nftTableSnapshot decoded" where
  "parseNftTableJSON out family table =
     rbind (decode_document out) (\<lambda>objs.
       if objs = [] then Inl ''empty''
       else
         rbind (parse_objects family table 0 objs
                  \<lparr>np_meta = False, np_seen = False,
                   np_snap = \<lparr>nt_family = family, nt_name = table, nt_flags = [], nt_handle = 0, nt_chains = []\<rparr>\<rparr>) (\<lambda>st.
           if \<not> np_meta st then Inl ''no metainfo''
           else if \<not> np_seen st then Inl ''no table''
           else Inr (np_snap st)))"

section \<open>Presence of a table\<close>

definition decode_identity :: "json \<Rightarrow> (string \<times> string) decoded" where
  "decode_identity =
     decode_struct False
       [(''family'', as_string (\<lambda>s r. (s, snd r))), (''name'', as_string (\<lambda>s r. (fst r, s)))] ([], [])"

fun presence_objects :: "string \<Rightarrow> string \<Rightarrow> nat \<Rightarrow> json list \<Rightarrow> bool \<times> nat \<Rightarrow> (bool \<times> nat) decoded" where
  "presence_objects family table i [] st = Inr st"
| "presence_objects family table i (obj # objs) st =
     rbind (rbind (single_member obj) (\<lambda>(kind, raw).
       if kind = ''metainfo'' then rbind (check_metainfo (fst st) i raw) (\<lambda>u. Inr (True, snd st))
       else if kind = ''table'' then
         (if \<not> fst st then Inl ''table before metainfo''
          else rbind (decode_identity raw) (\<lambda>(f, n).
            if trim_space f = [] \<or> trim_space n = [] then Inl ''incomplete identity''
            else Inr (fst st, if f = family \<and> n = table then Suc (snd st) else snd st)))
       else Inl ''object kind'')) (presence_objects family table (Suc i) objs)"

definition parseNftTablePresenceJSON :: "json option \<Rightarrow> string \<Rightarrow> string \<Rightarrow> bool decoded" where
  "parseNftTablePresenceJSON out family table =
     rbind (decode_document out) (\<lambda>objs.
       if objs = [] then Inl ''empty''
       else rbind (presence_objects family table 0 objs (False, 0)) (\<lambda>(meta, matches).
              if \<not> meta then Inl ''no metainfo''
              else if 1 < matches then Inl ''duplicate identity''
              else Inr (matches = 1)))"

section \<open>Planned rules\<close>

definition nftExpressionFields :: "string \<Rightarrow> string list" where
  "nftExpressionFields expr = map (trim_chars (\<lambda>c. c = CHR 0x22)) (Prelude.fields expr)"

text \<open>The types of an ICMPv6 set up to its closing brace, and what follows it.\<close>

fun icmp_types :: "string list \<Rightarrow> (string list \<times> string list) decoded" where
  "icmp_types [] = Inl ''unterminated set''"
| "icmp_types (f # fs) =
     (if f = ''}'' then Inr ([], fs)
      else rbind (canonicalICMPv6Type (trim_suffix f '','')) (\<lambda>t.
           rbind (icmp_types fs) (\<lambda>(ts, rest). Inr (t # ts, rest))))"

lemma icmp_types_shorter: "icmp_types fs = Inr (ts, rest) \<Longrightarrow> length rest < length fs"
  by (induction fs arbitrary: ts rest)
    (auto simp: rbind_Inr_iff split: if_splits prod.splits)

definition emit :: "string \<Rightarrow> string decoded \<Rightarrow> string list decoded \<Rightarrow> string list decoded" where
  "emit head value rest = rbind value (\<lambda>v. rbind rest (\<lambda>ss. Inr ((head @ v) # ss)))"

function canonical_fields :: "string list \<Rightarrow> string list decoded" where
  "canonical_fields [] = Inr []"
| "canonical_fields (f # fs) =
     (if f = ''oifname'' then
        (if take 1 fs = [''!='']
         then (case fs of ne # v # rest \<Rightarrow>
                   emit ''match=meta:oifname:!='' (canonicalNftScalar ''meta:oifname:'' v) (canonical_fields rest)
               | _ \<Rightarrow> Inl ''incomplete oifname'')
         else (case fs of v # rest \<Rightarrow>
                   emit ''match=meta:oifname:=='' (canonicalNftScalar ''meta:oifname:'' v) (canonical_fields rest)
               | _ \<Rightarrow> Inl ''incomplete oifname''))
      else if f = ''ip'' then
        (case fs of k # v # rest \<Rightarrow>
            if k = ''daddr'' then
              emit ''match=payload:ip:daddr:=='' (canonicalNftScalar ''payload:ip:daddr:'' v) (canonical_fields rest)
            else Inl ''ip''
         | _ \<Rightarrow> Inl ''ip'')
      else if f = ''meta'' then
        (case fs of k # v # rest \<Rightarrow>
            if k = ''nfproto'' \<or> k = ''mark'' then
              emit (''match=meta:'' @ k @ '':=='') (canonicalNftScalar (''meta:'' @ k @ '':'') v) (canonical_fields rest)
            else Inl ''meta''
         | _ \<Rightarrow> Inl ''meta'')
      else if f = ''udp'' then
        (case fs of k # v # rest \<Rightarrow>
            if k = ''sport'' \<or> k = ''dport'' then
              emit (''match=payload:udp:'' @ k @ '':=='') (canonicalNftScalar (''payload:udp:'' @ k @ '':'') v)
                (canonical_fields rest)
            else Inl ''udp''
         | _ \<Rightarrow> Inl ''udp'')
      else if f = ''icmpv6'' then
        (case fs of k # br # v # rest \<Rightarrow>
            if k = ''type'' \<and> br = ''{'' then
              (case icmp_types (v # rest) of
                 Inl e \<Rightarrow> Inl e
               | Inr (ts, rest') \<Rightarrow>
                   if ts = [] then Inl ''empty set''
                   else emit ''match=payload:icmpv6:type:=='' (Inr (''{'' @ join '','' (sort ts) @ ''}''))
                          (canonical_fields rest'))
            else Inl ''icmpv6''
         | _ \<Rightarrow> Inl ''icmpv6'')
      else Inl ''expression'')"
  by pat_completeness auto
termination
  by (relation "measure length") (auto simp del: icmp_types.simps dest!: icmp_types_shorter)

definition canonicalPlannedNftExpression :: "string \<Rightarrow> string list decoded" where
  "canonicalPlannedNftExpression expr = canonical_fields (nftExpressionFields expr)"

definition canonicalPlannedNftRule :: "TunFirewallRulePlan \<Rightarrow> string list decoded" where
  "canonicalPlannedNftRule rule =
     rbind (canonicalPlannedNftExpression (frp_expr rule)) (\<lambda>ss.
       if frp_verdict rule \<in> {FirewallVerdictAccept, FirewallVerdictDrop, FirewallVerdictReject}
       then Inr (normalizeImplicitNftDependencies (ss @ [''counter'', frp_verdict rule]) @ [''comment='' @ frp_ownership rule])
       else Inl ''verdict'')"

section \<open>Comparison of a snapshot with a plan\<close>

text \<open>The parts of a firewall plan that the comparison reads.\<close>

type_synonym composition = "TunFirewallChainPlan list \<times> TunFirewallRulePlan list"

definition planned_chains :: "TunFirewallChainPlan list \<Rightarrow> TunFirewallChainPlan list" where
  "planned_chains cs = filter (\<lambda>c. fcp_action c = FirewallTableAction \<or> fcp_action c = FirewallActionAdd) cs"

definition planned_rules :: "string \<Rightarrow> TunFirewallRulePlan list \<Rightarrow> TunFirewallRulePlan list" where
  "planned_rules name rs = filter (\<lambda>r. frp_action r = FirewallActionAdd \<and> frp_chain r = name) rs"

definition verify_chain :: "nftTableSnapshot \<Rightarrow> TunFirewallRulePlan list \<Rightarrow> TunFirewallChainPlan \<Rightarrow> string option" where
  "verify_chain snap rs expected =
     (case map_of (nt_chains snap) (fcp_name expected) of
        None \<Rightarrow> Some ''missing chain''
      | Some got \<Rightarrow>
          if nc_type got \<noteq> fcp_type expected \<or> nc_hook got \<noteq> fcp_hook expected \<or> nc_prio got \<noteq> fcp_priority expected \<or>
             nc_policy got \<noteq> fcp_policy expected \<or> nc_device got \<noteq> []
          then Some ''chain metadata''
          else case map_result canonicalPlannedNftRule (planned_rules (fcp_name expected) rs) of
            Inl e \<Rightarrow> Some e
          | Inr rules \<Rightarrow>
              if length (nc_rules got) \<noteq> length rules then Some ''rule cardinality''
              else if list_all2 (=) (nc_rules got) rules then None
              else Some ''rule mismatch'')"

definition verifyNftTableSnapshot :: "nftTableSnapshot \<Rightarrow> composition \<Rightarrow> string option" where
  "verifyNftTableSnapshot snap plan =
     (let expected = planned_chains (fst plan) in
      if nt_flags snap \<noteq> [] then Some ''flags''
      else if \<not> distinct (map fcp_name expected) then Some ''duplicate planned chain''
      else if length (nt_chains snap) \<noteq> length expected then Some ''chain cardinality''
      else first_error (map (verify_chain snap (snd plan)) expected))"

end
