(* ===== verification/Nft_Facts.thy ===== *)
theory Nft_Facts
  imports Nft_State
begin

text \<open>
  What the structured observation guarantees: the snapshot of a listing is well formed, a snapshot verifies exactly
  when it is the composition of the plan, and no table verifies against two different envelopes.
\<close>

section \<open>Words of an expression\<close>

lemma space_len_hd: "33 \<le> byte c \<Longrightarrow> byte c \<le> 126 \<Longrightarrow> space_len (c # s) = 0"
  by (simp add: space_len_def space_match_ends [OF space_seqs_hd] blank_def)

lemma space_len_space: "space_len (CHR '' '' # s) = 1"
  by (simp add: space_len_def space_match_def space_seqs_def)

lemma fields_from_char:
  "33 \<le> byte c \<Longrightarrow> byte c \<le> 126 \<Longrightarrow> fields_from acc (c # s) = fields_from (c # acc) s"
  "fields_from acc (CHR '' '' # s) = (if acc = [] then [] else [rev acc]) @ fields_from [] s"
  "fields_from acc [] = (if acc = [] then [] else [rev acc])"
  by (simp_all add: fields_from.simps [of acc] space_len_hd space_len_space)

lemma fields_from_word: "plain w \<Longrightarrow> fields_from acc (w @ s) = fields_from (rev w @ acc) s"
  by (induction w arbitrary: acc) (auto simp: fields_from_char)

lemma fields_word: "plain w \<Longrightarrow> w \<noteq> [] \<Longrightarrow> Prelude.fields (w @ CHR '' '' # s) = w # Prelude.fields s"
  by (simp add: Prelude.fields_def fields_from_word fields_from_char)

lemma trim_quotes: "CHR 0x22 \<notin> set s \<Longrightarrow> trim_chars (\<lambda>c. c = CHR 0x22) s = s"
proof -
  assume q: "CHR 0x22 \<notin> set s"
  have "dropWhile (\<lambda>c. c = CHR 0x22) t = t" if "CHR 0x22 \<notin> set t" for t
    using that by (cases t) auto
  with q show ?thesis by (simp add: trim_chars_def)
qed

lemma trim_quoted:
  assumes "CHR 0x22 \<notin> set s" "s \<noteq> []"
  shows "trim_chars (\<lambda>c. c = CHR 0x22) (CHR 0x22 # s @ [CHR 0x22]) = s"
proof -
  have t: "dropWhile (\<lambda>c. c = CHR 0x22) t = t" if "CHR 0x22 \<notin> set t" for t
    using that by (cases t) auto
  have "dropWhile (\<lambda>c. c = CHR 0x22) (CHR 0x22 # s @ [CHR 0x22]) = s @ [CHR 0x22]"
    using assms by (cases s) auto
  then show ?thesis using t [of "rev s"] assms by (simp add: trim_chars_def)
qed

section \<open>The canonical rules of an envelope\<close>

abbreviation dq :: char where "dq \<equiv> CHR 0x22"

lemma nft_fields_pair:
  "plain a \<Longrightarrow> a \<noteq> [] \<Longrightarrow> dq \<notin> set a \<Longrightarrow> plain b \<Longrightarrow> b \<noteq> [] \<Longrightarrow>
   nftExpressionFields (a @ CHR '' '' # b) = [a, trim_chars (\<lambda>c. c = dq) b]"
  by (simp add: nftExpressionFields_def fields_word fields_plain trim_quotes)

lemma nft_fields_word:
  "plain a \<Longrightarrow> a \<noteq> [] \<Longrightarrow> dq \<notin> set a \<Longrightarrow> nftExpressionFields (a @ CHR '' '' # s) = a # nftExpressionFields s"
  by (simp add: nftExpressionFields_def fields_word trim_quotes)

lemma plain_trim: "plain s \<Longrightarrow> trim_space s = s"
  by (rule trim_space_plain)

lemma interface_plain:
  assumes "validateNetworkSessionInterface n = None"
  shows "plain n" "n \<noteq> []" "dq \<notin> set n" "n \<noteq> ''!=''"
  using assms
  by (auto simp: validateNetworkSessionInterface_def list_all_iff plain_def interface_char_def alnum_def id_letter_def
      is_digit_def split: if_splits)

lemma oifname_words:
  assumes "plain n" "n \<noteq> []" "dq \<notin> set n"
  shows "nftExpressionFields (''oifname '' @ quoted n) = [''oifname'', n]"
  using nft_fields_pair [of "''oifname''" "dq # n @ [dq]"] assms by (simp add: quoted_def trim_quoted)

lemma quote_not_in_plain_texts: "dq \<notin> set (ip4_text w)" "dq \<notin> set (itoa n)"
  using ip4_text_chars [of dq w] itoa_digits [of n] by (auto simp: list_all_iff is_digit_def)

lemma ip4_text_nonempty: "ip4_text w \<noteq> []"
  by (simp add: ip4_text_def octets_def Let_def)

lemma daddr_words: "nftExpressionFields (''ip daddr '' @ ip4_text w) = [''ip'', ''daddr'', ip4_text w]"
  using nft_fields_word [of "''ip''" "''daddr'' @ CHR '' '' # ip4_text w"] nft_fields_pair [of "''daddr''" "ip4_text w"]
  by (simp add: trim_quotes quote_not_in_plain_texts ip4_text_nonempty)

lemma mark_words: "nftExpressionFields (''meta mark '' @ itoa n) = [''meta'', ''mark'', itoa n]"
  using nft_fields_word [of "''meta''" "''mark'' @ CHR '' '' # itoa n"] nft_fields_pair [of "''mark''" "itoa n"]
  by (simp add: trim_quotes quote_not_in_plain_texts)

lemma canonical_oifname:
  assumes "plain n" "n \<noteq> []" "dq \<notin> set n" "n \<noteq> ''!=''"
  shows "canonicalPlannedNftExpression (''oifname '' @ quoted n) = Inr [''match=meta:oifname:=='' @ n]"
  using assms
  by (simp add: canonicalPlannedNftExpression_def oifname_words canonicalNftScalar_def plain_trim emit_def del: append.simps)

lemma canonical_daddr:
  "canonicalPlannedNftExpression (''ip daddr '' @ ip4_text w) = Inr [''match=payload:ip:daddr:=='' @ ip4_text w]"
  by (simp add: canonicalPlannedNftExpression_def daddr_words canonicalNftScalar_def plain_trim parse_ip_ip4_text emit_def
      del: append.simps)

lemma mark_bounds: "m \<noteq> 0 \<Longrightarrow> 0 < unat (m :: 32 word)" "unat (m :: 32 word) < 2 ^ 32"
  using unsigned_less [of m, where 'a = nat] by (simp_all add: unat_gt_0)

lemma canonical_mark:
  assumes "m \<noteq> 0"
  shows "canonicalPlannedNftExpression (''meta mark '' @ itoa (unat (m :: 32 word))) =
     Inr [''match=meta:mark:=='' @ itoa (unat m)]"
  by (simp add: canonicalPlannedNftExpression_def mark_words canonicalNftScalar_def plain_trim
      parse_uint0_itoa [OF mark_bounds(1) [OF assms] mark_bounds(2)] emit_def del: append.simps)

lemma fixed_words:
  "nftExpressionFields dhcp4_expr = [''meta'', ''nfproto'', ''ipv4'', ''udp'', ''sport'', ''68'', ''udp'', ''dport'', ''67'']"
  "nftExpressionFields dhcp6_expr = [''meta'', ''nfproto'', ''ipv6'', ''udp'', ''sport'', ''546'', ''udp'', ''dport'', ''547'']"
  "nftExpressionFields neighbour_expr =
     [''icmpv6'', ''type'', ''{'', ''nd-router-solicit,'', ''nd-neighbor-solicit,'', ''nd-neighbor-advert'', ''}'']"
  by (simp_all add: nftExpressionFields_def Prelude.fields_def dhcp4_expr_def dhcp6_expr_def neighbour_expr_def
      fields_from_char trim_quotes)

lemma fixed_ports:
  "canonicalNftScalar ''payload:udp:sport:'' ''68'' = Inr ''68''"
  "canonicalNftScalar ''payload:udp:dport:'' ''67'' = Inr ''67''"
  "canonicalNftScalar ''payload:udp:sport:'' ''546'' = Inr ''546''"
  "canonicalNftScalar ''payload:udp:dport:'' ''547'' = Inr ''547''"
  by (simp_all add: canonicalNftScalar_def plain_trim parse_uint10_def dec_value_def is_digit_def itoa_eval)

lemma fixed_types:
  "canonicalICMPv6Type (trim_suffix ''nd-router-solicit,'' '','') = Inr ''133''"
  "canonicalICMPv6Type (trim_suffix ''nd-neighbor-solicit,'' '','') = Inr ''135''"
  "canonicalICMPv6Type (trim_suffix ''nd-neighbor-advert'' '','') = Inr ''136''"
  by (simp_all add: canonicalICMPv6Type_def plain_trim trim_suffix_def suffix_def)

lemma canonical_fixed:
  "canonicalPlannedNftExpression dhcp4_expr =
     Inr [''match=meta:nfproto:==ipv4'', ''match=payload:udp:sport:==68'', ''match=payload:udp:dport:==67'']"
  "canonicalPlannedNftExpression dhcp6_expr =
     Inr [''match=meta:nfproto:==ipv6'', ''match=payload:udp:sport:==546'', ''match=payload:udp:dport:==547'']"
  "canonicalPlannedNftExpression neighbour_expr = Inr [''match=payload:icmpv6:type:=={133,135,136}'']"
  "canonicalPlannedNftExpression [] = Inr []"
proof -
  have nf: "canonicalNftScalar ''meta:nfproto:'' ''ipv4'' = Inr ''ipv4''" "canonicalNftScalar ''meta:nfproto:'' ''ipv6'' = Inr ''ipv6''"
    by (simp_all add: canonicalNftScalar_def plain_trim)
  show "canonicalPlannedNftExpression dhcp4_expr =
     Inr [''match=meta:nfproto:==ipv4'', ''match=payload:udp:sport:==68'', ''match=payload:udp:dport:==67'']"
    "canonicalPlannedNftExpression dhcp6_expr =
     Inr [''match=meta:nfproto:==ipv6'', ''match=payload:udp:sport:==546'', ''match=payload:udp:dport:==547'']"
    by (simp_all add: canonicalPlannedNftExpression_def fixed_words fixed_ports nf emit_def)
  have t: "icmp_types [''nd-router-solicit,'', ''nd-neighbor-solicit,'', ''nd-neighbor-advert'', ''}''] = Inr ([''133'', ''135'', ''136''], [])"
    by (simp add: fixed_types)
  have "sort [''133'', ''135'', ''136''] = [''133'', ''135'', ''136'']" by (simp add: less_eq_char_def)
  then show "canonicalPlannedNftExpression neighbour_expr = Inr [''match=payload:icmpv6:type:=={133,135,136}'']"
    by (simp add: canonicalPlannedNftExpression_def fixed_words t emit_def del: icmp_types.simps sort_key_simps)
  show "canonicalPlannedNftExpression [] = Inr []"
    by (simp add: canonicalPlannedNftExpression_def nftExpressionFields_def Prelude.fields_def fields_from_char)
qed

definition canonical_accept :: "string \<Rightarrow> string list \<Rightarrow> string list" where
  "canonical_accept own ss = ss @ [''counter'', ''accept'', ''comment='' @ own]"

lemma starts_simps [simp]: "starts [] s" "starts (c # p) [] = False" "starts (c # p) (d # s) \<longleftrightarrow> c = d \<and> starts p s"
  by (auto simp: starts_def)

lemma normalize_one:
  assumes "s \<noteq> ''match=meta:l4proto:==udp''" "s \<noteq> ''match=meta:l4proto:==icmpv6''"
    "s \<noteq> ''match=meta:nfproto:==ipv6''" "s \<noteq> ''match=meta:nfproto:==ipv4''"
  shows "normalizeImplicitNftDependencies [s, ''counter'', ''accept''] = [s, ''counter'', ''accept'']"
  using assms by (simp add: normalizeImplicitNftDependencies_def implied_statement_def Let_def)

lemma canonical_rule_one:
  assumes "canonicalPlannedNftExpression e = Inr [s]" "s \<noteq> ''match=meta:l4proto:==udp''"
    "s \<noteq> ''match=meta:l4proto:==icmpv6''" "s \<noteq> ''match=meta:nfproto:==ipv6''" "s \<noteq> ''match=meta:nfproto:==ipv4''"
  shows "canonicalPlannedNftRule (envelope_accept e own) = Inr (canonical_accept own [s])"
  using normalize_one [OF assms(2-5)] assms(1)
  by (simp add: canonicalPlannedNftRule_def envelope_accept_def canonical_accept_def FirewallVerdictAccept_def)

definition canonical_envelope :: "networkSessionProtection \<Rightarrow> string list list" where
  "canonical_envelope p =
     [canonical_accept ''podlaz:privacy-envelope:loopback'' [''match=meta:oifname:==lo''],
      canonical_accept ''podlaz:privacy-envelope:tun-egress'' [''match=meta:oifname:=='' @ np_interface p]] @
     map (\<lambda>e. canonical_accept ''podlaz:privacy-envelope:bootstrap'' [''match=payload:ip:daddr:=='' @ e]) (np_bootstrap p) @
     map (\<lambda>m. canonical_accept ''podlaz:privacy-envelope:xray-egress'' [''match=meta:mark:=='' @ itoa (unat m)]) (np_marks p) @
     [canonical_accept ''podlaz:privacy-envelope:dhcp4''
        [''match=meta:nfproto:==ipv4'', ''match=payload:udp:sport:==68'', ''match=payload:udp:dport:==67''],
      canonical_accept ''podlaz:privacy-envelope:dhcp6''
        [''match=meta:nfproto:==ipv6'', ''match=payload:udp:sport:==546'', ''match=payload:udp:dport:==547''],
      canonical_accept ''podlaz:privacy-envelope:ipv6-link-control'' [''match=payload:icmpv6:type:=={133,135,136}''],
      [''counter'', ''reject'', ''comment=podlaz:privacy-envelope:block-direct'']]"

lemma check_bootstrap_texts: "check_bootstrap l seen es = None \<Longrightarrow> e \<in> set es \<Longrightarrow> \<exists>w. e = ip4_text w"
  by (induction es arbitrary: seen) (auto split: option.splits addr.splits if_splits)

lemma check_marks_nonzero: "check_marks l seen ms = None \<Longrightarrow> m \<in> set ms \<Longrightarrow> m \<noteq> 0"
  by (induction ms arbitrary: seen) (auto split: if_splits)

lemma valid_protection_parts:
  assumes "validateNetworkSessionProtection p = None"
  shows "validateNetworkSessionInterface (np_interface p) = None" "e \<in> set (np_bootstrap p) \<Longrightarrow> \<exists>w. e = ip4_text w"
    "m \<in> set (np_marks p) \<Longrightarrow> m \<noteq> 0" "np_family p = ''inet''" "privacyEnvelopeTablePattern (np_table p)"
  using assms
  by (auto simp: validateNetworkSessionProtection_def first_error_None_iff composition_error_def validateBootstrapIPv4_def
      validateEgressMarks_def check_bootstrap_texts dest: check_marks_nonzero split: if_splits option.splits)

lemma map_result_append:
  "map_result f xs = Inr as \<Longrightarrow> map_result f ys = Inr bs \<Longrightarrow> map_result f (xs @ ys) = Inr (as @ bs)"
  by (simp add: map_result_Inr list_all2_appendI)

lemma map_result_map: "(\<And>x. x \<in> set xs \<Longrightarrow> f (g x) = Inr (h x)) \<Longrightarrow> map_result f (map g xs) = Inr (map h xs)"
  by (simp add: map_result_Inr list_all2_conv_all_nth)

lemma canonical_fixed_rules:
  "canonicalPlannedNftRule (envelope_accept dhcp4_expr o1) = Inr (canonical_accept o1
        [''match=meta:nfproto:==ipv4'', ''match=payload:udp:sport:==68'', ''match=payload:udp:dport:==67''])"
  "canonicalPlannedNftRule (envelope_accept dhcp6_expr o1) = Inr (canonical_accept o1
        [''match=meta:nfproto:==ipv6'', ''match=payload:udp:sport:==546'', ''match=payload:udp:dport:==547''])"
  "canonicalPlannedNftRule (envelope_accept neighbour_expr o1) =
     Inr (canonical_accept o1 [''match=payload:icmpv6:type:=={133,135,136}''])"
  "canonicalPlannedNftRule envelope_reject = Inr [''counter'', ''reject'', ''comment=podlaz:privacy-envelope:block-direct'']"
  by (simp_all add: canonicalPlannedNftRule_def envelope_accept_def envelope_reject_def canonical_fixed canonical_accept_def
      FirewallVerdictAccept_def FirewallVerdictReject_def normalizeImplicitNftDependencies_def implied_statement_def Let_def)

lemma canonical_envelope_rules:
  assumes "validateNetworkSessionProtection p = None"
  shows "map_result canonicalPlannedNftRule (envelope_rules p) = Inr (canonical_envelope p)"
  unfolding envelope_rules_def canonical_envelope_def
proof (intro map_result_append map_result_map)
  note v = valid_protection_parts [OF assms] and i = interface_plain
  have lo: "canonicalPlannedNftExpression (''oifname '' @ quoted ''lo'') = Inr [''match=meta:oifname:==lo'']"
    using canonical_oifname [of "''lo''"] by simp
  note tun = canonical_oifname [OF i [OF v(1)]]
  show "map_result canonicalPlannedNftRule
     [envelope_accept (''oifname '' @ quoted ''lo'') ''podlaz:privacy-envelope:loopback'',
      envelope_accept (''oifname '' @ quoted (np_interface p)) ''podlaz:privacy-envelope:tun-egress''] =
     Inr [canonical_accept ''podlaz:privacy-envelope:loopback'' [''match=meta:oifname:==lo''],
      canonical_accept ''podlaz:privacy-envelope:tun-egress'' [''match=meta:oifname:=='' @ np_interface p]]"
    using canonical_rule_one [OF lo] canonical_rule_one [OF tun] by simp
next
  fix e assume "e \<in> set (np_bootstrap p)"
  with valid_protection_parts(2) [OF assms] obtain w where "e = ip4_text w" by blast
  with canonical_rule_one [OF canonical_daddr [of w]]
  show "canonicalPlannedNftRule (envelope_accept (''ip daddr '' @ e) ''podlaz:privacy-envelope:bootstrap'') =
     Inr (canonical_accept ''podlaz:privacy-envelope:bootstrap'' [''match=payload:ip:daddr:=='' @ e])" by simp
next
  fix m assume "m \<in> set (np_marks p)"
  from canonical_rule_one [OF canonical_mark [OF valid_protection_parts(3) [OF assms this]]]
  show "canonicalPlannedNftRule (envelope_accept (''meta mark '' @ itoa (unat m)) ''podlaz:privacy-envelope:xray-egress'') =
     Inr (canonical_accept ''podlaz:privacy-envelope:xray-egress'' [''match=meta:mark:=='' @ itoa (unat m)])" by simp
qed (simp add: canonical_fixed_rules)

section \<open>Distinct envelopes have distinct canonical rules\<close>

definition owned_by :: "string \<Rightarrow> string list list \<Rightarrow> string list list" where
  "owned_by own rs = filter (\<lambda>r. List.last r = ''comment='' @ own) rs"

lemma owned_by_append: "owned_by own (as @ bs) = owned_by own as @ owned_by own bs"
  by (simp add: owned_by_def)

lemma owned_by_map:
  "owned_by own (map (\<lambda>x. canonical_accept own' (f x)) xs) =
     (if own = own' then map (\<lambda>x. canonical_accept own' (f x)) xs else [])"
  by (auto simp: owned_by_def canonical_accept_def)

lemma canonical_envelope_owned:
  "owned_by ''podlaz:privacy-envelope:bootstrap'' (canonical_envelope p) =
     map (\<lambda>e. canonical_accept ''podlaz:privacy-envelope:bootstrap'' [''match=payload:ip:daddr:=='' @ e]) (np_bootstrap p)"
  "owned_by ''podlaz:privacy-envelope:xray-egress'' (canonical_envelope p) =
     map (\<lambda>m. canonical_accept ''podlaz:privacy-envelope:xray-egress'' [''match=meta:mark:=='' @ itoa (unat m)]) (np_marks p)"
  by (simp_all add: canonical_envelope_def owned_by_append owned_by_map)
     (simp_all add: owned_by_def canonical_accept_def)

lemma canonical_envelope_inj:
  assumes "canonical_envelope p = canonical_envelope q"
  shows "np_interface p = np_interface q" "np_bootstrap p = np_bootstrap q" "np_marks p = np_marks q"
proof -
  show "np_interface p = np_interface q" using assms by (simp add: canonical_envelope_def canonical_accept_def)
  have inj: "inj (\<lambda>e. canonical_accept own [h @ e])" for own h
    by (simp add: inj_def canonical_accept_def)
  from assms have "owned_by own (canonical_envelope p) = owned_by own (canonical_envelope q)" for own by simp
  note o = this [of "''podlaz:privacy-envelope:bootstrap''"] this [of "''podlaz:privacy-envelope:xray-egress''"]
  from o(1) show "np_bootstrap p = np_bootstrap q"
    unfolding canonical_envelope_owned by (rule map_injective [OF _ inj])
  have "inj (\<lambda>m :: 32 word. canonical_accept own [h @ itoa (unat m)])" for own h
    by (auto simp: inj_def canonical_accept_def word_unat_eq_iff dest!: itoa_inj)
  then show "np_marks p = np_marks q"
    using o(2) unfolding canonical_envelope_owned by (rule map_injective [rotated])
qed

section \<open>Snapshots of listings\<close>

definition snapshot_ok :: "nftTableSnapshot \<Rightarrow> bool" where
  "snapshot_ok snap \<longleftrightarrow>
     distinct (map fst (nt_chains snap)) \<and> list_all (\<lambda>(n, c). nc_name c = n) (nt_chains snap) \<and> nt_flags snap = []"

definition parse_ok :: "string \<Rightarrow> string \<Rightarrow> nft_parse \<Rightarrow> bool" where
  "parse_ok family table st \<longleftrightarrow>
     snapshot_ok (np_snap st) \<and> nt_family (np_snap st) = family \<and> nt_name (np_snap st) = table \<and>
     (np_seen st \<longrightarrow> nt_handle (np_snap st) \<noteq> 0)"

lemma update_names:
  "list_all (\<lambda>(n, c). nc_name c = n) xs \<Longrightarrow> nc_name v = k \<Longrightarrow> list_all (\<lambda>(n, c). nc_name c = n) (AList.update k v xs)"
  by (induction xs) auto

lemma list_all_map_of: "list_all P xs \<Longrightarrow> map_of xs k = Some v \<Longrightarrow> P (k, v)"
  by (auto simp: list_all_iff dest: map_of_SomeD)

lemma parse_object_ok:
  assumes "parse_ok family table st" "parse_object family table i obj st = Inr st'"
  shows "parse_ok family table st'"
proof -
  from assms(2) obtain kind raw where "single_member obj = Inr (kind, raw)"
    by (auto simp: parse_object_def rbind_Inr_iff)
  with assms(2) consider "\<exists>u. check_metainfo (np_meta st) i raw = Inr u \<and> st' = st\<lparr>np_meta := True\<rparr>"
    | "parse_table_object family table raw st = Inr st'"
    | "parse_chain_object family table raw st = Inr st'" | "parse_rule_object family table raw st = Inr st'"
    by (auto simp: parse_object_def rbind_Inr_iff split: if_splits)
  then show ?thesis
  proof cases
    case 1
    with assms(1) show ?thesis by (auto simp: parse_ok_def)
  next
    case 2
    with assms(1) show ?thesis
      by (auto simp: parse_table_object_def parse_ok_def snapshot_ok_def rbind_Inr_iff split: if_splits)
  next
    case 3
    with assms(1) show ?thesis
      by (auto simp: parse_chain_object_def parse_ok_def snapshot_ok_def rbind_Inr_iff map_of_eq_None_iff split: if_splits)
  next
    case 4
    then obtain r :: nftJSONRule and chain rule where r: "map_of (nt_chains (np_snap st)) (jr_chain r) = Some chain"
      "st' = st\<lparr>np_snap := (np_snap st)\<lparr>nt_chains :=
         AList.update (jr_chain r) (chain\<lparr>nc_rules := nc_rules chain @ [rule]\<rparr>) (nt_chains (np_snap st))\<rparr>\<rparr>"
      by (auto simp: parse_rule_object_def rbind_Inr_iff split: if_splits option.splits)
    moreover have "nc_name chain = jr_chain r"
      using assms(1) r(1) list_all_map_of by (fastforce simp: parse_ok_def snapshot_ok_def)
    ultimately show ?thesis using assms(1)
      by (simp add: parse_ok_def snapshot_ok_def distinct_update update_names)
  qed
qed

lemma parse_objects_ok:
  "parse_ok family table st \<Longrightarrow> parse_objects family table i objs st = Inr st' \<Longrightarrow> parse_ok family table st'"
  by (induction objs arbitrary: i st) (auto simp: rbind_Inr_iff dest: parse_object_ok)

lemma parse_snapshot_ok:
  assumes "parseNftTableJSON out family table = Inr snap"
  shows "snapshot_ok snap" "nt_family snap = family" "nt_name snap = table" "nt_handle snap \<noteq> 0"
proof -
  let ?st = "\<lparr>np_meta = False, np_seen = False,
     np_snap = \<lparr>nt_family = family, nt_name = table, nt_flags = [], nt_handle = 0, nt_chains = []\<rparr>\<rparr>"
  from assms obtain objs st where "parse_objects family table 0 objs ?st = Inr st" "snap = np_snap st" "np_seen st"
    by (auto simp: parseNftTableJSON_def rbind_Inr_iff split: if_splits)
  moreover have "parse_ok family table ?st" by (simp add: parse_ok_def snapshot_ok_def)
  ultimately show "snapshot_ok snap" "nt_family snap = family" "nt_name snap = table" "nt_handle snap \<noteq> 0"
    using parse_objects_ok [of family table ?st 0 objs st] by (auto simp: parse_ok_def)
qed

section \<open>Verification is exact\<close>

text \<open>The chain that a planned chain stands for.\<close>

definition chain_of_plan :: "TunFirewallRulePlan list \<Rightarrow> TunFirewallChainPlan \<Rightarrow> nftChainSnapshot option" where
  "chain_of_plan rs c =
     (case map_result canonicalPlannedNftRule (planned_rules (fcp_name c) rs) of
        Inl e \<Rightarrow> None
      | Inr rules \<Rightarrow>
          Some \<lparr>nc_name = fcp_name c, nc_type = fcp_type c, nc_hook = fcp_hook c, nc_prio = fcp_priority c,
                nc_policy = fcp_policy c, nc_device = [], nc_rules = rules\<rparr>)"

definition chains_of_plan :: "composition \<Rightarrow> string \<Rightarrow> nftChainSnapshot option" where
  "chains_of_plan plan name =
     Option.bind (find (\<lambda>c. fcp_name c = name) (planned_chains (fst plan))) (chain_of_plan (snd plan))"

lemma list_all2_eq_conv: "list_all2 (=) xs ys \<longleftrightarrow> xs = ys"
  by (simp add: list.rel_eq)

lemma verify_chain_None:
  assumes "snapshot_ok snap"
  shows "verify_chain snap rs c = None \<longleftrightarrow>
     (\<exists>got. chain_of_plan rs c = Some got \<and> map_of (nt_chains snap) (fcp_name c) = Some got)"
proof (cases "map_of (nt_chains snap) (fcp_name c)")
  case None
  then show ?thesis by (simp add: verify_chain_def)
next
  case (Some got)
  have "nc_name got = fcp_name c"
    using assms Some list_all_map_of by (fastforce simp: snapshot_ok_def)
  with Some show ?thesis
    by (cases got) (auto simp: verify_chain_def chain_of_plan_def list_all2_eq_conv split: sum.splits)
qed

lemma find_distinct:
  "distinct (map f xs) \<Longrightarrow> x \<in> set xs \<Longrightarrow> find (\<lambda>y. f y = f x) xs = Some x"
  by (induction xs) (auto simp: rev_image_eqI)

lemma first_error_map_None: "first_error (map f xs) = None \<longleftrightarrow> (\<forall>x\<in>set xs. f x = None)"
  by (auto simp: first_error_None_iff)

text \<open>C20: Verification is exact in both directions.  On the snapshot of a listing it succeeds if and only if the chains
  of the table are the chains of the plan, each with the planned metadata and with the canonical planned
  rules in order, and with no chain and no rule more.\<close>

theorem verified_table_is_exactly_the_plan:
  assumes "parseNftTableJSON out family table = Inr snap"
  shows "verifyNftTableSnapshot snap plan = None \<longleftrightarrow>
     distinct (map fcp_name (planned_chains (fst plan))) \<and>
     (\<forall>c\<in>set (planned_chains (fst plan)). chain_of_plan (snd plan) c \<noteq> None) \<and>
     (\<forall>name. map_of (nt_chains snap) name = chains_of_plan plan name)"
proof -
  note ok = parse_snapshot_ok(1) [OF assms]
  let ?cs = "planned_chains (fst plan)" and ?m = "map_of (nt_chains snap)"
  have keys: "distinct (map fst (nt_chains snap))" "nt_flags snap = []" using ok by (auto simp: snapshot_ok_def)
  have dom: "card (dom ?m) = length (nt_chains snap)"
    using keys(1) by (metis dom_map_of_conv_image_fst distinct_card length_map set_map)
  show ?thesis
  proof (cases "distinct (map fcp_name ?cs)")
    case False
    then show ?thesis using keys by (simp add: verifyNftTableSnapshot_def Let_def)
  next
    case True
    have card: "card (fcp_name ` set ?cs) = length ?cs"
      using distinct_card [OF True] by simp
    have v: "verifyNftTableSnapshot snap plan = None \<longleftrightarrow> length (nt_chains snap) = length ?cs \<and>
       (\<forall>c\<in>set ?cs. \<exists>got. chain_of_plan (snd plan) c = Some got \<and> ?m (fcp_name c) = Some got)"
      using True keys by (simp add: verifyNftTableSnapshot_def Let_def first_error_map_None verify_chain_None [OF ok])
    have f: "chains_of_plan plan (fcp_name c) = chain_of_plan (snd plan) c" if "c \<in> set ?cs" for c
      using find_distinct [OF True that] by (simp add: chains_of_plan_def)
    have g: "chains_of_plan plan name = None" if "name \<notin> fcp_name ` set ?cs" for name
      using that by (auto simp: chains_of_plan_def bind_eq_None_conv find_None_iff)
    show ?thesis unfolding v
    proof (intro iffI conjI)
      assume a: "length (nt_chains snap) = length ?cs \<and>
         (\<forall>c\<in>set ?cs. \<exists>got. chain_of_plan (snd plan) c = Some got \<and> ?m (fcp_name c) = Some got)"
      then have "fcp_name ` set ?cs \<subseteq> dom ?m" by auto
      then have d: "fcp_name ` set ?cs = dom ?m"
        using a card dom finite_dom_map_of by (intro card_subset_eq) auto
      show "\<forall>name. ?m name = chains_of_plan plan name"
      proof
        fix name show "?m name = chains_of_plan plan name"
        proof (cases "name \<in> fcp_name ` set ?cs")
          case True
          then obtain c where "c \<in> set ?cs" "name = fcp_name c" by blast
          with a f show ?thesis by fastforce
        next
          case False
          with d g show ?thesis by (metis domIff)
        qed
      qed
    next
      assume b: "distinct (map fcp_name ?cs) \<and> (\<forall>c\<in>set ?cs. chain_of_plan (snd plan) c \<noteq> None) \<and>
         (\<forall>name. ?m name = chains_of_plan plan name)"
      have "dom ?m = fcp_name ` set ?cs" using b f g by (auto simp: dom_def) (metis option.distinct(1))+
      with card dom show "length (nt_chains snap) = length ?cs" by simp
      show "\<forall>c\<in>set ?cs. \<exists>got. chain_of_plan (snd plan) c = Some got \<and> ?m (fcp_name c) = Some got"
        using b f by auto
    qed (use True in \<open>auto\<close>)
  qed
qed

definition demo_listing :: json where
  "demo_listing =
     JObj [(''nftables'', JArr
       [JObj [(''metainfo'', JObj [(''version'', JStr ''1.0.9''), (''release_name'', JStr ''x''), (''json_schema_version'', JNum ''1'')])],
        JObj [(''table'', JObj [(''family'', JStr ''inet''), (''name'', JStr ''t''), (''handle'', JNum ''7'')])],
        JObj [(''chain'', JObj [(''family'', JStr ''inet''), (''table'', JStr ''t''), (''name'', JStr ''output''),
          (''handle'', JNum ''1''), (''type'', JStr ''filter''), (''hook'', JStr ''output''), (''prio'', JNum ''-10''),
          (''policy'', JStr ''accept'')])],
        JObj [(''rule'', JObj [(''family'', JStr ''inet''), (''table'', JStr ''t''), (''chain'', JStr ''output''),
          (''handle'', JNum ''2''), (''comment'', JStr ''podlaz:privacy-envelope:block-direct''),
          (''expr'', JArr [JObj [(''counter'', JObj [(''packets'', JNum ''3''), (''bytes'', JNum ''180'')])],
                          JObj [(''reject'', JObj [(''type'', JStr ''icmpx''), (''expr'', JStr ''port-unreachable'')])]])])]])]"

definition demo_plan_chain :: TunFirewallChainPlan where
  "demo_plan_chain =
     \<lparr>fcp_name = ''output'', fcp_type = ''filter'', fcp_hook = ''output'', fcp_priority = - 10, fcp_policy = ''accept'',
      fcp_action = FirewallActionAdd, fcp_reason = []\<rparr>"

definition demo_table_snapshot :: nftTableSnapshot where
  "demo_table_snapshot =
     \<lparr>nt_family = ''inet'', nt_name = ''t'', nt_flags = [], nt_handle = 7,
      nt_chains = [(''output'', \<lparr>nc_name = ''output'', nc_type = ''filter'', nc_hook = ''output'', nc_prio = - 10,
        nc_policy = ''accept'', nc_device = [],
        nc_rules = [[''counter'', ''reject'', ''comment=podlaz:privacy-envelope:block-direct'']]\<rparr>)]\<rparr>"

lemmas decode_simps = decode_document_def decodeStrictNftJSON_def decode_struct_def as_raw_list_def as_string_def
  as_number_def as_uint64_def as_int_def as_raw_def decode_metainfo_def decode_table_def decode_chain_def
  decode_rule_def single_member_def check_metainfo_def

lemma demo_listing_parses: "parseNftTableJSON (Some demo_listing) ''inet'' ''t'' = Inr demo_table_snapshot"
proof -
  have n: "atoi ''1'' = Some 1" "atoi ''-10'' = Some (- 10)" "parse_uint10 64 ''7'' = Some 7" "parse_uint10 64 ''1'' = Some 1"
    "parse_uint10 64 ''2'' = Some 2" "parse_uint10 64 ''3'' = Some 3" "parse_uint10 64 ''180'' = Some 180"
    by (simp_all add: atoi_def parse_uint10_def dec_value_def is_digit_def)
  have t: "trim_space ''output'' = ''output''" by (simp add: plain_trim)
  show ?thesis
    by (simp add: parseNftTableJSON_def demo_listing_def decode_simps lower_char_def n t parse_object_def parse_table_object_def
        parse_chain_object_def parse_rule_object_def supportedNftJSONSchemaVersion_def parseNftJSONPriority_def
        canonicalObservedNftJSONRule_def canonicalObservedNftJSONStatement_def canonicalObservedNftJSONCounter_def
        canonicalObservedNftJSONReject_def canonicalRawScalar_def jsonValueIsNull_def FirewallVerdictAccept_def
        FirewallVerdictDrop_def FirewallVerdictReject_def normalizeImplicitNftDependencies_def implied_statement_def
        demo_table_snapshot_def)
qed

theorem verified_table_is_exactly_the_plan_witness:
  "parseNftTableJSON (Some demo_listing) ''inet'' ''t'' = Inr demo_table_snapshot \<and>
   verifyNftTableSnapshot demo_table_snapshot ([demo_plan_chain], [envelope_reject]) = None"
proof -
  have pl: "planned_chains [demo_plan_chain] = [demo_plan_chain]"
    by (simp add: planned_chains_def demo_plan_chain_def)
  have ru: "planned_rules ''output'' [envelope_reject] = [envelope_reject]"
    by (simp add: planned_rules_def envelope_reject_def)
  have ch: "chain_of_plan [envelope_reject] demo_plan_chain = Some (snd (hd (nt_chains demo_table_snapshot)))"
    by (simp add: chain_of_plan_def ru canonical_fixed_rules demo_table_snapshot_def) (simp add: demo_plan_chain_def ru canonical_fixed_rules)
  have "map_of (nt_chains demo_table_snapshot) name = chains_of_plan ([demo_plan_chain], [envelope_reject]) name" for name
    using ch by (simp add: chains_of_plan_def pl) (simp add: demo_table_snapshot_def demo_plan_chain_def)
  then show ?thesis
    using verified_table_is_exactly_the_plan [OF demo_listing_parses, of "([demo_plan_chain], [envelope_reject])"]
    by (simp add: demo_listing_parses pl ch)
qed

definition envelope_composition :: "PrivacyEnvelopePlan \<Rightarrow> composition" where
  "envelope_composition plan = (pe_chains plan, pe_rules plan)"

lemma envelope_planned_rules: "planned_rules ''output'' (envelope_rules p) = envelope_rules p"
  unfolding planned_rules_def filter_id_conv
  by (auto simp: envelope_rules_def envelope_accept_def envelope_reject_def)

lemma envelope_verified:
  assumes "privacyEnvelopePlanFromAuthority p = Inr plan" "verifyNftTableSnapshot snap (envelope_composition plan) = None"
  shows "\<exists>c. map_of (nt_chains snap) ''output'' = Some c \<and> nc_rules c = canonical_envelope p"
proof -
  from assms(1) have v: "validateNetworkSessionProtection p = None"
    and chains: "\<exists>c. pe_chains plan = [c] \<and> fcp_name c = ''output'' \<and> fcp_action c = FirewallActionAdd"
    and rules: "pe_rules plan = envelope_rules p"
    by (auto simp: privacyEnvelopePlanFromAuthority_def split: option.splits if_splits)
  have m: "map_result canonicalPlannedNftRule (planned_rules ''output'' (envelope_rules p)) = Inr (canonical_envelope p)"
    by (simp add: envelope_planned_rules canonical_envelope_rules [OF v])
  from chains obtain c where c: "pe_chains plan = [c]" "fcp_name c = ''output''" "fcp_action c = FirewallActionAdd" by blast
  then have "verify_chain snap (envelope_rules p) c = None"
    using assms(2) rules
    by (simp add: verifyNftTableSnapshot_def envelope_composition_def planned_chains_def Let_def first_error_None_iff
        split: if_splits)
  with c(2) m show ?thesis
    by (auto simp: verify_chain_def list_all2_eq_conv split: option.splits if_splits)
qed

text \<open>A live table verifies against at most one envelope.  Two valid protection records whose envelopes both verify
  on the same snapshot stand for the same interface, endpoints and marks, so the recovery of a replacement
  can never confuse the old, the widened and the new composition.\<close>

theorem live_table_matches_one_envelope:
  assumes "privacyEnvelopePlanFromAuthority p = Inr plan" and "privacyEnvelopePlanFromAuthority q = Inr plan'"
    and "verifyNftTableSnapshot snap (envelope_composition plan) = None"
    and "verifyNftTableSnapshot snap (envelope_composition plan') = None"
  shows "np_interface p = np_interface q \<and> np_bootstrap p = np_bootstrap q \<and> np_marks p = np_marks q \<and>
     (np_table p = np_table q \<longrightarrow> plan = plan')"
proof -
  have e: "canonical_envelope p = canonical_envelope q"
    using envelope_verified [OF assms(1,3)] envelope_verified [OF assms(2,4)] by auto
  note inj = canonical_envelope_inj [OF e]
  then have "envelope_rules p = envelope_rules q" by (simp add: envelope_rules_def)
  with assms(1,2) have "np_table p = np_table q \<Longrightarrow> plan = plan'"
    by (auto simp: privacyEnvelopePlanFromAuthority_def validateNetworkSessionProtection_def first_error_None_iff
        split: option.splits if_splits)
  with inj show ?thesis by blast
qed

definition envelope_snapshot :: "networkSessionProtection \<Rightarrow> nftTableSnapshot" where
  "envelope_snapshot p =
     \<lparr>nt_family = np_family p, nt_name = np_table p, nt_flags = [], nt_handle = 7,
      nt_chains = [(''output'', \<lparr>nc_name = ''output'', nc_type = ''filter'', nc_hook = ''output'', nc_prio = - 10,
        nc_policy = ''accept'', nc_device = [], nc_rules = canonical_envelope p\<rparr>)]\<rparr>"

lemma envelope_snapshot_verifies:
  assumes "privacyEnvelopePlanFromAuthority p = Inr plan"
  shows "verifyNftTableSnapshot (envelope_snapshot p) (envelope_composition plan) = None"
proof -
  from assms have v: "validateNetworkSessionProtection p = None" and rules: "pe_rules plan = envelope_rules p"
    and chains: "pe_chains plan = [\<lparr>fcp_name = ''output'', fcp_type = ''filter'', fcp_hook = ''output'', fcp_priority = - 10,
       fcp_policy = ''accept'', fcp_action = FirewallActionAdd, fcp_reason = privacyEnvelopeReason\<rparr>]"
    by (auto simp: privacyEnvelopePlanFromAuthority_def split: option.splits if_splits)
  from canonical_envelope_rules [OF v] show ?thesis
    by (simp add: envelope_planned_rules verifyNftTableSnapshot_def envelope_composition_def rules chains planned_chains_def Let_def
        first_error_None_iff verify_chain_def envelope_snapshot_def list_all2_eq_conv)
qed

theorem live_table_matches_one_envelope_witness:
  "\<exists>plan plan'. privacyEnvelopePlanFromAuthority demo_protection = Inr plan \<and>
     privacyEnvelopePlanFromAuthority (demo_protection\<lparr>np_state := ProtectionArming\<rparr>) = Inr plan' \<and> plan = plan'"
proof -
  let ?q = "demo_protection\<lparr>np_state := ProtectionArming\<rparr>"
  have "validateNetworkSessionProtection ?q = None"
    by (simp add: validateNetworkSessionProtection_def demo_protection_def privacyEnvelopeTablePattern_def lower_hex_def
      is_digit_def table_suffix_def validateNetworkSessionInterface_def interface_char_def alnum_def id_letter_def
      composition_error_def privacyEnvelopeCompositionVersion_def privacyEnvelopeMarkedCompositionVersion_def
      validateEgressMarks_def previous_bootstrap_error_def previous_marks_error_def)
  then obtain plan' where q: "privacyEnvelopePlanFromAuthority ?q = Inr plan'" using planned by blast
  obtain plan where p: "privacyEnvelopePlanFromAuthority demo_protection = Inr plan" using planned demo_protection_valid by blast
  have "canonical_envelope ?q = canonical_envelope demo_protection" by (simp add: canonical_envelope_def)
  then have "envelope_snapshot ?q = envelope_snapshot demo_protection" by (simp add: envelope_snapshot_def)
  with live_table_matches_one_envelope [OF p q envelope_snapshot_verifies [OF p]] envelope_snapshot_verifies [OF q] p q
  show ?thesis by auto
qed

end
