(* ===== verification/Envelope_Lifecycle.thy ===== *)
theory Envelope_Lifecycle
  imports Privacy_Envelope
begin

text \<open>
  The life of a privacy envelope: \<^verbatim>\<open>src/internal/daemon/privacy_envelope_lifecycle.go\<close> (arm, replace, verify,
  remove) and the restart recovery of \<^verbatim>\<open>network_session_privacy_recovery.go\<close>, on top of the session record
  and of the executor interface, and the executor of \<^verbatim>\<open>src/internal/network/executor/privacy_envelope.go\<close>.

  Each call of the store or of the executor is one tick: the environment of the calls is a function of the
  tick, so a program is run under every combination of failures.  A call of the executor may fail before it
  has an effect or after it.
\<close>

section \<open>The executor interface and the system\<close>

datatype call_fault = NoFault | FailBefore | FailAfter

record 'w executor =
  ex_table_exists :: "call_fault \<Rightarrow> string \<Rightarrow> string \<Rightarrow> 'w \<Rightarrow> bool option"
  ex_exists :: "call_fault \<Rightarrow> PrivacyEnvelopePlan \<Rightarrow> 'w \<Rightarrow> bool option"
  ex_apply :: "call_fault \<Rightarrow> PrivacyEnvelopePlan \<Rightarrow> 'w \<Rightarrow> 'w \<times> bool"
  ex_replace :: "call_fault \<Rightarrow> PrivacyEnvelopePlan \<Rightarrow> PrivacyEnvelopePlan \<Rightarrow> 'w \<Rightarrow> 'w \<times> bool"
  ex_verify :: "call_fault \<Rightarrow> PrivacyEnvelopePlan \<Rightarrow> 'w \<Rightarrow> bool"
  ex_remove :: "call_fault \<Rightarrow> PrivacyEnvelopePlan \<Rightarrow> 'w \<Rightarrow> 'w \<times> bool"

record call_env =
  ce_load :: session_env
  ce_write :: session_env
  ce_fault :: call_fault

record 'w system =
  sy_disk :: session_disk
  sy_fw :: 'w
  sy_tick :: nat

datatype lifecycle_error =
    Refused string
  | StoreFailed session_error
  | PlanFailed envelope_error
  | ExecFailed string

type_synonym ('w, 'a) act = "('w system, lifecycle_error, 'a) prog"

definition lift_plan :: "envelope_error + 'a \<Rightarrow> ('w, 'a) act" where
  "lift_plan r = (case r of Inl e \<Rightarrow> fail (PlanFailed e) | Inr x \<Rightarrow> ret x)"

subsection \<open>Calls\<close>

definition store_load :: "(nat \<Rightarrow> call_env) \<Rightarrow> ('w, networkSessionState option) act" where
  "store_load orc s =
     (case loadLocked (ce_load (orc (sy_tick s))) (sy_disk s) of
        (d, r) \<Rightarrow> (s\<lparr>sy_disk := d, sy_tick := Suc (sy_tick s)\<rparr>, map_sum StoreFailed id r))"

definition store_unit ::
  "(nat \<Rightarrow> call_env) \<Rightarrow> (session_env \<Rightarrow> session_env \<Rightarrow> session_disk \<Rightarrow> session_disk \<times> session_error option) \<Rightarrow>
   ('w, unit) act" where
  "store_unit orc f s =
     (case f (ce_load (orc (sy_tick s))) (ce_write (orc (sy_tick s))) (sy_disk s) of
        (d, e) \<Rightarrow> (s\<lparr>sy_disk := d, sy_tick := Suc (sy_tick s)\<rparr>,
                   case e of None \<Rightarrow> Inr () | Some x \<Rightarrow> Inl (StoreFailed x)))"

definition store_set_protection ::
  "(nat \<Rightarrow> call_env) \<Rightarrow> networkSessionProtection option \<Rightarrow> ('w, unit) act" where
  "store_set_protection orc p = store_unit orc (\<lambda>el ev. SetProtection el ev p)"

definition store_restore :: "(nat \<Rightarrow> call_env) \<Rightarrow> ('w, unit) act" where
  "store_restore orc = store_unit orc RestoreReplacement"

definition exec_query :: "(nat \<Rightarrow> call_env) \<Rightarrow> string \<Rightarrow> (call_fault \<Rightarrow> 'w \<Rightarrow> 'a option) \<Rightarrow> ('w, 'a) act" where
  "exec_query orc what f s =
     (s\<lparr>sy_tick := Suc (sy_tick s)\<rparr>,
      case f (ce_fault (orc (sy_tick s))) (sy_fw s) of None \<Rightarrow> Inl (ExecFailed what) | Some x \<Rightarrow> Inr x)"

definition exec_mutation :: "(nat \<Rightarrow> call_env) \<Rightarrow> string \<Rightarrow> (call_fault \<Rightarrow> 'w \<Rightarrow> 'w \<times> bool) \<Rightarrow> ('w, unit) act" where
  "exec_mutation orc what f s =
     (case f (ce_fault (orc (sy_tick s))) (sy_fw s) of
        (w, ok) \<Rightarrow> (s\<lparr>sy_fw := w, sy_tick := Suc (sy_tick s)\<rparr>, if ok then Inr () else Inl (ExecFailed what)))"

definition exec_exists :: "(nat \<Rightarrow> call_env) \<Rightarrow> 'w executor \<Rightarrow> PrivacyEnvelopePlan \<Rightarrow> ('w, bool) act" where
  "exec_exists orc ex plan = exec_query orc ''exists'' (\<lambda>f w. ex_exists ex f plan w)"

definition exec_verify :: "(nat \<Rightarrow> call_env) \<Rightarrow> 'w executor \<Rightarrow> PrivacyEnvelopePlan \<Rightarrow> ('w, unit) act" where
  "exec_verify orc ex plan = exec_query orc ''verify'' (\<lambda>f w. if ex_verify ex f plan w then Some () else None)"

definition exec_apply :: "(nat \<Rightarrow> call_env) \<Rightarrow> 'w executor \<Rightarrow> PrivacyEnvelopePlan \<Rightarrow> ('w, unit) act" where
  "exec_apply orc ex plan = exec_mutation orc ''apply'' (\<lambda>f w. ex_apply ex f plan w)"

definition exec_replace ::
  "(nat \<Rightarrow> call_env) \<Rightarrow> 'w executor \<Rightarrow> PrivacyEnvelopePlan \<Rightarrow> PrivacyEnvelopePlan \<Rightarrow> ('w, unit) act" where
  "exec_replace orc ex old new = exec_mutation orc ''replace'' (\<lambda>f w. ex_replace ex f old new w)"

definition exec_remove :: "(nat \<Rightarrow> call_env) \<Rightarrow> 'w executor \<Rightarrow> PrivacyEnvelopePlan \<Rightarrow> ('w, unit) act" where
  "exec_remove orc ex plan = exec_mutation orc ''remove'' (\<lambda>f w. ex_remove ex f plan w)"

text \<open>The allocation observes the candidates under one fault.\<close>

definition exec_allocate ::
  "(nat \<Rightarrow> call_env) \<Rightarrow> 'w executor \<Rightarrow>
   ((string \<Rightarrow> string \<Rightarrow> bool option) option \<Rightarrow> envelope_error + (networkSessionProtection \<times> PrivacyEnvelopePlan)) \<Rightarrow>
   ('w, networkSessionProtection \<times> PrivacyEnvelopePlan) act" where
  "exec_allocate orc ex alloc s =
     lift_plan (alloc (Some (\<lambda>fam t. ex_table_exists ex (ce_fault (orc (sy_tick s))) fam t (sy_fw s))))
       (s\<lparr>sy_tick := Suc (sy_tick s)\<rparr>)"

section \<open>Replacing the composition of an envelope\<close>

definition tunRuntimeServerAddress :: "TunPlan \<Rightarrow> string" where
  "tunRuntimeServerAddress plan =
     (let dst = trim_space (trp_destination (tp_server_bypass plan)) in
      if dst = [] \<or> dst = ''<server-ip>'' then []
      else case parse_cidr dst of
        Some (IP4 w, net) \<Rightarrow> ip4_text w
      | _ \<Rightarrow> (case parse_ip dst of Some (IP4 w) \<Rightarrow> ip4_text w | _ \<Rightarrow> []))"

definition privacyEnvelopeBootstrapForTunPlan :: "TunPlan \<Rightarrow> envelope_error + string list" where
  "privacyEnvelopeBootstrapForTunPlan plan =
     (if tunRuntimeServerAddress plan = [] then Inl NoEndpoint
      else normalizePrivacyEnvelopeBootstrapIPv4 [tunRuntimeServerAddress plan])"

definition next_endpoints :: "networkSessionProtection \<Rightarrow> string list \<Rightarrow> string list \<Rightarrow> networkSessionProtection" where
  "next_endpoints current target previous =
     current\<lparr>np_state := ProtectionArming, np_bootstrap := target, np_previous_bootstrap := previous\<rparr>"

definition next_marks :: "networkSessionProtection \<Rightarrow> 32 word list \<Rightarrow> 32 word list \<Rightarrow> networkSessionProtection" where
  "next_marks current target previous =
     current\<lparr>np_state := ProtectionArming, np_marks := target, np_previous_marks := previous\<rparr>"

text \<open>\<^verbatim>\<open>replaceProtection\<close> and \<^verbatim>\<open>replaceMarkedProtection\<close>: the next composition is durable before the firewall is
  changed.\<close>

definition replace_with ::
  "(nat \<Rightarrow> call_env) \<Rightarrow> 'w executor \<Rightarrow> networkSessionProtection \<Rightarrow> networkSessionProtection \<Rightarrow> ('w, unit) act" where
  "replace_with orc ex current next =
     bindp (lift_plan (privacyEnvelopePlanFromAuthority current)) (\<lambda>currentPlan.
     bindp (lift_plan (privacyEnvelopePlanFromAuthority next)) (\<lambda>nextPlan.
     bindp (store_set_protection orc (Some next)) (\<lambda>u.
       exec_replace orc ex currentPlan nextPlan)))"

definition replaceProtection ::
  "(nat \<Rightarrow> call_env) \<Rightarrow> 'w executor \<Rightarrow> networkSessionProtection \<Rightarrow> string list \<Rightarrow> string list \<Rightarrow> ('w, unit) act" where
  "replaceProtection orc ex current target previous = replace_with orc ex current (next_endpoints current target previous)"

definition replaceMarkedProtection ::
  "(nat \<Rightarrow> call_env) \<Rightarrow> 'w executor \<Rightarrow> networkSessionProtection \<Rightarrow> 32 word list \<Rightarrow> 32 word list \<Rightarrow> ('w, unit) act" where
  "replaceMarkedProtection orc ex current target previous = replace_with orc ex current (next_marks current target previous)"

section \<open>Arming\<close>

definition persist_and_apply ::
  "(nat \<Rightarrow> call_env) \<Rightarrow> 'w executor \<Rightarrow> networkSessionProtection \<times> PrivacyEnvelopePlan \<Rightarrow> ('w, unit) act" where
  "persist_and_apply orc ex pp =
     bindp (store_set_protection orc (Some (fst pp))) (\<lambda>u. exec_apply orc ex (snd pp))"

definition armMarked ::
  "(nat \<Rightarrow> call_env) \<Rightarrow> 'w executor \<Rightarrow> networkSessionState \<Rightarrow> TunPlan \<Rightarrow> ('w, unit) act" where
  "armMarked orc ex state plan =
     bindp (lift_plan (normalizePrivacyEnvelopeEgressMarks [tp_egress_mark plan])) (\<lambda>target.
       case ns_protection state of
         Some prot \<Rightarrow>
           if np_version prot \<noteq> privacyEnvelopeMarkedCompositionVersion then fail (Refused ''endpoint envelope'')
           else if np_state prot = ProtectionRemoving then fail (Refused ''being removed'')
           else if np_interface prot \<noteq> tdp_name (tp_device plan) then fail (Refused ''interface'')
           else if ns_replacement state \<noteq> None \<and> np_marks prot \<noteq> target
             then replaceMarkedProtection orc ex prot target (np_marks prot)
           else if np_marks prot \<noteq> target then fail (Refused ''data plane'')
           else bindp (lift_plan (privacyEnvelopePlanFromAuthority prot)) (\<lambda>p. ret ())
       | None \<Rightarrow>
           bindp (exec_allocate orc ex
                    (allocateMarkedPrivacyEnvelope (ns_session_id state) (tdp_name (tp_device plan)) (tp_egress_mark plan)))
             (persist_and_apply orc ex))"

definition arm_endpoints ::
  "(nat \<Rightarrow> call_env) \<Rightarrow> 'w executor \<Rightarrow> networkSessionState \<Rightarrow> TunPlan \<Rightarrow> ('w, unit) act" where
  "arm_endpoints orc ex state plan =
     bindp (lift_plan (privacyEnvelopeBootstrapForTunPlan plan)) (\<lambda>bootstrap.
       case ns_protection state of
         Some prot \<Rightarrow>
           if np_state prot = ProtectionRemoving then fail (Refused ''being removed'')
           else if np_interface prot \<noteq> tdp_name (tp_device plan) then fail (Refused ''interface'')
           else if ns_replacement state \<noteq> None \<and> np_bootstrap prot \<noteq> bootstrap
             then replaceProtection orc ex prot bootstrap (np_bootstrap prot)
           else if np_bootstrap prot \<noteq> bootstrap then fail (Refused ''data plane'')
           else bindp (lift_plan (privacyEnvelopePlanFromAuthority prot)) (\<lambda>p. ret ())
       | None \<Rightarrow>
           bindp (exec_allocate orc ex
                    (allocatePrivacyEnvelope (ns_session_id state) (tdp_name (tp_device plan)) bootstrap))
             (persist_and_apply orc ex))"

definition with_executor :: "'w executor option \<Rightarrow> ('w executor \<Rightarrow> ('w, 'a) act) \<Rightarrow> ('w, 'a) act" where
  "with_executor exo f = (case exo of None \<Rightarrow> fail (Refused ''no executor'') | Some ex \<Rightarrow> f ex)"

definition Arm :: "(nat \<Rightarrow> call_env) \<Rightarrow> 'w executor option \<Rightarrow> TunPlan \<Rightarrow> ('w, unit) act" where
  "Arm orc exo plan =
     with_executor exo (\<lambda>ex.
       bindp (store_load orc) (\<lambda>r.
         case r of
           None \<Rightarrow> fail (Refused ''no session'')
         | Some state \<Rightarrow>
             if ns_intent state \<noteq> IntentResume then fail (Refused ''intent'')
             else if tp_egress_mark plan \<noteq> 0 then armMarked orc ex state plan
             else arm_endpoints orc ex state plan))"

section \<open>Verifying\<close>

definition verified_protection :: "networkSessionProtection \<Rightarrow> networkSessionProtection" where
  "verified_protection p = p\<lparr>np_state := ProtectionArmed, np_previous_bootstrap := [], np_previous_marks := []\<rparr>"

definition Verify :: "(nat \<Rightarrow> call_env) \<Rightarrow> 'w executor option \<Rightarrow> ('w, unit) act" where
  "Verify orc exo =
     with_executor exo (\<lambda>ex.
       bindp (store_load orc) (\<lambda>r.
         case Option.bind r ns_protection of
           None \<Rightarrow> fail (Refused ''no authority'')
         | Some prot \<Rightarrow>
             if np_state prot = ProtectionRemoving \<or> np_state prot = ProtectionUnarmed then fail (Refused ''state'')
             else
               bindp (lift_plan (privacyEnvelopePlanFromAuthority prot)) (\<lambda>plan.
               bindp (exec_verify orc ex plan) (\<lambda>u.
                 if np_state prot = ProtectionArmed \<and> np_previous_bootstrap prot = [] \<and> np_previous_marks prot = []
                 then ret ()
                 else store_set_protection orc (Some (verified_protection prot))))))"

section \<open>Preparing a replacement\<close>

definition prepareMarkedReplacement ::
  "(nat \<Rightarrow> call_env) \<Rightarrow> 'w executor \<Rightarrow> networkSessionState \<Rightarrow> TunPlan \<Rightarrow> ('w, unit) act" where
  "prepareMarkedReplacement orc ex state plan =
     (case ns_protection state of
        None \<Rightarrow> fail (Refused ''no marked authority'')
      | Some prot \<Rightarrow>
          if np_version prot \<noteq> privacyEnvelopeMarkedCompositionVersion then fail (Refused ''no marked authority'')
          else
            bindp (lift_plan (normalizePrivacyEnvelopeEgressMarks [tp_egress_mark plan])) (\<lambda>target.
            bindp (lift_plan (normalizePrivacyEnvelopeEgressMarks (np_marks prot @ target))) (\<lambda>union.
              if union = np_marks prot then ret ()
              else bindp (replaceMarkedProtection orc ex prot union (np_marks prot)) (\<lambda>u. Verify orc (Some ex)))))"

definition PrepareReplacement :: "(nat \<Rightarrow> call_env) \<Rightarrow> 'w executor option \<Rightarrow> TunPlan \<Rightarrow> ('w, unit) act" where
  "PrepareReplacement orc exo plan =
     with_executor exo (\<lambda>ex.
       bindp (store_load orc) (\<lambda>r.
         case r of
           None \<Rightarrow> fail (Refused ''no previous authority'')
         | Some state \<Rightarrow>
             (case ns_protection state of
                None \<Rightarrow> fail (Refused ''no previous authority'')
              | Some prot \<Rightarrow>
                  if ns_replacement state = None then fail (Refused ''no previous authority'')
                  else if ns_intent state \<noteq> IntentResume then fail (Refused ''intent'')
                  else if np_state prot \<noteq> ProtectionArmed then fail (Refused ''not armed'')
                  else if np_interface prot \<noteq> tdp_name (tp_device plan) then fail (Refused ''interface'')
                  else if tp_egress_mark plan \<noteq> 0 then prepareMarkedReplacement orc ex state plan
                  else
                    bindp (lift_plan (privacyEnvelopeBootstrapForTunPlan plan)) (\<lambda>target.
                    bindp (lift_plan (normalizePrivacyEnvelopeBootstrapIPv4 (np_bootstrap prot @ target))) (\<lambda>union.
                      if union = np_bootstrap prot then ret ()
                      else bindp (replaceProtection orc ex prot union (np_bootstrap prot)) (\<lambda>u. Verify orc (Some ex)))))))"

section \<open>Recovery of a replacement\<close>

definition restoreProtectedReplacementAuthority :: "(nat \<Rightarrow> call_env) \<Rightarrow> ('w, networkSessionState) act" where
  "restoreProtectedReplacementAuthority orc =
     bindp (store_restore orc) (\<lambda>u.
     bindp (store_load orc) (\<lambda>r.
       case r of
         None \<Rightarrow> fail (Refused ''incomplete'')
       | Some restored \<Rightarrow>
           if ns_protection restored = None \<or> ns_replacement restored \<noteq> None then fail (Refused ''incomplete'')
           else ret restored))"

definition replacement_authorities ::
  "networkSessionProtection \<Rightarrow> networkSessionProtection \<Rightarrow> networkSessionProtection list" where
  "replacement_authorities prev prot =
     [prev, prot] @
     guarded (np_previous_bootstrap prot \<noteq> [])
       [prot\<lparr>np_state := ProtectionArmed, np_bootstrap := np_previous_bootstrap prot, np_previous_bootstrap := []\<rparr>] @
     guarded (np_previous_marks prot \<noteq> [])
       [prot\<lparr>np_state := ProtectionArmed, np_marks := np_previous_marks prot, np_previous_marks := []\<rparr>]"

definition replacementRecoveryPlans ::
  "networkSessionProtection \<Rightarrow> networkSessionProtection \<Rightarrow> envelope_error + PrivacyEnvelopePlan list" where
  "replacementRecoveryPlans prev prot =
     rbind (map_result privacyEnvelopePlanFromAuthority (replacement_authorities prev prot)) (\<lambda>plans. Inr (dedup plans))"

text \<open>The candidates are verified one after the other; a second match is refused.\<close>

fun match_candidate ::
  "(nat \<Rightarrow> call_env) \<Rightarrow> 'w executor \<Rightarrow> PrivacyEnvelopePlan option \<Rightarrow> PrivacyEnvelopePlan list \<Rightarrow>
   ('w, PrivacyEnvelopePlan) act" where
  "match_candidate orc ex found [] s =
     (case found of None \<Rightarrow> (s, Inl (Refused ''no composition'')) | Some p \<Rightarrow> (s, Inr p))"
| "match_candidate orc ex found (plan # plans) s =
     (case exec_verify orc ex plan s of
        (s', Inl e) \<Rightarrow> match_candidate orc ex found plans s'
      | (s', Inr u) \<Rightarrow>
          if found \<noteq> None then (s', Inl (Refused ''multiple compositions''))
          else match_candidate orc ex (Some plan) plans s')"

definition reconcileProtectedNetworkSessionReplacement ::
  "(nat \<Rightarrow> call_env) \<Rightarrow> 'w executor \<Rightarrow> networkSessionState \<Rightarrow> ('w, networkSessionState) act" where
  "reconcileProtectedNetworkSessionReplacement orc ex state =
     (case (Option.bind (ns_replacement state) nr_protection, ns_protection state) of
        (Some prev, Some prot) \<Rightarrow>
          bindp (lift_plan (privacyEnvelopePlanFromAuthority prev)) (\<lambda>previousPlan.
          bindp (exec_exists orc ex previousPlan) (\<lambda>present.
            if \<not> present then
              bindp (exec_apply orc ex previousPlan) (\<lambda>u.
              bindp (exec_verify orc ex previousPlan) (\<lambda>u. restoreProtectedReplacementAuthority orc))
            else
              bindp (lift_plan (replacementRecoveryPlans prev prot)) (\<lambda>plans.
              bindp (match_candidate orc ex None plans) (\<lambda>matched.
                if matched \<noteq> previousPlan then
                  bindp (exec_replace orc ex matched previousPlan) (\<lambda>u.
                  bindp (exec_verify orc ex previousPlan) (\<lambda>u. restoreProtectedReplacementAuthority orc))
                else restoreProtectedReplacementAuthority orc))))
      | _ \<Rightarrow> fail (Refused ''no rollback authority''))"

definition reconcileNetworkSessionProtection ::
  "(nat \<Rightarrow> call_env) \<Rightarrow> 'w executor option \<Rightarrow> ('w, networkSessionState option) act" where
  "reconcileNetworkSessionProtection orc exo =
     bindp (store_load orc) (\<lambda>r.
       case r of
         None \<Rightarrow> ret None
       | Some state \<Rightarrow>
           (case ns_protection state of
              None \<Rightarrow> ret (Some state)
            | Some prot \<Rightarrow>
                with_executor exo (\<lambda>ex.
                  if ns_intent state \<noteq> IntentResume then fail (Refused ''intent'')
                  else if np_state prot \<noteq> ProtectionArming \<and> np_state prot \<noteq> ProtectionArmed then fail (Refused ''state'')
                  else if ns_replacement state \<noteq> None then
                    bindp (reconcileProtectedNetworkSessionReplacement orc ex state) (\<lambda>st. ret (Some st))
                  else
                    bindp (lift_plan (privacyEnvelopePlanFromAuthority prot)) (\<lambda>plan.
                    bindp (exec_exists orc ex plan) (\<lambda>present.
                    bindp (if present then exec_verify orc ex plan
                           else bindp (exec_apply orc ex plan) (\<lambda>u. exec_verify orc ex plan)) (\<lambda>u.
                      if np_state prot \<noteq> ProtectionArmed then
                        bindp (store_set_protection orc (Some (prot\<lparr>np_state := ProtectionArmed\<rparr>))) (\<lambda>u.
                          ret (Some (state\<lparr>ns_protection := Some (prot\<lparr>np_state := ProtectionArmed\<rparr>)\<rparr>)))
                      else ret (Some state)))))))"

text \<open>The transport endpoint that the protected session of a profile already authorises.\<close>

definition networkSessionBootstrapServer :: "(nat \<Rightarrow> call_env) \<Rightarrow> string \<Rightarrow> ('w, string option) act" where
  "networkSessionBootstrapServer orc profileID =
     bindp (store_load orc) (\<lambda>r.
       case r of
         None \<Rightarrow> ret None
       | Some state \<Rightarrow>
           (case ns_protection state of
              None \<Rightarrow> ret None
            | Some prot \<Rightarrow>
                if ns_intent state \<noteq> IntentResume then ret None
                else if trim_space profileID = [] \<or> cr_mode (ns_request state) \<noteq> ModeTun \<or>
                        pr_id (cr_profile (ns_request state)) \<noteq> profileID then ret None
                else if np_state prot \<noteq> ProtectionArming \<and> np_state prot \<noteq> ProtectionArmed then ret None
                else bindp (lift_plan (privacyEnvelopePlanFromAuthority prot)) (\<lambda>plan.
                  if np_version prot = privacyEnvelopeMarkedCompositionVersion then ret None
                  else if np_bootstrap prot = [] then fail (Refused ''no endpoint'')
                  else ret (Some (hd (np_bootstrap prot))))))"

definition CleanupAfterFailedDataPlane :: "(nat \<Rightarrow> call_env) \<Rightarrow> 'w executor option \<Rightarrow> ('w, unit) act" where
  "CleanupAfterFailedDataPlane orc exo =
     with_executor exo (\<lambda>ex.
       bindp (store_load orc) (\<lambda>r.
         case r of
           None \<Rightarrow> ret ()
         | Some state \<Rightarrow>
             if ns_replacement state = None then ret ()
             else bindp (reconcileProtectedNetworkSessionReplacement orc ex state) (\<lambda>st. ret ())))"

section \<open>Removal\<close>

definition remove_protected ::
  "(nat \<Rightarrow> call_env) \<Rightarrow> 'w executor \<Rightarrow> networkSessionProtection \<Rightarrow> ('w, unit) act" where
  "remove_protected orc ex prot =
     bindp (lift_plan (privacyEnvelopePlanFromAuthority prot)) (\<lambda>plan.
     bindp (exec_exists orc ex plan) (\<lambda>present.
       if \<not> present then store_set_protection orc None
       else
         bindp (exec_verify orc ex plan) (\<lambda>u.
         bindp (store_set_protection orc (Some (prot\<lparr>np_state := ProtectionRemoving\<rparr>))) (\<lambda>u.
         bindp (exec_remove orc ex plan) (\<lambda>u.
         bindp (exec_exists orc ex plan) (\<lambda>present.
           if present then fail (Refused ''still exists'') else store_set_protection orc None))))))"

definition RemoveAfterDataPlaneCleanup :: "(nat \<Rightarrow> call_env) \<Rightarrow> 'w executor option \<Rightarrow> ('w, unit) act" where
  "RemoveAfterDataPlaneCleanup orc exo =
     with_executor exo (\<lambda>ex.
       bindp (store_load orc) (\<lambda>r.
         case r of
           None \<Rightarrow> ret ()
         | Some state \<Rightarrow>
             (case ns_protection state of
                None \<Rightarrow> ret ()
              | Some prot \<Rightarrow>
                  if ns_replacement state = None then remove_protected orc ex prot
                  else
                    bindp (lift_plan (privacyEnvelopePlanFromAuthority prot)) (\<lambda>identity.
                    bindp (exec_exists orc ex identity) (\<lambda>present.
                      if \<not> present then
                        bindp (store_restore orc) (\<lambda>u. store_set_protection orc None)
                      else
                        bindp (reconcileProtectedNetworkSessionReplacement orc ex state) (\<lambda>st.
                        bindp (store_load orc) (\<lambda>r.
                          case Option.bind r ns_protection of
                            None \<Rightarrow> fail (Refused ''lost authority'')
                          | Some prot' \<Rightarrow> remove_protected orc ex prot')))))))"

end
