(* ===== verification/Nft_Mutation.thy ===== *)
theory Nft_Mutation
  imports Nft_Facts Envelope_Lifecycle
begin

text \<open>
  Changing a firewall table: the netlink encoding of planned rules and the generation-guarded mutation of
  \<^verbatim>\<open>src/internal/network/executor/nftables_mutation.go\<close>, the executor of privacy envelopes
  (\<^verbatim>\<open>privacy_envelope.go\<close>, \<^verbatim>\<open>privacy_envelope_observer.go\<close>) and the executor of the ordinary table
  (\<^verbatim>\<open>nftables.go\<close>, \<^verbatim>\<open>nftables_verify_output.go\<close>, \<^verbatim>\<open>nftables_observer.go\<close>).

  The \<^verbatim>\<open>nft\<close> program and the kernel are a parameter, the record \<open>nft_host\<close>.  Other programs may change the
  ruleset between any two calls: before each call the environment of its tick transforms the world.
\<close>

section \<open>Netlink expressions\<close>

datatype nft_key = KeyOifname | KeyNfproto | KeyL4proto | KeyMark
datatype nft_header = NetworkHeader | TransportHeader
datatype nft_cmp = CmpEq | CmpNeq

text \<open>A lookup carries the elements of its anonymous set.\<close>

datatype nft_expr =
    Meta nft_key nat
  | Cmp nft_cmp nat "nat list"
  | Payload nat nft_header nat nat
  | Lookup nat "nat list list"
  | Counter
  | Accept
  | Drop
  | Reject

definition nftIfname :: "string \<Rightarrow> nat list" where
  "nftIfname name = (let bs = take 16 (map byte name @ [0]) in bs @ replicate (16 - length bs) 0)"

definition parseNftUint32 :: "string \<Rightarrow> nat decoded" where
  "parseNftUint32 value = (case parse_uint0 32 (trim_space value) of None \<Rightarrow> Inl ''uint32'' | Some n \<Rightarrow> Inr n)"

fun port_from :: "nat \<Rightarrow> string \<Rightarrow> nat decoded" where
  "port_from port [] = Inr port"
| "port_from port (c # s) =
     (if \<not> is_digit c then Inl ''UDP port''
      else if 65535 < port * 10 + (byte c - 48) then Inl ''UDP port''
      else port_from (port * 10 + (byte c - 48)) s)"

definition parseNftPort :: "string \<Rightarrow> nat decoded" where
  "parseNftPort value = port_from 0 value"

definition nftICMPv6Type :: "string \<Rightarrow> nat decoded" where
  "nftICMPv6Type value =
     (let v = trim_space value in
      if v = ''nd-router-solicit'' \<or> v = ''133'' then Inr 133
      else if v = ''nd-neighbor-solicit'' \<or> v = ''135'' then Inr 135
      else if v = ''nd-neighbor-advert'' \<or> v = ''136'' then Inr 136
      else Inl ''ICMPv6 type'')"

definition be16 :: "nat \<Rightarrow> nat list" where
  "be16 n = [n div 256 mod 256, n mod 256]"

definition be32 :: "nat \<Rightarrow> nat list" where
  "be32 n = [n div 16777216 mod 256, n div 65536 mod 256, n div 256 mod 256, n mod 256]"

fun netlink_types :: "string list \<Rightarrow> (nat list \<times> string list) decoded" where
  "netlink_types [] = Inl ''unterminated set''"
| "netlink_types (f # fs) =
     (if f = ''}'' then Inr ([], fs)
      else rbind (nftICMPv6Type (trim_suffix f '','')) (\<lambda>t.
           rbind (netlink_types fs) (\<lambda>(ts, rest). Inr (t # ts, rest))))"

lemma netlink_types_shorter: "netlink_types fs = Inr (ts, rest) \<Longrightarrow> length rest < length fs"
  by (induction fs arbitrary: ts rest)
    (auto simp: rbind_Inr_iff split: if_splits prod.splits)

definition encode :: "nft_expr list decoded \<Rightarrow> nft_expr list decoded \<Rightarrow> nft_expr list decoded" where
  "encode one rest = rbind one (\<lambda>es. rbind rest (\<lambda>fs. Inr (es @ fs)))"

definition encode_oifname :: "nft_cmp \<Rightarrow> string \<Rightarrow> nft_expr list" where
  "encode_oifname op value = [Meta KeyOifname 1, Cmp op 1 (nftIfname value)]"

definition encode_daddr :: "string \<Rightarrow> nft_expr list decoded" where
  "encode_daddr value =
     (case parse_ip value of
        Some (IP4 w) \<Rightarrow> Inr [Meta KeyNfproto 1, Cmp CmpEq 1 [2], Payload 1 NetworkHeader 16 4, Cmp CmpEq 1 (octets w)]
      | _ \<Rightarrow> Inl ''IPv4 destination'')"

definition encode_meta :: "string \<Rightarrow> string \<Rightarrow> nft_expr list decoded" where
  "encode_meta key value =
     (if key = ''nfproto'' then
        (if value = ''ipv4'' then Inr [Meta KeyNfproto 1, Cmp CmpEq 1 [2]]
         else if value = ''ipv6'' then Inr [Meta KeyNfproto 1, Cmp CmpEq 1 [10]]
         else Inl ''nfproto'')
      else if key = ''mark'' then
        rbind (parseNftUint32 value) (\<lambda>mark. Inr [Meta KeyMark 1, Cmp CmpEq 1 (be32 mark)])
      else Inl ''meta'')"

definition encode_udp :: "bool \<Rightarrow> string \<Rightarrow> string \<Rightarrow> nft_expr list decoded" where
  "encode_udp loaded key value =
     rbind (parseNftPort value) (\<lambda>port.
       Inr ((if loaded then [] else [Meta KeyL4proto 1, Cmp CmpEq 1 [17]]) @
            [Payload 1 TransportHeader (if key = ''dport'' then 2 else 0) 2, Cmp CmpEq 1 (be16 port)]))"

definition encode_icmp :: "nat list \<Rightarrow> nft_expr list" where
  "encode_icmp types =
     [Meta KeyNfproto 1, Cmp CmpEq 1 [10], Meta KeyL4proto 1, Cmp CmpEq 1 [58],
      Payload 1 TransportHeader 0 1, Lookup 1 (map (\<lambda>t. [t]) types)]"

function netlink_fields :: "bool \<Rightarrow> string list \<Rightarrow> nft_expr list decoded" where
  "netlink_fields loaded [] = Inr []"
| "netlink_fields loaded (f # fs) =
     (if f = ''oifname'' then
        (if take 1 fs = [''!='']
         then (case fs of ne # v # rest \<Rightarrow> encode (Inr (encode_oifname CmpNeq v)) (netlink_fields loaded rest)
               | _ \<Rightarrow> Inl ''incomplete oifname'')
         else (case fs of v # rest \<Rightarrow> encode (Inr (encode_oifname CmpEq v)) (netlink_fields loaded rest)
               | _ \<Rightarrow> Inl ''incomplete oifname''))
      else if f = ''ip'' then
        (case fs of k # v # rest \<Rightarrow>
            if k = ''daddr'' then encode (encode_daddr v) (netlink_fields loaded rest) else Inl ''ip''
         | _ \<Rightarrow> Inl ''ip'')
      else if f = ''meta'' then
        (case fs of k # v # rest \<Rightarrow> encode (encode_meta k v) (netlink_fields loaded rest) | _ \<Rightarrow> Inl ''meta'')
      else if f = ''udp'' then
        (case fs of k # v # rest \<Rightarrow>
            if k = ''sport'' \<or> k = ''dport'' then encode (encode_udp loaded k v) (netlink_fields True rest)
            else Inl ''udp''
         | _ \<Rightarrow> Inl ''udp'')
      else if f = ''icmpv6'' then
        (case fs of k # br # v # rest \<Rightarrow>
            if k = ''type'' \<and> br = ''{'' then
              (case netlink_types (v # rest) of
                 Inl e \<Rightarrow> Inl e
               | Inr (ts, rest') \<Rightarrow>
                   if ts = [] then Inl ''empty set''
                   else encode (Inr (encode_icmp ts)) (netlink_fields loaded rest'))
            else Inl ''icmpv6''
         | _ \<Rightarrow> Inl ''icmpv6'')
      else Inl ''expression'')"
  by pat_completeness auto
termination
  by (relation "measure (length \<circ> snd)") (auto simp del: netlink_types.simps dest!: netlink_types_shorter)

definition nftRuleNetlinkExpressions :: "TunFirewallRulePlan \<Rightarrow> nft_expr list decoded" where
  "nftRuleNetlinkExpressions rule = netlink_fields False (nftExpressionFields (frp_expr rule))"

section \<open>Batches of the replacement\<close>

datatype nft_command =
    DelTable string
  | CreateTable string
  | AddChain string int bool
  | AddRule string "nft_expr list" string

record nftMutationTarget =
  mt_family :: string
  mt_table :: string
  mt_handle :: nat
  mt_generation :: "32 word"

definition ownedNFTFamily :: string where "ownedNFTFamily = ''inet''"
definition ownedNFTTable :: string where "ownedNFTTable = ''podlaz''"

definition validateNftMutationTarget :: "nftMutationTarget \<Rightarrow> string option" where
  "validateNftMutationTarget target =
     (if mt_family target \<noteq> ownedNFTFamily \<or> trim_space (mt_table target) = [] then Some ''target''
      else if mt_handle target = 0 then Some ''handle''
      else if mt_generation target = 0 then Some ''zero generation''
      else None)"

text \<open>The policy of a chain is \<open>True\<close> for accept and \<open>False\<close> for drop.\<close>

fun add_chains :: "string list \<Rightarrow> TunFirewallChainPlan list \<Rightarrow> nft_command list decoded" where
  "add_chains seen [] = Inr []"
| "add_chains seen (c # cs) =
     (if fcp_action c \<noteq> FirewallTableAction \<and> fcp_action c \<noteq> FirewallActionAdd then add_chains seen cs
      else if fcp_type c \<noteq> ''filter'' \<or> fcp_hook c \<noteq> ''output'' then Inl ''chain''
      else if fcp_name c \<in> set seen then Inl ''duplicate chain''
      else if fcp_policy c \<noteq> ''accept'' \<and> fcp_policy c \<noteq> FirewallVerdictDrop then Inl ''policy''
      else rbind (add_chains (fcp_name c # seen) cs) (\<lambda>cmds.
             Inr (AddChain (fcp_name c) (fcp_priority c) (fcp_policy c = ''accept'') # cmds)))"

definition addNftPlanChains :: "TunFirewallChainPlan list \<Rightarrow> nft_command list decoded" where
  "addNftPlanChains cs = add_chains [] cs"

definition verdict_exprs :: "string \<Rightarrow> nft_expr list decoded" where
  "verdict_exprs v =
     (if v = FirewallVerdictAccept then Inr [Accept] else if v = FirewallVerdictDrop then Inr [Drop]
      else if v = FirewallVerdictReject then Inr [Reject] else Inl ''verdict'')"

fun chain_added :: "string \<Rightarrow> nft_command list \<Rightarrow> bool" where
  "chain_added n [] = False"
| "chain_added n (c # cs) = ((case c of AddChain m p q \<Rightarrow> m = n | _ \<Rightarrow> False) \<or> chain_added n cs)"

fun addNftPlanRules :: "nft_command list \<Rightarrow> TunFirewallRulePlan list \<Rightarrow> nft_command list decoded" where
  "addNftPlanRules cs [] = Inr []"
| "addNftPlanRules cs (r # rs) =
     (if frp_action r \<noteq> FirewallActionAdd then addNftPlanRules cs rs
      else if \<not> chain_added (frp_chain r) cs then Inl ''unknown chain''
      else rbind (nftRuleNetlinkExpressions r) (\<lambda>es.
           rbind (verdict_exprs (frp_verdict r)) (\<lambda>v.
           rbind (addNftPlanRules cs rs) (\<lambda>cmds.
             Inr (AddRule (frp_chain r) (es @ Counter # v) (frp_ownership r) # cmds)))))"

definition replace_commands :: "string \<Rightarrow> composition \<Rightarrow> nft_command list decoded" where
  "replace_commands table plan =
     rbind (addNftPlanChains (fst plan)) (\<lambda>cs.
     rbind (addNftPlanRules cs (snd plan)) (\<lambda>rules.
       Inr (DelTable table # CreateTable table # cs @ rules)))"

section \<open>The host\<close>

record 'w nft_host =
  nh_tables :: "call_fault \<Rightarrow> 'w \<Rightarrow> json option"
  nh_table :: "call_fault \<Rightarrow> string \<Rightarrow> string \<Rightarrow> 'w \<Rightarrow> json option"
  nh_generation :: "call_fault \<Rightarrow> 'w \<Rightarrow> 32 word option"
  nh_batch :: "call_fault \<Rightarrow> string \<Rightarrow> 'w \<Rightarrow> 'w \<times> bool"
  nh_commit :: "call_fault \<Rightarrow> 32 word \<Rightarrow> nft_command list \<Rightarrow> 'w \<Rightarrow> 'w \<times> bool"

text \<open>The run keeps the commits it made as pairs of the ruleset before and after.\<close>

record 'w nft_run =
  nr_world :: 'w
  nr_tick :: nat
  nr_log :: "('w \<times> 'w) list"

type_synonym 'w nft_env = "nat \<Rightarrow> call_fault \<times> ('w \<Rightarrow> 'w)"
type_synonym ('w, 'a) nft_act = "('w nft_run, string, 'a) prog"

definition host_query :: "'w nft_env \<Rightarrow> (call_fault \<Rightarrow> 'w \<Rightarrow> 'a option) \<Rightarrow> ('w, 'a) nft_act" where
  "host_query env f s =
     (let w = snd (env (nr_tick s)) (nr_world s)
      in (s\<lparr>nr_world := w, nr_tick := Suc (nr_tick s)\<rparr>,
          case f (fst (env (nr_tick s))) w of None \<Rightarrow> Inl ''command'' | Some x \<Rightarrow> Inr x))"

definition host_mutation :: "'w nft_env \<Rightarrow> (call_fault \<Rightarrow> 'w \<Rightarrow> 'w \<times> bool) \<Rightarrow> ('w, unit) nft_act" where
  "host_mutation env f s =
     (let w = snd (env (nr_tick s)) (nr_world s) in
      case f (fst (env (nr_tick s))) w of
        (w', ok) \<Rightarrow> (s\<lparr>nr_world := w', nr_tick := Suc (nr_tick s), nr_log := nr_log s @ [(w, w')]\<rparr>,
                     if ok then Inr () else Inl ''command''))"

definition check :: "string option \<Rightarrow> ('w, unit) nft_act" where
  "check e = (case e of None \<Rightarrow> ret () | Some m \<Rightarrow> fail m)"

definition generation :: "'w nft_env \<Rightarrow> 'w nft_host \<Rightarrow> ('w, 32 word) nft_act" where
  "generation env host =
     bindp (host_query env (nh_generation host)) (\<lambda>g. if g = 0 then fail ''zero generation'' else ret g)"

definition observeNftTablePresence :: "'w nft_env \<Rightarrow> 'w nft_host \<Rightarrow> string \<Rightarrow> string \<Rightarrow> ('w, bool) nft_act" where
  "observeNftTablePresence env host family table =
     (if trim_space family = [] \<or> trim_space table = [] then fail ''identity''
      else bindp (host_query env (nh_tables host)) (\<lambda>out. liftp (parseNftTablePresenceJSON (Some out) family table)))"

definition list_table :: "'w nft_env \<Rightarrow> 'w nft_host \<Rightarrow> string \<Rightarrow> string \<Rightarrow> ('w, nftTableSnapshot) nft_act" where
  "list_table env host family table =
     bindp (host_query env (\<lambda>f. nh_table host f family table)) (\<lambda>out. liftp (parseNftTableJSON (Some out) family table))"

definition nftCoherentObservationAttempts :: nat where "nftCoherentObservationAttempts = 3"

text \<open>The coherent observation: absent, or verified with its handle and the generation it was read under.\<close>

fun observe_attempts ::
  "'w nft_env \<Rightarrow> 'w nft_host \<Rightarrow> string \<Rightarrow> string \<Rightarrow> composition \<Rightarrow> nat \<Rightarrow> ('w, nftMutationTarget option) nft_act" where
  "observe_attempts env host family table plan 0 = fail ''changed''"
| "observe_attempts env host family table plan (Suc k) =
     bindp (generation env host) (\<lambda>before.
     bindp (observeNftTablePresence env host family table) (\<lambda>present.
       if \<not> present then
         bindp (generation env host) (\<lambda>after.
           if before \<noteq> after then observe_attempts env host family table plan k else ret None)
       else
         bindp (list_table env host family table) (\<lambda>snap.
         bindp (check (verifyNftTableSnapshot snap plan)) (\<lambda>u.
         bindp (generation env host) (\<lambda>after.
           if before \<noteq> after then observe_attempts env host family table plan k
           else if nt_handle snap = 0 then fail ''handle''
           else ret (Some \<lparr>mt_family = family, mt_table = table, mt_handle = nt_handle snap, mt_generation = before\<rparr>))))))"

definition observeVerifiedNftTableForMutation ::
  "'w nft_env \<Rightarrow> 'w nft_host \<Rightarrow> string \<Rightarrow> string \<Rightarrow> composition \<Rightarrow> ('w, nftMutationTarget option) nft_act" where
  "observeVerifiedNftTableForMutation env host family table plan =
     observe_attempts env host family table plan nftCoherentObservationAttempts"

definition realNftRemoveTable :: "'w nft_env \<Rightarrow> 'w nft_host \<Rightarrow> nftMutationTarget \<Rightarrow> ('w, unit) nft_act" where
  "realNftRemoveTable env host target =
     bindp (check (validateNftMutationTarget target)) (\<lambda>u.
       host_mutation env (\<lambda>f. nh_commit host f (mt_generation target) [DelTable (mt_table target)]))"

definition realNftReplaceTable ::
  "'w nft_env \<Rightarrow> 'w nft_host \<Rightarrow> nftMutationTarget \<Rightarrow> string \<Rightarrow> string \<Rightarrow> composition \<Rightarrow> ('w, unit) nft_act" where
  "realNftReplaceTable env host target family table plan =
     bindp (check (validateNftMutationTarget target)) (\<lambda>u.
       if mt_family target \<noteq> family \<or> mt_table target \<noteq> table then fail ''identity''
       else bindp (liftp (replace_commands (mt_table target) plan)) (\<lambda>cmds.
              host_mutation env (\<lambda>f. nh_commit host f (mt_generation target) cmds)))"

section \<open>Batch scripts\<close>

fun nft_escape :: "string \<Rightarrow> string" where
  "nft_escape [] = []"
| "nft_escape (c # s) = (if c = CHR 0x5C \<or> c = CHR 0x22 then CHR 0x5C # c # nft_escape s else c # nft_escape s)"

definition nftStringLiteral :: "string \<Rightarrow> string" where
  "nftStringLiteral value = [CHR 0x22] @ nft_escape value @ [CHR 0x22]"

definition nl :: string where "nl = [CHR 0x0A]"

definition create_line :: "string \<Rightarrow> string \<Rightarrow> string" where
  "create_line family table = ''create table '' @ family @ '' '' @ table @ nl"

definition chain_line :: "string \<Rightarrow> string \<Rightarrow> TunFirewallChainPlan \<Rightarrow> string" where
  "chain_line family table c =
     ''add chain '' @ family @ '' '' @ table @ '' '' @ fcp_name c @ '' { type '' @ fcp_type c @ '' hook '' @ fcp_hook c @
     '' priority '' @ itoa_int (fcp_priority c) @ ''; policy '' @ fcp_policy c @ ''; }'' @ nl"

definition rule_line :: "string \<Rightarrow> string \<Rightarrow> TunFirewallRulePlan \<Rightarrow> string" where
  "rule_line family table r =
     (let expr = trim_space (frp_expr r)
      in ''add rule '' @ family @ '' '' @ table @ '' '' @ frp_chain r @ (if expr = [] then [] else '' '' @ expr) @
         '' counter '' @ frp_verdict r @ '' comment '' @ nftStringLiteral (frp_ownership r) @ nl)"

section \<open>The executor of privacy envelopes\<close>

definition privacyEnvelopeOwnerPrefix :: string where "privacyEnvelopeOwnerPrefix = ''podlaz:privacy-envelope:''"

fun check_envelope_chains :: "string list \<Rightarrow> TunFirewallChainPlan list \<Rightarrow> string option" where
  "check_envelope_chains seen [] = None"
| "check_envelope_chains seen (c # cs) =
     (if trim_space (fcp_name c) = [] \<or> trim_space (fcp_type c) = [] \<or> trim_space (fcp_hook c) = [] \<or>
         trim_space (fcp_policy c) = [] then Some ''incomplete chain''
      else if fcp_action c \<noteq> FirewallActionAdd \<and> fcp_action c \<noteq> FirewallTableAction then Some ''chain action''
      else if fcp_name c \<in> set seen then Some ''duplicate chain''
      else check_envelope_chains (fcp_name c # seen) cs)"

definition check_envelope_rule :: "string list \<Rightarrow> TunFirewallRulePlan \<Rightarrow> string option" where
  "check_envelope_rule names r =
     (if frp_chain r \<notin> set names then Some ''unknown chain''
      else if frp_action r \<noteq> FirewallActionAdd then Some ''rule action''
      else if frp_verdict r \<notin> {FirewallVerdictAccept, FirewallVerdictReject, FirewallVerdictDrop} then Some ''verdict''
      else if \<not> starts privacyEnvelopeOwnerPrefix (frp_ownership r) \<or>
              drop (length privacyEnvelopeOwnerPrefix) (frp_ownership r) = [] then Some ''owner''
      else None)"

definition validatePrivacyEnvelopePlan :: "PrivacyEnvelopePlan \<Rightarrow> string option" where
  "validatePrivacyEnvelopePlan plan =
     (if pe_family plan \<noteq> ownedNFTFamily then Some ''family''
      else if \<not> privacyEnvelopeTablePattern (pe_table plan) then Some ''table''
      else if pe_chains plan = [] then Some ''no chains''
      else case check_envelope_chains [] (pe_chains plan) of
        Some e \<Rightarrow> Some e
      | None \<Rightarrow>
          if pe_rules plan = [] then Some ''no rules''
          else first_error (map (check_envelope_rule (map fcp_name (pe_chains plan))) (pe_rules plan)))"

definition privacyEnvelopeApplyScript :: "PrivacyEnvelopePlan \<Rightarrow> string decoded" where
  "privacyEnvelopeApplyScript plan =
     check_nil (validatePrivacyEnvelopePlan plan)
       (Inr (create_line (pe_family plan) (pe_table plan) @
             concat (map (chain_line (pe_family plan) (pe_table plan)) (pe_chains plan)) @
             concat (map (rule_line (pe_family plan) (pe_table plan)) (pe_rules plan))))"

definition EnvelopeExists :: "'w nft_env \<Rightarrow> 'w nft_host \<Rightarrow> PrivacyEnvelopePlan \<Rightarrow> ('w, bool) nft_act" where
  "EnvelopeExists env host plan =
     bindp (check (validatePrivacyEnvelopePlan plan)) (\<lambda>u.
       observeNftTablePresence env host (pe_family plan) (pe_table plan))"

definition EnvelopeApply :: "'w nft_env \<Rightarrow> 'w nft_host \<Rightarrow> PrivacyEnvelopePlan \<Rightarrow> ('w, unit) nft_act" where
  "EnvelopeApply env host plan =
     bindp (check (validatePrivacyEnvelopePlan plan)) (\<lambda>u.
     bindp (liftp (privacyEnvelopeApplyScript plan)) (\<lambda>script.
       host_mutation env (\<lambda>f. nh_batch host f script)))"

definition EnvelopeReplace ::
  "'w nft_env \<Rightarrow> 'w nft_host \<Rightarrow> PrivacyEnvelopePlan \<Rightarrow> PrivacyEnvelopePlan \<Rightarrow> ('w, unit) nft_act" where
  "EnvelopeReplace env host old new =
     bindp (check (validatePrivacyEnvelopePlan old)) (\<lambda>u.
     bindp (check (validatePrivacyEnvelopePlan new)) (\<lambda>u.
       if pe_family old \<noteq> pe_family new \<or> pe_table old \<noteq> pe_table new then fail ''identity''
       else bindp (observeVerifiedNftTableForMutation env host (pe_family old) (pe_table old) (envelope_composition old)) (\<lambda>t.
              case t of
                None \<Rightarrow> fail ''disappeared''
              | Some target \<Rightarrow>
                  realNftReplaceTable env host target (pe_family new) (pe_table new) (envelope_composition new))))"

definition EnvelopeVerify :: "'w nft_env \<Rightarrow> 'w nft_host \<Rightarrow> PrivacyEnvelopePlan \<Rightarrow> ('w, unit) nft_act" where
  "EnvelopeVerify env host plan =
     bindp (check (validatePrivacyEnvelopePlan plan)) (\<lambda>u.
     bindp (list_table env host (pe_family plan) (pe_table plan)) (\<lambda>snap.
       check (verifyNftTableSnapshot snap (envelope_composition plan))))"

definition EnvelopeRemove :: "'w nft_env \<Rightarrow> 'w nft_host \<Rightarrow> PrivacyEnvelopePlan \<Rightarrow> ('w, unit) nft_act" where
  "EnvelopeRemove env host plan =
     bindp (check (validatePrivacyEnvelopePlan plan)) (\<lambda>u.
     bindp (observeVerifiedNftTableForMutation env host (pe_family plan) (pe_table plan) (envelope_composition plan)) (\<lambda>t.
       case t of None \<Rightarrow> ret () | Some target \<Rightarrow> realNftRemoveTable env host target))"

definition PrivacyEnvelopeTableExists :: "'w nft_env \<Rightarrow> 'w nft_host \<Rightarrow> string \<Rightarrow> string \<Rightarrow> ('w, bool) nft_act" where
  "PrivacyEnvelopeTableExists env host family table =
     (if family \<noteq> ownedNFTFamily then fail ''family''
      else if \<not> privacyEnvelopeTablePattern table then fail ''table''
      else observeNftTablePresence env host family table)"

section \<open>The executor of the ordinary table\<close>

definition firewallFamilyTable :: "TunFirewallPlan \<Rightarrow> string \<times> string" where
  "firewallFamilyTable plan = (trim_space (fwp_family plan), trim_space (fwp_table plan))"

definition validateOwnedFirewallTarget :: "string \<Rightarrow> string \<Rightarrow> string option" where
  "validateOwnedFirewallTarget family table =
     (if family \<noteq> ownedNFTFamily \<or> table \<noteq> ownedNFTTable then Some ''foreign target'' else None)"

definition check_firewall_chain :: "TunFirewallChainPlan \<Rightarrow> string option" where
  "check_firewall_chain c =
     (if trim_space (fcp_name c) = [] then Some ''chain name''
      else if trim_space (fcp_type c) = [] \<or> trim_space (fcp_hook c) = [] \<or> trim_space (fcp_policy c) = []
      then Some ''incomplete chain'' else None)"

definition check_firewall_rule :: "TunFirewallRulePlan \<Rightarrow> string option" where
  "check_firewall_rule r =
     (if frp_action r \<noteq> FirewallActionAdd then None
      else if trim_space (frp_chain r) = [] \<or> trim_space (frp_expr r) = [] \<or> trim_space (frp_verdict r) = []
      then Some ''incomplete rule''
      else if \<not> starts ''podlaz:firewall:'' (frp_ownership r) then Some ''owner'' else None)"

definition validateFirewallPlan :: "TunFirewallPlan \<Rightarrow> string option" where
  "validateFirewallPlan plan =
     (let ft = firewallFamilyTable plan in
      if fwp_table_action plan = FirewallActionBlocked then Some ''blocked''
      else if fwp_table_action plan \<noteq> [] \<and> fwp_table_action plan \<noteq> FirewallTableAction then Some ''table action''
      else if fwp_backend plan \<noteq> [] \<and> fwp_backend plan \<noteq> ''nftables'' then Some ''backend''
      else if fst ft = [] then Some ''family''
      else if snd ft = [] then Some ''table''
      else case validateOwnedFirewallTarget (fst ft) (snd ft) of
        Some e \<Rightarrow> Some e
      | None \<Rightarrow>
          if fwp_chains plan = [] then Some ''no chains''
          else first_error (map check_firewall_chain (fwp_chains plan) @ map check_firewall_rule (fwp_rules plan)))"

definition nftablesApplyScript :: "TunFirewallPlan \<Rightarrow> string decoded" where
  "nftablesApplyScript plan =
     (case firewallFamilyTable plan of (family, table) \<Rightarrow>
        check_nil (validateFirewallPlan plan)
         (let rules = filter (\<lambda>r. frp_action r = FirewallActionAdd) (fwp_rules plan) in
          if list_ex (\<lambda>r. trim_space (frp_expr r) = []) rules then Inl ''rule expression''
          else Inr (create_line family table @ concat (map (chain_line family table) (planned_chains (fwp_chains plan))) @
                    concat (map (rule_line family table) rules))))"

definition firewall_composition :: "TunFirewallPlan \<Rightarrow> composition" where
  "firewall_composition plan = (fwp_chains plan, fwp_rules plan)"

definition NftablesApply :: "'w nft_env \<Rightarrow> 'w nft_host \<Rightarrow> TunFirewallPlan \<Rightarrow> ('w, unit) nft_act" where
  "NftablesApply env host plan =
     bindp (check (validateFirewallPlan plan)) (\<lambda>u.
     bindp (liftp (nftablesApplyScript plan)) (\<lambda>script.
       host_mutation env (\<lambda>f. nh_batch host f script)))"

definition VerifyNftablesTableOutput :: "TunFirewallPlan \<Rightarrow> json option \<Rightarrow> string option" where
  "VerifyNftablesTableOutput plan out =
     (case validateFirewallPlan plan of
        Some e \<Rightarrow> Some e
      | None \<Rightarrow>
          (case firewallFamilyTable plan of (family, table) \<Rightarrow>
             (case parseNftTableJSON out family table of
                Inl e \<Rightarrow> Some e
              | Inr snap \<Rightarrow> verifyNftTableSnapshot snap (firewall_composition plan))))"

definition NftablesVerify :: "'w nft_env \<Rightarrow> 'w nft_host \<Rightarrow> TunFirewallPlan \<Rightarrow> ('w, unit) nft_act" where
  "NftablesVerify env host plan =
     bindp (check (validateFirewallPlan plan)) (\<lambda>u.
       case firewallFamilyTable plan of (family, table) \<Rightarrow>
         bindp (host_query env (\<lambda>f. nh_table host f family table)) (\<lambda>out. check (VerifyNftablesTableOutput plan (Some out))))"

definition NftablesRollback :: "'w nft_env \<Rightarrow> 'w nft_host \<Rightarrow> TunFirewallPlan \<Rightarrow> ('w, unit) nft_act" where
  "NftablesRollback env host plan =
     (case firewallFamilyTable plan of (family, table) \<Rightarrow>
        if family = [] \<and> table = [] then ret ()
        else bindp (check (validateOwnedFirewallTarget family table)) (\<lambda>u.
          if fwp_table_action plan = FirewallActionBlocked then ret ()
          else bindp (check (validateFirewallPlan plan)) (\<lambda>u.
               bindp (observeVerifiedNftTableForMutation env host family table (firewall_composition plan)) (\<lambda>t.
                 case t of
                   None \<Rightarrow> ret ()
                 | Some target \<Rightarrow>
                     bindp (realNftRemoveTable env host target) (\<lambda>u.
                     bindp (observeNftTablePresence env host family table) (\<lambda>present.
                       if present then fail ''still present'' else ret ()))))))"

definition NftablesTableExists :: "'w nft_env \<Rightarrow> 'w nft_host \<Rightarrow> string \<Rightarrow> string \<Rightarrow> ('w, bool) nft_act" where
  "NftablesTableExists env host family table =
     bindp (check (validateOwnedFirewallTarget family table)) (\<lambda>u. observeNftTablePresence env host family table)"

end
