(* ===== verification/Envelope_Lifecycle_Facts.thy ===== *)
theory Envelope_Lifecycle_Facts
  imports Envelope_Lifecycle
begin

text \<open>
  The contract of the executor as a locale, and what the lifecycle guarantees over every executor that keeps
  it: the firewall never holds a table of ours that the durable session record does not name.
\<close>

section \<open>Environments of one boot\<close>

definition orc_in :: "string \<Rightarrow> (nat \<Rightarrow> call_env) \<Rightarrow> bool" where
  "orc_in b orc \<longleftrightarrow> (\<forall>n. env_in b (ce_load (orc n)) \<and> env_in b (ce_write (orc n)))"

lemma SetProtection_success:
  assumes "disk_ok d" "SetProtection el ev p d = (d', None)" "env_in b el"
  shows "\<exists>st. held d = Some st \<and> ns_boot_id st = b \<and> held d' = Some (st\<lparr>ns_protection := p\<rparr>) \<and> disk_ok d'"
proof -
  from assms(2) obtain r where u: "Update el ev (\<lambda>st. Inr (st\<lparr>ns_protection := p\<rparr>)) d = (d', r)" "require_session r = None"
    by (auto simp: SetProtection_def split: option.splits prod.splits)
  then obtain st' where "r = Inr (Some st')" by (auto simp: require_session_def split: sum.splits option.splits)
  from Update_success [OF assms(1) u(1) [unfolded this] assms(3)] written_held written_ok show ?thesis by fastforce
qed

lemma SetProtection_cases:
  assumes "disk_ok d" "SetProtection el ev p d = (d', e)" "env_in b el" "\<And>st. held d = Some st \<Longrightarrow> ns_boot_id st = b"
  shows "disk_ok d' \<and> (held d' = held d \<or> (\<exists>st. held d = Some st \<and> held d' = Some (st\<lparr>ns_protection := p\<rparr>)))"
proof (cases "Option.bind p validateNetworkSessionProtection")
  case (Some x)
  with assms(1,2) show ?thesis by (simp add: SetProtection_def)
next
  case None
  with assms(2) obtain r where u: "Update el ev (\<lambda>st. Inr (st\<lparr>ns_protection := p\<rparr>)) d = (d', r)"
    by (auto simp: SetProtection_def split: prod.splits)
  show ?thesis
  proof (rule Update_cases [OF assms(1) u assms(3)])
    assume "sk_main d' = sk_main d"
    with assms(1) main_cong [of d' d] show ?thesis by blast
  next
    fix st assume "held d = Some st" "ns_boot_id st \<noteq> b"
    with assms(4) show ?thesis by blast
  next
    fix st st' assume "held d = Some st" "Inr (st\<lparr>ns_protection := p\<rparr>) = Inr st'" "written st' d'"
    then show ?thesis using written_held [of st' d'] written_ok [of st' d'] by auto
  qed
qed

lemma Restore_cases:
  assumes "disk_ok d" "RestoreReplacement el ev d = (d', e)" "env_in b el" "\<And>st. held d = Some st \<Longrightarrow> ns_boot_id st = b"
  shows "disk_ok d' \<and> (held d' = held d \<or> (\<exists>st st'. held d = Some st \<and> held d' = Some st' \<and> evolves LRestore st st'))"
proof -
  from assms(2) obtain r where u: "Update el ev restore_update d = (d', r)"
    by (auto simp: RestoreReplacement_def split: prod.splits)
  show ?thesis
  proof (rule Update_cases [OF assms(1) u assms(3)])
    assume "sk_main d' = sk_main d"
    with assms(1) main_cong [of d' d] show ?thesis by blast
  next
    fix st assume "held d = Some st" "ns_boot_id st \<noteq> b"
    with assms(4) show ?thesis by blast
  next
    fix st st' assume st: "held d = Some st" "restore_update st = Inr st'" "written st' d'"
    then have "evolves LRestore st st'"
      using held_written [OF assms(1)] by (auto simp: written_def intro: restore_evolves)
    then show ?thesis using st written_held [of st' d'] written_ok [of st' d'] by blast
  qed
qed

section \<open>The contract of an executor\<close>

text \<open>The account: the record is valid and of this boot, and every table this program owns in the firewall is the
  table that the protection of the record names.\<close>

definition accounted_for :: "('w \<Rightarrow> string \<Rightarrow> bool) \<Rightarrow> string \<Rightarrow> 'w system \<Rightarrow> bool" where
  "accounted_for owned b s \<longleftrightarrow>
     disk_ok (sy_disk s) \<and> (\<forall>st. held (sy_disk s) = Some st \<longrightarrow> ns_boot_id st = b) \<and>
     (\<forall>t. owned (sy_fw s) t \<longrightarrow>
        (\<exists>st p. held (sy_disk s) = Some st \<and> ns_protection st = Some p \<and> np_table p = t))"

text \<open>The operations of the lifecycle, each under any failures of its calls, and the other operations of the session
  store in between.\<close>

inductive lifecycle_step :: "'w executor \<Rightarrow> string \<Rightarrow> 'w system \<Rightarrow> 'w system \<Rightarrow> bool" for ex b where
  arm: "orc_in b orc \<Longrightarrow> Arm orc (Some ex) plan s = (s', r) \<Longrightarrow> lifecycle_step ex b s s'"
| verify: "orc_in b orc \<Longrightarrow> Verify orc (Some ex) s = (s', r) \<Longrightarrow> lifecycle_step ex b s s'"
| prepare: "orc_in b orc \<Longrightarrow> PrepareReplacement orc (Some ex) plan s = (s', r) \<Longrightarrow> lifecycle_step ex b s s'"
| reconcile: "orc_in b orc \<Longrightarrow> reconcileNetworkSessionProtection orc (Some ex) s = (s', r2) \<Longrightarrow> lifecycle_step ex b s s'"
| cleanup: "orc_in b orc \<Longrightarrow> CleanupAfterFailedDataPlane orc (Some ex) s = (s', r) \<Longrightarrow> lifecycle_step ex b s s'"
| remove: "orc_in b orc \<Longrightarrow> RemoveAfterDataPlaneCleanup orc (Some ex) s = (s', r) \<Longrightarrow> lifecycle_step ex b s s'"
| session: "session_step b l (sy_disk s) d \<Longrightarrow> l \<noteq> LProtection \<Longrightarrow> lifecycle_step ex b s (s\<lparr>sy_disk := d\<rparr>)"

inductive lifecycle_run :: "'w executor \<Rightarrow> string \<Rightarrow> 'w system \<Rightarrow> 'w system \<Rightarrow> bool" for ex b where
  lifecycle_nil: "lifecycle_run ex b s s"
| lifecycle_more: "lifecycle_run ex b s s' \<Longrightarrow> lifecycle_step ex b s' s'' \<Longrightarrow> lifecycle_run ex b s s''"

text \<open>\<open>live\<close> tells which tables exist and \<open>owned\<close> which of them this program created.  An observation reports what
  exists; only an apply creates a table, and only the table of its plan.\<close>

locale envelope_executor =
  fixes ex :: "'w executor"
    and live :: "'w \<Rightarrow> string \<Rightarrow> bool"
    and owned :: "'w \<Rightarrow> string \<Rightarrow> bool"
  assumes exists_sound: "ex_exists ex f plan w = Some present \<Longrightarrow> live w (pe_table plan) = present"
    and owned_live: "owned w t \<Longrightarrow> live w t"
    and apply_owned: "ex_apply ex f plan w = (w', ok) \<Longrightarrow> owned w' t \<Longrightarrow> owned w t \<or> t = pe_table plan"
    and replace_owned: "ex_replace ex f old new w = (w', ok) \<Longrightarrow> owned w' t \<Longrightarrow> owned w t"
    and remove_owned: "ex_remove ex f plan w = (w', ok) \<Longrightarrow> owned w' t \<Longrightarrow> owned w t"
begin

abbreviation accounted :: "string \<Rightarrow> 'w system \<Rightarrow> bool" where
  "accounted \<equiv> accounted_for owned"

lemmas accounted_def = accounted_for_def

definition has :: "string \<Rightarrow> string \<Rightarrow> 'w system \<Rightarrow> bool" where
  "has b t s \<longleftrightarrow> accounted b s \<and> (\<exists>st p. held (sy_disk s) = Some st \<and> ns_protection st = Some p \<and> np_table p = t)"

definition clean :: "string \<Rightarrow> 'w system \<Rightarrow> bool" where
  "clean b s \<longleftrightarrow> accounted b s \<and> (\<forall>t. \<not> owned (sy_fw s) t)"

text \<open>A program keeps the account when it is accounted for after it, whatever its outcome, and its postcondition
  holds after a success.\<close>

definition tri :: "string \<Rightarrow> ('w system \<Rightarrow> bool) \<Rightarrow> ('w, 'a) act \<Rightarrow> ('a \<Rightarrow> 'w system \<Rightarrow> bool) \<Rightarrow> bool" where
  "tri b P m Q \<longleftrightarrow>
     (\<forall>s s' r. P s \<longrightarrow> m s = (s', r) \<longrightarrow> accounted b s' \<and> (\<forall>x. r = Inr x \<longrightarrow> Q x s'))"

lemma tri_bind: "tri b P m Q \<Longrightarrow> (\<And>x. tri b (Q x) (f x) R) \<Longrightarrow> tri b P (bindp m f) R"
  unfolding tri_def bindp_def by (fastforce split: prod.splits sum.splits)

lemma tri_weaken: "tri b P m Q \<Longrightarrow> (\<And>s. P' s \<Longrightarrow> P s) \<Longrightarrow> (\<And>x s. Q x s \<Longrightarrow> Q' x s) \<Longrightarrow> tri b P' m Q'"
  unfolding tri_def by blast

lemma tri_pure: "(\<And>s. P s \<Longrightarrow> accounted b s) \<Longrightarrow> (\<And>s. P s \<Longrightarrow> Q x s) \<Longrightarrow> tri b P (ret x) Q"
  unfolding tri_def ret_def by auto

lemma tri_fail: "(\<And>s. P s \<Longrightarrow> accounted b s) \<Longrightarrow> tri b P (fail e) Q"
  unfolding tri_def fail_def by auto

lemma tri_lift: "(\<And>s. P s \<Longrightarrow> accounted b s) \<Longrightarrow> tri b P (lift_plan r) (\<lambda>x s. P s \<and> r = Inr x)"
  unfolding tri_def lift_plan_def ret_def fail_def by (cases r) auto

lemma tri_lift_bind:
  "(\<And>s. P s \<Longrightarrow> accounted b s) \<Longrightarrow> (\<And>x. r = Inr x \<Longrightarrow> tri b P (f x) Q) \<Longrightarrow> tri b P (bindp (lift_plan r) f) Q"
  unfolding tri_def lift_plan_def ret_def fail_def bindp_def by (cases r) auto

lemma tri_if: "(c \<Longrightarrow> tri b P m Q) \<Longrightarrow> (\<not> c \<Longrightarrow> tri b P n Q) \<Longrightarrow> tri b P (if c then m else n) Q"
  by simp

lemma tri_conj: "(C \<Longrightarrow> tri b P m Q) \<Longrightarrow> tri b (\<lambda>s. P s \<and> C) m Q"
  unfolding tri_def by blast

lemma accounted_unique: "accounted b s \<Longrightarrow> held (sy_disk s) = Some st \<Longrightarrow> ns_protection st = Some p \<Longrightarrow>
    owned (sy_fw s) t \<Longrightarrow> t = np_table p"
  unfolding accounted_def by fastforce

lemma accounted_none:
  "accounted b s \<Longrightarrow> held (sy_disk s) = None \<or> (\<exists>st. held (sy_disk s) = Some st \<and> ns_protection st = None) \<Longrightarrow>
   \<not> owned (sy_fw s) t"
  unfolding accounted_def by fastforce

lemma has_accounted: "has b t s \<Longrightarrow> accounted b s" and clean_accounted: "clean b s \<Longrightarrow> accounted b s"
  by (simp_all add: has_def clean_def)

lemma has_owned: "has b t s \<Longrightarrow> owned (sy_fw s) t' \<Longrightarrow> t' = t"
  unfolding has_def using accounted_unique by fastforce

subsection \<open>Calls\<close>

lemma tri_load:
  assumes "orc_in b orc"
  shows "tri b (accounted b) (store_load orc) (\<lambda>r s. accounted b s \<and> held (sy_disk s) = r)"
  unfolding tri_def
proof (intro allI impI)
  fix s s' :: "'w system" and r
  assume acc: "accounted b s" and m: "store_load orc s = (s', r)"
  obtain d q where l: "loadLocked (ce_load (orc (sy_tick s))) (sy_disk s) = (d, q)" by fastforce
  with m have s': "s' = s\<lparr>sy_disk := d, sy_tick := Suc (sy_tick s)\<rparr>" and r: "r = map_sum StoreFailed id q"
    by (auto simp: store_load_def)
  from acc have ok: "disk_ok (sy_disk s)" by (simp add: accounted_def)
  from assms have e: "env_in b (ce_load (orc (sy_tick s)))" by (simp add: orc_in_def)
  have main: "sk_main d = sk_main (sy_disk s)"
    using load_kept [OF ok l e] acc by (auto simp: accounted_def)
  then have "accounted b s'" using acc main_cong [OF main] by (simp add: accounted_def s')
  moreover have "held (sy_disk s') = x" if "r = Inr x" for x
  proof -
    from that r have q: "q = Inr x" by (cases q) auto
    have hd: "held d = held (sy_disk s)" using main_cong [OF main] by blast
    show ?thesis
    proof (cases x)
      case None
      have "sk_main (sy_disk s) = None"
        by (rule load_cases [OF ok l e]) (use q None main in auto)
      with main None show ?thesis by (simp add: s' held_def)
    next
      case (Some st)
      from load_Some [OF ok l [unfolded q Some] e] hd Some show ?thesis by (simp add: s')
    qed
  qed
  ultimately show "accounted b s' \<and> (\<forall>x. r = Inr x \<longrightarrow> accounted b s' \<and> held (sy_disk s') = x)" by blast
qed

lemma tri_set_protection:
  assumes "orc_in b orc" and "\<And>s. P s \<Longrightarrow> accounted b s"
    and "\<And>s t. P s \<Longrightarrow> owned (sy_fw s) t \<Longrightarrow> \<exists>q. p = Some q \<and> np_table q = t"
  shows "tri b P (store_set_protection orc p)
     (\<lambda>u s. accounted b s \<and> (\<exists>st. held (sy_disk s) = Some st \<and> ns_protection st = p))"
  unfolding tri_def
proof (intro allI impI)
  fix s s' :: "'w system" and r
  assume P: "P s" and m: "store_set_protection orc p s = (s', r)"
  note acc = assms(2) [OF P]
  let ?el = "ce_load (orc (sy_tick s))" and ?ev = "ce_write (orc (sy_tick s))"
  obtain d e where x: "SetProtection ?el ?ev p (sy_disk s) = (d, e)" by fastforce
  with m have s': "s' = s\<lparr>sy_disk := d, sy_tick := Suc (sy_tick s)\<rparr>" and r: "r = (case e of None \<Rightarrow> Inr () | Some x \<Rightarrow> Inl (StoreFailed x))"
    by (auto simp: store_set_protection_def store_unit_def)
  from acc have ok: "disk_ok (sy_disk s)" by (simp add: accounted_def)
  from assms(1) have el: "env_in b ?el" by (simp add: orc_in_def)
  have boot: "\<And>st. held (sy_disk s) = Some st \<Longrightarrow> ns_boot_id st = b" using acc by (simp add: accounted_def)
  have "accounted b s'"
    using SetProtection_cases [OF ok x el boot] acc boot assms(3) [OF P] by (fastforce simp: accounted_def s')
  moreover have "\<exists>st. held (sy_disk s') = Some st \<and> ns_protection st = p" if "r = Inr y" for y
  proof -
    from that r have "e = None" by (cases e) auto
    from SetProtection_success [OF ok x [unfolded this] el] show ?thesis by (auto simp: s')
  qed
  ultimately show "accounted b s' \<and> (\<forall>x. r = Inr x \<longrightarrow>
      accounted b s' \<and> (\<exists>st. held (sy_disk s') = Some st \<and> ns_protection st = p))" by blast
qed

lemma tri_restore:
  assumes "orc_in b orc"
  shows "tri b (accounted b) (store_restore orc) (\<lambda>u. accounted b)"
  unfolding tri_def
proof (intro allI impI)
  fix s s' :: "'w system" and r
  assume acc: "accounted b s" and m: "store_restore orc s = (s', r)"
  let ?el = "ce_load (orc (sy_tick s))" and ?ev = "ce_write (orc (sy_tick s))"
  obtain d e where x: "RestoreReplacement ?el ?ev (sy_disk s) = (d, e)" by fastforce
  with m have s': "s' = s\<lparr>sy_disk := d, sy_tick := Suc (sy_tick s)\<rparr>"
    by (auto simp: store_restore_def store_unit_def)
  from acc have ok: "disk_ok (sy_disk s)" by (simp add: accounted_def)
  from assms have el: "env_in b ?el" by (simp add: orc_in_def)
  have boot: "\<And>st. held (sy_disk s) = Some st \<Longrightarrow> ns_boot_id st = b" using acc by (simp add: accounted_def)
  from Restore_cases [OF ok x el boot] have "accounted b s'"
  proof
    assume okd: "disk_ok d" and c: "held d = held (sy_disk s) \<or>
      (\<exists>st st'. held (sy_disk s) = Some st \<and> held d = Some st' \<and> evolves LRestore st st')"
    from c show ?thesis
    proof
      assume "held d = held (sy_disk s)"
      with okd acc show ?thesis by (simp add: accounted_def s')
    next
      assume "\<exists>st st'. held (sy_disk s) = Some st \<and> held d = Some st' \<and> evolves LRestore st st'"
      then obtain st st' where h: "held (sy_disk s) = Some st" "held d = Some st'" "evolves LRestore st st'" by blast
      have "\<exists>p'. ns_protection st' = Some p' \<and> np_table p' = t" if o: "owned (sy_fw s) t" for t
      proof -
        from acc o h(1) obtain p where "ns_protection st = Some p" "np_table p = t" unfolding accounted_def by fastforce
        with h(3) show ?thesis by (auto simp: evolves_def samePrivacyEnvelopeIdentity_def)
      qed
      moreover have "ns_boot_id st' = b" using h boot by (simp add: evolves_def)
      ultimately show ?thesis using okd h(2) by (simp add: accounted_def s')
    qed
  qed
  then show "accounted b s' \<and> (\<forall>x. r = Inr x \<longrightarrow> accounted b s')" by blast
qed

lemma accounted_tick [simp]: "accounted b (s\<lparr>sy_tick := n\<rparr>) = accounted b s" "has b t (s\<lparr>sy_tick := n\<rparr>) = has b t s"
  by (simp_all add: accounted_def has_def)

lemma tri_query:
  assumes "\<And>s. P s \<Longrightarrow> accounted b s" and "\<And>s n. P s \<Longrightarrow> P (s\<lparr>sy_tick := n\<rparr>)"
  shows "tri b P (exec_query orc what f) (\<lambda>x s. P s \<and> (\<exists>ft. f ft (sy_fw s) = Some x))"
  unfolding tri_def exec_query_def using assms
  by (auto split: option.splits)

lemma tri_query_keep:
  assumes "\<And>s. P s \<Longrightarrow> accounted b s" and "\<And>s n. P s \<Longrightarrow> P (s\<lparr>sy_tick := n\<rparr>)"
  shows "tri b P (exec_verify orc ex plan) (\<lambda>u. P)"
  unfolding exec_verify_def by (rule tri_weaken [OF tri_query [of P b, OF assms]]) auto

lemma tri_exists:
  assumes "\<And>s. P s \<Longrightarrow> accounted b s" and "\<And>s n. P s \<Longrightarrow> P (s\<lparr>sy_tick := n\<rparr>)"
  shows "tri b P (exec_exists orc ex plan) (\<lambda>present s. P s \<and> (present \<or> \<not> owned (sy_fw s) (pe_table plan)))"
  unfolding exec_exists_def
  by (rule tri_weaken [OF tri_query [of P b, OF assms]]) (use exists_sound owned_live in blast)+

lemma tri_mutation:
  assumes "\<And>s. P s \<Longrightarrow> has b t s" and "\<And>fl w w' ok t'. f fl w = (w', ok) \<Longrightarrow> owned w' t' \<Longrightarrow> owned w t' \<or> t' = t"
  shows "tri b P (exec_mutation orc what f) (\<lambda>u. has b t)"
  unfolding tri_def
proof (intro allI impI)
  fix s s' :: "'w system" and r
  assume P: "P s" and m: "exec_mutation orc what f s = (s', r)"
  obtain w ok where x: "f (ce_fault (orc (sy_tick s))) (sy_fw s) = (w, ok)" by fastforce
  with m have s': "s' = s\<lparr>sy_fw := w, sy_tick := Suc (sy_tick s)\<rparr>" by (auto simp: exec_mutation_def)
  note h = assms(1) [OF P]
  have "t' = t" if "owned w t'" for t' using assms(2) [OF x that] has_owned [OF h] by blast
  then have "has b t s'" using h by (auto simp: has_def accounted_def s')
  then show "accounted b s' \<and> (\<forall>x. r = Inr x \<longrightarrow> has b t s')" by (auto dest: has_accounted)
qed

lemma tri_apply: "tri b (has b (pe_table plan)) (exec_apply orc ex plan) (\<lambda>u. has b (pe_table plan))"
  unfolding exec_apply_def by (rule tri_mutation, assumption, erule (1) apply_owned)

lemma tri_replace: "tri b (has b t) (exec_replace orc ex old new) (\<lambda>u. has b t)"
  unfolding exec_replace_def by (rule tri_mutation, assumption, rule disjI1, erule (1) replace_owned)

lemma tri_remove: "tri b (has b t) (exec_remove orc ex plan) (\<lambda>u. has b t)"
  unfolding exec_remove_def by (rule tri_mutation, assumption, rule disjI1, erule (1) remove_owned)

lemma tri_set_named:
  assumes "orc_in b orc"
  shows "tri b (has b (np_table q)) (store_set_protection orc (Some q)) (\<lambda>u. has b (np_table q))"
proof (rule tri_weaken [OF tri_set_protection [OF assms, of "has b (np_table q)"]])
  fix s t assume "has b (np_table q) s" "owned (sy_fw s) t"
  then have "t = np_table q" by (rule has_owned)
  then show "\<exists>r. Some q = Some r \<and> np_table r = t" by blast
next
  fix s assume "has b (np_table q) s" then show "accounted b s" by (rule has_accounted)
next
  fix s assume "accounted b s \<and> (\<exists>st. held (sy_disk s) = Some st \<and> ns_protection st = Some q)"
  then show "has b (np_table q) s" unfolding has_def by blast
qed

lemma tri_set_first:
  assumes "orc_in b orc"
  shows "tri b (clean b) (store_set_protection orc (Some q)) (\<lambda>u. has b (np_table q))"
  by (rule tri_weaken [OF tri_set_protection [OF assms, of "clean b"]]) (auto simp: clean_def has_def)

lemma tri_set_none:
  assumes "orc_in b orc"
  shows "tri b (clean b) (store_set_protection orc None) (\<lambda>u. accounted b)"
  by (rule tri_weaken [OF tri_set_protection [OF assms, of "clean b"]]) (auto simp: clean_def)

subsection \<open>Programs\<close>

lemma holding_has:
  "accounted b s \<Longrightarrow> held (sy_disk s) = Some st \<Longrightarrow> ns_protection st = Some p \<Longrightarrow> has b (np_table p) s"
  by (auto simp: has_def)

lemma holding_clean:
  "accounted b s \<Longrightarrow> held (sy_disk s) = Some st \<Longrightarrow> ns_protection st = None \<Longrightarrow> clean b s"
  using accounted_none by (auto simp: clean_def)

lemma tri_replace_with:
  assumes "orc_in b orc" "np_table next = np_table current"
  shows "tri b (has b (np_table current)) (replace_with orc ex current next) (\<lambda>u. has b (np_table current))"
  unfolding replace_with_def
  by (intro tri_lift_bind has_accounted, assumption+)
    (rule tri_bind [OF tri_set_named [OF assms(1), of "next", unfolded assms(2)] tri_replace])

lemma tri_persist_and_apply:
  assumes "orc_in b orc" "pe_table (snd pp) = np_table (fst pp)"
  shows "tri b (clean b) (persist_and_apply orc ex pp) (\<lambda>u. accounted b)"
  unfolding persist_and_apply_def
  by (rule tri_bind [OF tri_set_first [OF assms(1)]], rule tri_weaken [OF tri_apply])
    (auto simp: assms(2) has_accounted)

lemma allocated_table:
  "allocatePrivacyEnvelope sid tun eps obs = Inr pp \<Longrightarrow> pe_table (snd pp) = np_table (fst pp)"
  "allocateMarkedPrivacyEnvelope sid tun m obs = Inr pp \<Longrightarrow> pe_table (snd pp) = np_table (fst pp)"
  by (auto simp: allocatePrivacyEnvelope_def allocateMarkedPrivacyEnvelope_def result_simps Let_def
      split: if_splits option.splits dest!: planned_eq)

lemma tri_allocate:
  assumes "\<And>obs pp. alloc obs = Inr pp \<Longrightarrow> pe_table (snd pp) = np_table (fst pp)"
  shows "tri b (clean b) (exec_allocate orc ex alloc) (\<lambda>pp s. clean b s \<and> pe_table (snd pp) = np_table (fst pp))"
  unfolding tri_def exec_allocate_def lift_plan_def
  by (auto simp: ret_def fail_def clean_def accounted_def dest: assms split: sum.splits)

abbreviation holding :: "string \<Rightarrow> networkSessionState \<Rightarrow> 'w system \<Rightarrow> bool" where
  "holding b st \<equiv> \<lambda>s. accounted b s \<and> held (sy_disk s) = Some st"

lemma holding_tick: "holding b st s \<Longrightarrow> holding b st (s\<lparr>sy_tick := n\<rparr>)"
  by simp

lemma tri_ok: "tri b (accounted b) (ret x) (\<lambda>u. accounted b)"
  by (rule tri_pure)

lemma tri_holding:
  "tri b (has b (np_table p)) m (\<lambda>u. accounted b) \<Longrightarrow> ns_protection st = Some p \<Longrightarrow>
   tri b (holding b st) m (\<lambda>u. accounted b)"
  by (erule tri_weaken) (auto intro: holding_has)

lemma tri_has_accounted: "tri b P m (\<lambda>u. has b t) \<Longrightarrow> tri b P m (\<lambda>u. accounted b)"
  by (erule tri_weaken) (auto dest: has_accounted)

lemma tri_holding_fail: "tri b (holding b st) (fail e) Q"
  by (rule tri_fail) blast

lemma tri_check_plan: "tri b (holding b st) (bindp (lift_plan r) (\<lambda>p. ret ())) (\<lambda>u. accounted b)"
  by (rule tri_lift_bind) (auto intro: tri_pure)

lemma tri_first_allocation:
  assumes o: "orc_in b orc" and a: "\<And>obs pp. alloc obs = Inr pp \<Longrightarrow> pe_table (snd pp) = np_table (fst pp)"
    and n: "ns_protection st = None"
  shows "tri b (holding b st) (bindp (exec_allocate orc ex alloc) (persist_and_apply orc ex)) (\<lambda>u. accounted b)"
proof (rule tri_weaken)
  show "tri b (clean b) (bindp (exec_allocate orc ex alloc) (persist_and_apply orc ex)) (\<lambda>u. accounted b)"
  proof (rule tri_bind [OF tri_allocate [OF a]])
    fix pp
    show "tri b (\<lambda>s. clean b s \<and> pe_table (snd pp) = np_table (fst pp)) (persist_and_apply orc ex pp) (\<lambda>u. accounted b)"
      by (rule tri_conj) (rule tri_persist_and_apply [OF o])
  qed
qed (use n holding_clean in blast)+

lemma tri_armMarked:
  assumes "orc_in b orc"
  shows "tri b (holding b st) (armMarked orc ex st plan) (\<lambda>u. accounted b)"
proof (cases "ns_protection st")
  case None
  then show ?thesis unfolding armMarked_def
    by (auto intro!: tri_lift_bind tri_first_allocation [OF assms] allocated_table(2))
next
  case (Some prot)
  have rep: "tri b (holding b st) (replaceMarkedProtection orc ex prot target prev) (\<lambda>u. accounted b)" for target prev
    unfolding replaceMarkedProtection_def
    by (rule tri_holding [OF tri_has_accounted [OF tri_replace_with [OF assms]] Some]) (simp add: next_marks_def)
  show ?thesis unfolding armMarked_def Some option.case
    by (rule tri_lift_bind, blast) (simp add: rep tri_holding_fail tri_check_plan)
qed

lemma tri_arm_endpoints:
  assumes "orc_in b orc"
  shows "tri b (holding b st) (arm_endpoints orc ex st plan) (\<lambda>u. accounted b)"
proof (cases "ns_protection st")
  case None
  then show ?thesis unfolding arm_endpoints_def
    by (auto intro!: tri_lift_bind tri_first_allocation [OF assms] allocated_table(1))
next
  case (Some prot)
  have rep: "tri b (holding b st) (replaceProtection orc ex prot target prev) (\<lambda>u. accounted b)" for target prev
    unfolding replaceProtection_def
    by (rule tri_holding [OF tri_has_accounted [OF tri_replace_with [OF assms]] Some]) (simp add: next_endpoints_def)
  show ?thesis unfolding arm_endpoints_def Some option.case
    by (rule tri_lift_bind, blast) (simp add: rep tri_holding_fail tri_check_plan)
qed

text \<open>After a load the record is held, or there is none.\<close>

lemma tri_loaded:
  assumes "orc_in b orc" and "tri b (accounted b) (f None) Q" and "\<And>st. tri b (holding b st) (f (Some st)) Q"
  shows "tri b (accounted b) (bindp (store_load orc) f) Q"
proof (rule tri_bind [OF tri_load [OF assms(1)]])
  fix r
  show "tri b (\<lambda>s. accounted b s \<and> held (sy_disk s) = r) (f r) Q"
    by (cases r) (use assms(2,3) in \<open>auto intro: tri_weaken\<close>)
qed

lemma tri_none: "tri b (accounted b) (fail e) Q"
  by (rule tri_fail)

lemma tri_Arm:
  assumes "orc_in b orc"
  shows "tri b (accounted b) (Arm orc (Some ex) plan) (\<lambda>u. accounted b)"
  unfolding Arm_def with_executor_def option.case
  by (rule tri_loaded [OF assms])
    (simp_all add: tri_none tri_holding_fail tri_armMarked [OF assms] tri_arm_endpoints [OF assms])

lemma tri_Verify:
  assumes "orc_in b orc"
  shows "tri b (accounted b) (Verify orc (Some ex)) (\<lambda>u. accounted b)"
  unfolding Verify_def with_executor_def option.case
proof (rule tri_loaded [OF assms])
  fix st
  let ?body = "\<lambda>prot. if np_state prot = ProtectionRemoving \<or> np_state prot = ProtectionUnarmed then fail (Refused ''state'')
             else
               bindp (lift_plan (privacyEnvelopePlanFromAuthority prot)) (\<lambda>plan.
               bindp (exec_verify orc ex plan) (\<lambda>u.
                 if np_state prot = ProtectionArmed \<and> np_previous_bootstrap prot = [] \<and> np_previous_marks prot = []
                 then ret ()
                 else store_set_protection orc (Some (verified_protection prot))))"
  show "tri b (holding b st) (case Option.bind (Some st) ns_protection of None \<Rightarrow> fail (Refused ''no authority'')
      | Some prot \<Rightarrow> ?body prot) (\<lambda>u. accounted b)"
  proof (cases "ns_protection st")
    case None
    then show ?thesis by (simp add: tri_holding_fail)
  next
    case (Some prot)
    have set: "tri b (holding b st) (store_set_protection orc (Some (verified_protection prot))) (\<lambda>u. accounted b)"
      by (rule tri_holding [OF tri_has_accounted [OF tri_weaken [OF tri_set_named [OF assms]]] Some])
        (auto simp: verified_protection_def)
    have "tri b (holding b st) (?body prot) (\<lambda>u. accounted b)"
    proof (cases "np_state prot = ProtectionRemoving \<or> np_state prot = ProtectionUnarmed")
      case True
      then show ?thesis by (simp add: tri_holding_fail)
    next
      case False
      show ?thesis unfolding if_not_P [OF False]
        by (rule tri_lift_bind, blast, rule tri_bind [OF tri_query_keep [of "holding b st"]])
          (use set in \<open>auto intro: tri_pure\<close>)
    qed
    with Some show ?thesis by simp
  qed
qed (simp add: tri_none)

lemma tri_then_verify:
  assumes "orc_in b orc" and "tri b P m (\<lambda>u. has b t)"
  shows "tri b P (bindp m (\<lambda>u. Verify orc (Some ex))) (\<lambda>u. accounted b)"
  by (rule tri_bind [OF tri_has_accounted [OF assms(2)] tri_Verify [OF assms(1)]])

lemma tri_holding_ret: "tri b (holding b st) (ret x) (\<lambda>u. accounted b)"
  by (rule tri_pure) blast+

lemma tri_prepareMarked:
  assumes "orc_in b orc"
  shows "tri b (holding b st) (prepareMarkedReplacement orc ex st plan) (\<lambda>u. accounted b)"
proof (cases "ns_protection st")
  case None
  then show ?thesis by (simp add: prepareMarkedReplacement_def tri_holding_fail)
next
  case (Some prot)
  have rep: "tri b (holding b st) (bindp (replaceMarkedProtection orc ex prot union (np_marks prot)) (\<lambda>u. Verify orc (Some ex)))
      (\<lambda>u. accounted b)" for union
    unfolding replaceMarkedProtection_def
    by (rule tri_holding [OF tri_then_verify [OF assms tri_replace_with [OF assms]] Some]) (simp add: next_marks_def)
  show ?thesis unfolding prepareMarkedReplacement_def Some option.case
    by (auto intro!: tri_lift_bind tri_holding_fail tri_holding_ret rep)
qed

lemma tri_PrepareReplacement:
  assumes "orc_in b orc"
  shows "tri b (accounted b) (PrepareReplacement orc (Some ex) plan) (\<lambda>u. accounted b)"
  unfolding PrepareReplacement_def with_executor_def option.case
proof (rule tri_loaded [OF assms], simp add: tri_none)
  fix st
  show "tri b (holding b st)
     (case Some st of None \<Rightarrow> fail (Refused ''no previous authority'')
      | Some state \<Rightarrow>
          (case ns_protection state of None \<Rightarrow> fail (Refused ''no previous authority'')
           | Some prot \<Rightarrow>
                  if ns_replacement state = None then fail (Refused ''no previous authority'')
                  else if ns_intent state \<noteq> IntentResume then fail (Refused ''intent'')
                  else if np_state prot \<noteq> ProtectionArmed then fail (Refused ''not armed'')
                  else if np_interface prot \<noteq> tdp_name (tp_device plan) then fail (Refused ''interface'')
                  else if tp_egress_mark plan \<noteq> 0 then prepareMarkedReplacement orc ex state plan
                  else
                    bindp (lift_plan (privacyEnvelopeBootstrapForTunPlan plan)) (\<lambda>target.
                    bindp (lift_plan (normalizePrivacyEnvelopeBootstrapIPv4 (np_bootstrap prot @ target))) (\<lambda>union.
                      if union = np_bootstrap prot then ret ()
                      else bindp (replaceProtection orc ex prot union (np_bootstrap prot)) (\<lambda>u. Verify orc (Some ex))))))
     (\<lambda>u. accounted b)"
  proof (cases "ns_protection st")
    case None
    then show ?thesis by (simp add: tri_holding_fail)
  next
    case (Some prot)
    have rep: "tri b (holding b st) (bindp (replaceProtection orc ex prot union (np_bootstrap prot)) (\<lambda>u. Verify orc (Some ex)))
        (\<lambda>u. accounted b)" for union
      unfolding replaceProtection_def
      by (rule tri_holding [OF tri_then_verify [OF assms tri_replace_with [OF assms]] Some]) (simp add: next_endpoints_def)
    show ?thesis unfolding Some option.case
      by (auto intro!: tri_lift_bind tri_holding_fail tri_holding_ret rep tri_prepareMarked [OF assms])
  qed
qed

text \<open>The recovery of a replacement: the previous protection names the same table as the current one.\<close>

lemma previous_table:
  assumes "accounted b s" "held (sy_disk s) = Some st" "ns_replacement st = Some rep" "nr_protection rep = Some prev"
    "ns_protection st = Some prot"
  shows "np_table prev = np_table prot"
proof -
  have "validateNetworkSessionState st = None"
    using assms(1,2) held_written by (auto simp: accounted_def written_def)
  then have "replacement_error st = None" by (simp add: validateNetworkSessionState_def first_error_None_iff)
  with assms(3-5) show ?thesis
    by (auto simp: replacement_error_def first_error_None_iff samePrivacyEnvelopeIdentity_def split: if_splits)
qed

lemma tri_restore_authority:
  assumes "orc_in b orc"
  shows "tri b (accounted b) (restoreProtectedReplacementAuthority orc) (\<lambda>u. accounted b)"
  unfolding restoreProtectedReplacementAuthority_def
  by (rule tri_bind [OF tri_restore [OF assms]], rule tri_loaded [OF assms])
    (auto intro: tri_none tri_holding_fail tri_holding_ret)

lemma tri_match:
  assumes "\<And>s. P s \<Longrightarrow> accounted b s" and "\<And>s n. P s \<Longrightarrow> P (s\<lparr>sy_tick := n\<rparr>)"
  shows "tri b P (match_candidate orc ex found plans) (\<lambda>u. P)"
proof (induction plans arbitrary: found)
  case Nil
  then show ?case unfolding tri_def by (auto intro: assms(1) split: option.splits)
next
  case (Cons plan plans)
  show ?case unfolding tri_def
  proof (intro allI impI)
    fix s s' :: "'w system" and r
    assume P: "P s" and m: "match_candidate orc ex found (plan # plans) s = (s', r)"
    obtain s1 v where v: "exec_verify orc ex plan s = (s1, v)" by fastforce
    then have s1: "s1 = s\<lparr>sy_tick := Suc (sy_tick s)\<rparr>" by (simp add: exec_verify_def exec_query_def)
    have P1: "P s1" unfolding s1 by (rule assms(2) [OF P])
    from m v consider "match_candidate orc ex found plans s1 = (s', r)"
      | "match_candidate orc ex (Some plan) plans s1 = (s', r)" | e where "s' = s1" "r = Inl e"
      by (auto split: sum.splits if_splits)
    then show "accounted b s' \<and> (\<forall>x. r = Inr x \<longrightarrow> P s')"
      using Cons.IH P1 assms(1) [OF P1] unfolding tri_def by cases blast+
  qed
qed

lemma tri_reconcile_replacement:
  assumes "orc_in b orc"
  shows "tri b (holding b st) (reconcileProtectedNetworkSessionReplacement orc ex st) (\<lambda>u. accounted b)"
proof (cases "Option.bind (ns_replacement st) nr_protection = None \<or> ns_protection st = None")
  case True
  then show ?thesis
    by (auto simp: reconcileProtectedNetworkSessionReplacement_def intro: tri_holding_fail split: option.splits)
next
  case False
  then obtain rep prev prot where x: "ns_replacement st = Some rep" "nr_protection rep = Some prev"
    "ns_protection st = Some prot" by (auto simp: bind_eq_None_conv)
  then have b: "Option.bind (ns_replacement st) nr_protection = Some prev" by simp
  have pre: "has b (np_table prev) s" if "holding b st s" for s
    using that previous_table [of b s st rep prev prot] holding_has [of b s st prot] x by metis
  note verify = tri_query_keep [of "has b (np_table prev)" b, OF has_accounted]
  have finish: "tri b (has b (np_table prev)) (bindp (exec_verify orc ex q) (\<lambda>u. restoreProtectedReplacementAuthority orc))
      (\<lambda>u. accounted b)" for q
    by (rule tri_bind [OF tri_has_accounted [OF verify] tri_restore_authority [OF assms]]) auto
  have "tri b (has b (np_table prev)) (reconcileProtectedNetworkSessionReplacement orc ex st) (\<lambda>u. accounted b)"
    unfolding reconcileProtectedNetworkSessionReplacement_def b x(3) prod.case option.case
  proof (rule tri_lift_bind [OF has_accounted], assumption)
    fix plan assume "privacyEnvelopePlanFromAuthority prev = Inr plan"
    then have t: "pe_table plan = np_table prev" using planned_eq by blast
    let ?absent = "bindp (exec_apply orc ex plan) (\<lambda>u.
        bindp (exec_verify orc ex plan) (\<lambda>u. restoreProtectedReplacementAuthority orc))"
    let ?live = "bindp (lift_plan (replacementRecoveryPlans prev prot)) (\<lambda>plans.
        bindp (match_candidate orc ex None plans) (\<lambda>matched.
          if matched \<noteq> plan then
            bindp (exec_replace orc ex matched plan) (\<lambda>u.
            bindp (exec_verify orc ex plan) (\<lambda>u. restoreProtectedReplacementAuthority orc))
          else restoreProtectedReplacementAuthority orc))"
    have absent: "tri b (has b (np_table prev)) ?absent (\<lambda>u. accounted b)"
      using tri_bind [OF tri_apply [of b plan] finish [folded t]] t by simp
    have swap: "tri b (has b (np_table prev)) (bindp (exec_replace orc ex q plan) (\<lambda>u.
        bindp (exec_verify orc ex plan) (\<lambda>u. restoreProtectedReplacementAuthority orc))) (\<lambda>u. accounted b)" for q
      by (rule tri_bind [OF tri_replace finish])
    have same: "tri b (has b (np_table prev)) (restoreProtectedReplacementAuthority orc) (\<lambda>u. accounted b)"
      by (rule tri_weaken [OF tri_restore_authority [OF assms]]) (auto dest: has_accounted)
    have live: "tri b (has b (np_table prev)) ?live (\<lambda>u. accounted b)"
    proof (rule tri_lift_bind [OF has_accounted], assumption)
      fix plans
      show "tri b (has b (np_table prev)) (bindp (match_candidate orc ex None plans) (\<lambda>matched.
          if matched \<noteq> plan then bindp (exec_replace orc ex matched plan) (\<lambda>u.
            bindp (exec_verify orc ex plan) (\<lambda>u. restoreProtectedReplacementAuthority orc))
          else restoreProtectedReplacementAuthority orc)) (\<lambda>u. accounted b)"
        by (rule tri_bind [OF tri_match [of "has b (np_table prev)" b, OF has_accounted]]) (auto simp: swap same)
    qed
    have seen: "tri b (has b (np_table prev)) (exec_exists orc ex plan) (\<lambda>u. has b (np_table prev))"
      by (rule tri_weaken [OF tri_exists [of "has b (np_table prev)" b, OF has_accounted]]) auto
    show "tri b (has b (np_table prev)) (bindp (exec_exists orc ex plan) (\<lambda>present. if \<not> present then ?absent else ?live))
        (\<lambda>u. accounted b)"
      by (rule tri_bind [OF seen]) (auto simp: absent live)
  qed
  then show ?thesis by (rule tri_weaken) (use pre in blast)+
qed

text \<open>Once the table is observed absent, nothing of ours is left and the protection may be forgotten.\<close>

lemma has_absent: "has b t s \<Longrightarrow> \<not> owned (sy_fw s) t \<Longrightarrow> clean b s"
  unfolding clean_def using has_owned has_accounted by blast

lemma tri_observe:
  assumes "pe_table plan = t"
  shows "tri b (has b t) (exec_exists orc ex plan) (\<lambda>present s. has b t s \<and> (\<not> present \<longrightarrow> clean b s))"
  by (rule tri_weaken [OF tri_exists [of "has b t" b, OF has_accounted]]) (use assms in \<open>auto intro: has_absent\<close>)

lemma tri_if_absent:
  assumes "tri b (clean b) absent Q" and "tri b (has b t) present Q"
  shows "tri b (\<lambda>s. has b t s \<and> (\<not> c \<longrightarrow> clean b s)) (if \<not> c then absent else present) Q"
  by (cases c) (simp_all, auto intro: tri_weaken assms)

lemma tri_remove_protected:
  assumes "orc_in b orc"
  shows "tri b (has b (np_table prot)) (remove_protected orc ex prot) (\<lambda>u. accounted b)"
  unfolding remove_protected_def
proof (rule tri_lift_bind [OF has_accounted], assumption)
  fix plan assume "privacyEnvelopePlanFromAuthority prot = Inr plan"
  then have t: "pe_table plan = np_table prot" using planned_eq by blast
  let ?t = "np_table prot"
  note forget = tri_set_none [OF assms]
  have last: "tri b (has b ?t) (bindp (exec_exists orc ex plan) (\<lambda>present.
      if present then fail (Refused ''still exists'') else store_set_protection orc None)) (\<lambda>u. accounted b)"
    by (rule tri_bind [OF tri_observe [OF t]])
      (auto intro: tri_weaken [OF forget] tri_fail dest: has_accounted)
  have set: "tri b (has b ?t) (store_set_protection orc (Some (prot\<lparr>np_state := ProtectionRemoving\<rparr>))) (\<lambda>u. has b ?t)"
    using tri_set_named [OF assms, of "prot\<lparr>np_state := ProtectionRemoving\<rparr>"] by simp
  have verify: "tri b (has b ?t) (exec_verify orc ex plan) (\<lambda>u. has b ?t)"
    by (rule tri_query_keep [of "has b ?t" b, OF has_accounted]) simp_all
  show "tri b (has b ?t) (bindp (exec_exists orc ex plan) (\<lambda>present.
       if \<not> present then store_set_protection orc None
       else
         bindp (exec_verify orc ex plan) (\<lambda>u.
         bindp (store_set_protection orc (Some (prot\<lparr>np_state := ProtectionRemoving\<rparr>))) (\<lambda>u.
         bindp (exec_remove orc ex plan) (\<lambda>u.
         bindp (exec_exists orc ex plan) (\<lambda>present.
           if present then fail (Refused ''still exists'') else store_set_protection orc None)))))) (\<lambda>u. accounted b)"
    by (rule tri_bind [OF tri_observe [OF t] tri_if_absent [OF forget]])
      (rule tri_bind [OF verify tri_bind [OF set tri_bind [OF tri_remove last]]])
qed

lemma store_unit_fw: "store_unit orc f s = (s', r) \<Longrightarrow> sy_fw s' = sy_fw s"
  by (auto simp: store_unit_def split: prod.splits)

lemma tri_restore_clean:
  assumes "orc_in b orc"
  shows "tri b (clean b) (store_restore orc) (\<lambda>u. clean b)"
  unfolding tri_def
proof (intro allI impI)
  fix s s' :: "'w system" and r
  assume c: "clean b s" and m: "store_restore orc s = (s', r)"
  have "accounted b s'" using tri_restore [OF assms] clean_accounted [OF c] m unfolding tri_def by blast
  moreover have "sy_fw s' = sy_fw s" using m unfolding store_restore_def by (rule store_unit_fw)
  ultimately show "accounted b s' \<and> (\<forall>x. r = Inr x \<longrightarrow> clean b s')" using c by (simp add: clean_def)
qed

lemma tri_reconcile_then_remove:
  assumes "orc_in b orc"
  shows "tri b (holding b st) (bindp (reconcileProtectedNetworkSessionReplacement orc ex st) (\<lambda>st'.
      bindp (store_load orc) (\<lambda>r.
        case Option.bind r ns_protection of
          None \<Rightarrow> fail (Refused ''lost authority'')
        | Some prot' \<Rightarrow> remove_protected orc ex prot'))) (\<lambda>u. accounted b)"
proof (rule tri_bind [OF tri_reconcile_replacement [OF assms]], rule tri_loaded [OF assms])
  fix st
  show "tri b (holding b st) (case Option.bind (Some st) ns_protection of
          None \<Rightarrow> fail (Refused ''lost authority'')
        | Some prot' \<Rightarrow> remove_protected orc ex prot') (\<lambda>u. accounted b)"
    by (cases "ns_protection st")
      (auto intro: tri_holding_fail tri_holding [OF tri_remove_protected [OF assms]])
qed (simp add: tri_none)

lemma tri_RemoveAfterDataPlaneCleanup:
  assumes "orc_in b orc"
  shows "tri b (accounted b) (RemoveAfterDataPlaneCleanup orc (Some ex)) (\<lambda>u. accounted b)"
  unfolding RemoveAfterDataPlaneCleanup_def with_executor_def option.case
proof (rule tri_loaded [OF assms])
  fix st
  let ?recover = "bindp (reconcileProtectedNetworkSessionReplacement orc ex st) (\<lambda>st'.
      bindp (store_load orc) (\<lambda>r.
        case Option.bind r ns_protection of
          None \<Rightarrow> fail (Refused ''lost authority'')
        | Some prot' \<Rightarrow> remove_protected orc ex prot'))"
  let ?forget = "bindp (store_restore orc) (\<lambda>u. store_set_protection orc None)"
  let ?body = "\<lambda>prot. if ns_replacement st = None then remove_protected orc ex prot
      else bindp (lift_plan (privacyEnvelopePlanFromAuthority prot)) (\<lambda>identity.
           bindp (exec_exists orc ex identity) (\<lambda>present. if \<not> present then ?forget else ?recover))"
  have forget: "tri b (clean b) ?forget (\<lambda>u. accounted b)"
    by (rule tri_bind [OF tri_restore_clean [OF assms] tri_set_none [OF assms]])
  have "tri b (holding b st) (?body prot) (\<lambda>u. accounted b)" if p: "ns_protection st = Some prot" for prot
  proof (cases "ns_replacement st = None")
    case True
    then show ?thesis by (simp add: tri_holding [OF tri_remove_protected [OF assms] p])
  next
    case False
    have "tri b (holding b st) (bindp (exec_exists orc ex plan) (\<lambda>present. if \<not> present then ?forget else ?recover))
        (\<lambda>u. accounted b)" if "privacyEnvelopePlanFromAuthority prot = Inr plan" for plan
    proof -
      have t: "pe_table plan = np_table prot" using planned_eq that by blast
      have seen: "tri b (holding b st) (exec_exists orc ex plan)
          (\<lambda>present s. holding b st s \<and> (\<not> present \<longrightarrow> clean b s))"
        by (rule tri_weaken [OF tri_exists [of "holding b st" b]])
          (auto simp: t intro: has_absent [OF holding_has [OF _ _ p]])
      show ?thesis
        by (rule tri_bind [OF seen]) (auto intro: tri_weaken [OF forget] tri_weaken [OF tri_reconcile_then_remove [OF assms]])
    qed
    with False show ?thesis by (auto intro!: tri_lift_bind)
  qed
  then show "tri b (holding b st) (case Some st of None \<Rightarrow> ret ()
      | Some state \<Rightarrow> (case ns_protection state of None \<Rightarrow> ret ()
         | Some prot \<Rightarrow> if ns_replacement state = None then remove_protected orc ex prot
             else bindp (lift_plan (privacyEnvelopePlanFromAuthority prot)) (\<lambda>identity.
               bindp (exec_exists orc ex identity) (\<lambda>present. if \<not> present then ?forget
               else bindp (reconcileProtectedNetworkSessionReplacement orc ex state) (\<lambda>st'.
                bindp (store_load orc) (\<lambda>r.
                  case Option.bind r ns_protection of
                    None \<Rightarrow> fail (Refused ''lost authority'')
                  | Some prot' \<Rightarrow> remove_protected orc ex prot')))))) (\<lambda>u. accounted b)"
    by (cases "ns_protection st") (simp_all add: tri_holding_ret)
qed (simp add: tri_ok)

lemma tri_CleanupAfterFailedDataPlane:
  assumes "orc_in b orc"
  shows "tri b (accounted b) (CleanupAfterFailedDataPlane orc (Some ex)) (\<lambda>u. accounted b)"
  unfolding CleanupAfterFailedDataPlane_def with_executor_def option.case
  by (rule tri_loaded [OF assms])
    (auto intro!: tri_ok tri_holding_ret tri_bind [OF tri_reconcile_replacement [OF assms]])

lemma tri_reconcile:
  assumes "orc_in b orc"
  shows "tri b (accounted b) (reconcileNetworkSessionProtection orc (Some ex)) (\<lambda>u. accounted b)"
  unfolding reconcileNetworkSessionProtection_def with_executor_def option.case
proof (rule tri_loaded [OF assms])
  fix st :: networkSessionState
  let ?armed = "\<lambda>prot. prot\<lparr>np_state := ProtectionArmed\<rparr>"
  let ?finish = "\<lambda>prot. if np_state prot \<noteq> ProtectionArmed then
      bindp (store_set_protection orc (Some (?armed prot))) (\<lambda>u. ret (Some (st\<lparr>ns_protection := Some (?armed prot)\<rparr>)))
    else ret (Some st)"
  let ?ensure = "\<lambda>plan present. if present then exec_verify orc ex plan
    else bindp (exec_apply orc ex plan) (\<lambda>u. exec_verify orc ex plan)"
  have finish: "tri b (has b (np_table prot)) (?finish prot) (\<lambda>u. accounted b)" for prot
  proof (cases "np_state prot = ProtectionArmed")
    case True
    then show ?thesis by (auto intro: tri_pure dest: has_accounted)
  next
    case False
    have "tri b (has b (np_table prot)) (store_set_protection orc (Some (?armed prot))) (\<lambda>u. accounted b)"
      using tri_has_accounted [OF tri_set_named [OF assms, of "?armed prot"]] by simp
    from tri_bind [OF this tri_ok] False show ?thesis by simp
  qed
  have verify: "tri b (has b t) (exec_verify orc ex plan) (\<lambda>u. has b t)" for t plan
    by (rule tri_query_keep [of "has b t" b, OF has_accounted]) simp_all
  have ensure: "tri b (has b (pe_table plan)) (?ensure plan present) (\<lambda>u. has b (pe_table plan))" for plan present
    by (cases present) (simp_all add: verify tri_bind [OF tri_apply verify])
  have seen: "tri b (has b t) (exec_exists orc ex plan) (\<lambda>present. has b t)" for plan t
    by (rule tri_weaken [OF tri_exists [of "has b t" b, OF has_accounted]]) auto
  have body: "tri b (holding b st) (bindp (lift_plan (privacyEnvelopePlanFromAuthority prot)) (\<lambda>plan.
      bindp (exec_exists orc ex plan) (\<lambda>present. bindp (?ensure plan present) (\<lambda>u. ?finish prot)))) (\<lambda>u. accounted b)"
    if p: "ns_protection st = Some prot" for prot
  proof (rule tri_lift_bind)
    fix plan assume "privacyEnvelopePlanFromAuthority prot = Inr plan"
    then have t: "pe_table plan = np_table prot" using planned_eq by blast
    show "tri b (holding b st) (bindp (exec_exists orc ex plan) (\<lambda>present. bindp (?ensure plan present) (\<lambda>u. ?finish prot)))
        (\<lambda>u. accounted b)"
      by (rule tri_holding [OF tri_bind [OF seen tri_bind [OF ensure [of plan, unfolded t] finish]] p])
  qed blast
  show "tri b (holding b st) (case Some st of None \<Rightarrow> ret None
       | Some state \<Rightarrow>
           (case ns_protection state of
              None \<Rightarrow> ret (Some state)
            | Some prot \<Rightarrow>
                  if ns_intent state \<noteq> IntentResume then fail (Refused ''intent'')
                  else if np_state prot \<noteq> ProtectionArming \<and> np_state prot \<noteq> ProtectionArmed then fail (Refused ''state'')
                  else if ns_replacement state \<noteq> None then
                    bindp (reconcileProtectedNetworkSessionReplacement orc ex state) (\<lambda>st. ret (Some st))
                  else
                    bindp (lift_plan (privacyEnvelopePlanFromAuthority prot)) (\<lambda>plan.
                    bindp (exec_exists orc ex plan) (\<lambda>present.
                    bindp (if present then exec_verify orc ex plan
                           else bindp (exec_apply orc ex plan) (\<lambda>u. exec_verify orc ex plan)) (\<lambda>u.
                      if np_state prot \<noteq> ProtectionArmed then
                        bindp (store_set_protection orc (Some (prot\<lparr>np_state := ProtectionArmed\<rparr>))) (\<lambda>u.
                          ret (Some (state\<lparr>ns_protection := Some (prot\<lparr>np_state := ProtectionArmed\<rparr>)\<rparr>)))
                      else ret (Some state)))))) (\<lambda>u. accounted b)"
  proof (cases "ns_protection st")
    case None
    then show ?thesis by (simp add: tri_holding_ret)
  next
    case (Some prot)
    show ?thesis unfolding Some option.case
      by (intro tri_if tri_holding_fail body [OF Some] tri_bind [OF tri_reconcile_replacement [OF assms] tri_ok])
  qed
qed (simp add: tri_ok)

subsection \<open>Runs\<close>

lemma accounted_session_step:
  assumes "accounted b s" "session_step b l (sy_disk s) d" "l \<noteq> LProtection"
  shows "accounted b (s\<lparr>sy_disk := d\<rparr>)"
proof -
  from assms(1) have ok: "disk_ok (sy_disk s)" and boot: "\<And>st. held (sy_disk s) = Some st \<Longrightarrow> ns_boot_id st = b"
    by (auto simp: accounted_def)
  note e = step_has_effect [OF assms(2) ok]
  from e consider "sk_main d = sk_main (sy_disk s)"
    | st where "sk_main d = None" "held (sy_disk s) = Some st" "ns_protection st = None"
    | st st' where "written st' d" "held (sy_disk s) = Some st" "evolves l st st'"
    | st' where "written st' d" "ns_boot_id st' = b" "held (sy_disk s) = None"
    using boot by (auto simp: step_effect_def)
  then show ?thesis
  proof cases
    case 1
    with main_cong [OF 1] assms(1) show ?thesis by (simp add: accounted_def)
  next
    case (2 st)
    with accounted_none [OF assms(1)] effect_ok [OF ok e] show ?thesis by (simp add: accounted_def held_def)
  next
    case (3 st st')
    have "\<exists>p'. ns_protection st' = Some p' \<and> np_table p' = t" if o: "owned (sy_fw s) t" for t
    proof -
      from assms(1) o 3(2) obtain p where "ns_protection st = Some p" "np_table p = t" unfolding accounted_def by fastforce
      with 3(3) assms(3) show ?thesis by (auto simp: evolves_def samePrivacyEnvelopeIdentity_def)
    qed
    with 3 boot [OF 3(2)] written_held [OF 3(1)] effect_ok [OF ok e] show ?thesis
      by (auto simp: accounted_def evolves_def)
  next
    case (4 st')
    with accounted_none [OF assms(1)] written_held [OF 4(1)] effect_ok [OF ok e] show ?thesis by (auto simp: accounted_def)
  qed
qed

lemma triD: "tri b (accounted b) m (\<lambda>u. accounted b) \<Longrightarrow> m s = (s', r) \<Longrightarrow> accounted b s \<Longrightarrow> accounted b s'"
  unfolding tri_def by blast

lemma accounted_step: "lifecycle_step ex b s s' \<Longrightarrow> accounted b s \<Longrightarrow> accounted b s'"
  by (induction rule: lifecycle_step.induct)
    (blast intro: accounted_session_step triD [OF tri_Arm] triD [OF tri_Verify] triD [OF tri_PrepareReplacement]
      triD [OF tri_reconcile] triD [OF tri_CleanupAfterFailedDataPlane] triD [OF tri_RemoveAfterDataPlaneCleanup])+

lemma accounted_run: "lifecycle_run ex b s s' \<Longrightarrow> accounted b s \<Longrightarrow> accounted b s'"
  by (induction rule: lifecycle_run.induct) (auto intro: accounted_step)

end

end
