(* ===== verification/Nft_Mutation_Facts.thy ===== *)
theory Nft_Mutation_Facts
  imports Nft_Mutation Envelope_Lifecycle_Facts
begin

text \<open>
  What the generation guard and the executors guarantee.  Two contracts of the firewall host: \<open>guarded_ruleset\<close>,
  under which a stale observation never authorises a mutation although other programs change the ruleset
  between any two calls, and \<open>nft_kernel\<close>, under which the executor of this program keeps the contract
  \<open>envelope_executor\<close> of the lifecycle.  A reference kernel keeps both.
\<close>

section \<open>Runs that commit nothing\<close>

definition quiet :: "('w, 'a) nft_act \<Rightarrow> bool" where
  "quiet m \<longleftrightarrow> (\<forall>s s' r. m s = (s', r) \<longrightarrow> nr_log s' = nr_log s)"

lemma check_bind [simp]: "bindp (check c) f s = (case c of None \<Rightarrow> f () s | Some e \<Rightarrow> (s, Inl e))"
  by (cases c) (simp_all add: check_def bindp_def ret_def fail_def)

lemma quietD: "quiet m \<Longrightarrow> m s = (s', r) \<Longrightarrow> nr_log s' = nr_log s"
  by (auto simp: quiet_def)

lemma quiet_bind: "quiet m \<Longrightarrow> (\<And>x. quiet (f x)) \<Longrightarrow> quiet (bindp m f)"
  unfolding quiet_def by (fastforce elim!: bindp_cases)

lemma quiet_basic [simp]: "quiet (ret x)" "quiet (fail e)" "quiet (liftp q)" "quiet (check c)" "quiet (host_query env f)"
  by (auto simp: quiet_def check_def host_query_def Let_def split: option.splits)

lemma quiet_if: "quiet a \<Longrightarrow> quiet b \<Longrightarrow> quiet (if c then a else b)"
  by simp

lemma quiet_observers:
  "quiet (generation env host)" "quiet (observeNftTablePresence env host family table)"
  "quiet (list_table env host family table)"
  by (auto simp: generation_def observeNftTablePresence_def list_table_def intro!: quiet_bind)

lemma quiet_observe: "quiet (observe_attempts env host family table plan k)"
proof (induction k)
  case (Suc k)
  then show ?case
    by (auto intro!: quiet_bind quiet_observers)
qed simp

section \<open>The generation guard\<close>

text \<open>The table as it stands verifies against the plan.\<close>

definition verified_in :: "'w nft_host \<Rightarrow> string \<Rightarrow> string \<Rightarrow> composition \<Rightarrow> 'w \<Rightarrow> bool" where
  "verified_in host family table plan w \<longleftrightarrow>
     (\<exists>f out snap. nh_table host f family table w = Some out \<and> parseNftTableJSON (Some out) family table = Inr snap \<and>
        verifyNftTableSnapshot snap plan = None)"

text \<open>The kernel numbers the rulesets: a read returns the current number, a guarded commit changes nothing unless its
  number is the current one, and whoever else changes the ruleset advances the number (which does not wrap
  around during a run).\<close>

locale guarded_ruleset =
  fixes host :: "'w nft_host"
    and gen :: "'w \<Rightarrow> 32 word"
    and env :: "'w nft_env"
  assumes generation_sound: "nh_generation host f w = Some g \<Longrightarrow> g = gen w"
    and commit_guarded: "nh_commit host f g cmds w = (w', ok) \<Longrightarrow> w' \<noteq> w \<Longrightarrow> g = gen w"
    and others_advance: "snd (env n) w \<noteq> w \<Longrightarrow> gen w < gen (snd (env n) w)"
begin

definition later :: "'w \<Rightarrow> 'w \<Rightarrow> bool" where
  "later w w' \<longleftrightarrow> w' = w \<or> gen w < gen w'"

lemma later_trans: "later u v \<Longrightarrow> later v w \<Longrightarrow> later u w"
  by (auto simp: later_def)

lemma later_same: "later w w' \<Longrightarrow> gen w = gen w' \<Longrightarrow> w' = w"
  by (auto simp: later_def)

lemma later_between:
  "later u v \<Longrightarrow> later v w \<Longrightarrow> gen u = gen w \<Longrightarrow> v = u \<and> w = u"
  by (auto simp: later_def)

lemma later_env: "later w (snd (env n) w)"
  using others_advance by (auto simp: later_def)

text \<open>A program of observations only moves the world forward.\<close>

definition forward :: "('w, 'a) nft_act \<Rightarrow> bool" where
  "forward m \<longleftrightarrow> (\<forall>s s' r. m s = (s', r) \<longrightarrow> later (nr_world s) (nr_world s'))"

lemma forwardD: "forward m \<Longrightarrow> m s = (s', r) \<Longrightarrow> later (nr_world s) (nr_world s')"
  by (auto simp: forward_def)

lemma forward_bind: "forward m \<Longrightarrow> (\<And>x. forward (f x)) \<Longrightarrow> forward (bindp m f)"
  unfolding forward_def by (fastforce elim!: bindp_cases intro: later_trans)

lemma forward_basic [simp]: "forward (ret x)" "forward (fail e)" "forward (liftp q)" "forward (check c)"
  "forward (host_query env f)"
  by (auto simp: forward_def check_def host_query_def Let_def later_def later_env [unfolded later_def] split: option.splits)

lemma forward_observers:
  "forward (generation env host)" "forward (observeNftTablePresence env host family table)"
  "forward (list_table env host family table)"
  by (auto simp: generation_def observeNftTablePresence_def list_table_def intro!: forward_bind)

lemma generation_read: "generation env host s = (s', Inr g) \<Longrightarrow> g = gen (nr_world s')"
  by (auto simp: generation_def bindp_Inr host_query_def Let_def dest: generation_sound split: option.splits if_splits)

lemma list_table_read:
  "list_table env host family table s = (s', Inr snap) \<Longrightarrow> verifyNftTableSnapshot snap plan = None \<Longrightarrow>
   verified_in host family table plan (nr_world s')"
  by (auto simp: list_table_def bindp_Inr host_query_def Let_def verified_in_def split: option.splits)

lemma check_ok: "check c s = (s', Inr u) \<longleftrightarrow> s' = s \<and> c = None"
  by (auto simp: check_def split: option.splits)

lemma observed_target:
  assumes "observe_attempts env host family table plan k s = (s', Inr (Some target))"
  shows "verified_in host family table plan (nr_world s') \<and> mt_generation target = gen (nr_world s') \<and> mt_table target = table"
  using assms
proof (induction k arbitrary: s)
  case (Suc k)
  from Suc.prems obtain s1 before s2 present where
    g1: "generation env host s = (s1, Inr before)"
    and p: "observeNftTablePresence env host family table s1 = (s2, Inr present)"
    and rest: "(if \<not> present then
         bindp (generation env host) (\<lambda>after.
           if before \<noteq> after then observe_attempts env host family table plan k else ret None)
       else
         bindp (list_table env host family table) (\<lambda>snap.
         bindp (check (verifyNftTableSnapshot snap plan)) (\<lambda>u.
         bindp (generation env host) (\<lambda>after.
           if before \<noteq> after then observe_attempts env host family table plan k
           else if nt_handle snap = 0 then fail ''handle''
           else ret (Some \<lparr>mt_family = family, mt_table = table, mt_handle = nt_handle snap, mt_generation = before\<rparr>)))))
        s2 = (s', Inr (Some target))"
    by (auto simp: bindp_Inr)
  show ?case
  proof (cases present)
    case False
    with rest Suc.IH show ?thesis by (auto simp: bindp_Inr split: if_splits)
  next
    case True
    with rest obtain s3 snap s5 after where
      l: "list_table env host family table s2 = (s3, Inr snap)" and v: "verifyNftTableSnapshot snap plan = None"
      and g2: "generation env host s3 = (s5, Inr after)"
      and fin: "(if before \<noteq> after then observe_attempts env host family table plan k
           else if nt_handle snap = 0 then fail ''handle''
           else ret (Some \<lparr>mt_family = family, mt_table = table, mt_handle = nt_handle snap, mt_generation = before\<rparr>))
        s5 = (s', Inr (Some target))"
      by (auto simp: bindp_Inr split: option.splits)
    show ?thesis
    proof (cases "before = after")
      case False
      with fin Suc.IH show ?thesis by simp
    next
      case same: True
      with fin have t: "s' = s5" "mt_generation target = before" "mt_table target = table" by (auto split: if_splits)
      have "later (nr_world s1) (nr_world s3)"
        using forwardD [OF forward_observers(2) p] forwardD [OF forward_observers(3) l] by (rule later_trans)
      moreover have "later (nr_world s3) (nr_world s5)" using forwardD [OF forward_observers(1) g2] .
      moreover have "gen (nr_world s1) = gen (nr_world s5)" using generation_read [OF g1] generation_read [OF g2] same by simp
      ultimately have "nr_world s3 = nr_world s1 \<and> nr_world s5 = nr_world s1" by (rule later_between)
      with list_table_read [OF l v] generation_read [OF g1] t show ?thesis by simp
    qed
  qed
qed simp

text \<open>A commit under an observed target changes the ruleset only while the observation still holds.\<close>

lemma guarded_commit:
  assumes o: "verified_in host family table plan (nr_world s)" "mt_generation target = gen (nr_world s)"
    and m: "host_mutation env (\<lambda>f. nh_commit host f (mt_generation target) cmds) s = (s', r)"
  shows "\<exists>w w'. nr_log s' = nr_log s @ [(w, w')] \<and> (w' \<noteq> w \<longrightarrow> verified_in host family table plan w)"
proof -
  let ?w = "snd (env (nr_tick s)) (nr_world s)"
  obtain w' ok where c: "nh_commit host (fst (env (nr_tick s))) (mt_generation target) cmds ?w = (w', ok)" by fastforce
  with m have "nr_log s' = nr_log s @ [(?w, w')]" by (auto simp: host_mutation_def Let_def)
  moreover have "verified_in host family table plan ?w" if "w' \<noteq> ?w"
    using commit_guarded [OF c that] o later_same [OF later_env [of "nr_world s" "nr_tick s"]] by simp
  ultimately show ?thesis by blast
qed

definition authorised :: "string \<Rightarrow> string \<Rightarrow> composition \<Rightarrow> 'w nft_run \<Rightarrow> bool" where
  "authorised family table plan s \<longleftrightarrow> (\<forall>(w, w')\<in>set (nr_log s). w' \<noteq> w \<longrightarrow> verified_in host family table plan w)"

lemma authorised_mutation:
  assumes a: "authorised family table plan s"
    and f: "\<And>target s1 s2 q. verified_in host family table plan (nr_world s1) \<Longrightarrow> mt_generation target = gen (nr_world s1) \<Longrightarrow>
        authorised family table plan s1 \<Longrightarrow> f target s1 = (s2, q) \<Longrightarrow> authorised family table plan s2"
    and m: "bindp (observeVerifiedNftTableForMutation env host family table plan)
        (\<lambda>t. case t of None \<Rightarrow> g | Some target \<Rightarrow> f target) s = (s', r)"
    and g: "quiet g"
  shows "authorised family table plan s'"
  using m
proof (cases rule: bindp_cases)
  case (1 e)
  with quietD [OF quiet_observe] a show ?thesis
    unfolding observeVerifiedNftTableForMutation_def authorised_def by fastforce
next
  case (2 s1 x)
  then have log: "nr_log s1 = nr_log s"
    using quietD [OF quiet_observe] unfolding observeVerifiedNftTableForMutation_def by blast
  with a have a1: "authorised family table plan s1" by (simp add: authorised_def)
  show ?thesis
  proof (cases x)
    case None
    with 2(2) quietD [OF g] a1 show ?thesis by (simp add: authorised_def)
  next
    case (Some target)
    note o = observed_target [OF 2(1) [unfolded Some observeVerifiedNftTableForMutation_def]]
    from f [of s1 target s' r] o a1 2(2) Some show ?thesis by simp
  qed
qed

lemma authorised_commit:
  assumes "verified_in host family table plan (nr_world s)" "mt_generation target = gen (nr_world s)"
    "authorised family table plan s" "host_mutation env (\<lambda>f. nh_commit host f (mt_generation target) cmds) s = (s', r)"
  shows "authorised family table plan s'"
  using guarded_commit [OF assms(1,2,4)] assms(3) by (auto simp: authorised_def)

lemma authorised_remove:
  assumes "verified_in host family table plan (nr_world s)" "mt_generation target = gen (nr_world s)"
    "authorised family table plan s" "realNftRemoveTable env host target s = (s', r)"
  shows "authorised family table plan s'"
  using assms(4) unfolding realNftRemoveTable_def
  by (cases rule: bindp_cases) (use assms(1-3) in \<open>auto simp: check_def split: option.splits intro: authorised_commit\<close>)

lemma authorised_replace:
  assumes "verified_in host family table plan (nr_world s)" "mt_generation target = gen (nr_world s)"
    "authorised family table plan s" "realNftReplaceTable env host target family' table' new s = (s', r)"
  shows "authorised family table plan s'"
proof -
  from assms(4) consider "s' = s" | cmds where
    "host_mutation env (\<lambda>f. nh_commit host f (mt_generation target) cmds) s = (s', r)"
    by (auto simp: realNftReplaceTable_def split: option.splits if_splits sum.splits)
  then show ?thesis using authorised_commit [OF assms(1-3)] assms(3) by cases blast+
qed

lemma authorised_quiet: "quiet m \<Longrightarrow> m s = (s', r) \<Longrightarrow> authorised family table plan s \<Longrightarrow> authorised family table plan s'"
  by (simp add: authorised_def quietD)

lemma EnvelopeRemove_authorised:
  assumes "authorised (pe_family plan) (pe_table plan) (envelope_composition plan) s" "EnvelopeRemove env host plan s = (s', r)"
  shows "authorised (pe_family plan) (pe_table plan) (envelope_composition plan) s'"
  using assms(2) unfolding EnvelopeRemove_def
proof (cases rule: bindp_cases)
  case (2 s1 x)
  then have "s1 = s" by (simp add: check_ok)
  with 2(2) assms(1) show ?thesis
    by (auto intro: authorised_mutation [OF _ authorised_remove, where g = "ret ()"])
qed (use assms(1) in \<open>auto simp: check_def split: option.splits\<close>)

lemma EnvelopeReplace_authorised:
  assumes "authorised (pe_family old) (pe_table old) (envelope_composition old) s" "EnvelopeReplace env host old new s = (s', r)"
  shows "authorised (pe_family old) (pe_table old) (envelope_composition old) s'"
proof -
  let ?mutate = "bindp (observeVerifiedNftTableForMutation env host (pe_family old) (pe_table old) (envelope_composition old)) (\<lambda>t.
      case t of None \<Rightarrow> fail ''disappeared''
      | Some target \<Rightarrow> realNftReplaceTable env host target (pe_family new) (pe_table new) (envelope_composition new))"
  from assms(2) have "s' = s \<or> ?mutate s = (s', r)"
    unfolding EnvelopeReplace_def by (simp split: option.splits if_splits)
  then show ?thesis
    using assms(1) by (auto intro: authorised_mutation [OF _ authorised_replace, where g = "fail ''disappeared''"])
qed

lemma NftablesRollback_authorised:
  assumes "authorised family table (firewall_composition plan) s" "NftablesRollback env host plan s = (s', r)"
    and ft: "firewallFamilyTable plan = (family, table)"
  shows "authorised family table (firewall_composition plan) s'"
proof -
  let ?finish = "\<lambda>u. bindp (observeNftTablePresence env host family table) (\<lambda>present.
      if present then fail ''still present'' else ret ())"
  let ?mutate = "bindp (observeVerifiedNftTableForMutation env host family table (firewall_composition plan)) (\<lambda>t.
      case t of None \<Rightarrow> ret () | Some target \<Rightarrow> bindp (realNftRemoveTable env host target) ?finish)"
  have finish: "quiet (?finish u)" for u by (auto intro!: quiet_bind quiet_observers)
  from assms(2) ft have "s' = s \<or> ?mutate s = (s', r)"
    unfolding NftablesRollback_def by (simp split: option.splits if_splits)
  then show ?thesis
  proof
    assume m: "?mutate s = (s', r)"
    show ?thesis
    proof (rule authorised_mutation [OF assms(1) _ m])
      fix target s1 s2 q
      assume o: "verified_in host family table (firewall_composition plan) (nr_world s1)"
        "mt_generation target = gen (nr_world s1)" "authorised family table (firewall_composition plan) s1"
        and b: "bindp (realNftRemoveTable env host target) ?finish s1 = (s2, q)"
      from b show "authorised family table (firewall_composition plan) s2"
        by (cases rule: bindp_cases) (auto dest: authorised_remove [OF o] authorised_quiet [OF finish])
    qed simp
  qed (use assms(1) in simp)
qed

end


section \<open>The executor over a host\<close>

definition calm :: "call_fault \<Rightarrow> 'w nft_env" where
  "calm f = (\<lambda>n. (f, id))"

definition start :: "'w \<Rightarrow> 'w nft_run" where
  "start w = \<lparr>nr_world = w, nr_tick = 0, nr_log = []\<rparr>"

definition answer :: "'w nft_run \<times> (string + 'a) \<Rightarrow> 'a option" where
  "answer x = (case snd x of Inl e \<Rightarrow> None | Inr v \<Rightarrow> Some v)"

definition outcome :: "'w nft_run \<times> (string + unit) \<Rightarrow> 'w \<times> bool" where
  "outcome x = (nr_world (fst x), answer x \<noteq> None)"

definition host_executor :: "'w nft_host \<Rightarrow> 'w executor" where
  "host_executor host =
     \<lparr>ex_table_exists = (\<lambda>f family table w. answer (PrivacyEnvelopeTableExists (calm f) host family table (start w))),
      ex_exists = (\<lambda>f plan w. answer (EnvelopeExists (calm f) host plan (start w))),
      ex_apply = (\<lambda>f plan w. outcome (EnvelopeApply (calm f) host plan (start w))),
      ex_replace = (\<lambda>f old new w. outcome (EnvelopeReplace (calm f) host old new (start w))),
      ex_verify = (\<lambda>f plan w. answer (EnvelopeVerify (calm f) host plan (start w)) \<noteq> None),
      ex_remove = (\<lambda>f plan w. outcome (EnvelopeRemove (calm f) host plan (start w)))\<rparr>"

text \<open>The contract of the firewall host: the enumeration reports exactly the tables that exist, a batch that applies a
  plan creates no other table, and a transaction creates no table but those its commands name.  The tables of
  other programs are given by their names.\<close>

locale nft_kernel =
  fixes host :: "'w nft_host"
    and live :: "'w \<Rightarrow> string \<Rightarrow> bool"
    and foreign :: "string set"
  assumes tables_sound: "nh_tables host f w = Some out \<Longrightarrow> parseNftTablePresenceJSON (Some out) ''inet'' t = Inr p \<Longrightarrow> live w t = p"
    and batch_creates: "privacyEnvelopeApplyScript plan = Inr script \<Longrightarrow> nh_batch host f script w = (w', ok) \<Longrightarrow>
      live w' t \<Longrightarrow> live w t \<or> t = pe_table plan"
    and commit_creates: "nh_commit host f g cmds w = (w', ok) \<Longrightarrow> live w' t \<Longrightarrow> live w t \<or> CreateTable t \<in> set cmds"
begin

definition still :: "('w, 'a) nft_act \<Rightarrow> bool" where
  "still m \<longleftrightarrow> (\<forall>s s' r. m s = (s', r) \<longrightarrow> nr_world s' = nr_world s)"

lemma still_bind: "still m \<Longrightarrow> (\<And>x. still (f x)) \<Longrightarrow> still (bindp m f)"
  unfolding still_def by (fastforce elim!: bindp_cases)

lemma still_basic [simp]: "still (ret x)" "still (fail e)" "still (liftp q)" "still (check c)" "still (host_query (calm f) q')"
  by (auto simp: still_def check_def host_query_def Let_def calm_def split: option.splits)

lemma still_observers:
  "still (generation (calm f) host)" "still (observeNftTablePresence (calm f) host family table)"
  "still (list_table (calm f) host family table)"
  by (auto simp: generation_def observeNftTablePresence_def list_table_def intro!: still_bind)

lemma still_observe: "still (observe_attempts (calm f) host family table plan k)"
  by (induction k) (auto intro!: still_bind still_observers)

lemma stillD: "still m \<Longrightarrow> m s = (s', r) \<Longrightarrow> nr_world s' = nr_world s"
  by (auto simp: still_def)

lemma presence_live:
  assumes "observeNftTablePresence (calm f) host ''inet'' table s = (s', Inr p)"
  shows "live (nr_world s) table = p"
  using assms
  by (auto simp: observeNftTablePresence_def bindp_Inr host_query_def Let_def calm_def dest: tables_sound
      split: if_splits option.splits)

lemma observed_live:
  assumes "observe_attempts (calm f) host ''inet'' table plan k s = (s', Inr (Some target))"
  shows "live (nr_world s) table \<and> mt_table target = table"
  using assms
proof (induction k arbitrary: s)
  case (Suc k)
  from Suc.prems obtain s1 before s2 present where
    g1: "generation (calm f) host s = (s1, Inr before)"
    and p: "observeNftTablePresence (calm f) host ''inet'' table s1 = (s2, Inr present)"
    and rest: "(if \<not> present then
         bindp (generation (calm f) host) (\<lambda>after.
           if before \<noteq> after then observe_attempts (calm f) host ''inet'' table plan k else ret None)
       else
         bindp (list_table (calm f) host ''inet'' table) (\<lambda>snap.
         bindp (check (verifyNftTableSnapshot snap plan)) (\<lambda>u.
         bindp (generation (calm f) host) (\<lambda>after.
           if before \<noteq> after then observe_attempts (calm f) host ''inet'' table plan k
           else if nt_handle snap = 0 then fail ''handle''
           else ret (Some \<lparr>mt_family = ''inet'', mt_table = table, mt_handle = nt_handle snap, mt_generation = before\<rparr>)))))
        s2 = (s', Inr (Some target))"
    by (auto simp: bindp_Inr)
  have w: "nr_world s1 = nr_world s" "nr_world s2 = nr_world s"
    using stillD [OF still_observers(1) g1] stillD [OF still_observers(2) p] by simp_all
  show ?case
  proof (cases present)
    case True
    with presence_live [OF p] w rest Suc.IH show ?thesis
      by (auto simp: bindp_Inr split: option.splits if_splits)
  next
    case False
    with rest obtain s3 after where "generation (calm f) host s2 = (s3, Inr after)"
      "observe_attempts (calm f) host ''inet'' table plan k s3 = (s', Inr (Some target))"
      by (auto simp: bindp_Inr split: if_splits)
    with Suc.IH w stillD [OF still_observers(1)] show ?thesis by metis
  qed
qed simp

lemma valid_family: "validatePrivacyEnvelopePlan plan = None \<Longrightarrow> pe_family plan = ''inet''"
  by (simp add: validatePrivacyEnvelopePlan_def ownedNFTFamily_def split: if_splits)

lemma mutate_live:
  assumes "bindp (observeVerifiedNftTableForMutation (calm f) host ''inet'' table plan)
       (\<lambda>t. case t of None \<Rightarrow> g | Some target \<Rightarrow> m target) s = (s', r)" "still g"
    and m: "\<And>target s1 s2 q. mt_table target = table \<Longrightarrow> m target s1 = (s2, q) \<Longrightarrow> live (nr_world s2) t \<Longrightarrow>
       live (nr_world s1) t \<or> t = table"
    and "live (nr_world s') t"
  shows "live (nr_world s) t"
  using assms(1)
proof (cases rule: bindp_cases)
  case (1 e)
  with stillD [OF still_observe] assms(4) show ?thesis unfolding observeVerifiedNftTableForMutation_def by metis
next
  case (2 s1 x)
  then have w: "nr_world s1 = nr_world s"
    using stillD [OF still_observe] unfolding observeVerifiedNftTableForMutation_def by blast
  show ?thesis
  proof (cases x)
    case None
    with 2(2) stillD [OF assms(2)] assms(4) w show ?thesis by simp
  next
    case (Some target)
    note o = observed_live [OF 2(1) [unfolded Some observeVerifiedNftTableForMutation_def]]
    from m [of target s1 s' r] o 2(2) Some assms(4) w show ?thesis by auto
  qed
qed

lemma mutation_live:
  "host_mutation (calm f) (\<lambda>f. nh_commit host f g cmds) s = (s', r) \<Longrightarrow> live (nr_world s') t \<Longrightarrow>
   live (nr_world s) t \<or> CreateTable t \<in> set cmds"
  by (auto simp: host_mutation_def Let_def calm_def dest: commit_creates split: prod.splits)

lemma remove_live:
  "realNftRemoveTable (calm f) host target s = (s', r) \<Longrightarrow> live (nr_world s') t \<Longrightarrow> live (nr_world s) t"
  using mutation_live [of f "mt_generation target" "[DelTable (mt_table target)]" s s' r t]
  by (auto simp: realNftRemoveTable_def split: option.splits)

lemma add_chains_creates: "add_chains seen cs = Inr cmds \<Longrightarrow> CreateTable t \<notin> set cmds"
  by (induction cs arbitrary: seen cmds) (auto simp: rbind_Inr_iff split: if_splits)

lemma add_rules_creates: "addNftPlanRules cs rs = Inr cmds \<Longrightarrow> CreateTable t \<notin> set cmds"
  by (induction rs arbitrary: cmds) (auto simp: rbind_Inr_iff split: if_splits)

lemma replace_creates: "replace_commands table plan = Inr cmds \<Longrightarrow> CreateTable t \<in> set cmds \<Longrightarrow> t = table"
  using add_chains_creates add_rules_creates
  by (fastforce simp: replace_commands_def addNftPlanChains_def rbind_Inr_iff)

lemma replace_live:
  assumes "realNftReplaceTable (calm f) host target family table plan s = (s', r)" "live (nr_world s') t"
  shows "live (nr_world s) t \<or> t = mt_table target"
proof -
  from assms(1) consider "s' = s" | cmds where "replace_commands (mt_table target) plan = Inr cmds"
    "host_mutation (calm f) (\<lambda>f. nh_commit host f (mt_generation target) cmds) s = (s', r)"
    by (auto simp: realNftReplaceTable_def split: option.splits if_splits sum.splits)
  then show ?thesis using assms(2) replace_creates mutation_live by cases blast+
qed

lemma answered: "answer (m s) = Some x \<longleftrightarrow> (\<exists>s'. m s = (s', Inr x))"
  by (cases "m s") (auto simp: answer_def split: sum.splits)

lemma exists_law: "ex_exists (host_executor host) f plan w = Some present \<Longrightarrow> live w (pe_table plan) = present"
proof -
  assume "ex_exists (host_executor host) f plan w = Some present"
  then obtain s' where s': "EnvelopeExists (calm f) host plan (start w) = (s', Inr present)"
    by (auto simp: host_executor_def answered)
  then have v: "validatePrivacyEnvelopePlan plan = None"
    by (auto simp: EnvelopeExists_def split: option.splits)
  with s' valid_family [OF v] presence_live [of f "pe_table plan" "start w" s' present] show ?thesis
    by (simp add: EnvelopeExists_def start_def)
qed

lemma outcome_world: "outcome (m (start w)) = (w', ok) \<Longrightarrow> \<exists>s' r. m (start w) = (s', r) \<and> nr_world s' = w'"
  by (cases "m (start w)") (auto simp: outcome_def)

lemma apply_law:
  assumes "ex_apply (host_executor host) f plan w = (w', ok)" "live w' t"
  shows "live w t \<or> t = pe_table plan"
proof -
  from assms(1) outcome_world [of "EnvelopeApply (calm f) host plan" w w' ok]
  obtain s' r where s': "EnvelopeApply (calm f) host plan (start w) = (s', r)" "nr_world s' = w'"
    by (auto simp: host_executor_def)
  from s'(1) consider "s' = start w" | script where "privacyEnvelopeApplyScript plan = Inr script"
    "host_mutation (calm f) (\<lambda>f. nh_batch host f script) (start w) = (s', r)"
    by (auto simp: EnvelopeApply_def split: option.splits sum.splits)
  then show ?thesis
  proof cases
    case 1
    with s' assms(2) show ?thesis by (simp add: start_def)
  next
    case (2 script)
    obtain v ok' where b: "nh_batch host f script w = (v, ok')" by fastforce
    with 2(2) s'(2) have "w' = v" by (auto simp: host_mutation_def calm_def start_def Let_def)
    with batch_creates [OF 2(1) b] assms(2) show ?thesis by blast
  qed
qed

lemma replace_law:
  assumes "ex_replace (host_executor host) f old new w = (w', ok)" "live w' t"
  shows "live w t"
proof -
  from assms(1) outcome_world [of "EnvelopeReplace (calm f) host old new" w w' ok]
  obtain s' r where s': "EnvelopeReplace (calm f) host old new (start w) = (s', r)" "nr_world s' = w'"
    by (auto simp: host_executor_def)
  let ?mutate = "bindp (observeVerifiedNftTableForMutation (calm f) host ''inet'' (pe_table old) (envelope_composition old)) (\<lambda>t.
      case t of None \<Rightarrow> fail ''disappeared''
      | Some target \<Rightarrow> realNftReplaceTable (calm f) host target (pe_family new) (pe_table new) (envelope_composition new))"
  from s'(1) consider "s' = start w" | "?mutate (start w) = (s', r)"
    using valid_family [of old] unfolding EnvelopeReplace_def by (auto split: option.splits if_splits)
  then show ?thesis
  proof cases
    case 1
    with s' assms(2) show ?thesis by (simp add: start_def)
  next
    case 2
    have "live (nr_world (start w)) t"
      by (rule mutate_live [OF 2]) (use s'(2) assms(2) in \<open>auto dest: replace_live\<close>)
    then show ?thesis by (simp add: start_def)
  qed
qed

lemma remove_law:
  assumes "ex_remove (host_executor host) f plan w = (w', ok)" "live w' t"
  shows "live w t"
proof -
  from assms(1) outcome_world [of "EnvelopeRemove (calm f) host plan" w w' ok]
  obtain s' r where s': "EnvelopeRemove (calm f) host plan (start w) = (s', r)" "nr_world s' = w'"
    by (auto simp: host_executor_def)
  let ?mutate = "bindp (observeVerifiedNftTableForMutation (calm f) host ''inet'' (pe_table plan) (envelope_composition plan)) (\<lambda>t.
      case t of None \<Rightarrow> ret () | Some target \<Rightarrow> realNftRemoveTable (calm f) host target)"
  from s'(1) consider "s' = start w" | "?mutate (start w) = (s', r)"
    using valid_family [of plan] unfolding EnvelopeRemove_def by (auto split: option.splits if_splits)
  then show ?thesis
  proof cases
    case 1
    with s' assms(2) show ?thesis by (simp add: start_def)
  next
    case 2
    have "live (nr_world (start w)) t"
      by (rule mutate_live [OF 2]) (use s'(2) assms(2) in \<open>auto dest: remove_live\<close>)
    then show ?thesis by (simp add: start_def)
  qed
qed

end

sublocale nft_kernel \<subseteq> envelope_executor "host_executor host" live "\<lambda>w t. live w t \<and> t \<notin> foreign"
proof unfold_locales
  fix f plan w present
  assume "ex_exists (host_executor host) f plan w = Some present"
  then show "live w (pe_table plan) = present" by (rule exists_law)
next
  fix w t assume "live w t \<and> t \<notin> foreign"
  then show "live w t" by simp
next
  fix f plan w w' ok t
  assume "ex_apply (host_executor host) f plan w = (w', ok)" "live w' t \<and> t \<notin> foreign"
  then show "live w t \<and> t \<notin> foreign \<or> t = pe_table plan" by (auto dest: apply_law)
next
  fix f old new w w' ok t
  assume "ex_replace (host_executor host) f old new w = (w', ok)" "live w' t \<and> t \<notin> foreign"
  then show "live w t \<and> t \<notin> foreign" by (auto dest: replace_law)
next
  fix f plan w w' ok t
  assume "ex_remove (host_executor host) f plan w = (w', ok)" "live w' t \<and> t \<notin> foreign"
  then show "live w t \<and> t \<notin> foreign" by (auto dest: remove_law)
qed

context nft_kernel
begin

lemma kernel_accounted_run:
  "lifecycle_run (host_executor host) b s s' \<Longrightarrow> accounted_for (\<lambda>w t. live w t \<and> t \<notin> foreign) b s \<Longrightarrow>
   accounted_for (\<lambda>w t. live w t \<and> t \<notin> foreign) b s'"
  by (rule accounted_run)

end

section \<open>A reference kernel\<close>

text \<open>A ruleset that keeps both contracts: the listing of each table and a generation.  How a batch script and the
  commands of a transaction are listed is left to the two renderers.\<close>

record ref_world =
  rw_tables :: "(string \<times> json) list"
  rw_gen :: "32 word"

definition table_object :: "string \<Rightarrow> json" where
  "table_object t = JObj [(''table'', JObj [(''family'', JStr ''inet''), (''name'', JStr t)])]"

definition tables_document :: "string list \<Rightarrow> json" where
  "tables_document ts =
     JObj [(''nftables'', JArr (JObj [(''metainfo'', JObj [(''json_schema_version'', JNum ''1'')])] # map table_object ts))]"

definition script_table :: "string \<Rightarrow> string" where
  "script_table script = takeWhile (\<lambda>c. c \<noteq> CHR 0x0A) (drop 18 script)"

fun run_commands :: "json \<Rightarrow> nft_command list \<Rightarrow> (string \<times> json) list \<Rightarrow> (string \<times> json) list" where
  "run_commands j [] ts = ts"
| "run_commands j (c # cs) ts =
     run_commands j cs (case c of DelTable t \<Rightarrow> filter (\<lambda>x. fst x \<noteq> t) ts | CreateTable t \<Rightarrow> (t, j) # ts | _ \<Rightarrow> ts)"

definition ref_host :: "(string \<Rightarrow> json) \<Rightarrow> (nft_command list \<Rightarrow> json) \<Rightarrow> ref_world nft_host" where
  "ref_host listed rendered =
     \<lparr>nh_tables = (\<lambda>f w. if f = FailBefore then None else Some (tables_document (map fst (rw_tables w)))),
      nh_table = (\<lambda>f family t w. if f = FailBefore \<or> family \<noteq> ''inet'' then None else map_of (rw_tables w) t),
      nh_generation = (\<lambda>f w. if f = FailBefore then None else Some (rw_gen w)),
      nh_batch = (\<lambda>f script w.
        if f = FailBefore \<or> script_table script \<in> fst ` set (rw_tables w) then (w, False)
        else (\<lparr>rw_tables = (script_table script, listed script) # rw_tables w, rw_gen = rw_gen w + 1\<rparr>, f \<noteq> FailAfter)),
      nh_commit = (\<lambda>f g cmds w.
        if f = FailBefore \<or> g \<noteq> rw_gen w then (w, False)
        else (\<lparr>rw_tables = run_commands (rendered cmds) cmds (rw_tables w), rw_gen = rw_gen w + 1\<rparr>, f \<noteq> FailAfter))\<rparr>"

definition ref_live :: "ref_world \<Rightarrow> string \<Rightarrow> bool" where
  "ref_live w t \<longleftrightarrow> t \<in> fst ` set (rw_tables w)"

lemma presence_step:
  "presence_objects ''inet'' t i (map table_object ts) (True, n) = Inr st \<Longrightarrow>
   st = (True, n + length (filter (\<lambda>u. u = t) ts))"
proof (induction ts arbitrary: i n)
  case (Cons u ts)
  have "single_member (table_object u) = Inr (''table'', JObj [(''family'', JStr ''inet''), (''name'', JStr u)])"
    by (simp add: table_object_def single_member_def)
  moreover have "decode_identity (JObj [(''family'', JStr ''inet''), (''name'', JStr u)]) = Inr (''inet'', u)"
    by (simp add: decode_identity_def decode_struct_def as_string_def lower_char_def)
  ultimately have "presence_objects ''inet'' t (Suc i) (map table_object ts) (True, if u = t then Suc n else n) = Inr st"
    using Cons.prems by (auto simp: rbind_Inr_iff split: if_splits)
  from Cons.IH [OF this] show ?case by simp
qed simp

lemma ref_presence:
  assumes "parseNftTablePresenceJSON (Some (tables_document ts)) ''inet'' t = Inr p"
  shows "p \<longleftrightarrow> t \<in> set ts"
proof -
  let ?meta = "JObj [(''metainfo'', JObj [(''json_schema_version'', JNum ''1'')])]"
  have d: "decode_document (Some (tables_document ts)) = Inr (?meta # map table_object ts)"
    by (simp add: tables_document_def decode_document_def decodeStrictNftJSON_def decode_struct_def as_raw_list_def lower_char_def)
  have "single_member ?meta = Inr (''metainfo'', JObj [(''json_schema_version'', JNum ''1'')])"
    by (simp add: single_member_def)
  moreover have "check_metainfo False 0 (JObj [(''json_schema_version'', JNum ''1'')]) = Inr ()"
    by (simp add: check_metainfo_def decode_metainfo_def decodeStrictNftJSON_def decode_struct_def as_int_def lower_char_def
        atoi_def is_digit_def dec_value_def supportedNftJSONSchemaVersion_def)
  ultimately obtain st where
    "presence_objects ''inet'' t (Suc 0) (map table_object ts) (True, 0) = Inr st"
    "\<not> 1 < snd st" "p = (snd st = 1)"
    using assms d by (auto simp: parseNftTablePresenceJSON_def rbind_Inr_iff split: if_splits prod.splits)
  with presence_step [of t "Suc 0" ts 0 st] have "p \<longleftrightarrow> length (filter (\<lambda>u. u = t) ts) = 1"
    "length (filter (\<lambda>u. u = t) ts) \<le> 1" by auto
  moreover have "t \<in> set ts \<longleftrightarrow> filter (\<lambda>u. u = t) ts \<noteq> []" by (auto simp: filter_empty_conv)
  ultimately show ?thesis by (cases "filter (\<lambda>u. u = t) ts") auto
qed

lemma run_commands_live:
  "t \<in> fst ` set (run_commands j cs ts) \<Longrightarrow> t \<in> fst ` set ts \<or> CreateTable t \<in> set cs"
  by (induction cs arbitrary: ts) (fastforce split: nft_command.splits)+

lemma pattern_no_newline: "privacyEnvelopeTablePattern t \<Longrightarrow> CHR 0x0A \<notin> set t"
proof -
  assume p: "privacyEnvelopeTablePattern t"
  have "t = take 10 t @ take 12 (drop 10 t) @ drop 22 t"
    using append_take_drop_id [of 10 t] append_take_drop_id [of 12 "drop 10 t"] by simp
  from arg_cong [OF this, of set] have t: "set t = set (take 10 t) \<union> set (take 12 (drop 10 t)) \<union> set (drop 22 t)"
    by (simp only: set_append Un_assoc)
  have "CHR 0x0A \<notin> set (take 10 t)" "CHR 0x0A \<notin> set (take 12 (drop 10 t))"
    using p by (auto simp: privacyEnvelopeTablePattern_def lower_hex_def is_digit_def list_all_iff)
  moreover have "CHR 0x0A \<notin> set (drop 22 t)"
    using p by (auto simp: privacyEnvelopeTablePattern_def table_suffix_def is_digit_def list_all_iff split: list.splits)
  ultimately show ?thesis by (simp only: t Un_iff) blast
qed

lemma script_table_apply:
  assumes "privacyEnvelopeApplyScript plan = Inr script"
  shows "script_table script = pe_table plan"
proof -
  from assms have v: "validatePrivacyEnvelopePlan plan = None"
    and sc: "\<exists>rest. script = create_line (pe_family plan) (pe_table plan) @ rest"
    by (auto simp: privacyEnvelopeApplyScript_def check_nil_Inr_iff)
  from v have f: "pe_family plan = ''inet''" and n: "CHR 0x0A \<notin> set (pe_table plan)"
    by (auto simp: validatePrivacyEnvelopePlan_def ownedNFTFamily_def pattern_no_newline split: if_splits)
  from sc f obtain rest where "drop 18 script = pe_table plan @ CHR 0x0A # rest"
    by (auto simp: create_line_def nl_def)
  moreover have "takeWhile (\<lambda>c. c \<noteq> CHR 0x0A) (pe_table plan @ CHR 0x0A # rest) = pe_table plan"
    using n by (subst takeWhile_append2) auto
  ultimately show ?thesis by (simp add: script_table_def)
qed

interpretation reference: nft_kernel "ref_host listed rendered" ref_live foreign for listed rendered foreign
proof unfold_locales
  fix f w out t p
  assume "nh_tables (ref_host listed rendered) f w = Some out" "parseNftTablePresenceJSON (Some out) ''inet'' t = Inr p"
  then show "ref_live w t = p" using ref_presence [of "map fst (rw_tables w)" t p]
    by (auto simp: ref_host_def ref_live_def split: if_splits)
next
  fix plan script f w w' ok t
  assume "privacyEnvelopeApplyScript plan = Inr script" "nh_batch (ref_host listed rendered) f script w = (w', ok)" "ref_live w' t"
  then show "ref_live w t \<or> t = pe_table plan"
    using script_table_apply [of plan script] by (auto simp: ref_host_def ref_live_def image_iff split: if_splits)
next
  fix f g cmds w w' ok t
  assume "nh_commit (ref_host listed rendered) f g cmds w = (w', ok)" "ref_live w' t"
  then show "ref_live w t \<or> CreateTable t \<in> set cmds"
    using run_commands_live [of t "rendered cmds" cmds "rw_tables w"]
    by (force simp: ref_host_def ref_live_def split: if_splits)
qed

text \<open>Another program that replaces every table at one point of the run.\<close>

definition intruder :: "nat \<Rightarrow> ref_world nft_env" where
  "intruder at n =
     (NoFault, \<lambda>w. if n = at \<and> rw_gen w < rw_gen w + 1 then \<lparr>rw_tables = [], rw_gen = rw_gen w + 1\<rparr> else w)"

interpretation reference_guard: guarded_ruleset "ref_host listed rendered" rw_gen "intruder at" for listed rendered at
  by unfold_locales (auto simp: ref_host_def intruder_def split: if_splits)

definition demo_envelope :: PrivacyEnvelopePlan where
  "demo_envelope =
     \<lparr>pe_family = ''inet'', pe_table = ''podlaz_pe_0123456789ab'', pe_chains = [demo_plan_chain],
      pe_rules = envelope_rules demo_protection, pe_reason = []\<rparr>"


section \<open>No table of ours is orphaned\<close>

lemma accounted_empty:
  "sk_main (sy_disk s) = None \<Longrightarrow> (\<And>t. \<not> owned (sy_fw s) t) \<Longrightarrow> accounted_for owned b s"
  by (simp add: accounted_for_def disk_ok_def held_def)

text \<open>C4: No orphaned firewall table.  From a state that is accounted for (for instance one without a session record and
  without a table but those of other programs), run any operations of the envelope lifecycle and of the
  session store in any order, each call failing before or after its effect as it may: every firewall table
  that is not another program's is the table that the valid durable session record of this boot names, so it
  can always be found and removed.\<close>

theorem no_orphan_envelope_table:
  assumes "nft_kernel host live" and "lifecycle_run (host_executor host) b s s'"
    and "accounted_for (\<lambda>w t. live w t \<and> t \<notin> foreign) b s"
    and "live (sy_fw s') t" and "t \<notin> foreign"
  shows "\<exists>st p. held (sy_disk s') = Some st \<and> validateNetworkSessionState st = None \<and> ns_boot_id st = b \<and>
     ns_protection st = Some p \<and> np_table p = t"
proof -
  from nft_kernel.kernel_accounted_run [OF assms(1-3)] assms(4,5) obtain st p where
    "disk_ok (sy_disk s')" "held (sy_disk s') = Some st" "ns_boot_id st = b" "ns_protection st = Some p" "np_table p = t"
    by (auto simp: accounted_for_def)
  with held_written [of "sy_disk s'" st] show ?thesis by (auto simp: written_def)
qed

definition demo_system :: "ref_world system" where
  "demo_system =
     \<lparr>sy_disk = demo_disk,
      sy_fw = \<lparr>rw_tables = [(''filter'', JNull), (''podlaz_pe_0123456789ab'', JNull)], rw_gen = 5\<rparr>, sy_tick = 0\<rparr>"

theorem no_orphan_envelope_table_witness:
  "\<exists>st p. held (fst (RemoveSession demo_env demo_env demo_disk)) = Some st \<and> ns_protection st = Some p \<and>
     np_table p = ''podlaz_pe_0123456789ab''"
proof -
  let ?own = "\<lambda>w t. ref_live w t \<and> t \<notin> {''filter''}" and ?ex = "host_executor (ref_host (\<lambda>x. JNull) (\<lambda>c. JNull))"
  let ?s' = "demo_system\<lparr>sy_disk := fst (RemoveSession demo_env demo_env (sy_disk demo_system))\<rparr>"
  have w: "written demo_state demo_disk" by (rule demo_written)
  have acc: "accounted_for ?own ''boot1'' demo_system"
    using written_held [OF w] written_ok [OF w]
    by (auto simp: accounted_for_def demo_system_def ref_live_def demo_state_def demo_protection_def)
  have "session_step ''boot1'' LRemove (sy_disk demo_system) (fst (RemoveSession demo_env demo_env (sy_disk demo_system)))"
    by (rule session_step.remove [OF surjective_pairing demo_env_in])
  then have "lifecycle_step ?ex ''boot1'' demo_system ?s'" by (rule lifecycle_step.session) simp
  from no_orphan_envelope_table [OF reference.nft_kernel_axioms lifecycle_more [OF lifecycle_nil this] acc, of "''podlaz_pe_0123456789ab''"]
  show ?thesis by (auto simp: ref_live_def demo_system_def)
qed

end
