(* ===== verification/Nft_Netlink.thy ===== *)
theory Nft_Netlink
  imports Nft_Mutation_Facts
begin

text \<open>
  What the netlink programs of a replacement mean: a register machine for the expressions that
  \<^verbatim>\<open>nftRuleNetlinkExpressions\<close> of \<^verbatim>\<open>src/internal/network/executor/nftables_mutation.go\<close> emits, on packets given by
  their headers, and the comparison with what the envelope allows.
\<close>

section \<open>The register machine\<close>

record packet =
  kp_oif :: string
  kp_nfproto :: nat
  kp_l4proto :: nat
  kp_mark :: "32 word"
  kp_network :: "nat list"
  kp_transport :: "nat list"

text \<open>The byte order in which the mark is loaded is a parameter.\<close>

definition load_key :: "(nat \<Rightarrow> nat list) \<Rightarrow> packet \<Rightarrow> nft_key \<Rightarrow> nat list" where
  "load_key order k key =
     (case key of
        KeyOifname \<Rightarrow> nftIfname (kp_oif k)
      | KeyNfproto \<Rightarrow> [kp_nfproto k]
      | KeyL4proto \<Rightarrow> [kp_l4proto k]
      | KeyMark \<Rightarrow> order (unat (kp_mark k)))"

definition header :: "packet \<Rightarrow> nft_header \<Rightarrow> nat list" where
  "header k h = (case h of NetworkHeader \<Rightarrow> kp_network k | TransportHeader \<Rightarrow> kp_transport k)"

text \<open>A program that reaches its verdict returns it; a failed comparison or a load beyond the packet leaves the rule.\<close>

fun run_rule :: "(nat \<Rightarrow> nat list) \<Rightarrow> packet \<Rightarrow> (nat \<Rightarrow> nat list) \<Rightarrow> nft_expr list \<Rightarrow> string option" where
  "run_rule order k regs [] = None"
| "run_rule order k regs (e # es) =
     (case e of
        Meta key r \<Rightarrow> run_rule order k (regs(r := load_key order k key)) es
      | Cmp op r bs \<Rightarrow> if (regs r = bs) = (op = CmpEq) then run_rule order k regs es else None
      | Payload r h off len \<Rightarrow>
          if off + len \<le> length (header k h) then run_rule order k (regs(r := take len (drop off (header k h)))) es else None
      | Lookup r elems \<Rightarrow> if regs r \<in> set elems then run_rule order k regs es else None
      | Counter \<Rightarrow> run_rule order k regs es
      | Accept \<Rightarrow> Some FirewallVerdictAccept
      | Drop \<Rightarrow> Some FirewallVerdictDrop
      | Reject \<Rightarrow> Some FirewallVerdictReject)"

fun run_table :: "(nat \<Rightarrow> nat list) \<Rightarrow> packet \<Rightarrow> nft_command list \<Rightarrow> string option" where
  "run_table order k [] = None"
| "run_table order k (c # cs) =
     (case c of
        AddRule chain es comment \<Rightarrow>
          (case run_rule order k (\<lambda>r. []) es of None \<Rightarrow> run_table order k cs | Some v \<Rightarrow> Some v)
      | _ \<Rightarrow> run_table order k cs)"

section \<open>Packets as the plan sees them\<close>

definition packet_ok :: "packet \<Rightarrow> bool" where
  "packet_ok k \<longleftrightarrow>
     length (kp_oif k) \<le> 15 \<and> list_all (\<lambda>c. byte c \<noteq> 0) (kp_oif k) \<and>
     (kp_nfproto k = 2 \<longrightarrow> 20 \<le> length (kp_network k) \<and> list_all (\<lambda>b. b < 256) (kp_network k))"

definition seen_daddr :: "packet \<Rightarrow> addr" where
  "seen_daddr k =
     (if kp_nfproto k = 2 then IP4 (of_nat (of_bytes (take 4 (drop 16 (kp_network k)))))
      else IP6 (of_nat (of_bytes (take 16 (drop 24 (kp_network k))))))"

definition seen :: "packet \<Rightarrow> envelope_packet" where
  "seen k =
     \<lparr>ek_out = \<lparr>ob_interface = kp_oif k, ob_mark = kp_mark k, ob_daddr = seen_daddr k\<rparr>,
      ek_dhcp4 = (kp_nfproto k = 2 \<and> kp_l4proto k = 17 \<and> take 4 (kp_transport k) = [0, 68, 0, 67]),
      ek_dhcp6 = (kp_nfproto k = 10 \<and> kp_l4proto k = 17 \<and> take 4 (kp_transport k) = [2, 34, 2, 35]),
      ek_neighbour = (kp_nfproto k = 10 \<and> kp_l4proto k = 58 \<and> kp_transport k \<noteq> [] \<and>
                      hd (kp_transport k) \<in> {133, 135, 136})\<rparr>"

lemma of_bytes_4: "of_bytes [a, b, c, d] = ((a * 256 + b) * 256 + c) * 256 + d"
  by (simp add: of_bytes_def)

lemma horner_inj: "r < 256 \<Longrightarrow> s < 256 \<Longrightarrow> x * 256 + r = y * 256 + (s :: nat) \<longleftrightarrow> x = y \<and> r = s"
proof
  assume lt: "r < 256" "s < 256" and e: "x * 256 + r = y * 256 + s"
  have "(x * 256 + r) mod 256 = (y * 256 + s) mod 256" using e by (rule arg_cong)
  then have "r = s" using lt by simp
  with e show "x = y \<and> r = s" by simp
qed simp

lemma bytes_inj:
  "a < 256 \<Longrightarrow> b < 256 \<Longrightarrow> c < 256 \<Longrightarrow> d < 256 \<Longrightarrow> a' < 256 \<Longrightarrow> b' < 256 \<Longrightarrow> c' < 256 \<Longrightarrow> d' < 256 \<Longrightarrow>
   ((a * 256 + b) * 256 + c) * 256 + d = ((a' * 256 + b') * 256 + c') * 256 + (d' :: nat) \<longleftrightarrow>
   a = a' \<and> b = b' \<and> c = c' \<and> d = d'"
  by (simp only: horner_inj conj_assoc)

lemma length4: "length xs = 4 \<Longrightarrow> \<exists>a b c d. xs = [a, b, c, d]"
  by (auto simp: numeral_eq_Suc length_Suc_conv)

lemma daddr_bytes:
  assumes "length bs = 4" "list_all (\<lambda>b. b < 256) bs"
  shows "bs = octets w \<longleftrightarrow> w = of_nat (of_bytes bs)"
proof -
  obtain a b c d where bs: "bs = [a, b, c, d]" using length4 [OF assms(1)] by blast
  obtain a' b' c' d' where o: "octets w = [a', b', c', d']" using length4 [of "octets w"] by auto
  have lt: "a < 256" "b < 256" "c < 256" "d < 256" using assms(2) by (simp_all add: bs)
  have lt': "a' < 256" "b' < 256" "c' < 256" "d' < 256" using octets_small [of w] by (simp_all add: o)
  have n: "of_bytes bs < 2 ^ 32" using lt by (simp add: bs of_bytes_4)
  have "w = of_nat (of_bytes bs) \<longleftrightarrow> unat w = of_bytes bs"
    using n by (auto simp: word_unat_eq_iff unat_of_nat take_bit_eq_mod)
  also have "\<dots> \<longleftrightarrow> of_bytes (octets w) = of_bytes bs" by (simp add: of_bytes_octets)
  also have "\<dots> \<longleftrightarrow> octets w = bs" unfolding o bs of_bytes_4 using bytes_inj [OF lt' lt] by simp
  finally show ?thesis by auto
qed

lemma nftIfname_eq:
  assumes "length a \<le> 15" "list_all (\<lambda>c. byte c \<noteq> 0) a" "length b \<le> 15" "list_all (\<lambda>c. byte c \<noteq> 0) b"
  shows "nftIfname a = nftIfname b \<longleftrightarrow> a = b"
proof
  have t: "takeWhile (\<lambda>n. n \<noteq> 0) (nftIfname s) = map byte s" if "length s \<le> 15" "list_all (\<lambda>c. byte c \<noteq> 0) s" for s
  proof -
    have "nftIfname s = map byte s @ 0 # replicate (15 - length s) 0"
      using that(1) by (simp add: nftIfname_def Let_def)
    moreover have "\<forall>n\<in>set (map byte s). n \<noteq> 0" using that(2) by (simp add: list_all_iff)
    ultimately show ?thesis by (simp only:) (subst takeWhile_append2, auto)
  qed
  assume "nftIfname a = nftIfname b"
  then have "map byte a = map byte b" using t [OF assms(1,2)] t [OF assms(3,4)] by simp
  then show "a = b" by (rule map_injective) (simp add: inj_of_char)
qed simp

lemma be32_octets: "be32 (unat (w :: 32 word)) = octets w"
proof -
  have "unat w < 256 * 16777216" using unsigned_less [of w, where 'a = nat] by simp
  then have "unat w div 16777216 < 256" by (rule less_mult_imp_div_less)
  then show ?thesis unfolding be32_def octets_def Let_def by simp
qed

lemma be32_inj: "be32 (unat v) = be32 (unat w) \<longleftrightarrow> v = (w :: 32 word)"
  unfolding be32_octets using of_bytes_octets by (metis word_unat_eq_iff)

section \<open>The programs of the envelope rules\<close>

text \<open>A rule is implemented when its program runs to the accept verdict exactly on the packets its expression matches.\<close>

definition implemented :: "(nat \<Rightarrow> nat list) \<Rightarrow> packet \<Rightarrow> TunFirewallRulePlan \<Rightarrow> bool" where
  "implemented order k r \<longleftrightarrow>
     (\<exists>es. nftRuleNetlinkExpressions r = Inr es \<and>
        run_rule order k (\<lambda>r. []) (es @ [Counter, Accept]) =
          (if envelope_matches (frp_expr r) (seen k) then Some FirewallVerdictAccept else None))"

lemma implemented_accept:
  "netlink_fields False (nftExpressionFields e) = Inr es \<Longrightarrow>
   run_rule order k (\<lambda>r. []) (es @ [Counter, Accept]) =
     (if envelope_matches e (seen k) then Some FirewallVerdictAccept else None) \<Longrightarrow>
   implemented order k (envelope_accept e own)"
  by (simp add: implemented_def nftRuleNetlinkExpressions_def envelope_accept_def)

lemma implemented_oifname:
  assumes "packet_ok k" "plain n" "n \<noteq> []" "dq \<notin> set n" "n \<noteq> ''!=''" "length n \<le> 15"
  shows "implemented order k (envelope_accept (''oifname '' @ quoted n) own)"
proof (rule implemented_accept)
  show "netlink_fields False (nftExpressionFields (''oifname '' @ quoted n)) = Inr (encode_oifname CmpEq n)"
    using assms oifname_words [of n] by (simp add: encode_def del: append.simps)
  have "list_all (\<lambda>c. byte c \<noteq> 0) n" using assms(2) by (auto simp: plain_def list_all_iff)
  then have "nftIfname (kp_oif k) = nftIfname n \<longleftrightarrow> kp_oif k = n"
    using assms(1,6) by (intro nftIfname_eq) (auto simp: packet_ok_def)
  then show "run_rule order k (\<lambda>r. []) (encode_oifname CmpEq n @ [Counter, Accept]) =
     (if envelope_matches (''oifname '' @ quoted n) (seen k) then Some FirewallVerdictAccept else None)"
    by (auto simp: encode_oifname_def load_key_def envelope_matches_rules seen_def simp del: append.simps(2)) (simp_all add: load_key_def)
qed

lemma join_has_separator: "2 \<le> length ws \<Longrightarrow> c \<in> set (join [c] ws)"
  by (cases ws rule: remdups_adj.cases) auto

lemma ip6_text_no_ip4: "ip_text (IP6 v) \<noteq> ip4_text w"
proof
  assume "ip_text (IP6 v) = ip4_text w"
  moreover have "CHR '':'' \<in> set (ip_text (IP6 v))"
    using join_has_separator [of "map hex_text (groups6 v)"]
    by (auto simp: ip_text_def ip6_text_def groups6_def Let_def split: option.splits)
  ultimately show False using ip4_text_chars [of "CHR '':''" w] by (simp add: is_digit_def)
qed

lemma implemented_daddr:
  assumes "packet_ok k"
  shows "implemented order k (envelope_accept (''ip daddr '' @ ip4_text w) own)"
proof (rule implemented_accept)
  let ?es = "[Meta KeyNfproto 1, Cmp CmpEq 1 [2], Payload 1 NetworkHeader 16 4, Cmp CmpEq 1 (octets w)]"
  show "netlink_fields False (nftExpressionFields (''ip daddr '' @ ip4_text w)) = Inr ?es"
    by (simp add: daddr_words encode_def encode_daddr_def parse_ip_ip4_text del: append.simps(2))
  have "take 4 (drop 16 (kp_network k)) = octets w \<longleftrightarrow> ip_text (seen_daddr k) = ip4_text w" if v4: "kp_nfproto k = 2"
  proof -
    have "list_all (\<lambda>b. b < 256) (take 4 (drop 16 (kp_network k)))"
      using assms v4 by (auto simp: packet_ok_def list_all_iff dest!: in_set_takeD in_set_dropD)
    moreover have "length (take 4 (drop 16 (kp_network k))) = 4" using assms v4 by (auto simp: packet_ok_def min_def)
    ultimately have "take 4 (drop 16 (kp_network k)) = octets w \<longleftrightarrow> w = of_nat (of_bytes (take 4 (drop 16 (kp_network k))))"
      by (intro daddr_bytes)
    also have "\<dots> \<longleftrightarrow> ip_text (seen_daddr k) = ip4_text w"
      using v4 ip4_text_inj by (auto simp: seen_daddr_def ip_text_def)
    finally show ?thesis .
  qed
  moreover have "ip_text (seen_daddr k) \<noteq> ip4_text w" if "kp_nfproto k \<noteq> 2"
    using that ip6_text_no_ip4 by (simp add: seen_daddr_def)
  ultimately show "run_rule order k (\<lambda>r. []) (?es @ [Counter, Accept]) =
     (if envelope_matches (''ip daddr '' @ ip4_text w) (seen k) then Some FirewallVerdictAccept else None)"
    using assms unfolding envelope_matches_rules
    by (auto simp: load_key_def header_def seen_def packet_ok_def)
qed

lemma run_mark:
  assumes "m \<noteq> 0"
  shows "netlink_fields False (nftExpressionFields (''meta mark '' @ itoa (unat m))) = Inr [Meta KeyMark 1, Cmp CmpEq 1 (be32 (unat (m :: 32 word)))]"
  by (simp add: mark_words encode_def encode_meta_def parseNftUint32_def plain_trim
      parse_uint0_itoa [OF mark_bounds(1) [OF assms] mark_bounds(2)] del: append.simps(2))

lemma implemented_mark:
  assumes "m \<noteq> 0"
  shows "implemented be32 k (envelope_accept (''meta mark '' @ itoa (unat (m :: 32 word))) own)"
proof (rule implemented_accept [OF run_mark [OF assms]])
  show "run_rule be32 k (\<lambda>r. []) ([Meta KeyMark 1, Cmp CmpEq 1 (be32 (unat m))] @ [Counter, Accept]) =
     (if envelope_matches (''meta mark '' @ itoa (unat m)) (seen k) then Some FirewallVerdictAccept else None)"
    unfolding envelope_matches_rules by (auto simp: load_key_def seen_def be32_inj)
qed

lemma take4_pairs: "take 4 xs = [a, b, c, d] \<longleftrightarrow> 4 \<le> length xs \<and> take 2 xs = [a, b] \<and> take 2 (drop 2 xs) = [c, d]"
proof
  assume t: "take 4 xs = [a, b, c, d]"
  have "length (take 4 xs) = 4" unfolding t by simp
  then have "4 \<le> length xs" by (simp only: length_take min_def split: if_splits)
  moreover have "take 2 xs = take 2 (take 4 xs)" "take 2 (drop 2 xs) = drop 2 (take 4 xs)"
    by (simp_all add: take_drop)
  ultimately show "4 \<le> length xs \<and> take 2 xs = [a, b] \<and> take 2 (drop 2 xs) = [c, d]" unfolding t by simp
next
  assume "4 \<le> length xs \<and> take 2 xs = [a, b] \<and> take 2 (drop 2 xs) = [c, d]"
  then show "take 4 xs = [a, b, c, d]" using take_add [of 2 2 xs] by simp
qed

lemma implemented_fixed:
  "implemented order k (envelope_accept dhcp4_expr own)"
  "implemented order k (envelope_accept dhcp6_expr own)"
  "implemented order k (envelope_accept neighbour_expr own)"
proof -
  have ports: "parseNftPort ''68'' = Inr 68" "parseNftPort ''67'' = Inr 67" "parseNftPort ''546'' = Inr 546" "parseNftPort ''547'' = Inr 547"
    by (simp_all add: parseNftPort_def is_digit_def)
  have "netlink_fields False (nftExpressionFields dhcp4_expr) =
    Inr [Meta KeyNfproto 1, Cmp CmpEq 1 [2], Meta KeyL4proto 1, Cmp CmpEq 1 [17], Payload 1 TransportHeader 0 2, Cmp CmpEq 1 [0, 68],
         Payload 1 TransportHeader 2 2, Cmp CmpEq 1 [0, 67]]"
    by (simp add: fixed_words encode_def encode_meta_def encode_udp_def ports be16_def)
  then show "implemented order k (envelope_accept dhcp4_expr own)"
    by (rule implemented_accept)
      (auto simp: envelope_matches_rules seen_def load_key_def header_def take4_pairs)
  have "netlink_fields False (nftExpressionFields dhcp6_expr) =
    Inr [Meta KeyNfproto 1, Cmp CmpEq 1 [10], Meta KeyL4proto 1, Cmp CmpEq 1 [17], Payload 1 TransportHeader 0 2, Cmp CmpEq 1 [2, 34],
         Payload 1 TransportHeader 2 2, Cmp CmpEq 1 [2, 35]]"
    by (simp add: fixed_words encode_def encode_meta_def encode_udp_def ports be16_def)
  then show "implemented order k (envelope_accept dhcp6_expr own)"
    by (rule implemented_accept)
      (auto simp: envelope_matches_rules seen_def load_key_def header_def take4_pairs)
  have types: "nftICMPv6Type (trim_suffix ''nd-router-solicit,'' '','') = Inr 133"
    "nftICMPv6Type (trim_suffix ''nd-neighbor-solicit,'' '','') = Inr 135"
    "nftICMPv6Type (trim_suffix ''nd-neighbor-advert'' '','') = Inr 136"
    by (simp_all add: nftICMPv6Type_def plain_trim trim_suffix_def suffix_def)
  have "netlink_fields False (nftExpressionFields neighbour_expr) = Inr (encode_icmp [133, 135, 136])"
    by (simp add: fixed_words encode_def types)
  then show "implemented order k (envelope_accept neighbour_expr own)"
    by (rule implemented_accept)
      (cases "kp_transport k"; auto simp: envelope_matches_rules seen_def load_key_def header_def encode_icmp_def)
qed

lemma envelope_rules_implemented:
  assumes "validateNetworkSessionProtection p = None" "packet_ok k" "r \<in> set (butlast (envelope_rules p))"
  shows "implemented be32 k r"
proof -
  note v = valid_protection_parts [OF assms(1)]
  have i: "length (np_interface p) \<le> 15" using v(1) by (simp add: validateNetworkSessionInterface_def split: if_splits)
  have b: "butlast (envelope_rules p) =
     [envelope_accept (''oifname '' @ quoted ''lo'') ''podlaz:privacy-envelope:loopback'',
      envelope_accept (''oifname '' @ quoted (np_interface p)) ''podlaz:privacy-envelope:tun-egress''] @
     map (\<lambda>endpoint. envelope_accept (''ip daddr '' @ endpoint) ''podlaz:privacy-envelope:bootstrap'') (np_bootstrap p) @
     map (\<lambda>mark. envelope_accept (''meta mark '' @ itoa (unat mark)) ''podlaz:privacy-envelope:xray-egress'') (np_marks p) @
     [envelope_accept dhcp4_expr ''podlaz:privacy-envelope:dhcp4'',
      envelope_accept dhcp6_expr ''podlaz:privacy-envelope:dhcp6'',
      envelope_accept neighbour_expr ''podlaz:privacy-envelope:ipv6-link-control'']"
    by (simp add: envelope_rules_def butlast_append)
  have lo: "implemented be32 k (envelope_accept (''oifname '' @ quoted ''lo'') own)" for own
    by (rule implemented_oifname [OF assms(2)]) simp_all
  have tun: "implemented be32 k (envelope_accept (''oifname '' @ quoted (np_interface p)) own)" for own
    by (rule implemented_oifname [OF assms(2) interface_plain [OF v(1)] i])
  from assms(3) show ?thesis unfolding b
    by (auto simp del: append.simps(2) dest!: v(2) v(3) intro: lo tun implemented_daddr [OF assms(2)] implemented_mark implemented_fixed)
qed

section \<open>The program of a replacement\<close>

lemma envelope_accepts: "r \<in> set (butlast (envelope_rules p)) \<Longrightarrow>
    frp_verdict r = FirewallVerdictAccept \<and> frp_action r = FirewallActionAdd \<and> frp_chain r = ''output''"
  by (auto simp: envelope_rules_def envelope_accept_def butlast_append)

lemma verdict_exprs_simps:
  "verdict_exprs FirewallVerdictAccept = Inr [Accept]" "verdict_exprs FirewallVerdictReject = Inr [Reject]"
  by (simp_all add: verdict_exprs_def FirewallVerdictAccept_def FirewallVerdictReject_def FirewallVerdictDrop_def)

lemma reject_program:
  "addNftPlanRules [AddChain ''output'' pr True] [envelope_reject] =
     Inr [AddRule ''output'' [Counter, Reject] ''podlaz:privacy-envelope:block-direct'']"
proof -
  have "nftRuleNetlinkExpressions envelope_reject = Inr []"
    by (simp add: nftRuleNetlinkExpressions_def envelope_reject_def nftExpressionFields_def Prelude.fields_def fields_from_char)
  moreover have "frp_action envelope_reject = FirewallActionAdd" "frp_chain envelope_reject = ''output''"
    "frp_verdict envelope_reject = FirewallVerdictReject" "frp_ownership envelope_reject = ''podlaz:privacy-envelope:block-direct''"
    by (simp_all add: envelope_reject_def)
  ultimately show ?thesis by (simp add: verdict_exprs_simps)
qed

lemma rules_program:
  assumes "\<forall>r\<in>set rs. implemented order k r \<and> frp_verdict r = FirewallVerdictAccept \<and> frp_action r = FirewallActionAdd \<and>
      frp_chain r = ''output''"
  shows "\<exists>cmds. addNftPlanRules [AddChain ''output'' pr True] (rs @ [envelope_reject]) = Inr cmds \<and>
     run_table order k cmds = Some (envelope_verdict (rs @ [envelope_reject]) (seen k))"
  using assms
proof (induction rs)
  case Nil
  then show ?case
    using reject_program [of pr] envelope_matches_rules(7) [of "seen k"]
    by (simp add: envelope_verdict_def del: addNftPlanRules.simps) (simp add: envelope_reject_def)
next
  case (Cons r rs)
  then obtain cmds where c: "addNftPlanRules [AddChain ''output'' pr True] (rs @ [envelope_reject]) = Inr cmds"
    "run_table order k cmds = Some (envelope_verdict (rs @ [envelope_reject]) (seen k))" by auto
  from Cons.prems obtain es where es: "nftRuleNetlinkExpressions r = Inr es"
    "run_rule order k (\<lambda>r. []) (es @ [Counter, Accept]) =
       (if envelope_matches (frp_expr r) (seen k) then Some FirewallVerdictAccept else None)"
    by (auto simp: implemented_def)
  have r: "frp_verdict r = FirewallVerdictAccept" "frp_action r = FirewallActionAdd" "frp_chain r = ''output''"
    using Cons.prems by auto
  with c es show ?case by (simp add: verdict_exprs_simps envelope_verdict_def)
qed

lemma program_refines:
  assumes "privacyEnvelopePlanFromAuthority p = Inr plan" and "packet_ok k"
  shows "\<exists>cmds. replace_commands (pe_table plan) (envelope_composition plan) = Inr cmds \<and>
     run_table be32 k cmds =
       Some (if envelope_allows p (seen k) then FirewallVerdictAccept else FirewallVerdictReject)"
proof -
  from assms(1) have v: "validateNetworkSessionProtection p = None" and rules: "pe_rules plan = envelope_rules p"
    and chains: "pe_chains plan = [\<lparr>fcp_name = ''output'', fcp_type = ''filter'', fcp_hook = ''output'', fcp_priority = - 10,
       fcp_policy = ''accept'', fcp_action = FirewallActionAdd, fcp_reason = privacyEnvelopeReason\<rparr>]"
    by (auto simp: privacyEnvelopePlanFromAuthority_def split: option.splits if_splits)
  let ?rs = "butlast (envelope_rules p)"
  have rs: "envelope_rules p = ?rs @ [envelope_reject]" by (simp add: envelope_rules_def butlast_append)
  have ch: "addNftPlanChains (pe_chains plan) = Inr [AddChain ''output'' (- 10) True]"
    by (simp add: addNftPlanChains_def chains)
  from rules_program [of ?rs be32 k "- 10"] envelope_rules_implemented [OF v assms(2)] envelope_accepts [of _ p]
  obtain cmds where "addNftPlanRules [AddChain ''output'' (- 10) True] (?rs @ [envelope_reject]) = Inr cmds"
    "run_table be32 k cmds = Some (envelope_verdict (?rs @ [envelope_reject]) (seen k))" by blast
  then show ?thesis
    using envelope_rules_verdict [of p "seen k"] unfolding rs [symmetric]
    by (simp add: replace_commands_def envelope_composition_def ch rules)
qed


definition demo_packet :: packet where
  "demo_packet = \<lparr>kp_oif = ''eth0'', kp_nfproto = 10, kp_l4proto = 6, kp_mark = 20570, kp_network = [], kp_transport = []\<rparr>"


section \<open>The byte order of the mark\<close>

definition le32 :: "nat \<Rightarrow> nat list" where
  "le32 n = rev (be32 n)"

definition byte_swap :: "32 word \<Rightarrow> 32 word" where
  "byte_swap w = of_nat (of_bytes (le32 (unat w)))"

lemma byte_swap_bytes: "be32 (unat (byte_swap w)) = le32 (unat w)"
proof -
  have "length (le32 (unat w)) = 4" by (simp add: le32_def be32_def)
  moreover have "list_all (\<lambda>b. b < 256) (le32 (unat w))" by (simp add: le32_def be32_def)
  ultimately have "le32 (unat w) = octets (byte_swap w)" unfolding byte_swap_def using daddr_bytes by blast
  then show ?thesis by (simp only: be32_octets)
qed

lemma run_rule_swapped: "run_rule le32 k regs es = run_rule be32 (k\<lparr>kp_mark := byte_swap (kp_mark k)\<rparr>) regs es"
proof (induction es arbitrary: regs)
  case (Cons e es)
  have "load_key le32 k key = load_key be32 (k\<lparr>kp_mark := byte_swap (kp_mark k)\<rparr>) key" for key
    by (cases key) (simp_all add: load_key_def byte_swap_bytes)
  moreover have "header (k\<lparr>kp_mark := byte_swap (kp_mark k)\<rparr>) h = header k h" for h
    by (cases h) (simp_all add: header_def)
  ultimately show ?case by (cases e) (simp_all add: Cons.IH fun_upd_def)
qed simp

lemma run_table_swapped: "run_table le32 k cs = run_table be32 (k\<lparr>kp_mark := byte_swap (kp_mark k)\<rparr>) cs"
  by (induction cs) (auto simp: run_rule_swapped split: nft_command.splits option.splits)

text \<open>C34: The encoder writes the mark of a rule in big-endian order whatever the order of the host.  Where the mark is
  loaded in little-endian order, the replaced table therefore decides on the packet with its mark byte-swapped: it
  rejects a packet that carries a recorded mark, and lets out one that carries the swapped mark.\<close>

theorem little_endian_host_swaps_marks:
  assumes "privacyEnvelopePlanFromAuthority p = Inr plan" and "packet_ok k"
  shows "\<exists>cmds. replace_commands (pe_table plan) (envelope_composition plan) = Inr cmds \<and>
     run_table le32 k cmds =
       Some (if envelope_allows p (seen (k\<lparr>kp_mark := byte_swap (kp_mark k)\<rparr>)) then FirewallVerdictAccept
             else FirewallVerdictReject)"
proof -
  have "packet_ok (k\<lparr>kp_mark := byte_swap (kp_mark k)\<rparr>)" using assms(2) by (simp add: packet_ok_def)
  from program_refines [OF assms(1) this] show ?thesis by (simp only: run_table_swapped)
qed

theorem little_endian_host_swaps_marks_witness:
  "\<exists>plan cmds. privacyEnvelopePlanFromAuthority demo_protection = Inr plan \<and>
     replace_commands (pe_table plan) (envelope_composition plan) = Inr cmds \<and>
     envelope_allows demo_protection (seen demo_packet) \<and> run_table le32 demo_packet cmds = Some FirewallVerdictReject"
proof -
  obtain plan where p: "privacyEnvelopePlanFromAuthority demo_protection = Inr plan" using planned demo_protection_valid by blast
  have ok: "packet_ok demo_packet" by (simp add: packet_ok_def demo_packet_def)
  have "byte_swap 20570 \<noteq> 20570" by (simp add: byte_swap_def le32_def be32_def of_bytes_def)
  moreover have "ip_text (seen_daddr (demo_packet\<lparr>kp_mark := m\<rparr>)) \<notin> set []" for m by simp
  ultimately have "\<not> envelope_allows demo_protection (seen (demo_packet\<lparr>kp_mark := byte_swap (kp_mark demo_packet)\<rparr>))"
    by (simp add: envelope_allows_def seen_def demo_packet_def demo_protection_def)
  moreover have "envelope_allows demo_protection (seen demo_packet)"
    by (simp add: envelope_allows_def seen_def demo_packet_def demo_protection_def)
  ultimately show ?thesis using little_endian_host_swaps_marks [OF p ok] p by auto
qed

end
