(* ===== verification/Dns_Wire.thy ===== *)
theory Dns_Wire
  imports Net_Addr
begin

text \<open>
  The DNS wire codec of the tunnel diagnostics, \<^verbatim>\<open>internal/tundiag/dnswire.go\<close>: building a query,
  decoding a response with compressed names, following the CNAME chain of the queried name and
  collecting the addresses it reaches.

  A message is a byte string.  Offsets are never negative in the code, so they are natural numbers;
  reading past the end of the message is an explicit error of every reader.  The Unicode case tables,
  which \<^verbatim>\<open>strings.ToLower\<close> consults for a text with non-ASCII bytes, are the parameter \<open>uni\<close> of the
  definitions; no theorem makes an assumption about it.

  The name reader follows at most 16 compression pointers and is a total function by the measure
  below.  The CNAME walk has no bound in the code, so it is a partial function whose value \<open>None\<close>
  means that the loop does not end; that it always ends is a theorem.
\<close>

unbundle bit_operations_syntax

section \<open>Bytes and words of a message\<close>

definition get16 :: "string \<Rightarrow> nat \<Rightarrow> 16 word" where
  "get16 m i = of_nat (byte (m ! i) * 256 + byte (m ! (i + 1)))"

definition put16 :: "16 word \<Rightarrow> string" where
  "put16 w = [char_of (unat w div 256), char_of (unat w mod 256)]"

definition DNSRecordTypeA :: "16 word" where "DNSRecordTypeA = 1"
definition DNSRecordTypeCNAME :: "16 word" where "DNSRecordTypeCNAME = 5"
definition DNSRecordTypeAAAA :: "16 word" where "DNSRecordTypeAAAA = 28"
definition DNSClassIN :: "16 word" where "DNSClassIN = 1"
definition DNSRCodeSuccess :: int where "DNSRCodeSuccess = 0"
definition dnsFlagResponse :: "16 word" where "dnsFlagResponse = 0x8000"
definition dnsOpcodeMask :: "16 word" where "dnsOpcodeMask = 0x7800"
definition dnsFlagTruncated :: "16 word" where "dnsFlagTruncated = 0x0200"
definition dnsReservedZMask :: "16 word" where "dnsReservedZMask = 0x0040"

lemmas dns_consts = DNSRecordTypeA_def DNSRecordTypeCNAME_def DNSRecordTypeAAAA_def DNSClassIN_def
  DNSRCodeSuccess_def dnsFlagResponse_def dnsOpcodeMask_def dnsFlagTruncated_def dnsReservedZMask_def

datatype dns_error =
    EmptyName | EmptyLabel string | LongLabel string | LongName string
  | PointerDepth | OffsetOutside | NameTruncated | PointerLoop | PointerTruncated | PointerOutside
  | LabelPrefix nat | BadLabel
  | ShortHeader | IdMismatch "16 word" "16 word" | NotResponse | BadOpcode "16 word" | TruncatedResponse
  | ReservedBits | QuestionCount nat | QuestionName dns_error | QuestionTruncated
  | QuestionMismatch string string | QuestionTypeClass "16 word" "16 word" "16 word"
  | AnswerName nat dns_error | AnswerHeader nat | AnswerData nat
  | MixedOwner string | CnameTarget nat dns_error | CnameLength nat | EmptyCname nat
  | ConflictingCname string string string | AnswerAddress nat dns_error | AddressLength "16 word" nat
  | CnameCycle string string | NoAnswer "16 word" string

record DNSEvidence =
  ev_server :: string
  ev_name :: string
  ev_type :: "16 word"
  ev_response_code :: int
  ev_addresses :: "string list"
  ev_message_id :: "16 word"

definition empty_evidence :: DNSEvidence where
  "empty_evidence = \<lparr>ev_server = [], ev_name = [], ev_type = 0, ev_response_code = 0, ev_addresses = [],
     ev_message_id = 0\<rparr>"

section \<open>Names\<close>

definition go_to_lower :: "(string \<Rightarrow> string) \<Rightarrow> string \<Rightarrow> string" where
  "go_to_lower uni s = (if list_all (\<lambda>c. byte c < 128) s then map lower_char s else uni s)"

definition normalizeDNSName :: "(string \<Rightarrow> string) \<Rightarrow> string \<Rightarrow> string" where
  "normalizeDNSName uni name = trim_suffix (go_to_lower uni (trim_space name)) ''.''"

fun encode_labels :: "string \<Rightarrow> string list \<Rightarrow> dns_error + string" where
  "encode_labels name [] = Inr []"
| "encode_labels name (label # labels) =
     (if label = [] then Inl (EmptyLabel name)
      else if 63 < length label then Inl (LongLabel label)
      else rbind (encode_labels name labels) (\<lambda>rest. Inr (char_of (length label) # label @ rest)))"

definition encodeDNSName :: "(string \<Rightarrow> string) \<Rightarrow> string \<Rightarrow> dns_error + string" where
  "encodeDNSName uni name0 =
     (let name = normalizeDNSName uni name0 in
      if name = [] then Inl EmptyName
      else rbind (encode_labels name (split_on CHR ''.'' name)) (\<lambda>encoded.
        if 255 < length (encoded @ [CHR 0x00]) then Inl (LongName name)
        else Inr (encoded @ [CHR 0x00])))"

function readDNSName :: "string \<Rightarrow> nat \<Rightarrow> nat \<Rightarrow> dns_error + (string \<times> nat)"
  and read_labels ::
    "string \<Rightarrow> nat \<Rightarrow> nat \<Rightarrow> string list \<Rightarrow> nat \<Rightarrow> bool \<Rightarrow> nat list \<Rightarrow> dns_error + (string \<times> nat)"
where
  "readDNSName m offset depth =
     (if 16 < depth then Inl PointerDepth
      else if length m \<le> offset then Inl OffsetOutside
      else read_labels m depth offset [] offset False [])"
| "read_labels m depth offset labels nxt jumped visited =
     (if length m \<le> offset then Inl NameTruncated
      else if offset \<in> set visited then Inl PointerLoop
      else
        (let len = byte (m ! offset) in
         if len = 0 then Inr (join ''.'' labels, if jumped then nxt else offset + 1)
         else if len AND 0xC0 = 0xC0 then
           (if length m \<le> offset + 1 then Inl PointerTruncated
            else
              (let pointer = push_bit 8 (len AND 0x3F) OR byte (m ! (offset + 1)) in
               if length m \<le> pointer then Inl PointerOutside
               else
                 (case readDNSName m pointer (depth + 1) of
                    Inl e \<Rightarrow> Inl e
                  | Inr (pointed, _) \<Rightarrow>
                      Inr (join ''.'' (if pointed = [] then labels else labels @ split_on CHR ''.'' pointed),
                           if jumped then nxt else offset + 2))))
         else if len AND 0xC0 \<noteq> 0 then Inl (LabelPrefix len)
         else if 63 < len \<or> length m < offset + 1 + len then Inl BadLabel
         else read_labels m depth (offset + 1 + len) (labels @ [take len (drop (offset + 1) m)])
                (if jumped then nxt else offset + 1 + len) jumped (offset # visited)))"
  by pat_completeness auto
termination
  by (relation "inv_image (less_than <*lex*> less_than) (\<lambda>x. case x of
      Inl (m, offset, depth) \<Rightarrow> (if 16 < depth then 0 else 2 * (17 - depth) + 2, 0)
    | Inr (m, depth, offset, _) \<Rightarrow> (2 * (17 - depth) + 1, length m - offset))")
    auto

declare readDNSName.simps [simp del] read_labels.simps [simp del]

section \<open>Queries\<close>

definition BuildDNSQuery :: "(string \<Rightarrow> string) \<Rightarrow> 16 word \<Rightarrow> string \<Rightarrow> 16 word \<Rightarrow> dns_error + string" where
  "BuildDNSQuery uni i name recordType =
     rbind (encodeDNSName uni name) (\<lambda>encodedName.
       Inr (put16 i @ put16 0x0100 @ put16 1 @ replicate 6 (CHR 0x00) @ encodedName @ put16 recordType @
            put16 DNSClassIN))"

section \<open>Responses\<close>

record dnsAnswerRecord =
  ans_owner :: string
  ans_type :: "16 word"
  ans_class :: "16 word"
  ans_offset :: nat
  ans_length :: nat

definition dns_net_ip_text :: "string \<Rightarrow> string" where
  "dns_net_ip_text data =
     (if length data = 4 then ip4_text (of_nat (of_bytes (map byte data)))
      else ip_text (to_netip (IP6 (of_nat (of_bytes (map byte data))))))"

definition parseDNSAddress :: "16 word \<Rightarrow> string \<Rightarrow> dns_error + string" where
  "parseDNSAddress recordType data =
     (if recordType = DNSRecordTypeA then
        (if length data \<noteq> 4 then Inl (AddressLength recordType (length data)) else Inr (dns_net_ip_text data))
      else if recordType = DNSRecordTypeAAAA then
        (if length data \<noteq> 16 then Inl (AddressLength recordType (length data)) else Inr (dns_net_ip_text data))
      else Inr [])"

partial_function (option) cname_walk ::
  "string \<Rightarrow> (string \<rightharpoonup> string) \<Rightarrow> string list \<Rightarrow> string \<Rightarrow> (dns_error + string list) option"
where
  "cname_walk expectedName cnameTargets reachable current =
     (if current \<in> set reachable then Some (Inl (CnameCycle expectedName current))
      else (case cnameTargets current of
              None \<Rightarrow> Some (Inr (current # reachable))
            | Some target \<Rightarrow> cname_walk expectedName cnameTargets (current # reachable) target))"

definition validatedDNSCNAMEChain ::
  "(string \<Rightarrow> string) \<Rightarrow> string \<Rightarrow> (string \<rightharpoonup> string) \<Rightarrow> (dns_error + string list) option" where
  "validatedDNSCNAMEChain uni expectedName cnameTargets =
     cname_walk expectedName cnameTargets [] (normalizeDNSName uni expectedName)"

text \<open>The checks of the header and of the question; the result is the offset of the first answer.\<close>

definition check_header :: "string \<Rightarrow> 16 word \<Rightarrow> dns_error option" where
  "check_header m expectedID =
     (if length m < 12 then Some ShortHeader
      else
        (let i = get16 m 0; flags = get16 m 2; questionCount = unat (get16 m 4) in
         first_error
           [if i \<noteq> expectedID then Some (IdMismatch i expectedID) else None,
            if flags AND dnsFlagResponse = 0 then Some NotResponse else None,
            if flags AND dnsOpcodeMask \<noteq> 0 then Some (BadOpcode (drop_bit 11 (flags AND dnsOpcodeMask))) else None,
            if flags AND dnsFlagTruncated \<noteq> 0 then Some TruncatedResponse else None,
            if flags AND dnsReservedZMask \<noteq> 0 then Some ReservedBits else None,
            if questionCount \<noteq> 1 then Some (QuestionCount questionCount) else None]))"

definition check_question :: "(string \<Rightarrow> string) \<Rightarrow> string \<Rightarrow> string \<Rightarrow> 16 word \<Rightarrow> dns_error + nat" where
  "check_question uni m expectedName expectedType =
     (case readDNSName m 12 0 of
        Inl e \<Rightarrow> Inl (QuestionName e)
      | Inr (questionName, offset) \<Rightarrow>
          if length m < offset + 4 then Inl QuestionTruncated
          else if normalizeDNSName uni questionName \<noteq> normalizeDNSName uni expectedName
          then Inl (QuestionMismatch questionName expectedName)
          else if get16 m offset \<noteq> expectedType \<or> get16 m (offset + 2) \<noteq> DNSClassIN
          then Inl (QuestionTypeClass (get16 m offset) (get16 m (offset + 2)) expectedType)
          else Inr (offset + 4))"

text \<open>The answer section: \<open>n\<close> records remain, the next one is number \<open>i\<close>.\<close>

fun read_answers ::
  "(string \<Rightarrow> string) \<Rightarrow> string \<Rightarrow> nat \<Rightarrow> nat \<Rightarrow> nat \<Rightarrow> dns_error + dnsAnswerRecord list" where
  "read_answers uni m 0 i offset = Inr []"
| "read_answers uni m (Suc n) i offset =
     (case readDNSName m offset 0 of
        Inl e \<Rightarrow> Inl (AnswerName i e)
      | Inr (owner, off) \<Rightarrow>
          if length m < off + 10 then Inl (AnswerHeader i)
          else
            (let dataLength = unat (get16 m (off + 8)) in
             if length m < off + 10 + dataLength then Inl (AnswerData i)
             else
               rbind (read_answers uni m n (i + 1) (off + 10 + dataLength)) (\<lambda>records.
                 Inr (\<lparr>ans_owner = normalizeDNSName uni owner, ans_type = get16 m off,
                       ans_class = get16 m (off + 2), ans_offset = off + 10,
                       ans_length = dataLength\<rparr> # records))))"

text \<open>The state of the loop over the records: the CNAME targets, the owners with address data, and the
  address records of the expected type.\<close>

record dns_tally =
  ty_cnames :: "string \<rightharpoonup> string"
  ty_owners :: "string list"
  ty_addresses :: "(string \<times> string) list"

definition tally_cname ::
  "(string \<Rightarrow> string) \<Rightarrow> string \<Rightarrow> nat \<Rightarrow> dnsAnswerRecord \<Rightarrow> dns_tally \<Rightarrow> dns_error + dns_tally" where
  "tally_cname uni m i r t =
     (if ans_owner r \<in> set (ty_owners t) then Inl (MixedOwner (ans_owner r))
      else case readDNSName m (ans_offset r) 0 of
        Inl e \<Rightarrow> Inl (CnameTarget i e)
      | Inr (target0, nxt) \<Rightarrow>
          if nxt \<noteq> ans_offset r + ans_length r then Inl (CnameLength i)
          else
            (let target = normalizeDNSName uni target0 in
             if ans_owner r = [] \<or> target = [] then Inl (EmptyCname i)
             else case ty_cnames t (ans_owner r) of
               None \<Rightarrow> Inr (t\<lparr>ty_cnames := (ty_cnames t)(ans_owner r \<mapsto> target)\<rparr>)
             | Some existing \<Rightarrow>
                 if existing \<noteq> target then Inl (ConflictingCname (ans_owner r) existing target)
                 else Inr (t\<lparr>ty_cnames := (ty_cnames t)(ans_owner r \<mapsto> target)\<rparr>)))"

definition ans_data :: "string \<Rightarrow> dnsAnswerRecord \<Rightarrow> string" where
  "ans_data m r = take (ans_length r) (drop (ans_offset r) m)"

definition tally_address ::
  "string \<Rightarrow> 16 word \<Rightarrow> nat \<Rightarrow> dnsAnswerRecord \<Rightarrow> dns_tally \<Rightarrow> dns_error + dns_tally" where
  "tally_address m expectedType i r t =
     (if ty_cnames t (ans_owner r) \<noteq> None then Inl (MixedOwner (ans_owner r))
      else
        (let t' = t\<lparr>ty_owners := ans_owner r # ty_owners t\<rparr> in
         if ans_type r \<noteq> expectedType then Inr t'
         else case parseDNSAddress (ans_type r) (ans_data m r) of
           Inl e \<Rightarrow> Inl (AnswerAddress i e)
         | Inr address \<Rightarrow>
             Inr (if address \<noteq> [] then t'\<lparr>ty_addresses := ty_addresses t' @ [(ans_owner r, address)]\<rparr> else t')))"

definition tally_record ::
  "(string \<Rightarrow> string) \<Rightarrow> string \<Rightarrow> 16 word \<Rightarrow> nat \<Rightarrow> dnsAnswerRecord \<Rightarrow> dns_tally \<Rightarrow> dns_error + dns_tally" where
  "tally_record uni m expectedType i r t =
     (if ans_class r \<noteq> DNSClassIN then Inr t
      else if ans_type r = DNSRecordTypeCNAME then tally_cname uni m i r t
      else if ans_type r = DNSRecordTypeA \<or> ans_type r = DNSRecordTypeAAAA then tally_address m expectedType i r t
      else Inr t)"

fun tally_records ::
  "(string \<Rightarrow> string) \<Rightarrow> string \<Rightarrow> 16 word \<Rightarrow> nat \<Rightarrow> dnsAnswerRecord list \<Rightarrow> dns_tally \<Rightarrow> dns_error + dns_tally" where
  "tally_records uni m expectedType i [] t = Inr t"
| "tally_records uni m expectedType i (r # rs) t =
     rbind (tally_record uni m expectedType i r t) (tally_records uni m expectedType (i + 1) rs)"

definition empty_tally :: dns_tally where
  "empty_tally = \<lparr>ty_cnames = Map.empty, ty_owners = [], ty_addresses = []\<rparr>"

fun collect_addresses :: "string list \<Rightarrow> string list \<Rightarrow> (string \<times> string) list \<Rightarrow> string list" where
  "collect_addresses reachable seen [] = []"
| "collect_addresses reachable seen ((owner, address) # rs) =
     (if owner \<notin> set reachable \<or> address \<in> set seen then collect_addresses reachable seen rs
      else address # collect_addresses reachable (address # seen) rs)"

text \<open>Everything up to the loop over the records; \<open>Inr\<close> holds the records and what the loop collected.\<close>

definition decode_records ::
  "(string \<Rightarrow> string) \<Rightarrow> string \<Rightarrow> 16 word \<Rightarrow> string \<Rightarrow> 16 word \<Rightarrow> dns_error + (dnsAnswerRecord list \<times> dns_tally)" where
  "decode_records uni m expectedID expectedName expectedType =
     check_nil (check_header m expectedID)
       (rbind (check_question uni m expectedName expectedType) (\<lambda>offset.
          rbind (read_answers uni m (unat (get16 m 6)) 0 offset) (\<lambda>records.
            rbind (tally_records uni m expectedType 0 records empty_tally) (\<lambda>t. Inr (records, t)))))"

definition ParseDNSResponse ::
  "(string \<Rightarrow> string) \<Rightarrow> string \<Rightarrow> 16 word \<Rightarrow> string \<Rightarrow> 16 word \<Rightarrow> (DNSEvidence \<times> dns_error option) option" where
  "ParseDNSResponse uni m expectedID expectedName expectedType =
     (case decode_records uni m expectedID expectedName expectedType of
        Inl e \<Rightarrow> Some (empty_evidence, Some e)
      | Inr (records, t) \<Rightarrow>
          (let evidence = \<lparr>ev_server = [], ev_name = normalizeDNSName uni expectedName, ev_type = expectedType,
                 ev_response_code = uint (get16 m 2 AND 0x000F), ev_addresses = [],
                 ev_message_id = get16 m 0\<rparr> in
           if ev_response_code evidence \<noteq> DNSRCodeSuccess then Some (evidence, None)
           else
             Option.bind (validatedDNSCNAMEChain uni (ev_name evidence) (ty_cnames t)) (\<lambda>chain.
               case chain of
                 Inl e \<Rightarrow> Some (empty_evidence, Some e)
               | Inr reachable \<Rightarrow>
                   (let found = evidence\<lparr>ev_addresses := collect_addresses reachable [] (ty_addresses t)\<rparr> in
                    if 0 < unat (get16 m 6) \<and> ev_addresses found = []
                    then Some (found, Some (NoAnswer expectedType (ev_name evidence)))
                    else Some (found, None)))))"

end
