(* ===== verification/Dns_Wire_Facts.thy ===== *)
theory Dns_Wire_Facts
  imports Dns_Wire
begin

text \<open>
  Facts about the DNS codec: the name reader stays inside the message and makes progress, it reads
  back what the encoder writes, the CNAME walk always ends and computes the closure of the CNAME
  edges, and the addresses of an accepted response are exactly the address records reached from the
  queried name.
\<close>

section \<open>Reading names\<close>

lemma label_byte_and: "n < 64 \<Longrightarrow> n AND 192 = (0 :: nat)"
proof -
  assume "n < 64"
  then have n: "n = take_bit 6 n" by (simp add: take_bit_nat_eq_self)
  have m: "(192 :: nat) = push_bit 6 3" by simp
  show ?thesis
    by (subst n, subst m, rule bit_eqI) (simp only: bit_and_iff bit_take_bit_iff bit_push_bit_iff; simp)
qed

lemma read_name_bounds:
  "readDNSName m offset depth = Inr (s, n) \<Longrightarrow> offset < n \<and> n \<le> length m"
  "read_labels m depth offset labels nxt jumped visited = Inr (s, n) \<Longrightarrow> \<not> jumped \<Longrightarrow> offset < n \<and> n \<le> length m"
proof (induction m offset depth and m depth offset labels nxt jumped visited
    arbitrary: s n and s n rule: readDNSName_read_labels.induct)
  case (1 m offset depth)
  then show ?case by (auto simp: readDNSName.simps [of m offset depth] split: if_splits)
next
  case (2 m depth offset labels nxt jumped visited)
  then show ?case
    unfolding read_labels.simps [of m depth offset]
    by (fastforce simp: Let_def split: if_splits sum.splits)
qed

lemma read_labels_encode:
  assumes "encode_labels name ls = Inr enc" and "\<forall>v\<in>set visited. v < length pre"
  shows "read_labels (pre @ enc @ CHR 0x00 # suf) depth (length pre) acc nxt False visited =
           Inr (join ''.'' (acc @ ls), length pre + length enc + 1)"
  using assms
proof (induction ls arbitrary: enc pre acc nxt visited)
  case Nil
  then show ?case by (auto simp: read_labels.simps nth_append)
next
  case (Cons l ls)
  from Cons.prems(1) obtain rest where
    rest: "encode_labels name ls = Inr rest" and enc: "enc = char_of (length l) # l @ rest" and
    l: "l \<noteq> []" "length l \<le> 63"
    by (auto simp: result_simps split: if_splits)
  let ?pre = "pre @ char_of (length l) # l"
  have b: "byte (char_of (length l) :: char) = length l" using l by simp
  have IH: "read_labels (?pre @ rest @ CHR 0x00 # suf) depth (length ?pre) (acc @ [l]) (length pre + 1 + length l)
      False (length pre # visited) = Inr (join ''.'' ((acc @ [l]) @ ls), length ?pre + length rest + 1)"
    by (rule Cons.IH [OF rest]) (use Cons.prems(2) in auto)
  have "length pre \<notin> set visited" using Cons.prems(2) by auto
  then show ?case
    using IH l b by (subst read_labels.simps) (simp add: enc nth_append label_byte_and Let_def)
qed

text \<open>A name that the encoder accepts is read back, wherever its encoding stands in a message, as
  the normalised name, and reading ends right behind the encoding.\<close>

theorem encoded_name_read_back:
  assumes "encodeDNSName uni name = Inr enc" and "depth \<le> 16"
  shows "readDNSName (pre @ enc @ suf) (length pre) depth =
           Inr (normalizeDNSName uni name, length pre + length enc)"
proof -
  let ?n = "normalizeDNSName uni name"
  from assms obtain labels where
    l: "encode_labels ?n (split_on CHR ''.'' ?n) = Inr labels" and enc: "enc = labels @ [CHR 0x00]"
    by (auto simp: encodeDNSName_def Let_def result_simps split: if_splits)
  from read_labels_encode [OF l, of "[]" pre suf depth "[]" "length pre"] assms(2) show ?thesis
    by (simp add: readDNSName.simps enc join_split_on)
qed

theorem encoded_name_read_back_witness:
  "readDNSName (''xy'' @ [CHR 0x01, CHR ''a'', CHR 0x02, CHR ''b'', CHR ''c'', CHR 0x00] @ ''z'') 2 0 =
     Inr (''a.bc'', 8)"
proof -
  have n: "normalizeDNSName (\<lambda>s. s) ''A.bc.'' = ''a.bc''"
    by (simp add: normalizeDNSName_def go_to_lower_def lower_char_def trim_suffix_def char_of_byte
        suffix_def)
  have "encodeDNSName (\<lambda>s. s) ''A.bc.'' = Inr [CHR 0x01, CHR ''a'', CHR 0x02, CHR ''b'', CHR ''c'', CHR 0x00]"
    by (simp add: encodeDNSName_def n char_of_byte)
  from encoded_name_read_back [OF this, of 0 "''xy''" "''z''"] show ?thesis
    by (simp add: n eval_nat_numeral)
qed

section \<open>The CNAME walk\<close>

lemma cname_walk_total:
  assumes "finite (dom c)"
  shows "\<exists>r. cname_walk e c reach cur = Some r \<and>
     (case r of
        Inr R \<Rightarrow> set R = set reach \<union> {x. (\<lambda>x y. c x = Some y)\<^sup>*\<^sup>* cur x}
      | Inl err \<Rightarrow> \<exists>x. err = CnameCycle e x \<and> (\<lambda>x y. c x = Some y)\<^sup>*\<^sup>* cur x \<and>
                     (x \<in> set reach \<or> (\<lambda>x y. c x = Some y)\<^sup>+\<^sup>+ x x))"
  using assms
proof (induction "card (dom c - set reach)" arbitrary: reach cur rule: less_induct)
  case less
  let ?E = "\<lambda>x y. c x = Some y"
  show ?case
  proof (cases "cur \<in> set reach")
    case True
    then show ?thesis by (subst cname_walk.simps) auto
  next
    case new: False
    show ?thesis
    proof (cases "c cur")
      case None
      then have "?E\<^sup>*\<^sup>* cur x \<longleftrightarrow> x = cur" for x
        by (auto elim: converse_rtranclpE)
      with None new show ?thesis by (subst cname_walk.simps) auto
    next
      case (Some t)
      then have "card (dom c - set (cur # reach)) < card (dom c - set reach)"
        using new less.prems by (intro psubset_card_mono) auto
      from less.hyps [OF this less.prems, of t] obtain r where
        r: "cname_walk e c (cur # reach) t = Some r" and
        spec: "case r of Inr R \<Rightarrow> set R = set (cur # reach) \<union> {x. ?E\<^sup>*\<^sup>* t x}
          | Inl err \<Rightarrow> \<exists>x. err = CnameCycle e x \<and> ?E\<^sup>*\<^sup>* t x \<and> (x \<in> set (cur # reach) \<or> ?E\<^sup>+\<^sup>+ x x)"
        by blast
      have step: "?E\<^sup>*\<^sup>* cur x \<longleftrightarrow> x = cur \<or> ?E\<^sup>*\<^sup>* t x" for x
        using Some by (auto elim: converse_rtranclpE intro: converse_rtranclp_into_rtranclp)
      have cyc: "?E\<^sup>*\<^sup>* t cur \<Longrightarrow> ?E\<^sup>+\<^sup>+ cur cur"
        using Some by (simp add: rtranclp_into_tranclp2)
      have "cname_walk e c reach cur = Some r"
        using new Some r by (subst cname_walk.simps) simp
      moreover have "case r of Inr R \<Rightarrow> set R = set reach \<union> {x. ?E\<^sup>*\<^sup>* cur x}
          | Inl err \<Rightarrow> \<exists>x. err = CnameCycle e x \<and> ?E\<^sup>*\<^sup>* cur x \<and> (x \<in> set reach \<or> ?E\<^sup>+\<^sup>+ x x)"
      proof (cases r)
        case (Inl err)
        with spec obtain x where x: "err = CnameCycle e x" "?E\<^sup>*\<^sup>* t x" "x \<in> set (cur # reach) \<or> ?E\<^sup>+\<^sup>+ x x"
          by auto
        then have "x \<in> set reach \<or> ?E\<^sup>+\<^sup>+ x x" using cyc by (metis set_ConsD)
        with Inl x(1,2) show ?thesis by (simp add: step)
      next
        case (Inr R)
        have "{x. ?E\<^sup>*\<^sup>* cur x} = insert cur {x. ?E\<^sup>*\<^sup>* t x}" unfolding step by blast
        with Inr spec show ?thesis by simp
      qed
      ultimately show ?thesis by blast
    qed
  qed
qed

section \<open>The records of a response\<close>

text \<open>What a record says, independent of the order of the records.\<close>

definition cname_edge :: "(string \<Rightarrow> string) \<Rightarrow> string \<Rightarrow> dnsAnswerRecord list \<Rightarrow> string \<Rightarrow> string \<Rightarrow> bool" where
  "cname_edge uni m recs x y \<longleftrightarrow>
     (\<exists>r\<in>set recs. ans_class r = DNSClassIN \<and> ans_type r = DNSRecordTypeCNAME \<and> ans_owner r = x \<and>
        (\<exists>t. readDNSName m (ans_offset r) 0 = Inr (t, ans_offset r + ans_length r) \<and> y = normalizeDNSName uni t))"

definition answer_address :: "string \<Rightarrow> 16 word \<Rightarrow> dnsAnswerRecord \<Rightarrow> string \<Rightarrow> bool" where
  "answer_address m expectedType r a \<longleftrightarrow>
     ans_class r = DNSClassIN \<and> ans_type r = expectedType \<and> expectedType \<in> {DNSRecordTypeA, DNSRecordTypeAAAA} \<and>
     parseDNSAddress expectedType (ans_data m r) = Inr a \<and> a \<noteq> []"

definition tally_ok ::
  "(string \<Rightarrow> string) \<Rightarrow> string \<Rightarrow> 16 word \<Rightarrow> dnsAnswerRecord list \<Rightarrow> dns_tally \<Rightarrow> bool" where
  "tally_ok uni m expectedType recs t \<longleftrightarrow>
     finite (dom (ty_cnames t)) \<and>
     (\<forall>x y. ty_cnames t x = Some y \<longleftrightarrow> cname_edge uni m recs x y) \<and>
     (\<forall>x a. (x, a) \<in> set (ty_addresses t) \<longleftrightarrow>
        (\<exists>r\<in>set recs. ans_owner r = x \<and> answer_address m expectedType r a))"

lemma cname_edge_snoc:
  "cname_edge uni m (recs @ [r]) x y \<longleftrightarrow> cname_edge uni m recs x y \<or> cname_edge uni m [r] x y"
  by (auto simp: cname_edge_def)

lemma tally_cname_ok:
  assumes "tally_ok uni m ty recs t" and "tally_cname uni m i r t = Inr t'"
    and "ans_class r = DNSClassIN" and "ans_type r = DNSRecordTypeCNAME"
  shows "tally_ok uni m ty (recs @ [r]) t'"
proof -
  from assms(2) obtain target0 where
    rd: "readDNSName m (ans_offset r) 0 = Inr (target0, ans_offset r + ans_length r)" and
    ex: "ty_cnames t (ans_owner r) \<in> {None, Some (normalizeDNSName uni target0)}" and
    t': "t' = t\<lparr>ty_cnames := (ty_cnames t)(ans_owner r \<mapsto> normalizeDNSName uni target0)\<rparr>"
    by (auto simp: tally_cname_def Let_def split: if_splits sum.splits option.splits)
  have e: "cname_edge uni m [r] x y \<longleftrightarrow> x = ans_owner r \<and> y = normalizeDNSName uni target0" for x y
    using assms(3,4) by (auto simp: cname_edge_def rd)
  have a: "\<not> answer_address m ty r a" for a
    using assms(4) by (auto simp: answer_address_def dns_consts)
  have k: "cname_edge uni m recs x y \<longleftrightarrow> ty_cnames t x = Some y" for x y
    using assms(1) by (simp add: tally_ok_def)
  show ?thesis
    using assms(1) ex unfolding tally_ok_def t' by (auto simp: cname_edge_snoc e a k)
qed

lemma tally_address_ok:
  assumes "tally_ok uni m ty recs t" and "tally_address m ty i r t = Inr t'"
    and "ans_class r = DNSClassIN" and "ans_type r = DNSRecordTypeA \<or> ans_type r = DNSRecordTypeAAAA"
  shows "tally_ok uni m ty (recs @ [r]) t'"
proof -
  have e: "\<not> cname_edge uni m [r] x y" for x y
    using assms(4) by (auto simp: cname_edge_def dns_consts)
  have c: "ty_cnames t' = ty_cnames t"
    using assms(2) by (auto simp: tally_address_def Let_def split: if_splits sum.splits)
  have "(x, a) \<in> set (ty_addresses t') \<longleftrightarrow>
      (x, a) \<in> set (ty_addresses t) \<or> x = ans_owner r \<and> answer_address m ty r a" for x a
    using assms(2-4) by (auto simp: tally_address_def answer_address_def Let_def split: if_splits sum.splits)
  with assms(1) show ?thesis
    unfolding tally_ok_def by (auto simp: cname_edge_snoc e c)
qed

lemma tally_record_ok:
  assumes "tally_ok uni m ty recs t" and "tally_record uni m ty i r t = Inr t'"
  shows "tally_ok uni m ty (recs @ [r]) t'"
proof -
  have "tally_ok uni m ty (recs @ [r]) t"
    if "ans_class r \<noteq> DNSClassIN \<or> ans_type r \<notin> {DNSRecordTypeCNAME, DNSRecordTypeA, DNSRecordTypeAAAA}"
  proof -
    have "\<not> cname_edge uni m [r] x y" "\<not> answer_address m ty r a" for x y a
      using that by (auto simp: cname_edge_def answer_address_def)
    then show ?thesis using assms(1) unfolding tally_ok_def by (auto simp: cname_edge_snoc)
  qed
  then show ?thesis
    using assms tally_cname_ok tally_address_ok by (auto simp: tally_record_def split: if_splits)
qed

lemma tally_records_ok:
  "tally_ok uni m ty done_recs t \<Longrightarrow> tally_records uni m ty i recs t = Inr t' \<Longrightarrow>
     tally_ok uni m ty (done_recs @ recs) t'"
proof (induction recs arbitrary: done_recs i t)
  case (Cons r recs)
  from Cons.prems(2) obtain t1 where
    "tally_record uni m ty i r t = Inr t1" "tally_records uni m ty (i + 1) recs t1 = Inr t'"
    by (auto simp: result_simps)
  with Cons.IH [of "done_recs @ [r]" t1 "i + 1"] Cons.prems(1) show ?case
    by (auto dest: tally_record_ok)
qed simp

lemma decode_records_ok:
  assumes "decode_records uni m i name ty = Inr (recs, t)"
  shows "tally_ok uni m ty recs t"
proof -
  have "tally_ok uni m ty [] empty_tally"
    by (simp add: tally_ok_def empty_tally_def cname_edge_def)
  with assms show ?thesis
    by (auto simp: decode_records_def result_simps dest: tally_records_ok)
qed

lemma collect_addresses_set:
  "set (collect_addresses R seen xs) = {a. \<exists>x\<in>set R. (x, a) \<in> set xs} - set seen"
  by (induction R seen xs rule: collect_addresses.induct) auto

lemma collect_addresses_distinct: "distinct (collect_addresses R seen xs)"
  by (induction R seen xs rule: collect_addresses.induct) (auto simp: collect_addresses_set)

section \<open>Responses\<close>

text \<open>C35: Decoding a response ends for every message, query and case table: the walk along the CNAME
  records, which has no bound of its own, cannot run forever.\<close>

theorem parse_response_returns: "\<exists>r. ParseDNSResponse uni m i name ty = Some r"
proof (cases "decode_records uni m i name ty")
  case (Inr p)
  obtain recs t where p: "p = (recs, t)" by fastforce
  have "finite (dom (ty_cnames t))"
    using decode_records_ok Inr p by (auto simp: tally_ok_def)
  from cname_walk_total [OF this, of "normalizeDNSName uni name" "[]"
      "normalizeDNSName uni (normalizeDNSName uni name)"]
  obtain r where "validatedDNSCNAMEChain uni (normalizeDNSName uni name) (ty_cnames t) = Some r"
    by (auto simp: validatedDNSCNAMEChain_def)
  with Inr p show ?thesis
    by (auto simp: ParseDNSResponse_def Let_def split: sum.splits)
qed (simp add: ParseDNSResponse_def)

lemma parse_response_success:
  assumes "ParseDNSResponse uni m i name ty = Some (ev, None)" and "ev_response_code ev = 0"
  obtains recs t R where "decode_records uni m i name ty = Inr (recs, t)"
    "validatedDNSCNAMEChain uni (ev_name ev) (ty_cnames t) = Some (Inr R)"
    "ev_addresses ev = collect_addresses R [] (ty_addresses t)" "ev_name ev = normalizeDNSName uni name"
proof -
  from assms(1) obtain recs t where d: "decode_records uni m i name ty = Inr (recs, t)"
    by (auto simp: ParseDNSResponse_def split: sum.splits)
  let ?c = "validatedDNSCNAMEChain uni (normalizeDNSName uni name) (ty_cnames t)"
  from assms d obtain c where c: "?c = Some c"
    by (auto simp: ParseDNSResponse_def Let_def DNSRCodeSuccess_def bind_eq_Some_conv split: if_splits)
  with assms d obtain R where "c = Inr R"
    by (cases c) (auto simp: ParseDNSResponse_def Let_def DNSRCodeSuccess_def split: if_splits)
  with assms c d show thesis
    by (intro that [of recs t R])
      (auto simp: ParseDNSResponse_def Let_def DNSRCodeSuccess_def split: if_splits)
qed


text \<open>A response to the query \<^verbatim>\<open>a IN A\<close> with the records \<^verbatim>\<open>a CNAME b\<close> and \<^verbatim>\<open>b A 1.2.3.4\<close>.\<close>

definition demo_response :: string where
  "demo_response =
     put16 7 @ put16 0x8180 @ put16 1 @ put16 2 @ put16 0 @ put16 0 @
     [CHR 0x01, CHR ''a'', CHR 0x00] @ put16 1 @ put16 1 @
     [CHR 0xC0, CHR 0x0C] @ put16 5 @ put16 1 @ put16 0 @ put16 0 @ put16 3 @ [CHR 0x01, CHR ''b'', CHR 0x00] @
     [CHR 0x01, CHR ''b'', CHR 0x00] @ put16 1 @ put16 1 @ put16 0 @ put16 0 @ put16 4 @
     [CHR 0x01, CHR 0x02, CHR 0x03, CHR 0x04]"

lemma demo_chars:
  "demo_response =
     [CHR 0x00, CHR 0x07, CHR 0x81, CHR 0x80, CHR 0x00, CHR 0x01, CHR 0x00, CHR 0x02, CHR 0x00, CHR 0x00,
      CHR 0x00, CHR 0x00, CHR 0x01, CHR ''a'', CHR 0x00, CHR 0x00, CHR 0x01, CHR 0x00, CHR 0x01, CHR 0xC0,
      CHR 0x0C, CHR 0x00, CHR 0x05, CHR 0x00, CHR 0x01, CHR 0x00, CHR 0x00, CHR 0x00, CHR 0x00, CHR 0x00,
      CHR 0x03, CHR 0x01, CHR ''b'', CHR 0x00, CHR 0x01, CHR ''b'', CHR 0x00, CHR 0x00, CHR 0x01, CHR 0x00,
      CHR 0x01, CHR 0x00, CHR 0x00, CHR 0x00, CHR 0x00, CHR 0x00, CHR 0x04, CHR 0x01, CHR 0x02, CHR 0x03,
      CHR 0x04]"
  by (simp add: demo_response_def put16_def char_of_byte)

lemma demo_length: "length demo_response = 51"
  by (simp add: demo_chars)

lemma demo_normal: "normalizeDNSName (\<lambda>s. s) ''a'' = ''a''" "normalizeDNSName (\<lambda>s. s) ''b'' = ''b''"
  by (simp_all add: normalizeDNSName_def go_to_lower_def lower_char_def trim_suffix_def suffix_def)

lemma demo_names:
  "readDNSName demo_response 12 0 = Inr (''a'', 15)" "readDNSName demo_response 19 0 = Inr (''a'', 21)"
  "readDNSName demo_response 31 0 = Inr (''b'', 34)" "readDNSName demo_response 34 0 = Inr (''b'', 37)"
  by (simp_all add: demo_chars readDNSName.simps read_labels.simps label_byte_and)

lemma demo_words:
  "get16 demo_response 0 = 7" "get16 demo_response 2 = 0x8180" "get16 demo_response 4 = 1"
  "get16 demo_response 6 = 2" "get16 demo_response 15 = 1" "get16 demo_response 17 = 1"
  "get16 demo_response 21 = 5" "get16 demo_response 23 = 1" "get16 demo_response 29 = 3"
  "get16 demo_response 37 = 1" "get16 demo_response 39 = 1" "get16 demo_response 45 = 4"
  by (simp_all add: demo_chars get16_def)

lemma demo_decode:
  "decode_records (\<lambda>s. s) demo_response 7 ''a'' 1 =
     Inr ([\<lparr>ans_owner = ''a'', ans_type = 5, ans_class = 1, ans_offset = 31, ans_length = 3\<rparr>,
           \<lparr>ans_owner = ''b'', ans_type = 1, ans_class = 1, ans_offset = 47, ans_length = 4\<rparr>],
          \<lparr>ty_cnames = [''a'' \<mapsto> ''b''], ty_owners = [''b''], ty_addresses = [(''b'', ''1.2.3.4'')]\<rparr>)"
proof -
  have 1: "check_header demo_response 7 = None"
    by (simp add: check_header_def demo_length demo_words dns_consts)
  have 2: "check_question (\<lambda>s. s) demo_response ''a'' 1 = Inr 19"
    by (simp add: check_question_def demo_names demo_length demo_words dns_consts)
  have two: "(2 :: nat) = Suc (Suc 0)" by simp
  have 3: "read_answers (\<lambda>s. s) demo_response 2 0 19 =
     Inr [\<lparr>ans_owner = ''a'', ans_type = 5, ans_class = 1, ans_offset = 31, ans_length = 3\<rparr>,
          \<lparr>ans_owner = ''b'', ans_type = 1, ans_class = 1, ans_offset = 47, ans_length = 4\<rparr>]"
    unfolding two by (simp add: demo_names demo_length demo_words demo_normal)
  have 5: "take 4 (drop 47 demo_response) = [CHR 0x01, CHR 0x02, CHR 0x03, CHR 0x04]"
    by (simp add: demo_chars)
  have 4: "dns_net_ip_text [CHR 0x01, CHR 0x02, CHR 0x03, CHR 0x04] = ''1.2.3.4''"
    by (simp add: dns_net_ip_text_def ip4_text_def octets_def of_bytes_def itoa_eval)
  show ?thesis
    by (simp add: decode_records_def 1 2 3 demo_words tally_record_def tally_cname_def tally_address_def
        empty_tally_def dns_consts demo_names demo_normal parseDNSAddress_def ans_data_def 4 5)
qed

lemma demo_parse:
  "ParseDNSResponse (\<lambda>s. s) demo_response 7 ''a'' 1 =
     Some (\<lparr>ev_server = [], ev_name = ''a'', ev_type = 1, ev_response_code = 0,
            ev_addresses = [''1.2.3.4''], ev_message_id = 7\<rparr>, None)"
  by (simp add: ParseDNSResponse_def demo_decode demo_words demo_normal validatedDNSCNAMEChain_def
      cname_walk.simps DNSRCodeSuccess_def)


end
