(* ===== verification/Exec_Host.thy ===== *)
theory Exec_Host
  imports Nft_Mutation Transaction
begin

text \<open>
  The host as the command executors see it: running a program, looking it up, the files of the runtime
  directory, the callback that persists an applied step.  Programs and the kernel are a parameter, the
  record \<open>host\<close>: each operation is a function of the world that may also change it, so a call may have
  effects of its own and other programs may act between two calls.

  The state of a run is the world and the trace of what the code did to it.  The second half models
  \<^verbatim>\<open>src/internal/network/executor/command.go\<close>: running a command, the text of its error and the test for a
  missing resource.
\<close>

section \<open>Host and runs\<close>

record CommandResult =
  cmd_stdout :: string
  cmd_stderr :: string
  cmd_raw_stdout :: string
  cmd_raw_stderr :: string
  cmd_exit :: int

text \<open>The error of a run: its text, whether its context was cancelled or had expired, and the exit code it
  carries, if any.\<close>

record run_error =
  re_text :: string
  re_context :: bool
  re_exit :: "int option"

record Step =
  st_kind :: string
  st_target :: string
  st_description :: string
  st_owner :: string

datatype host_action =
    Ran string "string list"
  | RecordedStep Step
  | RemovedAll string
  | RemovedFile string
  | RolledBackTable TunFirewallPlan
  | AppliedTable TunFirewallPlan
  | SavedTransaction Transaction
  | Signalled int

datatype file_error = NotExist | FileError string
datatype file_kind = Directory | OtherFile

record 'w host =
  ho_look_path :: "string \<Rightarrow> 'w \<Rightarrow> 'w \<times> (string + string)"
  ho_run :: "string \<Rightarrow> string list \<Rightarrow> 'w \<Rightarrow> 'w \<times> (CommandResult \<times> run_error option)"
  ho_cancelled :: "'w \<Rightarrow> bool"
  ho_quote :: "string \<Rightarrow> string"
  ho_evidence :: "'w \<Rightarrow> 'w \<times> (string + TunAllocationEvidence)"
  ho_core_done :: "'w \<Rightarrow> bool"
  ho_sleep :: "'w \<Rightarrow> 'w \<times> string option"
  ho_sink :: "Step \<Rightarrow> 'w \<Rightarrow> 'w \<times> string option"
  ho_directory :: "string \<Rightarrow> 'w \<Rightarrow> string option \<times> txdir"
  ho_tx_error :: "tx_error \<Rightarrow> string"
  ho_stat :: "string \<Rightarrow> 'w \<Rightarrow> 'w \<times> (file_error + file_kind)"
  ho_read_dir :: "string \<Rightarrow> 'w \<Rightarrow> 'w \<times> (file_error + string list)"
  ho_remove_all :: "string \<Rightarrow> 'w \<Rightarrow> 'w \<times> file_error option"
  ho_remove :: "string \<Rightarrow> 'w \<Rightarrow> 'w \<times> file_error option"
  ho_nft :: "'w nft_host"
  ho_nft_env :: "'w nft_env"

record 'w host_state =
  hs_run :: "'w nft_run"
  hs_trace :: "host_action list"

abbreviation hs_world :: "'w host_state \<Rightarrow> 'w" where
  "hs_world s \<equiv> nr_world (hs_run s)"

definition set_world :: "'w \<Rightarrow> 'w host_state \<Rightarrow> 'w host_state" where
  "set_world w s = s\<lparr>hs_run := (hs_run s)\<lparr>nr_world := w\<rparr>\<rparr>"

definition add_trace :: "host_action \<Rightarrow> 'w host_state \<Rightarrow> 'w host_state" where
  "add_trace a s = s\<lparr>hs_trace := hs_trace s @ [a]\<rparr>"

lemma hs_simps [simp]:
  "hs_trace (set_world w s) = hs_trace s" "hs_trace (add_trace a s) = hs_trace s @ [a]"
  "nr_world (hs_run (set_world w s)) = w" "hs_run (add_trace a s) = hs_run s"
  by (simp_all add: set_world_def add_trace_def)

text \<open>A call that only reads, and a call that leaves a mark in the trace.\<close>

definition host_read :: "('w \<Rightarrow> 'w \<times> 'a) \<Rightarrow> ('w host_state, 'e, 'a) prog" where
  "host_read f s = (case f (hs_world s) of (w, x) \<Rightarrow> (set_world w s, Inr x))"

definition host_act :: "host_action \<Rightarrow> ('w \<Rightarrow> 'w \<times> 'a) \<Rightarrow> ('w host_state, 'e, 'a) prog" where
  "host_act a f s = (case f (hs_world s) of (w, x) \<Rightarrow> (add_trace a (set_world w s), Inr x))"

definition host_peek :: "('w \<Rightarrow> 'a) \<Rightarrow> ('w host_state, 'e, 'a) prog" where
  "host_peek f s = (s, Inr (f (hs_world s)))"

definition tryp :: "('s, 'e, 'a) prog \<Rightarrow> ('s, 'd, 'e + 'a) prog" where
  "tryp m s = (case m s of (s', r) \<Rightarrow> (s', Inr r))"

definition run_raw :: "'w host \<Rightarrow> string \<Rightarrow> string \<Rightarrow> string list \<Rightarrow> ('w host_state, 'e, CommandResult \<times> run_error option) prog" where
  "run_raw host name path args = host_act (Ran name args) (ho_run host path args)"

section \<open>Errors of the network executors\<close>

text \<open>An error is its text, the sentinel and typed errors it wraps, and the command error it wraps, if any.\<close>

datatype err_tag =
    ErrTunAddressConflict | ErrTunAddressApply | ErrTunAddressVerify | ErrTunLinkIdentityMismatch
  | TunRollbackLinkAbsent

record command_error =
  ce_name :: string
  ce_args :: "string list"
  ce_result :: CommandResult
  ce_err :: "run_error option"
  ce_cancelled :: bool

record exec_error =
  ee_text :: string
  ee_tags :: "err_tag list"
  ee_command :: "command_error option"

fun tag_text :: "err_tag \<Rightarrow> string" where
  "tag_text ErrTunAddressConflict = ''TUN address conflict''"
| "tag_text ErrTunAddressApply = ''TUN address apply failure''"
| "tag_text ErrTunAddressVerify = ''TUN address verification failure''"
| "tag_text ErrTunLinkIdentityMismatch = ''TUN link identity mismatch''"
| "tag_text TunRollbackLinkAbsent = ''transaction-bound TUN link is absent''"

definition plain_error :: "string \<Rightarrow> exec_error" where
  "plain_error t = \<lparr>ee_text = t, ee_tags = [], ee_command = None\<rparr>"

definition tagged_error :: "err_tag \<Rightarrow> string \<Rightarrow> exec_error" where
  "tagged_error t s = \<lparr>ee_text = tag_text t @ '': '' @ s, ee_tags = [t], ee_command = None\<rparr>"

definition wrap_error :: "string \<Rightarrow> exec_error \<Rightarrow> exec_error" where
  "wrap_error t e = e\<lparr>ee_text := t @ '': '' @ ee_text e\<rparr>"

definition tag_error :: "err_tag \<Rightarrow> exec_error \<Rightarrow> exec_error" where
  "tag_error t e = e\<lparr>ee_text := tag_text t @ '': '' @ ee_text e, ee_tags := t # ee_tags e\<rparr>"

type_synonym ('w, 'a) exec_act = "('w host_state, exec_error, 'a) prog"

definition fail_with :: "string \<Rightarrow> ('w, 'a) exec_act" where
  "fail_with t = fail (plain_error t)"

definition checke :: "exec_error option \<Rightarrow> ('w, unit) exec_act" where
  "checke e = (case e of None \<Rightarrow> ret () | Some x \<Rightarrow> fail x)"

definition map_err :: "('e \<Rightarrow> 'd) \<Rightarrow> ('s, 'e, 'a) prog \<Rightarrow> ('s, 'd, 'a) prog" where
  "map_err f m s = (case m s of (s', Inl e) \<Rightarrow> (s', Inl (f e)) | (s', Inr x) \<Rightarrow> (s', Inr x))"

definition wrapping :: "string \<Rightarrow> ('w, 'a) exec_act \<Rightarrow> ('w, 'a) exec_act" where
  "wrapping t m = map_err (wrap_error t) m"

section \<open>Commands\<close>

definition commandError_text :: "string \<Rightarrow> string list \<Rightarrow> CommandResult \<Rightarrow> run_error option \<Rightarrow> string" where
  "commandError_text name args result err =
     join '': ''
       ([name @ '' '' @ join '' '' args] @
        (if cmd_exit result \<noteq> 0 then [''exit code '' @ itoa_int (cmd_exit result)] else []) @
        (if trim_space (cmd_stderr result) \<noteq> [] then [''stderr: '' @ trim_space (cmd_stderr result)]
         else case err of None \<Rightarrow> [] | Some e \<Rightarrow> [re_text e]))"

definition command_failure :: "string \<Rightarrow> string list \<Rightarrow> CommandResult \<Rightarrow> run_error option \<Rightarrow> bool \<Rightarrow> exec_error" where
  "command_failure name args result err cancelled =
     \<lparr>ee_text = commandError_text name args result err, ee_tags = [],
      ee_command = Some \<lparr>ce_name = name, ce_args = args, ce_result = result, ce_err = err, ce_cancelled = cancelled\<rparr>\<rparr>"

definition observeCommand :: "'w host \<Rightarrow> string \<Rightarrow> string list \<Rightarrow> ('w, CommandResult) exec_act" where
  "observeCommand host name args =
     bindp (run_raw host name name args) (\<lambda>(result, err).
       if err = None \<and> cmd_exit result = 0 then ret result
       else bindp (host_peek (ho_cancelled host)) (\<lambda>cancelled. fail (command_failure name args result err cancelled)))"

definition runCommand :: "'w host \<Rightarrow> string \<Rightarrow> string list \<Rightarrow> ('w, unit) exec_act" where
  "runCommand host name args = bindp (observeCommand host name args) (\<lambda>r. ret ())"

definition text_contains_any :: "string \<Rightarrow> string list \<Rightarrow> bool" where
  "text_contains_any text needles = list_ex (\<lambda>n. contains_str (to_lower text) n) needles"

definition missing_needles :: "string list" where
  "missing_needles = [''does not exist'', ''cannot find device'', ''no such process'', ''no such file or directory'',
     ''no such table'', ''no such file'']"

definition resourceMissing :: "exec_error \<Rightarrow> bool" where
  "resourceMissing e = text_contains_any (ee_text e) missing_needles"

text \<open>A command whose failure is ignored when the resource is already gone.\<close>

definition run_unless_missing :: "'w host \<Rightarrow> string list \<Rightarrow> string \<Rightarrow> ('w, unit) exec_act" where
  "run_unless_missing host args context =
     bindp (tryp (runCommand host ''ip'' args)) (\<lambda>r.
       case r of
         Inl e \<Rightarrow> if resourceMissing e then ret () else fail (wrap_error context e)
       | Inr u \<Rightarrow> ret ())"

definition flushIPv4RouteCache :: "'w host \<Rightarrow> ('w, unit) exec_act" where
  "flushIPv4RouteCache host = runCommand host ''ip'' [''-4'', ''route'', ''flush'', ''cache'']"

section \<open>What a program adds to the trace\<close>

text \<open>\<open>acts P m\<close>: the program \<open>m\<close> only appends to the trace, and what it appends satisfies \<open>P\<close> for its result.\<close>

definition acts :: "(host_action list \<Rightarrow> 'e + 'a \<Rightarrow> bool) \<Rightarrow> ('w host_state, 'e, 'a) prog \<Rightarrow> bool" where
  "acts P m \<longleftrightarrow> (\<forall>s s' r. m s = (s', r) \<longrightarrow> (\<exists>tr. hs_trace s' = hs_trace s @ tr \<and> P tr r))"

lemma actsI: "(\<And>s s' r. m s = (s', r) \<Longrightarrow> \<exists>tr. hs_trace s' = hs_trace s @ tr \<and> P tr r) \<Longrightarrow> acts P m"
  by (simp add: acts_def)

lemma actsD: "acts P m \<Longrightarrow> m s = (s', r) \<Longrightarrow> \<exists>tr. hs_trace s' = hs_trace s @ tr \<and> P tr r"
  by (simp add: acts_def)

lemma acts_mono: "acts P m \<Longrightarrow> (\<And>tr r. P tr r \<Longrightarrow> Q tr r) \<Longrightarrow> acts Q m"
  unfolding acts_def by blast

lemma acts_bind:
  assumes "acts P m" and "\<And>x. acts (Q x) (f x)"
    and "\<And>tr e. P tr (Inl e) \<Longrightarrow> R tr (Inl e)"
    and "\<And>tr tr' x r. P tr (Inr x) \<Longrightarrow> Q x tr' r \<Longrightarrow> R (tr @ tr') r"
  shows "acts R (bindp m f)"
proof (rule actsI)
  fix s s' r
  assume "bindp m f s = (s', r)"
  then show "\<exists>tr. hs_trace s' = hs_trace s @ tr \<and> R tr r"
  proof (cases rule: bindp_cases)
    case (1 e)
    then show ?thesis using actsD [OF assms(1)] assms(3) by blast
  next
    case (2 s1 x)
    then obtain tr tr' where "hs_trace s1 = hs_trace s @ tr" "P tr (Inr x)"
      "hs_trace s' = hs_trace s1 @ tr'" "Q x tr' r"
      using actsD [OF assms(1)] actsD [OF assms(2)] by blast
    then show ?thesis using assms(4) by (intro exI [of _ "tr @ tr'"]) simp
  qed
qed

lemma acts_ret: "P [] (Inr x) \<Longrightarrow> acts P (ret x)"
  by (rule actsI) auto

lemma acts_fail: "P [] (Inl e) \<Longrightarrow> acts P (fail e)"
  by (rule actsI) auto

lemma acts_read: "(\<And>x. P [] (Inr x)) \<Longrightarrow> acts P (host_read f)"
  by (rule actsI) (auto simp: host_read_def split: prod.splits)

lemma acts_peek: "(\<And>x. P [] (Inr x)) \<Longrightarrow> acts P (host_peek f)"
  by (rule actsI) (auto simp: host_peek_def)

lemma acts_act: "(\<And>x. P [a] (Inr x)) \<Longrightarrow> acts P (host_act a f)"
  by (rule actsI) (auto simp: host_act_def split: prod.splits)

lemma acts_try: "acts P m \<Longrightarrow> (\<And>tr r. P tr r \<Longrightarrow> Q tr (Inr r)) \<Longrightarrow> acts Q (tryp m)"
  by (rule actsI) (auto simp: tryp_def split: prod.splits dest!: actsD)

lemma acts_map_err:
  assumes "acts P m" and "\<And>tr e. P tr (Inl e) \<Longrightarrow> Q tr (Inl (f e))" and "\<And>tr x. P tr (Inr x) \<Longrightarrow> Q tr (Inr x)"
  shows "acts Q (map_err f m)"
  using assms by (intro actsI) (auto simp: map_err_def split: prod.splits sum.splits dest!: actsD)

text \<open>The common case: every action satisfies a predicate, whatever the result.\<close>

definition acts_only :: "(host_action \<Rightarrow> bool) \<Rightarrow> ('w host_state, 'e, 'a) prog \<Rightarrow> bool" where
  "acts_only A m = acts (\<lambda>tr r. list_all A tr) m"

named_theorems only \<open>rules for \<open>acts_only\<close>\<close>

lemma only_bind [only]: "acts_only A m \<Longrightarrow> (\<And>x. acts_only A (f x)) \<Longrightarrow> acts_only A (bindp m f)"
  unfolding acts_only_def by (erule acts_bind) auto

lemma only_basic [only]:
  "acts_only A (ret x)" "acts_only A (fail e)" "acts_only A (host_read g)" "acts_only A (host_peek h)"
  "A a \<Longrightarrow> acts_only A (host_act a k)" "acts_only A m \<Longrightarrow> acts_only A (tryp m)"
  "acts_only A m \<Longrightarrow> acts_only A (map_err q m)" "acts_only A n \<Longrightarrow> acts_only A (wrapping t n)"
  "acts_only A (fail_with t)" "acts_only A (checke c)" "acts_only A (liftp z)"
  unfolding acts_only_def fail_with_def checke_def liftp_def wrapping_def
  by (auto intro!: acts_ret acts_fail acts_read acts_peek acts_act split: option.splits sum.splits
      elim: acts_try acts_map_err)

lemma only_run [only]: "A (Ran name args) \<Longrightarrow> acts_only A (run_raw host name path args)"
  by (auto simp: run_raw_def intro: only_basic)

lemma only_observe [only]: "A (Ran name args) \<Longrightarrow> acts_only A (observeCommand host name args)"
  unfolding observeCommand_def by (auto intro!: only split: prod.splits)

lemma only_runCommand [only]: "A (Ran name args) \<Longrightarrow> acts_only A (runCommand host name args)"
  unfolding runCommand_def by (auto intro!: only)

lemma only_unless_missing [only]: "A (Ran ''ip'' args) \<Longrightarrow> acts_only A (run_unless_missing host args t)"
  unfolding run_unless_missing_def by (auto intro!: only split: sum.splits)

lemma only_flush [only]: "A (Ran ''ip'' [''-4'', ''route'', ''flush'', ''cache'']) \<Longrightarrow> acts_only A (flushIPv4RouteCache host)"
  unfolding flushIPv4RouteCache_def by (rule only_runCommand)

lemma only_if [only]: "acts_only A m \<Longrightarrow> acts_only A m' \<Longrightarrow> acts_only A (if b then m else m')"
  by simp

lemma only_trace:
  assumes "acts_only A m" and "m s = (s', r)"
  obtains tr where "hs_trace s' = hs_trace s @ tr" "list_all A tr"
  using actsD [OF assms(1) [unfolded acts_only_def] assms(2)] by blast

end
