(* ===== verification/Tun_Executor.thy ===== *)
theory Tun_Executor
  imports Exec_Host
begin

text \<open>
  The executors of the TUN data plane under \<^verbatim>\<open>src/internal/network/executor\<close>: the device
  (\<^verbatim>\<open>tun_device.go\<close>), the address (\<^verbatim>\<open>tun_address.go\<close>), the routes (\<^verbatim>\<open>route.go\<close>, \<^verbatim>\<open>route_idempotency.go\<close>), the
  policy rules (\<^verbatim>\<open>policy_rule.go\<close>) and the composite that applies, verifies and rolls back a plan
  (\<^verbatim>\<open>tun.go\<close>, \<^verbatim>\<open>tun_rollback_identity.go\<close>, \<^verbatim>\<open>tun_device_rollback_identity.go\<close>).

  A Go function that returns a step together with an error is a program whose error carries the step.
  The composite is modelled with the executors the daemon builds in \<^verbatim>\<open>NewOSExecutor\<close>, so the tests for a
  missing executor in \<^verbatim>\<open>validatePlan\<close> never fail.
\<close>

definition empty_step :: Step where
  "empty_step = \<lparr>st_kind = [], st_target = [], st_description = [], st_owner = []\<rparr>"

type_synonym ('w, 'a) step_act = "('w host_state, Step \<times> exec_error, 'a) prog"

definition with_step :: "Step \<Rightarrow> ('w, 'a) exec_act \<Rightarrow> ('w, 'a) step_act" where
  "with_step st m = map_err (Pair st) m"

definition nonEmptyLines :: "string \<Rightarrow> string list" where
  "nonEmptyLines output = filter (\<lambda>l. l \<noteq> []) (map trim_space (split_on (CHR 0x0A) output))"

definition firstNonEmptyLine :: "string \<Rightarrow> string" where
  "firstNonEmptyLine s = (case nonEmptyLines s of [] \<Rightarrow> [] | l # _ \<Rightarrow> l)"

definition firstLine :: "string \<Rightarrow> string" where
  "firstLine output = (case nonEmptyLines (trim_space output) of [] \<Rightarrow> ''<empty>'' | l # _ \<Rightarrow> l)"

section \<open>The device\<close>

definition tunLinkOutputIsTun :: "string \<Rightarrow> bool" where
  "tunLinkOutputIsTun output =
     list_ex (\<lambda>line. let fs = Prelude.fields (trim_space line) in
         list_ex (\<lambda>i. fs ! i = ''tun'' \<and> fs ! (i + 1) = ''type'' \<and> fs ! (i + 2) = ''tun'') [0..<length fs - 2])
       (split_on (CHR 0x0A) output)"

definition linkOutputHasMTU :: "string \<Rightarrow> nat \<Rightarrow> bool" where
  "linkOutputHasMTU output mtu =
     list_ex (\<lambda>line. let fs = Prelude.fields line in
         list_ex (\<lambda>i. fs ! i = ''mtu'' \<and> fs ! (i + 1) = itoa mtu) [0..<length fs - 1])
       (split_on (CHR 0x0A) output)"

definition index_of :: "char \<Rightarrow> string \<Rightarrow> nat option" where
  "index_of c s = (if c \<in> set s then Some (length (takeWhile (\<lambda>x. x \<noteq> c) s)) else None)"

definition linkOutputIsUp :: "string \<Rightarrow> bool" where
  "linkOutputIsUp output =
     (let line = firstLine output in
      contains_str line ''state UP'' \<or>
      (case (index_of CHR ''<'' line, index_of CHR ''>'' line) of
         (Some start, Some end_) \<Rightarrow>
           start < end_ \<and>
           list_ex (\<lambda>flag. trim_space flag = ''UP'')
             (split_on CHR '','' (take (end_ - (start + 1)) (drop (start + 1) line)))
       | _ \<Rightarrow> False))"

definition verifyTUNLinkDetails :: "TunDevicePlan \<Rightarrow> string \<Rightarrow> exec_error option" where
  "verifyTUNLinkDetails plan output =
     (let text = trim_space output in
      if text = [] then Some (plain_error ''empty ip link details output'')
      else if \<not> tunLinkOutputIsTun text then Some (plain_error (''link is not a TUN device: '' @ firstLine text))
      else if 0 < tdp_mtu plan \<and> \<not> linkOutputHasMTU text (tdp_mtu plan)
      then Some (plain_error (''link MTU does not match planned MTU '' @ itoa (tdp_mtu plan) @ '': '' @ firstLine text))
      else if \<not> linkOutputIsUp text then Some (plain_error (''link is not up: '' @ firstLine text))
      else None)"

definition TunDevice_Verify :: "'w host \<Rightarrow> TunDevicePlan \<Rightarrow> ('w, unit) exec_act" where
  "TunDevice_Verify host plan =
     (if trim_space (tdp_name plan) = [] then fail_with ''missing TUN device name''
      else wrapping (''verify TUN device '' @ tdp_name plan)
        (bindp (observeCommand host ''ip'' [''-details'', ''link'', ''show'', ''dev'', tdp_name plan]) (\<lambda>result.
           checke (verifyTUNLinkDetails plan (cmd_stdout result)))))"

section \<open>The address\<close>

record tunLinkIdentity =
  tl_index :: int
  tl_kind :: string
  tl_up :: bool

record TunLinkCreationProof =
  tlp_pre_start_absent :: bool
  tlp_tracked_core_pid :: int
  tlp_core_done :: bool

definition parseTunLinkIdentity :: "string \<Rightarrow> exec_error + tunLinkIdentity" where
  "parseTunLinkIdentity output =
     (let fs = Prelude.fields (firstLine output) in
      if length fs < 2 then Inl (plain_error ''malformed ip link identity output'')
      else case atoi (trim_suffix (fs ! 0) '':'') of
        None \<Rightarrow> Inl (plain_error ''malformed ip link index'')
      | Some index \<Rightarrow>
          if index \<le> 0 then Inl (plain_error ''malformed ip link index'')
          else Inr \<lparr>tl_index = index, tl_kind = (if tunLinkOutputIsTun output then ''tun'' else ''unknown''),
                    tl_up = linkOutputIsUp output\<rparr>)"

definition inspectIdentity :: "'w host \<Rightarrow> string \<Rightarrow> ('w, tunLinkIdentity) exec_act" where
  "inspectIdentity host link =
     bindp (observeCommand host ''ip'' [''-details'', ''-o'', ''link'', ''show'', ''dev'', link]) (\<lambda>result.
       liftp (parseTunLinkIdentity (cmd_stdout result)))"

definition parse_address_line :: "string \<Rightarrow> exec_error + IPAddress" where
  "parse_address_line line =
     (let fs = Prelude.fields line; bad = plain_error ''invalid IPv4 address inventory line'' in
      if length fs < 4 \<or> trim_suffix (fs ! 0) '':'' = [] \<or> fs ! 2 \<noteq> ''inet'' then Inl bad
      else
        (let iface = hd (split_on CHR ''@'' (trim_suffix (fs ! 1) '':'')); cidr = trim_space (fs ! 3) in
         case parse_cidr cidr of
           Some (IP4 w, net) \<Rightarrow>
             if iface = [] then Inl bad
             else Inr \<lparr>ia_family = ''ipv4'', ia_interface = iface, ia_cidr = cidr,
                       ia_scope = (case find (\<lambda>i. fs ! i = ''scope'') [4..<length fs - 1] of
                                     None \<Rightarrow> [] | Some i \<Rightarrow> fs ! (i + 1)),
                       ia_raw = line\<rparr>
         | _ \<Rightarrow> Inl bad))"

definition ParseIPv4Addresses :: "string \<Rightarrow> exec_error + IPAddress list" where
  "ParseIPv4Addresses output = map_result parse_address_line (nonEmptyLines output)"

definition inspectAddresses :: "'w host \<Rightarrow> string \<Rightarrow> ('w, IPAddress list) exec_act" where
  "inspectAddresses host link =
     bindp (observeCommand host ''ip'' [''-4'', ''-o'', ''address'', ''show'', ''dev'', link]) (\<lambda>result.
       liftp (ParseIPv4Addresses (cmd_stdout result)))"

definition verifyBoundIdentity :: "TunAddressPlan \<Rightarrow> tunLinkIdentity \<Rightarrow> bool \<Rightarrow> exec_error option" where
  "verifyBoundIdentity plan got requireUp =
     (if tl_index got \<noteq> tap_link_index plan \<or> tl_kind got \<noteq> tap_link_kind plan then
        Some (tagged_error ErrTunLinkIdentityMismatch
          (''expected '' @ tap_interface plan @ '' index='' @ itoa_int (tap_link_index plan) @ '' kind='' @
           tap_link_kind plan @ '', got index='' @ itoa_int (tl_index got) @ '' kind='' @ tl_kind got))
      else if requireUp \<and> \<not> tl_up got then
        Some (plain_error (''TUN link '' @ tap_interface plan @ '' index='' @ itoa_int (tap_link_index plan) @
          '' is not operationally up''))
      else None)"

text \<open>The mask that \<^verbatim>\<open>net.ParseCIDR\<close> returns has 32 bits exactly when the address is written as IPv4.\<close>

definition host4_cidr :: "string \<Rightarrow> bool" where
  "host4_cidr s =
     ((case split_on CHR ''/'' s of
         a # _ \<Rightarrow> (case parse_addr a of Some (IP4 w) \<Rightarrow> True | _ \<Rightarrow> False)
       | [] \<Rightarrow> False) \<and>
      (case parse_cidr s of Some (a, Prefix (IP4 w) n) \<Rightarrow> n = 32 | _ \<Rightarrow> False))"

definition validateTunAddressIntent :: "(string \<Rightarrow> string) \<Rightarrow> TunAddressPlan \<Rightarrow> exec_error option" where
  "validateTunAddressIntent quote plan =
     (if trim_space (tap_interface plan) = [] then Some (plain_error ''missing TUN address interface'')
      else if trim_space (tap_cidr plan) = [] then Some (plain_error ''missing TUN address CIDR'')
      else case parse_cidr (tap_cidr plan) of
        Some (IP4 w, net) \<Rightarrow>
          if \<not> host4_cidr (tap_cidr plan)
          then Some (plain_error (''TUN address must use an IPv4 /32, got '' @ quote (tap_cidr plan)))
          else if tap_link_kind plan \<noteq> [] \<and> tap_link_kind plan \<noteq> ''tun''
          then Some (plain_error (''unsupported TUN link kind '' @ quote (tap_link_kind plan)))
          else None
      | _ \<Rightarrow> Some (plain_error (''invalid TUN IPv4 CIDR '' @ quote (tap_cidr plan))))"

definition validateBoundTunAddressPlan :: "(string \<Rightarrow> string) \<Rightarrow> TunAddressPlan \<Rightarrow> exec_error option" where
  "validateBoundTunAddressPlan quote plan =
     (case validateTunAddressIntent quote plan of
        Some e \<Rightarrow> Some e
      | None \<Rightarrow>
          if \<not> IsTunAddressAssignAction (tap_action plan)
          then Some (plain_error (''TUN address action '' @ quote (tap_action plan) @ '' is not mutable''))
          else if tap_link_index plan \<le> 0 \<or> tap_link_kind plan \<noteq> ''tun'' \<or> \<not> tap_appeared_after_core plan
          then Some (plain_error ''TUN address plan is missing verified Xray-created link identity'')
          else if tap_owner plan \<noteq> [] \<and> tap_owner plan \<noteq> ''podlaz:tun-address''
          then Some (plain_error (''unexpected TUN address owner '' @ quote (tap_owner plan)))
          else None)"

definition addressInventoryState :: "IPAddress list \<Rightarrow> TunAddressPlan \<Rightarrow> nat \<times> nat" where
  "addressInventoryState addresses plan =
     (let own = \<lambda>a. ia_interface a = tap_interface plan \<and> ia_family a = ''ipv4'' in
      (length (filter (\<lambda>a. own a \<and> ia_cidr a = tap_cidr plan) addresses),
       length (filter (\<lambda>a. \<not> own a \<or> ia_cidr a \<noteq> tap_cidr plan) addresses)))"

definition tunAddressStep :: "TunAddressPlan \<Rightarrow> Step" where
  "tunAddressStep plan =
     \<lparr>st_kind = ''tun-address'',
      st_target = tap_interface plan @ ''@ifindex='' @ itoa_int (tap_link_index plan) @ '':'' @ tap_cidr plan,
      st_description = tap_reason plan, st_owner = ''podlaz:tun-address''\<rparr>"

definition verifyBoundIdentityFence ::
  "'w host \<Rightarrow> TunAddressPlan \<Rightarrow> string \<Rightarrow> bool \<Rightarrow> ('w, unit) exec_act" where
  "verifyBoundIdentityFence host plan phase requireUp =
     bindp (wrapping (''inspect TUN link '' @ phase) (inspectIdentity host (tap_interface plan))) (\<lambda>identity.
       wrapping phase (checke (verifyBoundIdentity plan identity requireUp)))"

definition verifyAddressPresence :: "'w host \<Rightarrow> TunAddressPlan \<Rightarrow> nat \<Rightarrow> string \<Rightarrow> ('w, unit) exec_act" where
  "verifyAddressPresence host plan wantExact phase =
     bindp (verifyBoundIdentityFence host plan (phase @ '' identity'') False) (\<lambda>u.
     bindp (wrapping (''inspect TUN addresses '' @ phase) (inspectAddresses host (tap_interface plan))) (\<lambda>addresses.
     bindp (verifyBoundIdentityFence host plan (phase @ '' identity after inventory'') False) (\<lambda>u.
       case addressInventoryState addresses plan of (exact, conflicts) \<Rightarrow>
         if conflicts \<noteq> 0 then
           fail_with (''TUN link '' @ tap_interface plan @ '' has '' @ itoa conflicts @
             '' conflicting IPv4 address entries '' @ phase)
         else if exact \<noteq> wantExact then
           fail_with (''TUN address '' @ tap_cidr plan @ '' exact entries '' @ phase @ '' = '' @ itoa exact @
             '', want '' @ itoa wantExact)
         else ret ())))"

definition ipv4PrefixesOverlapForAllocation :: "prefix \<Rightarrow> prefix \<Rightarrow> bool" where
  "ipv4PrefixesOverlapForAllocation left right =
     (prefix_valid left \<and> prefix_valid right \<and> prefix_is4 left \<and> prefix_is4 right \<and>
      (prefix_contains left (net_ip right) \<or> prefix_contains right (net_ip left)))"

definition kernelLocalRouteForTunAddressEvidence ::
  "TunAllocationRoute \<Rightarrow> TunAddressPlan \<Rightarrow> prefix \<Rightarrow> bool" where
  "kernelLocalRouteForTunAddressEvidence route plan candidate =
     (ar_destination route = candidate \<and> ar_table route = 255 \<and> ar_type route = 2 \<and>
      ar_link_index route = tap_link_index plan)"

definition prefix_string :: "prefix \<Rightarrow> string" where
  "prefix_string p = (case p of Prefix a n \<Rightarrow> prefix_text a n | NoPrefix \<Rightarrow> ''invalid Prefix'')"

definition conflict :: "string \<Rightarrow> exec_error" where
  "conflict t = tagged_error ErrTunAddressConflict t"

fun count_own_addresses :: "TunAddressPlan \<Rightarrow> string \<Rightarrow> prefix \<Rightarrow> prefix list \<Rightarrow> exec_error + nat" where
  "count_own_addresses plan phase candidate [] = Inr 0"
| "count_own_addresses plan phase candidate (a # as) =
     (if \<not> prefix_valid a \<or> \<not> prefix_is4 a
      then Inl (conflict (''invalid IPv4 address allocation evidence '' @ phase))
      else if \<not> ipv4PrefixesOverlapForAllocation a candidate then count_own_addresses plan phase candidate as
      else if a = candidate then rbind (count_own_addresses plan phase candidate as) (\<lambda>n. Inr (n + 1))
      else Inl (conflict (''allocated TUN address '' @ tap_cidr plan @ '' overlaps foreign address '' @ prefix_string a @ '' '' @ phase)))"

definition route_evidence_error ::
  "TunAddressPlan \<Rightarrow> nat \<Rightarrow> string \<Rightarrow> prefix \<Rightarrow> TunAllocationRoute \<Rightarrow> exec_error option" where
  "route_evidence_error plan wantOwnExact phase candidate route =
     (if ar_default route then None
      else if \<not> prefix_valid (ar_destination route) \<or> \<not> prefix_is4 (ar_destination route)
      then Some (conflict (''invalid IPv4 route allocation evidence '' @ phase))
      else if \<not> ipv4PrefixesOverlapForAllocation (ar_destination route) candidate then None
      else if wantOwnExact = 1 \<and> kernelLocalRouteForTunAddressEvidence route plan candidate then None
      else Some (conflict (''allocated TUN address '' @ tap_cidr plan @ '' overlaps route '' @
        prefix_string (ar_destination route) @ '' table '' @ itoa (unat (ar_table route)) @ '' '' @ phase)))"

definition verifyGlobalTunAddressAllocation ::
  "'w host \<Rightarrow> TunAddressPlan \<Rightarrow> nat \<Rightarrow> string \<Rightarrow> ('w, unit) exec_act" where
  "verifyGlobalTunAddressAllocation host plan wantOwnExact phase =
     (if \<not> IsTunAddressExclusiveAction (tap_action plan) then ret ()
      else case parse_prefix (trim_space (tap_cidr plan)) of
        Some (Prefix (IP4 w) n) \<Rightarrow>
          (let candidate = Prefix (IP4 (mask4 w n)) n in
           bindp (host_read (ho_evidence host)) (\<lambda>r.
             case r of
               Inl e \<Rightarrow> fail (conflict (''inspect authoritative TUN allocation evidence '' @ phase @ '': '' @ e))
             | Inr evidence \<Rightarrow>
                 bindp (liftp (count_own_addresses plan phase candidate (te_addresses evidence))) (\<lambda>ownExact.
                   if ownExact \<noteq> wantOwnExact then
                     fail (conflict (''allocated TUN address '' @ tap_cidr plan @ '' has '' @ itoa ownExact @
                       '' global exact entries '' @ phase @ '', want '' @ itoa wantOwnExact))
                   else checke (first_error
                     (map (route_evidence_error plan wantOwnExact phase candidate) (te_routes evidence))))))
      | _ \<Rightarrow> fail (conflict (''invalid allocated TUN address '' @ ho_quote host (tap_cidr plan))))"

definition ensure_tag :: "err_tag \<Rightarrow> exec_error \<Rightarrow> exec_error" where
  "ensure_tag t e = (if t \<in> set (ee_tags e) then e else tag_error t e)"

definition TunAddress_Verify :: "'w host \<Rightarrow> TunAddressPlan \<Rightarrow> ('w, unit) exec_act" where
  "TunAddress_Verify host plan =
     map_err (ensure_tag ErrTunAddressVerify)
       (bindp (checke (validateBoundTunAddressPlan (ho_quote host) plan)) (\<lambda>u.
        bindp (verifyBoundIdentityFence host plan ''before address verification inventory'' True) (\<lambda>u.
        bindp (wrapping ''inspect TUN addresses during verification'' (inspectAddresses host (tap_interface plan))) (\<lambda>addresses.
        bindp (verifyBoundIdentityFence host plan ''after address verification inventory'' True) (\<lambda>u.
          case addressInventoryState addresses plan of (exact, conflicts) \<Rightarrow>
            if conflicts \<noteq> 0 then
              fail_with (''TUN link '' @ tap_interface plan @ '' has '' @ itoa conflicts @ '' conflicting IPv4 address entries'')
            else if exact \<noteq> 1 then
              fail_with (''TUN address '' @ tap_cidr plan @ '' must exist exactly once on '' @ tap_interface plan @
                ''; found '' @ itoa exact)
            else
              (case find (\<lambda>a. ia_interface a = tap_interface plan \<and> ia_family a = ''ipv4'' \<and>
                       ia_cidr a = tap_cidr plan \<and> tap_scope plan \<noteq> [] \<and> ia_scope a \<noteq> tap_scope plan) addresses of
                 Some a \<Rightarrow>
                   fail_with (''TUN address '' @ tap_cidr plan @ '' has scope '' @ ia_scope a @ '', expected '' @ tap_scope plan)
               | None \<Rightarrow>
                   bindp (verifyGlobalTunAddressAllocation host plan 1 ''during address verification'') (\<lambda>u.
                     verifyBoundIdentityFence host plan ''after address verification'' True)))))))"

definition apply_error_class :: "exec_error \<Rightarrow> exec_error" where
  "apply_error_class e =
     (if ErrTunAddressConflict \<in> set (ee_tags e) \<or> ErrTunAddressApply \<in> set (ee_tags e) then e
      else if ErrTunLinkIdentityMismatch \<in> set (ee_tags e) then tag_error ErrTunAddressVerify e
      else tag_error ErrTunAddressApply e)"

text \<open>The assignment itself; \<open>exact\<close> is how often the address is already on the link.\<close>

definition assign_address :: "'w host \<Rightarrow> TunAddressPlan \<Rightarrow> ('w, Step) step_act" where
  "assign_address host plan =
     bindp (with_step empty_step (verifyBoundIdentityFence host plan ''immediately before address apply'' False)) (\<lambda>u.
       (let step = tunAddressStep plan in
        with_step step
          (bindp (wrapping (''assign TUN address '' @ tap_cidr plan @ '' to '' @ tap_interface plan)
             (runCommand host ''ip'' [''-4'', ''address'', ''replace'', tap_cidr plan, ''dev'', tap_interface plan])) (\<lambda>u.
           bindp (verifyAddressPresence host plan 1 ''after address apply'') (\<lambda>u.
           bindp (verifyGlobalTunAddressAllocation host plan 1 ''after address apply'') (\<lambda>u. ret step))))))"

definition TunAddress_Apply :: "'w host \<Rightarrow> TunAddressPlan \<Rightarrow> ('w, Step) step_act" where
  "TunAddress_Apply host plan =
     map_err (\<lambda>(st, e). (st, apply_error_class e))
       (bindp (with_step empty_step
          (bindp (checke (validateBoundTunAddressPlan (ho_quote host) plan)) (\<lambda>u.
           bindp (verifyBoundIdentityFence host plan ''before address inventory'' False) (\<lambda>u.
           bindp (wrapping ''inspect TUN addresses before apply'' (inspectAddresses host (tap_interface plan))) (\<lambda>addresses.
           bindp (verifyBoundIdentityFence host plan ''after address inventory'' False) (\<lambda>u.
             case addressInventoryState addresses plan of (exact, conflicts) \<Rightarrow>
               if 0 < conflicts \<or> (0 < exact \<and> \<not> tap_allow_owned_existing plan) then
                 fail (conflict (tap_interface plan @ '' already has IPv4 address state that is not authorized by this transaction''))
               else if 1 < exact then
                 fail (conflict (''exact address '' @ tap_cidr plan @ '' appears '' @ itoa exact @ '' times''))
               else bindp (verifyGlobalTunAddressAllocation host plan exact ''before address apply'') (\<lambda>u. ret exact))))))) (\<lambda>exact.
        bindp (if exact = 0 then assign_address host plan else ret empty_step) (\<lambda>step.
          with_step step
            (bindp (verifyBoundIdentityFence host plan ''immediately before link up'' False) (\<lambda>u.
             bindp (wrapping (''bring addressed TUN link '' @ tap_interface plan @ '' up'')
               (runCommand host ''ip'' [''link'', ''set'', ''dev'', tap_interface plan, ''up''])) (\<lambda>u.
             bindp (wrapping ''verify TUN address after apply'' (TunAddress_Verify host plan)) (\<lambda>u. ret step)))))))"

definition TunAddress_Rollback :: "'w host \<Rightarrow> TunAddressPlan \<Rightarrow> ('w, unit) exec_act" where
  "TunAddress_Rollback host plan =
     (if trim_space (tap_cidr plan) = [] \<or> trim_space (tap_interface plan) = [] then ret ()
      else
        bindp (checke (validateBoundTunAddressPlan (ho_quote host) plan)) (\<lambda>u.
        bindp (tryp (verifyBoundIdentityFence host plan ''before address rollback inventory'' False)) (\<lambda>fence.
          case fence of
            Inl e \<Rightarrow> if tap_allow_missing_link plan \<and> resourceMissing e then ret () else fail e
          | Inr u \<Rightarrow>
              bindp (wrapping ''inspect TUN addresses before rollback'' (inspectAddresses host (tap_interface plan))) (\<lambda>addresses.
              bindp (verifyBoundIdentityFence host plan ''after address rollback inventory'' False) (\<lambda>u.
                (let exact = length (filter (\<lambda>a. ia_interface a = tap_interface plan \<and> ia_cidr a = tap_cidr plan) addresses) in
                 if exact = 0 then ret ()
                 else if exact \<noteq> 1 then
                   fail_with (''refuse TUN address rollback: '' @ tap_cidr plan @ '' appears '' @ itoa exact @ '' times on '' @
                     tap_interface plan)
                 else
                   bindp (verifyBoundIdentityFence host plan ''immediately before address rollback'' False) (\<lambda>u.
                   bindp (run_unless_missing host [''-4'', ''address'', ''del'', tap_cidr plan, ''dev'', tap_interface plan]
                     (''remove exact TUN address '' @ tap_cidr plan @ '' from '' @ tap_interface plan)) (\<lambda>u.
                     verifyAddressPresence host plan 0 ''after address rollback''))))))))"

text \<open>Binding waits for the link of the tracked core: at most \<open>attempts\<close> observations, two of them in a row for
  the one that succeeds.\<close>

definition core_running :: "'w host \<Rightarrow> ('w, unit) exec_act" where
  "core_running host =
     bindp (host_peek (ho_core_done host)) (\<lambda>gone.
       if gone then fail_with ''tracked Xray process exited before TUN link identity was bound'' else ret ())"

definition validateTunLinkCreationProof :: "'w host \<Rightarrow> TunLinkCreationProof \<Rightarrow> ('w, unit) exec_act" where
  "validateTunLinkCreationProof host p =
     (if \<not> tlp_pre_start_absent p then fail_with ''TUN link was not authoritatively absent before tracked Xray start''
      else if tlp_tracked_core_pid p \<le> 1 then fail_with ''tracked Xray process identity is missing''
      else if \<not> tlp_core_done p then fail_with ''tracked Xray lifecycle channel is missing''
      else core_running host)"

definition bind_appeared :: "'w host \<Rightarrow> TunAddressPlan \<Rightarrow> tunLinkIdentity \<Rightarrow> ('w, TunAddressPlan) exec_act" where
  "bind_appeared host plan identity =
     (if tl_kind identity \<noteq> ''tun'' then
        fail (tagged_error ErrTunLinkIdentityMismatch (tap_interface plan @ '' is '' @ tl_kind identity @ '', expected tun''))
      else
        bindp (wrapping (''revalidate appeared TUN link '' @ tap_interface plan)
          (inspectIdentity host (tap_interface plan))) (\<lambda>confirmed.
          if tl_index confirmed \<noteq> tl_index identity \<or> tl_kind confirmed \<noteq> tl_kind identity then
            fail (tagged_error ErrTunLinkIdentityMismatch
              (''TUN link '' @ tap_interface plan @ '' changed while binding from index='' @ itoa_int (tl_index identity) @
               '' kind='' @ tl_kind identity @ '' to index='' @ itoa_int (tl_index confirmed) @ '' kind='' @ tl_kind confirmed))
          else
            bindp (core_running host) (\<lambda>u.
              ret (plan\<lparr>tap_link_index := tl_index identity, tap_link_kind := tl_kind identity,
                        tap_appeared_after_core := True\<rparr>))))"

fun bind_attempts :: "'w host \<Rightarrow> TunAddressPlan \<Rightarrow> nat \<Rightarrow> ('w, TunAddressPlan) exec_act" where
  "bind_attempts host plan 0 = fail_with (''identify Xray-created TUN link '' @ tap_interface plan)"
| "bind_attempts host plan (Suc k) =
     bindp (core_running host) (\<lambda>u.
     bindp (tryp (inspectIdentity host (tap_interface plan))) (\<lambda>r.
       case r of
         Inr identity \<Rightarrow> bind_appeared host plan identity
       | Inl e \<Rightarrow>
           if \<not> resourceMissing e \<or> k = 0
           then fail (wrap_error (''identify Xray-created TUN link '' @ tap_interface plan) e)
           else bindp (host_read (ho_sleep host)) (\<lambda>woken.
             case woken of Some t \<Rightarrow> fail_with t | None \<Rightarrow> bind_attempts host plan k)))"

definition TunAddress_Bind ::
  "'w host \<Rightarrow> int \<Rightarrow> TunAddressPlan \<Rightarrow> TunLinkCreationProof \<Rightarrow> ('w, TunAddressPlan) exec_act" where
  "TunAddress_Bind host attempts plan p =
     map_err (ensure_tag ErrTunAddressVerify)
       (bindp (checke (validateTunAddressIntent (ho_quote host) plan)) (\<lambda>u.
        bindp (validateTunLinkCreationProof host p) (\<lambda>u.
          bind_attempts host plan (if attempts \<le> 0 then 30 else nat attempts))))"

definition TunAddress_VerifyRollbackIdentity :: "'w host \<Rightarrow> TunAddressPlan \<Rightarrow> ('w, unit) exec_act" where
  "TunAddress_VerifyRollbackIdentity host plan =
     (if trim_space (tap_cidr plan) = [] \<or> trim_space (tap_interface plan) = [] then ret ()
      else bindp (checke (validateBoundTunAddressPlan (ho_quote host) plan)) (\<lambda>u.
           bindp (wrapping ''inspect TUN link before rollback identity gate''
             (inspectIdentity host (tap_interface plan))) (\<lambda>identity.
             checke (verifyBoundIdentity plan identity False))))"

section \<open>Routes\<close>

definition routeTable :: "string \<Rightarrow> string" where
  "routeTable table =
     (if table = TunRoutingTable then itoa TunRoutingTableID else if table = [] then MainRoutingTable else table)"

definition routeTokenMatches :: "string \<Rightarrow> string \<Rightarrow> bool" where
  "routeTokenMatches got want =
     (got = want \<or> (suffix ''/32'' want \<and> got = trim_suffix want ''/32'') \<or>
      (suffix ''/32'' got \<and> trim_suffix got ''/32'' = want))"

definition containsField :: "string list \<Rightarrow> string \<Rightarrow> bool" where
  "containsField fs want = list_ex (\<lambda>f. routeTokenMatches f want) fs"

definition containsAdjacentFields :: "string list \<Rightarrow> string \<Rightarrow> string \<Rightarrow> bool" where
  "containsAdjacentFields fs first second =
     list_ex (\<lambda>i. fs ! i = first \<and> routeTokenMatches (fs ! (i + 1)) second) [0..<length fs - 1]"

definition routeDestinationMatches :: "string list \<Rightarrow> string \<Rightarrow> bool" where
  "routeDestinationMatches fs destination =
     (case fs of
        [] \<Rightarrow> False
      | f # _ \<Rightarrow>
          if destination = IPv4DefaultRoute then f = IPv4DefaultRoute \<or> f = ''0.0.0.0/0''
          else containsField fs destination)"

definition verifyRouteLine :: "(string \<Rightarrow> string) \<Rightarrow> string \<Rightarrow> TunRoutePlan \<Rightarrow> exec_error option" where
  "verifyRouteLine quote line plan =
     (let fs = Prelude.fields line in
      if \<not> routeDestinationMatches fs (trp_destination plan)
      then Some (plain_error (''destination mismatch: expected '' @ trp_destination plan @ '' in '' @ quote line))
      else if trp_interface plan \<noteq> [] \<and> \<not> containsAdjacentFields fs ''dev'' (trp_interface plan)
      then Some (plain_error (''interface mismatch: expected dev '' @ trp_interface plan @ '' in '' @ quote line))
      else if trp_gateway plan \<noteq> [] \<and> \<not> containsAdjacentFields fs ''via'' (trp_gateway plan)
      then Some (plain_error (''gateway mismatch: expected via '' @ trp_gateway plan @ '' in '' @ quote line))
      else None)"

definition routeArgs :: "string \<Rightarrow> TunRoutePlan \<Rightarrow> string list" where
  "routeArgs op plan =
     [''-4'', ''route'', op, trp_destination plan] @
     (if trp_gateway plan \<noteq> [] then [''via'', trp_gateway plan] else []) @
     (if trp_interface plan \<noteq> [] then [''dev'', trp_interface plan] else []) @
     [''table'', routeTable (trp_table plan)]"

definition routeTarget :: "TunRoutePlan \<Rightarrow> string" where
  "routeTarget plan = trp_table plan @ '' '' @ trp_destination plan"

definition route_text :: "TunRoutePlan \<Rightarrow> string" where
  "route_text plan = ''route '' @ trp_destination plan @ '' table '' @ trp_table plan"

definition exclusiveAllocatedRouteTable :: "TunRoutePlan \<Rightarrow> bool" where
  "exclusiveAllocatedRouteTable plan =
     (trim_space (trp_action plan) = TunActionAddExclusive \<and> IsAllocatedTunRoutingTable (routeTable (trp_table plan)))"

definition allocatedRouteTableLines :: "'w host \<Rightarrow> TunRoutePlan \<Rightarrow> ('w, string list) exec_act" where
  "allocatedRouteTableLines host plan =
     bindp (tryp (observeCommand host ''ip''
         [''-N'', ''-4'', ''-o'', ''route'', ''show'', ''table'', routeTable (trp_table plan)])) (\<lambda>r.
       case r of
         Inl e \<Rightarrow> if resourceMissing e then ret [] else fail e
       | Inr result \<Rightarrow> ret (nonEmptyLines (cmd_stdout result)))"

definition verifyAllocatedRoutingTableAuthority :: "'w host \<Rightarrow> TunRoutePlan \<Rightarrow> nat \<Rightarrow> ('w, unit) exec_act" where
  "verifyAllocatedRoutingTableAuthority host plan wantRoutes =
     (case parse_uint10 32 (routeTable (trp_table plan)) of
        None \<Rightarrow> fail_with (''invalid allocated routing table identity '' @ ho_quote host (routeTable (trp_table plan)))
      | Some n \<Rightarrow>
          if n = 0 then fail_with (''invalid allocated routing table identity '' @ ho_quote host (routeTable (trp_table plan)))
          else
            (let table = of_nat n in
             bindp (host_read (ho_evidence host)) (\<lambda>r.
               case r of
                 Inl e \<Rightarrow> fail_with (''collect authoritative TUN allocation evidence: '' @ e)
               | Inr evidence \<Rightarrow>
                   (let routes = length (filter (\<lambda>x. ar_table x = table) (te_routes evidence)) in
                    if routes \<noteq> wantRoutes then
                      fail_with (''allocated routing table '' @ itoa n @ '' has '' @ itoa routes @ '' route(s), want '' @ itoa wantRoutes)
                    else case find (\<lambda>x. al_table x = table) (te_rules evidence) of
                      Some rule \<Rightarrow>
                        fail_with (''allocated routing table '' @ itoa n @ '' is referenced by foreign policy rule priority '' @
                          itoa (unat (al_priority rule)))
                    | None \<Rightarrow>
                        if table \<in> set (te_reserved_tables evidence)
                        then fail_with (''allocated routing table '' @ itoa n @ '' is reserved by a foreign VRF'')
                        else ret ()))))"

definition verifyExclusiveAllocatedRouteTable :: "'w host \<Rightarrow> TunRoutePlan \<Rightarrow> ('w, unit) exec_act" where
  "verifyExclusiveAllocatedRouteTable host plan =
     bindp (allocatedRouteTableLines host plan) (\<lambda>lines.
       case lines of
         [line] \<Rightarrow> wrapping ''exclusive session route mismatch'' (checke (verifyRouteLine (ho_quote host) line plan))
       | _ \<Rightarrow> fail_with (''allocated routing table must contain exactly one session route, found '' @ itoa (length lines)))"

definition mainServerBypassRoute :: "TunRoutePlan \<Rightarrow> bool" where
  "mainServerBypassRoute plan =
     (routeTable (trp_table plan) = MainRoutingTable \<and>
      (case parse_prefix (trim_space (trp_destination plan)) of Some (Prefix (IP4 w) n) \<Rightarrow> n = 32 | _ \<Rightarrow> False) \<and>
      trim_space (trp_gateway plan) \<noteq> [] \<and> trim_space (trp_interface plan) \<noteq> [])"

definition existingRouteLine :: "'w host \<Rightarrow> TunRoutePlan \<Rightarrow> ('w, string) exec_act" where
  "existingRouteLine host plan =
     bindp (observeCommand host ''ip''
         [''-4'', ''route'', ''show'', ''table'', routeTable (trp_table plan), trp_destination plan]) (\<lambda>result.
       ret (firstNonEmptyLine (cmd_stdout result)))"

text \<open>What happens before a route is added: \<open>True\<close> when it is already there and nothing is to be done.\<close>

definition route_precheck :: "'w host \<Rightarrow> TunRoutePlan \<Rightarrow> ('w, bool) exec_act" where
  "route_precheck host plan =
     (if exclusiveAllocatedRouteTable plan then
        bindp (wrapping (''inspect allocated routing table '' @ trp_table plan @ '' before apply'')
          (verifyAllocatedRoutingTableAuthority host plan 0)) (\<lambda>u. ret False)
      else if mainServerBypassRoute plan then
        bindp (wrapping (''inspect existing '' @ route_text plan) (existingRouteLine host plan)) (\<lambda>line.
          if line = [] then ret False
          else if trp_action plan = TunActionAddExclusive
          then fail_with (''allocated '' @ route_text plan @ '' became occupied before apply'')
          else bindp (wrapping (''existing '' @ route_text plan @ '' differs from planned server bypass'')
                 (checke (verifyRouteLine (ho_quote host) line plan))) (\<lambda>u. ret True))
      else ret False)"

definition Route_Add :: "'w host \<Rightarrow> TunRoutePlan \<Rightarrow> ('w, Step) step_act" where
  "Route_Add host plan =
     bindp (with_step empty_step (route_precheck host plan)) (\<lambda>there.
       if there then ret empty_step
       else
         bindp (with_step empty_step (wrapping (''add '' @ route_text plan)
           (runCommand host ''ip'' (routeArgs ''add'' plan)))) (\<lambda>u.
           (let step = \<lparr>st_kind = ''route'', st_target = routeTarget plan, st_description = trp_reason plan,
                        st_owner = ''podlaz:route''\<rparr> in
            with_step step
              (bindp (if exclusiveAllocatedRouteTable plan then
                        bindp (wrapping (''revalidate allocated routing table '' @ trp_table plan @ '' after add'')
                          (verifyAllocatedRoutingTableAuthority host plan 1)) (\<lambda>u.
                          wrapping (''verify allocated routing table '' @ trp_table plan @ '' after add'')
                            (verifyExclusiveAllocatedRouteTable host plan))
                      else ret ()) (\<lambda>u.
               bindp (wrapping (''flush IPv4 route cache after add '' @ route_text plan) (flushIPv4RouteCache host)) (\<lambda>u.
                 ret step))))))"

definition Route_Verify :: "'w host \<Rightarrow> TunRoutePlan \<Rightarrow> ('w, unit) exec_act" where
  "Route_Verify host plan =
     wrapping (''verify '' @ route_text plan)
       (if exclusiveAllocatedRouteTable plan then verifyExclusiveAllocatedRouteTable host plan
        else bindp (existingRouteLine host plan) (\<lambda>line.
               if line = [] then fail_with ''route not found'' else checke (verifyRouteLine (ho_quote host) line plan)))"

definition Route_Rollback :: "'w host \<Rightarrow> TunRoutePlan \<Rightarrow> ('w, unit) exec_act" where
  "Route_Rollback host plan =
     bindp (run_unless_missing host (routeArgs ''del'' plan) (''delete '' @ route_text plan)) (\<lambda>u.
       wrapping (''flush IPv4 route cache after delete '' @ route_text plan) (flushIPv4RouteCache host))"

section \<open>Policy rules\<close>

definition parsePolicyRuleMark :: "string \<Rightarrow> 32 word option" where
  "parsePolicyRuleMark v =
     (let t = trim_space v; head = takeWhile (\<lambda>c. c \<noteq> CHR ''/'') t in
      case parse_uint0 32 head of
        None \<Rightarrow> None
      | Some raw \<Rightarrow>
          if raw = 0 then None
          else if CHR ''/'' \<in> set t then
            (case parse_uint0 32 (tl (dropWhile (\<lambda>c. c \<noteq> CHR ''/'') t)) of
               None \<Rightarrow> None
             | Some m \<Rightarrow> if (of_nat m :: 32 word) \<noteq> - 1 then None else Some (of_nat raw))
          else Some (of_nat raw))"

definition samePolicyRuleMark :: "string \<Rightarrow> string \<Rightarrow> bool" where
  "samePolicyRuleMark got want = (parsePolicyRuleMark got \<noteq> None \<and> parsePolicyRuleMark got = parsePolicyRuleMark want)"

definition policyRuleTableIdentity :: "string \<Rightarrow> string" where
  "policyRuleTableIdentity table =
     (let t = routeTable (trim_space table) in
      if t = ''local'' \<or> t = ''255'' then ''255''
      else if t = ''main'' \<or> t = ''254'' then ''254''
      else if t = ''default'' \<or> t = ''253'' then ''253''
      else t)"

text \<open>The source, destination and mark a selector asks for.\<close>

definition policyRuleSelectorIdentity :: "(string \<Rightarrow> string) \<Rightarrow> string \<Rightarrow> exec_error + (string \<times> string \<times> string)" where
  "policyRuleSelectorIdentity quote selector =
     (let bad = plain_error (''unsupported policy-rule selector '' @ quote selector) in
      case Prelude.fields (trim_space selector) of
        [k, v] \<Rightarrow>
          if k = ''from'' then Inr (v, [], [])
          else if k = ''to'' then Inr (''all'', v, [])
          else if k = ''fwmark'' then (if parsePolicyRuleMark v = None then Inl bad else Inr (''all'', [], v))
          else Inl bad
      | [k, v, k2, v2] \<Rightarrow> if k = ''from'' \<and> k2 = ''to'' then Inr (v, v2, []) else Inl bad
      | _ \<Rightarrow> Inl bad)"

text \<open>The three selectors of a line are consumed from the left; what is left must be the lookup alone.  The
  code words each mismatch differently; here they share one text.\<close>

definition take_from :: "string \<Rightarrow> string list \<Rightarrow> string list option" where
  "take_from want fs =
     (if take 1 fs = [''from''] then
        (case fs of _ # v # rest \<Rightarrow> if routeTokenMatches v want then Some rest else None | _ \<Rightarrow> None)
      else if want \<noteq> ''all'' then None else Some fs)"

definition take_selector :: "string \<Rightarrow> (string \<Rightarrow> string \<Rightarrow> bool) \<Rightarrow> string \<Rightarrow> string list \<Rightarrow> string list option" where
  "take_selector key same want fs =
     (if want \<noteq> [] then (case fs of k # v # rest \<Rightarrow> if k = key \<and> same v want then Some rest else None | _ \<Rightarrow> None)
      else if take 1 fs = [key] then None else Some fs)"

definition lookup_is :: "string \<Rightarrow> string list \<Rightarrow> bool" where
  "lookup_is table fs =
     (case fs of [k, v] \<Rightarrow> (k = ''lookup'' \<or> k = ''table'') \<and> policyRuleTableIdentity v = policyRuleTableIdentity table
      | _ \<Rightarrow> False)"

definition verifyPolicyRuleLine :: "(string \<Rightarrow> string) \<Rightarrow> string \<Rightarrow> TunPolicyRulePlan \<Rightarrow> exec_error option" where
  "verifyPolicyRuleLine quote line plan =
     (let mismatch = plain_error (''policy rule mismatch in '' @ quote line) in
      case map (\<lambda>f. trim_suffix f '':'') (Prelude.fields line) of
        [] \<Rightarrow> Some mismatch
      | p # fs \<Rightarrow>
          if p \<noteq> itoa_int (prp_priority plan) then Some mismatch
          else case policyRuleSelectorIdentity quote (prp_selector plan) of
            Inl e \<Rightarrow> Some e
          | Inr (wantFrom, wantTo, wantMark) \<Rightarrow>
              (case Option.bind (take_from (if wantFrom = [] then ''all'' else wantFrom) fs) (\<lambda>fs1.
                 Option.bind (take_selector ''to'' routeTokenMatches wantTo fs1) (\<lambda>fs2.
                   take_selector ''fwmark'' samePolicyRuleMark wantMark fs2)) of
                 None \<Rightarrow> Some mismatch
               | Some rest \<Rightarrow> if lookup_is (routeTable (prp_table plan)) rest then None else Some mismatch))"

definition ruleArgs :: "string \<Rightarrow> TunPolicyRulePlan \<Rightarrow> string list" where
  "ruleArgs op plan =
     [''-4'', ''rule'', op, ''priority'', itoa_int (prp_priority plan)] @ Prelude.fields (prp_selector plan) @
     [''lookup'', routeTable (prp_table plan)]"

definition ruleTarget :: "TunPolicyRulePlan \<Rightarrow> string" where
  "ruleTarget plan =
     ''priority '' @ itoa_int (prp_priority plan) @ '' '' @ prp_selector plan @ '' lookup '' @ prp_table plan"

definition rule_text :: "TunPolicyRulePlan \<Rightarrow> string" where
  "rule_text plan = ''policy rule priority '' @ itoa_int (prp_priority plan)"

definition policyRulePriorityLines :: "'w host \<Rightarrow> int \<Rightarrow> ('w, string list) exec_act" where
  "policyRulePriorityLines host priority =
     bindp (observeCommand host ''ip'' [''-4'', ''rule'', ''show'', ''priority'', itoa_int priority]) (\<lambda>result.
       ret (nonEmptyLines (cmd_stdout result)))"

definition matchingPolicyRuleCount :: "(string \<Rightarrow> string) \<Rightarrow> string list \<Rightarrow> TunPolicyRulePlan \<Rightarrow> nat" where
  "matchingPolicyRuleCount quote lines plan = length (filter (\<lambda>l. verifyPolicyRuleLine quote l plan = None) lines)"

definition matchingPolicyRuleLine :: "(string \<Rightarrow> string) \<Rightarrow> string list \<Rightarrow> TunPolicyRulePlan \<Rightarrow> exec_error + string" where
  "matchingPolicyRuleLine quote lines plan =
     (case lines of
        [] \<Rightarrow> Inr []
      | l # _ \<Rightarrow>
          (case find (\<lambda>x. verifyPolicyRuleLine quote x plan = None) lines of
             Some x \<Rightarrow> Inr x
           | None \<Rightarrow>
               Inl (wrap_error (''no matching rule among '' @ itoa (length lines) @ '' rule(s) at priority '' @ itoa_int (prp_priority plan))
                 (case verifyPolicyRuleLine quote l plan of Some e \<Rightarrow> e | None \<Rightarrow> plain_error []))))"

definition verifyExclusivePolicyRulePriority :: "'w host \<Rightarrow> TunPolicyRulePlan \<Rightarrow> ('w, unit) exec_act" where
  "verifyExclusivePolicyRulePriority host plan =
     bindp (policyRulePriorityLines host (prp_priority plan)) (\<lambda>lines.
       case lines of
         [line] \<Rightarrow> wrapping ''exclusive session rule mismatch'' (checke (verifyPolicyRuleLine (ho_quote host) line plan))
       | _ \<Rightarrow> fail_with (''priority bucket must contain exactly one session rule, found '' @ itoa (length lines)))"

text \<open>Before a rule is added: \<open>True\<close> when a matching rule is already there.\<close>

definition rule_precheck :: "'w host \<Rightarrow> TunPolicyRulePlan \<Rightarrow> ('w, bool) exec_act" where
  "rule_precheck host plan =
     bindp (wrapping (''inspect existing '' @ rule_text plan) (policyRulePriorityLines host (prp_priority plan))) (\<lambda>lines.
       if prp_action plan = TunActionAddExclusive then
         (if lines \<noteq> [] then fail_with (''allocated '' @ rule_text plan @ '' became occupied before apply'') else ret False)
       else if lines \<noteq> [] then
         bindp (wrapping (''inspect existing '' @ rule_text plan) (liftp (matchingPolicyRuleLine (ho_quote host) lines plan))) (\<lambda>l.
           ret True)
       else ret False)"

definition PolicyRule_Add :: "'w host \<Rightarrow> TunPolicyRulePlan \<Rightarrow> ('w, Step) step_act" where
  "PolicyRule_Add host plan =
     bindp (with_step empty_step (rule_precheck host plan)) (\<lambda>there.
       if there then ret empty_step
       else
         bindp (with_step empty_step (wrapping (''add '' @ rule_text plan)
           (runCommand host ''ip'' (ruleArgs ''add'' plan)))) (\<lambda>u.
           (let step = \<lparr>st_kind = ''policy-rule'', st_target = ruleTarget plan, st_description = prp_reason plan,
                        st_owner = ''podlaz:policy-rule''\<rparr> in
            with_step step
              (bindp (if prp_action plan = TunActionAddExclusive
                      then wrapping (''verify allocated '' @ rule_text plan @ '' after add'') (verifyExclusivePolicyRulePriority host plan)
                      else ret ()) (\<lambda>u.
               bindp (wrapping (''flush IPv4 route cache after add '' @ rule_text plan) (flushIPv4RouteCache host)) (\<lambda>u.
                 ret step))))))"

definition PolicyRule_Verify :: "'w host \<Rightarrow> TunPolicyRulePlan \<Rightarrow> ('w, unit) exec_act" where
  "PolicyRule_Verify host plan =
     wrapping (''verify '' @ rule_text plan)
       (if prp_action plan = TunActionAddExclusive then verifyExclusivePolicyRulePriority host plan
        else bindp (policyRulePriorityLines host (prp_priority plan)) (\<lambda>lines.
             bindp (liftp (matchingPolicyRuleLine (ho_quote host) lines plan)) (\<lambda>line.
               if line = [] then fail_with ''rule not found'' else ret ())))"

definition deletePolicyRule :: "'w host \<Rightarrow> TunPolicyRulePlan \<Rightarrow> ('w, unit) exec_act" where
  "deletePolicyRule host plan =
     bindp (run_unless_missing host (ruleArgs ''del'' plan) (''delete '' @ rule_text plan)) (\<lambda>u.
       wrapping (''flush IPv4 route cache after delete '' @ rule_text plan) (flushIPv4RouteCache host))"

definition PolicyRule_Rollback :: "'w host \<Rightarrow> TunPolicyRulePlan \<Rightarrow> ('w, unit) exec_act" where
  "PolicyRule_Rollback host plan =
     (if prp_action plan \<noteq> TunActionAddExclusive then deletePolicyRule host plan
      else
        bindp (wrapping (''inspect '' @ rule_text plan @ '' before rollback'')
          (policyRulePriorityLines host (prp_priority plan))) (\<lambda>lines.
          (let matches = matchingPolicyRuleCount (ho_quote host) lines plan in
           if matches = 0 then ret ()
           else if 1 < matches then
             fail_with (''refuse policy rule rollback priority '' @ itoa_int (prp_priority plan) @ '': exact tuple appears '' @
               itoa matches @ '' times and ownership is ambiguous'')
           else
             bindp (deletePolicyRule host plan) (\<lambda>u.
             bindp (wrapping (''inspect '' @ rule_text plan @ '' after rollback'')
               (policyRulePriorityLines host (prp_priority plan))) (\<lambda>remaining.
               if matchingPolicyRuleCount (ho_quote host) remaining plan \<noteq> 0 then
                 fail_with (''policy rule rollback priority '' @ itoa_int (prp_priority plan) @ '' left '' @
                   itoa (matchingPolicyRuleCount (ho_quote host) remaining plan) @ '' exact tuple(s)'')
               else ret ())))))"

section \<open>The composite\<close>

definition tunDeviceAction :: "string \<Rightarrow> string" where
  "tunDeviceAction action = (let a = to_lower (trim_space action) in if a = ''add'' then ''create'' else a)"

definition shouldApplyTunAddress :: "TunAddressPlan \<Rightarrow> bool" where
  "shouldApplyTunAddress plan = (trim_space (tap_cidr plan) \<noteq> [] \<and> IsTunAddressAssignAction (tap_action plan))"

text \<open>A failed apply: the steps recorded so far, the subphase that failed and the error.\<close>

record apply_failure =
  af_steps :: "Step list"
  af_subphase :: string
  af_error :: exec_error

type_synonym ('w, 'a) apply_act = "('w host_state, apply_failure, 'a) prog"

definition join_errors :: "exec_error \<Rightarrow> exec_error \<Rightarrow> exec_error" where
  "join_errors e f =
     \<lparr>ee_text = ee_text e @ [CHR 0x0A] @ ee_text f, ee_tags = ee_tags e @ ee_tags f,
      ee_command = (case ee_command e of None \<Rightarrow> ee_command f | Some c \<Rightarrow> Some c)\<rparr>"

text \<open>\<^verbatim>\<open>recordAppliedStep\<close> followed by \<^verbatim>\<open>errors.Join\<close>; \<open>sink\<close> says whether a callback is given.\<close>

definition recordAppliedStep :: "'w host \<Rightarrow> bool \<Rightarrow> Step list \<Rightarrow> Step \<Rightarrow> ('w host_state, 'e, Step list \<times> exec_error option) prog" where
  "recordAppliedStep host sink steps step =
     (if trim_space (st_kind step) = [] then ret (steps, None)
      else if \<not> sink then ret (steps @ [step], None)
      else bindp (host_act (RecordedStep step) (ho_sink host step)) (\<lambda>r.
             ret (steps @ [step], map_option (\<lambda>t. plain_error (''persist applied '' @ st_kind step @ '' ownership: '' @ t)) r)))"

definition apply_recorded ::
  "'w host \<Rightarrow> bool \<Rightarrow> string \<Rightarrow> Step list \<Rightarrow> ('w, Step) step_act \<Rightarrow> ('w, Step list) apply_act" where
  "apply_recorded host sink subphase steps m =
     bindp (tryp m) (\<lambda>r.
       bindp (recordAppliedStep host sink steps (case r of Inl (step, e) \<Rightarrow> step | Inr step \<Rightarrow> step)) (\<lambda>(steps', persist).
         case r of
           Inl (step, e) \<Rightarrow>
             fail \<lparr>af_steps = steps', af_subphase = subphase,
                   af_error = (case persist of None \<Rightarrow> e | Some p \<Rightarrow> join_errors e p)\<rparr>
         | Inr step \<Rightarrow>
             (case persist of
                None \<Rightarrow> ret steps'
              | Some p \<Rightarrow> fail \<lparr>af_steps = steps', af_subphase = [], af_error = p\<rparr>)))"

fun apply_each ::
  "('x \<Rightarrow> bool) \<Rightarrow> (Step list \<Rightarrow> 'x \<Rightarrow> ('w, Step list) apply_act) \<Rightarrow> 'x list \<Rightarrow> Step list \<Rightarrow> ('w, Step list) apply_act" where
  "apply_each P f [] steps = ret steps"
| "apply_each P f (x # xs) steps =
     (if P x then bindp (f steps x) (apply_each P f xs) else apply_each P f xs steps)"

definition device_phase :: "'w host \<Rightarrow> TunDevicePlan \<Rightarrow> ('w, unit) exec_act" where
  "device_phase host plan =
     (let action = tunDeviceAction (tdp_action plan) in
      if action = [] \<or> action = ''create''
      then fail_with ''daemon-created TUN links are unsupported; Xray owns podlaz0 creation and lifetime''
      else if action = ''verify'' \<or> action = ''use-existing'' then TunDevice_Verify host plan
      else fail_with (''unsupported TUN device action '' @ ho_quote host (tdp_action plan)))"

definition ApplyWithStepSink :: "'w host \<Rightarrow> bool \<Rightarrow> TunPlan \<Rightarrow> ('w, Step list) apply_act" where
  "ApplyWithStepSink host sink plan =
     bindp (map_err (\<lambda>e. \<lparr>af_steps = [], af_subphase = [], af_error = e\<rparr>) (device_phase host (tp_device plan))) (\<lambda>u.
     bindp (if shouldApplyTunAddress (tp_address plan)
            then apply_recorded host sink ''tun-address'' [] (TunAddress_Apply host (tp_address plan)) else ret []) (\<lambda>steps.
     bindp (apply_each (\<lambda>r. IsTunAddAction (trp_action r))
              (\<lambda>st r. apply_recorded host sink ''routes'' st (Route_Add host r)) (tp_routes plan) steps) (\<lambda>steps.
       apply_each (\<lambda>r. IsTunAddAction (prp_action r))
         (\<lambda>st r. apply_recorded host sink ''policy-rules'' st (PolicyRule_Add host r)) (tp_rules plan) steps)))"

fun each :: "('x \<Rightarrow> bool) \<Rightarrow> ('x \<Rightarrow> ('s, 'e, unit) prog) \<Rightarrow> 'x list \<Rightarrow> ('s, 'e, unit) prog" where
  "each P f [] = ret ()"
| "each P f (x # xs) = (if P x then bindp (f x) (\<lambda>u. each P f xs) else each P f xs)"

definition Tun_Verify :: "'w host \<Rightarrow> TunPlan \<Rightarrow> ('w, unit) exec_act" where
  "Tun_Verify host plan =
     bindp (TunDevice_Verify host (tp_device plan)) (\<lambda>u.
     bindp (if shouldApplyTunAddress (tp_address plan) then TunAddress_Verify host (tp_address plan) else ret ()) (\<lambda>u.
     bindp (each (\<lambda>r. IsTunVerifyOrAddAction (trp_action r)) (Route_Verify host) (tp_routes plan)) (\<lambda>u.
       each (\<lambda>r. IsTunAddAction (prp_action r)) (PolicyRule_Verify host) (tp_rules plan))))"

definition Tun_Rollback :: "'w host \<Rightarrow> TunPlan \<Rightarrow> ('w, unit) exec_act" where
  "Tun_Rollback host plan =
     bindp (each (\<lambda>r. IsTunAddAction (prp_action r)) (PolicyRule_Rollback host) (rev (tp_rules plan))) (\<lambda>u.
     bindp (each (\<lambda>r. IsTunAddAction (trp_action r)) (Route_Rollback host) (rev (tp_routes plan))) (\<lambda>u.
     bindp (if shouldApplyTunAddress (tp_address plan) then TunAddress_Rollback host (tp_address plan) else ret ()) (\<lambda>u.
       (let action = tunDeviceAction (tdp_action (tp_device plan)) in
        if action = [] \<or> action = ''verify'' \<or> action = ''use-existing'' then ret ()
        else if action = ''create''
        then fail_with ''daemon-created TUN link rollback is unsupported without typed creation proof''
        else fail_with (''unsupported TUN device action '' @ ho_quote host (tdp_action (tp_device plan)))))))"

definition BindTunAddress :: "'w host \<Rightarrow> int \<Rightarrow> TunPlan \<Rightarrow> TunLinkCreationProof \<Rightarrow> ('w, TunPlan) exec_act" where
  "BindTunAddress host attempts plan p =
     (if trim_space (tap_cidr (tp_address plan)) = [] then ret plan
      else bindp (TunAddress_Bind host attempts (tp_address plan) p) (\<lambda>bound. ret (plan\<lparr>tp_address := bound\<rparr>)))"

end
