(* ===== verification/Tun_Executor_Facts.thy ===== *)
theory Tun_Executor_Facts
  imports Tun_Executor Tun_Planner_Facts
begin

text \<open>
  What the composite executor does to the host, as a property of its trace: each resource is added by one
  command, and the step that owns it is handed to the callback before the next resource is touched.
\<close>

section \<open>Adding commands and recorded steps\<close>

fun adds :: "host_action \<Rightarrow> bool" where
  "adds (Ran name args) = (take 3 args \<in> {[''-4'', ''address'', ''replace''], [''-4'', ''route'', ''add''], [''-4'', ''rule'', ''add'']})"
| "adds _ = False"

fun records :: "host_action \<Rightarrow> bool" where
  "records (RecordedStep s) = True"
| "records _ = False"

fun step_of :: "host_action \<Rightarrow> Step" where
  "step_of (RecordedStep s) = s"
| "step_of _ = empty_step"

definition added :: "host_action list \<Rightarrow> nat" where
  "added tr = length (filter adds tr)"

definition recorded :: "host_action list \<Rightarrow> Step list" where
  "recorded tr = map step_of (filter records tr)"

lemma added_simps [simp]:
  "added [] = 0" "added (a # tr) = (if adds a then 1 else 0) + added tr" "added (tr @ tr') = added tr + added tr'"
  by (simp_all add: added_def)

lemma recorded_simps [simp]:
  "recorded [] = []" "recorded (a # tr) = (if records a then [step_of a] else []) @ recorded tr"
  "recorded (tr @ tr') = recorded tr @ recorded tr'"
  by (simp_all add: recorded_def)

text \<open>At no point of the trace are there two resources that have not been recorded.\<close>

definition windowed :: "host_action list \<Rightarrow> bool" where
  "windowed tr \<longleftrightarrow> (\<forall>p. prefix p tr \<longrightarrow> added p \<le> length (recorded p) + 1)"

lemma windowed_append:
  assumes "windowed tr" and "added tr = length (recorded tr)" and "windowed tr'"
  shows "windowed (tr @ tr')"
  using assms unfolding windowed_def
  by (auto simp: prefix_append)

lemma windowed_few: "added tr \<le> 1 \<Longrightarrow> windowed tr"
proof -
  have "prefix p tr \<Longrightarrow> added p \<le> added tr" for p
    by (auto simp: prefix_def)
  then show "added tr \<le> 1 \<Longrightarrow> windowed tr"
    unfolding windowed_def by (metis le_add2 le_trans)
qed

lemma windowed_record:
  assumes "added tr \<le> 1" and "records a"
  shows "windowed (tr @ [a])"
proof -
  from assms(2) have "\<not> adds a" by (cases a) auto
  then show ?thesis using assms(1) by (intro windowed_few) simp
qed

section \<open>Programs that only read\<close>

definition quiet :: "host_action \<Rightarrow> bool" where
  "quiet a \<longleftrightarrow> \<not> adds a \<and> \<not> records a"

lemma quiet_trace: "list_all quiet tr \<Longrightarrow> added tr = 0 \<and> recorded tr = []"
  by (induction tr) (auto simp: quiet_def)

lemma quiet_ran [simp]:
  "quiet (Ran n args) \<longleftrightarrow>
     take 3 args \<notin> {[''-4'', ''address'', ''replace''], [''-4'', ''route'', ''add''], [''-4'', ''rule'', ''add'']}"
  by (simp add: quiet_def)

abbreviation silent :: "('w host_state, 'e, 'a) prog \<Rightarrow> bool" where
  "silent m \<equiv> acts_only quiet m"

lemma only_step [only]: "acts_only A m \<Longrightarrow> acts_only A (with_step st m)"
  unfolding with_step_def by (rule only)

lemma silent_observations [only]:
  "silent (inspectIdentity host link)" "silent (inspectAddresses host link)"
  "silent (policyRulePriorityLines host p)" "silent (existingRouteLine host r)"
  "silent (allocatedRouteTableLines host r)" "silent (TunDevice_Verify host d)"
  unfolding inspectIdentity_def inspectAddresses_def policyRulePriorityLines_def existingRouteLine_def
    allocatedRouteTableLines_def TunDevice_Verify_def
  by (auto intro!: only split: sum.splits)

lemma silent_fence [only]: "silent (verifyBoundIdentityFence host plan phase up)"
  unfolding verifyBoundIdentityFence_def by (auto intro!: only)

lemma silent_global [only]: "silent (verifyGlobalTunAddressAllocation host plan n phase)"
  unfolding verifyGlobalTunAddressAllocation_def Let_def
  by (auto intro!: only split: option.splits prefix.splits addr.splits sum.splits)

lemma silent_presence [only]: "silent (verifyAddressPresence host plan n phase)"
  unfolding verifyAddressPresence_def by (auto intro!: only split: prod.splits)

lemma silent_address_verify [only]: "silent (TunAddress_Verify host plan)"
  unfolding TunAddress_Verify_def by (auto intro!: only split: prod.splits option.splits)

lemma silent_authority [only]: "silent (verifyAllocatedRoutingTableAuthority host plan n)"
  unfolding verifyAllocatedRoutingTableAuthority_def Let_def by (auto intro!: only split: option.splits sum.splits)

lemma silent_exclusive [only]:
  "silent (verifyExclusiveAllocatedRouteTable host r)" "silent (verifyExclusivePolicyRulePriority host p)"
  unfolding verifyExclusiveAllocatedRouteTable_def verifyExclusivePolicyRulePriority_def
  by (auto intro!: only split: list.splits)

lemma silent_precheck [only]: "silent (route_precheck host r)" "silent (rule_precheck host p)"
  unfolding route_precheck_def rule_precheck_def by (auto intro!: only)

lemma silent_flush [only]: "silent (flushIPv4RouteCache host)"
  by (auto intro!: only)

lemma silent_device [only]: "silent (device_phase host d)"
  unfolding device_phase_def Let_def by (auto intro!: only)

section \<open>One resource\<close>

definition result_step :: "Step \<times> exec_error + Step \<Rightarrow> Step" where
  "result_step r = (case r of Inl (st, e) \<Rightarrow> st | Inr st \<Rightarrow> st)"

definition named :: "Step \<Rightarrow> bool" where
  "named st \<longleftrightarrow> trim_space (st_kind st) \<noteq> []"

text \<open>A program that adds a resource at most once: without the command its step is empty, and after a success
  with the command its step is not.\<close>

definition adds_once :: "host_action list \<Rightarrow> Step \<times> exec_error + Step \<Rightarrow> bool" where
  "adds_once tr r \<longleftrightarrow>
     recorded tr = [] \<and>
     (added tr = 0 \<and> \<not> named (result_step r) \<or> added tr = 1 \<and> (isl r \<or> named (result_step r)))"

text \<open>After the command: nothing more is added and the step stays.\<close>

definition keeps :: "Step \<Rightarrow> host_action list \<Rightarrow> Step \<times> exec_error + Step \<Rightarrow> bool" where
  "keeps st tr r \<longleftrightarrow> added tr = 0 \<and> recorded tr = [] \<and> result_step r = st"

lemma silent_acts: "silent m \<Longrightarrow> acts (\<lambda>tr r. added tr = 0 \<and> recorded tr = []) m"
  unfolding acts_only_def by (erule acts_mono) (rule quiet_trace)

lemma with_step_silent:
  assumes "silent m"
  shows "acts (\<lambda>tr r. added tr = 0 \<and> recorded tr = [] \<and> (\<forall>e. r = Inl e \<longrightarrow> fst e = st)) (with_step st m)"
  unfolding with_step_def by (rule acts_map_err [OF silent_acts [OF assms]]) auto

lemma with_step_keeps:
  assumes "silent m" and "\<And>s s' x. m s = (s', Inr x) \<Longrightarrow> x = st"
  shows "acts (keeps st) (with_step st m)"
proof (rule actsI)
  fix s s' r
  assume r: "with_step st m s = (s', r)"
  then have k: "result_step r = st"
    using assms(2) by (auto simp: with_step_def map_err_def result_step_def split: prod.splits sum.splits)
  from actsD [OF with_step_silent [OF assms(1)] r] k
  show "\<exists>tr. hs_trace s' = hs_trace s @ tr \<and> keeps st tr r"
    unfolding keeps_def by blast
qed

lemma acts_runCommand: "acts (\<lambda>tr r. tr = [Ran name args]) (runCommand host name args)"
  unfolding runCommand_def observeCommand_def run_raw_def
  by (rule actsI) (auto simp: bindp_def host_act_def host_peek_def ret_def fail_def split: prod.splits sum.splits if_splits)

lemma adding_command:
  assumes "adds (Ran ''ip'' args)"
  shows "acts (\<lambda>tr r. added tr = 1 \<and> recorded tr = [] \<and> (\<forall>e. r = Inl e \<longrightarrow> fst e = st))
    (with_step st (wrapping t (runCommand host ''ip'' args)))"
  unfolding with_step_def wrapping_def
  by (rule acts_map_err [OF acts_map_err [OF acts_runCommand]]) (use assms in auto)

lemma add_then_keep:
  assumes "adds (Ran ''ip'' args)" and "\<And>u. acts (keeps st) (f u)" and "named st"
  shows "acts (\<lambda>tr r. recorded tr = [] \<and> added tr = 1 \<and> (isl r \<or> named (result_step r)))
    (bindp (with_step st' (wrapping t (runCommand host ''ip'' args))) f)"
  by (rule acts_bind [OF adding_command [OF assms(1)] assms(2)])
    (use assms(3) in \<open>auto simp: keeps_def\<close>)

lemma named_steps [simp]:
  "named (tunAddressStep p)" "\<not> named empty_step"
  "named \<lparr>st_kind = ''route'', st_target = a, st_description = b, st_owner = c\<rparr>"
  "named \<lparr>st_kind = ''policy-rule'', st_target = a, st_description = b, st_owner = c\<rparr>"
  by (simp_all add: named_def tunAddressStep_def empty_step_def)

lemma precheck_then_add:
  assumes "silent m" and "\<And>x. acts adds_once (f x)"
  shows "acts adds_once (bindp (with_step empty_step m) f)"
  by (rule acts_bind [OF with_step_silent [OF assms(1)] assms(2)])
    (auto simp: adds_once_def result_step_def)

lemma once_empty: "acts adds_once (ret empty_step)"
  by (rule acts_ret) (simp add: adds_once_def result_step_def)

lemma acts_if: "acts P m \<Longrightarrow> acts P m' \<Longrightarrow> acts P (if b then m else m')"
  by simp

lemma once_mono:
  "acts (\<lambda>tr r. recorded tr = [] \<and> added tr = 1 \<and> (isl r \<or> named (result_step r))) m \<Longrightarrow> acts adds_once m"
  by (erule acts_mono) (simp add: adds_once_def)

lemma wrapping_Inr: "wrapping t m s = (s', Inr x) \<longleftrightarrow> m s = (s', Inr x)"
  by (auto simp: wrapping_def map_err_def split: prod.splits sum.splits)

lemma route_add_once: "acts adds_once (Route_Add host plan)"
proof -
  let ?st = "\<lparr>st_kind = ''route'', st_target = routeTarget plan, st_description = trp_reason plan, st_owner = ''podlaz:route''\<rparr>"
  have a: "adds (Ran ''ip'' (routeArgs ''add'' plan))" by (simp add: routeArgs_def)
  have k: "acts (keeps ?st) (with_step ?st
      (bindp (if exclusiveAllocatedRouteTable plan then
                bindp (wrapping t1 (verifyAllocatedRoutingTableAuthority host plan 1)) (\<lambda>u.
                  wrapping t2 (verifyExclusiveAllocatedRouteTable host plan))
              else ret ()) (\<lambda>u. bindp (wrapping t3 (flushIPv4RouteCache host)) (\<lambda>u. ret ?st))))" for t1 t2 t3
    by (rule with_step_keeps) (auto intro!: only simp: bindp_Inr)
  show ?thesis
    unfolding Route_Add_def Let_def
    by (rule precheck_then_add [OF silent_precheck(1)], rule acts_if, rule once_empty,
        rule once_mono [OF add_then_keep [OF a k]], simp)
qed

lemma rule_add_once: "acts adds_once (PolicyRule_Add host plan)"
proof -
  let ?st = "\<lparr>st_kind = ''policy-rule'', st_target = ruleTarget plan, st_description = prp_reason plan,
    st_owner = ''podlaz:policy-rule''\<rparr>"
  have a: "adds (Ran ''ip'' (ruleArgs ''add'' plan))" by (simp add: ruleArgs_def)
  have k: "acts (keeps ?st) (with_step ?st
      (bindp (if b then wrapping t1 (verifyExclusivePolicyRulePriority host plan) else ret ())
        (\<lambda>u. bindp (wrapping t3 (flushIPv4RouteCache host)) (\<lambda>u. ret ?st))))" for b t1 t3
    by (rule with_step_keeps) (auto intro!: only simp: bindp_Inr)
  show ?thesis
    unfolding PolicyRule_Add_def Let_def
    by (rule precheck_then_add [OF silent_precheck(2)], rule acts_if, rule once_empty,
        rule once_mono [OF add_then_keep [OF a k]], simp)
qed

definition adds_address :: "TunAddressPlan \<Rightarrow> host_action list \<Rightarrow> Step \<times> exec_error + Step \<Rightarrow> bool" where
  "adds_address plan tr r \<longleftrightarrow>
     recorded tr = [] \<and>
     (added tr = 0 \<and> result_step r = empty_step \<or> added tr = 1 \<and> result_step r = tunAddressStep plan)"

lemma replace_then_check:
  assumes "silent m" and "\<And>s s' x. m s = (s', Inr x) \<Longrightarrow> x = st"
  shows "acts (\<lambda>tr r. recorded tr = [] \<and> added tr = 1 \<and> result_step r = st)
    (with_step st (bindp (wrapping t (runCommand host ''ip'' [''-4'', ''address'', ''replace'', c, ''dev'', i]))
       (\<lambda>u. m)))"
proof -
  have "acts (\<lambda>tr r. recorded tr = [] \<and> added tr = 1 \<and> (\<forall>x. r = Inr x \<longrightarrow> x = st))
    (bindp (wrapping t (runCommand host ''ip'' [''-4'', ''address'', ''replace'', c, ''dev'', i]))
       (\<lambda>u. m))"
  proof (rule acts_bind)
    show "acts (\<lambda>tr r. tr = [Ran ''ip'' [''-4'', ''address'', ''replace'', c, ''dev'', i]])
      (wrapping t (runCommand host ''ip'' [''-4'', ''address'', ''replace'', c, ''dev'', i]))"
      unfolding wrapping_def by (rule acts_map_err [OF acts_runCommand])
    show "acts (\<lambda>tr r. added tr = 0 \<and> recorded tr = [] \<and> (\<forall>x. r = Inr x \<longrightarrow> x = st)) m" for u
    proof (rule actsI)
      fix s s' r
      assume r: "m s = (s', r)"
      then have "\<forall>x. r = Inr x \<longrightarrow> x = st" by (intro allI impI assms(2) [of s s']) simp
      with actsD [OF silent_acts [OF assms(1)] r]
      show "\<exists>tr. hs_trace s' = hs_trace s @ tr \<and> added tr = 0 \<and> recorded tr = [] \<and> (\<forall>x. r = Inr x \<longrightarrow> x = st)"
        by simp
    qed
  qed auto
  then show ?thesis
    unfolding with_step_def by (rule acts_map_err) (auto simp: result_step_def)
qed

lemma assign_address_adds: "acts (adds_address plan) (assign_address host plan)"
proof -
  have r: "acts (\<lambda>tr r. recorded tr = [] \<and> added tr = 1 \<and> result_step r = tunAddressStep plan)
    (with_step (tunAddressStep plan)
      (bindp (wrapping t (runCommand host ''ip'' [''-4'', ''address'', ''replace'', tap_cidr plan, ''dev'', tap_interface plan])) (\<lambda>u.
       bindp (verifyAddressPresence host plan 1 p) (\<lambda>u.
       bindp (verifyGlobalTunAddressAllocation host plan 1 q) (\<lambda>u. ret (tunAddressStep plan))))))" for t p q
    by (rule replace_then_check) (auto intro!: only simp: bindp_Inr)
  show ?thesis
    unfolding assign_address_def Let_def
    by (rule acts_bind [OF with_step_silent [OF silent_fence] r])
      (auto simp: adds_address_def result_step_def)
qed

lemma address_add_once: "acts adds_once (TunAddress_Apply host plan)"
proof -
  have k: "acts (keeps step) (with_step step
      (bindp (verifyBoundIdentityFence host plan p1 False) (\<lambda>u.
       bindp (wrapping t1 (runCommand host ''ip'' [''link'', ''set'', ''dev'', tap_interface plan, ''up''])) (\<lambda>u.
       bindp (wrapping t2 (TunAddress_Verify host plan)) (\<lambda>u. ret step)))))" for step p1 t1 t2
    by (rule with_step_keeps) (auto intro!: only simp: bindp_Inr)
  have a: "acts (adds_address plan) (if b then assign_address host plan else ret empty_step)" for b
    by (rule acts_if [OF assign_address_adds]) (rule acts_ret, simp add: adds_address_def result_step_def)
  have c: "acts adds_once (bindp (if b then assign_address host plan else ret empty_step) f)"
    if "\<And>step. acts (keeps step) (f step)" for b f
  proof (rule acts_bind [OF a that])
    fix tr e assume "adds_address plan tr (Inl e)"
    then show "adds_once tr (Inl e)" by (auto simp: adds_address_def adds_once_def)
  next
    fix tr tr' x and r :: "Step \<times> exec_error + Step"
    assume "adds_address plan tr (Inr x)" "keeps x tr' r"
    then show "adds_once (tr @ tr') r"
      by (auto simp: adds_address_def adds_once_def keeps_def result_step_def)
  qed
  show ?thesis
    unfolding TunAddress_Apply_def
    by (rule acts_map_err [OF precheck_then_add [OF _ c [OF k]]])
      (auto intro!: only simp: adds_once_def result_step_def split: prod.splits)
qed

section \<open>The whole apply\<close>

definition result_steps :: "apply_failure + Step list \<Rightarrow> Step list" where
  "result_steps r = (case r of Inl f \<Rightarrow> af_steps f | Inr steps \<Rightarrow> steps)"

definition crash_safe :: "Step list \<Rightarrow> host_action list \<Rightarrow> apply_failure + Step list \<Rightarrow> bool" where
  "crash_safe steps tr r \<longleftrightarrow>
     windowed tr \<and> result_steps r = steps @ recorded tr \<and> (isl r \<or> added tr = length (recorded tr))"

lemma acts_record:
  "acts (\<lambda>tr r. (\<exists>q. r = Inr (steps @ recorded tr, q)) \<and> tr = (if named st then [RecordedStep st] else []))
     (recordAppliedStep host True steps st)"
  unfolding recordAppliedStep_def
  by (rule actsI) (auto simp: bindp_def host_act_def ret_def named_def split: prod.splits if_splits)

lemma apply_recorded_safe:
  assumes "acts adds_once m"
  shows "acts (crash_safe steps) (apply_recorded host True subphase steps m)"
  unfolding apply_recorded_def
proof (rule acts_bind)
  show "acts (\<lambda>tr r. \<exists>x. r = Inr x \<and> adds_once tr x) (tryp m)"
    by (rule acts_try [OF assms]) auto
next
  fix r :: "Step \<times> exec_error + Step"
  show "acts (\<lambda>tr q. tr = (if named (result_step r) then [RecordedStep (result_step r)] else []) \<and>
        result_steps q = steps @ recorded tr \<and> (isl q \<or> \<not> isl r))
      (bindp (recordAppliedStep host True steps (case r of Inl (step, e) \<Rightarrow> step | Inr step \<Rightarrow> step)) (\<lambda>(steps', persist).
         case r of
           Inl (step, e) \<Rightarrow>
             fail \<lparr>af_steps = steps', af_subphase = subphase,
                   af_error = (case persist of None \<Rightarrow> e | Some p \<Rightarrow> join_errors e p)\<rparr>
         | Inr step \<Rightarrow>
             (case persist of
                None \<Rightarrow> ret steps'
              | Some p \<Rightarrow> fail \<lparr>af_steps = steps', af_subphase = [], af_error = p\<rparr>)))"
    unfolding result_step_def [symmetric]
    by (rule acts_bind [OF acts_record, where Q = "\<lambda>p tr q. tr = [] \<and> result_steps q = fst p \<and> (isl q \<or> \<not> isl r)"])
      (auto intro!: acts_ret acts_fail simp: result_steps_def split: sum.splits option.splits)
next
  fix tr tr' x and r :: "apply_failure + Step list"
  assume "\<exists>y. Inr x = Inr y \<and> adds_once tr y"
    and "tr' = (if named (result_step x) then [RecordedStep (result_step x)] else []) \<and>
        result_steps r = steps @ recorded tr' \<and> (isl r \<or> \<not> isl x)"
  then show "crash_safe steps (tr @ tr') r"
    by (auto simp: crash_safe_def adds_once_def intro: windowed_few windowed_record)
qed auto

lemma crash_safe_append:
  assumes "crash_safe steps tr (Inr steps')" and "crash_safe steps' tr' r"
  shows "crash_safe steps (tr @ tr') r"
  using assms by (auto simp: crash_safe_def result_steps_def intro: windowed_append)

lemma crash_safe_Nil: "crash_safe steps [] (Inr steps)"
  by (simp add: crash_safe_def result_steps_def windowed_few)

lemma safe_bind:
  assumes "acts (crash_safe steps) m" and "\<And>steps'. acts (crash_safe steps') (f steps')"
  shows "acts (crash_safe steps) (bindp m f)"
  by (rule acts_bind [OF assms]) (simp add: crash_safe_def result_steps_def, erule (1) crash_safe_append)

lemma apply_each_safe:
  assumes "\<And>st x. acts (crash_safe st) (f st x)"
  shows "acts (crash_safe steps) (apply_each P f xs steps)"
proof (induction xs arbitrary: steps)
  case Nil
  show ?case by (simp add: acts_ret crash_safe_Nil)
next
  case (Cons x xs)
  then show ?case using safe_bind [OF assms Cons.IH] by simp
qed

lemma apply_safe: "acts (crash_safe []) (ApplyWithStepSink host True plan)"
proof -
  have e: "acts (crash_safe st) (ret st)" for st
    by (simp add: acts_ret crash_safe_Nil)
  show ?thesis
    unfolding ApplyWithStepSink_def
  proof (rule acts_bind)
    show "acts (\<lambda>tr r. added tr = 0 \<and> recorded tr = [] \<and> (\<forall>f. r = Inl f \<longrightarrow> af_steps f = []))
      (map_err (\<lambda>e. \<lparr>af_steps = [], af_subphase = [], af_error = e\<rparr>) (device_phase host (tp_device plan)))"
      by (rule acts_map_err [OF silent_acts [OF silent_device]]) auto
    show "acts (crash_safe []) (bindp (if shouldApplyTunAddress (tp_address plan)
            then apply_recorded host True ''tun-address'' [] (TunAddress_Apply host (tp_address plan)) else ret []) (\<lambda>steps.
     bindp (apply_each (\<lambda>r. IsTunAddAction (trp_action r))
              (\<lambda>st r. apply_recorded host True ''routes'' st (Route_Add host r)) (tp_routes plan) steps) (\<lambda>steps.
       apply_each (\<lambda>r. IsTunAddAction (prp_action r))
         (\<lambda>st r. apply_recorded host True ''policy-rules'' st (PolicyRule_Add host r)) (tp_rules plan) steps)))" for u
      by (intro safe_bind acts_if e apply_recorded_safe apply_each_safe address_add_once route_add_once rule_add_once)
  qed (auto simp: crash_safe_def result_steps_def windowed_few windowed_append)
qed

text \<open>C7: An apply with a step callback opens no crash window: at every moment at most one resource has been
  added whose step has not been handed to the callback, the steps the apply reports are exactly the
  steps it handed over, and after a success every added resource has its step.\<close>

theorem apply_records_before_next_resource:
  assumes "ApplyWithStepSink host True plan s = (s', r)"
  shows "\<exists>tr. hs_trace s' = hs_trace s @ tr \<and>
     (\<forall>p. prefix p tr \<longrightarrow> added p \<le> length (recorded p) + 1) \<and>
     recorded tr = (case r of Inl f \<Rightarrow> af_steps f | Inr steps \<Rightarrow> steps) \<and>
     (\<forall>steps. r = Inr steps \<longrightarrow> added tr = length steps)"
  using actsD [OF apply_safe assms]
  by (auto simp: crash_safe_def windowed_def result_steps_def split: sum.splits)

text \<open>A host on which every command succeeds and the link is up, and a plan with one route and one rule.\<close>

definition quiet_nft :: "unit nft_host" where
  "quiet_nft = \<lparr>nh_tables = \<lambda>f w. None, nh_table = \<lambda>f a b w. None, nh_generation = \<lambda>f w. None,
     nh_batch = \<lambda>f t w. (w, False), nh_commit = \<lambda>f g c w. (w, False)\<rparr>"

definition demo_run :: "string \<Rightarrow> string list \<Rightarrow> unit \<Rightarrow> unit \<times> (CommandResult \<times> run_error option)" where
  "demo_run name args w =
     (w, \<lparr>cmd_stdout = (if take 1 args = [''-details''] then ''tun type tun state UP'' else []), cmd_stderr = [],
          cmd_raw_stdout = [], cmd_raw_stderr = [], cmd_exit = 0\<rparr>, None)"

definition demo_host :: "unit host" where
  "demo_host =
     \<lparr>ho_look_path = \<lambda>n w. (w, Inr n), ho_run = demo_run, ho_cancelled = \<lambda>w. False, ho_quote = \<lambda>s. s,
      ho_evidence = \<lambda>w. (w, Inl []), ho_core_done = \<lambda>w. False, ho_sleep = \<lambda>w. (w, None), ho_sink = \<lambda>s w. (w, None),
      ho_directory = \<lambda>p w. (None, None), ho_tx_error = \<lambda>e. [], ho_stat = \<lambda>p w. (w, Inl NotExist), ho_read_dir = \<lambda>p w. (w, Inl NotExist),
      ho_remove_all = \<lambda>p w. (w, None), ho_remove = \<lambda>p w. (w, None), ho_nft = quiet_nft,
      ho_nft_env = \<lambda>n. (call_fault.NoFault, \<lambda>w. w)\<rparr>"

definition demo_route :: TunRoutePlan where
  "demo_route = \<lparr>trp_family = ''ipv4'', trp_destination = ''default'', trp_table = ''51820'', trp_interface = ''podlaz0'',
     trp_gateway = [], trp_action = ''add'', trp_reason = []\<rparr>"

definition demo_rule :: TunPolicyRulePlan where
  "demo_rule = \<lparr>prp_family = ''ipv4'', prp_priority = 9999, prp_selector = ''from all'', prp_table = ''51820'',
     prp_action = ''add'', prp_reason = []\<rparr>"

definition demo_tun_plan :: TunPlan where
  "demo_tun_plan =
     \<lparr>tp_mode = ''tun'', tp_tunnel_mode = [], tp_profile_id = [], tp_profile_name = [], tp_snapshot = demo_snapshot,
      tp_device = \<lparr>tdp_name = ''podlaz0'', tdp_mtu = 0, tdp_action = ''verify'', tdp_reason = []\<rparr>,
      tp_address = \<lparr>tap_family = [], tap_interface = [], tap_cidr = [], tap_scope = [], tap_action = [], tap_reason = [],
        tap_classification = [], tap_owner = [], tap_rollback_key = [], tap_link_index = 0, tap_link_kind = [],
        tap_appeared_after_core = False, tap_allow_owned_existing = False, tap_allow_missing_link = False\<rparr>,
      tp_routes = [demo_route], tp_rules = [demo_rule],
      tp_server_bypass = \<lparr>trp_family = [], trp_destination = [], trp_table = [], trp_interface = [], trp_gateway = [],
        trp_action = [], trp_reason = []\<rparr>, tp_egress_mark = 0,
      tp_dns = \<lparr>dpl_backend = [], dpl_target_link = [], dpl_servers = [], dpl_action = [], dpl_reason = [], dpl_rollback = [],
        dpl_rollback_steps = []\<rparr>,
      tp_firewall = \<lparr>fwp_backend = [], fwp_family = [], fwp_table = [], fwp_table_action = [], fwp_chains = [], fwp_rules = [],
        fwp_kill_switch = \<lparr>ksp_policy = [], ksp_action = [], ksp_scope = [], ksp_recovery = [], ksp_limitations = []\<rparr>,
        fwp_reason = [], fwp_rollback = [], fwp_rollback_steps = []\<rparr>,
      tp_loop_risks = [], tp_warnings = [], tp_steps = [], tp_rollback_steps = []\<rparr>"

definition demo_state :: "unit host_state" where
  "demo_state = \<lparr>hs_run = \<lparr>nr_world = (), nr_tick = 0, nr_log = []\<rparr>, hs_trace = []\<rparr>"

definition demo_result :: "string list \<Rightarrow> CommandResult" where
  "demo_result args =
     \<lparr>cmd_stdout = (if take 1 args = [''-details''] then ''tun type tun state UP'' else []), cmd_stderr = [],
      cmd_raw_stdout = [], cmd_raw_stderr = [], cmd_exit = 0\<rparr>"

lemma demo_observe: "observeCommand demo_host name args s = (add_trace (Ran name args) s, Inr (demo_result args))"
  by (simp add: observeCommand_def run_raw_def bindp_def host_act_def demo_host_def demo_run_def ret_def set_world_def
      demo_result_def)

lemma demo_runCommand: "runCommand demo_host name args s = (add_trace (Ran name args) s, Inr ())"
  by (simp add: runCommand_def bindp_def demo_observe ret_def)

lemma demo_device: "device_phase demo_host (tp_device demo_tun_plan) s =
    (add_trace (Ran ''ip'' [''-details'', ''link'', ''show'', ''dev'', ''podlaz0'']) s, Inr ())"
proof -
  let ?t = "''tun type tun state UP''"
  have t: "trim_space ?t = ?t" by (rule trim_space_ends) (simp_all add: blank_def)
  have l: "nonEmptyLines ?t = [?t]" by (simp add: nonEmptyLines_def t)
  have 1: "tunLinkOutputIsTun ?t"
    by (simp add: tunLinkOutputIsTun_def t Prelude.fields_def fields_from_char upt_rec)
  have 2: "linkOutputIsUp ?t"
    by (simp add: linkOutputIsUp_def firstLine_def t l)
  have "verifyTUNLinkDetails \<lparr>tdp_name = ''podlaz0'', tdp_mtu = 0, tdp_action = ''verify'', tdp_reason = []\<rparr> ?t = None"
    by (simp add: verifyTUNLinkDetails_def t 1 2)
  then show ?thesis
    by (simp add: device_phase_def demo_tun_plan_def tunDeviceAction_def lower_char_def TunDevice_Verify_def
        wrapping_def map_err_def bindp_def demo_observe demo_result_def checke_def ret_def)
qed

lemma demo_recorded:
  assumes "m s = (s1, Inr st)" and "named st"
  shows "apply_recorded demo_host True ph steps m s = (add_trace (RecordedStep st) s1, Inr (steps @ [st]))"
  using assms
  by (simp add: apply_recorded_def bindp_def tryp_def recordAppliedStep_def named_def host_act_def demo_host_def ret_def
      set_world_def)

lemma demo_lists: "tp_routes demo_tun_plan = [demo_route]" "tp_rules demo_tun_plan = [demo_rule]"
  "IsTunAddAction (trp_action demo_route)" "IsTunAddAction (prp_action demo_rule)"
  "\<not> shouldApplyTunAddress (tp_address demo_tun_plan)"
  by (simp_all add: demo_tun_plan_def demo_route_def demo_rule_def IsTunAddAction_def shouldApplyTunAddress_def)

lemma demo_route_add: "\<exists>s1 st. Route_Add demo_host demo_route s = (s1, Inr st) \<and> named st"
proof -
  have "route_precheck demo_host demo_route s = (s, Inr False)" for s
    by (simp add: route_precheck_def demo_route_def exclusiveAllocatedRouteTable_def mainServerBypassRoute_def
        routeTable_def TunActionAddExclusive_def TunRoutingTable_def MainRoutingTable_def ret_def)
  moreover have "\<not> exclusiveAllocatedRouteTable demo_route"
    by (simp add: demo_route_def exclusiveAllocatedRouteTable_def TunActionAddExclusive_def)
  ultimately show ?thesis
    by (simp add: Route_Add_def Let_def bindp_def with_step_def map_err_def wrapping_def demo_runCommand flushIPv4RouteCache_def
        ret_def)
qed

lemma demo_rule_add: "\<exists>s1 st. PolicyRule_Add demo_host demo_rule s = (s1, Inr st) \<and> named st"
proof -
  have r: "nonEmptyLines [] = []" by (simp add: nonEmptyLines_def)
  have x: "prp_action demo_rule \<noteq> TunActionAddExclusive"
    by (simp add: demo_rule_def TunActionAddExclusive_def)
  have "\<exists>s1. rule_precheck demo_host demo_rule s = (s1, Inr False)"
    using x by (simp add: rule_precheck_def bindp_def wrapping_def map_err_def policyRulePriorityLines_def demo_observe
        demo_result_def r ret_def)
  then show ?thesis
    using x by (auto simp: PolicyRule_Add_def Let_def bindp_def with_step_def map_err_def wrapping_def demo_runCommand
        flushIPv4RouteCache_def ret_def)
qed

lemma demo_apply: "\<exists>s' a b. ApplyWithStepSink demo_host True demo_tun_plan demo_state = (s', Inr [a, b])"
proof -
  let ?s = "add_trace (Ran ''ip'' [''-details'', ''link'', ''show'', ''dev'', ''podlaz0'']) demo_state"
  obtain s1 a where a: "Route_Add demo_host demo_route ?s = (s1, Inr a)" "named a"
    using demo_route_add by blast
  obtain s2 b where b: "PolicyRule_Add demo_host demo_rule (add_trace (RecordedStep a) s1) = (s2, Inr b)" "named b"
    using demo_rule_add by blast
  show ?thesis
    using demo_recorded [of "Route_Add demo_host demo_route", OF a] demo_recorded [of "PolicyRule_Add demo_host demo_rule", OF b]
    by (simp add: ApplyWithStepSink_def bindp_def map_err_def demo_device demo_lists ret_def)
qed

theorem apply_records_before_next_resource_witness:
  "\<exists>s' a b. ApplyWithStepSink demo_host True demo_tun_plan demo_state = (s', Inr [a, b]) \<and>
     recorded (hs_trace s') = [a, b] \<and> added (hs_trace s') = 2"
proof -
  obtain s' a b where r: "ApplyWithStepSink demo_host True demo_tun_plan demo_state = (s', Inr [a, b])"
    using demo_apply by blast
  from apply_records_before_next_resource [OF r] r show ?thesis by (auto simp: demo_state_def)
qed

end
