(* ===== verification/Recovery_Authority.thy ===== *)
theory Recovery_Authority
  imports Nft_Mutation Transaction
begin

text \<open>
  Which cleanup a persisted transaction authorises.  This theory models the decisions of
  \<^verbatim>\<open>src/internal/recovery\<close> that look only at the transaction record: the validation of raw rollback and
  applied entries (\<^verbatim>\<open>rollback_raw_validation.go\<close>), the comparison of the applied, rollback and desired
  multisets (\<^verbatim>\<open>desired_plan_rollback.go\<close>), the exact identities of a session
  (\<^verbatim>\<open>network_session_cleanup_executor.go\<close>, \<^verbatim>\<open>daemon_executor.go\<close>), the reconstruction of the persisted
  firewall composition (\<^verbatim>\<open>nftables_exact_rollback.go\<close>) and the ownership of observed routing state
  (\<^verbatim>\<open>routing_ownership.go\<close>).

  A Go \<^verbatim>\<open>map[string]int\<close> counter is an association list in the order of first insertion; Go iterates over
  a map in an unspecified order, which only permutes the texts of reasons.  The function \<open>quote\<close> stands
  for the formatting verb \<^verbatim>\<open>%q\<close>, which needs the Unicode tables; it only occurs in a message.
\<close>

section \<open>Owners and targets\<close>

definition managedInterface :: string where "managedInterface = ''podlaz0''"
definition managedRouteTable :: string where "managedRouteTable = ''podlaz''"
definition managedRouteTableID :: string where "managedRouteTableID = ''51820''"
definition OwnerTunDevice :: string where "OwnerTunDevice = ''podlaz:tun-device''"
definition OwnerTunAddress :: string where "OwnerTunAddress = ''podlaz:tun-address''"
definition OwnerRoute :: string where "OwnerRoute = ''podlaz:route''"
definition OwnerPolicyRule :: string where "OwnerPolicyRule = ''podlaz:policy-rule''"
definition OwnerDNS :: string where "OwnerDNS = ''podlaz:dns-link''"
definition OwnerFirewall :: string where "OwnerFirewall = ''podlaz:nftables''"
definition normalizedSystemdResolvedBackend :: string where
  "normalizedSystemdResolvedBackend = ''systemd-resolved''"

lemmas owner_defs = OwnerTunDevice_def OwnerTunAddress_def OwnerRoute_def OwnerPolicyRule_def OwnerDNS_def
  OwnerFirewall_def TransactionOwner_def

definition ownedRollbackMetadata :: "string \<Rightarrow> string \<Rightarrow> bool" where
  "ownedRollbackMetadata owner expected =
     (trim_space expected \<noteq> [] \<and> (trim_space owner = trim_space expected \<or> trim_space owner = TransactionOwner))"

definition normalizedRollbackOwner :: "string \<Rightarrow> string \<Rightarrow> string" where
  "normalizedRollbackOwner owner expected =
     (if trim_space owner = TransactionOwner then expected else trim_space owner)"

definition isManagedNFTTarget :: "string \<Rightarrow> string \<Rightarrow> bool" where
  "isManagedNFTTarget family table = (trim_space family = ''inet'' \<and> trim_space table = ''podlaz'')"

definition managedTableToken :: "string \<Rightarrow> string option" where
  "managedTableToken table =
     (if trim_space table = managedRouteTable \<or> trim_space table = managedRouteTableID
      then Some managedRouteTableID else None)"

definition systemdResolvedBackend :: "string \<Rightarrow> bool" where
  "systemdResolvedBackend backend =
     (trim_space backend = [] \<or> trim_space backend = normalizedSystemdResolvedBackend \<or>
      trim_space backend = ''systemd-resolved per-link DNS'')"

definition is4_host_prefix :: "string \<Rightarrow> bool" where
  "is4_host_prefix s = (case parse_prefix s of Some (Prefix (IP4 w) n) \<Rightarrow> n = 32 | _ \<Rightarrow> False)"

definition is4_addr :: "string \<Rightarrow> bool" where
  "is4_addr s = (case parse_addr s of Some (IP4 w) \<Rightarrow> True | _ \<Rightarrow> False)"

definition tunAddressRollbackTarget :: "TUNAddressRollback \<Rightarrow> string" where
  "tunAddressRollbackTarget a =
     trim_space (tar_interface_name a) @ ''@ifindex='' @ itoa_int (tar_link_index a) @ '':'' @ trim_space (tar_cidr a)"

definition routeRollbackTarget :: "RouteRollback \<Rightarrow> string" where
  "routeRollbackTarget r = trim_space (rr_table r) @ '' '' @ trim_space (rr_cidr r)"

definition policyRuleRollbackTarget :: "PolicyRuleRollback \<Rightarrow> string" where
  "policyRuleRollbackTarget r =
     (let selector =
        (if trim_space (pr_from r) \<noteq> [] then ''from '' @ trim_space (pr_from r)
         else if trim_space (pr_to r) \<noteq> [] then ''to '' @ trim_space (pr_to r)
         else if trim_space (pr_mark r) \<noteq> [] then ''fwmark '' @ trim_space (pr_mark r)
         else [])
      in ''priority '' @ itoa_int (pr_priority r) @ '' '' @ selector @ '' lookup '' @ trim_space (pr_table r))"

definition nftRollbackTarget :: "NFTablesRollback \<Rightarrow> string" where
  "nftRollbackTarget n = trim_space (nr_family n) @ '' '' @ trim_space (nr_table n)"

definition bypass_route_of :: "RoutePlan \<Rightarrow> RouteRollback" where
  "bypass_route_of p = \<lparr>rr_table = rp_table p, rr_cidr = rp_cidr p, rr_via = rp_via p, rr_dev = rp_dev p,
     rr_owner = rp_owner p\<rparr>"

definition address_rollback_of :: "TUNAddressDesiredState \<Rightarrow> TUNAddressRollback" where
  "address_rollback_of a =
     \<lparr>tar_family = ta_family a, tar_interface_name = ta_interface_name a, tar_cidr = ta_cidr a,
      tar_scope = ta_scope a, tar_link_index = ta_link_index a, tar_link_kind = ta_link_kind a,
      tar_appeared_after_core = ta_appeared_after_core a, tar_owner = ta_owner a\<rparr>"

definition nft_rollback_of :: "NFTPlan \<Rightarrow> NFTablesRollback" where
  "nft_rollback_of n = \<lparr>nr_family = np_family n, nr_table = np_table n, nr_chain = [], nr_owner = np_owner n\<rparr>"

section \<open>Validity of raw entries\<close>

definition rawTUNRollbackEntryValid :: "TUNRollback \<Rightarrow> bool" where
  "rawTUNRollbackEntryValid t =
     (ownedRollbackMetadata (tr_owner t) OwnerTunDevice \<and> trim_space (tr_interface_name t) = managedInterface)"

definition rawTUNAddressRollbackEntryValid :: "TUNAddressRollback \<Rightarrow> bool" where
  "rawTUNAddressRollbackEntryValid a =
     (ownedRollbackMetadata (tar_owner a) OwnerTunAddress \<and> trim_space (tar_interface_name a) = managedInterface \<and>
      trim_space (tar_family a) = ''ipv4'' \<and> trim_space (tar_scope a) = ''global'' \<and>
      IsAllocatedTunIPv4CIDR (tar_cidr a) \<and> 0 < tar_link_index a \<and> trim_space (tar_link_kind a) = ''tun'' \<and>
      tar_appeared_after_core a)"

definition safeMainServerBypassRouteShape :: "RouteRollback \<Rightarrow> bool" where
  "safeMainServerBypassRouteShape r =
     (if trim_space (rr_table r) \<noteq> MainRoutingTable \<or> trim_space (rr_dev r) = [] then False
      else if \<not> is4_host_prefix (trim_space (rr_cidr r)) then False
      else if trim_space (rr_via r) = [] then True
      else is4_addr (trim_space (rr_via r)))"

definition rawRouteRollbackEntryValid :: "RouteRollback \<Rightarrow> bool" where
  "rawRouteRollbackEntryValid r =
     (if \<not> ownedRollbackMetadata (rr_owner r) OwnerRoute \<or> trim_space (rr_cidr r) = [] \<or> trim_space (rr_table r) = []
      then False
      else if trim_space (rr_table r) = MainRoutingTable then safeMainServerBypassRouteShape r
      else if managedTableToken (rr_table r) = None \<and> \<not> IsAllocatedTunRoutingTable (rr_table r) then False
      else trim_space (rr_dev r) = [] \<or> trim_space (rr_dev r) = managedInterface)"

definition safeMainServerBypassPolicyRuleShape :: "PolicyRuleRollback \<Rightarrow> bool" where
  "safeMainServerBypassPolicyRuleShape r =
     (if trim_space (pr_table r) \<noteq> MainRoutingTable \<or> trim_space (pr_from r) \<noteq> [] then False
      else if trim_space (pr_mark r) \<noteq> [] then
        (if trim_space (pr_to r) \<noteq> [] then False
         else case parse_uint0 32 (trim_space (pr_mark r)) of None \<Rightarrow> False | Some v \<Rightarrow> v \<noteq> 0)
      else is4_host_prefix (trim_space (pr_to r)))"

definition rawPolicyRuleRollbackEntryValid :: "PolicyRuleRollback \<Rightarrow> bool" where
  "rawPolicyRuleRollbackEntryValid r =
     (if \<not> ownedRollbackMetadata (pr_owner r) OwnerPolicyRule \<or> pr_priority r \<le> 0 \<or> 32766 \<le> pr_priority r \<or>
         trim_space (pr_table r) = [] then False
      else if trim_space (pr_table r) = MainRoutingTable then safeMainServerBypassPolicyRuleShape r
      else if managedTableToken (pr_table r) \<noteq> None then True
      else IsAllocatedTunRoutingTable (pr_table r))"

definition rawDNSRollbackEntryValid :: "DNSRollback \<Rightarrow> bool" where
  "rawDNSRollbackEntryValid d =
     (ownedRollbackMetadata (dr_owner d) OwnerDNS \<and> trim_space (dr_link d) = managedInterface \<and>
      systemdResolvedBackend (dr_backend d))"

definition rawNFTablesRollbackEntryValid :: "NFTablesRollback \<Rightarrow> bool" where
  "rawNFTablesRollbackEntryValid n =
     (ownedRollbackMetadata (nr_owner n) OwnerFirewall \<and> isManagedNFTTarget (nr_family n) (nr_table n))"

section \<open>Counters\<close>

type_synonym counter = "(string \<times> nat) list"

definition counted :: "counter \<Rightarrow> string \<Rightarrow> nat" where
  "counted c k = (case map_of c k of None \<Rightarrow> 0 | Some n \<Rightarrow> n)"

definition count_key :: "counter \<Rightarrow> string \<Rightarrow> counter" where
  "count_key c k = AList.update k (counted c k + 1) c"

definition counter_of :: "string list \<Rightarrow> counter" where
  "counter_of ks = foldl count_key [] ks"

definition stringCounterEqual :: "counter \<Rightarrow> counter \<Rightarrow> bool" where
  "stringCounterEqual left right =
     (length left = length right \<and> list_all (\<lambda>(k, n). counted right k = n) left)"

definition stringCounterSubset :: "counter \<Rightarrow> counter \<Rightarrow> bool" where
  "stringCounterSubset sub super = list_all (\<lambda>(k, n). n \<le> counted super k) sub"

fun compact_from :: "string list \<Rightarrow> string list \<Rightarrow> string list" where
  "compact_from seen [] = []"
| "compact_from seen (v # vs) =
     (if trim_space v = [] \<or> trim_space v \<in> set seen then compact_from seen vs
      else trim_space v # compact_from (trim_space v # seen) vs)"

definition compactReasonStrings :: "string list \<Rightarrow> string list" where
  "compactReasonStrings vs = compact_from [] vs"

section \<open>Steps and keys\<close>

definition nul :: string where "nul = [CHR 0x00]"

definition appliedStepKey :: "string \<Rightarrow> string \<Rightarrow> string \<Rightarrow> string" where
  "appliedStepKey kind target owner = trim_space kind @ nul @ trim_space target @ nul @ trim_space owner"

definition knownNetworkAppliedStepKind :: "string \<Rightarrow> bool" where
  "knownNetworkAppliedStepKind kind =
     (kind \<in> {''tun-device'', ''tun-address'', ''route'', ''policy-rule'', ''dns'', ''nftables''})"

definition kind_owner :: "string \<Rightarrow> string option" where
  "kind_owner kind =
     (if kind = ''tun-device'' then Some OwnerTunDevice
      else if kind = ''tun-address'' then Some OwnerTunAddress
      else if kind = ''route'' then Some OwnerRoute
      else if kind = ''policy-rule'' then Some OwnerPolicyRule
      else if kind = ''dns'' then Some OwnerDNS
      else if kind = ''nftables'' then Some OwnerFirewall
      else None)"

definition ownedNetworkStepOwner :: "string \<Rightarrow> string \<Rightarrow> bool" where
  "ownedNetworkStepOwner kind owner =
     (case kind_owner kind of None \<Rightarrow> False | Some expected \<Rightarrow> ownedRollbackMetadata owner expected)"

definition normalizeAppliedStepOwner :: "string \<Rightarrow> string \<Rightarrow> string" where
  "normalizeAppliedStepOwner owner kind =
     (case kind_owner kind of None \<Rightarrow> trim_space owner | Some expected \<Rightarrow> normalizedRollbackOwner owner expected)"

definition networkAppliedStep :: "AppliedStep \<Rightarrow> bool" where
  "networkAppliedStep s = (knownNetworkAppliedStepKind (as_kind s) \<and> ownedNetworkStepOwner (as_kind s) (as_owner s))"

definition applied_key :: "AppliedStep \<Rightarrow> string" where
  "applied_key s = appliedStepKey (as_kind s) (as_target s) (normalizeAppliedStepOwner (as_owner s) (as_kind s))"

definition appliedNetworkStepCounter :: "AppliedStep list \<Rightarrow> counter" where
  "appliedNetworkStepCounter applied = counter_of (map applied_key (filter networkAppliedStep applied))"

definition rollback_keys :: "RollbackMetadata \<Rightarrow> string list" where
  "rollback_keys rb =
     map (\<lambda>i. appliedStepKey ''tun-device'' (trim_space (tr_interface_name i)) OwnerTunDevice)
       (filter (\<lambda>i. ownedRollbackMetadata (tr_owner i) OwnerTunDevice) (rb_tun rb)) @
     map (\<lambda>i. appliedStepKey ''tun-address'' (tunAddressRollbackTarget i) OwnerTunAddress)
       (filter (\<lambda>i. ownedRollbackMetadata (tar_owner i) OwnerTunAddress) (rb_tun_addresses rb)) @
     map (\<lambda>i. appliedStepKey ''route'' (routeRollbackTarget i) OwnerRoute)
       (filter (\<lambda>i. ownedRollbackMetadata (rr_owner i) OwnerRoute) (rb_routes rb)) @
     map (\<lambda>i. appliedStepKey ''policy-rule'' (policyRuleRollbackTarget i) OwnerPolicyRule)
       (filter (\<lambda>i. ownedRollbackMetadata (pr_owner i) OwnerPolicyRule) (rb_policy_rules rb)) @
     map (\<lambda>i. appliedStepKey ''dns'' (trim_space (dr_link i)) OwnerDNS)
       (filter (\<lambda>i. ownedRollbackMetadata (dr_owner i) OwnerDNS) (rb_dns rb)) @
     map (\<lambda>i. appliedStepKey ''nftables'' (nftRollbackTarget i) OwnerFirewall)
       (filter (\<lambda>i. ownedRollbackMetadata (nr_owner i) OwnerFirewall) (rb_nftables rb))"

definition rollbackNetworkStepCounter :: "RollbackMetadata \<Rightarrow> counter" where
  "rollbackNetworkStepCounter rb = counter_of (rollback_keys rb)"

definition routeRollbackKey :: "RouteRollback \<Rightarrow> string" where
  "routeRollbackKey r =
     join nul [trim_space (rr_table r), trim_space (rr_cidr r), trim_space (rr_via r), trim_space (rr_dev r),
               normalizedRollbackOwner (rr_owner r) OwnerRoute]"

definition policyRuleRollbackKey :: "PolicyRuleRollback \<Rightarrow> string" where
  "policyRuleRollbackKey r =
     join nul [itoa_int (pr_priority r), trim_space (pr_from r), trim_space (pr_to r), trim_space (pr_table r),
               trim_space (pr_mark r), normalizedRollbackOwner (pr_owner r) OwnerPolicyRule]"

definition dnsRollbackKey :: "DNSRollback \<Rightarrow> string" where
  "dnsRollbackKey d =
     join nul [trim_space (dr_backend d), trim_space (dr_link d), join '','' (dr_search_domains d),
               normalizedRollbackOwner (dr_owner d) OwnerDNS]"

definition nftRollbackKey :: "NFTablesRollback \<Rightarrow> string" where
  "nftRollbackKey n =
     join nul [trim_space (nr_family n), trim_space (nr_table n), normalizedRollbackOwner (nr_owner n) OwnerFirewall]"

section \<open>Desired tuples\<close>

definition desired_route :: "RoutePlan \<Rightarrow> bool" where
  "desired_route p = (rp_operation p = ''add'' \<and> ownedRollbackMetadata (rp_owner p) OwnerRoute)"

definition desiredRouteCounter :: "RoutePlan list \<Rightarrow> counter" where
  "desiredRouteCounter routes =
     counter_of (map (\<lambda>p. routeRollbackKey (bypass_route_of p)) (filter desired_route routes))"

definition desiredPolicyRuleRollback :: "PlannedStep \<Rightarrow> PolicyRuleRollback option" where
  "desiredPolicyRuleRollback s =
     (if ps_kind s \<noteq> ''policy-rule'' \<or> \<not> ownedRollbackMetadata (ps_owner s) OwnerPolicyRule then None
      else
        (let fs = Prelude.fields (ps_target s) in
         if length fs \<noteq> 6 \<or> fs ! 0 \<noteq> ''priority'' \<or> fs ! 4 \<noteq> ''lookup'' then None
         else case atoi (fs ! 1) of
           None \<Rightarrow> None
         | Some priority \<Rightarrow>
             (let rule = \<lparr>pr_priority = priority, pr_from = [], pr_to = [], pr_table = fs ! 5, pr_mark = [],
                          pr_owner = ps_owner s\<rparr> in
              if fs ! 2 = ''from'' then Some (rule\<lparr>pr_from := fs ! 3\<rparr>)
              else if fs ! 2 = ''to'' then Some (rule\<lparr>pr_to := fs ! 3\<rparr>)
              else if fs ! 2 = ''fwmark'' then
                (if parse_uint0 32 (fs ! 3) = None then None else Some (rule\<lparr>pr_mark := fs ! 3\<rparr>))
              else None)))"

definition desiredPolicyRuleCounter :: "PlannedStep list \<Rightarrow> counter" where
  "desiredPolicyRuleCounter steps =
     counter_of (map policyRuleRollbackKey (List.map_filter desiredPolicyRuleRollback steps))"

definition desiredDNSCounter :: "DNSPlan \<Rightarrow> counter" where
  "desiredDNSCounter d =
     counter_of
       (if ownedRollbackMetadata (dp_owner d) OwnerDNS \<and> trim_space (dp_link d) \<noteq> []
        then [dnsRollbackKey \<lparr>dr_backend = dp_backend d, dr_link = dp_link d, dr_previous = [],
                dr_search_domains = dp_search_domains d, dr_owner = dp_owner d\<rparr>]
        else [])"

definition desiredNFTCounter :: "NFTPlan \<Rightarrow> counter" where
  "desiredNFTCounter n =
     counter_of
       (if ownedRollbackMetadata (np_owner n) OwnerFirewall \<and> trim_space (np_family n) \<noteq> [] \<and>
           trim_space (np_table n) \<noteq> []
        then [nftRollbackKey (nft_rollback_of n)] else [])"

text \<open>\<open>ambiguousDesiredRouteShortTargetMismatches\<close>: for each short target of the owned rollback routes, the
  full tuples of the desired routes with this target and how often the single tuple occurs.\<close>

definition desired_fulls :: "RoutePlan list \<Rightarrow> string \<Rightarrow> counter" where
  "desired_fulls desired short =
     counter_of (map (\<lambda>p. routeRollbackKey (bypass_route_of p))
       (filter (\<lambda>p. desired_route p \<and> routeRollbackTarget (bypass_route_of p) = short) desired))"

definition ambiguousDesiredRouteShortTargetMismatches :: "RoutePlan list \<Rightarrow> RouteRollback list \<Rightarrow> string list" where
  "ambiguousDesiredRouteShortTargetMismatches desired rollback =
     concat (map (\<lambda>(short, n).
         if length (desired_fulls desired short) \<noteq> 1
         then [''route desired plan has ambiguous full tuples for applied route target '' @ short]
         else concat (map (\<lambda>(full, d).
                if d \<noteq> n then [''route desired plan cardinality does not match applied route target '' @ short] else [])
              (desired_fulls desired short)))
       (counter_of (map routeRollbackTarget
          (filter (\<lambda>r. ownedRollbackMetadata (rr_owner r) OwnerRoute) rollback))))"

definition subset_reasons :: "string \<Rightarrow> string \<Rightarrow> string list \<Rightarrow> counter \<Rightarrow> string list \<Rightarrow> string list" where
  "subset_reasons missing mismatch keys desired extra =
     (if keys = [] then []
      else if desired = [] then [missing]
      else (if stringCounterSubset (counter_of keys) desired then [] else [mismatch]) @ extra)"

definition rollbackDesiredSubsetMismatches :: "DesiredPlan \<Rightarrow> RollbackMetadata \<Rightarrow> string list" where
  "rollbackDesiredSubsetMismatches desired rb =
     subset_reasons ''route rollback requires exact desired route tuple metadata''
       ''route rollback multiset is not an exact subset of desired route multiset''
       (map routeRollbackKey (rb_routes rb)) (desiredRouteCounter (pl_routes desired))
       (ambiguousDesiredRouteShortTargetMismatches (pl_routes desired) (rb_routes rb)) @
     subset_reasons ''policy-rule rollback requires exact desired policy-rule tuple metadata''
       ''policy-rule rollback multiset is not an exact subset of desired policy-rule multiset''
       (map policyRuleRollbackKey (rb_policy_rules rb)) (desiredPolicyRuleCounter (pl_steps desired)) [] @
     subset_reasons ''DNS rollback requires exact desired DNS tuple metadata''
       ''DNS rollback multiset is not an exact subset of desired DNS multiset''
       (map dnsRollbackKey (rb_dns rb)) (desiredDNSCounter (pl_dns desired)) [] @
     subset_reasons ''nftables rollback requires exact desired nftables tuple metadata''
       ''nftables rollback multiset is not an exact subset of desired nftables multiset''
       (map nftRollbackKey (rb_nftables rb)) (desiredNFTCounter (pl_nft desired)) []"

section \<open>Consistency of a transaction\<close>

definition entry_reasons :: "string \<Rightarrow> ('a \<Rightarrow> bool) \<Rightarrow> 'a list \<Rightarrow> string list" where
  "entry_reasons what valid items =
     concat (map (\<lambda>(i, x). if valid x then []
        else [''raw '' @ what @ '' rollback entry '' @ itoa i @ '' is unsupported or incomplete'']) (List.enumerate 0 items))"

definition rawRollbackMetadataReasons :: "RollbackMetadata \<Rightarrow> string list" where
  "rawRollbackMetadataReasons rb =
     compactReasonStrings
       (entry_reasons ''TUN'' rawTUNRollbackEntryValid (rb_tun rb) @
        entry_reasons ''TUN address'' rawTUNAddressRollbackEntryValid (rb_tun_addresses rb) @
        entry_reasons ''route'' rawRouteRollbackEntryValid (rb_routes rb) @
        entry_reasons ''policy-rule'' rawPolicyRuleRollbackEntryValid (rb_policy_rules rb) @
        entry_reasons ''DNS'' rawDNSRollbackEntryValid (rb_dns rb) @
        entry_reasons ''nftables'' rawNFTablesRollbackEntryValid (rb_nftables rb))"

definition rawAppliedStepLooksNetworkOwned :: "AppliedStep \<Rightarrow> bool" where
  "rawAppliedStepLooksNetworkOwned s =
     (let owner = trim_space (as_owner s) in
      knownNetworkAppliedStepKind (trim_space (as_kind s)) \<or> owner = TransactionOwner \<or>
      owner \<in> {OwnerTunDevice, OwnerTunAddress, OwnerRoute, OwnerPolicyRule, OwnerDNS, OwnerFirewall} \<or>
      starts (TransactionOwner @ '':'') owner)"

definition desiredAppliedStepTargetCount :: "PlannedStep list \<Rightarrow> string \<Rightarrow> string \<Rightarrow> string \<Rightarrow> nat" where
  "desiredAppliedStepTargetCount steps kind target owner =
     length (filter (\<lambda>s. ps_kind s = kind \<and> trim_space (ps_target s) = trim_space target \<and>
                         ownedRollbackMetadata (ps_owner s) owner) steps)"

definition rawAppliedStepTargetHasDesiredMapping :: "DesiredPlan \<Rightarrow> AppliedStep \<Rightarrow> bool" where
  "rawAppliedStepTargetHasDesiredMapping desired s =
     (if as_kind s = ''tun-device'' then
        trim_space (as_target s) = managedInterface \<and> ownedRollbackMetadata (as_owner s) OwnerTunDevice
      else if as_kind s = ''tun-address'' then
        trim_space (as_target s) = tunAddressRollbackTarget (address_rollback_of (pl_tun_address desired)) \<and>
        rawTUNAddressRollbackEntryValid (address_rollback_of (pl_tun_address desired))
      else if as_kind s = ''route'' then
        length (filter (\<lambda>p. desired_route p \<and> trim_space (as_target s) = routeRollbackTarget (bypass_route_of p))
          (pl_routes desired)) = 1
      else if as_kind s = ''policy-rule'' then
        desiredAppliedStepTargetCount (pl_steps desired) ''policy-rule'' (as_target s) OwnerPolicyRule = 1
      else if as_kind s = ''dns'' then
        trim_space (as_target s) = trim_space (dp_link (pl_dns desired)) \<and>
        ownedRollbackMetadata (dp_owner (pl_dns desired)) OwnerDNS
      else if as_kind s = ''nftables'' then
        trim_space (as_target s) = nftRollbackTarget (nft_rollback_of (pl_nft desired)) \<and>
        rawNFTablesRollbackEntryValid (nft_rollback_of (pl_nft desired))
      else False)"

text \<open>The checks of one applied step: its reasons, and whether it enters the counter.\<close>

definition applied_step_reasons :: "(string \<Rightarrow> string) \<Rightarrow> DesiredPlan \<Rightarrow> nat \<Rightarrow> AppliedStep \<Rightarrow> string list \<times> bool" where
  "applied_step_reasons quote desired i s =
     (let kind = trim_space (as_kind s); text = ''raw applied network step '' @ itoa i in
      if \<not> rawAppliedStepLooksNetworkOwned s then ([], False)
      else if \<not> knownNetworkAppliedStepKind kind then ([text @ '' has unknown kind '' @ quote kind], False)
      else if \<not> ownedNetworkStepOwner kind (as_owner s) then ([text @ '' has unsupported owner''], False)
      else if trim_space (as_target s) = [] then ([text @ '' has empty target''], False)
      else (if rawAppliedStepTargetHasDesiredMapping desired s then []
            else [text @ '' has no unique desired full-tuple mapping''], True))"

definition raw_applied_key :: "AppliedStep \<Rightarrow> string" where
  "raw_applied_key s =
     (let kind = trim_space (as_kind s) in
      appliedStepKey kind (as_target s) (normalizeAppliedStepOwner (as_owner s) kind))"

definition rawAppliedNetworkStepReasons :: "(string \<Rightarrow> string) \<Rightarrow> Transaction \<Rightarrow> string list" where
  "rawAppliedNetworkStepReasons quote tx =
     (let steps = List.enumerate 0 (tx_applied_steps tx); desired = tx_desired_plan tx;
          appliedCounter = counter_of (map (\<lambda>(i, s). raw_applied_key s)
             (filter (\<lambda>(i, s). snd (applied_step_reasons quote desired i s)) steps))
      in compactReasonStrings
           (concat (map (\<lambda>(i, s). fst (applied_step_reasons quote desired i s)) steps) @
            (if list_all (\<lambda>(k, n). counted (rollbackNetworkStepCounter (tx_rollback tx)) k = n) appliedCounter then []
             else [''raw applied network ownership multiset is not exactly represented in rollback metadata''])))"

definition rawTransactionNetworkOwnershipReasons :: "(string \<Rightarrow> string) \<Rightarrow> Transaction \<Rightarrow> string list" where
  "rawTransactionNetworkOwnershipReasons quote tx =
     compactReasonStrings (rawRollbackMetadataReasons (tx_rollback tx) @ rawAppliedNetworkStepReasons quote tx)"

definition multiset_mismatch :: string where
  "multiset_mismatch = ''applied network ownership multiset does not match rollback network multiset''"

definition applyingAppliedRollbackMismatches :: "counter \<Rightarrow> counter \<Rightarrow> string list" where
  "applyingAppliedRollbackMismatches applied rollback =
     (if stringCounterEqual applied rollback then [] else [multiset_mismatch])"

definition rollbackOwnershipConsistencyReasons ::
  "(string \<Rightarrow> string) \<Rightarrow> Transaction \<Rightarrow> RollbackMetadata \<Rightarrow> string list" where
  "rollbackOwnershipConsistencyReasons quote tx rollback =
     (let reasons = rawTransactionNetworkOwnershipReasons quote tx;
          rollbackCounter = rollbackNetworkStepCounter rollback;
          appliedCounter = appliedNetworkStepCounter (tx_applied_steps tx) in
      if rollbackCounter = [] \<and> appliedCounter = [] then compactReasonStrings reasons
      else if tx_state tx = TransactionPlanned
      then compactReasonStrings (reasons @ [''planned transaction cannot authorize network cleanup''])
      else
        compactReasonStrings
          (reasons @ rollbackDesiredSubsetMismatches (tx_desired_plan tx) rollback @
           (if tx_state tx = TransactionApplying
            then applyingAppliedRollbackMismatches appliedCounter rollbackCounter
            else if \<not> stringCounterEqual appliedCounter rollbackCounter then [multiset_mismatch] else [])))"

definition mutationFreeAmbiguousRollback :: "RollbackMetadata \<Rightarrow> string list \<Rightarrow> RollbackMetadata" where
  "mutationFreeAmbiguousRollback rb reasons =
     zero_rollback
       \<lparr>rb_generated_configs := rb_generated_configs rb,
        rb_child_processes := rb_child_processes rb @
          [\<lparr>cr_pid = 0, cr_pid_file = [],
            cr_label = ''ownership-consistency: '' @ join ''; '' (compactReasonStrings reasons),
            cr_config_ref = [], cr_start_time = [], cr_owner = TransactionOwner\<rparr>]\<rparr>"

definition rollbackHasNetworkOwnership :: "RollbackMetadata \<Rightarrow> bool" where
  "rollbackHasNetworkOwnership rb =
     (rb_tun rb \<noteq> [] \<or> rb_tun_addresses rb \<noteq> [] \<or> rb_routes rb \<noteq> [] \<or> rb_policy_rules rb \<noteq> [] \<or>
      rb_dns rb \<noteq> [] \<or> rb_nftables rb \<noteq> [])"

section \<open>Projection\<close>

record RollbackProjection =
  rpj_rollback :: RollbackMetadata
  rpj_incomplete :: bool
  rpj_reasons :: "string list"

definition projectRollbackMetadataWithoutApplyingGaps ::
  "(string \<Rightarrow> string) \<Rightarrow> Transaction \<Rightarrow> RollbackProjection" where
  "projectRollbackMetadataWithoutApplyingGaps quote tx =
     (let rollback = tx_rollback tx; reasons = rollbackOwnershipConsistencyReasons quote tx rollback;
          a = pl_tun_address (tx_desired_plan tx) in
      if reasons \<noteq> [] then
        \<lparr>rpj_rollback = mutationFreeAmbiguousRollback rollback reasons, rpj_incomplete = True, rpj_reasons = reasons\<rparr>
      else if rb_tun_addresses rollback = [] \<and> tx_state tx = TransactionApplying \<and>
              ta_interface_name a = managedInterface \<and> 0 < ta_link_index a \<and> ta_link_kind a = ''tun'' \<and>
              ta_appeared_after_core a \<and> trim_space (ta_cidr a) = DefaultTunIPv4CIDR \<and>
              ownedRollbackMetadata (ta_owner a) OwnerTunAddress then
        \<lparr>rpj_rollback = rollback\<lparr>rb_tun_addresses := [address_rollback_of a]\<rparr>, rpj_incomplete = False, rpj_reasons = []\<rparr>
      else \<lparr>rpj_rollback = rollback, rpj_incomplete = False, rpj_reasons = []\<rparr>)"

definition recoveryRollbackMetadata :: "(string \<Rightarrow> string) \<Rightarrow> Transaction \<Rightarrow> RollbackMetadata" where
  "recoveryRollbackMetadata quote tx = rpj_rollback (projectRollbackMetadataWithoutApplyingGaps quote tx)"

definition desiredTunAddressIntent :: "TUNAddressDesiredState \<Rightarrow> bool" where
  "desiredTunAddressIntent a =
     (ta_owner a = OwnerTunAddress \<and> ta_interface_name a = managedInterface \<and> trim_space (ta_cidr a) \<noteq> [])"

definition boundApplyingTunAddressCandidate :: "TUNAddressDesiredState \<Rightarrow> bool" where
  "boundApplyingTunAddressCandidate a =
     (desiredTunAddressIntent a \<and> 0 < ta_link_index a \<and> ta_link_kind a = ''tun'' \<and> ta_appeared_after_core a \<and>
      trim_space (ta_cidr a) = DefaultTunIPv4CIDR)"

definition desiredRouteIntentCount :: "RoutePlan list \<Rightarrow> nat" where
  "desiredRouteIntentCount routes = length (filter desired_route routes)"

definition desiredPolicyRuleIntentCount :: "PlannedStep list \<Rightarrow> nat" where
  "desiredPolicyRuleIntentCount steps =
     length (filter (\<lambda>s. ps_kind s = ''policy-rule'' \<and> ownedRollbackMetadata (ps_owner s) OwnerPolicyRule) steps)"

definition desiredDNSIntent :: "DNSPlan \<Rightarrow> bool" where
  "desiredDNSIntent d = (ownedRollbackMetadata (dp_owner d) OwnerDNS \<and> trim_space (dp_link d) \<noteq> [])"

definition desiredNFTIntent :: "NFTPlan \<Rightarrow> bool" where
  "desiredNFTIntent n =
     (ownedRollbackMetadata (np_owner n) OwnerFirewall \<and> trim_space (np_family n) \<noteq> [] \<and> trim_space (np_table n) \<noteq> [])"

text \<open>The gaps of both cleanup executors; they differ in which bound address candidate they accept.\<close>

definition ownership_gaps :: "(TUNAddressDesiredState \<Rightarrow> bool) \<Rightarrow> Transaction \<Rightarrow> string list" where
  "ownership_gaps bound tx =
     (let desired = tx_desired_plan tx; rollback = tx_rollback tx in
      if tx_state tx \<noteq> TransactionApplying then []
      else
        (if desiredTunAddressIntent (pl_tun_address desired) \<and> rb_tun_addresses rollback = [] \<and>
            \<not> bound (pl_tun_address desired) then [''TUN address''] else []) @
        (if length (rb_routes rollback) < desiredRouteIntentCount (pl_routes desired) then [''routes''] else []) @
        (if length (rb_policy_rules rollback) < desiredPolicyRuleIntentCount (pl_steps desired)
         then [''policy rules''] else []) @
        (if desiredDNSIntent (pl_dns desired) \<and> rb_dns rollback = [] then [''DNS''] else []) @
        (if desiredNFTIntent (pl_nft desired) \<and> rb_nftables rollback = [] then [''nftables''] else []))"

definition applyingDesiredOwnershipGaps :: "Transaction \<Rightarrow> string list" where
  "applyingDesiredOwnershipGaps tx = ownership_gaps boundApplyingTunAddressCandidate tx"

definition ProjectRollbackMetadata :: "(string \<Rightarrow> string) \<Rightarrow> Transaction \<Rightarrow> RollbackProjection" where
  "ProjectRollbackMetadata quote tx =
     (let p = projectRollbackMetadataWithoutApplyingGaps quote tx; gaps = applyingDesiredOwnershipGaps tx in
      if rpj_incomplete p then p
      else if gaps \<noteq> [] then p\<lparr>rpj_incomplete := True, rpj_reasons := rpj_reasons p @ gaps\<rparr>
      else p)"

section \<open>The allocation of a session\<close>

record persistedNetworkSessionAllocation =
  psa_cidr :: string
  psa_table :: string
  psa_server_priority :: int
  psa_tunnel_priority :: int
  psa_mark :: "32 word"

text \<open>The target of a policy rule step: its priority, its selector and its table.\<close>

definition parseNetworkSessionPolicyRuleTarget :: "string \<Rightarrow> (int \<times> string \<times> string) option" where
  "parseNetworkSessionPolicyRuleTarget target =
     (let fs = Prelude.fields (trim_space target) in
      if length fs < 5 \<or> fs ! 0 \<noteq> ''priority'' then None
      else case atoi (fs ! 1) of
        None \<Rightarrow> None
      | Some priority \<Rightarrow>
          if priority \<le> 0 \<or> 32766 \<le> priority then None
          else case find (\<lambda>i. fs ! i = ''lookup'') [2..<length fs - 1] of
            None \<Rightarrow> None
          | Some lookup \<Rightarrow>
              if lookup \<le> 2 \<or> lookup + 1 \<noteq> length fs - 1 then None
              else
                (let selector = join '' '' (take (lookup - 2) (drop 2 fs)); table = fs ! (lookup + 1) in
                 if selector \<noteq> [] \<and> table \<noteq> [] then Some (priority, selector, table) else None))"

record allocation_scan =
  sc_allocation :: persistedNetworkSessionAllocation
  sc_server :: nat
  sc_tunnel :: nat

definition scan_policy_step :: "PlannedStep \<Rightarrow> allocation_scan \<Rightarrow> allocation_scan option" where
  "scan_policy_step s st =
     (let al = sc_allocation st in
      if ps_kind s \<noteq> ''policy-rule'' \<or> \<not> ownedRollbackMetadata (ps_owner s) OwnerPolicyRule then Some st
      else case parseNetworkSessionPolicyRuleTarget (ps_target s) of
        None \<Rightarrow> None
      | Some (priority, selector, table) \<Rightarrow>
          if table = MainRoutingTable \<and> starts ''to '' selector \<and> psa_mark al = 0 then
            (if \<not> is4_host_prefix (drop 3 selector) then None
             else Some (st\<lparr>sc_server := sc_server st + 1, sc_allocation := al\<lparr>psa_server_priority := priority\<rparr>\<rparr>))
          else if table = MainRoutingTable \<and> starts ''fwmark '' selector \<and> psa_mark al \<noteq> 0 then
            (case parse_uint0 32 (trim_space (drop 7 selector)) of
               None \<Rightarrow> None
             | Some mark \<Rightarrow>
                 if of_nat mark \<noteq> psa_mark al then None
                 else Some (st\<lparr>sc_server := sc_server st + 1, sc_allocation := al\<lparr>psa_server_priority := priority\<rparr>\<rparr>))
          else if table = psa_table al \<and> selector = IPv4DefaultSelector then
            Some (st\<lparr>sc_tunnel := sc_tunnel st + 1, sc_allocation := al\<lparr>psa_tunnel_priority := priority\<rparr>\<rparr>)
          else Some st)"

fun scan_policy_steps :: "PlannedStep list \<Rightarrow> allocation_scan \<Rightarrow> allocation_scan option" where
  "scan_policy_steps [] st = Some st"
| "scan_policy_steps (s # ss) st = Option.bind (scan_policy_step s st) (scan_policy_steps ss)"

definition session_default_route :: "RoutePlan \<Rightarrow> bool" where
  "session_default_route p =
     (rp_kind p = ''route'' \<and> rp_operation p = ''add'' \<and> ownedRollbackMetadata (rp_owner p) OwnerRoute \<and>
      rp_dev p = managedInterface \<and> (rp_cidr p = IPv4DefaultRoute \<or> rp_cidr p = ''0.0.0.0/0'') \<and>
      IsAllocatedTunRoutingTable (rp_table p))"

definition exactPersistedNetworkSessionAllocation :: "Transaction \<Rightarrow> persistedNetworkSessionAllocation option" where
  "exactPersistedNetworkSessionAllocation tx =
     (let desired = tx_desired_plan tx; address = pl_tun_address desired;
          routes = filter session_default_route (pl_routes desired) in
      if ta_interface_name address \<noteq> managedInterface \<or> \<not> ownedRollbackMetadata (ta_owner address) OwnerTunAddress \<or>
         \<not> IsAllocatedTunIPv4CIDR (ta_cidr address) then None
      else if length routes \<noteq> 1 then None
      else case scan_policy_steps (pl_steps desired)
          \<lparr>sc_allocation = \<lparr>psa_cidr = trim_space (ta_cidr address), psa_table = trim_space (rp_table (last routes)),
             psa_server_priority = 0, psa_tunnel_priority = 0, psa_mark = pl_egress_mark desired\<rparr>,
           sc_server = 0, sc_tunnel = 0\<rparr> of
        None \<Rightarrow> None
      | Some st \<Rightarrow>
          (let al = sc_allocation st in
           if sc_server st \<noteq> 1 \<or> sc_tunnel st \<noteq> 1 \<or> psa_server_priority al \<le> 0 \<or> psa_tunnel_priority al \<le> 0 \<or>
              psa_tunnel_priority al \<le> psa_server_priority al then None
           else Some al))"

definition exactNetworkSessionPolicyRuleDeleteArgs ::
  "PolicyRuleRollback \<Rightarrow> persistedNetworkSessionAllocation \<Rightarrow> string list option" where
  "exactNetworkSessionPolicyRuleDeleteArgs r al =
     (let del = [''-4'', ''rule'', ''del'', ''priority'', itoa_int (pr_priority r)] in
      if pr_priority r = psa_server_priority al \<and> trim_space (pr_table r) = MainRoutingTable \<and>
         trim_space (pr_from r) = [] then
        (if psa_mark al \<noteq> 0 then
           (if trim_space (pr_to r) \<noteq> [] then None
            else case parse_uint0 32 (trim_space (pr_mark r)) of
              None \<Rightarrow> None
            | Some mark \<Rightarrow>
                if of_nat mark \<noteq> psa_mark al then None
                else Some (del @ [''fwmark'', itoa mark, ''lookup'', MainRoutingTable]))
         else if trim_space (pr_mark r) \<noteq> [] then None
         else case parse_prefix (trim_space (pr_to r)) of
           Some (Prefix (IP4 w) n) \<Rightarrow>
             if n \<noteq> 32 then None else Some (del @ [''to'', prefix_text (IP4 w) n, ''lookup'', MainRoutingTable])
         | _ \<Rightarrow> None)
      else if pr_priority r \<noteq> psa_tunnel_priority al \<or> trim_space (pr_table r) \<noteq> psa_table al \<or>
              trim_space (pr_from r) \<noteq> ''all'' \<or> trim_space (pr_to r) \<noteq> [] \<or> trim_space (pr_mark r) \<noteq> [] then None
      else Some (del @ [''from'', ''all'', ''lookup'', psa_table al]))"

definition exactNetworkSessionRouteDeleteArgs ::
  "RouteRollback \<Rightarrow> persistedNetworkSessionAllocation \<Rightarrow> string list option" where
  "exactNetworkSessionRouteDeleteArgs r al =
     (let table = trim_space (rr_table r); cidr = trim_space (rr_cidr r) in
      if table = psa_table al \<and> (cidr = IPv4DefaultRoute \<or> cidr = ''0.0.0.0/0'') \<and> trim_space (rr_via r) = [] \<and>
         trim_space (rr_dev r) = managedInterface then
        Some [''-4'', ''route'', ''del'', cidr, ''dev'', managedInterface, ''table'', psa_table al]
      else if table \<noteq> MainRoutingTable \<or> trim_space (rr_dev r) = [] then None
      else case parse_prefix cidr of
        Some (Prefix (IP4 w) n) \<Rightarrow>
          if n \<noteq> 32 then None
          else if trim_space (rr_via r) \<noteq> [] \<and> \<not> is4_addr (trim_space (rr_via r)) then None
          else Some ([''-4'', ''route'', ''del'', prefix_text (IP4 w) n] @
                     (if trim_space (rr_via r) \<noteq> [] then [''via'', trim_space (rr_via r)] else []) @
                     [''dev'', trim_space (rr_dev r), ''table'', MainRoutingTable])
      | _ \<Rightarrow> None)"

definition networkSessionLinkDependentRoute :: "RouteRollback \<Rightarrow> persistedNetworkSessionAllocation \<Rightarrow> bool" where
  "networkSessionLinkDependentRoute r al =
     (trim_space (rr_table r) = psa_table al \<and> trim_space (rr_dev r) = managedInterface)"

definition networkSessionBoundApplyingTunAddressCandidate ::
  "TUNAddressDesiredState \<Rightarrow> persistedNetworkSessionAllocation \<Rightarrow> bool" where
  "networkSessionBoundApplyingTunAddressCandidate a al =
     (desiredTunAddressIntent a \<and> 0 < ta_link_index a \<and> ta_link_kind a = ''tun'' \<and> ta_appeared_after_core a \<and>
      trim_space (ta_cidr a) = psa_cidr al \<and> IsAllocatedTunIPv4CIDR (ta_cidr a))"

definition networkSessionRecoveryRollbackMetadata ::
  "(string \<Rightarrow> string) \<Rightarrow> Transaction \<Rightarrow> persistedNetworkSessionAllocation \<Rightarrow> RollbackMetadata" where
  "networkSessionRecoveryRollbackMetadata quote tx al =
     (let rollback = tx_rollback tx; reasons = rollbackOwnershipConsistencyReasons quote tx rollback;
          a = pl_tun_address (tx_desired_plan tx) in
      if reasons \<noteq> [] then mutationFreeAmbiguousRollback rollback reasons
      else if rb_tun_addresses rollback = [] \<and> tx_state tx = TransactionApplying \<and>
              networkSessionBoundApplyingTunAddressCandidate a al
      then rollback\<lparr>rb_tun_addresses := [address_rollback_of a]\<rparr>
      else rollback)"

definition networkSessionApplyingOwnershipGaps ::
  "Transaction \<Rightarrow> persistedNetworkSessionAllocation \<Rightarrow> string list" where
  "networkSessionApplyingOwnershipGaps tx al =
     ownership_gaps (\<lambda>a. networkSessionBoundApplyingTunAddressCandidate a al) tx"

section \<open>The identity of the link\<close>

record rollbackLinkIdentity =
  rli_name :: string
  rli_index :: int
  rli_kind :: string

definition rollbackRequiresLinkIdentity :: "RollbackMetadata \<Rightarrow> bool" where
  "rollbackRequiresLinkIdentity rb = (rb_dns rb \<noteq> [] \<or> rb_tun_addresses rb \<noteq> [] \<or> rb_tun rb \<noteq> [])"

definition exact_one :: "('a \<Rightarrow> bool) \<Rightarrow> 'a list \<Rightarrow> 'a option" where
  "exact_one P xs = (case filter P xs of [x] \<Rightarrow> Some x | _ \<Rightarrow> None)"

definition exactRollbackTUNAddressIdentity :: "TUNAddressRollback list \<Rightarrow> TUNAddressRollback option" where
  "exactRollbackTUNAddressIdentity addresses =
     exact_one (\<lambda>a. ownedRollbackMetadata (tar_owner a) OwnerTunAddress \<and> tar_interface_name a = managedInterface \<and>
       0 < tar_link_index a \<and> tar_link_kind a = ''tun'' \<and> tar_appeared_after_core a \<and>
       trim_space (tar_family a) = ''ipv4'' \<and> trim_space (tar_scope a) = ''global'' \<and>
       trim_space (tar_cidr a) = DefaultTunIPv4CIDR) addresses"

text \<open>\<^verbatim>\<open>strings.Cut\<close> at a single byte.\<close>

definition cut_at :: "char \<Rightarrow> string \<Rightarrow> (string \<times> string) option" where
  "cut_at c s = (if c \<in> set s then Some (takeWhile (\<lambda>x. x \<noteq> c) s, tl (dropWhile (\<lambda>x. x \<noteq> c) s)) else None)"

definition proof_value :: "string \<Rightarrow> string \<Rightarrow> string" where
  "proof_value description key =
     (let entries = List.map_filter (\<lambda>part. map_option (\<lambda>(k, v). (trim_space k, trim_space v)) (cut_at CHR ''='' (trim_space part)))
                      (split_on CHR '';'' description)
      in case map_of (rev entries) key of None \<Rightarrow> [] | Some v \<Rightarrow> v)"

definition parseTUNCreationProofDescription :: "string \<Rightarrow> rollbackLinkIdentity option" where
  "parseTUNCreationProofDescription d =
     (if proof_value d ''creation-proof-name'' \<noteq> managedInterface \<or> proof_value d ''creation-proof-kind'' \<noteq> ''tun'' \<or>
         proof_value d ''creation-proof-pre-existing-absent'' \<noteq> ''true'' then None
      else case atoi (proof_value d ''creation-proof-ifindex'') of
        None \<Rightarrow> None
      | Some index \<Rightarrow>
          if index \<le> 0 then None else Some \<lparr>rli_name = managedInterface, rli_index = index, rli_kind = ''tun''\<rparr>)"

definition exactRollbackTUNCreationIdentity :: "TUNRollback list \<Rightarrow> AppliedStep list \<Rightarrow> rollbackLinkIdentity option" where
  "exactRollbackTUNCreationIdentity entries applied =
     (if length (filter (\<lambda>t. ownedRollbackMetadata (tr_owner t) OwnerTunDevice \<and> tr_interface_name t = managedInterface)
          entries) \<noteq> 1 then None
      else
        (case List.map_filter (\<lambda>s.
             if as_kind s \<noteq> ''tun-device'' \<or> as_target s \<noteq> managedInterface \<or>
                \<not> ownedRollbackMetadata (as_owner s) OwnerTunDevice then None
             else parseTUNCreationProofDescription (as_description s)) applied of
           [identity] \<Rightarrow> Some identity
         | _ \<Rightarrow> None))"

definition address_link_identity :: "TUNAddressRollback \<Rightarrow> rollbackLinkIdentity" where
  "address_link_identity a = \<lparr>rli_name = managedInterface, rli_index = tar_link_index a, rli_kind = tar_link_kind a\<rparr>"

definition exactRollbackTUNLinkIdentity :: "RollbackMetadata \<Rightarrow> AppliedStep list \<Rightarrow> rollbackLinkIdentity option" where
  "exactRollbackTUNLinkIdentity rb applied =
     (case exactRollbackTUNAddressIdentity (rb_tun_addresses rb) of
        Some a \<Rightarrow> Some (address_link_identity a)
      | None \<Rightarrow> exactRollbackTUNCreationIdentity (rb_tun rb) applied)"

text \<open>\<^verbatim>\<open>validateTunAddressRollback\<close>: the reason to skip an address, or none.\<close>

definition validateTunAddressRollback :: "TUNAddressRollback \<Rightarrow> string option" where
  "validateTunAddressRollback a =
     (if \<not> ownedRollbackMetadata (tar_owner a) OwnerTunAddress then Some ''non-podlaz TUN address metadata''
      else if tar_interface_name a \<noteq> managedInterface \<or> tar_link_index a \<le> 0 \<or> tar_link_kind a \<noteq> ''tun'' \<or>
              \<not> tar_appeared_after_core a then Some ''ambiguous or incomplete TUN address link identity''
      else if \<not> (case parse_prefix (trim_space (tar_cidr a)) of
                 Some (Prefix (IP4 w) n) \<Rightarrow> n = 32 \<and> IsAllocatedTunIPv4CIDR (prefix_text (IP4 w) n)
               | _ \<Rightarrow> False)
      then Some ''TUN address is outside the bounded Podlaz session allocation namespace''
      else if tar_family a \<noteq> [] \<and> tar_family a \<noteq> ''ipv4'' then Some ''unsupported TUN address family''
      else if tar_scope a \<noteq> [] \<and> tar_scope a \<noteq> ''global'' then Some ''unsupported TUN address scope''
      else None)"

definition exactNetworkSessionRollbackLinkIdentity ::
  "RollbackMetadata \<Rightarrow> AppliedStep list \<Rightarrow> rollbackLinkIdentity option" where
  "exactNetworkSessionRollbackLinkIdentity rb applied =
     (case exact_one (\<lambda>a. validateTunAddressRollback a = None) (rb_tun_addresses rb) of
        Some a \<Rightarrow> Some (address_link_identity a)
      | None \<Rightarrow> exactRollbackTUNCreationIdentity (rb_tun rb) applied)"

definition first_non_empty_line :: "string \<Rightarrow> string" where
  "first_non_empty_line text =
     (case filter (\<lambda>l. l \<noteq> []) (map trim_space (split_on (CHR 0x0A) text)) of [] \<Rightarrow> [] | l # _ \<Rightarrow> l)"

definition parseRollbackLinkIdentity :: "string \<Rightarrow> rollbackLinkIdentity option" where
  "parseRollbackLinkIdentity output =
     (let fs = Prelude.fields (first_non_empty_line output) in
      if length fs < 2 then None
      else case atoi (trim_suffix (fs ! 0) '':'') of
        None \<Rightarrow> None
      | Some index \<Rightarrow>
          if index \<le> 0 then None
          else
            (let name = hd (split_on CHR ''@'' (trim_suffix (fs ! 1) '':''));
                 tun = list_ex (\<lambda>i. fs ! i = ''type'' \<and> fs ! (i + 1) = ''tun'') [0..<length fs - 1] in
             if name \<noteq> [] \<and> tun then Some \<lparr>rli_name = name, rli_index = index, rli_kind = ''tun''\<rparr> else None))"

section \<open>Bypass state in the main table\<close>

definition safeMainServerBypassPolicyRule :: "PolicyRuleRollback \<Rightarrow> bool" where
  "safeMainServerBypassPolicyRule r =
     (if pr_priority r \<noteq> ServerRulePriority \<or> trim_space (pr_table r) \<noteq> MainRoutingTable then False
      else if trim_space (pr_from r) \<noteq> [] \<or> trim_space (pr_mark r) \<noteq> [] then False
      else is4_host_prefix (trim_space (pr_to r)))"

definition safeMainServerBypassRoute :: "RouteRollback \<Rightarrow> bool" where
  "safeMainServerBypassRoute r =
     (trim_space (rr_table r) = MainRoutingTable \<and> is4_host_prefix (trim_space (rr_cidr r)) \<and>
      trim_space (rr_via r) \<noteq> [] \<and> trim_space (rr_dev r) \<noteq> [])"

definition linkDependentRouteRollback :: "RouteRollback \<Rightarrow> bool" where
  "linkDependentRouteRollback r =
     (if safeMainServerBypassRoute r then False
      else if trim_space (rr_dev r) = managedInterface then True
      else managedTableToken (rr_table r) \<noteq> None)"

definition recordedRouteRollback :: "RouteRollback list \<Rightarrow> RoutePlan \<Rightarrow> bool" where
  "recordedRouteRollback entries p =
     list_ex (\<lambda>e. rr_table e = rp_table p \<and> rr_cidr e = rp_cidr p \<and> rr_via e = rp_via p \<and> rr_dev e = rp_dev p) entries"

definition recordedPolicyRuleRollback :: "PolicyRuleRollback list \<Rightarrow> PolicyRuleRollback \<Rightarrow> bool" where
  "recordedPolicyRuleRollback entries d =
     list_ex (\<lambda>e. pr_priority e = pr_priority d \<and> pr_table e = pr_table d \<and> pr_from e = pr_from d \<and>
       pr_to e = pr_to d \<and> pr_mark e = pr_mark d) entries"

section \<open>The persisted firewall composition\<close>

definition exactPersistedNftablesRule ::
  "string \<Rightarrow> string \<Rightarrow> string \<Rightarrow> string \<Rightarrow> string + TunFirewallRulePlan" where
  "exactPersistedNftablesRule family table chain raw =
     (let fs = Prelude.fields (trim_space raw); n = length fs in
      if n < 4 \<or> fs ! (n - 2) \<noteq> ''owner'' then Inl ''no ownership marker''
      else
        (let ownership = fs ! (n - 1); verdict = fs ! (n - 3) in
         if \<not> starts ''podlaz:firewall:'' ownership \<or> drop 16 ownership = [] then Inl ''unsupported owner''
         else if verdict \<notin> {FirewallVerdictAccept, FirewallVerdictReject, FirewallVerdictDrop}
         then Inl ''unsupported verdict''
         else Inr \<lparr>frp_chain = chain, frp_expr = join '' '' (take (n - 3) fs), frp_verdict = verdict,
                   frp_action = FirewallActionAdd, frp_reason = [], frp_ownership = ownership,
                   frp_rollback_key = join ''/'' [family, table, chain, drop 16 ownership]\<rparr>))"

definition exact_chain ::
  "string \<Rightarrow> string \<Rightarrow> string list \<Rightarrow> NFTChainPlan \<Rightarrow> string + (TunFirewallChainPlan \<times> TunFirewallRulePlan list)" where
  "exact_chain family table seen c =
     (let name = trim_space (nc_name c) in
      if name = [] \<or> trim_space (nc_type c) = [] \<or> trim_space (nc_hook c) = [] \<or> trim_space (nc_policy c) = []
      then Inl ''chain metadata is incomplete''
      else if nc_owner c \<noteq> [] \<and> \<not> ownedRollbackMetadata (nc_owner c) OwnerFirewall then Inl ''unsupported owner''
      else if name \<in> set seen then Inl ''chain is duplicated''
      else rbind (map_result (exactPersistedNftablesRule family table name) (nc_rules c)) (\<lambda>rules.
        Inr (\<lparr>fcp_name = name, fcp_type = trim_space (nc_type c), fcp_hook = trim_space (nc_hook c),
              fcp_priority = nc_priority c, fcp_policy = trim_space (nc_policy c), fcp_action = FirewallTableAction,
              fcp_reason = []\<rparr>, rules)))"

fun exact_chains ::
  "string \<Rightarrow> string \<Rightarrow> string list \<Rightarrow> NFTChainPlan list \<Rightarrow> string + (TunFirewallChainPlan list \<times> TunFirewallRulePlan list)" where
  "exact_chains family table seen [] = Inr ([], [])"
| "exact_chains family table seen (c # cs) =
     rbind (exact_chain family table seen c) (\<lambda>(chain, rules).
     rbind (exact_chains family table (fcp_name chain # seen) cs) (\<lambda>(chains, more).
       Inr (chain # chains, rules @ more)))"

definition exactNftablesRollbackPlan :: "Transaction \<Rightarrow> NFTablesRollback \<Rightarrow> string + TunFirewallPlan" where
  "exactNftablesRollbackPlan tx entry =
     (let desired = pl_nft (tx_desired_plan tx) in
      if \<not> ownedRollbackMetadata (nr_owner entry) OwnerFirewall \<or> \<not> isManagedNFTTarget (nr_family entry) (nr_table entry)
      then Inl ''nftables rollback target is not exact Podlaz authority''
      else if length (filter (\<lambda>p. ownedRollbackMetadata (nr_owner p) OwnerFirewall \<and>
                trim_space (nr_family p) = trim_space (nr_family entry) \<and>
                trim_space (nr_table p) = trim_space (nr_table entry)) (rb_nftables (tx_rollback tx))) \<noteq> 1
      then Inl ''nftables rollback identity cardinality''
      else if \<not> ownedRollbackMetadata (np_owner desired) OwnerFirewall \<or>
              trim_space (np_family desired) \<noteq> trim_space (nr_family entry) \<or>
              trim_space (np_table desired) \<noteq> trim_space (nr_table entry)
      then Inl ''exact persisted nftables desired identity does not match rollback authority''
      else if np_chains desired = [] then Inl ''exact persisted nftables composition has no chains''
      else if 1 < length (np_chains desired) \<and> list_ex (\<lambda>c. nc_rules c \<noteq> []) (np_chains desired)
      then Inl ''exact persisted nftables rule-to-chain mapping is ambiguous''
      else
        rbind (exact_chains (trim_space (np_family desired)) (trim_space (np_table desired)) [] (np_chains desired))
          (\<lambda>(chains, rules).
            Inr \<lparr>fwp_backend = ''nftables'', fwp_family = trim_space (np_family desired),
                 fwp_table = trim_space (np_table desired), fwp_table_action = FirewallTableAction,
                 fwp_chains = chains, fwp_rules = rules,
                 fwp_kill_switch = \<lparr>ksp_policy = [], ksp_action = [], ksp_scope = [], ksp_recovery = [], ksp_limitations = []\<rparr>,
                 fwp_reason = [], fwp_rollback = [], fwp_rollback_steps = []\<rparr>))"

section \<open>Ownership of observed routing state\<close>

record observedRoute =
  or_cidr :: string
  or_via :: string
  or_dev :: string
  or_table :: string

record observedPolicyRule =
  op_priority :: int
  op_from :: string
  op_to :: string
  op_table :: string
  op_mark :: string

definition recoverableRouteRollback :: "RouteRollback \<Rightarrow> bool" where
  "recoverableRouteRollback r =
     (if \<not> ownedRollbackMetadata (rr_owner r) OwnerRoute then False
      else if safeMainServerBypassRoute r then True
      else if trim_space (rr_table r) = MainRoutingTable then False
      else if managedTableToken (rr_table r) = None then False
      else trim_space (rr_dev r) = [] \<or> trim_space (rr_dev r) = managedInterface)"

definition recoverablePolicyRuleRollback :: "PolicyRuleRollback \<Rightarrow> bool" where
  "recoverablePolicyRuleRollback r =
     (if \<not> ownedRollbackMetadata (pr_owner r) OwnerPolicyRule then False
      else if safeMainServerBypassPolicyRule r then True
      else managedTableToken (pr_table r) \<noteq> None)"

definition normalizeObservedRoutingTable :: "string \<Rightarrow> string option" where
  "normalizeObservedRoutingTable v =
     (if trim_space v = MainRoutingTable then Some MainRoutingTable
      else if managedTableToken (trim_space v) \<noteq> None then Some managedRouteTableID
      else None)"

definition masked_text :: "32 word \<Rightarrow> nat \<Rightarrow> string" where
  "masked_text w n = prefix_text (IP4 (mask4 w n)) n"

definition normalizeIPv4RouteDestination :: "string \<Rightarrow> string option" where
  "normalizeIPv4RouteDestination v =
     (if trim_space v = IPv4DefaultRoute then Some ''0.0.0.0/0''
      else case parse_prefix (trim_space v) of
        Some (Prefix (IP4 w) n) \<Rightarrow> Some (masked_text w n)
      | _ \<Rightarrow> None)"

definition normalizePolicySelector :: "string \<Rightarrow> bool \<Rightarrow> string option" where
  "normalizePolicySelector v0 emptyAsAll =
     (let v = trim_space v0 in
      if v = [] then Some (if emptyAsAll then ''all'' else [])
      else if v = ''all'' then Some ''all''
      else case parse_addr v of
        Some (IP4 w) \<Rightarrow> Some (prefix_text (IP4 w) 32)
      | _ \<Rightarrow>
          (case parse_prefix v of
             Some (Prefix (IP4 w) n) \<Rightarrow> Some (if emptyAsAll \<and> n = 0 then ''all'' else masked_text w n)
           | _ \<Rightarrow> None))"

definition routeRollbackMatchesObserved :: "RouteRollback \<Rightarrow> observedRoute \<Rightarrow> bool" where
  "routeRollbackMatchesObserved r ob =
     (normalizeObservedRoutingTable (rr_table r) = Some (or_table ob) \<and>
      normalizeIPv4RouteDestination (rr_cidr r) = Some (or_cidr ob) \<and>
      (trim_space (rr_via r) \<noteq> [] \<longrightarrow> trim_space (rr_via r) = or_via ob) \<and>
      (trim_space (rr_dev r) \<noteq> [] \<longrightarrow> trim_space (rr_dev r) = or_dev ob))"

definition policyRuleRollbackMatchesObserved :: "PolicyRuleRollback \<Rightarrow> observedPolicyRule \<Rightarrow> bool" where
  "policyRuleRollbackMatchesObserved r ob =
     (normalizeObservedRoutingTable (pr_table r) = Some (op_table ob) \<and> pr_priority r = op_priority ob \<and>
      normalizePolicySelector (pr_from r) True = Some (op_from ob) \<and>
      normalizePolicySelector (pr_to r) False = Some (op_to ob) \<and> trim_space (pr_mark r) = op_mark ob)"

fun route_options :: "string list \<Rightarrow> observedRoute \<Rightarrow> observedRoute option" where
  "route_options [] ob = Some ob"
| "route_options [k] ob = (if k = ''linkdown'' \<or> k = ''onlink'' then Some ob else None)"
| "route_options (k # v # fs) ob =
     (if k = ''via'' then
        (case parse_addr v of Some (IP4 w) \<Rightarrow> route_options fs (ob\<lparr>or_via := ip_text (IP4 w)\<rparr>) | _ \<Rightarrow> None)
      else if k = ''dev'' then route_options fs (ob\<lparr>or_dev := v\<rparr>)
      else if k = ''table'' then
        (if normalizeObservedRoutingTable v = Some (or_table ob) then route_options fs ob else None)
      else if k \<in> {''proto'', ''scope'', ''src'', ''metric'', ''mtu'', ''advmss'', ''pref''} then route_options fs ob
      else if k = ''linkdown'' \<or> k = ''onlink'' then route_options (v # fs) ob
      else None)"

definition parseObservedRoute :: "string \<Rightarrow> string \<Rightarrow> observedRoute option" where
  "parseObservedRoute target raw =
     (case Prelude.fields (trim_space raw) of
        [] \<Rightarrow> None
      | f # fs \<Rightarrow>
          (case normalizeIPv4RouteDestination f of
             None \<Rightarrow> None
           | Some cidr \<Rightarrow>
               (case normalizeObservedRoutingTable target of
                  None \<Rightarrow> None
                | Some table \<Rightarrow> route_options fs \<lparr>or_cidr = cidr, or_via = [], or_dev = [], or_table = table\<rparr>)))"

fun rule_options :: "string list \<Rightarrow> observedPolicyRule \<Rightarrow> observedPolicyRule option" where
  "rule_options [] ob = Some ob"
| "rule_options [k] ob = None"
| "rule_options (k # v # fs) ob =
     (if k = ''from'' then
        (case normalizePolicySelector v True of
           None \<Rightarrow> None | Some n \<Rightarrow> if op_from ob \<noteq> [] then None else rule_options fs (ob\<lparr>op_from := n\<rparr>))
      else if k = ''to'' then
        (case normalizePolicySelector v False of
           None \<Rightarrow> None | Some n \<Rightarrow> if op_to ob \<noteq> [] then None else rule_options fs (ob\<lparr>op_to := n\<rparr>))
      else if k = ''lookup'' \<or> k = ''table'' then
        (case normalizeObservedRoutingTable v of
           None \<Rightarrow> None | Some n \<Rightarrow> if op_table ob \<noteq> [] then None else rule_options fs (ob\<lparr>op_table := n\<rparr>))
      else if k = ''fwmark'' then (if op_mark ob \<noteq> [] then None else rule_options fs (ob\<lparr>op_mark := v\<rparr>))
      else None)"

definition policyRuleTargetMatchesPriority :: "string \<Rightarrow> int \<Rightarrow> bool" where
  "policyRuleTargetMatchesPriority target priority =
     (let t0 = trim_space target; t = trim_space (if starts ''priority-'' t0 then drop 9 t0 else t0) in
      t \<noteq> [] \<and> atoi t = Some priority)"

definition parseObservedPolicyRule :: "string \<Rightarrow> string \<Rightarrow> observedPolicyRule option" where
  "parseObservedPolicyRule target raw =
     (let fs = Prelude.fields (trim_space raw) in
      if length fs < 3 then None
      else case atoi (trim_suffix (hd fs) '':'') of
        None \<Rightarrow> None
      | Some priority \<Rightarrow>
          if priority \<le> 0 \<or> \<not> policyRuleTargetMatchesPriority target priority then None
          else case rule_options (tl fs) \<lparr>op_priority = priority, op_from = [], op_to = [], op_table = [], op_mark = []\<rparr> of
            None \<Rightarrow> None
          | Some o1 \<Rightarrow>
              (let o2 = (if op_from o1 = [] then o1\<lparr>op_from := ''all''\<rparr> else o1) in
               if op_table o2 \<noteq> [] then Some o2 else None))"

definition TransactionOwnsObservedRoutingResource ::
  "(string \<Rightarrow> string) \<Rightarrow> Transaction \<Rightarrow> string \<Rightarrow> string \<Rightarrow> string \<Rightarrow> bool" where
  "TransactionOwnsObservedRoutingResource quote tx kind target raw =
     (let rollback = rpj_rollback (ProjectRollbackMetadata quote tx) in
      RequiresRecovery tx \<and>
      (if trim_space kind = ''route'' then
         (case parseObservedRoute target raw of
            None \<Rightarrow> False
          | Some ob \<Rightarrow> list_ex (\<lambda>r. recoverableRouteRollback r \<and> routeRollbackMatchesObserved r ob) (rb_routes rollback))
       else if trim_space kind = ''policy-rule'' then
         (case parseObservedPolicyRule target raw of
            None \<Rightarrow> False
          | Some ob \<Rightarrow>
              list_ex (\<lambda>r. recoverablePolicyRuleRollback r \<and> policyRuleRollbackMatchesObserved r ob)
                (rb_policy_rules rollback))
       else False))"

end
