(* ===== verification/Recovery_Scan.thy ===== *)
theory Recovery_Scan
  imports Exec_Host Recovery_Authority
begin

text \<open>
  Finding and ordering what may have to be recovered: \<^verbatim>\<open>src/internal/recovery/recovery.go\<close> (scan, plan,
  ordering and execution of a recovery, the guards of single rollback commands) and
  \<^verbatim>\<open>src/internal/recovery/resolved.go\<close> (the strict reading of the state of systemd-resolved for the managed
  link).

  Messages are modelled as texts because the code reads them back: a failed command counts as harmless when
  its text names a missing resource, and an incomplete cleanup is recognised by its message.
\<close>

section \<open>Data\<close>

record TransactionCandidate =
  tc_id :: string
  tc_state :: string
  tc_status :: string
  tc_rollback_available :: bool
  tc_requires_cleanup :: bool
  tc_path :: string

record Candidate =
  ca_kind :: string
  ca_description :: string
  ca_target :: string
  ca_transaction :: "TransactionCandidate option"

record Warning =
  wa_target :: string
  wa_message :: string

record ScanResult =
  scan_candidates :: "Candidate list"
  scan_warnings :: "Warning list"

datatype cleanup_status = Recovered | Skipped | Failed

record CleanupResult =
  cl_candidate :: Candidate
  cl_status :: cleanup_status
  cl_message :: string

record ExecuteResult =
  ex_results :: "CleanupResult list"
  ex_warnings :: "Warning list"

definition candidate :: "string \<Rightarrow> string \<Rightarrow> string \<Rightarrow> Candidate" where
  "candidate kind description target =
     \<lparr>ca_kind = kind, ca_description = description, ca_target = target, ca_transaction = None\<rparr>"

definition recovered :: "Candidate \<Rightarrow> CleanupResult" where
  "recovered c = \<lparr>cl_candidate = c, cl_status = Recovered, cl_message = []\<rparr>"

definition recoveredWithMessage :: "Candidate \<Rightarrow> string \<Rightarrow> CleanupResult" where
  "recoveredWithMessage c m = \<lparr>cl_candidate = c, cl_status = Recovered, cl_message = m\<rparr>"

definition skipped :: "Candidate \<Rightarrow> string \<Rightarrow> CleanupResult" where
  "skipped c m = \<lparr>cl_candidate = c, cl_status = Skipped, cl_message = m\<rparr>"

definition failed :: "Candidate \<Rightarrow> string \<Rightarrow> CleanupResult" where
  "failed c m = \<lparr>cl_candidate = c, cl_status = Failed, cl_message = m\<rparr>"

lemmas result_defs = recovered_def recoveredWithMessage_def skipped_def failed_def

definition HasFailures :: "ExecuteResult \<Rightarrow> bool" where
  "HasFailures r = list_ex (\<lambda>x. cl_status x = Failed) (ex_results r)"

definition HasIncompleteCleanup :: "ExecuteResult \<Rightarrow> bool" where
  "HasIncompleteCleanup r =
     (ex_warnings r \<noteq> [] \<or>
      list_ex (\<lambda>x. cl_status x = Skipped \<and>
          (ca_kind (cl_candidate x) = ''transaction-state'' \<or> ca_kind (cl_candidate x) = ''nftables-table'' \<or>
           contains_str (cl_message x) ''transaction state was preserved'')) (ex_results r))"

section \<open>Order\<close>

definition managedDNSCandidateKind :: string where "managedDNSCandidateKind = ''dns-link''"

definition weight :: "string \<Rightarrow> nat" where
  "weight kind =
     (if kind = ''transaction-state'' then 10
      else if kind = ''nftables-table'' then 20
      else if kind = managedDNSCandidateKind then 25
      else if kind = ''tun-interface'' then 30
      else if kind = ''generated-runtime-configs'' then 40
      else if kind = ''runtime-directory'' then 50
      else 100)"

text \<open>The inner loop moves the next candidate to the left past every heavier one; the sorted prefix is kept
  reversed, so that its right end is the head.\<close>

fun sink_left :: "Candidate \<Rightarrow> Candidate list \<Rightarrow> Candidate list" where
  "sink_left c [] = [c]"
| "sink_left c (d # ds) = (if weight (ca_kind c) < weight (ca_kind d) then d # sink_left c ds else c # d # ds)"

definition orderCleanupCandidates :: "Candidate list \<Rightarrow> Candidate list" where
  "orderCleanupCandidates cs = rev (foldl (\<lambda>sorted c. sink_left c sorted) [] cs)"

section \<open>Commands\<close>

type_synonym outcome = "CommandResult \<times> run_error option"
type_synonym ('w, 'a) rec_act = "('w host_state, string, 'a) prog"

definition commandSucceeded :: "outcome \<Rightarrow> bool" where
  "commandSucceeded o1 = (snd o1 = None \<and> cmd_exit (fst o1) = 0)"

definition commandFailedUnexpectedly :: "outcome \<Rightarrow> bool" where
  "commandFailedUnexpectedly o1 = (snd o1 \<noteq> None \<or> cmd_exit (fst o1) \<noteq> 0)"

definition resultMissing :: "CommandResult \<Rightarrow> bool" where
  "resultMissing r =
     (cmd_exit r \<noteq> 0 \<and>
      text_contains_any (cmd_stdout r @ '' '' @ cmd_stderr r)
        [''does not exist'', ''cannot find device'', ''no such file or directory'', ''no such table''])"

definition singleLine :: "string \<Rightarrow> string" where
  "singleLine s = join '' '' (Prelude.fields s)"

definition commandFailureMessage :: "outcome \<Rightarrow> string" where
  "commandFailureMessage o1 =
     (case o1 of (r, err) \<Rightarrow>
        (let parts = (if 0 \<le> cmd_exit r then [''exit code '' @ itoa_int (cmd_exit r)] else []) @
               (if cmd_stderr r \<noteq> [] then [''stderr: '' @ singleLine (cmd_stderr r)] else []) @
               (case err of Some e \<Rightarrow> if cmd_stderr r = [] then [re_text e] else [] | None \<Rightarrow> [])
         in if parts = [] then ''command failed'' else join '', '' parts))"

definition commandErrorIsMissing :: "string \<Rightarrow> bool" where
  "commandErrorIsMissing text = text_contains_any text missing_needles"

definition look_path :: "'w host \<Rightarrow> string \<Rightarrow> ('w, string + string) rec_act" where
  "look_path host name = host_read (ho_look_path host name)"

definition runResult :: "'w host \<Rightarrow> string \<Rightarrow> string list \<Rightarrow> ('w, outcome) rec_act" where
  "runResult host name args =
     bindp (look_path host name) (\<lambda>r.
       case r of
         Inl t \<Rightarrow>
           ret (\<lparr>cmd_stdout = [], cmd_stderr = [], cmd_raw_stdout = [], cmd_raw_stderr = [], cmd_exit = - 1\<rparr>,
                Some \<lparr>re_text = name @ '' command is unavailable: '' @ t, re_context = False, re_exit = None\<rparr>)
       | Inr path \<Rightarrow> run_raw host name path args)"

definition run_text :: "'w host \<Rightarrow> string \<Rightarrow> string list \<Rightarrow> ('w, unit) rec_act" where
  "run_text host name args =
     bindp (runResult host name args) (\<lambda>o1.
       if commandSucceeded o1 then ret ()
       else fail (name @ '' '' @ join '' '' args @ '': '' @ commandFailureMessage o1))"

text \<open>Run a deleting command; a failure that names a missing resource is a success.\<close>

definition run_delete :: "'w host \<Rightarrow> string list \<Rightarrow> string \<Rightarrow> ('w, unit) rec_act" where
  "run_delete host args context =
     bindp (tryp (run_text host ''ip'' args)) (\<lambda>r.
       case r of
         Inl t \<Rightarrow> if commandErrorIsMissing t then ret () else fail (context @ '': '' @ t)
       | Inr u \<Rightarrow> ret ())"

section \<open>Paths\<close>

definition isUnderDir :: "string \<Rightarrow> string \<Rightarrow> bool" where
  "isUnderDir dir path =
     (path_clean path = path_clean dir \<or>
      (case path_rel (path_clean dir) (path_clean path) of
         None \<Rightarrow> False
       | Some cs \<Rightarrow> join ''/'' cs \<noteq> ''.'' \<and> \<not> starts ''..'' (join ''/'' cs) \<and> \<not> rooted (join ''/'' cs)))"

definition sameCleanPath :: "string \<Rightarrow> string \<Rightarrow> bool" where
  "sameCleanPath a b = (path_clean a = path_clean b)"

definition isTransactionPath :: "string \<Rightarrow> string \<Rightarrow> bool" where
  "isTransactionPath runtimeDir path =
     (isUnderDir (path_join [runtimeDir, ''transactions'']) path \<and> suffix TransactionFileSuffix path)"

definition generated_dir :: "string \<Rightarrow> string" where
  "generated_dir runtimeDir = path_join [runtimeDir, ''generated'']"

definition runtime_dir :: "string \<Rightarrow> string" where
  "runtime_dir dir = path_clean (if trim_space dir = [] then ''/run/podlaz'' else dir)"

section \<open>The state of systemd-resolved\<close>

datatype resolvedLinkObservation = resolvedLinkUnknown | resolvedLinkPresent | resolvedLinkAbsent
datatype polarity = PolarityUnknown | PolarityPositive | PolarityNegative | PolarityConflicting

definition resolvedDefaultRoutePolarityOf :: "string list \<Rightarrow> polarity" where
  "resolvedDefaultRoutePolarityOf protocols =
     (if ''+DefaultRoute'' \<in> set protocols \<and> ''-DefaultRoute'' \<in> set protocols then PolarityConflicting
      else if ''+DefaultRoute'' \<in> set protocols then PolarityPositive
      else if ''-DefaultRoute'' \<in> set protocols then PolarityNegative
      else PolarityUnknown)"

definition resolvedLinkHasPodlazConfiguration :: "ResolvedLink \<Rightarrow> bool" where
  "resolvedLinkHasPodlazConfiguration l =
     (''~.'' \<in> set (rl_dns_domains l) \<and> resolvedDefaultRoutePolarityOf (rl_protocols l) = PolarityPositive \<and>
      (trim_space (rl_current_dns_server l) \<noteq> [] \<or> rl_dns_servers l \<noteq> []))"

definition resolvedLinkHasConcreteDNSConfiguration :: "ResolvedLink \<Rightarrow> bool" where
  "resolvedLinkHasConcreteDNSConfiguration l =
     (trim_space (rl_current_dns_server l) \<noteq> [] \<or> rl_dns_servers l \<noteq> [] \<or> rl_dns_domains l \<noteq> [] \<or>
      resolvedDefaultRoutePolarityOf (rl_protocols l) \<in> {PolarityPositive, PolarityConflicting})"

definition resolvedLinkIsProvenEmptyTransient :: "ResolvedLink \<Rightarrow> bool" where
  "resolvedLinkIsProvenEmptyTransient l =
     (rl_current_scopes l = [''none''] \<and> trim_space (rl_current_dns_server l) = [] \<and> rl_dns_servers l = [] \<and>
      rl_dns_domains l = [] \<and> resolvedDefaultRoutePolarityOf (rl_protocols l) = PolarityNegative)"

definition appendResolvedTokens :: "string list \<Rightarrow> string \<Rightarrow> string list" where
  "appendResolvedTokens vs text =
     foldl (\<lambda>acc t. if t = [] \<or> t \<in> set acc then acc else acc @ [t]) vs (Prelude.fields text)"

definition last_index_sub :: "string \<Rightarrow> string \<Rightarrow> nat option" where
  "last_index_sub s n = find (\<lambda>i. prefix n (drop i s)) (rev [0..<length s])"

definition parseManagedResolvedLinkHeader :: "string \<Rightarrow> string option" where
  "parseManagedResolvedLinkHeader line =
     (if \<not> starts ''Link '' line \<or> \<not> suffix '')'' line then None
      else case last_index_sub line '' ('' of
        None \<Rightarrow> None
      | Some open \<Rightarrow>
          if open \<le> 5 then None
          else
            (let index = trim_space (take (open - 5) (drop 5 line));
                 name = trim_space (take (length line - 1 - (open + 2)) (drop (open + 2) line)) in
             if index = [] \<or> name \<noteq> managedInterface \<or> \<not> list_all is_digit index then None else Some index))"

record resolved_parse =
  rv_link :: ResolvedLink
  rv_header :: bool
  rv_seen :: "string list"
  rv_default_route :: polarity
  rv_last :: string

definition empty_link :: ResolvedLink where
  "empty_link = \<lparr>rl_index = [], rl_name = [], rl_current_scopes = [], rl_protocols = [], rl_current_dns_server = [],
     rl_dns_servers = [], rl_dns_domains = []\<rparr>"

definition applyResolvedContinuation :: "ResolvedLink \<Rightarrow> string \<Rightarrow> string \<Rightarrow> ResolvedLink option" where
  "applyResolvedContinuation l field line =
     (if trim_space line = [] then None
      else if field = ''DNS Servers'' then Some (l\<lparr>rl_dns_servers := appendResolvedTokens (rl_dns_servers l) line\<rparr>)
      else if field = ''DNS Domain'' then Some (l\<lparr>rl_dns_domains := appendResolvedTokens (rl_dns_domains l) line\<rparr>)
      else None)"

definition resolved_field :: "string \<Rightarrow> string \<Rightarrow> resolved_parse \<Rightarrow> resolved_parse option" where
  "resolved_field key v st =
     (let l = rv_link st in
      if key = ''Current Scopes'' then
        (if v = [] then None else Some (st\<lparr>rv_link := l\<lparr>rl_current_scopes := appendResolvedTokens [] v\<rparr>\<rparr>))
      else if key = ''Protocols'' then
        (if v = [] then None else Some (st\<lparr>rv_link := l\<lparr>rl_protocols := appendResolvedTokens [] v\<rparr>\<rparr>))
      else if key = ''Default Route'' then
        (if v = ''yes'' then Some (st\<lparr>rv_default_route := PolarityPositive\<rparr>)
         else if v = ''no'' then Some (st\<lparr>rv_default_route := PolarityNegative\<rparr>)
         else None)
      else if key = ''Current DNS Server'' then
        (case Prelude.fields v of [f] \<Rightarrow> Some (st\<lparr>rv_link := l\<lparr>rl_current_dns_server := f\<rparr>\<rparr>) | _ \<Rightarrow> None)
      else if key = ''DNS Servers'' then
        (if v = [] then None else Some (st\<lparr>rv_link := l\<lparr>rl_dns_servers := appendResolvedTokens [] v\<rparr>\<rparr>))
      else if key = ''DNS Domain'' then
        (if v = [] then None else Some (st\<lparr>rv_link := l\<lparr>rl_dns_domains := appendResolvedTokens [] v\<rparr>\<rparr>))
      else None)"

definition resolved_line :: "string \<Rightarrow> resolved_parse \<Rightarrow> resolved_parse option" where
  "resolved_line raw st =
     (let line = trim_space raw in
      if line = [] then Some st
      else if starts ''Link '' line then
        (if rv_header st then None
         else case parseManagedResolvedLinkHeader line of
           None \<Rightarrow> None
         | Some index \<Rightarrow>
             Some (st\<lparr>rv_link := empty_link\<lparr>rl_index := index, rl_name := managedInterface\<rparr>, rv_header := True, rv_last := []\<rparr>))
      else if \<not> rv_header st then None
      else case cut_at CHR '':'' line of
        None \<Rightarrow> map_option (\<lambda>l. st\<lparr>rv_link := l\<rparr>) (applyResolvedContinuation (rv_link st) (rv_last st) line)
      | Some (k, v) \<Rightarrow>
          (let key = trim_space k in
           if key = [] \<or> key \<in> set (rv_seen st) then None
           else map_option (\<lambda>s. s\<lparr>rv_seen := key # rv_seen s, rv_last := key\<rparr>) (resolved_field key (trim_space v) st)))"

fun resolved_lines :: "string list \<Rightarrow> resolved_parse \<Rightarrow> resolved_parse option" where
  "resolved_lines [] st = Some st"
| "resolved_lines (l # ls) st = Option.bind (resolved_line l st) (resolved_lines ls)"

definition parseManagedResolvedLinkStatus :: "string \<Rightarrow> ResolvedLink option" where
  "parseManagedResolvedLinkStatus output =
     (case resolved_lines (split_on (CHR 0x0A) output)
        \<lparr>rv_link = empty_link, rv_header = False, rv_seen = [], rv_default_route = PolarityUnknown, rv_last = []\<rparr> of
        None \<Rightarrow> None
      | Some st \<Rightarrow>
          if \<not> rv_header st \<or> ''Current Scopes'' \<notin> set (rv_seen st) \<or> ''Protocols'' \<notin> set (rv_seen st) then None
          else if ''Default Route'' \<in> set (rv_seen st) \<and>
                  rv_default_route st \<noteq> resolvedDefaultRoutePolarityOf (rl_protocols (rv_link st)) then None
          else Some (rv_link st))"

definition exactTerminatedRecoveryProtocolLine :: "string \<Rightarrow> string \<Rightarrow> bool" where
  "exactTerminatedRecoveryProtocolLine raw expected =
     (raw = expected @ [CHR 0x0A] \<or> raw = expected @ [CHR 0x0D, CHR 0x0A])"

definition dq :: string where "dq = [CHR 0x22]"

definition resolvedMissingDeviceStderr :: string where
  "resolvedMissingDeviceStderr = ''Failed to resolve interface '' @ dq @ ''podlaz0'' @ dq @ '': No such device''"

definition resolvedMissingDeviceIgnoringStderr :: string where
  "resolvedMissingDeviceIgnoringStderr =
     ''Failed to resolve interface '' @ dq @ ''podlaz0'' @ dq @ '', ignoring: No such device''"

text \<open>\<open>cancelled\<close> is \<^verbatim>\<open>ctx.Err() != nil\<close> at the time of the classification.\<close>

definition resolvedMissingDeviceResult :: "bool \<Rightarrow> outcome \<Rightarrow> bool" where
  "resolvedMissingDeviceResult cancelled o1 =
     (case o1 of (r, err) \<Rightarrow>
        \<not> cancelled \<and>
        (case err of
           None \<Rightarrow> False
         | Some e \<Rightarrow>
             \<not> re_context e \<and> re_exit e = Some 1 \<and> cmd_exit r = 1 \<and> cmd_raw_stdout r = [] \<and>
             cmd_raw_stderr r \<noteq> [] \<and> length (cmd_raw_stderr r) \<le> 512 \<and>
             (exactTerminatedRecoveryProtocolLine (cmd_raw_stderr r) resolvedMissingDeviceStderr \<or>
              exactTerminatedRecoveryProtocolLine (cmd_raw_stderr r) resolvedMissingDeviceIgnoringStderr)))"

definition resolvedStatusResourceMissing :: "bool \<Rightarrow> outcome \<Rightarrow> bool" where
  "resolvedStatusResourceMissing cancelled o1 =
     (case o1 of (r, err) \<Rightarrow>
        \<not> cancelled \<and> cmd_raw_stdout r = [] \<and> cmd_raw_stderr r \<noteq> [] \<and> length (cmd_raw_stderr r) \<le> 512 \<and>
        (case err of
           None \<Rightarrow>
             cmd_exit r = 0 \<and> exactTerminatedRecoveryProtocolLine (cmd_raw_stderr r) resolvedMissingDeviceIgnoringStderr
         | Some e \<Rightarrow>
             \<not> re_context e \<and> re_exit e = Some 1 \<and> cmd_exit r = 1 \<and>
             (exactTerminatedRecoveryProtocolLine (cmd_raw_stderr r) ''Link podlaz0 does not exist.'' \<or>
              exactTerminatedRecoveryProtocolLine (cmd_raw_stderr r) resolvedMissingDeviceStderr \<or>
              exactTerminatedRecoveryProtocolLine (cmd_raw_stderr r) resolvedMissingDeviceIgnoringStderr)))"

definition legacyResolvedStatusResourceMissing :: "bool \<Rightarrow> outcome \<Rightarrow> bool" where
  "legacyResolvedStatusResourceMissing cancelled o1 =
     (case o1 of (r, err) \<Rightarrow>
        \<not> cancelled \<and>
        (case err of
           None \<Rightarrow> False
         | Some e \<Rightarrow>
             \<not> re_context e \<and> cmd_exit r = 1 \<and> cmd_stdout r = [] \<and> length (cmd_stderr r) \<le> 512 \<and>
             cmd_stderr r \<in> {''Link podlaz0 does not exist.'', resolvedMissingDeviceStderr,
                             resolvedMissingDeviceIgnoringStderr}))"

definition ResolvedStatusResourceMissingEnvelope :: "bool \<Rightarrow> outcome \<Rightarrow> bool" where
  "ResolvedStatusResourceMissingEnvelope cancelled o1 =
     (if cmd_raw_stdout (fst o1) \<noteq> [] \<or> cmd_raw_stderr (fst o1) \<noteq> []
      then resolvedStatusResourceMissing cancelled o1 else legacyResolvedStatusResourceMissing cancelled o1)"

definition resolvedStatusSucceededWithoutStderr :: "outcome \<Rightarrow> bool" where
  "resolvedStatusSucceededWithoutStderr o1 =
     (commandSucceeded o1 \<and> cmd_raw_stderr (fst o1) = [] \<and> cmd_stderr (fst o1) = [])"

definition observeResolvedLink :: "bool \<Rightarrow> outcome \<Rightarrow> resolvedLinkObservation" where
  "observeResolvedLink cancelled o1 =
     (if cancelled then resolvedLinkUnknown
      else if resolvedStatusResourceMissing cancelled o1 then resolvedLinkAbsent
      else if \<not> resolvedStatusSucceededWithoutStderr o1 then resolvedLinkUnknown
      else case parseManagedResolvedLinkStatus (cmd_stdout (fst o1)) of
        None \<Rightarrow> resolvedLinkUnknown
      | Some link \<Rightarrow>
          if resolvedLinkHasPodlazConfiguration link then resolvedLinkPresent
          else if resolvedLinkHasConcreteDNSConfiguration link then resolvedLinkUnknown
          else if resolvedLinkIsProvenEmptyTransient link then resolvedLinkAbsent
          else resolvedLinkUnknown)"

definition resolvedObservationFailureMessage :: "outcome \<Rightarrow> string" where
  "resolvedObservationFailureMessage o1 =
     (if commandSucceeded o1
      then ''systemd-resolved link status is malformed, ambiguous, or contains non-podlaz DNS configuration''
      else commandFailureMessage o1)"

end
