(* ===== verification/Recovery_Exec.thy ===== *)
theory Recovery_Exec
  imports Recovery_Scan Tun_Executor
begin

text \<open>
  Running a recovery: \<^verbatim>\<open>recovery.go\<close> (scan and cleanup of single candidates),
  \<^verbatim>\<open>daemon_executor.go\<close> (rolling back a persisted transaction), \<^verbatim>\<open>network_session_cleanup_executor.go\<close>
  (the same for a transaction with an exact session allocation, phase by phase),
  \<^verbatim>\<open>desired_plan_ambiguity.go\<close>, \<^verbatim>\<open>tun_address_recovery.go\<close>, \<^verbatim>\<open>cleanup_result_helpers.go\<close> and the
  cleanup part of \<^verbatim>\<open>resolved.go\<close>, all under \<^verbatim>\<open>src/internal/recovery\<close>.

  A rollback of one resource is a run that may fail with a text; the functions with \<open>Results\<close> in their name
  never fail but return one result per resource.  \<open>dir\<close> is the runtime directory after the defaults.
\<close>

section \<open>Results of runs\<close>

definition result_of :: "Candidate \<Rightarrow> ('w, unit) rec_act \<Rightarrow> ('w, CleanupResult) rec_act" where
  "result_of c m = bindp (tryp m) (\<lambda>r. ret (case r of Inl t \<Rightarrow> failed c t | Inr u \<Rightarrow> recovered c))"

fun each_result :: "('x \<Rightarrow> ('w, CleanupResult list) rec_act) \<Rightarrow> 'x list \<Rightarrow> ('w, CleanupResult list) rec_act" where
  "each_result f [] = ret []"
| "each_result f (x # xs) = bindp (f x) (\<lambda>r. bindp (each_result f xs) (\<lambda>rs. ret (r @ rs)))"

definition one_result :: "('w, CleanupResult) rec_act \<Rightarrow> ('w, CleanupResult list) rec_act" where
  "one_result m = bindp m (\<lambda>r. ret [r])"

abbreviation ret_one :: "CleanupResult \<Rightarrow> ('w, CleanupResult list) rec_act" where
  "ret_one r \<equiv> ret [r]"

definition hasFailedCleanup :: "CleanupResult list \<Rightarrow> bool" where
  "hasFailedCleanup rs = list_ex (\<lambda>r. cl_status r = Failed) rs"

definition hasSkippedCleanup :: "CleanupResult list \<Rightarrow> bool" where
  "hasSkippedCleanup rs = list_ex (\<lambda>r. cl_status r = Skipped) rs"

definition cleanupPhaseBlocked :: "CleanupResult list \<Rightarrow> bool" where
  "cleanupPhaseBlocked rs = (hasFailedCleanup rs \<or> hasSkippedCleanup rs)"

text \<open>The two ways to sequence: phase after phase, and until the first one that is blocked.\<close>

fun run_all :: "('w, CleanupResult list) rec_act list \<Rightarrow> ('w, CleanupResult list) rec_act" where
  "run_all [] = ret []"
| "run_all (m # ms) = bindp m (\<lambda>r. bindp (run_all ms) (\<lambda>rs. ret (r @ rs)))"

fun run_until_blocked :: "('w, CleanupResult list) rec_act list \<Rightarrow> ('w, CleanupResult list \<times> bool) rec_act" where
  "run_until_blocked [] = ret ([], False)"
| "run_until_blocked (m # ms) =
     bindp m (\<lambda>r. if cleanupPhaseBlocked r then ret (r, True)
                  else bindp (run_until_blocked ms) (\<lambda>(rs, b). ret (r @ rs, b)))"

fun until_blocked :: "('x \<Rightarrow> ('w, CleanupResult) rec_act) \<Rightarrow> 'x list \<Rightarrow> ('w, CleanupResult list) rec_act" where
  "until_blocked f [] = ret []"
| "until_blocked f (x # xs) =
     bindp (f x) (\<lambda>r. if cleanupPhaseBlocked [r] then ret [r]
                      else bindp (until_blocked f xs) (\<lambda>rs. ret (r # rs)))"

text \<open>The firewall executor runs on the same host.\<close>

definition on_nft :: "'w host \<Rightarrow> ('w nft_env \<Rightarrow> 'w nft_host \<Rightarrow> ('w, 'a) nft_act) \<Rightarrow> ('w, 'a) rec_act" where
  "on_nft host f s = (case f (ho_nft_env host) (ho_nft host) (hs_run s) of (r, x) \<Rightarrow> (s\<lparr>hs_run := r\<rparr>, x))"

definition rollback_table :: "'w host \<Rightarrow> TunFirewallPlan \<Rightarrow> ('w, unit) rec_act" where
  "rollback_table host plan s =
     on_nft host (\<lambda>env h. NftablesRollback env h plan) (add_trace (RolledBackTable plan) s)"

definition path_dir :: "string \<Rightarrow> string" where
  "path_dir p = path_join [p, ''..'']"

definition path_base :: "string \<Rightarrow> string" where
  "path_base p = last (split_on CHR ''/'' p)"

definition load_transaction :: "'w host \<Rightarrow> string \<Rightarrow> ('w, tx_error + Transaction) rec_act" where
  "load_transaction host path =
     bindp (host_peek (\<lambda>w. snd (ho_directory host (path_dir path) w))) (\<lambda>d.
       ret (LoadTransactionFile d (path_base path)))"

section \<open>Scan\<close>

type_synonym findings = "Candidate list \<times> Warning list"

definition warn :: "string \<Rightarrow> string \<Rightarrow> findings" where
  "warn target message = ([], [\<lparr>wa_target = target, wa_message = message\<rparr>])"

definition scanCommandCandidate ::
  "'w host \<Rightarrow> string \<Rightarrow> string list \<Rightarrow> Candidate \<Rightarrow> string \<Rightarrow> ('w, findings) rec_act" where
  "scanCommandCandidate host name args c warningTarget =
     bindp (look_path host name) (\<lambda>p.
       case p of
         Inl t \<Rightarrow> ret (warn warningTarget (name @ '' command is unavailable''))
       | Inr path \<Rightarrow>
           bindp (run_raw host name path args) (\<lambda>o1.
             ret (if commandSucceeded o1 then ([c], [])
                  else if resultMissing (fst o1) then ([], [])
                  else if commandFailedUnexpectedly o1 then warn warningTarget (commandFailureMessage o1)
                  else ([], []))))"

definition scanManagedInterface :: "'w host \<Rightarrow> ('w, findings) rec_act" where
  "scanManagedInterface host =
     scanCommandCandidate host ''ip'' [''link'', ''show'', ''dev'', managedInterface]
       (candidate ''tun-interface'' ''TUN interface'' managedInterface) (''TUN interface '' @ managedInterface)"

definition scanManagedNFTTable :: "'w host \<Rightarrow> ('w, findings) rec_act" where
  "scanManagedNFTTable host =
     scanCommandCandidate host ''nft'' [''list'', ''table'', ''inet'', ''podlaz'']
       (candidate ''nftables-table'' ''nftables table'' ''inet podlaz'') ''nftables table inet podlaz''"

definition managedDNSTarget :: string where
  "managedDNSTarget = ''systemd-resolved link '' @ managedInterface"

definition scanManagedResolvedLink :: "'w host \<Rightarrow> ('w, findings) rec_act" where
  "scanManagedResolvedLink host =
     bindp (look_path host ''resolvectl'') (\<lambda>p.
       case p of
         Inl t \<Rightarrow> ret (warn managedDNSTarget ''resolvectl command is unavailable; resolved link state is unknown'')
       | Inr path \<Rightarrow>
           bindp (run_raw host ''resolvectl'' path [''status'', managedInterface, ''--no-pager'']) (\<lambda>status.
           bindp (host_peek (ho_cancelled host)) (\<lambda>cancelled.
             case observeResolvedLink cancelled status of
               resolvedLinkAbsent \<Rightarrow> ret ([], [])
             | resolvedLinkUnknown \<Rightarrow> ret (warn managedDNSTarget (resolvedObservationFailureMessage status))
             | resolvedLinkPresent \<Rightarrow>
                 bindp (look_path host ''ip'') (\<lambda>q.
                   case q of
                     Inl t \<Rightarrow>
                       ret (warn managedDNSTarget ''ip command is unavailable; cannot prove the resolved link is stale'')
                   | Inr ip \<Rightarrow>
                       bindp (run_raw host ''ip'' ip [''link'', ''show'', ''dev'', managedInterface]) (\<lambda>link.
                         ret (if commandSucceeded link then ([], [])
                              else if resultMissing (fst link) then
                                ([candidate managedDNSCandidateKind ''systemd-resolved link state'' managedInterface], [])
                              else warn managedDNSTarget (''cannot verify interface absence: '' @ commandFailureMessage link)))))))"

definition transaction_candidate :: "TransactionSummary \<Rightarrow> Candidate" where
  "transaction_candidate s =
     (candidate ''transaction-state'' ''transaction rollback state'' (ts_path s))
       \<lparr>ca_transaction := Some \<lparr>tc_id = ts_id s, tc_state = state_text (ts_state s), tc_status = StatusLine s,
          tc_rollback_available = ts_rollback_available s, tc_requires_cleanup = True, tc_path = ts_path s\<rparr>\<rparr>"

definition scanTransactionState :: "'w host \<Rightarrow> string \<Rightarrow> ('w, findings) rec_act" where
  "scanTransactionState host dir =
     bindp (host_peek (ho_directory host (path_join [dir, ''transactions'']))) (\<lambda>(err, d).
       (let found = ScanTransactions (ho_tx_error host) dir err d in
        ret (map transaction_candidate (filter ts_requires_recovery (fst found)),
             map (\<lambda>m. \<lparr>wa_target = ''transaction state'', wa_message = m\<rparr>) (snd found))))"

definition reconcileManagedInterfaceWithTransactions :: "Candidate list \<Rightarrow> Candidate list" where
  "reconcileManagedInterfaceWithTransactions cs =
     (if list_ex (\<lambda>c. ca_kind c = ''transaction-state'' \<and> ca_transaction c \<noteq> None) cs
      then filter (\<lambda>c. \<not> (ca_kind c = ''tun-interface'' \<and> ca_target c = managedInterface)) cs else cs)"

definition scanGeneratedRuntimeConfigs :: "'w host \<Rightarrow> string \<Rightarrow> ('w, findings) rec_act" where
  "scanGeneratedRuntimeConfigs host generatedDir =
     bindp (host_read (ho_stat host generatedDir)) (\<lambda>r.
       ret (case r of
         Inr k \<Rightarrow>
           ([candidate ''generated-runtime-configs''
               (if k = Directory then ''generated runtime configs'' else ''generated runtime config path'') generatedDir], [])
       | Inl NotExist \<Rightarrow> ([], [])
       | Inl (FileError t) \<Rightarrow> warn (''generated runtime configs '' @ generatedDir) t))"

definition OSScanner_Scan :: "'w host \<Rightarrow> string \<Rightarrow> ('w, ScanResult) rec_act" where
  "OSScanner_Scan host rawDir =
     (let dir = runtime_dir rawDir in
      bindp (scanManagedInterface host) (\<lambda>a.
      bindp (scanManagedResolvedLink host) (\<lambda>b.
      bindp (scanManagedNFTTable host) (\<lambda>c.
      bindp (scanTransactionState host dir) (\<lambda>d.
      bindp (scanGeneratedRuntimeConfigs host (generated_dir dir)) (\<lambda>e.
        ret \<lparr>scan_candidates =
               reconcileManagedInterfaceWithTransactions (fst a @ fst b @ fst c @ fst d) @ fst e,
             scan_warnings = snd a @ snd b @ snd c @ snd d @ snd e\<rparr>))))))"

section \<open>Single rollbacks\<close>

definition rollbackDNS :: "'w host \<Rightarrow> DNSRollback \<Rightarrow> ('w, unit) rec_act" where
  "rollbackDNS host d =
     (if dr_owner d \<noteq> TransactionOwner \<or> dr_link d \<noteq> managedInterface \<or>
         (dr_backend d \<noteq> [] \<and> dr_backend d \<noteq> ''systemd-resolved'')
      then fail (''refuse to rollback ambiguous DNS target link='' @ dr_link d @ '' backend='' @ dr_backend d)
      else
        bindp (runResult host ''resolvectl'' [''revert'', managedInterface]) (\<lambda>o1.
        bindp (host_peek (ho_cancelled host)) (\<lambda>cancelled.
          if commandSucceeded o1 \<or> resolvedMissingDeviceResult cancelled o1 then ret ()
          else fail (''revert systemd-resolved DNS for '' @ managedInterface @ '': '' @ commandFailureMessage o1))))"

definition option_arg :: "string \<Rightarrow> string \<Rightarrow> string list" where
  "option_arg name v = (if trim_space v \<noteq> [] then [name, trim_space v] else [])"

definition rule_delete_args :: "PolicyRuleRollback \<Rightarrow> string \<Rightarrow> string list" where
  "rule_delete_args r table =
     [''-4'', ''rule'', ''del'', ''priority'', itoa_int (pr_priority r)] @ option_arg ''from'' (pr_from r) @
     option_arg ''to'' (pr_to r) @ option_arg ''fwmark'' (pr_mark r) @ [''lookup'', table]"

definition rollbackPolicyRule :: "'w host \<Rightarrow> PolicyRuleRollback \<Rightarrow> ('w, unit) rec_act" where
  "rollbackPolicyRule host r =
     (if pr_owner r \<noteq> TransactionOwner
      then fail (''refuse to rollback non-podlaz policy rule priority '' @ itoa_int (pr_priority r))
      else if pr_priority r \<le> 0 then ret ()
      else case managedTableToken (pr_table r) of
        None \<Rightarrow>
          fail (''refuse to rollback policy rule priority '' @ itoa_int (pr_priority r) @ '' with non-podlaz table '' @ pr_table r)
      | Some table \<Rightarrow>
          run_delete host (rule_delete_args r table) (''delete policy rule priority '' @ itoa_int (pr_priority r)))"

definition route_delete_args :: "RouteRollback \<Rightarrow> string \<Rightarrow> string list" where
  "route_delete_args r table =
     [''-4'', ''route'', ''del'', trim_space (rr_cidr r)] @ option_arg ''via'' (rr_via r) @
     (if trim_space (rr_dev r) \<noteq> [] then [''dev'', rr_dev r] else []) @ [''table'', table]"

definition rollbackRoute :: "'w host \<Rightarrow> RouteRollback \<Rightarrow> ('w, unit) rec_act" where
  "rollbackRoute host r =
     (if rr_owner r \<noteq> TransactionOwner
      then fail (''refuse to rollback non-podlaz route '' @ rr_cidr r @ '' table '' @ rr_table r)
      else case managedTableToken (rr_table r) of
        None \<Rightarrow> fail (''refuse to rollback route '' @ rr_cidr r @ '' with non-podlaz table '' @ rr_table r)
      | Some table \<Rightarrow>
          if trim_space (rr_cidr r) = [] then ret ()
          else if trim_space (rr_dev r) \<noteq> [] \<and> rr_dev r \<noteq> managedInterface
          then fail (''refuse to rollback route '' @ rr_cidr r @ '' with non-podlaz device '' @ rr_dev r)
          else run_delete host (route_delete_args r table) (''delete route '' @ rr_cidr r @ '' table '' @ rr_table r))"

definition rollbackTUN :: "'w host \<Rightarrow> TUNRollback \<Rightarrow> ('w, unit) rec_act" where
  "rollbackTUN host t =
     (if tr_owner t \<noteq> TransactionOwner \<or> tr_interface_name t \<noteq> managedInterface
      then fail (''refuse to rollback non-podlaz TUN interface '' @ tr_interface_name t)
      else run_delete host [''link'', ''del'', ''dev'', managedInterface] (''delete TUN device '' @ managedInterface))"

text \<open>\<^verbatim>\<open>os.RemoveAll\<close> and \<^verbatim>\<open>os.Remove\<close>, a missing file being a success.\<close>

definition file_removal :: "host_action \<Rightarrow> ('w \<Rightarrow> 'w \<times> file_error option) \<Rightarrow> string \<Rightarrow> ('w, unit) rec_act" where
  "file_removal a f context =
     bindp (host_act a f) (\<lambda>e. case e of Some (FileError t) \<Rightarrow> fail (context @ '': '' @ t) | _ \<Rightarrow> ret ())"

definition removeGeneratedConfig :: "'w host \<Rightarrow> string \<Rightarrow> GeneratedConfigRollback \<Rightarrow> ('w, unit) rec_act" where
  "removeGeneratedConfig host dir c =
     (let path = path_clean (gr_path c) in
      if gr_owner c \<noteq> TransactionOwner then fail (''refuse to remove non-podlaz generated config '' @ gr_path c)
      else if \<not> isUnderDir (generated_dir dir) path
      then fail (''refuse to remove generated config outside podlaz runtime state: '' @ gr_path c)
      else file_removal (RemovedAll path) (ho_remove_all host path) (''remove generated config '' @ path))"

definition removeEmptyGeneratedRoot :: "'w host \<Rightarrow> string \<Rightarrow> ('w, unit) rec_act" where
  "removeEmptyGeneratedRoot host dir =
     (let root = path_join [path_clean dir, ''generated''] in
      bindp (host_read (ho_read_dir host root)) (\<lambda>r.
        case r of
          Inl NotExist \<Rightarrow> ret ()
        | Inl (FileError t) \<Rightarrow> fail (''inspect generated runtime config directory '' @ root @ '': '' @ t)
        | Inr entries \<Rightarrow>
            if entries \<noteq> [] then ret ()
            else
              bindp (host_act (RemovedFile root) (ho_remove host root)) (\<lambda>e.
                case e of
                  Some (FileError t) \<Rightarrow>
                    bindp (host_read (ho_read_dir host root)) (\<lambda>again.
                      case again of
                        Inr (x # xs) \<Rightarrow> ret ()
                      | _ \<Rightarrow> fail (''remove empty generated runtime config directory '' @ root @ '': '' @ t))
                | _ \<Rightarrow> ret ())))"

definition rollbackMainServerBypassPolicyRule :: "'w host \<Rightarrow> PolicyRuleRollback \<Rightarrow> ('w, unit) rec_act" where
  "rollbackMainServerBypassPolicyRule host r =
     (if \<not> ownedRollbackMetadata (pr_owner r) OwnerPolicyRule \<or> \<not> safeMainServerBypassPolicyRule r
      then fail (''refuse to rollback ambiguous main-table policy rule priority '' @ itoa_int (pr_priority r))
      else run_delete host [''-4'', ''rule'', ''del'', ''priority'', itoa_int (pr_priority r), ''to'', trim_space (pr_to r),
             ''lookup'', MainRoutingTable]
             (''delete main-table server bypass policy rule priority '' @ itoa_int (pr_priority r) @ '' to '' @ trim_space (pr_to r)))"

definition rollbackMainServerBypassRoute :: "'w host \<Rightarrow> RouteRollback \<Rightarrow> ('w, unit) rec_act" where
  "rollbackMainServerBypassRoute host r =
     (let cidr = trim_space (rr_cidr r); via = trim_space (rr_via r); dev = trim_space (rr_dev r) in
      if \<not> ownedRollbackMetadata (rr_owner r) OwnerRoute \<or> \<not> safeMainServerBypassRoute r
      then fail (''refuse to rollback ambiguous main-table route '' @ rr_cidr r)
      else run_delete host [''-4'', ''route'', ''del'', cidr, ''via'', via, ''dev'', dev, ''table'', MainRoutingTable]
             (''delete main-table server bypass route '' @ cidr @ '' via '' @ via @ '' dev '' @ dev))"

section \<open>Single candidates\<close>

definition parseNFTTarget :: "string \<Rightarrow> (string \<times> string) option" where
  "parseNFTTarget target = (case Prelude.fields target of [f, t] \<Rightarrow> Some (f, t) | _ \<Rightarrow> None)"

definition managed_target :: "string \<Rightarrow> bool" where
  "managed_target target = (case parseNFTTarget target of Some (f, t) \<Rightarrow> isManagedNFTTarget f t | None \<Rightarrow> False)"

definition cleanupTUNInterface :: "Candidate \<Rightarrow> CleanupResult" where
  "cleanupTUNInterface c =
     (if ca_target c \<noteq> managedInterface then skipped c ''non-podlaz TUN interface target''
      else skipped c ''interface name alone is not podlaz ownership proof; use transaction-bound process/link identity'')"

definition cleanupNFTablesTable :: "Candidate \<Rightarrow> CleanupResult" where
  "cleanupNFTablesTable c =
     (if \<not> managed_target (ca_target c) then skipped c ''non-podlaz nftables target''
      else skipped c ''nftables table identity alone is not podlaz ownership proof; exact transaction-bound rollback authority is required'')"

definition cleanupGeneratedRuntimeConfigs :: "'w host \<Rightarrow> string \<Rightarrow> Candidate \<Rightarrow> ('w, CleanupResult) rec_act" where
  "cleanupGeneratedRuntimeConfigs host dir c =
     (let generatedDir = generated_dir dir in
      if \<not> sameCleanPath (ca_target c) generatedDir
      then ret (skipped c ''generated runtime config path is outside podlaz runtime state'')
      else result_of c (file_removal (RemovedAll generatedDir) (ho_remove_all host generatedDir)
             (''remove generated runtime configs '' @ generatedDir)))"

definition verify_reverted :: "'w host \<Rightarrow> string \<Rightarrow> Candidate \<Rightarrow> ('w, CleanupResult) rec_act" where
  "verify_reverted host path c =
     bindp (run_raw host ''resolvectl'' path [''status'', managedInterface, ''--no-pager'']) (\<lambda>status.
     bindp (host_peek (ho_cancelled host)) (\<lambda>cancelled.
       ret (case observeResolvedLink cancelled status of
          resolvedLinkAbsent \<Rightarrow> recovered c
        | resolvedLinkPresent \<Rightarrow>
            skipped c ''systemd-resolved link configuration persisted after revert; restart systemd-resolved manually''
        | resolvedLinkUnknown \<Rightarrow>
            failed c (''verify systemd-resolved cleanup: '' @ resolvedObservationFailureMessage status))))"

definition revert_resolved :: "'w host \<Rightarrow> Candidate \<Rightarrow> ('w, CleanupResult) rec_act" where
  "revert_resolved host c =
     bindp (look_path host ''resolvectl'') (\<lambda>q.
       case q of
         Inl t \<Rightarrow> ret (failed c ''resolvectl command is unavailable'')
       | Inr path \<Rightarrow>
           bindp (run_raw host ''resolvectl'' path [''revert'', managedInterface]) (\<lambda>revert.
           bindp (host_peek (ho_cancelled host)) (\<lambda>cancelled.
             if resolvedMissingDeviceResult cancelled revert then ret (recovered c)
             else if \<not> commandSucceeded revert then
               ret (failed c (''revert systemd-resolved DNS: '' @ commandFailureMessage revert))
             else verify_reverted host path c)))"

definition cleanupManagedResolvedLink :: "'w host \<Rightarrow> Candidate \<Rightarrow> ('w, CleanupResult) rec_act" where
  "cleanupManagedResolvedLink host c =
     (if ca_target c \<noteq> managedInterface then ret (skipped c ''non-podlaz DNS link target'')
      else
        bindp (look_path host ''ip'') (\<lambda>p.
          case p of
            Inl t \<Rightarrow> ret (skipped c ''ip command is unavailable; cannot prove the resolved link is stale'')
          | Inr ip \<Rightarrow>
              bindp (run_raw host ''ip'' ip [''link'', ''show'', ''dev'', managedInterface]) (\<lambda>link.
                if commandSucceeded link then
                  ret (skipped c ''interface still exists; refusing stale DNS cleanup for a live link'')
                else if resultMissing (fst link) then revert_resolved host c
                else ret (failed c (''verify interface absence: '' @ commandFailureMessage link)))))"

definition inspectStandaloneNftablesCandidate :: "'w host \<Rightarrow> Candidate \<Rightarrow> ('w, CleanupResult) rec_act" where
  "inspectStandaloneNftablesCandidate host c =
     (case parseNFTTarget (ca_target c) of
        None \<Rightarrow> ret (skipped c ''non-podlaz nftables target'')
      | Some (family, table) \<Rightarrow>
          if \<not> isManagedNFTTarget family table then ret (skipped c ''non-podlaz nftables target'')
          else
            bindp (tryp (on_nft host (\<lambda>env h. NftablesTableExists env h family table))) (\<lambda>r.
              ret (case r of
                 Inl t \<Rightarrow> failed c (''inspect standalone nftables candidate: '' @ t)
               | Inr present \<Rightarrow>
                   if \<not> present then recoveredWithMessage c ''nftables table is already absent''
                   else skipped c ''nftables table identity alone is not Podlaz cleanup authority; exact transaction rollback authority is required'')))"

text \<open>\<^verbatim>\<open>OSCleanupExecutor.Cleanup\<close>, the executor without the daemon's authority.\<close>

definition OSCleanup :: "'w host \<Rightarrow> string \<Rightarrow> Candidate \<Rightarrow> ('w, CleanupResult) rec_act" where
  "OSCleanup host rawDir c =
     (let kind = ca_kind c; dir = runtime_dir rawDir in
      if trim_space kind = [] then ret (skipped c ''missing recovery candidate kind'')
      else if kind = ''tun-interface'' then ret (cleanupTUNInterface c)
      else if kind = managedDNSCandidateKind then cleanupManagedResolvedLink host c
      else if kind = ''nftables-table'' then ret (cleanupNFTablesTable c)
      else if kind = ''transaction-state'' then ret (skipped c ''transaction rollback requires daemon safety validation'')
      else if kind = ''generated-runtime-configs'' then cleanupGeneratedRuntimeConfigs host dir c
      else if kind = ''runtime-directory'' then ret (skipped c ''runtime root cleanup is intentionally unsupported'')
      else ret (skipped c ''unsupported recovery candidate kind''))"

end
