(* ===== verification/Dns_Executor.thy ===== *)
theory Dns_Executor
  imports Recovery_Exec
begin

text \<open>
  The rest of the executors of \<^verbatim>\<open>src/internal/network/executor\<close>: the device with its creation proof
  (\<^verbatim>\<open>tun_device.go\<close>, \<^verbatim>\<open>tun_device_rollback_identity.go\<close>), per-link DNS through systemd-resolved (\<^verbatim>\<open>dns_resolved.go\<close>,
  \<^verbatim>\<open>dns_ownership.go\<close>, \<^verbatim>\<open>resolved_missing.go\<close> and the status parser \<^verbatim>\<open>ParseResolvedLinks\<close> of the snapshot), and
  the composition the daemon runs, \<^verbatim>\<open>DNSAwareTunExecutor\<close>, with its two resource-scoped rollbacks
  (\<^verbatim>\<open>tun_rollback_identity.go\<close>, \<^verbatim>\<open>dns_rollback_resource_scoped.go\<close>).
\<close>

section \<open>The device and its creation proof\<close>

record tunDeviceCreationProof =
  dcp_name :: string
  dcp_link_index :: int
  dcp_link_kind :: string
  dcp_pre_existing_absent :: bool

definition parseTunDeviceCreationProof :: "string \<Rightarrow> tunDeviceCreationProof option" where
  "parseTunDeviceCreationProof output =
     (let fs = Prelude.fields (firstLine output) in
      if length fs < 2 then None
      else case atoi (trim_suffix (fs ! 0) '':'') of
        None \<Rightarrow> None
      | Some index \<Rightarrow>
          if index \<le> 0 then None
          else
            (let name = hd (split_on CHR ''@'' (trim_suffix (fs ! 1) '':''));
                 tun = list_ex (\<lambda>i. fs ! i = ''type'' \<and> fs ! (i + 1) = ''tun'') [0..<length fs - 1] in
             if name \<noteq> [] \<and> tun
             then Some \<lparr>dcp_name = name, dcp_link_index = index, dcp_link_kind = ''tun'', dcp_pre_existing_absent = False\<rparr>
             else None))"

definition inspectCreationProof :: "'w host \<Rightarrow> string \<Rightarrow> ('w, tunDeviceCreationProof) exec_act" where
  "inspectCreationProof host name =
     bindp (observeCommand host ''ip'' [''-details'', ''-o'', ''link'', ''show'', ''dev'', name]) (\<lambda>result.
       case parseTunDeviceCreationProof (cmd_stdout result) of
         Some p \<Rightarrow>
           if dcp_name p = name then ret (p\<lparr>dcp_pre_existing_absent := True\<rparr>)
           else fail_with (''created link identity is not exact TUN proof: '' @ firstLine (cmd_stdout result))
       | None \<Rightarrow> fail_with (''created link identity is not exact TUN proof: '' @ firstLine (cmd_stdout result)))"

definition bool_text :: "bool \<Rightarrow> string" where
  "bool_text b = (if b then ''true'' else ''false'')"

definition tunDeviceOwnershipDescription :: "string \<Rightarrow> tunDeviceCreationProof \<Rightarrow> string" where
  "tunDeviceOwnershipDescription reason p =
     join ''; ''
       ((if trim_space reason \<noteq> [] then [trim_space reason] else []) @
        [''creation-proof-name='' @ dcp_name p, ''creation-proof-ifindex='' @ itoa_int (dcp_link_index p),
         ''creation-proof-kind='' @ dcp_link_kind p,
         ''creation-proof-pre-existing-absent='' @ bool_text (dcp_pre_existing_absent p)])"

definition proof_part :: "string \<Rightarrow> tunDeviceCreationProof \<Rightarrow> tunDeviceCreationProof option" where
  "proof_part part p =
     (case cut_at CHR ''='' (trim_space part) of
        None \<Rightarrow> Some p
      | Some (k, v) \<Rightarrow>
          (let key = trim_space k in
           if key = ''creation-proof-name'' then Some (p\<lparr>dcp_name := trim_space v\<rparr>)
           else if key = ''creation-proof-ifindex'' then
             map_option (\<lambda>i. p\<lparr>dcp_link_index := i\<rparr>) (atoi (trim_space v))
           else if key = ''creation-proof-kind'' then Some (p\<lparr>dcp_link_kind := trim_space v\<rparr>)
           else if key = ''creation-proof-pre-existing-absent''
           then Some (p\<lparr>dcp_pre_existing_absent := (trim_space v = ''true'')\<rparr>)
           else Some p))"

fun proof_parts :: "string list \<Rightarrow> tunDeviceCreationProof \<Rightarrow> tunDeviceCreationProof option" where
  "proof_parts [] p = Some p"
| "proof_parts (x # xs) p = Option.bind (proof_part x p) (proof_parts xs)"

definition parseTunDeviceOwnershipDescription :: "string \<Rightarrow> string \<Rightarrow> tunDeviceCreationProof option" where
  "parseTunDeviceOwnershipDescription expectedName description =
     (case proof_parts (split_on CHR '';'' description)
        \<lparr>dcp_name = expectedName, dcp_link_index = 0, dcp_link_kind = [], dcp_pre_existing_absent = False\<rparr> of
        None \<Rightarrow> None
      | Some p \<Rightarrow>
          if dcp_name p = expectedName \<and> 0 < dcp_link_index p \<and> dcp_link_kind p = ''tun'' \<and> dcp_pre_existing_absent p
          then Some p else None)"

definition tun_device_step :: "TunDevicePlan \<Rightarrow> tunDeviceCreationProof \<Rightarrow> Step" where
  "tun_device_step plan p =
     \<lparr>st_kind = ''tun-device'', st_target = tdp_name plan,
      st_description = tunDeviceOwnershipDescription (tdp_reason plan) p, st_owner = ''podlaz:tun-device''\<rparr>"

text \<open>Creation hands the step to the callback before the device is changed any further.\<close>

definition CreateWithStepSink :: "'w host \<Rightarrow> bool \<Rightarrow> TunDevicePlan \<Rightarrow> ('w, Step) step_act" where
  "CreateWithStepSink host sink plan =
     (if tdp_name plan = [] then fail (empty_step, plain_error ''missing TUN device name'')
      else
        bindp (with_step empty_step (wrapping (''create TUN device '' @ tdp_name plan)
          (runCommand host ''ip'' [''tuntap'', ''add'', ''dev'', tdp_name plan, ''mode'', ''tun'', ''user'', ''podlaz-xray'',
             ''group'', ''podlaz-xray'']))) (\<lambda>u.
        bindp (with_step (tun_device_step plan
                 \<lparr>dcp_name = tdp_name plan, dcp_link_index = 0, dcp_link_kind = [], dcp_pre_existing_absent = True\<rparr>)
          (wrapping (''inspect created TUN device '' @ tdp_name plan @ '' identity'')
            (inspectCreationProof host (tdp_name plan)))) (\<lambda>p.
          (let step = tun_device_step plan p in
           with_step step
             (bindp (if sink then
                       bindp (host_act (RecordedStep step) (ho_sink host step)) (\<lambda>r.
                         case r of
                           None \<Rightarrow> ret ()
                         | Some t \<Rightarrow> fail_with (''persist created TUN device '' @ tdp_name plan @
                             '' identity before post-create mutation: '' @ t))
                     else ret ()) (\<lambda>u.
              bindp (if 0 < tdp_mtu plan then
                       wrapping (''set TUN device '' @ tdp_name plan @ '' MTU'')
                         (runCommand host ''ip'' [''link'', ''set'', ''dev'', tdp_name plan, ''mtu'', itoa (tdp_mtu plan)])
                     else ret ()) (\<lambda>u.
              bindp (wrapping (''bring TUN device '' @ tdp_name plan @ '' up'')
                (runCommand host ''ip'' [''link'', ''set'', ''dev'', tdp_name plan, ''up''])) (\<lambda>u. ret step)))))))) "

definition TunDevice_Rollback :: "'w host \<Rightarrow> TunDevicePlan \<Rightarrow> ('w, unit) exec_act" where
  "TunDevice_Rollback host plan =
     (if tdp_name plan = [] then ret ()
      else case parseTunDeviceOwnershipDescription (tdp_name plan) (tdp_reason plan) of
        None \<Rightarrow> fail_with (''refuse TUN device rollback without exact creation proof for '' @ tdp_name plan)
      | Some p \<Rightarrow>
          bindp (tryp (inspectCreationProof host (tdp_name plan))) (\<lambda>r.
            case r of
              Inl e \<Rightarrow>
                if resourceMissing e then ret ()
                else fail (wrap_error (''inspect TUN device '' @ tdp_name plan @ '' before rollback'') e)
            | Inr current \<Rightarrow>
                if dcp_name current \<noteq> dcp_name p \<or> dcp_link_index current \<noteq> dcp_link_index p \<or>
                   dcp_link_kind current \<noteq> dcp_link_kind p then
                  fail_with (''refuse TUN device rollback: current identity name='' @ dcp_name current @ '' ifindex='' @
                    itoa_int (dcp_link_index current) @ '' kind='' @ dcp_link_kind current @
                    '' does not match created identity name='' @ dcp_name p @ '' ifindex='' @
                    itoa_int (dcp_link_index p) @ '' kind='' @ dcp_link_kind p)
                else run_unless_missing host [''link'', ''del'', ''dev'', tdp_name plan] (''delete TUN device '' @ tdp_name plan)))"

definition TunDevice_VerifyRollbackIdentity :: "'w host \<Rightarrow> TunDevicePlan \<Rightarrow> ('w, unit) exec_act" where
  "TunDevice_VerifyRollbackIdentity host plan =
     (if trim_space (tdp_name plan) = [] then ret ()
      else case parseTunDeviceOwnershipDescription (tdp_name plan) (tdp_reason plan) of
        None \<Rightarrow> fail_with (''link-scoped rollback requires exact transaction-bound TUN creation proof for '' @ tdp_name plan)
      | Some p \<Rightarrow>
          bindp (wrapping (''inspect TUN device '' @ tdp_name plan @ '' before rollback identity gate'')
            (inspectCreationProof host (tdp_name plan))) (\<lambda>current.
            if dcp_name current \<noteq> dcp_name p \<or> dcp_link_index current \<noteq> dcp_link_index p \<or>
               dcp_link_kind current \<noteq> dcp_link_kind p then
              fail_with (''current TUN identity does not match transaction-bound creation proof: expected name='' @
                dcp_name p @ '' ifindex='' @ itoa_int (dcp_link_index p) @ '' kind='' @ dcp_link_kind p)
            else ret ()))"

definition rollbackRouteRequiresTunIdentity :: "string \<Rightarrow> string \<Rightarrow> bool" where
  "rollbackRouteRequiresTunIdentity table dev =
     (trim_space dev = managedInterface \<or> trim_space table = TunRoutingTable \<or> trim_space table = ''51820'')"

definition rollbackNeedsTUNLinkIdentity :: "TunPlan \<Rightarrow> bool" where
  "rollbackNeedsTUNLinkIdentity plan =
     (trim_space (dpl_target_link (tp_dns plan)) \<noteq> [] \<or> trim_space (tdp_name (tp_device plan)) \<noteq> [] \<or>
      list_ex (\<lambda>r. rollbackRouteRequiresTunIdentity (trp_table r) (trp_interface r)) (tp_routes plan))"

definition Tun_VerifyRollbackIdentity :: "'w host \<Rightarrow> TunPlan \<Rightarrow> ('w, unit) exec_act" where
  "Tun_VerifyRollbackIdentity host plan =
     (if shouldApplyTunAddress (tp_address plan) then TunAddress_VerifyRollbackIdentity host (tp_address plan)
      else if rollbackNeedsTUNLinkIdentity plan then
        (if trim_space (tdp_name (tp_device plan)) \<noteq> [] then TunDevice_VerifyRollbackIdentity host (tp_device plan)
         else fail_with ''link-scoped rollback requires exact transaction-bound TUN address or TUN creation identity'')
      else ret ())"

section \<open>The status of systemd-resolved\<close>

definition appendUniqueTokens :: "string list \<Rightarrow> string \<Rightarrow> string list" where
  "appendUniqueTokens values text =
     foldl (\<lambda>acc t. let t = trim_space t in if t = [] \<or> t \<in> set acc then acc else acc @ [t]) values (Prelude.fields text)"

definition firstField :: "string \<Rightarrow> string" where
  "firstField v = (case Prelude.fields v of [] \<Rightarrow> [] | f # _ \<Rightarrow> f)"

definition applyResolvedLinkField :: "string \<Rightarrow> string \<Rightarrow> ResolvedLink \<Rightarrow> ResolvedLink" where
  "applyResolvedLinkField key v l =
     (let k = trim_space key in
      if trim_space v = [] then l
      else if k = ''Current Scopes'' then l\<lparr>rl_current_scopes := appendUniqueTokens (rl_current_scopes l) v\<rparr>
      else if k = ''Protocols'' then l\<lparr>rl_protocols := appendUniqueTokens (rl_protocols l) v\<rparr>
      else if k = ''Current DNS Server'' then l\<lparr>rl_current_dns_server := firstField v\<rparr>
      else if k = ''DNS Servers'' then l\<lparr>rl_dns_servers := appendUniqueTokens (rl_dns_servers l) v\<rparr>
      else if k = ''DNS Domain'' then l\<lparr>rl_dns_domains := appendUniqueTokens (rl_dns_domains l) v\<rparr>
      else l)"

definition parseResolvedLinkHeader :: "string \<Rightarrow> (string \<times> string) option" where
  "parseResolvedLinkHeader line =
     (if \<not> starts ''Link '' line then None
      else case (last_index_sub line ''('', last_index_sub line '')'') of
        (Some open, Some close) \<Rightarrow>
          if close \<le> open then None
          else Some (trim_space (let t = take open line in if starts ''Link '' t then drop 5 t else t),
                     trim_space (take (close - (open + 1)) (drop (open + 1) line)))
      | _ \<Rightarrow> None)"

record link_scan =
  lk_links :: "ResolvedLink list"
  lk_current :: "ResolvedLink option"
  lk_last :: string

definition flush_link :: "link_scan \<Rightarrow> ResolvedLink list" where
  "flush_link st =
     lk_links st @ (case lk_current st of None \<Rightarrow> [] | Some l \<Rightarrow> if trim_space (rl_name l) \<noteq> [] then [l] else [])"

definition scan_resolved_line :: "link_scan \<Rightarrow> string \<Rightarrow> link_scan" where
  "scan_resolved_line st raw =
     (let line = trim_space raw in
      if line = [] then st
      else case parseResolvedLinkHeader line of
        Some (index, name) \<Rightarrow>
          \<lparr>lk_links = flush_link st, lk_current = Some (empty_link\<lparr>rl_index := index, rl_name := name\<rparr>), lk_last = []\<rparr>
      | None \<Rightarrow>
          (case lk_current st of
             None \<Rightarrow> st
           | Some l \<Rightarrow>
               (case cut_at CHR '':'' line of
                  Some (k, v) \<Rightarrow>
                    st\<lparr>lk_current := Some (applyResolvedLinkField (trim_space k) (trim_space v) l), lk_last := trim_space k\<rparr>
                | None \<Rightarrow>
                    if lk_last st \<noteq> [] then st\<lparr>lk_current := Some (applyResolvedLinkField (lk_last st) line l)\<rparr> else st)))"

definition ParseResolvedLinks :: "string \<Rightarrow> ResolvedLink list" where
  "ParseResolvedLinks output =
     flush_link (foldl scan_resolved_line \<lparr>lk_links = [], lk_current = None, lk_last = []\<rparr> (split_on (CHR 0x0A) output))"

section \<open>Who owns the default DNS route\<close>

datatype DefaultDNSOwnershipError = OwnershipUnknown | ForeignOwner string

definition safe_link_char :: "char \<Rightarrow> bool" where
  "safe_link_char c =
     (is_digit c \<or> (97 \<le> byte (lower_char c) \<and> byte (lower_char c) \<le> 122) \<or> c \<in> {CHR ''_'', CHR ''-'', CHR ''.''})"

definition safeDNSLinkName :: "string \<Rightarrow> string" where
  "safeDNSLinkName name =
     (let n = trim_space name in
      if n = [] \<or> 15 < length n \<or> \<not> list_all safe_link_char n then ''another interface'' else n)"

fun ownership_text :: "DefaultDNSOwnershipError \<Rightarrow> string" where
  "ownership_text OwnershipUnknown = ''default DNS ownership could not be verified''"
| "ownership_text (ForeignOwner link) =
     ''another VPN or network service controls default DNS (~.) on '' @ safeDNSLinkName link"

definition resolvedRouteOnlyDomain :: string where
  "resolvedRouteOnlyDomain = ''~.''"

definition findForeignRouteOnlyDNSOwner :: "ResolvedLink list \<Rightarrow> string \<Rightarrow> ResolvedLink option" where
  "findForeignRouteOnlyDNSOwner links targetLink =
     find (\<lambda>l. trim_space (rl_name l) \<noteq> [] \<and> rl_name l \<noteq> targetLink \<and>
               resolvedRouteOnlyDomain \<in> set (rl_dns_domains l) \<and>
               (''+DefaultRoute'' \<in> set (rl_protocols l) \<or> trim_space (rl_current_dns_server l) \<noteq> [] \<or>
                rl_dns_servers l \<noteq> [])) links"

definition checkDefaultDNSOwnershipLinks :: "ResolvedLink list \<Rightarrow> string \<Rightarrow> DefaultDNSOwnershipError option" where
  "checkDefaultDNSOwnershipLinks links targetLink =
     map_option (\<lambda>l. ForeignOwner (rl_name l)) (findForeignRouteOnlyDNSOwner links targetLink)"

definition CheckDefaultDNSOwnershipSnapshot :: "DNS \<Rightarrow> string \<Rightarrow> DefaultDNSOwnershipError option" where
  "CheckDefaultDNSOwnershipSnapshot d targetLink =
     (if fd_status (dn_resolved d) \<noteq> StatusDetected \<or> (dn_mode d \<noteq> [] \<and> dn_mode d \<noteq> ''systemd-resolved'') \<or>
         trim_space targetLink = [] then Some OwnershipUnknown
      else checkDefaultDNSOwnershipLinks (dn_resolved_links d) targetLink)"

definition checkDefaultDNSOwnershipStatus :: "string \<Rightarrow> string \<Rightarrow> DefaultDNSOwnershipError + ResolvedLink list" where
  "checkDefaultDNSOwnershipStatus output targetLink =
     (let links = ParseResolvedLinks output;
          headers = length (filter (\<lambda>l. starts ''Link '' (trim_space l)) (split_on (CHR 0x0A) output)) in
      if trim_space output = [] then Inl OwnershipUnknown
      else if headers \<noteq> length links \<or> (headers = 0 \<and> \<not> contains_str output ''Global'') then Inl OwnershipUnknown
      else case checkDefaultDNSOwnershipLinks links targetLink of None \<Rightarrow> Inr links | Some e \<Rightarrow> Inl e)"

definition ownership_error :: "DefaultDNSOwnershipError \<Rightarrow> exec_error" where
  "ownership_error e = plain_error (ownership_text e)"

definition observe_ownership :: "'w host \<Rightarrow> string \<Rightarrow> ('w, ResolvedLink list) exec_act" where
  "observe_ownership host targetLink =
     bindp (tryp (observeCommand host ''resolvectl'' [''status'', ''--no-pager''])) (\<lambda>r.
       case r of
         Inl e \<Rightarrow> fail (ownership_error OwnershipUnknown)
       | Inr result \<Rightarrow>
           (case checkDefaultDNSOwnershipStatus (cmd_stdout result) targetLink of
              Inl e \<Rightarrow> fail (ownership_error e)
            | Inr links \<Rightarrow> ret links))"

definition CheckDefaultDNSOwnership :: "'w host \<Rightarrow> string \<Rightarrow> ('w, unit) exec_act" where
  "CheckDefaultDNSOwnership host targetLink = bindp (observe_ownership host targetLink) (\<lambda>links. ret ())"

section \<open>Per-link DNS\<close>

definition exactTerminatedProtocolLine :: "string \<Rightarrow> string \<Rightarrow> bool" where
  "exactTerminatedProtocolLine raw expected = (raw = expected @ [CHR 0x0A] \<or> raw = expected @ [CHR 0x0D, CHR 0x0A])"

definition resolvedMissingLinkStderr :: string where
  "resolvedMissingLinkStderr = ''Failed to resolve interface '' @ dq @ ''podlaz0'' @ dq @ '': No such device''"

definition resolvedMissingLinkIgnoringStderr :: string where
  "resolvedMissingLinkIgnoringStderr =
     ''Failed to resolve interface '' @ dq @ ''podlaz0'' @ dq @ '', ignoring: No such device''"

text \<open>A command that ended by itself with exit code 1, nothing on standard output and one of the given lines on
  standard error: the shape both strict classifications ask for.\<close>

definition exited_with_line :: "command_error \<Rightarrow> string list \<Rightarrow> bool" where
  "exited_with_line c expected =
     (\<not> ce_cancelled c \<and>
      (case ce_err c of None \<Rightarrow> False | Some e \<Rightarrow> \<not> re_context e \<and> re_exit e = Some 1) \<and>
      cmd_exit (ce_result c) = 1 \<and> cmd_raw_stdout (ce_result c) = [] \<and> cmd_raw_stderr (ce_result c) \<noteq> [] \<and>
      length (cmd_raw_stderr (ce_result c)) \<le> 512 \<and>
      list_ex (exactTerminatedProtocolLine (cmd_raw_stderr (ce_result c))) expected)"

definition resolvedCommandResultIsMissing :: "bool \<Rightarrow> exec_error \<Rightarrow> bool" where
  "resolvedCommandResultIsMissing cancelled e =
     (\<not> cancelled \<and>
      (case ee_command e of
         None \<Rightarrow> False
       | Some c \<Rightarrow> ce_name c = ''resolvectl'' \<and>
           exited_with_line c [resolvedMissingLinkStderr, resolvedMissingLinkIgnoringStderr]))"

definition strictRollbackTunLinkAbsent :: "exec_error \<Rightarrow> bool" where
  "strictRollbackTunLinkAbsent e =
     (case ee_command e of
        None \<Rightarrow> False
      | Some c \<Rightarrow>
          ce_name c = ''ip'' \<and> ce_args c = [''-details'', ''-o'', ''link'', ''show'', ''dev'', managedInterface] \<and>
          exited_with_line c [''Device '' @ dq @ ''podlaz0'' @ dq @ '' does not exist.'',
                              ''Cannot find device '' @ dq @ ''podlaz0'' @ dq])"

definition validateDNSPlan :: "(string \<Rightarrow> string) \<Rightarrow> TunDNSPlan \<Rightarrow> exec_error option" where
  "validateDNSPlan quote plan =
     (if dpl_action plan = DNSActionBlocked
      then Some (plain_error (''DNS desired state is blocked: '' @ dpl_reason plan))
      else if dpl_action plan \<noteq> [] \<and> dpl_action plan \<noteq> DNSActionConfigure
      then Some (plain_error (''unsupported DNS action '' @ quote (dpl_action plan)))
      else if trim_space (dpl_target_link plan) = [] then Some (plain_error ''missing DNS target link'')
      else if dpl_servers plan = [] then Some (plain_error ''missing DNS servers'')
      else if dpl_backend plan \<noteq> [] \<and> dpl_backend plan \<noteq> ''systemd-resolved per-link DNS''
      then Some (plain_error (''unsupported DNS backend '' @ quote (dpl_backend plan)))
      else None)"

definition shouldApplyDNS :: "TunDNSPlan \<Rightarrow> bool" where
  "shouldApplyDNS plan = (dpl_action plan = DNSActionConfigure \<and> trim_space (dpl_target_link plan) \<noteq> [])"

definition revert_unless_missing :: "'w host \<Rightarrow> string \<Rightarrow> string \<Rightarrow> ('w, unit) exec_act" where
  "revert_unless_missing host link context =
     bindp (tryp (runCommand host ''resolvectl'' [''revert'', link])) (\<lambda>r.
       case r of
         Inr u \<Rightarrow> ret ()
       | Inl e \<Rightarrow>
           bindp (host_peek (ho_cancelled host)) (\<lambda>cancelled.
             if resolvedCommandResultIsMissing cancelled e then ret () else fail (wrap_error (context @ link) e)))"

definition bounded_attempts :: "int \<Rightarrow> nat" where
  "bounded_attempts attempts = (if attempts \<le> 0 then 20 else nat attempts)"

fun resolved_apply_attempts :: "'w host \<Rightarrow> string list \<Rightarrow> nat \<Rightarrow> ('w, unit) exec_act" where
  "resolved_apply_attempts host args 0 = ret ()"
| "resolved_apply_attempts host args (Suc k) =
     bindp (tryp (runCommand host ''resolvectl'' args)) (\<lambda>r.
       case r of
         Inr u \<Rightarrow> ret ()
       | Inl e \<Rightarrow>
           bindp (host_peek (ho_cancelled host)) (\<lambda>cancelled.
             if \<not> resolvedCommandResultIsMissing cancelled e \<or> k = 0 then fail e
             else bindp (host_read (ho_sleep host)) (\<lambda>woken.
               case woken of
                 Some t \<Rightarrow> fail (join_errors e (plain_error t))
               | None \<Rightarrow> resolved_apply_attempts host args k)))"

definition runResolvedApplyCommand :: "'w host \<Rightarrow> int \<Rightarrow> string list \<Rightarrow> ('w, unit) exec_act" where
  "runResolvedApplyCommand host attempts args = resolved_apply_attempts host args (bounded_attempts attempts)"

definition dns_step_of :: "TunDNSPlan \<Rightarrow> Step" where
  "dns_step_of plan =
     \<lparr>st_kind = ''dns'', st_target = trim_space (dpl_target_link plan), st_description = dpl_reason plan,
      st_owner = ''podlaz:dns-link''\<rparr>"

definition Dns_Apply :: "'w host \<Rightarrow> int \<Rightarrow> TunDNSPlan \<Rightarrow> ('w, Step) step_act" where
  "Dns_Apply host attempts plan =
     (let link = trim_space (dpl_target_link plan); step = dns_step_of plan in
      bindp (with_step empty_step
        (bindp (checke (validateDNSPlan (ho_quote host) plan)) (\<lambda>u.
         bindp (revert_unless_missing host link ''refresh stale systemd-resolved DNS for '') (\<lambda>u.
           wrapping (''configure systemd-resolved DNS server for '' @ link)
             (runResolvedApplyCommand host attempts ([''dns'', link] @ dpl_servers plan)))))) (\<lambda>u.
      with_step step
        (bindp (wrapping (''configure systemd-resolved route-only DNS domain for '' @ link)
           (runResolvedApplyCommand host attempts [''domain'', link, resolvedRouteOnlyDomain])) (\<lambda>u.
         bindp (wrapping (''configure systemd-resolved DNS default route for '' @ link)
           (runResolvedApplyCommand host attempts [''default-route'', link, ''yes''])) (\<lambda>u. ret step)))))"

definition normalizedDNSValues :: "string list \<Rightarrow> string list" where
  "normalizedDNSValues values = sort (dedup (filter (\<lambda>v. v \<noteq> []) (map trim_space values)))"

definition sameNormalizedDNSValues :: "string list \<Rightarrow> string list \<Rightarrow> bool" where
  "sameNormalizedDNSValues left right = (normalizedDNSValues left = normalizedDNSValues right)"

definition resolvedLinkMismatch :: "ResolvedLink \<Rightarrow> TunDNSPlan \<Rightarrow> string" where
  "resolvedLinkMismatch l plan =
     (let current = trim_space (rl_current_dns_server l) in
      if \<not> sameNormalizedDNSValues (rl_dns_servers l) (dpl_servers plan)
      then ''DNS servers mismatch: got '' @ join '','' (normalizedDNSValues (rl_dns_servers l)) @ '' want '' @
           join '','' (normalizedDNSValues (dpl_servers plan))
      else if current \<noteq> [] \<and> current \<notin> set (dpl_servers plan)
      then ''current DNS server '' @ current @ '' is outside the planned server set''
      else if \<not> sameNormalizedDNSValues (rl_dns_domains l) [resolvedRouteOnlyDomain]
      then ''DNS domains mismatch: got '' @ join '','' (normalizedDNSValues (rl_dns_domains l)) @ '' want '' @
           resolvedRouteOnlyDomain
      else if ''+DefaultRoute'' \<notin> set (rl_protocols l) then ''DNS default route is not enabled''
      else [])"

text \<open>One verification; the flag of an error says whether it may be tried again.\<close>

definition verify_error :: "string \<Rightarrow> string \<Rightarrow> exec_error" where
  "verify_error link t = plain_error (''verify systemd-resolved DNS for '' @ link @ '': '' @ t)"

definition verifyResolvedDNSOnce ::
  "'w host \<Rightarrow> string \<Rightarrow> TunDNSPlan \<Rightarrow> ('w host_state, exec_error \<times> bool, unit) prog" where
  "verifyResolvedDNSOnce host link plan =
     bindp (map_err (\<lambda>e. (e, False)) (observe_ownership host link)) (\<lambda>links.
       case filter (\<lambda>l. rl_name l = link) links of
         [] \<Rightarrow> fail (verify_error link ''link status not found'', True)
       | [l] \<Rightarrow>
           (let mismatch = resolvedLinkMismatch l plan in
            if mismatch \<noteq> [] then fail (verify_error link mismatch, True) else ret ())
       | ls \<Rightarrow> fail (verify_error link (''duplicate target link status records: '' @ itoa (length ls)), False))"

fun verify_attempts :: "'w host \<Rightarrow> string \<Rightarrow> TunDNSPlan \<Rightarrow> nat \<Rightarrow> ('w, unit) exec_act" where
  "verify_attempts host link plan 0 = ret ()"
| "verify_attempts host link plan (Suc k) =
     bindp (tryp (verifyResolvedDNSOnce host link plan)) (\<lambda>r.
       case r of
         Inr u \<Rightarrow> ret ()
       | Inl (e, retryable) \<Rightarrow>
           if \<not> retryable \<or> k = 0 then fail e
           else bindp (host_read (ho_sleep host)) (\<lambda>woken.
             case woken of
               Some t \<Rightarrow> fail (join_errors e (plain_error t))
             | None \<Rightarrow> verify_attempts host link plan k))"

definition Dns_Verify :: "'w host \<Rightarrow> int \<Rightarrow> TunDNSPlan \<Rightarrow> ('w, unit) exec_act" where
  "Dns_Verify host attempts plan =
     bindp (checke (validateDNSPlan (ho_quote host) plan)) (\<lambda>u.
       verify_attempts host (trim_space (dpl_target_link plan)) plan (bounded_attempts attempts))"

definition Dns_Rollback :: "'w host \<Rightarrow> TunDNSPlan \<Rightarrow> ('w, unit) exec_act" where
  "Dns_Rollback host plan =
     (let link = trim_space (dpl_target_link plan) in
      if link = [] then ret () else revert_unless_missing host link ''revert systemd-resolved DNS for '')"

section \<open>The composition\<close>

definition hasFirewallPlan :: "TunFirewallPlan \<Rightarrow> bool" where
  "hasFirewallPlan plan =
     (trim_space (fwp_backend plan) \<noteq> [] \<or> trim_space (fwp_family plan) \<noteq> [] \<or> trim_space (fwp_table plan) \<noteq> [] \<or>
      trim_space (fwp_table_action plan) \<noteq> [])"

definition shouldApplyFirewall :: "TunFirewallPlan \<Rightarrow> bool" where
  "shouldApplyFirewall plan = (fwp_table_action plan = FirewallTableAction \<and> trim_space (fwp_table plan) \<noteq> [])"

definition firewall_step_of :: "TunFirewallPlan \<Rightarrow> Step" where
  "firewall_step_of plan =
     \<lparr>st_kind = ''nftables'', st_target = trim_space (fwp_family plan) @ '' '' @ trim_space (fwp_table plan),
      st_description = fwp_reason plan, st_owner = ''podlaz:nftables''\<rparr>"

definition Firewall_Apply :: "'w host \<Rightarrow> TunFirewallPlan \<Rightarrow> ('w, Step) step_act" where
  "Firewall_Apply host plan =
     bindp (host_act (AppliedTable plan) (\<lambda>w. (w, ()))) (\<lambda>u.
     bindp (map_err (\<lambda>t. (empty_step, plain_error t)) (on_nft host (\<lambda>env h. NftablesApply env h plan))) (\<lambda>u.
       ret (firewall_step_of plan)))"

definition Firewall_Verify :: "'w host \<Rightarrow> TunFirewallPlan \<Rightarrow> ('w, unit) exec_act" where
  "Firewall_Verify host plan = map_err plain_error (on_nft host (\<lambda>env h. NftablesVerify env h plan))"

definition Firewall_Rollback :: "'w host \<Rightarrow> TunFirewallPlan \<Rightarrow> ('w, unit) exec_act" where
  "Firewall_Rollback host plan = map_err plain_error (rollback_table host plan)"

definition DnsTun_validate :: "'w host \<Rightarrow> TunPlan \<Rightarrow> ('w, unit) exec_act" where
  "DnsTun_validate host plan =
     bindp (checke (validateDNSPlan (ho_quote host) (tp_dns plan))) (\<lambda>u.
       if hasFirewallPlan (tp_firewall plan)
       then checke (map_option plain_error (validateFirewallPlan (tp_firewall plan))) else ret ())"

definition before_apply :: "string \<Rightarrow> Step list \<Rightarrow> ('w, 'a) exec_act \<Rightarrow> ('w, 'a) apply_act" where
  "before_apply subphase steps m = map_err (\<lambda>e. \<lparr>af_steps = steps, af_subphase = subphase, af_error = e\<rparr>) m"

definition DnsTun_ApplyWithStepSink :: "'w host \<Rightarrow> int \<Rightarrow> bool \<Rightarrow> TunPlan \<Rightarrow> ('w, Step list) apply_act" where
  "DnsTun_ApplyWithStepSink host attempts sink plan =
     (let dns = tp_dns plan; owned = \<lambda>steps.
          if shouldApplyDNS dns then before_apply ''dns'' steps (CheckDefaultDNSOwnership host (dpl_target_link dns)) else ret () in
      bindp (before_apply [] [] (DnsTun_validate host plan)) (\<lambda>u.
      bindp (owned []) (\<lambda>u.
      bindp (ApplyWithStepSink host sink plan) (\<lambda>steps.
      bindp (owned steps) (\<lambda>u.
      bindp (if shouldApplyDNS dns then apply_recorded host sink ''dns'' steps (Dns_Apply host attempts dns) else ret steps) (\<lambda>steps.
        if shouldApplyFirewall (tp_firewall plan)
        then apply_recorded host sink ''nftables'' steps (Firewall_Apply host (tp_firewall plan)) else ret steps))))))"

definition DnsTun_Verify :: "'w host \<Rightarrow> int \<Rightarrow> TunPlan \<Rightarrow> ('w, unit) exec_act" where
  "DnsTun_Verify host attempts plan =
     bindp (DnsTun_validate host plan) (\<lambda>u.
     bindp (Tun_Verify host plan) (\<lambda>u.
     bindp (if shouldApplyDNS (tp_dns plan) then Dns_Verify host attempts (tp_dns plan) else ret ()) (\<lambda>u.
       if shouldApplyFirewall (tp_firewall plan) then Firewall_Verify host (tp_firewall plan) else ret ())))"

definition DnsTun_Rollback :: "'w host \<Rightarrow> TunPlan \<Rightarrow> ('w, unit) exec_act" where
  "DnsTun_Rollback host plan =
     bindp (Tun_VerifyRollbackIdentity host plan) (\<lambda>u.
     bindp (if trim_space (fwp_table (tp_firewall plan)) \<noteq> [] then Firewall_Rollback host (tp_firewall plan) else ret ()) (\<lambda>u.
     bindp (if trim_space (dpl_target_link (tp_dns plan)) \<noteq> [] then Dns_Rollback host (tp_dns plan) else ret ()) (\<lambda>u.
       Tun_Rollback host plan)))"

section \<open>Resource-scoped rollback\<close>

definition independentRollbackRoute :: "TunRoutePlan \<Rightarrow> bool" where
  "independentRollbackRoute r =
     (trp_action r = ''add'' \<and> trim_space (trp_table r) = MainRoutingTable \<and> trim_space (trp_interface r) \<noteq> [] \<and>
      trim_space (trp_interface r) \<noteq> managedInterface \<and> trim_space (trp_gateway r) \<noteq> [] \<and>
      is4_addr (trim_space (trp_gateway r)) \<and> is4_host_prefix (trim_space (trp_destination r)))"

text \<open>Loops that go on after an error, and \<^verbatim>\<open>errors.Join\<close> of what they collected.\<close>

fun each_error :: "('x \<Rightarrow> bool) \<Rightarrow> ('x \<Rightarrow> ('w, unit) exec_act) \<Rightarrow> 'x list \<Rightarrow> ('w, exec_error list) exec_act" where
  "each_error P f [] = ret []"
| "each_error P f (x # xs) =
     (if P x then
        bindp (tryp (f x)) (\<lambda>r.
        bindp (each_error P f xs) (\<lambda>es. ret ((case r of Inl e \<Rightarrow> [e] | Inr u \<Rightarrow> []) @ es)))
      else each_error P f xs)"

fun joined :: "exec_error list \<Rightarrow> exec_error option" where
  "joined [] = None"
| "joined [e] = Some e"
| "joined (e # es) = map_option (join_errors e) (joined es)"

definition RollbackIndependent :: "'w host \<Rightarrow> TunPlan \<Rightarrow> ('w, unit) exec_act" where
  "RollbackIndependent host plan =
     bindp (each_error (\<lambda>r. prp_action r = ''add'') (PolicyRule_Rollback host) (rev (tp_rules plan))) (\<lambda>es.
     bindp (each_error independentRollbackRoute (Route_Rollback host) (rev (tp_routes plan))) (\<lambda>es'.
       checke (joined (es @ es'))))"

definition rollbackIndependentRollback :: "'w host \<Rightarrow> TunPlan \<Rightarrow> ('w, unit) exec_act" where
  "rollbackIndependentRollback host plan =
     bindp (each_error (\<lambda>fw. trim_space (fwp_table fw) \<noteq> []) (Firewall_Rollback host) [tp_firewall plan]) (\<lambda>es.
     bindp (each_error (\<lambda>p. True) (RollbackIndependent host) [plan]) (\<lambda>es'. checke (joined (es @ es'))))"

definition RollbackResourceScoped :: "'w host \<Rightarrow> TunPlan \<Rightarrow> ('w, unit) exec_act" where
  "RollbackResourceScoped host plan =
     bindp (tryp (Tun_VerifyRollbackIdentity host plan)) (\<lambda>r.
       case r of
         Inr u \<Rightarrow> DnsTun_Rollback host plan
       | Inl e \<Rightarrow>
           bindp (tryp (rollbackIndependentRollback host plan)) (\<lambda>r'.
             case r' of
               Inl e' \<Rightarrow> fail (join_errors e' e)
             | Inr u \<Rightarrow>
                 if strictRollbackTunLinkAbsent e then fail (e\<lparr>ee_tags := TunRollbackLinkAbsent # ee_tags e\<rparr>) else fail e))"

definition RollbackResourceScopedChildAbsent :: "'w host \<Rightarrow> TunPlan \<Rightarrow> ('w, unit) exec_act" where
  "RollbackResourceScopedChildAbsent host plan = rollbackIndependentRollback host plan"

definition IsTunRollbackLinkAbsent :: "exec_error \<Rightarrow> bool" where
  "IsTunRollbackLinkAbsent e = (TunRollbackLinkAbsent \<in> set (ee_tags e))"

end
