(* ===== verification/Tun_Transaction.thy ===== *)
theory Tun_Transaction
  imports Dns_Executor
begin

text \<open>
  The transaction of a TUN session in the daemon: \<^verbatim>\<open>src/internal/daemon/tun_transaction.go\<close>,
  \<^verbatim>\<open>tun_transaction_metadata.go\<close>, \<^verbatim>\<open>tun_transaction_rollback.go\<close>, \<^verbatim>\<open>tun_child_process_rollback.go\<close>,
  \<^verbatim>\<open>tun_xray_owned_plan.go\<close> and the helpers of \<^verbatim>\<open>tun_status_helpers.go\<close> they share.

  The daemon runs the composition of \<^verbatim>\<open>NewOSDNSExecutor\<close>, so the tests for a missing executor and for an
  executor without step callback or resource-scoped rollback never take the other branch and are left out.
  The record a function receives as \<^verbatim>\<open>*Transaction\<close> is part of the state (\<open>dk_tx\<close>); deadlines of contexts are
  the \<open>ho_cancelled\<close> of the host.
\<close>

section \<open>Plans and records\<close>

definition xrayTunInboundOwner :: string where "xrayTunInboundOwner = ''xray:tun-inbound''"
definition hostRoutePrerequisiteOwner :: string where "hostRoutePrerequisiteOwner = ''host:route-prerequisite''"
definition dnsRouteOnlyDomain :: string where "dnsRouteOnlyDomain = ''~.''"

definition snapshotMetadata :: "Snapshot \<Rightarrow> gotime \<Rightarrow> SnapshotMetadata" where
  "snapshotMetadata s now =
     \<lparr>sm_captured_at = now, sm_source = ''daemon network snapshot'',
      sm_summary = [''default IPv4 route: '' @ status_text (rt_status (sn_default_ipv4 s)),
        ''server route: '' @ status_text (rt_status (sn_server_route s)),
        ''tun devices inspected: '' @ itoa (length (sn_tun_devices s))]\<rparr>"

definition tunAddressTarget :: "TunAddressPlan \<Rightarrow> string" where
  "tunAddressTarget a = tap_interface a @ ''@ifindex='' @ itoa_int (tap_link_index a) @ '':'' @ tap_cidr a"

definition policyRuleTarget :: "TunPolicyRulePlan \<Rightarrow> string" where
  "policyRuleTarget r =
     ''priority '' @ itoa_int (prp_priority r) @ '' '' @ prp_selector r @ '' lookup '' @ prp_table r"

definition firewallTarget :: "TunFirewallPlan \<Rightarrow> string" where
  "firewallTarget f = trim_space (fwp_family f @ '' '' @ fwp_table f)"

definition dnsSearchDomains :: "TunDNSPlan \<Rightarrow> string list" where
  "dnsSearchDomains d =
     (if dpl_action d \<noteq> DNSActionConfigure \<or> dpl_target_link d = [] then [] else [dnsRouteOnlyDomain])"

definition firewallRuleStrings :: "TunFirewallRulePlan list \<Rightarrow> string list" where
  "firewallRuleStrings rules =
     map (\<lambda>r. trim_space (frp_expr r @ '' '' @ frp_verdict r @ '' owner '' @ frp_ownership r))
       (filter (\<lambda>r. frp_action r = FirewallActionAdd) rules)"

definition nftChains :: "TunFirewallPlan \<Rightarrow> NFTChainPlan list" where
  "nftChains f =
     map (\<lambda>c. \<lparr>nc_name = fcp_name c, nc_hook = fcp_hook c, nc_type = fcp_type c, nc_priority = fcp_priority c,
               nc_policy = fcp_policy c, nc_rules = firewallRuleStrings (fwp_rules f), nc_owner = OwnerFirewall\<rparr>)
       (fwp_chains f)"

definition tunDesiredOwner :: "string \<Rightarrow> string" where
  "tunDesiredOwner action =
     (let a = to_lower (trim_space action) in
      if a = ''verify'' \<or> a = ''use-existing'' then xrayTunInboundOwner else OwnerTunDevice)"

definition tunRollbackOwnsLink :: "string \<Rightarrow> bool" where
  "tunRollbackOwnsLink action = (let a = to_lower (trim_space action) in a = ''create'' \<or> a = ''add'')"

definition tunAddressDesiredState :: "TunAddressPlan \<Rightarrow> TUNAddressDesiredState" where
  "tunAddressDesiredState a =
     (if trim_space (tap_cidr a) = [] then pl_tun_address zero_plan
      else \<lparr>ta_family = tap_family a, ta_interface_name = tap_interface a, ta_cidr = tap_cidr a, ta_scope = tap_scope a,
            ta_link_index = tap_link_index a, ta_link_kind = tap_link_kind a,
            ta_appeared_after_core = tap_appeared_after_core a, ta_owner = OwnerTunAddress\<rparr>)"

definition tunAddressRollbackIsOwned :: "TunAddressPlan \<Rightarrow> bool" where
  "tunAddressRollbackIsOwned a =
     (IsTunAddressAssignAction (tap_action a) \<and> 0 < tap_link_index a \<and> tap_link_kind a = ''tun'' \<and>
      tap_appeared_after_core a \<and> trim_space (tap_cidr a) \<noteq> [])"

definition tunAddressRollbackState :: "TunAddressPlan \<Rightarrow> TUNAddressRollback" where
  "tunAddressRollbackState a =
     \<lparr>tar_family = tap_family a, tar_interface_name = tap_interface a, tar_cidr = tap_cidr a, tar_scope = tap_scope a,
      tar_link_index = tap_link_index a, tar_link_kind = tap_link_kind a,
      tar_appeared_after_core = tap_appeared_after_core a, tar_owner = OwnerTunAddress\<rparr>"

definition policyRuleRollback :: "TunPolicyRulePlan \<Rightarrow> PolicyRuleRollback" where
  "policyRuleRollback r =
     (let rule = \<lparr>pr_priority = prp_priority r, pr_from = [], pr_to = [], pr_table = prp_table r, pr_mark = [],
                  pr_owner = OwnerPolicyRule\<rparr>;
          selector = trim_space (prp_selector r) in
      if starts ''to '' selector then rule\<lparr>pr_to := trim_space (drop 3 selector)\<rparr>
      else if starts ''from '' selector then rule\<lparr>pr_from := trim_space (drop 5 selector)\<rparr>
      else if starts ''fwmark '' selector then rule\<lparr>pr_mark := trim_space (drop 7 selector)\<rparr>
      else rule\<lparr>pr_from := selector\<rparr>)"

definition desired_route_of :: "TunRoutePlan \<Rightarrow> RoutePlan list" where
  "desired_route_of r =
     (let route = \<lambda>owner operation.
          \<lparr>rp_kind = ''route'', rp_table = trp_table r, rp_cidr = trp_destination r, rp_via = trp_gateway r,
           rp_dev = trp_interface r, rp_priority = 0, rp_owner = owner, rp_operation = operation\<rparr> in
      if IsTunAddAction (trp_action r) then [route OwnerRoute ''add'']
      else if IsTunVerifyAction (trp_action r) then [route hostRoutePrerequisiteOwner ''verify'']
      else [])"

definition desired_steps_of :: "TunPlan \<Rightarrow> PlannedStep list" where
  "desired_steps_of plan =
     map (\<lambda>s. \<lparr>ps_kind = ''plan'', ps_target = ModeTun, ps_description = s, ps_owner = TransactionOwner\<rparr>) (tp_steps plan) @
     (if tap_cidr (tp_address plan) \<noteq> []
      then [\<lparr>ps_kind = ''tun-address'', ps_target = tunAddressTarget (tp_address plan),
             ps_description = tap_reason (tp_address plan), ps_owner = OwnerTunAddress\<rparr>] else []) @
     map (\<lambda>r. \<lparr>ps_kind = ''policy-rule'', ps_target = policyRuleTarget r, ps_description = prp_reason r,
               ps_owner = OwnerPolicyRule\<rparr>)
       (filter (\<lambda>r. IsTunAddAction (prp_action r)) (tp_rules plan)) @
     (if dpl_action (tp_dns plan) = DNSActionConfigure \<and> dpl_target_link (tp_dns plan) \<noteq> []
      then [\<lparr>ps_kind = ''dns'', ps_target = dpl_target_link (tp_dns plan), ps_description = dpl_reason (tp_dns plan),
             ps_owner = OwnerDNS\<rparr>] else []) @
     (if fwp_table_action (tp_firewall plan) = FirewallTableAction \<and> fwp_table (tp_firewall plan) \<noteq> []
      then [\<lparr>ps_kind = ''nftables'', ps_target = firewallTarget (tp_firewall plan),
             ps_description = fwp_reason (tp_firewall plan), ps_owner = OwnerFirewall\<rparr>] else [])"

definition desiredPlanFromTunPlan :: "TunPlan \<Rightarrow> DesiredPlan" where
  "desiredPlanFromTunPlan plan =
     \<lparr>pl_plan_id = tp_profile_id plan @ '':'' @ ModeTun,
      pl_tun = \<lparr>td_interface_name = tdp_name (tp_device plan), td_mtu = int (tdp_mtu (tp_device plan)),
                td_owner = tunDesiredOwner (tdp_action (tp_device plan))\<rparr>,
      pl_tun_address = tunAddressDesiredState (tp_address plan), pl_egress_mark = tp_egress_mark plan,
      pl_routes = concat (map desired_route_of (tp_routes plan)),
      pl_dns = \<lparr>dp_backend = dpl_backend (tp_dns plan), dp_link = dpl_target_link (tp_dns plan),
                dp_servers = dpl_servers (tp_dns plan), dp_search_domains = dnsSearchDomains (tp_dns plan),
                dp_owner = TransactionOwner\<rparr>,
      pl_nft = \<lparr>np_family = fwp_family (tp_firewall plan), np_table = fwp_table (tp_firewall plan),
                np_chains = nftChains (tp_firewall plan), np_owner = OwnerFirewall\<rparr>,
      pl_core = pl_core zero_plan, pl_steps = desired_steps_of plan\<rparr>"

definition route_rollback_of :: "TunRoutePlan \<Rightarrow> RouteRollback" where
  "route_rollback_of r =
     \<lparr>rr_table = trp_table r, rr_cidr = trp_destination r, rr_via = trp_gateway r, rr_dev = trp_interface r,
      rr_owner = OwnerRoute\<rparr>"

definition rollbackMetadataFromTunPlan :: "TunPlan \<Rightarrow> RollbackMetadata" where
  "rollbackMetadataFromTunPlan plan =
     (let dns = tp_dns plan; fw = tp_firewall plan in
      \<lparr>rb_tun = (if tdp_name (tp_device plan) \<noteq> [] \<and> tunRollbackOwnsLink (tdp_action (tp_device plan))
                 then [\<lparr>tr_interface_name = tdp_name (tp_device plan), tr_owner = OwnerTunDevice\<rparr>] else []),
       rb_tun_addresses = (if tunAddressRollbackIsOwned (tp_address plan)
                           then [tunAddressRollbackState (tp_address plan)] else []),
       rb_routes = map route_rollback_of (filter (\<lambda>r. IsTunAddAction (trp_action r)) (tp_routes plan)),
       rb_policy_rules = map policyRuleRollback (filter (\<lambda>r. IsTunAddAction (prp_action r)) (tp_rules plan)),
       rb_dns = (if dpl_action dns = DNSActionConfigure \<and> dpl_target_link dns \<noteq> []
                 then [\<lparr>dr_backend = dpl_backend dns, dr_link = dpl_target_link dns, dr_previous = [],
                        dr_search_domains = dnsSearchDomains dns, dr_owner = OwnerDNS\<rparr>] else []),
       rb_nftables = (if fwp_table_action fw = FirewallTableAction \<and> fwp_table fw \<noteq> []
                      then [\<lparr>nr_family = fwp_family fw, nr_table = fwp_table fw, nr_chain = [], nr_owner = OwnerFirewall\<rparr>]
                      else []),
       rb_generated_configs = [], rb_child_processes = []\<rparr>)"

definition mergeRollbackMetadata :: "RollbackMetadata \<Rightarrow> RollbackMetadata \<Rightarrow> RollbackMetadata" where
  "mergeRollbackMetadata base extra =
     \<lparr>rb_tun = rb_tun base @ rb_tun extra,
      rb_tun_addresses = rb_tun_addresses base @ rb_tun_addresses extra,
      rb_routes = rb_routes base @ rb_routes extra,
      rb_policy_rules = rb_policy_rules base @ rb_policy_rules extra,
      rb_dns = rb_dns base @ rb_dns extra,
      rb_nftables = rb_nftables base @ rb_nftables extra,
      rb_generated_configs = rb_generated_configs base @ rb_generated_configs extra,
      rb_child_processes = rb_child_processes base @ rb_child_processes extra\<rparr>"

definition appliedStepsFromExecutor :: "Step list \<Rightarrow> gotime \<Rightarrow> AppliedStep list" where
  "appliedStepsFromExecutor steps now =
     map (\<lambda>s. \<lparr>as_kind = st_kind s, as_target = st_target s, as_description = st_description s, as_applied_at = now,
               as_owner = st_owner s\<rparr>) steps"

definition hasAppliedTunStep :: "AppliedStep list \<Rightarrow> Step \<Rightarrow> bool" where
  "hasAppliedTunStep applied step =
     list_ex (\<lambda>a. as_kind a = st_kind step \<and> as_target a = st_target step \<and> as_owner a = st_owner step) applied"

section \<open>The rollback plan of the applied steps\<close>

text \<open>The plan with nothing to roll back.  Rollback never reads the snapshot, which the model keeps.\<close>

definition bare_plan :: "TunPlan \<Rightarrow> TunPlan" where
  "bare_plan plan =
     \<lparr>tp_mode = tp_mode plan, tp_tunnel_mode = tp_tunnel_mode plan, tp_profile_id = tp_profile_id plan,
      tp_profile_name = tp_profile_name plan, tp_snapshot = tp_snapshot plan,
      tp_device = \<lparr>tdp_name = [], tdp_mtu = 0, tdp_action = [], tdp_reason = []\<rparr>,
      tp_address = \<lparr>tap_family = [], tap_interface = [], tap_cidr = [], tap_scope = [], tap_action = [], tap_reason = [],
         tap_classification = [], tap_owner = [], tap_rollback_key = [], tap_link_index = 0, tap_link_kind = [],
         tap_appeared_after_core = False, tap_allow_owned_existing = False, tap_allow_missing_link = False\<rparr>,
      tp_routes = [], tp_rules = [], tp_server_bypass = no_bypass, tp_egress_mark = 0,
      tp_dns = \<lparr>dpl_backend = [], dpl_target_link = [], dpl_servers = [], dpl_action = [], dpl_reason = [],
         dpl_rollback = [], dpl_rollback_steps = []\<rparr>,
      tp_firewall = \<lparr>fwp_backend = [], fwp_family = [], fwp_table = [], fwp_table_action = [], fwp_chains = [],
         fwp_rules = [], fwp_kill_switch = \<lparr>ksp_policy = [], ksp_action = [], ksp_scope = [], ksp_recovery = [],
         ksp_limitations = []\<rparr>, fwp_reason = [], fwp_rollback = [], fwp_rollback_steps = []\<rparr>,
      tp_loop_risks = [], tp_warnings = [], tp_steps = [], tp_rollback_steps = []\<rparr>"

definition add_rollback_step :: "TunPlan \<Rightarrow> TunPlan \<Rightarrow> Step \<Rightarrow> TunPlan" where
  "add_rollback_step plan rollback step =
     (if st_kind step = ''tun-device'' then
        (if st_owner step = OwnerTunDevice \<and> st_target step = tdp_name (tp_device plan)
         then rollback\<lparr>tp_device := (tp_device plan)\<lparr>tdp_reason := st_description step\<rparr>\<rparr> else rollback)
      else if st_kind step = ''tun-address'' then
        (if st_owner step = OwnerTunAddress \<and> st_target step = tunAddressTarget (tp_address plan)
         then rollback\<lparr>tp_address := tp_address plan\<rparr> else rollback)
      else if st_kind step = ''route'' then
        (if st_owner step = OwnerRoute
         then rollback\<lparr>tp_routes := tp_routes rollback @ filter (\<lambda>r. routeTarget r = st_target step) (tp_routes plan)\<rparr>
         else rollback)
      else if st_kind step = ''policy-rule'' then
        (if st_owner step = OwnerPolicyRule
         then rollback\<lparr>tp_rules := tp_rules rollback @ filter (\<lambda>r. policyRuleTarget r = st_target step) (tp_rules plan)\<rparr>
         else rollback)
      else if st_kind step = ''dns'' then
        (if st_owner step = OwnerDNS \<and> st_target step = dpl_target_link (tp_dns plan)
         then rollback\<lparr>tp_dns := tp_dns plan\<rparr> else rollback)
      else if st_kind step = ''nftables'' then
        (if st_owner step = OwnerFirewall \<and> st_target step = firewallTarget (tp_firewall plan)
         then rollback\<lparr>tp_firewall := tp_firewall plan\<rparr> else rollback)
      else rollback)"

definition rollbackPlanFromAppliedSteps :: "TunPlan \<Rightarrow> Step list \<Rightarrow> TunPlan" where
  "rollbackPlanFromAppliedSteps plan steps = foldl (add_rollback_step plan) (bare_plan plan) steps"

definition step_of_applied :: "AppliedStep \<Rightarrow> Step" where
  "step_of_applied a = \<lparr>st_kind = as_kind a, st_target = as_target a, st_description = as_description a, st_owner = as_owner a\<rparr>"

definition rollbackPlanFromPersistedTransaction :: "TunPlan \<Rightarrow> Transaction \<Rightarrow> TunPlan" where
  "rollbackPlanFromPersistedTransaction plan tx =
     rollbackPlanFromAppliedSteps plan (map step_of_applied (tx_applied_steps tx))"

definition rollbackPlanHasOwnedResource :: "TunPlan \<Rightarrow> bool" where
  "rollbackPlanHasOwnedResource plan =
     (tdp_name (tp_device plan) \<noteq> [] \<or> tap_cidr (tp_address plan) \<noteq> [] \<or> tp_routes plan \<noteq> [] \<or> tp_rules plan \<noteq> [] \<or>
      dpl_target_link (tp_dns plan) \<noteq> [] \<or> fwp_table (tp_firewall plan) \<noteq> [])"

definition filterOwnedAppliedSteps :: "TunPlan \<Rightarrow> Step list \<Rightarrow> Step list" where
  "filterOwnedAppliedSteps plan steps =
     filter (\<lambda>s. rollbackPlanHasOwnedResource (rollbackPlanFromAppliedSteps plan [s])) steps"

text \<open>The plan of a session whose link the core owns: its resources are claimed exclusively.\<close>

definition xrayOwnedTunSteps :: "TunPlan \<Rightarrow> string list" where
  "xrayOwnedTunSteps plan =
     ''Start Xray native tun inbound and verify podlaz0 before applying podlaz-owned Linux routes, DNS, and nftables state'' #
     filter (\<lambda>s. \<not> contains_str s ''Plan TUN interface'' \<and> \<not> contains_str s ''Leave TUN devices'') (tp_steps plan)"

definition xrayOwnedTunRollbackSteps :: "TunPlan \<Rightarrow> string list" where
  "xrayOwnedTunRollbackSteps plan =
     ''Roll back podlaz-owned nftables, DNS, routes, and policy rules before stopping Xray and releasing podlaz0'' #
     filter (\<lambda>s. \<not> contains_str s ''Delete TUN interface'') (tp_rollback_steps plan)"

definition claim_address :: "TunAddressPlan \<Rightarrow> TunAddressPlan" where
  "claim_address a =
     (if tap_action a = TunAddressActionAssign then a\<lparr>tap_action := TunAddressActionAssignExclusive\<rparr> else a)"

definition claim_route :: "TunRoutePlan \<Rightarrow> TunRoutePlan" where
  "claim_route r = (if trp_action r = ''add'' then r\<lparr>trp_action := TunActionAddExclusive\<rparr> else r)"

definition claim_rule :: "TunPolicyRulePlan \<Rightarrow> TunPolicyRulePlan" where
  "claim_rule r = (if prp_action r = ''add'' then r\<lparr>prp_action := TunActionAddExclusive\<rparr> else r)"

definition xrayOwnedTunPlan :: "TunPlan \<Rightarrow> TunPlan" where
  "xrayOwnedTunPlan plan =
     (let plan = plan\<lparr>tp_device := (tp_device plan)\<lparr>tdp_action := ''verify'',
            tdp_reason := ''Xray tun inbound owns podlaz0 creation and packet ingestion; podlaz verifies the link before applying routes, DNS, and firewall state''\<rparr>\<rparr>;
          plan = (case TunResourceAllocationFromPlan plan of
                    Inl e \<Rightarrow> plan
                  | Inr al \<Rightarrow> plan\<lparr>tp_address := claim_address (tp_address plan), tp_routes := map claim_route (tp_routes plan),
                                  tp_rules := map claim_rule (tp_rules plan)\<rparr>);
          plan = plan\<lparr>tp_steps := xrayOwnedTunSteps plan\<rparr>
      in plan\<lparr>tp_rollback_steps := xrayOwnedTunRollbackSteps plan\<rparr>)"

section \<open>The state of the daemon\<close>

text \<open>The transaction directory, the number of accesses to it so far, the record in memory and the rest of the
  world.\<close>

record 'v disk =
  dk_dir :: txdir
  dk_tick :: nat
  dk_tx :: Transaction
  dk_world :: 'v

definition on_world :: "('v \<Rightarrow> 'v \<times> 'a) \<Rightarrow> 'v disk \<Rightarrow> 'v disk \<times> 'a" where
  "on_world f d = (case f (dk_world d) of (w, x) \<Rightarrow> (d\<lparr>dk_world := w\<rparr>, x))"

definition disk_nft :: "'v nft_host \<Rightarrow> 'v disk nft_host" where
  "disk_nft h =
     \<lparr>nh_tables = (\<lambda>f d. nh_tables h f (dk_world d)), nh_table = (\<lambda>f fam t d. nh_table h f fam t (dk_world d)),
      nh_generation = (\<lambda>f d. nh_generation h f (dk_world d)), nh_batch = (\<lambda>f s. on_world (nh_batch h f s)),
      nh_commit = (\<lambda>f g cs. on_world (nh_commit h f g cs))\<rparr>"

text \<open>The host seen from the daemon: everything but the step callback acts on the rest of the world only.\<close>

definition disk_host :: "(Step \<Rightarrow> 'v disk \<Rightarrow> 'v disk \<times> string option) \<Rightarrow> 'v host \<Rightarrow> 'v disk host" where
  "disk_host sink h =
     \<lparr>ho_look_path = (\<lambda>n. on_world (ho_look_path h n)), ho_run = (\<lambda>n args. on_world (ho_run h n args)),
      ho_cancelled = (\<lambda>d. ho_cancelled h (dk_world d)), ho_quote = ho_quote h, ho_evidence = on_world (ho_evidence h),
      ho_core_done = (\<lambda>d. ho_core_done h (dk_world d)), ho_sleep = on_world (ho_sleep h), ho_sink = sink,
      ho_directory = (\<lambda>p d. ho_directory h p (dk_world d)), ho_tx_error = ho_tx_error h,
      ho_stat = (\<lambda>p. on_world (ho_stat h p)), ho_read_dir = (\<lambda>p. on_world (ho_read_dir h p)),
      ho_remove_all = (\<lambda>p. on_world (ho_remove_all h p)), ho_remove = (\<lambda>p. on_world (ho_remove h p)),
      ho_nft = disk_nft (ho_nft h), ho_nft_env = (\<lambda>n. case ho_nft_env h n of (f, g) \<Rightarrow> (f, \<lambda>d. d\<lparr>dk_world := g (dk_world d)\<rparr>))\<rparr>"

datatype signal = SIGTERM | SIGKILL
datatype signal_error = ProcessDone | NoSuchProcess | SignalFailed string
datatype remove_error = RemoveNotExist | RemoveNotEmpty | RemoveFailed string

text \<open>\<open>tv_saves\<close> says how each access to the transaction directory goes, \<open>tv_polls\<close> how many polls of a stopping
  process fit before its deadline.\<close>

record 'v tun_env =
  tv_host :: "'v host"
  tv_store :: TransactionStore
  tv_saves :: "nat \<Rightarrow> save_env"
  tv_unlink :: "nat \<Rightarrow> string option"
  tv_attempts :: int
  tv_pause :: "'v \<Rightarrow> 'v \<times> string option"
  tv_read_file :: "string \<Rightarrow> 'v \<Rightarrow> 'v \<times> (file_error + string)"
  tv_signal :: "int \<Rightarrow> signal \<Rightarrow> 'v \<Rightarrow> 'v \<times> signal_error option"
  tv_polls :: nat
  tv_wait :: "'v \<Rightarrow> 'v"
  tv_stat :: "string \<Rightarrow> 'v \<Rightarrow> 'v \<times> file_error option"
  tv_remove :: "string \<Rightarrow> 'v \<Rightarrow> 'v \<times> remove_error option"

type_synonym ('v, 'a) tun_act = "('v disk host_state, exec_error, 'a) prog"

definition tx_failure :: "'v tun_env \<Rightarrow> tx_error \<Rightarrow> exec_error" where
  "tx_failure env e = plain_error (ho_tx_error (tv_host env) e)"

definition lift_store :: "'v tun_env \<Rightarrow> (tx_error + 'a) \<Rightarrow> exec_error + 'a" where
  "lift_store env r = (case r of Inl e \<Rightarrow> Inl (tx_failure env e) | Inr x \<Rightarrow> Inr x)"

definition disk_now :: "'v tun_env \<Rightarrow> 'v disk \<Rightarrow> gotime" where
  "disk_now env d = ev_now (tv_saves env (dk_tick d))"

definition disk_save :: "'v tun_env \<Rightarrow> Transaction \<Rightarrow> 'v disk \<Rightarrow> 'v disk \<times> (exec_error + string)" where
  "disk_save env tx d =
     (case Save (tv_store env) (tv_saves env (dk_tick d)) (dk_dir d) tx of
        (dir, r) \<Rightarrow> (d\<lparr>dk_dir := dir, dk_tick := Suc (dk_tick d)\<rparr>, lift_store env r))"

definition disk_transition ::
  "'v tun_env \<Rightarrow> string \<Rightarrow> TransactionState \<Rightarrow> 'v disk \<Rightarrow> 'v disk \<times> (exec_error + Transaction)" where
  "disk_transition env txid next d =
     (case StoreTransition (tv_store env) (tv_saves env (dk_tick d)) (dk_dir d) txid next of
        (dir, r) \<Rightarrow> (d\<lparr>dk_dir := dir, dk_tick := Suc (dk_tick d)\<rparr>, lift_store env (rbind r (\<lambda>(tx, path). Inr tx))))"

definition save_tx :: "'v tun_env \<Rightarrow> Transaction \<Rightarrow> ('v, string) tun_act" where
  "save_tx env tx = bindp (host_act (SavedTransaction tx) (disk_save env tx)) liftp"

definition transition_tx :: "'v tun_env \<Rightarrow> string \<Rightarrow> TransactionState \<Rightarrow> ('v, Transaction) tun_act" where
  "transition_tx env txid next = bindp (host_read (disk_transition env txid next)) liftp"

definition load_tx :: "'v tun_env \<Rightarrow> string \<Rightarrow> ('v, Transaction) tun_act" where
  "load_tx env txid =
     bindp (host_peek (\<lambda>d. lift_store env (rbind (Load (tv_store env) (dk_dir d) txid) (\<lambda>(tx, path). Inr tx)))) liftp"

definition get_tx :: "('v disk host_state, 'e, Transaction) prog" where
  "get_tx = host_peek dk_tx"

definition put_tx :: "Transaction \<Rightarrow> ('v disk host_state, 'e, unit) prog" where
  "put_tx tx = host_read (\<lambda>d. (d\<lparr>dk_tx := tx\<rparr>, ()))"

definition transactionNow :: "'v tun_env \<Rightarrow> ('v disk host_state, 'e, gotime) prog" where
  "transactionNow env = host_peek (disk_now env)"

section \<open>Begin and metadata\<close>

definition compact_digits :: "string \<Rightarrow> string" where
  "compact_digits s = filter is_digit s"

text \<open>\<^verbatim>\<open>now().UTC().Format("20060102T150405.000000000Z")\<close> on the canonical text of a time, whose fraction has no
  trailing zeros.\<close>

definition newTunTransactionID :: "gotime \<Rightarrow> string" where
  "newTunTransactionID t =
     (let frac = compact_digits (drop 19 t) in
      ''tun-'' @ compact_digits (take 10 t) @ ''T'' @ compact_digits (take 8 (drop 11 t)) @ ''.'' @
      frac @ replicate (9 - length frac) (CHR ''0'') @ ''Z'')"

definition join_host_port :: "string \<Rightarrow> string \<Rightarrow> string" where
  "join_host_port host port = (if CHR '':'' \<in> set host then ''['' @ host @ '']:'' @ port else host @ '':'' @ port)"

definition tunTransactionDiagnosticLabels :: "Profile \<Rightarrow> (string \<times> string) list" where
  "tunTransactionDiagnosticLabels p =
     (let server = trim_space (pr_server p);
          name = (if trim_space (pr_server_name p) = [] then server else trim_space (pr_server_name p)) in
      (if server \<noteq> [] \<and> pr_port p \<noteq> 0
       then [(''diagnostic_server_endpoint'', join_host_port server (itoa (unat (pr_port p))))] else []) @
      (if name \<noteq> [] then [(''diagnostic_server_name'', name)] else []))"

text \<open>The clock is read once for the identifier, the times of the record and its first save.\<close>

definition beginTunTransaction :: "'v tun_env \<Rightarrow> Profile \<Rightarrow> TunPlan \<Rightarrow> ('v, string) tun_act" where
  "beginTunTransaction env p plan =
     bindp (transactionNow env) (\<lambda>now.
       (let tx = (NewTransaction now (newTunTransactionID now) (pr_id p) ModeTun now)
                   \<lparr>tx_before_snapshot := snapshotMetadata (tp_snapshot plan) now,
                    tx_desired_plan := desiredPlanFromTunPlan plan,
                    tx_labels := tunTransactionDiagnosticLabels p\<rparr> in
        bindp (save_tx env tx) (\<lambda>path.
        bindp (transition_tx env (tx_id tx) TransactionApplying) (\<lambda>tx'. ret (tx_id tx)))))"

definition hasGeneratedConfigRollback :: "RollbackMetadata \<Rightarrow> string \<Rightarrow> bool" where
  "hasGeneratedConfigRollback rb path = list_ex (\<lambda>c. gr_path c = path) (rb_generated_configs rb)"

definition with_core_plan :: "string \<Rightarrow> Transaction \<Rightarrow> Transaction" where
  "with_core_plan path tx =
     tx\<lparr>tx_desired_plan := (tx_desired_plan tx)\<lparr>pl_core := \<lparr>cp_runtime_config_path = path, cp_process_label = ''xray'',
          cp_owner = TransactionOwner\<rparr>\<rparr>,
        tx_rollback :=
          (if hasGeneratedConfigRollback (tx_rollback tx) path then tx_rollback tx
           else (tx_rollback tx)\<lparr>rb_generated_configs := rb_generated_configs (tx_rollback tx) @
                  [\<lparr>gr_path = path, gr_owner = TransactionOwner\<rparr>]\<rparr>)\<rparr>"

definition with_health :: "string \<Rightarrow> string \<Rightarrow> gotime \<Rightarrow> Transaction \<Rightarrow> Transaction" where
  "with_health status message now tx =
     tx\<lparr>tx_health := \<lparr>hr_status = status, hr_checked_at = now, hr_message = message\<rparr>\<rparr>"

definition saveGeneratedConfigRollbackMetadata :: "'v tun_env \<Rightarrow> string \<Rightarrow> string \<Rightarrow> gotime \<Rightarrow> ('v, unit) tun_act" where
  "saveGeneratedConfigRollbackMetadata env txid path now =
     bindp (wrapping (''load TUN transaction '' @ txid) (load_tx env txid)) (\<lambda>tx.
     bindp (save_tx env (with_health ''core-preflight-planned''
       ''Xray generated config rollback metadata recorded before preflight writes the config'' now (with_core_plan path tx)))
       (\<lambda>p. ret ()))"

definition read_file :: "'v tun_env \<Rightarrow> string \<Rightarrow> ('v disk host_state, file_error, string) prog" where
  "read_file env path = bindp (host_read (on_world (tv_read_file env path))) liftp"

definition rollbackChildProcessStartTime :: "'v tun_env \<Rightarrow> int \<Rightarrow> ('v disk host_state, file_error, string) prog" where
  "rollbackChildProcessStartTime env pid =
     bindp (read_file env (''/proc/'' @ itoa_int pid @ ''/stat'')) (\<lambda>text.
       case last_index_sub text '')'' of
         None \<Rightarrow> fail (FileError (''parse child process '' @ itoa_int pid @ '' stat: malformed comm field''))
       | Some close \<Rightarrow>
           if length text \<le> close + 2
           then fail (FileError (''parse child process '' @ itoa_int pid @ '' stat: malformed comm field''))
           else
             (let fs = Prelude.fields (drop (close + 2) text) in
              if length fs \<le> 19
              then fail (FileError (''parse child process '' @ itoa_int pid @ '' stat: missing start time''))
              else ret (fs ! 19)))"

definition file_error_text :: "file_error \<Rightarrow> string" where
  "file_error_text e = (case e of NotExist \<Rightarrow> ''file does not exist'' | FileError t \<Rightarrow> t)"

definition saveCoreRollbackMetadata :: "'v tun_env \<Rightarrow> string \<Rightarrow> string \<Rightarrow> int \<Rightarrow> gotime \<Rightarrow> ('v, unit) tun_act" where
  "saveCoreRollbackMetadata env txid path pid now =
     bindp (wrapping (''load TUN transaction '' @ txid) (load_tx env txid)) (\<lambda>tx0.
       (let tx = with_core_plan path tx0 in
        bindp (if pid \<le> 0 then ret tx
               else
                 bindp (map_err (\<lambda>e. plain_error (''read tracked Xray process start time: '' @ file_error_text e))
                   (rollbackChildProcessStartTime env pid)) (\<lambda>start.
                   if trim_space start = [] then fail_with ''tracked Xray process start time is unavailable''
                   else ret (tx\<lparr>tx_rollback := (tx_rollback tx)\<lparr>rb_child_processes := rb_child_processes (tx_rollback tx) @
                          [\<lparr>cr_pid = pid, cr_pid_file = [], cr_label = ''xray'', cr_config_ref = path,
                            cr_start_time = trim_space start, cr_owner = TransactionOwner\<rparr>]\<rparr>\<rparr>))) (\<lambda>tx.
        bindp (save_tx env (with_health ''core-started'' ''Xray process stayed alive during startup verification'' now tx))
          (\<lambda>p. ret ()))))"

definition saveTunAddressIdentityMetadata :: "'v tun_env \<Rightarrow> string \<Rightarrow> TunAddressPlan \<Rightarrow> gotime \<Rightarrow> ('v, unit) tun_act" where
  "saveTunAddressIdentityMetadata env txid address now =
     (if \<not> tunAddressRollbackIsOwned address then fail_with ''cannot persist unverified TUN address identity''
      else
        bindp (wrapping (''load TUN transaction '' @ txid) (load_tx env txid)) (\<lambda>tx.
        bindp (save_tx env (with_health ''tun-link-identified''
          ''Xray-created TUN link identity recorded before address mutation'' now
          (tx\<lparr>tx_desired_plan := (tx_desired_plan tx)\<lparr>pl_tun_address := tunAddressDesiredState address\<rparr>\<rparr>))) (\<lambda>p. ret ())))"

definition commitTunTransaction :: "'v tun_env \<Rightarrow> string \<Rightarrow> ('v, unit) tun_act" where
  "commitTunTransaction env txid =
     bindp (wrapping (''commit TUN transaction '' @ txid) (transition_tx env txid TransactionCommitted)) (\<lambda>tx. ret ())"

section \<open>Apply and verify\<close>

text \<open>A step is entered into the record in memory and saved; a failed save leaves it in memory.\<close>

definition record_step :: "TunPlan \<Rightarrow> gotime \<Rightarrow> Step \<Rightarrow> Transaction \<Rightarrow> Transaction" where
  "record_step plan now step tx =
     tx\<lparr>tx_applied_steps := tx_applied_steps tx @ appliedStepsFromExecutor [step] now,
        tx_rollback := mergeRollbackMetadata (tx_rollback tx)
          (rollbackMetadataFromTunPlan (rollbackPlanFromAppliedSteps plan [step]))\<rparr>"

definition persistAppliedTunStep :: "'v tun_env \<Rightarrow> TunPlan \<Rightarrow> Step \<Rightarrow> 'v disk \<Rightarrow> 'v disk \<times> string option" where
  "persistAppliedTunStep env plan step d =
     (if length (filterOwnedAppliedSteps plan [step]) \<noteq> 1 then
        (d, Some (''unowned applied TUN step: kind='' @ ho_quote (tv_host env) (st_kind step) @ '' target='' @
           ho_quote (tv_host env) (st_target step) @ '' owner='' @ ho_quote (tv_host env) (st_owner step)))
      else if hasAppliedTunStep (tx_applied_steps (dk_tx d)) step then (d, None)
      else
        (let tx = record_step plan (disk_now env d) step (dk_tx d) in
         case disk_save env tx (d\<lparr>dk_tx := tx\<rparr>) of
           (d', Inl e) \<Rightarrow> (d', Some (ee_text e))
         | (d', Inr path) \<Rightarrow> (d', None)))"

definition tun_host :: "'v tun_env \<Rightarrow> TunPlan \<Rightarrow> 'v disk host" where
  "tun_host env plan = disk_host (persistAppliedTunStep env plan) (tv_host env)"

record tunNetworkMutationError =
  me_phase :: string
  me_transaction :: Transaction
  me_rollback_plan :: TunPlan
  me_cause :: exec_error

datatype tun_failure = NotStarted exec_error | MutationFailed tunNetworkMutationError

type_synonym ('v, 'a) tun_run = "('v disk host_state, tun_failure, 'a) prog"

text \<open>\<^verbatim>\<open>newTunNetworkMutationError\<close>, returned as an error.  The record is passed by value: the one in memory
  stays as it is, the error carries the completed one.\<close>

definition newTunNetworkMutationError ::
  "'v tun_env \<Rightarrow> Transaction \<Rightarrow> TunPlan \<Rightarrow> Step list \<Rightarrow> string \<Rightarrow> exec_error \<Rightarrow> ('v, 'a) tun_run" where
  "newTunNetworkMutationError env tx rollbackPlan steps phase cause =
     bindp (transactionNow env) (\<lambda>now.
       (let tx' = (if tx_applied_steps tx = [] then
                     tx\<lparr>tx_applied_steps := appliedStepsFromExecutor (filterOwnedAppliedSteps rollbackPlan steps) now,
                        tx_rollback := mergeRollbackMetadata (tx_rollback tx) (rollbackMetadataFromTunPlan rollbackPlan)\<rparr>
                   else tx) in
        bindp (tryp (save_tx env tx')) (\<lambda>r.
          fail (MutationFailed
            \<lparr>me_phase = phase, me_transaction = tx', me_rollback_plan = rollbackPlan,
             me_cause = (case r of
                Inl e \<Rightarrow> join_errors cause (wrap_error ''record failed TUN rollback ownership'' e)
              | Inr path \<Rightarrow> cause)\<rparr>))))"

definition or_mutation_error ::
  "'v tun_env \<Rightarrow> TunPlan \<Rightarrow> Step list \<Rightarrow> string \<Rightarrow> ('v, 'a) tun_act \<Rightarrow> ('a \<Rightarrow> ('v, 'b) tun_run) \<Rightarrow> ('v, 'b) tun_run" where
  "or_mutation_error env rollbackPlan steps phase m k =
     bindp (tryp m) (\<lambda>r.
       case r of
         Inr x \<Rightarrow> k x
       | Inl e \<Rightarrow> bindp get_tx (\<lambda>tx. newTunNetworkMutationError env tx rollbackPlan steps phase e))"

definition persist_again :: "'v tun_env \<Rightarrow> TunPlan \<Rightarrow> Step \<Rightarrow> ('v, unit) tun_act" where
  "persist_again env plan step =
     bindp get_tx (\<lambda>tx.
       if hasAppliedTunStep (tx_applied_steps tx) step then ret ()
       else bindp (host_act (RecordedStep step) (persistAppliedTunStep env plan step)) (\<lambda>r.
              case r of None \<Rightarrow> ret () | Some t \<Rightarrow> fail_with (''record applied TUN plan: '' @ t)))"

text \<open>What follows the apply: a failure is recorded, a success is completed in the record, verified and reported.\<close>

definition after_apply :: "'v tun_env \<Rightarrow> TunPlan \<Rightarrow> apply_failure + Step list \<Rightarrow> Transaction \<Rightarrow> ('v, unit) tun_run" where
  "after_apply env plan r tx =
     (case r of
        Inl af \<Rightarrow>
          newTunNetworkMutationError env tx (rollbackPlanFromAppliedSteps plan (af_steps af)) (af_steps af)
            ''network-apply'' (wrap_error ''apply TUN plan'' (af_error af))
      | Inr steps \<Rightarrow>
          (let appliedPlan = rollbackPlanFromAppliedSteps plan steps in
           if length (filterOwnedAppliedSteps plan steps) \<noteq> length steps then
             newTunNetworkMutationError env tx appliedPlan steps ''network-apply''
               (plain_error ''unowned applied TUN step returned by executor'')
           else
             or_mutation_error env appliedPlan steps ''network-apply'' (each (\<lambda>s. True) (persist_again env plan) steps) (\<lambda>u.
             or_mutation_error env appliedPlan steps ''network-apply'' (transition_tx env (tx_id tx) TransactionApplied) (\<lambda>t.
             or_mutation_error env appliedPlan steps ''network-apply'' (transition_tx env (tx_id tx) TransactionVerifying) (\<lambda>t.
             or_mutation_error env appliedPlan steps ''network-apply'' (load_tx env (tx_id tx)) (\<lambda>loaded.
             bindp (put_tx loaded) (\<lambda>u.
             or_mutation_error env appliedPlan steps ''network-verify''
               (wrapping ''verify TUN plan'' (DnsTun_Verify (tun_host env plan) (tv_attempts env) plan)) ret)))))))"

definition applyVerifyTunTransactionDeferredRollback :: "'v tun_env \<Rightarrow> string \<Rightarrow> TunPlan \<Rightarrow> ('v, unit) tun_run" where
  "applyVerifyTunTransactionDeferredRollback env txid plan =
     bindp (map_err NotStarted (load_tx env txid)) (\<lambda>tx0.
     bindp (put_tx tx0) (\<lambda>u.
     bindp (tryp (DnsTun_ApplyWithStepSink (tun_host env plan) (tv_attempts env) True plan)) (\<lambda>r.
     bindp get_tx (after_apply env plan r))))"

section \<open>Stopping tracked children\<close>

record rollbackChildIdentity =
  rci_pid :: int
  rci_start_time :: string

type_synonym ('v, 'a) proc_act = "('v disk host_state, file_error, 'a) prog"

definition rollbackChildProcessMatches :: "'v tun_env \<Rightarrow> ChildProcessRollback \<Rightarrow> ('v, bool) proc_act" where
  "rollbackChildProcessMatches env child =
     bindp (read_file env (''/proc/'' @ itoa_int (cr_pid child) @ ''/cmdline'')) (\<lambda>data.
       (let cmdline = map (\<lambda>c. if c = CHR 0x00 then CHR '' '' else c) data in
        ret (trim_space (cr_label child) = ''xray'' \<and> contains_str cmdline ''xray'' \<and>
             (cr_config_ref child = [] \<or> contains_str cmdline (cr_config_ref child)))))"

definition inspectRollbackChildProcess ::
  "'v tun_env \<Rightarrow> ChildProcessRollback \<Rightarrow> ('v, rollbackChildIdentity option) proc_act" where
  "inspectRollbackChildProcess env child =
     bindp (rollbackChildProcessMatches env child) (\<lambda>matched.
       if \<not> matched then ret None
       else bindp (rollbackChildProcessStartTime env (cr_pid child)) (\<lambda>t.
              ret (Some \<lparr>rci_pid = cr_pid child, rci_start_time = t\<rparr>)))"

definition rollbackChildIdentityStillMatches ::
  "'v tun_env \<Rightarrow> ChildProcessRollback \<Rightarrow> rollbackChildIdentity \<Rightarrow> ('v, bool) proc_act" where
  "rollbackChildIdentityStillMatches env child identity =
     bindp (tryp (inspectRollbackChildProcess env child)) (\<lambda>r.
       case r of
         Inl NotExist \<Rightarrow> ret False
       | Inl e \<Rightarrow> fail e
       | Inr current \<Rightarrow> ret (current = Some identity))"

fun waitForRollbackChildAbsence ::
  "'v tun_env \<Rightarrow> ChildProcessRollback \<Rightarrow> rollbackChildIdentity \<Rightarrow> nat \<Rightarrow> ('v, bool) proc_act" where
  "waitForRollbackChildAbsence env child identity 0 =
     bindp (rollbackChildIdentityStillMatches env child identity) (\<lambda>matched. ret (\<not> matched))"
| "waitForRollbackChildAbsence env child identity (Suc k) =
     bindp (rollbackChildIdentityStillMatches env child identity) (\<lambda>matched.
       if \<not> matched then ret True
       else bindp (host_read (on_world (\<lambda>w. (tv_wait env w, ())))) (\<lambda>u. waitForRollbackChildAbsence env child identity k))"

definition send_signal :: "'v tun_env \<Rightarrow> string \<Rightarrow> ChildProcessRollback \<Rightarrow> signal \<Rightarrow> ('v, unit) tun_act" where
  "send_signal env what child sig =
     bindp (host_act (Signalled (cr_pid child)) (on_world (tv_signal env (cr_pid child) sig))) (\<lambda>r.
       case r of
         Some (SignalFailed t) \<Rightarrow>
           fail_with (what @ '' child process '' @ itoa_int (cr_pid child) @ '' ('' @ cr_label child @ ''): '' @ t)
       | _ \<Rightarrow> ret ())"

definition of_proc :: "('v, 'a) proc_act \<Rightarrow> ('v, 'a) tun_act" where
  "of_proc m = map_err (\<lambda>e. plain_error (file_error_text e)) m"

text \<open>\<^verbatim>\<open>os.FindProcess\<close> never fails on Linux; a process that is gone shows up when it is signalled.\<close>

definition stop_child :: "'v tun_env \<Rightarrow> ChildProcessRollback \<Rightarrow> ('v, unit) tun_act" where
  "stop_child env child =
     bindp (tryp (inspectRollbackChildProcess env child)) (\<lambda>r.
       case r of
         Inl NotExist \<Rightarrow> ret ()
       | Inl e \<Rightarrow> fail_with (file_error_text e)
       | Inr None \<Rightarrow> ret ()
       | Inr (Some identity) \<Rightarrow>
           bindp (send_signal env ''stop'' child SIGTERM) (\<lambda>u.
           bindp (of_proc (waitForRollbackChildAbsence env child identity (tv_polls env))) (\<lambda>stopped.
             if stopped then ret ()
             else
               bindp (of_proc (rollbackChildIdentityStillMatches env child identity)) (\<lambda>stillOwned.
                 if \<not> stillOwned then ret ()
                 else
                   bindp (send_signal env ''force stop'' child SIGKILL) (\<lambda>u.
                   bindp (of_proc (waitForRollbackChildAbsence env child identity (tv_polls env))) (\<lambda>stopped.
                     if stopped then ret ()
                     else fail_with (''child process '' @ itoa_int (cr_pid child) @ '' ('' @ cr_label child @
                       '') remained present after SIGKILL'')))))))"

definition defaultStopRollbackChildProcesses :: "'v tun_env \<Rightarrow> Transaction \<Rightarrow> ('v, unit) tun_act" where
  "defaultStopRollbackChildProcesses env tx =
     bindp (each_error (\<lambda>c. 0 < cr_pid c) (stop_child env) (rb_child_processes (tx_rollback tx))) (\<lambda>es. checke (joined es))"

section \<open>Rollback\<close>

definition beginTunRollback :: "'v tun_env \<Rightarrow> ('v, unit) tun_act" where
  "beginTunRollback env =
     bindp get_tx (\<lambda>tx.
       if tx_state tx = TransactionRolledBack \<or> tx_state tx = TransactionRollingBack then ret ()
       else
         bindp (transactionNow env) (\<lambda>now.
         bindp (liftp (lift_store env (TransitionTx now tx TransactionRollingBack now))) (\<lambda>(tx', changed).
         bindp (put_tx tx') (\<lambda>u.
         bindp (save_tx env tx') (\<lambda>path. ret ())))))"

definition rollbackTunHostState :: "'v tun_env \<Rightarrow> TunPlan \<Rightarrow> bool \<Rightarrow> ('v, unit) tun_act" where
  "rollbackTunHostState env plan childAbsenceProven =
     (if childAbsenceProven then RollbackResourceScopedChildAbsent (tun_host env plan) plan
      else RollbackResourceScoped (tun_host env plan) plan)"

fun children_absent :: "'v tun_env \<Rightarrow> ChildProcessRollback list \<Rightarrow> bool \<Rightarrow> ('v disk host_state, 'e, bool) prog" where
  "children_absent env [] seen = ret seen"
| "children_absent env (c # cs) seen =
     (if cr_owner c \<noteq> TransactionOwner \<or> cr_pid c \<le> 1 then children_absent env cs seen
      else bindp (host_read (on_world (tv_stat env (''/proc/'' @ itoa_int (cr_pid c))))) (\<lambda>r.
             if r = Some NotExist then children_absent env cs True else ret False))"

definition rollbackTrackedChildAbsenceProven :: "'v tun_env \<Rightarrow> Transaction \<Rightarrow> ('v disk host_state, 'e, bool) prog" where
  "rollbackTrackedChildAbsenceProven env tx = children_absent env (rb_child_processes (tx_rollback tx)) False"

definition rollbackTunHostStateForTransaction :: "'v tun_env \<Rightarrow> TunPlan \<Rightarrow> Transaction \<Rightarrow> ('v, unit) tun_act" where
  "rollbackTunHostStateForTransaction env plan tx =
     bindp (tryp (rollbackTunHostState env plan False)) (\<lambda>r.
       case r of
         Inr u \<Rightarrow> ret ()
       | Inl e \<Rightarrow>
           if \<not> IsTunRollbackLinkAbsent e then fail e
           else bindp (rollbackTrackedChildAbsenceProven env tx) (\<lambda>absent.
             if \<not> absent then fail e
             else map_err (join_errors e) (rollbackTunHostState env plan True)))"

definition removeGeneratedConfigFile :: "'v tun_env \<Rightarrow> string \<Rightarrow> ('v, unit) tun_act" where
  "removeGeneratedConfigFile env path =
     (if path = [] then ret ()
      else
        bindp (host_act (RemovedFile path) (on_world (tv_remove env path))) (\<lambda>r.
          case r of
            Some (RemoveFailed t) \<Rightarrow> fail_with (''remove generated runtime config '' @ path @ '': '' @ t)
          | Some RemoveNotEmpty \<Rightarrow> fail_with (''remove generated runtime config '' @ path @ '': directory not empty'')
          | _ \<Rightarrow>
              bindp (host_act (RemovedFile (path_dir path)) (on_world (tv_remove env (path_dir path)))) (\<lambda>r.
                case r of
                  Some (RemoveFailed t) \<Rightarrow> fail_with (''remove generated runtime config directory '' @ path_dir path @ '': '' @ t)
                | _ \<Rightarrow> ret ())))"

definition removeRollbackGeneratedConfigs :: "'v tun_env \<Rightarrow> Transaction \<Rightarrow> ('v, unit) tun_act" where
  "removeRollbackGeneratedConfigs env tx =
     bindp (each_error (\<lambda>c. True) (\<lambda>c. removeGeneratedConfigFile env (gr_path c)) (rb_generated_configs (tx_rollback tx)))
       (\<lambda>es. checke (joined es))"

definition config_gone :: "'v tun_env \<Rightarrow> GeneratedConfigRollback \<Rightarrow> ('v, unit) tun_act" where
  "config_gone env c =
     (if gr_path c = [] then fail_with ''generated runtime config rollback path is empty''
      else
        (let path = path_clean (gr_path c) in
         bindp (host_read (on_world (tv_stat env path))) (\<lambda>r.
           case r of
             None \<Rightarrow> fail_with (''generated runtime config still exists: '' @ path)
           | Some NotExist \<Rightarrow> ret ()
           | Some (FileError t) \<Rightarrow> fail_with (''verify generated runtime config removal '' @ path @ '': '' @ t))))"

definition directory_gone :: "'v tun_env \<Rightarrow> string \<Rightarrow> ('v, unit) tun_act" where
  "directory_gone env parent =
     bindp (host_read (on_world (ho_read_dir (tv_host env) parent))) (\<lambda>r.
       case r of
         Inl NotExist \<Rightarrow> ret ()
       | Inl (FileError t) \<Rightarrow> fail_with (''verify generated runtime config directory removal '' @ parent @ '': '' @ t)
       | Inr entries \<Rightarrow>
           if entries \<noteq> [] then fail_with (''generated runtime config directory is not empty: '' @ parent)
           else fail_with (''generated runtime config directory still exists: '' @ parent))"

text \<open>The parents are collected in a map, whose order of iteration Go leaves open; the model takes them in the
  order of the record.\<close>

definition verifyRollbackGeneratedConfigsRemoved :: "'v tun_env \<Rightarrow> Transaction \<Rightarrow> ('v, unit) tun_act" where
  "verifyRollbackGeneratedConfigsRemoved env tx =
     (let configs = rb_generated_configs (tx_rollback tx);
          parents = dedup (map (\<lambda>c. path_dir (path_clean (gr_path c))) (filter (\<lambda>c. gr_path c \<noteq> []) configs)) in
      bindp (each_error (\<lambda>c. True) (config_gone env) configs) (\<lambda>es.
      bindp (each_error (\<lambda>p. True) (directory_gone env) parents) (\<lambda>es'. checke (joined (es @ es')))))"

definition finishTunRollback :: "'v tun_env \<Rightarrow> ('v, unit) tun_act" where
  "finishTunRollback env =
     bindp get_tx (\<lambda>tx.
       if tx_state tx = TransactionRolledBack then ret ()
       else
         bindp (verifyRollbackGeneratedConfigsRemoved env tx) (\<lambda>u.
         bindp (transactionNow env) (\<lambda>now.
         bindp (liftp (lift_store env (TransitionTx now tx TransactionRolledBack now))) (\<lambda>(tx', changed).
         bindp (put_tx tx') (\<lambda>u.
         bindp (save_tx env tx') (\<lambda>path. ret ()))))))"

type_synonym 'v tunRollbackChildStopper = "Transaction \<Rightarrow> ('v, unit) tun_act"

definition rollbackTunTransactionWithChildStopper ::
  "'v tun_env \<Rightarrow> TunPlan \<Rightarrow> 'v tunRollbackChildStopper option \<Rightarrow> ('v, unit) tun_act" where
  "rollbackTunTransactionWithChildStopper env plan stopChildren =
     bindp get_tx (\<lambda>tx0.
       if tx_state tx0 = TransactionRolledBack then ret ()
       else
         bindp (beginTunRollback env) (\<lambda>u.
         bindp (bindp (host_read (on_world (tv_pause env))) (\<lambda>r. case r of None \<Rightarrow> ret () | Some t \<Rightarrow> fail_with t)) (\<lambda>u.
         bindp get_tx (\<lambda>tx.
         bindp (rollbackTunHostStateForTransaction env plan tx) (\<lambda>u.
         bindp ((case stopChildren of None \<Rightarrow> defaultStopRollbackChildProcesses env | Some stop \<Rightarrow> stop) tx) (\<lambda>u.
         bindp (removeRollbackGeneratedConfigs env tx) (\<lambda>u.
           finishTunRollback env)))))))"

definition removeTransactionFile :: "'v tun_env \<Rightarrow> string \<Rightarrow> ('v, unit) tun_act" where
  "removeTransactionFile env txid =
     bindp (liftp (lift_store env (Path (tv_store env) txid))) (\<lambda>path.
     bindp (host_act (RemovedFile path) (\<lambda>d.
       case tv_unlink env (dk_tick d) of
         Some t \<Rightarrow> (d\<lparr>dk_tick := Suc (dk_tick d)\<rparr>, Some t)
       | None \<Rightarrow> (d\<lparr>dk_dir := map_option (AList.delete (tx_file_name txid)) (dk_dir d), dk_tick := Suc (dk_tick d)\<rparr>, None))) (\<lambda>r.
       case r of None \<Rightarrow> ret () | Some t \<Rightarrow> fail_with t))"

definition rollbackPreparedTunFailureWithChildStopper ::
  "'v tun_env \<Rightarrow> TunPlan \<Rightarrow> 'v tunRollbackChildStopper option \<Rightarrow> ('v, unit) tun_act" where
  "rollbackPreparedTunFailureWithChildStopper env plan stopChildren =
     bindp (tryp (rollbackTunTransactionWithChildStopper env plan stopChildren)) (\<lambda>r.
       case r of
         Inl e \<Rightarrow>
           bindp get_tx (\<lambda>tx.
           bindp (transactionNow env) (\<lambda>now.
             (let tx' = (case MarkFailure now tx (ee_text e) now of Inl x \<Rightarrow> tx | Inr (t, changed) \<Rightarrow> t) in
              bindp (put_tx tx') (\<lambda>u.
              bindp (tryp (save_tx env tx')) (\<lambda>ignored. fail e)))))
       | Inr u \<Rightarrow>
           bindp get_tx (\<lambda>tx.
             wrapping ''rolled-back transaction file cleanup failed'' (removeTransactionFile env (tx_id tx))))"

definition prepareTunFailureRollback :: "'v tun_env \<Rightarrow> TunPlan \<Rightarrow> Step list \<Rightarrow> ('v, unit) tun_act" where
  "prepareTunFailureRollback env rollbackPlan steps =
     bindp get_tx (\<lambda>tx.
     bindp (transactionNow env) (\<lambda>now.
       (let tx' = tx\<lparr>tx_applied_steps := appliedStepsFromExecutor steps now,
                     tx_rollback := mergeRollbackMetadata (tx_rollback tx) (rollbackMetadataFromTunPlan rollbackPlan)\<rparr> in
        bindp (put_tx tx') (\<lambda>u. bindp (save_tx env tx') (\<lambda>path. ret ())))))"

definition rolled_back_text :: string where
  "rolled_back_text = ''; rolled back applied podlaz-owned TUN, route, policy-rule, DNS, and nftables state''"

definition rollbackTunFailure ::
  "'v tun_env \<Rightarrow> TunPlan \<Rightarrow> Step list \<Rightarrow> exec_error \<Rightarrow> ('v, unit) tun_act" where
  "rollbackTunFailure env rollbackPlan steps cause0 =
     bindp (tryp (prepareTunFailureRollback env rollbackPlan steps)) (\<lambda>prepared.
       (let cause = (case prepared of
                       Inl e \<Rightarrow> join_errors cause0 (wrap_error ''record failed TUN rollback ownership'' e)
                     | Inr u \<Rightarrow> cause0) in
        bindp (tryp (rollbackPreparedTunFailureWithChildStopper env rollbackPlan None)) (\<lambda>r.
          case r of
            Inl e \<Rightarrow> fail (join_errors cause (wrap_error ''rollback TUN plan'' e))
          | Inr u \<Rightarrow> fail (cause\<lparr>ee_text := ee_text cause @ rolled_back_text\<rparr>))))"

definition mutation_rollback :: "'v tun_env \<Rightarrow> tunNetworkMutationError \<Rightarrow> ('v, unit) tun_act" where
  "mutation_rollback env m =
     bindp (put_tx (me_transaction m)) (\<lambda>u.
       rollbackPreparedTunFailureWithChildStopper env (me_rollback_plan m) None)"

definition applyVerifyTunTransaction :: "'v tun_env \<Rightarrow> string \<Rightarrow> TunPlan \<Rightarrow> ('v, unit) tun_act" where
  "applyVerifyTunTransaction env txid plan =
     bindp (tryp (applyVerifyTunTransactionDeferredRollback env txid plan)) (\<lambda>r.
       case r of
         Inr u \<Rightarrow> ret ()
       | Inl (NotStarted e) \<Rightarrow> fail e
       | Inl (MutationFailed m) \<Rightarrow>
           bindp (tryp (mutation_rollback env m)) (\<lambda>r.
             case r of
               Inl e \<Rightarrow> fail (join_errors (me_cause m) (wrap_error ''rollback TUN plan'' e))
             | Inr u \<Rightarrow> fail ((me_cause m)\<lparr>ee_text := ee_text (me_cause m) @ rolled_back_text\<rparr>)))"

definition runTunTransaction :: "'v tun_env \<Rightarrow> Profile \<Rightarrow> TunPlan \<Rightarrow> ('v, string) tun_act" where
  "runTunTransaction env p plan =
     bindp (beginTunTransaction env p plan) (\<lambda>txid.
     bindp (applyVerifyTunTransaction env txid plan) (\<lambda>u. ret txid))"

end
