(* ===== verification/Tun_Projection.thy ===== *)
theory Tun_Projection
  imports Tun_Transaction
begin

text \<open>
  From a record back to a plan: the rollback projection of \<^verbatim>\<open>src/internal/daemon/tun_status_helpers.go\<close>, the
  revalidation plan of \<^verbatim>\<open>tun_revalidation_plan.go\<close> with the server address of \<^verbatim>\<open>tun_revalidation_backend.go\<close>,
  and the cleanup of a stopped session, \<^verbatim>\<open>tun_cleanup_lifecycle.go\<close>.

  Maps that are only counted or tested for membership are lists of their keys.  \<open>quote\<close> renders \<^verbatim>\<open>%q\<close>.
\<close>

section \<open>Rollback entries\<close>

definition rollbackOwnerMatches :: "string \<Rightarrow> string \<Rightarrow> bool" where
  "rollbackOwnerMatches owner expected = (trim_space owner = expected \<or> trim_space owner = TransactionOwner)"

definition appliedStepDescription :: "AppliedStep list \<Rightarrow> string \<Rightarrow> string \<Rightarrow> string \<Rightarrow> string" where
  "appliedStepDescription applied kind target owner =
     (case find (\<lambda>s. as_kind s = kind \<and> as_target s = target \<and> rollbackOwnerMatches (as_owner s) owner) applied of
        None \<Rightarrow> []
      | Some s \<Rightarrow> as_description s)"

definition selector_of_rollback :: "PolicyRuleRollback \<Rightarrow> string" where
  "selector_of_rollback rule =
     (let selector = trim_space (pr_from rule) in
      if trim_space (pr_to rule) \<noteq> [] then ''to '' @ trim_space (pr_to rule)
      else if trim_space (pr_mark rule) \<noteq> [] then ''fwmark '' @ trim_space (pr_mark rule)
      else if selector \<noteq> [] \<and> \<not> starts ''from '' selector then ''from '' @ selector
      else selector)"

definition target_of_rollback :: "PolicyRuleRollback \<Rightarrow> string" where
  "target_of_rollback rule =
     ''priority '' @ itoa_int (pr_priority rule) @ '' '' @ selector_of_rollback rule @ '' lookup '' @ pr_table rule"

definition routeRollbackAppliedTarget :: "RouteRollback \<Rightarrow> string" where
  "routeRollbackAppliedTarget r = rr_table r @ '' '' @ rr_cidr r"

definition routeRollbackFullKey :: "RouteRollback \<Rightarrow> string" where
  "routeRollbackFullKey r = join ''|'' [rr_table r, rr_cidr r, rr_via r, rr_dev r]"

definition plannedStepExists :: "PlannedStep list \<Rightarrow> string \<Rightarrow> string \<Rightarrow> string \<Rightarrow> bool" where
  "plannedStepExists steps kind target owner =
     (length (filter (\<lambda>s. ps_kind s = kind \<and> ps_target s = target \<and> rollbackOwnerMatches (ps_owner s) owner) steps) = 1)"

definition routeRollbackMatchesDesired :: "RoutePlan list \<Rightarrow> RouteRollback \<Rightarrow> bool" where
  "routeRollbackMatchesDesired routes r =
     (length (filter (\<lambda>d. rp_kind d = ''route'' \<and> rp_operation d = ''add'' \<and> rollbackOwnerMatches (rp_owner d) OwnerRoute \<and>
        rp_table d = rr_table r \<and> rp_cidr d = rr_cidr r \<and> rp_via d = rr_via r \<and> rp_dev d = rr_dev r) routes) = 1)"

definition validateSingleRollbackCategory :: "string \<Rightarrow> ('x \<Rightarrow> bool) \<Rightarrow> 'x list \<Rightarrow> string option" where
  "validateSingleRollbackCategory name valid entries =
     (case entries of
        [] \<Rightarrow> None
      | [e] \<Rightarrow> if valid e then None else Some (name @ '' rollback entry is unsupported or incomplete'')
      | es \<Rightarrow> Some (name @ '' rollback cardinality='' @ itoa (length es) @ '', want 1''))"

definition tunAddressRollbackMatchesDesired :: "TUNAddressDesiredState \<Rightarrow> TUNAddressRollback \<Rightarrow> bool" where
  "tunAddressRollbackMatchesDesired desired rollback =
     (trim_space (ta_owner desired) \<noteq> [] \<and> rollbackOwnerMatches (ta_owner desired) OwnerTunAddress \<and>
      ta_interface_name desired = tar_interface_name rollback \<and>
      trim_space (ta_family desired) = trim_space (tar_family rollback) \<and>
      trim_space (ta_cidr desired) \<noteq> [] \<and> trim_space (ta_cidr desired) = trim_space (tar_cidr rollback) \<and>
      trim_space (ta_scope desired) = trim_space (tar_scope rollback) \<and>
      ta_link_index desired = tar_link_index rollback \<and> ta_link_kind desired = tar_link_kind rollback \<and>
      ta_appeared_after_core desired = tar_appeared_after_core rollback)"

text \<open>The first entry at fault ends the check; afterwards no key may occur twice.  Which of several duplicates is
  reported depends on the order of a Go map.\<close>

definition route_entry_fault :: "Transaction \<Rightarrow> RouteRollback \<Rightarrow> string option" where
  "route_entry_fault tx r =
     (if \<not> rollbackOwnerMatches (rr_owner r) OwnerRoute then Some ''route rollback entry has unsupported owner''
      else if trim_space (rr_table r) = [] \<or> trim_space (rr_cidr r) = [] then Some ''route rollback entry is incomplete''
      else if \<not> routeRollbackMatchesDesired (pl_routes (tx_desired_plan tx)) r
      then Some (''route rollback entry has no exact desired tuple: '' @ routeRollbackFullKey r)
      else if appliedStepDescription (tx_applied_steps tx) ''route'' (routeRollbackAppliedTarget r) OwnerRoute = []
      then Some (''route rollback entry has no matching applied proof: '' @ routeRollbackFullKey r)
      else None)"

definition duplicate_fault :: "string \<Rightarrow> string list \<Rightarrow> string option" where
  "duplicate_fault what keys = map_option (\<lambda>k. what @ k) (find (\<lambda>k. length (filter (\<lambda>j. j = k) keys) \<noteq> 1) keys)"

definition validateRouteRollbackEntries :: "Transaction \<Rightarrow> string option" where
  "validateRouteRollbackEntries tx =
     (case first_error (map (route_entry_fault tx) (rb_routes (tx_rollback tx))) of
        Some e \<Rightarrow> Some e
      | None \<Rightarrow> duplicate_fault ''duplicate route rollback entry: '' (map routeRollbackFullKey (rb_routes (tx_rollback tx))))"

definition rule_entry_fault :: "Transaction \<Rightarrow> PolicyRuleRollback \<Rightarrow> string option" where
  "rule_entry_fault tx r =
     (if \<not> rollbackOwnerMatches (pr_owner r) OwnerPolicyRule then Some ''policy-rule rollback entry has unsupported owner''
      else if pr_priority r \<le> 0 \<or> trim_space (pr_table r) = [] then Some ''policy-rule rollback entry is incomplete''
      else if \<not> plannedStepExists (pl_steps (tx_desired_plan tx)) ''policy-rule'' (target_of_rollback r) OwnerPolicyRule
      then Some (''policy-rule rollback entry has no exact desired step: '' @ target_of_rollback r)
      else if appliedStepDescription (tx_applied_steps tx) ''policy-rule'' (target_of_rollback r) OwnerPolicyRule = []
      then Some (''policy-rule rollback entry has no matching applied proof: '' @ target_of_rollback r)
      else None)"

definition validatePolicyRuleRollbackEntries :: "Transaction \<Rightarrow> string option" where
  "validatePolicyRuleRollbackEntries tx =
     (case first_error (map (rule_entry_fault tx) (rb_policy_rules (tx_rollback tx))) of
        Some e \<Rightarrow> Some e
      | None \<Rightarrow> duplicate_fault ''duplicate policy-rule rollback entry: '' (map target_of_rollback (rb_policy_rules (tx_rollback tx))))"

definition projection_address_ok :: "Transaction \<Rightarrow> TUNAddressRollback \<Rightarrow> bool" where
  "projection_address_ok tx e =
     (rollbackOwnerMatches (tar_owner e) OwnerTunAddress \<and> tar_interface_name e = ''podlaz0'' \<and>
      trim_space (tar_family e) = ''ipv4'' \<and> trim_space (tar_scope e) = ''global'' \<and>
      0 < tar_link_index e \<and> tar_link_kind e = ''tun'' \<and> tar_appeared_after_core e \<and>
      tunAddressRollbackMatchesDesired (pl_tun_address (tx_desired_plan tx)) e)"

definition projection_nft_ok :: "Transaction \<Rightarrow> NFTablesRollback \<Rightarrow> bool" where
  "projection_nft_ok tx e =
     (rollbackOwnerMatches (nr_owner e) OwnerFirewall \<and> trim_space (nr_family e) \<noteq> [] \<and> trim_space (nr_table e) \<noteq> [] \<and>
      \<not> isl (exactNftablesRollbackPlan tx e))"

definition projection_reasons :: "Transaction \<Rightarrow> string list" where
  "projection_reasons tx =
     concat (map (\<lambda>r. case r of None \<Rightarrow> [] | Some t \<Rightarrow> [t])
       [validateSingleRollbackCategory ''TUN''
          (\<lambda>e. rollbackOwnerMatches (tr_owner e) OwnerTunDevice \<and> trim_space (tr_interface_name e) \<noteq> []) (rb_tun (tx_rollback tx)),
        validateSingleRollbackCategory ''TUN address'' (projection_address_ok tx) (rb_tun_addresses (tx_rollback tx)),
        validateRouteRollbackEntries tx,
        validatePolicyRuleRollbackEntries tx,
        validateSingleRollbackCategory ''DNS''
          (\<lambda>e. rollbackOwnerMatches (dr_owner e) OwnerDNS \<and> trim_space (dr_link e) \<noteq> []) (rb_dns (tx_rollback tx)),
        validateSingleRollbackCategory ''nftables'' (projection_nft_ok tx) (rb_nftables (tx_rollback tx))])"

definition validateTunRollbackProjection :: "Transaction \<Rightarrow> string option" where
  "validateTunRollbackProjection tx =
     (if projection_reasons tx \<noteq> []
      then Some (''ambiguous TUN rollback projection: '' @ join ''; '' (projection_reasons tx)) else None)"

section \<open>The rollback plan of a record\<close>

abbreviation blank_finding :: Finding where
  "blank_finding \<equiv> \<lparr>fd_status = StatusUnset, fd_summary = [], fd_detail = []\<rparr>"

abbreviation blank_route :: Route where
  "blank_route \<equiv> \<lparr>rt_status = StatusUnset, rt_family = [], rt_destination = [], rt_table = [], rt_interface = [], rt_gateway = [],
     rt_raw = [], rt_detail = []\<rparr>"

definition blank_snapshot :: Snapshot where
  "blank_snapshot =
     \<lparr>sn_os = [], sn_default_ipv4 = blank_route, sn_default_ipv6 = blank_route, sn_server_route = blank_route,
      sn_dns = \<lparr>dn_mode = [], dn_resolved = blank_finding, dn_resolved_links = []\<rparr>,
      sn_network_manager = \<lparr>nm_finding = blank_finding, nm_state = [], nm_active_inspection = blank_finding,
        nm_active_connections = []\<rparr>,
      sn_nftables = \<lparr>nf_availability = blank_finding, nf_podlaz_table = blank_finding\<rparr>, sn_tun_devices = [],
      sn_policy_routing = [], sn_ipv4_policy_rules = \<lparr>pi_inspection = blank_finding, pi_rules = []\<rparr>,
      sn_ipv4_addresses = \<lparr>iv_inspection = blank_finding, iv_addresses = []\<rparr>,
      sn_ipv4_routes = \<lparr>ri_inspection = blank_finding, ri_routes = []\<rparr>, sn_ipv4 = blank_finding, sn_ipv6 = blank_finding,
      sn_stale_resources = [], sn_warnings = []\<rparr>"

definition blank_plan :: TunPlan where
  "blank_plan =
     \<lparr>tp_mode = [], tp_tunnel_mode = [], tp_profile_id = [], tp_profile_name = [], tp_snapshot = blank_snapshot,
      tp_device = \<lparr>tdp_name = [], tdp_mtu = 0, tdp_action = [], tdp_reason = []\<rparr>,
      tp_address = \<lparr>tap_family = [], tap_interface = [], tap_cidr = [], tap_scope = [], tap_action = [], tap_reason = [],
         tap_classification = [], tap_owner = [], tap_rollback_key = [], tap_link_index = 0, tap_link_kind = [],
         tap_appeared_after_core = False, tap_allow_owned_existing = False, tap_allow_missing_link = False\<rparr>,
      tp_routes = [], tp_rules = [], tp_server_bypass = no_bypass, tp_egress_mark = 0,
      tp_dns = \<lparr>dpl_backend = [], dpl_target_link = [], dpl_servers = [], dpl_action = [], dpl_reason = [],
         dpl_rollback = [], dpl_rollback_steps = []\<rparr>,
      tp_firewall = \<lparr>fwp_backend = [], fwp_family = [], fwp_table = [], fwp_table_action = [], fwp_chains = [],
         fwp_rules = [], fwp_kill_switch = \<lparr>ksp_policy = [], ksp_action = [], ksp_scope = [], ksp_recovery = [],
         ksp_limitations = []\<rparr>, fwp_reason = [], fwp_rollback = [], fwp_rollback_steps = []\<rparr>,
      tp_loop_risks = [], tp_warnings = [], tp_steps = [], tp_rollback_steps = []\<rparr>"

definition plan_of_record :: "Transaction \<Rightarrow> TunPlan" where
  "plan_of_record tx =
     blank_plan\<lparr>tp_mode := tx_mode tx, tp_profile_id := tx_profile_id tx, tp_egress_mark := pl_egress_mark (tx_desired_plan tx)\<rparr>"

definition invalid_projection :: "string \<Rightarrow> TunDevicePlan" where
  "invalid_projection reason =
     \<lparr>tdp_name = ''podlaz0'', tdp_mtu = 0, tdp_action = ''invalid-rollback-projection'', tdp_reason = reason\<rparr>"

definition owned_address_plan :: "string \<Rightarrow> string \<Rightarrow> string \<Rightarrow> string \<Rightarrow> string \<Rightarrow> int \<Rightarrow> string \<Rightarrow> bool \<Rightarrow> TunAddressPlan" where
  "owned_address_plan family interface cidr scope owner index kind appeared =
     \<lparr>tap_family = family, tap_interface = interface, tap_cidr = cidr, tap_scope = scope, tap_action = TunAddressActionAssign,
      tap_reason = [], tap_classification = [], tap_owner = owner, tap_rollback_key = interface @ ''/'' @ cidr,
      tap_link_index = index, tap_link_kind = kind, tap_appeared_after_core = appeared, tap_allow_owned_existing = True,
      tap_allow_missing_link = False\<rparr>"

definition projected_device :: "Transaction \<Rightarrow> TunDevicePlan" where
  "projected_device tx =
     (case find (\<lambda>t. rollbackOwnerMatches (tr_owner t) OwnerTunDevice) (rb_tun (tx_rollback tx)) of
        None \<Rightarrow> tp_device blank_plan
      | Some t \<Rightarrow>
          \<lparr>tdp_name = tr_interface_name t, tdp_mtu = nat (td_mtu (pl_tun (tx_desired_plan tx))), tdp_action = ''add'',
           tdp_reason = appliedStepDescription (tx_applied_steps tx) ''tun-device'' (tr_interface_name t) OwnerTunDevice\<rparr>)"

definition projected_address :: "Transaction \<Rightarrow> TunAddressPlan" where
  "projected_address tx =
     (case find (\<lambda>a. rollbackOwnerMatches (tar_owner a) OwnerTunAddress) (rb_tun_addresses (tx_rollback tx)) of
        None \<Rightarrow> tp_address blank_plan
      | Some a \<Rightarrow>
          owned_address_plan (tar_family a) (tar_interface_name a) (tar_cidr a) (tar_scope a) (tar_owner a) (tar_link_index a)
            (tar_link_kind a) (tar_appeared_after_core a))"

definition projected_route :: "RouteRollback \<Rightarrow> TunRoutePlan" where
  "projected_route r =
     \<lparr>trp_family = ''ipv4'', trp_destination = rr_cidr r, trp_table = rr_table r, trp_interface = rr_dev r,
      trp_gateway = rr_via r, trp_action = ''add'', trp_reason = []\<rparr>"

definition projected_rule :: "PolicyRuleRollback \<Rightarrow> TunPolicyRulePlan" where
  "projected_rule r =
     \<lparr>prp_family = ''ipv4'', prp_priority = pr_priority r, prp_selector = selector_of_rollback r, prp_table = pr_table r,
      prp_action = ''add'', prp_reason = []\<rparr>"

definition dns_plan_of :: "string \<Rightarrow> string \<Rightarrow> string list \<Rightarrow> TunDNSPlan" where
  "dns_plan_of backend link servers =
     \<lparr>dpl_backend = backend, dpl_target_link = link, dpl_servers = servers, dpl_action = DNSActionConfigure,
      dpl_reason = [], dpl_rollback = [], dpl_rollback_steps = []\<rparr>"

definition projected_dns :: "Transaction \<Rightarrow> TunDNSPlan" where
  "projected_dns tx =
     (case find (\<lambda>d. rollbackOwnerMatches (dr_owner d) OwnerDNS) (rb_dns (tx_rollback tx)) of
        None \<Rightarrow> tp_dns blank_plan
      | Some d \<Rightarrow> dns_plan_of (dr_backend d) (dr_link d) (dp_servers (pl_dns (tx_desired_plan tx))))"

definition tunPlanFromTransaction :: "Transaction \<Rightarrow> TunPlan" where
  "tunPlanFromTransaction tx =
     (case validateTunRollbackProjection tx of
        Some e \<Rightarrow> (plan_of_record tx)\<lparr>tp_device := invalid_projection e\<rparr>
      | None \<Rightarrow>
          (let plan = (plan_of_record tx)
             \<lparr>tp_device := projected_device tx, tp_address := projected_address tx,
              tp_routes := map projected_route (filter (\<lambda>r. rollbackOwnerMatches (rr_owner r) OwnerRoute) (rb_routes (tx_rollback tx))),
              tp_rules := map projected_rule
                (filter (\<lambda>r. rollbackOwnerMatches (pr_owner r) OwnerPolicyRule) (rb_policy_rules (tx_rollback tx))),
              tp_dns := projected_dns tx\<rparr> in
           case find (\<lambda>n. rollbackOwnerMatches (nr_owner n) OwnerFirewall) (rb_nftables (tx_rollback tx)) of
             None \<Rightarrow> plan
           | Some n \<Rightarrow>
               (case exactNftablesRollbackPlan tx n of
                  Inl e \<Rightarrow> plan\<lparr>tp_device := invalid_projection e\<rparr>
                | Inr firewall \<Rightarrow> plan\<lparr>tp_firewall := firewall\<rparr>)))"

section \<open>The revalidation plan\<close>

definition bypass_candidate :: "string \<Rightarrow> string \<Rightarrow> string \<Rightarrow> string list" where
  "bypass_candidate table cidr device =
     (if to_lower (trim_space table) \<noteq> ''main'' \<or> trim_space device = [] \<or> trim_space device = DefaultTunName then []
      else case parse_prefix (trim_space cidr) of
        Some (Prefix (IP4 w) n) \<Rightarrow> if n = 32 then [ip_text (IP4 w)] else []
      | _ \<Rightarrow> [])"

definition tunRevalidationServerAddress :: "Transaction \<Rightarrow> string + string" where
  "tunRevalidationServerAddress tx =
     (case dedup (concat (map (\<lambda>r. bypass_candidate (rr_table r) (rr_cidr r) (rr_dev r)) (rb_routes (tx_rollback tx))) @
             concat (map (\<lambda>r. bypass_candidate (rp_table r) (rp_cidr r) (rp_dev r)) (pl_routes (tx_desired_plan tx)))) of
        [server] \<Rightarrow> Inr server
      | cs \<Rightarrow> Inl (''persisted server bypass destination cardinality='' @ itoa (length cs) @ '', want 1''))"

definition tunRevalidationDevicePlan :: "TUNDesiredState \<Rightarrow> string + TunDevicePlan" where
  "tunRevalidationDevicePlan desired =
     (if td_owner desired \<noteq> xrayTunInboundOwner \<or> trim_space (td_interface_name desired) = []
      then Inl ''persisted Xray-owned TUN device identity is incomplete''
      else if td_mtu desired \<le> 0 then Inl (''persisted TUN MTU '' @ itoa_int (td_mtu desired) @ '' is invalid'')
      else Inr \<lparr>tdp_name = td_interface_name desired, tdp_mtu = nat (td_mtu desired), tdp_action = ''verify'', tdp_reason = []\<rparr>)"

definition tunRevalidationAddressPlan :: "TUNAddressDesiredState \<Rightarrow> string \<Rightarrow> string + TunAddressPlan" where
  "tunRevalidationAddressPlan desired device =
     (if trim_space (ta_cidr desired) = [] \<or> ta_owner desired \<noteq> OwnerTunAddress
      then Inl ''persisted TUN address desired state is incomplete''
      else if ta_interface_name desired \<noteq> device \<or> ta_family desired \<noteq> ''ipv4'' \<or> ta_link_index desired \<le> 0 \<or>
        ta_link_kind desired \<noteq> ''tun'' \<or> \<not> ta_appeared_after_core desired
      then Inl ''persisted TUN address identity does not match the Xray-created link''
      else Inr (owned_address_plan (ta_family desired) (ta_interface_name desired) (ta_cidr desired) (ta_scope desired)
        (ta_owner desired) (ta_link_index desired) (ta_link_kind desired) (ta_appeared_after_core desired)))"

definition desired_key :: "RoutePlan \<Rightarrow> string" where
  "desired_key d = join ''|'' [rp_table d, rp_cidr d, rp_via d, rp_dev d]"

definition desired_action :: "RoutePlan \<Rightarrow> string option" where
  "desired_action d =
     (if rp_operation d = ''add'' \<and> rollbackOwnerMatches (rp_owner d) OwnerRoute then Some ''add''
      else if rp_operation d = ''verify'' \<and> rp_owner d = hostRoutePrerequisiteOwner then Some TunActionVerifyExisting
      else None)"

text \<open>The loop over the desired routes, with the keys seen so far and the bypass found so far.\<close>

fun revalidate_routes ::
  "string \<Rightarrow> string \<Rightarrow> string list \<Rightarrow> TunRoutePlan \<Rightarrow> RoutePlan list \<Rightarrow> string + (TunRoutePlan list \<times> TunRoutePlan)" where
  "revalidate_routes serverCIDR device seen bypass [] = Inr ([], bypass)"
| "revalidate_routes serverCIDR device seen bypass (d # ds) =
     (if rp_kind d \<noteq> ''route'' then Inl ''persisted desired route is unsupported or incomplete''
      else case desired_action d of
        None \<Rightarrow> Inl ''persisted desired route operation/owner is unsupported''
      | Some action \<Rightarrow>
          if trim_space (rp_table d) = [] \<or> trim_space (rp_cidr d) = [] \<or> trim_space (rp_dev d) = []
          then Inl ''persisted desired route tuple is incomplete''
          else if desired_key d \<in> set seen then Inl (''duplicate persisted desired route '' @ desired_key d)
          else
            (let route = \<lparr>trp_family = ''ipv4'', trp_destination = rp_cidr d, trp_table = rp_table d, trp_interface = rp_dev d,
                          trp_gateway = rp_via d, trp_action = action, trp_reason = []\<rparr>;
                 match = serverCIDR \<noteq> [] \<and> to_lower (rp_table d) = MainRoutingTable \<and> rp_cidr d = serverCIDR \<and> rp_dev d \<noteq> device in
             if match \<and> trp_destination bypass \<noteq> [] then Inl (''multiple desired server bypass routes match '' @ serverCIDR)
             else rbind (revalidate_routes serverCIDR device (desired_key d # seen) (if match then route else bypass) ds)
               (\<lambda>(routes, found). Inr (route # routes, found))))"

definition deviceNameForRevalidation :: "Transaction \<Rightarrow> string" where
  "deviceNameForRevalidation tx = trim_space (td_interface_name (pl_tun (tx_desired_plan tx)))"

definition tunRevalidationRoutePlans :: "Transaction \<Rightarrow> string + (TunRoutePlan list \<times> TunRoutePlan)" where
  "tunRevalidationRoutePlans tx =
     rbind (if pl_egress_mark (tx_desired_plan tx) = 0
            then rbind (tunRevalidationServerAddress tx) (\<lambda>server. Inr (server @ ''/32'')) else Inr []) (\<lambda>serverCIDR.
     rbind (revalidate_routes serverCIDR (deviceNameForRevalidation tx) [] no_bypass (pl_routes (tx_desired_plan tx))) (\<lambda>(routes, bypass).
       if serverCIDR \<noteq> [] \<and> trp_destination bypass = [] then Inl (''desired server bypass route '' @ serverCIDR @ '' is missing'')
       else Inr (routes, bypass)))"

definition parsePersistedTunPolicyRule :: "(string \<Rightarrow> string) \<Rightarrow> string \<Rightarrow> string + TunPolicyRulePlan" where
  "parsePersistedTunPolicyRule quote target =
     (let fs = Prelude.fields target; n = length fs; bad = \<lambda>t. Inl (''persisted policy-rule target '' @ quote target @ t) in
      if n < 6 \<or> fs ! 0 \<noteq> ''priority'' \<or> fs ! (n - 2) \<noteq> ''lookup'' then bad '' has unsupported syntax''
      else case atoi (fs ! 1) of
        None \<Rightarrow> bad '' has invalid priority''
      | Some priority \<Rightarrow>
          if priority \<le> 0 then bad '' has invalid priority''
          else
            (let selector = join '' '' (take (n - 4) (drop 2 fs)); table = trim_space (fs ! (n - 1)) in
             if \<not> (starts ''from '' selector \<or> starts ''to '' selector \<or> starts ''fwmark '' selector)
             then bad '' has invalid selector''
             else if table = [] then bad '' has no table''
             else Inr \<lparr>prp_family = ''ipv4'', prp_priority = priority, prp_selector = selector, prp_table = table,
                       prp_action = ''add'', prp_reason = []\<rparr>))"

fun revalidate_rules :: "(string \<Rightarrow> string) \<Rightarrow> string list \<Rightarrow> PlannedStep list \<Rightarrow> string + TunPolicyRulePlan list" where
  "revalidate_rules quote seen [] = Inr []"
| "revalidate_rules quote seen (s # ss) =
     (if ps_kind s \<noteq> ''policy-rule'' then revalidate_rules quote seen ss
      else if \<not> rollbackOwnerMatches (ps_owner s) OwnerPolicyRule then Inl ''persisted desired policy rule has unsupported owner''
      else rbind (parsePersistedTunPolicyRule quote (ps_target s)) (\<lambda>rule.
        if ps_target s \<in> set seen then Inl (''duplicate persisted desired policy rule '' @ quote (ps_target s))
        else rbind (revalidate_rules quote (ps_target s # seen) ss) (\<lambda>rules. Inr (rule # rules))))"

definition tunRevalidationPolicyRulePlans :: "(string \<Rightarrow> string) \<Rightarrow> PlannedStep list \<Rightarrow> string + TunPolicyRulePlan list" where
  "tunRevalidationPolicyRulePlans quote steps =
     rbind (revalidate_rules quote [] steps) (\<lambda>rules.
       if rules = [] then Inl ''persisted desired TUN policy rules are missing'' else Inr rules)"

definition tunRevalidationDNSPlan :: "DNSPlan \<Rightarrow> string \<Rightarrow> string + TunDNSPlan" where
  "tunRevalidationDNSPlan desired device =
     (if \<not> rollbackOwnerMatches (dp_owner desired) OwnerDNS \<or> trim_space (dp_backend desired) = [] \<or>
        trim_space (dp_link desired) = [] \<or> dp_servers desired = []
      then Inl ''persisted desired DNS state is incomplete''
      else if dp_link desired \<noteq> device
      then Inl (''persisted desired DNS link '' @ dp_link desired @ '' does not match TUN device '' @ device)
      else Inr (dns_plan_of (dp_backend desired) (dp_link desired) (dp_servers desired)))"

definition parsePersistedTunFirewallRule ::
  "(string \<Rightarrow> string) \<Rightarrow> string \<Rightarrow> string \<Rightarrow> string \<Rightarrow> string \<Rightarrow> string + TunFirewallRulePlan" where
  "parsePersistedTunFirewallRule quote family table chain raw =
     (let fs = Prelude.fields raw; n = length fs; bad = \<lambda>t. Inl (''persisted nftables rule on '' @ chain @ t) in
      if n < 4 \<or> fs ! (n - 2) \<noteq> ''owner'' then bad '' has no exact ownership marker''
      else
        (let ownership = fs ! (n - 1); verdict = fs ! (n - 3) in
         if \<not> starts ''podlaz:firewall:'' ownership then bad ('' has unsupported owner '' @ quote ownership)
         else if drop 16 ownership = [] then bad '' has empty ownership key''
         else if verdict \<notin> {FirewallVerdictAccept, FirewallVerdictReject, FirewallVerdictDrop}
         then bad ('' has unsupported verdict '' @ quote verdict)
         else Inr \<lparr>frp_chain = chain, frp_expr = join '' '' (take (n - 3) fs), frp_verdict = verdict,
                   frp_action = FirewallActionAdd, frp_reason = [], frp_ownership = ownership,
                   frp_rollback_key = join ''/'' [family, table, chain, drop 16 ownership]\<rparr>))"

definition revalidate_chain ::
  "(string \<Rightarrow> string) \<Rightarrow> string \<Rightarrow> string \<Rightarrow> NFTChainPlan \<Rightarrow> string + (TunFirewallChainPlan \<times> TunFirewallRulePlan list)" where
  "revalidate_chain quote family table c =
     (if nc_owner c \<noteq> [] \<and> \<not> rollbackOwnerMatches (nc_owner c) OwnerFirewall
      then Inl (''persisted nftables chain '' @ nc_name c @ '' has unsupported owner'')
      else rbind (map_result (parsePersistedTunFirewallRule quote family table (nc_name c)) (nc_rules c)) (\<lambda>rules.
        Inr (\<lparr>fcp_name = nc_name c, fcp_type = nc_type c, fcp_hook = nc_hook c, fcp_priority = nc_priority c,
              fcp_policy = nc_policy c, fcp_action = FirewallTableAction, fcp_reason = []\<rparr>, rules)))"

definition tunRevalidationFirewallPlan :: "(string \<Rightarrow> string) \<Rightarrow> Transaction \<Rightarrow> string + TunFirewallPlan" where
  "tunRevalidationFirewallPlan quote tx =
     (let nft = pl_nft (tx_desired_plan tx) in
      case rb_nftables (tx_rollback tx) of
        [rollback] \<Rightarrow>
          if \<not> rollbackOwnerMatches (nr_owner rollback) OwnerFirewall then Inl ''persisted nftables rollback owner is unsupported''
          else if np_owner nft \<noteq> OwnerFirewall \<or> np_family nft \<noteq> nr_family rollback \<or> np_table nft \<noteq> nr_table rollback
          then Inl ''persisted nftables desired state does not match rollback authority''
          else if np_chains nft = [] then Inl ''persisted nftables desired state has no chains''
          else if 1 < length (np_chains nft) \<and> list_ex (\<lambda>c. nc_rules c \<noteq> []) (np_chains nft)
          then Inl (''persisted nftables rule-to-chain mapping is ambiguous across '' @ itoa (length (np_chains nft)) @ '' chains'')
          else rbind (map_result (revalidate_chain quote (np_family nft) (np_table nft)) (np_chains nft)) (\<lambda>parts.
            Inr ((tp_firewall blank_plan)
              \<lparr>fwp_backend := ''nftables'', fwp_family := np_family nft, fwp_table := np_table nft,
               fwp_table_action := FirewallTableAction, fwp_chains := map fst parts, fwp_rules := concat (map snd parts)\<rparr>))
      | entries \<Rightarrow> Inl (''persisted nftables rollback cardinality='' @ itoa (length entries) @ '', want 1''))"

definition tunRevalidationPlanFromTransaction :: "(string \<Rightarrow> string) \<Rightarrow> Transaction \<Rightarrow> string + TunPlan" where
  "tunRevalidationPlanFromTransaction quote tx =
     (case validateTunRollbackProjection tx of
        Some e \<Rightarrow> Inl (''validate persisted TUN rollback authority: '' @ e)
      | None \<Rightarrow>
          if tx_mode tx \<noteq> ModeTun then Inl (''persisted transaction mode '' @ quote (tx_mode tx) @ '' is not TUN'')
          else
            rbind (tunRevalidationDevicePlan (pl_tun (tx_desired_plan tx))) (\<lambda>device.
            rbind (tunRevalidationAddressPlan (pl_tun_address (tx_desired_plan tx)) (tdp_name device)) (\<lambda>address.
            rbind (tunRevalidationRoutePlans tx) (\<lambda>(routes, bypass).
            rbind (tunRevalidationPolicyRulePlans quote (pl_steps (tx_desired_plan tx))) (\<lambda>rules.
            rbind (tunRevalidationDNSPlan (pl_dns (tx_desired_plan tx)) (tdp_name device)) (\<lambda>dns.
            rbind (tunRevalidationFirewallPlan quote tx) (\<lambda>firewall.
              Inr ((plan_of_record tx)
                \<lparr>tp_device := device, tp_address := address, tp_routes := routes, tp_server_bypass := bypass,
                 tp_rules := rules, tp_dns := dns, tp_firewall := firewall\<rparr>))))))))"

section \<open>Cleanup of a stopped session\<close>

definition runTunCleanup :: "'v tun_env \<Rightarrow> string \<Rightarrow> ('v, unit) tun_act" where
  "runTunCleanup env txid =
     bindp (wrapping (''load TUN transaction '' @ txid) (load_tx env txid)) (\<lambda>tx0.
       (let projection = ProjectRollbackMetadata (ho_quote (tv_host env)) tx0;
            refused = ''TUN rollback authority incomplete; host state was not mutated: '' in
        if rpj_incomplete projection then fail_with (refused @ join ''; '' (rpj_reasons projection))
        else
          (let tx = tx0\<lparr>tx_rollback := rpj_rollback projection\<rparr> in
           case validateTunRollbackProjection tx of
             Some e \<Rightarrow> fail_with (refused @ e)
           | None \<Rightarrow>
               bindp (put_tx tx) (\<lambda>u.
               bindp (rollbackTunTransactionWithChildStopper env (tunPlanFromTransaction tx) None) (\<lambda>u.
                 wrapping (''remove rolled-back TUN transaction '' @ txid) (removeTransactionFile env txid))))))"

end
