(* ===== verification/Recovery_Daemon.thy ===== *)
theory Recovery_Daemon
  imports Recovery_Exec
begin

text \<open>
  Rolling back a persisted transaction: \<^verbatim>\<open>DaemonCleanupExecutor\<close> of
  \<^verbatim>\<open>src/internal/recovery/daemon_executor.go\<close> with \<^verbatim>\<open>desired_plan_ambiguity.go\<close> and
  \<^verbatim>\<open>tun_address_recovery.go\<close>, \<^verbatim>\<open>NetworkSessionCleanupExecutor\<close> of
  \<^verbatim>\<open>network_session_cleanup_executor.go\<close>, and \<^verbatim>\<open>ExecuteWithOptions\<close> of \<^verbatim>\<open>recovery.go\<close>, which runs an
  executor over the ordered candidates of a scan.
\<close>

section \<open>Processes and the identity of the link\<close>

definition child_process_result :: "'w host \<Rightarrow> ChildProcessRollback \<Rightarrow> ('w, CleanupResult) rec_act" where
  "child_process_result host p =
     (let c = candidate ''child-process'' ''child process'' (cr_label p @ '' pid '' @ itoa_int (cr_pid p)) in
      if cr_owner p \<noteq> TransactionOwner then ret (skipped c ''non-podlaz child process metadata'')
      else if cr_pid p \<le> 1 then ret (skipped c ''no live process pid recorded'')
      else
        bindp (host_read (ho_stat host (''/proc/'' @ itoa_int (cr_pid p)))) (\<lambda>r.
          ret (case r of
             Inl NotExist \<Rightarrow> recoveredWithMessage c ''recorded child process is already absent''
           | Inl (FileError t) \<Rightarrow> failed c (''inspect stale child process pid '' @ itoa_int (cr_pid p) @ '': '' @ t)
           | Inr k \<Rightarrow> skipped c ''process identity cannot be verified from stale metadata'')))"

definition rollbackChildProcessResults ::
  "'w host \<Rightarrow> ChildProcessRollback list \<Rightarrow> ('w, CleanupResult list) rec_act" where
  "rollbackChildProcessResults host ps = each_result (\<lambda>p. one_result (child_process_result host p)) ps"

definition trackedChildAbsenceProven :: "ChildProcessRollback list \<Rightarrow> CleanupResult list \<Rightarrow> bool" where
  "trackedChildAbsenceProven ps rs =
     (ps \<noteq> [] \<and> length rs = length ps \<and>
      list_all (\<lambda>r. ca_kind (cl_candidate r) = ''child-process'' \<and> cl_status r = Recovered \<and>
        contains_str (cl_message r) ''already absent'') rs)"

datatype rollbackLinkDecision = rollbackLinkMatched | rollbackLinkAbsentChildAbsent | rollbackLinkBlocked

text \<open>The gate returns its result with the decision; there is none when the link matches.\<close>

definition link_gate ::
  "'w host \<Rightarrow> RollbackMetadata \<Rightarrow> rollbackLinkIdentity option \<Rightarrow> bool \<Rightarrow>
   ('w, CleanupResult list \<times> rollbackLinkDecision) rec_act" where
  "link_gate host rollback identity childAbsenceProven =
     (let c = candidate ''tun-link-identity'' ''TUN link identity'' managedInterface in
      if \<not> rollbackRequiresLinkIdentity rollback then ret ([], rollbackLinkMatched)
      else case identity of
        None \<Rightarrow>
          ret ([failed c ''missing exact transaction-bound TUN address or creation identity for link-scoped rollback''],
               rollbackLinkBlocked)
      | Some expected \<Rightarrow>
          bindp (runResult host ''ip'' [''-details'', ''-o'', ''link'', ''show'', ''dev'', managedInterface]) (\<lambda>o1.
            ret (if \<not> commandSucceeded o1 then
                   (if resultMissing (fst o1) then
                      (if childAbsenceProven
                       then ([recoveredWithMessage c ''transaction-bound TUN link and tracked child are absent''],
                             rollbackLinkAbsentChildAbsent)
                       else ([failed c ''transaction-bound TUN link is absent but tracked child absence is unproven''],
                             rollbackLinkBlocked))
                    else ([failed c (''inspect TUN link identity before rollback: '' @ commandFailureMessage o1)],
                          rollbackLinkBlocked))
                 else if parseRollbackLinkIdentity (cmd_stdout (fst o1)) \<noteq> Some expected then
                   ([failed c (''current link identity does not match transaction-bound identity: expected name='' @
                       rli_name expected @ '' ifindex='' @ itoa_int (rli_index expected) @ '' kind='' @ rli_kind expected)],
                    rollbackLinkBlocked)
                 else ([], rollbackLinkMatched))))"

definition rollbackLinkIdentityGate ::
  "'w host \<Rightarrow> RollbackMetadata \<Rightarrow> AppliedStep list \<Rightarrow> bool \<Rightarrow>
   ('w, CleanupResult list \<times> rollbackLinkDecision) rec_act" where
  "rollbackLinkIdentityGate host rollback applied childAbsenceProven =
     link_gate host rollback (exactRollbackTUNLinkIdentity rollback applied) childAbsenceProven"

definition networkSessionRollbackLinkIdentityGate ::
  "'w host \<Rightarrow> RollbackMetadata \<Rightarrow> AppliedStep list \<Rightarrow> bool \<Rightarrow>
   ('w, CleanupResult list \<times> rollbackLinkDecision) rec_act" where
  "networkSessionRollbackLinkIdentityGate host rollback applied childAbsenceProven =
     link_gate host rollback (exactNetworkSessionRollbackLinkIdentity rollback applied) childAbsenceProven"

section \<open>Results without an effect\<close>

definition dns_candidate :: "DNSRollback \<Rightarrow> Candidate" where
  "dns_candidate d = candidate ''dns'' ''DNS link state'' (dr_link d)"

definition address_candidate :: "TUNAddressRollback \<Rightarrow> Candidate" where
  "address_candidate a = candidate ''tun-address'' ''TUN address'' (tar_interface_name a @ '' '' @ tar_cidr a)"

definition tun_candidate :: "TUNRollback \<Rightarrow> Candidate" where
  "tun_candidate t = candidate ''tun-interface'' ''TUN interface'' (tr_interface_name t)"

definition route_candidate :: "RouteRollback \<Rightarrow> Candidate" where
  "route_candidate r = candidate ''route'' ''route'' (rr_cidr r @ '' table '' @ rr_table r)"

definition rule_candidate :: "PolicyRuleRollback \<Rightarrow> Candidate" where
  "rule_candidate r = candidate ''policy-rule'' ''policy rule'' (''priority '' @ itoa_int (pr_priority r) @ '' table '' @ pr_table r)"

definition failLinkScopedRollbackResults :: "RollbackMetadata \<Rightarrow> CleanupResult list" where
  "failLinkScopedRollbackResults rb =
     (let f = (\<lambda>c. failed c ''link identity was not proven before rollback'') in
      map (\<lambda>d. f (dns_candidate d)) (rb_dns rb) @ map (\<lambda>a. f (address_candidate a)) (rb_tun_addresses rb) @
      map (\<lambda>t. f (tun_candidate t)) (rb_tun rb))"

definition missingLinkScopedRollbackResults :: "RollbackMetadata \<Rightarrow> CleanupResult list" where
  "missingLinkScopedRollbackResults rb =
     map (\<lambda>d. recoveredWithMessage (dns_candidate d)
        ''target link is absent after tracked child exit; no name-scoped DNS mutation was run'') (rb_dns rb) @
     map (\<lambda>a. recoveredWithMessage (address_candidate a)
        ''target link is absent after tracked child exit; address is already absent'') (rb_tun_addresses rb) @
     map (\<lambda>t. recoveredWithMessage (tun_candidate t)
        ''target link is absent after tracked child exit; link is already absent'') (rb_tun rb)"

definition missing_link_routes :: "(RouteRollback \<Rightarrow> bool) \<Rightarrow> RouteRollback list \<Rightarrow> CleanupResult list" where
  "missing_link_routes dependent routes =
     map (\<lambda>r. recoveredWithMessage (route_candidate r)
        ''transaction-bound link is absent after tracked child exit; link-dependent route is already absent'')
       (filter dependent routes)"

definition missingLinkRouteResults :: "RouteRollback list \<Rightarrow> CleanupResult list" where
  "missingLinkRouteResults routes = missing_link_routes linkDependentRouteRollback routes"

definition missingNetworkSessionLinkRoutes ::
  "RouteRollback list \<Rightarrow> persistedNetworkSessionAllocation \<Rightarrow> CleanupResult list" where
  "missingNetworkSessionLinkRoutes routes al = missing_link_routes (\<lambda>r. networkSessionLinkDependentRoute r al) routes"

text \<open>What the guards of a generated configuration refuse, before it is removed or preserved.\<close>

definition config_candidate :: "GeneratedConfigRollback \<Rightarrow> Candidate" where
  "config_candidate g = candidate ''generated-runtime-config'' ''generated runtime config'' (gr_path g)"

definition config_refusal :: "string \<Rightarrow> GeneratedConfigRollback \<Rightarrow> CleanupResult option" where
  "config_refusal dir g =
     (if gr_owner g \<noteq> TransactionOwner then Some (skipped (config_candidate g) ''non-podlaz generated config metadata'')
      else if \<not> isUnderDir (generated_dir dir) (path_clean (gr_path g))
      then Some (skipped (config_candidate g) ''generated config path is outside podlaz runtime state'')
      else None)"

definition preserveGeneratedConfigResults :: "string \<Rightarrow> GeneratedConfigRollback list \<Rightarrow> CleanupResult list" where
  "preserveGeneratedConfigResults dir gs =
     map (\<lambda>g. case config_refusal dir g of
        Some r \<Rightarrow> r
      | None \<Rightarrow> skipped (config_candidate g) ''process absence is unproven; generated config was preserved'') gs"

section \<open>Results of the rollbacks\<close>

definition rollbackGeneratedConfigResults ::
  "'w host \<Rightarrow> string \<Rightarrow> GeneratedConfigRollback list \<Rightarrow> ('w, CleanupResult list) rec_act" where
  "rollbackGeneratedConfigResults host dir gs =
     each_result (\<lambda>g.
       case config_refusal dir g of
         Some r \<Rightarrow> ret_one r
       | None \<Rightarrow>
           one_result (result_of (config_candidate g)
             (bindp (removeGeneratedConfig host dir g) (\<lambda>u. removeEmptyGeneratedRoot host dir)))) gs"

fun nft_results ::
  "'w host \<Rightarrow> Transaction \<Rightarrow> string list \<Rightarrow> NFTablesRollback list \<Rightarrow> ('w, CleanupResult list) rec_act" where
  "nft_results host tx seen [] = ret []"
| "nft_results host tx seen (entry # es) =
     (let key = nr_family entry @ '' '' @ nr_table entry; c = candidate ''nftables-table'' ''nftables table'' key in
      if \<not> ownedRollbackMetadata (nr_owner entry) OwnerFirewall \<or> \<not> isManagedNFTTarget (nr_family entry) (nr_table entry)
      then bindp (nft_results host tx seen es) (\<lambda>rs. ret (skipped c ''ambiguous or non-podlaz nftables target'' # rs))
      else if key \<in> set seen then nft_results host tx seen es
      else case exactNftablesRollbackPlan tx entry of
        Inl t \<Rightarrow>
          bindp (nft_results host tx (key # seen) es) (\<lambda>rs.
            ret (skipped c (''exact nftables rollback composition is unavailable: '' @ t) # rs))
      | Inr plan \<Rightarrow>
          bindp (result_of c (rollback_table host plan)) (\<lambda>r.
          bindp (nft_results host tx (key # seen) es) (\<lambda>rs. ret (r # rs))))"

definition rollbackNFTablesResults ::
  "'w host \<Rightarrow> Transaction \<Rightarrow> NFTablesRollback list \<Rightarrow> ('w, CleanupResult list) rec_act" where
  "rollbackNFTablesResults host tx entries = nft_results host tx [] entries"

definition rollbackDNSResults :: "'w host \<Rightarrow> DNSRollback list \<Rightarrow> ('w, CleanupResult list) rec_act" where
  "rollbackDNSResults host entries =
     each_result (\<lambda>d.
       if \<not> ownedRollbackMetadata (dr_owner d) OwnerDNS \<or> dr_link d \<noteq> managedInterface \<or> \<not> systemdResolvedBackend (dr_backend d)
       then ret_one (skipped (dns_candidate d) ''ambiguous or non-podlaz DNS rollback target'')
       else one_result (result_of (dns_candidate d)
         (rollbackDNS host (d\<lparr>dr_owner := TransactionOwner, dr_backend := normalizedSystemdResolvedBackend\<rparr>)))) entries"

definition rollbackPolicyRuleResults :: "'w host \<Rightarrow> PolicyRuleRollback list \<Rightarrow> ('w, CleanupResult list) rec_act" where
  "rollbackPolicyRuleResults host rules =
     each_result (\<lambda>r.
       if \<not> ownedRollbackMetadata (pr_owner r) OwnerPolicyRule
       then ret_one (skipped (rule_candidate r) ''non-podlaz policy rule metadata'')
       else if safeMainServerBypassPolicyRule r
       then one_result (result_of (rule_candidate r) (rollbackMainServerBypassPolicyRule host r))
       else if managedTableToken (pr_table r) = None
       then ret_one (skipped (rule_candidate r) ''ambiguous or non-podlaz policy rule table'')
       else one_result (result_of (rule_candidate r) (rollbackPolicyRule host (r\<lparr>pr_owner := TransactionOwner\<rparr>)))) rules"

definition route_result :: "'w host \<Rightarrow> RouteRollback \<Rightarrow> ('w, CleanupResult) rec_act" where
  "route_result host r =
     (let c = route_candidate r in
      if \<not> ownedRollbackMetadata (rr_owner r) OwnerRoute then ret (skipped c ''non-podlaz route metadata'')
      else if safeMainServerBypassRoute r then result_of c (rollbackMainServerBypassRoute host r)
      else if trim_space (rr_table r) = ''main'' then ret (skipped c ''ambiguous or non-podlaz main-table route'')
      else if managedTableToken (rr_table r) = None then ret (skipped c ''ambiguous or non-podlaz route table'')
      else if trim_space (rr_dev r) \<noteq> [] \<and> rr_dev r \<noteq> managedInterface
      then ret (skipped c ''ambiguous or non-podlaz route device'')
      else result_of c (rollbackRoute host (r\<lparr>rr_owner := TransactionOwner\<rparr>)))"

definition rollbackRouteResults :: "'w host \<Rightarrow> RouteRollback list \<Rightarrow> ('w, CleanupResult list) rec_act" where
  "rollbackRouteResults host routes = each_result (\<lambda>r. one_result (route_result host r)) routes"

definition rollbackIndependentRouteResults :: "'w host \<Rightarrow> RouteRollback list \<Rightarrow> ('w, CleanupResult list) rec_act" where
  "rollbackIndependentRouteResults host routes =
     each_result (\<lambda>r. if linkDependentRouteRollback r then ret [] else rollbackRouteResults host [r]) routes"

definition rollbackTUNResults :: "'w host \<Rightarrow> TUNRollback list \<Rightarrow> ('w, CleanupResult list) rec_act" where
  "rollbackTUNResults host entries =
     each_result (\<lambda>t.
       if \<not> ownedRollbackMetadata (tr_owner t) OwnerTunDevice \<or> tr_interface_name t \<noteq> managedInterface
       then ret_one (skipped (tun_candidate t) ''ambiguous or non-podlaz TUN target'')
       else one_result (result_of (tun_candidate t) (rollbackTUN host (t\<lparr>tr_owner := TransactionOwner\<rparr>)))) entries"

definition address_rollback_plan :: "TUNAddressRollback \<Rightarrow> bool \<Rightarrow> TunAddressPlan" where
  "address_rollback_plan a allowMissingLink =
     \<lparr>tap_family = tar_family a, tap_interface = tar_interface_name a, tap_cidr = tar_cidr a, tap_scope = tar_scope a,
      tap_action = TunAddressActionAssign, tap_reason = [], tap_classification = [], tap_owner = OwnerTunAddress,
      tap_rollback_key = tar_interface_name a @ ''/'' @ tar_cidr a, tap_link_index = tar_link_index a,
      tap_link_kind = tar_link_kind a, tap_appeared_after_core = tar_appeared_after_core a,
      tap_allow_owned_existing = True, tap_allow_missing_link = allowMissingLink\<rparr>"

definition rollbackTUNAddressResults ::
  "'w host \<Rightarrow> TUNAddressRollback list \<Rightarrow> bool \<Rightarrow> ('w, CleanupResult list) rec_act" where
  "rollbackTUNAddressResults host entries allowMissingLink =
     each_result (\<lambda>a.
       (let c = candidate ''tun-address'' ''daemon-owned TUN IPv4 address''
                  (tar_interface_name a @ ''@ifindex='' @ itoa_int (tar_link_index a) @ '':'' @ tar_cidr a) in
        case validateTunAddressRollback a of
          Some reason \<Rightarrow> ret_one (skipped c reason)
        | None \<Rightarrow>
            one_result (result_of c (map_err ee_text
              (TunAddress_Rollback host (address_rollback_plan a allowMissingLink)))))) entries"

section \<open>Main-table state the transaction does not record\<close>

definition inspect_main ::
  "'w host \<Rightarrow> Candidate \<Rightarrow> string \<Rightarrow> string list \<Rightarrow> ('w, CleanupResult) rec_act" where
  "inspect_main host c what args =
     bindp (look_path host ''ip'') (\<lambda>p.
       case p of
         Inl t \<Rightarrow> ret (failed c (''inspect unrecorded main-table '' @ what @ '': ip command is unavailable''))
       | Inr ip \<Rightarrow>
           bindp (run_raw host ''ip'' ip args) (\<lambda>o1.
             ret (if \<not> commandSucceeded o1 then
                    failed c (''inspect unrecorded main-table '' @ what @ '': '' @ commandFailureMessage o1)
                  else if trim_space (cmd_stdout (fst o1)) = [] then recovered c
                  else skipped c (''main-table '' @ what @ '' exists but the transaction did not durably record that podlaz created it''))))"

definition inspectDesiredMainRoute :: "'w host \<Rightarrow> RoutePlan \<Rightarrow> ('w, CleanupResult) rec_act" where
  "inspectDesiredMainRoute host p =
     inspect_main host
       (candidate ''route'' ''main-table server bypass route'' (rp_cidr p @ '' table '' @ rp_table p))
       ''route'' [''-4'', ''route'', ''show'', ''table'', MainRoutingTable, rp_cidr p]"

definition inspectDesiredMainPolicyRule :: "'w host \<Rightarrow> PolicyRuleRollback \<Rightarrow> ('w, CleanupResult) rec_act" where
  "inspectDesiredMainPolicyRule host r =
     inspect_main host
       (candidate ''policy-rule'' ''main-table server bypass policy rule''
          (''priority '' @ itoa_int (pr_priority r) @ '' table '' @ pr_table r))
       ''policy rule'' [''-4'', ''rule'', ''show'', ''priority'', itoa_int (pr_priority r)]"

definition unrecorded_routes :: "Transaction \<Rightarrow> RoutePlan list" where
  "unrecorded_routes tx =
     filter (\<lambda>p. rp_operation p = ''add'' \<and> rp_table p = MainRoutingTable \<and>
        \<not> recordedRouteRollback (rb_routes (tx_rollback tx)) p) (pl_routes (tx_desired_plan tx))"

definition unrecorded_rules :: "Transaction \<Rightarrow> PolicyRuleRollback list" where
  "unrecorded_rules tx =
     filter (\<lambda>r. safeMainServerBypassPolicyRule r \<and> \<not> recordedPolicyRuleRollback (rb_policy_rules (tx_rollback tx)) r)
       (List.map_filter desiredPolicyRuleRollback (pl_steps (tx_desired_plan tx)))"

definition inspectUnrecordedDesiredMainState :: "'w host \<Rightarrow> Transaction \<Rightarrow> ('w, CleanupResult list) rec_act" where
  "inspectUnrecordedDesiredMainState host tx =
     run_all [each_result (\<lambda>p. one_result (inspectDesiredMainRoute host p)) (unrecorded_routes tx),
              each_result (\<lambda>r. one_result (inspectDesiredMainPolicyRule host r)) (unrecorded_rules tx)]"

section \<open>A transaction\<close>

text \<open>The end of a cleanup: the ownership gaps, the generated configurations, the unrecorded state, and, only when
  nothing failed or was skipped, the removal of the transaction file.\<close>

definition gap_results :: "string list \<Rightarrow> string \<Rightarrow> CleanupResult list" where
  "gap_results gaps target =
     (if gaps = [] then []
      else [skipped (candidate ''transaction-ownership'' ''applying ownership gap'' target)
              (''applying transaction has no durable ownership proof for '' @ join '', '' gaps)])"

definition config_results ::
  "'w host \<Rightarrow> string \<Rightarrow> RollbackMetadata \<Rightarrow> string list \<Rightarrow> CleanupResult list \<Rightarrow> ('w, CleanupResult list) rec_act" where
  "config_results host dir rollback gaps processResults =
     (if gaps \<noteq> [] \<or> hasFailedCleanup processResults \<or> hasSkippedCleanup processResults
      then ret (preserveGeneratedConfigResults dir (rb_generated_configs rollback))
      else rollbackGeneratedConfigResults host dir (rb_generated_configs rollback))"

definition remove_transaction ::
  "'w host \<Rightarrow> string \<Rightarrow> string \<Rightarrow> Candidate \<Rightarrow> CleanupResult list \<Rightarrow> ('w, CleanupResult list) rec_act" where
  "remove_transaction host path shown c results =
     (if hasFailedCleanup results then
        ret (results @ [failed c ''transaction cleanup completed with failures; transaction state was preserved''])
      else if hasSkippedCleanup results then
        ret (results @ [skipped c ''transaction cleanup skipped ambiguous resources; transaction state was preserved''])
      else
        bindp (result_of c (file_removal (RemovedFile path) (ho_remove host path) (''remove transaction state '' @ shown)))
          (\<lambda>r. ret (results @ [r])))"

definition finish_transaction ::
  "'w host \<Rightarrow> string \<Rightarrow> Transaction \<Rightarrow> RollbackMetadata \<Rightarrow> string list \<Rightarrow> string \<Rightarrow> string \<Rightarrow> string \<Rightarrow> Candidate \<Rightarrow>
   CleanupResult list \<Rightarrow> CleanupResult list \<Rightarrow> ('w, CleanupResult list) rec_act" where
  "finish_transaction host dir tx rollback gaps gap_target path shown c processResults results =
     bindp (run_all [ret (gap_results gaps gap_target), config_results host dir rollback gaps processResults,
                     inspectUnrecordedDesiredMainState host tx]) (\<lambda>rest.
       remove_transaction host path shown c (results @ rest))"

text \<open>A link whose identity is not proven: only what does not depend on the link is rolled back.\<close>

definition blocked_results ::
  "'w host \<Rightarrow> string \<Rightarrow> Transaction \<Rightarrow> RollbackMetadata \<Rightarrow> Candidate \<Rightarrow> CleanupResult list \<Rightarrow> CleanupResult list \<Rightarrow>
   ('w, CleanupResult list) rec_act" where
  "blocked_results host dir tx rollback c gateResult processResults =
     run_all [ret (gateResult @ failLinkScopedRollbackResults rollback @ processResults @
                   preserveGeneratedConfigResults dir (rb_generated_configs rollback)),
              inspectUnrecordedDesiredMainState host tx,
              ret_one (failed c ''transaction cleanup failed link identity proof; transaction state was preserved'')]"

definition rollback_transaction ::
  "'w host \<Rightarrow> string \<Rightarrow> Candidate \<Rightarrow> string \<Rightarrow> Transaction \<Rightarrow> ('w, CleanupResult list) rec_act" where
  "rollback_transaction host dir c path tx =
     (let rollback = recoveryRollbackMetadata (ho_quote host) tx; gaps = applyingDesiredOwnershipGaps tx in
      bindp (rollbackChildProcessResults host (rb_child_processes rollback)) (\<lambda>processResults.
      (let childAbsenceProven = trackedChildAbsenceProven (rb_child_processes rollback) processResults in
       bindp (rollbackLinkIdentityGate host rollback (tx_applied_steps tx) childAbsenceProven) (\<lambda>(gateResult, decision).
         case decision of
           rollbackLinkBlocked \<Rightarrow>
             run_all [rollbackNFTablesResults host tx (rb_nftables rollback),
                      rollbackPolicyRuleResults host (rb_policy_rules rollback),
                      rollbackIndependentRouteResults host (rb_routes rollback),
                      blocked_results host dir tx rollback c gateResult processResults]
         | rollbackLinkAbsentChildAbsent \<Rightarrow>
             bindp (run_all [rollbackNFTablesResults host tx (rb_nftables rollback),
                      rollbackPolicyRuleResults host (rb_policy_rules rollback),
                      rollbackIndependentRouteResults host (rb_routes rollback),
                      ret (missingLinkRouteResults (rb_routes rollback) @ gateResult @
                           missingLinkScopedRollbackResults rollback @ processResults)])
               (finish_transaction host dir tx rollback gaps path path path c processResults)
         | rollbackLinkMatched \<Rightarrow>
             bindp (run_all [rollbackNFTablesResults host tx (rb_nftables rollback),
                      rollbackDNSResults host (rb_dns rollback),
                      rollbackPolicyRuleResults host (rb_policy_rules rollback),
                      rollbackRouteResults host (rb_routes rollback),
                      rollbackTUNAddressResults host (rb_tun_addresses rollback) childAbsenceProven,
                      rollbackTUNResults host (rb_tun rollback),
                      ret processResults])
               (finish_transaction host dir tx rollback gaps path path path c processResults)))))"

definition cleanupTransactionState ::
  "'w host \<Rightarrow> string \<Rightarrow> Candidate \<Rightarrow> ('w, CleanupResult list) rec_act" where
  "cleanupTransactionState host dir c =
     (case ca_transaction c of
        None \<Rightarrow> ret_one (skipped c ''missing transaction summary'')
      | Some t \<Rightarrow>
          (let path = path_clean (tc_path t) in
           if \<not> sameCleanPath path (ca_target c) \<or> \<not> isTransactionPath dir path
           then ret_one (skipped c ''transaction path is outside podlaz runtime state'')
           else
             bindp (load_transaction host path) (\<lambda>loaded.
               case loaded of
                 Inl e \<Rightarrow> ret_one (failed c (''load transaction state: '' @ ho_tx_error host e))
               | Inr tx \<Rightarrow>
                   if \<not> RequiresRecovery tx then ret_one (recovered c)
                   else rollback_transaction host dir c path tx)))"

definition DaemonCleanupMany :: "'w host \<Rightarrow> string \<Rightarrow> Candidate \<Rightarrow> ('w, CleanupResult list) rec_act" where
  "DaemonCleanupMany host rawDir c =
     (let kind = ca_kind c; dir = runtime_dir rawDir in
      if trim_space kind = [] then ret_one (skipped c ''missing recovery candidate kind'')
      else if kind = ''tun-interface'' then ret_one (cleanupTUNInterface c)
      else if kind = managedDNSCandidateKind then one_result (cleanupManagedResolvedLink host c)
      else if kind = ''nftables-table'' then
        ret_one (skipped c ''nftables table identity alone is not Podlaz cleanup authority; exact transaction rollback authority is required'')
      else if kind = ''transaction-state'' then cleanupTransactionState host dir c
      else if kind = ''generated-runtime-configs'' then one_result (cleanupGeneratedRuntimeConfigs host dir c)
      else if kind = ''runtime-directory'' then ret_one (skipped c ''runtime root cleanup is intentionally unsupported'')
      else ret_one (skipped c ''unsupported recovery candidate kind''))"

text \<open>\<^verbatim>\<open>Cleanup\<close> of both executors: one result for all.\<close>

definition summarize_results :: "Candidate \<Rightarrow> CleanupResult list \<Rightarrow> CleanupResult" where
  "summarize_results c rs =
     (case rs of
        [] \<Rightarrow> skipped c ''no cleanup action produced a result''
      | [r] \<Rightarrow> r
      | _ \<Rightarrow>
          if hasFailedCleanup rs then failed c ''transaction cleanup completed with failures''
          else if hasSkippedCleanup rs then skipped c ''transaction cleanup skipped at least one resource''
          else recovered c)"

definition DaemonCleanup :: "'w host \<Rightarrow> string \<Rightarrow> Candidate \<Rightarrow> ('w, CleanupResult) rec_act" where
  "DaemonCleanup host rawDir c = bindp (DaemonCleanupMany host rawDir c) (\<lambda>rs. ret (summarize_results c rs))"

section \<open>A transaction with an exact session allocation\<close>

definition exact_delete :: "'w host \<Rightarrow> Candidate \<Rightarrow> string list \<Rightarrow> ('w, CleanupResult) rec_act" where
  "exact_delete host c args =
     bindp (tryp (run_text host ''ip'' args)) (\<lambda>r.
       ret (case r of
          Inl t \<Rightarrow> if commandErrorIsMissing t then recovered c else failed c t
        | Inr u \<Rightarrow> recovered c))"

definition session_rule_result ::
  "'w host \<Rightarrow> persistedNetworkSessionAllocation \<Rightarrow> PolicyRuleRollback \<Rightarrow> ('w, CleanupResult) rec_act" where
  "session_rule_result host al r =
     (if \<not> ownedRollbackMetadata (pr_owner r) OwnerPolicyRule
      then ret (skipped (rule_candidate r) ''non-podlaz policy rule metadata'')
      else case exactNetworkSessionPolicyRuleDeleteArgs r al of
        None \<Rightarrow> ret (skipped (rule_candidate r) ''policy rule does not match the exact persisted session allocation'')
      | Some args \<Rightarrow> exact_delete host (rule_candidate r) args)"

definition rollbackNetworkSessionPolicyRules ::
  "'w host \<Rightarrow> PolicyRuleRollback list \<Rightarrow> persistedNetworkSessionAllocation \<Rightarrow> ('w, CleanupResult list) rec_act" where
  "rollbackNetworkSessionPolicyRules host rules al = until_blocked (session_rule_result host al) rules"

definition rollbackNetworkSessionRoute ::
  "'w host \<Rightarrow> persistedNetworkSessionAllocation \<Rightarrow> RouteRollback \<Rightarrow> ('w, CleanupResult) rec_act" where
  "rollbackNetworkSessionRoute host al r =
     (if \<not> ownedRollbackMetadata (rr_owner r) OwnerRoute
      then ret (skipped (route_candidate r) ''non-podlaz route metadata'')
      else case exactNetworkSessionRouteDeleteArgs r al of
        None \<Rightarrow> ret (skipped (route_candidate r) ''route does not match the exact persisted session allocation'')
      | Some args \<Rightarrow> exact_delete host (route_candidate r) args)"

definition rollbackNetworkSessionRoutes ::
  "'w host \<Rightarrow> RouteRollback list \<Rightarrow> persistedNetworkSessionAllocation \<Rightarrow> ('w, CleanupResult list) rec_act" where
  "rollbackNetworkSessionRoutes host routes al = until_blocked (rollbackNetworkSessionRoute host al) routes"

definition rollbackNetworkSessionIndependentRoutes ::
  "'w host \<Rightarrow> RouteRollback list \<Rightarrow> persistedNetworkSessionAllocation \<Rightarrow> ('w, CleanupResult list) rec_act" where
  "rollbackNetworkSessionIndependentRoutes host routes al =
     until_blocked (rollbackNetworkSessionRoute host al) (filter (\<lambda>r. \<not> networkSessionLinkDependentRoute r al) routes)"

definition stop_at_blocker ::
  "'w host \<Rightarrow> string \<Rightarrow> Transaction \<Rightarrow> RollbackMetadata \<Rightarrow> Candidate \<Rightarrow> CleanupResult list \<Rightarrow> CleanupResult list \<Rightarrow>
   ('w, CleanupResult list) rec_act" where
  "stop_at_blocker host dir tx rollback c processResults results =
     bindp (inspectUnrecordedDesiredMainState host tx) (\<lambda>main.
       (let rs = results @ processResults @ preserveGeneratedConfigResults dir (rb_generated_configs rollback) @ main in
        ret (rs @
          [if hasFailedCleanup rs
           then failed c ''transaction cleanup stopped at the first blocking phase; transaction state was preserved''
           else skipped c ''transaction cleanup stopped at the first ambiguous phase; transaction state was preserved''])))"

definition session_phases ::
  "'w host \<Rightarrow> Transaction \<Rightarrow> RollbackMetadata \<Rightarrow> persistedNetworkSessionAllocation \<Rightarrow> bool \<Rightarrow> rollbackLinkDecision \<Rightarrow>
   ('w, CleanupResult list) rec_act list" where
  "session_phases host tx rollback al childAbsenceProven decision =
     (case decision of
        rollbackLinkMatched \<Rightarrow>
          [rollbackNFTablesResults host tx (rb_nftables rollback),
           rollbackDNSResults host (rb_dns rollback),
           rollbackNetworkSessionPolicyRules host (rb_policy_rules rollback) al,
           rollbackNetworkSessionRoutes host (rb_routes rollback) al,
           rollbackTUNAddressResults host (rb_tun_addresses rollback) childAbsenceProven,
           rollbackTUNResults host (rb_tun rollback)]
      | _ \<Rightarrow>
          [rollbackNFTablesResults host tx (rb_nftables rollback),
           rollbackNetworkSessionPolicyRules host (rb_policy_rules rollback) al,
           rollbackNetworkSessionIndependentRoutes host (rb_routes rollback) al])"

definition cleanupAllocatedNetworkSessionTransaction ::
  "'w host \<Rightarrow> string \<Rightarrow> Candidate \<Rightarrow> string \<Rightarrow> Transaction \<Rightarrow> persistedNetworkSessionAllocation \<Rightarrow>
   ('w, CleanupResult list) rec_act" where
  "cleanupAllocatedNetworkSessionTransaction host dir c shown tx al =
     (let rollback = networkSessionRecoveryRollbackMetadata (ho_quote host) tx al;
          gaps = networkSessionApplyingOwnershipGaps tx al; path = path_clean shown in
      bindp (rollbackChildProcessResults host (rb_child_processes rollback)) (\<lambda>processResults.
      (let childAbsenceProven = trackedChildAbsenceProven (rb_child_processes rollback) processResults in
       bindp (networkSessionRollbackLinkIdentityGate host rollback (tx_applied_steps tx) childAbsenceProven)
         (\<lambda>(gateResult, decision).
         bindp (run_until_blocked (session_phases host tx rollback al childAbsenceProven decision)) (\<lambda>(results, blocked).
           if blocked then stop_at_blocker host dir tx rollback c processResults results
           else
             (case decision of
                rollbackLinkBlocked \<Rightarrow>
                  bindp (blocked_results host dir tx rollback c gateResult processResults) (\<lambda>rest. ret (results @ rest))
              | rollbackLinkAbsentChildAbsent \<Rightarrow>
                  finish_transaction host dir tx rollback gaps (ca_target c) path shown c processResults
                    (results @ missingNetworkSessionLinkRoutes (rb_routes rollback) al @ gateResult @
                     missingLinkScopedRollbackResults rollback @ processResults)
              | rollbackLinkMatched \<Rightarrow>
                  finish_transaction host dir tx rollback gaps (ca_target c) path shown c processResults
                    (results @ processResults)))))))"

definition NetworkSessionCleanupMany :: "'w host \<Rightarrow> string \<Rightarrow> Candidate \<Rightarrow> ('w, CleanupResult list) rec_act" where
  "NetworkSessionCleanupMany host rawDir c =
     (let dir = runtime_dir rawDir; legacy = DaemonCleanupMany host dir c in
      if ca_kind c = ''nftables-table'' then one_result (inspectStandaloneNftablesCandidate host c)
      else case ca_transaction c of
        None \<Rightarrow> legacy
      | Some t \<Rightarrow>
          if ca_kind c \<noteq> ''transaction-state'' then legacy
          else if \<not> sameCleanPath (path_clean (tc_path t)) (ca_target c) \<or> \<not> isTransactionPath dir (path_clean (tc_path t))
          then legacy
          else
            bindp (load_transaction host (path_clean (tc_path t))) (\<lambda>loaded.
              case loaded of
                Inl e \<Rightarrow> legacy
              | Inr tx \<Rightarrow>
                  if \<not> RequiresRecovery tx then legacy
                  else case exactPersistedNetworkSessionAllocation tx of
                    None \<Rightarrow> legacy
                  | Some al \<Rightarrow> cleanupAllocatedNetworkSessionTransaction host dir c (tc_path t) tx al))"

definition NetworkSessionCleanup :: "'w host \<Rightarrow> string \<Rightarrow> Candidate \<Rightarrow> ('w, CleanupResult) rec_act" where
  "NetworkSessionCleanup host rawDir c =
     bindp (NetworkSessionCleanupMany host rawDir c) (\<lambda>rs. ret (summarize_results c rs))"

section \<open>A recovery\<close>

datatype 'w cleanup_executor =
    MissingExecutor
  | MultiExecutor "Candidate \<Rightarrow> ('w, CleanupResult list) rec_act"
  | SingleExecutor "Candidate \<Rightarrow> ('w, CleanupResult) rec_act"

fun execute_candidate :: "'w cleanup_executor \<Rightarrow> Candidate \<Rightarrow> ('w, CleanupResult list) rec_act" where
  "execute_candidate MissingExecutor c = ret_one (failed c ''missing daemon-owned recovery cleanup executor'')"
| "execute_candidate (MultiExecutor f) c = f c"
| "execute_candidate (SingleExecutor f) c = one_result (f c)"

text \<open>\<^verbatim>\<open>ExecuteWithOptions\<close> with the scanner of the operating system.\<close>

definition ExecuteWithOptions :: "'w host \<Rightarrow> string \<Rightarrow> 'w cleanup_executor \<Rightarrow> ('w, ExecuteResult) rec_act" where
  "ExecuteWithOptions host rawDir ex =
     bindp (OSScanner_Scan host rawDir) (\<lambda>plan.
     bindp (each_result (execute_candidate ex) (orderCleanupCandidates (scan_candidates plan))) (\<lambda>results.
       ret \<lparr>ex_results = results, ex_warnings = scan_warnings plan\<rparr>))"

end
