(* ===== verification/Recovery_Facts.thy ===== *)
theory Recovery_Facts
  imports Recovery_Daemon
begin

text \<open>
  What a recovery may do.  The first part is a specification of the actions that are within Podlaz's authority,
  whatever a transaction file claims: queries, and removals that name a resource Podlaz could have created.  The
  whole recovery, from the scan to the last cleanup, stays within it on every host.
\<close>

section \<open>Permitted actions\<close>

definition owned_table :: "string \<Rightarrow> bool" where
  "owned_table t = (t = managedRouteTableID \<or> IsAllocatedTunRoutingTable t)"

definition selector_words :: "string list \<Rightarrow> bool" where
  "selector_words ws =
     (\<exists>a b c. ws = option_arg ''from'' a @ option_arg ''to'' b @ option_arg ''fwmark'' c)"

text \<open>The object and the verb of an \<^verbatim>\<open>ip\<close> command, after its options.\<close>

definition ip_verb :: "string list \<Rightarrow> string" where
  "ip_verb args = (case dropWhile (starts ''-'') args of ob # verb # rest \<Rightarrow> verb | _ \<Rightarrow> [])"

inductive query :: "host_action \<Rightarrow> bool" where
  ip: "ip_verb args = ''show'' \<Longrightarrow> query (Ran ''ip'' args)"
| resolvectl: "query (Ran ''resolvectl'' (''status'' # args))"
| nft: "query (Ran ''nft'' (''list'' # args))"

inductive undo :: "string \<Rightarrow> host_action \<Rightarrow> bool" for dir where
  query: "query a \<Longrightarrow> undo dir a"
| revert: "undo dir (Ran ''resolvectl'' [''revert'', managedInterface])"
| link: "undo dir (Ran ''ip'' [''link'', ''del'', ''dev'', managedInterface])"
| address: "IsAllocatedTunIPv4CIDR cidr \<Longrightarrow>
    undo dir (Ran ''ip'' [''-4'', ''address'', ''del'', cidr, ''dev'', managedInterface])"
| rule: "owned_table t \<Longrightarrow> selector_words ws \<Longrightarrow>
    undo dir (Ran ''ip'' ([''-4'', ''rule'', ''del'', ''priority'', p] @ ws @ [''lookup'', t]))"
| bypass_rule: "is4_host_prefix d \<Longrightarrow>
    undo dir (Ran ''ip'' [''-4'', ''rule'', ''del'', ''priority'', p, ''to'', d, ''lookup'', MainRoutingTable])"
| mark_rule: "m \<noteq> 0 \<Longrightarrow>
    undo dir (Ran ''ip'' [''-4'', ''rule'', ''del'', ''priority'', p, ''fwmark'', itoa m, ''lookup'', MainRoutingTable])"
| route: "owned_table t \<Longrightarrow> ws \<in> {[], [''dev'', managedInterface]} \<Longrightarrow>
    undo dir (Ran ''ip'' ([''-4'', ''route'', ''del'', d] @ option_arg ''via'' v @ ws @ [''table'', t]))"
| bypass_route: "is4_host_prefix d \<Longrightarrow>
    undo dir (Ran ''ip'' ([''-4'', ''route'', ''del'', d] @ option_arg ''via'' v @ [''dev'', i, ''table'', MainRoutingTable]))"
| config: "isUnderDir (generated_dir dir) p \<Longrightarrow> undo dir (RemovedAll p)"
| config_root: "undo dir (RemovedFile (path_join [path_clean dir, ''generated'']))"
| firewall: "firewallFamilyTable plan = (''inet'', ''podlaz'') \<Longrightarrow> undo dir (RolledBackTable plan)"

text \<open>Besides undoing, a recovery removes the file of a transaction.\<close>

definition permitted :: "string \<Rightarrow> host_action \<Rightarrow> bool" where
  "permitted dir a = (undo dir a \<or> (\<exists>p. a = RemovedFile p \<and> isTransactionPath dir p))"

lemma query_commands [intro, simp]:
  "query (Ran ''ip'' [''link'', ''show'', ''dev'', i])"
  "query (Ran ''ip'' [''-details'', ''-o'', ''link'', ''show'', ''dev'', i])"
  "query (Ran ''ip'' [''-4'', ''-o'', ''address'', ''show'', ''dev'', i])"
  "query (Ran ''ip'' [''-4'', ''route'', ''show'', ''table'', t, d])"
  "query (Ran ''ip'' [''-4'', ''rule'', ''show'', ''priority'', p])"
  "query (Ran ''resolvectl'' [''status'', i, x])"
  "query (Ran ''nft'' [''list'', ''table'', f, t])"
  by (auto intro!: query.intros simp: ip_verb_def starts_def)

section \<open>Programs and their actions\<close>

text \<open>Rules for the programs of the two executors, whatever is asked of the actions.\<close>

lemma only_result_of [only]: "acts_only A m \<Longrightarrow> acts_only A (result_of c m)"
  unfolding result_of_def by (intro only)

lemma only_one_result [only]: "acts_only A m \<Longrightarrow> acts_only A (one_result m)"
  unfolding one_result_def by (intro only)

lemma only_each_result: "(\<And>x. x \<in> set xs \<Longrightarrow> acts_only A (f x)) \<Longrightarrow> acts_only A (each_result f xs)"
  by (induction xs) (simp_all add: only)

lemma only_run_all: "(\<And>m. m \<in> set ms \<Longrightarrow> acts_only A m) \<Longrightarrow> acts_only A (run_all ms)"
  by (induction ms) (simp_all add: only)

lemma only_until_blocked: "(\<And>x. x \<in> set xs \<Longrightarrow> acts_only A (f x)) \<Longrightarrow> acts_only A (until_blocked f xs)"
  by (induction xs) (simp_all add: only)

lemma only_run_until_blocked: "(\<And>m. m \<in> set ms \<Longrightarrow> acts_only A m) \<Longrightarrow> acts_only A (run_until_blocked ms)"
  by (induction ms) (auto intro!: only split: prod.splits)

lemma only_on_nft [only]: "acts_only A (on_nft host f)"
  unfolding acts_only_def by (rule actsI) (auto simp: on_nft_def split: prod.splits)

lemma only_rollback_table [only]: "A (RolledBackTable plan) \<Longrightarrow> acts_only A (rollback_table host plan)"
  unfolding acts_only_def
  by (rule actsI) (auto simp: rollback_table_def on_nft_def split: prod.splits)

lemma only_look_path [only]: "acts_only A (look_path host n)"
  unfolding look_path_def by (intro only)

lemma only_load [only]: "acts_only A (load_transaction host p)"
  unfolding load_transaction_def by (intro only)

lemma only_runResult [only]: "A (Ran name args) \<Longrightarrow> acts_only A (runResult host name args)"
  unfolding runResult_def by (auto intro!: only split: sum.splits)

lemma only_run_text [only]: "A (Ran name args) \<Longrightarrow> acts_only A (run_text host name args)"
  unfolding run_text_def by (intro only)

lemma only_run_delete [only]: "A (Ran ''ip'' args) \<Longrightarrow> acts_only A (run_delete host args t)"
  unfolding run_delete_def by (auto intro!: only split: sum.splits)

lemma only_exact_delete [only]: "A (Ran ''ip'' args) \<Longrightarrow> acts_only A (exact_delete host c args)"
  unfolding exact_delete_def by (intro only)

lemma only_file_removal [only]: "A a \<Longrightarrow> acts_only A (file_removal a f t)"
  unfolding file_removal_def by (auto intro!: only split: option.splits file_error.splits)

lemma only_child_processes [only]: "acts_only A (rollbackChildProcessResults host ps)"
  unfolding rollbackChildProcessResults_def child_process_result_def Let_def
  by (intro only only_each_result)


section \<open>Every rollback is undo\<close>

lemma owned_managed_token: "managedTableToken t = Some u \<Longrightarrow> owned_table u"
  by (auto simp: managedTableToken_def owned_table_def split: if_splits)

lemma undo_dns [only]: "acts_only (undo dir) (rollbackDNS host d)"
  unfolding rollbackDNS_def by (intro only undo.revert)

lemma undo_rule [only]: "acts_only (undo dir) (rollbackPolicyRule host r)"
proof (cases "managedTableToken (pr_table r)")
  case (Some t)
  have "undo dir (Ran ''ip'' (rule_delete_args r t))"
    using undo.rule [OF owned_managed_token [OF Some], where ws = "option_arg ''from'' (pr_from r) @ option_arg ''to'' (pr_to r) @ option_arg ''fwmark'' (pr_mark r)"]
    by (simp add: rule_delete_args_def selector_words_def) blast
  then show ?thesis unfolding rollbackPolicyRule_def Some by (simp add: only)
qed (simp add: rollbackPolicyRule_def only)

lemma undo_route [only]: "acts_only (undo dir) (rollbackRoute host r)"
proof (cases "managedTableToken (rr_table r)")
  case (Some t)
  have "undo dir (Ran ''ip'' (route_delete_args r t))"
    if "trim_space (rr_dev r) = [] \<or> rr_dev r = managedInterface"
    using that undo.route [OF owned_managed_token [OF Some], where ws = "if trim_space (rr_dev r) \<noteq> [] then [''dev'', rr_dev r] else []"]
    by (auto simp: route_delete_args_def)
  then show ?thesis unfolding rollbackRoute_def Some by (auto intro!: only)
qed (simp add: rollbackRoute_def only)

lemma undo_bypass_rule [only]: "acts_only (undo dir) (rollbackMainServerBypassPolicyRule host r)"
proof -
  have "undo dir (Ran ''ip'' [''-4'', ''rule'', ''del'', ''priority'', itoa_int (pr_priority r), ''to'', trim_space (pr_to r),
      ''lookup'', MainRoutingTable])" if "safeMainServerBypassPolicyRule r"
    using that by (intro undo.bypass_rule)
      (simp add: safeMainServerBypassPolicyRule_def split: if_splits)
  then show ?thesis unfolding rollbackMainServerBypassPolicyRule_def by (auto intro!: only)
qed

lemma undo_bypass_route [only]: "acts_only (undo dir) (rollbackMainServerBypassRoute host r)"
proof -
  have "undo dir (Ran ''ip'' [''-4'', ''route'', ''del'', trim_space (rr_cidr r), ''via'', trim_space (rr_via r),
      ''dev'', trim_space (rr_dev r), ''table'', MainRoutingTable])" if "safeMainServerBypassRoute r"
    using that undo.bypass_route [of "trim_space (rr_cidr r)" dir "rr_via r" "trim_space (rr_dev r)"]
    by (simp add: safeMainServerBypassRoute_def option_arg_def)
  then show ?thesis unfolding rollbackMainServerBypassRoute_def Let_def by (auto intro!: only)
qed

lemma undo_tun [only]: "acts_only (undo dir) (rollbackTUN host t)"
  unfolding rollbackTUN_def by (intro only undo.link)

lemma undo_config [only]: "acts_only (undo dir) (removeGeneratedConfig host dir g)"
  unfolding removeGeneratedConfig_def Let_def by (auto intro!: only undo.config)

lemma undo_config_root [only]: "acts_only (undo dir) (removeEmptyGeneratedRoot host dir)"
  unfolding removeEmptyGeneratedRoot_def Let_def
  by (auto intro!: only undo.config_root split: sum.splits file_error.splits option.splits list.splits)

lemma undo_fence [only]: "acts_only (undo dir) (verifyBoundIdentityFence host plan t b)"
  unfolding verifyBoundIdentityFence_def inspectIdentity_def by (intro only undo.query query_commands)

lemma undo_inspect_addresses [only]: "acts_only (undo dir) (inspectAddresses host i)"
  unfolding inspectAddresses_def by (intro only undo.query query_commands)

lemma undo_presence [only]: "acts_only (undo dir) (verifyAddressPresence host plan n t)"
  unfolding verifyAddressPresence_def by (auto intro!: only split: prod.splits)

lemma undo_address [only]:
  assumes "IsAllocatedTunIPv4CIDR (tap_cidr plan)" and "tap_interface plan = managedInterface"
  shows "acts_only (undo dir) (TunAddress_Rollback host plan)"
  unfolding TunAddress_Rollback_def Let_def
  by (auto intro!: only undo.address [OF assms(1), folded assms(2)] split: sum.splits)


lemma parse_prefix_text: "n \<le> 32 \<Longrightarrow> parse_prefix (prefix_text (IP4 w) n) = Some (Prefix (IP4 w) n)"
proof -
  assume n: "n \<le> 32"
  have "CHR ''/'' \<notin> set (ip4_text w)" using ip4_text_chars [of "CHR ''/''" w] by (auto simp: is_digit_def)
  moreover have "CHR ''/'' \<notin> set (itoa n)" by (rule itoa_no_dot) (simp add: is_digit_def)
  ultimately have "split_on CHR ''/'' (join ''/'' [ip4_text w, itoa n]) = [ip4_text w, itoa n]"
    by (intro split_on_join) auto
  then have s: "split_on CHR ''/'' (prefix_text (IP4 w) n) = [ip4_text w, itoa n]"
    by (simp add: prefix_text_def ip_text_def)
  have "49 \<le> byte (hd (itoa n)) \<and> byte (hd (itoa n)) \<le> 57" if "1 < length (itoa n)"
  proof -
    have "byte (hd (itoa n)) \<noteq> byte CHR ''0''" using itoa_hd_zero [OF that] by (simp only: of_char_eq_iff not_False_eq_True)
    with itoa_hd_digit [of n] show ?thesis by (simp add: is_digit_def)
  qed
  then show ?thesis
    using n by (auto simp: parse_prefix_def s parse_addr_ip4_text atoi_itoa max_bits_def Let_def)
qed

lemma prefix_text_plain [simp]: "plain (prefix_text (IP4 w) n)"
  using ip4_text_plain [of w] itoa_plain [of n] by (simp add: prefix_text_def ip_text_def plain_def)

lemma valid_address_allocated:
  assumes "validateTunAddressRollback a = None"
  shows "IsAllocatedTunIPv4CIDR (tar_cidr a)" "tar_interface_name a = managedInterface"
proof -
  from assms have "case parse_prefix (trim_space (tar_cidr a)) of
      Some (Prefix (IP4 w) n) \<Rightarrow> n = 32 \<and> IsAllocatedTunIPv4CIDR (prefix_text (IP4 w) n) | _ \<Rightarrow> False"
    by (simp add: validateTunAddressRollback_def split: if_splits)
  then obtain w where "parse_prefix (trim_space (tar_cidr a)) = Some (Prefix (IP4 w) 32)"
    and "IsAllocatedTunIPv4CIDR (prefix_text (IP4 w) 32)"
    by (auto split: option.splits prefix.splits addr.splits)
  then show "IsAllocatedTunIPv4CIDR (tar_cidr a)"
    by (simp add: IsAllocatedTunIPv4CIDR_def parse_prefix_text)
  show "tar_interface_name a = managedInterface"
    using assms by (simp add: validateTunAddressRollback_def split: if_splits)
qed

lemma scan_keeps_table:
  "scan_policy_steps ss st = Some st' \<Longrightarrow> psa_table (sc_allocation st') = psa_table (sc_allocation st)"
proof (induction ss arbitrary: st)
  case (Cons s ss)
  have "psa_table (sc_allocation st1) = psa_table (sc_allocation st)" if "scan_policy_step s st = Some st1" for st1
    using that by (simp add: scan_policy_step_def Let_def split: if_splits option.splits prod.splits) auto
  with Cons show ?case by (auto simp: Option.bind_eq_Some_conv)
qed simp

lemma allocation_table_owned:
  assumes "exactPersistedNetworkSessionAllocation tx = Some al"
  shows "owned_table (psa_table al)"
proof -
  let ?rs = "filter session_default_route (pl_routes (tx_desired_plan tx))"
  from assms have one: "length ?rs = 1" and "psa_table al = trim_space (rp_table (last ?rs))"
    by (auto simp: exactPersistedNetworkSessionAllocation_def Let_def dest!: scan_keeps_table split: if_splits option.splits)
  moreover from one have "last ?rs \<in> set ?rs" by (intro last_in_set) auto
  then have "IsAllocatedTunRoutingTable (rp_table (last ?rs))"
    by (simp add: session_default_route_def)
  ultimately show ?thesis by (simp add: owned_table_def IsAllocatedTunRoutingTable_def)
qed

lemma session_rule_permitted:
  assumes "owned_table (psa_table al)" and "exactNetworkSessionPolicyRuleDeleteArgs r al = Some args"
  shows "undo dir (Ran ''ip'' args)"
proof -
  have tunnel: "undo dir (Ran ''ip'' [''-4'', ''rule'', ''del'', ''priority'', p, ''from'', ''all'', ''lookup'', psa_table al])" for p
  proof -
    have "selector_words [''from'', ''all'']"
      unfolding selector_words_def option_arg_def
      by (rule exI [of _ "''all''"], rule exI [of _ "[]"], rule exI [of _ "[]"]) (simp add: plain_def)
    from undo.rule [OF assms(1) this, of dir p] show ?thesis by simp
  qed
  from assms(2) show ?thesis
    unfolding exactNetworkSessionPolicyRuleDeleteArgs_def Let_def
    by (auto intro!: tunnel undo.mark_rule undo.bypass_rule simp: parse_prefix_text is4_host_prefix_def
        intro: Nat.gr0I split: if_splits option.splits prefix.splits addr.splits)
qed

lemma session_route_permitted:
  assumes "owned_table (psa_table al)" and "exactNetworkSessionRouteDeleteArgs r al = Some args"
  shows "undo dir (Ran ''ip'' args)"
proof -
  have tunnel: "undo dir (Ran ''ip'' [''-4'', ''route'', ''del'', d, ''dev'', managedInterface, ''table'', psa_table al])" for d
    using undo.route [OF assms(1), of "[''dev'', managedInterface]" dir d "[]"] by (simp add: option_arg_def)
  have bypass: "undo dir (Ran ''ip'' ([''-4'', ''route'', ''del'', prefix_text (IP4 w) 32] @
      (if trim_space v \<noteq> [] then [''via'', trim_space v] else []) @ [''dev'', i, ''table'', MainRoutingTable]))" for w v i
    using undo.bypass_route [of "prefix_text (IP4 w) 32" dir v i] by (auto simp: option_arg_def parse_prefix_text is4_host_prefix_def)
  from assms(2) show ?thesis
    unfolding exactNetworkSessionRouteDeleteArgs_def Let_def
    using tunnel bypass [of _ "rr_via r" "trim_space (rr_dev r)"]
    by (auto split: if_splits option.splits prefix.splits addr.splits)
qed


section \<open>Every phase is undo\<close>

lemma exact_plan_target:
  assumes "exactNftablesRollbackPlan tx entry = Inr plan"
  shows "firewallFamilyTable plan = (''inet'', ''podlaz'')"
  using assms
  by (auto simp: exactNftablesRollbackPlan_def Let_def isManagedNFTTarget_def firewallFamilyTable_def rbind_def
      split: if_splits sum.splits prod.splits)

lemma undo_nft [only]: "acts_only (undo dir) (rollbackNFTablesResults host tx entries)"
proof -
  have "acts_only (undo dir) (nft_results host tx seen entries)" for seen
  proof (induction entries arbitrary: seen)
    case (Cons entry es)
    show ?case
      by (auto simp: Let_def intro!: only Cons.IH undo.firewall exact_plan_target split: sum.splits)
  qed (simp add: only)
  then show ?thesis by (simp add: rollbackNFTablesResults_def)
qed

lemma undo_dns_results [only]: "acts_only (undo dir) (rollbackDNSResults host es)"
  unfolding rollbackDNSResults_def by (intro only_each_result only)

lemma undo_rule_results [only]: "acts_only (undo dir) (rollbackPolicyRuleResults host rs)"
  unfolding rollbackPolicyRuleResults_def by (intro only_each_result only)

lemma undo_route_results [only]: "acts_only (undo dir) (rollbackRouteResults host rs)"
  unfolding rollbackRouteResults_def route_result_def Let_def by (intro only_each_result only)

lemma undo_independent_routes [only]: "acts_only (undo dir) (rollbackIndependentRouteResults host rs)"
  unfolding rollbackIndependentRouteResults_def by (intro only_each_result only)

lemma undo_tun_results [only]: "acts_only (undo dir) (rollbackTUNResults host es)"
  unfolding rollbackTUNResults_def by (intro only_each_result only)

lemma undo_config_results [only]: "acts_only (undo dir) (rollbackGeneratedConfigResults host dir gs)"
  unfolding rollbackGeneratedConfigResults_def by (auto intro!: only_each_result only split: option.splits)

lemma undo_address_results [only]: "acts_only (undo dir) (rollbackTUNAddressResults host es b)"
  unfolding rollbackTUNAddressResults_def Let_def
  by (auto intro!: only_each_result only simp: address_rollback_plan_def valid_address_allocated split: option.splits)

lemma only_unrecorded:
  assumes "\<And>a. query a \<Longrightarrow> A a"
  shows "acts_only A (inspectUnrecordedDesiredMainState host tx)"
proof -
  have "acts_only A (inspect_main host c what args)" if "query (Ran ''ip'' args)" for c what args
    unfolding inspect_main_def using assms [OF that] by (auto intro!: only split: sum.splits)
  then have "acts_only A (inspectDesiredMainRoute host p)"
    "acts_only A (inspectDesiredMainPolicyRule host r)" for p r
    by (simp_all add: inspectDesiredMainRoute_def inspectDesiredMainPolicyRule_def)
  then show ?thesis
    unfolding inspectUnrecordedDesiredMainState_def
    by (intro only_run_all) (auto intro!: only_each_result only)
qed

lemmas undo_unrecorded [only] = only_unrecorded [of "undo dir" for dir, OF undo.query]

lemma undo_gate [only]: "acts_only (undo dir) (link_gate host rb i b)"
  unfolding link_gate_def Let_def by (auto intro!: only undo.query split: option.splits)

lemma undo_gates [only]:
  "acts_only (undo dir) (rollbackLinkIdentityGate host rb ap b)"
  "acts_only (undo dir) (networkSessionRollbackLinkIdentityGate host rb ap b)"
  by (simp_all add: rollbackLinkIdentityGate_def networkSessionRollbackLinkIdentityGate_def undo_gate)

lemma undo_blocked [only]: "acts_only (undo dir) (blocked_results host dir tx rb c g ps)"
  unfolding blocked_results_def by (intro only_run_all) (auto intro: only)

lemma undo_resolved [only]: "acts_only (undo dir) (cleanupManagedResolvedLink host c)"
proof -
  have "acts_only (undo dir) (verify_reverted host p c)" for p
    unfolding verify_reverted_def by (intro only undo.query query_commands)
  then have "acts_only (undo dir) (revert_resolved host c)"
    unfolding revert_resolved_def by (auto intro!: only undo.revert split: sum.splits)
  then show ?thesis
    unfolding cleanupManagedResolvedLink_def by (auto intro!: only undo.query split: sum.splits)
qed

lemma isUnderDir_refl: "isUnderDir d d"
  by (simp add: isUnderDir_def)

lemma undo_generated [only]: "acts_only (undo dir) (cleanupGeneratedRuntimeConfigs host dir c)"
  unfolding cleanupGeneratedRuntimeConfigs_def Let_def by (intro only undo.config isUnderDir_refl)


section \<open>How a cleanup ends\<close>

text \<open>The results end with the verdict on the candidate.  Either nothing but undoing happened, or the last action
  removed the transaction file, and then every result before the verdict is a success.\<close>

definition removable :: "string \<Rightarrow> Candidate \<Rightarrow> string \<Rightarrow> bool" where
  "removable dir c p =
     (isTransactionPath dir p \<and> (case ca_transaction c of None \<Rightarrow> False | Some t \<Rightarrow> p = path_clean (tc_path t)))"

definition closing :: "string \<Rightarrow> Candidate \<Rightarrow> host_action list \<Rightarrow> CleanupResult list \<Rightarrow> bool" where
  "closing dir c tr rs \<longleftrightarrow>
     rs \<noteq> [] \<and> cl_candidate (last rs) = c \<and>
     (list_all (undo dir) tr \<or>
      (\<exists>tr' p. tr = tr' @ [RemovedFile p] \<and> list_all (undo dir) tr' \<and> removable dir c p \<and>
         (\<forall>r\<in>set (butlast rs). cl_status r = Recovered)))"

definition closes :: "string \<Rightarrow> Candidate \<Rightarrow> ('w, CleanupResult list) rec_act \<Rightarrow> bool" where
  "closes dir c m = acts (\<lambda>tr r. \<forall>rs. r = Inr rs \<longrightarrow> closing dir c tr rs) m"

definition ends :: "string \<Rightarrow> Candidate \<Rightarrow> ('w, CleanupResult list) rec_act \<Rightarrow> bool" where
  "ends dir c m = acts (\<lambda>tr r. list_all (undo dir) tr \<and> (\<forall>rs. r = Inr rs \<longrightarrow> rs \<noteq> [] \<and> cl_candidate (last rs) = c)) m"

lemma closing_prepend: "list_all (undo dir) tr \<Longrightarrow> closing dir c tr' rs \<Longrightarrow> closing dir c (tr @ tr') rs"
  unfolding closing_def by (metis append_assoc list_all_append)

lemma ends_closes: "ends dir c m \<Longrightarrow> closes dir c m"
  unfolding ends_def closes_def closing_def by (erule acts_mono) blast

lemma closes_bind: "acts_only (undo dir) m \<Longrightarrow> (\<And>x. closes dir c (f x)) \<Longrightarrow> closes dir c (bindp m f)"
  unfolding acts_only_def closes_def by (erule acts_bind, assumption) (auto intro: closing_prepend)

lemma ends_bind: "acts_only (undo dir) m \<Longrightarrow> (\<And>x. ends dir c (f x)) \<Longrightarrow> ends dir c (bindp m f)"
  unfolding acts_only_def ends_def by (erule acts_bind, assumption) auto

lemma ends_ret: "rs \<noteq> [] \<Longrightarrow> cl_candidate (last rs) = c \<Longrightarrow> ends dir c (ret rs)"
  unfolding ends_def by (rule acts_ret) simp

lemma ends_append: "ends dir c m \<Longrightarrow> ends dir c (bindp m (\<lambda>rest. ret (rs @ rest)))"
  unfolding ends_def
  by (erule acts_bind [where Q = "\<lambda>x tr r. tr = [] \<and> r = Inr (rs @ x)"]) (auto intro: acts_ret)

lemma bindp_ret: "bindp (ret x) f = f x"
  by (rule ext) (simp add: bindp_def ret_def)

lemma ends_run_all:
  "(\<And>m. m \<in> set ms \<Longrightarrow> acts_only (undo dir) m) \<Longrightarrow> ends dir c e \<Longrightarrow> ends dir c (run_all (ms @ [e]))"
proof (induction ms)
  case Nil
  then show ?case
    using ends_append [of dir c e "[]"] by (simp add: bindp_ret)
next
  case (Cons m ms)
  then have "acts_only (undo dir) m" "ends dir c (run_all (ms @ [e]))" by simp_all
  then show ?case by (simp add: ends_bind ends_append)
qed

lemma closes_if: "closes dir c m \<Longrightarrow> closes dir c m' \<Longrightarrow> closes dir c (if b then m else m')"
  by simp

lemma result_candidates [simp]:
  "cl_candidate (recovered c) = c" "cl_candidate (skipped c t) = c" "cl_candidate (failed c t) = c"
  "cl_candidate (recoveredWithMessage c t) = c"
  by (simp_all add: result_defs)

lemma ends_one_result: "acts_only (undo dir) m \<Longrightarrow> ends dir c (one_result (result_of c m))"
  unfolding one_result_def result_of_def tryp_def bindp_def ends_def acts_only_def
  by (rule actsI) (auto simp: split: prod.splits sum.splits dest!: actsD)

lemma closes_remove:
  assumes "removable dir c path"
  shows "closes dir c (remove_transaction host path shown c results)"
proof -
  let ?m = "result_of c (file_removal (RemovedFile path) (ho_remove host path) (''remove transaction state '' @ shown))"
  have removed: "acts (\<lambda>tr r. tr = [RemovedFile path] \<and> (\<forall>x. r = Inr x \<longrightarrow> cl_candidate x = c)) ?m"
    by (rule actsI)
      (auto simp: result_of_def file_removal_def tryp_def host_act_def bindp_def ret_def fail_def
        split: prod.splits sum.splits option.splits file_error.splits)
  have all: "cl_status r = Recovered" if "\<not> hasFailedCleanup results" "\<not> hasSkippedCleanup results" "r \<in> set results" for r
    using that by (cases "cl_status r") (auto simp: hasFailedCleanup_def hasSkippedCleanup_def list_ex_iff)
  have "closes dir c (bindp ?m (\<lambda>r. ret (results @ [r])))"
    if "\<not> hasFailedCleanup results" "\<not> hasSkippedCleanup results"
    unfolding closes_def
    using assms all [OF that]
    by (intro acts_bind [OF removed, where Q = "\<lambda>x tr r. tr = [] \<and> r = Inr (results @ [x])"])
      (auto intro: acts_ret simp: closing_def)
  then show ?thesis
    unfolding remove_transaction_def by (auto intro!: closes_if ends_closes ends_ret)
qed

lemma closes_finish:
  assumes "removable dir c path"
  shows "closes dir c (finish_transaction host dir tx rb gaps t path shown c ps rs)"
proof -
  have "acts_only (undo dir) (config_results host dir rb gaps ps)"
    unfolding config_results_def by (intro only)
  then have "acts_only (undo dir) (run_all [ret (gap_results gaps t), config_results host dir rb gaps ps,
      inspectUnrecordedDesiredMainState host tx])"
    by (intro only_run_all) (auto intro: only)
  then show ?thesis unfolding finish_transaction_def by (rule closes_bind) (rule closes_remove [OF assms])
qed

lemma ends_blocked: "ends dir c (blocked_results host dir tx rb c g ps)"
proof -
  let ?f = "failed c ''transaction cleanup failed link identity proof; transaction state was preserved''"
  have "ends dir c (run_all ([ret (g @ failLinkScopedRollbackResults rb @ ps @
      preserveGeneratedConfigResults dir (rb_generated_configs rb)), inspectUnrecordedDesiredMainState host tx] @ [ret_one ?f]))"
    by (rule ends_run_all) (auto intro: only ends_ret)
  then show ?thesis by (simp add: blocked_results_def)
qed

lemma closes_rollback_transaction:
  assumes "removable dir c path"
  shows "closes dir c (rollback_transaction host dir c path tx)"
proof -
  let ?rb = "recoveryRollbackMetadata (ho_quote host) tx"
  have blocked: "ends dir c (run_all [rollbackNFTablesResults host tx (rb_nftables ?rb),
      rollbackPolicyRuleResults host (rb_policy_rules ?rb), rollbackIndependentRouteResults host (rb_routes ?rb),
      blocked_results host dir tx ?rb c g ps])" for g ps
  proof -
    have "ends dir c (run_all ([rollbackNFTablesResults host tx (rb_nftables ?rb),
        rollbackPolicyRuleResults host (rb_policy_rules ?rb), rollbackIndependentRouteResults host (rb_routes ?rb)] @
        [blocked_results host dir tx ?rb c g ps]))"
      by (rule ends_run_all [OF _ ends_blocked]) (auto intro: only)
    then show ?thesis by (simp only: append.simps)
  qed
  show ?thesis
    unfolding rollback_transaction_def Let_def
    by (auto intro!: closes_bind ends_closes [OF blocked] closes_finish assms only only_run_all
        simp del: run_all.simps split: prod.splits rollbackLinkDecision.splits)
qed

lemma closes_transaction_state: "closes dir c (cleanupTransactionState host dir c)"
  unfolding cleanupTransactionState_def Let_def
  by (auto intro!: closes_bind closes_if ends_closes [OF ends_ret] closes_rollback_transaction only
      simp: removable_def split: option.splits sum.splits)


text \<open>\<open>vals P m\<close>: a result of the program satisfies \<open>P\<close>.\<close>

definition vals :: "('a \<Rightarrow> bool) \<Rightarrow> ('s, 'e, 'a) prog \<Rightarrow> bool" where
  "vals P m \<longleftrightarrow> (\<forall>s s' x. m s = (s', Inr x) \<longrightarrow> P x)"

lemma vals_bind: "(\<And>x. vals P (f x)) \<Longrightarrow> vals P (bindp m f)"
  by (auto simp: vals_def bindp_Inr)

lemma vals_ret: "P x \<Longrightarrow> vals P (ret x)"
  by (simp add: vals_def)

lemma vals_if: "vals P m \<Longrightarrow> vals P m' \<Longrightarrow> vals P (if b then m else m')"
  by simp

lemma closes_of_one: "acts_only (undo dir) m \<Longrightarrow> vals (\<lambda>x. cl_candidate x = c) m \<Longrightarrow> closes dir c (one_result m)"
  unfolding one_result_def bindp_def closes_def acts_only_def closing_def vals_def
  by (rule actsI) (auto split: prod.splits sum.splits dest!: actsD)

lemma candidate_of_result: "vals (\<lambda>x. cl_candidate x = c) (result_of c m)"
  unfolding result_of_def by (intro vals_bind vals_ret) (simp split: sum.splits)

lemma candidate_of_resolved: "vals (\<lambda>x. cl_candidate x = c) (cleanupManagedResolvedLink host c)"
  unfolding cleanupManagedResolvedLink_def revert_resolved_def verify_reverted_def
  by (auto intro!: vals_if vals_bind vals_ret split: sum.splits resolvedLinkObservation.splits)

lemma candidate_of_generated: "vals (\<lambda>x. cl_candidate x = c) (cleanupGeneratedRuntimeConfigs host dir c)"
  unfolding cleanupGeneratedRuntimeConfigs_def Let_def by (intro vals_if vals_ret candidate_of_result) simp

lemma candidate_of_nft: "vals (\<lambda>x. cl_candidate x = c) (inspectStandaloneNftablesCandidate host c)"
  unfolding inspectStandaloneNftablesCandidate_def
  by (auto intro!: vals_if vals_bind vals_ret split: sum.splits option.splits prod.splits)

lemma closes_daemon: "closes (runtime_dir rawDir) c (DaemonCleanupMany host rawDir c)"
proof -
  have "cl_candidate (cleanupTUNInterface c) = c" by (simp add: cleanupTUNInterface_def)
  then show ?thesis
    unfolding DaemonCleanupMany_def Let_def
    by (intro closes_if ends_closes [OF ends_ret] closes_of_one closes_transaction_state only)
      (simp_all add: candidate_of_resolved candidate_of_generated)
qed


section \<open>The session executor\<close>

lemma undo_session_rules:
  "owned_table (psa_table al) \<Longrightarrow> acts_only (undo dir) (rollbackNetworkSessionPolicyRules host rs al)"
  unfolding rollbackNetworkSessionPolicyRules_def session_rule_result_def
  by (auto intro!: only_until_blocked only session_rule_permitted split: option.splits)

lemma undo_session_route:
  "owned_table (psa_table al) \<Longrightarrow> acts_only (undo dir) (rollbackNetworkSessionRoute host al r)"
  unfolding rollbackNetworkSessionRoute_def by (auto intro!: only session_route_permitted split: option.splits)

lemma undo_session_routes:
  "owned_table (psa_table al) \<Longrightarrow> acts_only (undo dir) (rollbackNetworkSessionRoutes host rs al)"
  "owned_table (psa_table al) \<Longrightarrow> acts_only (undo dir) (rollbackNetworkSessionIndependentRoutes host rs al)"
  unfolding rollbackNetworkSessionRoutes_def rollbackNetworkSessionIndependentRoutes_def
  by (simp_all add: only_until_blocked undo_session_route)

lemma undo_session_phases:
  assumes "owned_table (psa_table al)" and "m \<in> set (session_phases host tx rb al b d)"
  shows "acts_only (undo dir) m"
  using assms(2) undo_session_rules [OF assms(1)] undo_session_routes [OF assms(1)]
  by (cases d) (auto simp: session_phases_def intro: only)

lemma ends_stop: "ends dir c (stop_at_blocker host dir tx rb c ps rs)"
  unfolding stop_at_blocker_def Let_def by (intro ends_bind only ends_ret) simp_all

lemma closes_session_transaction:
  assumes "owned_table (psa_table al)" and "removable dir c (path_clean shown)"
  shows "closes dir c (cleanupAllocatedNetworkSessionTransaction host dir c shown tx al)"
  unfolding cleanupAllocatedNetworkSessionTransaction_def Let_def
  by (auto intro!: closes_bind only only_run_until_blocked undo_session_phases [OF assms(1)] closes_if
      ends_closes [OF ends_stop] ends_closes [OF ends_append [OF ends_blocked]] closes_finish assms(2)
      simp del: run_until_blocked.simps split: prod.splits rollbackLinkDecision.splits)

text \<open>The executor applies the default of the runtime directory twice.\<close>

definition absolute_or_default :: "string \<Rightarrow> bool" where
  "absolute_or_default rawDir = (rooted rawDir \<or> trim_space rawDir = [])"

lemma strip_seqs_keeps: "\<forall>w\<in>set seqs. c \<notin> set w \<Longrightarrow> c \<in> set s \<Longrightarrow> c \<in> set (strip_seqs seqs s)"
proof (induction seqs s rule: strip_seqs.induct)
  case (1 seqs s)
  show ?case
  proof (cases "space_match seqs s")
    case None
    with 1 show ?thesis by (simp add: strip_seqs_no_match)
  next
    case (Some w)
    then have w: "w \<in> set seqs" "prefix w s" by (auto simp: space_match_def find_Some_iff)
    then obtain t where t: "s = w @ t" by (auto simp: prefix_def)
    with 1(2,3) w have "c \<in> set t" by auto
    with 1 Some t show ?thesis
      by (cases w) (auto simp: strip_seqs.simps [of seqs t] strip_seqs.simps [of seqs "a # v @ t" for a v])
  qed
qed

lemma trim_nonblank: "c \<in> set s \<Longrightarrow> \<not> blank c \<Longrightarrow> trim_space s \<noteq> []"
proof -
  assume c: "c \<in> set s" "\<not> blank c"
  have "list_all (list_all blank) space_seqs" by (simp add: space_seqs_def blank_def)
  then have "\<forall>w\<in>set space_seqs. c \<notin> set w" "\<forall>w\<in>set (map rev space_seqs). c \<notin> set w"
    using c(2) by (auto simp: list_all_iff)
  then have "c \<in> set (trim_space s)"
    using c(1) by (simp only: trim_space_def trim_left_def trim_right_def set_rev strip_seqs_keeps)
  then show ?thesis by auto
qed

lemma trim_rooted: "rooted p \<Longrightarrow> trim_space p \<noteq> []"
  by (rule trim_nonblank [of "CHR ''/''"]) (auto simp: rooted_def prefix_def blank_def)

lemma path_clean_rooted: "rooted p \<Longrightarrow> rooted (path_clean p)"
  by (simp add: path_clean_def rooted_def)

lemma path_clean_idem: "rooted p \<Longrightarrow> path_clean (path_clean p) = path_clean p"
  using path_comps_clean [of p] path_clean_rooted [of p] by (simp add: path_clean_def)

lemma runtime_dir_idem: "absolute_or_default rawDir \<Longrightarrow> runtime_dir (runtime_dir rawDir) = runtime_dir rawDir"
proof -
  assume a: "absolute_or_default rawDir"
  have r: "rooted ''/run/podlaz''" by (simp add: rooted_def)
  from a have "rooted (if trim_space rawDir = [] then ''/run/podlaz'' else rawDir)"
    using r by (auto simp: absolute_or_default_def)
  then show ?thesis
    unfolding runtime_dir_def by (simp add: path_clean_idem path_clean_rooted trim_rooted)
qed

lemma undo_standalone: "acts_only (undo dir) (inspectStandaloneNftablesCandidate host c)"
  unfolding inspectStandaloneNftablesCandidate_def by (auto intro!: only split: option.splits prod.splits)

lemma closes_session:
  assumes "absolute_or_default rawDir"
  shows "closes (runtime_dir rawDir) c (NetworkSessionCleanupMany host rawDir c)"
proof -
  have legacy: "closes (runtime_dir rawDir) c (DaemonCleanupMany host (runtime_dir rawDir) c)"
    using closes_daemon [of "runtime_dir rawDir" c host] by (simp add: runtime_dir_idem [OF assms])
  show ?thesis
    unfolding NetworkSessionCleanupMany_def Let_def
    by (auto intro!: closes_bind closes_if legacy closes_of_one candidate_of_nft undo_standalone only
        closes_session_transaction simp: allocation_table_owned removable_def split: option.splits sum.splits)
qed


section \<open>Every cleanup returns\<close>

named_theorems total \<open>programs that always return\<close>

definition returns :: "('s, 'e, 'a) prog \<Rightarrow> bool" where
  "returns m \<longleftrightarrow> (\<forall>s. \<exists>s' x. m s = (s', Inr x))"

lemma returnsD: "returns m \<Longrightarrow> \<exists>s' x. m s = (s', Inr x)"
  by (simp add: returns_def)

lemma returns_bind [total]: "returns m \<Longrightarrow> (\<And>x. returns (f x)) \<Longrightarrow> returns (bindp m f)"
  unfolding returns_def bindp_def by (auto split: prod.splits sum.splits) (metis Pair_inject sum.simps(4))+

lemma returns_basic [total]:
  "returns (ret x)" "returns (host_read f)" "returns (host_act a g)" "returns (host_peek h)" "returns (tryp m)"
  "returns (run_raw host n p args)" "returns (look_path host n)"
  by (auto simp: returns_def ret_def host_read_def host_act_def host_peek_def tryp_def run_raw_def look_path_def
      split: prod.splits)

lemma returns_if [total]: "returns m \<Longrightarrow> returns m' \<Longrightarrow> returns (if b then m else m')"
  by simp

lemma returns_result_of [total]: "returns (result_of c m)"
  unfolding result_of_def by (intro total)

lemma returns_one_result [total]: "returns m \<Longrightarrow> returns (one_result m)"
  unfolding one_result_def by (intro total)

lemma returns_each_result: "(\<And>x. x \<in> set xs \<Longrightarrow> returns (f x)) \<Longrightarrow> returns (each_result f xs)"
  by (induction xs) (simp_all add: total)

lemma returns_run_all: "(\<And>m. m \<in> set ms \<Longrightarrow> returns m) \<Longrightarrow> returns (run_all ms)"
  by (induction ms) (simp_all add: total)

lemma returns_until_blocked: "(\<And>x. x \<in> set xs \<Longrightarrow> returns (f x)) \<Longrightarrow> returns (until_blocked f xs)"
  by (induction xs) (simp_all add: total)

lemma returns_run_until_blocked: "(\<And>m. m \<in> set ms \<Longrightarrow> returns m) \<Longrightarrow> returns (run_until_blocked ms)"
  by (induction ms) (auto intro!: total split: prod.splits)

lemma returns_runResult [total]: "returns (runResult host name args)"
  unfolding runResult_def by (auto intro!: total split: sum.splits)

lemma returns_nft_results [total]: "returns (rollbackNFTablesResults host tx es)"
proof -
  have "returns (nft_results host tx seen es)" for seen
  proof (induction es arbitrary: seen)
    case (Cons e es)
    show ?case by (auto simp: Let_def intro!: total Cons.IH split: sum.splits)
  qed (simp add: total)
  then show ?thesis by (simp add: rollbackNFTablesResults_def)
qed

lemma returns_results [total]:
  "returns (rollbackChildProcessResults host ps)"
  "returns (rollbackDNSResults host ds)"
  "returns (rollbackPolicyRuleResults host rules)"
  "returns (rollbackRouteResults host routes)"
  "returns (rollbackTUNResults host tuns)"
  "returns (rollbackTUNAddressResults host as b)"
  "returns (rollbackGeneratedConfigResults host dir gs)"
  unfolding rollbackChildProcessResults_def child_process_result_def rollbackDNSResults_def
    rollbackPolicyRuleResults_def rollbackRouteResults_def route_result_def rollbackTUNResults_def
    rollbackTUNAddressResults_def rollbackGeneratedConfigResults_def Let_def
  by (auto intro!: returns_each_result total split: option.splits)

lemma returns_independent [total]: "returns (rollbackIndependentRouteResults host routes)"
  unfolding rollbackIndependentRouteResults_def by (intro returns_each_result total)

lemma returns_unrecorded [total]: "returns (inspectUnrecordedDesiredMainState host tx)"
proof -
  have "returns (inspect_main host c what args)" for c what args
    unfolding inspect_main_def by (auto intro!: total split: sum.splits)
  then show ?thesis
    unfolding inspectUnrecordedDesiredMainState_def inspectDesiredMainRoute_def inspectDesiredMainPolicyRule_def
    by (intro returns_run_all) (auto intro!: returns_each_result total)
qed

lemma returns_gates [total]:
  "returns (rollbackLinkIdentityGate host rb ap b)" "returns (networkSessionRollbackLinkIdentityGate host rb ap b)"
  unfolding rollbackLinkIdentityGate_def networkSessionRollbackLinkIdentityGate_def link_gate_def Let_def
  by (auto intro!: total split: option.splits)

lemma returns_finish [total]: "returns (finish_transaction host dir tx rb gaps t path shown c ps rs)"
  unfolding finish_transaction_def remove_transaction_def config_results_def
  by (intro total returns_run_all) (auto intro: total)

lemma returns_blocked [total]: "returns (blocked_results host dir tx rb c g ps)"
  unfolding blocked_results_def by (intro returns_run_all) (auto intro: total)

lemma returns_load [total]: "returns (load_transaction host p)"
  unfolding load_transaction_def by (intro total)

lemma returns_transaction_state [total]: "returns (cleanupTransactionState host dir c)"
  unfolding cleanupTransactionState_def rollback_transaction_def Let_def
  by (auto intro!: total returns_run_all simp del: run_all.simps
      split: option.splits sum.splits prod.splits rollbackLinkDecision.splits)

lemma returns_singles [total]:
  "returns (cleanupManagedResolvedLink host c)" "returns (cleanupGeneratedRuntimeConfigs host dir c)"
  "returns (inspectStandaloneNftablesCandidate host c)"
  unfolding cleanupManagedResolvedLink_def revert_resolved_def verify_reverted_def cleanupGeneratedRuntimeConfigs_def
    inspectStandaloneNftablesCandidate_def Let_def
  by (auto intro!: total split: sum.splits option.splits)

lemma returns_daemon [total]: "returns (DaemonCleanupMany host rawDir c)"
  unfolding DaemonCleanupMany_def Let_def by (intro total)

lemma returns_session_parts [total]:
  "returns (rollbackNetworkSessionPolicyRules host rs al)"
  "returns (rollbackNetworkSessionRoutes host routes al)"
  "returns (rollbackNetworkSessionIndependentRoutes host routes al)"
  unfolding rollbackNetworkSessionPolicyRules_def session_rule_result_def rollbackNetworkSessionRoutes_def
    rollbackNetworkSessionIndependentRoutes_def rollbackNetworkSessionRoute_def exact_delete_def
  by (auto intro!: returns_until_blocked total split: option.splits)

lemma returns_session_transaction [total]:
  "returns (cleanupAllocatedNetworkSessionTransaction host dir c shown tx al)"
proof -
  have "returns m" if "m \<in> set (session_phases host tx rb al b d)" for m rb b d
    using that by (cases d) (auto simp: session_phases_def intro: total)
  then show ?thesis
    unfolding cleanupAllocatedNetworkSessionTransaction_def stop_at_blocker_def Let_def
    by (auto intro!: total returns_run_until_blocked simp del: run_until_blocked.simps
        split: prod.splits rollbackLinkDecision.splits)
qed

lemma returns_session [total]: "returns (NetworkSessionCleanupMany host rawDir c)"
  unfolding NetworkSessionCleanupMany_def Let_def by (auto intro!: total split: option.splits sum.splits)

end
