(* ===== verification/Recovery_Consistency.thy ===== *)
theory Recovery_Consistency
  imports Recovery_Facts "HOL-Library.Multiset"
begin

text \<open>
  The counters of \<^verbatim>\<open>desired_plan_rollback.go\<close> are multisets, and the consistency check of a transaction is an
  agreement of multisets; the insertion loop that orders the candidates of a recovery is a stable sort.
\<close>

section \<open>Counters as multisets\<close>

definition counter_bag :: "counter \<Rightarrow> string multiset" where
  "counter_bag c = mset (concat (map (\<lambda>k. replicate (counted c k) k) (remdups (map fst c))))"

lemma count_counter_bag: "count (counter_bag c) k = counted c k"
proof -
  have notin: "counted c k = 0" if "k \<notin> fst ` set c"
    using that by (simp add: counted_def map_of_eq_None_iff [symmetric])
  have "count (mset (concat (map (\<lambda>j. replicate (f j) j) ks))) k = (if k \<in> set ks then f k else 0)"
    if "distinct ks" for ks and f :: "string \<Rightarrow> nat"
    using that by (induction ks) auto
  from this [of "remdups (map fst c)" "counted c"] show ?thesis
    using notin by (simp add: counter_bag_def)
qed

text \<open>A counter that was counted up holds each key once, with a positive number.\<close>

definition proper_counter :: "counter \<Rightarrow> bool" where
  "proper_counter c = (distinct (map fst c) \<and> (\<forall>(k, n)\<in>set c. 0 < n))"

lemma counted_update: "counted (AList.update k n c) j = (if j = k then n else counted c j)"
  by (simp add: counted_def update_conv)

lemma update_entries: "set (AList.update k n c) \<subseteq> insert (k, n) (set c)"
  by (induction c) auto

lemma count_key_proper: "proper_counter c \<Longrightarrow> proper_counter (count_key c k)"
  unfolding proper_counter_def count_key_def
  using update_entries [of k "counted c k + 1" c] by (auto simp: distinct_update)

lemma counter_of_snoc: "counter_of (ks @ [k]) = count_key (counter_of ks) k"
  by (simp add: counter_of_def)

lemma counter_of_proper: "proper_counter (counter_of ks)"
  by (induction ks rule: rev_induct) (auto simp: counter_of_snoc count_key_proper, simp add: counter_of_def proper_counter_def)

lemma bag_counter_of [simp]: "counter_bag (counter_of ks) = mset ks"
proof -
  have "counted (counter_of ks) k = count_list ks k" for k
    by (induction ks rule: rev_induct)
      (auto simp: counter_of_snoc count_key_def counted_update, simp add: counter_of_def counted_def)
  then show ?thesis by (intro multiset_eqI) (simp add: count_counter_bag count_mset)
qed


lemma counted_member: "proper_counter c \<Longrightarrow> (k, n) \<in> set c \<longleftrightarrow> counted c k = n \<and> 0 < n"
  unfolding proper_counter_def counted_def
  by (auto simp: map_of_eq_Some_iff split: option.splits dest: eq_key_imp_eq_value)

lemma counter_keys: "proper_counter c \<Longrightarrow> fst ` set c = {k. 0 < counted c k}"
proof -
  assume c: "proper_counter c"
  have "k \<in> fst ` set c \<longleftrightarrow> (\<exists>n. (k, n) \<in> set c)" for k by force
  then show ?thesis by (auto simp: counted_member [OF c])
qed

lemma proper_card: "proper_counter c \<Longrightarrow> card (fst ` set c) = length c"
  using distinct_card [of "map fst c"] by (simp add: proper_counter_def)

lemma counter_subset_iff:
  assumes "proper_counter a"
  shows "stringCounterSubset a b \<longleftrightarrow> counter_bag a \<subseteq># counter_bag b"
proof -
  have "stringCounterSubset a b \<longleftrightarrow> (\<forall>k. counted a k \<le> counted b k)"
    using assms by (force simp: stringCounterSubset_def list_all_iff counted_member)
  then show ?thesis by (simp add: subseteq_mset_def count_counter_bag)
qed

text \<open>Equal lengths turn the one-sided comparison of the loop into equality.\<close>

lemma counter_equal_iff:
  assumes a: "proper_counter a" and b: "proper_counter b"
  shows "stringCounterEqual a b \<longleftrightarrow> counter_bag a = counter_bag b"
proof
  assume eq: "stringCounterEqual a b"
  then have on_a: "counted b k = counted a k" if "0 < counted a k" for k
  proof -
    from that have "(k, counted a k) \<in> set a" by (simp add: counted_member [OF a])
    with eq show ?thesis by (fastforce simp: stringCounterEqual_def list_all_iff)
  qed
  let ?A = "fst ` set a" and ?B = "fst ` set b"
  have "?A \<subseteq> ?B" using on_a by (auto simp: counter_keys a b)
  moreover have "card ?A = length a" "card ?B = length b"
    by (simp_all add: proper_card a b)
  ultimately have "?A = ?B"
    using eq by (intro card_subset_eq) (simp_all add: stringCounterEqual_def)
  then have keys: "0 < counted a k \<longleftrightarrow> 0 < counted b k" for k
    using counter_keys [OF a] counter_keys [OF b] by auto
  have "counted a k = counted b k" for k
  proof (cases "0 < counted a k")
    case True
    then show ?thesis by (simp add: on_a)
  next
    case False
    with keys [of k] show ?thesis by simp
  qed
  then show "counter_bag a = counter_bag b" by (intro multiset_eqI) (simp add: count_counter_bag)
next
  assume "counter_bag a = counter_bag b"
  then have eq: "counted a k = counted b k" for k by (metis count_counter_bag)
  then have "fst ` set a = fst ` set b" by (simp add: counter_keys a b)
  then have "length a = length b"
    using proper_card [OF a] proper_card [OF b] by simp
  then show "stringCounterEqual a b"
    using a eq by (auto simp: stringCounterEqual_def list_all_iff counted_member)
qed

lemma counter_of_equal_iff: "stringCounterEqual (counter_of xs) (counter_of ys) \<longleftrightarrow> mset xs = mset ys"
  by (simp add: counter_equal_iff counter_of_proper)

lemma counter_of_Nil_iff: "counter_of xs = [] \<longleftrightarrow> xs = []"
proof
  assume "counter_of xs = []"
  then have "counter_bag (counter_of xs) = {#}" by (simp add: counter_bag_def)
  then show "xs = []" by simp
qed (simp add: counter_of_def)

section \<open>Reasons\<close>

lemma compact_from_Nil:
  "compact_from seen rs = [] \<longleftrightarrow> (\<forall>r\<in>set rs. trim_space r = [] \<or> trim_space r \<in> set seen)"
  by (induction rs arbitrary: seen) auto

lemma compact_Nil: "compactReasonStrings rs = [] \<longleftrightarrow> (\<forall>r\<in>set rs. trim_space r = [])"
  by (simp add: compactReasonStrings_def compact_from_Nil)

lemma compact_nonblank: "r \<in> set (compactReasonStrings rs) \<Longrightarrow> trim_space r = r \<and> r \<noteq> []"
proof -
  have "r \<in> set (compact_from seen rs) \<Longrightarrow> trim_space r = r \<and> r \<noteq> []" for seen
    by (induction rs arbitrary: seen) (auto split: if_splits)
  then show "r \<in> set (compactReasonStrings rs) \<Longrightarrow> ?thesis" by (simp add: compactReasonStrings_def)
qed

lemma raw_reasons_blank:
  "(\<forall>r\<in>set (rawTransactionNetworkOwnershipReasons quote tx). trim_space r = []) \<longleftrightarrow>
   rawTransactionNetworkOwnershipReasons quote tx = []"
  unfolding rawTransactionNetworkOwnershipReasons_def by (metis compact_nonblank last_in_set empty_iff empty_set)


lemma nonblank_text [simp]: "CHR ''r'' \<in> set s \<Longrightarrow> trim_space s \<noteq> []"
  by (rule trim_nonblank) (auto simp: blank_def)

text \<open>The reference: what the rollback entries of one kind have to satisfy.\<close>

definition within_plan :: "string list \<Rightarrow> counter \<Rightarrow> bool" where
  "within_plan keys desired = (mset keys \<subseteq># counter_bag desired)"

lemma subset_reasons_blank:
  assumes "proper_counter desired" and "CHR ''r'' \<in> set missing" and "CHR ''r'' \<in> set mismatch"
    and "\<forall>r\<in>set extra. trim_space r \<noteq> []"
  shows "(\<forall>r\<in>set (subset_reasons missing mismatch keys desired extra). trim_space r = []) \<longleftrightarrow>
    within_plan keys desired \<and> (keys \<noteq> [] \<longrightarrow> extra = [])"
proof (cases "keys = [] \<or> desired = []")
  case True
  then show ?thesis
    using assms(2) by (auto simp: subset_reasons_def within_plan_def counter_bag_def)
next
  case False
  then show ?thesis
    using assms(3,4) counter_subset_iff [OF counter_of_proper, of keys desired]
    by (auto simp: subset_reasons_def within_plan_def neq_Nil_conv)
qed

lemma ambiguous_nonblank:
  "\<forall>r\<in>set (ambiguousDesiredRouteShortTargetMismatches desired rollback). trim_space r \<noteq> []"
  by (auto simp: ambiguousDesiredRouteShortTargetMismatches_def split: if_splits)

lemma desired_counters_proper:
  "proper_counter (desiredRouteCounter rs)" "proper_counter (desiredPolicyRuleCounter ss)"
  "proper_counter (desiredDNSCounter d)" "proper_counter (desiredNFTCounter n)"
  by (simp_all add: desiredRouteCounter_def desiredPolicyRuleCounter_def desiredDNSCounter_def desiredNFTCounter_def
      counter_of_proper)

definition agrees_with_plan :: "DesiredPlan \<Rightarrow> RollbackMetadata \<Rightarrow> bool" where
  "agrees_with_plan desired rb =
     (within_plan (map routeRollbackKey (rb_routes rb)) (desiredRouteCounter (pl_routes desired)) \<and>
      (rb_routes rb \<noteq> [] \<longrightarrow> ambiguousDesiredRouteShortTargetMismatches (pl_routes desired) (rb_routes rb) = []) \<and>
      within_plan (map policyRuleRollbackKey (rb_policy_rules rb)) (desiredPolicyRuleCounter (pl_steps desired)) \<and>
      within_plan (map dnsRollbackKey (rb_dns rb)) (desiredDNSCounter (pl_dns desired)) \<and>
      within_plan (map nftRollbackKey (rb_nftables rb)) (desiredNFTCounter (pl_nft desired)))"

lemma desired_reasons_blank:
  "(\<forall>r\<in>set (rollbackDesiredSubsetMismatches desired rb). trim_space r = []) \<longleftrightarrow> agrees_with_plan desired rb"
  unfolding rollbackDesiredSubsetMismatches_def set_append ball_Un agrees_with_plan_def
  by (subst subset_reasons_blank; (simp add: desired_counters_proper ambiguous_nonblank)?)+

lemma consistency_iff:
  "rollbackOwnershipConsistencyReasons quote tx rb = [] \<longleftrightarrow>
     rawTransactionNetworkOwnershipReasons quote tx = [] \<and>
     (rollback_keys rb = [] \<and> map applied_key (filter networkAppliedStep (tx_applied_steps tx)) = [] \<or>
      tx_state tx \<noteq> TransactionPlanned \<and>
      mset (map applied_key (filter networkAppliedStep (tx_applied_steps tx))) = mset (rollback_keys rb) \<and>
      agrees_with_plan (tx_desired_plan tx) rb)"
proof -
  have mm: "trim_space multiset_mismatch \<noteq> []" by (simp add: multiset_mismatch_def)
  have planned: "trim_space ''planned transaction cannot authorize network cleanup'' \<noteq> []" by simp
  show ?thesis
    unfolding rollbackOwnershipConsistencyReasons_def Let_def rollbackNetworkStepCounter_def appliedNetworkStepCounter_def
      counter_of_Nil_iff counter_of_equal_iff applyingAppliedRollbackMismatches_def
    using mm planned
    by (simp add: compact_Nil raw_reasons_blank ball_Un desired_reasons_blank del: nonblank_text) auto
qed

text \<open>C23: The consistency check that authorises a rollback is an agreement of multisets: a record has no reason
  against it exactly when its raw entries are well formed and it either names no network resource at all, or its
  transaction is past planning, the applied network steps and the rollback entries are the same multiset, and the
  routes, rules, DNS and firewall entries each form a submultiset of what the plan wanted.\<close>

theorem consistency_is_multiset_agreement:
  "rollbackOwnershipConsistencyReasons quote tx rb = [] \<longleftrightarrow>
     rawTransactionNetworkOwnershipReasons quote tx = [] \<and>
     (rollback_keys rb = [] \<and> map applied_key (filter networkAppliedStep (tx_applied_steps tx)) = [] \<or>
      tx_state tx \<noteq> TransactionPlanned \<and>
      mset (map applied_key (filter networkAppliedStep (tx_applied_steps tx))) = mset (rollback_keys rb) \<and>
      agrees_with_plan (tx_desired_plan tx) rb)"
  by (rule consistency_iff)

section \<open>The order of the candidates\<close>

text \<open>Moving a candidate left past every heavier one is an insertion that keeps equal weights in order.\<close>

lemma mset_sink_left: "mset (sink_left c ds) = add_mset c (mset ds)"
  by (induction ds) auto

lemma set_sink_left: "set (sink_left c ds) = insert c (set ds)"
  by (induction ds) auto

lemma filter_sink_left:
  "filter (\<lambda>x. w = weight (ca_kind x)) (sink_left c ds) =
   (if w = weight (ca_kind c) then c # filter (\<lambda>x. w = weight (ca_kind x)) ds else filter (\<lambda>x. w = weight (ca_kind x)) ds)"
  by (induction ds) auto

lemma sorted_sink_left:
  "sorted (map (\<lambda>x. weight (ca_kind x)) (rev ds)) \<Longrightarrow> sorted (map (\<lambda>x. weight (ca_kind x)) (rev (sink_left c ds)))"
  by (induction ds) (auto simp: sorted_append set_sink_left rev_map [symmetric])

lemma order_snoc: "orderCleanupCandidates (cs @ [c]) = rev (sink_left c (rev (orderCleanupCandidates cs)))"
  by (simp add: orderCleanupCandidates_def)

text \<open>The nested exchange loop that orders the candidates of a recovery is the stable sort by weight, so
  transactions are rolled back first and candidates of one kind keep the order of the scan.\<close>

theorem candidates_stably_sorted:
  "orderCleanupCandidates cs = sort_key (\<lambda>c. weight (ca_kind c)) cs"
proof -
  have bag: "mset (orderCleanupCandidates cs) = mset cs" for cs
    by (induction cs rule: rev_induct) (auto simp: order_snoc mset_sink_left, simp add: orderCleanupCandidates_def)
  have stable: "filter (\<lambda>x. w = weight (ca_kind x)) (orderCleanupCandidates cs) = filter (\<lambda>x. w = weight (ca_kind x)) cs" for cs w
    by (induction cs rule: rev_induct)
      (auto simp: order_snoc rev_filter [symmetric] filter_sink_left, simp add: orderCleanupCandidates_def)
  have "sorted (map (\<lambda>c. weight (ca_kind c)) (orderCleanupCandidates cs))"
    by (induction cs rule: rev_induct) (simp add: orderCleanupCandidates_def, simp only: order_snoc sorted_sink_left rev_rev_ident)
  with bag stable show ?thesis by (intro properties_for_sort_key [symmetric]) auto
qed

end
