(* ===== verification/Tun_Record.thy ===== *)
theory Tun_Record
  imports Tun_Transaction Recovery_Consistency Nft_Facts
begin

text \<open>
  What the transaction record of a session says after any number of applied steps.  A record refines a list of
  resources of the plan: recording a step appends its resource, and the record of every list of resources passes
  the consistency check that recovery applies before it rolls anything back.
\<close>

section \<open>Resources of a plan\<close>

datatype resource = AddressRes | RouteRes TunRoutePlan | RuleRes TunPolicyRulePlan | DnsRes | FirewallRes

fun planned :: "TunPlan \<Rightarrow> resource \<Rightarrow> bool" where
  "planned plan AddressRes = shouldApplyTunAddress (tp_address plan)"
| "planned plan (RouteRes r) = (r \<in> set (tp_routes plan) \<and> IsTunAddAction (trp_action r))"
| "planned plan (RuleRes r) = (r \<in> set (tp_rules plan) \<and> IsTunAddAction (prp_action r))"
| "planned plan DnsRes = shouldApplyDNS (tp_dns plan)"
| "planned plan FirewallRes = shouldApplyFirewall (tp_firewall plan)"

text \<open>Kind, target and owner of the step that reports a resource.\<close>

fun resource_id :: "TunPlan \<Rightarrow> resource \<Rightarrow> string \<times> string \<times> string" where
  "resource_id plan AddressRes = (''tun-address'', tunAddressTarget (tp_address plan), OwnerTunAddress)"
| "resource_id plan (RouteRes r) = (''route'', routeTarget r, OwnerRoute)"
| "resource_id plan (RuleRes r) = (''policy-rule'', policyRuleTarget r, OwnerPolicyRule)"
| "resource_id plan DnsRes = (''dns'', dpl_target_link (tp_dns plan), OwnerDNS)"
| "resource_id plan FirewallRes = (''nftables'', firewallTarget (tp_firewall plan), OwnerFirewall)"

definition step_id :: "Step \<Rightarrow> string \<times> string \<times> string" where
  "step_id s = (st_kind s, st_target s, st_owner s)"

definition applied_id :: "AppliedStep \<Rightarrow> string \<times> string \<times> string" where
  "applied_id a = (as_kind a, as_target a, as_owner a)"

definition dns_entry :: "TunDNSPlan \<Rightarrow> DNSRollback" where
  "dns_entry d =
     \<lparr>dr_backend = dpl_backend d, dr_link = dpl_target_link d, dr_previous = [], dr_search_domains = dnsSearchDomains d,
      dr_owner = OwnerDNS\<rparr>"

definition nft_entry :: "TunFirewallPlan \<Rightarrow> NFTablesRollback" where
  "nft_entry f = \<lparr>nr_family = fwp_family f, nr_table = fwp_table f, nr_chain = [], nr_owner = OwnerFirewall\<rparr>"

fun entries :: "TunPlan \<Rightarrow> resource \<Rightarrow> RollbackMetadata" where
  "entries plan AddressRes = zero_rollback\<lparr>rb_tun_addresses := [tunAddressRollbackState (tp_address plan)]\<rparr>"
| "entries plan (RouteRes r) = zero_rollback\<lparr>rb_routes := [route_rollback_of r]\<rparr>"
| "entries plan (RuleRes r) = zero_rollback\<lparr>rb_policy_rules := [policyRuleRollback r]\<rparr>"
| "entries plan DnsRes = zero_rollback\<lparr>rb_dns := [dns_entry (tp_dns plan)]\<rparr>"
| "entries plan FirewallRes = zero_rollback\<lparr>rb_nftables := [nft_entry (tp_firewall plan)]\<rparr>"

section \<open>Plans that can be recorded\<close>

definition word_text :: "string \<Rightarrow> bool" where
  "word_text s = (plain s \<and> s \<noteq> [])"

definition canonical_selector :: "string \<Rightarrow> bool" where
  "canonical_selector sel =
     (case Prelude.fields sel of
        [k, v] \<Rightarrow> sel = k @ '' '' @ v \<and> word_text v \<and>
          (k = ''from'' \<or> k = ''to'' \<or> (k = ''fwmark'' \<and> parse_uint0 32 v \<noteq> None))
      | _ \<Rightarrow> False)"

fun sound :: "TunPlan \<Rightarrow> resource \<Rightarrow> bool" where
  "sound plan AddressRes =
     (tunAddressRollbackIsOwned (tp_address plan) \<and> word_text (tap_interface (tp_address plan)) \<and>
      word_text (tap_cidr (tp_address plan)) \<and> rawTUNAddressRollbackEntryValid (tunAddressRollbackState (tp_address plan)))"
| "sound plan (RouteRes r) =
     (word_text (trp_table r) \<and> word_text (trp_destination r) \<and> rawRouteRollbackEntryValid (route_rollback_of r))"
| "sound plan (RuleRes r) =
     (word_text (prp_table r) \<and> canonical_selector (prp_selector r) \<and>
      rawPolicyRuleRollbackEntryValid (policyRuleRollback r))"
| "sound plan DnsRes = (word_text (dpl_target_link (tp_dns plan)) \<and> rawDNSRollbackEntryValid (dns_entry (tp_dns plan)))"
| "sound plan FirewallRes = (fwp_family (tp_firewall plan) = ''inet'' \<and> fwp_table (tp_firewall plan) = ''podlaz'')"

definition plan_resources :: "TunPlan \<Rightarrow> resource list" where
  "plan_resources plan =
     filter (planned plan)
       ([AddressRes] @ map RouteRes (tp_routes plan) @ map RuleRes (tp_rules plan) @ [DnsRes, FirewallRes])"

definition recordable :: "TunPlan \<Rightarrow> bool" where
  "recordable plan =
     (list_all (sound plan) (plan_resources plan) \<and> distinct (map routeTarget (tp_routes plan)) \<and>
      distinct (map policyRuleTarget (tp_rules plan)))"

lemma planned_resources: "planned plan x \<longleftrightarrow> x \<in> set (plan_resources plan)"
  by (cases x) (auto simp: plan_resources_def)

lemma recordable_sound: "recordable plan \<Longrightarrow> planned plan x \<Longrightarrow> sound plan x"
  by (simp add: recordable_def planned_resources list_all_iff)

lemma recordable_targets:
  assumes "recordable plan"
  shows "r \<in> set (tp_routes plan) \<Longrightarrow> filter (\<lambda>q. routeTarget q = routeTarget r) (tp_routes plan) = [r]"
    and "p \<in> set (tp_rules plan) \<Longrightarrow> filter (\<lambda>q. policyRuleTarget q = policyRuleTarget p) (tp_rules plan) = [p]"
proof -
  have one: "filter (\<lambda>q. f q = f x) xs = [x]" if "distinct (map f xs)" "x \<in> set xs" for f :: "'z \<Rightarrow> string" and x xs
    using that
  proof (induction xs)
    case (Cons a xs)
    from Cons.prems(1) have apart: "q \<in> set xs \<Longrightarrow> f q \<noteq> f a" for q by (metis distinct.simps(2) image_eqI list.map(2) list.set_map)
    then have "filter (\<lambda>q. f q = f a) xs = []" by (simp add: filter_empty_conv)
    with Cons apart [of x] show ?case by (cases "x = a") auto
  qed simp
  show "r \<in> set (tp_routes plan) \<Longrightarrow> filter (\<lambda>q. routeTarget q = routeTarget r) (tp_routes plan) = [r]"
    "p \<in> set (tp_rules plan) \<Longrightarrow> filter (\<lambda>q. policyRuleTarget q = policyRuleTarget p) (tp_rules plan) = [p]"
    using assms by (auto intro: one simp: recordable_def)
qed

section \<open>One step\<close>

text \<open>The rollback metadata of a reported step is the one entry of its resource.\<close>

lemma single_step_plan:
  "rollbackPlanFromAppliedSteps plan [s] = add_rollback_step plan (bare_plan plan) s"
  by (simp add: rollbackPlanFromAppliedSteps_def)

lemma bare_metadata: "rollbackMetadataFromTunPlan (bare_plan plan) = zero_rollback"
  by (simp add: rollbackMetadataFromTunPlan_def bare_plan_def zero_rollback_def Let_def tunAddressRollbackIsOwned_def
      IsTunAddressAssignAction_def)

lemma step_entries:
  assumes "recordable plan" and "planned plan x" and "step_id s = resource_id plan x"
  shows "rollbackMetadataFromTunPlan (rollbackPlanFromAppliedSteps plan [s]) = entries plan x"
proof -
  note sound = recordable_sound [OF assms(1,2)]
  note one = recordable_targets [OF assms(1)]
  note plan_defs = single_step_plan add_rollback_step_def rollbackMetadataFromTunPlan_def bare_plan_def zero_rollback_def
    step_id_def Let_def
  show ?thesis
  proof (cases x)
    case AddressRes
    with assms(2,3) sound show ?thesis by (simp add: plan_defs)
  next
    case (RouteRes r)
    with assms(2,3) one(1) [of r] show ?thesis
      by (simp add: plan_defs tunAddressRollbackIsOwned_def IsTunAddressAssignAction_def)
  next
    case (RuleRes r)
    with assms(2,3) one(2) [of r] show ?thesis
      by (simp add: plan_defs tunAddressRollbackIsOwned_def IsTunAddressAssignAction_def)
  next
    case DnsRes
    with assms(2,3) sound show ?thesis
      by (simp add: plan_defs tunAddressRollbackIsOwned_def IsTunAddressAssignAction_def shouldApplyDNS_def word_text_def
          dns_entry_def)
  next
    case FirewallRes
    with assms(2,3) sound show ?thesis
      by (simp add: plan_defs tunAddressRollbackIsOwned_def IsTunAddressAssignAction_def shouldApplyFirewall_def nft_entry_def)
  qed
qed

section \<open>The record of a list of resources\<close>

text \<open>The network part of the rollback metadata; generated configurations and child processes are recorded by other
  operations.\<close>

definition net_part :: "RollbackMetadata \<Rightarrow> RollbackMetadata" where
  "net_part rb = rb\<lparr>rb_generated_configs := [], rb_child_processes := []\<rparr>"

definition merged :: "TunPlan \<Rightarrow> resource list \<Rightarrow> RollbackMetadata" where
  "merged plan rs = foldl mergeRollbackMetadata zero_rollback (map (entries plan) rs)"

definition recorded :: "TunPlan \<Rightarrow> resource list \<Rightarrow> Transaction \<Rightarrow> bool" where
  "recorded plan rs tx \<longleftrightarrow>
     distinct rs \<and> list_all (planned plan) rs \<and>
     map applied_id (tx_applied_steps tx) = map (resource_id plan) rs \<and>
     net_part (tx_rollback tx) = merged plan rs"

lemma merged_snoc [simp]: "merged plan (rs @ [x]) = mergeRollbackMetadata (merged plan rs) (entries plan x)"
  by (simp add: merged_def)

lemma merged_Nil [simp]: "merged plan [] = zero_rollback"
  by (simp add: merged_def)

lemma net_part_merge: "net_part (mergeRollbackMetadata a b) = mergeRollbackMetadata (net_part a) (net_part b)"
  by (simp add: net_part_def mergeRollbackMetadata_def)

lemma net_part_entries [simp]: "net_part (entries plan x) = entries plan x"
  by (cases x) (simp_all add: net_part_def zero_rollback_def)

lemma resource_id_inj:
  assumes "recordable plan" and "planned plan x" and "planned plan y" and "resource_id plan x = resource_id plan y"
  shows "x = y"
proof -
  note one = recordable_targets [OF assms(1)]
  show ?thesis
  proof (cases x)
    case (RouteRes r)
    with assms(4) have "\<exists>q. y = RouteRes q" by (cases y) simp_all
    then obtain q where y: "y = RouteRes q" by blast
    with RouteRes assms(4) have "routeTarget r = routeTarget q" by simp
    with one(1) [of r] one(1) [of q] assms(2,3) have "[r] = [q]" unfolding RouteRes y by (metis planned.simps(2))
    with RouteRes y show ?thesis by simp
  next
    case (RuleRes r)
    with assms(4) have "\<exists>q. y = RuleRes q" by (cases y) simp_all
    then obtain q where y: "y = RuleRes q" by blast
    with RuleRes assms(4) have "policyRuleTarget r = policyRuleTarget q" by simp
    with one(2) [of r] one(2) [of q] assms(2,3) have "[r] = [q]" unfolding RuleRes y by (metis planned.simps(3))
    with RuleRes y show ?thesis by simp
  qed (use assms(4) in \<open>cases y; simp\<close>)+
qed

lemma has_applied_iff:
  "hasAppliedTunStep applied s \<longleftrightarrow> step_id s \<in> applied_id ` set applied"
  unfolding hasAppliedTunStep_def list_ex_iff step_id_def applied_id_def image_iff prod.inject by metis

lemma recorded_has:
  assumes "recordable plan" and "recorded plan rs tx" and "planned plan x" and "step_id s = resource_id plan x"
  shows "hasAppliedTunStep (tx_applied_steps tx) s \<longleftrightarrow> x \<in> set rs"
proof -
  have "applied_id ` set (tx_applied_steps tx) = resource_id plan ` set rs"
    using assms(2) by (metis recorded_def list.set_map)
  then have "hasAppliedTunStep (tx_applied_steps tx) s \<longleftrightarrow> resource_id plan x \<in> resource_id plan ` set rs"
    using assms(4) by (simp add: has_applied_iff)
  then show ?thesis
    using resource_id_inj [OF assms(1,3)] assms(2) by (auto simp: recorded_def list_all_iff)
qed

text \<open>Recording a new step appends its resource.\<close>

lemma recorded_step:
  assumes "recordable plan" and "recorded plan rs tx" and "planned plan x" and "step_id s = resource_id plan x"
    and "x \<notin> set rs"
  shows "recorded plan (rs @ [x]) (record_step plan now s tx)"
proof -
  have "applied_id \<lparr>as_kind = st_kind s, as_target = st_target s, as_description = st_description s,
      as_applied_at = now, as_owner = st_owner s\<rparr> = resource_id plan x"
    using assms(4) by (simp add: applied_id_def step_id_def)
  then show ?thesis
    using assms by (simp add: recorded_def record_step_def appliedStepsFromExecutor_def step_entries net_part_merge)
qed

lemma owned_step:
  assumes "recordable plan" and "planned plan x" and "step_id s = resource_id plan x"
  shows "length (filterOwnedAppliedSteps plan [s]) = 1"
proof -
  note sound = recordable_sound [OF assms(1,2)]
  note one = recordable_targets [OF assms(1)]
  have "rollbackPlanHasOwnedResource (rollbackPlanFromAppliedSteps plan [s])"
    unfolding rollbackPlanHasOwnedResource_def single_step_plan
    using assms(2,3) sound one
    by (cases x) (simp_all add: add_rollback_step_def bare_plan_def step_id_def word_text_def)
  then show ?thesis by (simp add: filterOwnedAppliedSteps_def)
qed

section \<open>Keys\<close>

lemma owners_trim [simp]:
  "trim_space OwnerTunDevice = OwnerTunDevice" "trim_space OwnerTunAddress = OwnerTunAddress"
  "trim_space OwnerRoute = OwnerRoute" "trim_space OwnerPolicyRule = OwnerPolicyRule"
  "trim_space OwnerDNS = OwnerDNS" "trim_space OwnerFirewall = OwnerFirewall"
  "trim_space TransactionOwner = TransactionOwner"
  by (simp_all add: owner_defs)

lemma owners_nonempty [simp]:
  "OwnerTunDevice \<noteq> []" "OwnerTunAddress \<noteq> []" "OwnerRoute \<noteq> []" "OwnerPolicyRule \<noteq> []" "OwnerDNS \<noteq> []"
  "OwnerFirewall \<noteq> []"
  by (simp_all add: owner_defs)

lemma owners_specific [simp]:
  "OwnerTunAddress \<noteq> TransactionOwner" "OwnerRoute \<noteq> TransactionOwner" "OwnerPolicyRule \<noteq> TransactionOwner"
  "OwnerDNS \<noteq> TransactionOwner" "OwnerFirewall \<noteq> TransactionOwner"
  by (simp_all add: owner_defs)

definition id_key :: "string \<times> string \<times> string \<Rightarrow> string" where
  "id_key i = (case i of (k, t, p) \<Rightarrow> appliedStepKey k t p)"

lemma word_trim: "word_text s \<Longrightarrow> trim_space s = s"
  by (simp add: word_text_def)

lemma canonical_cases:
  assumes "canonical_selector sel"
  obtains (source) v where "sel = ''from '' @ v" "word_text v" "Prelude.fields sel = [''from'', v]"
  | (dest) v where "sel = ''to '' @ v" "word_text v" "Prelude.fields sel = [''to'', v]"
  | (mark) v where "sel = ''fwmark '' @ v" "word_text v" "Prelude.fields sel = [''fwmark'', v]" "parse_uint0 32 v \<noteq> None"
  using assms unfolding canonical_selector_def by (auto split: list.splits)

lemma trim_after_word:
  assumes "word_text v" and "w \<noteq> []" and "\<not> blank (hd w)"
  shows "trim_space (w @ v) = w @ v"
proof (rule trim_space_ends)
  from assms(1) have "last v \<in> set v" and "plain v" by (auto simp: word_text_def)
  then have "\<not> blank (last v)" by (auto simp: plain_def list_all_iff blank_def)
  with assms show "\<not> blank (last (w @ v))" by (simp add: word_text_def)
qed (use assms in \<open>auto simp: word_text_def\<close>)

lemma inet_podlaz_trim [simp]: "trim_space ''inet podlaz'' = ''inet podlaz''"
  using trim_after_word [of "''podlaz''" "''inet ''"] by (simp add: word_text_def blank_def)

lemma rule_rollback:
  assumes "canonical_selector (prp_selector r)"
  shows "\<exists>v. word_text v \<and>
    (prp_selector r = ''from '' @ v \<and> policyRuleRollback r = \<lparr>pr_priority = prp_priority r, pr_from = v, pr_to = [],
       pr_table = prp_table r, pr_mark = [], pr_owner = OwnerPolicyRule\<rparr> \<or>
     prp_selector r = ''to '' @ v \<and> policyRuleRollback r = \<lparr>pr_priority = prp_priority r, pr_from = [], pr_to = v,
       pr_table = prp_table r, pr_mark = [], pr_owner = OwnerPolicyRule\<rparr> \<or>
     prp_selector r = ''fwmark '' @ v \<and> parse_uint0 32 v \<noteq> None \<and>
       policyRuleRollback r = \<lparr>pr_priority = prp_priority r, pr_from = [], pr_to = [],
         pr_table = prp_table r, pr_mark = v, pr_owner = OwnerPolicyRule\<rparr>)"
  using assms
proof (cases rule: canonical_cases)
  case (source v)
  then have "trim_space (prp_selector r) = ''from '' @ v" using trim_after_word [of v "''from ''"] by (simp add: blank_def)
  with source show ?thesis by (intro exI [of _ v]) (simp add: policyRuleRollback_def starts_def word_trim)
next
  case (dest v)
  then have "trim_space (prp_selector r) = ''to '' @ v" using trim_after_word [of v "''to ''"] by (simp add: blank_def)
  with dest show ?thesis by (intro exI [of _ v]) (simp add: policyRuleRollback_def starts_def word_trim)
next
  case (mark v)
  then have "trim_space (prp_selector r) = ''fwmark '' @ v" using trim_after_word [of v "''fwmark ''"] by (simp add: blank_def)
  with mark show ?thesis by (intro exI [of _ v]) (simp add: policyRuleRollback_def starts_def word_trim)
qed

lemma rule_targets:
  assumes "word_text (prp_table r)" and "canonical_selector (prp_selector r)"
  shows "policyRuleRollbackTarget (policyRuleRollback r) = policyRuleTarget r" "pr_owner (policyRuleRollback r) = OwnerPolicyRule"
  using rule_rollback [OF assms(2)] assms(1)
  by (auto simp: policyRuleRollbackTarget_def policyRuleTarget_def word_trim word_text_def)

lemma entry_keys:
  assumes "sound plan x"
  shows "rollback_keys (entries plan x) = [id_key (resource_id plan x)]"
proof (cases x)
  case AddressRes
  with assms show ?thesis
    by (simp add: rollback_keys_def zero_rollback_def id_key_def ownedRollbackMetadata_def tunAddressRollbackTarget_def
        tunAddressRollbackState_def tunAddressTarget_def word_trim)
next
  case (RouteRes r)
  with assms show ?thesis
    by (simp add: rollback_keys_def zero_rollback_def id_key_def ownedRollbackMetadata_def routeRollbackTarget_def
        route_rollback_of_def routeTarget_def word_trim)
next
  case (RuleRes r)
  with assms show ?thesis
    by (simp add: rollback_keys_def zero_rollback_def id_key_def ownedRollbackMetadata_def rule_targets)
next
  case DnsRes
  with assms show ?thesis
    by (simp add: rollback_keys_def zero_rollback_def id_key_def ownedRollbackMetadata_def dns_entry_def word_trim)
next
  case FirewallRes
  with assms show ?thesis
    by (simp add: rollback_keys_def zero_rollback_def id_key_def ownedRollbackMetadata_def nft_entry_def
        nftRollbackTarget_def firewallTarget_def)
qed

lemma keys_merge: "mset (rollback_keys (mergeRollbackMetadata a b)) = mset (rollback_keys a) + mset (rollback_keys b)"
  by (simp add: rollback_keys_def mergeRollbackMetadata_def)

lemma keys_net_part [simp]: "rollback_keys (net_part rb) = rollback_keys rb"
  by (simp add: rollback_keys_def net_part_def)

lemma keys_merged:
  assumes "recordable plan" and "list_all (planned plan) rs"
  shows "mset (rollback_keys (merged plan rs)) = mset (map (id_key \<circ> resource_id plan) rs)"
  using assms(2)
proof (induction rs rule: rev_induct)
  case Nil
  then show ?case by (simp add: rollback_keys_def zero_rollback_def)
next
  case (snoc x rs)
  then have "sound plan x" using recordable_sound [OF assms(1)] by simp
  with snoc show ?case by (simp add: keys_merge entry_keys)
qed

text \<open>An applied step that carries the identity of a resource counts for the resource.\<close>

lemma applied_of_resource:
  assumes "applied_id a = resource_id plan x"
  shows "networkAppliedStep a" "applied_key a = id_key (resource_id plan x)" "raw_applied_key a = id_key (resource_id plan x)"
  using assms
  by (cases x; simp add: applied_id_def networkAppliedStep_def knownNetworkAppliedStepKind_def ownedNetworkStepOwner_def
      kind_owner_def ownedRollbackMetadata_def applied_key_def raw_applied_key_def normalizeAppliedStepOwner_def
      normalizedRollbackOwner_def id_key_def)+

lemma recorded_applied:
  assumes "recorded plan rs tx"
  shows "filter networkAppliedStep (tx_applied_steps tx) = tx_applied_steps tx"
    "map applied_key (tx_applied_steps tx) = map (id_key \<circ> resource_id plan) rs"
    "map raw_applied_key (tx_applied_steps tx) = map (id_key \<circ> resource_id plan) rs"
proof -
  have pairs: "list_all2 (\<lambda>a x. applied_id a = resource_id plan x) (tx_applied_steps tx) rs"
    using assms by (simp add: recorded_def list_all2_conv_all_nth list_eq_iff_nth_eq)
  from pairs show "filter networkAppliedStep (tx_applied_steps tx) = tx_applied_steps tx"
    by (induction rule: list_all2_induct) (simp_all add: applied_of_resource)
  from pairs show "map applied_key (tx_applied_steps tx) = map (id_key \<circ> resource_id plan) rs"
    by (induction rule: list_all2_induct) (simp_all add: applied_of_resource)
  from pairs show "map raw_applied_key (tx_applied_steps tx) = map (id_key \<circ> resource_id plan) rs"
    by (induction rule: list_all2_induct) (simp_all add: applied_of_resource)
qed

lemma recorded_keys:
  assumes "recordable plan" and "recorded plan rs tx"
  shows "mset (map applied_key (filter networkAppliedStep (tx_applied_steps tx))) = mset (rollback_keys (tx_rollback tx))"
  using recorded_applied [OF assms(2)] keys_merged [OF assms(1)] assms(2)
  by (metis recorded_def keys_net_part)

section \<open>Agreement with the plan\<close>

text \<open>The desired plan of a record, as far as the consistency check reads it.\<close>

definition desired_for :: "TunPlan \<Rightarrow> DesiredPlan \<Rightarrow> bool" where
  "desired_for plan d \<longleftrightarrow>
     (let want = desiredPlanFromTunPlan plan; rules = filter (\<lambda>s. ps_kind s = ''policy-rule'') in
      pl_routes d = pl_routes want \<and> rules (pl_steps d) = rules (pl_steps want) \<and> pl_dns d = pl_dns want \<and>
      pl_nft d = pl_nft want \<and> pl_tun_address d = pl_tun_address want)"

abbreviation adds_of :: "TunPlan \<Rightarrow> TunRoutePlan list" where
  "adds_of plan \<equiv> filter (\<lambda>r. IsTunAddAction (trp_action r)) (tp_routes plan)"

abbreviation rules_of :: "TunPlan \<Rightarrow> TunPolicyRulePlan list" where
  "rules_of plan \<equiv> filter (\<lambda>r. IsTunAddAction (prp_action r)) (tp_rules plan)"

definition wanted_route :: "TunRoutePlan \<Rightarrow> RoutePlan" where
  "wanted_route r =
     \<lparr>rp_kind = ''route'', rp_table = trp_table r, rp_cidr = trp_destination r, rp_via = trp_gateway r,
      rp_dev = trp_interface r, rp_priority = 0, rp_owner = OwnerRoute, rp_operation = ''add''\<rparr>"

lemma desired_routes: "filter desired_route (concat (map desired_route_of routes)) =
    map wanted_route (filter (\<lambda>r. IsTunAddAction (trp_action r)) routes)"
  by (induction routes)
    (simp_all add: desired_route_of_def desired_route_def wanted_route_def ownedRollbackMetadata_def Let_def)

lemma bypass_wanted [simp]: "bypass_route_of (wanted_route r) = route_rollback_of r"
  by (simp add: bypass_route_of_def wanted_route_def route_rollback_of_def)

definition routes_in :: "resource list \<Rightarrow> TunRoutePlan list" where
  "routes_in rs = List.map_filter (\<lambda>x. case x of RouteRes r \<Rightarrow> Some r | _ \<Rightarrow> None) rs"

definition rules_in :: "resource list \<Rightarrow> TunPolicyRulePlan list" where
  "rules_in rs = List.map_filter (\<lambda>x. case x of RuleRes r \<Rightarrow> Some r | _ \<Rightarrow> None) rs"

lemma in_snoc [simp]:
  "routes_in (rs @ [x]) = routes_in rs @ (case x of RouteRes r \<Rightarrow> [r] | _ \<Rightarrow> [])"
  "rules_in (rs @ [x]) = rules_in rs @ (case x of RuleRes r \<Rightarrow> [r] | _ \<Rightarrow> [])"
  by (simp_all add: routes_in_def rules_in_def List.map_filter_def split: resource.split)

lemma in_Nil [simp]: "routes_in [] = []" "rules_in [] = []"
  by (simp_all add: routes_in_def rules_in_def List.map_filter_def)

lemma merged_lists:
  "rb_tun (merged plan rs) = []"
  "rb_tun_addresses (merged plan rs) = map (\<lambda>x. tunAddressRollbackState (tp_address plan)) (filter (\<lambda>x. x = AddressRes) rs)"
  "rb_routes (merged plan rs) = map route_rollback_of (routes_in rs)"
  "rb_policy_rules (merged plan rs) = map policyRuleRollback (rules_in rs)"
  "rb_dns (merged plan rs) = map (\<lambda>x. dns_entry (tp_dns plan)) (filter (\<lambda>x. x = DnsRes) rs)"
  "rb_nftables (merged plan rs) = map (\<lambda>x. nft_entry (tp_firewall plan)) (filter (\<lambda>x. x = FirewallRes) rs)"
proof (induction rs rule: rev_induct)
  case Nil
  case 1 show ?case by (simp add: zero_rollback_def)
  case 2 show ?case by (simp add: zero_rollback_def)
  case 3 show ?case by (simp add: zero_rollback_def)
  case 4 show ?case by (simp add: zero_rollback_def)
  case 5 show ?case by (simp add: zero_rollback_def)
  case 6 show ?case by (simp add: zero_rollback_def)
next
  case (snoc x rs)
  case 1 show ?case by (cases x) (simp_all add: snoc mergeRollbackMetadata_def zero_rollback_def)
  case 2 show ?case by (cases x) (simp_all add: snoc mergeRollbackMetadata_def zero_rollback_def)
  case 3 show ?case by (cases x) (simp_all add: snoc mergeRollbackMetadata_def zero_rollback_def)
  case 4 show ?case by (cases x) (simp_all add: snoc mergeRollbackMetadata_def zero_rollback_def)
  case 5 show ?case by (cases x) (simp_all add: snoc mergeRollbackMetadata_def zero_rollback_def)
  case 6 show ?case by (cases x) (simp_all add: snoc mergeRollbackMetadata_def zero_rollback_def)
qed

lemma in_set: "r \<in> set (routes_in rs) \<longleftrightarrow> RouteRes r \<in> set rs" "p \<in> set (rules_in rs) \<longleftrightarrow> RuleRes p \<in> set rs"
  by (induction rs rule: rev_induct) (auto split: resource.splits)

lemma in_distinct: "distinct rs \<Longrightarrow> distinct (routes_in rs)" "distinct rs \<Longrightarrow> distinct (rules_in rs)"
  by (induction rs rule: rev_induct) (auto simp: in_set split: resource.splits)

lemma filter_one: "distinct rs \<Longrightarrow> filter (\<lambda>x. x = y) rs = (if y \<in> set rs then [y] else [])"
  by (induction rs) (auto simp: filter_empty_conv)

lemma mset_of_distinct: "distinct xs \<Longrightarrow> set xs \<subseteq> set ys \<Longrightarrow> mset xs \<subseteq># mset ys"
  by (auto simp: subseteq_mset_def distinct_count_atmost_1 Suc_le_eq count_mset_gt_0)

lemma counter_of_distinct: "distinct ks \<Longrightarrow> counter_of ks = map (\<lambda>k. (k, 1)) ks"
proof (induction ks rule: rev_induct)
  case Nil
  then show ?case by (simp add: counter_of_def)
next
  case (snoc k ks)
  have "AList.update k (1::nat) c = c @ [(k, 1)]" if "k \<notin> fst ` set c" for c
    using that by (induction c) auto
  moreover have "counted (map (\<lambda>k. (k, 1)) ks) k = 0"
    using snoc.prems by (simp add: counted_def map_of_eq_None_iff [THEN iffD2] image_image)
  ultimately show ?case using snoc by (simp add: counter_of_snoc count_key_def image_image)
qed

lemma resource_targets_trim:
  assumes "sound plan x"
  shows "trim_space (fst (snd (resource_id plan x))) = fst (snd (resource_id plan x)) \<and> fst (snd (resource_id plan x)) \<noteq> []"
proof (cases x)
  case AddressRes
  with assms obtain c i where "tap_interface (tp_address plan) = c # i" "\<not> blank c"
    by (cases "tap_interface (tp_address plan)") (auto simp: word_text_def blank_def)
  with AddressRes assms show ?thesis
    using trim_after_word [of "tap_cidr (tp_address plan)" "tap_interface (tp_address plan) @ ''@ifindex='' @
      itoa_int (tap_link_index (tp_address plan)) @ '':''"]
    by (simp add: tunAddressTarget_def)
next
  case (RouteRes r)
  with assms obtain c i where "trp_table r = c # i" "\<not> blank c"
    by (cases "trp_table r") (auto simp: word_text_def blank_def)
  with RouteRes assms show ?thesis
    using trim_after_word [of "trp_destination r" "trp_table r @ '' ''"] by (simp add: routeTarget_def)
next
  case (RuleRes r)
  with assms show ?thesis
    using trim_after_word [of "prp_table r" "''priority '' @ itoa_int (prp_priority r) @ '' '' @ prp_selector r @ '' lookup ''"]
    by (simp add: policyRuleTarget_def blank_def)
next
  case FirewallRes
  with assms show ?thesis by (simp add: firewallTarget_def)
qed (use assms in \<open>simp add: word_trim word_text_def\<close>)

lemma recorded_lists:
  assumes "recorded plan rs tx"
  shows "rb_tun (tx_rollback tx) = []"
    "rb_tun_addresses (tx_rollback tx) =
       (if AddressRes \<in> set rs then [tunAddressRollbackState (tp_address plan)] else [])"
    "rb_routes (tx_rollback tx) = map route_rollback_of (routes_in rs)"
    "rb_policy_rules (tx_rollback tx) = map policyRuleRollback (rules_in rs)"
    "rb_dns (tx_rollback tx) = (if DnsRes \<in> set rs then [dns_entry (tp_dns plan)] else [])"
    "rb_nftables (tx_rollback tx) = (if FirewallRes \<in> set rs then [nft_entry (tp_firewall plan)] else [])"
proof -
  from assms have net: "net_part (tx_rollback tx) = merged plan rs" and d: "distinct rs" by (simp_all add: recorded_def)
  have lists: "rb_tun (tx_rollback tx) = rb_tun (merged plan rs)"
    "rb_tun_addresses (tx_rollback tx) = rb_tun_addresses (merged plan rs)"
    "rb_routes (tx_rollback tx) = rb_routes (merged plan rs)"
    "rb_policy_rules (tx_rollback tx) = rb_policy_rules (merged plan rs)"
    "rb_dns (tx_rollback tx) = rb_dns (merged plan rs)" "rb_nftables (tx_rollback tx) = rb_nftables (merged plan rs)"
    by (simp_all add: net [symmetric] net_part_def)
  show "rb_tun (tx_rollback tx) = []"
    "rb_tun_addresses (tx_rollback tx) =
       (if AddressRes \<in> set rs then [tunAddressRollbackState (tp_address plan)] else [])"
    "rb_routes (tx_rollback tx) = map route_rollback_of (routes_in rs)"
    "rb_policy_rules (tx_rollback tx) = map policyRuleRollback (rules_in rs)"
    "rb_dns (tx_rollback tx) = (if DnsRes \<in> set rs then [dns_entry (tp_dns plan)] else [])"
    "rb_nftables (tx_rollback tx) = (if FirewallRes \<in> set rs then [nft_entry (tp_firewall plan)] else [])"
    by (simp_all add: lists merged_lists filter_one [OF d])
qed

lemma recorded_members:
  assumes "recorded plan rs tx"
  shows "distinct (routes_in rs)" "set (routes_in rs) \<subseteq> set (adds_of plan)"
    "distinct (rules_in rs)" "set (rules_in rs) \<subseteq> set (rules_of plan)" "x \<in> set rs \<Longrightarrow> planned plan x"
proof -
  from assms have p: "planned plan x" if "x \<in> set rs" for x using that by (simp add: recorded_def list_all_iff)
  then show "x \<in> set rs \<Longrightarrow> planned plan x" .
  from assms show "distinct (routes_in rs)" "distinct (rules_in rs)" by (simp_all add: recorded_def in_distinct)
  show "set (routes_in rs) \<subseteq> set (adds_of plan)" "set (rules_in rs) \<subseteq> set (rules_of plan)"
    using p by (fastforce simp: in_set dest: p)+
qed

lemma route_target_of: "sound plan (RouteRes r) \<Longrightarrow> routeRollbackTarget (route_rollback_of r) = routeTarget r"
  by (simp add: routeRollbackTarget_def route_rollback_of_def routeTarget_def word_trim)

lemma owner_of_route: "rr_owner (route_rollback_of r) = OwnerRoute"
  by (simp add: route_rollback_of_def)

lemma routes_agree:
  assumes plan: "recordable plan" and rec: "recorded plan rs tx" and want: "desired_for plan d"
  shows "within_plan (map routeRollbackKey (rb_routes (tx_rollback tx))) (desiredRouteCounter (pl_routes d))"
    "ambiguousDesiredRouteShortTargetMismatches (pl_routes d) (rb_routes (tx_rollback tx)) = []"
proof -
  have routes: "pl_routes d = concat (map desired_route_of (tp_routes plan))"
    using want by (simp add: desired_for_def desiredPlanFromTunPlan_def Let_def)
  note m = recorded_members [OF rec]
  have "mset (map f (routes_in rs)) \<subseteq># mset (map f (adds_of plan))" for f :: "TunRoutePlan \<Rightarrow> string"
    using mset_of_distinct [OF m(1,2)] by (simp add: image_mset_subseteq_mono)
  then show "within_plan (map routeRollbackKey (rb_routes (tx_rollback tx))) (desiredRouteCounter (pl_routes d))"
    by (simp add: within_plan_def recorded_lists [OF rec] desiredRouteCounter_def routes desired_routes comp_def)
  have target: "routeRollbackTarget (route_rollback_of r) = routeTarget r" if "r \<in> set (adds_of plan)" for r
    using that recordable_sound [OF plan, of "RouteRes r"] by (intro route_target_of) simp
  have inj: "inj_on routeTarget (set (adds_of plan))"
    using plan by (auto simp: recordable_def distinct_map inj_on_def)
  have "map (\<lambda>r. routeRollbackTarget (route_rollback_of r)) (routes_in rs) = map routeTarget (routes_in rs)"
    using m(2) target by (intro map_cong) auto
  then have shorts: "map routeRollbackTarget (filter (\<lambda>r. ownedRollbackMetadata (rr_owner r) OwnerRoute)
      (rb_routes (tx_rollback tx))) = map routeTarget (routes_in rs)"
    by (simp add: recorded_lists [OF rec] filter_map comp_def ownedRollbackMetadata_def owner_of_route)
  have "distinct (map routeTarget (routes_in rs))"
    using m(1,2) inj by (auto simp: distinct_map intro: inj_on_subset)
  moreover have "desired_fulls (pl_routes d) (routeTarget r) = [(routeRollbackKey (route_rollback_of r), 1)]"
    if r: "r \<in> set (routes_in rs)" for r
  proof -
    have "filter (\<lambda>p. desired_route p \<and> routeRollbackTarget (bypass_route_of p) = routeTarget r) (pl_routes d) =
        filter (\<lambda>p. routeRollbackTarget (bypass_route_of p) = routeTarget r) (filter desired_route (pl_routes d))"
      by (simp add: conj_commute)
    also have "\<dots> = map wanted_route (filter (\<lambda>q. routeRollbackTarget (route_rollback_of q) = routeTarget r) (adds_of plan))"
      by (simp add: routes desired_routes filter_map comp_def)
    also have "filter (\<lambda>q. routeRollbackTarget (route_rollback_of q) = routeTarget r) (adds_of plan) =
        filter (\<lambda>q. routeTarget q = routeTarget r) (adds_of plan)"
      using target by (intro filter_cong) auto
    also have "\<dots> = filter (\<lambda>q. IsTunAddAction (trp_action q)) (filter (\<lambda>q. routeTarget q = routeTarget r) (tp_routes plan))"
      by (simp add: conj_commute)
    also have "\<dots> = [r]"
      using r m(2) recordable_targets(1) [OF plan, of r] by (auto simp del: filter_filter)
    finally show ?thesis by (simp add: desired_fulls_def counter_of_distinct)
  qed
  ultimately show "ambiguousDesiredRouteShortTargetMismatches (pl_routes d) (rb_routes (tx_rollback tx)) = []"
    by (auto simp: ambiguousDesiredRouteShortTargetMismatches_def shorts counter_of_distinct)
qed

definition wanted_rule :: "TunPolicyRulePlan \<Rightarrow> PlannedStep" where
  "wanted_rule r = \<lparr>ps_kind = ''policy-rule'', ps_target = policyRuleTarget r, ps_description = prp_reason r,
     ps_owner = OwnerPolicyRule\<rparr>"

lemma desired_rules:
  "filter (\<lambda>s. ps_kind s = ''policy-rule'') (pl_steps (desiredPlanFromTunPlan plan)) = map wanted_rule (rules_of plan)"
  by (simp add: desiredPlanFromTunPlan_def desired_steps_of_def filter_map comp_def wanted_rule_def [abs_def])

lemma wanted_rule_parsed:
  assumes "sound plan (RuleRes r)"
  shows "desiredPolicyRuleRollback (wanted_rule r) = Some (policyRuleRollback r)"
proof -
  from assms have t: "plain (prp_table r)" "prp_table r \<noteq> []" and c: "canonical_selector (prp_selector r)"
    and v: "rawPolicyRuleRollbackEntryValid (policyRuleRollback r)" by (simp_all add: word_text_def)
  obtain v where w: "plain v" "v \<noteq> []" and form:
    "prp_selector r = ''from '' @ v \<and> policyRuleRollback r = \<lparr>pr_priority = prp_priority r, pr_from = v, pr_to = [],
       pr_table = prp_table r, pr_mark = [], pr_owner = OwnerPolicyRule\<rparr> \<or>
     prp_selector r = ''to '' @ v \<and> policyRuleRollback r = \<lparr>pr_priority = prp_priority r, pr_from = [], pr_to = v,
       pr_table = prp_table r, pr_mark = [], pr_owner = OwnerPolicyRule\<rparr> \<or>
     prp_selector r = ''fwmark '' @ v \<and> parse_uint0 32 v \<noteq> None \<and>
       policyRuleRollback r = \<lparr>pr_priority = prp_priority r, pr_from = [], pr_to = [],
         pr_table = prp_table r, pr_mark = v, pr_owner = OwnerPolicyRule\<rparr>"
    using rule_rollback [OF c] by (auto simp: word_text_def)
  from form have prio: "pr_priority (policyRuleRollback r) = prp_priority r" by auto
  with v have range: "0 < prp_priority r" "prp_priority r < 32766"
    by (auto simp: rawPolicyRuleRollbackEntryValid_def split: if_splits)
  then have num: "itoa_int (prp_priority r) = itoa (nat (prp_priority r))"
    "atoi (itoa (nat (prp_priority r))) = Some (prp_priority r)"
    by (simp_all add: itoa_int_def atoi_itoa)
  have split: "Prelude.fields (''priority '' @ itoa n @ '' '' @ k @ '' '' @ v @ '' lookup '' @ prp_table r) =
      [''priority'', itoa n, k, v, ''lookup'', prp_table r]" if "plain k" "k \<noteq> []" for n k
    using fields_word [of "''priority''"] fields_word [of "itoa n"] fields_word [OF that] fields_word [OF w]
      fields_word [of "''lookup''"] fields_plain [OF t] by simp
  from form show ?thesis
    using split [of "''from''" "nat (prp_priority r)"] split [of "''to''" "nat (prp_priority r)"]
      split [of "''fwmark''" "nat (prp_priority r)"]
    by (elim disjE conjE; simp add: desiredPolicyRuleRollback_def wanted_rule_def policyRuleTarget_def num
        ownedRollbackMetadata_def)
qed

lemma rules_agree:
  assumes plan: "recordable plan" and rec: "recorded plan rs tx" and want: "desired_for plan d"
  shows "within_plan (map policyRuleRollbackKey (rb_policy_rules (tx_rollback tx))) (desiredPolicyRuleCounter (pl_steps d))"
proof -
  note m = recorded_members [OF rec]
  have "List.map_filter desiredPolicyRuleRollback xs =
      List.map_filter desiredPolicyRuleRollback (filter (\<lambda>s. ps_kind s = ''policy-rule'') xs)" for xs
    by (induction xs) (simp_all add: List.map_filter_def desiredPolicyRuleRollback_def)
  then have "List.map_filter desiredPolicyRuleRollback (pl_steps d) =
      List.map_filter desiredPolicyRuleRollback (map wanted_rule (rules_of plan))"
    using want by (metis (mono_tags, lifting) desired_for_def desired_rules)
  also have "\<dots> = map policyRuleRollback (rules_of plan)"
  proof -
    have "\<forall>r\<in>set (rules_of plan). desiredPolicyRuleRollback (wanted_rule r) = Some (policyRuleRollback r)"
      using recordable_sound [OF plan, of "RuleRes r" for r] wanted_rule_parsed by auto
    then show ?thesis by (induction "rules_of plan") (simp_all add: List.map_filter_def)
  qed
  finally show ?thesis
    using mset_of_distinct [OF m(3,4)]
    by (simp add: within_plan_def recorded_lists [OF rec] desiredPolicyRuleCounter_def image_mset_subseteq_mono comp_def)
qed

lemma others_agree:
  assumes plan: "recordable plan" and rec: "recorded plan rs tx" and want: "desired_for plan d"
  shows "within_plan (map dnsRollbackKey (rb_dns (tx_rollback tx))) (desiredDNSCounter (pl_dns d))"
    "within_plan (map nftRollbackKey (rb_nftables (tx_rollback tx))) (desiredNFTCounter (pl_nft d))"
proof -
  note m = recorded_members(5) [OF rec]
  have "DnsRes \<in> set rs \<Longrightarrow> word_text (dpl_target_link (tp_dns plan))"
    "FirewallRes \<in> set rs \<Longrightarrow> fwp_family (tp_firewall plan) = ''inet'' \<and> fwp_table (tp_firewall plan) = ''podlaz''"
    using m recordable_sound [OF plan] by (metis sound.simps(4), metis sound.simps(5))
  then show "within_plan (map dnsRollbackKey (rb_dns (tx_rollback tx))) (desiredDNSCounter (pl_dns d))"
    "within_plan (map nftRollbackKey (rb_nftables (tx_rollback tx))) (desiredNFTCounter (pl_nft d))"
    using want
    by (simp_all add: within_plan_def recorded_lists [OF rec] desiredDNSCounter_def desiredNFTCounter_def desired_for_def
        Let_def desiredPlanFromTunPlan_def ownedRollbackMetadata_def word_trim word_text_def dnsRollbackKey_def dns_entry_def
        nftRollbackKey_def nft_rollback_of_def nft_entry_def normalizedRollbackOwner_def)
qed

lemma recorded_agrees:
  "recordable plan \<Longrightarrow> recorded plan rs tx \<Longrightarrow> desired_for plan d \<Longrightarrow> agrees_with_plan d (tx_rollback tx)"
  using routes_agree rules_agree others_agree by (simp add: agrees_with_plan_def)

section \<open>No reason against the record\<close>

lemma entry_reasons_valid: "list_all valid items \<Longrightarrow> entry_reasons what valid items = []"
  by (auto simp: entry_reasons_def list_all_iff in_set_enumerate_eq)

lemma recorded_raw_entries:
  assumes plan: "recordable plan" and rec: "recorded plan rs tx"
  shows "rawRollbackMetadataReasons (tx_rollback tx) = []"
proof -
  have s: "x \<in> set rs \<Longrightarrow> sound plan x" for x
    using recorded_members(5) [OF rec] recordable_sound [OF plan] by blast
  have "list_all rawTUNAddressRollbackEntryValid (rb_tun_addresses (tx_rollback tx))"
    using s [of AddressRes] by (simp add: recorded_lists [OF rec])
  moreover have "list_all rawRouteRollbackEntryValid (rb_routes (tx_rollback tx))"
    using s [of "RouteRes r" for r] by (auto simp: recorded_lists [OF rec] list_all_iff in_set)
  moreover have "list_all rawPolicyRuleRollbackEntryValid (rb_policy_rules (tx_rollback tx))"
    using s [of "RuleRes r" for r] by (auto simp: recorded_lists [OF rec] list_all_iff in_set)
  moreover have "list_all rawDNSRollbackEntryValid (rb_dns (tx_rollback tx))"
    using s [of DnsRes] by (simp add: recorded_lists [OF rec])
  moreover have "list_all rawNFTablesRollbackEntryValid (rb_nftables (tx_rollback tx))"
    using s [of FirewallRes]
    by (simp add: recorded_lists [OF rec] rawNFTablesRollbackEntryValid_def nft_entry_def ownedRollbackMetadata_def
        isManagedNFTTarget_def)
  moreover have "list_all rawTUNRollbackEntryValid (rb_tun (tx_rollback tx))" by (simp add: recorded_lists [OF rec])
  ultimately show ?thesis
    by (simp add: rawRollbackMetadataReasons_def entry_reasons_valid compactReasonStrings_def)
qed

lemma one_wanted_route:
  assumes plan: "recordable plan" and r: "planned plan (RouteRes r)"
  shows "length (filter (\<lambda>p. desired_route p \<and> routeTarget r = routeRollbackTarget (bypass_route_of p))
    (concat (map desired_route_of (tp_routes plan)))) = 1"
proof -
  have "filter (\<lambda>p. desired_route p \<and> routeTarget r = routeRollbackTarget (bypass_route_of p))
        (concat (map desired_route_of (tp_routes plan))) =
      filter (\<lambda>p. routeTarget r = routeRollbackTarget (bypass_route_of p))
        (filter desired_route (concat (map desired_route_of (tp_routes plan))))"
    by (simp add: conj_commute)
  also have "\<dots> = map wanted_route (filter (\<lambda>q. routeTarget r = routeRollbackTarget (route_rollback_of q)) (adds_of plan))"
    by (simp add: desired_routes filter_map comp_def)
  also have "filter (\<lambda>q. routeTarget r = routeRollbackTarget (route_rollback_of q)) (adds_of plan) =
      filter (\<lambda>q. routeTarget q = routeTarget r) (adds_of plan)"
    using recordable_sound [OF plan, of "RouteRes q" for q] route_target_of by (intro filter_cong) auto
  also have "\<dots> = filter (\<lambda>q. IsTunAddAction (trp_action q)) (filter (\<lambda>q. routeTarget q = routeTarget r) (tp_routes plan))"
    by (simp add: conj_commute)
  also have "\<dots> = [r]" using r recordable_targets(1) [OF plan, of r] by (auto simp del: filter_filter)
  finally show ?thesis by simp
qed

lemma one_wanted_rule:
  assumes plan: "recordable plan" and r: "planned plan (RuleRes r)" and want: "desired_for plan d"
  shows "desiredAppliedStepTargetCount (pl_steps d) ''policy-rule'' (policyRuleTarget r) OwnerPolicyRule = 1"
proof -
  have trim: "trim_space (policyRuleTarget q) = policyRuleTarget q" if "planned plan (RuleRes q)" for q
    using resource_targets_trim [OF recordable_sound [OF plan that]] by simp
  have "filter (\<lambda>s. ps_kind s = ''policy-rule'' \<and> trim_space (ps_target s) = trim_space (policyRuleTarget r) \<and>
        ownedRollbackMetadata (ps_owner s) OwnerPolicyRule) (pl_steps d) =
      filter (\<lambda>s. trim_space (ps_target s) = policyRuleTarget r \<and> ownedRollbackMetadata (ps_owner s) OwnerPolicyRule)
        (filter (\<lambda>s. ps_kind s = ''policy-rule'') (pl_steps d))"
    by (auto simp: trim [OF r] intro: filter_cong)
  also have "\<dots> = map wanted_rule (filter (\<lambda>q. policyRuleTarget q = policyRuleTarget r) (rules_of plan))"
  proof -
    have "filter (\<lambda>s. ps_kind s = ''policy-rule'') (pl_steps d) = map wanted_rule (rules_of plan)"
      using want by (simp add: desired_for_def desired_rules Let_def)
    then show ?thesis
      using trim trim [OF r] by (auto simp: filter_map comp_def wanted_rule_def ownedRollbackMetadata_def
          intro!: arg_cong [of _ _ "map wanted_rule"] filter_cong)
  qed
  also have "filter (\<lambda>q. policyRuleTarget q = policyRuleTarget r) (rules_of plan) =
      filter (\<lambda>q. IsTunAddAction (prp_action q)) (filter (\<lambda>q. policyRuleTarget q = policyRuleTarget r) (tp_rules plan))"
    by (simp add: conj_commute)
  also have "\<dots> = [r]" using r recordable_targets(2) [OF plan, of r] by (auto simp del: filter_filter)
  finally show ?thesis by (simp add: desiredAppliedStepTargetCount_def)
qed

lemma applied_target: "applied_id a = resource_id plan x \<Longrightarrow> as_target a = fst (snd (resource_id plan x))"
  by (metis applied_id_def fst_conv snd_conv)

lemma resource_mapped:
  assumes plan: "recordable plan" and x: "planned plan x" and a: "applied_id a = resource_id plan x"
    and want: "desired_for plan d"
  shows "rawAppliedStepTargetHasDesiredMapping d a"
proof -
  note sound = recordable_sound [OF plan x]
  from resource_targets_trim [OF sound] have trim: "trim_space (as_target a) = as_target a"
    by (simp add: applied_target [OF a])
  note defs = rawAppliedStepTargetHasDesiredMapping_def applied_id_def trim
  show ?thesis
  proof (cases x)
    case AddressRes
    with resource_targets_trim [OF sound] have t: "trim_space (tunAddressTarget (tp_address plan)) = tunAddressTarget (tp_address plan)"
      by simp
    from AddressRes sound a want show ?thesis
      by (simp add: defs t desired_for_def desiredPlanFromTunPlan_def Let_def tunAddressDesiredState_def word_trim
          word_text_def address_rollback_of_def tunAddressRollbackState_def tunAddressRollbackTarget_def)
        (simp add: tunAddressTarget_def)
  next
    case (RouteRes r)
    with a want one_wanted_route [OF plan x [unfolded RouteRes]] resource_targets_trim [OF sound] show ?thesis
      by (simp add: defs desired_for_def desiredPlanFromTunPlan_def Let_def)
  next
    case (RuleRes r)
    with a one_wanted_rule [OF plan x [unfolded RuleRes] want] resource_targets_trim [OF sound] show ?thesis
      by (simp add: defs)
  next
    case DnsRes
    with sound resource_targets_trim [OF sound] a want show ?thesis
      by (simp add: defs desired_for_def desiredPlanFromTunPlan_def Let_def ownedRollbackMetadata_def word_trim)
  next
    case FirewallRes
    with sound a want show ?thesis
      by (simp add: defs desired_for_def desiredPlanFromTunPlan_def Let_def ownedRollbackMetadata_def firewallTarget_def
          nftRollbackTarget_def nft_rollback_of_def rawNFTablesRollbackEntryValid_def isManagedNFTTarget_def)
  qed
qed

lemma resource_no_reason:
  assumes plan: "recordable plan" and x: "planned plan x" and a: "applied_id a = resource_id plan x"
    and want: "desired_for plan d"
  shows "applied_step_reasons quote d i a = ([], True)"
proof -
  from resource_targets_trim [OF recordable_sound [OF plan x]]
  have t: "trim_space (as_target a) \<noteq> []" by (simp add: applied_target [OF a])
  have kind: "trim_space (as_kind a) = as_kind a" "knownNetworkAppliedStepKind (as_kind a)"
    "ownedNetworkStepOwner (as_kind a) (as_owner a)"
    using a applied_of_resource(1) [OF a] by (cases x; simp add: applied_id_def networkAppliedStep_def)+
  then show ?thesis
    using t resource_mapped [OF assms] by (simp add: applied_step_reasons_def rawAppliedStepLooksNetworkOwned_def Let_def)
qed

lemma enumerate_map: "map (\<lambda>(i, x). f x) (List.enumerate n xs) = map f xs"
  by (induction xs arbitrary: n) simp_all

lemma recorded_raw_steps:
  assumes plan: "recordable plan" and rec: "recorded plan rs tx" and want: "desired_for plan (tx_desired_plan tx)"
  shows "rawAppliedNetworkStepReasons quote tx = []"
proof -
  have ok: "applied_step_reasons quote (tx_desired_plan tx) i a = ([], True)"
    if "(i, a) \<in> set (List.enumerate 0 (tx_applied_steps tx))" for i a
  proof -
    from that have "a \<in> set (tx_applied_steps tx)" by (auto simp: in_set_enumerate_eq)
    then have "applied_id a \<in> resource_id plan ` set rs"
      using rec by (metis recorded_def image_eqI list.set_map)
    then obtain x where "x \<in> set rs" "applied_id a = resource_id plan x" by auto
    then show ?thesis using recorded_members(5) [OF rec] by (intro resource_no_reason [OF plan _ _ want])
  qed
  have no_reasons: "concat (map (\<lambda>(i, s). fst (applied_step_reasons quote (tx_desired_plan tx) i s))
      (List.enumerate 0 (tx_applied_steps tx))) = []"
    by (auto dest!: ok)
  have all: "filter (\<lambda>(i, s). snd (applied_step_reasons quote (tx_desired_plan tx) i s))
      (List.enumerate 0 (tx_applied_steps tx)) = List.enumerate 0 (tx_applied_steps tx)"
    by (auto simp: filter_id_conv dest!: ok)
  have "mset (map raw_applied_key (tx_applied_steps tx)) = mset (rollback_keys (tx_rollback tx))"
    using recorded_applied [OF rec] recorded_keys [OF plan rec] by simp
  then have "stringCounterEqual (counter_of (map raw_applied_key (tx_applied_steps tx)))
      (counter_of (rollback_keys (tx_rollback tx)))"
    by (simp only: counter_of_equal_iff)
  then show ?thesis
    unfolding rawAppliedNetworkStepReasons_def Let_def no_reasons all enumerate_map
    by (simp add: stringCounterEqual_def rollbackNetworkStepCounter_def compactReasonStrings_def)
qed

lemma recorded_consistent:
  assumes "recordable plan" and "recorded plan rs tx" and "desired_for plan (tx_desired_plan tx)"
    and "tx_state tx \<noteq> TransactionPlanned"
  shows "rollbackOwnershipConsistencyReasons quote tx (tx_rollback tx) = []"
  unfolding consistency_iff
  using assms recorded_keys recorded_agrees recorded_raw_steps [OF assms(1-3)] recorded_raw_entries
  by (simp add: rawTransactionNetworkOwnershipReasons_def compactReasonStrings_def)

end
