(* ===== verification/Tun_Journal.thy ===== *)
theory Tun_Journal
  imports Tun_Record Transaction_Facts
begin

text \<open>
  The record of a session while its plan is applied.  A host that hands every step to a journal keeps every
  invariant of the journal: the interface is the locale \<open>recording_host\<close>, its client the apply of a whole
  plan, its instance the daemon with its transaction directory.  The invariant is the refinement of
  \<open>Tun_Record\<close>, so that whatever fails, the record on disk passes the consistency check of recovery.
\<close>

section \<open>Invariants of programs\<close>

definition stays :: "('s \<Rightarrow> bool) \<Rightarrow> ('s, 'e, 'a) prog \<Rightarrow> bool" where
  "stays I m \<longleftrightarrow> (\<forall>s s' r. I s \<longrightarrow> m s = (s', r) \<longrightarrow> I s')"

named_theorems stay \<open>rules for \<open>stays\<close>\<close>

lemma staysI: "(\<And>s s' r. I s \<Longrightarrow> m s = (s', r) \<Longrightarrow> I s') \<Longrightarrow> stays I m"
  by (simp add: stays_def)

lemma staysD: "stays I m \<Longrightarrow> m s = (s', r) \<Longrightarrow> I s \<Longrightarrow> I s'"
  by (simp add: stays_def)

lemma stays_bind [stay]: "stays I m \<Longrightarrow> (\<And>x. stays I (f x)) \<Longrightarrow> stays I (bindp m f)"
  by (rule staysI) (auto elim!: bindp_cases dest: staysD)

lemma stays_basic [stay]: "stays I (ret x)" "stays I (fail e)" "stays I (liftp z)"
  by (auto simp: stays_def)

lemma stays_host [stay]: "stays I (host_peek h)" "stays I (fail_with t)" "stays I (checke c)"
  by (auto simp: stays_def host_peek_def fail_with_def checke_def split: option.splits)

lemma stays_wrapped [stay]:
  "stays I m \<Longrightarrow> stays I (tryp m)" "stays I m \<Longrightarrow> stays I (map_err q m)" "stays I n \<Longrightarrow> stays I (wrapping t n)"
  "stays I k \<Longrightarrow> stays I (with_step st k)" "stays I l \<Longrightarrow> stays I (before_apply b c l)"
  unfolding wrapping_def with_step_def before_apply_def
  by (auto simp: stays_def tryp_def map_err_def split: prod.splits sum.splits)

lemma stays_if [stay]: "stays I m \<Longrightarrow> stays I m' \<Longrightarrow> stays I (if b then m else m')"
  by simp

lemma stays_each [stay]: "(\<And>x. stays I (f x)) \<Longrightarrow> stays I (each P f xs)"
  by (induction xs) (auto intro!: stays_bind stays_basic)

lemma bind_unit: "bindp (ret x) f = f x"
  by (simp add: fun_eq_iff bindp_def ret_def)

lemma stays_each_error [stay]: "(\<And>x. stays I (f x)) \<Longrightarrow> stays I (each_error P f xs)"
  by (induction xs) (auto intro!: stays_bind stays_basic stays_wrapped)

abbreviation at :: "('w \<Rightarrow> bool) \<Rightarrow> 'w host_state \<Rightarrow> bool" where
  "at J s \<equiv> J (hs_world s)"

lemma stays_world [stay]:
  "(\<And>w. J w \<Longrightarrow> J (fst (f w))) \<Longrightarrow> stays (at J) (host_read f)"
  "(\<And>w. J w \<Longrightarrow> J (fst (f w))) \<Longrightarrow> stays (at J) (host_act a f)"
  by (auto simp: stays_def host_read_def host_act_def split: prod.splits) (metis fst_conv)+

lemma stays_nft [stay]:
  assumes "stays (\<lambda>r. J (nr_world r)) (f (ho_nft_env host) (ho_nft host))"
  shows "stays (at J) (on_nft host f)"
  using assms by (auto simp: stays_def on_nft_def split: prod.splits)

section \<open>The step an operation reports\<close>

definition reports :: "Step set \<Rightarrow> ('w, Step) step_act \<Rightarrow> bool" where
  "reports S m \<longleftrightarrow> (\<forall>s s' r. m s = (s', r) \<longrightarrow> (case r of Inl (st, e) \<Rightarrow> st | Inr st \<Rightarrow> st) \<in> S)"

lemma reportsI:
  "(\<And>s s' st e. m s = (s', Inl (st, e)) \<Longrightarrow> st \<in> S) \<Longrightarrow> (\<And>s s' st. m s = (s', Inr st) \<Longrightarrow> st \<in> S) \<Longrightarrow> reports S m"
  by (auto simp: reports_def split: sum.splits)

lemma reportsD:
  "reports S m \<Longrightarrow> m s = (s', Inl (st, e)) \<Longrightarrow> st \<in> S" "reports S m \<Longrightarrow> m s = (s', Inr st) \<Longrightarrow> st \<in> S"
  by (force simp: reports_def)+

lemma reports_ret: "st \<in> S \<Longrightarrow> reports S (ret st)"
  by (simp add: reports_def)

lemma reports_if: "reports S m \<Longrightarrow> reports S m' \<Longrightarrow> reports S (if b then m else m')"
  by simp

lemma reports_bind:
  assumes "reports S m" and "\<And>x. x \<in> S \<Longrightarrow> reports S (f x)"
  shows "reports S (bindp m f)"
  using assms by (auto intro!: reportsI elim!: bindp_cases dest: reportsD)

lemma reports_after:
  assumes "\<And>s s' st e. m s = (s', Inl (st, e)) \<Longrightarrow> st \<in> S" and "\<And>x. reports S (f x)"
  shows "reports S (bindp m f)"
  using assms(1) by (auto intro!: reportsI elim!: bindp_cases dest: reportsD [OF assms(2)])

lemma with_step_result:
  "with_step st m s = (s', Inl (st', e)) \<longleftrightarrow> st' = st \<and> m s = (s', Inl e)"
  "with_step st m s = (s', Inr x) \<longleftrightarrow> m s = (s', Inr x)"
  by (auto simp: with_step_def map_err_def split: prod.splits sum.splits)

lemma reports_step: "st \<in> S \<Longrightarrow> (\<And>s s' x. m s = (s', Inr x) \<Longrightarrow> x \<in> S) \<Longrightarrow> reports S (with_step st m)"
  by (auto intro!: reportsI simp: with_step_result)

lemma reports_err: "reports S m \<Longrightarrow> reports S (map_err (\<lambda>(st, e). (st, g e)) m)"
  by (auto intro!: reportsI simp: map_err_def split: prod.splits sum.splits dest: reportsD)

lemma reports_assign: "reports {empty_step, tunAddressStep a} (assign_address host a)"
  unfolding assign_address_def Let_def
  by (rule reports_after, simp add: with_step_result) (rule reports_step, auto simp: bindp_Inr)

lemma reported_steps:
  "reports {empty_step, tunAddressStep a} (TunAddress_Apply host a)"
  "reports {empty_step, \<lparr>st_kind = ''route'', st_target = routeTarget r, st_description = trp_reason r, st_owner = ''podlaz:route''\<rparr>}
     (Route_Add host r)"
  "reports {empty_step, \<lparr>st_kind = ''policy-rule'', st_target = ruleTarget p, st_description = prp_reason p,
     st_owner = ''podlaz:policy-rule''\<rparr>} (PolicyRule_Add host p)"
  "reports {empty_step, dns_step_of d} (Dns_Apply host n d)"
  "reports {empty_step, firewall_step_of f} (Firewall_Apply host f)"
proof -
  show "reports {empty_step, tunAddressStep a} (TunAddress_Apply host a)"
    unfolding TunAddress_Apply_def
    by (rule reports_err, rule reports_after, simp add: with_step_result,
        rule reports_bind [OF reports_if [OF reports_assign reports_ret]], simp, rule reports_step, auto simp: bindp_Inr)
  show "reports {empty_step, \<lparr>st_kind = ''route'', st_target = routeTarget r, st_description = trp_reason r,
      st_owner = ''podlaz:route''\<rparr>} (Route_Add host r)"
    unfolding Route_Add_def Let_def
    by (rule reports_after, simp add: with_step_result, intro reports_if reports_ret, simp, rule reports_after,
        simp add: with_step_result, rule reports_step, auto simp: bindp_Inr)
  show "reports {empty_step, \<lparr>st_kind = ''policy-rule'', st_target = ruleTarget p, st_description = prp_reason p,
     st_owner = ''podlaz:policy-rule''\<rparr>} (PolicyRule_Add host p)"
    unfolding PolicyRule_Add_def Let_def
    by (rule reports_after, simp add: with_step_result, intro reports_if reports_ret, simp, rule reports_after,
        simp add: with_step_result, rule reports_step, auto simp: bindp_Inr)
  show "reports {empty_step, dns_step_of d} (Dns_Apply host n d)"
    unfolding Dns_Apply_def Let_def
    by (rule reports_after, simp add: with_step_result, rule reports_step, auto simp: bindp_Inr)
  show "reports {empty_step, firewall_step_of f} (Firewall_Apply host f)"
    unfolding Firewall_Apply_def
    by (rule reports_after, simp add: host_act_def split: prod.splits, rule reports_after,
        auto simp: map_err_def intro: reports_ret split: prod.splits sum.splits)
qed

section \<open>Hosts that leave something alone\<close>

text \<open>\<open>K\<close> is a property of the world that no call of the host changes: running a command, reading the allocation
  evidence, sleeping, a netlink batch or commit, and whatever other programs do before a netlink call.\<close>

locale steady_host =
  fixes K :: "'w \<Rightarrow> bool" and host :: "'w host"
  assumes keep_run: "K w \<Longrightarrow> K (fst (ho_run host n args w))"
    and keep_evidence: "K w \<Longrightarrow> K (fst (ho_evidence host w))"
    and keep_sleep: "K w \<Longrightarrow> K (fst (ho_sleep host w))"
    and keep_between: "K w \<Longrightarrow> K (snd (ho_nft_env host k) w)"
    and keep_batch: "K w \<Longrightarrow> K (fst (nh_batch (ho_nft host) f t w))"
    and keep_commit: "K w \<Longrightarrow> K (fst (nh_commit (ho_nft host) f g cs w))"
begin

abbreviation kept :: "('w host_state, 'e, 'a) prog \<Rightarrow> bool" where
  "kept m \<equiv> stays (at K) m"

lemma stays_command [stay]:
  "kept (run_raw host name path args)" "kept (observeCommand host name args)"
  "kept (runCommand host name args)" "kept (flushIPv4RouteCache host)"
  unfolding flushIPv4RouteCache_def runCommand_def observeCommand_def run_raw_def
  by (auto intro!: stay keep_run split: prod.splits)

lemma stays_observations [stay]:
  "kept (inspectIdentity host link)" "kept (inspectAddresses host link)"
  "kept (policyRulePriorityLines host p)" "kept (existingRouteLine host r)"
  "kept (allocatedRouteTableLines host r)" "kept (TunDevice_Verify host d)"
  unfolding inspectIdentity_def inspectAddresses_def policyRulePriorityLines_def existingRouteLine_def
    allocatedRouteTableLines_def TunDevice_Verify_def
  by (auto intro!: stay split: sum.splits)

lemma stays_fence [stay]: "kept (verifyBoundIdentityFence host plan phase up)"
  unfolding verifyBoundIdentityFence_def by (auto intro!: stay)

lemma stays_global [stay]: "kept (verifyGlobalTunAddressAllocation host plan n phase)"
  unfolding verifyGlobalTunAddressAllocation_def Let_def
  by (auto intro!: stay keep_evidence split: option.splits prefix.splits addr.splits sum.splits)

lemma stays_address [stay]:
  "kept (verifyAddressPresence host plan n phase)" "kept (TunAddress_Verify host plan)"
  unfolding verifyAddressPresence_def TunAddress_Verify_def by (auto intro!: stay split: prod.splits option.splits)

lemma stays_address_apply [stay]: "kept (TunAddress_Apply host plan)"
  unfolding TunAddress_Apply_def assign_address_def Let_def by (auto intro!: stay split: prod.splits)

lemma stays_table [stay]:
  "kept (verifyAllocatedRoutingTableAuthority host r n)" "kept (verifyExclusiveAllocatedRouteTable host r)"
  "kept (verifyExclusivePolicyRulePriority host p)"
  unfolding verifyAllocatedRoutingTableAuthority_def verifyExclusiveAllocatedRouteTable_def
    verifyExclusivePolicyRulePriority_def Let_def
  by (auto intro!: stay keep_evidence split: option.splits sum.splits list.splits)

lemma stays_add [stay]: "kept (Route_Add host r)" "kept (PolicyRule_Add host p)"
  unfolding Route_Add_def PolicyRule_Add_def route_precheck_def rule_precheck_def Let_def by (auto intro!: stay)

lemma stays_device [stay]: "kept (device_phase host d)"
  unfolding device_phase_def Let_def by (auto intro!: stay)

lemma stays_ownership [stay]: "kept (observe_ownership host link)" "kept (CheckDefaultDNSOwnership host link)"
  unfolding observe_ownership_def CheckDefaultDNSOwnership_def by (auto intro!: stay split: sum.splits)

lemma stays_resolved [stay]: "kept (resolved_apply_attempts host args k)"
  by (induction k) (auto intro!: stay keep_sleep split: sum.splits option.splits)

lemma stays_revert [stay]: "kept (revert_unless_missing host link t)"
  unfolding revert_unless_missing_def by (auto intro!: stay split: sum.splits)

lemma stays_dns_apply [stay]: "kept (Dns_Apply host n d)"
  unfolding Dns_Apply_def runResolvedApplyCommand_def Let_def by (auto intro!: stay)

lemma stays_mutation:
  assumes "\<And>f w. K w \<Longrightarrow> K (fst (q f w))"
  shows "stays (\<lambda>r. K (nr_world r)) (host_mutation (ho_nft_env host) q)"
  using keep_between assms by (auto simp: stays_def host_mutation_def Let_def split: prod.splits) (metis fst_conv)

lemma stays_query: "stays (\<lambda>r. K (nr_world r)) (host_query (ho_nft_env host) q)"
  using keep_between by (auto simp: stays_def host_query_def Let_def)

lemma stays_firewall [stay]: "kept (Firewall_Apply host f)"
  unfolding Firewall_Apply_def NftablesApply_def check_def
  by (auto intro!: stay stays_mutation keep_batch split: option.splits)

lemma stays_dns_verify [stay]: "kept (Dns_Verify host n d)"
proof -
  have "kept (verify_attempts host link d k)" for link k
    by (induction k)
      (auto intro!: stay keep_sleep simp: verifyResolvedDNSOnce_def Let_def split: sum.splits option.splits list.splits)
  then show ?thesis unfolding Dns_Verify_def by (auto intro!: stay)
qed

lemma stays_resource_verify [stay]:
  "kept (Route_Verify host r)" "kept (PolicyRule_Verify host p)" "kept (Firewall_Verify host f)"
  unfolding Route_Verify_def PolicyRule_Verify_def Firewall_Verify_def NftablesVerify_def check_def
  by (auto intro!: stay stays_query split: option.splits prod.splits)

lemma stays_validate [stay]: "kept (DnsTun_validate host plan)"
  unfolding DnsTun_validate_def by (auto intro!: stay)

lemma stays_verify [stay]: "kept (DnsTun_Verify host n plan)"
  unfolding DnsTun_Verify_def Tun_Verify_def by (intro stay)

subsection \<open>Rollback\<close>

lemma stays_unless_missing [stay]: "kept (run_unless_missing host args t)"
  unfolding run_unless_missing_def by (auto intro!: stay split: sum.splits)

lemma stays_delete [stay]: "kept (Route_Rollback host r)" "kept (PolicyRule_Rollback host p)"
  unfolding Route_Rollback_def PolicyRule_Rollback_def deletePolicyRule_def Let_def by (auto intro!: stay)

lemma stays_address_rollback [stay]:
  "kept (TunAddress_Rollback host a)" "kept (TunAddress_VerifyRollbackIdentity host a)"
  unfolding TunAddress_Rollback_def TunAddress_VerifyRollbackIdentity_def Let_def
  by (auto intro!: stay split: sum.splits)

lemma stays_device_rollback [stay]: "kept (TunDevice_VerifyRollbackIdentity host d)"
  unfolding TunDevice_VerifyRollbackIdentity_def inspectCreationProof_def
  by (auto intro!: stay split: option.splits)

lemma stays_observe [stay]:
  "stays (\<lambda>r. K (nr_world r)) (observe_attempts (ho_nft_env host) (ho_nft host) family table plan k)"
  by (induction k) (auto intro!: stays_bind stays_basic stays_query
      simp: generation_def observeNftTablePresence_def list_table_def check_def split: option.splits)

lemma stays_firewall_rollback [stay]: "kept (Firewall_Rollback host f)"
proof -
  have "stays (\<lambda>r. K (nr_world r)) (NftablesRollback (ho_nft_env host) (ho_nft host) f)"
    unfolding NftablesRollback_def observeVerifiedNftTableForMutation_def realNftRemoveTable_def observeNftTablePresence_def
      check_def
    by (auto intro!: stays_bind stays_basic stays_query stays_mutation stays_observe keep_commit split: option.splits prod.splits)
  then have "kept (rollback_table host f)"
    by (auto simp: stays_def rollback_table_def on_nft_def split: prod.splits)
  then show ?thesis unfolding Firewall_Rollback_def by (rule stay)
qed

lemma stays_rollback_identity [stay]: "kept (Tun_VerifyRollbackIdentity host plan)"
  unfolding Tun_VerifyRollbackIdentity_def by (auto intro!: stay)

lemma stays_rollback [stay]: "kept (DnsTun_Rollback host plan)"
  unfolding DnsTun_Rollback_def Dns_Rollback_def Tun_Rollback_def Let_def by (auto intro!: stay)

lemma stays_independent [stay]: "kept (rollbackIndependentRollback host plan)"
  unfolding rollbackIndependentRollback_def RollbackIndependent_def by (auto intro!: stay)

lemma stays_resource_scoped [stay]:
  "kept (RollbackResourceScoped host plan)" "kept (RollbackResourceScopedChildAbsent host plan)"
  unfolding RollbackResourceScoped_def RollbackResourceScopedChildAbsent_def by (auto intro!: stay split: sum.splits)

end

section \<open>Hosts that keep a journal\<close>

text \<open>\<open>J durable steps\<close> says that the journal accounts for the steps, on disk when \<open>durable\<close> holds.  No call touches
  the journal but the callback, which enters the steps it is meant for; after an error they need not be on disk.\<close>

locale recording_host =
  fixes J :: "bool \<Rightarrow> Step list \<Rightarrow> 'w \<Rightarrow> bool" and host :: "'w host" and expected :: "Step \<Rightarrow> bool"
  assumes steady: "steady_host (J c sts) host"
    and enter: "J c sts w \<Longrightarrow> expected st \<Longrightarrow> ho_sink host st w = (w', r) \<Longrightarrow> J (c \<and> r = None) (sts @ [st]) w'"
    and weaken: "J True sts w \<Longrightarrow> J False sts w"

sublocale recording_host \<subseteq> calls: steady_host "J c sts" host for c sts
  by (rule steady)

context recording_host
begin

subsection \<open>The apply of a plan\<close>

text \<open>A program that starts with the journal durable up to \<open>sts\<close> and ends with the steps of its result.\<close>

definition journals :: "Step list \<Rightarrow> ('w, Step list) apply_act \<Rightarrow> bool" where
  "journals sts m \<longleftrightarrow>
     (\<forall>s s' r. J True sts (hs_world s) \<longrightarrow> m s = (s', r) \<longrightarrow>
        (case r of Inl f \<Rightarrow> J False (af_steps f) (hs_world s') | Inr sts' \<Rightarrow> J True sts' (hs_world s')))"

lemma journals_ret: "journals sts (ret sts)"
  by (simp add: journals_def)

lemma journals_bind:
  assumes "journals sts m" and "\<And>sts'. journals sts' (f sts')"
  shows "journals sts (bindp m f)"
  unfolding journals_def
proof (intro allI impI)
  fix s s' r
  assume J: "J True sts (hs_world s)" and "bindp m f s = (s', r)"
  from this(2) show "case r of Inl f \<Rightarrow> J False (af_steps f) (hs_world s') | Inr sts' \<Rightarrow> J True sts' (hs_world s')"
  proof (cases rule: bindp_cases)
    case (1 e)
    with assms(1) J show ?thesis by (fastforce simp: journals_def)
  next
    case (2 s1 x)
    with assms(1) J have "J True x (hs_world s1)" by (fastforce simp: journals_def)
    with 2 assms(2) [of x] show ?thesis by (fastforce simp: journals_def)
  qed
qed

lemma journals_before:
  assumes "\<And>c. stays (at (J c sts)) m" and "\<And>u. journals sts (f u)"
  shows "journals sts (bindp (before_apply subphase sts m) f)"
  unfolding journals_def
proof (intro allI impI)
  fix s s' r
  assume J: "J True sts (hs_world s)" and "bindp (before_apply subphase sts m) f s = (s', r)"
  from this(2) show "case r of Inl f \<Rightarrow> J False (af_steps f) (hs_world s') | Inr sts' \<Rightarrow> J True sts' (hs_world s')"
  proof (cases rule: bindp_cases)
    case (1 e)
    then obtain e' where "m s = (s', Inl e')" "e = \<lparr>af_steps = sts, af_subphase = subphase, af_error = e'\<rparr>"
      by (auto simp: before_apply_def map_err_def split: prod.splits sum.splits)
    with 1 staysD [OF assms(1) _ weaken [OF J]] show ?thesis by simp
  next
    case (2 s1 x)
    then have "m s = (s1, Inr x)" by (auto simp: before_apply_def map_err_def split: prod.splits sum.splits)
    then have "J True sts (hs_world s1)" using staysD [OF assms(1)] J by blast
    with 2 assms(2) [of x] show ?thesis by (fastforce simp: journals_def)
  qed
qed

lemma journals_recorded:
  assumes "\<And>c. stays (at (J c sts)) m" and "reports {empty_step, st} m" and "expected st"
  shows "journals sts (apply_recorded host True subphase sts m)"
  unfolding journals_def
proof (intro allI impI)
  fix s s' q
  assume J: "J True sts (hs_world s)" and run: "apply_recorded host True subphase sts m s = (s', q)"
  obtain s1 r where m: "m s = (s1, r)" by fastforce
  with staysD [OF assms(1) m] J have J1: "J True sts (hs_world s1)" by blast
  let ?st = "case r of Inl (step, e) \<Rightarrow> step | Inr step \<Rightarrow> step"
  have st: "?st = empty_step \<or> ?st = st" using assms(2) m by (auto simp: reports_def)
  show "case q of Inl f \<Rightarrow> J False (af_steps f) (hs_world s') | Inr sts' \<Rightarrow> J True sts' (hs_world s')"
  proof (cases "trim_space (st_kind ?st) = []")
    case True
    with run J1 weaken [OF J1] show ?thesis
      by (auto simp: apply_recorded_def recordAppliedStep_def tryp_def bindp_def ret_def fail_def m
          split: sum.splits prod.splits)
  next
    case False
    with st have "?st = st" by (auto simp: empty_step_def)
    obtain w' p where sink: "ho_sink host st (hs_world s1) = (w', p)" by fastforce
    have J2: "J (p = None) (sts @ [st]) w'" using enter [OF J1 assms(3) sink] by simp
    then have J3: "J False (sts @ [st]) w'" using weaken by (cases p) simp_all
    have s': "hs_world s' = w' \<and> (case q of Inl f \<Rightarrow> af_steps f = sts @ [st] | Inr sts' \<Rightarrow> sts' = sts @ [st] \<and> p = None)"
      using run False \<open>?st = st\<close> sink
      by (cases r; cases p) (auto simp: apply_recorded_def recordAppliedStep_def tryp_def bindp_def ret_def fail_def m host_act_def)
    with J2 J3 show ?thesis by (cases q) auto
  qed
qed

lemma journals_each:
  assumes "\<And>sts x. x \<in> set xs \<Longrightarrow> P x \<Longrightarrow> journals sts (f sts x)"
  shows "journals sts (apply_each P f xs sts)"
  using assms by (induction xs arbitrary: sts) (auto intro!: journals_ret journals_bind)

lemma apply_journals:
  assumes "\<And>x st. planned plan x \<Longrightarrow> sound plan x \<Longrightarrow> step_id st = resource_id plan x \<Longrightarrow> expected st"
    and "recordable plan"
  shows "journals [] (DnsTun_ApplyWithStepSink host attempts True plan)"
proof -
  note expect = assms(1) [OF _ recordable_sound [OF assms(2)]]
  have address: "journals [] (apply_recorded host True t [] (TunAddress_Apply host (tp_address plan)))"
    if "shouldApplyTunAddress (tp_address plan)" for t
    using that by (intro journals_recorded [OF calls.stays_address_apply reported_steps(1)] expect [of AddressRes])
      (simp_all add: step_id_def tunAddressStep_def tunAddressTarget_def OwnerTunAddress_def)
  have route: "journals sts (apply_recorded host True t sts (Route_Add host r))"
    if "r \<in> set (tp_routes plan)" "IsTunAddAction (trp_action r)" for t r sts
    using that by (intro journals_recorded [OF calls.stays_add(1) reported_steps(2)] expect [of "RouteRes r"])
      (simp_all add: step_id_def OwnerRoute_def)
  have rule: "journals sts (apply_recorded host True t sts (PolicyRule_Add host r))"
    if "r \<in> set (tp_rules plan)" "IsTunAddAction (prp_action r)" for t r sts
    using that by (intro journals_recorded [OF calls.stays_add(2) reported_steps(3)] expect [of "RuleRes r"])
      (simp_all add: step_id_def OwnerPolicyRule_def policyRuleTarget_def ruleTarget_def)
  have dns: "journals sts (apply_recorded host True t sts (Dns_Apply host attempts (tp_dns plan)))"
    if "shouldApplyDNS (tp_dns plan)" for t sts
    using that recordable_sound [OF assms(2), of DnsRes]
    by (intro journals_recorded [OF calls.stays_dns_apply reported_steps(4)] expect [of DnsRes])
      (simp_all add: step_id_def dns_step_of_def OwnerDNS_def word_trim)
  have firewall: "journals sts (apply_recorded host True t sts (Firewall_Apply host (tp_firewall plan)))"
    if "shouldApplyFirewall (tp_firewall plan)" for t sts
    using that recordable_sound [OF assms(2), of FirewallRes]
    by (intro journals_recorded [OF calls.stays_firewall reported_steps(5)] expect [of FirewallRes])
      (simp_all add: step_id_def firewall_step_of_def OwnerFirewall_def firewallTarget_def)
  have tun: "journals [] (ApplyWithStepSink host True plan)"
    unfolding ApplyWithStepSink_def before_apply_def [symmetric]
    by (intro journals_before calls.stays_device journals_bind journals_each)
      (auto intro: address route rule journals_ret)
  have owned: "journals sts (bindp (if b then before_apply t sts (CheckDefaultDNSOwnership host l) else ret ()) f)"
    if "journals sts (f ())" for b t sts l f
    using that journals_before [OF calls.stays_ownership(2), where f = f] by (cases b) (simp_all add: bind_unit)
  show ?thesis
    unfolding DnsTun_ApplyWithStepSink_def Let_def
    by (intro journals_before calls.stays_validate owned journals_bind) (auto intro: tun dns firewall journals_ret)
qed

end

section \<open>The journal of the daemon\<close>

text \<open>A record entered for a plan refines a list of its resources.\<close>

definition entered :: "TunPlan \<Rightarrow> Transaction \<Rightarrow> bool" where
  "entered plan tx \<longleftrightarrow>
     (\<exists>rs. recorded plan rs tx) \<and> desired_for plan (tx_desired_plan tx) \<and> tx_state tx \<noteq> TransactionPlanned"

abbreviation applied_ids :: "Transaction \<Rightarrow> (string \<times> string \<times> string) list" where
  "applied_ids tx \<equiv> map applied_id (tx_applied_steps tx)"

definition on_disk :: "TunPlan \<Rightarrow> string \<Rightarrow> txdir \<Rightarrow> ((string \<times> string \<times> string) list \<Rightarrow> bool) \<Rightarrow> bool" where
  "on_disk plan k dir P \<longleftrightarrow> (\<exists>tx. tx_load dir k = Some tx \<and> entered plan tx \<and> tx_id tx = k \<and> P (applied_ids tx))"

definition journal :: "TunPlan \<Rightarrow> string \<Rightarrow> bool \<Rightarrow> Step list \<Rightarrow> 'v disk \<Rightarrow> bool" where
  "journal plan k c sts d \<longleftrightarrow>
     recordable plan \<and> entered plan (dk_tx d) \<and> tx_id (dk_tx d) = k \<and> step_id ` set sts \<subseteq> set (applied_ids (dk_tx d)) \<and>
     on_disk plan k (dk_dir d) (\<lambda>ids. c \<longrightarrow> ids = applied_ids (dk_tx d))"

definition expected_step :: "TunPlan \<Rightarrow> Step \<Rightarrow> bool" where
  "expected_step plan st \<longleftrightarrow> (\<exists>x. planned plan x \<and> step_id st = resource_id plan x)"

lemma entered_prepare [simp]: "entered plan (prepare_save ev tx) = entered plan tx" "applied_ids (prepare_save ev tx) = applied_ids tx"
  by (simp_all add: prepare_save_def entered_def recorded_def)

lemma entered_step:
  assumes "recordable plan" and "entered plan tx" and "expected_step plan st" and "\<not> hasAppliedTunStep (tx_applied_steps tx) st"
  shows "entered plan (record_step plan now st tx)"
proof -
  from assms(2,3) obtain rs x where "recorded plan rs tx" "planned plan x" "step_id st = resource_id plan x"
    by (auto simp: entered_def expected_step_def)
  with assms(1,4) have "recorded plan (rs @ [x]) (record_step plan now st tx)"
    using recorded_step recorded_has by blast
  with assms(2) show ?thesis by (auto simp: entered_def record_step_def)
qed

lemma record_step_ids: "applied_ids (record_step plan now st tx) = applied_ids tx @ [step_id st]" "tx_id (record_step plan now st tx) = tx_id tx"
  by (simp_all add: record_step_def appliedStepsFromExecutor_def applied_id_def step_id_def)

lemma on_disk_mono: "on_disk plan k dir P \<Longrightarrow> (\<And>ids. P ids \<Longrightarrow> Q ids) \<Longrightarrow> on_disk plan k dir Q"
  by (auto simp: on_disk_def)

lemma Save_on_disk:
  assumes "on_disk plan k dir P" and "entered plan tx" and "tx_id tx = k" and "Save s ev dir tx = (dir', r)"
  shows "on_disk plan k dir' (\<lambda>ids. \<not> isl r \<longrightarrow> ids = applied_ids tx)"
proof -
  have dir': "dir' = fst (tx_save ev dir k (prepare_save ev tx))"
    using fst_Save [of s ev dir tx] assms(3,4) by simp
  have stored: "tx_load dir' k = Some (prepare_save ev tx)" if "\<not> isl r"
    using that assms(3,4) Save_stored(1) [of s ev dir tx dir'] by (cases r) auto
  from txs.load_save [of ev dir k "prepare_save ev tx" k]
  have "tx_load dir' k = tx_load dir k \<or> tx_load dir' k = Some (prepare_save ev tx)" unfolding dir' by blast
  then show ?thesis
  proof
    assume old: "tx_load dir' k = tx_load dir k"
    show ?thesis
    proof (cases "isl r")
      case True
      with assms(1) old show ?thesis by (auto simp: on_disk_def)
    next
      case False
      with stored assms(2,3) show ?thesis by (simp add: on_disk_def)
    qed
  next
    assume "tx_load dir' k = Some (prepare_save ev tx)"
    with assms(2,3) show ?thesis by (simp add: on_disk_def)
  qed
qed

lemma persist_journal:
  assumes J: "journal plan k c sts d" and st: "expected_step plan st" and run: "persistAppliedTunStep env plan st d = (d', r)"
  shows "journal plan k (c \<and> r = None) (sts @ [st]) d'"
proof -
  from st have own: "length (filterOwnedAppliedSteps plan [st]) = 1"
    using J owned_step by (auto simp: journal_def expected_step_def)
  show ?thesis
  proof (cases "hasAppliedTunStep (tx_applied_steps (dk_tx d)) st")
    case True
    with J run own show ?thesis by (auto simp: persistAppliedTunStep_def journal_def has_applied_iff elim: on_disk_mono)
  next
    case False
    let ?tx = "record_step plan (disk_now env d) st (dk_tx d)"
    have ent: "entered plan ?tx" using J st False entered_step by (auto simp: journal_def)
    obtain dir' q where save: "Save (tv_store env) (tv_saves env (dk_tick d)) (dk_dir d) ?tx = (dir', q)" by fastforce
    have disk: "on_disk plan k dir' (\<lambda>ids. \<not> isl q \<longrightarrow> ids = applied_ids ?tx)"
    proof (rule Save_on_disk [OF _ ent _ save])
      show "on_disk plan k (dk_dir d) (\<lambda>ids. c \<longrightarrow> ids = applied_ids (dk_tx d))" "tx_id ?tx = k"
        using J by (simp_all add: journal_def record_step_ids)
    qed
    have d': "d' = d\<lparr>dk_tx := ?tx, dk_dir := dir', dk_tick := Suc (dk_tick d)\<rparr>" "r = None \<Longrightarrow> \<not> isl q"
      using run own False save
      by (auto simp: persistAppliedTunStep_def disk_save_def lift_store_def Let_def split: sum.splits)
    with J ent disk show ?thesis
      by (auto simp: journal_def record_step_ids elim: on_disk_mono)
  qed
qed

lemma journal_world [simp]: "journal plan k c sts (d\<lparr>dk_world := w\<rparr>) = journal plan k c sts d"
  by (simp add: journal_def)

text \<open>Only the callback and the store of the daemon touch its part of the world.\<close>

definition own_part :: "('v disk \<Rightarrow> bool) \<Rightarrow> bool" where
  "own_part K \<longleftrightarrow> (\<forall>d w. K (d\<lparr>dk_world := w\<rparr>) = K d)"

lemma own_part_steady: "own_part K \<Longrightarrow> steady_host K (tun_host env plan)"
  by unfold_locales
    (auto simp: own_part_def tun_host_def disk_host_def disk_nft_def on_world_def split: prod.splits)

interpretation tj: recording_host "journal plan k" "tun_host env plan" "expected_step plan" for plan k env
proof (rule recording_host.intro)
  show "steady_host (journal plan k c sts) (tun_host env plan)" for c sts
    by (rule own_part_steady) (simp add: own_part_def)
next
  show "journal plan k (c \<and> r = None) (sts @ [st]) w'"
    if "journal plan k c sts w" "expected_step plan st" "ho_sink (tun_host env plan) st w = (w', r)" for c sts w st w' r
    using that by (simp add: tun_host_def disk_host_def persist_journal)
next
  show "journal plan k False sts w" if "journal plan k True sts w" for sts w
    using that by (auto simp: journal_def elim: on_disk_mono)
qed

section \<open>The transaction of a session\<close>

lemma entered_consistent:
  "recordable plan \<Longrightarrow> entered plan tx \<Longrightarrow> rollbackOwnershipConsistencyReasons quote tx (tx_rollback tx) = []"
  by (auto simp: entered_def intro: recorded_consistent)

lemma journal_fewer: "journal plan k c sts d \<Longrightarrow> set sts' \<subseteq> set sts \<Longrightarrow> c' \<longrightarrow> c \<Longrightarrow> journal plan k c' sts' d"
  unfolding journal_def by (auto elim: on_disk_mono)

lemma journal_expected:
  assumes "journal plan k c sts d" and "st \<in> set sts"
  shows "expected_step plan st"
proof -
  from assms(1) obtain rs where rs: "recorded plan rs (dk_tx d)" by (auto simp: journal_def entered_def)
  then have "set (applied_ids (dk_tx d)) = resource_id plan ` set rs" by (metis recorded_def list.set_map)
  with assms obtain x where "x \<in> set rs" "step_id st = resource_id plan x" by (auto simp: journal_def)
  with rs show ?thesis by (auto simp: expected_step_def recorded_def list_all_iff)
qed

lemma transition_journal:
  assumes J: "journal plan k c sts (hs_world s)" and state: "next \<noteq> TransactionPlanned"
    and run: "transition_tx env k next s = (s', r)"
  shows "journal plan k c sts (hs_world s')"
proof -
  let ?d = "hs_world s"
  obtain dir' q where st: "StoreTransition (tv_store env) (tv_saves env (dk_tick ?d)) (dk_dir ?d) k next = (dir', q)"
    by fastforce
  from J obtain tx where tx: "tx_load (dk_dir ?d) k = Some tx" "entered plan tx" "tx_id tx = k"
      "c \<longrightarrow> applied_ids tx = applied_ids (dk_tx ?d)"
    by (auto simp: journal_def on_disk_def)
  have "on_disk plan k dir' (\<lambda>ids. c \<longrightarrow> ids = applied_ids (dk_tx ?d))"
  proof (cases "dir' = dk_dir ?d")
    case True
    with J show ?thesis by (simp add: journal_def)
  next
    case False
    let ?tx = "tx\<lparr>tx_state := next, tx_updated_at := or_now (ev_now (tv_saves env (dk_tick ?d))) (ev_now (tv_saves env (dk_tick ?d)))\<rparr>"
    from False st tx(1) have "dir' = fst (Save (tv_store env) (tv_saves env (dk_tick ?d)) (dk_dir ?d) ?tx)"
      by (auto simp: StoreTransition_def TransitionTx_def Load_iff split: sum.splits prod.splits if_splits)
    then have dir': "dir' = fst (tx_save (tv_saves env (dk_tick ?d)) (dk_dir ?d) k (prepare_save (tv_saves env (dk_tick ?d)) ?tx))"
      using tx(3) by (simp add: fst_Save)
    have "entered plan ?tx" using tx(2) state by (simp add: entered_def recorded_def)
    with txs.load_save [of "tv_saves env (dk_tick ?d)" "dk_dir ?d" k "prepare_save (tv_saves env (dk_tick ?d)) ?tx" k] tx
    show ?thesis unfolding dir' on_disk_def by auto
  qed
  with J run st show ?thesis
    by (auto simp: transition_tx_def disk_transition_def bindp_def host_read_def journal_def)
qed

lemma liftp_run: "liftp q s = (s, q)"
  by (simp add: liftp_def ret_def fail_def split: sum.splits)

lemma get_tx_run: "bindp get_tx f s = f (dk_tx (hs_world s)) s"
  by (simp add: get_tx_def bindp_def host_peek_def)

lemma act_run: "bindp (host_act a f) g s = (case f (hs_world s) of (w, x) \<Rightarrow> g x (add_trace a (set_world w s)))"
  by (simp add: bindp_def host_act_def split: prod.splits)

lemma load_result: "load_tx env k s = (s', Inr tx) \<Longrightarrow> s' = s \<and> tx_load (dk_dir (hs_world s)) k = Some tx"
  "load_tx env k s = (s', r) \<Longrightarrow> s' = s"
  by (auto simp: load_tx_def bindp_def host_peek_def lift_store_def rbind_def Load_iff liftp_def ret_def fail_def
      split: sum.splits)

lemma put_loaded:
  assumes "journal plan k True sts d" and "tx_load (dk_dir d) k = Some tx"
  shows "journal plan k True sts (d\<lparr>dk_tx := tx\<rparr>)"
  using assms by (auto simp: journal_def on_disk_def)

lemma persist_again_journal:
  assumes "each (\<lambda>s. True) (persist_again env plan) xs s = (s', r)" and "journal plan k True sts (hs_world s)"
    and "set xs \<subseteq> set sts"
  shows "journal plan k (\<not> isl r) sts (hs_world s')"
  using assms
proof (induction xs arbitrary: s)
  case Nil
  then show ?case by simp
next
  case (Cons x xs)
  have one: "journal plan k (\<not> isl q) sts (hs_world s1)" if "persist_again env plan x s = (s1, q)" for s1 q
  proof (cases "hasAppliedTunStep (tx_applied_steps (dk_tx (hs_world s))) x")
    case True
    with that have "s1 = s" by (simp add: persist_again_def get_tx_run)
    with journal_fewer [OF Cons.prems(2)] show ?thesis by simp
  next
    case False
    obtain d' p where p: "persistAppliedTunStep env plan x (hs_world s) = (d', p)" by fastforce
    have x: "expected_step plan x" using journal_expected [OF Cons.prems(2)] Cons.prems(3) by simp
    have "hs_world s1 = d' \<and> isl q = (p \<noteq> None)"
      using that False p
      by (cases p) (auto simp: persist_again_def get_tx_run act_run fail_with_def)
    with journal_fewer [OF persist_journal [OF Cons.prems(2) x p]] show ?thesis by (cases p) auto
  qed
  from Cons.prems(1) have "bindp (persist_again env plan x) (\<lambda>u. each (\<lambda>s. True) (persist_again env plan) xs) s = (s', r)"
    by simp
  then show ?case
  proof (cases rule: bindp_cases)
    case (1 e)
    with one show ?thesis by fastforce
  next
    case (2 s1 u)
    with one [of s1 "Inr u"] Cons show ?thesis by simp
  qed
qed

definition settled :: "TunPlan \<Rightarrow> string \<Rightarrow> 'v disk host_state \<Rightarrow> tun_failure + unit \<Rightarrow> bool" where
  "settled plan k s r \<longleftrightarrow>
     on_disk plan k (dk_dir (hs_world s)) (\<lambda>ids. True) \<and> (\<forall>m. r = Inl (MutationFailed m) \<longrightarrow> entered plan (me_transaction m))"

lemma settledI: "journal plan k c sts (hs_world s) \<Longrightarrow> settled plan k s (Inr u)"
  by (auto simp: settled_def journal_def elim: on_disk_mono)

lemma merge_zero: "mergeRollbackMetadata rb zero_rollback = rb"
  by (simp add: mergeRollbackMetadata_def zero_rollback_def)

lemma mutation_error_settled:
  assumes J: "journal plan k c steps (hs_world s)"
    and run: "newTunNetworkMutationError env (dk_tx (hs_world s)) (rollbackPlanFromAppliedSteps plan steps) steps phase cause s
      = (s', r)"
  shows "settled plan k s' r"
proof -
  let ?d = "hs_world s"
  let ?tx = "dk_tx ?d"
  have tx': "(if tx_applied_steps ?tx = [] then
      ?tx\<lparr>tx_applied_steps := appliedStepsFromExecutor (filterOwnedAppliedSteps (rollbackPlanFromAppliedSteps plan steps) steps) now,
         tx_rollback := mergeRollbackMetadata (tx_rollback ?tx) (rollbackMetadataFromTunPlan (rollbackPlanFromAppliedSteps plan steps))\<rparr>
      else ?tx) = ?tx" for now
  proof -
    have "steps = []" if "tx_applied_steps ?tx = []" using J that by (simp add: journal_def)
    then show ?thesis
      by (auto simp: rollbackPlanFromAppliedSteps_def bare_metadata merge_zero filterOwnedAppliedSteps_def
          appliedStepsFromExecutor_def)
  qed
  obtain dir' q where save: "Save (tv_store env) (tv_saves env (dk_tick ?d)) (dk_dir ?d) ?tx = (dir', q)" by fastforce
  have "on_disk plan k dir' (\<lambda>ids. True)"
    using J by (auto simp: journal_def intro!: on_disk_mono [OF Save_on_disk [OF _ _ _ save]])
  with J run save show ?thesis
    by (auto simp: newTunNetworkMutationError_def tx' Let_def bindp_def transactionNow_def host_peek_def save_tx_def tryp_def
        host_act_def disk_save_def lift_store_def fail_def settled_def journal_def liftp_run split: sum.splits)
qed

lemma or_mutation_settled:
  assumes run: "or_mutation_error env (rollbackPlanFromAppliedSteps plan steps) steps phase m f s = (s', r)"
    and fails: "\<And>s1 e. m s = (s1, Inl e) \<Longrightarrow> journal plan k False steps (hs_world s1)"
    and goes_on: "\<And>s1 x. m s = (s1, Inr x) \<Longrightarrow> f x s1 = (s', r) \<Longrightarrow> settled plan k s' r"
  shows "settled plan k s' r"
proof -
  obtain s1 q where m: "m s = (s1, q)" by fastforce
  show ?thesis
  proof (cases q)
    case (Inl e)
    with run m have "newTunNetworkMutationError env (dk_tx (hs_world s1)) (rollbackPlanFromAppliedSteps plan steps) steps
        phase e s1 = (s', r)"
      by (simp add: or_mutation_error_def tryp_def bindp_def [of "tryp m"] get_tx_run)
    with fails m Inl mutation_error_settled show ?thesis by blast
  next
    case (Inr x)
    with run m have "f x s1 = (s', r)" by (simp add: or_mutation_error_def tryp_def bindp_def)
    with goes_on m Inr show ?thesis by blast
  qed
qed

text \<open>Programs that start from a durable journal: \<open>carries\<close> when a failure leaves at least the record in memory,
  \<open>settles\<close> when the record on disk is entered at the end.\<close>

definition carries :: "TunPlan \<Rightarrow> string \<Rightarrow> Step list \<Rightarrow> ('v disk host_state, 'e, 'a) prog \<Rightarrow> bool" where
  "carries plan k steps m \<longleftrightarrow>
     (\<forall>s s1 q. journal plan k True steps (hs_world s) \<longrightarrow> m s = (s1, q) \<longrightarrow> journal plan k (\<not> isl q) steps (hs_world s1))"

definition settles :: "TunPlan \<Rightarrow> string \<Rightarrow> Step list \<Rightarrow> ('v, unit) tun_run \<Rightarrow> bool" where
  "settles plan k steps m \<longleftrightarrow>
     (\<forall>s s' r. journal plan k True steps (hs_world s) \<longrightarrow> m s = (s', r) \<longrightarrow> settled plan k s' r)"

lemma carries_stays: "stays (at (journal plan k True steps)) m \<Longrightarrow> carries plan k steps m"
  unfolding carries_def by (blast dest: staysD intro: journal_fewer)

lemma settles_ret: "settles plan k steps (ret u)"
  unfolding settles_def by (auto intro: settledI)

lemma settles_or:
  assumes "carries plan k steps m" and "\<And>x. settles plan k steps (f x)"
  shows "settles plan k steps (or_mutation_error env (rollbackPlanFromAppliedSteps plan steps) steps phase m f)"
  unfolding settles_def
proof (intro allI impI)
  fix s s' r
  assume J: "journal plan k True steps (hs_world s)"
    and run: "or_mutation_error env (rollbackPlanFromAppliedSteps plan steps) steps phase m f s = (s', r)"
  have j: "journal plan k (\<not> isl q) steps (hs_world s1)" if "m s = (s1, q)" for s1 q
    using assms(1) J that by (simp add: carries_def)
  from run show "settled plan k s' r"
  proof (rule or_mutation_settled)
    show "journal plan k False steps (hs_world s1)" if "m s = (s1, Inl e)" for s1 e using j [OF that] by simp
    show "settled plan k s' r" if "m s = (s1, Inr x)" "f x s1 = (s', r)" for s1 x
      using j [OF that(1)] that(2) assms(2) by (simp add: settles_def)
  qed
qed

lemma settles_load:
  assumes "settles plan k steps m"
  shows "settles plan k steps (or_mutation_error env (rollbackPlanFromAppliedSteps plan steps) steps phase (load_tx env k)
    (\<lambda>loaded. bindp (put_tx loaded) (\<lambda>u. m)))"
  unfolding settles_def
proof (intro allI impI)
  fix s s' r
  assume J: "journal plan k True steps (hs_world s)"
    and run: "or_mutation_error env (rollbackPlanFromAppliedSteps plan steps) steps phase (load_tx env k)
      (\<lambda>loaded. bindp (put_tx loaded) (\<lambda>u. m)) s = (s', r)"
  from run show "settled plan k s' r"
  proof (rule or_mutation_settled)
    show "journal plan k False steps (hs_world s1)" if "load_tx env k s = (s1, Inl e)" for s1 e
      using load_result(2) [OF that] journal_fewer [OF J] by simp
    show "settled plan k s' r" if l: "load_tx env k s = (s1, Inr loaded)" and m: "bindp (put_tx loaded) (\<lambda>u. m) s1 = (s', r)" for s1 loaded
    proof -
      have "journal plan k True steps (hs_world (set_world ((hs_world s1)\<lparr>dk_tx := loaded\<rparr>) s1))"
        using load_result(1) [OF l] put_loaded [OF J] by simp
      moreover from m have "m (set_world ((hs_world s1)\<lparr>dk_tx := loaded\<rparr>) s1) = (s', r)"
        by (simp add: put_tx_def bindp_def host_read_def)
      ultimately show ?thesis using assms unfolding settles_def by blast
    qed
  qed
qed

lemma carries_steps:
  "carries plan k steps (each (\<lambda>s. True) (persist_again env plan) steps)"
  "next \<noteq> TransactionPlanned \<Longrightarrow> carries plan k steps (transition_tx env k next)"
  "carries plan k steps (wrapping t (DnsTun_Verify (tun_host env plan) n plan))"
proof -
  show "carries plan k steps (each (\<lambda>s. True) (persist_again env plan) steps)"
    unfolding carries_def by (blast intro: persist_again_journal)
  show "carries plan k steps (transition_tx env k next)" if "next \<noteq> TransactionPlanned"
    by (rule carries_stays, rule staysI, erule (1) transition_journal [OF _ that])
  show "carries plan k steps (wrapping t (DnsTun_Verify (tun_host env plan) n plan))"
    by (rule carries_stays, rule stays_wrapped, rule tj.calls.stays_verify)
qed

lemma run_settles:
  assumes J: "journal plan k True [] (hs_world s)"
    and run: "bindp (tryp (DnsTun_ApplyWithStepSink (tun_host env plan) n True plan)) (\<lambda>r. bindp get_tx (\<lambda>tx. f r tx)) s = (s', q)"
    and fails: "\<And>af s1. journal plan k False (af_steps af) (hs_world s1) \<Longrightarrow> f (Inl af) (dk_tx (hs_world s1)) s1 = (s', q) \<Longrightarrow> settled plan k s' q"
    and goes_on: "\<And>steps s1. journal plan k True steps (hs_world s1) \<Longrightarrow> f (Inr steps) (dk_tx (hs_world s1)) s1 = (s', q) \<Longrightarrow> settled plan k s' q"
  shows "settled plan k s' q"
proof -
  obtain s1 r where applied: "DnsTun_ApplyWithStepSink (tun_host env plan) n True plan s = (s1, r)" by fastforce
  have "tj.journals plan k [] (DnsTun_ApplyWithStepSink (tun_host env plan) n True plan)"
    using J by (intro tj.apply_journals) (auto simp: expected_step_def journal_def)
  with J applied have "case r of Inl f \<Rightarrow> journal plan k False (af_steps f) (hs_world s1) | Inr sts \<Rightarrow> journal plan k True sts (hs_world s1)"
    by (simp add: tj.journals_def)
  moreover from run applied have "f r (dk_tx (hs_world s1)) s1 = (s', q)"
    by (simp add: tryp_def bindp_def [of "tryp m" for m] get_tx_run)
  ultimately show ?thesis using fails goes_on by (cases r) auto
qed

lemma recorded_fresh: "tx_applied_steps tx = [] \<Longrightarrow> net_part (tx_rollback tx) = zero_rollback \<Longrightarrow> recorded plan [] tx"
  by (simp add: recorded_def)

lemma deferred_settles:
  assumes "recordable plan" and "entered plan tx" and "tx_load (dk_dir (hs_world s)) txid = Some tx" and "tx_id tx = txid"
    and run: "applyVerifyTunTransactionDeferredRollback env txid plan s = (s', r)"
  shows "settled plan txid s' r"
proof -
  have disk: "on_disk plan txid (dk_dir (hs_world s)) (\<lambda>ids. ids = applied_ids tx)"
    using assms(2-4) by (simp add: on_disk_def)
  from run [unfolded applyVerifyTunTransactionDeferredRollback_def] show ?thesis
  proof (cases rule: bindp_cases)
    case (1 e)
    then have "s' = s \<and> (\<exists>x. r = Inl (NotStarted x))"
      using load_result(2) by (fastforce simp: map_err_def split: prod.splits sum.splits)
    with disk show ?thesis by (auto simp: settled_def elim: on_disk_mono)
  next
    case (2 s1 tx0)
    then have "load_tx env txid s = (s1, Inr tx0)" by (auto simp: map_err_def split: prod.splits sum.splits)
    with load_result(1) [OF this] assms(3) have s1: "s1 = s" "tx0 = tx" by auto
    let ?s = "set_world ((hs_world s)\<lparr>dk_tx := tx\<rparr>) s"
    have J: "journal plan txid True [] (hs_world ?s)"
      using assms(1,2,4) disk by (simp add: journal_def)
    from 2(2) have "bindp (tryp (DnsTun_ApplyWithStepSink (tun_host env plan) (tv_attempts env) True plan))
        (\<lambda>r. bindp get_tx (after_apply env plan r)) ?s = (s', r)"
      by (simp add: s1 put_tx_def bindp_def [of "host_read f" for f] host_read_def)
    then show ?thesis
    proof (rule run_settles [OF J, where f = "after_apply env plan"], goal_cases)
      case (1 af s2)
      then show ?case using mutation_error_settled [OF 1(1)] by (simp add: after_apply_def)
    next
      case (2 steps s2)
      have id: "tx_id (dk_tx (hs_world s2)) = txid" using 2(1) by (simp add: journal_def)
      show ?case
      proof (cases "length (filterOwnedAppliedSteps plan steps) = length steps")
        case True
        have "settles plan txid steps (after_apply env plan (Inr steps) (dk_tx (hs_world s2)))"
          unfolding after_apply_def id Let_def using True
          by (simp only: sum.case simp_thms if_False) (intro settles_or settles_load settles_ret carries_steps; simp)
        with 2 show ?thesis unfolding settles_def by blast
      next
        case False
        with 2 mutation_error_settled [OF 2(1)] show ?thesis by (simp add: after_apply_def Let_def)
      qed
    qed
  qed
qed

end
