(* ===== verification/Tun_Transaction_Facts.thy ===== *)
theory Tun_Transaction_Facts
  imports Tun_Journal Tun_Executor_Facts Tun_Planner_Facts Recovery_Consistency
begin

text \<open>
  What the transaction of a session guarantees.
\<close>

section \<open>Rollback without the link\<close>

lemma each_error_skip: "(\<And>x. x \<in> set xs \<Longrightarrow> \<not> P x) \<Longrightarrow> each_error P f xs = ret []"
  by (induction xs) auto

lemma only_each_error [only]: "(\<And>x. x \<in> set xs \<Longrightarrow> acts_only A (f x)) \<Longrightarrow> acts_only A (each_error P f xs)"
  by (induction xs) (auto intro!: only)

lemma add_rollback_step_fields:
  "tp_rules (add_rollback_step plan rb st) = tp_rules rb @
     (if st_kind st = ''policy-rule'' \<and> st_owner st = OwnerPolicyRule
      then filter (\<lambda>r. policyRuleTarget r = st_target st) (tp_rules plan) else [])"
  "tp_routes (add_rollback_step plan rb st) = tp_routes rb @
     (if st_kind st = ''route'' \<and> st_owner st = OwnerRoute
      then filter (\<lambda>r. routeTarget r = st_target st) (tp_routes plan) else [])"
  by (simp_all add: add_rollback_step_def)

lemma rollback_plan_resources:
  "set (tp_rules (rollbackPlanFromAppliedSteps plan steps)) \<subseteq> set (tp_rules plan)"
  "set (tp_routes (rollbackPlanFromAppliedSteps plan steps)) \<subseteq> set (tp_routes plan)"
proof -
  have "set (tp_rules (foldl (add_rollback_step plan) rb steps)) \<subseteq> set (tp_rules rb) \<union> set (tp_rules plan) \<and>
    set (tp_routes (foldl (add_rollback_step plan) rb steps)) \<subseteq> set (tp_routes rb) \<union> set (tp_routes plan)" for rb
    by (induction steps arbitrary: rb) (fastforce simp: add_rollback_step_fields)+
  from this [of "bare_plan plan"] show
    "set (tp_rules (rollbackPlanFromAppliedSteps plan steps)) \<subseteq> set (tp_rules plan)"
    "set (tp_routes (rollbackPlanFromAppliedSteps plan steps)) \<subseteq> set (tp_routes plan)"
    by (simp_all add: rollbackPlanFromAppliedSteps_def bare_plan_def)
qed

lemma claimed [simp]: "prp_action (claim_rule r) \<noteq> ''add''" "trp_action (claim_route t) \<noteq> ''add''"
  by (simp_all add: claim_rule_def claim_route_def TunActionAddExclusive_def)

lemma owned_plan_claims:
  assumes "TunResourceAllocationFromPlan plan = Inr al"
  shows "tp_rules (xrayOwnedTunPlan plan) = map claim_rule (tp_rules plan)"
    "tp_routes (xrayOwnedTunPlan plan) = map claim_route (tp_routes plan)"
proof -
  have "TunResourceAllocationFromPlan (plan\<lparr>tp_device := d\<rparr>) = Inr al" for d
    using assms by (simp add: TunResourceAllocationFromPlan_def)
  then show "tp_rules (xrayOwnedTunPlan plan) = map claim_rule (tp_rules plan)"
    "tp_routes (xrayOwnedTunPlan plan) = map claim_route (tp_routes plan)"
    by (simp_all add: xrayOwnedTunPlan_def Let_def)
qed

lemma independent_rollback_idle:
  assumes "\<And>r. r \<in> set (tp_rules plan) \<Longrightarrow> prp_action r \<noteq> ''add''"
    and "\<And>r. r \<in> set (tp_routes plan) \<Longrightarrow> trp_action r \<noteq> ''add''"
  shows "RollbackIndependent host plan = ret ()"
proof -
  have "each_error (\<lambda>r. prp_action r = ''add'') (PolicyRule_Rollback host) (rev (tp_rules plan)) = ret []"
    "each_error independentRollbackRoute (Route_Rollback host) (rev (tp_routes plan)) = ret []"
    using assms by (intro each_error_skip; auto simp: independentRollbackRoute_def)+
  then show ?thesis by (simp add: RollbackIndependent_def bindp_def ret_def checke_def fun_eq_iff)
qed



section \<open>The record on disk\<close>

definition route_plan :: TunPlan where
  "route_plan = demo_tun_plan\<lparr>tp_rules := []\<rparr>"

definition route_tx :: Transaction where
  "route_tx = demo_tx\<lparr>tx_state := TransactionApplying, tx_desired_plan := desiredPlanFromTunPlan route_plan\<rparr>"

definition route_env :: "unit tun_env" where
  "route_env =
     \<lparr>tv_host = demo_host, tv_store = demo_store, tv_saves = \<lambda>n. demo_env, tv_unlink = \<lambda>n. None, tv_attempts = 1,
      tv_pause = \<lambda>w. (w, None), tv_read_file = \<lambda>p w. (w, Inl NotExist), tv_signal = \<lambda>p s w. (w, None), tv_polls = 1,
      tv_wait = \<lambda>w. w, tv_stat = \<lambda>p w. (w, Some NotExist), tv_remove = \<lambda>p w. (w, None)\<rparr>"

definition route_state :: "unit disk host_state" where
  "route_state =
     \<lparr>hs_run = \<lparr>nr_world = \<lparr>dk_dir = Some [(''t1.json'', TxFile (TxDoc route_tx))], dk_tick = 0, dk_tx = route_tx, dk_world = ()\<rparr>,
                nr_tick = 0, nr_log = []\<rparr>, hs_trace = []\<rparr>"

lemma route_plan_fields:
  "tp_routes route_plan = [demo_route]" "tp_rules route_plan = []" "\<not> shouldApplyTunAddress (tp_address route_plan)"
  "\<not> shouldApplyDNS (tp_dns route_plan)" "\<not> shouldApplyFirewall (tp_firewall route_plan)"
  by (simp_all add: route_plan_def demo_tun_plan_def shouldApplyTunAddress_def shouldApplyDNS_def shouldApplyFirewall_def
      DNSActionConfigure_def FirewallTableAction_def)

lemma route_recordable: "recordable route_plan"
proof -
  have "rawRouteRollbackEntryValid (route_rollback_of demo_route)"
    by (simp add: rawRouteRollbackEntryValid_def route_rollback_of_def demo_route_def ownedRollbackMetadata_def
        managedTableToken_def managedRouteTable_def managedRouteTableID_def managedInterface_def MainRoutingTable_def)
  moreover have "word_text (trp_table demo_route)" "word_text (trp_destination demo_route)"
    by (simp_all add: demo_route_def word_text_def)
  ultimately show ?thesis by (simp add: recordable_def plan_resources_def route_plan_fields)
qed

lemma route_desired:
  "desiredPlanFromTunPlan route_plan = zero_plan
     \<lparr>pl_plan_id := '':tun'', pl_tun := \<lparr>td_interface_name = ''podlaz0'', td_mtu = 0, td_owner = ''xray:tun-inbound''\<rparr>,
      pl_routes := [\<lparr>rp_kind = ''route'', rp_table = ''51820'', rp_cidr = ''default'', rp_via = [], rp_dev = ''podlaz0'',
        rp_priority = 0, rp_owner = OwnerRoute, rp_operation = ''add''\<rparr>],
      pl_dns := (pl_dns zero_plan)\<lparr>dp_owner := TransactionOwner\<rparr>, pl_nft := (pl_nft zero_plan)\<lparr>np_owner := OwnerFirewall\<rparr>\<rparr>"
  by (simp add: desiredPlanFromTunPlan_def route_plan_def demo_tun_plan_def demo_route_def zero_plan_def desired_route_of_def
      IsTunAddAction_def dnsSearchDomains_def nftChains_def tunDesiredOwner_def xrayTunInboundOwner_def lower_char_def
      tunAddressDesiredState_def desired_steps_of_def DNSActionConfigure_def FirewallTableAction_def ModeTun_def)

lemma route_tx_desired: "desired_for route_plan (tx_desired_plan route_tx)"
  by (simp add: route_tx_def desired_for_def Let_def)

lemma route_tx_valid: "ValidateTransaction route_tx = None"
proof -
  have "\<not> containsPersistentSecret route_tx"
    by (simp add: containsPersistentSecret_def json_defs json_RoutePlan_def demo_defs route_tx_def route_desired harmless_no_secret harmless_def
      isSecretKey_def secretKeys_def lower_char_def OwnerRoute_def OwnerFirewall_def)
  then show ?thesis using demo_valid by (simp add: ValidateTransaction_None route_tx_def)
qed

lemma route_loaded: "tx_load (dk_dir (hs_world route_state)) ''t1'' = Some route_tx"
  by (simp add: route_state_def tx_load_def LoadTransactionFile_def tx_file_name_def TransactionFileSuffix_def route_tx_valid)

text \<open>C2: Apply and verify keep a consistent record: started from the record of a plan whose network
  resources can be recorded, with none of them entered yet, the session leaves under its identifier a complete record
  that passes the ownership check of recovery, whichever command, netlink call, file operation or verification fails and
  whatever other programs do in between; the record that a failure hands to the rollback passes it too.\<close>

theorem transaction_record_stays_consistent:
  assumes "recordable plan" and "desired_for plan (tx_desired_plan tx)" and "tx_state tx \<noteq> TransactionPlanned"
    and "tx_applied_steps tx = []" and "net_part (tx_rollback tx) = zero_rollback"
    and "tx_load (dk_dir (hs_world s)) txid = Some tx" and "tx_id tx = txid"
    and "applyVerifyTunTransactionDeferredRollback env txid plan s = (s', r)"
  shows "(\<exists>tx'. tx_load (dk_dir (hs_world s')) txid = Some tx' \<and> tx_id tx' = txid \<and>
        rollbackOwnershipConsistencyReasons quote tx' (tx_rollback tx') = []) \<and>
     (\<forall>m. r = Inl (MutationFailed m) \<longrightarrow>
        rollbackOwnershipConsistencyReasons quote (me_transaction m) (tx_rollback (me_transaction m)) = [])"
proof -
  have "entered plan tx" using assms(2,3) recorded_fresh [OF assms(4,5)] by (auto simp: entered_def)
  then have "settled plan txid s' r"
    by (rule deferred_settles [OF assms(1) _ assms(6,7,8)])
  then show ?thesis
    using entered_consistent [OF assms(1)] by (auto simp: settled_def on_disk_def)
qed

theorem transaction_record_stays_consistent_witness:
  "\<exists>s' r tx'. applyVerifyTunTransactionDeferredRollback route_env ''t1'' route_plan route_state = (s', r) \<and>
     tx_load (dk_dir (hs_world s')) ''t1'' = Some tx' \<and>
     rollbackOwnershipConsistencyReasons (\<lambda>t. t) tx' (tx_rollback tx') = []"
proof -
  obtain s' r where run: "applyVerifyTunTransactionDeferredRollback route_env ''t1'' route_plan route_state = (s', r)"
    by fastforce
  have tx: "tx_state route_tx \<noteq> TransactionPlanned" "tx_applied_steps route_tx = []"
    "net_part (tx_rollback route_tx) = zero_rollback" "tx_id route_tx = ''t1''"
    by (simp_all add: route_tx_def demo_tx_def NewTransaction_def net_part_def zero_rollback_def)
  from transaction_record_stays_consistent [OF route_recordable route_tx_desired tx(1-3) route_loaded tx(4) run] run
  show ?thesis by blast
qed

section \<open>The record during rollback\<close>

definition held :: "string \<Rightarrow> 'v disk \<Rightarrow> bool" where
  "held k d \<longleftrightarrow> tx_id (dk_tx d) = k \<and> tx_load (dk_dir d) k \<noteq> None"

interpretation hd: steady_host "held k" "tun_host env plan" for k env plan
  by (rule own_part_steady) (simp add: own_part_def held_def)

lemma held_on_world: "held k d \<Longrightarrow> held k (fst (on_world f d))"
  by (simp add: held_def on_world_def split: prod.splits)

lemma held_world [stay]: "stays (at (held k)) (host_read (on_world f))" "stays (at (held k)) (host_act a (on_world f))"
  by (rule stays_world, erule held_on_world)+

lemma stays_get [stay]:
  assumes "\<And>tx. tx_id tx = k \<Longrightarrow> stays (at (held k)) (f tx)"
  shows "stays (at (held k)) (bindp get_tx f)"
proof (rule staysI)
  fix s s' r
  assume h: "at (held k) s" and "bindp get_tx f s = (s', r)"
  then have "f (dk_tx (hs_world s)) s = (s', r)" by (simp add: get_tx_run)
  from staysD [OF assms this h] h show "at (held k) s'" by (simp add: held_def)
qed

lemma stays_lift [stay]: "(\<And>x. z = Inr x \<Longrightarrow> stays I (f x)) \<Longrightarrow> stays I (bindp (liftp z) f)"
  by (auto simp: stays_def split: sum.splits)

lemma held_put [stay]: "tx_id tx = k \<Longrightarrow> stays (at (held k)) (put_tx tx)"
  unfolding put_tx_def by (rule stays_world) (simp add: held_def)

lemma held_save [stay]:
  assumes "tx_id tx = k"
  shows "stays (at (held k)) (save_tx env tx)"
  unfolding save_tx_def
proof (rule stays_bind, rule stays_world, goal_cases)
  case (1 d)
  with txs.load_save [of "tv_saves env (dk_tick d)" "dk_dir d" k "prepare_save (tv_saves env (dk_tick d)) tx" k] assms
  show ?case
    using fst_Save [of "tv_store env" "tv_saves env (dk_tick d)" "dk_dir d" tx]
    by (auto simp: held_def disk_save_def split: prod.splits)
qed (rule stay)

lemma lift_store_Inr: "lift_store env z = Inr x \<longleftrightarrow> z = Inr x"
  by (auto simp: lift_store_def split: sum.splits)

lemma held_begin [stay]: "stays (at (held k)) (beginTunRollback env)"
  unfolding beginTunRollback_def transactionNow_def
  by (auto intro!: stay simp: lift_store_Inr dest!: TransitionTx_Inr split: prod.splits)

lemma held_host [stay]: "stays (at (held k)) (rollbackTunHostStateForTransaction env plan tx)"
proof -
  have "stays (at (held k)) (children_absent env cs b)" for cs b
    by (induction cs arbitrary: b) (auto intro!: stay)
  then show ?thesis
    unfolding rollbackTunHostStateForTransaction_def rollbackTunHostState_def rollbackTrackedChildAbsenceProven_def
    by (auto intro!: stay hd.stays_resource_scoped split: sum.splits)
qed

lemma held_children [stay]: "stays (at (held k)) (defaultStopRollbackChildProcesses env tx)"
proof -
  have "stays (at (held k)) (inspectRollbackChildProcess env c)" for c
    unfolding inspectRollbackChildProcess_def rollbackChildProcessMatches_def rollbackChildProcessStartTime_def read_file_def Let_def
    by (auto intro!: stay split: option.splits)
  moreover from this have "stays (at (held k)) (rollbackChildIdentityStillMatches env c i)" for c i
    unfolding rollbackChildIdentityStillMatches_def by (auto intro!: stay split: sum.splits file_error.splits)
  moreover from this have "stays (at (held k)) (waitForRollbackChildAbsence env c i n)" for c i n
    by (induction n) (auto intro!: stay)
  ultimately have "stays (at (held k)) (stop_child env c)" for c
    unfolding stop_child_def send_signal_def of_proc_def
    by (auto intro!: stay split: sum.splits file_error.splits option.splits signal_error.splits)
  then show ?thesis unfolding defaultStopRollbackChildProcesses_def by (auto intro!: stay)
qed

lemma held_configs [stay]: "stays (at (held k)) (removeRollbackGeneratedConfigs env tx)"
  unfolding removeRollbackGeneratedConfigs_def removeGeneratedConfigFile_def
  by (auto intro!: stay split: option.splits remove_error.splits)

lemma held_finish [stay]: "stays (at (held k)) (finishTunRollback env)"
  unfolding finishTunRollback_def verifyRollbackGeneratedConfigsRemoved_def config_gone_def directory_gone_def transactionNow_def Let_def
  by (auto intro!: stay simp: lift_store_Inr dest!: TransitionTx_Inr split: prod.splits option.splits file_error.splits sum.splits)

lemma held_rollback [stay]: "stays (at (held k)) (rollbackTunTransactionWithChildStopper env plan None)"
  unfolding rollbackTunTransactionWithChildStopper_def by (auto intro!: stay split: option.splits)

lemma finish_rolled_back:
  assumes "finishTunRollback env s = (s', Inr u)"
  shows "tx_state (dk_tx (hs_world s')) = TransactionRolledBack"
proof (cases "tx_state (dk_tx (hs_world s)) = TransactionRolledBack")
  case True
  with assms show ?thesis by (simp add: finishTunRollback_def get_tx_run)
next
  case False
  with assms obtain s1 s2 tx b now p where step: "TransitionTx now (dk_tx (hs_world s)) TransactionRolledBack now = Inr (tx, b)"
    and put: "put_tx tx s1 = (s2, Inr () :: exec_error + unit)" and save: "save_tx env tx s2 = (s', Inr p)"
    by (simp add: finishTunRollback_def get_tx_run bindp_Inr lift_store_Inr split_paired_Ex del: bindp_liftp) blast
  from TransitionTx_Inr [OF step] have tx: "tx_state tx = TransactionRolledBack" by blast
  from put have "dk_tx (hs_world s2) = tx" by (auto simp: put_tx_def host_read_def)
  moreover from save have "dk_tx (hs_world s') = dk_tx (hs_world s2)"
    by (auto simp: bindp_Inr save_tx_def host_act_def disk_save_def split: prod.splits)
  ultimately show ?thesis using tx by simp
qed

lemma rollback_rolled_back:
  assumes "rollbackTunTransactionWithChildStopper env plan stop s = (s', Inr u)"
  shows "tx_state (dk_tx (hs_world s')) = TransactionRolledBack"
  using assms finish_rolled_back
  by (auto simp: rollbackTunTransactionWithChildStopper_def get_tx_run bindp_Inr split: if_splits)

lemma remove_file:
  assumes "removeTransactionFile env k s = (s', r)"
  shows "case r of Inl e \<Rightarrow> dk_dir (hs_world s') = dk_dir (hs_world s)
    | Inr u \<Rightarrow> tx_load (dk_dir (hs_world s')) k = None \<and> dk_tx (hs_world s') = dk_tx (hs_world s)"
proof (cases "Path (tv_store env) k")
  case (Inl e)
  with assms show ?thesis by (auto simp: removeTransactionFile_def lift_store_def)
next
  case (Inr path)
  with assms show ?thesis
    by (cases "tv_unlink env (dk_tick (hs_world s))")
      (auto simp: removeTransactionFile_def lift_store_def act_run fail_with_def tx_load_def LoadTransactionFile_def
        dir_entries_def delete_conv' split: option.splits)
qed

text \<open>C11: A rollback never loses the record of its session: when it fails, at whatever call, the record can still be
  loaded under its identifier, so that recovery finds what is left to do; when it succeeds, the record has been marked
  rolled back and its file is gone.\<close>

theorem rollback_keeps_or_retires_record:
  assumes "rollbackPreparedTunFailureWithChildStopper env plan None s = (s', r)"
    and "tx_load (dk_dir (hs_world s)) (tx_id (dk_tx (hs_world s))) \<noteq> None"
  shows "case r of
      Inl e \<Rightarrow> tx_load (dk_dir (hs_world s')) (tx_id (dk_tx (hs_world s))) \<noteq> None
    | Inr u \<Rightarrow> tx_load (dk_dir (hs_world s')) (tx_id (dk_tx (hs_world s))) = None \<and>
              tx_state (dk_tx (hs_world s')) = TransactionRolledBack"
proof -
  let ?k = "tx_id (dk_tx (hs_world s))"
  have h: "held ?k (hs_world s)" using assms(2) by (simp add: held_def)
  obtain s1 q where roll: "rollbackTunTransactionWithChildStopper env plan None s = (s1, q)" by fastforce
  have h1: "held ?k (hs_world s1)" using staysD [OF held_rollback roll] h by simp
  show ?thesis
  proof (cases q)
    case (Inl e)
    have mark: "tx_id (case MarkFailure now tx t now of Inl x \<Rightarrow> tx | Inr (t', changed) \<Rightarrow> t') = tx_id tx" for now tx t
      by (auto simp: MarkFailure_def Let_def dest!: TransitionTx_Inr split: sum.splits prod.splits if_splits)
    let ?mark = "bindp get_tx (\<lambda>tx. bindp (transactionNow env) (\<lambda>now.
             (let tx' = (case MarkFailure now tx (ee_text e) now of Inl x \<Rightarrow> tx | Inr (t, changed) \<Rightarrow> t) in
              bindp (put_tx tx') (\<lambda>u. bindp (tryp (save_tx env tx')) (\<lambda>ignored. fail e)))))"
    have kept: "stays (at (held ?k)) ?mark"
      unfolding Let_def transactionNow_def by (intro stay) (simp_all add: mark)
    from assms(1) roll Inl have marked: "?mark s1 = (s', r)"
      by (simp add: rollbackPreparedTunFailureWithChildStopper_def bindp_def [of "tryp m" for m] tryp_def)
    then have "r = Inl e"
      by (auto simp: get_tx_run transactionNow_def Let_def tryp_def put_tx_def host_peek_def host_read_def elim!: bindp_cases
          split: prod.splits)
    with staysD [OF kept marked h1] show ?thesis by (simp add: held_def)
  next
    case (Inr u)
    with assms(1) roll have "wrapping ''rolled-back transaction file cleanup failed'' (removeTransactionFile env ?k) s1 = (s', r)"
      using h1 by (simp add: rollbackPreparedTunFailureWithChildStopper_def bindp_def [of "tryp m" for m] tryp_def get_tx_run held_def)
    then obtain q' where q': "removeTransactionFile env ?k s1 = (s', q')" "isl q' = isl r"
      by (auto simp: wrapping_def map_err_def split: prod.splits sum.splits)
    with remove_file [OF q'(1)] h1 rollback_rolled_back [OF roll [unfolded Inr]] show ?thesis
      by (cases r; cases q') (auto simp: held_def)
  qed
qed

theorem rollback_keeps_or_retires_record_witness:
  "\<exists>s' r. rollbackPreparedTunFailureWithChildStopper route_env route_plan None route_state = (s', r) \<and>
     (isl r \<longleftrightarrow> tx_load (dk_dir (hs_world s')) ''t1'' \<noteq> None)"
proof -
  obtain s' r where run: "rollbackPreparedTunFailureWithChildStopper route_env route_plan None route_state = (s', r)" by fastforce
  have k: "tx_id (dk_tx (hs_world route_state)) = ''t1''"
    by (simp add: route_state_def route_tx_def demo_tx_def NewTransaction_def)
  from rollback_keeps_or_retires_record [OF run] route_loaded show ?thesis unfolding k using run by (cases r) auto
qed

end
