(* ===== verification/Tun_Projection_Facts.thy ===== *)
theory Tun_Projection_Facts
  imports Tun_Projection Tun_Transaction_Facts
begin

text \<open>
  The record of a session is enough to undo it: the plan projected from the record holds exactly the resources that were
  recorded as applied, and the projection refuses no record that the transaction of a session writes.
\<close>

section \<open>Entries of a record\<close>

lemma owner_matches [simp]:
  "rollbackOwnerMatches OwnerTunAddress OwnerTunAddress" "rollbackOwnerMatches OwnerRoute OwnerRoute"
  "rollbackOwnerMatches OwnerPolicyRule OwnerPolicyRule" "rollbackOwnerMatches OwnerDNS OwnerDNS"
  "rollbackOwnerMatches OwnerFirewall OwnerFirewall"
  by (simp_all add: rollbackOwnerMatches_def)

lemma unprefixed: "plain v \<Longrightarrow> \<not> starts ''from '' v"
proof
  assume "plain v" and "starts ''from '' v"
  then have "take 5 v = ''from ''" and "plain v" by (simp_all add: starts_def eval_nat_numeral)
  then have "plain (''from '' @ drop 5 v)" using append_take_drop_id [of 5 v] by (simp del: append_take_drop_id)
  then show False by (simp add: plain_def)
qed

lemma rule_projection:
  assumes "sound plan (RuleRes r)"
  shows "selector_of_rollback (policyRuleRollback r) = prp_selector r"
    "target_of_rollback (policyRuleRollback r) = policyRuleTarget r"
    "projected_rule (policyRuleRollback r) = r\<lparr>prp_family := ''ipv4'', prp_action := ''add'', prp_reason := []\<rparr>"
proof -
  from assms rule_rollback have
    "selector_of_rollback (policyRuleRollback r) = prp_selector r \<and> pr_priority (policyRuleRollback r) = prp_priority r \<and>
     pr_table (policyRuleRollback r) = prp_table r"
    by (fastforce simp: selector_of_rollback_def word_text_def unprefixed Let_def)
  then show "selector_of_rollback (policyRuleRollback r) = prp_selector r"
    "target_of_rollback (policyRuleRollback r) = policyRuleTarget r"
    "projected_rule (policyRuleRollback r) = r\<lparr>prp_family := ''ipv4'', prp_action := ''add'', prp_reason := []\<rparr>"
    by (simp_all add: target_of_rollback_def policyRuleTarget_def projected_rule_def)
qed

lemma route_projection:
  "projected_route (route_rollback_of r) = r\<lparr>trp_family := ''ipv4'', trp_action := ''add'', trp_reason := []\<rparr>"
  by (simp add: projected_route_def route_rollback_of_def)

section \<open>Every entry passes\<close>

text \<open>The steps of a record are described, as the executors describe them.\<close>

definition described :: "Transaction \<Rightarrow> bool" where
  "described tx = list_all (\<lambda>a. as_description a \<noteq> []) (tx_applied_steps tx)"

lemma recorded_proof:
  assumes "Tun_Record.recorded plan rs tx" and "described tx" and "x \<in> set rs" and "resource_id plan x = (kind, target, owner)"
    and "rollbackOwnerMatches owner owner"
  shows "appliedStepDescription (tx_applied_steps tx) kind target owner \<noteq> []"
proof -
  have "resource_id plan x \<in> applied_id ` set (tx_applied_steps tx)"
    using assms(1,3) by (metis Tun_Record.recorded_def image_eqI list.set_map)
  then obtain a where a: "a \<in> set (tx_applied_steps tx)" "applied_id a = (kind, target, owner)"
    using assms(4) by auto
  let ?P = "\<lambda>s. as_kind s = kind \<and> as_target s = target \<and> rollbackOwnerMatches (as_owner s) owner"
  have "?P a" using a(2) assms(5) by (simp add: applied_id_def)
  then have "find ?P (tx_applied_steps tx) \<noteq> None" using a(1) by (auto simp: find_None_iff)
  then obtain s where "find ?P (tx_applied_steps tx) = Some s" by blast
  moreover from this have "s \<in> set (tx_applied_steps tx)" by (auto simp: find_Some_iff)
  ultimately show ?thesis using assms(2) by (simp add: appliedStepDescription_def described_def list_all_iff)
qed

lemma one_exact_route:
  assumes plan: "recordable plan" and r: "planned plan (RouteRes r)" and want: "desired_for plan d"
  shows "routeRollbackMatchesDesired (pl_routes d) (route_rollback_of r)"
proof -
  have routes: "pl_routes d = concat (map desired_route_of (tp_routes plan))"
    using want by (simp add: desired_for_def desiredPlanFromTunPlan_def Let_def)
  let ?T = "\<lambda>p. rp_table p = trp_table r \<and> rp_cidr p = trp_destination r \<and> rp_via p = trp_gateway r \<and> rp_dev p = trp_interface r"
  let ?K = "\<lambda>p. rp_kind p = ''route'' \<and> rp_operation p = ''add'' \<and> rollbackOwnerMatches (rp_owner p) OwnerRoute"
  have adds: "filter ?K (concat (map desired_route_of rts)) = map wanted_route (filter (\<lambda>r. IsTunAddAction (trp_action r)) rts)" for rts
    by (induction rts) (simp_all add: desired_route_of_def wanted_route_def rollbackOwnerMatches_def Let_def)
  have "filter (\<lambda>p. ?K p \<and> ?T p) (pl_routes d) = filter ?T (filter ?K (pl_routes d))" by (simp add: conj_commute conj_left_commute)
  also have "\<dots> = map wanted_route (filter (\<lambda>q. ?T (wanted_route q)) (adds_of plan))"
    unfolding routes adds by (simp add: filter_map comp_def)
  also have "filter (\<lambda>q. ?T (wanted_route q)) (adds_of plan) =
      filter (\<lambda>q. IsTunAddAction (trp_action q) \<and> ?T (wanted_route q)) (filter (\<lambda>q. routeTarget q = routeTarget r) (tp_routes plan))"
    by (auto simp: wanted_route_def routeTarget_def intro!: filter_cong)
  also have "\<dots> = [r]" using r recordable_targets(1) [OF plan, of r] by (simp del: filter_filter add: wanted_route_def)
  finally show ?thesis by (simp add: routeRollbackMatchesDesired_def route_rollback_of_def)
qed

lemma one_exact_rule:
  assumes plan: "recordable plan" and r: "planned plan (RuleRes r)" and want: "desired_for plan d"
  shows "plannedStepExists (pl_steps d) ''policy-rule'' (policyRuleTarget r) OwnerPolicyRule"
proof -
  have "filter (\<lambda>s. ps_kind s = ''policy-rule'' \<and> ps_target s = policyRuleTarget r \<and>
        rollbackOwnerMatches (ps_owner s) OwnerPolicyRule) (pl_steps d) =
      filter (\<lambda>s. ps_target s = policyRuleTarget r \<and> rollbackOwnerMatches (ps_owner s) OwnerPolicyRule)
        (filter (\<lambda>s. ps_kind s = ''policy-rule'') (pl_steps d))"
    by (auto intro: filter_cong)
  also have "\<dots> = map wanted_rule (filter (\<lambda>q. policyRuleTarget q = policyRuleTarget r) (rules_of plan))"
    using want by (simp add: desired_for_def desired_rules Let_def filter_map comp_def wanted_rule_def del: filter_filter)
  also have "filter (\<lambda>q. policyRuleTarget q = policyRuleTarget r) (rules_of plan) =
      filter (\<lambda>q. IsTunAddAction (prp_action q)) (filter (\<lambda>q. policyRuleTarget q = policyRuleTarget r) (tp_rules plan))"
    by (simp add: conj_commute)
  also have "\<dots> = [r]" using r recordable_targets(2) [OF plan, of r] by (simp del: filter_filter)
  finally show ?thesis by (simp add: plannedStepExists_def)
qed

lemma duplicate_free: "distinct keys \<Longrightarrow> duplicate_fault what keys = None"
  by (auto simp: duplicate_fault_def find_None_iff filter_one)

text \<open>The keys of the routes are joined with bars; a table and a destination hold none.\<close>

definition bar_free :: "TunPlan \<Rightarrow> bool" where
  "bar_free plan = list_all (\<lambda>r. CHR ''|'' \<notin> set (trp_table r) \<and> CHR ''|'' \<notin> set (trp_destination r)) (tp_routes plan)"

lemma split_at: "c \<notin> set xs \<Longrightarrow> c \<notin> set ys \<Longrightarrow> xs @ c # us = ys @ c # vs \<Longrightarrow> xs = ys \<and> us = vs"
proof (induction xs arbitrary: ys)
  case Nil
  then show ?case by (cases ys) auto
next
  case (Cons x xs)
  then show ?case by (cases ys) auto
qed

lemma route_keys_inj:
  assumes plan: "recordable plan" and bars: "bar_free plan"
  shows "inj_on (\<lambda>r. routeRollbackFullKey (route_rollback_of r)) (set (tp_routes plan))"
proof (rule inj_onI)
  fix q r
  assume q: "q \<in> set (tp_routes plan)" and r: "r \<in> set (tp_routes plan)"
    and same: "routeRollbackFullKey (route_rollback_of q) = routeRollbackFullKey (route_rollback_of r)"
  from bars q r have free: "CHR ''|'' \<notin> set (trp_table q)" "CHR ''|'' \<notin> set (trp_table r)"
    "CHR ''|'' \<notin> set (trp_destination q)" "CHR ''|'' \<notin> set (trp_destination r)"
    by (auto simp: bar_free_def list_all_iff)
  from same have "trp_table q @ CHR ''|'' # trp_destination q @ CHR ''|'' # trp_gateway q @ CHR ''|'' # trp_interface q =
      trp_table r @ CHR ''|'' # trp_destination r @ CHR ''|'' # trp_gateway r @ CHR ''|'' # trp_interface r"
    by (simp add: routeRollbackFullKey_def route_rollback_of_def)
  note parts = split_at [OF free(1,2) this]
  have "trp_destination q = trp_destination r" by (rule conjunct1 [OF split_at [OF free(3,4) conjunct2 [OF parts]]])
  then have "routeTarget q = routeTarget r" using parts by (simp add: routeTarget_def)
  then show "q = r" using plan q r by (auto simp: recordable_def distinct_map dest: inj_onD)
qed

lemma route_keys_distinct:
  assumes "recordable plan" and rec: "Tun_Record.recorded plan rs tx" and "bar_free plan"
  shows "distinct (map (\<lambda>r. routeRollbackFullKey (route_rollback_of r)) (routes_in rs))"
  using route_keys_inj [OF assms(1,3)] recorded_members(1,2) [OF rec] by (auto simp: distinct_map intro: inj_on_subset)

lemma rule_keys_distinct:
  assumes plan: "recordable plan" and rec: "Tun_Record.recorded plan rs tx"
  shows "distinct (map (\<lambda>r. target_of_rollback (policyRuleRollback r)) (rules_in rs))"
proof -
  note m = recorded_members [OF rec]
  have "map (\<lambda>r. target_of_rollback (policyRuleRollback r)) (rules_in rs) = map policyRuleTarget (rules_in rs)"
    using m(5) recordable_sound [OF plan]
    by (intro map_cong [OF refl] rule_projection(2)) (auto simp: in_set simp del: sound.simps planned.simps)
  moreover have "inj_on policyRuleTarget (set (tp_rules plan))" using plan by (simp add: recordable_def distinct_map)
  moreover from m(4) have "set (rules_in rs) \<subseteq> set (tp_rules plan)" by auto
  ultimately show ?thesis using m(3) by (simp only: distinct_map) (blast intro: inj_on_subset)
qed

lemma recorded_routes_pass:
  assumes plan: "recordable plan" and rec: "Tun_Record.recorded plan rs tx" and want: "desired_for plan (tx_desired_plan tx)"
    and told: "described tx" and bars: "bar_free plan"
  shows "validateRouteRollbackEntries tx = None"
proof -
  have "route_entry_fault tx (route_rollback_of r) = None" if r: "r \<in> set (routes_in rs)" for r
  proof -
    from r have x: "RouteRes r \<in> set rs" by (simp add: in_set)
    from recorded_members(5) [OF rec x] have p: "planned plan (RouteRes r)" .
    from recordable_sound [OF plan p] have "trim_space (trp_table r) \<noteq> []" "trim_space (trp_destination r) \<noteq> []"
      by (simp_all add: word_trim word_text_def)
    moreover have "appliedStepDescription (tx_applied_steps tx) ''route'' (routeTarget r) OwnerRoute \<noteq> []"
      by (rule recorded_proof [OF rec told x]) simp_all
    ultimately show ?thesis
      using one_exact_route [OF plan p want]
      by (simp add: route_entry_fault_def routeRollbackAppliedTarget_def owner_of_route)
        (simp add: route_rollback_of_def routeTarget_def)
  qed
  then show ?thesis
    using duplicate_free [OF route_keys_distinct [OF plan rec bars]]
    by (simp add: validateRouteRollbackEntries_def recorded_lists(3) [OF rec] comp_def first_error_map_None split: option.split)
qed

lemma recorded_rules_pass:
  assumes plan: "recordable plan" and rec: "Tun_Record.recorded plan rs tx" and want: "desired_for plan (tx_desired_plan tx)"
    and told: "described tx"
  shows "validatePolicyRuleRollbackEntries tx = None"
proof -
  have "rule_entry_fault tx (policyRuleRollback r) = None" if r: "r \<in> set (rules_in rs)" for r
  proof -
    from r have x: "RuleRes r \<in> set rs" by (simp add: in_set)
    from recorded_members(5) [OF rec x] have p: "planned plan (RuleRes r)" .
    note s = recordable_sound [OF plan p]
    from s have "0 < pr_priority (policyRuleRollback r) \<and> trim_space (pr_table (policyRuleRollback r)) \<noteq> []"
      by (simp add: rawPolicyRuleRollbackEntryValid_def split: if_splits)
    moreover have "appliedStepDescription (tx_applied_steps tx) ''policy-rule'' (policyRuleTarget r) OwnerPolicyRule \<noteq> []"
      by (rule recorded_proof [OF rec told x]) simp_all
    moreover have "pr_owner (policyRuleRollback r) = OwnerPolicyRule" using s rule_targets(2) by simp
    ultimately show ?thesis
      using one_exact_rule [OF plan p want] by (simp add: rule_entry_fault_def rule_projection(2) [OF s])
  qed
  then show ?thesis
    using duplicate_free [OF rule_keys_distinct [OF plan rec]]
    by (simp add: validatePolicyRuleRollbackEntries_def recorded_lists(4) [OF rec] comp_def first_error_map_None split: option.split)
qed

lemma recorded_address_passes:
  assumes "sound plan AddressRes" and "desired_for plan (tx_desired_plan tx)"
  shows "projection_address_ok tx (tunAddressRollbackState (tp_address plan))"
  using assms
  by (auto simp: projection_address_ok_def tunAddressRollbackMatchesDesired_def rawTUNAddressRollbackEntryValid_def
      tunAddressRollbackState_def desired_for_def desiredPlanFromTunPlan_def tunAddressDesiredState_def Let_def word_trim
      word_text_def managedInterface_def tunAddressRollbackIsOwned_def)

section \<open>From the record to the plan\<close>

lemma recorded_projects:
  assumes plan: "recordable plan" and rec: "Tun_Record.recorded plan rs tx" and want: "desired_for plan (tx_desired_plan tx)"
    and told: "described tx" and bars: "bar_free plan"
    and fw: "FirewallRes \<in> set rs \<Longrightarrow> exactNftablesRollbackPlan tx (nft_entry (tp_firewall plan)) = Inr firewall"
  shows "projection_reasons tx = []"
proof -
  have s: "x \<in> set rs \<Longrightarrow> sound plan x" for x
    using recorded_members(5) [OF rec] recordable_sound [OF plan] by blast
  have "AddressRes \<in> set rs \<Longrightarrow> projection_address_ok tx (tunAddressRollbackState (tp_address plan))"
    using recorded_address_passes [OF s want] .
  moreover have "FirewallRes \<in> set rs \<Longrightarrow> projection_nft_ok tx (nft_entry (tp_firewall plan))"
    using s [of FirewallRes] fw by (simp add: projection_nft_ok_def) (simp add: nft_entry_def)
  moreover have "DnsRes \<in> set rs \<Longrightarrow> trim_space (dr_link (dns_entry (tp_dns plan))) \<noteq> []"
    using s [of DnsRes] by (simp add: dns_entry_def word_trim) (simp add: word_text_def)
  ultimately show ?thesis
    by (simp add: projection_reasons_def recorded_routes_pass [OF assms(1-5)] recorded_rules_pass [OF assms(1-4)]
        recorded_lists [OF rec] validateSingleRollbackCategory_def dns_entry_def)
qed


text \<open>The record after the one route of the plan has been applied.\<close>

definition routed_tx :: Transaction where
  "routed_tx = record_step route_plan ''2025-01-01T00:00:00Z''
     \<lparr>st_kind = ''route'', st_target = ''51820 default'', st_description = ''add'', st_owner = OwnerRoute\<rparr> route_tx"


section \<open>Stopping a session\<close>

text \<open>C13: The cleanup of a stopped session decides before it acts: when the record is not a complete and unambiguous
  authority nothing on the host is touched; whenever the cleanup fails, the record is still there to be loaded, and it
  is gone only after the rollback has succeeded.\<close>

theorem cleanup_refuses_or_retires:
  assumes "runTunCleanup env k s = (s', r)" and "tx_load (dk_dir (hs_world s)) k = Some tx" and "tx_id tx = k"
  shows "(case r of Inl e \<Rightarrow> tx_load (dk_dir (hs_world s')) k \<noteq> None
          | Inr u \<Rightarrow> tx_load (dk_dir (hs_world s')) k = None \<and> tx_state (dk_tx (hs_world s')) = TransactionRolledBack) \<and>
     (let p = ProjectRollbackMetadata (ho_quote (tv_host env)) tx in
      rpj_incomplete p \<or> validateTunRollbackProjection (tx\<lparr>tx_rollback := rpj_rollback p\<rparr>) \<noteq> None \<longrightarrow> s' = s)"
proof -
  let ?p = "ProjectRollbackMetadata (ho_quote (tv_host env)) tx"
  let ?tx = "tx\<lparr>tx_rollback := rpj_rollback ?p\<rparr>"
  obtain t q where load: "wrapping (''load TUN transaction '' @ k) (load_tx env k) s = (t, q)" by fastforce
  then have t: "t = s" using load_result(2) by (auto simp: wrapping_def map_err_def split: prod.splits sum.splits)
  have kept: "tx_load (dk_dir (hs_world s)) k \<noteq> None" using assms(2) by simp
  show ?thesis
  proof (cases q)
    case (Inl e)
    then have "s' = s \<and> r = Inl e" using assms(1) load t by (simp add: runTunCleanup_def bindp_def)
    then show ?thesis using kept by simp
  next
    case (Inr tx0)
    from load Inr have "load_tx env k s = (t, Inr tx0)"
      by (auto simp: wrapping_def map_err_def split: prod.splits sum.splits)
    from load_result(1) [OF this] assms(2) have tx0: "tx0 = tx" by simp
    show ?thesis
    proof (cases "rpj_incomplete ?p \<or> validateTunRollbackProjection ?tx \<noteq> None")
      case True
      then have "s' = s \<and> isl r"
        using assms(1) load t Inr tx0
        by (auto simp: runTunCleanup_def bindp_def fail_with_def fail_def Let_def split: if_splits)
      then show ?thesis using kept by (cases r) simp_all
    next
      case False
      define s0 where "s0 = fst (put_tx ?tx s :: _ \<times> (exec_error + unit))"
      have s0: "put_tx ?tx s = (s0, Inr () :: exec_error + unit)" "held k (hs_world s0)"
        using kept assms(3) by (simp_all add: s0_def put_tx_def host_read_def held_def)
      obtain s1 q1 where roll: "rollbackTunTransactionWithChildStopper env (tunPlanFromTransaction ?tx) None s0 = (s1, q1)"
        by fastforce
      have h1: "held k (hs_world s1)" using staysD [OF held_rollback roll] s0(2) by simp
      from False have "runTunCleanup env k s = (case q1 of Inl e \<Rightarrow> (s1, Inl e)
          | Inr u \<Rightarrow> wrapping (''remove rolled-back TUN transaction '' @ k) (removeTransactionFile env k) s1)"
        using load t Inr tx0 s0(1) roll unfolding runTunCleanup_def bindp_def Let_def by (simp split: sum.split)
      with assms(1) have run: "(case q1 of Inl e \<Rightarrow> (s1, Inl e)
          | Inr u \<Rightarrow> wrapping (''remove rolled-back TUN transaction '' @ k) (removeTransactionFile env k) s1) = (s', r)" by metis
      show ?thesis
      proof (cases q1)
        case Inl
        then show ?thesis using run h1 False by (auto simp: held_def Let_def)
      next
        case (Inr u)
        with run obtain q' where q': "removeTransactionFile env k s1 = (s', q')" "isl q' = isl r"
          by (auto simp: wrapping_def map_err_def split: prod.splits sum.splits)
        with remove_file [OF q'(1)] h1 rollback_rolled_back [OF roll [unfolded Inr]] False show ?thesis
          by (cases r; cases q') (auto simp: held_def Let_def)
      qed
    qed
  qed
qed

theorem cleanup_refuses_or_retires_witness:
  "\<exists>s' r. runTunCleanup route_env ''t1'' route_state = (s', r) \<and> (isl r \<longleftrightarrow> tx_load (dk_dir (hs_world s')) ''t1'' \<noteq> None)"
proof -
  obtain s' r where run: "runTunCleanup route_env ''t1'' route_state = (s', r)" by fastforce
  have "tx_id route_tx = ''t1''" by (simp add: route_tx_def demo_tx_def NewTransaction_def)
  from cleanup_refuses_or_retires [OF run route_loaded this] run show ?thesis by (cases r) auto
qed

section \<open>The revalidation plan\<close>

lemma rule_text_fields:
  assumes "sound plan (RuleRes r)"
  obtains k v where "Prelude.fields (policyRuleTarget r) = [''priority'', itoa (nat (prp_priority r)), k, v, ''lookup'', prp_table r]"
    "prp_selector r = k @ '' '' @ v" "k = ''from'' \<or> k = ''to'' \<or> k = ''fwmark''"
    "0 < prp_priority r" "prp_priority r < 32766" "plain (prp_table r)" "prp_table r \<noteq> []"
proof -
  from assms have t: "plain (prp_table r)" "prp_table r \<noteq> []" and c: "canonical_selector (prp_selector r)"
    and valid: "rawPolicyRuleRollbackEntryValid (policyRuleRollback r)" by (simp_all add: word_text_def)
  from rule_rollback [OF c] have "pr_priority (policyRuleRollback r) = prp_priority r" by auto
  with valid have pos: "0 < prp_priority r" "prp_priority r < 32766" by (auto simp: rawPolicyRuleRollbackEntryValid_def split: if_splits)
  have "\<exists>k v. prp_selector r = k @ '' '' @ v \<and> plain v \<and> v \<noteq> [] \<and> (k = ''from'' \<or> k = ''to'' \<or> k = ''fwmark'')"
    using c
  proof (cases rule: canonical_cases)
    case (source v)
    then show ?thesis by (intro exI [of _ "''from''"] exI [of _ v]) (simp add: word_text_def)
  next
    case (dest v)
    then show ?thesis by (intro exI [of _ "''to''"] exI [of _ v]) (simp add: word_text_def)
  next
    case (mark v)
    then show ?thesis by (intro exI [of _ "''fwmark''"] exI [of _ v]) (simp add: word_text_def)
  qed
  then obtain k v where sel: "prp_selector r = k @ '' '' @ v" and w: "plain v" "v \<noteq> []" and
    k: "k = ''from'' \<or> k = ''to'' \<or> k = ''fwmark''" by blast
  from k have pk: "plain k" "k \<noteq> []" by auto
  have "Prelude.fields (policyRuleTarget r) = [''priority'', itoa (nat (prp_priority r)), k, v, ''lookup'', prp_table r]"
    using pos fields_word [of "''priority''"] fields_word [of "itoa (nat (prp_priority r))"] fields_word [OF pk] fields_word [OF w]
      fields_word [of "''lookup''"] fields_plain [OF t] by (simp add: policyRuleTarget_def sel itoa_int_def)
  then show ?thesis using that sel k pos t by blast
qed

lemma rule_text_parsed:
  assumes "sound plan (RuleRes r)"
  shows "parsePersistedTunPolicyRule quote (policyRuleTarget r) =
    Inr (r\<lparr>prp_family := ''ipv4'', prp_action := ''add'', prp_reason := []\<rparr>)"
  using assms
proof (rule rule_text_fields)
  fix k v
  assume f: "Prelude.fields (policyRuleTarget r) = [''priority'', itoa (nat (prp_priority r)), k, v, ''lookup'', prp_table r]"
    and sel: "prp_selector r = k @ '' '' @ v" and k: "k = ''from'' \<or> k = ''to'' \<or> k = ''fwmark''"
    and pos: "0 < prp_priority r" "prp_priority r < 32766" and t: "plain (prp_table r)" "prp_table r \<noteq> []"
  have num: "atoi (itoa (nat (prp_priority r))) = Some (prp_priority r)" using pos by (simp add: atoi_itoa)
  have "starts ''from '' (k @ '' '' @ v) \<or> starts ''to '' (k @ '' '' @ v) \<or> starts ''fwmark '' (k @ '' '' @ v)"
    using k by (elim disjE) (simp_all add: starts_def)
  moreover have "join '' '' (take (Suc (Suc 0)) [k, v, ''lookup'', prp_table r]) = k @ '' '' @ v" by simp
  ultimately show ?thesis
    using pos t by (simp add: parsePersistedTunPolicyRule_def f sel Let_def num)
qed

lemma revalidate_rules_parsed:
  assumes "\<And>r. r \<in> set rules \<Longrightarrow> sound plan (RuleRes r)" and "distinct (map policyRuleTarget rules)"
    and "\<And>r. r \<in> set rules \<Longrightarrow> policyRuleTarget r \<notin> set seen"
    and "filter (\<lambda>s. ps_kind s = ''policy-rule'') steps = map wanted_rule rules"
  shows "revalidate_rules quote seen steps =
    Inr (map (\<lambda>r. r\<lparr>prp_family := ''ipv4'', prp_action := ''add'', prp_reason := []\<rparr>) rules)"
  using assms
proof (induction steps arbitrary: rules seen)
  case (Cons s ss)
  show ?case
  proof (cases "ps_kind s = ''policy-rule''")
    case False
    with Cons.IH [OF Cons.prems(1-3)] Cons.prems(4) show ?thesis by simp
  next
    case True
    with Cons.prems(4) obtain r rest where rules: "rules = r # rest" "s = wanted_rule r"
      and rest: "filter (\<lambda>s. ps_kind s = ''policy-rule'') ss = map wanted_rule rest" by auto
    have "revalidate_rules quote (policyRuleTarget r # seen) ss =
        Inr (map (\<lambda>r. r\<lparr>prp_family := ''ipv4'', prp_action := ''add'', prp_reason := []\<rparr>) rest)"
      using Cons.prems(1-3) rules(1) by (intro Cons.IH [OF _ _ _ rest]) (auto simp: image_iff)
    moreover have "parsePersistedTunPolicyRule quote (policyRuleTarget r) =
        Inr (r\<lparr>prp_family := ''ipv4'', prp_action := ''add'', prp_reason := []\<rparr>)"
      by (rule rule_text_parsed [of plan]) (rule Cons.prems(1), simp add: rules)
    ultimately show ?thesis
      using Cons.prems(3) [of r] True by (simp add: rules wanted_rule_def rbind_def)
  qed
qed simp

lemma route_actions: "IsTunAddAction a \<Longrightarrow> \<not> IsTunVerifyAction a"
  by (auto simp: IsTunAddAction_def IsTunVerifyAction_def TunActionAddExclusive_def TunActionVerifyExisting_def)

text \<open>The routes of a plan that carry either action, as the record and the revalidation name the action.\<close>

definition carried :: "TunRoutePlan \<Rightarrow> bool" where
  "carried r = (IsTunAddAction (trp_action r) \<or> IsTunVerifyAction (trp_action r))"

definition restated_route :: "TunRoutePlan \<Rightarrow> TunRoutePlan" where
  "restated_route r = r\<lparr>trp_family := ''ipv4'',
     trp_action := (if IsTunAddAction (trp_action r) then ''add'' else TunActionVerifyExisting), trp_reason := []\<rparr>"

lemma revalidate_routes_restated:
  assumes "\<And>r. r \<in> set routes \<Longrightarrow> word_text (trp_table r) \<and> word_text (trp_destination r) \<and> word_text (trp_interface r)"
    and "distinct (map (\<lambda>r. routeRollbackFullKey (route_rollback_of r)) routes)"
    and "\<And>r. r \<in> set routes \<Longrightarrow> routeRollbackFullKey (route_rollback_of r) \<notin> set seen"
  shows "revalidate_routes [] device seen bypass (concat (map desired_route_of routes)) =
    Inr (map restated_route (filter carried routes), bypass)"
  using assms
proof (induction routes arbitrary: seen)
  case (Cons r rs)
  let ?key = "routeRollbackFullKey (route_rollback_of r)"
  have rest: "revalidate_routes [] device (?key # seen) bypass (concat (map desired_route_of rs)) =
      Inr (map restated_route (filter carried rs), bypass)"
    using Cons.prems by (intro Cons.IH) (auto simp: image_iff)
  have skip: "revalidate_routes [] device seen bypass (concat (map desired_route_of rs)) =
      Inr (map restated_route (filter carried rs), bypass)"
    using Cons.prems by (intro Cons.IH) auto
  have words: "trim_space (trp_table r) \<noteq> []" "trim_space (trp_destination r) \<noteq> []" "trim_space (trp_interface r) \<noteq> []"
    using Cons.prems(1) [of r] by (auto simp: word_text_def)
  have new: "?key \<notin> set seen" using Cons.prems(3) by simp
  have key: "join ''|'' [trp_table r, trp_destination r, trp_gateway r, trp_interface r] = ?key"
    by (simp add: routeRollbackFullKey_def route_rollback_of_def)
  note defs = desired_route_of_def [of r] desired_action_def desired_key_def carried_def [of r] restated_route_def [of r] Let_def
    rbind_def
  show ?case
  proof (cases "IsTunAddAction (trp_action r)")
    case True
    with rest words new show ?thesis by (simp add: defs key del: join.simps)
  next
    case False
    with rest skip words new show ?thesis
      by (cases "IsTunVerifyAction (trp_action r)") (simp_all add: defs key del: join.simps)
  qed
qed simp

text \<open>C36: Revalidation compares the host with the plan the session was started with: for a session whose traffic is
  marked, reading the persisted desired state back yields the routes of the plan, those to add and those only verified, and
  its policy rules, parsed from the text of their targets, with priority, selector and table as planned, and its DNS servers.\<close>

theorem revalidation_restates_plan:
  assumes "recordable plan" and "bar_free plan" and "tp_egress_mark plan \<noteq> 0" and "rules_of plan \<noteq> []"
    and "list_all (\<lambda>r. word_text (trp_table r) \<and> word_text (trp_destination r) \<and> word_text (trp_interface r)) (tp_routes plan)"
    and "word_text (dpl_backend (tp_dns plan))" and "word_text (dpl_target_link (tp_dns plan))" and "dpl_servers (tp_dns plan) \<noteq> []"
    and "tx_desired_plan tx = desiredPlanFromTunPlan plan"
  shows "tunRevalidationRoutePlans tx = Inr (map restated_route (filter carried (tp_routes plan)), no_bypass) \<and>
     tunRevalidationPolicyRulePlans quote (pl_steps (tx_desired_plan tx)) =
       Inr (map (\<lambda>r. r\<lparr>prp_family := ''ipv4'', prp_action := ''add'', prp_reason := []\<rparr>) (rules_of plan)) \<and>
     tunRevalidationDNSPlan (pl_dns (tx_desired_plan tx)) (dpl_target_link (tp_dns plan)) =
       Inr (dns_plan_of (dpl_backend (tp_dns plan)) (dpl_target_link (tp_dns plan)) (dpl_servers (tp_dns plan)))"
proof -
  have keys: "distinct (map (\<lambda>r. routeRollbackFullKey (route_rollback_of r)) (tp_routes plan))"
    using route_keys_inj [OF assms(1,2)] assms(1) by (simp add: recordable_def distinct_map)
  have desired: "pl_routes (tx_desired_plan tx) = concat (map desired_route_of (tp_routes plan))"
    "pl_egress_mark (tx_desired_plan tx) \<noteq> 0"
    using assms(3,9) by (simp_all add: desiredPlanFromTunPlan_def)
  have "revalidate_routes [] device [] no_bypass (concat (map desired_route_of (tp_routes plan))) =
      Inr (map restated_route (filter carried (tp_routes plan)), no_bypass)" for device
    using assms(5) keys by (intro revalidate_routes_restated) (auto simp: list_all_iff)
  then have routes: "tunRevalidationRoutePlans tx = Inr (map restated_route (filter carried (tp_routes plan)), no_bypass)"
    by (simp add: tunRevalidationRoutePlans_def desired rbind_def)
  have "distinct (map policyRuleTarget (rules_of plan))"
    using assms(1) by (simp add: recordable_def distinct_map_filter)
  moreover have "sound plan (RuleRes r)" if "r \<in> set (rules_of plan)" for r
    using recordable_sound [OF assms(1), of "RuleRes r"] that by simp
  ultimately have "revalidate_rules quote [] (pl_steps (tx_desired_plan tx)) =
      Inr (map (\<lambda>r. r\<lparr>prp_family := ''ipv4'', prp_action := ''add'', prp_reason := []\<rparr>) (rules_of plan))"
    by (intro revalidate_rules_parsed [of _ plan]) (simp_all only: assms(9) desired_rules, simp_all)
  then have "tunRevalidationPolicyRulePlans quote (pl_steps (tx_desired_plan tx)) =
      Inr (map (\<lambda>r. r\<lparr>prp_family := ''ipv4'', prp_action := ''add'', prp_reason := []\<rparr>) (rules_of plan))"
    using assms(4) by (simp add: tunRevalidationPolicyRulePlans_def rbind_def)
  moreover have "tunRevalidationDNSPlan (pl_dns (tx_desired_plan tx)) (dpl_target_link (tp_dns plan)) =
      Inr (dns_plan_of (dpl_backend (tp_dns plan)) (dpl_target_link (tp_dns plan)) (dpl_servers (tp_dns plan)))"
    using assms(6-8) by (simp add: tunRevalidationDNSPlan_def assms(9) desiredPlanFromTunPlan_def rollbackOwnerMatches_def word_text_def)
  ultimately show ?thesis using routes by blast
qed

definition marked_plan :: TunPlan where
  "marked_plan = demo_tun_plan\<lparr>tp_egress_mark := 1, tp_dns := (tp_dns demo_tun_plan)
     \<lparr>dpl_backend := ''systemd-resolved'', dpl_target_link := ''podlaz0'', dpl_servers := [''1.1.1.1'']\<rparr>\<rparr>"

definition marked_tx :: Transaction where
  "marked_tx = demo_tx\<lparr>tx_desired_plan := desiredPlanFromTunPlan marked_plan\<rparr>"

lemma marked_fields:
  "tp_routes marked_plan = [demo_route]" "tp_rules marked_plan = [demo_rule]" "\<not> shouldApplyTunAddress (tp_address marked_plan)"
  "\<not> shouldApplyDNS (tp_dns marked_plan)" "\<not> shouldApplyFirewall (tp_firewall marked_plan)"
  by (simp_all add: marked_plan_def demo_tun_plan_def shouldApplyTunAddress_def shouldApplyDNS_def shouldApplyFirewall_def
      DNSActionConfigure_def FirewallTableAction_def)

lemma marked_recordable: "recordable marked_plan"
proof -
  have "sound marked_plan (RouteRes demo_route)"
    using route_recordable recordable_sound [of route_plan "RouteRes demo_route"]
    by (simp add: route_plan_fields demo_lists)
  moreover have "Prelude.fields ''from all'' = [''from'', ''all'']"
    using fields_word [of "''from''" "''all''"] fields_plain [of "''all''"] by simp
  then have "canonical_selector (prp_selector demo_rule)"
    by (simp add: demo_rule_def canonical_selector_def word_text_def)
  moreover have "trim_space ''from all'' = ''from all''"
    using trim_after_word [of "''all''" "''from ''"] by (simp add: word_text_def blank_def)
  then have "rawPolicyRuleRollbackEntryValid (policyRuleRollback demo_rule)" "word_text (prp_table demo_rule)"
    by (simp_all add: demo_rule_def word_text_def rawPolicyRuleRollbackEntryValid_def policyRuleRollback_def
        ownedRollbackMetadata_def managedTableToken_def managedRouteTable_def managedRouteTableID_def MainRoutingTable_def starts_def)
  ultimately show ?thesis
    by (simp add: recordable_def plan_resources_def marked_fields)
qed

theorem revalidation_restates_plan_witness:
  "tunRevalidationRoutePlans marked_tx = Inr ([restated_route demo_route], no_bypass) \<and>
   tunRevalidationPolicyRulePlans (\<lambda>t. t) (pl_steps (tx_desired_plan marked_tx)) =
     Inr [demo_rule\<lparr>prp_family := ''ipv4'', prp_action := ''add'', prp_reason := []\<rparr>]"
proof -
  have "bar_free marked_plan" by (simp add: bar_free_def marked_fields demo_route_def)
  moreover have "rules_of marked_plan = [demo_rule]" "filter carried (tp_routes marked_plan) = [demo_route]"
    using demo_lists by (simp_all add: marked_fields carried_def)
  moreover have "tp_egress_mark marked_plan \<noteq> 0" "word_text (dpl_backend (tp_dns marked_plan))"
    "word_text (dpl_target_link (tp_dns marked_plan))" "dpl_servers (tp_dns marked_plan) \<noteq> []"
    by (simp_all add: marked_plan_def word_text_def)
  moreover have "list_all (\<lambda>r. word_text (trp_table r) \<and> word_text (trp_destination r) \<and> word_text (trp_interface r))
      (tp_routes marked_plan)"
    by (simp add: marked_fields demo_route_def word_text_def)
  moreover have "tx_desired_plan marked_tx = desiredPlanFromTunPlan marked_plan" by (simp add: marked_tx_def)
  ultimately show ?thesis
    using revalidation_restates_plan [OF marked_recordable, of marked_tx "\<lambda>t. t"] by simp
qed

end
