(* ===== verification/Session_Replay.thy ===== *)
theory Session_Replay
  imports Recovery_Scan
begin

text \<open>
  What the daemon keeps about a failed attempt to resume a session: the typed errors of
  \<^verbatim>\<open>src/internal/daemon/tun_failure_phase.go\<close>, \<^verbatim>\<open>network_session_replay_evidence.go\<close> and
  \<^verbatim>\<open>network_session_resume_diagnostic.go\<close>, the classification of a replay, the diagnostic record with its file store,
  the terminal reason of \<^verbatim>\<open>product_terminal_reason_store.go\<close>, and the state that is shown for recovery,
  \<^verbatim>\<open>src/internal/api/network_session_recovery.go\<close>.

  A Go error is a tree; \<^verbatim>\<open>errors.As\<close> and \<^verbatim>\<open>errors.Is\<close> search it in preorder.  Texts of errors keep the fixed part of the
  message.  A file holds what \<^verbatim>\<open>encoding/json\<close> makes of its bytes, as in \<open>Session_State\<close>; nothing reads the
  temporary files that a failed write can leave behind, so they are left out here.
\<close>

section \<open>Errors\<close>

datatype go_error =
    TextError string
  | ShuttingDown
  | ConnectionAlreadyActive
  | FullTunnelConnectionBecameActive
  | ContextCanceled
  | DeadlineExceeded
  | NotExistError
  | RecoveryIncomplete
  | ReplayIncomplete
  | StoreError session_error
  | TxError tx_error
  | Wrapped string go_error
  | Joined "go_error list"
  | PhaseError string string string go_error
  | VerificationError string go_error
  | SemanticsError string string go_error
  | ProjectionError string string go_error
  | StageError string string string string bool bool go_error
  | RuntimeUnavailable "go_error option"
  | SubphaseError string go_error
  | ScopedQueryError string go_error
  | CommandError bool bool bool int go_error
  | ReplacementCleanupError go_error
  | PreviousRestoreError go_error

text \<open>The error and everything it wraps, in the order of \<^verbatim>\<open>errors.As\<close>.\<close>

fun error_tree :: "go_error \<Rightarrow> go_error list" where
  "error_tree (Wrapped t e) = Wrapped t e # error_tree e"
| "error_tree (Joined es) = Joined es # concat (map error_tree es)"
| "error_tree (PhaseError p t r e) = PhaseError p t r e # error_tree e"
| "error_tree (VerificationError p e) = VerificationError p e # error_tree e"
| "error_tree (SemanticsError d m e) = SemanticsError d m e # error_tree e"
| "error_tree (ProjectionError d p e) = ProjectionError d p e # error_tree e"
| "error_tree (StageError a b c d f g e) = StageError a b c d f g e # error_tree e"
| "error_tree (RuntimeUnavailable c) =
     RuntimeUnavailable c # (case c of None \<Rightarrow> [] | Some e \<Rightarrow> error_tree e)"
| "error_tree (SubphaseError p e) = SubphaseError p e # error_tree e"
| "error_tree (ScopedQueryError c e) = ScopedQueryError c e # error_tree e"
| "error_tree (CommandError d p u x e) = CommandError d p u x e # error_tree e"
| "error_tree (ReplacementCleanupError e) = ReplacementCleanupError e # error_tree e"
| "error_tree (PreviousRestoreError e) = PreviousRestoreError e # error_tree e"
| "error_tree e = [e]"

definition errors_is :: "go_error \<Rightarrow> go_error \<Rightarrow> bool" where
  "errors_is e target = (target \<in> set (error_tree e))"

text \<open>\<^verbatim>\<open>errors.As\<close>: the first error of the tree that has the type asked for.\<close>

fun first_match :: "(go_error \<Rightarrow> 'a option) \<Rightarrow> go_error list \<Rightarrow> 'a option" where
  "first_match pick [] = None"
| "first_match pick (e # es) = (case pick e of None \<Rightarrow> first_match pick es | Some x \<Rightarrow> Some x)"

definition errors_as :: "(go_error \<Rightarrow> 'a option) \<Rightarrow> go_error \<Rightarrow> 'a option" where
  "errors_as pick e = first_match pick (error_tree e)"

text \<open>\<^verbatim>\<open>errors.Join\<close> drops nil errors and is nil when all are.\<close>

definition join_present :: "go_error option list \<Rightarrow> go_error option" where
  "join_present es = (case concat (map (case_option [] (\<lambda>e. [e])) es) of [] \<Rightarrow> None | xs \<Rightarrow> Some (Joined xs))"

section \<open>Failure phases\<close>

definition noTunTransactionID :: string where "noTunTransactionID = ''none''"

definition or_default :: "string \<Rightarrow> string \<Rightarrow> string" where
  "or_default d s = (if s = [] then d else s)"

definition withTunFailurePhase :: "string \<Rightarrow> string \<Rightarrow> string \<Rightarrow> go_error \<Rightarrow> go_error" where
  "withTunFailurePhase phase txid rollback e =
     PhaseError (or_default ''unknown'' (trim_space phase)) (or_default noTunTransactionID (trim_space txid))
       (or_default ''not-started'' (trim_space rollback)) e"

definition phased :: "go_error \<Rightarrow> (string \<times> string \<times> string) option" where
  "phased e = (case e of PhaseError p t r _ \<Rightarrow> Some (p, t, r) | _ \<Rightarrow> None)"

definition tunVerificationPhase :: "go_error \<Rightarrow> string" where
  "tunVerificationPhase e =
     (case errors_as (\<lambda>x. case x of VerificationError p _ \<Rightarrow> Some p | _ \<Rightarrow> None) e of
        None \<Rightarrow> []
      | Some p \<Rightarrow> or_default ''connectivity'' (trim_space p))"

definition tunFailureLogFields :: "go_error \<Rightarrow> string \<times> string \<times> string" where
  "tunFailureLogFields e =
     (let keep = \<lambda>d s. if trim_space s = [] then d else s;
          (phase, txid, rollback) =
            (case errors_as phased e of
               None \<Rightarrow> (''unknown'', noTunTransactionID, ''unknown'')
             | Some (p, t, r) \<Rightarrow> (keep ''unknown'' p, keep noTunTransactionID t, keep ''unknown'' r)) in
      (if tunVerificationPhase e \<noteq> [] then tunVerificationPhase e @ ''-verify'' else phase, txid, rollback))"

definition ApplyFailureSubphase :: "go_error \<Rightarrow> string" where
  "ApplyFailureSubphase e =
     (case errors_as (\<lambda>x. case x of SubphaseError p _ \<Rightarrow> Some p | _ \<Rightarrow> None) e of None \<Rightarrow> [] | Some p \<Rightarrow> p)"

text \<open>A command error knows whether its own deadline passed, whether its caller was cancelled, whether the program could
  not be started, and the exit code.\<close>

definition ApplyFailureCause :: "go_error \<Rightarrow> string" where
  "ApplyFailureCause e =
     (case errors_as (\<lambda>x. case x of CommandError d p u c _ \<Rightarrow> Some (d, p, u, c) | _ \<Rightarrow> None) e of
        None \<Rightarrow> ''unknown''
      | Some (deadline, parent, unavailable, exit) \<Rightarrow>
          if parent then ''unknown''
          else if deadline then ''command-timeout''
          else if unavailable then ''command-unavailable''
          else if exit \<noteq> 0 then ''command-exit''
          else ''unknown'')"

definition ValidResolvedScopedQueryFailureCause :: "string \<Rightarrow> bool" where
  "ValidResolvedScopedQueryFailureCause cause =
     (cause \<in> set [''invalid-input'', ''command-timeout'', ''command-unavailable'', ''command-failure'', ''output-too-large'',
        ''unexpected-stderr'', ''link-not-matched'', ''no-ipv4'', ''identity-changed''])"

definition ResolvedScopedQueryFailureCause :: "go_error \<Rightarrow> string" where
  "ResolvedScopedQueryFailureCause e =
     (case errors_as (\<lambda>x. case x of ScopedQueryError c _ \<Rightarrow> Some c | _ \<Rightarrow> None) e of
        None \<Rightarrow> []
      | Some c \<Rightarrow> if ValidResolvedScopedQueryFailureCause c then c else [])"

section \<open>Dispositions\<close>

definition DispositionTerminal :: string where "DispositionTerminal = ''terminal''"
definition DispositionRetryable :: string where "DispositionRetryable = ''retryable''"
definition DispositionInterrupted :: string where "DispositionInterrupted = ''interrupted''"
definition DispositionIncomplete :: string where "DispositionIncomplete = ''incomplete''"
definition MutationNotOpened :: string where "MutationNotOpened = ''not-opened''"
definition MutationRolledBack :: string where "MutationRolledBack = ''rolled-back''"
definition MutationUnresolved :: string where "MutationUnresolved = ''unresolved''"

lemmas disposition_defs = DispositionTerminal_def DispositionRetryable_def DispositionInterrupted_def DispositionIncomplete_def
lemmas mutation_defs = MutationNotOpened_def MutationRolledBack_def MutationUnresolved_def

definition validNetworkSessionReplayDisposition :: "string \<Rightarrow> bool" where
  "validNetworkSessionReplayDisposition d =
     (d = DispositionTerminal \<or> d = DispositionRetryable \<or> d = DispositionInterrupted \<or> d = DispositionIncomplete)"

definition validNetworkSessionCandidateMutation :: "string \<Rightarrow> bool" where
  "validNetworkSessionCandidateMutation m = (m = MutationNotOpened \<or> m = MutationRolledBack \<or> m = MutationUnresolved)"

definition validNetworkSessionApplySubphase :: "string \<Rightarrow> bool" where
  "validNetworkSessionApplySubphase s =
     (trim_space s \<in> set [''tun-address'', ''routes'', ''policy-rules'', ''dns'', ''nftables''])"

definition validNetworkSessionApplyFailureCause :: "string \<Rightarrow> bool" where
  "validNetworkSessionApplyFailureCause s =
     (trim_space s \<in> set [''command-exit'', ''command-timeout'', ''command-unavailable''])"

definition semantics_of :: "go_error \<Rightarrow> (string \<times> string) option" where
  "semantics_of e = (case e of SemanticsError d m _ \<Rightarrow> Some (d, m) | _ \<Rightarrow> None)"

definition isRuntimeUnavailableError :: "go_error \<Rightarrow> bool" where
  "isRuntimeUnavailableError e = list_ex (\<lambda>x. case x of RuntimeUnavailable _ \<Rightarrow> True | _ \<Rightarrow> False) (error_tree e)"

definition classifyNetworkSessionReplayFailure :: "bool \<Rightarrow> go_error option \<Rightarrow> string \<times> string" where
  "classifyNetworkSessionReplayFailure cancelled err =
     (case err of
        None \<Rightarrow> (DispositionIncomplete, MutationUnresolved)
      | Some e \<Rightarrow>
          if cancelled \<or> errors_is e ShuttingDown \<or> errors_is e ContextCanceled
          then (DispositionInterrupted, MutationUnresolved)
          else
            (case errors_as semantics_of e of
               Some (d, m) \<Rightarrow>
                 if validNetworkSessionReplayDisposition d \<and> validNetworkSessionCandidateMutation m then (d, m)
                 else if isRuntimeUnavailableError e then (DispositionTerminal, MutationNotOpened)
                 else (DispositionIncomplete, MutationUnresolved)
             | None \<Rightarrow>
                 if isRuntimeUnavailableError e then (DispositionTerminal, MutationNotOpened)
                 else (DispositionIncomplete, MutationUnresolved)))"

text \<open>\<^verbatim>\<open>withTunRollbackCompleted\<close>: a completed rollback proves what became of the candidate, never that the failure is
  final.\<close>

definition withTunRollbackCompleted :: "go_error \<Rightarrow> go_error" where
  "withTunRollbackCompleted e =
     (let completed =
        (case errors_as (\<lambda>x. case x of VerificationError p f \<Rightarrow> Some (VerificationError p f) | _ \<Rightarrow> None) e of
           Some v \<Rightarrow> v
         | None \<Rightarrow> Wrapped ''; rolled back applied podlaz-owned networking state'' e) in
      case errors_as semantics_of e of
        Some (d, m) \<Rightarrow>
          if validNetworkSessionReplayDisposition d then SemanticsError d MutationRolledBack completed
          else SemanticsError DispositionIncomplete MutationRolledBack completed
      | None \<Rightarrow> SemanticsError DispositionIncomplete MutationRolledBack completed)"

section \<open>The state shown for recovery\<close>

record NetworkSessionRecoveryState =
  nrs_authority :: string
  nrs_intent :: string
  nrs_startup_gate :: string
  nrs_resume_stage :: string
  nrs_last_resume_outcome :: string
  nrs_last_tun_failure_phase :: string
  nrs_replay_disposition :: string
  nrs_network_apply_subphase :: string
  nrs_rollback_status :: string
  nrs_transaction_present :: bool
  nrs_legacy_migration :: bool
  nrs_cleanup_authority :: string
  nrs_next_action :: string

definition StageStateLoad :: string where "StageStateLoad = ''state-load''"
definition StageLegacyMigration :: string where "StageLegacyMigration = ''legacy-migration''"
definition StagePrivacyReconcile :: string where "StagePrivacyReconcile = ''privacy-reconcile''"
definition StageExactRecovery :: string where "StageExactRecovery = ''exact-recovery''"
definition StageGenericRecovery :: string where "StageGenericRecovery = ''generic-recovery''"
definition StageConnectReplay :: string where "StageConnectReplay = ''connect-replay''"
definition StageTerminalTeardown :: string where "StageTerminalTeardown = ''terminal-teardown''"
definition OutcomeNotAttempted :: string where "OutcomeNotAttempted = ''not-attempted''"
definition OutcomeFailed :: string where "OutcomeFailed = ''failed''"
definition OutcomeIncomplete :: string where "OutcomeIncomplete = ''incomplete''"
definition OutcomeSucceeded :: string where "OutcomeSucceeded = ''succeeded''"
definition ActionRetryResume :: string where "ActionRetryResume = ''retry-resume''"
definition ActionContinueTeardown :: string where "ActionContinueTeardown = ''continue-teardown''"
definition ActionManualDiagnosis :: string where "ActionManualDiagnosis = ''manual-diagnosis''"
definition ActionNone :: string where "ActionNone = ''none''"
definition GateBlocked :: string where "GateBlocked = ''blocked''"
definition GateOpen :: string where "GateOpen = ''open''"
definition AuthorityPresent :: string where "AuthorityPresent = ''present''"
definition CleanupAuthorityNone :: string where "CleanupAuthorityNone = ''none''"
definition CleanupAuthoritySessionProtection :: string where "CleanupAuthoritySessionProtection = ''session-protection''"

lemmas stage_defs = StageStateLoad_def StageLegacyMigration_def StagePrivacyReconcile_def StageExactRecovery_def
  StageGenericRecovery_def StageConnectReplay_def StageTerminalTeardown_def
lemmas outcome_defs = OutcomeNotAttempted_def OutcomeFailed_def OutcomeIncomplete_def OutcomeSucceeded_def
lemmas action_defs = ActionRetryResume_def ActionContinueTeardown_def ActionManualDiagnosis_def ActionNone_def

definition validNetworkSessionResumeStage :: "string \<Rightarrow> bool" where
  "validNetworkSessionResumeStage stage =
     (trim_space stage \<in> set [StageStateLoad, StageLegacyMigration, StagePrivacyReconcile, StageExactRecovery,
        StageGenericRecovery, StageConnectReplay, StageTerminalTeardown])"

definition lower_alnum :: "char \<Rightarrow> bool" where
  "lower_alnum c = (is_digit c \<or> (97 \<le> byte c \<and> byte c \<le> 122))"

definition networkSessionFailurePhasePattern :: "string \<Rightarrow> bool" where
  "networkSessionFailurePhasePattern s =
     (case s of [] \<Rightarrow> False
      | c # cs \<Rightarrow> lower_alnum c \<and> length cs \<le> 63 \<and> list_all (\<lambda>x. lower_alnum x \<or> x = CHR ''-'') cs)"

definition unless :: "bool \<Rightarrow> string \<Rightarrow> string option" where
  "unless ok t = (if ok then None else Some t)"

text \<open>What the replay disposition of a resumable session demands of the next action.\<close>

definition replay_action_error :: "NetworkSessionRecoveryState \<Rightarrow> string option" where
  "replay_action_error st =
     (if nrs_intent st \<noteq> ''resume'' then None
      else if nrs_replay_disposition st = DispositionTerminal
      then unless (nrs_next_action st = ActionContinueTeardown) ''terminal replay disposition requires continue-teardown''
      else if nrs_replay_disposition st = DispositionIncomplete
      then unless (nrs_next_action st = ActionManualDiagnosis) ''incomplete replay disposition requires manual-diagnosis''
      else if nrs_replay_disposition st = DispositionRetryable \<or> nrs_replay_disposition st = DispositionInterrupted
      then unless (nrs_next_action st = ActionRetryResume) ''retryable or interrupted replay disposition requires retry-resume''
      else None)"

definition ValidateNetworkSessionRecoveryState :: "NetworkSessionRecoveryState \<Rightarrow> string option" where
  "ValidateNetworkSessionRecoveryState st =
     first_error
      [unless (nrs_authority st = AuthorityPresent) ''invalid network session recovery authority'',
       unless (nrs_intent st \<in> set [''resume'', ''disconnect'', ''terminal'']) ''invalid network session recovery intent'',
       unless (nrs_startup_gate st = GateBlocked \<or> nrs_startup_gate st = GateOpen) ''invalid network session startup gate'',
       unless (nrs_resume_stage st = [] \<or> validNetworkSessionResumeStage (nrs_resume_stage st))
         ''invalid network session resume stage'',
       unless (nrs_last_resume_outcome st \<in> set [OutcomeNotAttempted, OutcomeFailed, OutcomeIncomplete, OutcomeSucceeded])
         ''invalid network session resume outcome'',
       unless (nrs_last_tun_failure_phase st = [] \<or> networkSessionFailurePhasePattern (nrs_last_tun_failure_phase st))
         ''invalid network session TUN failure phase'',
       unless (nrs_replay_disposition st = [] \<or> validNetworkSessionReplayDisposition (nrs_replay_disposition st))
         ''invalid network session replay disposition'',
       unless (nrs_replay_disposition st = [] \<or> nrs_resume_stage st = StageConnectReplay)
         ''network session replay disposition requires connect-replay resume stage'',
       unless (nrs_network_apply_subphase st = [] \<or>
           nrs_network_apply_subphase st \<in> set [''tun-address'', ''routes'', ''policy-rules'', ''dns'', ''nftables''])
         ''invalid network session apply subphase'',
       unless (nrs_network_apply_subphase st = [] \<or>
           (nrs_resume_stage st = StageConnectReplay \<and> nrs_last_tun_failure_phase st = ''network-apply''))
         ''network session apply subphase requires connect-replay network-apply failure'',
       unless (nrs_rollback_status st = [] \<or>
           nrs_rollback_status st \<in> set [''not-started'', ''completed'', ''failed'', ''unknown''])
         ''invalid network session rollback status'',
       unless (nrs_cleanup_authority st = CleanupAuthorityNone \<or> nrs_cleanup_authority st = CleanupAuthoritySessionProtection)
         ''invalid network session cleanup authority'',
       unless (nrs_next_action st \<in> set [ActionRetryResume, ActionContinueTeardown, ActionManualDiagnosis, ActionNone])
         ''invalid network session recovery next action'',
       unless (nrs_last_resume_outcome st = OutcomeSucceeded \<longrightarrow> nrs_startup_gate st = GateOpen)
         ''successful network session recovery requires an open startup gate'',
       unless (nrs_last_resume_outcome st = OutcomeSucceeded \<longrightarrow> nrs_next_action st = ActionNone)
         ''successful network session recovery cannot require another action'',
       unless (nrs_last_resume_outcome st = OutcomeSucceeded \<longrightarrow>
           nrs_replay_disposition st = [] \<and> nrs_network_apply_subphase st = [])
         ''successful network session recovery cannot retain replay failure metadata'',
       unless (\<not> (nrs_startup_gate st = GateBlocked \<and> nrs_last_resume_outcome st = OutcomeSucceeded))
         ''blocked startup gate cannot have a successful resume outcome'',
       unless (\<not> (nrs_intent st = ''resume'' \<and> nrs_next_action st = ActionContinueTeardown \<and>
           nrs_replay_disposition st \<noteq> DispositionTerminal))
         ''resume intent can request terminal teardown only for terminal replay disposition'',
       unless (\<not> (nrs_intent st \<noteq> ''resume'' \<and> nrs_next_action st = ActionRetryResume))
         ''terminal network session intent cannot request resume'',
       replay_action_error st]"

definition networkSessionResumeRecoveryAction :: "string \<Rightarrow> string" where
  "networkSessionResumeRecoveryAction disposition =
     (if disposition = DispositionTerminal then ActionContinueTeardown
      else if disposition = DispositionIncomplete then ActionManualDiagnosis
      else if disposition = DispositionRetryable \<or> disposition = DispositionInterrupted \<or> disposition = [] then ActionRetryResume
      else ActionManualDiagnosis)"

section \<open>Replay attempts and the diagnostic record\<close>

record networkSessionReplayAttempt =
  rat_session_id :: string
  rat_recovery_epoch :: "64 word"
  rat_replay_disposition :: string
  rat_resume_stage :: string
  rat_tun_failure_phase :: string
  rat_network_apply_subphase :: string
  rat_network_apply_failure_cause :: string
  rat_dns_failure_cause :: string
  rat_rollback_status :: string
  rat_transaction_present :: bool
  rat_transaction_id :: string
  rat_legacy_migration :: bool
  rat_candidate_mutation :: string

record networkSessionResumeDiagnostic =
  rdg_schema_version :: string
  rdg_owner :: string
  rdg_boot_id :: string
  rdg_recovery_epoch :: "64 word"
  rdg_resume_stage :: string
  rdg_last_resume_outcome :: string
  rdg_tun_failure_phase :: string
  rdg_rollback_status :: string
  rdg_transaction_present :: bool
  rdg_legacy_migration :: bool
  rdg_replay_disposition :: string
  rdg_network_apply_subphase :: string
  rdg_originating :: "networkSessionReplayAttempt option"
  rdg_current :: "networkSessionReplayAttempt option"

definition networkSessionResumeDiagnosticSchemaVersion :: string where
  "networkSessionResumeDiagnosticSchemaVersion = ''podlaz.network-session-resume-diagnostic.v1''"

definition maxNetworkSessionResumeDiagnosticBytes :: nat where
  "maxNetworkSessionResumeDiagnosticBytes = 16 * 1024"

definition attempt_state :: "networkSessionReplayAttempt \<Rightarrow> NetworkSessionRecoveryState" where
  "attempt_state a =
     \<lparr>nrs_authority = AuthorityPresent, nrs_intent = ''resume'', nrs_startup_gate = GateBlocked,
      nrs_resume_stage = rat_resume_stage a, nrs_last_resume_outcome = OutcomeFailed,
      nrs_last_tun_failure_phase = rat_tun_failure_phase a, nrs_replay_disposition = rat_replay_disposition a,
      nrs_network_apply_subphase = rat_network_apply_subphase a, nrs_rollback_status = rat_rollback_status a,
      nrs_transaction_present = rat_transaction_present a, nrs_legacy_migration = rat_legacy_migration a,
      nrs_cleanup_authority = CleanupAuthorityNone,
      nrs_next_action = networkSessionResumeRecoveryAction (rat_replay_disposition a)\<rparr>"

definition validateNetworkSessionReplayAttempt :: "networkSessionReplayAttempt \<Rightarrow> string option" where
  "validateNetworkSessionReplayAttempt a =
     first_error
      [unless (networkSessionIDPattern (trim_space (rat_session_id a))) ''invalid Network Session identity'',
       unless (rat_recovery_epoch a \<noteq> 0) ''replay attempt has zero recovery epoch'',
       unless (rat_resume_stage a = StageConnectReplay) ''replay attempt has invalid resume stage'',
       unless (validNetworkSessionReplayDisposition (rat_replay_disposition a)) ''invalid replay disposition'',
       unless (rat_network_apply_subphase a = [] \<or> validNetworkSessionApplySubphase (rat_network_apply_subphase a))
         ''invalid replay apply subphase'',
       unless (rat_dns_failure_cause a = [] \<or> rat_tun_failure_phase a = ''resolved-link-query-verify'')
         ''DNS failure cause requires resolved-link-query-verify phase'',
       unless (rat_dns_failure_cause a = [] \<or> ValidResolvedScopedQueryFailureCause (rat_dns_failure_cause a))
         ''invalid scoped DNS failure cause'',
       unless (rat_network_apply_failure_cause a = [] \<or> rat_tun_failure_phase a = ''network-apply'')
         ''network apply failure cause requires network-apply TUN failure phase'',
       unless (rat_network_apply_failure_cause a = [] \<or> validNetworkSessionApplyFailureCause (rat_network_apply_failure_cause a))
         ''invalid network apply failure cause'',
       ValidateNetworkSessionRecoveryState (attempt_state a),
       unless (validNetworkSessionCandidateMutation (rat_candidate_mutation a)) ''invalid candidate mutation outcome'']"

definition diagnostic_state :: "networkSessionResumeDiagnostic \<Rightarrow> NetworkSessionRecoveryState" where
  "diagnostic_state r =
     \<lparr>nrs_authority = AuthorityPresent, nrs_intent = ''resume'', nrs_startup_gate = GateBlocked,
      nrs_resume_stage = rdg_resume_stage r, nrs_last_resume_outcome = rdg_last_resume_outcome r,
      nrs_last_tun_failure_phase = rdg_tun_failure_phase r, nrs_replay_disposition = rdg_replay_disposition r,
      nrs_network_apply_subphase = rdg_network_apply_subphase r, nrs_rollback_status = rdg_rollback_status r,
      nrs_transaction_present = rdg_transaction_present r, nrs_legacy_migration = rdg_legacy_migration r,
      nrs_cleanup_authority = CleanupAuthorityNone,
      nrs_next_action = networkSessionResumeRecoveryAction (rdg_replay_disposition r)\<rparr>"

definition validateNetworkSessionResumeDiagnostic :: "networkSessionResumeDiagnostic \<Rightarrow> string option" where
  "validateNetworkSessionResumeDiagnostic r =
     first_error
      [unless (rdg_schema_version r = networkSessionResumeDiagnosticSchemaVersion)
         ''unsupported network session resume diagnostic schema'',
       unless (rdg_owner r = ''podlaz'') ''unsupported network session resume diagnostic owner'',
       unless (trim_space (rdg_boot_id r) \<noteq> []) ''network session resume diagnostic has empty boot id'',
       unless (rdg_replay_disposition r = [] \<or> validNetworkSessionReplayDisposition (rdg_replay_disposition r))
         ''invalid network session replay disposition'',
       unless (rdg_network_apply_subphase r = [] \<or> validNetworkSessionApplySubphase (rdg_network_apply_subphase r))
         ''invalid network session apply subphase'',
       Option.bind (rdg_originating r) validateNetworkSessionReplayAttempt,
       Option.bind (rdg_current r) validateNetworkSessionReplayAttempt,
       ValidateNetworkSessionRecoveryState (diagnostic_state r)]"

section \<open>The diagnostic store\<close>

record 'a kept_file =
  kf_perm :: nat
  kf_size :: nat
  kf_doc :: "'a option"

record 'a kept_env =
  ke_boot :: "string option"
  ke_size :: "'a \<Rightarrow> nat"
  ke_load :: load_fault
  ke_write :: write_fault
  ke_remove :: remove_fault

text \<open>\<^verbatim>\<open>atomicWritePrivateFile\<close> on the file it replaces.\<close>

definition replace_kept :: "write_fault \<Rightarrow> 'a kept_file \<Rightarrow> 'a kept_file option \<Rightarrow> 'a kept_file option \<times> bool" where
  "replace_kept fault new old =
     (case fault of WriteOk \<Rightarrow> (Some new, True) | WriteSyncDir \<Rightarrow> (Some new, False) | _ \<Rightarrow> (old, False))"

definition required_boot :: "'a kept_env \<Rightarrow> go_error + string" where
  "required_boot ev =
     (case ke_boot ev of
        None \<Rightarrow> Inl (TextError ''read boot id'')
      | Some b \<Rightarrow> if trim_space b = [] then Inl (TextError ''empty boot id'') else Inr (trim_space b))"

definition remove_kept :: "'a kept_env \<Rightarrow> 'a kept_file option \<Rightarrow> 'a kept_file option \<times> go_error option" where
  "remove_kept ev d =
     (case d of
        None \<Rightarrow> (None, None)
      | Some f \<Rightarrow>
          (case ke_remove ev of
             RemoveUnlink \<Rightarrow> (d, Some (TextError ''remove''))
           | RemoveSyncDir \<Rightarrow> (None, Some (TextError ''sync directory''))
           | RemoveOk \<Rightarrow> (None, None)))"

type_synonym diag_disk = "networkSessionResumeDiagnostic kept_file option"
type_synonym diag_env = "networkSessionResumeDiagnostic kept_env"

definition SaveDiagnostic ::
  "diag_env \<Rightarrow> networkSessionResumeDiagnostic \<Rightarrow> diag_disk \<Rightarrow> diag_disk \<times> go_error option" where
  "SaveDiagnostic ev record0 d =
     (case required_boot ev of
        Inl e \<Rightarrow> (d, Some e)
      | Inr boot \<Rightarrow>
          (let r = record0\<lparr>rdg_schema_version := networkSessionResumeDiagnosticSchemaVersion, rdg_owner := ''podlaz'',
                     rdg_boot_id := boot\<rparr> in
           case validateNetworkSessionResumeDiagnostic r of
             Some t \<Rightarrow> (d, Some (TextError t))
           | None \<Rightarrow>
               if maxNetworkSessionResumeDiagnosticBytes < ke_size ev r then (d, Some (TextError ''diagnostic too large''))
               else if ke_write ev = WriteMkdir then (d, Some (TextError ''create diagnostics directory''))
               else (case replace_kept (ke_write ev) \<lparr>kf_perm = 384, kf_size = ke_size ev r, kf_doc = Some r\<rparr> d of
                       (d', ok) \<Rightarrow> (d', if ok then None else Some (TextError ''persist diagnostic'')))))"

definition LoadDiagnostic :: "diag_env \<Rightarrow> diag_disk \<Rightarrow> go_error + networkSessionResumeDiagnostic option" where
  "LoadDiagnostic ev d =
     (if ke_load ev = LoadOpen then Inl (TextError ''open diagnostic'')
      else case d of
        None \<Rightarrow> Inr None
      | Some f \<Rightarrow>
          if ke_load ev = LoadStat then Inl (TextError ''stat diagnostic'')
          else if kf_perm f \<noteq> 384 then Inl (TextError ''diagnostic permissions'')
          else if maxNetworkSessionResumeDiagnosticBytes < kf_size f then Inl (TextError ''diagnostic too large'')
          else if ke_load ev = LoadRead then Inl (TextError ''read diagnostic'')
          else case kf_doc f of
            None \<Rightarrow> Inl (TextError ''decode diagnostic'')
          | Some r \<Rightarrow>
              (case validateNetworkSessionResumeDiagnostic r of
                 Some t \<Rightarrow> Inl (TextError t)
               | None \<Rightarrow>
                   (case required_boot ev of
                      Inl e \<Rightarrow> Inl e
                    | Inr boot \<Rightarrow> Inr (if rdg_boot_id r = boot then Some r else None))))"

definition RemoveDiagnostic :: "diag_env \<Rightarrow> diag_disk \<Rightarrow> diag_disk \<times> go_error option" where
  "RemoveDiagnostic ev d = remove_kept ev d"

text \<open>The attempts of the record on disk are carried over; outside the replay stage there is no disposition.  The two calls of
  a combined operation have an environment each.\<close>

definition blocker_record ::
  "networkSessionResumeDiagnostic option \<Rightarrow> networkSessionResumeDiagnostic \<Rightarrow> networkSessionResumeDiagnostic" where
  "blocker_record current r =
     (let kept = (case current of None \<Rightarrow> r | Some c \<Rightarrow> r\<lparr>rdg_originating := rdg_originating c, rdg_current := rdg_current c\<rparr>) in
      if rdg_resume_stage r \<noteq> StageConnectReplay
      then kept\<lparr>rdg_replay_disposition := [], rdg_network_apply_subphase := []\<rparr> else kept)"

definition SaveLatestBlocker ::
  "diag_env \<Rightarrow> diag_env \<Rightarrow> networkSessionResumeDiagnostic \<Rightarrow> diag_disk \<Rightarrow> diag_disk \<times> go_error option" where
  "SaveLatestBlocker el ev r d =
     (case LoadDiagnostic el d of Inl e \<Rightarrow> (d, Some e) | Inr current \<Rightarrow> SaveDiagnostic ev (blocker_record current r) d)"

definition replay_record ::
  "networkSessionResumeDiagnostic option \<Rightarrow> networkSessionResumeDiagnostic \<Rightarrow> networkSessionReplayAttempt \<Rightarrow>
   networkSessionResumeDiagnostic" where
  "replay_record current r attempt =
     r\<lparr>rdg_replay_disposition := rat_replay_disposition attempt,
       rdg_network_apply_subphase := rat_network_apply_subphase attempt, rdg_current := Some attempt,
       rdg_originating :=
         (case Option.bind current rdg_originating of Some first \<Rightarrow> Some first | None \<Rightarrow> Some attempt)\<rparr>"

definition SaveReplayFailure ::
  "diag_env \<Rightarrow> diag_env \<Rightarrow> networkSessionResumeDiagnostic \<Rightarrow> networkSessionReplayAttempt \<Rightarrow> diag_disk \<Rightarrow>
   diag_disk \<times> go_error option" where
  "SaveReplayFailure el ev r attempt d =
     (case LoadDiagnostic el d of Inl e \<Rightarrow> (d, Some e) | Inr current \<Rightarrow> SaveDiagnostic ev (replay_record current r attempt) d)"

section \<open>Staged errors\<close>

definition newNetworkSessionResumeOutcomeError :: "string \<Rightarrow> string \<Rightarrow> bool \<Rightarrow> bool \<Rightarrow> go_error \<Rightarrow> go_error" where
  "newNetworkSessionResumeOutcomeError stage outcome legacy present e =
     (let (phase0, txid, rollback0) = tunFailureLogFields e;
          phase = (if phase0 = ''unknown'' then [] else phase0);
          rollback = (if rollback0 = ''unknown'' \<and> phase = [] then [] else rollback0) in
      StageError stage outcome phase rollback (present \<or> (txid \<noteq> [] \<and> txid \<noteq> noTunTransactionID)) legacy e)"

definition blank_diagnostic :: networkSessionResumeDiagnostic where
  "blank_diagnostic =
     \<lparr>rdg_schema_version = networkSessionResumeDiagnosticSchemaVersion, rdg_owner = ''podlaz'', rdg_boot_id = [],
      rdg_recovery_epoch = 0, rdg_resume_stage = [], rdg_last_resume_outcome = [], rdg_tun_failure_phase = [],
      rdg_rollback_status = [], rdg_transaction_present = False, rdg_legacy_migration = False, rdg_replay_disposition = [],
      rdg_network_apply_subphase = [], rdg_originating = None, rdg_current = None\<rparr>"

definition staged_record :: "go_error \<Rightarrow> networkSessionResumeDiagnostic option" where
  "staged_record e =
     (case e of
        StageError stage outcome phase rollback present legacy _ \<Rightarrow>
          Some (blank_diagnostic
            \<lparr>rdg_resume_stage := stage, rdg_last_resume_outcome := or_default OutcomeFailed outcome,
             rdg_tun_failure_phase := phase, rdg_rollback_status := rollback, rdg_transaction_present := present,
             rdg_legacy_migration := legacy\<rparr>)
      | _ \<Rightarrow> None)"

definition networkSessionResumeFailure :: "go_error \<Rightarrow> networkSessionResumeDiagnostic option" where
  "networkSessionResumeFailure e = errors_as staged_record e"

definition networkSessionReplayProjection :: "go_error \<Rightarrow> (string \<times> string) option" where
  "networkSessionReplayProjection e =
     (case errors_as (\<lambda>x. case x of ProjectionError d p _ \<Rightarrow> Some (d, p) | _ \<Rightarrow> None) e of
        None \<Rightarrow> None
      | Some (d, p) \<Rightarrow>
          if \<not> validNetworkSessionReplayDisposition d then None
          else if p \<noteq> [] \<and> \<not> validNetworkSessionApplySubphase p then None
          else Some (d, p))"

definition dnsReplayQueryFailureCause :: "string \<Rightarrow> go_error \<Rightarrow> string" where
  "dnsReplayQueryFailureCause phase e =
     (if phase \<noteq> ''resolved-link-query-verify'' then [] else ResolvedScopedQueryFailureCause e)"

text \<open>The attempt that \<^verbatim>\<open>persistNetworkSessionReplayFailure\<close> records, and its record.\<close>

definition failed_replay ::
  "bool \<Rightarrow> networkSessionState \<Rightarrow> bool \<Rightarrow> go_error \<Rightarrow> networkSessionResumeDiagnostic \<Rightarrow>
   networkSessionResumeDiagnostic \<times> networkSessionReplayAttempt" where
  "failed_replay cancelled st legacy e record0 =
     (let (disposition, mutation) = classifyNetworkSessionReplayFailure cancelled (Some e);
          (_, txid0, _) = tunFailureLogFields e;
          txid = (if txid0 = noTunTransactionID then [] else txid0);
          applying = (rdg_tun_failure_phase record0 = ''network-apply'');
          r = record0\<lparr>rdg_recovery_epoch := ns_epoch st, rdg_replay_disposition := disposition,
                rdg_network_apply_subphase :=
                  (if applying then ApplyFailureSubphase e else rdg_network_apply_subphase record0)\<rparr> in
      (r, \<lparr>rat_session_id = ns_session_id st, rat_recovery_epoch = ns_epoch st, rat_replay_disposition = disposition,
           rat_resume_stage = StageConnectReplay, rat_tun_failure_phase = rdg_tun_failure_phase r,
           rat_network_apply_subphase = rdg_network_apply_subphase r,
           rat_network_apply_failure_cause =
             (if applying \<and> ApplyFailureCause e \<noteq> ''unknown'' then ApplyFailureCause e else []),
           rat_dns_failure_cause = dnsReplayQueryFailureCause (rdg_tun_failure_phase r) e,
           rat_rollback_status = rdg_rollback_status r, rat_transaction_present = rdg_transaction_present r,
           rat_transaction_id = txid, rat_legacy_migration = legacy, rat_candidate_mutation = mutation\<rparr>))"

definition networkSessionReplayReadmissionBlocker :: "networkSessionReplayAttempt \<Rightarrow> go_error option" where
  "networkSessionReplayReadmissionBlocker a =
     (if rat_replay_disposition a \<noteq> DispositionIncomplete then None
      else Some (newNetworkSessionResumeOutcomeError StageConnectReplay OutcomeFailed (rat_legacy_migration a)
        (rat_transaction_present a)
        (withTunFailurePhase (rat_tun_failure_phase a) [] (rat_rollback_status a) ReplayIncomplete)))"

definition diagnosticHasTerminalReplayEvidence :: "networkSessionResumeDiagnostic \<Rightarrow> bool" where
  "diagnosticHasTerminalReplayEvidence r =
     (case rdg_current r of None \<Rightarrow> False | Some a \<Rightarrow> rat_replay_disposition a = DispositionTerminal)"

definition networkSessionTerminalAttemptCleanupSafe :: "networkSessionReplayAttempt \<Rightarrow> bool" where
  "networkSessionTerminalAttemptCleanupSafe a =
     (rat_replay_disposition a = DispositionTerminal \<and>
      (if rat_candidate_mutation a = MutationNotOpened then rat_rollback_status a = ''not-started'' \<and> \<not> rat_transaction_present a
       else rat_candidate_mutation a = MutationRolledBack \<and> rat_rollback_status a = ''completed''))"

section \<open>The terminal reason\<close>

record productTerminalReasonState =
  ptr_schema_version :: string
  ptr_boot_id :: string
  ptr_reason :: string
  ptr_superseded :: bool

definition productTerminalReasonSchemaVersion :: string where
  "productTerminalReasonSchemaVersion = ''podlaz.product-terminal-reason.v1''"

definition maxProductTerminalReasonBytes :: nat where "maxProductTerminalReasonBytes = 4 * 1024"

definition TerminalReasonVPNConnectFailed :: string where "TerminalReasonVPNConnectFailed = ''vpn_connect_failed''"
definition TerminalReasonVPNRestoreFailed :: string where "TerminalReasonVPNRestoreFailed = ''vpn_restore_failed''"
definition TerminalReasonBootNetworkNotReady :: string where "TerminalReasonBootNetworkNotReady = ''boot_network_not_ready''"

definition ValidateTerminalReason :: "string \<Rightarrow> string option" where
  "ValidateTerminalReason reason =
     unless (reason \<in> set [[], TerminalReasonVPNConnectFailed, TerminalReasonVPNRestoreFailed, TerminalReasonBootNetworkNotReady])
       ''invalid terminal_reason''"

definition validateProductTerminalReasonState :: "productTerminalReasonState \<Rightarrow> string option" where
  "validateProductTerminalReasonState st =
     (if ptr_schema_version st \<noteq> productTerminalReasonSchemaVersion then Some ''unsupported product terminal reason schema''
      else if ptr_boot_id st = [] then Some ''product terminal reason boot_id is empty''
      else if ptr_superseded st then
        unless (ptr_reason st = []) ''superseded product terminal reason must not contain a reason''
      else if ptr_reason st = [] then Some ''product terminal reason is empty''
      else ValidateTerminalReason (ptr_reason st))"

text \<open>The file may also be something other than a regular file.\<close>

record reason_file = "productTerminalReasonState kept_file" +
  rfi_regular :: bool

type_synonym reason_disk = "reason_file option"

type_synonym reason_env = "productTerminalReasonState kept_env"

definition write_reason :: "reason_env \<Rightarrow> productTerminalReasonState \<Rightarrow> reason_disk \<Rightarrow> reason_disk \<times> go_error option" where
  "write_reason ev st0 d =
     (case required_boot ev of
        Inl e \<Rightarrow> (d, Some e)
      | Inr boot \<Rightarrow>
          (let st = st0\<lparr>ptr_schema_version := productTerminalReasonSchemaVersion, ptr_boot_id := boot\<rparr> in
           case validateProductTerminalReasonState st of
             Some t \<Rightarrow> (d, Some (TextError t))
           | None \<Rightarrow>
               if maxProductTerminalReasonBytes < ke_size ev st then (d, Some (TextError ''terminal reason too large''))
               else if ke_write ev = WriteMkdir then (d, Some (TextError ''create runtime directory''))
               else
                 (let new = Some \<lparr>kf_perm = 384, kf_size = ke_size ev st, kf_doc = Some st, rfi_regular = True\<rparr> in
                  case ke_write ev of
                    WriteOk \<Rightarrow> (new, None)
                  | WriteSyncDir \<Rightarrow> (new, Some (TextError ''persist terminal reason''))
                  | _ \<Rightarrow> (d, Some (TextError ''persist terminal reason'')))))"

definition no_reason :: productTerminalReasonState where
  "no_reason = \<lparr>ptr_schema_version = [], ptr_boot_id = [], ptr_reason = [], ptr_superseded = False\<rparr>"

definition SetReason :: "reason_env \<Rightarrow> string \<Rightarrow> reason_disk \<Rightarrow> reason_disk \<times> go_error option" where
  "SetReason ev reason d =
     (if reason = [] then (d, Some (TextError ''terminal reason must not be empty''))
      else case ValidateTerminalReason reason of
        Some t \<Rightarrow> (d, Some (TextError t))
      | None \<Rightarrow> write_reason ev (no_reason\<lparr>ptr_reason := reason\<rparr>) d)"

definition Supersede :: "reason_env \<Rightarrow> reason_disk \<Rightarrow> reason_disk \<times> go_error option" where
  "Supersede ev d = write_reason ev (no_reason\<lparr>ptr_superseded := True\<rparr>) d"

definition ClearReason :: "reason_env \<Rightarrow> reason_disk \<Rightarrow> reason_disk \<times> go_error option" where
  "ClearReason ev d =
     (case d of
        None \<Rightarrow> (None, None)
      | Some f \<Rightarrow>
          (case ke_remove ev of
             RemoveUnlink \<Rightarrow> (d, Some (TextError ''remove terminal reason''))
           | RemoveSyncDir \<Rightarrow> (None, Some (TextError ''sync runtime directory''))
           | RemoveOk \<Rightarrow> (None, None)))"

definition loadCurrentState ::
  "reason_env \<Rightarrow> reason_disk \<Rightarrow> reason_disk \<times> (go_error + productTerminalReasonState option)" where
  "loadCurrentState ev d =
     (if ke_load ev = LoadStat then (d, Inl (TextError ''inspect terminal reason''))
      else case d of
        None \<Rightarrow> (d, Inr None)
      | Some f \<Rightarrow>
          if \<not> rfi_regular f then (d, Inl (TextError ''terminal reason is not a regular file''))
          else if kf_perm f \<noteq> 384 then (d, Inl (TextError ''terminal reason permissions''))
          else if maxProductTerminalReasonBytes < kf_size f then (d, Inl (TextError ''terminal reason too large''))
          else if ke_load ev = LoadOpen then (d, Inl (TextError ''open terminal reason''))
          else if ke_load ev = LoadRead then (d, Inl (TextError ''decode terminal reason''))
          else case kf_doc f of
            None \<Rightarrow> (d, Inl (TextError ''decode terminal reason''))
          | Some st \<Rightarrow>
              (case validateProductTerminalReasonState st of
                 Some t \<Rightarrow> (d, Inl (TextError t))
               | None \<Rightarrow>
                   (case required_boot ev of
                      Inl e \<Rightarrow> (d, Inl e)
                    | Inr boot \<Rightarrow>
                        if ptr_boot_id st \<noteq> boot then
                          (case ClearReason ev d of (d', Some e) \<Rightarrow> (d', Inl e) | (d', None) \<Rightarrow> (d', Inr None))
                        else (d, Inr (Some st)))))"

definition LoadCurrentReason :: "reason_env \<Rightarrow> reason_disk \<Rightarrow> reason_disk \<times> (go_error + string option)" where
  "LoadCurrentReason ev d =
     (case loadCurrentState ev d of
        (d', Inl e) \<Rightarrow> (d', Inl e)
      | (d', Inr None) \<Rightarrow> (d', Inr None)
      | (d', Inr (Some st)) \<Rightarrow> (d', Inr (if ptr_superseded st then None else Some (ptr_reason st))))"

end
