(* ===== verification/Session_Lifecycle.thy ===== *)
theory Session_Lifecycle
  imports Session_Replay
begin

text \<open>
  The requests to a session in the daemon: \<^verbatim>\<open>src/internal/daemon/network_session_lifecycle.go\<close> (connect, disconnect, the
  explicit stop, the protected reconciliation), \<^verbatim>\<open>network_session_replacement_restore.go\<close> and
  \<^verbatim>\<open>network_session_product_reason.go\<close>.  Resuming after a restart is in \<open>Session_Resume\<close>, over the same state.

  The Go interfaces the code calls through (the wrapped lifecycle, the stages of a resume, the status and recovery functions)
  are fields of the environment; each may change everything that is shared.  Every call of a store is one tick, and the
  environment says how it goes.  Whenever the continuation mutex is released another request may run: \<open>le_between\<close> is what
  it does.  The trace lists the calls through the interfaces.
\<close>

section \<open>State and environment\<close>

record LifecycleResponse =
  lrs_connection :: string
  lrs_mode :: string
  lrs_profile_id :: string
  lrs_profile_name :: string
  lrs_proxy :: string
  lrs_tun :: string
  lrs_routes :: string
  lrs_dns :: string
  lrs_firewall :: string
  lrs_runtime_config_path :: string
  lrs_warnings :: "string list"

definition no_response :: LifecycleResponse where
  "no_response = \<lparr>lrs_connection = [], lrs_mode = [], lrs_profile_id = [], lrs_profile_name = [], lrs_proxy = [], lrs_tun = [],
     lrs_routes = [], lrs_dns = [], lrs_firewall = [], lrs_runtime_config_path = [], lrs_warnings = []\<rparr>"

text \<open>The parts of a status response the lifecycle reads: of the TUN health its state, of each transaction whether it
  requires cleanup, of the startup scan its status and whether it lists candidates or warnings.\<close>

record StartupScanStatus =
  ssc_status :: string
  ssc_candidates :: "Candidate list"
  ssc_warnings :: "Warning list"
  ssc_network_session :: "NetworkSessionRecoveryState option"
  ssc_suggested_action :: string

record StatusResponse =
  sta_connection :: string
  sta_lifecycle_phase :: string
  sta_mode :: string
  sta_profile_id :: string
  sta_profile_name :: string
  sta_runtime_config_path :: string
  sta_active_transaction_id :: string
  sta_proxy :: string
  sta_tun :: string
  sta_tun_health :: "string option"
  sta_routes :: string
  sta_dns :: string
  sta_firewall :: string
  sta_transactions_cleanup :: "bool list"
  sta_startup_scan :: "StartupScanStatus option"
  sta_warnings :: "string list"
  sta_inspection_warnings :: "Warning list"

record RecoveryResponse =
  rrs_mode :: string
  rrs_results :: "CleanupResult list"
  rrs_warnings :: "Warning list"
  rrs_network_session :: "NetworkSessionRecoveryState option"

text \<open>\<open>sh_stop\<close>, \<open>sh_generation\<close> and \<open>sh_cancel\<close> are \<^verbatim>\<open>explicitStop\<close>, \<^verbatim>\<open>restoreGeneration\<close> and whether
  \<^verbatim>\<open>restoreCancel\<close> is set; the rest of the daemon and of the host is \<open>sh_world\<close>.\<close>

record 'w shared =
  sh_session :: session_disk
  sh_diag :: diag_disk
  sh_reason :: reason_disk
  sh_txs :: txdir
  sh_stop :: bool
  sh_generation :: "64 word"
  sh_cancel :: bool
  sh_world :: 'w

datatype life_event =
    CalledConnect ConnectRequest
  | CalledDisconnect
  | CalledReconcile bool
  | CalledExactRecovery bool
  | CalledGenericRecovery bool
  | CalledLiveConvergence bool
  | CalledObservation bool
  | CalledTeardown bool

record 'w life =
  li_shared :: "'w shared"
  li_tick :: nat
  li_trace :: "life_event list"

record life_call =
  lc_load :: session_env
  lc_write :: session_env
  lc_load2 :: session_env
  lc_write2 :: session_env
  lc_diag :: diag_env
  lc_diag2 :: diag_env
  lc_reason :: reason_env
  lc_scan :: "string option"
  lc_unlink :: "string option"
  lc_cancelled :: bool

text \<open>The status function may be missing in \<^verbatim>\<open>Connect\<close>, and the status and recovery functions in a resume; a wrapped
  lifecycle may lack the live terminal capability.\<close>

record 'w life_env =
  le_call :: "nat \<Rightarrow> life_call"
  le_between :: "nat \<Rightarrow> 'w shared \<Rightarrow> 'w shared"
  le_store :: TransactionStore
  le_error_text :: "tx_error \<Rightarrow> string"
  le_connect :: "ConnectRequest \<Rightarrow> 'w shared \<Rightarrow> 'w shared \<times> LifecycleResponse \<times> go_error option"
  le_disconnect :: "'w shared \<Rightarrow> 'w shared \<times> LifecycleResponse \<times> go_error option"
  le_live :: "('w shared \<Rightarrow> 'w shared \<times> go_error option) option"
  le_verified_status :: "('w shared \<Rightarrow> 'w shared \<times> StatusResponse) option"
  le_migrate :: "'w shared \<Rightarrow> 'w shared \<times> (go_error + bool)"
  le_reconcile :: "'w shared \<Rightarrow> 'w shared \<times> go_error option"
  le_exact :: "'w shared \<Rightarrow> 'w shared \<times> RecoveryResponse"
  le_generic :: "('w shared \<Rightarrow> 'w shared \<times> RecoveryResponse) option"
  le_observe :: "string \<Rightarrow> 'w shared \<Rightarrow> 'w shared \<times> go_error option"
  le_teardown :: "'w shared \<Rightarrow> 'w shared \<times> go_error option"

type_synonym ('w, 'e, 'a) life_act = "('w life, 'e, 'a) prog"

subsection \<open>Calls\<close>

definition here :: "('w shared \<Rightarrow> 'a) \<Rightarrow> ('w, 'e, 'a) life_act" where
  "here f s = (s, Inr (f (li_shared s)))"

definition change :: "('w shared \<Rightarrow> 'w shared) \<Rightarrow> ('w, 'e, unit) life_act" where
  "change f s = (s\<lparr>li_shared := f (li_shared s)\<rparr>, Inr ())"

definition tick :: "'w life \<Rightarrow> 'w life" where
  "tick s = s\<lparr>li_tick := Suc (li_tick s)\<rparr>"

definition on_session :: "'w life_env \<Rightarrow> (life_call \<Rightarrow> session_disk \<Rightarrow> session_disk \<times> 'a) \<Rightarrow> ('w, 'e, 'a) life_act" where
  "on_session env f s =
     (case f (le_call env (li_tick s)) (sh_session (li_shared s)) of
        (d, x) \<Rightarrow> (tick s\<lparr>li_shared := (li_shared s)\<lparr>sh_session := d\<rparr>\<rparr>, Inr x))"

definition on_diag :: "'w life_env \<Rightarrow> (life_call \<Rightarrow> diag_disk \<Rightarrow> diag_disk \<times> 'a) \<Rightarrow> ('w, 'e, 'a) life_act" where
  "on_diag env f s =
     (case f (le_call env (li_tick s)) (sh_diag (li_shared s)) of
        (d, x) \<Rightarrow> (tick s\<lparr>li_shared := (li_shared s)\<lparr>sh_diag := d\<rparr>\<rparr>, Inr x))"

definition on_reason :: "'w life_env \<Rightarrow> (life_call \<Rightarrow> reason_disk \<Rightarrow> reason_disk \<times> 'a) \<Rightarrow> ('w, 'e, 'a) life_act" where
  "on_reason env f s =
     (case f (le_call env (li_tick s)) (sh_reason (li_shared s)) of
        (d, x) \<Rightarrow> (tick s\<lparr>li_shared := (li_shared s)\<lparr>sh_reason := d\<rparr>\<rparr>, Inr x))"

definition on_txs :: "'w life_env \<Rightarrow> (life_call \<Rightarrow> txdir \<Rightarrow> txdir \<times> 'a) \<Rightarrow> ('w, 'e, 'a) life_act" where
  "on_txs env f s =
     (case f (le_call env (li_tick s)) (sh_txs (li_shared s)) of
        (d, x) \<Rightarrow> (tick s\<lparr>li_shared := (li_shared s)\<lparr>sh_txs := d\<rparr>\<rparr>, Inr x))"

text \<open>Whether the context of the request is done.\<close>

definition cancelled :: "'w life_env \<Rightarrow> ('w, 'e, bool) life_act" where
  "cancelled env s = (tick s, Inr (lc_cancelled (le_call env (li_tick s))))"

text \<open>A call through an interface, entered in the trace when it has an entry.\<close>

definition outside :: "('a \<Rightarrow> life_event list) \<Rightarrow> ('w shared \<Rightarrow> 'w shared \<times> 'a) \<Rightarrow> ('w, 'e, 'a) life_act" where
  "outside ev f s =
     (case f (li_shared s) of (h, x) \<Rightarrow> (s\<lparr>li_shared := h, li_trace := li_trace s @ ev x\<rparr>, Inr x))"

definition unlock :: "'w life_env \<Rightarrow> ('w, 'e, unit) life_act" where
  "unlock env s = (tick s\<lparr>li_shared := le_between env (li_tick s) (li_shared s)\<rparr>, Inr ())"

definition load_session :: "'w life_env \<Rightarrow> ('w, 'e, session_result) life_act" where
  "load_session env = on_session env (\<lambda>c. loadLocked (lc_load c))"

definition inner_connect :: "'w life_env \<Rightarrow> ConnectRequest \<Rightarrow> ('w, 'e, LifecycleResponse \<times> go_error option) life_act" where
  "inner_connect env request = outside (\<lambda>x. [CalledConnect request]) (le_connect env request)"

definition inner_disconnect :: "'w life_env \<Rightarrow> ('w, 'e, LifecycleResponse \<times> go_error option) life_act" where
  "inner_disconnect env = outside (\<lambda>x. [CalledDisconnect]) (le_disconnect env)"

definition wrap_store :: "string \<Rightarrow> session_error option \<Rightarrow> go_error option" where
  "wrap_store t e = map_option (\<lambda>x. Wrapped t (StoreError x)) e"

section \<open>Is this session already verified?\<close>

definition session_matches :: "ConnectRequest \<Rightarrow> networkSessionState \<Rightarrow> bool" where
  "session_matches request st =
     (ns_intent st = IntentResume \<and> ns_replacement st = None \<and>
      (case ns_protection st of None \<Rightarrow> False | Some p \<Rightarrow> np_state p = ProtectionArmed) \<and>
      networkSessionRequestsEquivalentIgnoringHandoff (ns_request st) request)"

definition status_verified :: "ConnectRequest \<Rightarrow> StatusResponse \<Rightarrow> bool" where
  "status_verified request status =
     (sta_connection status = ''active'' \<and> sta_mode status = ModeTun \<and>
      sta_profile_id status = pr_id (cr_profile request) \<and> sta_profile_name status = pr_name (cr_profile request) \<and>
      sta_active_transaction_id status \<noteq> [] \<and> sta_tun_health status = Some ''verified'' \<and>
      sta_lifecycle_phase status = [] \<and> sta_inspection_warnings status = [] \<and>
      (case sta_startup_scan status of
         None \<Rightarrow> True
       | Some scan \<Rightarrow> ssc_status scan = ''clean'' \<and> ssc_candidates scan = [] \<and> ssc_warnings scan = []) \<and>
      \<not> list_ex id (sta_transactions_cleanup status))"

definition response_of_status :: "StatusResponse \<Rightarrow> LifecycleResponse" where
  "response_of_status status =
     \<lparr>lrs_connection = sta_connection status, lrs_mode = sta_mode status, lrs_profile_id = sta_profile_id status,
      lrs_profile_name = sta_profile_name status, lrs_proxy = sta_proxy status, lrs_tun = sta_tun status,
      lrs_routes = sta_routes status, lrs_dns = sta_dns status, lrs_firewall = sta_firewall status,
      lrs_runtime_config_path = sta_runtime_config_path status, lrs_warnings = sta_warnings status\<rparr>"

definition verifiedSameNetworkSession ::
  "'w life_env \<Rightarrow> ConnectRequest \<Rightarrow> ConnectRequest option \<Rightarrow> ('w, 'e, LifecycleResponse option) life_act" where
  "verifiedSameNetworkSession env request previous =
     (case (previous, le_verified_status env) of
        (Some prev, Some verifiedStatus) \<Rightarrow>
          if cr_mode request \<noteq> ModeTun \<or> \<not> networkSessionRequestsEquivalentIgnoringHandoff prev request then ret None
          else
            bindp (load_session env) (\<lambda>before.
              case before of
                Inr (Some st) \<Rightarrow>
                  if \<not> session_matches request st then ret None
                  else
                    bindp (outside (\<lambda>x. []) verifiedStatus) (\<lambda>status.
                    bindp (cancelled env) (\<lambda>gone.
                      if gone \<or> \<not> status_verified request status then ret None
                      else
                        bindp (load_session env) (\<lambda>after.
                          ret (if after = Inr (Some st) then Some (response_of_status status) else None))))
              | _ \<Rightarrow> ret None)
      | _ \<Rightarrow> ret None)"

section \<open>Going back to the previous request\<close>

definition resave_previous :: "'w life_env \<Rightarrow> ConnectRequest \<Rightarrow> ('w, 'e, go_error option) life_act" where
  "resave_previous env request =
     bindp (on_session env (\<lambda>c. BeginOrResume (lc_load c) (lc_write c) request)) (\<lambda>saved.
       ret (case saved of
              Inl e \<Rightarrow> Some (Wrapped ''restore previous network session continuation after failed connect''
                               (Wrapped ''persist network session continuation'' (StoreError e)))
            | Inr st \<Rightarrow> None))"

definition restorePreviousContinuation ::
  "'w life_env \<Rightarrow> ConnectRequest option \<Rightarrow> ('w, 'e, go_error option) life_act" where
  "restorePreviousContinuation env previous =
     bindp (here sh_stop) (\<lambda>stop.
     bindp (if stop then ret None
            else case previous of
              None \<Rightarrow>
                bindp (on_session env (\<lambda>c. RemoveContinuation (lc_load c) (lc_write c) (lc_load2 c) (lc_write2 c))) (\<lambda>e.
                  ret (wrap_store ''disarm failed network session continuation'' e))
            | Some request \<Rightarrow>
                bindp (load_session env) (\<lambda>loaded.
                  case loaded of
                    Inl e \<Rightarrow> ret (Some (Wrapped ''load network session before failed replacement restore'' (StoreError e)))
                  | Inr (Some st) \<Rightarrow>
                      if ns_replacement st = None then resave_previous env request
                      else
                        bindp (on_session env (\<lambda>c. RestoreReplacement (lc_load c) (lc_write c))) (\<lambda>e.
                          case e of
                            Some x \<Rightarrow> ret (wrap_store ''restore previous network session transition after failed connect'' e)
                          | None \<Rightarrow> resave_previous env request)
                  | Inr None \<Rightarrow> resave_previous env request)) (\<lambda>r.
     bindp (unlock env) (\<lambda>u. ret r)))"

text \<open>\<^verbatim>\<open>verifiedSameNetworkSession\<close> reads the session without the mutex here.\<close>

definition restorePreviousDataPlane :: "'w life_env \<Rightarrow> ConnectRequest \<Rightarrow> ('w, 'e, go_error option) life_act" where
  "restorePreviousDataPlane env previous =
     bindp (here sh_stop) (\<lambda>stop.
       if stop then bindp (unlock env) (\<lambda>u. ret None)
       else
         bindp (change (\<lambda>h. h\<lparr>sh_generation := sh_generation h + 1, sh_cancel := True\<rparr>)) (\<lambda>u.
         bindp (here sh_generation) (\<lambda>generation.
         bindp (unlock env) (\<lambda>u.
         bindp (inner_connect env previous) (\<lambda>(response, err).
         bindp (case err of
                  None \<Rightarrow> ret None
                | Some e \<Rightarrow>
                    if \<not> errors_is e ConnectionAlreadyActive then ret (Some e)
                    else
                      bindp (verifiedSameNetworkSession env previous (Some previous)) (\<lambda>verified.
                        ret (if verified \<noteq> None then None
                             else Some (Wrapped ''previous protected generation could not be verified after an active-core conflict'' e)))) (\<lambda>restoreErr.
         bindp (here sh_stop) (\<lambda>stopped.
         bindp (change (\<lambda>h. if sh_generation h = generation then h\<lparr>sh_cancel := False\<rparr> else h)) (\<lambda>u.
         bindp (unlock env) (\<lambda>u.
           ret (case restoreErr of
                  None \<Rightarrow> None
                | Some e \<Rightarrow>
                    if stopped \<and> errors_is e ContextCanceled then None
                    else Some (Wrapped ''restore previous data plane after failed replacement'' e)))))))))))"

section \<open>Connect\<close>

definition ModeProxyOnly :: string where "ModeProxyOnly = ''proxy-only''"

definition terminalConnectReasonEligible :: "bool \<Rightarrow> ConnectRequest \<Rightarrow> go_error \<Rightarrow> bool \<Rightarrow> bool" where
  "terminalConnectReasonEligible gone request e previousExists =
     (if previousExists \<or> gone \<or> errors_is e ConnectionAlreadyActive \<or> errors_is e FullTunnelConnectionBecameActive then False
      else if trim_space (cr_mode request) = ModeProxyOnly then True
      else if trim_space (cr_mode request) = ModeTun then
        (case errors_as phased e of
           None \<Rightarrow> False
         | Some (p, t, rollback) \<Rightarrow> trim_space rollback \<in> set [''not-started'', ''completed''])
      else False)"

definition publishTerminalConnectReason ::
  "'w life_env \<Rightarrow> ConnectRequest \<Rightarrow> go_error \<Rightarrow> bool \<Rightarrow> ('w, 'e, go_error option) life_act" where
  "publishTerminalConnectReason env request e previousExists =
     bindp (cancelled env) (\<lambda>gone.
       if \<not> terminalConnectReasonEligible gone request e previousExists then ret None
       else
         bindp (on_reason env (\<lambda>c. SetReason (lc_reason c) TerminalReasonVPNConnectFailed)) (\<lambda>r.
           ret (map_option (Wrapped ''persist product terminal reason after failed connect'') r)))"

definition cleanup_incomplete :: "go_error \<Rightarrow> bool" where
  "cleanup_incomplete e = list_ex (\<lambda>x. case x of ReplacementCleanupError _ \<Rightarrow> True | _ \<Rightarrow> False) (error_tree e)"

text \<open>A failed replacement may only be undone when the record proves that the previous protection is still the one in
  force.\<close>

definition replacement_undoable :: "ConnectRequest \<Rightarrow> string \<Rightarrow> networkSessionState \<Rightarrow> bool" where
  "replacement_undoable previous rollback st =
     (case ns_replacement st of
        Some rep \<Rightarrow>
          rollback = ''not-started'' \<and> nr_protection rep \<noteq> None \<and> ns_protection st \<noteq> None \<and> nr_protection rep = ns_protection st
      | None \<Rightarrow> ns_protection st = None \<or> networkSessionRequestsEquivalentIgnoringHandoff (ns_request st) previous)"

definition replacement_gate ::
  "'w life_env \<Rightarrow> ConnectRequest \<Rightarrow> LifecycleResponse \<Rightarrow> go_error \<Rightarrow> ('w, LifecycleResponse \<times> go_error, unit) life_act" where
  "replacement_gate env previous response e =
     (let (phase, txid, rollback) = tunFailureLogFields e in
      if cleanup_incomplete e \<or> rollback = ''failed'' then fail (response, ReplacementCleanupError e)
      else
        bindp (load_session env) (\<lambda>loaded.
          case loaded of
            Inl x \<Rightarrow> fail (response, ReplacementCleanupError (Joined [e, StoreError x]))
          | Inr None \<Rightarrow> fail (response, ReplacementCleanupError (Joined [e]))
          | Inr (Some st) \<Rightarrow>
              if replacement_undoable previous rollback st then ret ()
              else fail (response, ReplacementCleanupError e)))"

definition after_failed_connect ::
  "'w life_env \<Rightarrow> ConnectRequest \<Rightarrow> ConnectRequest option \<Rightarrow> bool \<Rightarrow> LifecycleResponse \<Rightarrow> go_error \<Rightarrow>
   ('w, LifecycleResponse \<times> go_error, LifecycleResponse) life_act" where
  "after_failed_connect env request previous replacing response e =
     bindp (if replacing then replacement_gate env (the previous) response e else ret ()) (\<lambda>u.
     bindp (restorePreviousContinuation env previous) (\<lambda>restoreErr.
       case restoreErr of
         Some x \<Rightarrow> fail (response, Joined [e, x])
       | None \<Rightarrow>
           bindp (if replacing then restorePreviousDataPlane env (the previous) else ret None) (\<lambda>planeErr.
             case planeErr of
               Some x \<Rightarrow> fail (response, PreviousRestoreError (Joined [e, x]))
             | None \<Rightarrow>
                 bindp (publishTerminalConnectReason env request e (previous \<noteq> None)) (\<lambda>reasonErr.
                   case reasonErr of
                     Some x \<Rightarrow> fail (response, Joined [e, x])
                   | None \<Rightarrow> fail (response, e)))))"

definition admitted_connect ::
  "'w life_env \<Rightarrow> ConnectRequest \<Rightarrow> ConnectRequest option \<Rightarrow> ('w, LifecycleResponse \<times> go_error, LifecycleResponse) life_act" where
  "admitted_connect env request previous =
     bindp (on_reason env (\<lambda>c. Supersede (lc_reason c))) (\<lambda>superseded.
       case superseded of
         Some e \<Rightarrow>
           bindp (restorePreviousContinuation env previous) (\<lambda>restoreErr.
             fail (no_response, case restoreErr of None \<Rightarrow> e | Some x \<Rightarrow> Joined [e, x]))
       | None \<Rightarrow>
           bindp (inner_connect env request) (\<lambda>(response, connectErr).
             case connectErr of
               None \<Rightarrow> ret response
             | Some e \<Rightarrow>
                 after_failed_connect env request previous
                   (previous \<noteq> None \<and> NormalizeHandoffPolicy (cr_handoff request) = HandoffReplacePodlaz) response e))"

definition Connect ::
  "'w life_env \<Rightarrow> ConnectRequest \<Rightarrow> ('w, LifecycleResponse \<times> go_error, LifecycleResponse) life_act" where
  "Connect env request =
     bindp (here sh_stop) (\<lambda>stop.
       if stop then bindp (unlock env) (\<lambda>u. fail (no_response, ShuttingDown))
       else
         bindp (on_session env (\<lambda>c. LoadCurrent (lc_load c))) (\<lambda>loaded.
           case loaded of
             Inl e \<Rightarrow>
               bindp (unlock env) (\<lambda>u.
                 fail (no_response, Wrapped ''load existing network session continuation before connect'' (StoreError e)))
           | Inr previous \<Rightarrow>
               bindp (verifiedSameNetworkSession env request previous) (\<lambda>verified.
                 case verified of
                   Some response \<Rightarrow> bindp (unlock env) (\<lambda>u. ret response)
                 | None \<Rightarrow>
                     bindp (on_session env (\<lambda>c. BeginOrResume (lc_load c) (lc_write c) request)) (\<lambda>saved.
                     bindp (unlock env) (\<lambda>u.
                       case saved of
                         Inl e \<Rightarrow> fail (no_response, Wrapped ''persist network session continuation'' (StoreError e))
                       | Inr st \<Rightarrow> admitted_connect env request previous)))))"

definition ReconcileProtectedTun :: "'w life_env \<Rightarrow> string \<Rightarrow> ('w, go_error, unit) life_act" where
  "ReconcileProtectedTun env expected0 =
     (let expected = trim_space expected0; refuse = \<lambda>e. bindp (unlock env) (\<lambda>u. fail e) in
      if expected = [] then fail (TextError ''protected TUN reconciliation requires a Network Session identity'')
      else
        bindp (here sh_stop) (\<lambda>stop.
          if stop then refuse ShuttingDown
          else
            bindp (load_session env) (\<lambda>loaded.
              case loaded of
                Inl e \<Rightarrow> refuse (Wrapped ''load Network Session before protected TUN reconciliation'' (StoreError e))
              | Inr None \<Rightarrow> refuse (TextError ''protected TUN reconciliation was superseded by another Network Session'')
              | Inr (Some st) \<Rightarrow>
                  if ns_session_id st \<noteq> expected
                  then refuse (TextError ''protected TUN reconciliation was superseded by another Network Session'')
                  else if ns_intent st \<noteq> IntentResume then refuse (TextError ''protected TUN reconciliation cancelled by intent'')
                  else if cr_mode (ns_request st) \<noteq> ModeTun \<or> ns_protection st = None
                  then refuse (TextError ''protected TUN reconciliation requires a protected TUN Network Session'')
                  else if ns_replacement st \<noteq> None
                  then refuse (TextError ''protected TUN reconciliation replacement is already in progress'')
                  else
                    bindp (unlock env) (\<lambda>u.
                    bindp (map_err (\<lambda>(response, e). Wrapped ''reconcile protected TUN Network Session'' e)
                             (Connect env ((ns_request st)\<lparr>cr_handoff := HandoffReplacePodlaz\<rparr>))) (\<lambda>response. ret ())))))"

section \<open>Stopping\<close>

definition disarmForExplicitStop :: "'w life_env \<Rightarrow> ('w, go_error, unit) life_act" where
  "disarmForExplicitStop env =
     bindp (change (\<lambda>h. let h' = h\<lparr>sh_stop := True\<rparr> in
              if sh_cancel h' then h'\<lparr>sh_cancel := False, sh_generation := sh_generation h' + 1\<rparr> else h')) (\<lambda>u.
     bindp (on_session env (\<lambda>c. disarm (lc_load c) (lc_write c) IntentDisconnect)) (\<lambda>e.
     bindp (unlock env) (\<lambda>u.
       case wrap_store ''disarm network session continuation for explicit stop'' e of
         None \<Rightarrow> ret () | Some x \<Rightarrow> fail x)))"

end
