(* ===== verification/Session_Resume.thy ===== *)
theory Session_Resume
  imports Session_Lifecycle
begin

text \<open>
  Resuming and ending a session: the evidence of a failed replay
  (\<^verbatim>\<open>src/internal/daemon/network_session_replay_evidence.go\<close>,
  \<^verbatim>\<open>network_session_replay_transaction_evidence.go\<close>), the terminal transition
  (\<^verbatim>\<open>network_session_terminal_witness.go\<close>, \<^verbatim>\<open>network_session_terminal_transition.go\<close>), disconnecting,
  \<^verbatim>\<open>resumeNetworkSession\<close> of \<^verbatim>\<open>network_session_lifecycle.go\<close> with its result in
  \<^verbatim>\<open>network_session_resume_outcome.go\<close>, the startup gate, and what is shown of it
  (\<^verbatim>\<open>network_session_recovery_plan.go\<close>, \<^verbatim>\<open>network_session_recovery_status.go\<close>,
  \<^verbatim>\<open>network_session_recovery_result.go\<close>).

  In the environment of a resume \<open>le_connect\<close> is the lifecycle the resume is given, and the stages are the ones the
  continuation store selects.
\<close>

section \<open>Evidence of a replay\<close>

definition delete_tx :: "string \<Rightarrow> txdir \<Rightarrow> txdir" where
  "delete_tx txid d = map_option (AList.delete (tx_file_name txid)) d"

definition remove_tx_file :: "'w life_env \<Rightarrow> string \<Rightarrow> ('w, 'e, go_error option) life_act" where
  "remove_tx_file env txid =
     (case Path (le_store env) txid of
        Inl e \<Rightarrow> ret (Some (TxError e))
      | Inr path \<Rightarrow>
          on_txs env (\<lambda>c d. case lc_unlink c of Some t \<Rightarrow> (d, Some (TextError t)) | None \<Rightarrow> (delete_tx txid d, None)))"

definition removeRetainedNetworkSessionReplayTransaction :: "'w life_env \<Rightarrow> string \<Rightarrow> ('w, 'e, go_error option) life_act" where
  "removeRetainedNetworkSessionReplayTransaction env txid0 =
     (let txid = trim_space txid0 in
      if txid = [] \<or> txid = noTunTransactionID then ret None
      else
        bindp (here sh_txs) (\<lambda>d.
          case Load (le_store env) d txid of
            Inl (TransactionNotExist n) \<Rightarrow> ret None
          | Inl e \<Rightarrow> ret (Some (TxError e))
          | Inr (tx, path) \<Rightarrow>
              if tx_state tx \<noteq> TransactionRolledBack \<or> RequiresRecovery tx then ret None
              else remove_tx_file env txid))"

definition load_diagnostic :: "'w life_env \<Rightarrow> ('w, 'e, go_error + networkSessionResumeDiagnostic option) life_act" where
  "load_diagnostic env = on_diag env (\<lambda>c d. (d, LoadDiagnostic (lc_diag c) d))"

definition remove_diagnostic :: "'w life_env \<Rightarrow> ('w, 'e, go_error option) life_act" where
  "remove_diagnostic env = on_diag env (\<lambda>c. RemoveDiagnostic (lc_diag c))"

text \<open>\<^verbatim>\<open>finalizeSuccessfulNetworkSessionReplayEvidence\<close>: each transaction named by the attempts is removed once.\<close>

definition evidence_ids :: "networkSessionResumeDiagnostic \<Rightarrow> string list" where
  "evidence_ids r =
     remdups (filter (\<lambda>t. t \<noteq> [] \<and> t \<noteq> noTunTransactionID)
       (map (\<lambda>a. trim_space (rat_transaction_id a))
         (case_option [] (\<lambda>a. [a]) (rdg_originating r) @ case_option [] (\<lambda>a. [a]) (rdg_current r))))"

fun remove_each :: "'w life_env \<Rightarrow> string \<Rightarrow> string list \<Rightarrow> ('w, 'e, go_error option) life_act" where
  "remove_each env t [] = ret None"
| "remove_each env t (txid # ids) =
     bindp (removeRetainedNetworkSessionReplayTransaction env txid) (\<lambda>r.
       case r of Some e \<Rightarrow> ret (Some (Wrapped t e)) | None \<Rightarrow> remove_each env t ids)"

definition finalizeSuccessfulNetworkSessionReplayEvidence ::
  "'w life_env \<Rightarrow> networkSessionResumeDiagnostic \<Rightarrow> ('w, 'e, go_error option) life_act" where
  "finalizeSuccessfulNetworkSessionReplayEvidence env r =
     bindp (remove_each env ''remove rolled-back replay transaction evidence after successful resume'' (evidence_ids r)) (\<lambda>e.
       case e of Some x \<Rightarrow> ret (Some x) | None \<Rightarrow> remove_diagnostic env)"

definition scan_transactions :: "'w life_env \<Rightarrow> ('w, 'e, TransactionSummary list \<times> string list) life_act" where
  "scan_transactions env =
     on_txs env (\<lambda>c d. (d, ScanTransactions (le_error_text env) (st_runtime_dir (le_store env)) (lc_scan c) d))"

fun finalizable :: "TransactionSummary list \<Rightarrow> go_error + string list" where
  "finalizable [] = Inr []"
| "finalizable (s # ss) =
     (if ts_requires_recovery s then Inl (TextError ''transaction still requires recovery'')
      else if ts_state s \<noteq> TransactionRolledBack then Inl (TextError ''transaction has unexpected non-recovery state'')
      else rbind (finalizable ss) (\<lambda>ids. Inr (ts_id s # ids)))"

definition finalizableRolledBackTransactionEvidence :: "'w life_env \<Rightarrow> ('w, 'e, go_error + string list) life_act" where
  "finalizableRolledBackTransactionEvidence env =
     bindp (scan_transactions env) (\<lambda>(summaries, warnings).
       ret (if warnings \<noteq> [] then Inl (TextError ''transaction finalization inspection is inconclusive'')
            else finalizable summaries))"

definition requireNoNetworkSessionTransactionState :: "'w life_env \<Rightarrow> ('w, 'e, go_error option) life_act" where
  "requireNoNetworkSessionTransactionState env =
     bindp (scan_transactions env) (\<lambda>(summaries, warnings).
       ret (if warnings \<noteq> [] then Some (TextError ''transaction finalization verification is inconclusive'')
            else if summaries \<noteq> [] then Some (TextError ''transaction finalization left transaction records'')
            else None))"

definition preflightRetainedNetworkSessionReplayEvidence :: "'w life_env \<Rightarrow> ('w, 'e, go_error option) life_act" where
  "preflightRetainedNetworkSessionReplayEvidence env =
     bindp (load_diagnostic env) (\<lambda>loaded.
       case loaded of
         Inl e \<Rightarrow> ret (Some e)
       | Inr None \<Rightarrow> ret None
       | Inr (Some r) \<Rightarrow>
           if \<not> diagnosticHasTerminalReplayEvidence r then ret None
           else bindp (finalizableRolledBackTransactionEvidence env) (\<lambda>x. ret (err_of x)))"

definition finalizeRetainedNetworkSessionReplayEvidence :: "'w life_env \<Rightarrow> ('w, 'e, go_error option) life_act" where
  "finalizeRetainedNetworkSessionReplayEvidence env =
     bindp (load_diagnostic env) (\<lambda>loaded.
       case loaded of
         Inl e \<Rightarrow> ret (Some e)
       | Inr None \<Rightarrow> ret None
       | Inr (Some r) \<Rightarrow>
           if \<not> diagnosticHasTerminalReplayEvidence r then remove_diagnostic env
           else
             bindp (finalizableRolledBackTransactionEvidence env) (\<lambda>x.
               case x of
                 Inl e \<Rightarrow> ret (Some e)
               | Inr ids \<Rightarrow>
                   bindp (remove_each env ''remove rolled-back transaction evidence'' ids) (\<lambda>e.
                     case e of
                       Some y \<Rightarrow> ret (Some y)
                     | None \<Rightarrow>
                         bindp (requireNoNetworkSessionTransactionState env) (\<lambda>e.
                           case e of Some y \<Rightarrow> ret (Some y) | None \<Rightarrow> remove_diagnostic env))))"

definition finalizeNetworkSessionReplayEvidenceAfterTeardown :: "'w life_env \<Rightarrow> ('w, 'e, go_error option) life_act" where
  "finalizeNetworkSessionReplayEvidenceAfterTeardown env =
     bindp (load_session env) (\<lambda>loaded.
       case loaded of
         Inl e \<Rightarrow> ret (Some (Wrapped ''inspect Network Session after terminal teardown'' (StoreError e)))
       | Inr (Some st) \<Rightarrow> ret None
       | Inr None \<Rightarrow> finalizeRetainedNetworkSessionReplayEvidence env)"

definition persistNetworkSessionReplayFailure ::
  "'w life_env \<Rightarrow> networkSessionState \<Rightarrow> bool \<Rightarrow> go_error \<Rightarrow> ('w, 'e, go_error) life_act" where
  "persistNetworkSessionReplayFailure env st legacy e =
     (let wrapped = newNetworkSessionResumeOutcomeError StageConnectReplay OutcomeFailed legacy False e in
      case networkSessionResumeFailure wrapped of
        None \<Rightarrow> ret wrapped
      | Some record0 \<Rightarrow>
          bindp (cancelled env) (\<lambda>gone.
            (let (r, attempt) = failed_replay gone st legacy e record0;
                 projected = ProjectionError (rat_replay_disposition attempt) (rdg_network_apply_subphase r) wrapped in
             bindp (on_diag env (\<lambda>c. SaveReplayFailure (lc_diag c) (lc_diag2 c) r attempt)) (\<lambda>persistErr.
               case persistErr of
                 Some x \<Rightarrow>
                   bindp (removeRetainedNetworkSessionReplayTransaction env (rat_transaction_id attempt)) (\<lambda>cleanupErr.
                     ret (Joined ([projected, x] @ case_option [] (\<lambda>y. [y]) cleanupErr)))
               | None \<Rightarrow>
                   if rat_replay_disposition attempt = DispositionTerminal then ret projected
                   else
                     bindp (removeRetainedNetworkSessionReplayTransaction env (rat_transaction_id attempt)) (\<lambda>cleanupErr.
                       ret (case cleanupErr of None \<Rightarrow> projected | Some y \<Rightarrow> Joined [projected, y]))))))"

definition currentNetworkSessionReplayAttempt ::
  "'w life_env \<Rightarrow> networkSessionState \<Rightarrow> ('w, 'e, go_error + networkSessionReplayAttempt option) life_act" where
  "currentNetworkSessionReplayAttempt env st =
     bindp (load_diagnostic env) (\<lambda>loaded.
       ret (case loaded of
              Inl e \<Rightarrow> Inl e
            | Inr r \<Rightarrow>
                (case Option.bind r rdg_current of
                   None \<Rightarrow> Inr None
                 | Some a \<Rightarrow>
                     Inr (if rat_session_id a = ns_session_id st \<and> rat_recovery_epoch a = ns_epoch st then Some a else None))))"

section \<open>Disconnecting\<close>

definition finalize :: "'w life_env \<Rightarrow> ('w, 'e, go_error option) life_act" where
  "finalize env =
     bindp (preflightRetainedNetworkSessionReplayEvidence env) (\<lambda>e.
       case e of
         Some x \<Rightarrow> ret (Some (Wrapped ''preflight retained Network Session replay evidence'' x))
       | None \<Rightarrow>
           bindp (on_session env (\<lambda>c. RemoveSession (lc_load c) (lc_write c))) (\<lambda>e.
             case e of
               Some x \<Rightarrow> ret (wrap_store ''clear converged Network Session authority'' e)
             | None \<Rightarrow>
                 bindp (finalizeRetainedNetworkSessionReplayEvidence env) (\<lambda>e.
                   ret (map_option (Wrapped ''finalize retained Network Session replay evidence'') e))))"

definition Disconnect :: "'w life_env \<Rightarrow> ('w, LifecycleResponse \<times> go_error, LifecycleResponse) life_act" where
  "Disconnect env =
     bindp (on_session env (\<lambda>c. disarm (lc_load c) (lc_write c) IntentDisconnect)) (\<lambda>e.
     bindp (unlock env) (\<lambda>u.
       case wrap_store ''disarm network session continuation before disconnect'' e of
         Some x \<Rightarrow> fail (no_response, x)
       | None \<Rightarrow>
           bindp (inner_disconnect env) (\<lambda>(response, err).
             case err of
               Some x \<Rightarrow> fail (response, x)
             | None \<Rightarrow>
                 bindp (finalize env) (\<lambda>e.
                 bindp (unlock env) (\<lambda>u.
                   case e of
                     Some x \<Rightarrow> fail (response, Wrapped ''finalize network session state after disconnect'' x)
                   | None \<Rightarrow> ret response)))))"

definition DisconnectForRestart :: "'w life_env \<Rightarrow> ('w, LifecycleResponse \<times> go_error, LifecycleResponse) life_act" where
  "DisconnectForRestart env =
     bindp (inner_disconnect env) (\<lambda>(response, err). case err of Some x \<Rightarrow> fail (response, x) | None \<Rightarrow> ret response)"

section \<open>The terminal transition\<close>

record networkSessionTerminalCleanupWitness =
  tcw_session_id :: string
  tcw_recovery_epoch :: "64 word"
  tcw_proven :: bool

definition TransitionReplayToTerminal ::
  "session_env \<Rightarrow> session_env \<Rightarrow> networkSessionReplayAttempt \<Rightarrow> networkSessionTerminalCleanupWitness \<Rightarrow> session_disk \<Rightarrow>
   session_disk \<times> (session_error + bool)" where
  "TransitionReplayToTerminal el ev attempt w d =
     (if \<not> networkSessionTerminalAttemptCleanupSafe attempt \<or> \<not> tcw_proven w then (d, Inr False)
      else if tcw_session_id w \<noteq> rat_session_id attempt \<or> tcw_recovery_epoch w \<noteq> rat_recovery_epoch attempt then (d, Inr False)
      else case loadLocked el d of
        (d', Inl e) \<Rightarrow> (d', Inl e)
      | (d', Inr None) \<Rightarrow> (d', Inr False)
      | (d', Inr (Some st)) \<Rightarrow>
          if ns_intent st \<noteq> IntentResume \<or> ns_protection st = None then (d', Inr False)
          else if ns_session_id st \<noteq> rat_session_id attempt \<or> ns_epoch st \<noteq> rat_recovery_epoch attempt then (d', Inr False)
          else case save ev (st\<lparr>ns_intent := IntentTerminal\<rparr>) d' of
            (d'', Some e) \<Rightarrow> (d'', Inl e)
          | (d'', None) \<Rightarrow> (d'', Inr True))"

definition networkSessionRecoveryConverged :: "RecoveryResponse \<Rightarrow> bool" where
  "networkSessionRecoveryConverged r =
     (rrs_warnings r = [] \<and> list_all (\<lambda>x. cl_status x = Recovered) (rrs_results r))"

definition networkSessionRecoveryResponseHasTransaction :: "RecoveryResponse \<Rightarrow> bool" where
  "networkSessionRecoveryResponseHasTransaction r = list_ex (\<lambda>x. ca_transaction (cl_candidate x) \<noteq> None) (rrs_results r)"

definition deriveNetworkSessionTerminalCleanupWitness ::
  "'w life_env \<Rightarrow> networkSessionState \<Rightarrow> networkSessionReplayAttempt \<Rightarrow> RecoveryResponse \<Rightarrow>
   ('w, go_error, networkSessionTerminalCleanupWitness) life_act" where
  "deriveNetworkSessionTerminalCleanupWitness env st attempt exact =
     (if ns_intent st \<noteq> IntentResume \<or> ns_protection st = None
      then fail (TextError ''terminal replay cleanup witness requires protected resume authority'')
      else if ns_session_id st \<noteq> rat_session_id attempt \<or> ns_epoch st \<noteq> rat_recovery_epoch attempt
      then fail (TextError ''terminal replay evidence is stale'')
      else if \<not> networkSessionTerminalAttemptCleanupSafe attempt
      then fail (TextError ''terminal replay candidate cleanup is not proven'')
      else if rat_candidate_mutation attempt = MutationRolledBack \<and> trim_space (rat_transaction_id attempt) = []
      then fail (TextError ''rolled-back terminal replay requires exact retained transaction evidence'')
      else if \<not> networkSessionRecoveryConverged exact then fail RecoveryIncomplete
      else
        bindp (outside (\<lambda>x. [CalledObservation (x = None)]) (le_observe env (trim_space (rat_transaction_id attempt)))) (\<lambda>x.
          case x of
            Some e \<Rightarrow> fail (Wrapped ''observe terminal Network Session data plane'' e)
          | None \<Rightarrow> ret \<lparr>tcw_session_id = ns_session_id st, tcw_recovery_epoch = ns_epoch st, tcw_proven = True\<rparr>))"

definition call_teardown :: "'w life_env \<Rightarrow> ('w, 'e, go_error option) life_act" where
  "call_teardown env = outside (\<lambda>x. [CalledTeardown (x = None)]) (le_teardown env)"

definition terminalizeNetworkSessionReplay ::
  "'w life_env \<Rightarrow> networkSessionReplayAttempt \<Rightarrow> RecoveryResponse \<Rightarrow> ('w, go_error, bool) life_act" where
  "terminalizeNetworkSessionReplay env attempt exact =
     bindp (load_session env) (\<lambda>loaded.
       case loaded of
         Inl e \<Rightarrow> fail (Wrapped ''reload Network Session before terminal replay transition'' (StoreError e))
       | Inr None \<Rightarrow> ret False
       | Inr (Some st) \<Rightarrow>
           bindp (deriveNetworkSessionTerminalCleanupWitness env st attempt exact) (\<lambda>w.
           bindp (on_session env (\<lambda>c. TransitionReplayToTerminal (lc_load c) (lc_write c) attempt w)) (\<lambda>outcome.
             case outcome of
               Inl e \<Rightarrow> fail (Wrapped ''persist terminal Network Session replay transition'' (StoreError e))
             | Inr False \<Rightarrow> ret False
             | Inr True \<Rightarrow>
                 bindp (call_teardown env) (\<lambda>x.
                   case x of
                     Some e \<Rightarrow> fail (Wrapped ''continue terminalized Network Session teardown'' e)
                   | None \<Rightarrow>
                       bindp (finalizeNetworkSessionReplayEvidenceAfterTeardown env) (\<lambda>x.
                         case x of
                           Some e \<Rightarrow> fail (Wrapped ''finalize terminal replay evidence after teardown'' e)
                         | None \<Rightarrow> ret True)))))"

section \<open>Resuming\<close>

definition persistNetworkSessionResumeFailure :: "'w life_env \<Rightarrow> 64 word \<Rightarrow> go_error \<Rightarrow> ('w, 'e, go_error) life_act" where
  "persistNetworkSessionResumeFailure env epoch e =
     (case networkSessionResumeFailure e of
        None \<Rightarrow> ret e
      | Some r \<Rightarrow>
          bindp (on_diag env (\<lambda>c. SaveLatestBlocker (lc_diag c) (lc_diag2 c) (r\<lparr>rdg_recovery_epoch := epoch\<rparr>))) (\<lambda>x.
            ret (case x of None \<Rightarrow> e | Some y \<Rightarrow> Joined [e, y])))"

definition resume_fail ::
  "'w life_env \<Rightarrow> 64 word \<Rightarrow> string \<Rightarrow> string \<Rightarrow> bool \<Rightarrow> bool \<Rightarrow> go_error \<Rightarrow> ('w, go_error, 'a) life_act" where
  "resume_fail env epoch stage outcome legacy present e =
     bindp (persistNetworkSessionResumeFailure env epoch
              (newNetworkSessionResumeOutcomeError stage outcome legacy present e)) (\<lambda>x. fail x)"

definition call_exact :: "'w life_env \<Rightarrow> ('w, 'e, RecoveryResponse) life_act" where
  "call_exact env = outside (\<lambda>r. [CalledExactRecovery (networkSessionRecoveryConverged r)]) (le_exact env)"

definition require_converged ::
  "'w life_env \<Rightarrow> 64 word \<Rightarrow> string \<Rightarrow> bool \<Rightarrow> ('w, go_error, RecoveryResponse) life_act \<Rightarrow> ('w, go_error, RecoveryResponse) life_act" where
  "require_converged env epoch stage legacy m =
     bindp m (\<lambda>r.
       if networkSessionRecoveryConverged r then ret r
       else resume_fail env epoch stage OutcomeIncomplete legacy (networkSessionRecoveryResponseHasTransaction r) RecoveryIncomplete)"

text \<open>\<^verbatim>\<open>fail\<close> of \<^verbatim>\<open>resumeNetworkSession\<close> closes over the epoch, the migration flag and what is known of a transaction.  First
  the stage that ends a replay known to be final.\<close>

definition end_replay ::
  "'w life_env \<Rightarrow> 64 word \<Rightarrow> bool \<Rightarrow> networkSessionReplayAttempt \<Rightarrow> RecoveryResponse \<Rightarrow> ('w, go_error, bool) life_act" where
  "end_replay env epoch legacy attempt exact =
     bindp (tryp (terminalizeNetworkSessionReplay env attempt exact)) (\<lambda>r.
       case r of
         Inl e \<Rightarrow> resume_fail env epoch StageTerminalTeardown OutcomeIncomplete legacy (rat_transaction_present attempt) e
       | Inr ended \<Rightarrow> ret ended)"

definition call_generic :: "('w shared \<Rightarrow> 'w shared \<times> RecoveryResponse) \<Rightarrow> ('w, 'e, RecoveryResponse) life_act" where
  "call_generic recover = outside (\<lambda>r. [CalledGenericRecovery (networkSessionRecoveryConverged r)]) recover"

definition replay_failed ::
  "'w life_env \<Rightarrow> ('w shared \<Rightarrow> 'w shared \<times> RecoveryResponse) \<Rightarrow> bool \<Rightarrow> networkSessionState \<Rightarrow> go_error \<Rightarrow>
   ('w, go_error, bool) life_act" where
  "replay_failed env recover legacy st e =
     bindp (persistNetworkSessionReplayFailure env st legacy (Wrapped ''resume network session'' e)) (\<lambda>replayErr.
     bindp (currentNetworkSessionReplayAttempt env st) (\<lambda>current.
       case current of
         Inl x \<Rightarrow> fail (Joined [replayErr, Wrapped ''reload Network Session replay evidence after failed replay'' x])
       | Inr None \<Rightarrow> fail replayErr
       | Inr (Some attempt) \<Rightarrow>
           if rat_replay_disposition attempt \<noteq> DispositionTerminal then fail replayErr
           else
             bindp (require_converged env (ns_epoch st) StageExactRecovery legacy (call_exact env)) (\<lambda>exact.
             bindp (require_converged env (ns_epoch st) StageGenericRecovery legacy (call_generic recover)) (\<lambda>generic.
             bindp (end_replay env (ns_epoch st) legacy attempt exact) (\<lambda>ended.
               if ended then ret False else fail replayErr)))))"

definition replay ::
  "'w life_env \<Rightarrow> ('w shared \<Rightarrow> 'w shared \<times> RecoveryResponse) \<Rightarrow> bool \<Rightarrow> 64 word \<Rightarrow> ('w, go_error, bool) life_act" where
  "replay env recover legacy epoch =
     bindp (on_session env (\<lambda>c. BeginRecoveryAttempt (lc_load c) (lc_write c))) (\<lambda>(attempted, beginErr).
       case beginErr of
         Some e \<Rightarrow>
           resume_fail env epoch StageStateLoad OutcomeFailed legacy False
             (Wrapped ''begin Network Session recovery epoch'' (StoreError e))
       | None \<Rightarrow>
           (case attempted of
              None \<Rightarrow>
                resume_fail env epoch StageConnectReplay OutcomeFailed legacy False
                  (TextError ''Network Session authority disappeared before recovery replay admission'')
            | Some st \<Rightarrow>
                if ns_intent st \<noteq> IntentResume then
                  resume_fail env (ns_epoch st) StageConnectReplay OutcomeIncomplete legacy False
                    (TextError ''Network Session startup replay cancelled by intent'')
                else
                  bindp (inner_connect env (ns_request st)) (\<lambda>(response, err).
                    case err of
                      Some e \<Rightarrow> replay_failed env recover legacy st e
                    | None \<Rightarrow> bindp (remove_diagnostic env) (\<lambda>ignored. ret True))))"

definition resume_intent ::
  "'w life_env \<Rightarrow> bool \<Rightarrow> networkSessionState \<Rightarrow> ('w, go_error, bool) life_act" where
  "resume_intent env legacy st0 =
     (let epoch = ns_epoch st0; no = resume_fail env epoch in
      case le_generic env of
        None \<Rightarrow>
          no StageGenericRecovery OutcomeFailed legacy False
            (TextError ''network session resume requires status and recovery functions'')
      | Some recover \<Rightarrow>
          bindp (outside (\<lambda>x. [CalledReconcile (x = None)]) (le_reconcile env)) (\<lambda>x.
            case x of
              Some e \<Rightarrow>
                no StagePrivacyReconcile OutcomeFailed legacy False (Wrapped ''reconcile network session privacy protection'' e)
            | None \<Rightarrow>
                bindp (require_converged env epoch StageExactRecovery legacy (call_exact env)) (\<lambda>exact.
                bindp (require_converged env epoch StageGenericRecovery legacy (call_generic recover)) (\<lambda>generic.
                bindp (load_session env) (\<lambda>loaded.
                  case loaded of
                    Inl e \<Rightarrow>
                      no StageStateLoad OutcomeFailed legacy False (Wrapped ''reload Network Session before startup replay'' (StoreError e))
                  | Inr None \<Rightarrow>
                      no StageConnectReplay OutcomeFailed legacy False
                        (TextError ''Network Session authority disappeared before startup replay'')
                  | Inr (Some st) \<Rightarrow>
                      if ns_intent st \<noteq> IntentResume then
                        no StageConnectReplay OutcomeIncomplete legacy False
                          (TextError ''Network Session startup replay cancelled by intent'')
                      else
                        bindp (currentNetworkSessionReplayAttempt env st) (\<lambda>current.
                          case current of
                            Inl e \<Rightarrow>
                              no StageStateLoad OutcomeFailed legacy False (Wrapped ''load Network Session replay evidence'' e)
                          | Inr None \<Rightarrow> replay env recover legacy epoch
                          | Inr (Some attempt) \<Rightarrow>
                              if rat_replay_disposition attempt = DispositionTerminal then
                                bindp (end_replay env epoch legacy attempt exact) (\<lambda>ended.
                                  if ended then ret False
                                  else
                                    no StageConnectReplay OutcomeIncomplete legacy (rat_transaction_present attempt)
                                      (TextError ''terminal Network Session replay transition was superseded''))
                              else
                                (case networkSessionReplayReadmissionBlocker attempt of
                                   Some e \<Rightarrow> fail e
                                 | None \<Rightarrow> replay env recover legacy epoch)))))))"

definition teardown_intent :: "'w life_env \<Rightarrow> bool \<Rightarrow> networkSessionState \<Rightarrow> ('w, go_error, bool) life_act" where
  "teardown_intent env legacy st =
     (let epoch = ns_epoch st in
      bindp (case le_live env of
               None \<Rightarrow> ret None
             | Some live \<Rightarrow> outside (\<lambda>x. [CalledLiveConvergence (x = None)]) live) (\<lambda>x.
        case x of
          Some e \<Rightarrow>
            resume_fail env epoch StageTerminalTeardown OutcomeIncomplete legacy True
              (Wrapped ''continue live terminal data-plane teardown'' e)
        | None \<Rightarrow>
            bindp (require_converged env epoch StageExactRecovery legacy (call_exact env)) (\<lambda>exact.
            bindp (call_teardown env) (\<lambda>x.
              case x of
                Some e \<Rightarrow>
                  resume_fail env epoch StageTerminalTeardown OutcomeIncomplete legacy False
                    (Wrapped ''continue persisted network session teardown'' e)
              | None \<Rightarrow>
                  bindp (finalizeNetworkSessionReplayEvidenceAfterTeardown env) (\<lambda>x.
                    case x of
                      Some e \<Rightarrow> fail (Wrapped ''finalize terminal replay evidence after persisted teardown'' e)
                    | None \<Rightarrow> ret False)))))"

definition no_session :: "'w life_env \<Rightarrow> bool \<Rightarrow> ('w, go_error, bool) life_act" where
  "no_session env legacy =
     bindp (require_converged env 0 StageExactRecovery legacy (call_exact env)) (\<lambda>exact.
     bindp (finalizeRetainedNetworkSessionReplayEvidence env) (\<lambda>x.
       case x of
         Some e \<Rightarrow> fail (Wrapped ''finalize retained Network Session replay evidence without session authority'' e)
       | None \<Rightarrow> ret False))"

definition resume_with :: "'w life_env \<Rightarrow> bool \<Rightarrow> networkSessionState \<Rightarrow> ('w, go_error, bool) life_act" where
  "resume_with env legacy st =
     (case ns_intent st of
        IntentResume \<Rightarrow> resume_intent env legacy st
      | IntentDisconnect \<Rightarrow> teardown_intent env legacy st
      | IntentTerminal \<Rightarrow> teardown_intent env legacy st
      | IntentOther i \<Rightarrow>
          resume_fail env (ns_epoch st) StageStateLoad OutcomeFailed legacy False (TextError ''unsupported network session intent''))"

definition resumeNetworkSession :: "'w life_env \<Rightarrow> ('w, go_error, bool) life_act" where
  "resumeNetworkSession env =
     bindp (load_session env) (\<lambda>loaded.
       case loaded of
         Inl e \<Rightarrow> resume_fail env 0 StageStateLoad OutcomeFailed False False (StoreError e)
       | Inr (Some st) \<Rightarrow> resume_with env False st
       | Inr None \<Rightarrow>
           bindp (outside (\<lambda>x. []) (le_migrate env)) (\<lambda>migrated.
             case migrated of
               Inl e \<Rightarrow>
                 resume_fail env 0 StageLegacyMigration OutcomeFailed True False
                   (Wrapped ''migrate legacy package upgrade continuation'' e)
             | Inr False \<Rightarrow> no_session env False
             | Inr True \<Rightarrow>
                 bindp (load_session env) (\<lambda>loaded.
                   case loaded of
                     Inl e \<Rightarrow> resume_fail env 0 StageLegacyMigration OutcomeFailed True False (StoreError e)
                   | Inr None \<Rightarrow>
                       resume_fail env 0 StageLegacyMigration OutcomeFailed True False
                         (TextError ''legacy package upgrade migration did not persist continuation'')
                   | Inr (Some st) \<Rightarrow> resume_with env True st)))"

section \<open>The result of a resume\<close>

datatype networkSessionResumeResult = ResumeNoSession | ResumeResumed | ResumeTerminalConverged

definition resumeNetworkSessionResult :: "'w life_env \<Rightarrow> ('w, go_error, networkSessionResumeResult) life_act" where
  "resumeNetworkSessionResult env =
     bindp (load_diagnostic env) (\<lambda>prior.
     bindp (resumeNetworkSession env) (\<lambda>resumed.
       if resumed then
         (case prior of
            Inr (Some r) \<Rightarrow>
              bindp (finalizeSuccessfulNetworkSessionReplayEvidence env r) (\<lambda>ignored. ret ResumeResumed)
          | _ \<Rightarrow> ret ResumeResumed)
       else
         bindp (load_session env) (\<lambda>loaded.
           case loaded of
             Inl e \<Rightarrow> fail (Wrapped ''inspect Network Session after resume convergence'' (StoreError e))
           | Inr None \<Rightarrow> ret ResumeNoSession
           | Inr (Some st) \<Rightarrow>
               if ns_intent st = IntentDisconnect \<or> ns_intent st = IntentTerminal then ret ResumeTerminalConverged
               else fail (TextError ''network session resume completed without a terminal semantic result''))))"

definition finalizeNetworkSessionResumeResult ::
  "'w life_env \<Rightarrow> networkSessionResumeResult \<Rightarrow> ('w, go_error, unit) life_act" where
  "finalizeNetworkSessionResumeResult env result =
     (if result \<noteq> ResumeTerminalConverged then ret ()
      else bindp (finalize env) (\<lambda>e.
        case e of None \<Rightarrow> ret () | Some x \<Rightarrow> fail (Wrapped ''finalize converged terminal Network Session'' x)))"

section \<open>The startup gate\<close>

text \<open>The gate wraps the lifecycle of a request.\<close>

definition errNetworkSessionStartupRecoveryPending :: go_error where
  "errNetworkSessionStartupRecoveryPending =
     TextError ''network session startup recovery is incomplete; run podlaz debug recover and retry''"

definition gate_Connect ::
  "bool \<Rightarrow> 'w life_env \<Rightarrow> ConnectRequest \<Rightarrow> ('w, LifecycleResponse \<times> go_error, LifecycleResponse) life_act" where
  "gate_Connect blocked env request =
     (if blocked then fail (no_response, errNetworkSessionStartupRecoveryPending) else Connect env request)"

definition gate_Disconnect :: "bool \<Rightarrow> 'w life_env \<Rightarrow> ('w, LifecycleResponse \<times> go_error, LifecycleResponse) life_act" where
  "gate_Disconnect blocked env =
     (if blocked then fail (no_response, errNetworkSessionStartupRecoveryPending) else Disconnect env)"

section \<open>What is shown of it\<close>

record networkSessionAuthoritySnapshot =
  nas_intent :: networkSessionIntent
  nas_protection_present :: bool
  nas_legacy_migration :: bool
  nas_recovery_epoch :: "64 word"

definition boot_of :: "session_env \<Rightarrow> go_error + string" where
  "boot_of ev = map_sum StoreError id (currentBootID ev)"

definition inspect_state :: "session_env \<Rightarrow> session_data \<Rightarrow> go_error + networkSessionAuthoritySnapshot option" where
  "inspect_state ev data =
     (case sd_state data of
        None \<Rightarrow> Inl (TextError ''decode network session state for recovery inspection'')
      | Some st \<Rightarrow>
          (case validateNetworkSessionState st of
             Some e \<Rightarrow> Inl (StoreError e)
           | None \<Rightarrow>
               rbind (boot_of ev) (\<lambda>boot.
                 Inr (if trim_space (ns_boot_id st) \<noteq> boot then None
                      else Some \<lparr>nas_intent = ns_intent st, nas_protection_present = (ns_protection st \<noteq> None),
                                 nas_legacy_migration = False, nas_recovery_epoch = ns_epoch st\<rparr>))))"

definition inspect_legacy :: "session_env \<Rightarrow> session_data \<Rightarrow> go_error + networkSessionAuthoritySnapshot option" where
  "inspect_legacy ev data =
     (case sd_continuation data of
        None \<Rightarrow> Inl (TextError ''decode legacy network session continuation for recovery inspection'')
      | Some c \<Rightarrow>
          (case validateNetworkSessionContinuation c of
             Some e \<Rightarrow> Inl (StoreError e)
           | None \<Rightarrow>
               rbind (boot_of ev) (\<lambda>boot.
                 Inr (if trim_space (nc_boot_id c) \<noteq> boot then None
                      else Some \<lparr>nas_intent = IntentResume, nas_protection_present = False, nas_legacy_migration = True,
                                 nas_recovery_epoch = 0\<rparr>))))"

text \<open>The boot identifier is read before the record is decoded; a failure to read it is reported first.\<close>

definition inspectCurrentBootNetworkSessionAuthority ::
  "session_env \<Rightarrow> session_disk \<Rightarrow> go_error + networkSessionAuthoritySnapshot option" where
  "inspectCurrentBootNetworkSessionAuthority ev d =
     (if se_load ev = LoadOpen then Inl (TextError ''open network session authority'')
      else case sk_main d of
        None \<Rightarrow> Inr None
      | Some f \<Rightarrow>
          if se_load ev = LoadStat then Inl (TextError ''stat network session authority'')
          else if sf_perm f \<noteq> 384 then Inl (TextError ''network session authority permissions'')
          else if maxNetworkSessionStateBytes < sf_size f then Inl (TextError ''network session authority too large'')
          else if se_load ev = LoadRead then Inl (TextError ''read network session authority'')
          else case sd_header (sf_data f) of
            None \<Rightarrow> Inl (TextError ''decode network session authority header'')
          | Some schema \<Rightarrow>
              rbind (boot_of ev) (\<lambda>boot.
                if schema = networkSessionStateSchemaVersion then inspect_state ev (sf_data f)
                else if schema = networkSessionContinuationSchemaVersion then inspect_legacy ev (sf_data f)
                else Inl (TextError ''unsupported network session authority schema'')))"

definition intent_text :: "networkSessionIntent \<Rightarrow> string" where
  "intent_text i =
     (case i of IntentResume \<Rightarrow> ''resume'' | IntentDisconnect \<Rightarrow> ''disconnect'' | IntentTerminal \<Rightarrow> ''terminal'' | IntentOther t \<Rightarrow> t)"

definition with_diagnostic ::
  "networkSessionResumeDiagnostic option \<Rightarrow> 64 word \<Rightarrow> NetworkSessionRecoveryState \<Rightarrow> NetworkSessionRecoveryState" where
  "with_diagnostic diagnostic epoch plan =
     (case diagnostic of
        None \<Rightarrow> plan
      | Some r \<Rightarrow>
          if rdg_recovery_epoch r \<noteq> epoch then plan
          else plan\<lparr>nrs_resume_stage := rdg_resume_stage r, nrs_last_resume_outcome := rdg_last_resume_outcome r,
                 nrs_last_tun_failure_phase := rdg_tun_failure_phase r, nrs_replay_disposition := rdg_replay_disposition r,
                 nrs_network_apply_subphase := rdg_network_apply_subphase r, nrs_rollback_status := rdg_rollback_status r,
                 nrs_transaction_present := rdg_transaction_present r,
                 nrs_legacy_migration := nrs_legacy_migration plan \<or> rdg_legacy_migration r\<rparr>)"

definition next_action_of :: "networkSessionIntent \<Rightarrow> string \<Rightarrow> string" where
  "next_action_of intent disposition =
     (case intent of
        IntentResume \<Rightarrow> networkSessionResumeRecoveryAction disposition
      | IntentDisconnect \<Rightarrow> ActionContinueTeardown
      | IntentTerminal \<Rightarrow> ActionContinueTeardown
      | IntentOther t \<Rightarrow> ActionManualDiagnosis)"

definition inspectNetworkSessionRecoveryPlan ::
  "session_env \<Rightarrow> diag_env \<Rightarrow> bool option \<Rightarrow> session_disk \<Rightarrow> diag_disk \<Rightarrow> go_error + NetworkSessionRecoveryState option" where
  "inspectNetworkSessionRecoveryPlan ev de gate d dd =
     (case gate of
        None \<Rightarrow> Inr None
      | Some blocked \<Rightarrow>
          rbind (inspectCurrentBootNetworkSessionAuthority ev d) (\<lambda>found.
            case found of
              None \<Rightarrow> Inr None
            | Some a \<Rightarrow>
                if \<not> blocked \<and> nas_intent a = IntentResume then Inr None
                else
                  rbind (LoadDiagnostic de dd) (\<lambda>diagnostic.
                    (let plan0 = with_diagnostic diagnostic (nas_recovery_epoch a)
                           \<lparr>nrs_authority = AuthorityPresent, nrs_intent = intent_text (nas_intent a),
                            nrs_startup_gate = (if blocked then GateBlocked else GateOpen), nrs_resume_stage = [],
                            nrs_last_resume_outcome = OutcomeNotAttempted, nrs_last_tun_failure_phase = [],
                            nrs_replay_disposition = [], nrs_network_apply_subphase = [], nrs_rollback_status = [],
                            nrs_transaction_present = False, nrs_legacy_migration = nas_legacy_migration a,
                            nrs_cleanup_authority =
                              (if nas_protection_present a then CleanupAuthoritySessionProtection else CleanupAuthorityNone),
                            nrs_next_action = []\<rparr>;
                         plan = plan0\<lparr>nrs_next_action := next_action_of (nas_intent a) (nrs_replay_disposition plan0)\<rparr> in
                     case ValidateNetworkSessionRecoveryState plan of
                       Some t \<Rightarrow> Inl (Wrapped ''validate network session recovery plan'' (TextError t))
                     | None \<Rightarrow> Inr (Some plan)))))"

definition successfulNetworkSessionRecoveryState ::
  "NetworkSessionRecoveryState option \<Rightarrow> NetworkSessionRecoveryState option" where
  "successfulNetworkSessionRecoveryState plan =
     map_option (\<lambda>p. p\<lparr>nrs_startup_gate := GateOpen, nrs_last_resume_outcome := OutcomeSucceeded, nrs_resume_stage := [],
       nrs_last_tun_failure_phase := [], nrs_replay_disposition := [], nrs_network_apply_subphase := [],
       nrs_rollback_status := [], nrs_transaction_present := False, nrs_next_action := ActionNone\<rparr>) plan"

definition failed_fields :: "go_error \<Rightarrow> NetworkSessionRecoveryState \<Rightarrow> NetworkSessionRecoveryState" where
  "failed_fields e p =
     (case networkSessionResumeFailure e of
        None \<Rightarrow> p\<lparr>nrs_last_resume_outcome := OutcomeFailed, nrs_replay_disposition := [], nrs_network_apply_subphase := []\<rparr>
      | Some r \<Rightarrow>
          (let q = p\<lparr>nrs_resume_stage := rdg_resume_stage r, nrs_last_resume_outcome := rdg_last_resume_outcome r,
                 nrs_last_tun_failure_phase := rdg_tun_failure_phase r, nrs_rollback_status := rdg_rollback_status r,
                 nrs_transaction_present := rdg_transaction_present r,
                 nrs_legacy_migration := nrs_legacy_migration p \<or> rdg_legacy_migration r,
                 nrs_replay_disposition := [], nrs_network_apply_subphase := []\<rparr> in
           if rdg_resume_stage r \<noteq> StageConnectReplay then q
           else case networkSessionReplayProjection e of
             Some (d, sub) \<Rightarrow> q\<lparr>nrs_replay_disposition := d, nrs_network_apply_subphase := sub\<rparr>
           | None \<Rightarrow>
               q\<lparr>nrs_replay_disposition := fst (classifyNetworkSessionReplayFailure False (Some e)),
                 nrs_network_apply_subphase :=
                   (if rdg_tun_failure_phase r = ''network-apply'' then ApplyFailureSubphase e else [])\<rparr>))"

definition failedNetworkSessionRecoveryState ::
  "NetworkSessionRecoveryState option \<Rightarrow> go_error \<Rightarrow> NetworkSessionRecoveryState option" where
  "failedNetworkSessionRecoveryState plan e =
     map_option (\<lambda>p0.
       (let p = failed_fields e (p0\<lparr>nrs_startup_gate := GateBlocked, nrs_next_action := ActionManualDiagnosis\<rparr>) in
        if nrs_intent p = ''resume''
        then p\<lparr>nrs_next_action := networkSessionResumeRecoveryAction (nrs_replay_disposition p)\<rparr> else p)) plan"

definition withNetworkSessionResumeWarning :: "(go_error \<Rightarrow> string) \<Rightarrow> RecoveryResponse \<Rightarrow> go_error option \<Rightarrow> RecoveryResponse" where
  "withNetworkSessionResumeWarning errtext response cause =
     response\<lparr>rrs_warnings := rrs_warnings response @
       [\<lparr>wa_target = ''network session continuation'',
         wa_message = ''cleanup completed but the current-boot network session could not be resumed'' @
           (case cause of None \<Rightarrow> [] | Some e \<Rightarrow> '': '' @ errtext e)\<rparr>]\<rparr>"

text \<open>The second component says whether the gate is released.\<close>

definition applyNetworkSessionResumeResult ::
  "(go_error \<Rightarrow> string) \<Rightarrow> RecoveryResponse \<Rightarrow> go_error + networkSessionResumeResult \<Rightarrow> RecoveryResponse \<times> bool" where
  "applyNetworkSessionResumeResult errtext response result =
     (case result of
        Inl e \<Rightarrow>
          (withNetworkSessionResumeWarning errtext
             (response\<lparr>rrs_network_session := failedNetworkSessionRecoveryState (rrs_network_session response) e\<rparr>) (Some e), False)
      | Inr ResumeResumed \<Rightarrow>
          (response\<lparr>rrs_network_session := successfulNetworkSessionRecoveryState (rrs_network_session response)\<rparr>, True)
      | Inr ResumeTerminalConverged \<Rightarrow> (response\<lparr>rrs_network_session := None\<rparr>, True)
      | Inr ResumeNoSession \<Rightarrow> (response\<lparr>rrs_network_session := None\<rparr>, True))"

definition startupScanStatusFromPublished :: "StartupScanStatus \<Rightarrow> string" where
  "startupScanStatusFromPublished scan =
     (let work = ssc_candidates scan \<noteq> [] \<or> ssc_network_session scan \<noteq> None; warned = ssc_warnings scan \<noteq> [] in
      if work \<and> warned then ''stale_incomplete'' else if work then ''stale'' else if warned then ''incomplete'' else ''clean'')"

definition withNetworkSessionRecoveryStatus ::
  "StatusResponse \<Rightarrow> go_error + NetworkSessionRecoveryState option \<Rightarrow> StatusResponse" where
  "withNetworkSessionRecoveryStatus status inspected =
     (let scan = (case sta_startup_scan status of
                    Some sc \<Rightarrow> sc
                  | None \<Rightarrow> \<lparr>ssc_status = ''clean'', ssc_candidates = [], ssc_warnings = [], ssc_network_session = None,
                            ssc_suggested_action = []\<rparr>) in
      case inspected of
        Inl e \<Rightarrow>
          (let warned = scan\<lparr>ssc_warnings := ssc_warnings scan @
                 [\<lparr>wa_target = ''network session authority'',
                   wa_message = ''current-boot Network Session recovery authority could not be inspected''\<rparr>]\<rparr> in
           status\<lparr>sta_startup_scan := Some (warned\<lparr>ssc_status := startupScanStatusFromPublished warned,
             ssc_suggested_action :=
               (if ssc_suggested_action scan = [] then ''podlaz debug doctor'' else ssc_suggested_action scan)\<rparr>)\<rparr>)
      | Inr None \<Rightarrow> status\<lparr>sta_startup_scan := Some scan\<rparr>
      | Inr (Some plan) \<Rightarrow>
          (let shown = scan\<lparr>ssc_network_session := Some plan\<rparr> in
           status\<lparr>sta_startup_scan := Some (shown\<lparr>ssc_status := startupScanStatusFromPublished shown,
             ssc_suggested_action := ''podlaz debug recover''\<rparr>)\<rparr>))"

text \<open>The recovery of exactly the recorded transactions, before the executor runs it.\<close>

definition exactNetworkSessionTransactionRecoveryPlan :: "TransactionSummary list \<Rightarrow> string list \<Rightarrow> ScanResult" where
  "exactNetworkSessionTransactionRecoveryPlan summaries warnings =
     \<lparr>scan_candidates = map (\<lambda>s. \<lparr>ca_kind = ''transaction-state'', ca_description = ''transaction rollback state'',
          ca_target = ts_path s,
          ca_transaction = Some \<lparr>tc_id = ts_id s, tc_state = state_text (ts_state s), tc_status = StatusLine s,
            tc_rollback_available = ts_rollback_available s, tc_requires_cleanup = True, tc_path = ts_path s\<rparr>\<rparr>)
        (filter ts_requires_recovery summaries),
      scan_warnings = map (\<lambda>w. \<lparr>wa_target = ''transaction state'', wa_message = w\<rparr>) warnings\<rparr>"

end
