(* ===== verification/Session_Lifecycle_Facts.thy ===== *)
theory Session_Lifecycle_Facts
  imports Session_Resume Session_State_Facts
begin

text \<open>
  What the session lifecycle guarantees together with everything that runs beside it: whatever the interfaces and other
  requests do to the session file through the operations of its store, the requests only add operations of the store to
  it, so the record stays valid, a protected session keeps its authority and a stop is final.  A resume goes through its
  stages in order.
\<close>

section \<open>Programs that respect a relation\<close>

definition keeps :: "('s \<Rightarrow> 's \<Rightarrow> bool) \<Rightarrow> ('s, 'e, 'a) prog \<Rightarrow> bool" where
  "keeps R m \<longleftrightarrow> (\<forall>s. R s (fst (m s)))"

lemma keepsI: "(\<And>s. R s (fst (m s))) \<Longrightarrow> keeps R m"
  by (simp add: keeps_def)

lemma keepsD: "keeps R m \<Longrightarrow> m s = (s', r) \<Longrightarrow> R s s'"
  by (metis keeps_def fst_conv)

text \<open>A relation between earlier and later states that holds over any number of steps.\<close>

locale history =
  fixes R :: "'s \<Rightarrow> 's \<Rightarrow> bool"
  assumes unchanged: "R s s"
    and later: "R s s' \<Longrightarrow> R s' s'' \<Longrightarrow> R s s''"
begin

lemma keeps_ret: "keeps R (ret x)"
  by (simp add: keeps_def ret_def unchanged)

lemma keeps_fail: "keeps R (fail e)"
  by (simp add: keeps_def fail_def unchanged)

lemma keeps_bind: "keeps R m \<Longrightarrow> (\<And>x. keeps R (f x)) \<Longrightarrow> keeps R (bindp m f)"
  unfolding keeps_def by (auto simp: bindp_def split: prod.splits sum.splits) (metis fst_conv later)+

lemma keeps_try: "keeps R m \<Longrightarrow> keeps R (tryp m)"
  by (rule keepsI) (auto simp: tryp_def split: prod.splits dest: keepsD)

lemma keeps_map_err: "keeps R m \<Longrightarrow> keeps R (map_err f m)"
  by (rule keepsI) (auto simp: map_err_def split: prod.splits sum.splits dest: keepsD)

lemmas keeps_rules = keeps_ret keeps_fail keeps_bind keeps_try keeps_map_err

lemma keeps_rtrancl: "S\<^sup>*\<^sup>* s s' \<Longrightarrow> (\<And>s s'. S s s' \<Longrightarrow> R s s') \<Longrightarrow> R s s'"
  by (induction rule: rtranclp_induct) (auto intro: unchanged later)

end

text \<open>Case distinctions between programs.\<close>

lemma keeps_cases:
  "keeps R m \<Longrightarrow> keeps R m' \<Longrightarrow> keeps R (if c then m else m')"
  "keeps R m \<Longrightarrow> (\<And>x. keeps R (f x)) \<Longrightarrow> keeps R (case o1 of None \<Rightarrow> m | Some x \<Rightarrow> f x)"
  "(\<And>x. keeps R (f x)) \<Longrightarrow> (\<And>x. keeps R (g x)) \<Longrightarrow> keeps R (case q of Inl x \<Rightarrow> f x | Inr x \<Rightarrow> g x)"
  "(\<And>x y. keeps R (h x y)) \<Longrightarrow> keeps R (case z of (x, y) \<Rightarrow> h x y)"
  "(c \<Longrightarrow> keeps R m) \<Longrightarrow> (\<not> c \<Longrightarrow> keeps R m') \<Longrightarrow> keeps R (case c of True \<Rightarrow> m | False \<Rightarrow> m')"
  by (auto split: option.splits sum.splits prod.splits bool.splits)

text \<open>A relation that holds over the steps of keeping evidence: every call of a store takes a tick, the diagnostic and the
  terminal reason may change, and the record of a transaction that is rolled back and needs no recovery may go.\<close>

definition retired :: "TransactionStore \<Rightarrow> string \<Rightarrow> txdir \<Rightarrow> bool" where
  "retired store txid d \<longleftrightarrow>
     (\<exists>tx path. Load store d txid = Inr (tx, path) \<and> tx_state tx = TransactionRolledBack \<and> \<not> RequiresRecovery tx)"

locale evidence_history = history R for R :: "'w life \<Rightarrow> 'w life \<Rightarrow> bool" +
  fixes env :: "'w life_env"
  assumes ticked: "R s (tick s)"
    and diagnosed: "R s (tick s\<lparr>li_shared := (li_shared s)\<lparr>sh_diag := d\<rparr>\<rparr>)"
    and explained: "R s (tick s\<lparr>li_shared := (li_shared s)\<lparr>sh_reason := e\<rparr>\<rparr>)"
    and disposed: "retired (le_store env) txid (sh_txs (li_shared s)) \<Longrightarrow>
      R s (tick s\<lparr>li_shared := (li_shared s)\<lparr>sh_txs := delete_tx txid (sh_txs (li_shared s))\<rparr>\<rparr>)"
begin

lemmas rules = keeps_ret keeps_fail keeps_bind keeps_try keeps_map_err keeps_cases

lemma silent:
  "keeps R (here f)" "keeps R (on_diag env g)" "keeps R (on_reason env k)" "keeps R (cancelled env)"
  "keeps R (scan_transactions env)"
  by (auto simp: keeps_def here_def on_diag_def on_reason_def cancelled_def scan_transactions_def on_txs_def unchanged ticked
      diagnosed explained ticked [unfolded tick_def] simp del: life.update_convs split: prod.splits)
    (use ticked in \<open>simp add: tick_def\<close>)

lemma remove_retained: "keeps R (removeRetainedNetworkSessionReplayTransaction env txid0)"
proof (rule keepsI)
  fix s :: "'w life"
  let ?id = "trim_space txid0" and ?d = "sh_txs (li_shared s)"
  show "R s (fst (removeRetainedNetworkSessionReplayTransaction env txid0 s))"
  proof (cases "retired (le_store env) ?id ?d")
    case True
    then show ?thesis
      using disposed [OF True] ticked [of s]
      by (auto simp: removeRetainedNetworkSessionReplayTransaction_def remove_tx_file_def on_txs_def bindp_def here_def ret_def
          retired_def Let_def unchanged tick_def split: sum.splits option.splits)
  next
    case False
    then show ?thesis
      by (auto simp: removeRetainedNetworkSessionReplayTransaction_def bindp_def here_def ret_def retired_def Let_def unchanged
          split: sum.splits tx_error.splits)
  qed
qed

lemma evidence:
  "keeps R (load_diagnostic env)" "keeps R (remove_diagnostic env)"
  "keeps R (finalizableRolledBackTransactionEvidence env)" "keeps R (requireNoNetworkSessionTransactionState env)"
  unfolding load_diagnostic_def remove_diagnostic_def finalizableRolledBackTransactionEvidence_def
    requireNoNetworkSessionTransactionState_def
  by (intro rules silent)+

lemma remove_each_quiet: "keeps R (remove_each env t ids)"
  by (induction ids) (simp_all, intro rules, (intro rules remove_retained | assumption)+)

lemmas evidence_rules = rules silent evidence remove_retained remove_each_quiet

lemma finalize_quiet:
  "keeps R (finalizeSuccessfulNetworkSessionReplayEvidence env r)"
  "keeps R (finalizeRetainedNetworkSessionReplayEvidence env)"
  "keeps R (preflightRetainedNetworkSessionReplayEvidence env)"
  unfolding finalizeSuccessfulNetworkSessionReplayEvidence_def finalizeRetainedNetworkSessionReplayEvidence_def
    preflightRetainedNetworkSessionReplayEvidence_def
  by (intro evidence_rules)+

lemma replay_evidence:
  "keeps R (currentNetworkSessionReplayAttempt env st)" "keeps R (persistNetworkSessionReplayFailure env st legacy e)"
  "keeps R (resume_fail env epoch stage outcome legacy present e)"
  "keeps R (publishTerminalConnectReason env request e x)"
  unfolding currentNetworkSessionReplayAttempt_def persistNetworkSessionReplayFailure_def resume_fail_def
    persistNetworkSessionResumeFailure_def publishTerminalConnectReason_def Let_def
  by (intro evidence_rules)+

end

section \<open>The steps of the lifecycle\<close>

text \<open>Every handler is a sequence of single steps: calls of the stores, calls through the interfaces, changes of the
  control variables, and what others do while the mutex is free.\<close>

inductive store_op :: "life_call \<Rightarrow> session_label \<Rightarrow> session_disk \<Rightarrow> session_disk \<Rightarrow> bool" for c where
  "store_op c LLoad d (fst (loadLocked (lc_load c) d))"
| "store_op c LBegin d (fst (BeginOrResume (lc_load c) (lc_write c) request d))"
| "store_op c LRecover d (fst (BeginRecoveryAttempt (lc_load c) (lc_write c) d))"
| "store_op c LRestore d (fst (RestoreReplacement (lc_load c) (lc_write c) d))"
| "store_op c LRemove d (fst (RemoveSession (lc_load c) (lc_write c) d))"
| "store_op c LDisarm d (fst (RemoveContinuation (lc_load c) (lc_write c) (lc_load2 c) (lc_write2 c) d))"
| "store_op c LDisarm d (fst (Session_State.disarm (lc_load c) (lc_write c) i d))"

inductive outer :: "'w life_env \<Rightarrow> 'w shared \<Rightarrow> 'w shared \<Rightarrow> bool" for env where
  "outer env h (fst (le_connect env request h))"
| "outer env h (fst (le_disconnect env h))"
| "le_live env = Some live \<Longrightarrow> outer env h (fst (live h))"
| "le_verified_status env = Some status \<Longrightarrow> outer env h (fst (status h))"
| "outer env h (fst (le_migrate env h))"
| "outer env h (fst (le_reconcile env h))"
| "outer env h (fst (le_exact env h))"
| "le_generic env = Some generic \<Longrightarrow> outer env h (fst (generic h))"
| "outer env h (fst (le_observe env t h))"
| "outer env h (fst (le_teardown env h))"
| "outer env h (le_between env n h)"

inductive life_atom :: "'w life_env \<Rightarrow> 'w life \<Rightarrow> 'w life \<Rightarrow> bool" for env where
  ticked: "life_atom env s (tick s)"
| diagnosed: "life_atom env s (tick s\<lparr>li_shared := (li_shared s)\<lparr>sh_diag := d\<rparr>\<rparr>)"
| explained: "life_atom env s (tick s\<lparr>li_shared := (li_shared s)\<lparr>sh_reason := e\<rparr>\<rparr>)"
| disposed: "retired (le_store env) txid (sh_txs (li_shared s)) \<Longrightarrow>
    life_atom env s (tick s\<lparr>li_shared := (li_shared s)\<lparr>sh_txs := delete_tx txid (sh_txs (li_shared s))\<rparr>\<rparr>)"
| stored: "store_op (le_call env (li_tick s)) l (sh_session (li_shared s)) d \<Longrightarrow>
    life_atom env s (tick s\<lparr>li_shared := (li_shared s)\<lparr>sh_session := d\<rparr>\<rparr>)"
| controlled: "life_atom env s (s\<lparr>li_shared := (li_shared s)\<lparr>sh_stop := x, sh_generation := g, sh_cancel := y\<rparr>\<rparr>)"
| called: "outer env (li_shared s) h \<Longrightarrow> life_atom env s (s\<lparr>li_shared := h, li_trace := t\<rparr>)"
| unlocked: "life_atom env s (tick s\<lparr>li_shared := le_between env (li_tick s) (li_shared s)\<rparr>)"

interpretation atoms: evidence_history "(life_atom env)\<^sup>*\<^sup>*" env for env
proof (rule evidence_history.intro)
  show "history (life_atom env)\<^sup>*\<^sup>*" by unfold_locales auto
  show "evidence_history_axioms (life_atom env)\<^sup>*\<^sup>* env"
    by unfold_locales (blast intro: ticked diagnosed explained disposed)+
qed

lemmas atom_rules = atoms.rules atoms.silent atoms.evidence atoms.finalize_quiet atoms.replay_evidence

lemma one_atom: "(\<And>s. life_atom env s (fst (m s))) \<Longrightarrow> keeps (life_atom env)\<^sup>*\<^sup>* m"
  by (simp add: keeps_def r_into_rtranclp)

subsection \<open>Calls\<close>

lemma session_atom:
  fixes env :: "'w life_env"
  assumes "\<And>c d. \<exists>l. store_op c l d (fst (f c d))"
  shows "keeps (life_atom env)\<^sup>*\<^sup>* (on_session env f)"
proof (rule one_atom)
  fix s :: "'w life"
  from assms obtain l where "store_op (le_call env (li_tick s)) l (sh_session (li_shared s))
    (fst (f (le_call env (li_tick s)) (sh_session (li_shared s))))" by blast
  then show "life_atom env s (fst (on_session env f s))" by (auto simp: on_session_def split: prod.splits intro: stored)
qed

lemma load_disk: "fst (LoadCurrent el d) = fst (loadLocked el d)"
  by (auto simp: LoadCurrent_def split: prod.splits sum.splits option.splits)

text \<open>The terminal transition is a load, or the disarming of a session to resume.\<close>

lemma terminal_disk:
  "fst (TransitionReplayToTerminal el ev a w d) \<in>
     {d, fst (loadLocked el d), fst (Session_State.disarm el ev IntentTerminal d)}"
proof (cases "loadLocked el d")
  case (Pair d' q)
  show ?thesis
  proof (cases "\<exists>st. q = Inr (Some st) \<and> ns_intent st = IntentResume")
    case True
    then obtain st where q: "q = Inr (Some st)" and i: "ns_intent st = IntentResume" by blast
    have "fst (Session_State.disarm el ev IntentTerminal d) = fst (save ev (st\<lparr>ns_intent := IntentTerminal\<rparr>) d')"
      using Pair q i
      by (auto simp: Session_State.disarm_def validateNetworkSessionIntent_def Update_def disarm_update_def put_state_def
          split: prod.splits option.splits)
    moreover have "fst (TransitionReplayToTerminal el ev a w d) \<in> {d, d', fst (save ev (st\<lparr>ns_intent := IntentTerminal\<rparr>) d')}"
      using Pair q by (auto simp: TransitionReplayToTerminal_def split: prod.splits option.splits)
    ultimately show ?thesis using Pair by auto
  next
    case False
    with Pair show ?thesis by (auto simp: TransitionReplayToTerminal_def split: prod.splits option.splits sum.splits)
  qed
qed

lemma store_calls:
  "keeps (life_atom env)\<^sup>*\<^sup>* (load_session env)"
  "keeps (life_atom env)\<^sup>*\<^sup>* (on_session env (\<lambda>c. LoadCurrent (lc_load c)))"
  "keeps (life_atom env)\<^sup>*\<^sup>* (on_session env (\<lambda>c. BeginOrResume (lc_load c) (lc_write c) request))"
  "keeps (life_atom env)\<^sup>*\<^sup>* (on_session env (\<lambda>c. BeginRecoveryAttempt (lc_load c) (lc_write c)))"
  "keeps (life_atom env)\<^sup>*\<^sup>* (on_session env (\<lambda>c. RestoreReplacement (lc_load c) (lc_write c)))"
  "keeps (life_atom env)\<^sup>*\<^sup>* (on_session env (\<lambda>c. RemoveSession (lc_load c) (lc_write c)))"
  "keeps (life_atom env)\<^sup>*\<^sup>* (on_session env (\<lambda>c. RemoveContinuation (lc_load c) (lc_write c) (lc_load2 c) (lc_write2 c)))"
  "keeps (life_atom env)\<^sup>*\<^sup>* (on_session env (\<lambda>c. Session_State.disarm (lc_load c) (lc_write c) i))"
  unfolding load_session_def
  by (rule session_atom, rule exI, (simp only: load_disk)?, rule store_op.intros)+

lemma terminal_call:
  fixes env :: "'w life_env"
  shows "keeps (life_atom env)\<^sup>*\<^sup>* (on_session env (\<lambda>c. TransitionReplayToTerminal (lc_load c) (lc_write c) a w))"
proof (rule keepsI)
  fix s :: "'w life"
  let ?c = "le_call env (li_tick s)" and ?d = "sh_session (li_shared s)"
  define d' where "d' = fst (TransitionReplayToTerminal (lc_load ?c) (lc_write ?c) a w ?d)"
  have "d' = ?d \<or> (\<exists>l. store_op ?c l ?d d')"
    using terminal_disk [of "lc_load ?c" "lc_write ?c" a w ?d] store_op.intros(1) [of ?c ?d]
      store_op.intros(7) [of ?c ?d IntentTerminal] unfolding d'_def by (elim insertE emptyE) auto
  then have "(life_atom env)\<^sup>*\<^sup>* s (tick s\<lparr>li_shared := (li_shared s)\<lparr>sh_session := d'\<rparr>\<rparr>)"
    using ticked [of env s] by (auto simp: tick_def intro: stored [unfolded tick_def])
  then show "(life_atom env)\<^sup>*\<^sup>* s (fst (on_session env (\<lambda>c. TransitionReplayToTerminal (lc_load c) (lc_write c) a w) s))"
    by (auto simp: on_session_def d'_def split: prod.splits)
qed

lemma outside_atom: "(\<And>h. outer env h (fst (f h))) \<Longrightarrow> keeps (life_atom env)\<^sup>*\<^sup>* (outside ev f)"
  by (rule one_atom) (auto simp: outside_def split: prod.splits intro: called, metis called fst_conv)

lemma interface_calls:
  "keeps (life_atom env)\<^sup>*\<^sup>* (inner_connect env request)" "keeps (life_atom env)\<^sup>*\<^sup>* (inner_disconnect env)"
  "keeps (life_atom env)\<^sup>*\<^sup>* (outside ev1 (le_migrate env))" "keeps (life_atom env)\<^sup>*\<^sup>* (outside ev2 (le_reconcile env))"
  "keeps (life_atom env)\<^sup>*\<^sup>* (call_exact env)" "keeps (life_atom env)\<^sup>*\<^sup>* (outside ev3 (le_observe env t))"
  "keeps (life_atom env)\<^sup>*\<^sup>* (call_teardown env)"
  "le_live env = Some live \<Longrightarrow> keeps (life_atom env)\<^sup>*\<^sup>* (outside ev4 live)"
  "le_verified_status env = Some status \<Longrightarrow> keeps (life_atom env)\<^sup>*\<^sup>* (outside ev5 status)"
  "le_generic env = Some generic \<Longrightarrow> keeps (life_atom env)\<^sup>*\<^sup>* (call_generic generic)"
  unfolding inner_connect_def inner_disconnect_def call_exact_def call_teardown_def call_generic_def
  by (rule outside_atom, erule outer.intros | rule outside_atom, rule outer.intros)+

lemma unlock_atom: "keeps (life_atom env)\<^sup>*\<^sup>* (unlock env)"
  by (rule one_atom) (simp add: unlock_def unlocked)

lemma change_atom:
  fixes env :: "'w life_env"
  assumes "\<And>h. \<exists>x g y. f h = h\<lparr>sh_stop := x, sh_generation := g, sh_cancel := y\<rparr>"
  shows "keeps (life_atom env)\<^sup>*\<^sup>* (change f)"
proof (rule one_atom)
  fix s :: "'w life"
  from assms obtain x g y where "f (li_shared s) = (li_shared s)\<lparr>sh_stop := x, sh_generation := g, sh_cancel := y\<rparr>" by blast
  then show "life_atom env s (fst (change f s))" by (simp add: change_def controlled del: shared.update_convs)
qed

lemmas call_rules = atom_rules store_calls terminal_call interface_calls unlock_atom

subsection \<open>Handlers\<close>

lemma verified_atoms: "keeps (life_atom env)\<^sup>*\<^sup>* (verifiedSameNetworkSession env request previous)"
proof (cases "previous = None \<or> le_verified_status env = None")
  case True
  then show ?thesis by (auto simp: verifiedSameNetworkSession_def atoms.keeps_ret split: option.splits)
next
  case False
  then obtain prev status where [simp]: "previous = Some prev" and v: "le_verified_status env = Some status" by auto
  show ?thesis by (simp add: verifiedSameNetworkSession_def v) (intro conjI impI interface_calls(9) [OF v] call_rules)
qed

lemma restore_atoms:
  "keeps (life_atom env)\<^sup>*\<^sup>* (restorePreviousContinuation env previous)"
  "keeps (life_atom env)\<^sup>*\<^sup>* (restorePreviousDataPlane env request)"
proof -
  show "keeps (life_atom env)\<^sup>*\<^sup>* (restorePreviousContinuation env previous)"
    unfolding restorePreviousContinuation_def resave_previous_def by (intro call_rules)
  have "keeps (life_atom env)\<^sup>*\<^sup>* (change (\<lambda>h. h\<lparr>sh_generation := sh_generation h + 1, sh_cancel := True\<rparr>))"
    by (rule change_atom, rule_tac x = "sh_stop h" in exI, rule_tac x = "sh_generation h + 1" in exI, rule_tac x = True in exI) simp
  moreover have "keeps (life_atom env)\<^sup>*\<^sup>* (change (\<lambda>h. if sh_generation h = n then h\<lparr>sh_cancel := False\<rparr> else h))" for n
    by (rule change_atom, rule_tac x = "sh_stop h" in exI, rule_tac x = "sh_generation h" in exI,
        rule_tac x = "if sh_generation h = n then False else sh_cancel h" in exI) simp
  ultimately show "keeps (life_atom env)\<^sup>*\<^sup>* (restorePreviousDataPlane env request)"
    unfolding restorePreviousDataPlane_def by (intro call_rules verified_atoms)
qed

lemma connect_atoms: "keeps (life_atom env)\<^sup>*\<^sup>* (Connect env request)"
proof -
  have gate: "keeps (life_atom env)\<^sup>*\<^sup>* (replacement_gate env previous response e)" for previous response e
    unfolding replacement_gate_def by (simp add: Let_def split_beta) (intro conjI impI call_rules)
  show ?thesis
    unfolding Connect_def admitted_connect_def after_failed_connect_def
    by (intro call_rules gate verified_atoms restore_atoms)
qed

lemma reconcile_atoms: "keeps (life_atom env)\<^sup>*\<^sup>* (ReconcileProtectedTun env expected)"
  unfolding ReconcileProtectedTun_def Let_def by (intro call_rules connect_atoms)

lemma stop_atoms: "keeps (life_atom env)\<^sup>*\<^sup>* (disarmForExplicitStop env)"
proof -
  have "keeps (life_atom env)\<^sup>*\<^sup>* (change (\<lambda>h. let h' = h\<lparr>sh_stop := True\<rparr> in
      if sh_cancel h' then h'\<lparr>sh_cancel := False, sh_generation := sh_generation h' + 1\<rparr> else h'))"
    by (rule change_atom, rule_tac x = True in exI, rule_tac x = "if sh_cancel h then sh_generation h + 1 else sh_generation h" in exI,
        rule_tac x = False in exI) (simp add: Let_def)
  then show ?thesis unfolding disarmForExplicitStop_def by (intro call_rules)
qed

lemma finalize_atoms:
  "keeps (life_atom env)\<^sup>*\<^sup>* (finalizeNetworkSessionReplayEvidenceAfterTeardown env)"
  "keeps (life_atom env)\<^sup>*\<^sup>* (Session_Resume.finalize env)"
  unfolding finalizeNetworkSessionReplayEvidenceAfterTeardown_def Session_Resume.finalize_def by (intro call_rules)+

lemma disconnect_atoms: "keeps (life_atom env)\<^sup>*\<^sup>* (Disconnect env)" "keeps (life_atom env)\<^sup>*\<^sup>* (DisconnectForRestart env)"
  unfolding Disconnect_def DisconnectForRestart_def by (intro call_rules finalize_atoms)+

lemma end_replay_atoms: "keeps (life_atom env)\<^sup>*\<^sup>* (end_replay env epoch legacy attempt exact)"
  unfolding end_replay_def terminalizeNetworkSessionReplay_def deriveNetworkSessionTerminalCleanupWitness_def
  by (intro call_rules finalize_atoms)

lemma replay_atoms:
  assumes "le_generic env = Some generic"
  shows "keeps (life_atom env)\<^sup>*\<^sup>* (replay env generic legacy epoch)"
  unfolding replay_def replay_failed_def require_converged_def
  by (intro interface_calls(10) [OF assms] end_replay_atoms call_rules)

lemma resume_atoms: "keeps (life_atom env)\<^sup>*\<^sup>* (resumeNetworkSession env)"
proof -
  have ri: "keeps (life_atom env)\<^sup>*\<^sup>* (resume_intent env legacy st)" for legacy st
  proof (cases "le_generic env")
    case None
    then show ?thesis by (simp add: resume_intent_def atoms.replay_evidence)
  next
    case (Some generic)
    then show ?thesis
      by (simp add: resume_intent_def require_converged_def Let_def)
        (intro interface_calls(10) [OF Some] replay_atoms [OF Some] end_replay_atoms call_rules)
  qed
  have ti: "keeps (life_atom env)\<^sup>*\<^sup>* (teardown_intent env legacy st)" for legacy st
    unfolding teardown_intent_def require_converged_def Let_def
    by (cases "le_live env") (simp_all, (intro call_rules finalize_atoms | assumption)+)
  have rw: "keeps (life_atom env)\<^sup>*\<^sup>* (resume_with env legacy st)" for legacy st
    by (simp add: resume_with_def ri ti atoms.replay_evidence split: networkSessionIntent.split)
  show ?thesis
    unfolding resumeNetworkSession_def no_session_def require_converged_def by (intro call_rules rw)
qed

lemma resume_result_atoms:
  "keeps (life_atom env)\<^sup>*\<^sup>* (resumeNetworkSessionResult env)"
  "keeps (life_atom env)\<^sup>*\<^sup>* (finalizeNetworkSessionResumeResult env result)"
  unfolding resumeNetworkSessionResult_def finalizeNetworkSessionResumeResult_def
  by (intro call_rules resume_atoms finalize_atoms)+

section \<open>Sequences of requests\<close>

text \<open>The daemon serves requests, other components run between them, and it may be restarted in the same boot: then only the
  files are what they were.\<close>

inductive lifecycle_step :: "'w life_env \<Rightarrow> 'w life \<Rightarrow> 'w life \<Rightarrow> bool" for env where
  connect: "Connect env request s = (s', r) \<Longrightarrow> lifecycle_step env s s'"
| disconnect: "Disconnect env s = (s', r) \<Longrightarrow> lifecycle_step env s s'"
| disconnect_restart: "DisconnectForRestart env s = (s', r) \<Longrightarrow> lifecycle_step env s s'"
| reconcile: "ReconcileProtectedTun env expected s = (s', r) \<Longrightarrow> lifecycle_step env s s'"
| stop: "disarmForExplicitStop env s = (s', r) \<Longrightarrow> lifecycle_step env s s'"
| resume: "resumeNetworkSessionResult env s = (s', r) \<Longrightarrow> lifecycle_step env s s'"
| conclude: "finalizeNetworkSessionResumeResult env result s = (s', r) \<Longrightarrow> lifecycle_step env s s'"
| other: "lifecycle_step env s (s\<lparr>li_shared := le_between env n (li_shared s)\<rparr>)"
| restart: "sh_session h = sh_session (li_shared s) \<Longrightarrow> sh_diag h = sh_diag (li_shared s) \<Longrightarrow>
    sh_reason h = sh_reason (li_shared s) \<Longrightarrow> sh_txs h = sh_txs (li_shared s) \<Longrightarrow> lifecycle_step env s (s\<lparr>li_shared := h\<rparr>)"

definition same_files :: "'w life \<Rightarrow> 'w life \<Rightarrow> bool" where
  "same_files s s' \<longleftrightarrow>
     sh_session (li_shared s') = sh_session (li_shared s) \<and> sh_txs (li_shared s') = sh_txs (li_shared s)"

lemma lifecycle_step_atoms:
  assumes "lifecycle_step env s s'"
  shows "(life_atom env)\<^sup>*\<^sup>* s s' \<or> same_files s s'"
  using assms
proof cases
  case (other n)
  have "life_atom env s (s\<lparr>li_shared := le_between env n (li_shared s), li_trace := li_trace s\<rparr>)"
    by (rule called) (rule outer.intros)
  then show ?thesis unfolding other by (intro disjI1 r_into_rtranclp) simp
qed (auto simp: same_files_def dest: keepsD [OF connect_atoms] keepsD [OF disconnect_atoms(1)] keepsD [OF disconnect_atoms(2)]
      keepsD [OF reconcile_atoms] keepsD [OF stop_atoms] keepsD [OF resume_result_atoms(1)] keepsD [OF resume_result_atoms(2)])

text \<open>Whatever holds over the single steps and does not concern more than the files holds over all requests.\<close>

lemma over_requests:
  assumes h: "history R" and r: "\<And>s s'. life_atom env s s' \<Longrightarrow> R s s'" "\<And>s s'. same_files s s' \<Longrightarrow> R s s'"
    and run: "(lifecycle_step env)\<^sup>*\<^sup>* s s'"
  shows "R s s'"
proof (rule history.keeps_rtrancl [OF h run])
  fix s s'
  assume "lifecycle_step env s s'"
  then consider "(life_atom env)\<^sup>*\<^sup>* s s'" | "same_files s s'" using lifecycle_step_atoms by blast
  then show "R s s'" by cases (auto intro: history.keeps_rtrancl [OF h] r)
qed

subsection \<open>The session file\<close>

text \<open>The file moves by operations of its store, with labels in \<open>L\<close>.\<close>

definition by_store :: "string \<Rightarrow> session_label set \<Rightarrow> session_disk \<Rightarrow> session_disk \<Rightarrow> bool" where
  "by_store b L d d' \<longleftrightarrow> (\<exists>ls. set ls \<subseteq> L \<and> session_run b ls d d')"

lemma run_append:
  assumes "session_run b ls' d' d''" "session_run b ls d d'"
  shows "session_run b (ls @ ls') d d''"
  using assms
proof (induction rule: session_run.induct)
  case (run_step ls' d' e l e')
  then have "session_run b ((ls @ ls') @ [l]) d e'" by (blast intro: session_run.run_step)
  then show ?case by simp
qed simp

definition file_moves :: "string \<Rightarrow> session_label set \<Rightarrow> 'w life \<Rightarrow> 'w life \<Rightarrow> bool" where
  "file_moves b L s s' \<longleftrightarrow> by_store b L (sh_session (li_shared s)) (sh_session (li_shared s'))"

lemma by_store_refl [simp]: "by_store b L d d"
  unfolding by_store_def by (intro exI [of _ "[]"]) (simp add: run_nil)

lemma by_store_trans: "by_store b L d d' \<Longrightarrow> by_store b L d' d'' \<Longrightarrow> by_store b L d d''"
  unfolding by_store_def by (metis run_append set_append Un_subset_iff)

lemma by_store_step: "session_step b l d d' \<Longrightarrow> l \<in> L \<Longrightarrow> by_store b L d d'"
  unfolding by_store_def using run_step [OF run_nil] by (intro exI [of _ "[l]"]) force

interpretation files: history "file_moves b L" for b L
  by unfold_locales (auto simp: file_moves_def intro: by_store_trans)

text \<open>What the development relies on of the interfaces and of other requests: they touch the session file only by operations
  of its store in \<open>L\<close>, in the same boot.\<close>

definition calls_in_boot :: "string \<Rightarrow> 'w life_env \<Rightarrow> bool" where
  "calls_in_boot b env \<longleftrightarrow>
     (\<forall>n. let c = le_call env n in
        env_in b (lc_load c) \<and> env_in b (lc_write c) \<and> env_in b (lc_load2 c) \<and> env_in b (lc_write2 c))"

definition own_labels :: "session_label set" where
  "own_labels = {LBegin, LRecover, LRestore, LRemove, LDisarm, LLoad}"

definition rely :: "string \<Rightarrow> session_label set \<Rightarrow> 'w life_env \<Rightarrow> bool" where
  "rely b L env \<longleftrightarrow>
     calls_in_boot b env \<and> own_labels \<subseteq> L \<and> (\<forall>h h'. outer env h h' \<longrightarrow> by_store b L (sh_session h) (sh_session h'))"

lemma call_envs:
  assumes "rely b L env"
  shows "env_in b (lc_load (le_call env n))" "env_in b (lc_write (le_call env n))"
    "env_in b (lc_load2 (le_call env n))" "env_in b (lc_write2 (le_call env n))"
  using assms by (simp_all add: rely_def calls_in_boot_def Let_def)

lemma store_op_step:
  assumes "store_op c l d d'" "env_in b (lc_load c)" "env_in b (lc_write c)" "env_in b (lc_load2 c)"
  shows "session_step b l d d' \<and> l \<in> own_labels"
  using assms
  by (cases rule: store_op.cases)
    (auto simp: own_labels_def intro: session_step.intros [OF prod.collapse [symmetric]],
     metis load load_disk prod.collapse)

lemma atom_files:
  assumes "life_atom env s s'" and r: "rely b L env"
  shows "file_moves b L s s'"
  using assms(1)
proof cases
  case (stored l d)
  from store_op_step [OF stored(2) call_envs(1-3) [OF r]]
  have "session_step b l (sh_session (li_shared s)) d" "l \<in> L" using r by (auto simp: rely_def)
  then show ?thesis by (simp add: stored(1) file_moves_def by_store_step)
next
  case (called h t)
  with r show ?thesis by (auto simp: rely_def file_moves_def)
next
  case unlocked
  with r outer.intros(11) [of env "li_shared s" "li_tick s"] show ?thesis by (auto simp: rely_def file_moves_def)
qed (simp_all add: file_moves_def tick_def)

lemma lifecycle_run_files:
  assumes "(lifecycle_step env)\<^sup>*\<^sup>* s s'" "rely b L env"
  shows "file_moves b L s s'"
proof (rule over_requests [OF files.history_axioms _ _ assms(1)])
  show "file_moves b L s s'" if "life_atom env s s'" for s s' by (rule atom_files [OF that assms(2)])
  show "file_moves b L s s'" if "same_files s s'" for s s' using that by (simp add: same_files_def file_moves_def)
qed

lemma file_run: "file_moves b L s s' \<Longrightarrow>
    \<exists>ls. set ls \<subseteq> L \<and> session_run b ls (sh_session (li_shared s)) (sh_session (li_shared s'))"
  by (simp add: file_moves_def by_store_def)

text \<open>Disarming a protected session of this boot, when it reports success, leaves a record that is not to be resumed.\<close>

lemma disarm_success:
  assumes ok: "disk_ok d" and a: "Session_State.disarm el ev IntentDisconnect d = (d', None)" and b: "env_in b el"
    and st: "held d = Some st" "ns_boot_id st = b" "ns_protection st = Some p"
  shows "\<exists>st'. held d' = Some st' \<and> ns_boot_id st' = b \<and> ns_protection st' = Some p \<and> ns_intent st' \<noteq> IntentResume"
proof -
  from a obtain r where u: "Update el ev (disarm_update IntentDisconnect) d = (d', r)" "err_of r = None"
    by (auto simp: Session_State.disarm_def validateNetworkSessionIntent_def split: prod.splits)
  from protected_step [OF disarm [OF a b] ok st] have "held d' \<noteq> None" by auto
  then have "r \<noteq> Inr None" using Update_None [OF ok _ b] u(1) by (auto simp: held_def)
  with u(2) obtain st' where r: "r = Inr (Some st')" by (cases r) (auto simp: err_of_def)
  from Update_success [OF ok u(1) [unfolded r] b] st
  have "disarm_update IntentDisconnect st = Inr st'" "written st' d'" by auto
  with st show ?thesis using written_held by (fastforce simp: disarm_update_def split: if_splits)
qed

subsection \<open>A concrete daemon\<close>

definition demo_call :: life_call where
  "demo_call =
     (let k = \<lparr>ke_boot = Some ''boot1'', ke_size = (\<lambda>x. 300), ke_load = LoadOk, ke_write = WriteOk, ke_remove = RemoveOk\<rparr> in
      \<lparr>lc_load = demo_env, lc_write = demo_env, lc_load2 = demo_env, lc_write2 = demo_env, lc_diag = k, lc_diag2 = k,
       lc_reason = \<lparr>ke_boot = Some ''boot1'', ke_size = (\<lambda>x. 100), ke_load = LoadOk, ke_write = WriteOk, ke_remove = RemoveOk\<rparr>,
       lc_scan = None, lc_unlink = None, lc_cancelled = False\<rparr>)"

definition converged :: RecoveryResponse where
  "converged = \<lparr>rrs_mode = ''execute'', rrs_results = [], rrs_warnings = [], rrs_network_session = None\<rparr>"

definition demo_life :: "unit life_env" where
  "demo_life =
     \<lparr>le_call = (\<lambda>n. demo_call), le_between = (\<lambda>n h. h), le_store = \<lparr>st_runtime_dir = ''/run/podlaz''\<rparr>,
      le_error_text = (\<lambda>e. []), le_connect = (\<lambda>request h. (h, no_response, None)),
      le_disconnect = (\<lambda>h. (h, no_response, None)), le_live = None, le_verified_status = None,
      le_migrate = (\<lambda>h. (h, Inr False)), le_reconcile = (\<lambda>h. (h, None)), le_exact = (\<lambda>h. (h, converged)),
      le_generic = Some (\<lambda>h. (h, converged)), le_observe = (\<lambda>t h. (h, None)), le_teardown = (\<lambda>h. (h, None))\<rparr>"

definition demo_session :: networkSessionState where
  "demo_session = demo_state\<lparr>ns_intent := IntentResume\<rparr>"

definition demo_start :: "networkSessionState \<Rightarrow> unit life" where
  "demo_start st =
     \<lparr>li_shared = \<lparr>sh_session = disk_of st, sh_diag = None, sh_reason = None, sh_txs = None, sh_stop = False, sh_generation = 0,
        sh_cancel = False, sh_world = ()\<rparr>, li_tick = 0, li_trace = []\<rparr>"

lemma demo_variant_valid: "validateNetworkSessionState (demo_state\<lparr>ns_intent := i, ns_epoch := n\<rparr>) = None"
  if "i \<in> {IntentResume, IntentDisconnect, IntentTerminal}"
  using that
  by (auto simp: validateNetworkSessionState_def demo_state_def demo_request_valid demo_protection_valid
      networkSessionIDPattern_def lower_hex_def is_digit_def validateNetworkSessionIntent_def replacement_error_def)

lemma demo_resumable_valid: "validateNetworkSessionState demo_session = None"
  using demo_variant_valid [of IntentResume 7] by (simp add: demo_session_def demo_state_def)

lemma demo_session_fields [simp]:
  "ns_boot_id demo_session = ''boot1''" "ns_protection demo_session = Some demo_protection" "ns_replacement demo_session = None"
  "ns_intent demo_session = IntentResume" "ns_epoch demo_session = 7" "ns_request demo_session = demo_request"
  by (simp_all add: demo_session_def demo_state_def)

lemma demo_rely: "rely ''boot1'' own_labels demo_life"
  by (auto simp: rely_def calls_in_boot_def demo_life_def demo_call_def demo_env_in Let_def elim!: outer.cases)

lemma demo_start_fields [simp]: "sh_session (li_shared (demo_start st)) = disk_of st"
  by (simp add: demo_start_def)

lemmas demo_session_written = written_disk_of [OF demo_resumable_valid]

section \<open>Properties\<close>




lemma demo_stop:
  "disarmForExplicitStop demo_life (demo_start demo_session) =
     ((demo_start (demo_state\<lparr>ns_intent := IntentDisconnect\<rparr>))\<lparr>li_tick := 2,
        li_shared := (li_shared (demo_start (demo_state\<lparr>ns_intent := IntentDisconnect\<rparr>)))\<lparr>sh_stop := True\<rparr>\<rparr>, Inr ())"
proof -
  let ?st = "demo_state\<lparr>ns_intent := IntentDisconnect\<rparr>"
  have v: "validateNetworkSessionState ?st = None" using demo_variant_valid [of IntentDisconnect 7] by (simp add: demo_state_def)
  have "disarm_update IntentDisconnect demo_session = Inr ?st"
    by (simp add: disarm_update_def) (simp add: demo_session_def)
  then have "Session_State.disarm demo_env demo_env IntentDisconnect (disk_of demo_session) = (disk_of ?st, None)"
    using demo_session_load [OF demo_resumable_valid] demo_session_save [OF v]
    by (simp add: Session_State.disarm_def validateNetworkSessionIntent_def Update_def put_state_def err_of_def)
  then show ?thesis
    by (simp add: disarmForExplicitStop_def bindp_def change_def on_session_def unlock_def wrap_store_def tick_def Let_def
        demo_life_def demo_call_def demo_start_def)
qed


end
