(* ===== verification/Session_Stages.thy ===== *)
theory Session_Stages
  imports Transaction_Facts Session_Lifecycle_Facts
begin

text \<open>
  A resume against its abstract specification, a machine over the calls it makes: protection first, then the exact and the
  general recovery, then one replay at most; and a session is torn down only after a clean sweep, and a session that was to be
  resumed only after its remains have been observed to be gone.  Also what a stop does to a request in flight.
\<close>

section \<open>The stages of a resume\<close>

datatype resume_stage =
    Begun | Guarded | ExactSwept | Clean | Replayed | ReplaySwept | ReplayClean | Observed | LiveStopped | Swept | TornDown | Halted

definition verdict_stage :: "bool \<Rightarrow> resume_stage \<Rightarrow> resume_stage option" where
  "verdict_stage ok a = Some (if ok then a else Halted)"

definition after_call :: "resume_stage \<Rightarrow> life_event \<Rightarrow> resume_stage option" where
  "after_call a e =
     (case a of
        Begun \<Rightarrow>
          (case e of
             CalledReconcile ok \<Rightarrow> verdict_stage ok Guarded
           | CalledLiveConvergence ok \<Rightarrow> verdict_stage ok LiveStopped
           | CalledExactRecovery ok \<Rightarrow> verdict_stage ok Swept
           | _ \<Rightarrow> None)
      | Guarded \<Rightarrow> (case e of CalledExactRecovery ok \<Rightarrow> verdict_stage ok ExactSwept | _ \<Rightarrow> None)
      | ExactSwept \<Rightarrow> (case e of CalledGenericRecovery ok \<Rightarrow> verdict_stage ok Clean | _ \<Rightarrow> None)
      | Clean \<Rightarrow>
          (case e of
             CalledConnect request \<Rightarrow> Some Replayed
           | CalledObservation ok \<Rightarrow> verdict_stage ok Observed
           | _ \<Rightarrow> None)
      | Replayed \<Rightarrow> (case e of CalledExactRecovery ok \<Rightarrow> verdict_stage ok ReplaySwept | _ \<Rightarrow> None)
      | ReplaySwept \<Rightarrow> (case e of CalledGenericRecovery ok \<Rightarrow> verdict_stage ok ReplayClean | _ \<Rightarrow> None)
      | ReplayClean \<Rightarrow> (case e of CalledObservation ok \<Rightarrow> verdict_stage ok Observed | _ \<Rightarrow> None)
      | LiveStopped \<Rightarrow> (case e of CalledExactRecovery ok \<Rightarrow> verdict_stage ok Swept | _ \<Rightarrow> None)
      | Observed \<Rightarrow> (case e of CalledTeardown ok \<Rightarrow> verdict_stage ok TornDown | _ \<Rightarrow> None)
      | Swept \<Rightarrow> (case e of CalledTeardown ok \<Rightarrow> verdict_stage ok TornDown | _ \<Rightarrow> None)
      | TornDown \<Rightarrow> None
      | Halted \<Rightarrow> None)"

lemma after_call_simps [simp]:
  "after_call Begun (CalledReconcile ok) = Some (if ok then Guarded else Halted)"
  "after_call Begun (CalledLiveConvergence ok) = Some (if ok then LiveStopped else Halted)"
  "after_call Begun (CalledExactRecovery ok) = Some (if ok then Swept else Halted)"
  "after_call Guarded (CalledExactRecovery ok) = Some (if ok then ExactSwept else Halted)"
  "after_call ExactSwept (CalledGenericRecovery ok) = Some (if ok then Clean else Halted)"
  "after_call Clean (CalledConnect request) = Some Replayed"
  "after_call Clean (CalledObservation ok) = Some (if ok then Observed else Halted)"
  "after_call Replayed (CalledExactRecovery ok) = Some (if ok then ReplaySwept else Halted)"
  "after_call ReplaySwept (CalledGenericRecovery ok) = Some (if ok then ReplayClean else Halted)"
  "after_call ReplayClean (CalledObservation ok) = Some (if ok then Observed else Halted)"
  "after_call LiveStopped (CalledExactRecovery ok) = Some (if ok then Swept else Halted)"
  "after_call Observed (CalledTeardown ok) = Some (if ok then TornDown else Halted)"
  "after_call Swept (CalledTeardown ok) = Some (if ok then TornDown else Halted)"
  by (simp_all add: after_call_def verdict_stage_def)

fun stages :: "resume_stage \<Rightarrow> life_event list \<Rightarrow> resume_stage option" where
  "stages a [] = Some a"
| "stages a (e # es) = Option.bind (after_call a e) (\<lambda>b. stages b es)"

lemma stages_append: "stages a es = Some b \<Longrightarrow> stages a (es @ es') = stages b es'"
  by (induction a es rule: stages.induct) (auto split: bind_splits)

section \<open>Programs that follow the stages\<close>

text \<open>From stage \<open>a\<close> the calls of the program lead to a stage that satisfies \<open>Q\<close> with its result.\<close>

definition goes :: "resume_stage \<Rightarrow> ('w, 'e, 'a) life_act \<Rightarrow> (resume_stage \<Rightarrow> 'e + 'a \<Rightarrow> bool) \<Rightarrow> bool" where
  "goes a m Q \<longleftrightarrow>
     (\<forall>s s' r. m s = (s', r) \<longrightarrow> (\<exists>es b. li_trace s' = li_trace s @ es \<and> stages a es = Some b \<and> Q b r))"

lemma goesD: "goes a m Q \<Longrightarrow> m s = (s', r) \<Longrightarrow> \<exists>es b. li_trace s' = li_trace s @ es \<and> stages a es = Some b \<and> Q b r"
  by (simp add: goes_def)

lemma goes_mono: "goes a m P \<Longrightarrow> (\<And>b r. P b r \<Longrightarrow> Q b r) \<Longrightarrow> goes a m Q"
  unfolding goes_def by blast

lemma goes_ret: "Q a (Inr x) \<Longrightarrow> goes a (ret x) Q"
  by (simp add: goes_def)

lemma goes_fail: "Q a (Inl e) \<Longrightarrow> goes a (fail e) Q"
  by (simp add: goes_def)

lemma goes_bind:
  assumes "goes a m (\<lambda>b r. case r of Inl e \<Rightarrow> Q b (Inl e) | Inr x \<Rightarrow> goes b (f x) Q)"
  shows "goes a (bindp m f) Q"
  unfolding goes_def
proof (intro allI impI)
  fix s s' r
  assume "bindp m f s = (s', r)"
  then show "\<exists>es b. li_trace s' = li_trace s @ es \<and> stages a es = Some b \<and> Q b r"
  proof (cases rule: bindp_cases)
    case (1 e)
    with goesD [OF assms 1(1)] show ?thesis by auto
  next
    case (2 s1 x)
    from goesD [OF assms 2(1)] obtain es b where
      1: "li_trace s1 = li_trace s @ es" "stages a es = Some b" "goes b (f x) Q" by auto
    from goesD [OF 1(3) 2(2)] obtain es' b' where
      "li_trace s' = li_trace s1 @ es'" "stages b es' = Some b'" "Q b' r" by auto
    with 1 show ?thesis by (intro exI [of _ "es @ es'"] exI [of _ b']) (simp add: stages_append)
  qed
qed

lemma goes_try: "goes a m (\<lambda>b r. Q b (Inr r)) \<Longrightarrow> goes a (tryp m) Q"
  unfolding goes_def tryp_def by (auto split: prod.splits)

lemma goes_cases:
  "(c \<Longrightarrow> goes a m Q) \<Longrightarrow> (\<not> c \<Longrightarrow> goes a m' Q) \<Longrightarrow> goes a (if c then m else m') Q"
  "(o1 = None \<Longrightarrow> goes a m Q) \<Longrightarrow> (\<And>x. o1 = Some x \<Longrightarrow> goes a (f x) Q) \<Longrightarrow> goes a (case o1 of None \<Rightarrow> m | Some x \<Rightarrow> f x) Q"
  "(\<And>x. q = Inl x \<Longrightarrow> goes a (g x) Q) \<Longrightarrow> (\<And>x. q = Inr x \<Longrightarrow> goes a (k x) Q) \<Longrightarrow>
   goes a (case q of Inl x \<Rightarrow> g x | Inr x \<Rightarrow> k x) Q"
  "(\<And>x y. z = (x, y) \<Longrightarrow> goes a (h x y) Q) \<Longrightarrow> goes a (case z of (x, y) \<Rightarrow> h x y) Q"
  "(c \<Longrightarrow> goes a m Q) \<Longrightarrow> (\<not> c \<Longrightarrow> goes a m' Q) \<Longrightarrow> goes a (case c of True \<Rightarrow> m | False \<Rightarrow> m') Q"
  by (auto split: option.splits sum.splits prod.splits bool.splits)

subsection \<open>Calls\<close>

definition same_trace :: "'w life \<Rightarrow> 'w life \<Rightarrow> bool" where
  "same_trace s s' \<longleftrightarrow> li_trace s' = li_trace s"

interpretation traces: evidence_history same_trace env for env
  by unfold_locales (auto simp: same_trace_def tick_def)

lemma trace_of_session: "keeps same_trace (on_session env f)" "keeps same_trace (load_session env)" "keeps same_trace (unlock env)"
  by (auto simp: keeps_def same_trace_def on_session_def load_session_def unlock_def tick_def split: prod.splits)

lemmas trace_rules = traces.rules traces.silent trace_of_session traces.evidence traces.finalize_quiet traces.replay_evidence

lemma goes_silent: "keeps same_trace m \<Longrightarrow> (\<And>r. Q a r) \<Longrightarrow> goes a m Q"
  unfolding goes_def by (auto simp: same_trace_def dest: keepsD intro: exI [of _ "[]"])

text \<open>A silent program keeps the stage, and what is known of its result may be used.\<close>

lemma goes_known:
  assumes "keeps same_trace m" and "\<And>s s' r. m s = (s', r) \<Longrightarrow> Q a r"
  shows "goes a m Q"
  unfolding goes_def using assms by (auto simp: same_trace_def dest!: keepsD intro!: exI [of _ "[]"])

lemma goes_on_session:
  assumes "\<And>n d d' x. f (le_call env n) d = (d', x) \<Longrightarrow> Q a (Inr x)"
  shows "goes a (on_session env f) Q"
  by (rule goes_known [OF trace_of_session(1)]) (auto simp: on_session_def split: prod.splits dest: assms)

lemma goes_outside:
  assumes "\<And>x. \<exists>b. stages a (ev x) = Some b \<and> Q b (Inr x)"
  shows "goes a (outside ev f) Q"
  unfolding goes_def
proof (intro allI impI, goal_cases)
  case (1 s s' r)
  then obtain x where "li_trace s' = li_trace s @ ev x" "r = Inr x" by (auto simp: outside_def split: prod.splits)
  with assms [of x] show ?case by blast
qed

section \<open>The stages are followed\<close>

text \<open>What is required of the end of a resume.\<close>

definition resume_ends :: "resume_stage \<Rightarrow> go_error + bool \<Rightarrow> bool" where
  "resume_ends a r \<longleftrightarrow> (r = Inr True \<longrightarrow> a = Replayed) \<and> (r = Inr False \<longrightarrow> a \<in> {Swept, TornDown})"

definition swept_to :: "resume_stage \<Rightarrow> resume_stage \<Rightarrow> go_error + RecoveryResponse \<Rightarrow> bool" where
  "swept_to b a r \<longleftrightarrow> (case r of Inl e \<Rightarrow> True | Inr x \<Rightarrow> a = b)"

lemma resume_fail_Inl: "resume_fail env epoch stage outcome legacy present e s = (s', r) \<Longrightarrow> \<exists>x. r = Inl x"
  unfolding resume_fail_def persistNetworkSessionResumeFailure_def
  by (auto simp: bindp_def fail_def ret_def on_diag_def split: option.splits prod.splits)

lemma goes_resume_fail: "(\<And>x. Q a (Inl x)) \<Longrightarrow> goes a (resume_fail env epoch stage outcome legacy present e) Q"
  by (rule goes_known [OF traces.replay_evidence(3)]) (auto dest: resume_fail_Inl)

lemma goes_converged:
  assumes "goes a m (\<lambda>c r. case r of Inl e \<Rightarrow> False | Inr x \<Rightarrow> networkSessionRecoveryConverged x \<longrightarrow> c = b)"
  shows "goes a (require_converged env epoch stage legacy m) (swept_to b)"
  unfolding require_converged_def
  by (rule goes_bind, rule goes_mono [OF assms])
    (auto split: sum.splits simp: swept_to_def intro!: goes_ret goes_resume_fail)

text \<open>A call with a verdict: a good one leads on, a bad one ends the resume.\<close>

lemma verdict:
  assumes "after_call a (ev True) = Some b" "after_call a (ev False) = Some Halted"
  shows "\<exists>c. stages a [ev v] = Some c \<and> c = (if v then b else Halted)"
  by (cases v) (simp_all add: assms)

lemma goes_exact:
  assumes "after_call a (CalledExactRecovery True) = Some b" "after_call a (CalledExactRecovery False) = Some Halted"
  shows "goes a (require_converged env epoch stage legacy (call_exact env)) (swept_to b)"
  unfolding call_exact_def
  by (rule goes_converged, rule goes_outside) (use verdict [of a CalledExactRecovery b, OF assms] in \<open>auto split: if_splits\<close>)

lemma goes_generic:
  assumes "after_call a (CalledGenericRecovery True) = Some b" "after_call a (CalledGenericRecovery False) = Some Halted"
  shows "goes a (require_converged env epoch stage legacy (call_generic recover)) (swept_to b)"
  unfolding call_generic_def
  by (rule goes_converged, rule goes_outside) (use verdict [of a CalledGenericRecovery b, OF assms] in \<open>auto split: if_splits\<close>)

lemma goes_verdict:
  assumes "after_call a (ev True) = Some b" "after_call a (ev False) = Some Halted"
    and "\<And>x. Q (if x = None then b else Halted) (Inr x)"
  shows "goes a (outside (\<lambda>x. [ev (x = None)]) f) Q"
  by (rule goes_outside) (use verdict [of a ev b, OF assms(1,2)] assms(3) in blast)

text \<open>Sequences whose requirement is met by every error.\<close>

lemma goes_then:
  assumes "goes a m P" "\<And>c x. P c (Inr x) \<Longrightarrow> goes c (f x) Q" "\<And>c e. Q c (Inl e)"
  shows "goes a (bindp m f) Q"
  by (rule goes_bind, rule goes_mono [OF assms(1)]) (auto simp: assms(2,3) split: sum.splits)

lemma goes_quietly:
  assumes "keeps same_trace m" "\<And>x. goes a (f x) Q" "\<And>c e. Q c (Inl e)"
  shows "goes a (bindp m f) Q"
  by (rule goes_bind, rule goes_silent [OF assms(1)]) (auto simp: assms(2,3) split: sum.splits)

lemma goes_swept:
  assumes "goes a m (swept_to b)" "\<And>x. goes b (f x) Q" "\<And>c e. Q c (Inl e)"
  shows "goes a (bindp m f) Q"
  by (rule goes_then [OF assms(1)]) (auto simp: swept_to_def assms(2,3))

lemma after_teardown_silent: "keeps same_trace (finalizeNetworkSessionReplayEvidenceAfterTeardown env)"
  unfolding finalizeNetworkSessionReplayEvidenceAfterTeardown_def by (intro trace_rules)

lemma goes_teardown:
  assumes "a = Observed \<or> a = Swept"
  shows "goes a (call_teardown env) (\<lambda>c r. r = Inr None \<longrightarrow> c = TornDown)"
  unfolding call_teardown_def
  by (rule goes_verdict [where b = TornDown]) (use assms in auto)

lemma goes_terminalize:
  assumes "a = Clean \<or> a = ReplayClean"
  shows "goes a (terminalizeNetworkSessionReplay env attempt exact) (\<lambda>c r. r = Inr True \<longrightarrow> c = TornDown)"
proof -
  have obs: "after_call a (CalledObservation True) = Some Observed" "after_call a (CalledObservation False) = Some Halted"
    using assms by auto
  have w: "goes a (deriveNetworkSessionTerminalCleanupWitness env st attempt exact)
      (\<lambda>c r. case r of Inl e \<Rightarrow> True | Inr x \<Rightarrow> c = Observed)" for st
    unfolding deriveNetworkSessionTerminalCleanupWitness_def
    by (intro goes_cases goes_fail goes_bind goes_verdict [of a CalledObservation, OF obs])
      (auto intro: goes_ret goes_fail split: option.splits)
  have t: "goes TornDown (bindp (finalizeNetworkSessionReplayEvidenceAfterTeardown env) (\<lambda>x. case x of
        None \<Rightarrow> ret True | Some e \<Rightarrow> fail (Wrapped t e))) (\<lambda>c r. r = Inr True \<longrightarrow> c = TornDown)" for t
    by (rule goes_quietly [OF after_teardown_silent]) (auto intro: goes_ret goes_fail split: option.splits)
  have u: "goes Observed (bindp (call_teardown env) (\<lambda>x. case x of
        None \<Rightarrow> bindp (finalizeNetworkSessionReplayEvidenceAfterTeardown env) (\<lambda>x. case x of
            None \<Rightarrow> ret True | Some e \<Rightarrow> fail (Wrapped t e))
      | Some e \<Rightarrow> fail (Wrapped t' e))) (\<lambda>c r. r = Inr True \<longrightarrow> c = TornDown)" for t t'
    by (rule goes_then [OF goes_teardown]) (auto intro: goes_fail t split: option.splits)
  have v: "goes Observed (bindp (on_session env f) (\<lambda>outcome. case outcome of
        Inl e \<Rightarrow> fail (g e) | Inr False \<Rightarrow> ret False | Inr True \<Rightarrow> m)) (\<lambda>c r. r = Inr True \<longrightarrow> c = TornDown)"
    if "goes Observed m (\<lambda>c r. r = Inr True \<longrightarrow> c = TornDown)" for f g m
    by (rule goes_quietly [OF trace_of_session(1)]) ((intro goes_cases goes_fail goes_ret that; simp) | simp)+
  have x: "goes a (bindp (deriveNetworkSessionTerminalCleanupWitness env st attempt exact) k) (\<lambda>c r. r = Inr True \<longrightarrow> c = TornDown)"
    if "\<And>y. goes Observed (k y) (\<lambda>c r. r = Inr True \<longrightarrow> c = TornDown)" for st k
    by (rule goes_then [OF w]) (simp_all add: that)
  show ?thesis
    unfolding terminalizeNetworkSessionReplay_def
    by (rule goes_quietly [OF trace_of_session(2)]) ((intro goes_cases goes_fail goes_ret x v u; simp) | simp)+
qed

lemma goes_end_replay:
  assumes "a = Clean \<or> a = ReplayClean"
  shows "goes a (end_replay env epoch legacy attempt exact) (\<lambda>c r. r = Inr True \<longrightarrow> c = TornDown)"
  unfolding end_replay_def
  by (rule goes_then [OF goes_try [OF goes_mono [OF goes_terminalize [OF assms]]],
        where P = "\<lambda>c r. r = Inr (Inr True) \<longrightarrow> c = TornDown"])
    (auto intro: goes_resume_fail goes_ret split: sum.splits)

text \<open>The same for the end of a resume.\<close>

lemma ends_error [simp]: "resume_ends c (Inl x)"
  by (simp add: resume_ends_def)

lemma ends_quietly: "keeps same_trace m \<Longrightarrow> (\<And>x. goes a (f x) resume_ends) \<Longrightarrow> goes a (bindp m f) resume_ends"
  by (rule goes_quietly) simp_all

lemma ends_swept: "goes a m (swept_to b) \<Longrightarrow> (\<And>x. goes b (f x) resume_ends) \<Longrightarrow> goes a (bindp m f) resume_ends"
  by (rule goes_swept) simp_all

lemma ends_fail: "goes a (fail e) resume_ends" "goes a (resume_fail env epoch stage outcome legacy present e) resume_ends"
  by (simp_all add: goes_fail goes_resume_fail)

lemma ends_replay:
  assumes "a = Clean \<or> a = ReplayClean" "\<And>c. goes c m resume_ends"
  shows "goes a (bindp (end_replay env epoch legacy attempt exact) (\<lambda>ended. if ended then ret False else m)) resume_ends"
  by (rule goes_then [OF goes_end_replay [OF assms(1)]]) (auto simp: resume_ends_def assms(2) intro: goes_ret)

lemmas sweeps =
  ends_swept [OF goes_exact [of Guarded ExactSwept]] ends_swept [OF goes_generic [of ExactSwept Clean]]
  ends_swept [OF goes_exact [of Replayed ReplaySwept]] ends_swept [OF goes_generic [of ReplaySwept ReplayClean]]
  ends_swept [OF goes_exact [of Begun Swept]] ends_swept [OF goes_exact [of LiveStopped Swept]]

lemmas end_rules = goes_cases ends_fail sweeps [simplified]

lemma ends_replay_failed: "goes Replayed (replay_failed env recover legacy st e) resume_ends"
  unfolding replay_failed_def
  by (rule ends_quietly [OF traces.replay_evidence(2)], rule ends_quietly [OF traces.replay_evidence(1)])
    (intro end_rules ends_replay; simp)

lemma ends_replay_once: "goes Clean (replay env recover legacy epoch) resume_ends"
proof -
  have done1: "goes Replayed (bindp (remove_diagnostic env) (\<lambda>ignored. ret True)) resume_ends"
    by (rule ends_quietly [OF traces.evidence(2)]) (simp add: goes_ret resume_ends_def)
  have conn: "goes Clean (bindp (inner_connect env request) (\<lambda>(response, err). case err of
      None \<Rightarrow> m | Some e \<Rightarrow> f e)) resume_ends"
    if "goes Replayed m resume_ends" "\<And>e. goes Replayed (f e) resume_ends" for request m f
    unfolding inner_connect_def
    by (rule goes_then [OF goes_outside [where Q = "\<lambda>c r. c = Replayed"]]) (auto intro: that split: option.splits)
  show ?thesis
    unfolding replay_def
    by (rule ends_quietly [OF trace_of_session(1)]) (intro end_rules conn ends_replay_failed done1)
qed

lemma ends_resume_intent: "goes Begun (resume_intent env legacy st) resume_ends"
proof (cases "le_generic env")
  case None
  then show ?thesis by (simp add: resume_intent_def ends_fail)
next
  case (Some recover)
  have rec: "goes Begun (bindp (outside (\<lambda>x. [CalledReconcile (x = None)]) (le_reconcile env)) (\<lambda>x. case x of
      None \<Rightarrow> m | Some e \<Rightarrow> f e)) resume_ends"
    if "goes Guarded m resume_ends" "\<And>c e. goes c (f e) resume_ends" for m f
    by (rule goes_then [OF goes_verdict [where ev = CalledReconcile and b = Guarded and
          Q = "\<lambda>c r. c = (if r = Inr None then Guarded else Halted)"]]) (auto intro: that split: option.splits)
  show ?thesis
    by (simp add: resume_intent_def Some Let_def)
      (intro rec ends_quietly [OF trace_of_session(2)] ends_quietly [OF traces.replay_evidence(1)] end_rules ends_replay
        ends_replay_once; simp)
qed

lemma ends_teardown: "goes a (bindp (call_teardown env) (\<lambda>x. case x of
      None \<Rightarrow> bindp (finalizeNetworkSessionReplayEvidenceAfterTeardown env) (\<lambda>x. case x of
        None \<Rightarrow> ret False | Some e \<Rightarrow> fail (f e))
    | Some e \<Rightarrow> m e)) resume_ends"
  if "a = Swept" "\<And>c e. goes c (m e) resume_ends"
proof (rule goes_then [OF goes_teardown])
  show "a = Observed \<or> a = Swept" using that by simp
  have "goes TornDown (bindp (finalizeNetworkSessionReplayEvidenceAfterTeardown env) (\<lambda>x. case x of
        None \<Rightarrow> ret False | Some e \<Rightarrow> fail (f e))) resume_ends"
    by (rule ends_quietly [OF after_teardown_silent])
      (auto intro!: goes_ret ends_fail split: option.splits, simp add: resume_ends_def)
  then show "goes c (case x of None \<Rightarrow> bindp (finalizeNetworkSessionReplayEvidenceAfterTeardown env) (\<lambda>x. case x of
        None \<Rightarrow> ret False | Some e \<Rightarrow> fail (f e)) | Some e \<Rightarrow> m e) resume_ends"
    if "Inr x = Inr None \<longrightarrow> c = TornDown" for c x
    using that \<open>\<And>c e. goes c (m e) resume_ends\<close> by (cases x) auto
qed simp

lemma ends_teardown_intent: "goes Begun (teardown_intent env legacy st) resume_ends"
proof (cases "le_live env")
  case None
  then show ?thesis
    by (simp add: teardown_intent_def Let_def)
      (intro ends_quietly [OF traces.keeps_ret] end_rules ends_teardown; simp)
next
  case (Some live)
  have stopped: "goes Begun (bindp (outside (\<lambda>x. [CalledLiveConvergence (x = None)]) live) (\<lambda>x. case x of
      None \<Rightarrow> m | Some e \<Rightarrow> f e)) resume_ends"
    if "goes LiveStopped m resume_ends" "\<And>c e. goes c (f e) resume_ends" for m f
    by (rule goes_then [OF goes_verdict [where ev = CalledLiveConvergence and b = LiveStopped and
          Q = "\<lambda>c r. c = (if r = Inr None then LiveStopped else Halted)"]]) (auto intro: that split: option.splits)
  show ?thesis
    by (simp add: teardown_intent_def Some Let_def) (intro stopped end_rules ends_teardown; simp)
qed

lemma ends_resume: "goes Begun (resumeNetworkSession env) resume_ends"
proof -
  have w: "goes Begun (resume_with env legacy st) resume_ends" for legacy st
    by (simp add: resume_with_def ends_resume_intent ends_teardown_intent ends_fail split: networkSessionIntent.split)
  have n: "goes Begun (no_session env legacy) resume_ends" for legacy
  proof -
    have "goes Swept (bindp (finalizeRetainedNetworkSessionReplayEvidence env) (\<lambda>x. case x of
        None \<Rightarrow> ret False | Some e \<Rightarrow> fail (f e))) resume_ends" for f
      by (rule ends_quietly [OF traces.finalize_quiet(2)])
        (auto intro!: goes_ret ends_fail split: option.splits, simp add: resume_ends_def)
    then show ?thesis unfolding no_session_def by (intro end_rules) simp_all
  qed
  have m: "goes Begun (bindp (outside (\<lambda>x. []) f) g) resume_ends" if "\<And>x. goes Begun (g x) resume_ends" for f g
    by (rule goes_then [OF goes_outside [where Q = "\<lambda>c r. c = Begun"]]) (auto intro: that)
  show ?thesis
    unfolding resumeNetworkSession_def
    by (intro ends_quietly [OF trace_of_session(2)] end_rules m n w)
qed

subsection \<open>One replay, after a clean sweep\<close>

lemma into_stage:
  "after_call a e = Some Clean \<Longrightarrow> a = ExactSwept \<and> e = CalledGenericRecovery True"
  "after_call a e = Some ExactSwept \<Longrightarrow> a = Guarded \<and> e = CalledExactRecovery True"
  "after_call a e = Some Guarded \<Longrightarrow> a = Begun \<and> e = CalledReconcile True"
  "after_call a e \<noteq> Some Begun"
  "after_call a (CalledConnect q) = Some b \<Longrightarrow> a = Clean"
  by (auto simp: after_call_def verdict_stage_def split: resume_stage.splits life_event.splits if_splits)

lemma stages_snoc: "stages a (es @ [e]) = Some b \<longleftrightarrow> (\<exists>c. stages a es = Some c \<and> after_call c e = Some b)"
proof
  assume "stages a (es @ [e]) = Some b"
  then show "\<exists>c. stages a es = Some c \<and> after_call c e = Some b"
    by (induction a es rule: stages.induct) (auto split: bind_splits)
qed (auto simp: stages_append)

lemma reach_Clean:
  assumes "stages Begun es = Some Clean"
  shows "es = [CalledReconcile True, CalledExactRecovery True, CalledGenericRecovery True]"
proof -
  have b: "es = []" if "stages Begun es = Some Begun" for es
    using that into_stage(4) by (cases es rule: rev_cases) (auto simp: stages_snoc)
  have g: "es = [CalledReconcile True]" if "stages Begun es = Some Guarded" for es
    using that into_stage(3) by (cases es rule: rev_cases) (auto simp: stages_snoc dest!: b)
  have x: "es = [CalledReconcile True, CalledExactRecovery True]" if "stages Begun es = Some ExactSwept" for es
    using that into_stage(2) by (cases es rule: rev_cases) (auto simp: stages_snoc dest!: g)
  show ?thesis
    using assms into_stage(1) by (cases es rule: rev_cases) (auto simp: stages_snoc dest!: x)
qed

lemma stages_prefix: "stages a (es @ es') = Some b \<Longrightarrow> \<exists>c. stages a es = Some c \<and> stages c es' = Some b"
  by (induction a es rule: stages.induct) (auto split: bind_splits)

lemma connect_after_sweep:
  assumes "stages Begun (us @ CalledConnect q # vs) = Some a"
  shows "us = [CalledReconcile True, CalledExactRecovery True, CalledGenericRecovery True]"
proof -
  from stages_prefix [OF assms] obtain c where c: "stages Begun us = Some c" "stages c (CalledConnect q # vs) = Some a" by blast
  then have "c = Clean" using into_stage(5) [of c q] by (auto split: bind_splits)
  with c(1) show ?thesis by (simp add: reach_Clean)
qed

subsection \<open>Which request is replayed\<close>

definition admitted :: "'w life_env \<Rightarrow> ConnectRequest \<Rightarrow> bool" where
  "admitted env request \<longleftrightarrow>
     (\<exists>n d d' st. BeginRecoveryAttempt (lc_load (le_call env n)) (lc_write (le_call env n)) d = (d', Some st, None) \<and>
        ns_intent st = IntentResume \<and> request = ns_request st)"

definition replays_admitted :: "'w life_env \<Rightarrow> 'w life \<Rightarrow> 'w life \<Rightarrow> bool" where
  "replays_admitted env s s' \<longleftrightarrow>
     (\<exists>es. li_trace s' = li_trace s @ es \<and> (\<forall>request. CalledConnect request \<in> set es \<longrightarrow> admitted env request))"

interpretation admits: evidence_history "replays_admitted env" env for env
proof
  show "replays_admitted env s s" for s by (simp add: replays_admitted_def)
  show "replays_admitted env s s''" if "replays_admitted env s s'" "replays_admitted env s' s''" for s s' s''
    using that unfolding replays_admitted_def by (metis append_assoc set_append UnE)
qed (simp_all add: replays_admitted_def tick_def)

lemma admits_outside:
  "(\<And>x request. CalledConnect request \<in> set (ev x) \<Longrightarrow> admitted env request) \<Longrightarrow> keeps (replays_admitted env) (outside ev f)"
  by (auto simp: keeps_def outside_def replays_admitted_def split: prod.splits)

lemma admits_session:
  "keeps (replays_admitted env) (on_session env f)" "keeps (replays_admitted env) (load_session env)"
  by (auto simp: keeps_def replays_admitted_def on_session_def load_session_def tick_def split: prod.splits)

lemma admits_calls:
  "keeps (replays_admitted env) (call_exact env)" "keeps (replays_admitted env) (call_generic recover)"
  "keeps (replays_admitted env) (call_teardown env)"
  "keeps (replays_admitted env) (outside (\<lambda>x. [CalledObservation (p x)]) f1)"
  "keeps (replays_admitted env) (outside (\<lambda>x. [CalledReconcile (p x)]) f2)"
  "keeps (replays_admitted env) (outside (\<lambda>x. [CalledLiveConvergence (p x)]) f3)"
  "keeps (replays_admitted env) (outside (\<lambda>x. []) f4)"
  unfolding call_exact_def call_generic_def call_teardown_def by (rule admits_outside, simp)+

lemmas admit_rules = admits.rules admits_session admits_calls admits.evidence admits.finalize_quiet admits.replay_evidence

lemma admits_known:
  fixes env :: "'w life_env"
  assumes "\<And>n d d' x. f (le_call env n) d = (d', x) \<Longrightarrow> keeps (replays_admitted env) (g x)"
  shows "keeps (replays_admitted env) (bindp (on_session env f) g)"
proof (rule keepsI)
  fix s :: "'w life"
  obtain d' x where f: "f (le_call env (li_tick s)) (sh_session (li_shared s)) = (d', x)" by fastforce
  define s1 where "s1 = tick s\<lparr>li_shared := (li_shared s)\<lparr>sh_session := d'\<rparr>\<rparr>"
  have "bindp (on_session env f) g s = g x s1" by (simp add: bindp_def on_session_def f s1_def)
  moreover have "replays_admitted env s s1" by (simp add: replays_admitted_def s1_def tick_def)
  moreover have "replays_admitted env s1 (fst (g x s1))" using assms [OF f] by (simp add: keeps_def)
  ultimately show "replays_admitted env s (fst (bindp (on_session env f) g s))" using admits.later by simp
qed

lemma admits_failed: "keeps (replays_admitted env) (replay_failed env recover legacy st e)"
  unfolding replay_failed_def require_converged_def end_replay_def terminalizeNetworkSessionReplay_def
    deriveNetworkSessionTerminalCleanupWitness_def finalizeNetworkSessionReplayEvidenceAfterTeardown_def
  by (intro admit_rules)

lemma admits_replay: "keeps (replays_admitted env) (replay env recover legacy epoch)"
proof -
  have connect: "keeps (replays_admitted env) (inner_connect env request)" if "admitted env request" for request
    unfolding inner_connect_def by (rule admits_outside) (use that in simp)
  show ?thesis
    unfolding replay_def
  proof (rule admits_known, goal_cases)
    case (1 n d d' x)
    obtain attempted e where x: "x = (attempted, e)" by fastforce
    show ?case
    proof (cases "\<exists>st. attempted = Some st \<and> e = None \<and> ns_intent st = IntentResume")
      case True
      then obtain st where st: "attempted = Some st" "e = None" "ns_intent st = IntentResume" by blast
      with 1 x have "admitted env (ns_request st)" by (auto simp: admitted_def)
      from connect [OF this] st show ?thesis by (simp add: x) (intro admit_rules admits_failed)
    next
      case False
      then show ?thesis by (auto simp: x intro!: admit_rules split: option.splits)
    qed
  qed
qed

lemma admits_resume: "keeps (replays_admitted env) (resumeNetworkSession env)"
proof -
  note unfolded = require_converged_def end_replay_def terminalizeNetworkSessionReplay_def
    deriveNetworkSessionTerminalCleanupWitness_def finalizeNetworkSessionReplayEvidenceAfterTeardown_def
  have "keeps (replays_admitted env) (resume_with env legacy st)" for legacy st
    unfolding resume_with_def resume_intent_def teardown_intent_def Let_def unfolded
    by (cases "ns_intent st") (simp_all, (intro admit_rules admits_replay)+)
  then show ?thesis
    unfolding resumeNetworkSession_def no_session_def unfolded by (intro admit_rules)
qed

section \<open>Records of transactions\<close>

lemma load_after_delete: "t \<noteq> txid \<Longrightarrow> Load store (delete_tx t d) txid = Load store d txid"
  by (cases d) (simp_all add: Load_def LoadTransactionFile_def delete_tx_def dir_entries_def delete_conv' tx_file_name_inj)

definition record_stays :: "TransactionStore \<Rightarrow> string \<Rightarrow> Transaction \<times> string \<Rightarrow> 'w life \<Rightarrow> 'w life \<Rightarrow> bool" where
  "record_stays store txid x s s' \<longleftrightarrow>
     (Load store (sh_txs (li_shared s)) txid = Inr x \<longrightarrow> Load store (sh_txs (li_shared s')) txid = Inr x)"

interpretation records: history "record_stays store txid x" for store txid x
  by unfold_locales (auto simp: record_stays_def)

lemma atom_records:
  assumes "life_atom env s s'" and "tx_state tx = TransactionRolledBack \<Longrightarrow> RequiresRecovery tx"
    and "\<And>h h'. outer env h h' \<Longrightarrow> Load (le_store env) (sh_txs h') txid = Load (le_store env) (sh_txs h) txid"
  shows "record_stays (le_store env) txid (tx, path) s s'"
  using assms(1)
proof cases
  case (disposed t)
  show ?thesis
  proof (cases "t = txid")
    case True
    with disposed(2) assms(2) show ?thesis by (auto simp: record_stays_def retired_def)
  next
    case False
    with disposed(1) show ?thesis by (simp add: record_stays_def load_after_delete)
  qed
next
  case (called h t)
  with assms(3) show ?thesis by (simp add: record_stays_def)
next
  case unlocked
  with assms(3) [OF outer.intros(11)] show ?thesis by (simp add: record_stays_def)
qed (simp_all add: record_stays_def tick_def)

section \<open>A stop while a request is in flight\<close>

text \<open>The daemon is stopped, and the file holds the record \<open>st\<close> of this boot.\<close>

definition stopped_with :: "string \<Rightarrow> networkSessionState \<Rightarrow> 'w shared \<Rightarrow> bool" where
  "stopped_with b st h \<longleftrightarrow> sh_stop h \<and> disk_ok (sh_session h) \<and> held (sh_session h) = Some st \<and> ns_boot_id st = b"

definition stays :: "string \<Rightarrow> networkSessionState \<Rightarrow> 'w life \<Rightarrow> 'w life \<Rightarrow> bool" where
  "stays b st s s' \<longleftrightarrow>
     (stopped_with b st (li_shared s) \<longrightarrow> stopped_with b st (li_shared s') \<and> li_trace s' = li_trace s)"

interpretation stopped: history "stays b st" for b st
  by unfold_locales (auto simp: stays_def)

lemma stays_calls:
  "keeps (stays b st) (here f)" "keeps (stays b st) (on_diag env g)" "keeps (stays b st) (on_reason env k)"
  "keeps (stays b st) (cancelled env)"
  by (auto simp: keeps_def stays_def stopped_with_def here_def on_diag_def on_reason_def cancelled_def tick_def split: prod.splits)

lemma stays_load:
  fixes env :: "'w life_env"
  assumes "calls_in_boot b env"
  shows "keeps (stays b st) (load_session env)"
proof (rule keepsI)
  fix s :: "'w life"
  let ?c = "le_call env (li_tick s)"
  obtain d r where l: "loadLocked (lc_load ?c) (sh_session (li_shared s)) = (d, r)" by fastforce
  have b: "env_in b (lc_load ?c)" using assms by (simp add: calls_in_boot_def Let_def)
  have "stopped_with b st (li_shared s) \<Longrightarrow> sk_main d = sk_main (sh_session (li_shared s))"
    using load_kept [OF _ l b] by (auto simp: stopped_with_def)
  then show "stays b st s (fst (load_session env s))"
    using main_cong [of d "sh_session (li_shared s)"]
    by (auto simp: stays_def stopped_with_def load_session_def on_session_def l tick_def)
qed

lemma stays_unlock:
  assumes "\<And>n h. stopped_with b st h \<Longrightarrow> stopped_with b st (le_between env n h)"
  shows "keeps (stays b st) (unlock env)"
  by (auto simp: keeps_def stays_def unlock_def tick_def assms)

lemma restore_when_stopped:
  assumes "sh_stop (li_shared s)"
  shows "restorePreviousContinuation env previous s = bindp (unlock env) (\<lambda>u. ret None) s"
    and "restorePreviousDataPlane env request s = bindp (unlock env) (\<lambda>u. ret None) s"
  using assms by (simp_all add: restorePreviousContinuation_def restorePreviousDataPlane_def bindp_def here_def ret_def unlock_def)

lemma stays_only_unlocked:
  assumes "\<And>n h. stopped_with b st h \<Longrightarrow> stopped_with b st (le_between env n h)"
    and "\<And>s. sh_stop (li_shared s) \<Longrightarrow> m s = bindp (unlock env) (\<lambda>u. ret x) s"
  shows "keeps (stays b st) m"
proof (rule keepsI)
  fix s
  show "stays b st s (fst (m s))"
    using assms by (auto simp: stays_def stopped_with_def bindp_def ret_def unlock_def tick_def)
qed

lemmas stays_restore = stays_only_unlocked [OF _ restore_when_stopped(1)] stays_only_unlocked [OF _ restore_when_stopped(2)]

lemma stays_failed_connect:
  assumes "calls_in_boot b env" and "\<And>n h. stopped_with b st h \<Longrightarrow> stopped_with b st (le_between env n h)"
  shows "keeps (stays b st) (after_failed_connect env request previous replacing response e)"
proof -
  note rules = stopped.keeps_rules keeps_cases stays_calls stays_load [OF assms(1)]
  have gate: "keeps (stays b st) (replacement_gate env prev response e)" for prev
    unfolding replacement_gate_def by (simp add: Let_def split_beta) (intro conjI impI rules)
  have reason: "keeps (stays b st) (publishTerminalConnectReason env request e x)" for x
    unfolding publishTerminalConnectReason_def by (intro rules)
  show ?thesis
    unfolding after_failed_connect_def by (intro rules gate reason stays_restore [OF assms(2)])
qed

subsection \<open>A concrete resume\<close>

lemma demo_resume:
  "\<exists>s'. resumeNetworkSession demo_life (demo_start demo_session) = (s', Inr True) \<and>
     li_trace s' = [CalledReconcile True, CalledExactRecovery True, CalledGenericRecovery True, CalledConnect demo_request]"
proof -
  let ?st = "demo_session\<lparr>ns_epoch := 8\<rparr>"
  have v: "validateNetworkSessionState ?st = None"
    using demo_variant_valid [of IntentResume 8] by (simp add: demo_session_def)
  have load: "loadLocked Session_State_Facts.demo_env (disk_of demo_session) = (disk_of demo_session, Inr (Some demo_session))"
    by (rule demo_session_load [OF demo_resumable_valid]) simp
  have attempt: "BeginRecoveryAttempt Session_State_Facts.demo_env Session_State_Facts.demo_env (disk_of demo_session) = (disk_of ?st, Some ?st, None)"
    using demo_session_save [OF v] by (simp add: BeginRecoveryAttempt_def load Let_def)
  have converged: "networkSessionRecoveryConverged converged" by (simp add: networkSessionRecoveryConverged_def converged_def)
  show ?thesis
    by (simp add: resumeNetworkSession_def resume_with_def resume_intent_def replay_def require_converged_def
        call_exact_def call_generic_def inner_connect_def currentNetworkSessionReplayAttempt_def load_diagnostic_def
        remove_diagnostic_def RemoveDiagnostic_def remove_kept_def LoadDiagnostic_def load_session_def on_session_def
        on_diag_def outside_def bindp_def ret_def tick_def Let_def demo_life_def demo_call_def demo_start_def load attempt converged)
qed

section \<open>Properties\<close>

text \<open>C9: A resume refines its specification: the calls it makes follow the stages, it reports success only right after a
  replay, and it reports that nothing was to be resumed only after a clean sweep without a session or after a
  successful teardown.\<close>

theorem resume_follows_stages:
  assumes "resumeNetworkSession env s = (s', r)"
  shows "\<exists>calls a. li_trace s' = li_trace s @ calls \<and> stages Begun calls = Some a \<and>
     (r = Inr True \<longrightarrow> a = Replayed) \<and> (r = Inr False \<longrightarrow> a \<in> {Swept, TornDown})"
  using goesD [OF ends_resume assms] by (auto simp: resume_ends_def)

theorem resume_follows_stages_witness:
  "\<exists>s' calls. resumeNetworkSession demo_life (demo_start demo_session) = (s', Inr True) \<and>
     li_trace s' = li_trace (demo_start demo_session) @ calls \<and> stages Begun calls = Some Replayed"
proof -
  obtain s' where s': "resumeNetworkSession demo_life (demo_start demo_session) = (s', Inr True)" using demo_resume by blast
  from resume_follows_stages [OF s'] s' show ?thesis by auto
qed



text \<open>C37: A stop ends a request in flight: when a connect comes back with an error after the daemon was stopped, the
  request fails, the session record stays exactly as the stop left it, and nothing is started again.\<close>

theorem stop_ends_request_in_flight:
  assumes "calls_in_boot b env" and "\<And>n h. stopped_with b st h \<Longrightarrow> stopped_with b st (le_between env n h)"
    and "stopped_with b st (li_shared s)"
    and "after_failed_connect env request previous replacing response e s = (s', r)"
  shows "held (sh_session (li_shared s')) = Some st \<and> li_trace s' = li_trace s \<and> (\<exists>answer error. r = Inl (answer, error))"
proof -
  from keepsD [OF stays_failed_connect [OF assms(1,2)] assms(4)] assms(3)
  have "stopped_with b st (li_shared s')" "li_trace s' = li_trace s" by (simp_all add: stays_def)
  moreover have "\<exists>answer error. r = Inl (answer, error)"
    using assms(4)
    by (auto simp: after_failed_connect_def elim!: bindp_cases split: option.splits)
  ultimately show ?thesis by (simp add: stopped_with_def)
qed

theorem stop_ends_request_in_flight_witness:
  "\<exists>s s' r. stopped_with ''boot1'' demo_state (li_shared s) \<and>
     after_failed_connect demo_life demo_request (Some demo_request) True no_response ConnectionAlreadyActive s = (s', r) \<and>
     held (sh_session (li_shared s')) = Some demo_state \<and> li_trace s' = li_trace s"
proof -
  define s where "s = (demo_start demo_state)\<lparr>li_shared := (li_shared (demo_start demo_state))\<lparr>sh_stop := True\<rparr>\<rparr>"
  obtain s' r where run: "after_failed_connect demo_life demo_request (Some demo_request) True no_response
      ConnectionAlreadyActive s = (s', r)" by fastforce
  have w: "written demo_state (disk_of demo_state)" by (rule written_disk_of [OF demo_state_valid])
  have st: "stopped_with ''boot1'' demo_state (li_shared s)"
    using written_ok [OF w] written_held [OF w] by (simp add: stopped_with_def s_def demo_state_def)
  have boot: "calls_in_boot ''boot1'' demo_life" using demo_rely by (simp add: rely_def)
  have "held (sh_session (li_shared s')) = Some demo_state \<and> li_trace s' = li_trace s \<and> (\<exists>answer error. r = Inl (answer, error))"
    by (rule stop_ends_request_in_flight [OF boot _ st run]) (simp add: demo_life_def)
  with st run show ?thesis by blast
qed

text \<open>C16: The lifecycle never throws away the record of an unfinished transaction: over any sequence of requests, restarts and
  failures, a record that no other component touches, and that is not both rolled back and in no need of recovery, can
  be loaded unchanged.\<close>

theorem requests_keep_unfinished_record:
  assumes "(lifecycle_step env)\<^sup>*\<^sup>* s s'"
    and "\<And>h h'. outer env h h' \<Longrightarrow> Load (le_store env) (sh_txs h') txid = Load (le_store env) (sh_txs h) txid"
    and "Load (le_store env) (sh_txs (li_shared s)) txid = Inr (tx, path)"
    and "tx_state tx = TransactionRolledBack \<Longrightarrow> RequiresRecovery tx"
  shows "Load (le_store env) (sh_txs (li_shared s')) txid = Inr (tx, path)"
proof -
  have "record_stays (le_store env) txid (tx, path) s s'"
  proof (rule over_requests [OF records.history_axioms _ _ assms(1)])
    show "record_stays (le_store env) txid (tx, path) s s'" if "life_atom env s s'" for s s'
      by (rule atom_records [OF that assms(4,2)])
    show "record_stays (le_store env) txid (tx, path) s s'" if "same_files s s'" for s s'
      using that by (simp add: record_stays_def same_files_def)
  qed
  with assms(3) show ?thesis by (simp add: record_stays_def)
qed

theorem requests_keep_unfinished_record_witness:
  "\<exists>s s' r. sh_txs (li_shared s) = Some [(''t1.json'', TxFile (TxDoc demo_tx))] \<and> Disconnect demo_life s = (s', r) \<and>
     Load demo_store (sh_txs (li_shared s')) ''t1'' = Inr (demo_tx, ''/run/podlaz/transactions/t1.json'')"
proof -
  define s where "s = (demo_start demo_session)\<lparr>li_shared := (li_shared (demo_start demo_session))
    \<lparr>sh_txs := Some [(''t1.json'', TxFile (TxDoc demo_tx))]\<rparr>\<rparr>"
  obtain s' r where d: "Disconnect demo_life s = (s', r)" by fastforce
  then have run: "(lifecycle_step demo_life)\<^sup>*\<^sup>* s s'" by (blast intro: disconnect)
  have store: "le_store demo_life = demo_store" by (simp add: demo_life_def demo_store_def)
  have load: "Load (le_store demo_life) (sh_txs (li_shared s)) ''t1'' = Inr (demo_tx, ''/run/podlaz/transactions/t1.json'')"
    by (simp add: store Load_def demo_path LoadTransactionFile_def dir_entries_def tx_file_name_def TransactionFileSuffix_def
        s_def Transaction_Facts.demo_valid)
  have "Load (le_store demo_life) (sh_txs (li_shared s')) ''t1'' = Inr (demo_tx, ''/run/podlaz/transactions/t1.json'')"
    by (rule requests_keep_unfinished_record [OF run _ load])
      (auto simp: demo_life_def demo_tx_def NewTransaction_def elim!: outer.cases)
  with d show ?thesis unfolding store by (intro exI [of _ s] exI [of _ s'] exI [of _ r]) (simp add: s_def)
qed

text \<open>C38: The terminal transition is exact: it is reported only when the record on disk was the protected session of the
  attempt, still to be resumed, at the epoch of the attempt and of a proven witness, with the candidate known to be gone; then
  exactly the intent has changed on disk.  When it is reported as superseded a record of this boot is as it was.\<close>

theorem terminal_transition_exact:
  assumes "disk_ok d" and "env_in b el" and "TransitionReplayToTerminal el ev attempt w d = (d', Inr outcome)"
  shows "(outcome \<longrightarrow>
      (\<exists>st p. held d = Some st \<and> ns_intent st = IntentResume \<and> ns_protection st = Some p \<and>
         ns_session_id st = rat_session_id attempt \<and> ns_epoch st = rat_recovery_epoch attempt \<and>
         tcw_proven w \<and> tcw_session_id w = ns_session_id st \<and> tcw_recovery_epoch w = ns_epoch st \<and>
         networkSessionTerminalAttemptCleanupSafe attempt \<and> held d' = Some (st\<lparr>ns_intent := IntentTerminal\<rparr>))) \<and>
     (\<not> outcome \<longrightarrow> (\<forall>st. held d = Some st \<and> ns_boot_id st = b \<longrightarrow> held d' = Some st))"
proof (cases "\<not> networkSessionTerminalAttemptCleanupSafe attempt \<or> \<not> tcw_proven w \<or> tcw_session_id w \<noteq> rat_session_id attempt \<or>
    tcw_recovery_epoch w \<noteq> rat_recovery_epoch attempt")
  case True
  with assms(3) show ?thesis by (auto simp: TransitionReplayToTerminal_def split: if_splits)
next
  case False
  obtain d1 q where l: "loadLocked el d = (d1, q)" by fastforce
  have kept: "\<forall>st. held d = Some st \<and> ns_boot_id st = b \<longrightarrow> held d1 = Some st"
    using load_kept [OF assms(1) l assms(2)] main_cong [of d1 d] by (metis option.inject)
  show ?thesis
  proof (cases "\<exists>st. q = Inr (Some st) \<and> ns_intent st = IntentResume \<and> ns_protection st \<noteq> None \<and>
      ns_session_id st = rat_session_id attempt \<and> ns_epoch st = rat_recovery_epoch attempt")
    case True
    then obtain st where st: "q = Inr (Some st)" "ns_intent st = IntentResume" "ns_protection st \<noteq> None"
      "ns_session_id st = rat_session_id attempt" "ns_epoch st = rat_recovery_epoch attempt" by blast
    with False assms(3) l have s: "save ev (st\<lparr>ns_intent := IntentTerminal\<rparr>) d1 = (d', None)" "outcome"
      by (auto simp: TransitionReplayToTerminal_def split: prod.splits option.splits)
    have "held d = Some st" using load_Some [OF assms(1) l [unfolded st(1)] assms(2)] by blast
    with st False s written_held [OF save_None [OF s(1)]] show ?thesis by auto
  next
    case none: False
    with False assms(3) l have "d' = d1" "\<not> outcome"
      by (auto simp: TransitionReplayToTerminal_def split: prod.splits option.splits sum.splits if_splits)
    with kept show ?thesis by blast
  qed
qed

theorem terminal_transition_exact_witness:
  "\<exists>attempt w d'. TransitionReplayToTerminal Session_State_Facts.demo_env Session_State_Facts.demo_env attempt w
       (disk_of demo_session) = (d', Inr True) \<and>
     held d' = Some (demo_session\<lparr>ns_intent := IntentTerminal\<rparr>)"
proof -
  let ?st = "demo_session\<lparr>ns_intent := IntentTerminal\<rparr>"
  let ?a = "\<lparr>rat_session_id = ns_session_id demo_session, rat_recovery_epoch = 7, rat_replay_disposition = DispositionTerminal,
    rat_resume_stage = StageConnectReplay, rat_tun_failure_phase = [], rat_network_apply_subphase = [],
    rat_network_apply_failure_cause = [], rat_dns_failure_cause = [], rat_rollback_status = ''not-started'',
    rat_transaction_present = False, rat_transaction_id = [], rat_legacy_migration = False,
    rat_candidate_mutation = MutationNotOpened\<rparr>"
  let ?w = "\<lparr>tcw_session_id = ns_session_id demo_session, tcw_recovery_epoch = 7, tcw_proven = True\<rparr>"
  have v: "validateNetworkSessionState ?st = None"
    using demo_variant_valid [of IntentTerminal 7] by (simp add: demo_session_def demo_state_def)
  have load: "loadLocked Session_State_Facts.demo_env (disk_of demo_session) = (disk_of demo_session, Inr (Some demo_session))"
    by (rule demo_session_load [OF demo_resumable_valid]) simp
  have t: "TransitionReplayToTerminal Session_State_Facts.demo_env Session_State_Facts.demo_env ?a ?w (disk_of demo_session) =
      (disk_of ?st, Inr True)"
    by (simp add: TransitionReplayToTerminal_def networkSessionTerminalAttemptCleanupSafe_def load demo_session_save [OF v])
  from terminal_transition_exact [OF written_ok [OF demo_session_written] demo_env_in t]
    written_held [OF demo_session_written] have "held (disk_of ?st) = Some ?st" by auto
  with t show ?thesis by blast
qed

end
