(* ===== verification/Recovery_Safety.thy ===== *)
theory Recovery_Safety
  imports Recovery_Facts Recovery_Consistency Tun_Executor_Facts Transaction_Facts
begin

text \<open>
  The properties of a recovery: it stays within Podlaz's authority, a record that contradicts itself authorises
  nothing, and the record of a transaction is the last thing to go.
\<close>

section \<open>The whole recovery\<close>

lemma query_scan: "acts_only (undo dir) (OSScanner_Scan host rawDir)"
  unfolding OSScanner_Scan_def scanManagedInterface_def scanManagedResolvedLink_def scanManagedNFTTable_def
    scanCommandCandidate_def scanTransactionState_def scanGeneratedRuntimeConfigs_def Let_def
  by (auto intro!: only undo.query split: sum.splits prod.splits resolvedLinkObservation.splits)

lemma returns_scan: "returns (OSScanner_Scan host rawDir)"
  unfolding OSScanner_Scan_def scanManagedInterface_def scanManagedResolvedLink_def scanManagedNFTTable_def
    scanCommandCandidate_def scanTransactionState_def scanGeneratedRuntimeConfigs_def Let_def
  by (auto intro!: total split: sum.splits prod.splits resolvedLinkObservation.splits)

lemma closing_permitted: "closing dir c tr rs \<Longrightarrow> list_all (permitted dir) tr"
  unfolding closing_def permitted_def removable_def by (auto simp: list_all_iff)

lemma closes_permitted:
  assumes "closes dir c m" and "returns m"
  shows "acts_only (permitted dir) m"
  unfolding acts_only_def
proof (rule actsI)
  fix s s' r
  assume run: "m s = (s', r)"
  with returnsD [OF assms(2), of s] obtain rs where "r = Inr rs" by auto
  with actsD [OF assms(1) [unfolded closes_def] run]
  show "\<exists>tr. hs_trace s' = hs_trace s @ tr \<and> list_all (permitted dir) tr"
    by (blast intro: closing_permitted)
qed

lemma undo_permitted: "acts_only (undo dir) m \<Longrightarrow> acts_only (permitted dir) m"
  unfolding acts_only_def by (erule acts_mono) (auto simp: permitted_def list_all_iff)

text \<open>C1: Whatever the transaction files of the runtime directory claim and however the host answers, a recovery
  returns, and every action it takes, from the scan to the last cleanup, is a query or the removal of a resource
  Podlaz could have created: the managed link, a session address, rules and routes in Podlaz's tables or of one
  server address, the firewall table \<^verbatim>\<open>inet podlaz\<close>, generated configurations and transaction files.\<close>

theorem recovery_stays_within_authority:
  assumes "absolute_or_default rawDir"
  shows "case ExecuteWithOptions host rawDir (MultiExecutor (NetworkSessionCleanupMany host rawDir)) s of (s', r) \<Rightarrow>
    \<exists>res tr. r = Inr res \<and> hs_trace s' = hs_trace s @ tr \<and> list_all (permitted (runtime_dir rawDir)) tr"
proof -
  let ?ex = "ExecuteWithOptions host rawDir (MultiExecutor (NetworkSessionCleanupMany host rawDir))"
  have "acts_only (permitted (runtime_dir rawDir)) (NetworkSessionCleanupMany host rawDir c)" for c
    by (rule closes_permitted [OF closes_session [OF assms] returns_session])
  then have only: "acts_only (permitted (runtime_dir rawDir)) ?ex"
    unfolding ExecuteWithOptions_def by (intro only only_each_result undo_permitted [OF query_scan]) simp
  have "returns ?ex"
    unfolding ExecuteWithOptions_def by (intro total returns_each_result returns_scan) (simp add: total)
  then obtain s' res where run: "?ex s = (s', Inr res)" by (blast dest: returnsD)
  from only_trace [OF only run] obtain tr
    where "hs_trace s' = hs_trace s @ tr" "list_all (permitted (runtime_dir rawDir)) tr" .
  with run show ?thesis by simp
qed

section \<open>A record that contradicts itself\<close>

lemma acts_bind_if:
  assumes "acts P m" and "\<And>tr x. P tr (Inr x) \<Longrightarrow> acts (\<lambda>tr' r. R (tr @ tr') r) (f x)"
    and "\<And>tr e. P tr (Inl e) \<Longrightarrow> R tr (Inl e)"
  shows "acts R (bindp m f)"
proof (rule actsI)
  fix s s' r
  assume "bindp m f s = (s', r)"
  then show "\<exists>tr. hs_trace s' = hs_trace s @ tr \<and> R tr r"
  proof (cases rule: bindp_cases)
    case (1 e)
    then show ?thesis using actsD [OF assms(1)] assms(3) by blast
  next
    case (2 s1 x)
    then obtain tr where "hs_trace s1 = hs_trace s @ tr" "P tr (Inr x)" using actsD [OF assms(1)] by blast
    then show ?thesis using actsD [OF assms(2) 2(2)] by fastforce
  qed
qed

text \<open>The process entry that stands for the contradiction is skipped, and with it everything that depends on the
  processes being gone.\<close>

lemma child_process_quiet: "acts (\<lambda>tr r. tr = [] \<and> (\<exists>x. r = Inr x)) (child_process_result host p)"
  unfolding child_process_result_def Let_def
  by (rule actsI) (auto simp: bindp_def host_read_def split: prod.splits if_splits)

lemma contradiction_skipped:
  assumes "cr_pid p = 0" and "cr_owner p = TransactionOwner"
  shows "acts (\<lambda>tr r. tr = [] \<and> (\<exists>rs. r = Inr rs \<and> hasSkippedCleanup rs)) (rollbackChildProcessResults host (ps @ [p]))"
proof (induction ps)
  case Nil
  show ?case
    by (rule actsI) (auto simp: rollbackChildProcessResults_def one_result_def child_process_result_def assms bindp_ret
        hasSkippedCleanup_def skipped_def)
next
  case (Cons q ps)
  let ?Q = "\<lambda>tr (r :: string + CleanupResult list). tr = [] \<and> (\<exists>rs. r = Inr rs \<and> hasSkippedCleanup rs)"
  have one: "acts (\<lambda>tr (r :: string + CleanupResult list). tr = [] \<and> (\<exists>rs. r = Inr rs)) (one_result (child_process_result host q))"
    unfolding one_result_def by (rule acts_bind_if [OF child_process_quiet]) (auto intro: acts_ret)
  have "acts ?Q (bindp (rollbackChildProcessResults host (ps @ [p])) (\<lambda>rs. ret (r @ rs)))" for r
    by (rule acts_bind_if [OF Cons.IH]) (auto intro!: acts_ret simp: hasSkippedCleanup_def)
  then have "acts ?Q (bindp (one_result (child_process_result host q))
      (\<lambda>r. bindp (rollbackChildProcessResults host (ps @ [p])) (\<lambda>rs. ret (r @ rs))))"
    by (intro acts_bind_if [OF one]) auto
  then show ?case by (simp add: rollbackChildProcessResults_def)
qed


definition only_looks :: "('w, CleanupResult list) rec_act \<Rightarrow> bool" where
  "only_looks m = acts (\<lambda>tr r. list_all query tr \<and> (\<exists>rs. r = Inr rs \<and> rs \<noteq> [] \<and> cl_status (last rs) \<noteq> Recovered)) m"

lemma only_looks_finish:
  assumes "hasSkippedCleanup ps"
  shows "only_looks (finish_transaction host dir tx rb gaps t path shown c ps ps)"
proof -
  let ?rest = "run_all [ret (gap_results gaps t), config_results host dir rb gaps ps,
    inspectUnrecordedDesiredMainState host tx]"
  have "acts_only query ?rest"
    by (intro only_run_all) (auto simp: config_results_def assms intro: only only_unrecorded)
  moreover have "returns ?rest"
    by (intro returns_run_all) (auto simp: config_results_def assms intro: total)
  ultimately have rest: "acts (\<lambda>tr (r :: string + CleanupResult list). list_all query tr \<and> (\<exists>x. r = Inr x)) ?rest"
    unfolding acts_only_def acts_def returns_def by (metis Pair_inject)
  have "hasSkippedCleanup (ps @ x)" for x using assms by (simp add: hasSkippedCleanup_def)
  then have "remove_transaction host path shown c (ps @ x) =
      ret (ps @ x @ [if hasFailedCleanup (ps @ x)
        then failed c ''transaction cleanup completed with failures; transaction state was preserved''
        else skipped c ''transaction cleanup skipped ambiguous resources; transaction state was preserved''])" for x
    by (simp add: remove_transaction_def)
  then show ?thesis
    unfolding only_looks_def finish_transaction_def
    by (intro acts_bind_if [OF rest]) (auto intro!: acts_ret simp: result_defs)
qed

lemma ambiguous_rollback_empty:
  fixes rb :: RollbackMetadata and reasons :: "string list"
  defines "m \<equiv> mutationFreeAmbiguousRollback rb reasons"
  shows "rb_tun m = []" "rb_tun_addresses m = []" "rb_routes m = []" "rb_policy_rules m = []" "rb_dns m = []"
    "rb_nftables m = []" "\<not> rollbackRequiresLinkIdentity m"
  by (simp_all add: m_def mutationFreeAmbiguousRollback_def zero_rollback_def rollbackRequiresLinkIdentity_def)

lemma only_looks_children:
  assumes "\<And>ps. hasSkippedCleanup ps \<Longrightarrow> only_looks (f ps)"
  shows "only_looks (bindp (rollbackChildProcessResults host
    (rb_child_processes (mutationFreeAmbiguousRollback rb reasons))) f)"
proof -
  let ?p = "\<lparr>cr_pid = 0, cr_pid_file = [],
    cr_label = ''ownership-consistency: '' @ join ''; '' (compactReasonStrings reasons),
    cr_config_ref = [], cr_start_time = [], cr_owner = TransactionOwner\<rparr>"
  have "rb_child_processes (mutationFreeAmbiguousRollback rb reasons) = rb_child_processes rb @ [?p]"
    by (simp add: mutationFreeAmbiguousRollback_def)
  moreover have "acts (\<lambda>tr r. tr = [] \<and> (\<exists>rs. r = Inr rs \<and> hasSkippedCleanup rs))
      (rollbackChildProcessResults host (rb_child_processes rb @ [?p]))"
    by (rule contradiction_skipped) simp_all
  ultimately show ?thesis
    using assms unfolding only_looks_def by (auto intro!: acts_bind_if)
qed

lemma empty_phases [simp]:
  "rollbackNFTablesResults host tx [] = ret []" "rollbackDNSResults host [] = ret []"
  "rollbackPolicyRuleResults host [] = ret []" "rollbackRouteResults host [] = ret []"
  "rollbackTUNAddressResults host [] b = ret []" "rollbackTUNResults host [] = ret []"
  "rollbackNetworkSessionPolicyRules host [] al = ret []" "rollbackNetworkSessionRoutes host [] al = ret []"
  by (simp_all add: rollbackNFTablesResults_def rollbackDNSResults_def rollbackPolicyRuleResults_def
      rollbackRouteResults_def rollbackTUNAddressResults_def rollbackTUNResults_def
      rollbackNetworkSessionPolicyRules_def rollbackNetworkSessionRoutes_def)

lemma only_looks_rollback_transaction:
  assumes "rollbackOwnershipConsistencyReasons (ho_quote host) tx (tx_rollback tx) \<noteq> []"
  shows "only_looks (rollback_transaction host dir c path tx)"
proof -
  have rb: "recoveryRollbackMetadata (ho_quote host) tx = mutationFreeAmbiguousRollback (tx_rollback tx)
      (rollbackOwnershipConsistencyReasons (ho_quote host) tx (tx_rollback tx))"
    using assms by (simp add: recoveryRollbackMetadata_def projectRollbackMetadataWithoutApplyingGaps_def Let_def)
  show ?thesis
    unfolding rollback_transaction_def Let_def rb
    by (rule only_looks_children)
      (simp add: rollbackLinkIdentityGate_def link_gate_def ambiguous_rollback_empty bindp_ret only_looks_finish)
qed

lemma only_looks_session_transaction:
  assumes "rollbackOwnershipConsistencyReasons (ho_quote host) tx (tx_rollback tx) \<noteq> []"
  shows "only_looks (cleanupAllocatedNetworkSessionTransaction host dir c shown tx al)"
proof -
  have rb: "networkSessionRecoveryRollbackMetadata (ho_quote host) tx al = mutationFreeAmbiguousRollback (tx_rollback tx)
      (rollbackOwnershipConsistencyReasons (ho_quote host) tx (tx_rollback tx))"
    using assms by (simp add: networkSessionRecoveryRollbackMetadata_def Let_def)
  show ?thesis
    unfolding cleanupAllocatedNetworkSessionTransaction_def Let_def rb
    by (rule only_looks_children)
      (simp add: networkSessionRollbackLinkIdentityGate_def link_gate_def ambiguous_rollback_empty bindp_ret only_looks_finish
        session_phases_def cleanupPhaseBlocked_def hasFailedCleanup_def hasSkippedCleanup_def)
qed


definition loaded_transaction :: "'w host \<Rightarrow> 'w \<Rightarrow> Candidate \<Rightarrow> Transaction option" where
  "loaded_transaction host w c =
     (case ca_transaction c of
        None \<Rightarrow> None
      | Some t \<Rightarrow>
          (case LoadTransactionFile (snd (ho_directory host (path_dir (path_clean (tc_path t))) w))
              (path_base (path_clean (tc_path t))) of Inl e \<Rightarrow> None | Inr tx \<Rightarrow> Some tx))"

lemma load_loaded:
  assumes "loaded_transaction host (hs_world s) c = Some tx" and "ca_transaction c = Some t"
  shows "bindp (load_transaction host (path_clean (tc_path t))) f s = f (Inr tx) s"
  using assms
  by (auto simp: loaded_transaction_def load_transaction_def host_peek_def bindp_def ret_def split: sum.splits)

lemma only_looksD:
  assumes "only_looks m"
  shows "case m s of (s', r) \<Rightarrow> \<exists>rs tr. r = Inr rs \<and> hs_trace s' = hs_trace s @ tr \<and> list_all query tr \<and>
    cl_status (last rs) \<noteq> Recovered"
  using actsD [OF assms [unfolded only_looks_def], of s] by (auto split: prod.splits)

text \<open>C19: When the applied steps, the rollback entries and the plan of a persisted transaction do not agree,
  recovery of that transaction only looks: every action is a query, nothing is removed (the transaction file and
  generated configurations included), and the verdict on the candidate is not a success.\<close>

theorem inconsistent_record_only_queried:
  assumes "ca_kind c = ''transaction-state''"
    and "loaded_transaction host (hs_world s) c = Some tx" and "RequiresRecovery tx"
    and "rollbackOwnershipConsistencyReasons (ho_quote host) tx (tx_rollback tx) \<noteq> []"
  shows "case NetworkSessionCleanupMany host rawDir c s of (s', r) \<Rightarrow>
    \<exists>rs tr. r = Inr rs \<and> hs_trace s' = hs_trace s @ tr \<and> list_all query tr \<and> cl_status (last rs) \<noteq> Recovered"
proof -
  from assms(2) obtain t where t: "ca_transaction c = Some t" by (auto simp: loaded_transaction_def split: option.splits)
  let ?dir = "runtime_dir rawDir"
  let ?Q = "\<lambda>(x :: 'a host_state \<times> (string + CleanupResult list)). case x of (s', r) \<Rightarrow>
    \<exists>rs tr. r = Inr rs \<and> hs_trace s' = hs_trace s @ tr \<and> list_all query tr \<and> cl_status (last rs) \<noteq> Recovered"
  note load = load_loaded [OF assms(2) t]
  have kind: "trim_space (ca_kind c) \<noteq> []" "ca_kind c \<noteq> managedDNSCandidateKind"
    by (simp_all add: assms(1) managedDNSCandidateKind_def plain_def)
  have legacy: "?Q (DaemonCleanupMany host ?dir c s)"
  proof (cases "sameCleanPath (path_clean (tc_path t)) (ca_target c) \<and>
      isTransactionPath (runtime_dir ?dir) (path_clean (tc_path t))")
    case True
    with only_looksD [OF only_looks_rollback_transaction [OF assms(4)]] show ?thesis
      using kind assms(1,3) t
      by (simp add: DaemonCleanupMany_def cleanupTransactionState_def Let_def load)
  next
    case False
    with kind assms(1) t show ?thesis
      by (auto simp: DaemonCleanupMany_def cleanupTransactionState_def Let_def skipped_def)
  qed
  show ?thesis
    using legacy only_looksD [OF only_looks_session_transaction [OF assms(4)]] assms(1,3) t
    by (auto simp: NetworkSessionCleanupMany_def Let_def load split: option.splits)
qed


section \<open>The record goes last\<close>

lemma clean_comps_snoc:
  "c \<noteq> [] \<Longrightarrow> c \<noteq> ''.'' \<Longrightarrow> c \<noteq> ''..'' \<Longrightarrow> clean_comps r stack (cs @ [c]) = clean_comps r stack cs @ [c]"
  by (induction cs arbitrary: stack) (auto split: list.splits)

lemma split_on_snoc: "d \<notin> set v \<Longrightarrow> split_on d (w @ d # v) = split_on d w @ [v]"
  by (induction w) (auto simp: split_on_no_sep split: list.splits)

lemma join_last_word: "cs \<noteq> [] \<Longrightarrow> join sep (cs @ [w]) = join sep cs @ sep @ w"
  by (induction sep cs rule: join.induct) auto

lemma generated_root_last: "last (path_join [path_clean dir, ''generated'']) = CHR ''d''"
proof -
  let ?x = "path_clean dir @ CHR ''/'' # ''generated''"
  have "path_comps ?x = clean_comps (rooted ?x) [] (split_on CHR ''/'' (path_clean dir)) @ [''generated'']"
    unfolding path_comps_def by (subst split_on_snoc) (simp_all add: clean_comps_snoc)
  then obtain cs where cs: "path_comps ?x = cs @ [''generated'']" by blast
  have "last (join ''/'' (cs @ [''generated''])) = CHR ''d'' \<and> join ''/'' (cs @ [''generated'']) \<noteq> []"
    by (cases "cs = []") (simp_all add: join_last_word)
  then show ?thesis
    by (cases "path_clean dir = []")
      (simp_all add: path_join_def path_clean_def [of ?x] path_clean_def [of "''generated''"] path_comps_def [of "''generated''"]
        rooted_def cs)
qed

lemma undo_keeps_transactions:
  assumes "undo dir (RemovedFile p)"
  shows "\<not> suffix TransactionFileSuffix p"
proof -
  from assms have "p = path_join [path_clean dir, ''generated'']"
    by (cases rule: undo.cases) (auto elim: query.cases)
  with generated_root_last [of dir] show ?thesis
    by (auto simp: suffix_def TransactionFileSuffix_def)
qed



section \<open>A concrete recovery\<close>

text \<open>A host that holds one planned transaction with nothing applied, and one whose record names a foreign
  interface.\<close>

definition aged_tx :: "TUNRollback list \<Rightarrow> Transaction" where
  "aged_tx tuns = demo_tx\<lparr>tx_rollback := zero_rollback\<lparr>rb_tun := tuns\<rparr>\<rparr>"

definition aged_host :: "TUNRollback list \<Rightarrow> unit host" where
  "aged_host tuns = demo_host\<lparr>ho_directory := \<lambda>p w. (None, Some [(''t1.json'', TxFile (TxDoc (aged_tx tuns)))])\<rparr>"

definition aged_candidate :: Candidate where
  "aged_candidate =
     (candidate ''transaction-state'' ''transaction rollback state'' ''/run/podlaz/transactions/t1.json'')
       \<lparr>ca_transaction := Some \<lparr>tc_id = ''t1'', tc_state = ''planned'', tc_status = ''pending plan'',
          tc_rollback_available = False, tc_requires_cleanup = True, tc_path = ''/run/podlaz/transactions/t1.json''\<rparr>\<rparr>"

definition foreign_tun :: TUNRollback where
  "foreign_tun = \<lparr>tr_interface_name = ''eth0'', tr_owner = ''podlaz''\<rparr>"

lemma aged_valid: "ValidateTransaction (aged_tx []) = None" "ValidateTransaction (aged_tx [foreign_tun]) = None"
proof -
  have "\<not> containsPersistentSecret (aged_tx [])" "\<not> containsPersistentSecret (aged_tx [foreign_tun])"
    by (simp_all add: containsPersistentSecret_def json_defs demo_defs aged_tx_def foreign_tun_def json_RollbackMetadata_def
        harmless_no_secret harmless_def isSecretKey_def secretKeys_def lower_char_def)
  then show "ValidateTransaction (aged_tx []) = None" "ValidateTransaction (aged_tx [foreign_tun]) = None"
    using demo_valid by (simp_all add: ValidateTransaction_None aged_tx_def)
qed


lemma aged_paths:
  "path_clean ''/run/podlaz/transactions/t1.json'' = ''/run/podlaz/transactions/t1.json''"
  "path_dir ''/run/podlaz/transactions/t1.json'' = ''/run/podlaz/transactions''"
  "path_base ''/run/podlaz/transactions/t1.json'' = ''t1.json''"
  "runtime_dir [] = ''/run/podlaz''" "runtime_dir ''/run/podlaz'' = ''/run/podlaz''"
  "isTransactionPath ''/run/podlaz'' ''/run/podlaz/transactions/t1.json''"
  by (simp_all add: path_clean_def path_comps_def rooted_def path_dir_def path_base_def path_join_def runtime_dir_def
      isTransactionPath_def isUnderDir_def path_rel_def clean_parts_def TransactionFileSuffix_def suffix_def starts_def
      plain_def)

lemma aged_loaded: "ValidateTransaction (aged_tx tuns) = None \<Longrightarrow>
    loaded_transaction (aged_host tuns) w aged_candidate = Some (aged_tx tuns)"
  by (simp add: loaded_transaction_def aged_candidate_def candidate_def aged_host_def LoadTransactionFile_def
      dir_entries_def aged_paths)

lemma aged_fields:
  "tx_state (aged_tx tuns) = TransactionPlanned" "tx_applied_steps (aged_tx tuns) = []" "tx_desired_plan (aged_tx tuns) = zero_plan"
  "tx_rollback (aged_tx tuns) = zero_rollback\<lparr>rb_tun := tuns\<rparr>" "RequiresRecovery (aged_tx tuns)"
  by (simp_all add: aged_tx_def demo_tx_def NewTransaction_def RequiresRecovery_def RequiresCleanup_def)

lemma aged_reasons: "rollbackOwnershipConsistencyReasons q (aged_tx []) (tx_rollback (aged_tx [])) = []"
  by (simp add: rollbackOwnershipConsistencyReasons_def Let_def aged_fields zero_rollback_def rollbackNetworkStepCounter_def
      rollback_keys_def counter_of_def appliedNetworkStepCounter_def rawTransactionNetworkOwnershipReasons_def
      rawRollbackMetadataReasons_def rawAppliedNetworkStepReasons_def entry_reasons_def compactReasonStrings_def
      enumerate_simps)

lemma foreign_reasons:
  "rollbackOwnershipConsistencyReasons q (aged_tx [foreign_tun]) (tx_rollback (aged_tx [foreign_tun])) \<noteq> []"
proof -
  let ?t = "''raw TUN rollback entry '' @ itoa 0 @ '' is unsupported or incomplete''"
  have "\<not> rawTUNRollbackEntryValid foreign_tun"
    by (simp add: rawTUNRollbackEntryValid_def foreign_tun_def managedInterface_def plain_def)
  then have "?t \<in> set (entry_reasons ''TUN'' rawTUNRollbackEntryValid [foreign_tun])"
    by (simp add: entry_reasons_def)
  moreover have "trim_space ?t \<noteq> []" by (rule nonblank_text) simp
  ultimately obtain r where r: "r \<in> set (entry_reasons ''TUN'' rawTUNRollbackEntryValid [foreign_tun])" "trim_space r \<noteq> []"
    by blast
  have "rawRollbackMetadataReasons (tx_rollback (aged_tx [foreign_tun])) \<noteq> []"
    unfolding rawRollbackMetadataReasons_def compact_Nil
    using r by (intro notI) (simp add: aged_fields zero_rollback_def ball_Un)
  then have "rawTransactionNetworkOwnershipReasons q (aged_tx [foreign_tun]) \<noteq> []"
    unfolding rawTransactionNetworkOwnershipReasons_def compact_Nil
    by (metis compact_nonblank rawRollbackMetadataReasons_def last_in_set set_append UnI1)
  then show ?thesis
    unfolding rollbackOwnershipConsistencyReasons_def Let_def
    by (auto simp: compact_Nil raw_reasons_blank ball_Un)
qed

theorem inconsistent_record_only_queried_witness:
  "case NetworkSessionCleanupMany (aged_host [foreign_tun]) [] aged_candidate demo_state of (s', r) \<Rightarrow>
    \<exists>rs tr. r = Inr rs \<and> hs_trace s' = hs_trace demo_state @ tr \<and> list_all query tr \<and> cl_status (last rs) \<noteq> Recovered"
  by (rule inconsistent_record_only_queried [OF _ aged_loaded [OF aged_valid(2)] aged_fields(5) foreign_reasons])
    (simp add: aged_candidate_def candidate_def)

theorem recovery_stays_within_authority_witness:
  "case ExecuteWithOptions (aged_host []) [] (MultiExecutor (NetworkSessionCleanupMany (aged_host []) [])) demo_state of (s', r) \<Rightarrow>
    \<exists>res tr. r = Inr res \<and> hs_trace s' = hs_trace demo_state @ tr \<and> list_all (permitted ''/run/podlaz'') tr"
  using recovery_stays_within_authority [where rawDir = "[]" and host = "aged_host []" and s = demo_state]
  by (simp add: absolute_or_default_def aged_paths)

lemma aged_run:
  "NetworkSessionCleanupMany (aged_host []) [] aged_candidate demo_state =
     (add_trace (RemovedFile ''/run/podlaz/transactions/t1.json'') demo_state, Inr [recovered aged_candidate])"
proof -
  let ?p = "''/run/podlaz/transactions/t1.json''"
  have c: "ca_kind aged_candidate = ''transaction-state''" "ca_target aged_candidate = ?p"
    "\<exists>t. ca_transaction aged_candidate = Some t \<and> tc_path t = ?p"
    by (simp_all add: aged_candidate_def candidate_def)
  then obtain t where t: "ca_transaction aged_candidate = Some t" "tc_path t = ?p" by blast
  note load = load_loaded [OF aged_loaded [OF aged_valid(1)] t(1), unfolded t(2) aged_paths]
  have alloc: "exactPersistedNetworkSessionAllocation (aged_tx []) = None"
    by (simp add: exactPersistedNetworkSessionAllocation_def Let_def aged_fields zero_plan_def managedInterface_def)
  have rb: "recoveryRollbackMetadata q (aged_tx []) = zero_rollback" for q
    using aged_reasons [of q]
    by (simp add: recoveryRollbackMetadata_def projectRollbackMetadataWithoutApplyingGaps_def Let_def aged_fields zero_rollback_def)
  have unrecorded: "inspectUnrecordedDesiredMainState h (aged_tx []) = ret []" for h :: "unit host"
    by (simp add: inspectUnrecordedDesiredMainState_def unrecorded_routes_def unrecorded_rules_def aged_fields zero_plan_def
        bindp_ret map_filter_simps)
  have gaps: "applyingDesiredOwnershipGaps (aged_tx []) = []"
    by (simp add: applyingDesiredOwnershipGaps_def ownership_gaps_def Let_def aged_fields)
  have roll: "rollback_transaction (aged_host []) dir aged_candidate ?p (aged_tx []) s =
      (add_trace (RemovedFile ?p) (set_world () s), Inr [recovered aged_candidate])" for dir s
    by (simp add: rollback_transaction_def Let_def rb zero_rollback_def rollbackChildProcessResults_def bindp_ret
        rollbackLinkIdentityGate_def link_gate_def rollbackRequiresLinkIdentity_def finish_transaction_def gaps gap_results_def
        config_results_def hasFailedCleanup_def hasSkippedCleanup_def rollbackGeneratedConfigResults_def unrecorded
        remove_transaction_def result_of_def file_removal_def tryp_def host_act_def bindp_def ret_def aged_host_def demo_host_def)
  show ?thesis
    by (simp add: NetworkSessionCleanupMany_def DaemonCleanupMany_def cleanupTransactionState_def Let_def c t load aged_paths
        sameCleanPath_def aged_fields alloc managedDNSCandidateKind_def plain_def roll set_world_def)
qed


end
