(* ===== verification/Profile_Store.thy ===== *)
theory Profile_Store
  imports Profile
begin

text \<open>
  The user's profiles on disk: \<^verbatim>\<open>src/internal/profile/store.go\<close>, \<^verbatim>\<open>subscription_delete.go\<close>,
  \<^verbatim>\<open>store_mutation_lock_linux.go\<close> and the file writer \<^verbatim>\<open>src/internal/storejson/write.go\<close>.

  A file holds what \<^verbatim>\<open>encoding/json\<close> makes of its bytes; texts are valid UTF-8, which it writes unchanged.  Every
  mutation runs under one advisory lock from its load to its write, so mutations of several processes do not
  interleave.  The environment of a call says which system call fails.  Two functions of the Unicode tables,
  \<^verbatim>\<open>strings.ToLower\<close> on a name and \<^verbatim>\<open>unicode.IsDigit\<close> on a first rune outside ASCII, are parameters; nothing is
  assumed of them.
\<close>

section \<open>Writing a file\<close>

datatype Operation =
    OperationEncodeJSON | OperationCreateDirectory | OperationCreateTempFile | OperationSetTempPermissions
  | OperationWriteTempFile | OperationSyncTempFile | OperationCloseTempFile | OperationRenameTempFile
  | OperationSyncParentDirectory

text \<open>The operation that fails, if any: only the last one comes after the rename.  The deferred removal takes the temporary
  file away, and nothing reads one.\<close>

definition WriteFile :: "Operation option \<Rightarrow> 'a \<Rightarrow> 'a option \<Rightarrow> 'a option \<times> Operation option" where
  "WriteFile fault v old =
     (case fault of
        None \<Rightarrow> (Some v, None)
      | Some OperationSyncParentDirectory \<Rightarrow> (Some v, Some OperationSyncParentDirectory)
      | Some op \<Rightarrow> (old, Some op))"

section \<open>The store\<close>

record storeFile =
  sfl_schema_version :: string
  sfl_profiles :: "Profile list"
  sfl_selected :: string

datatype store_content = StoreDoc storeFile | InvalidJSON | TrailingData

type_synonym profile_disk = "store_content option"

datatype profile_error =
    NotFound string
  | AlreadyExists string
  | NoSelection
  | AmbiguousSelector nat
  | InvalidPosition string
  | ProfileChanged
  | ProfileInvalid "profile_message list"
  | NotASubscriptionProfile string
  | DuplicateInBatch string
  | CollisionWithExisting string
  | StoreLock
  | StoreRead
  | StoreJSON
  | StoreTrailing
  | StoreSchema string
  | StoredInvalid string "profile_message list"
  | StoredDuplicate string
  | StoreWrite Operation

record store_env =
  pse_lock :: bool
  pse_open :: bool
  pse_write :: "Operation option"

record profile_text =
  ptx_lower :: "string \<Rightarrow> string"
  ptx_digit :: "string \<Rightarrow> bool"

definition SortStable :: "Profile list \<Rightarrow> Profile list" where
  "SortStable ps = sort_key pr_id ps"

definition profileByID :: "Profile list \<Rightarrow> string \<Rightarrow> Profile option" where
  "profileByID ps i = find (\<lambda>p. pr_id p = i) ps"

definition clearStaleSelection :: "storeFile \<Rightarrow> storeFile \<times> bool" where
  "clearStaleSelection st =
     (if sfl_selected st = [] then (st, False)
      else if profileByID (sfl_profiles st) (sfl_selected st) \<noteq> None then (st, False)
      else (st\<lparr>sfl_selected := []\<rparr>, True))"

fun check_stored :: "string list \<Rightarrow> Profile list \<Rightarrow> profile_error option" where
  "check_stored seen [] = None"
| "check_stored seen (p # ps) =
     (if Validate p \<noteq> [] then Some (StoredInvalid (pr_id p) (Validate p))
      else if pr_id p \<in> set seen then Some (StoredDuplicate (pr_id p))
      else check_stored (pr_id p # seen) ps)"

definition loadState :: "store_env \<Rightarrow> profile_disk \<Rightarrow> profile_error + storeFile" where
  "loadState ev d =
     (if pse_open ev then Inl StoreRead
      else case d of
        None \<Rightarrow> Inr \<lparr>sfl_schema_version = ''v1'', sfl_profiles = [], sfl_selected = []\<rparr>
      | Some c \<Rightarrow>
          (case c of
            InvalidJSON \<Rightarrow> Inl StoreJSON
          | TrailingData \<Rightarrow> Inl StoreTrailing
          | StoreDoc data \<Rightarrow>
              if sfl_schema_version data \<noteq> ''v1'' then Inl (StoreSchema (sfl_schema_version data))
              else case check_stored [] (sfl_profiles data) of Some e \<Rightarrow> Inl e | None \<Rightarrow> Inr data))"

definition saveState :: "store_env \<Rightarrow> storeFile \<Rightarrow> profile_disk \<Rightarrow> profile_disk \<times> profile_error option" where
  "saveState ev st d =
     (case WriteFile (pse_write ev) (StoreDoc (st\<lparr>sfl_schema_version := ''v1''\<rparr>)) d of
        (d', r) \<Rightarrow> (d', map_option StoreWrite r))"

text \<open>\<^verbatim>\<open>lockForMutation\<close> can fail in the directory, the open or the lock itself.  Then a mutation loads, changes the state and
  possibly writes it.\<close>

definition locked ::
  "store_env \<Rightarrow> (storeFile \<Rightarrow> profile_error + (storeFile option \<times> 'a)) \<Rightarrow> profile_disk \<Rightarrow> profile_disk \<times> (profile_error + 'a)" where
  "locked ev f d =
     (if pse_lock ev then (d, Inl StoreLock)
      else case loadState ev d of
        Inl e \<Rightarrow> (d, Inl e)
      | Inr st \<Rightarrow>
          (case f st of
             Inl e \<Rightarrow> (d, Inl e)
           | Inr (None, x) \<Rightarrow> (d, Inr x)
           | Inr (Some st', x) \<Rightarrow>
               (case saveState ev st' d of (d', Some e) \<Rightarrow> (d', Inl e) | (d', None) \<Rightarrow> (d', Inr x))))"

section \<open>Selectors\<close>

definition IsPositionalSelector :: "string \<Rightarrow> bool" where
  "IsPositionalSelector selector = (let s = trim_space selector in s \<noteq> [] \<and> list_all is_digit s)"

text \<open>\<^verbatim>\<open>strings.TrimPrefix\<close> of a sign, twice.  A byte outside ASCII is never one of the accepted characters, so the loop over runes
  is one over bytes.\<close>

definition trim_prefix :: "string \<Rightarrow> string \<Rightarrow> string" where
  "trim_prefix w s = (if take (length w) s = w then drop (length w) s else s)"

definition invalidNumericForm :: "profile_text \<Rightarrow> string \<Rightarrow> bool" where
  "invalidNumericForm tx selector =
     (case selector of
        [] \<Rightarrow> False
      | c # cs \<Rightarrow>
          if 128 \<le> byte c then ptx_digit tx selector
          else if c = CHR ''+'' \<or> c = CHR ''-'' then
            (case trim_prefix ''-'' (trim_prefix ''+'' selector) of [] \<Rightarrow> False | x # xs \<Rightarrow> is_digit x)
          else if \<not> is_digit c then False
          else list_all (\<lambda>x. is_digit x \<or> x \<in> set ''.+_-xXeE'') selector)"

definition displayNameKey :: "profile_text \<Rightarrow> string \<Rightarrow> string" where
  "displayNameKey tx name = ptx_lower tx (trim_space name)"

definition resolveProfile :: "profile_text \<Rightarrow> Profile list \<Rightarrow> string \<Rightarrow> profile_error + Profile" where
  "resolveProfile tx ps selector0 =
     (let selector = trim_space selector0 in
      if selector = [] then Inl (NotFound [])
      else if take 3 selector = ''id:'' then
        (case profileByID ps (drop 3 selector) of Some p \<Rightarrow> Inr p | None \<Rightarrow> Inl (NotFound (drop 3 selector)))
      else if IsPositionalSelector selector then
        (case atoi selector of
           None \<Rightarrow> Inl (InvalidPosition selector)
         | Some position \<Rightarrow>
             if position < 1 \<or> int (length ps) < position then Inl (InvalidPosition selector)
             else Inr (SortStable ps ! nat (position - 1)))
      else if invalidNumericForm tx selector then Inl (InvalidPosition selector)
      else case profileByID ps selector of
        Some p \<Rightarrow> Inr p
      | None \<Rightarrow>
          (case filter (\<lambda>p. displayNameKey tx (pr_name p) = displayNameKey tx selector) ps of
             [] \<Rightarrow> Inl (NotFound selector)
           | [p] \<Rightarrow> Inr p
           | ms \<Rightarrow> Inl (AmbiguousSelector (length ms))))"

section \<open>Reading\<close>

definition ListWithSelectedID :: "store_env \<Rightarrow> profile_disk \<Rightarrow> profile_error + (Profile list \<times> string)" where
  "ListWithSelectedID ev d =
     (case loadState ev d of
        Inl e \<Rightarrow> Inl e
      | Inr st \<Rightarrow>
          (let ps = SortStable (sfl_profiles st) in
           Inr (ps, if profileByID ps (sfl_selected st) = None then [] else sfl_selected st)))"

definition ListProfiles :: "store_env \<Rightarrow> profile_disk \<Rightarrow> profile_error + Profile list" where
  "ListProfiles ev d = map_sum id fst (ListWithSelectedID ev d)"

definition GetProfile :: "store_env \<Rightarrow> string \<Rightarrow> profile_disk \<Rightarrow> profile_error + Profile" where
  "GetProfile ev i d =
     (case loadState ev d of
        Inl e \<Rightarrow> Inl e
      | Inr st \<Rightarrow> (case profileByID (sfl_profiles st) i of Some p \<Rightarrow> Inr p | None \<Rightarrow> Inl (NotFound i)))"

definition ResolveSelector :: "store_env \<Rightarrow> profile_text \<Rightarrow> string \<Rightarrow> profile_disk \<Rightarrow> profile_error + Profile" where
  "ResolveSelector ev tx selector d =
     (case loadState ev d of Inl e \<Rightarrow> Inl e | Inr st \<Rightarrow> resolveProfile tx (sfl_profiles st) selector)"

definition SelectedID :: "store_env \<Rightarrow> profile_disk \<Rightarrow> profile_error + string" where
  "SelectedID ev d =
     (case loadState ev d of
        Inl e \<Rightarrow> Inl e
      | Inr st \<Rightarrow>
          Inr (if sfl_selected st = [] \<or> profileByID (sfl_profiles st) (sfl_selected st) = None then [] else sfl_selected st))"

section \<open>Selecting\<close>

definition SelectProfile ::
  "store_env \<Rightarrow> profile_text \<Rightarrow> string \<Rightarrow> profile_disk \<Rightarrow> profile_disk \<times> (profile_error + Profile)" where
  "SelectProfile ev tx selector =
     locked ev (\<lambda>st.
       case resolveProfile tx (sfl_profiles st) selector of
         Inl e \<Rightarrow> Inl e
       | Inr p \<Rightarrow> Inr (if sfl_selected st = pr_id p then None else Some (st\<lparr>sfl_selected := pr_id p\<rparr>), p))"

text \<open>Where the code writes the state before it reports that nothing is selected, the report wins only when the write
  succeeds.\<close>

definition ResolveSelected :: "store_env \<Rightarrow> profile_disk \<Rightarrow> profile_disk \<times> (profile_error + Profile)" where
  "ResolveSelected ev d =
     (case locked ev (\<lambda>st0.
        (let (st, changed) = clearStaleSelection st0; rewritten = (if changed then Some st else None) in
         if sfl_selected st \<noteq> [] then
           (case profileByID (sfl_profiles st) (sfl_selected st) of
              Some p \<Rightarrow> Inr (rewritten, Some p)
            | None \<Rightarrow> Inr (rewritten, None))
         else case sfl_profiles st of
           [p] \<Rightarrow> Inr (Some (st\<lparr>sfl_selected := pr_id p\<rparr>), Some p)
         | _ \<Rightarrow> Inr (rewritten, None))) d of
        (d', Inl e) \<Rightarrow> (d', Inl e)
      | (d', Inr (Some p)) \<Rightarrow> (d', Inr p)
      | (d', Inr None) \<Rightarrow> (d', Inl NoSelection))"

definition SelectIfUnset :: "store_env \<Rightarrow> string \<Rightarrow> profile_disk \<Rightarrow> profile_disk \<times> (profile_error + bool)" where
  "SelectIfUnset ev i =
     locked ev (\<lambda>st0.
       (let (st, changed) = clearStaleSelection st0 in
        if sfl_selected st \<noteq> [] then Inr (if changed then Some st else None, False)
        else if profileByID (sfl_profiles st) i = None then Inl (NotFound i)
        else Inr (Some (st\<lparr>sfl_selected := i\<rparr>), True)))"

section \<open>Adding and removing\<close>

definition refuse_invalid :: "Profile \<Rightarrow> profile_disk \<times> (profile_error + 'a) \<Rightarrow> profile_disk \<Rightarrow> profile_disk \<times> (profile_error + 'a)" where
  "refuse_invalid p r d = (if Validate p \<noteq> [] then (d, Inl (ProfileInvalid (Validate p))) else r)"

definition AddAndSelectIfUnset :: "store_env \<Rightarrow> Profile \<Rightarrow> profile_disk \<Rightarrow> profile_disk \<times> (profile_error + bool)" where
  "AddAndSelectIfUnset ev p d =
     refuse_invalid p (locked ev (\<lambda>st0.
       (let st = fst (clearStaleSelection st0) in
        if pr_id p \<in> pr_id ` set (sfl_profiles st) then Inl (AlreadyExists (pr_id p))
        else
          (let st' = st\<lparr>sfl_profiles := SortStable (sfl_profiles st @ [p])\<rparr> in
           if sfl_selected st' = [] then Inr (Some (st'\<lparr>sfl_selected := pr_id p\<rparr>), True) else Inr (Some st', False)))) d) d"

definition AddProfile :: "store_env \<Rightarrow> Profile \<Rightarrow> profile_disk \<Rightarrow> profile_disk \<times> (profile_error + unit)" where
  "AddProfile ev p d =
     refuse_invalid p (locked ev (\<lambda>st0.
       (let st = fst (clearStaleSelection st0) in
        if pr_id p \<in> pr_id ` set (sfl_profiles st) then Inl (AlreadyExists (pr_id p))
        else Inr (Some (st\<lparr>sfl_profiles := SortStable (sfl_profiles st @ [p])\<rparr>), ()))) d) d"

fun check_batch :: "string list \<Rightarrow> string list \<Rightarrow> Profile list \<Rightarrow> profile_error option" where
  "check_batch existing seen [] = None"
| "check_batch existing seen (p # ps) =
     (if Validate p \<noteq> [] then Some (ProfileInvalid (Validate p))
      else if pr_id p \<in> set seen then Some (DuplicateInBatch (pr_id p))
      else if pr_id p \<in> set existing then Some (AlreadyExists (pr_id p))
      else check_batch existing (pr_id p # seen) ps)"

definition AddProfiles :: "store_env \<Rightarrow> Profile list \<Rightarrow> profile_disk \<Rightarrow> profile_disk \<times> (profile_error + unit)" where
  "AddProfiles ev next =
     locked ev (\<lambda>st0.
       (let st = fst (clearStaleSelection st0) in
        case check_batch (map pr_id (sfl_profiles st)) [] next of
          Some e \<Rightarrow> Inl e
        | None \<Rightarrow> Inr (Some (st\<lparr>sfl_profiles := SortStable (sfl_profiles st @ next)\<rparr>), ())))"

definition deleteProfileFromState :: "storeFile \<Rightarrow> string \<Rightarrow> storeFile option" where
  "deleteProfileFromState st i =
     (if i \<notin> pr_id ` set (sfl_profiles st) then None
      else Some (st\<lparr>sfl_profiles := SortStable (filter (\<lambda>p. pr_id p \<noteq> i) (sfl_profiles st)),
                    sfl_selected := (if sfl_selected st = i then [] else sfl_selected st)\<rparr>))"

definition DeleteProfile :: "store_env \<Rightarrow> string \<Rightarrow> profile_disk \<Rightarrow> profile_disk \<times> (profile_error + unit)" where
  "DeleteProfile ev i =
     locked ev (\<lambda>st. case deleteProfileFromState st i of None \<Rightarrow> Inl (NotFound i) | Some st' \<Rightarrow> Inr (Some st', ()))"

definition DeleteResolved ::
  "store_env \<Rightarrow> profile_text \<Rightarrow> string \<Rightarrow> Profile \<Rightarrow> profile_disk \<Rightarrow> profile_disk \<times> (profile_error + unit)" where
  "DeleteResolved ev tx selector confirmed =
     locked ev (\<lambda>st.
       case resolveProfile tx (sfl_profiles st) selector of
         Inl e \<Rightarrow> Inl ProfileChanged
       | Inr current \<Rightarrow>
           if current \<noteq> confirmed then Inl ProfileChanged
           else case deleteProfileFromState st (pr_id confirmed) of
             None \<Rightarrow> Inl ProfileChanged
           | Some st' \<Rightarrow> Inr (Some st', ()))"

section \<open>Subscriptions\<close>

record SubscriptionUpdateDiff =
  sud_imported :: nat
  sud_updated :: nat
  sud_unchanged :: nat
  sud_removed :: nat

text \<open>A profile of the subscription may replace only one that the subscription owned before.\<close>

fun check_subscription :: "string list \<Rightarrow> string list \<Rightarrow> string list \<Rightarrow> Profile list \<Rightarrow> profile_error option" where
  "check_subscription existing previous seen [] = None"
| "check_subscription existing previous seen (p # ps) =
     (if Validate p \<noteq> [] then Some (ProfileInvalid (Validate p))
      else if pr_source p \<noteq> SourceSubscription then Some (NotASubscriptionProfile (pr_id p))
      else if pr_id p \<in> set seen then Some (DuplicateInBatch (pr_id p))
      else if pr_id p \<in> set existing \<and> pr_id p \<notin> set previous then Some (CollisionWithExisting (pr_id p))
      else check_subscription existing previous (pr_id p # seen) ps)"

definition subscription_diff :: "Profile list \<Rightarrow> string list \<Rightarrow> Profile list \<Rightarrow> SubscriptionUpdateDiff" where
  "subscription_diff current previous next =
     \<lparr>sud_imported = length (filter (\<lambda>p. profileByID current (pr_id p) = None) next),
      sud_updated = length (filter (\<lambda>p. profileByID current (pr_id p) \<noteq> None \<and> profileByID current (pr_id p) \<noteq> Some p) next),
      sud_unchanged = length (filter (\<lambda>p. profileByID current (pr_id p) = Some p) next),
      sud_removed = length (filter (\<lambda>p. pr_id p \<in> set previous \<and> pr_id p \<notin> pr_id ` set next) current)\<rparr>"

definition ReplaceSubscriptionProfiles ::
  "store_env \<Rightarrow> string list \<Rightarrow> Profile list \<Rightarrow> profile_disk \<Rightarrow> profile_disk \<times> (profile_error + SubscriptionUpdateDiff)" where
  "ReplaceSubscriptionProfiles ev previous next =
     locked ev (\<lambda>st.
       (let current = sfl_profiles st in
        case check_subscription (map pr_id current) previous [] next of
          Some e \<Rightarrow> Inl e
        | None \<Rightarrow>
            (let kept = filter (\<lambda>p. pr_id p \<notin> set previous) current @ next;
                 selected = (if sfl_selected st \<noteq> [] \<and> profileByID kept (sfl_selected st) = None then [] else sfl_selected st) in
             Inr (Some (st\<lparr>sfl_profiles := SortStable kept, sfl_selected := selected\<rparr>),
                  subscription_diff current previous next))))"

definition owned_by_subscription :: "string list \<Rightarrow> Profile \<Rightarrow> bool" where
  "owned_by_subscription ids p = (pr_id p \<in> set ids \<and> pr_source p = SourceSubscription)"

definition drop_owned :: "string list \<Rightarrow> storeFile \<Rightarrow> profile_error + (storeFile option \<times> nat)" where
  "drop_owned ids st =
     (let kept = filter (\<lambda>p. \<not> owned_by_subscription ids p) (sfl_profiles st);
          removed = length (filter (owned_by_subscription ids) (sfl_profiles st)) in
      if removed = 0 then Inr (None, 0)
      else
        (let st' = fst (clearStaleSelection (st\<lparr>sfl_profiles := kept\<rparr>)) in
         Inr (Some (st'\<lparr>sfl_profiles := SortStable (sfl_profiles st')\<rparr>), removed)))"

definition DeleteSubscriptionProfiles :: "store_env \<Rightarrow> string list \<Rightarrow> profile_disk \<Rightarrow> profile_disk \<times> (profile_error + nat)" where
  "DeleteSubscriptionProfiles ev ids d = (if ids = [] then (d, Inr 0) else locked ev (drop_owned ids) d)"

definition subscriptionServerMatchKey :: "profile_text \<Rightarrow> Profile \<Rightarrow> string" where
  "subscriptionServerMatchKey tx p = ptx_lower tx (trim_space (pr_server p))"

definition CountUnlinkedProfilesMatchingSubscriptionServers ::
  "store_env \<Rightarrow> profile_text \<Rightarrow> string list \<Rightarrow> string list \<Rightarrow> profile_disk \<Rightarrow> profile_error + nat" where
  "CountUnlinkedProfilesMatchingSubscriptionServers ev tx owned linked d =
     (if owned = [] then Inr 0
      else case loadState ev d of
        Inl e \<Rightarrow> Inl e
      | Inr st \<Rightarrow>
          (let servers = filter (\<lambda>k. k \<noteq> []) (map (subscriptionServerMatchKey tx)
                 (filter (\<lambda>p. pr_id p \<in> set owned \<and> pr_source p = SourceSubscription) (sfl_profiles st))) in
           Inr (length (filter (\<lambda>p. pr_id p \<notin> set owned \<and> pr_id p \<notin> set linked \<and>
             subscriptionServerMatchKey tx p \<in> set servers) (sfl_profiles st)))))"

end
