(* ===== verification/Subscriptions.thy ===== *)
theory Subscriptions
  imports Profile_Store
begin

text \<open>
  Subscription sources and the workflows that tie them to profiles: \<^verbatim>\<open>src/internal/sub/source_validation.go\<close>,
  \<^verbatim>\<open>store.go\<close>, \<^verbatim>\<open>store_delete.go\<close>, \<^verbatim>\<open>source_workflow.go\<close>, the sources of \<^verbatim>\<open>source_model.go\<close> and the deletion of
  \<^verbatim>\<open>src/internal/app/cli/subscription_delete_cli.go\<close>.

  Two files are involved, the profile store and the subscription store.  What a provider answers and how it is decoded is an
  argument of the workflow, as are \<^verbatim>\<open>url.Parse\<close>, the fallback and the sanitised display names; nothing is assumed of them.
  Only the profile store takes a lock; what other processes do between the steps of a workflow is part of its environment.
  A time is its RFC 3339 text.
\<close>

section \<open>Sources\<close>

definition FormatUnknown :: string where "FormatUnknown = ''unknown''"
definition FormatURIList :: string where "FormatURIList = ''uri-list''"
definition FormatBase64 :: string where "FormatBase64 = ''base64''"
definition FormatXrayJSON :: string where "FormatXrayJSON = ''xray-json''"
definition FormatSingBox :: string where "FormatSingBox = ''sing-box''"
definition FormatMihomo :: string where "FormatMihomo = ''mihomo''"

lemmas format_consts = FormatUnknown_def FormatURIList_def FormatBase64_def FormatXrayJSON_def FormatSingBox_def FormatMihomo_def

record Source =
  src_id :: string
  src_name :: string
  src_url :: string
  src_format :: string
  src_profile_ids :: "string list"
  src_last_updated_at :: string

record Issue =
  iss_line :: int
  iss_message :: string

record Parsed =
  prs_profiles :: "Profile list"
  prs_unsupported :: "Issue list"
  prs_warnings :: "Issue list"

record UpdateResult =
  upr_subscription :: Source
  upr_imported :: nat
  upr_updated :: nat
  upr_unchanged :: nat
  upr_removed :: nat
  upr_unsupported :: nat
  upr_warnings :: "Issue list"
  upr_issues :: "Issue list"

text \<open>What the code reads of a parsed URL, and the names it derives from texts of the provider.\<close>

record parsed_url =
  pu_scheme :: string
  pu_host :: string
  pu_path :: string

record source_text =
  stx_parse :: "string \<Rightarrow> parsed_url option"
  stx_fallback :: "string \<Rightarrow> string"
  stx_sanitize :: "string \<Rightarrow> string option"

datatype source_message =
    SourceIdRequired | SourceNameRequired | SourceUrlRequired | SourceUrlInvalid | SourceUrlScheme
  | SourceFileHost | SourceFilePath | SourceUrlHost | SourceSchemeUnsupported string
  | SourceFormatRequired | SourceFormatUnsupported string

definition validateSourceURL :: "source_text \<Rightarrow> string \<Rightarrow> source_message option" where
  "validateSourceURL tx raw =
     (case stx_parse tx (trim_space raw) of
        None \<Rightarrow> Some SourceUrlInvalid
      | Some u \<Rightarrow>
          if pu_scheme u = [] then Some SourceUrlScheme
          else if to_lower (pu_scheme u) = ''file'' then
            (if pu_host u \<noteq> [] \<and> pu_host u \<noteq> ''localhost'' then Some SourceFileHost
             else if pu_path u = [] then Some SourceFilePath else None)
          else if to_lower (pu_scheme u) \<in> {''http'', ''https''} then
            (if pu_host u = [] then Some SourceUrlHost else None)
          else Some (SourceSchemeUnsupported (pu_scheme u)))"

text \<open>The messages of the error; no message is the nil error.\<close>

definition ValidateSource :: "source_text \<Rightarrow> Source \<Rightarrow> source_message list" where
  "ValidateSource tx s =
     (if trim_space (src_id s) = [] then [SourceIdRequired] else []) @
     (if trim_space (src_name s) = [] then [SourceNameRequired] else []) @
     (if trim_space (src_url s) = [] then [SourceUrlRequired]
      else case validateSourceURL tx (src_url s) of Some m \<Rightarrow> [m] | None \<Rightarrow> []) @
     (if src_format s \<in> {FormatURIList, FormatBase64, FormatXrayJSON, FormatMihomo} then []
      else if src_format s = [] then [SourceFormatRequired]
      else [SourceFormatUnsupported (src_format s)])"

definition NewSource :: "source_text \<Rightarrow> string \<Rightarrow> string \<Rightarrow> Source" where
  "NewSource tx name url0 =
     (let url = trim_space url0;
          display = (if trim_space name = [] then stx_fallback tx url else trim_space name) in
      \<lparr>src_id = NormalizeID display, src_name = display, src_url = url, src_format = FormatBase64,
       src_profile_ids = [], src_last_updated_at = ''0001-01-01T00:00:00Z''\<rparr>)"

definition RefreshProviderDisplayName :: "source_text \<Rightarrow> Source \<Rightarrow> string \<Rightarrow> Source" where
  "RefreshProviderDisplayName tx s provider =
     (if trim_space provider = [] then s
      else if src_id s \<noteq> NormalizeID (stx_fallback tx (src_url s)) then s
      else case stx_sanitize tx provider of None \<Rightarrow> s | Some name \<Rightarrow> s\<lparr>src_name := name\<rparr>)"

section \<open>The subscription store\<close>

record sub_storeFile =
  sub_schema_version :: string
  sub_sources :: "Source list"

datatype sub_content = SubDoc sub_storeFile | SubInvalidJSON | SubTrailingData

type_synonym sub_disk = "sub_content option"

datatype sub_error =
    SubInvalid "source_message list"
  | SubNotFound string
  | SubAlreadyExists string
  | SubRead
  | SubJSON
  | SubTrailing
  | SubSchema string
  | SubStoredInvalid string "source_message list"
  | SubStoredDuplicate string
  | SubWrite Operation
  | SubPrepare string
  | SubSnapshot
  | SubProfiles profile_error
  | SubHook string
  | SubRollbackFailed sub_error nat
  | SubCanceled

record sub_env =
  sbe_open :: bool
  sbe_write :: "Operation option"

definition sortSources :: "Source list \<Rightarrow> Source list" where
  "sortSources ss = sort_key src_id ss"

fun check_sources :: "source_text \<Rightarrow> string list \<Rightarrow> Source list \<Rightarrow> sub_error option" where
  "check_sources tx seen [] = None"
| "check_sources tx seen (s # ss) =
     (if ValidateSource tx s \<noteq> [] then Some (SubStoredInvalid (src_id s) (ValidateSource tx s))
      else if src_id s \<in> set seen then Some (SubStoredDuplicate (src_id s))
      else check_sources tx (src_id s # seen) ss)"

definition sub_load :: "source_text \<Rightarrow> sub_env \<Rightarrow> sub_disk \<Rightarrow> sub_error + Source list" where
  "sub_load tx ev d =
     (if sbe_open ev then Inl SubRead
      else case d of
        None \<Rightarrow> Inr []
      | Some c \<Rightarrow>
          (case c of
            SubInvalidJSON \<Rightarrow> Inl SubJSON
          | SubTrailingData \<Rightarrow> Inl SubTrailing
          | SubDoc data \<Rightarrow>
              if sub_schema_version data \<noteq> ''v1'' then Inl (SubSchema (sub_schema_version data))
              else case check_sources tx [] (sub_sources data) of Some e \<Rightarrow> Inl e | None \<Rightarrow> Inr (sub_sources data)))"

definition sub_save :: "sub_env \<Rightarrow> Source list \<Rightarrow> sub_disk \<Rightarrow> sub_disk \<times> sub_error option" where
  "sub_save ev ss d =
     (case WriteFile (sbe_write ev) (SubDoc \<lparr>sub_schema_version = ''v1'', sub_sources = ss\<rparr>) d of
        (d', r) \<Rightarrow> (d', map_option SubWrite r))"

definition sourceByID :: "Source list \<Rightarrow> string \<Rightarrow> Source option" where
  "sourceByID ss i = find (\<lambda>s. src_id s = i) ss"

definition AddSource :: "source_text \<Rightarrow> sub_env \<Rightarrow> Source \<Rightarrow> sub_disk \<Rightarrow> sub_disk \<times> sub_error option" where
  "AddSource tx ev s d =
     (if ValidateSource tx s \<noteq> [] then (d, Some (SubInvalid (ValidateSource tx s)))
      else case sub_load tx ev d of
        Inl e \<Rightarrow> (d, Some e)
      | Inr ss \<Rightarrow>
          if src_id s \<in> src_id ` set ss then (d, Some (SubAlreadyExists (src_id s)))
          else sub_save ev (sortSources (ss @ [s])) d)"

definition ListSources :: "source_text \<Rightarrow> sub_env \<Rightarrow> sub_disk \<Rightarrow> sub_error + Source list" where
  "ListSources tx ev d = map_sum id sortSources (sub_load tx ev d)"

definition GetSource :: "source_text \<Rightarrow> sub_env \<Rightarrow> string \<Rightarrow> sub_disk \<Rightarrow> sub_error + Source" where
  "GetSource tx ev i d =
     (case sub_load tx ev d of
        Inl e \<Rightarrow> Inl e
      | Inr ss \<Rightarrow> (case sourceByID ss i of Some s \<Rightarrow> Inr s | None \<Rightarrow> Inl (SubNotFound i)))"

text \<open>The first source with the identifier is replaced.\<close>

fun replace_source :: "Source \<Rightarrow> Source list \<Rightarrow> Source list option" where
  "replace_source s [] = None"
| "replace_source s (x # xs) =
     (if src_id x = src_id s then Some (s # xs) else map_option (\<lambda>ys. x # ys) (replace_source s xs))"

definition UpdateStored :: "source_text \<Rightarrow> sub_env \<Rightarrow> Source \<Rightarrow> sub_disk \<Rightarrow> sub_disk \<times> sub_error option" where
  "UpdateStored tx ev s d =
     (if ValidateSource tx s \<noteq> [] then (d, Some (SubInvalid (ValidateSource tx s)))
      else case sub_load tx ev d of
        Inl e \<Rightarrow> (d, Some e)
      | Inr ss \<Rightarrow>
          (case replace_source s ss of
             None \<Rightarrow> (d, Some (SubNotFound (src_id s)))
           | Some ss' \<Rightarrow> sub_save ev (sortSources ss') d))"

definition DeleteSource :: "source_text \<Rightarrow> sub_env \<Rightarrow> string \<Rightarrow> sub_disk \<Rightarrow> sub_disk \<times> sub_error option" where
  "DeleteSource tx ev i d =
     (case sub_load tx ev d of
        Inl e \<Rightarrow> (d, Some e)
      | Inr ss \<Rightarrow>
          if i \<notin> src_id ` set ss then (d, Some (SubNotFound i))
          else sub_save ev (sortSources (filter (\<lambda>s. src_id s \<noteq> i) ss)) d)"

section \<open>The source workflow\<close>

record user_files =
  uf_subs :: sub_disk
  uf_profiles :: profile_disk

text \<open>A snapshot holds the bytes of a file, or that there is none.  A restore may be refused before it touches the file, or
  the write may stop half way, since it is not atomic.\<close>

datatype 'c restore_fault = RestoreRefused | RestorePartial 'c

definition restoreSourceWorkflowFile :: "'c restore_fault option \<Rightarrow> 'c option \<Rightarrow> 'c option \<Rightarrow> 'c option \<times> bool" where
  "restoreSourceWorkflowFile fault snapshot current =
     (case fault of
        None \<Rightarrow> (snapshot, True)
      | Some RestoreRefused \<Rightarrow> (current, False)
      | Some (RestorePartial c) \<Rightarrow> ((if snapshot = None then current else Some c), False))"

text \<open>The environment of one run: what each step meets, what happens around the callback \<^verbatim>\<open>AfterProfileApply\<close> (other
  processes included) and its error.\<close>

record workflow_env =
  wfe_get :: sub_env
  wfe_subs_snapshot :: bool
  wfe_add :: sub_env
  wfe_profile_snapshot :: bool
  wfe_replace :: store_env
  wfe_select :: store_env
  wfe_between :: "user_files \<Rightarrow> user_files"
  wfe_hook :: "string option"
  wfe_now :: string
  wfe_update :: sub_env
  wfe_restore_profiles :: "store_content restore_fault option"
  wfe_restore_subs :: "sub_content restore_fault option"

record prepared_content =
  prc_format :: string
  prc_parsed :: Parsed
  prc_provider_name :: string

record preparedSource =
  pps_source :: Source
  pps_format :: string
  pps_parsed :: Parsed

definition prepareSource :: "source_text \<Rightarrow> Source \<Rightarrow> string + prepared_content \<Rightarrow> sub_error + preparedSource" where
  "prepareSource tx s content =
     (case content of
        Inl e \<Rightarrow> Inl (SubPrepare e)
      | Inr c \<Rightarrow> Inr \<lparr>pps_source = RefreshProviderDisplayName tx s (prc_provider_name c), pps_format = prc_format c,
                        pps_parsed = prc_parsed c\<rparr>)"

definition rollback_error :: "sub_error \<Rightarrow> bool list \<Rightarrow> sub_error" where
  "rollback_error e restored =
     (case length (filter Not restored) of 0 \<Rightarrow> e | Suc n \<Rightarrow> SubRollbackFailed e (Suc n))"

definition rollback_profiles :: "workflow_env \<Rightarrow> user_files \<Rightarrow> sub_error \<Rightarrow> user_files \<Rightarrow> user_files \<times> (sub_error + 'a)" where
  "rollback_profiles ev before e d =
     (let (p, ok) = restoreSourceWorkflowFile (wfe_restore_profiles ev) (uf_profiles before) (uf_profiles d) in
      (d\<lparr>uf_profiles := p\<rparr>, Inl (rollback_error e [ok])))"

definition rollback_subs :: "workflow_env \<Rightarrow> user_files \<Rightarrow> sub_error \<Rightarrow> user_files \<Rightarrow> user_files \<times> (sub_error + 'a)" where
  "rollback_subs ev before e d =
     (let (s, ok) = restoreSourceWorkflowFile (wfe_restore_subs ev) (uf_subs before) (uf_subs d) in
      (d\<lparr>uf_subs := s\<rparr>, Inl (rollback_error e [ok])))"

definition rollback_both :: "workflow_env \<Rightarrow> user_files \<Rightarrow> sub_error \<Rightarrow> user_files \<Rightarrow> user_files \<times> (sub_error + 'a)" where
  "rollback_both ev before e d =
     (let (p, pok) = restoreSourceWorkflowFile (wfe_restore_profiles ev) (uf_profiles before) (uf_profiles d);
          (s, sok) = restoreSourceWorkflowFile (wfe_restore_subs ev) (uf_subs before) (uf_subs d) in
      (\<lparr>uf_subs = s, uf_profiles = p\<rparr>, Inl (rollback_error e [pok, sok])))"

definition select_single :: "workflow_env \<Rightarrow> bool \<Rightarrow> Profile list \<Rightarrow> profile_disk \<Rightarrow> profile_disk \<times> profile_error option" where
  "select_single ev add ps d =
     (case ps of
        [p] \<Rightarrow>
          if add then
            (case SelectIfUnset (wfe_select ev) (pr_id p) d of
               (d', Inl e) \<Rightarrow> (d', Some e)
             | (d', Inr b) \<Rightarrow> (d', None))
          else (d, None)
      | _ \<Rightarrow> (d, None))"

definition linked_source :: "workflow_env \<Rightarrow> preparedSource \<Rightarrow> Source" where
  "linked_source ev prepared =
     (pps_source prepared)\<lparr>src_format := pps_format prepared,
       src_profile_ids := map pr_id (prs_profiles (pps_parsed prepared)),
       src_last_updated_at := wfe_now ev\<rparr>"

text \<open>From the applied profiles to the end: the selection, the callback, the record of the source.\<close>

definition finish_workflow ::
  "source_text \<Rightarrow> workflow_env \<Rightarrow> bool \<Rightarrow> user_files \<Rightarrow> preparedSource \<Rightarrow> SubscriptionUpdateDiff \<Rightarrow> user_files
     \<Rightarrow> user_files \<times> (sub_error + UpdateResult)" where
  "finish_workflow tx ev add before prepared diff d =
     (let parsed = pps_parsed prepared in
      case select_single ev add (prs_profiles parsed) (uf_profiles d) of
        (p, Some e) \<Rightarrow> rollback_both ev before (SubProfiles e) (d\<lparr>uf_profiles := p\<rparr>)
      | (p, None) \<Rightarrow>
          (let d1 = wfe_between ev (d\<lparr>uf_profiles := p\<rparr>) in
           case wfe_hook ev of
             Some e \<Rightarrow> rollback_both ev before (SubHook e) d1
           | None \<Rightarrow>
               (let source = linked_source ev prepared in
                case UpdateStored tx (wfe_update ev) source (uf_subs d1) of
                  (s, Some e) \<Rightarrow> rollback_both ev before e (d1\<lparr>uf_subs := s\<rparr>)
                | (s, None) \<Rightarrow>
                    (d1\<lparr>uf_subs := s\<rparr>,
                     Inr \<lparr>upr_subscription = source, upr_imported = sud_imported diff, upr_updated = sud_updated diff,
                          upr_unchanged = sud_unchanged diff, upr_removed = sud_removed diff,
                          upr_unsupported = length (prs_unsupported parsed), upr_warnings = prs_warnings parsed,
                          upr_issues = prs_unsupported parsed\<rparr>))))"

definition apply_workflow ::
  "source_text \<Rightarrow> workflow_env \<Rightarrow> bool \<Rightarrow> string list \<Rightarrow> user_files \<Rightarrow> preparedSource \<Rightarrow> user_files
     \<Rightarrow> user_files \<times> (sub_error + UpdateResult)" where
  "apply_workflow tx ev add previous before prepared d =
     (if wfe_profile_snapshot ev then (if add then rollback_subs ev before SubSnapshot d else (d, Inl SubSnapshot))
      else case ReplaceSubscriptionProfiles (wfe_replace ev) previous (prs_profiles (pps_parsed prepared)) (uf_profiles d) of
        (p, Inl e) \<Rightarrow>
          (if add then rollback_both ev before (SubProfiles e) (d\<lparr>uf_profiles := p\<rparr>)
           else rollback_profiles ev before (SubProfiles e) (d\<lparr>uf_profiles := p\<rparr>))
      | (p, Inr diff) \<Rightarrow> finish_workflow tx ev add before prepared diff (d\<lparr>uf_profiles := p\<rparr>))"

definition runSourceWorkflow ::
  "source_text \<Rightarrow> workflow_env \<Rightarrow> bool \<Rightarrow> Source \<Rightarrow> string list \<Rightarrow> string + prepared_content \<Rightarrow> user_files
     \<Rightarrow> user_files \<times> (sub_error + UpdateResult)" where
  "runSourceWorkflow tx ev add source previous content d =
     (case prepareSource tx source content of
        Inl e \<Rightarrow> (d, Inl e)
      | Inr prepared \<Rightarrow>
          if wfe_subs_snapshot ev then (d, Inl SubSnapshot)
          else if add then
            (case AddSource tx (wfe_add ev) (pps_source prepared) (uf_subs d) of
               (s, Some e) \<Rightarrow> (d\<lparr>uf_subs := s\<rparr>, Inl e)
             | (s, None) \<Rightarrow> apply_workflow tx ev add previous d prepared (d\<lparr>uf_subs := s\<rparr>))
          else apply_workflow tx ev add previous d prepared d)"

definition ImportSource ::
  "source_text \<Rightarrow> workflow_env \<Rightarrow> string \<Rightarrow> string + prepared_content \<Rightarrow> user_files \<Rightarrow> user_files \<times> (sub_error + UpdateResult)" where
  "ImportSource tx ev url content d = runSourceWorkflow tx ev True (NewSource tx [] url) [] content d"

definition UpdateSource ::
  "source_text \<Rightarrow> workflow_env \<Rightarrow> string \<Rightarrow> (Source \<Rightarrow> string + prepared_content) \<Rightarrow> user_files
     \<Rightarrow> user_files \<times> (sub_error + UpdateResult)" where
  "UpdateSource tx ev i content d =
     (case GetSource tx (wfe_get ev) i (uf_subs d) of
        Inl e \<Rightarrow> (d, Inl e)
      | Inr s \<Rightarrow> runSourceWorkflow tx ev False s (src_profile_ids s) (content s) d)"

section \<open>Deleting a subscription\<close>

text \<open>\<^verbatim>\<open>runSubscriptionDelete\<close> after its arguments are parsed: the answer of the user, then the profiles and the record.\<close>

definition subscriptionProfileIDsReferencedByOtherSources ::
  "source_text \<Rightarrow> sub_env \<Rightarrow> string \<Rightarrow> sub_disk \<Rightarrow> sub_error + string list" where
  "subscriptionProfileIDsReferencedByOtherSources tx ev i d =
     map_sum id (\<lambda>ss. concat (map src_profile_ids (filter (\<lambda>s. src_id s \<noteq> i) ss))) (ListSources tx ev d)"

record delete_env =
  dle_get :: sub_env
  dle_yes :: bool
  dle_confirmed :: bool
  dle_keep_profiles :: bool
  dle_list :: sub_env
  dle_count :: store_env
  dle_snapshot :: bool
  dle_profiles :: store_env
  dle_hook :: "string option"
  dle_delete :: sub_env
  dle_restore :: "store_content restore_fault option"

definition runSubscriptionDelete ::
  "source_text \<Rightarrow> profile_text \<Rightarrow> delete_env \<Rightarrow> string \<Rightarrow> user_files \<Rightarrow> user_files \<times> (sub_error + nat)" where
  "runSubscriptionDelete tx ptx ev i d =
     (case GetSource tx (dle_get ev) i (uf_subs d) of
        Inl e \<Rightarrow> (d, Inl e)
      | Inr source \<Rightarrow>
          if \<not> dle_yes ev \<and> \<not> dle_confirmed ev then (d, Inl SubCanceled)
          else if dle_keep_profiles ev then
            (case DeleteSource tx (dle_delete ev) (src_id source) (uf_subs d) of
               (s, Some e) \<Rightarrow> (d\<lparr>uf_subs := s\<rparr>, Inl e)
             | (s, None) \<Rightarrow> (d\<lparr>uf_subs := s\<rparr>, Inr 0))
          else case subscriptionProfileIDsReferencedByOtherSources tx (dle_list ev) (src_id source) (uf_subs d) of
            Inl e \<Rightarrow> (d, Inl e)
          | Inr linked \<Rightarrow>
              (case CountUnlinkedProfilesMatchingSubscriptionServers (dle_count ev) ptx (src_profile_ids source) linked (uf_profiles d) of
                 Inl e \<Rightarrow> (d, Inl (SubProfiles e))
               | Inr matching \<Rightarrow>
                   if dle_snapshot ev then (d, Inl SubSnapshot)
                   else case DeleteSubscriptionProfiles (dle_profiles ev) (src_profile_ids source) (uf_profiles d) of
                     (p, Inl e) \<Rightarrow> (d\<lparr>uf_profiles := p\<rparr>, Inl (SubProfiles e))
                   | (p, Inr removed) \<Rightarrow>
                       (let rollback = (\<lambda>s e. case restoreSourceWorkflowFile (dle_restore ev) (uf_profiles d) p of
                              (p', ok) \<Rightarrow> (\<lparr>uf_subs = s, uf_profiles = p'\<rparr>, Inl (rollback_error e [ok]))) in
                        case dle_hook ev of
                          Some e \<Rightarrow> rollback (uf_subs d) (SubHook e)
                        | None \<Rightarrow>
                            (case DeleteSource tx (dle_delete ev) (src_id source) (uf_subs d) of
                               (s, Some e) \<Rightarrow> rollback s e
                             | (s, None) \<Rightarrow> (\<lparr>uf_subs = s, uf_profiles = p\<rparr>, Inr removed)))))"

end
