(* ===== verification/Profile_Store_Facts.thy ===== *)
theory Profile_Store_Facts
  imports Profile_Store
begin

text \<open>
  The profile store against its abstract contents, a map from identifiers to profiles and a selection: every mutation keeps the
  file well formed, changes the map as promised and fails without a trace, and the selectors name what the list shows.
\<close>

section \<open>Lists as maps\<close>

text \<open>A list of entries with distinct keys is a finite map; both stores keep such lists, sorted by key.\<close>

definition keyed :: "('a \<Rightarrow> string) \<Rightarrow> 'a list \<Rightarrow> string \<Rightarrow> 'a option" where
  "keyed key xs = map_of (map (\<lambda>x. (key x, x)) xs)"

lemma find_keyed: "find (\<lambda>x. key x = i) xs = keyed key xs i"
  by (induction xs) (auto simp: keyed_def)

lemma keyed_None [simp]: "keyed key xs i = None \<longleftrightarrow> i \<notin> key ` set xs"
  by (simp add: keyed_def map_of_eq_None_iff image_image)

lemma keyed_member: "keyed key xs i = Some x \<Longrightarrow> x \<in> set xs \<and> key x = i"
  by (auto simp: keyed_def dest: map_of_SomeD)

lemma keyed_Some: "distinct (map key xs) \<Longrightarrow> keyed key xs i = Some x \<longleftrightarrow> x \<in> set xs \<and> key x = i"
proof -
  assume "distinct (map key xs)"
  then have "distinct (map fst (map (\<lambda>x. (key x, x)) xs))" by (simp add: o_def)
  then show ?thesis unfolding keyed_def by (subst map_of_eq_Some_iff) auto
qed

lemma keyed_set: "distinct (map key xs) \<Longrightarrow> distinct (map key ys) \<Longrightarrow> set xs = set ys \<Longrightarrow> keyed key xs = keyed key ys"
proof
  fix i
  assume "distinct (map key xs)" "distinct (map key ys)" "set xs = set ys"
  then have "keyed key xs i = Some x \<longleftrightarrow> keyed key ys i = Some x" for x by (simp add: keyed_Some)
  then show "keyed key xs i = keyed key ys i" by (metis not_None_eq)
qed

lemma distinct_sort [simp]: "distinct (map key (sort_key key xs)) \<longleftrightarrow> distinct (map key xs)"
  by (rule mset_eq_imp_distinct_iff) simp

lemma keyed_sort: "distinct (map key xs) \<Longrightarrow> keyed key (sort_key key xs) = keyed key xs"
  by (rule keyed_set) simp_all

lemma keyed_append: "keyed key (xs @ ys) i = (case keyed key xs i of None \<Rightarrow> keyed key ys i | Some x \<Rightarrow> Some x)"
  by (simp add: keyed_def map_add_def split: option.splits)

lemma keyed_filter: "keyed key (filter (\<lambda>x. Q (key x)) xs) i = (if Q i then keyed key xs i else None)"
  by (induction xs) (auto simp: keyed_def)

lemma keyed_filter_entry:
  assumes "distinct (map key xs)"
  shows "keyed key (filter P xs) i = (case keyed key xs i of Some x \<Rightarrow> if P x then Some x else None | None \<Rightarrow> None)"
proof (cases "keyed key xs i")
  case None
  then have "keyed key (filter P xs) i = None" by auto
  with None show ?thesis by (simp del: keyed_None)
next
  case (Some x)
  note iff = keyed_Some [OF assms, of i]
  have d: "distinct (map key (filter P xs))" using assms by (rule distinct_map_filter)
  show ?thesis
  proof (cases "P x")
    case True
    with Some iff [of x] keyed_Some [OF d, of i x] show ?thesis by (simp del: keyed_None)
  next
    case False
    have "y = x" if "y \<in> set xs" "key y = i" for y using iff [of y] Some that by simp
    with False have "keyed key (filter P xs) i = None" by auto
    with False Some show ?thesis by (simp del: keyed_None)
  qed
qed

lemma keyed_card:
  assumes "distinct (map key xs)"
  shows "length (filter (\<lambda>x. Q (key x)) xs) = card {i. Q i \<and> i \<in> key ` set xs}"
proof -
  have "{i. Q i \<and> i \<in> key ` set xs} = set (map key (filter (\<lambda>x. Q (key x)) xs))" by auto
  moreover have "distinct (map key (filter (\<lambda>x. Q (key x)) xs))" using assms by (rule distinct_map_filter)
  ultimately show ?thesis by (metis distinct_card length_map)
qed

text \<open>What a store promises of its file, and what that makes of the map when an entry comes or goes.\<close>

locale keyed_store =
  fixes ok :: "'d \<Rightarrow> bool" and entries :: "'d \<Rightarrow> 'a list" and key :: "'a \<Rightarrow> string" and valid :: "'a \<Rightarrow> bool"
  assumes entries_ok: "ok d \<Longrightarrow> list_all valid (entries d) \<and> distinct (map key (entries d))"
begin

lemma distinct_keys: "ok d \<Longrightarrow> distinct (map key (entries d))"
  by (simp add: entries_ok)

lemma stored_valid: "ok d \<Longrightarrow> keyed key (entries d) i = Some x \<Longrightarrow> valid x \<and> key x = i"
  using entries_ok [of d] keyed_member [of key "entries d" i x] by (simp add: list_all_iff)

lemma removed:
  "ok d \<Longrightarrow> keyed key (sort_key key (filter (\<lambda>x. key x \<noteq> i) (entries d))) = (keyed key (entries d))(i := None)"
  by (rule ext)
    (simp add: keyed_sort distinct_map_filter distinct_keys keyed_filter [where Q = "\<lambda>j. j \<noteq> i"] del: keyed_None)

lemma inserted:
  "ok d \<Longrightarrow> key x \<notin> key ` set (entries d) \<Longrightarrow>
     keyed key (sort_key key (entries d @ [x])) = (keyed key (entries d))(key x \<mapsto> x)"
proof
  fix i
  assume "ok d" "key x \<notin> key ` set (entries d)"
  then have "distinct (map key (entries d @ [x]))" "keyed key (entries d) (key x) = None" by (simp_all add: distinct_keys)
  moreover have "keyed key [x] i = (if i = key x then Some x else None)" by (simp add: keyed_def)
  ultimately show "keyed key (sort_key key (entries d @ [x])) i = ((keyed key (entries d))(key x \<mapsto> x)) i"
    by (simp only: keyed_sort keyed_append) (auto split: option.splits simp del: keyed_None)
qed

end

section \<open>Well-formed files\<close>

abbreviation ids :: "storeFile \<Rightarrow> string list" where
  "ids st \<equiv> map pr_id (sfl_profiles st)"

definition sound_profiles :: "Profile list \<Rightarrow> bool" where
  "sound_profiles ps \<longleftrightarrow> list_all (\<lambda>p. Validate p = []) ps \<and> distinct (map pr_id ps)"

definition sound_state :: "storeFile \<Rightarrow> bool" where
  "sound_state st \<longleftrightarrow>
     sfl_schema_version st = ''v1'' \<and> sound_profiles (sfl_profiles st) \<and> (sfl_selected st = [] \<or> sfl_selected st \<in> set (ids st))"

definition sound_store :: "profile_disk \<Rightarrow> bool" where
  "sound_store d \<longleftrightarrow> (case d of None \<Rightarrow> True | Some c \<Rightarrow> \<exists>st. c = StoreDoc st \<and> sound_state st)"

text \<open>What the file stands for.\<close>

definition contents :: "profile_disk \<Rightarrow> Profile list" where
  "contents d = (case d of Some (StoreDoc st) \<Rightarrow> sfl_profiles st | _ \<Rightarrow> [])"

definition selection :: "profile_disk \<Rightarrow> string" where
  "selection d = (case d of Some (StoreDoc st) \<Rightarrow> sfl_selected st | _ \<Rightarrow> [])"

abbreviation profile_map :: "Profile list \<Rightarrow> string \<Rightarrow> Profile option" where
  "profile_map \<equiv> keyed pr_id"

lemma profileByID_map: "profileByID ps i = profile_map ps i"
  by (simp add: profileByID_def find_keyed)

lemma SortStable_simps [simp]:
  "set (SortStable ps) = set ps" "length (SortStable ps) = length ps"
  "distinct (map pr_id (SortStable ps)) \<longleftrightarrow> distinct (map pr_id ps)" "sound_profiles (SortStable ps) \<longleftrightarrow> sound_profiles ps"
proof -
  have m: "mset (map pr_id (SortStable ps)) = mset (map pr_id ps)" by (simp add: SortStable_def)
  show d: "distinct (map pr_id (SortStable ps)) \<longleftrightarrow> distinct (map pr_id ps)"
    using mset_eq_imp_distinct_iff [OF m] .
  show "sound_profiles (SortStable ps) \<longleftrightarrow> sound_profiles ps"
    using d by (simp add: sound_profiles_def list_all_iff SortStable_def)
qed (simp_all add: SortStable_def)

lemma profile_map_SortStable: "distinct (map pr_id ps) \<Longrightarrow> profile_map (SortStable ps) = profile_map ps"
  by (simp add: SortStable_def keyed_sort)

lemma check_stored_None:
  "check_stored seen ps = None \<longleftrightarrow>
     list_all (\<lambda>p. Validate p = []) ps \<and> distinct (map pr_id ps) \<and> pr_id ` set ps \<inter> set seen = {}"
  by (induction seen ps rule: check_stored.induct) auto

lemma check_batch_None:
  "check_batch existing seen ps = None \<longleftrightarrow>
     list_all (\<lambda>p. Validate p = []) ps \<and> distinct (map pr_id ps) \<and> pr_id ` set ps \<inter> (set seen \<union> set existing) = {}"
  by (induction existing seen ps rule: check_batch.induct) auto

lemma check_subscription_None:
  "check_subscription existing previous seen ps = None \<longleftrightarrow>
     list_all (\<lambda>p. Validate p = [] \<and> pr_source p = SourceSubscription) ps \<and> distinct (map pr_id ps) \<and>
     pr_id ` set ps \<inter> set seen = {} \<and> pr_id ` set ps \<inter> set existing \<subseteq> set previous"
  by (induction existing previous seen ps rule: check_subscription.induct) auto

lemma load_sound:
  assumes "sound_store d" "loadState ev d = Inr st"
  shows "sound_state st \<and> sfl_profiles st = contents d \<and> sfl_selected st = selection d"
  using assms
  by (auto simp: loadState_def sound_store_def contents_def selection_def sound_state_def sound_profiles_def
      split: option.splits if_splits store_content.splits)

lemma load_ok: "sound_store d \<Longrightarrow> \<not> pse_open ev \<Longrightarrow> \<exists>st. loadState ev d = Inr st"
  by (auto simp: loadState_def sound_store_def sound_state_def sound_profiles_def check_stored_None split: option.splits)

text \<open>A mutation leaves the file alone or replaces it by the new state; a reported success is a write or needs none.\<close>

lemma locked_cases:
  assumes "locked ev f d = (d', r)"
  obtains (refused) e where "d' = d" "r = Inl e"
    | (unneeded) st x where "loadState ev d = Inr st" "f st = Inr (None, x)" "d' = d" "r = Inr x"
    | (written) st st' x where "loadState ev d = Inr st" "f st = Inr (Some st', x)"
        "d' = Some (StoreDoc (st'\<lparr>sfl_schema_version := ''v1''\<rparr>))" "r = Inr x \<or> (\<exists>e. r = Inl e)"
proof (cases "pse_lock ev")
  case True
  with assms refused show thesis by (auto simp: locked_def)
next
  case False
  show thesis
  proof (cases "loadState ev d")
    case (Inl e)
    with False assms refused show thesis by (auto simp: locked_def)
  next
    case (Inr st)
    show thesis
    proof (cases "f st")
      case (Inl e)
      with False Inr assms refused show thesis by (auto simp: locked_def)
    next
      case f: (Inr q)
      obtain w x where q: "q = (w, x)" by fastforce
      show thesis
      proof (cases w)
        case None
        with f q have fx: "f st = Inr (None, x)" by simp
        with False Inr assms have "d' = d" "r = Inr x" by (auto simp: locked_def)
        then show thesis by (rule unneeded [OF Inr fx])
      next
        case (Some st')
        obtain d1 e where s: "saveState ev st' d = (d1, e)" by fastforce
        with False Inr f q Some assms have r: "d' = d1" "r = (case e of None \<Rightarrow> Inr x | Some y \<Rightarrow> Inl y)"
          by (auto simp: locked_def split: option.splits)
        from s have "d1 = Some (StoreDoc (st'\<lparr>sfl_schema_version := ''v1''\<rparr>)) \<or> (d1 = d \<and> e \<noteq> None)"
          by (auto simp: saveState_def WriteFile_def split: option.splits Operation.splits)
        with r Inr f q Some refused written show thesis by (cases e) auto
      qed
    qed
  qed
qed

lemma locked_sound:
  assumes "sound_store d" "locked ev f d = (d', r)"
    and "\<And>st st' x. sound_state st \<Longrightarrow> f st = Inr (Some st', x) \<Longrightarrow> sound_state (st'\<lparr>sfl_schema_version := ''v1''\<rparr>)"
  shows "sound_store d'"
  using assms(2)
proof (cases rule: locked_cases)
  case (written st st' x)
  from load_sound [OF assms(1) written(1)] have "sound_state st" by blast
  from assms(3) [OF this written(2)] written(3) show ?thesis by (simp add: sound_store_def)
qed (use assms(1) in auto)

section \<open>Every mutation\<close>

lemma cleared:
  "sound_state st \<Longrightarrow> clearStaleSelection st = (st, False)"
  by (auto simp: clearStaleSelection_def sound_state_def profileByID_map)

lemma single_match: "(case filter P ps of [] \<Rightarrow> Inl e | [q] \<Rightarrow> Inr q | ms \<Rightarrow> Inl (f ms)) = Inr p \<Longrightarrow> p \<in> set ps"
proof -
  assume a: "(case filter P ps of [] \<Rightarrow> Inl e | [q] \<Rightarrow> Inr q | ms \<Rightarrow> Inl (f ms)) = Inr p"
  then have "p \<in> set (filter P ps)" by (cases "filter P ps" rule: remdups_adj.cases) auto
  then show ?thesis by simp
qed

lemma resolve_member:
  assumes "resolveProfile tx ps selector = Inr p"
  shows "p \<in> set ps"
proof -
  have row: "SortStable ps ! nat (n - 1) \<in> set ps" if "1 \<le> n" "n \<le> int (length ps)" for n
    using that nth_mem [of "nat (n - 1)" "SortStable ps"] by simp
  define sel where "sel = trim_space selector"
  show ?thesis
  proof (cases "take 3 sel = ''id:''")
    case True
    with assms show ?thesis
      by (auto simp: resolveProfile_def sel_def [symmetric] Let_def profileByID_map split: if_splits option.splits
          dest: keyed_member)
  next
    case no_id: False
    show ?thesis
    proof (cases "IsPositionalSelector sel")
      case True
      with no_id assms show ?thesis
        by (auto simp: resolveProfile_def sel_def [symmetric] Let_def split: if_splits option.splits intro!: row)
    next
      case False
      with no_id assms have "profileByID ps sel = Some p \<or>
        (case filter (\<lambda>p. displayNameKey tx (pr_name p) = displayNameKey tx sel) ps of
           [] \<Rightarrow> Inl (NotFound sel) | [q] \<Rightarrow> Inr q | ms \<Rightarrow> Inl (AmbiguousSelector (length ms))) = Inr p"
        by (auto simp: resolveProfile_def sel_def [symmetric] Let_def split: if_splits option.splits)
      then show ?thesis using single_match keyed_member by (fastforce simp: profileByID_map)
    qed
  qed
qed

inductive store_step :: "profile_disk \<Rightarrow> profile_disk \<Rightarrow> bool" where
  select: "SelectProfile ev tx selector d = (d', r1) \<Longrightarrow> store_step d d'"
| resolve_selected: "ResolveSelected ev d = (d', r2) \<Longrightarrow> store_step d d'"
| select_if_unset: "SelectIfUnset ev i d = (d', r3) \<Longrightarrow> store_step d d'"
| add_and_select: "AddAndSelectIfUnset ev p d = (d', r4) \<Longrightarrow> store_step d d'"
| add: "AddProfile ev p d = (d', r5) \<Longrightarrow> store_step d d'"
| add_many: "AddProfiles ev ps d = (d', r6) \<Longrightarrow> store_step d d'"
| delete: "DeleteProfile ev i d = (d', r7) \<Longrightarrow> store_step d d'"
| delete_resolved: "DeleteResolved ev tx selector p d = (d', r8) \<Longrightarrow> store_step d d'"
| replace: "ReplaceSubscriptionProfiles ev previous ps d = (d', r9) \<Longrightarrow> store_step d d'"
| delete_subscription: "DeleteSubscriptionProfiles ev is d = (d', r10) \<Longrightarrow> store_step d d'"

lemma sound_append:
  "sound_profiles (ps @ qs) \<longleftrightarrow> sound_profiles ps \<and> sound_profiles qs \<and> (\<forall>p\<in>set ps. \<forall>q\<in>set qs. pr_id p \<noteq> pr_id q)"
  by (fastforce simp: sound_profiles_def)

lemma sound_add:
  "sound_profiles ps \<Longrightarrow> Validate p = [] \<Longrightarrow> pr_id p \<notin> pr_id ` set ps \<Longrightarrow> sound_profiles (ps @ [p])"
  by (auto simp: sound_profiles_def)

lemma sound_filter: "sound_profiles ps \<Longrightarrow> sound_profiles (filter P ps)"
  by (auto simp: sound_profiles_def list_all_iff distinct_map_filter)

lemma batch_sound:
  "check_batch existing [] ps = None \<longleftrightarrow> sound_profiles ps \<and> (\<forall>p\<in>set ps. pr_id p \<notin> set existing)"
  by (auto simp: check_batch_None sound_profiles_def)

lemma subscription_sound:
  "check_subscription existing previous [] ps = None \<Longrightarrow>
     sound_profiles ps \<and> list_all (\<lambda>p. pr_source p = SourceSubscription) ps \<and>
     (\<forall>p\<in>set ps. pr_id p \<in> set existing \<longrightarrow> pr_id p \<in> set previous)"
  by (auto simp: check_subscription_None sound_profiles_def list_all_iff)

lemma sound_replaced:
  assumes "sound_profiles current" "check_subscription (map pr_id current) previous [] next = None"
  shows "sound_profiles (filter (\<lambda>p. pr_id p \<notin> set previous) current @ next)"
proof -
  note n = subscription_sound [OF assms(2)]
  have "pr_id p \<noteq> pr_id q" if "p \<in> set current" "pr_id p \<notin> set previous" "q \<in> set next" for p q
    using n that by (metis image_eqI list.set_map)
  with n assms(1) show ?thesis by (auto simp: sound_append sound_filter)
qed

lemma sound_v1: "sound_state st \<Longrightarrow> sound_state (st\<lparr>sfl_schema_version := ''v1''\<rparr>)"
  by (simp add: sound_state_def)

lemma sound_delete: "sound_state st \<Longrightarrow> deleteProfileFromState st i = Some st' \<Longrightarrow> sound_state st'"
  by (auto simp: deleteProfileFromState_def sound_state_def sound_filter split: if_splits)

lemma step_sound:
  assumes "store_step d d'" and d: "sound_store d"
  shows "sound_store d'"
  using assms(1)
proof cases
  case (select ev tx selector r)
  show ?thesis
    by (rule locked_sound [OF d select [unfolded SelectProfile_def]])
      (auto simp: sound_state_def split: sum.splits if_splits dest: resolve_member)
next
  case (resolve_selected ev r)
  then obtain q where "locked ev (\<lambda>st0. (let (st, changed) = clearStaleSelection st0;
         rewritten = (if changed then Some st else None) in
         if sfl_selected st \<noteq> [] then
           (case profileByID (sfl_profiles st) (sfl_selected st) of
              Some p \<Rightarrow> Inr (rewritten, Some p)
            | None \<Rightarrow> Inr (rewritten, None))
         else case sfl_profiles st of
           [p] \<Rightarrow> Inr (Some (st\<lparr>sfl_selected := pr_id p\<rparr>), Some p)
         | _ \<Rightarrow> Inr (rewritten, None))) d = (d', q)"
    by (auto simp: ResolveSelected_def split: prod.splits sum.splits option.splits)
  then show ?thesis
    by (rule locked_sound [OF d]) (auto simp: cleared sound_state_def split: if_splits list.splits option.splits)
next
  case (select_if_unset ev i r)
  show ?thesis
    by (rule locked_sound [OF d select_if_unset [unfolded SelectIfUnset_def]])
      (auto simp: cleared sound_state_def profileByID_map split: if_splits)
next
  case (add_and_select ev p r)
  show ?thesis
  proof (cases "Validate p = []")
    case True
    with add_and_select have "locked ev (\<lambda>st0. (let st = fst (clearStaleSelection st0) in
        if pr_id p \<in> pr_id ` set (sfl_profiles st) then Inl (AlreadyExists (pr_id p))
        else
          (let st' = st\<lparr>sfl_profiles := SortStable (sfl_profiles st @ [p])\<rparr> in
           if sfl_selected st' = [] then Inr (Some (st'\<lparr>sfl_selected := pr_id p\<rparr>), True) else Inr (Some st', False)))) d = (d', r)"
      by (simp add: AddAndSelectIfUnset_def refuse_invalid_def)
    then show ?thesis
      by (rule locked_sound [OF d]) (use True in \<open>auto simp: cleared sound_state_def sound_add Let_def split: if_splits\<close>)
  next
    case False
    with add_and_select d show ?thesis by (simp add: AddAndSelectIfUnset_def refuse_invalid_def)
  qed
next
  case (add ev p r)
  show ?thesis
  proof (cases "Validate p = []")
    case True
    with add have "locked ev (\<lambda>st0. (let st = fst (clearStaleSelection st0) in
        if pr_id p \<in> pr_id ` set (sfl_profiles st) then Inl (AlreadyExists (pr_id p))
        else Inr (Some (st\<lparr>sfl_profiles := SortStable (sfl_profiles st @ [p])\<rparr>), ()))) d = (d', r)"
      by (simp add: AddProfile_def refuse_invalid_def)
    then show ?thesis
      by (rule locked_sound [OF d]) (use True in \<open>auto simp: cleared sound_state_def sound_add Let_def split: if_splits\<close>)
  next
    case False
    with add d show ?thesis by (simp add: AddProfile_def refuse_invalid_def)
  qed
next
  case (add_many ev ps r)
  show ?thesis
    by (rule locked_sound [OF d add_many [unfolded AddProfiles_def]])
      (auto simp: cleared sound_state_def sound_append batch_sound Let_def split: option.splits; metis image_eqI)
next
  case (delete ev i r)
  show ?thesis
    by (rule locked_sound [OF d delete [unfolded DeleteProfile_def]])
      (auto intro!: sound_v1 intro: sound_delete split: option.splits)
next
  case (delete_resolved ev tx selector p r)
  show ?thesis
    by (rule locked_sound [OF d delete_resolved [unfolded DeleteResolved_def]])
      (auto intro!: sound_v1 intro: sound_delete split: option.splits sum.splits if_splits)
next
  case (replace ev previous ps r)
  show ?thesis
  proof (rule locked_sound [OF d replace [unfolded ReplaceSubscriptionProfiles_def]])
    fix st st' :: storeFile and x
    let ?kept = "filter (\<lambda>p. pr_id p \<notin> set previous) (sfl_profiles st) @ ps"
    assume st: "sound_state st" and "(let current = sfl_profiles st in
        case check_subscription (map pr_id current) previous [] ps of
          Some e \<Rightarrow> Inl e
        | None \<Rightarrow>
            (let kept = filter (\<lambda>p. pr_id p \<notin> set previous) current @ ps;
                 selected = (if sfl_selected st \<noteq> [] \<and> profileByID kept (sfl_selected st) = None then [] else sfl_selected st) in
             Inr (Some (st\<lparr>sfl_profiles := SortStable kept, sfl_selected := selected\<rparr>),
                  subscription_diff current previous ps))) = Inr (Some st', x)"
    then have c: "check_subscription (ids st) previous [] ps = None"
      and st': "st' = st\<lparr>sfl_profiles := SortStable ?kept, sfl_selected :=
        (if sfl_selected st \<noteq> [] \<and> profileByID ?kept (sfl_selected st) = None then [] else sfl_selected st)\<rparr>"
      by (auto simp: Let_def split: option.splits)
    have "sound_profiles ?kept" using st c by (intro sound_replaced) (simp_all add: sound_state_def)
    then show "sound_state (st'\<lparr>sfl_schema_version := ''v1''\<rparr>)"
      unfolding st' by (simp add: sound_state_def profileByID_map del: set_append set_filter)
  qed
next
  case (delete_subscription ev "is" r)
  show ?thesis
  proof (cases "is = []")
    case True
    with delete_subscription d show ?thesis by (simp add: DeleteSubscriptionProfiles_def)
  next
    case False
    with delete_subscription have f: "locked ev (drop_owned is) d = (d', r)" by (simp add: DeleteSubscriptionProfiles_def)
    show ?thesis
      by (rule locked_sound [OF d f])
        (auto simp: drop_owned_def Let_def clearStaleSelection_def sound_state_def sound_filter profileByID_map split: if_splits,
         metis (mono_tags, lifting) image_eqI mem_Collect_eq)
  qed
qed

section \<open>What a mutation does\<close>

text \<open>The state a mutation finds and the one it leaves, when it reports success.\<close>

lemma locked_success:
  assumes "sound_store d" "locked ev f d = (d', Inr x)"
  obtains st w where "sound_state st" "sfl_profiles st = contents d" "sfl_selected st = selection d" "f st = Inr (w, x)"
    "contents d' = sfl_profiles (case w of None \<Rightarrow> st | Some st' \<Rightarrow> st')"
    "selection d' = sfl_selected (case w of None \<Rightarrow> st | Some st' \<Rightarrow> st')"
  using assms(2)
proof (cases rule: locked_cases)
  case (unneeded st y)
  with load_sound [OF assms(1) unneeded(1)] show ?thesis by (intro that [of st None]) auto
next
  case (written st st' y)
  with load_sound [OF assms(1) written(1)] show ?thesis
    by (intro that [of st "Some st'"]) (auto simp: contents_def selection_def)
qed simp

lemma locked_failure:
  assumes "locked ev f d = (d', Inl e)"
  shows "d' = d \<or> pse_write ev = Some OperationSyncParentDirectory"
  using assms
  by (auto simp: locked_def saveState_def WriteFile_def split: if_splits sum.splits prod.splits option.splits Operation.splits)

lemma sound_contents: "sound_store d \<Longrightarrow> sound_profiles (contents d)"
  by (auto simp: sound_store_def contents_def sound_state_def sound_profiles_def split: option.splits)

interpretation profiles: keyed_store sound_store contents pr_id "\<lambda>p. Validate p = []"
  by unfold_locales (use sound_contents in \<open>simp add: sound_profiles_def\<close>)

lemma valid_id_plain: "Validate p = [] \<Longrightarrow> plain (pr_id p) \<and> pr_id p \<noteq> []"
proof -
  assume "Validate p = []"
  then have v: "validID (pr_id p)" "trim_space (pr_id p) \<noteq> []"
    by (auto simp: Validate_def identity_messages_def split: if_splits)
  have "33 \<le> byte c \<and> byte c \<le> 126" if "id_letter c \<or> id_separator c" for c
    using that by (auto simp: id_letter_def id_separator_def)
  with v(1) have "plain (pr_id p)" by (auto simp: validID_def plain_def list_all_iff)
  with v(2) show ?thesis by auto
qed

lemma resolve_row:
  assumes "n < length ps" "length ps < 2 ^ 63"
  shows "resolveProfile tx ps (itoa (Suc n)) = Inr (SortStable ps ! n)"
proof -
  have "take 3 (itoa (Suc n)) \<noteq> ''id:''"
    using itoa_hd_digit [of "Suc n"] by (cases "itoa (Suc n)") (auto simp: is_digit_def)
  moreover have "IsPositionalSelector (itoa (Suc n))" by (simp add: IsPositionalSelector_def itoa_digits)
  moreover have "atoi (itoa (Suc n)) = Some (int (Suc n))" by (rule atoi_itoa) (use assms in simp)
  ultimately show ?thesis using assms by (simp add: resolveProfile_def Let_def)
qed

lemma resolve_id:
  assumes "plain i"
  shows "resolveProfile tx ps (''id:'' @ i) = (case profile_map ps i of Some p \<Rightarrow> Inr p | None \<Rightarrow> Inl (NotFound i))"
proof -
  have "trim_space (''id:'' @ i) = ''id:'' @ i" by (rule trim_space_plain) (use assms in simp)
  then show ?thesis
    unfolding resolveProfile_def
    by (cases "profile_map ps i") (simp_all add: profileByID_map del: keyed_None)
qed

section \<open>Examples\<close>

definition shop_profile :: "string \<Rightarrow> string \<Rightarrow> string \<Rightarrow> Profile" where
  "shop_profile i source server =
     \<lparr>pr_id = i, pr_name = i, pr_source = source, pr_engine = EngineXray, pr_server = server,
      pr_port = 443, pr_protocol = ''trojan'', pr_user_identity = ''u'', pr_transport = [], pr_security = [],
      pr_encryption = [], pr_flow = [], pr_server_name = [], pr_alpn = [], pr_fingerprint = [], pr_path = [],
      pr_host_header = [], pr_service_name = [], pr_reality_public_key = [], pr_reality_short_id = [],
      pr_reality_spider_x = []\<rparr>"

definition shop_a :: Profile where "shop_a = shop_profile ''a'' SourceManual ''vpn''"
definition shop_b :: Profile where "shop_b = shop_profile ''b'' SourceSubscription ''vpn''"
definition shop_c :: Profile where "shop_c = shop_profile ''c'' SourceSubscription ''vpn''"

lemma shop_valid: "Validate shop_a = []" "Validate shop_b = []" "Validate shop_c = []"
  by (simp_all add: Validate_def shop_profile_def shop_a_def shop_b_def shop_c_def identity_messages_def endpoint_messages_def
      profile_consts validID_def id_letter_def supportedManualProtocol_def lower_char_def IsProviderXrayConfigProfile_def
      validHostname_def hostnameLabel_def alnum_def)

lemma shop_ids [simp]: "pr_id shop_a = ''a''" "pr_id shop_b = ''b''" "pr_id shop_c = ''c''"
  "pr_source shop_b = SourceSubscription" "pr_source shop_c = SourceSubscription"
  by (simp_all add: shop_a_def shop_b_def shop_c_def shop_profile_def)

definition shop_disk :: profile_disk where
  "shop_disk = Some (StoreDoc \<lparr>sfl_schema_version = ''v1'', sfl_profiles = [shop_a, shop_b], sfl_selected = ''b''\<rparr>)"

definition shop_env :: store_env where
  "shop_env = \<lparr>pse_lock = False, pse_open = False, pse_write = None\<rparr>"

definition shop_text :: profile_text where
  "shop_text = \<lparr>ptx_lower = to_lower, ptx_digit = (\<lambda>_. False)\<rparr>"

lemma shop_order: "''a'' \<le> ''b''" "''b'' \<le> ''c''" "''a'' \<le> ''c''"
  by (simp_all add: less_eq_char_def less_char_def)

lemma shop_sound: "sound_store shop_disk"
  by (simp add: sound_store_def shop_disk_def sound_state_def sound_profiles_def shop_valid)

lemma shop_load: "loadState shop_env shop_disk =
    Inr \<lparr>sfl_schema_version = ''v1'', sfl_profiles = [shop_a, shop_b], sfl_selected = ''b''\<rparr>"
  by (simp add: loadState_def shop_env_def shop_disk_def shop_valid)

lemma shop_write: "saveState shop_env st d = (Some (StoreDoc (st\<lparr>sfl_schema_version := ''v1''\<rparr>)), None)"
  by (simp add: saveState_def WriteFile_def shop_env_def)

lemma shop_lock: "\<not> pse_lock shop_env"
  by (simp add: shop_env_def)

lemmas shop_eval = locked_def shop_lock shop_load shop_write SortStable_def profileByID_def shop_valid shop_order

section \<open>Properties\<close>

text \<open>C26: Whatever mutations run on the profile store and whatever fails during them, the file stays absent or a document
  that a later load accepts: valid profiles with distinct identifiers, and a selection that names one of them.\<close>

theorem profile_store_always_sound:
  assumes "store_step\<^sup>*\<^sup>* d d'" and "sound_store d"
  shows "sound_store d' \<and> (\<not> pse_open ev \<longrightarrow> (\<exists>st. loadState ev d' = Inr st))"
proof -
  from assms have "sound_store d'" by (induction rule: rtranclp_induct) (auto intro: step_sound)
  then show ?thesis using load_ok by blast
qed

theorem profile_store_always_sound_witness:
  "\<exists>d'. store_step shop_disk d' \<and> d' \<noteq> shop_disk \<and> sound_store d' \<and> (\<exists>st. loadState shop_env d' = Inr st)"
proof -
  obtain d' r where add: "AddProfile shop_env shop_c shop_disk = (d', r)" by fastforce
  then have "contents d' = [shop_a, shop_b, shop_c]"
    by (auto simp: AddProfile_def refuse_invalid_def clearStaleSelection_def shop_eval contents_def Let_def)
  then have new: "d' \<noteq> shop_disk" by (auto simp: contents_def shop_disk_def)
  have step: "store_step shop_disk d'" using add by (rule store_step.add)
  then have "store_step\<^sup>*\<^sup>* shop_disk d'" by blast
  from profile_store_always_sound [OF this shop_sound, of shop_env] new step show ?thesis
    by (auto simp: shop_env_def)
qed

lemma replaced_parts:
  "length (filter (\<lambda>p. g p = None) ps) + length (filter (\<lambda>p. g p \<noteq> None \<and> g p \<noteq> Some p) ps) +
     length (filter (\<lambda>p. g p = Some p) ps) = length ps"
  by (induction ps) auto

text \<open>The state that a successful update of a subscription leaves.\<close>

lemma replaced:
  assumes s: "sound_store d" and r: "ReplaceSubscriptionProfiles ev previous fetched d = (d', Inr diff)"
  defines "kept \<equiv> filter (\<lambda>p. pr_id p \<notin> set previous) (contents d) @ fetched"
  shows "check_subscription (map pr_id (contents d)) previous [] fetched = None"
    "diff = subscription_diff (contents d) previous fetched"
    "contents d' = SortStable kept"
    "selection d' = (if selection d \<noteq> [] \<and> profile_map kept (selection d) = None then [] else selection d)"
    "profile_map (contents d') = profile_map kept"
proof -
  from locked_success [OF s r [unfolded ReplaceSubscriptionProfiles_def]] obtain st w where
    st: "sound_state st" "sfl_profiles st = contents d" "sfl_selected st = selection d"
    and f: "(let current = sfl_profiles st in
        case check_subscription (map pr_id current) previous [] fetched of
          Some e \<Rightarrow> Inl e
        | None \<Rightarrow>
            (let kept = filter (\<lambda>p. pr_id p \<notin> set previous) current @ fetched;
                 selected = (if sfl_selected st \<noteq> [] \<and> profileByID kept (sfl_selected st) = None then [] else sfl_selected st) in
             Inr (Some (st\<lparr>sfl_profiles := SortStable kept, sfl_selected := selected\<rparr>),
                  subscription_diff current previous fetched))) = Inr (w, diff)"
    and d': "contents d' = sfl_profiles (case w of None \<Rightarrow> st | Some st' \<Rightarrow> st')"
      "selection d' = sfl_selected (case w of None \<Rightarrow> st | Some st' \<Rightarrow> st')"
    by blast
  from f st(2,3) show c: "check_subscription (map pr_id (contents d)) previous [] fetched = None"
    and "diff = subscription_diff (contents d) previous fetched"
    and new: "contents d' = SortStable kept"
    and "selection d' = (if selection d \<noteq> [] \<and> profile_map kept (selection d) = None then [] else selection d)"
    unfolding d' kept_def by (auto simp: Let_def profileByID_map split: option.splits simp del: keyed_None)
  have "sound_profiles kept" unfolding kept_def by (rule sound_replaced [OF sound_contents [OF s] c])
  then show "profile_map (contents d') = profile_map kept"
    unfolding new by (intro profile_map_SortStable) (simp add: sound_profiles_def)
qed

lemma replaced_map:
  assumes "sound_store d" "ReplaceSubscriptionProfiles ev previous fetched d = (d', Inr diff)"
  shows "profile_map (contents d') i = (case profile_map fetched i of Some p \<Rightarrow> Some p
      | None \<Rightarrow> if i \<in> set previous then None else profile_map (contents d) i)"
proof -
  note sub = subscription_sound [OF replaced(1) [OF assms]]
  have own: "profile_map fetched i = None" if "i \<notin> set previous" "profile_map (contents d) i = Some p" for p
  proof -
    from that(2) have "i \<in> set (map pr_id (contents d))" by (auto dest: keyed_member)
    with sub that(1) have "\<forall>p\<in>set fetched. pr_id p \<noteq> i" by blast
    then show ?thesis by auto
  qed
  then show ?thesis
    unfolding replaced(5) [OF assms] keyed_append keyed_filter [where Q = "\<lambda>j. j \<notin> set previous"]
    by (auto split: option.splits simp del: keyed_None)
qed

lemma replaced_diff:
  assumes "sound_store d" "ReplaceSubscriptionProfiles ev previous fetched d = (d', Inr diff)"
  shows "sud_imported diff + sud_updated diff + sud_unchanged diff = length fetched"
    "sud_removed diff = card {j. (j \<in> set previous \<and> profile_map fetched j = None) \<and> profile_map (contents d) j \<noteq> None}"
  unfolding replaced(2) [OF assms] subscription_diff_def
  using replaced_parts keyed_card [OF profiles.distinct_keys [OF assms(1)],
      where Q = "\<lambda>j. j \<in> set previous \<and> j \<notin> pr_id ` set fetched"]
  by (simp_all add: conj_assoc)

text \<open>Updating a subscription touches nothing it does not own: when it succeeds, the profiles it owned before are replaced by
  the fetched ones, every other profile is as it was, the selection is kept unless its profile is gone, and the reported
  numbers are those of the change.\<close>

theorem subscription_update_exact:
  assumes s: "sound_store d" and r: "ReplaceSubscriptionProfiles ev previous fetched d = (d', Inr diff)"
  shows "(\<forall>i. profile_map (contents d') i =
      (case profile_map fetched i of
         Some p \<Rightarrow> Some p
       | None \<Rightarrow> if i \<in> set previous then None else profile_map (contents d) i)) \<and>
     (\<forall>i. i \<notin> set previous \<and> profile_map (contents d) i \<noteq> None \<longrightarrow>
        profile_map (contents d') i = profile_map (contents d) i) \<and>
     selection d' = (if profile_map (contents d') (selection d) = None then [] else selection d) \<and>
     sud_imported diff + sud_updated diff + sud_unchanged diff = length fetched \<and>
     sud_removed diff = card {j. (j \<in> set previous \<and> profile_map fetched j = None) \<and> profile_map (contents d) j \<noteq> None}"
proof -
  have "profile_map (contents d') i = profile_map (contents d) i"
    if "i \<notin> set previous" "profile_map (contents d) i \<noteq> None" for i
    using that unfolding replaced(5) [OF s r] keyed_append keyed_filter [where Q = "\<lambda>j. j \<notin> set previous"]
    by (auto split: option.splits simp del: keyed_None)
  moreover have "selection d' = (if profile_map (contents d') (selection d) = None then [] else selection d)"
    unfolding replaced(4,5) [OF s r] by (simp del: keyed_None)
  ultimately show ?thesis using replaced_map [OF s r] replaced_diff [OF s r] by blast
qed

theorem subscription_update_exact_witness:
  "\<exists>d' diff. ReplaceSubscriptionProfiles shop_env [''b''] [shop_c] shop_disk = (d', Inr diff) \<and>
     profile_map (contents d') ''a'' = Some shop_a \<and> profile_map (contents d') ''b'' = None \<and>
     profile_map (contents d') ''c'' = Some shop_c \<and> selection d' = [] \<and> sud_removed diff = 1"
proof -
  obtain d' diff where r: "ReplaceSubscriptionProfiles shop_env [''b''] [shop_c] shop_disk = (d', Inr diff)"
    by (simp add: ReplaceSubscriptionProfiles_def shop_eval)
  have c: "profile_map (contents shop_disk) = [''a'' \<mapsto> shop_a, ''b'' \<mapsto> shop_b]" "selection shop_disk = ''b''"
    "profile_map [shop_c] = [''c'' \<mapsto> shop_c]"
    by (auto simp: contents_def selection_def shop_disk_def keyed_def)
  have "{j. (j = ''b'' \<and> j \<noteq> ''c'') \<and> (j = ''a'' \<or> j = ''b'')} = {''b''}" by auto
  with subscription_update_exact [OF shop_sound r] r show ?thesis
    unfolding c by (intro exI [of _ d'] exI [of _ diff]) (auto simp del: keyed_None)
qed

text \<open>What the list shows can be named: the number of a row and the stable identifier, each resolves to the profile of that
  row, whatever the profiles are called.\<close>

theorem listed_rows_resolve:
  assumes s: "sound_store d" and l: "ListProfiles ev d = Inr ps" and n: "n < length ps" and b: "length ps < 2 ^ 63"
  shows "ResolveSelector ev tx (itoa (Suc n)) d = Inr (ps ! n) \<and>
     ResolveSelector ev tx (''id:'' @ pr_id (ps ! n)) d = Inr (ps ! n) \<and>
     GetProfile ev (pr_id (ps ! n)) d = Inr (ps ! n)"
proof -
  from l obtain st where st: "loadState ev d = Inr st" and ps: "ps = SortStable (sfl_profiles st)"
    by (auto simp: ListProfiles_def ListWithSelectedID_def Let_def split: sum.splits)
  from load_sound [OF s st] have sp: "sound_profiles (sfl_profiles st)" by (metis sound_state_def)
  let ?p = "ps ! n"
  from nth_mem [OF n] have "?p \<in> set (sfl_profiles st)" by (simp add: ps)
  with sp have v: "Validate ?p = []" and m: "profile_map (sfl_profiles st) (pr_id ?p) = Some ?p"
    by (simp_all add: sound_profiles_def list_all_iff keyed_Some)
  from n b ps have "resolveProfile tx (sfl_profiles st) (itoa (Suc n)) = Inr ?p" by (simp add: resolve_row)
  moreover from valid_id_plain [OF v] m have "resolveProfile tx (sfl_profiles st) (''id:'' @ pr_id ?p) = Inr ?p"
    unfolding resolve_id [OF conjunct1 [OF valid_id_plain [OF v]]] by simp
  ultimately show ?thesis using m by (simp add: ResolveSelector_def GetProfile_def st profileByID_map)
qed

theorem listed_rows_resolve_witness:
  "ListProfiles shop_env shop_disk = Inr [shop_a, shop_b] \<and>
   ResolveSelector shop_env shop_text ''2'' shop_disk = Inr shop_b \<and>
   ResolveSelector shop_env shop_text ''id:b'' shop_disk = Inr shop_b"
proof -
  have l: "ListProfiles shop_env shop_disk = Inr [shop_a, shop_b]"
    by (simp add: ListProfiles_def ListWithSelectedID_def shop_eval)
  have two: "itoa (Suc 1) = ''2''" by (simp add: itoa.simps [of 2] digit_char_eval numeral_2_eq_2 [symmetric])
  have "(1::nat) < length [shop_a, shop_b]" "length [shop_a, shop_b] < 2 ^ 63" by simp_all
  from listed_rows_resolve [OF shop_sound l this, of shop_text, unfolded two] l show ?thesis by simp
qed

text \<open>A confirmed deletion removes the confirmed profile and nothing else: it succeeds only when the store still holds that very
  profile and the selector still names it; a refused one leaves the file as it was.\<close>

theorem confirmed_delete_exact:
  assumes s: "sound_store d" and r: "DeleteResolved ev tx selector confirmed d = (d', res)"
  shows "(res = Inr () \<longrightarrow>
        profile_map (contents d) (pr_id confirmed) = Some confirmed \<and>
        resolveProfile tx (contents d) selector = Inr confirmed \<and>
        profile_map (contents d') = (profile_map (contents d))(pr_id confirmed := None) \<and>
        selection d' = (if selection d = pr_id confirmed then [] else selection d)) \<and>
     (\<forall>e. res = Inl e \<longrightarrow> d' = d \<or> pse_write ev = Some OperationSyncParentDirectory)"
proof (cases res)
  case (Inl e)
  with r [unfolded DeleteResolved_def] show ?thesis by (auto dest: locked_failure)
next
  case (Inr u)
  then have res: "res = Inr ()" by simp
  from locked_success [OF s r [unfolded DeleteResolved_def res]] obtain st w where
    st: "sound_state st" "sfl_profiles st = contents d" "sfl_selected st = selection d"
    and f: "(case resolveProfile tx (sfl_profiles st) selector of
         Inl e \<Rightarrow> Inl ProfileChanged
       | Inr current \<Rightarrow>
           if current \<noteq> confirmed then Inl ProfileChanged
           else case deleteProfileFromState st (pr_id confirmed) of
             None \<Rightarrow> Inl ProfileChanged
           | Some st' \<Rightarrow> Inr (Some st', ())) = Inr (w, ())"
    and d': "contents d' = sfl_profiles (case w of None \<Rightarrow> st | Some st' \<Rightarrow> st')"
      "selection d' = sfl_selected (case w of None \<Rightarrow> st | Some st' \<Rightarrow> st')"
    by blast
  from f obtain st' where found: "resolveProfile tx (contents d) selector = Inr confirmed"
    and st': "deleteProfileFromState st (pr_id confirmed) = Some st'" "w = Some st'"
    by (auto simp: st(2) split: sum.splits if_splits option.splits)
  from st' have c: "contents d' = SortStable (filter (\<lambda>p. pr_id p \<noteq> pr_id confirmed) (contents d))"
    and sel: "selection d' = (if selection d = pr_id confirmed then [] else selection d)"
    unfolding d' by (auto simp: deleteProfileFromState_def st split: if_splits)
  from c have "profile_map (contents d') = (profile_map (contents d))(pr_id confirmed := None)"
    using profiles.removed [OF s] by (simp add: SortStable_def)
  with found sel resolve_member [OF found] res show ?thesis by (simp add: keyed_Some profiles.distinct_keys [OF s])
qed

theorem confirmed_delete_exact_witness:
  "\<exists>d'. DeleteResolved shop_env shop_text ''id:b'' shop_b shop_disk = (d', Inr ()) \<and>
     profile_map (contents d') ''b'' = None \<and> profile_map (contents d') ''a'' = Some shop_a \<and> selection d' = []"
proof -
  have "resolveProfile shop_text [shop_a, shop_b] ''id:b'' = Inr shop_b"
    using resolve_id [of "''b''" shop_text "[shop_a, shop_b]"] by (simp add: keyed_def)
  then obtain d' where r: "DeleteResolved shop_env shop_text ''id:b'' shop_b shop_disk = (d', Inr ())"
    by (simp add: DeleteResolved_def shop_eval deleteProfileFromState_def)
  have c: "profile_map (contents shop_disk) = [''a'' \<mapsto> shop_a, ''b'' \<mapsto> shop_b]" "selection shop_disk = ''b''"
    by (auto simp: contents_def selection_def shop_disk_def keyed_def)
  from confirmed_delete_exact [OF shop_sound r] r show ?thesis
    unfolding c by (intro exI [of _ d']) (auto simp del: keyed_None)
qed

end
