(* ===== verification/Subscriptions_Facts.thy ===== *)
theory Subscriptions_Facts
  imports Subscriptions Profile_Store_Facts
begin

text \<open>
  What the subscription workflows promise over both files: a run that fails leaves the files as it found them, a run that
  succeeds links the source to the profiles it brought and touches no other, and a deletion takes what the source owns.
\<close>

section \<open>The subscription file\<close>

definition sound_subs :: "source_text \<Rightarrow> sub_disk \<Rightarrow> bool" where
  "sound_subs tx d \<longleftrightarrow>
     (case d of
        None \<Rightarrow> True
      | Some c \<Rightarrow> \<exists>ss. c = SubDoc \<lparr>sub_schema_version = ''v1'', sub_sources = ss\<rparr> \<and>
                        list_all (\<lambda>s. ValidateSource tx s = []) ss \<and> distinct (map src_id ss))"

definition sources :: "sub_disk \<Rightarrow> Source list" where
  "sources d = (case d of Some (SubDoc f) \<Rightarrow> sub_sources f | _ \<Rightarrow> [])"

abbreviation source_map :: "Source list \<Rightarrow> string \<Rightarrow> Source option" where
  "source_map \<equiv> keyed src_id"

interpretation subs: keyed_store "sound_subs tx" sources src_id "\<lambda>s. ValidateSource tx s = []" for tx
  by unfold_locales (auto simp: sound_subs_def sources_def split: option.splits)

lemma check_sources_None:
  "check_sources tx seen ss = None \<longleftrightarrow>
     list_all (\<lambda>s. ValidateSource tx s = []) ss \<and> distinct (map src_id ss) \<and> src_id ` set ss \<inter> set seen = {}"
  by (induction tx seen ss rule: check_sources.induct) auto

lemma sub_load_ok: "sound_subs tx d \<Longrightarrow> \<not> sbe_open ev \<Longrightarrow> sub_load tx ev d = Inr (sources d)"
  by (auto simp: sub_load_def sound_subs_def sources_def check_sources_None split: option.splits)

lemma sub_load_sources: "sub_load tx ev d = Inr ss \<Longrightarrow> sound_subs tx d \<Longrightarrow> ss = sources d \<and> \<not> sbe_open ev"
  by (cases "sbe_open ev") (simp add: sub_load_def, simp add: sub_load_ok)

lemma sub_save_ok: "sub_save ev ss d = (d', None) \<longleftrightarrow>
    sbe_write ev = None \<and> d' = Some (SubDoc \<lparr>sub_schema_version = ''v1'', sub_sources = ss\<rparr>)"
  by (auto simp: sub_save_def WriteFile_def split: option.splits Operation.splits)

lemma sub_save_failed: "sub_save ev ss d = (d', Some e) \<Longrightarrow> d' = d \<or> sbe_write ev = Some OperationSyncParentDirectory"
  by (auto simp: sub_save_def WriteFile_def split: option.splits Operation.splits)

lemma sortSources_sound:
  "list_all P (sortSources ss) \<longleftrightarrow> list_all P ss" "distinct (map src_id (sortSources ss)) \<longleftrightarrow> distinct (map src_id ss)"
  by (simp_all add: sortSources_def list_all_iff)

lemma sound_saved:
  "list_all (\<lambda>s. ValidateSource tx s = []) ss \<Longrightarrow> distinct (map src_id ss) \<Longrightarrow>
     sound_subs tx (Some (SubDoc \<lparr>sub_schema_version = ''v1'', sub_sources = sortSources ss\<rparr>))"
  by (simp add: sound_subs_def sortSources_sound)

lemma sources_saved [simp]: "sources (Some (SubDoc \<lparr>sub_schema_version = v, sub_sources = ss\<rparr>)) = ss"
  by (simp add: sources_def)

text \<open>Replacing the record of a source.\<close>

lemma replace_source_None: "replace_source s ss = None \<longleftrightarrow> src_id s \<notin> src_id ` set ss"
  by (induction ss) auto

lemma replace_source_ids: "replace_source s ss = Some ss' \<Longrightarrow> map src_id ss' = map src_id ss"
  by (induction ss arbitrary: ss') (auto split: if_splits)

lemma replace_source_map: "replace_source s ss = Some ss' \<Longrightarrow> source_map ss' = (source_map ss)(src_id s \<mapsto> s)"
proof (induction ss arbitrary: ss')
  case (Cons x xs)
  then show ?case by (auto simp: keyed_def fun_upd_twist split: if_splits)
qed simp

lemma replace_source_valid:
  "replace_source s ss = Some ss' \<Longrightarrow> P s \<Longrightarrow> list_all P ss \<Longrightarrow> list_all P ss'"
  by (induction ss arbitrary: ss') (auto split: if_splits)

lemma get_source: "sound_subs tx d \<Longrightarrow> GetSource tx ev i d = Inr s \<longleftrightarrow> \<not> sbe_open ev \<and> source_map (sources d) i = Some s"
proof (cases "sbe_open ev")
  case True
  then show ?thesis by (simp add: GetSource_def sub_load_def)
next
  case False
  moreover assume "sound_subs tx d"
  ultimately show ?thesis by (auto simp: GetSource_def sub_load_ok sourceByID_def find_keyed split: option.splits simp del: keyed_None)
qed

lemma added_source:
  assumes "sound_subs tx d" "AddSource tx ev s d = (d', None)"
  shows "sound_subs tx d' \<and> source_map (sources d) (src_id s) = None \<and>
     source_map (sources d') = (source_map (sources d))(src_id s \<mapsto> s)"
proof -
  from assms(2) obtain ss where v: "ValidateSource tx s = []" and l: "sub_load tx ev d = Inr ss"
    and fresh: "src_id s \<notin> src_id ` set ss" and saved: "sub_save ev (sortSources (ss @ [s])) d = (d', None)"
    by (auto simp: AddSource_def split: if_splits sum.splits)
  from sub_load_sources [OF l assms(1)] have ss: "ss = sources d" by simp
  from saved have d': "d' = Some (SubDoc \<lparr>sub_schema_version = ''v1'', sub_sources = sortSources (ss @ [s])\<rparr>)"
    by (simp add: sub_save_ok)
  have "sound_subs tx d'"
    unfolding d' by (rule sound_saved) (use v fresh subs.entries_ok [OF assms(1)] in \<open>auto simp: ss\<close>)
  moreover have "source_map (sources d') = (source_map (sources d))(src_id s \<mapsto> s)"
    using subs.inserted [OF assms(1), of s] fresh by (simp add: d' ss sortSources_def)
  ultimately show ?thesis using fresh ss by simp
qed

lemma updated_source:
  assumes "sound_subs tx d" "UpdateStored tx ev s d = (d', None)"
  shows "sound_subs tx d' \<and> source_map (sources d) (src_id s) \<noteq> None \<and>
     source_map (sources d') = (source_map (sources d))(src_id s \<mapsto> s)"
proof -
  from assms(2) obtain ss ss' where v: "ValidateSource tx s = []" and l: "sub_load tx ev d = Inr ss"
    and r: "replace_source s ss = Some ss'" and saved: "sub_save ev (sortSources ss') d = (d', None)"
    by (auto simp: UpdateStored_def split: if_splits sum.splits option.splits)
  from sub_load_sources [OF l assms(1)] have ss: "ss = sources d" by simp
  from saved have d': "d' = Some (SubDoc \<lparr>sub_schema_version = ''v1'', sub_sources = sortSources ss'\<rparr>)"
    by (simp add: sub_save_ok)
  have dist: "distinct (map src_id ss')"
    using subs.distinct_keys [OF assms(1)] replace_source_ids [OF r] ss by simp
  have "sound_subs tx d'"
    unfolding d'
    by (rule sound_saved [OF replace_source_valid [OF r] dist]) (use v subs.entries_ok [OF assms(1)] ss in auto)
  moreover have "source_map (sources d') = (source_map (sources d))(src_id s \<mapsto> s)"
    using replace_source_map [OF r] dist by (simp add: d' ss sortSources_def keyed_sort)
  moreover have "src_id s \<in> src_id ` set (sources d)" using r replace_source_None [of s ss] ss by auto
  ultimately show ?thesis by auto
qed

lemma deleted_source:
  assumes "sound_subs tx d" "DeleteSource tx ev i d = (d', None)"
  shows "sound_subs tx d' \<and> source_map (sources d') = (source_map (sources d))(i := None)"
proof -
  from assms(2) obtain ss where l: "sub_load tx ev d = Inr ss"
    and saved: "sub_save ev (sortSources (filter (\<lambda>s. src_id s \<noteq> i) ss)) d = (d', None)"
    by (auto simp: DeleteSource_def split: if_splits sum.splits)
  from sub_load_sources [OF l assms(1)] have ss: "ss = sources d" by simp
  from saved have d': "d' = Some (SubDoc \<lparr>sub_schema_version = ''v1'', sub_sources = sortSources (filter (\<lambda>s. src_id s \<noteq> i) ss)\<rparr>)"
    by (simp add: sub_save_ok)
  have "sound_subs tx d'"
    unfolding d' by (rule sound_saved)
      (use subs.entries_ok [OF assms(1)] in \<open>auto simp: ss list_all_iff distinct_map_filter\<close>)
  then show ?thesis using subs.removed [OF assms(1), of i] by (simp add: d' ss sortSources_def)
qed

text \<open>A mutation that fails has not written, unless only the directory could not be synced.\<close>

lemma add_failed: "AddSource tx ev s d = (d', Some e) \<Longrightarrow> d' = d \<or> sbe_write ev = Some OperationSyncParentDirectory"
  by (auto simp: AddSource_def split: if_splits sum.splits dest: sub_save_failed)

lemma delete_failed: "DeleteSource tx ev i d = (d', Some e) \<Longrightarrow> d' = d \<or> sbe_write ev = Some OperationSyncParentDirectory"
  by (auto simp: DeleteSource_def split: if_splits sum.splits dest: sub_save_failed)

section \<open>The workflow\<close>

lemma restore_ok [simp]: "restoreSourceWorkflowFile None snapshot d = (snapshot, True)"
  by (simp add: restoreSourceWorkflowFile_def)

lemma rollbacks [simp]:
  "wfe_restore_profiles ev = None \<Longrightarrow> rollback_profiles ev before e d = (d\<lparr>uf_profiles := uf_profiles before\<rparr>, Inl e)"
  "wfe_restore_subs ev = None \<Longrightarrow> rollback_subs ev before e d = (d\<lparr>uf_subs := uf_subs before\<rparr>, Inl e)"
  "wfe_restore_profiles ev = None \<Longrightarrow> wfe_restore_subs ev = None \<Longrightarrow> rollback_both ev before e d = (before, Inl e)"
  by (simp_all add: rollback_profiles_def rollback_subs_def rollback_both_def rollback_error_def)

lemma rollback_fails [simp]:
  "rollback_profiles ev before e d \<noteq> (d', Inr x)" "rollback_subs ev before e d \<noteq> (d', Inr x)" "rollback_both ev before e d \<noteq> (d', Inr x)"
  by (simp_all add: rollback_profiles_def rollback_subs_def rollback_both_def split: prod.splits)

lemma finish_failed:
  assumes "wfe_restore_profiles ev = None" "wfe_restore_subs ev = None"
    and "finish_workflow tx ev add before prepared diff d = (d', Inl e)"
  shows "d' = before"
  using assms by (auto simp: finish_workflow_def Let_def split: prod.splits option.splits)

lemma apply_failed:
  assumes "wfe_restore_profiles ev = None" "wfe_restore_subs ev = None" "add \<or> d = before" "uf_profiles d = uf_profiles before"
    and "apply_workflow tx ev add previous before prepared d = (d', Inl e)"
  shows "d' = before"
  using assms
  by (auto simp: apply_workflow_def split: prod.splits sum.splits if_splits dest: finish_failed [rotated 2])

text \<open>The step from the applied profiles to the recorded source, when nothing else runs in between.\<close>

lemma locked_contents:
  assumes s: "sound_store d" and r: "locked ev f d = (d', Inr x)"
    and keep: "\<And>st st' y. f st = Inr (Some st', y) \<Longrightarrow> sfl_profiles st' = sfl_profiles st"
  shows "contents d' = contents d"
  using locked_success [OF s r] keep by (metis option.case_eq_if option.collapse)

lemma selected_contents:
  assumes "sound_store d" "select_single ev add ps d = (d', None)"
  shows "contents d' = contents d"
proof -
  have "contents d'' = contents d" if "SelectIfUnset ev0 i d = (d'', Inr b)" for ev0 i d'' b
    by (rule locked_contents [OF assms(1) that [unfolded SelectIfUnset_def]])
      (auto simp: clearStaleSelection_def split: if_splits)
  with assms(2) show ?thesis by (auto simp: select_single_def split: list.splits if_splits prod.splits sum.splits)
qed

lemma finish_done:
  assumes quiet: "wfe_between ev = id"
    and s: "sound_store (uf_profiles d)" "sound_subs tx (uf_subs d)"
    and r: "finish_workflow tx ev add before prepared diff d = (d', Inr res)"
  shows "contents (uf_profiles d') = contents (uf_profiles d) \<and> sound_subs tx (uf_subs d') \<and>
     upr_subscription res = linked_source ev prepared \<and>
     source_map (sources (uf_subs d')) = (source_map (sources (uf_subs d)))(src_id (pps_source prepared) \<mapsto> linked_source ev prepared) \<and>
     source_map (sources (uf_subs d)) (src_id (pps_source prepared)) \<noteq> None \<and>
     upr_imported res + upr_updated res + upr_unchanged res = sud_imported diff + sud_updated diff + sud_unchanged diff \<and>
     upr_removed res = sud_removed diff"
proof -
  from r quiet obtain p sd where sel: "select_single ev add (prs_profiles (pps_parsed prepared)) (uf_profiles d) = (p, None)"
    and u: "UpdateStored tx (wfe_update ev) (linked_source ev prepared) (uf_subs d) = (sd, None)"
    and d': "d' = d\<lparr>uf_profiles := p, uf_subs := sd\<rparr>" and res: "upr_subscription res = linked_source ev prepared"
      "upr_imported res = sud_imported diff" "upr_updated res = sud_updated diff" "upr_unchanged res = sud_unchanged diff"
      "upr_removed res = sud_removed diff"
    by (auto simp: finish_workflow_def Let_def split: prod.splits option.splits)
  have "src_id (linked_source ev prepared) = src_id (pps_source prepared)" by (simp add: linked_source_def)
  with updated_source [OF s(2) u] selected_contents [OF s(1) sel] res show ?thesis by (simp add: d' del: keyed_None)
qed

lemma apply_done:
  assumes quiet: "wfe_between ev = id"
    and s: "sound_store (uf_profiles d)" "sound_subs tx (uf_subs d)"
    and r: "apply_workflow tx ev add previous before prepared d = (d', Inr res)"
  obtains p diff where
    "ReplaceSubscriptionProfiles (wfe_replace ev) previous (prs_profiles (pps_parsed prepared)) (uf_profiles d) = (p, Inr diff)"
    "finish_workflow tx ev add before prepared diff (d\<lparr>uf_profiles := p\<rparr>) = (d', Inr res)" "sound_store p"
proof -
  from r obtain p diff where
    u: "ReplaceSubscriptionProfiles (wfe_replace ev) previous (prs_profiles (pps_parsed prepared)) (uf_profiles d) = (p, Inr diff)"
    and f: "finish_workflow tx ev add before prepared diff (d\<lparr>uf_profiles := p\<rparr>) = (d', Inr res)"
    by (auto simp: apply_workflow_def split: prod.splits sum.splits if_splits)
  have "sound_store p" by (rule step_sound [OF store_step.replace [OF u] s(1)])
  with u f show thesis by (rule that)
qed

lemma refreshed_id [simp]: "src_id (RefreshProviderDisplayName tx s name) = src_id s"
  by (simp add: RefreshProviderDisplayName_def split: option.splits)

section \<open>Deletion\<close>

lemma dropped:
  assumes s: "sound_store d" and r: "DeleteSubscriptionProfiles ev owned d = (d', Inr n)"
  shows "profile_map (contents d') j =
      (case profile_map (contents d) j of
         Some p \<Rightarrow> if owned_by_subscription owned p then None else Some p
       | None \<Rightarrow> None)"
proof -
  have gone: "profile_map (filter (\<lambda>p. \<not> owned_by_subscription owned p) ps) j =
      (case profile_map ps j of Some p \<Rightarrow> if owned_by_subscription owned p then None else Some p | None \<Rightarrow> None)"
    if "distinct (map pr_id ps)" for ps
    using keyed_filter_entry [OF that] by (simp add: option.case_eq_if)
  have same: "profile_map ps j = (case profile_map ps j of Some p \<Rightarrow> if owned_by_subscription owned p then None else Some p
      | None \<Rightarrow> None)" if "list_all (\<lambda>p. \<not> owned_by_subscription owned p) ps" for ps
    using that by (auto simp: list_all_iff split: option.splits dest: keyed_member simp del: keyed_None)
  note dist = profiles.distinct_keys [OF s]
  show ?thesis
  proof (cases "owned = []")
    case True
    with r have "d' = d" by (simp add: DeleteSubscriptionProfiles_def)
    with same [of "contents d"] True show ?thesis by (simp add: owned_by_subscription_def list_all_iff)
  next
    case False
    with r have "locked ev (drop_owned owned) d = (d', Inr n)" by (simp add: DeleteSubscriptionProfiles_def)
    from locked_success [OF s this] obtain st w where st: "sfl_profiles st = contents d"
      and f: "drop_owned owned st = Inr (w, n)" and d': "contents d' = sfl_profiles (case w of None \<Rightarrow> st | Some st' \<Rightarrow> st')"
      by blast
    show ?thesis
    proof (cases w)
      case None
      with f have "list_all (\<lambda>p. \<not> owned_by_subscription owned p) (contents d)"
        by (auto simp: drop_owned_def Let_def st filter_empty_conv list_all_iff split: if_splits)
      with same d' None st show ?thesis by simp
    next
      case (Some st')
      with f have "sfl_profiles st' = SortStable (filter (\<lambda>p. \<not> owned_by_subscription owned p) (contents d))"
        by (auto simp: drop_owned_def Let_def st clearStaleSelection_def split: if_splits)
      with d' Some gone [OF dist] distinct_map_filter [OF dist] show ?thesis by (simp add: SortStable_def keyed_sort)
    qed
  qed
qed

lemma drop_failed:
  "DeleteSubscriptionProfiles ev owned d = (d', Inl e) \<Longrightarrow> d' = d \<or> pse_write ev = Some OperationSyncParentDirectory"
  by (auto simp: DeleteSubscriptionProfiles_def split: if_splits dest: locked_failure)

section \<open>Examples\<close>

definition shop_source_text :: source_text where
  "shop_source_text =
     \<lparr>stx_parse = (\<lambda>_. Some \<lparr>pu_scheme = ''https'', pu_host = ''vpn'', pu_path = []\<rparr>), stx_fallback = (\<lambda>_. ''shop''),
      stx_sanitize = (\<lambda>_. None)\<rparr>"

definition shop_source :: Source where
  "shop_source = \<lparr>src_id = ''shop'', src_name = ''shop'', src_url = ''https://vpn'', src_format = FormatBase64,
     src_profile_ids = [''b''], src_last_updated_at = []\<rparr>"

definition shop_files :: user_files where
  "shop_files = \<lparr>uf_subs = Some (SubDoc \<lparr>sub_schema_version = ''v1'', sub_sources = [shop_source]\<rparr>), uf_profiles = shop_disk\<rparr>"

definition calm_subs :: sub_env where
  "calm_subs = \<lparr>sbe_open = False, sbe_write = None\<rparr>"

definition shop_run :: workflow_env where
  "shop_run = \<lparr>wfe_get = calm_subs, wfe_subs_snapshot = False, wfe_add = calm_subs, wfe_profile_snapshot = False,
     wfe_replace = shop_env, wfe_select = shop_env, wfe_between = id, wfe_hook = None, wfe_now = ''2026-01-01T00:00:00Z'',
     wfe_update = calm_subs, wfe_restore_profiles = None, wfe_restore_subs = None\<rparr>"

definition shop_content :: prepared_content where
  "shop_content = \<lparr>prc_format = FormatURIList, prc_parsed = \<lparr>prs_profiles = [shop_c], prs_unsupported = [], prs_warnings = []\<rparr>,
     prc_provider_name = []\<rparr>"

lemma shop_source_valid: "ValidateSource shop_source_text (shop_source\<lparr>src_format := f, src_profile_ids := owned, src_last_updated_at := t\<rparr>) = []"
  if "f \<in> {FormatBase64, FormatURIList}"
  using that by (auto simp: ValidateSource_def validateSourceURL_def shop_source_def shop_source_text_def format_consts lower_char_def)

lemma shop_files_sound: "sound_store (uf_profiles shop_files)" "sound_subs shop_source_text (uf_subs shop_files)"
  using shop_sound shop_source_valid [where f = FormatBase64 and owned = "[''b'']" and t = "[]"]
  by (simp_all add: shop_files_def sound_subs_def shop_source_def)

lemma shop_get: "GetSource shop_source_text calm_subs ''shop'' (uf_subs shop_files) = Inr shop_source"
  unfolding get_source [OF shop_files_sound(2)]
  by (simp add: calm_subs_def shop_files_def keyed_def shop_source_def)

lemma shop_replaced: "\<exists>p diff. ReplaceSubscriptionProfiles shop_env [''b''] [shop_c] shop_disk = (p, Inr diff)"
  by (simp add: ReplaceSubscriptionProfiles_def shop_eval)

section \<open>Properties\<close>

text \<open>C24: Importing or updating a subscription is all or nothing over both files: when the run fails and the snapshots can be written
  back, the files are those it started from.  The one exception is an import whose record was written but whose
  directory could not be synced: it is reported as failed and the record stays.\<close>

theorem source_workflow_all_or_nothing:
  assumes "runSourceWorkflow tx ev add source previous content d = (d', Inl e)"
    and "wfe_restore_profiles ev = None" "wfe_restore_subs ev = None"
  shows "d' = d \<or>
     (add \<and> sbe_write (wfe_add ev) = Some OperationSyncParentDirectory \<and> uf_profiles d' = uf_profiles d)"
proof (cases "prepareSource tx source content")
  case (Inl x)
  with assms(1) show ?thesis by (simp add: runSourceWorkflow_def)
next
  case (Inr prepared)
  show ?thesis
  proof (cases "wfe_subs_snapshot ev \<or> \<not> add")
    case True
    with Inr assms show ?thesis by (auto simp: runSourceWorkflow_def split: if_splits dest: apply_failed [rotated 4])
  next
    case False
    obtain s r where a: "AddSource tx (wfe_add ev) (pps_source prepared) (uf_subs d) = (s, r)" by fastforce
    show ?thesis
    proof (cases r)
      case None
      with False Inr a assms(1) have "apply_workflow tx ev add previous d prepared (d\<lparr>uf_subs := s\<rparr>) = (d', Inl e)"
        by (simp add: runSourceWorkflow_def)
      from apply_failed [OF assms(2,3) _ _ this] False show ?thesis by simp
    next
      case (Some x)
      with False Inr a assms(1) have "d' = d\<lparr>uf_subs := s\<rparr>" by (simp add: runSourceWorkflow_def)
      with False add_failed [OF a [unfolded Some]] show ?thesis by auto
    qed
  qed
qed

theorem source_workflow_all_or_nothing_witness:
  "\<exists>e. UpdateSource shop_source_text (shop_run\<lparr>wfe_hook := Some ''disk full''\<rparr>) ''shop'' (\<lambda>_. Inr shop_content) shop_files =
     (shop_files, Inl e)"
proof -
  let ?ev = "shop_run\<lparr>wfe_hook := Some ''disk full''\<rparr>"
  obtain p diff where "ReplaceSubscriptionProfiles shop_env [''b''] [shop_c] shop_disk = (p, Inr diff)"
    using shop_replaced by blast
  then obtain d' e where
    r: "runSourceWorkflow shop_source_text ?ev False shop_source [''b''] (Inr shop_content) shop_files = (d', Inl e)"
    by (simp add: runSourceWorkflow_def prepareSource_def shop_content_def shop_run_def apply_workflow_def shop_files_def
        finish_workflow_def select_single_def)
  from source_workflow_all_or_nothing [OF r] have "d' = shop_files" by (simp add: shop_run_def)
  with r shop_get show ?thesis by (simp add: UpdateSource_def shop_run_def) (simp add: shop_source_def)
qed

text \<open>C25: A successful update links the source to what the provider sent: its record lists exactly the identifiers of the fetched
  profiles, each is in the profile store as fetched, the profiles it owned before and that were not fetched again are
  gone, and every other profile and every other source is as it was.\<close>

theorem source_update_links_profiles:
  assumes s: "sound_store (uf_profiles d)" "sound_subs tx (uf_subs d)" and quiet: "wfe_between ev = id"
    and r: "UpdateSource tx ev i content d = (d', Inr res)"
  shows "\<exists>source c. source_map (sources (uf_subs d)) i = Some source \<and> content source = Inr c \<and>
     (let fetched = prs_profiles (prc_parsed c); owned = src_profile_ids source in
      source_map (sources (uf_subs d')) = (source_map (sources (uf_subs d)))(i \<mapsto> upr_subscription res) \<and>
      src_profile_ids (upr_subscription res) = map pr_id fetched \<and>
      (\<forall>p\<in>set fetched. profile_map (contents (uf_profiles d')) (pr_id p) = Some p) \<and>
      (\<forall>j. j \<notin> set (map pr_id fetched) \<longrightarrow> profile_map (contents (uf_profiles d')) j =
         (if j \<in> set owned then None else profile_map (contents (uf_profiles d)) j)) \<and>
      upr_imported res + upr_updated res + upr_unchanged res = length fetched)"
proof -
  from r s(2) obtain source where src: "source_map (sources (uf_subs d)) i = Some source"
    and w: "runSourceWorkflow tx ev False source (src_profile_ids source) (content source) d = (d', Inr res)"
    by (auto simp: UpdateSource_def get_source split: sum.splits)
  from w obtain c prepared where c: "content source = Inr c"
    and p: "prepared = \<lparr>pps_source = RefreshProviderDisplayName tx source (prc_provider_name c), pps_format = prc_format c,
                        pps_parsed = prc_parsed c\<rparr>"
    and a: "apply_workflow tx ev False (src_profile_ids source) d prepared d = (d', Inr res)"
    by (auto simp: runSourceWorkflow_def prepareSource_def split: sum.splits if_splits)
  define fetched where "fetched = prs_profiles (prc_parsed c)"
  have pf: "prs_profiles (pps_parsed prepared) = fetched" "src_id (pps_source prepared) = src_id source"
    by (simp_all add: p fetched_def)
  from keyed_member [OF src] have i: "src_id source = i" by simp
  from apply_done [OF quiet s a] obtain q diff where
    u: "ReplaceSubscriptionProfiles (wfe_replace ev) (src_profile_ids source) fetched (uf_profiles d) = (q, Inr diff)"
    and f: "finish_workflow tx ev False d prepared diff (d\<lparr>uf_profiles := q\<rparr>) = (d', Inr res)" and q: "sound_store q"
    unfolding pf by blast
  note fin = finish_done [OF quiet _ _ f, simplified, OF q s(2)]
  have links: "src_profile_ids (linked_source ev prepared) = map pr_id fetched" by (simp add: linked_source_def pf)
  have cont: "profile_map (contents (uf_profiles d')) j = (case profile_map fetched j of Some p \<Rightarrow> Some p
      | None \<Rightarrow> if j \<in> set (src_profile_ids source) then None else profile_map (contents (uf_profiles d)) j)" for j
    using fin replaced_map [OF s(1) u] by simp
  have "distinct (map pr_id fetched)"
    using subscription_sound [OF replaced(1) [OF s(1) u]] by (simp add: sound_profiles_def)
  then have "profile_map (contents (uf_profiles d')) (pr_id p) = Some p" if "p \<in> set fetched" for p
    using cont [of "pr_id p"] that keyed_Some [of pr_id fetched "pr_id p" p] by simp
  moreover have "profile_map (contents (uf_profiles d')) j =
      (if j \<in> set (src_profile_ids source) then None else profile_map (contents (uf_profiles d)) j)"
    if "j \<notin> set (map pr_id fetched)" for j
  proof -
    from that have "profile_map fetched j = None" by simp
    with cont [of j] show ?thesis by (simp del: keyed_None)
  qed
  moreover have "upr_imported res + upr_updated res + upr_unchanged res = length fetched"
    using fin replaced_diff(1) [OF s(1) u] by simp
  ultimately show ?thesis using src c fin links unfolding Let_def fetched_def [symmetric]
    by (intro exI [of _ source] exI [of _ c]) (simp add: pf i fetched_def [symmetric] del: keyed_None)
qed

theorem source_update_links_profiles_witness:
  "\<exists>d' res. UpdateSource shop_source_text shop_run ''shop'' (\<lambda>_. Inr shop_content) shop_files = (d', Inr res) \<and>
     src_profile_ids (upr_subscription res) = [''c''] \<and> profile_map (contents (uf_profiles d')) ''c'' = Some shop_c \<and>
     profile_map (contents (uf_profiles d')) ''b'' = None \<and> profile_map (contents (uf_profiles d')) ''a'' = Some shop_a"
proof -
  obtain p diff where "ReplaceSubscriptionProfiles shop_env [''b''] [shop_c] shop_disk = (p, Inr diff)"
    using shop_replaced by blast
  moreover have "sub_load shop_source_text calm_subs (uf_subs shop_files) = Inr [shop_source]"
    using sub_load_ok [OF shop_files_sound(2), of calm_subs] by (simp add: calm_subs_def shop_files_def)
  ultimately obtain d' res where
    r: "UpdateSource shop_source_text shop_run ''shop'' (\<lambda>_. Inr shop_content) shop_files = (d', Inr res)"
    using shop_get shop_source_valid [where f = FormatURIList]
    by (simp add: UpdateSource_def runSourceWorkflow_def prepareSource_def shop_content_def shop_run_def apply_workflow_def
        shop_files_def finish_workflow_def select_single_def linked_source_def UpdateStored_def RefreshProviderDisplayName_def
        sub_save_def WriteFile_def calm_subs_def Let_def shop_source_def)
  have "wfe_between shop_run = id" by (simp add: shop_run_def)
  from source_update_links_profiles [OF shop_files_sound this r] r show ?thesis
    by (auto simp: shop_content_def shop_files_def shop_disk_def contents_def keyed_def shop_source_def Let_def
        intro!: exI [of _ d'] exI [of _ res])
qed

text \<open>C39: Deleting a subscription takes its record and the profiles it owns that came from a subscription; no other profile and
  no other source changes, and with \<^verbatim>\<open>--keep-profiles\<close> no profile does.  A run that fails leaves both files as
  they were, provided the snapshot can be written back and no directory failed to sync.\<close>

theorem subscription_delete_exact:
  assumes s: "sound_store (uf_profiles d)" "sound_subs tx (uf_subs d)"
    and r: "runSubscriptionDelete tx ptx ev i d = (d', res)"
  shows "(\<forall>n. res = Inr n \<longrightarrow> (\<exists>source. source_map (sources (uf_subs d)) i = Some source \<and>
        source_map (sources (uf_subs d')) = (source_map (sources (uf_subs d)))(i := None) \<and>
        (\<forall>j. profile_map (contents (uf_profiles d')) j =
          (case profile_map (contents (uf_profiles d)) j of
             Some p \<Rightarrow> if \<not> dle_keep_profiles ev \<and> owned_by_subscription (src_profile_ids source) p then None else Some p
           | None \<Rightarrow> None)))) \<and>
     (\<forall>e. res = Inl e \<longrightarrow> d' = d \<or> dle_restore ev \<noteq> None \<or>
        pse_write (dle_profiles ev) = Some OperationSyncParentDirectory \<or>
        sbe_write (dle_delete ev) = Some OperationSyncParentDirectory)"
proof (cases "GetSource tx (dle_get ev) i (uf_subs d)")
  case (Inl x)
  with r show ?thesis by (auto simp: runSubscriptionDelete_def)
next
  case src: (Inr source)
  with s(2) have m: "source_map (sources (uf_subs d)) i = Some source" by (simp add: get_source)
  then have i: "src_id source = i" by (auto dest: keyed_member)
  show ?thesis
  proof (cases res)
    case (Inl e)
    obtain sd pd where d: "d = \<lparr>uf_subs = sd, uf_profiles = pd\<rparr>" by (cases d) auto
    from Inl r show ?thesis
      by (auto simp: runSubscriptionDelete_def src [unfolded d, simplified] d i Let_def rollback_error_def
          split: if_splits sum.splits prod.splits option.splits dest: delete_failed drop_failed)
  next
    case (Inr n)
    obtain sd where del: "DeleteSource tx (dle_delete ev) i (uf_subs d) = (sd, None)" and sd: "uf_subs d' = sd"
      and p: "if dle_keep_profiles ev then uf_profiles d' = uf_profiles d
        else DeleteSubscriptionProfiles (dle_profiles ev) (src_profile_ids source) (uf_profiles d) = (uf_profiles d', Inr n)"
      using r Inr
      by (auto simp: runSubscriptionDelete_def src i Let_def split: if_splits sum.splits prod.splits option.splits)
    have "profile_map (contents (uf_profiles d')) j =
        (case profile_map (contents (uf_profiles d)) j of
           Some p \<Rightarrow> if \<not> dle_keep_profiles ev \<and> owned_by_subscription (src_profile_ids source) p then None else Some p
         | None \<Rightarrow> None)" for j
      using p dropped [OF s(1), of _ "src_profile_ids source" "uf_profiles d'" n j]
      by (cases "dle_keep_profiles ev") (simp_all add: option.case_eq_if del: keyed_None)
    with m deleted_source [OF s(2) del] Inr show ?thesis unfolding sd by blast
  qed
qed

definition shop_delete :: delete_env where
  "shop_delete = \<lparr>dle_get = calm_subs, dle_yes = True, dle_confirmed = False, dle_keep_profiles = False, dle_list = calm_subs,
     dle_count = shop_env, dle_snapshot = False, dle_profiles = shop_env, dle_hook = None, dle_delete = calm_subs, dle_restore = None\<rparr>"

theorem subscription_delete_exact_witness:
  "\<exists>d' n. runSubscriptionDelete shop_source_text shop_text shop_delete ''shop'' shop_files = (d', Inr n) \<and>
     source_map (sources (uf_subs d')) ''shop'' = None \<and> profile_map (contents (uf_profiles d')) ''b'' = None \<and>
     profile_map (contents (uf_profiles d')) ''a'' = Some shop_a"
proof -
  have l: "sub_load shop_source_text calm_subs (uf_subs shop_files) = Inr [shop_source]"
    using sub_load_ok [OF shop_files_sound(2), of calm_subs] by (simp add: calm_subs_def shop_files_def)
  have i: "src_id shop_source = ''shop''" "src_profile_ids shop_source = [''b'']" by (simp_all add: shop_source_def)
  have "\<exists>k. CountUnlinkedProfilesMatchingSubscriptionServers shop_env shop_text [''b''] [] shop_disk = Inr k"
    by (simp add: CountUnlinkedProfilesMatchingSubscriptionServers_def shop_load Let_def)
  moreover have "\<exists>p k. DeleteSubscriptionProfiles shop_env [''b''] shop_disk = (p, Inr k)"
    by (simp add: DeleteSubscriptionProfiles_def drop_owned_def owned_by_subscription_def shop_eval Let_def)
  ultimately obtain d' n where
    r: "runSubscriptionDelete shop_source_text shop_text shop_delete ''shop'' shop_files = (d', Inr n)"
    using shop_get l i
    by (auto simp: runSubscriptionDelete_def shop_delete_def subscriptionProfileIDsReferencedByOtherSources_def ListSources_def
        sortSources_def shop_files_def DeleteSource_def sub_save_def WriteFile_def calm_subs_def Let_def)
  have c: "profile_map (contents (uf_profiles shop_files)) = [''a'' \<mapsto> shop_a, ''b'' \<mapsto> shop_b]"
    "source_map (sources (uf_subs shop_files)) = [''shop'' \<mapsto> shop_source]" "dle_keep_profiles shop_delete = False"
    by (auto simp: shop_files_def shop_disk_def contents_def sources_def keyed_def i shop_delete_def)
  from subscription_delete_exact [OF shop_files_sound r] r show ?thesis
    unfolding c by (intro exI [of _ d'] exI [of _ n]) (auto simp: i owned_by_subscription_def shop_a_def shop_profile_def
        profile_consts simp del: keyed_None)
qed

section \<open>What a failed run can do to others\<close>

text \<open>The rollback writes the old bytes back without the lock of the profile store: a profile that another process added and saw
  accepted while the workflow ran is gone after the workflow failed.\<close>

definition shop_other :: "user_files \<Rightarrow> user_files" where
  "shop_other f = f\<lparr>uf_profiles := fst (AddProfile shop_env shop_c (uf_profiles f))\<rparr>"

theorem rollback_discards_concurrent_profile:
  "\<exists>e added. AddProfile shop_env shop_c (uf_profiles shop_files) = (added, Inr ()) \<and>
     profile_map (contents added) ''c'' = Some shop_c \<and>
     runSourceWorkflow shop_source_text (shop_run\<lparr>wfe_between := shop_other, wfe_update := calm_subs\<lparr>sbe_open := True\<rparr>\<rparr>) False shop_source []
       (Inr (shop_content\<lparr>prc_parsed := \<lparr>prs_profiles = [], prs_unsupported = [], prs_warnings = []\<rparr>\<rparr>)) shop_files =
       (shop_files, Inl e) \<and>
     profile_map (contents (uf_profiles shop_files)) ''c'' = None"
proof -
  have "AddProfile shop_env shop_c shop_disk =
      (Some (StoreDoc \<lparr>sfl_schema_version = ''v1'', sfl_profiles = [shop_a, shop_b, shop_c], sfl_selected = ''b''\<rparr>), Inr ())"
    by (simp add: AddProfile_def refuse_invalid_def clearStaleSelection_def shop_eval Let_def)
  moreover have "\<exists>p diff. ReplaceSubscriptionProfiles shop_env [] [] shop_disk = (p, Inr diff)"
    by (simp add: ReplaceSubscriptionProfiles_def shop_eval Let_def)
  ultimately show ?thesis
    by (auto simp: runSourceWorkflow_def prepareSource_def shop_content_def shop_run_def apply_workflow_def shop_files_def
        finish_workflow_def select_single_def contents_def keyed_def Let_def UpdateStored_def sub_load_def split: prod.splits, simp_all add: shop_disk_def)
qed

text \<open>An import whose record was renamed into place but whose directory could not be synced fails without a rollback: the
  record stays.\<close>

theorem unsynced_import_keeps_record:
  "\<exists>d' e. runSourceWorkflow shop_source_text (shop_run\<lparr>wfe_add := calm_subs\<lparr>sbe_write := Some OperationSyncParentDirectory\<rparr>\<rparr>) True
       shop_source [] (Inr shop_content) \<lparr>uf_subs = None, uf_profiles = None\<rparr> = (d', Inl e) \<and>
     source_map (sources (uf_subs d')) ''shop'' = Some shop_source"
proof -
  have "ValidateSource shop_source_text shop_source = []"
    using shop_source_valid [where f = FormatBase64 and owned = "[''b'']" and t = "[]"] by (simp add: shop_source_def)
  then show ?thesis
    by (simp add: runSourceWorkflow_def prepareSource_def shop_content_def shop_run_def AddSource_def sub_load_def
        RefreshProviderDisplayName_def calm_subs_def sub_save_def WriteFile_def sources_def sortSources_def keyed_def)
      (simp add: shop_source_def)
qed

end
