(* ===== verification/Snapshot_Netlink.thy ===== *)
theory Snapshot_Netlink
  imports Snapshot
begin

text \<open>
  The evidence that the allocation of a session rests on, read from the kernel over rtnetlink:
  \<^verbatim>\<open>src/internal/network/snapshot/tun_allocation_netlink_linux.go\<close> and \<^verbatim>\<open>tun_allocation_retry.go\<close>.

  The package \<^verbatim>\<open>vishvananda/netlink\<close> and the kernel are the argument: what each call of one attempt returns.  The types below
  carry the fields of its values that the code reads; \<^verbatim>\<open>net.IPNet\<close> is its two byte slices.
\<close>

section \<open>What the kernel reports\<close>

record ip_net =
  ipn_ip :: "8 word list"
  ipn_mask :: "8 word list"

record netlink_addr =
  nla_net :: "ip_net option"

record netlink_route =
  nlr_table :: int
  nlr_type :: int
  nlr_link_index :: int
  nlr_dst :: "ip_net option"

record netlink_rule =
  nlu_table :: int
  nlu_priority :: int
  nlu_mark :: "32 word"
  nlu_mask :: "32 word option"

datatype netlink_link = Vrf string "32 word" | OtherLink string

datatype netlink_error = ErrDumpInterrupted | OtherNetlinkError string

text \<open>One attempt: whether the context is done at each of its checks, the handle, and the four dumps.\<close>

record netlink_attempt =
  nat_done :: "nat \<Rightarrow> bool"
  nat_open_fails :: bool
  nat_timeout_fails :: bool
  nat_addrs :: "netlink_error + netlink_addr list"
  nat_routes :: "netlink_error + netlink_route list"
  nat_rules :: "netlink_error + netlink_rule list"
  nat_links :: "netlink_error + netlink_link list"

datatype collect_error =
    ContextDone
  | OpenHandle
  | ConfigureTimeout
  | DumpInterrupted string
  | DumpFailed string string
  | MissingPrefix
  | NonIPv4Prefix
  | InvalidMask
  | InvalidRouteTable int
  | InvalidRouteType int
  | InvalidLinkIndex int
  | InvalidRuleTable int
  | InvalidRulePriority int
  | VrfWithoutTable string
  | InterruptedDumps nat
  | UnreachableRetry

section \<open>Prefixes\<close>

text \<open>\<^verbatim>\<open>net.IP.To4\<close> and \<^verbatim>\<open>net.IPMask.Size\<close>: the number of leading ones and of bits, or 0 and 0 when a one follows a zero.\<close>

definition to4 :: "8 word list \<Rightarrow> 8 word list option" where
  "to4 ip =
     (if length ip = 4 then Some ip
      else if length ip = 16 \<and> list_all (\<lambda>b. b = 0) (take 10 ip) \<and> ip ! 10 = 255 \<and> ip ! 11 = 255 then Some (drop 12 ip)
      else None)"

definition byte_bits :: "8 word \<Rightarrow> bool list" where
  "byte_bits b = map (\<lambda>i. bit b (7 - i)) [0..<8]"

definition mask_size :: "8 word list \<Rightarrow> nat \<times> nat" where
  "mask_size m =
     (let bits = concat (map byte_bits m) in
      if list_all Not (dropWhile id bits) then (length (takeWhile id bits), 8 * length m) else (0, 0))"

definition ipv4PrefixFromIPNet :: "ip_net option \<Rightarrow> bool \<Rightarrow> collect_error + prefix" where
  "ipv4PrefixFromIPNet network maskNetwork =
     (case network of
        None \<Rightarrow> Inl MissingPrefix
      | Some n \<Rightarrow>
          (case to4 (ipn_ip n) of
             None \<Rightarrow> Inl NonIPv4Prefix
           | Some ipv4 \<Rightarrow>
               (let (ones, bits) = mask_size (ipn_mask n);
                    prefix = Prefix (IP4 (of_nat (of_bytes (map unat ipv4)))) ones in
                if bits \<noteq> 32 then Inl InvalidMask
                else Inr (if maskNetwork then prefix_masked prefix else prefix))))"

section \<open>The conversion\<close>

definition prefix_bits :: "prefix \<Rightarrow> nat" where
  "prefix_bits p = (case p of NoPrefix \<Rightarrow> 0 | Prefix a n \<Rightarrow> n)"

definition convert_netlink_route :: "netlink_route \<Rightarrow> collect_error + TunAllocationRoute" where
  "convert_netlink_route r =
     (if nlr_table r \<le> 0 \<or> 2 ^ 32 \<le> nlr_table r then Inl (InvalidRouteTable (nlr_table r))
      else if nlr_type r < 0 \<or> 255 < nlr_type r then Inl (InvalidRouteType (nlr_type r))
      else if nlr_link_index r < 0 then Inl (InvalidLinkIndex (nlr_link_index r))
      else
        (let converted = (\<lambda>default destination. \<lparr>ar_destination = destination, ar_default = default,
               ar_table = of_int (nlr_table r), ar_type = nlr_type r, ar_link_index = nlr_link_index r\<rparr>) in
         case nlr_dst r of
           None \<Rightarrow> Inr (converted True NoPrefix)
         | Some dst \<Rightarrow>
             rbind (ipv4PrefixFromIPNet (Some dst) True) (\<lambda>prefix.
               Inr (if prefix_bits prefix = 0 then converted True NoPrefix else converted False prefix))))"

definition defaultKernelPolicyRuleNumeric :: "32 word \<Rightarrow> 32 word \<Rightarrow> bool" where
  "defaultKernelPolicyRuleNumeric priority table =
     (if priority = 0 then table = 255
      else if priority = 32766 then table = 254
      else if priority = 32767 then table = 253
      else False)"

text \<open>A rule the kernel has from the start is left out.\<close>

definition convert_netlink_rule :: "netlink_rule \<Rightarrow> collect_error + TunAllocationRule option" where
  "convert_netlink_rule r =
     (if nlu_table r < 0 \<or> 2 ^ 32 \<le> nlu_table r then Inl (InvalidRuleTable (nlu_table r))
      else if nlu_priority r < 0 \<or> 2 ^ 32 \<le> nlu_priority r then Inl (InvalidRulePriority (nlu_priority r))
      else
        (let priority = of_int (nlu_priority r); table = of_int (nlu_table r) in
         if defaultKernelPolicyRuleNumeric priority table then Inr None
         else Inr (Some
           \<lparr>al_priority = priority, al_table = table, al_has_mark = (nlu_mark r \<noteq> 0 \<or> nlu_mask r \<noteq> None), al_mark = nlu_mark r,
            al_mark_mask = (case nlu_mask r of Some mk \<Rightarrow> mk | None \<Rightarrow> if nlu_mark r \<noteq> 0 then - 1 else 0)\<rparr>)))"

fun reserved_tables :: "32 word list \<Rightarrow> netlink_link list \<Rightarrow> collect_error + 32 word list" where
  "reserved_tables seen [] = Inr []"
| "reserved_tables seen (OtherLink name # links) = reserved_tables seen links"
| "reserved_tables seen (Vrf name table # links) =
     (if table = 0 then Inl (VrfWithoutTable name)
      else if table \<in> set seen then reserved_tables seen links
      else rbind (reserved_tables (table # seen) links) (\<lambda>ts. Inr (table # ts)))"

definition tunAllocationEvidenceFromNetlink ::
  "netlink_addr list \<Rightarrow> netlink_route list \<Rightarrow> netlink_rule list \<Rightarrow> netlink_link list \<Rightarrow> collect_error + TunAllocationEvidence" where
  "tunAllocationEvidenceFromNetlink addresses routes rules links =
     rbind (map_result (\<lambda>a. ipv4PrefixFromIPNet (nla_net a) False) addresses) (\<lambda>prefixes.
     rbind (map_result convert_netlink_route routes) (\<lambda>converted.
     rbind (map_result convert_netlink_rule rules) (\<lambda>marked.
     rbind (reserved_tables [] links) (\<lambda>reserved.
       Inr \<lparr>te_addresses = prefixes, te_routes = converted, te_rules = List.map_filter id marked,
            te_reserved_tables = reserved\<rparr>))))"

section \<open>Collecting\<close>

text \<open>Durations are nanoseconds; \<open>remaining\<close> is the time to the deadline of the context, if it has one.\<close>

definition netlinkTimeoutForContext :: "int option \<Rightarrow> int" where
  "netlinkTimeoutForContext remaining =
     (let timeout = (case remaining of
          None \<Rightarrow> 3000000000
        | Some t \<Rightarrow> if 0 < t \<and> t < 3000000000 then t else 3000000000) in
      if timeout < 1000 then 1000 else timeout)"

definition tunAllocationNetlinkError :: "string \<Rightarrow> netlink_error \<Rightarrow> collect_error" where
  "tunAllocationNetlinkError operation e =
     (case e of ErrDumpInterrupted \<Rightarrow> DumpInterrupted operation | OtherNetlinkError t \<Rightarrow> DumpFailed operation t)"

definition dumped :: "bool \<Rightarrow> string \<Rightarrow> netlink_error + 'a \<Rightarrow> collect_error + 'a" where
  "dumped expired operation r =
     (case r of
        Inl e \<Rightarrow> Inl (tunAllocationNetlinkError operation e)
      | Inr x \<Rightarrow> if expired then Inl ContextDone else Inr x)"

definition collectTunAllocationEvidenceOnce :: "netlink_attempt \<Rightarrow> collect_error + TunAllocationEvidence" where
  "collectTunAllocationEvidenceOnce a =
     (if nat_done a 0 then Inl ContextDone
      else if nat_open_fails a then Inl OpenHandle
      else if nat_timeout_fails a then Inl ConfigureTimeout
      else
        rbind (dumped (nat_done a 1) ''dump IPv4 addresses'' (nat_addrs a)) (\<lambda>addresses.
        rbind (dumped (nat_done a 2) ''dump IPv4 routes'' (nat_routes a)) (\<lambda>routes.
        rbind (dumped (nat_done a 3) ''dump IPv4 policy rules'' (nat_rules a)) (\<lambda>rules.
        rbind (dumped (nat_done a 4) ''dump links for reserved routing tables'' (nat_links a)) (\<lambda>links.
          tunAllocationEvidenceFromNetlink addresses routes rules links)))))"

definition tunAllocationDumpAttempts :: nat where
  "tunAllocationDumpAttempts = 3"

text \<open>Attempts that were interrupted are dropped and repeated, three in all.  \<open>expired\<close> is the context before each.\<close>

fun retry_dump :: "(nat \<Rightarrow> bool) \<Rightarrow> (nat \<Rightarrow> collect_error + TunAllocationEvidence) \<Rightarrow> nat list \<Rightarrow> collect_error + TunAllocationEvidence" where
  "retry_dump expired dump [] = Inl UnreachableRetry"
| "retry_dump expired dump (attempt # later) =
     (if expired attempt then Inl ContextDone
      else case dump attempt of
        Inr evidence \<Rightarrow> Inr evidence
      | Inl (DumpInterrupted operation) \<Rightarrow>
          if attempt = tunAllocationDumpAttempts then Inl (InterruptedDumps attempt) else retry_dump expired dump later
      | Inl e \<Rightarrow> Inl e)"

definition retryTunAllocationEvidenceDump ::
  "(nat \<Rightarrow> bool) \<Rightarrow> (nat \<Rightarrow> collect_error + TunAllocationEvidence) \<Rightarrow> collect_error + TunAllocationEvidence" where
  "retryTunAllocationEvidenceDump expired dump = retry_dump expired dump [1..<Suc tunAllocationDumpAttempts]"

definition CollectTunAllocationEvidence ::
  "(nat \<Rightarrow> bool) \<Rightarrow> (nat \<Rightarrow> netlink_attempt) \<Rightarrow> collect_error + TunAllocationEvidence" where
  "CollectTunAllocationEvidence expired attempts =
     retryTunAllocationEvidenceDump expired (\<lambda>n. collectTunAllocationEvidenceOnce (attempts n))"

end
