(* ===== verification/Snapshot_Netlink_Facts.thy ===== *)
theory Snapshot_Netlink_Facts
  imports Snapshot_Netlink Tun_Resources
begin

text \<open>
  From the dump of the kernel to the allocation of a session: the evidence comes from one complete dump, and what is
  allocated from it is free on the host that the dump describes, with addresses, masks and marks read the way
  the kernel reads them.
\<close>

unbundle bit_operations_syntax

section \<open>Networks as words\<close>

definition word4 :: "8 word list \<Rightarrow> 32 word" where
  "word4 bs = of_nat (of_bytes (map unat bs))"

text \<open>A network of the dump holds an address when they agree in every bit that the mask selects.\<close>

definition covers :: "ip_net \<Rightarrow> 32 word \<Rightarrow> bool" where
  "covers n x \<longleftrightarrow> (\<exists>ip. to4 (ipn_ip n) = Some ip \<and> (word4 ip XOR x) AND word4 (ipn_mask n) = 0)"

lemma four_bytes: "length bs = 4 \<Longrightarrow> \<exists>a b c d. bs = [a, b, c, d]"
  by (auto simp: numeral_eq_Suc length_Suc_conv)

lemma word4_or:
  "word4 [a, b, c, d] = push_bit 24 (ucast a) OR push_bit 16 (ucast b) OR push_bit 8 (ucast c) OR ucast d"
proof -
  have u: "of_nat (unat w) = (ucast w :: 32 word)" for w :: "8 word" by simp
  have "word4 [a, b, c, d] = push_bit 24 (ucast a) + (push_bit 16 (ucast b) + (push_bit 8 (ucast c) + ucast d))"
    by (simp add: word4_def of_bytes_def push_bit_eq_mult u algebra_simps)
  also have "push_bit 8 (ucast c) + ucast d = (push_bit 8 (ucast c) OR ucast d :: 32 word)"
    by (rule disjunctive_add) (auto simp: bit_simps dest: bit_imp_le_length)
  also have "push_bit 16 (ucast b) + (push_bit 8 (ucast c) OR ucast d) =
      (push_bit 16 (ucast b) OR push_bit 8 (ucast c) OR ucast d :: 32 word)"
    by (subst disjunctive_add) (auto simp: bit_simps or.assoc dest!: bit_imp_le_length)
  also have "push_bit 24 (ucast a) + (push_bit 16 (ucast b) OR push_bit 8 (ucast c) OR ucast d) =
      (push_bit 24 (ucast a) OR push_bit 16 (ucast b) OR push_bit 8 (ucast c) OR ucast d :: 32 word)"
    by (subst disjunctive_add) (auto simp: bit_simps or.assoc dest!: bit_imp_le_length)
  finally show ?thesis .
qed

lemma byte_high: "8 \<le> n \<Longrightarrow> \<not> bit (w :: 8 word) n"
  using bit_imp_le_length [of w n] by auto

lemma bit_word4_byte:
  assumes "r < 8"
  shows "bit (word4 [a, b, c, d]) (31 - r) \<longleftrightarrow> bit a (7 - r)" "bit (word4 [a, b, c, d]) (23 - r) \<longleftrightarrow> bit b (7 - r)"
    "bit (word4 [a, b, c, d]) (15 - r) \<longleftrightarrow> bit c (7 - r)" "bit (word4 [a, b, c, d]) (7 - r) \<longleftrightarrow> bit d (7 - r)"
  using assms by (auto simp add: word4_or bit_or_iff bit_push_bit_iff bit_ucast_iff byte_high)

lemma nth_byte_bits: "r < 8 \<Longrightarrow> byte_bits w ! r \<longleftrightarrow> bit w (7 - r)" "length (byte_bits w) = 8"
  by (simp_all add: byte_bits_def)

lemma bit_word4:
  assumes "length bs = 4" "k < 32"
  shows "bit (word4 bs) (31 - k) \<longleftrightarrow> concat (map byte_bits bs) ! k"
proof -
  obtain a b c d where bs: "bs = [a, b, c, d]" using four_bytes [OF assms(1)] by blast
  have shift: "k < 8 \<or> (\<exists>r<8. k = 8 + r) \<or> (\<exists>r<8. k = 16 + r) \<or> (\<exists>r<8. k = 24 + r)"
    using assms(2) by presburger
  have "bit (word4 bs) (31 - k) \<longleftrightarrow> concat (map byte_bits bs) ! k" if "k = 8 + r" "r < 8" for r
    using that bit_word4_byte(2) [OF that(2), of a b c d] by (simp add: bs nth_append nth_byte_bits)
  moreover have "bit (word4 bs) (31 - k) \<longleftrightarrow> concat (map byte_bits bs) ! k" if "k = 16 + r" "r < 8" for r
    using that bit_word4_byte(3) [OF that(2), of a b c d] by (simp add: bs nth_append nth_byte_bits)
  moreover have "bit (word4 bs) (31 - k) \<longleftrightarrow> concat (map byte_bits bs) ! k" if "k = 24 + r" "r < 8" for r
    using that bit_word4_byte(4) [OF that(2), of a b c d] by (simp add: bs nth_append nth_byte_bits)
  moreover have "bit (word4 bs) (31 - k) \<longleftrightarrow> concat (map byte_bits bs) ! k" if "k < 8"
    using that bit_word4_byte(1) [OF that, of a b c d] by (simp add: bs nth_append nth_byte_bits)
  ultimately show ?thesis using shift by blast
qed

text \<open>A mask of four bytes that \<^verbatim>\<open>Size\<close> accepts selects the leading bits and no others.\<close>

lemma prefix_list: "list_all Not (dropWhile id xs) \<Longrightarrow> k < length xs \<Longrightarrow> xs ! k \<longleftrightarrow> k < length (takeWhile id xs)"
proof (induction xs arbitrary: k)
  case (Cons x xs)
  then show ?case by (cases x; cases k) (auto simp: list_all_length)
qed simp

lemma mask_bits:
  assumes "mask_size m = (n, 32)"
  shows "n \<le> 32" "j < 32 \<Longrightarrow> bit (word4 m) j \<longleftrightarrow> 32 - n \<le> j"
proof -
  let ?bits = "concat (map byte_bits m)"
  from assms have ok: "list_all Not (dropWhile id ?bits)" and n: "n = length (takeWhile id ?bits)" and m: "length m = 4"
    by (auto simp: mask_size_def Let_def split: if_splits)
  have l: "length ?bits = 32" using m by (auto simp: length_concat nth_byte_bits o_def sum_list_triv)
  show "n \<le> 32" using length_takeWhile_le [of id ?bits] l n by simp
  assume j: "j < 32"
  then have "bit (word4 m) (31 - (31 - j)) \<longleftrightarrow> ?bits ! (31 - j)" by (intro bit_word4 [OF m]) simp
  also have "\<dots> \<longleftrightarrow> 31 - j < n" using prefix_list [OF ok, of "31 - j"] l n j by simp
  finally show "bit (word4 m) j \<longleftrightarrow> 32 - n \<le> j" using j by auto
qed

lemma word_high: "32 \<le> j \<Longrightarrow> \<not> bit (w :: 32 word) j"
  using bit_imp_le_length [of w j] by auto

lemma in4_bits: "in4 p n x \<longleftrightarrow> (\<forall>j<32. 32 - n \<le> j \<longrightarrow> bit p j = bit x j)"
proof
  assume "in4 p n x"
  then have "bit (drop_bit (32 - n) p) i = bit (drop_bit (32 - n) x) i" for i by (simp add: in4_def)
  then have "bit p (32 - n + i) = bit x (32 - n + i)" for i by (simp add: bit_drop_bit_eq)
  then show "\<forall>j<32. 32 - n \<le> j \<longrightarrow> bit p j = bit x j" by (metis le_add_diff_inverse)
next
  assume same: "\<forall>j<32. 32 - n \<le> j \<longrightarrow> bit p j = bit x j"
  have "bit p (32 - n + i) = bit x (32 - n + i)" for i
    using same word_high [of "32 - n + i"] by (cases "32 - n + i < 32") auto
  then show "in4 p n x" unfolding in4_def by (intro bit_word_eqI) (simp add: bit_drop_bit_eq)
qed

lemma covers_contains:
  assumes "to4 (ipn_ip n) = Some ip" "mask_size (ipn_mask n) = (ones, 32)"
  shows "prefix_contains (Prefix (IP4 (word4 ip)) ones) (IP4 x) \<longleftrightarrow> covers n x"
proof -
  note m = mask_bits [OF assms(2)]
  have "covers n x \<longleftrightarrow> (\<forall>j<32. 32 - ones \<le> j \<longrightarrow> bit (word4 ip) j = bit x j)"
    using m(2) by (auto simp: covers_def assms(1) bit_eq_iff bit_and_iff bit_xor_iff dest: bit_imp_le_length)
  then show ?thesis using m(1) by (simp add: prefix_contains_def in4_bits)
qed

lemma in4_masked: "in4 (mask4 w n) n x \<longleftrightarrow> in4 w n x"
  unfolding in4_bits by (auto simp: mask4_def bit_push_bit_iff bit_drop_bit_eq)

lemma net_prefix:
  assumes "ipv4PrefixFromIPNet (Some n) masked = Inr p"
  shows "prefix_contains p (IP4 x) \<longleftrightarrow> covers n x" "prefix_bits p = 0 \<Longrightarrow> word4 (ipn_mask n) = 0"
proof -
  from assms obtain ip ones where ip: "to4 (ipn_ip n) = Some ip" and ones: "mask_size (ipn_mask n) = (ones, 32)"
    and p: "p = (if masked then prefix_masked (Prefix (IP4 (word4 ip)) ones) else Prefix (IP4 (word4 ip)) ones)"
    by (auto simp: ipv4PrefixFromIPNet_def word4_def Let_def split: option.splits prod.splits if_splits)
  show "prefix_contains p (IP4 x) \<longleftrightarrow> covers n x"
    using covers_contains [OF ip ones, of x] by (simp add: p prefix_masked_def prefix_contains_def in4_masked)
  assume "prefix_bits p = 0"
  then have "ones = 0" by (simp add: p prefix_bits_def prefix_masked_def split: if_splits)
  with mask_bits(2) [OF ones] show "word4 (ipn_mask n) = 0" by (intro bit_word_eqI) auto
qed

section \<open>Routes, rules and reserved tables\<close>

lemma uint_of_table: "0 \<le> t \<Longrightarrow> t < 2 ^ 32 \<Longrightarrow> uint (of_int t :: 32 word) = t"
  by (simp add: uint_word_of_int_eq take_bit_int_eq_self)

lemma route_converted:
  assumes "convert_netlink_route r = Inr c"
  shows "uint (ar_table c) = nlr_table r"
    "nlr_dst r = Some n \<Longrightarrow> word4 (ipn_mask n) \<noteq> 0 \<Longrightarrow> \<not> ar_default c \<and> (prefix_contains (ar_destination c) (IP4 x) \<longleftrightarrow> covers n x)"
proof -
  from assms show "uint (ar_table c) = nlr_table r"
    by (auto simp: convert_netlink_route_def Let_def rbind_Inr_iff uint_of_table split: if_splits option.splits)
  assume n: "nlr_dst r = Some n" and m: "word4 (ipn_mask n) \<noteq> 0"
  from assms n obtain p where p: "ipv4PrefixFromIPNet (Some n) True = Inr p"
    and c: "ar_default c = (prefix_bits p = 0)" "\<not> ar_default c \<Longrightarrow> ar_destination c = p"
    by (auto simp: convert_netlink_route_def Let_def rbind_Inr_iff split: if_splits)
  from net_prefix(2) [OF p] m c show "\<not> ar_default c \<and> (prefix_contains (ar_destination c) (IP4 x) \<longleftrightarrow> covers n x)"
    by (auto simp: net_prefix(1) [OF p])
qed

text \<open>The three rules of a fresh kernel, and the mask the kernel applies for a rule.\<close>

definition kernel_default :: "netlink_rule \<Rightarrow> bool" where
  "kernel_default r \<longleftrightarrow> (nlu_priority r, nlu_table r) \<in> {(0, 255), (32766, 254), (32767, 253)}"

definition kernel_mask :: "netlink_rule \<Rightarrow> 32 word" where
  "kernel_mask r = (case nlu_mask r of Some m \<Rightarrow> m | None \<Rightarrow> if nlu_mark r \<noteq> 0 then - 1 else 0)"

lemma of_int_eq_small: "0 \<le> t \<Longrightarrow> t < 2 ^ 32 \<Longrightarrow> 0 \<le> k \<Longrightarrow> k < 2 ^ 32 \<Longrightarrow> (of_int t :: 32 word) = of_int k \<longleftrightarrow> t = k"
  by (metis uint_of_table)

lemma rule_converted:
  assumes "convert_netlink_rule r = Inr c"
  shows "c = None \<longleftrightarrow> kernel_default r"
    "c = Some rule \<Longrightarrow> uint (al_priority rule) = nlu_priority r \<and> uint (al_table rule) = nlu_table r \<and>
       al_mark rule = nlu_mark r \<and> al_mark_mask rule = kernel_mask r"
    "c = None \<Longrightarrow> nlu_table r \<in> {253, 254, 255}"
proof -
  from assms have t: "0 \<le> nlu_table r" "nlu_table r < 2 ^ 32" "0 \<le> nlu_priority r" "nlu_priority r < 2 ^ 32"
    by (auto simp: convert_netlink_rule_def split: if_splits)
  have "defaultKernelPolicyRuleNumeric (of_int (nlu_priority r)) (of_int (nlu_table r)) \<longleftrightarrow> kernel_default r"
    using of_int_eq_small [OF t(3,4), of 0] of_int_eq_small [OF t(3,4), of 32766] of_int_eq_small [OF t(3,4), of 32767]
      of_int_eq_small [OF t(1,2), of 255] of_int_eq_small [OF t(1,2), of 254] of_int_eq_small [OF t(1,2), of 253]
    by (auto simp: defaultKernelPolicyRuleNumeric_def kernel_default_def)
  with assms t show d: "c = None \<longleftrightarrow> kernel_default r"
    by (auto simp: convert_netlink_rule_def Let_def split: if_splits)
  from assms t show "c = Some rule \<Longrightarrow> uint (al_priority rule) = nlu_priority r \<and> uint (al_table rule) = nlu_table r \<and>
       al_mark rule = nlu_mark r \<and> al_mark_mask rule = kernel_mask r"
    by (auto simp: convert_netlink_rule_def Let_def uint_of_table kernel_mask_def split: if_splits)
  from d show "c = None \<Longrightarrow> nlu_table r \<in> {253, 254, 255}" by (auto simp: kernel_default_def)
qed

lemma reserved_complete: "reserved_tables seen links = Inr ts \<Longrightarrow> Vrf name t \<in> set links \<Longrightarrow> t \<in> set seen \<or> t \<in> set ts"
  by (induction seen links arbitrary: ts rule: reserved_tables.induct) (auto simp: rbind_Inr_iff split: if_splits)

section \<open>One complete dump\<close>

lemma retry_origin: "retry_dump expired dump ks = Inr ev \<Longrightarrow> \<exists>k\<in>set ks. dump k = Inr ev"
  by (induction ks) (auto split: if_splits sum.splits collect_error.splits)

lemma dumped_Inr [simp]: "dumped b operation r = Inr x \<longleftrightarrow> \<not> b \<and> r = Inr x"
  by (auto simp: dumped_def split: sum.splits)

lemma collected:
  assumes "CollectTunAllocationEvidence expired attempts = Inr ev"
  obtains k addrs routes rules links where "k \<in> {1..3}" "nat_addrs (attempts k) = Inr addrs" "nat_routes (attempts k) = Inr routes"
    "nat_rules (attempts k) = Inr rules" "nat_links (attempts k) = Inr links"
    "tunAllocationEvidenceFromNetlink addrs routes rules links = Inr ev"
proof -
  from assms have "\<exists>k\<in>set [1..<Suc tunAllocationDumpAttempts]. collectTunAllocationEvidenceOnce (attempts k) = Inr ev"
    unfolding CollectTunAllocationEvidence_def retryTunAllocationEvidenceDump_def by (rule retry_origin)
  then obtain k where k: "k \<in> set [1..<Suc tunAllocationDumpAttempts]" and once: "collectTunAllocationEvidenceOnce (attempts k) = Inr ev"
    by blast
  from k have "k \<in> {1..3}" unfolding tunAllocationDumpAttempts_def set_upt atLeastLessThan_iff atLeastAtMost_iff by linarith
  with once show thesis by (auto simp: collectTunAllocationEvidenceOnce_def rbind_Inr_iff split: if_splits intro: that)
qed

text \<open>What the evidence says of the dump.\<close>

lemma converted_member: "list_all2 P xs ys \<Longrightarrow> x \<in> set xs \<Longrightarrow> \<exists>y\<in>set ys. P x y"
  by (induction rule: list_all2_induct) auto

lemma evidence_complete:
  assumes "tunAllocationEvidenceFromNetlink addrs routes rules links = Inr ev"
  shows "x \<in> set addrs \<Longrightarrow> \<exists>n p. nla_net x = Some n \<and> p \<in> set (te_addresses ev) \<and> (\<forall>y. prefix_contains p (IP4 y) \<longleftrightarrow> covers n y)"
    "r \<in> set routes \<Longrightarrow> \<exists>c\<in>set (te_routes ev). convert_netlink_route r = Inr c"
    "u \<in> set rules \<Longrightarrow> \<exists>c. convert_netlink_rule u = Inr c \<and> (\<forall>rule. c = Some rule \<longrightarrow> rule \<in> set (te_rules ev))"
    "Vrf name t \<in> set links \<Longrightarrow> t \<in> set (te_reserved_tables ev)"
proof -
  from assms obtain ps cs ms ts where ps: "list_all2 (\<lambda>a p. ipv4PrefixFromIPNet (nla_net a) False = Inr p) addrs ps"
    and cs: "list_all2 (\<lambda>r c. convert_netlink_route r = Inr c) routes cs"
    and ms: "list_all2 (\<lambda>r c. convert_netlink_rule r = Inr c) rules ms" and ts: "reserved_tables [] links = Inr ts"
    and ev: "ev = \<lparr>te_addresses = ps, te_routes = cs, te_rules = List.map_filter id ms, te_reserved_tables = ts\<rparr>"
    by (auto simp: tunAllocationEvidenceFromNetlink_def rbind_Inr_iff map_result_Inr)
  show "\<exists>n p. nla_net x = Some n \<and> p \<in> set (te_addresses ev) \<and> (\<forall>y. prefix_contains p (IP4 y) \<longleftrightarrow> covers n y)" if "x \<in> set addrs"
  proof -
    from converted_member [OF ps that] obtain p where p: "p \<in> set ps" "ipv4PrefixFromIPNet (nla_net x) False = Inr p" by blast
    then obtain n where "nla_net x = Some n" by (auto simp: ipv4PrefixFromIPNet_def split: option.splits)
    with p net_prefix(1) [of n False p] show ?thesis by (auto simp: ev)
  qed
  show "\<exists>c\<in>set (te_routes ev). convert_netlink_route r = Inr c" if "r \<in> set routes"
    using converted_member [OF cs that] by (simp add: ev)
  show "\<exists>c. convert_netlink_rule u = Inr c \<and> (\<forall>rule. c = Some rule \<longrightarrow> rule \<in> set (te_rules ev))" if "u \<in> set rules"
  proof -
    from converted_member [OF ms that] obtain c where "c \<in> set ms" "convert_netlink_rule u = Inr c" by blast
    then show ?thesis by (auto simp: ev List.map_filter_def intro: rev_image_eqI)
  qed
  show "t \<in> set (te_reserved_tables ev)" if "Vrf name t \<in> set links" using reserved_complete [OF ts that] by (simp add: ev)
qed

section \<open>Properties\<close>

text \<open>C6: What a session is given is free on the host: the evidence stems from one dump that was not interrupted, and against
  everything in that dump the new address lies in no network of an address or of a route (but the default routes),
  the new table is in no route, no rule and no VRF, both priorities come before every rule but the three of a
  fresh kernel, and no rule that looks at marks selects the new mark.\<close>

theorem allocation_free_on_host:
  assumes ev: "CollectTunAllocationEvidence expired attempts = Inr ev" and a: "AllocateTunResources ev = Inr a"
  shows "\<exists>k\<in>{1..3}. \<exists>addrs routes rules links.
     nat_addrs (attempts k) = Inr addrs \<and> nat_routes (attempts k) = Inr routes \<and>
     nat_rules (attempts k) = Inr rules \<and> nat_links (attempts k) = Inr links \<and>
     (\<exists>host\<in>{1..254}. ra_cidr a = ip4_text (host_addr host) @ ''/32'' \<and>
        (\<forall>x\<in>set addrs. \<exists>n. nla_net x = Some n \<and> \<not> covers n (host_addr host)) \<and>
        (\<forall>r\<in>set routes. \<forall>n. nlr_dst r = Some n \<and> word4 (ipn_mask n) \<noteq> 0 \<longrightarrow> \<not> covers n (host_addr host))) \<and>
     (\<forall>r\<in>set routes. nlr_table r \<noteq> ra_table a) \<and> (\<forall>r\<in>set rules. nlu_table r \<noteq> ra_table a) \<and>
     (\<forall>name t. Vrf name t \<in> set links \<longrightarrow> uint t \<noteq> ra_table a) \<and>
     1 \<le> ra_server_priority a \<and> ra_server_priority a < ra_tunnel_priority a \<and>
     (\<forall>r\<in>set rules. \<not> kernel_default r \<longrightarrow> ra_tunnel_priority a < nlu_priority r \<and>
        (kernel_mask r \<noteq> 0 \<longrightarrow> (ra_mark a XOR nlu_mark r) AND kernel_mask r \<noteq> 0))"
proof -
  from collected [OF ev] obtain k addrs routes rules links where k: "k \<in> {1..3}" and dump:
    "nat_addrs (attempts k) = Inr addrs" "nat_routes (attempts k) = Inr routes"
    "nat_rules (attempts k) = Inr rules" "nat_links (attempts k) = Inr links"
    and conv: "tunAllocationEvidenceFromNetlink addrs routes rules links = Inr ev"
    by blast
  note full = evidence_complete [OF conv]
  note free = allocation_collision_free [OF a, unfolded collision_free_def]
  from free obtain host where host: "host \<in> {1..254}" "ra_cidr a = ip4_text (host_addr host) @ ''/32''"
    and h: "\<And>p. p \<in> set (te_addresses ev) \<Longrightarrow> \<not> prefix_contains p (IP4 (host_addr host))"
      "\<And>r. r \<in> set (te_routes ev) \<Longrightarrow> \<not> ar_default r \<Longrightarrow> \<not> prefix_contains (ar_destination r) (IP4 (host_addr host))"
    by blast
  have 1: "\<exists>n. nla_net x = Some n \<and> \<not> covers n (host_addr host)" if "x \<in> set addrs" for x
    using full(1) [OF that] h(1) by blast
  have 2: "\<not> covers n (host_addr host)" if "r \<in> set routes" "nlr_dst r = Some n" "word4 (ipn_mask n) \<noteq> 0" for r n
    using full(2) [OF that(1)] h(2) route_converted(2) [OF _ that(2,3)] by blast
  have 3: "nlr_table r \<noteq> ra_table a" if "r \<in> set routes" for r
    using full(2) [OF that] free route_converted(1) by metis
  have 4: "nlu_table r \<noteq> ra_table a" "\<not> kernel_default r \<Longrightarrow> ra_tunnel_priority a < nlu_priority r"
    "\<not> kernel_default r \<Longrightarrow> kernel_mask r \<noteq> 0 \<Longrightarrow> (ra_mark a XOR nlu_mark r) AND kernel_mask r \<noteq> 0"
    if "r \<in> set rules" for r
  proof -
    from full(3) [OF that] obtain c where c: "convert_netlink_rule r = Inr c" "\<And>rule. c = Some rule \<Longrightarrow> rule \<in> set (te_rules ev)"
      by blast
    note conv = rule_converted [OF c(1)]
    show "nlu_table r \<noteq> ra_table a" using conv(2,3) c(2) free by (cases c) auto
    assume "\<not> kernel_default r"
    with conv(1) obtain rule where rule: "c = Some rule" by auto
    from conv(2) [OF this] c(2) [OF rule] free show "ra_tunnel_priority a < nlu_priority r" by auto
    assume "kernel_mask r \<noteq> 0"
    with conv(2) [OF rule] c(2) [OF rule] free show "(ra_mark a XOR nlu_mark r) AND kernel_mask r \<noteq> 0"
      by (auto simp: fwmark_selects_def)
  qed
  have 5: "uint t \<noteq> ra_table a" if "Vrf name t \<in> set links" for name t using full(4) [OF that] free by blast
  have 6: "1 \<le> ra_server_priority a" "ra_server_priority a < ra_tunnel_priority a" using free by auto
  show ?thesis
    by (rule bexI [OF _ k], intro exI conjI, rule dump, rule dump, rule dump, rule dump)
      (use host 1 2 3 4 5 6 in blast)+
qed

definition demo_net :: "8 word \<Rightarrow> ip_net" where
  "demo_net host = \<lparr>ipn_ip = [198, 18, 0, host], ipn_mask = [255, 255, 255, 255]\<rparr>"

text \<open>The first dump is interrupted, the second is complete.\<close>

definition demo_dump :: "nat \<Rightarrow> netlink_attempt" where
  "demo_dump k =
     \<lparr>nat_done = (\<lambda>_. False), nat_open_fails = False, nat_timeout_fails = False,
      nat_addrs = Inr [\<lparr>nla_net = Some (demo_net 1)\<rparr>],
      nat_routes = (if k = 1 then Inl ErrDumpInterrupted else Inr
        [\<lparr>nlr_table = 254, nlr_type = 1, nlr_link_index = 2, nlr_dst = None\<rparr>,
         \<lparr>nlr_table = 51820, nlr_type = 1, nlr_link_index = 2, nlr_dst = Some (demo_net 2)\<rparr>]),
      nat_rules = Inr [\<lparr>nlu_table = 255, nlu_priority = 0, nlu_mark = 0, nlu_mask = None\<rparr>,
        \<lparr>nlu_table = 51821, nlu_priority = 9000, nlu_mark = 20570, nlu_mask = Some 0\<rparr>],
      nat_links = Inr [OtherLink ''eth0'', Vrf ''blue'' 51822]\<rparr>"

lemma demo_net_prefix:
  "ipv4PrefixFromIPNet (Some (demo_net 1)) masked = Inr (Prefix (IP4 (host_addr 1)) 32)"
  "ipv4PrefixFromIPNet (Some (demo_net 2)) masked = Inr (Prefix (IP4 (host_addr 2)) 32)"
proof -
  have b: "byte_bits 255 = replicate 8 True" by (simp add: byte_bits_def upt_rec bit_simps numeral_eq_Suc)
  have m: "mask_size [255, 255, 255, 255] = (32, 32)" by (simp add: mask_size_def b numeral_eq_Suc)
  have f: "mask4 w 32 = w" for w by (simp add: mask4_def)
  show "ipv4PrefixFromIPNet (Some (demo_net 1)) masked = Inr (Prefix (IP4 (host_addr 1)) 32)"
    "ipv4PrefixFromIPNet (Some (demo_net 2)) masked = Inr (Prefix (IP4 (host_addr 2)) 32)"
    by (simp_all add: ipv4PrefixFromIPNet_def demo_net_def to4_def m of_bytes_def host_addr_def prefix_masked_def f Let_def)
qed

lemma demo_collected: "CollectTunAllocationEvidence (\<lambda>_. False) demo_dump = Inr demo_evidence"
proof -
  have "collectTunAllocationEvidenceOnce (demo_dump 1) = Inl (DumpInterrupted ''dump IPv4 routes'')"
    by (simp add: collectTunAllocationEvidenceOnce_def demo_dump_def dumped_def tunAllocationNetlinkError_def result_simps)
  moreover have "collectTunAllocationEvidenceOnce (demo_dump 2) = Inr demo_evidence"
    by (simp add: collectTunAllocationEvidenceOnce_def demo_dump_def dumped_def result_simps tunAllocationEvidenceFromNetlink_def
        demo_net_prefix convert_netlink_route_def convert_netlink_rule_def prefix_bits_def defaultKernelPolicyRuleNumeric_def
        demo_evidence_def List.map_filter_def)
  ultimately show ?thesis
    by (simp add: CollectTunAllocationEvidence_def retryTunAllocationEvidenceDump_def tunAllocationDumpAttempts_def upt_rec
        numeral_2_eq_2 [symmetric])
qed

theorem allocation_free_on_host_witness:
  "\<exists>a. AllocateTunResources demo_evidence = Inr a \<and> ra_table a = 51823 \<and>
     (\<exists>k\<in>{1..3}. \<exists>links. nat_links (demo_dump k) = Inr links \<and> (\<forall>name t. Vrf name t \<in> set links \<longrightarrow> uint t \<noteq> ra_table a))"
proof -
  from allocation_free_on_host [OF demo_collected demo_allocation] obtain k links where "k \<in> {1..3}"
    "nat_links (demo_dump k) = Inr links" "\<forall>name t. Vrf name t \<in> set links \<longrightarrow> uint t \<noteq> 51823"
    by (elim bexE exE conjE) simp
  with demo_allocation show ?thesis by (intro exI conjI bexI) (assumption | simp)+
qed

end
