(* ===== verification/Snapshot_Collect.thy ===== *)
theory Snapshot_Collect
  imports Dns_Executor
begin

text \<open>
  Collecting the snapshot of a host: \<^verbatim>\<open>src/internal/network/snapshot/collect.go\<close> and \<^verbatim>\<open>policy_rules.go\<close>, the
  commands that are run, the parsers of their output and the findings they are turned into.

  A run asks each question once, so the answers of the host are a function of the command; the resolver and
  \<^verbatim>\<open>strconv.Quote\<close> are parameters too.  The status parser of systemd-resolved is in \<open>Dns_Executor\<close>.
\<close>

section \<open>Commands\<close>

record snap_result =
  sres_stdout :: string
  sres_stderr :: string
  sres_exit :: int

type_synonym snap_outcome = "snap_result \<times> string option"

record runner =
  rnr_lookpath :: "string \<Rightarrow> string option"
  rnr_run :: "string \<Rightarrow> string list \<Rightarrow> snap_outcome"

record snap_options =
  sopt_server :: string
  sopt_tun_names :: "string list"
  sopt_os :: string
  sopt_resolve :: "string \<Rightarrow> string + string list"
  sopt_quote :: "string \<Rightarrow> string"

definition DefaultRouteTableID :: string where
  "DefaultRouteTableID = ''51820''"

definition finding :: "Status \<Rightarrow> string \<Rightarrow> Finding" where
  "finding status summary = \<lparr>fd_status = status, fd_summary = summary, fd_detail = []\<rparr>"

definition findingWithDetail :: "Status \<Rightarrow> string \<Rightarrow> string \<Rightarrow> Finding" where
  "findingWithDetail status summary detail = \<lparr>fd_status = status, fd_summary = summary, fd_detail = detail\<rparr>"

definition commandSucceeded :: "snap_outcome \<Rightarrow> bool" where
  "commandSucceeded r = (snd r = None \<and> sres_exit (fst r) = 0)"

definition snap_resourceMissing :: "snap_outcome \<Rightarrow> bool" where
  "snap_resourceMissing r =
     (sres_exit (fst r) \<noteq> 0 \<and>
      text_contains_any (sres_stdout (fst r) @ '' '' @ sres_stderr (fst r))
        [''does not exist'', ''cannot find device'', ''no such file or directory'', ''no such table'', ''no such process''])"

definition snap_commandFailureMessage :: "snap_outcome \<Rightarrow> string" where
  "snap_commandFailureMessage o1 =
     (case o1 of (r, err) \<Rightarrow>
        (let parts = (if 0 \<le> sres_exit r then [''exit code '' @ itoa_int (sres_exit r)] else []) @
               (if sres_stderr r \<noteq> [] then [''stderr: '' @ singleLine (sres_stderr r)] else []) @
               (case err of Some e \<Rightarrow> if sres_stderr r = [] then [e] else [] | None \<Rightarrow> []) in
         if parts = [] then ''command failed'' else join '', '' parts))"

text \<open>The lines a parser looks at, and the pairs of neighbouring fields from an index on.\<close>

definition text_lines :: "string \<Rightarrow> string list" where
  "text_lines output = filter (\<lambda>l. l \<noteq> []) (map trim_space (split_on (CHR 0x0A) output))"

definition firstNonEmptyLine :: "string \<Rightarrow> string" where
  "firstNonEmptyLine s = (case text_lines s of [] \<Rightarrow> [] | l # _ \<Rightarrow> l)"

definition field_pairs :: "nat \<Rightarrow> string list \<Rightarrow> (string \<times> string) list" where
  "field_pairs i fs = zip (drop i fs) (drop (Suc i) fs)"

definition appendUniqueStrings :: "string list \<Rightarrow> string list \<Rightarrow> string list" where
  "appendUniqueStrings values added =
     foldl (\<lambda>out v0. let v = trim_space v0 in if v = [] \<or> v \<in> set out then out else out @ [v]) values added"

section \<open>Addresses and routes\<close>

definition parse_address_line :: "string \<Rightarrow> unit + IPAddress" where
  "parse_address_line line =
     (let fs = Prelude.fields line in
      if length fs < 4 \<or> trim_suffix (fs ! 0) '':'' = [] \<or> fs ! 2 \<noteq> ''inet'' then Inl ()
      else
        (let iface = hd (split_on CHR ''@'' (trim_suffix (fs ! 1) '':'')); cidr = trim_space (fs ! 3) in
         case parse_cidr cidr of
           None \<Rightarrow> Inl ()
         | Some (ip, _) \<Rightarrow>
             if \<not> is4 ip \<or> iface = [] then Inl ()
             else Inr \<lparr>ia_family = ''ipv4'', ia_interface = iface, ia_cidr = cidr,
                       ia_scope = (case find (\<lambda>p. fst p = ''scope'') (field_pairs 4 fs) of Some p \<Rightarrow> snd p | None \<Rightarrow> []),
                       ia_raw = line\<rparr>))"

definition ParseIPv4Addresses :: "string \<Rightarrow> unit + IPAddress list" where
  "ParseIPv4Addresses output = map_result parse_address_line (text_lines output)"

definition MainRouteTable :: "string list \<Rightarrow> string" where
  "MainRouteTable fs = (case find (\<lambda>p. fst p = ''table'') (field_pairs 0 fs) of Some p \<Rightarrow> snd p | None \<Rightarrow> ''main'')"

definition isRouteType :: "string \<Rightarrow> bool" where
  "isRouteType v =
     (v \<in> {''local'', ''broadcast'', ''unreachable'', ''blackhole'', ''prohibit'', ''throw'', ''nat'', ''multicast'', ''anycast''})"

definition route_field :: "Route \<Rightarrow> string \<times> string \<Rightarrow> Route" where
  "route_field r p =
     (if fst p = ''dev'' then r\<lparr>rt_interface := hd (split_on CHR ''@'' (snd p))\<rparr>
      else if fst p = ''via'' then r\<lparr>rt_gateway := snd p\<rparr>
      else if fst p = ''table'' then r\<lparr>rt_table := snd p\<rparr>
      else r)"

definition empty_route :: Route where
  "empty_route = \<lparr>rt_status = StatusUnset, rt_family = [], rt_destination = [], rt_table = [], rt_interface = [],
     rt_gateway = [], rt_raw = [], rt_detail = []\<rparr>"

definition route_destination :: "string \<Rightarrow> string option" where
  "route_destination destination =
     (if destination = ''default'' then Some destination
      else if case_option False is4 (parse_ip destination) then Some (destination @ ''/32'')
      else case parse_cidr destination of
        None \<Rightarrow> None
      | Some (ip, _) \<Rightarrow> if is4 ip then Some destination else None)"

definition parse_route_line :: "string \<Rightarrow> unit + Route" where
  "parse_route_line line =
     (let fs = Prelude.fields line; i = (if isRouteType (hd fs) then 1 else 0) in
      if length fs \<le> i then Inl ()
      else case route_destination (fs ! i) of
        None \<Rightarrow> Inl ()
      | Some destination \<Rightarrow>
          Inr (foldl route_field (empty_route\<lparr>rt_status := StatusDetected, rt_family := ''ipv4'', rt_destination := destination,
                 rt_table := MainRouteTable fs, rt_raw := line\<rparr>) (field_pairs (Suc i) fs)))"

definition ParseIPv4Routes :: "string \<Rightarrow> unit + Route list" where
  "ParseIPv4Routes output =
     map_result parse_route_line (filter (\<lambda>l. Prelude.fields l \<noteq> []) (text_lines output))"

definition ipv4Addresses :: "runner \<Rightarrow> string \<Rightarrow> IPAddressInventory" where
  "ipv4Addresses rn ip =
     (let r = rnr_run rn ip [''-4'', ''-o'', ''address'', ''show''] in
      if \<not> commandSucceeded r then
        \<lparr>iv_inspection = findingWithDetail StatusUnknown ''IPv4 address inventory unavailable'' (snap_commandFailureMessage r),
         iv_addresses = []\<rparr>
      else case ParseIPv4Addresses (sres_stdout (fst r)) of
        Inl e \<Rightarrow> \<lparr>iv_inspection = findingWithDetail StatusUnknown ''IPv4 address inventory malformed''
                   ''invalid IPv4 address inventory line'', iv_addresses = []\<rparr>
      | Inr as \<Rightarrow> \<lparr>iv_inspection = finding StatusDetected ''IPv4 address inventory available'', iv_addresses = as\<rparr>)"

definition ipv4Routes :: "runner \<Rightarrow> string \<Rightarrow> RouteInventory" where
  "ipv4Routes rn ip =
     (let r = rnr_run rn ip [''-4'', ''-o'', ''route'', ''show'', ''table'', ''all''] in
      if \<not> commandSucceeded r then
        \<lparr>ri_inspection = findingWithDetail StatusUnknown ''IPv4 route inventory unavailable'' (snap_commandFailureMessage r),
         ri_routes = []\<rparr>
      else case ParseIPv4Routes (sres_stdout (fst r)) of
        Inl e \<Rightarrow> \<lparr>ri_inspection = findingWithDetail StatusUnknown ''IPv4 route inventory malformed''
                   ''invalid IPv4 route inventory line'', ri_routes = []\<rparr>
      | Inr rs \<Rightarrow> \<lparr>ri_inspection = finding StatusDetected ''IPv4 route inventory available'', ri_routes = rs\<rparr>)"

definition missingRoute :: "string \<Rightarrow> string \<Rightarrow> string \<Rightarrow> Route" where
  "missingRoute family destination detail =
     empty_route\<lparr>rt_status := StatusMissing, rt_family := family, rt_destination := destination, rt_detail := detail\<rparr>"

definition parseRouteLine :: "string \<Rightarrow> string \<Rightarrow> string \<Rightarrow> Route" where
  "parseRouteLine line family destination =
     foldl (\<lambda>r p. if fst p = ''dev'' then r\<lparr>rt_interface := snd p\<rparr> else if fst p = ''via'' then r\<lparr>rt_gateway := snd p\<rparr> else r)
       (empty_route\<lparr>rt_status := StatusDetected, rt_family := family, rt_destination := destination, rt_raw := line\<rparr>)
       (field_pairs 0 (Prelude.fields line))"

definition snap_route :: "runner \<Rightarrow> string \<Rightarrow> string \<Rightarrow> string \<Rightarrow> string list \<Rightarrow> Route" where
  "snap_route rn ip family destination args =
     (let r = rnr_run rn ip args in
      if commandSucceeded r then
        (let line = firstNonEmptyLine (sres_stdout (fst r)) in
         if line = [] then missingRoute family destination ''route not found'' else parseRouteLine line family destination)
      else if snap_resourceMissing r then missingRoute family destination (snap_commandFailureMessage r)
      else empty_route\<lparr>rt_status := StatusUnknown, rt_family := family, rt_destination := destination,
             rt_detail := snap_commandFailureMessage r\<rparr>)"

text \<open>The first IPv4 address wins over an earlier one that is not.\<close>

fun choose_resolved :: "string \<Rightarrow> string list \<Rightarrow> string" where
  "choose_resolved first [] = first"
| "choose_resolved first (h # hs) =
     (case parse_ip (trim_space h) of
        None \<Rightarrow> choose_resolved first hs
      | Some a \<Rightarrow>
          if is4 a then ip_text a else choose_resolved (if first = [] then ip_text a else first) hs)"

definition chooseResolvedIP :: "string list \<Rightarrow> string" where
  "chooseResolvedIP hosts = choose_resolved [] hosts"

definition routeTarget :: "snap_options \<Rightarrow> string \<Rightarrow> string + (string \<times> string)" where
  "routeTarget opts server =
     (if parse_ip server \<noteq> None then Inr (server, [])
      else case sopt_resolve opts server of
        Inl e \<Rightarrow> Inl (''resolve server hostname '' @ sopt_quote opts server @ '': '' @ e)
      | Inr hosts \<Rightarrow>
          (let ip = chooseResolvedIP hosts in
           if ip = [] then Inl (''resolve server hostname '' @ sopt_quote opts server @ '': no IP addresses returned'')
           else Inr (ip, ''server hostname '' @ server @ '' resolved to '' @ ip)))"

definition serverRoute :: "runner \<Rightarrow> string \<Rightarrow> string \<Rightarrow> snap_options \<Rightarrow> Route" where
  "serverRoute rn ip server opts =
     (if server = [] then
        empty_route\<lparr>rt_status := StatusUnknown, rt_destination := ''server'', rt_detail := ''profile server is empty''\<rparr>
      else case routeTarget opts server of
        Inl e \<Rightarrow> empty_route\<lparr>rt_status := StatusUnknown, rt_destination := server, rt_detail := e\<rparr>
      | Inr (target, detail) \<Rightarrow>
          (let r = snap_route rn ip [] server [''route'', ''get'', target] in
           if detail = [] then r
           else r\<lparr>rt_detail := (if rt_detail r = [] then detail else detail @ ''; '' @ rt_detail r)\<rparr>))"

definition availabilityFromDefaultRoute :: "string \<Rightarrow> Route \<Rightarrow> Finding" where
  "availabilityFromDefaultRoute label r =
     (case rt_status r of
        StatusDetected \<Rightarrow> finding StatusDetected (label @ '' default route detected'')
      | StatusMissing \<Rightarrow> findingWithDetail StatusMissing (label @ '' default route missing'') (rt_detail r)
      | StatusUnsupported \<Rightarrow> findingWithDetail StatusUnsupported (label @ '' route inspection unsupported'') (rt_detail r)
      | _ \<Rightarrow> findingWithDetail StatusUnknown (label @ '' route state unknown'') (rt_detail r))"

section \<open>Policy rules\<close>

definition policyRuleSelector :: "string \<Rightarrow> string \<Rightarrow> string" where
  "policyRuleSelector from0 to0 =
     (let f = trim_space from0; t = trim_space to0 in
      if t \<noteq> [] then (if f \<noteq> [] \<and> f \<noteq> ''all'' then ''from '' @ f @ '' to '' @ t else ''to '' @ t)
      else if f \<noteq> [] then ''from '' @ f
      else [])"

definition canonicalKernelRoutingTableID :: "string \<Rightarrow> string" where
  "canonicalKernelRoutingTableID table =
     (let t = trim_space table in
      if t \<in> {''local'', ''255''} then ''255''
      else if t \<in> {''main'', ''254''} then ''254''
      else if t \<in> {''default'', ''253''} then ''253''
      else t)"

definition defaultKernelPolicyRule :: "nat \<Rightarrow> string \<Rightarrow> bool" where
  "defaultKernelPolicyRule priority table0 =
     (let table = canonicalKernelRoutingTableID table0 in
      if priority = 0 then table = ''255''
      else if priority = 32766 then table = ''254''
      else if priority = 32767 then table = ''253''
      else False)"

definition empty_signal :: PolicyRoutingSignal where
  "empty_signal = \<lparr>ps_sig_kind = [], ps_sig_priority = [], ps_sig_selector = [], ps_sig_table = [], ps_sig_fwmark = [],
     ps_sig_interface = [], ps_sig_raw = []\<rparr>"

text \<open>The last value of a keyword counts.\<close>

definition last_value :: "string list \<Rightarrow> (string \<times> string) list \<Rightarrow> string" where
  "last_value keys ps = foldl (\<lambda>v p. if fst p \<in> set keys then snd p else v) [] ps"

definition parse_rule_line :: "string \<Rightarrow> unit + PolicyRoutingSignal option" where
  "parse_rule_line line =
     (let fs = Prelude.fields line; priorityText = trim_suffix (hd fs) '':''; ps = field_pairs 1 fs in
      case parse_uint10 32 priorityText of
        None \<Rightarrow> Inl ()
      | Some priority \<Rightarrow>
          (let sig = empty_signal\<lparr>ps_sig_kind := ''rule'', ps_sig_priority := priorityText, ps_sig_raw := line,
                 ps_sig_table := last_value [''lookup'', ''table''] ps, ps_sig_fwmark := last_value [''fwmark''] ps,
                 ps_sig_selector := policyRuleSelector (last_value [''from''] ps) (last_value [''to''] ps)\<rparr> in
           if defaultKernelPolicyRule priority (ps_sig_table sig) then Inr None else Inr (Some sig)))"

definition ParseIPv4PolicyRules :: "string \<Rightarrow> unit + PolicyRoutingSignal list" where
  "ParseIPv4PolicyRules output =
     map_sum id (List.map_filter id) (map_result parse_rule_line (filter (\<lambda>l. Prelude.fields l \<noteq> []) (text_lines output)))"

definition ipv4PolicyRules :: "runner \<Rightarrow> string \<Rightarrow> PolicyRuleInventory" where
  "ipv4PolicyRules rn ip =
     (let r = rnr_run rn ip [''-4'', ''rule'', ''show''] in
      if \<not> commandSucceeded r then
        \<lparr>pi_inspection = findingWithDetail StatusUnknown ''IPv4 policy-rule inventory unavailable'' (snap_commandFailureMessage r),
         pi_rules = []\<rparr>
      else case ParseIPv4PolicyRules (sres_stdout (fst r)) of
        Inl e \<Rightarrow> \<lparr>pi_inspection = findingWithDetail StatusUnknown ''IPv4 policy-rule inventory malformed''
                   ''invalid IPv4 policy-rule priority'', pi_rules = []\<rparr>
      | Inr rs \<Rightarrow> \<lparr>pi_inspection = finding StatusDetected ''IPv4 policy-rule inventory available'', pi_rules = rs\<rparr>)"

text \<open>The signals shown to the user.\<close>

definition systemPolicyRule :: "string \<Rightarrow> bool" where
  "systemPolicyRule line =
     (contains_str line ''lookup local'' \<or> contains_str line ''lookup main'' \<or> contains_str line ''lookup default'')"

definition foreignPolicyTable :: "string \<Rightarrow> bool" where
  "foreignPolicyTable table =
     (trim_space table \<notin> {[], ''main'', ''default'', ''local'', ''podlaz'', DefaultRouteTableID})"

definition isForeignTunLikeName :: "string \<Rightarrow> bool" where
  "isForeignTunLikeName name =
     (let n = to_lower (trim_space name) in
      starts ''tun'' n \<or> starts ''tap'' n \<or> starts ''wg'' n \<or> starts ''ppp'' n \<or> starts ''ipsec'' n)"

definition isTunLikeInterfaceName :: "string \<Rightarrow> bool" where
  "isTunLikeInterfaceName name = (name = DefaultTunName \<or> isForeignTunLikeName name)"

definition selector_field :: "string \<Rightarrow> string \<times> string \<Rightarrow> string" where
  "selector_field sel p =
     (if fst p \<in> {''from'', ''to''} then
        (if sel = [] then fst p @ '' '' @ snd p else sel @ '' '' @ fst p @ '' '' @ snd p)
      else sel)"

definition rule_signal :: "string \<Rightarrow> PolicyRoutingSignal" where
  "rule_signal line =
     (let fs = Prelude.fields (trim_suffix line '':''); ps = field_pairs 0 fs in
      empty_signal\<lparr>ps_sig_kind := ''rule'', ps_sig_raw := line,
        ps_sig_priority := (case fs of [] \<Rightarrow> [] | f # _ \<Rightarrow> trim_suffix f '':''),
        ps_sig_table := last_value [''lookup'', ''table''] ps, ps_sig_fwmark := last_value [''fwmark''] ps,
        ps_sig_selector := foldl selector_field [] ps\<rparr>)"

definition parsePolicyRules :: "string \<Rightarrow> PolicyRoutingSignal list" where
  "parsePolicyRules output =
     filter (\<lambda>sig. ps_sig_fwmark sig \<noteq> [] \<or> foreignPolicyTable (ps_sig_table sig))
       (map rule_signal (filter (\<lambda>l. \<not> systemPolicyRule l) (text_lines output)))"

definition route_signal :: "string \<Rightarrow> PolicyRoutingSignal" where
  "route_signal line =
     (let ps = field_pairs 0 (Prelude.fields line) in
      empty_signal\<lparr>ps_sig_kind := ''route'', ps_sig_raw := line, ps_sig_interface := last_value [''dev''] ps,
        ps_sig_table := last_value [''table''] ps\<rparr>)"

definition parsePolicyRoutes :: "string \<Rightarrow> PolicyRoutingSignal list" where
  "parsePolicyRoutes output =
     filter (\<lambda>sig. isForeignTunLikeName (ps_sig_interface sig) \<or> foreignPolicyTable (ps_sig_table sig))
       (map route_signal (text_lines output))"

definition policyRouting :: "runner \<Rightarrow> string \<Rightarrow> PolicyRoutingSignal list" where
  "policyRouting rn ip =
     (let r = rnr_run rn ip [''-4'', ''rule'', ''show''] in if commandSucceeded r then parsePolicyRules (sres_stdout (fst r)) else []) @
     (let r = rnr_run rn ip [''-4'', ''route'', ''show'', ''table'', ''all''] in
      if commandSucceeded r then parsePolicyRoutes (sres_stdout (fst r)) else [])"

section \<open>DNS, NetworkManager, nftables\<close>

definition snap_dns :: "runner \<Rightarrow> DNS" where
  "snap_dns rn =
     (case rnr_lookpath rn ''resolvectl'' of
        None \<Rightarrow> \<lparr>dn_mode = ''unknown'', dn_resolved = finding StatusMissing ''resolvectl not found'', dn_resolved_links = []\<rparr>
      | Some path \<Rightarrow>
          (let r = rnr_run rn path [''status'', ''--no-pager''] in
           if commandSucceeded r then
             \<lparr>dn_mode = ''systemd-resolved'', dn_resolved = findingWithDetail StatusDetected ''systemd-resolved status available''
                (firstNonEmptyLine (sres_stdout (fst r))), dn_resolved_links = ParseResolvedLinks (sres_stdout (fst r))\<rparr>
           else
             \<lparr>dn_mode = ''unknown'', dn_resolved = findingWithDetail StatusUnknown ''systemd-resolved status unavailable''
                (snap_commandFailureMessage r), dn_resolved_links = []\<rparr>))"

definition parseNMState :: "string \<Rightarrow> string" where
  "parseNMState line = trim_space (last (split_on CHR '':'' line))"

datatype terse_error = InvalidEscape | UnterminatedEscape | FieldCount nat

text \<open>The loop over the line: the fields so far, the current field and whether a backslash is open.  The escaped and the
  separating characters are ASCII, so the loop over runes is one over bytes.\<close>

fun terse_scan :: "string list \<Rightarrow> string \<Rightarrow> bool \<Rightarrow> string \<Rightarrow> terse_error + string list" where
  "terse_scan fs field escaped [] = (if escaped then Inl UnterminatedEscape else Inr (fs @ [field]))"
| "terse_scan fs field escaped (c # s) =
     (if escaped then
        (if c = CHR '':'' \<or> c = CHR 0x5C then terse_scan fs (field @ [c]) False s else Inl InvalidEscape)
      else if c = CHR 0x5C then terse_scan fs field True s
      else if c = CHR '':'' then terse_scan (fs @ [field]) [] False s
      else terse_scan fs (field @ [c]) False s)"

definition parseNMTerseFields :: "string \<Rightarrow> nat \<Rightarrow> terse_error + string list" where
  "parseNMTerseFields line expected =
     rbind (terse_scan [] [] False line) (\<lambda>fs. if length fs \<noteq> expected then Inl (FieldCount (length fs)) else Inr fs)"

definition parse_connection :: "string \<Rightarrow> terse_error + NetworkManagerConnection" where
  "parse_connection line =
     rbind (parseNMTerseFields line 5) (\<lambda>ps.
       Inr \<lparr>nmc_name = ps ! 0, nmc_uuid = ps ! 1, nmc_type = ps ! 2, nmc_device = ps ! 3, nmc_state = ps ! 4\<rparr>)"

definition parseNMActiveConnectionsStrict :: "string \<Rightarrow> terse_error + NetworkManagerConnection list" where
  "parseNMActiveConnectionsStrict output = map_result parse_connection (text_lines output)"

definition terse_error_text :: "terse_error \<Rightarrow> string" where
  "terse_error_text e =
     (case e of
        InvalidEscape \<Rightarrow> ''invalid nmcli terse escape''
      | UnterminatedEscape \<Rightarrow> ''unterminated nmcli terse escape''
      | FieldCount n \<Rightarrow> ''nmcli active connection field count='' @ itoa n @ '', want 5'')"

definition runNMCLI :: "runner \<Rightarrow> string \<Rightarrow> string list \<Rightarrow> snap_outcome" where
  "runNMCLI rn path args = rnr_run rn ''env'' ([''LC_ALL=C'', path] @ args)"

definition networkManager :: "runner \<Rightarrow> NetworkManager" where
  "networkManager rn =
     (case rnr_lookpath rn ''nmcli'' of
        None \<Rightarrow>
          \<lparr>nm_finding = finding StatusMissing ''nmcli not found'', nm_state = [],
           nm_active_inspection = finding StatusMissing ''NetworkManager active connections unavailable because nmcli is missing'',
           nm_active_connections = []\<rparr>
      | Some path \<Rightarrow>
          (let r = runNMCLI rn path [''-t'', ''-e'', ''yes'', ''-f'', ''RUNNING,STATE'', ''general''] in
           if \<not> commandSucceeded r then
             \<lparr>nm_finding = findingWithDetail StatusUnknown ''NetworkManager state unavailable'' (snap_commandFailureMessage r),
              nm_state = [],
              nm_active_inspection = findingWithDetail StatusUnknown ''NetworkManager active connection inventory unavailable''
                (snap_commandFailureMessage r), nm_active_connections = []\<rparr>
           else
             (let line = firstNonEmptyLine (sres_stdout (fst r));
                  nm = (\<lambda>inspection connections.
                    \<lparr>nm_finding = findingWithDetail StatusDetected ''NetworkManager state available'' line,
                     nm_state = parseNMState line, nm_active_inspection = inspection, nm_active_connections = connections\<rparr>);
                  active = runNMCLI rn path [''-t'', ''-e'', ''yes'', ''-f'', ''NAME,UUID,TYPE,DEVICE,STATE'', ''connection'',
                    ''show'', ''--active''] in
              if \<not> commandSucceeded active then
                nm (findingWithDetail StatusUnknown ''NetworkManager active connection inventory unavailable''
                  (snap_commandFailureMessage active)) []
              else case parseNMActiveConnectionsStrict (sres_stdout (fst active)) of
                Inl e \<Rightarrow> nm (findingWithDetail StatusUnknown ''NetworkManager active connection inventory malformed''
                  (terse_error_text e)) []
              | Inr cs \<Rightarrow> nm (finding StatusDetected ''NetworkManager active connection inventory available'') cs)))"

definition nftTableListed :: "string \<Rightarrow> string \<Rightarrow> string \<Rightarrow> bool" where
  "nftTableListed output family table =
     list_ex (\<lambda>line. Prelude.fields (trim_space line) = [''table'', family, table]) (split_on (CHR 0x0A) output)"

definition snap_nftables :: "runner \<Rightarrow> Nftables" where
  "snap_nftables rn =
     (case rnr_lookpath rn ''nft'' of
        None \<Rightarrow>
          \<lparr>nf_availability = finding StatusMissing ''nft not found'',
           nf_podlaz_table = finding StatusMissing ''podlaz nftables table not inspected because nft is unavailable''\<rparr>
      | Some path \<Rightarrow>
          (let r = rnr_run rn path [''list'', ''tables''] in
           if \<not> commandSucceeded r then
             \<lparr>nf_availability = findingWithDetail StatusUnknown ''nftables table listing unavailable'' (snap_commandFailureMessage r),
              nf_podlaz_table = findingWithDetail StatusUnknown ''podlaz nftables table state unknown'' (snap_commandFailureMessage r)\<rparr>
           else
             \<lparr>nf_availability = finding StatusDetected ''nftables table listing available'',
              nf_podlaz_table =
                (if nftTableListed (sres_stdout (fst r)) DefaultNFTFamily DefaultNFTTable
                 then finding StatusDetected ''podlaz nftables table exists''
                 else finding StatusMissing ''podlaz nftables table not found'')\<rparr>))"

section \<open>Devices and the snapshot\<close>

definition tunLikeInterfaceNames :: "runner \<Rightarrow> string \<Rightarrow> string list" where
  "tunLikeInterfaceNames rn ip =
     (let r = rnr_run rn ip [''-o'', ''link'', ''show''] in
      if \<not> commandSucceeded r then []
      else filter isTunLikeInterfaceName
        (map (\<lambda>fs. hd (split_on CHR ''@'' (trim_suffix (fs ! 1) '':'')))
          (filter (\<lambda>fs. 2 \<le> length fs) (map Prelude.fields (split_on (CHR 0x0A) (sres_stdout (fst r)))))))"

definition tun_device :: "runner \<Rightarrow> string \<Rightarrow> string \<Rightarrow> TunDevice" where
  "tun_device rn ip name =
     (let r = rnr_run rn ip [''link'', ''show'', ''dev'', name] in
      if commandSucceeded r then
        \<lparr>tdv_name = name, tdv_status = StatusDetected, tdv_detail = [], tdv_raw = firstNonEmptyLine (sres_stdout (fst r))\<rparr>
      else
        \<lparr>tdv_name = name, tdv_status = (if snap_resourceMissing r then StatusMissing else StatusUnknown),
         tdv_detail = snap_commandFailureMessage r, tdv_raw = []\<rparr>)"

definition tunDevices :: "runner \<Rightarrow> string \<Rightarrow> string list \<Rightarrow> TunDevice list" where
  "tunDevices rn ip names = map (tun_device rn ip) (appendUniqueStrings [] names)"

definition missingTunDevices :: "string list \<Rightarrow> string \<Rightarrow> TunDevice list" where
  "missingTunDevices names detail =
     map (\<lambda>name. \<lparr>tdv_name = name, tdv_status = StatusMissing, tdv_detail = detail, tdv_raw = []\<rparr>) names"

definition staleResources :: "Snapshot \<Rightarrow> StaleResource list" where
  "staleResources s =
     map (\<lambda>dev. \<lparr>sr_kind = ''tun-device'', sr_name = tdv_name dev, sr_status = StatusDetected, sr_detail = tdv_raw dev,
                 sr_recovery_authorized = False\<rparr>)
       (filter (\<lambda>dev. tdv_name dev = DefaultTunName \<and> tdv_status dev = StatusDetected) (sn_tun_devices s)) @
     (if fd_status (nf_podlaz_table (sn_nftables s)) = StatusDetected then
        [\<lparr>sr_kind = ''nftables-table'', sr_name = DefaultNFTFamily @ '' '' @ DefaultNFTTable, sr_status = StatusDetected,
          sr_detail = [], sr_recovery_authorized = False\<rparr>]
      else [])"

abbreviation zero_finding :: Finding where
  "zero_finding \<equiv> \<lparr>fd_status = StatusUnset, fd_summary = [], fd_detail = []\<rparr>"

definition empty_snapshot :: "string \<Rightarrow> Snapshot" where
  "empty_snapshot platform =
     \<lparr>sn_os = platform, sn_default_ipv4 = empty_route, sn_default_ipv6 = empty_route, sn_server_route = empty_route,
      sn_dns = \<lparr>dn_mode = [], dn_resolved = zero_finding, dn_resolved_links = []\<rparr>,
      sn_network_manager = \<lparr>nm_finding = zero_finding, nm_state = [], nm_active_inspection = zero_finding,
                            nm_active_connections = []\<rparr>,
      sn_nftables = \<lparr>nf_availability = zero_finding, nf_podlaz_table = zero_finding\<rparr>,
      sn_tun_devices = [], sn_policy_routing = [],
      sn_ipv4_policy_rules = \<lparr>pi_inspection = zero_finding, pi_rules = []\<rparr>,
      sn_ipv4_addresses = \<lparr>iv_inspection = zero_finding, iv_addresses = []\<rparr>,
      sn_ipv4_routes = \<lparr>ri_inspection = zero_finding, ri_routes = []\<rparr>,
      sn_ipv4 = zero_finding, sn_ipv6 = zero_finding, sn_stale_resources = [], sn_warnings = []\<rparr>"

definition unsupported_detail :: string where
  "unsupported_detail = ''system snapshot collection is currently implemented for linux hosts only''"

definition markUnsupported :: "Snapshot \<Rightarrow> string list \<Rightarrow> Snapshot" where
  "markUnsupported s names =
     (let f = (\<lambda>summary. findingWithDetail StatusUnsupported summary unsupported_detail);
          r = empty_route\<lparr>rt_status := StatusUnsupported, rt_detail := unsupported_detail\<rparr> in
      s\<lparr>sn_default_ipv4 := r\<lparr>rt_family := ''ipv4'', rt_destination := ''default''\<rparr>,
        sn_default_ipv6 := r\<lparr>rt_family := ''ipv6'', rt_destination := ''default''\<rparr>,
        sn_server_route := r\<lparr>rt_destination := ''server''\<rparr>,
        sn_dns := \<lparr>dn_mode = ''unsupported'', dn_resolved = f ''systemd-resolved is not inspected on this platform'',
                   dn_resolved_links = []\<rparr>,
        sn_network_manager := \<lparr>nm_finding = f ''NetworkManager is not inspected on this platform'', nm_state = [],
          nm_active_inspection = f ''NetworkManager active connections are not inspected on this platform'',
          nm_active_connections = []\<rparr>,
        sn_nftables := \<lparr>nf_availability = f ''nftables is not inspected on this platform'',
          nf_podlaz_table = f ''podlaz nftables table is not inspected on this platform''\<rparr>,
        sn_tun_devices := sn_tun_devices s @
          map (\<lambda>name. \<lparr>tdv_name = name, tdv_status = StatusUnsupported, tdv_detail = unsupported_detail, tdv_raw = []\<rparr>) names,
        sn_ipv4 := f ''IPv4 route assumptions are unsupported on this platform'',
        sn_ipv6 := f ''IPv6 route assumptions are unsupported on this platform'',
        sn_ipv4_addresses := \<lparr>iv_inspection = f ''IPv4 address inventory unsupported'', iv_addresses = []\<rparr>,
        sn_ipv4_routes := \<lparr>ri_inspection = f ''IPv4 route inventory unsupported'', ri_routes = []\<rparr>\<rparr>)"

definition ip_part :: "runner \<Rightarrow> snap_options \<Rightarrow> string list \<Rightarrow> Snapshot \<Rightarrow> Snapshot" where
  "ip_part rn opts names s =
     (case rnr_lookpath rn ''ip'' of
        Some ip \<Rightarrow>
          s\<lparr>sn_default_ipv4 := snap_route rn ip ''ipv4'' ''default'' [''-4'', ''route'', ''show'', ''default''],
            sn_default_ipv6 := snap_route rn ip ''ipv6'' ''default'' [''-6'', ''route'', ''show'', ''default''],
            sn_server_route := serverRoute rn ip (trim_space (sopt_server opts)) opts,
            sn_tun_devices := tunDevices rn ip (appendUniqueStrings names (tunLikeInterfaceNames rn ip)),
            sn_policy_routing := policyRouting rn ip,
            sn_ipv4_addresses := ipv4Addresses rn ip,
            sn_ipv4_routes := ipv4Routes rn ip\<rparr>
      | None \<Rightarrow>
          s\<lparr>sn_default_ipv4 := missingRoute ''ipv4'' ''default'' ''ip command not found'',
            sn_default_ipv6 := missingRoute ''ipv6'' ''default'' ''ip command not found'',
            sn_server_route := missingRoute [] ''server'' ''ip command not found'',
            sn_tun_devices := missingTunDevices names ''ip command not found'',
            sn_ipv4_addresses := \<lparr>iv_inspection = finding StatusMissing ''IPv4 address inventory unavailable because ip is missing'',
                                  iv_addresses = []\<rparr>,
            sn_ipv4_routes := \<lparr>ri_inspection = finding StatusMissing ''IPv4 route inventory unavailable because ip is missing'',
                               ri_routes = []\<rparr>\<rparr>)"

text \<open>\<^verbatim>\<open>runtime.GOOS\<close> is \<^verbatim>\<open>linux\<close>.\<close>

definition CollectWithRunner :: "runner \<Rightarrow> snap_options \<Rightarrow> Snapshot" where
  "CollectWithRunner rn opts =
     (let names = (if sopt_tun_names opts = [] then [DefaultTunName] else sopt_tun_names opts);
          platform = (if sopt_os opts = [] then ''linux'' else sopt_os opts);
          s = empty_snapshot platform in
      if platform \<noteq> ''linux'' then markUnsupported s names
      else
        (let s1 = ip_part rn opts names s;
             s2 = s1\<lparr>sn_ipv4 := availabilityFromDefaultRoute ''IPv4'' (sn_default_ipv4 s1),
                     sn_ipv6 := availabilityFromDefaultRoute ''IPv6'' (sn_default_ipv6 s1),
                     sn_dns := snap_dns rn, sn_network_manager := networkManager rn, sn_nftables := snap_nftables rn\<rparr> in
         s2\<lparr>sn_stale_resources := staleResources s2\<rparr>))"

end
