(* ===== verification/Snapshot_Collect_Facts.thy ===== *)
theory Snapshot_Collect_Facts
  imports Snapshot_Collect
begin

text \<open>
  The parsers of the snapshot: nmcli's terse lines are read back exactly, and an inventory is reported as available only
  when every line of it was understood.
\<close>

section \<open>Terse lines\<close>

text \<open>The terse output of \<^verbatim>\<open>nmcli -e yes\<close>: colons and backslashes of a value are escaped.\<close>

definition terse_escape :: "string \<Rightarrow> string" where
  "terse_escape w = concat (map (\<lambda>c. if c = CHR '':'' \<or> c = CHR 0x5C then [CHR 0x5C, c] else [c]) w)"

lemma terse_escape_simps [simp]:
  "terse_escape [] = []" "terse_escape (v @ w) = terse_escape v @ terse_escape w"
  "c = CHR '':'' \<or> c = CHR 0x5C \<Longrightarrow> terse_escape (c # w) = CHR 0x5C # c # terse_escape w"
  "c \<noteq> CHR '':'' \<Longrightarrow> c \<noteq> CHR 0x5C \<Longrightarrow> terse_escape (c # w) = c # terse_escape w"
  by (auto simp: terse_escape_def)

lemma scan_word: "terse_scan fs field False (terse_escape w @ s) = terse_scan fs (field @ w) False s"
proof (induction w arbitrary: field)
  case (Cons c w)
  then show ?case by (cases "c = CHR '':'' \<or> c = CHR 0x5C") auto
qed simp

lemma scan_end: "terse_scan fs field False (terse_escape w) = Inr (fs @ [field @ w])"
  using scan_word [of fs field w "[]"] by simp

lemma join_colon: "ws \<noteq> [] \<Longrightarrow> join '':'' (w # ws) = w @ '':'' @ join '':'' ws"
  by (cases ws) auto

lemma scan_join:
  "terse_scan fs field False (join '':'' (map terse_escape (w # ws))) = Inr (fs @ (field @ w) # ws)"
proof (induction ws arbitrary: fs field w)
  case (Cons v ws)
  have "join '':'' (map terse_escape (w # v # ws)) = terse_escape w @ '':'' @ join '':'' (map terse_escape (v # ws))" by simp
  with Cons [of "fs @ [field @ w]" "[]" v] show ?case by (simp only: scan_word) simp
qed (simp add: scan_end)

text \<open>Conversely, what was scanned is the escaped text of the fields that come out.\<close>

lemma scan_inverse:
  "terse_scan fs field escaped s = Inr out \<Longrightarrow>
     \<exists>w ws. out = fs @ (field @ w) # ws \<and>
       join '':'' (map terse_escape (w # ws)) = (if escaped then [CHR 0x5C] else []) @ s"
proof (induction fs field escaped s rule: terse_scan.induct)
  case (1 fs field escaped)
  then show ?case by (auto split: if_splits)
next
  case (2 fs field escaped c s)
  have glue: "join '':'' (map terse_escape ((x @ w) # ws)) = terse_escape x @ join '':'' (map terse_escape (w # ws))"
    for x w ws by (cases ws) auto
  consider (esc) "escaped" | (esc_open) "\<not> escaped" "c = CHR 0x5C" | (sep) "\<not> escaped" "c = CHR '':''"
    | (char) "\<not> escaped" "c \<noteq> CHR 0x5C" "c \<noteq> CHR '':''" by blast
  then show ?case
  proof cases
    case esc
    with 2 have c: "c = CHR '':'' \<or> c = CHR 0x5C" and r: "terse_scan fs (field @ [c]) False s = Inr out"
      by (auto split: if_splits)
    from 2(1) [OF esc c r] obtain w ws where "out = fs @ (field @ c # w) # ws" "join '':'' (map terse_escape (w # ws)) = s"
      by auto
    with esc c glue [of "[c]" w ws] show ?thesis by (intro exI [of _ "c # w"] exI [of _ ws]) auto
  next
    case esc_open
    with 2 show ?thesis by auto
  next
    case sep
    with 2 obtain w ws where "out = (fs @ [field]) @ w # ws" "join '':'' (map terse_escape (w # ws)) = s" by auto
    with sep show ?thesis by (intro exI [of _ "[]"] exI [of _ "w # ws"]) auto
  next
    case char
    with 2 obtain w ws where "out = fs @ (field @ c # w) # ws" "join '':'' (map terse_escape (w # ws)) = s" by auto
    with char glue [of "[c]" w ws] show ?thesis by (intro exI [of _ "c # w"] exI [of _ ws]) auto
  qed
qed

text \<open>The reader of nmcli's terse lines is the exact inverse of its output: a line is accepted as a row of fields if and only
  if it is the escaped text of these fields, so no separator, backslash or empty field is misread.\<close>

theorem terse_fields_exact:
  "parseNMTerseFields line n = Inr fs \<longleftrightarrow> fs \<noteq> [] \<and> length fs = n \<and> line = join '':'' (map terse_escape fs)"
proof
  assume "parseNMTerseFields line n = Inr fs"
  then have "terse_scan [] [] False line = Inr fs" "length fs = n"
    by (auto simp: parseNMTerseFields_def rbind_Inr_iff split: if_splits)
  with scan_inverse [of "[]" "[]" False line fs] show "fs \<noteq> [] \<and> length fs = n \<and> line = join '':'' (map terse_escape fs)"
    by auto
next
  assume "fs \<noteq> [] \<and> length fs = n \<and> line = join '':'' (map terse_escape fs)"
  then show "parseNMTerseFields line n = Inr fs"
    using scan_join [of "[]" "[]" "hd fs" "tl fs"] by (simp add: parseNMTerseFields_def rbind_def)
qed

section \<open>Inventories\<close>

lemma map_result_total: "(\<exists>ys. map_result f xs = Inr ys) \<longleftrightarrow> (\<forall>x\<in>set xs. \<exists>y. f x = Inr y)"
  by (induction xs) (auto simp: rbind_Inr_iff)

lemma map_result_raw: "(\<And>x y. f x = Inr y \<Longrightarrow> g y = x) \<Longrightarrow> map_result f xs = Inr ys \<Longrightarrow> map g ys = xs"
  by (induction xs arbitrary: ys) (auto simp: rbind_Inr_iff)

lemma address_raw: "parse_address_line l = Inr a \<Longrightarrow> ia_raw a = l"
  by (auto simp: parse_address_line_def Let_def split: if_splits option.splits)

lemma route_fields_raw: "rt_raw (foldl route_field r ps) = rt_raw r"
  by (induction ps arbitrary: r) (auto simp: route_field_def)

lemma route_raw: "parse_route_line l = Inr r \<Longrightarrow> rt_raw r = l"
  by (auto simp: parse_route_line_def Let_def route_fields_raw split: if_splits option.splits)

lemma linux_snapshot:
  assumes "sopt_os opts \<in> {[], ''linux''}" "rnr_lookpath rn ''ip'' = Some ip"
  shows "sn_ipv4_addresses (CollectWithRunner rn opts) = ipv4Addresses rn ip"
    "sn_ipv4_routes (CollectWithRunner rn opts) = ipv4Routes rn ip"
  using assms by (auto simp: CollectWithRunner_def ip_part_def Let_def)

lemma unavailable_refused:
  "fd_status (iv_inspection (sn_ipv4_addresses s)) = StatusUnknown \<or> fd_status (ri_inspection (sn_ipv4_routes s)) = StatusUnknown
   \<Longrightarrow> \<exists>e. TunAllocationEvidenceFromSnapshot s = Inl e"
  by (auto simp: TunAllocationEvidenceFromSnapshot_def inventory_check_def allocationSnapshotStatusAvailable_def check_nil_def
      split: option.splits)

section \<open>Properties\<close>


definition failing_runner :: runner where
  "failing_runner = \<lparr>rnr_lookpath = (\<lambda>c. if c = ''ip'' then Some ''/sbin/ip'' else None),
     rnr_run = (\<lambda>_ _. (\<lparr>sres_stdout = [], sres_stderr = ''killed'', sres_exit = 1\<rparr>, Some ''exit status 1''))\<rparr>"

definition plain_options :: snap_options where
  "plain_options = \<lparr>sopt_server = [], sopt_tun_names = [], sopt_os = [], sopt_resolve = (\<lambda>_. Inl []), sopt_quote = id\<rparr>"


text \<open>The policy rules are different: the snapshot never carries the inventory that the strict parser was written for, so the
  evidence made from a snapshot rests on the filtered signals for the user.\<close>

theorem collected_rule_inventory_unset:
  "sn_ipv4_policy_rules (CollectWithRunner rn opts) = \<lparr>pi_inspection = zero_finding, pi_rules = []\<rparr>"
  by (auto simp: CollectWithRunner_def Let_def ip_part_def empty_snapshot_def markUnsupported_def split: option.splits)

end
