(* ===== verification/Spec2Isabelle.thy ===== *)
theory Spec2Isabelle
  imports
    Transaction_Facts
    Tun_Planner_Facts
    Session_State_Facts
    Nft_Netlink
    Dns_Wire_Facts
    Tun_Executor_Facts
    Tun_Projection_Facts
    Session_Stages
    Recovery_Safety
    Subscriptions_Facts
    Snapshot_Netlink_Facts
    Snapshot_Collect_Facts
begin

text \<open>
  A verification library for Podlaz, a command-line VPN client for Linux written in Go.  The paths below are under
  \<^verbatim>\<open>src/internal\<close>.

  \<^bold>\<open>The program.\<close>  A daemon connects a profile (a VPN server) as a session.  It plans the network changes
  of the session from a snapshot of the host (planner), writes them into a transaction record before and while it
  makes them (state, daemon), makes them with \<^verbatim>\<open>ip\<close>, \<^verbatim>\<open>resolvectl\<close> and \<^verbatim>\<open>nft\<close> (executor), keeps a firewall
  table that stays in force while a protected session is not connected (privacy envelope), and rolls back from the
  record when something fails.  After a crash, recovery scans the host and the records and removes what is
  left, as far as the records authorise it.  So the record is the interface between a session and recovery:
  the development follows it from the plan to the cleanup.

  \<^bold>\<open>Theories.\<close>  Each models the listed files, one definition per function under the name it has in the code.
    \<^item> \<open>Prelude\<close>: byte strings with the functions of \<^verbatim>\<open>strings\<close> and \<^verbatim>\<open>strconv\<close> the code uses, JSON values, programs with
      state and errors, and the locales \<open>first_fit\<close> and \<open>durable_store\<close>.  \<open>Net_Addr\<close>, \<open>Paths\<close>: \<^verbatim>\<open>net/netip\<close>,
      \<^verbatim>\<open>net\<close> and \<^verbatim>\<open>path/filepath\<close> as far as they are used.
    \<^item> \<open>Transaction\<close>: \<^verbatim>\<open>state/transaction.go\<close>, the record, its lifecycle, the screen for secrets and the file store, where
      every operating-system call can fail.  \<open>Transaction_Facts\<close>: a committed transaction went through its phases,
      saves never tear a record and never write a secret, a scan is complete and ordered.
    \<^item> \<open>Snapshot\<close>: the data of \<^verbatim>\<open>network/snapshot\<close>.  \<open>Tun_Resources\<close>, \<open>Tun_Planner\<close>: \<^verbatim>\<open>network/planner/tun*.go\<close>, the
      allocation of address, table, priorities and mark, and the plan of a session.  \<open>Tun_Planner_Facts\<close>:
      allocations are free of collisions and complete, the firewall of a plan is fail-closed, the allocation can be
      read back from the plan.
    \<^item> \<open>Snapshot_Netlink\<close>, \<open>Snapshot_Netlink_Facts\<close>: \<^verbatim>\<open>network/snapshot/tun_allocation_netlink_linux.go\<close>, the dumps of the
      kernel that an allocation rests on; what is allocated is free on the host of the dump.  \<open>Snapshot_Collect\<close>,
      \<open>Snapshot_Collect_Facts\<close>: \<^verbatim>\<open>network/snapshot/collect.go\<close>, the commands of a snapshot and their parsers; an
      inventory is complete or refused.
    \<^item> \<open>Profile\<close>: \<^verbatim>\<open>profile/profile.go\<close> and the acceptance of provider configurations.
    \<^item> \<open>Profile_Store\<close>, \<open>Profile_Store_Facts\<close>: \<^verbatim>\<open>profile/store.go\<close> and \<^verbatim>\<open>storejson/write.go\<close>, the profiles and the selection on
      disk against their abstract map.  \<open>Subscriptions\<close>, \<open>Subscriptions_Facts\<close>: \<^verbatim>\<open>sub/store.go\<close>,
      \<^verbatim>\<open>sub/source_workflow.go\<close> and the deletion of a subscription; a workflow over both files is all or nothing.
    \<^item> \<open>Session_State\<close>, \<open>Session_State_Facts\<close>: \<^verbatim>\<open>daemon/network_session_state.go\<close>,
      \<^verbatim>\<open>network_session_continuation.go\<close> and the requests of \<^verbatim>\<open>api/lifecycle.go\<close>.  The session file always
      holds a valid record, the authority over the protection is never lost, a disarmed session does not come back.
    \<^item> \<open>Session_Replay\<close>: the evidence of a failed replay and the terminal reason (\<^verbatim>\<open>daemon/network_session_replay*.go\<close>,
      \<^verbatim>\<open>network_session_resume_diagnostic.go\<close>).  \<open>Session_Lifecycle\<close>: the requests connect, disconnect, stop and reconcile
      (\<^verbatim>\<open>daemon/network_session_lifecycle.go\<close>).  \<open>Session_Resume\<close>: resuming after a restart and the terminal
      transition.  \<open>Session_Lifecycle_Facts\<close> splits every handler into atomic steps between which others may act: a
      protected session is kept, an explicit stop is final.  \<open>Session_Stages\<close>: the calls of a resume follow an
      abstract machine of stages.
    \<^item> \<open>Privacy_Envelope\<close>, \<open>Envelope_Lifecycle\<close>, \<open>Envelope_Lifecycle_Facts\<close>: the envelope plans and the order
      of persisting and applying them (\<^verbatim>\<open>network/planner/privacy_envelope*.go\<close>, \<^verbatim>\<open>daemon/privacy_envelope*.go\<close>).
    \<^item> \<open>Nft_State\<close>, \<open>Nft_Facts\<close>, \<open>Nft_Mutation\<close>, \<open>Nft_Mutation_Facts\<close>, \<open>Nft_Netlink\<close>:
      \<^verbatim>\<open>network/executor/nft*.go\<close>, decoding and verifying a listing, mutating a table under an observed generation,
      and the netlink program of a replacement with the meaning the kernel gives it.
    \<^item> \<open>Dns_Wire\<close>, \<open>Dns_Wire_Facts\<close>: the DNS codec of the diagnostics.
    \<^item> \<open>Exec_Host\<close>: running commands.  \<open>Tun_Executor\<close>, \<open>Tun_Executor_Facts\<close>: addresses, routes and policy rules.
      \<open>Dns_Executor\<close>: systemd-resolved, the device, and the composition that applies, verifies and rolls back a plan.
    \<^item> \<open>Tun_Transaction\<close>: \<^verbatim>\<open>daemon/tun_transaction*.go\<close>, \<^verbatim>\<open>tun_child_process_rollback.go\<close> and
      \<^verbatim>\<open>tun_xray_owned_plan.go\<close>, the life of a record.  \<open>Tun_Record\<close> states what a record means, a list of resources
      of the plan, and that recording a step appends one; \<open>Tun_Journal\<close> carries that invariant through every
      program that runs during a session; \<open>Tun_Transaction_Facts\<close> has the theorems.
    \<^item> \<open>Tun_Projection\<close>, \<open>Tun_Projection_Facts\<close>: the plans that a cleanup and a revalidation read back from a record
      (\<^verbatim>\<open>daemon/tun_status_helpers.go\<close>, \<^verbatim>\<open>tun_revalidation_plan.go\<close>), which restate what was planned and applied.
    \<^item> \<open>Recovery_Authority\<close>, \<open>Recovery_Scan\<close>, \<open>Recovery_Exec\<close>, \<open>Recovery_Daemon\<close>: \<^verbatim>\<open>recovery/*.go\<close>, from the scan to the
      verdict.  \<open>Recovery_Consistency\<close>: the check of a record is an agreement of multisets.  \<open>Recovery_Facts\<close>,
      \<open>Recovery_Safety\<close>: recovery touches only what it may and removes a record last.

  \<^bold>\<open>Interfaces.\<close>  A locale states what one component relies on in another, and is interpreted on the definitions that
  provide it.  \<open>first_fit\<close>: a bounded search, for the allocators and the envelope tables.  \<open>durable_store\<close>: replacing
  a record is atomic, for the transactions and for the session file.  \<open>envelope_executor\<close>: what the lifecycle of
  the envelope needs of the firewall executor.  \<open>guarded_ruleset\<close>, \<open>nft_kernel\<close>: a kernel that refuses a commit under
  an outdated generation.  \<open>steady_host\<close>, \<open>recording_host\<close>: a host that leaves the journal of a session alone but for
  the step callback.  \<open>keyed_store\<close>: a file of entries with distinct keys, for the profile store and the subscription
  store.  \<open>history\<close>, \<open>evidence_history\<close>: relations between states that every atomic step of a lifecycle handler keeps.

  \<^bold>\<open>Effects.\<close>  Programs thread a state and end with an error or a value.  Commands, files, processes, the kernel and the
  clock are parameters that are functions of the world: other programs may act between any two calls.
  Where the trace of actions matters it is part of the state (\<open>hs_trace\<close>).

  \<^bold>\<open>Bounds.\<close>  Loops of the code that are bounded have their bound in the model: three attempts at a coherent observation of
  a table, 30 observations of a new link, 20 attempts at systemd-resolved, 16 candidate tables of an envelope,
  pointers of a DNS name at most 16 deep.  Where the code waits for a deadline the number of polls that fit is a
  parameter (\<open>tv_polls\<close>).  The recognisers of JSON and DNS recurse on the remaining input, and the theorems state
  that they return.

  \<^bold>\<open>Integers.\<close>  Marks, tables, priorities of the kernel, generations and the fields of the DNS wire format are words
  of their width; lengths and the \<^verbatim>\<open>int\<close> of plans, whose values stay far below its bound, are unbounded.

  \<^bold>\<open>Not modelled.\<close>  The command line and its output, the HTTP interface of the daemon and its client, status, logs
  and doctor reports (text and transport); fetching and decoding subscriptions and the import of share links (network
  and third-party formats, arguments of the modelled workflows); the generated configuration of the core (its
  meaning is the core's) and starting it (processes and ports, the arbitrary outcome of a call in the lifecycle); the
  goroutines that watch a running tunnel, whose plan and whose request are modelled; the probes of the diagnostics; boot
  integration, upgrades from old versions, packaging, scripts and end-to-end hooks.  The texts of errors are modelled
  where the code branches on them.
\<close>

end
